(* ===== verification/Prelude.thy ===== *)
theory Prelude imports Main "HOL-Library.Word" begin

text \<open>
  What every theory of the development shares: the result codes the plugins return, the widths
  of the machine integers, the collections of rewrite rules the component proofs use, and the
  interface of a partial codec, which several components provide.

  \<^item> \<open>hresult\<close> holds the codes of the framework that the sources name; the sources only compare
    them for equality, so they are constructors of a datatype.
  \<^item> \<open>u32\<close>, \<open>u8\<close> are the unsigned integers of the sources, \<open>c_int\<close> tells whether a value fits
    a signed 32-bit \<open>int\<close> (signed overflow is undefined behaviour, which a model reports as
    \<open>None\<close> where it can happen).
  \<^item> \<open>tdiv\<close> is the truncating division of the language.
\<close>

section \<open>Result codes and machine integers\<close>

datatype hresult =
    ERROR_NONE
  | ERROR_GENERAL
  | ERROR_UNAVAILABLE
  | ERROR_ILLEGAL_STATE
  | ERROR_READ_ERROR
  | ERROR_WRITE_ERROR
  | ERROR_INVALID_PARAMETER
  | ERROR_NOT_SUPPORTED
  | ERROR_ALREADY_CONNECTED
  | ERROR_FILE_IO

type_synonym u32 = "32 word"
type_synonym u8 = "8 word"

definition c_int :: "int \<Rightarrow> bool" where
  "c_int x \<longleftrightarrow> - 2147483648 \<le> x \<and> x \<le> 2147483647"

definition tdiv :: "int \<Rightarrow> int \<Rightarrow> int" where
  "tdiv a b = sgn a * sgn b * (\<bar>a\<bar> div \<bar>b\<bar>)"

definition int_of_bool :: "bool \<Rightarrow> int" where
  "int_of_bool b = (if b then 1 else 0)"

text \<open>What is waiting at a position of a list is taken out of it.\<close>

definition remove_at :: "nat \<Rightarrow> 'a list \<Rightarrow> 'a list" where
  "remove_at i xs = take i xs @ drop (Suc i) xs"

lemma set_remove_at: "set (remove_at i xs) \<subseteq> set xs"
  by (auto simp: remove_at_def dest: in_set_takeD in_set_dropD)

named_theorems model_defs \<open>definitions of the straight-line operations of the model\<close>

lemma tdiv_nonneg [simp]: "0 \<le> a \<Longrightarrow> 0 < b \<Longrightarrow> tdiv a b = a div b"
  by (cases "a = 0") (simp_all add: tdiv_def)

lemma tdiv_bounds:
  assumes "0 \<le> lo" and "lo * n \<le> a" and "a \<le> hi * n" and "0 < n"
  shows "lo \<le> tdiv a n \<and> tdiv a n \<le> hi"
proof -
  have "0 \<le> a"
    using assms(1,2,4) by (meson mult_nonneg_nonneg order_trans less_imp_le)
  then have "tdiv a n = a div n" using assms(4) by simp
  moreover have "lo \<le> a div n"
    using zdiv_mono1 [OF assms(2,4)] assms(4) by simp
  moreover have "a div n \<le> hi"
    using zdiv_mono1 [OF assms(3,4)] assms(4) by simp
  ultimately show ?thesis by simp
qed

section \<open>Words as byte sequences\<close>

text \<open>A 32-bit value in memory, least significant byte first (the targets are little-endian).\<close>

definition le32 :: "u32 \<Rightarrow> u8 list" where
  "le32 w = [ucast w, ucast (drop_bit 8 w), ucast (drop_bit 16 w), ucast (drop_bit 24 w)]"

definition rd32 :: "u8 list \<Rightarrow> nat \<Rightarrow> u32" where
  "rd32 bs off = or (or (ucast (bs ! off)) (push_bit 8 (ucast (bs ! (off + 1)))))
     (or (push_bit 16 (ucast (bs ! (off + 2)))) (push_bit 24 (ucast (bs ! (off + 3)))))"

lemma length_le32 [simp]: "length (le32 w) = 4"
  by (simp add: le32_def)

lemma le32_parts:
  "or (or (ucast (ucast (w :: u32) :: u8)) (push_bit 8 (ucast (ucast (drop_bit 8 w) :: u8))))
     (or (push_bit 16 (ucast (ucast (drop_bit 16 w) :: u8)))
        (push_bit 24 (ucast (ucast (drop_bit 24 w) :: u8)))) = w"
proof (rule bit_word_eqI)
  fix n assume "n < LENGTH(32)"
  then consider "n < 8" | "8 \<le> n" "n < 16" | "16 \<le> n" "n < 24" | "24 \<le> n" "n < 32"
    by fastforce
  then show "bit (or (or (ucast (ucast w :: u8)) (push_bit 8 (ucast (ucast (drop_bit 8 w) :: u8))))
     (or (push_bit 16 (ucast (ucast (drop_bit 16 w) :: u8)))
        (push_bit 24 (ucast (ucast (drop_bit 24 w) :: u8)))) :: u32) n = bit w n"
    by cases (auto simp: bit_simps)
qed

lemma rd32_le32: "rd32 (le32 w @ bs) 0 = w"
  by (simp add: rd32_def le32_def le32_parts)

lemma rd32_append: "length xs = n \<Longrightarrow> rd32 (xs @ ys) (n + k) = rd32 ys k"
  by (simp add: rd32_def nth_append)

section \<open>Partial codecs\<close>

text \<open>
  Two partial functions that undo each other on the proper values of the two sides. The client's
  lemmas: each determines the other there, and both are injective.
\<close>

locale partial_codec =
  fixes enc :: "'a \<Rightarrow> 'b option" and dec :: "'b \<Rightarrow> 'a option"
    and proper :: "'a \<Rightarrow> bool" and proper' :: "'b \<Rightarrow> bool"
  assumes dec_enc: "proper x \<Longrightarrow> enc x = Some y \<Longrightarrow> proper' y \<and> dec y = Some x"
    and enc_dec: "proper' y \<Longrightarrow> dec y = Some x \<Longrightarrow> proper x \<and> enc x = Some y"
begin

lemma enc_iff_dec: "proper x \<Longrightarrow> proper' y \<Longrightarrow> enc x = Some y \<longleftrightarrow> dec y = Some x"
  using dec_enc enc_dec by blast

lemma enc_inj: "proper x \<Longrightarrow> proper x' \<Longrightarrow> enc x = Some y \<Longrightarrow> enc x' = Some y \<Longrightarrow> x = x'"
  by (metis dec_enc option.inject)

lemma dec_image: "{x. proper x \<and> enc x \<noteq> None} = {x. \<exists>y. proper' y \<and> dec y = Some x}"
  using dec_enc enc_dec by blast

end

end
