(* ===== verification/CLib.thy ===== *)
theory CLib imports Prelude begin

text \<open>
  The part of the C and C++ standard library the sources use on strings, for the "C" locale:
  character classes and case mapping, \<open>atoi\<close>, the \<open>find\<close> and \<open>substr\<close> members of
  \<open>std::string\<close>, \<open>strncasecmp\<close> for equality, and reading a stream line by line with
  \<open>std::getline\<close>. A C string is the list of its characters before the terminating NUL.
\<close>

section \<open>Characters\<close>

definition ascii :: "char \<Rightarrow> nat" where
  "ascii c = of_char c"

definition c_isspace :: "char \<Rightarrow> bool" where
  "c_isspace c \<longleftrightarrow> ascii c \<in> {9, 10, 11, 12, 13, 32}"

definition c_isdigit :: "char \<Rightarrow> bool" where
  "c_isdigit c \<longleftrightarrow> 48 \<le> ascii c \<and> ascii c \<le> 57"

definition c_toupper :: "char \<Rightarrow> char" where
  "c_toupper c = (if 97 \<le> ascii c \<and> ascii c \<le> 122 then char_of (ascii c - 32) else c)"

definition c_tolower :: "char \<Rightarrow> char" where
  "c_tolower c = (if 65 \<le> ascii c \<and> ascii c \<le> 90 then char_of (ascii c + 32) else c)"

lemma ascii_char_of: "ascii (char_of n) = n mod 256"
  by (simp add: ascii_def)

lemma ascii_inj: "ascii c = ascii d \<Longrightarrow> c = d"
  by (simp add: ascii_def)

lemma ascii_less: "ascii c < 256"
  by (simp add: ascii_def)

lemma c_toupper_idem [simp]: "c_toupper (c_toupper c) = c_toupper c"
  by (auto simp: c_toupper_def ascii_char_of)

lemma c_toupper_tolower [simp]: "c_toupper (c_tolower c) = c_toupper c"
  by (auto simp: c_toupper_def c_tolower_def ascii_char_of intro!: ascii_inj)

lemma c_tolower_toupper [simp]: "c_tolower (c_toupper c) = c_tolower c"
  by (auto simp: c_toupper_def c_tolower_def ascii_char_of intro!: ascii_inj)

lemma c_isspace_toupper [simp]: "c_isspace (c_toupper c) = c_isspace c"
  by (auto simp: c_isspace_def c_toupper_def ascii_char_of)

definition strncasecmp_eq :: "string \<Rightarrow> string \<Rightarrow> nat \<Rightarrow> bool" where
  "strncasecmp_eq s t n \<longleftrightarrow> map c_tolower (take n s) = map c_tolower (take n t)"

section \<open>Numbers\<close>

fun digits_val :: "int \<Rightarrow> string \<Rightarrow> int" where
  "digits_val acc [] = acc"
| "digits_val acc (c # cs) =
     (if c_isdigit c then digits_val (10 * acc + (int (ascii c) - 48)) cs else acc)"

text \<open>
  \<open>atoi\<close>: white space, an optional sign, digits up to the first other character; 0 without
  digits. The C library converts through a 64-bit \<open>long\<close> and keeps the low 32 bits; the buffers
  it is applied to here hold at most 15 characters, so the 64-bit value never overflows.
\<close>

definition atoi :: "string \<Rightarrow> int" where
  "atoi s =
     (let t = dropWhile c_isspace s;
          n = (case t of
                 [] \<Rightarrow> 0
               | c # cs \<Rightarrow> if c = CHR ''-'' then - digits_val 0 cs
                          else if c = CHR ''+'' then digits_val 0 cs
                          else digits_val 0 t)
      in sint (word_of_int n :: u32))"

lemma digits_val_ge: "0 \<le> acc \<Longrightarrow> acc \<le> digits_val acc s"
proof (induction s arbitrary: acc)
  case Nil
  then show ?case by simp
next
  case (Cons c s)
  show ?case
  proof (cases "c_isdigit c")
    case True
    then have "48 \<le> ascii c" by (simp add: c_isdigit_def)
    then have "acc \<le> 10 * acc + (int (ascii c) - 48)" using Cons.prems by simp
    also have "\<dots> \<le> digits_val (10 * acc + (int (ascii c) - 48)) s"
      using Cons.prems \<open>48 \<le> ascii c\<close> by (intro Cons.IH) simp
    finally show ?thesis using True by simp
  next
    case False
    then show ?thesis by simp
  qed
qed

lemma atoi_no_number:
  "dropWhile c_isspace s = c # cs \<Longrightarrow> \<not> c_isdigit c \<Longrightarrow> c \<noteq> CHR ''-'' \<Longrightarrow> c \<noteq> CHR ''+''
     \<Longrightarrow> atoi s = 0"
  by (simp add: atoi_def)

lemma c_int_sint: "c_int (sint (w :: u32))"
proof -
  have "- 2147483648 \<le> sint w" "sint w < 2147483648"
    using sint_greater_eq [of w] sint_less [of w] by simp_all
  then show ?thesis unfolding c_int_def by linarith
qed

lemma c_int_atoi: "c_int (atoi s)"
  by (simp only: atoi_def Let_def c_int_sint)

section \<open>Strings\<close>

fun find_char :: "char \<Rightarrow> string \<Rightarrow> nat option" where
  "find_char c [] = None"
| "find_char c (d # ds) = (if c = d then Some 0 else map_option Suc (find_char c ds))"

fun is_prefix :: "string \<Rightarrow> string \<Rightarrow> bool" where
  "is_prefix [] s = True"
| "is_prefix (x # xs) [] = False"
| "is_prefix (x # xs) (y # ys) = (x = y \<and> is_prefix xs ys)"

text \<open>\<open>s.find(t)\<close>: the least position where \<open>t\<close> occurs.\<close>

fun find_str :: "string \<Rightarrow> string \<Rightarrow> nat option" where
  "find_str t [] = (if t = [] then Some 0 else None)"
| "find_str t (x # xs) =
     (if is_prefix t (x # xs) then Some 0 else map_option Suc (find_str t xs))"

text \<open>\<open>s.substr(pos, n)\<close> for \<open>pos\<close> at most the length, and \<open>s.erase(pos, n)\<close>.\<close>

definition substr :: "string \<Rightarrow> nat \<Rightarrow> nat \<Rightarrow> string" where
  "substr s pos n = take n (drop pos s)"

definition erase_str :: "string \<Rightarrow> nat \<Rightarrow> nat \<Rightarrow> string" where
  "erase_str s pos n = take pos s @ drop (pos + n) s"

lemma is_prefix_append [simp]: "is_prefix xs (xs @ ys)"
  by (induction xs) auto

lemma is_prefix_iff: "is_prefix xs s \<longleftrightarrow> (\<exists>ys. s = xs @ ys)"
  by (induction xs s rule: is_prefix.induct) auto

lemma find_str_zero: "find_str t s = Some 0 \<longleftrightarrow> is_prefix t s"
  by (cases s; cases t) auto

lemma find_str_SomeD: "find_str t s = Some p \<Longrightarrow> \<exists>a b. s = a @ t @ b \<and> length a = p"
proof (induction s arbitrary: p)
  case Nil
  then show ?case by (simp split: if_splits)
next
  case (Cons x xs)
  show ?case
  proof (cases "is_prefix t (x # xs)")
    case True
    then obtain ys where "x # xs = t @ ys" by (auto simp: is_prefix_iff)
    moreover have "p = 0" using True Cons.prems by simp
    ultimately show ?thesis by (intro exI [of _ "[]"] exI [of _ ys]) simp
  next
    case False
    then obtain q where q: "find_str t xs = Some q" "p = Suc q" using Cons.prems by auto
    then obtain a b where "xs = a @ t @ b" "length a = q" using Cons.IH by blast
    then show ?thesis using q by (intro exI [of _ "x # a"] exI [of _ b]) simp
  qed
qed

lemma find_str_None_iff: "find_str t s = None \<longleftrightarrow> (\<nexists>a b. s = a @ t @ b)"
proof (induction s)
  case Nil
  then show ?case by auto
next
  case (Cons x xs)
  have "(\<exists>a b. x # xs = a @ t @ b) \<longleftrightarrow> is_prefix t (x # xs) \<or> (\<exists>a b. xs = a @ t @ b)"
    by (auto simp: is_prefix_iff Cons_eq_append_conv)
  then show ?case using Cons by auto
qed

lemma find_char_None_iff: "find_char c s = None \<longleftrightarrow> c \<notin> set s"
  by (induction s) auto

lemma find_char_append: "c \<notin> set xs \<Longrightarrow> find_char c (xs @ c # ys) = Some (length xs)"
  by (induction xs) auto

lemma find_char_SomeD: "find_char c s = Some p \<Longrightarrow> p < length s \<and> s ! p = c \<and> c \<notin> set (take p s)"
  by (induction s arbitrary: p) (auto split: if_splits)

text \<open>
  \<open>std::getline\<close> until the stream ends: the lines of a file. A final line without a newline is
  read, an empty rest after the last newline is not.
\<close>

fun file_lines_acc :: "string \<Rightarrow> string \<Rightarrow> string list" where
  "file_lines_acc acc [] = (if acc = [] then [] else [rev acc])"
| "file_lines_acc acc (c # cs) =
     (if c = CHR 0x0A then rev acc # file_lines_acc [] cs else file_lines_acc (c # acc) cs)"

definition file_lines :: "string \<Rightarrow> string list" where
  "file_lines s = file_lines_acc [] s"

definition unlines :: "string list \<Rightarrow> string" where
  "unlines ls = concat (map (\<lambda>l. l @ [CHR 0x0A]) ls)"

lemma file_lines_acc_line:
  "CHR 0x0A \<notin> set l \<Longrightarrow>
   file_lines_acc acc (l @ CHR 0x0A # rest) = (rev acc @ l) # file_lines_acc [] rest"
  by (induction l arbitrary: acc) auto

lemma file_lines_unlines:
  "\<forall>l \<in> set ls. CHR 0x0A \<notin> set l \<Longrightarrow> file_lines (unlines ls) = ls"
proof (induction ls)
  case Nil
  then show ?case by (simp add: file_lines_def unlines_def)
next
  case (Cons l ls)
  then show ?case
    using file_lines_acc_line [of l "[]" "unlines ls"]
    by (simp add: file_lines_def unlines_def)
qed

lemma file_lines_acc_no_newline:
  "CHR 0x0A \<notin> set acc \<Longrightarrow> l \<in> set (file_lines_acc acc s) \<Longrightarrow> CHR 0x0A \<notin> set l"
  by (induction acc s rule: file_lines_acc.induct) (auto split: if_splits)

lemma file_lines_no_newline: "l \<in> set (file_lines s) \<Longrightarrow> CHR 0x0A \<notin> set l"
  unfolding file_lines_def by (erule file_lines_acc_no_newline [rotated]) simp

end
