(* ===== verification/PowerTypes.thy ===== *)
theory PowerTypes imports CLib begin

text \<open>
  The enumerations of the power manager's interface and their names (\<open>PowerManager/PowerUtils.cpp\<close>).
  The interface header itself is not part of the repository; its enumerators are the ones the
  sources name. \<open>str_\<dots>\<close> are the overloads of \<open>PowerUtils::str\<close>, \<open>conv_WakeupSrcType\<close> is
  \<open>PowerUtils::conv\<close>.
\<close>

section \<open>Enumerations\<close>

datatype PowerState =
    POWER_STATE_UNKNOWN
  | POWER_STATE_OFF
  | POWER_STATE_STANDBY
  | POWER_STATE_ON
  | POWER_STATE_STANDBY_LIGHT_SLEEP
  | POWER_STATE_STANDBY_DEEP_SLEEP

datatype WakeupReason =
    WAKEUP_REASON_UNKNOWN
  | WAKEUP_REASON_IR
  | WAKEUP_REASON_BLUETOOTH
  | WAKEUP_REASON_RF4CE
  | WAKEUP_REASON_GPIO
  | WAKEUP_REASON_LAN
  | WAKEUP_REASON_WIFI
  | WAKEUP_REASON_TIMER
  | WAKEUP_REASON_FRONTPANEL
  | WAKEUP_REASON_WATCHDOG
  | WAKEUP_REASON_SOFTWARERESET
  | WAKEUP_REASON_THERMALRESET
  | WAKEUP_REASON_WARMRESET
  | WAKEUP_REASON_COLDBOOT
  | WAKEUP_REASON_STRAUTHFAIL
  | WAKEUP_REASON_CEC
  | WAKEUP_REASON_PRESENCE
  | WAKEUP_REASON_VOICE

datatype WakeupSrcType =
    WAKEUP_SRC_UNKNOWN
  | WAKEUP_SRC_VOICE
  | WAKEUP_SRC_PRESENCEDETECTED
  | WAKEUP_SRC_BLUETOOTH
  | WAKEUP_SRC_WIFI
  | WAKEUP_SRC_IR
  | WAKEUP_SRC_POWERKEY
  | WAKEUP_SRC_TIMER
  | WAKEUP_SRC_CEC
  | WAKEUP_SRC_LAN
  | WAKEUP_SRC_RF4CE

datatype ThermalTemperature =
    THERMAL_TEMPERATURE_UNKNOWN
  | THERMAL_TEMPERATURE_NORMAL
  | THERMAL_TEMPERATURE_HIGH
  | THERMAL_TEMPERATURE_CRITICAL

record WakeupSourceConfig =
  wakeupSource :: WakeupSrcType
  enabled :: bool

section \<open>Names\<close>

fun str_WakeupReason :: "WakeupReason \<Rightarrow> string" where
  "str_WakeupReason WAKEUP_REASON_IR = ''IR''"
| "str_WakeupReason WAKEUP_REASON_BLUETOOTH = ''BLUETOOTH''"
| "str_WakeupReason WAKEUP_REASON_RF4CE = ''RF4CE''"
| "str_WakeupReason WAKEUP_REASON_GPIO = ''GPIO''"
| "str_WakeupReason WAKEUP_REASON_LAN = ''LAN''"
| "str_WakeupReason WAKEUP_REASON_WIFI = ''WIFI''"
| "str_WakeupReason WAKEUP_REASON_TIMER = ''TIMER''"
| "str_WakeupReason WAKEUP_REASON_FRONTPANEL = ''FRONTPANEL''"
| "str_WakeupReason WAKEUP_REASON_WATCHDOG = ''WATCHDOG''"
| "str_WakeupReason WAKEUP_REASON_SOFTWARERESET = ''SOFTWARERESET''"
| "str_WakeupReason WAKEUP_REASON_THERMALRESET = ''THERMALRESET''"
| "str_WakeupReason WAKEUP_REASON_WARMRESET = ''WARMRESET''"
| "str_WakeupReason WAKEUP_REASON_COLDBOOT = ''COLDBOOT''"
| "str_WakeupReason WAKEUP_REASON_STRAUTHFAIL = ''STR_AUTH_FAIL''"
| "str_WakeupReason WAKEUP_REASON_CEC = ''CEC''"
| "str_WakeupReason WAKEUP_REASON_PRESENCE = ''PRESENCE''"
| "str_WakeupReason WAKEUP_REASON_VOICE = ''VOICE''"
| "str_WakeupReason WAKEUP_REASON_UNKNOWN = ''UNKNOWN''"

fun str_PowerState :: "PowerState \<Rightarrow> string" where
  "str_PowerState POWER_STATE_UNKNOWN = ''UNKNOWN''"
| "str_PowerState POWER_STATE_OFF = ''OFF''"
| "str_PowerState POWER_STATE_STANDBY = ''STANDBY''"
| "str_PowerState POWER_STATE_ON = ''ON''"
| "str_PowerState POWER_STATE_STANDBY_LIGHT_SLEEP = ''LIGHT_SLEEP''"
| "str_PowerState POWER_STATE_STANDBY_DEEP_SLEEP = ''DEEP_SLEEP''"

fun str_WakeupSrcType :: "WakeupSrcType \<Rightarrow> string" where
  "str_WakeupSrcType WAKEUP_SRC_VOICE = ''VOICE''"
| "str_WakeupSrcType WAKEUP_SRC_PRESENCEDETECTED = ''PRESENCEDETECTED''"
| "str_WakeupSrcType WAKEUP_SRC_BLUETOOTH = ''BLUETOOTH''"
| "str_WakeupSrcType WAKEUP_SRC_WIFI = ''WIFI''"
| "str_WakeupSrcType WAKEUP_SRC_IR = ''IR''"
| "str_WakeupSrcType WAKEUP_SRC_POWERKEY = ''POWERKEY''"
| "str_WakeupSrcType WAKEUP_SRC_TIMER = ''TIMER''"
| "str_WakeupSrcType WAKEUP_SRC_CEC = ''CEC''"
| "str_WakeupSrcType WAKEUP_SRC_LAN = ''LAN''"
| "str_WakeupSrcType WAKEUP_SRC_RF4CE = ''RF4CE''"
| "str_WakeupSrcType WAKEUP_SRC_UNKNOWN = ''UNKNOWN''"

definition conv_WakeupSrcType :: "string \<Rightarrow> WakeupSrcType" where
  "conv_WakeupSrcType wakeupSrc =
     (let src = map c_toupper wakeupSrc in
      if src = ''VOICE'' then WAKEUP_SRC_VOICE else
      if src = ''PRESENCEDETECTED'' then WAKEUP_SRC_PRESENCEDETECTED else
      if src = ''BLUETOOTH'' then WAKEUP_SRC_BLUETOOTH else
      if src = ''WIFI'' then WAKEUP_SRC_WIFI else
      if src = ''IR'' then WAKEUP_SRC_IR else
      if src = ''POWERKEY'' then WAKEUP_SRC_POWERKEY else
      if src = ''TIMER'' then WAKEUP_SRC_TIMER else
      if src = ''CEC'' then WAKEUP_SRC_CEC else
      if src = ''LAN'' then WAKEUP_SRC_LAN else
      if src = ''RF4CE'' then WAKEUP_SRC_RF4CE else
      WAKEUP_SRC_UNKNOWN)"

section \<open>The names identify the enumerators\<close>

lemma str_PowerState_inj: "str_PowerState s = str_PowerState t \<Longrightarrow> s = t"
  by (cases s; cases t; simp)

lemma str_WakeupReason_inj: "str_WakeupReason r = str_WakeupReason q \<Longrightarrow> r = q"
  by (cases r; cases q; simp)

lemma map_toupper_str: "map c_toupper (str_WakeupSrcType s) = str_WakeupSrcType s"
  by (cases s) (simp_all add: c_toupper_def ascii_def)

lemma conv_str_WakeupSrcType: "conv_WakeupSrcType (str_WakeupSrcType s) = s"
  unfolding conv_WakeupSrcType_def Let_def map_toupper_str by (cases s) simp_all

lemma conv_WakeupSrcType_known:
  "conv_WakeupSrcType w \<noteq> WAKEUP_SRC_UNKNOWN \<Longrightarrow>
   map c_toupper w = str_WakeupSrcType (conv_WakeupSrcType w)"
  by (simp add: conv_WakeupSrcType_def Let_def split: if_splits)

lemma conv_WakeupSrcType_iff:
  assumes "s \<noteq> WAKEUP_SRC_UNKNOWN"
  shows "conv_WakeupSrcType w = s \<longleftrightarrow> map c_toupper w = str_WakeupSrcType s"
proof
  assume "conv_WakeupSrcType w = s"
  then show "map c_toupper w = str_WakeupSrcType s"
    using conv_WakeupSrcType_known assms by auto
next
  assume eq: "map c_toupper w = str_WakeupSrcType s"
  show "conv_WakeupSrcType w = s"
    unfolding conv_WakeupSrcType_def Let_def eq by (cases s) (use assms in simp_all)
qed

lemma conv_WakeupSrcType_case: "conv_WakeupSrcType (map c_tolower w) = conv_WakeupSrcType w"
  by (simp add: conv_WakeupSrcType_def comp_def)

section \<open>Properties\<close>

text \<open>
  The names of the wake-up sources are read back as the sources they name, in any case of the
  letters, and every name read as a known source is that source's name.
\<close>

theorem wakeup_source_names:
  "conv_WakeupSrcType (map c_tolower (str_WakeupSrcType s)) = s
   \<and> (if conv_WakeupSrcType w = WAKEUP_SRC_UNKNOWN then True
      else map c_toupper w = str_WakeupSrcType (conv_WakeupSrcType w))"
  using conv_WakeupSrcType_known [of w] by (simp add: conv_WakeupSrcType_case conv_str_WakeupSrcType)

end
