(* ===== verification/AckController.thy ===== *)
theory AckController imports PowerTypes begin

text \<open>
  The acknowledgement controller of a power state transition (\<open>PowerManager/AckController.h\<close>): it
  waits for the clients that were told of the transition and calls a completion handler once they
  all acknowledged, or when a timer runs out, or when it is destroyed.

  A handler is a value of any type \<open>'h\<close>; an operation returns the calls it makes, each the value
  of \<open>_handler\<close> with the arguments \<open>isTimedout\<close> and \<open>isRevoked\<close> (\<open>None\<close> would be a call of an empty
  \<open>std::function\<close>). The worker pool belongs to the framework: \<open>ac_scheduled\<close> is the time at which
  it will run \<open>_timerJob\<close>, if it is scheduled. \<open>Core::Time\<close> is an integer and \<open>Time::Add\<close> the
  parameter \<open>add\<close>; \<open>now\<close> is the reading of the clock.

  The lemmas are about a session: the operations on one controller from its construction to its
  destruction, with one \<open>Schedule\<close>, in any order. The locale \<open>one_shot\<close> is the contract its owner
  relies on.
\<close>

section \<open>One-shot completion\<close>

text \<open>
  A machine that, once armed, fires exactly once: a step of an armed state fires nothing and stays
  armed, or fires once and disarms; a step of a disarmed state fires nothing.
\<close>

locale one_shot =
  fixes armed :: "'s \<Rightarrow> bool" and ok :: "'s \<Rightarrow> bool"
    and step :: "'op \<Rightarrow> 's \<Rightarrow> 's \<times> 'c list"
  assumes ok_step: "ok s \<Longrightarrow> ok (fst (step a s))"
    and armed_step: "ok s \<Longrightarrow> armed s \<Longrightarrow>
      (if armed (fst (step a s)) then snd (step a s) = [] else length (snd (step a s)) = 1)"
    and idle_step: "ok s \<Longrightarrow> \<not> armed s \<Longrightarrow> \<not> armed (fst (step a s)) \<and> snd (step a s) = []"
begin

fun run :: "'op list \<Rightarrow> 's \<Rightarrow> 's \<times> 'c list" where
  "run [] s = (s, [])"
| "run (a # as) s = (let (s1, cs) = step a s; (s2, ds) = run as s1 in (s2, cs @ ds))"

lemma run_Cons:
  "fst (run (a # as) s) = fst (run as (fst (step a s)))"
  "snd (run (a # as) s) = snd (step a s) @ snd (run as (fst (step a s)))"
  by (simp_all add: Let_def split: prod.splits)

lemma ok_run: "ok s \<Longrightarrow> ok (fst (run as s))"
proof (induction as arbitrary: s)
  case (Cons a as)
  then show ?case using ok_step [of s a] by (simp del: run.simps add: run_Cons)
qed simp

lemma idle_run: "ok s \<Longrightarrow> \<not> armed s \<Longrightarrow> \<not> armed (fst (run as s)) \<and> snd (run as s) = []"
proof (induction as arbitrary: s)
  case (Cons a as)
  then show ?case using ok_step [of s a] idle_step [of s a] by (simp del: run.simps add: run_Cons)
qed simp

lemma armed_run: "ok s \<Longrightarrow> armed s \<Longrightarrow>
  (if armed (fst (run as s)) then snd (run as s) = [] else length (snd (run as s)) = 1)"
proof (induction as arbitrary: s)
  case (Cons a as)
  show ?case
  proof (cases "armed (fst (step a s))")
    case True
    then show ?thesis
      using Cons ok_step [of s a] armed_step [of s a] by (simp del: run.simps add: run_Cons split: if_splits)
  next
    case False
    then show ?thesis
      using Cons.prems ok_step [of s a] armed_step [of s a] idle_run [of "fst (step a s)" as]
      by (simp del: run.simps add: run_Cons)
  qed
qed simp

end

section \<open>The controller\<close>

record 'h AckController =
  ac_powerState :: PowerState
  ac_pending :: "u32 set"
  ac_transactionId :: int
  ac_timeout :: int
  ac_timerJob :: bool
  ac_scheduled :: "int option"
  ac_handler :: "'h option"
  ac_running :: bool

type_synonym 'h call = "'h option \<times> bool \<times> bool"

text \<open>The constructor, with the static counter \<open>_nextTransactionId\<close>.\<close>

definition AckController_ctor :: "PowerState \<Rightarrow> int \<Rightarrow> int \<Rightarrow> 'h AckController \<times> int" where
  "AckController_ctor powerState nextTransactionId now =
     (\<lparr> ac_powerState = powerState, ac_pending = {}, ac_transactionId = nextTransactionId + 1,
        ac_timeout = now, ac_timerJob = False, ac_scheduled = None, ac_handler = None,
        ac_running = False \<rparr>, nextTransactionId + 1)"

definition AckController_AckAwait :: "u32 \<Rightarrow> 'h AckController \<Rightarrow> 'h AckController" where
  "AckController_AckAwait clientId c = c\<lparr>ac_pending := insert clientId (ac_pending c)\<rparr>"

definition AckController_runHandler ::
  "bool \<Rightarrow> 'h AckController \<Rightarrow> 'h AckController \<times> 'h call list" where
  "AckController_runHandler isTimedout c =
     (let c1 = (if \<not> isTimedout then c\<lparr>ac_scheduled := None\<rparr> else c)
      in (c1, [(ac_handler c1, isTimedout, False)]))"

definition AckController_Ack ::
  "u32 \<Rightarrow> int \<Rightarrow> 'h AckController \<Rightarrow> hresult \<times> 'h AckController \<times> 'h call list" where
  "AckController_Ack clientId transactionId c =
     (if transactionId \<noteq> ac_transactionId c then (ERROR_INVALID_PARAMETER, c, [])
      else if clientId \<notin> ac_pending c then (ERROR_INVALID_PARAMETER, c, [])
      else
        let c1 = c\<lparr>ac_pending := ac_pending c - {clientId}\<rparr>
        in if ac_pending c1 = {} \<and> ac_running c1
           then (let (c2, calls) = AckController_runHandler False (c1\<lparr>ac_running := False\<rparr>)
                 in (ERROR_NONE, c2, calls))
           else (ERROR_NONE, c1, []))"

definition AckController_Ack_any ::
  "u32 \<Rightarrow> 'h AckController \<Rightarrow> hresult \<times> 'h AckController \<times> 'h call list" where
  "AckController_Ack_any clientId c = AckController_Ack clientId (ac_transactionId c) c"

definition AckController_IsRunning :: "'h AckController \<Rightarrow> bool" where
  "AckController_IsRunning c \<longleftrightarrow> ac_running c \<and> ac_timerJob c"

definition AckController_Schedule ::
  "(int \<Rightarrow> int \<Rightarrow> int) \<Rightarrow> int \<Rightarrow> int \<Rightarrow> 'h \<Rightarrow> 'h AckController \<Rightarrow> 'h AckController \<times> 'h call list" where
  "AckController_Schedule add now offsetInMilliseconds handler c =
     (if ac_pending c = {} \<or> offsetInMilliseconds = 0 then (c, [(Some handler, False, False)])
      else
        let c1 = c\<lparr>ac_running := True, ac_handler := Some handler\<rparr>;
            newTimeout = add now offsetInMilliseconds;
            c2 = c1\<lparr>ac_timeout := max newTimeout (ac_timeout c1)\<rparr>;
            c3 = c2\<lparr>ac_timerJob := True\<rparr>
        in (c3\<lparr>ac_scheduled := Some (ac_timeout c3)\<rparr>, []))"

text \<open>The body of the timer job, when the controller is still alive.\<close>

definition AckController_timerJob :: "'h AckController \<Rightarrow> 'h AckController \<times> 'h call list" where
  "AckController_timerJob c =
     (if ac_running c then (c\<lparr>ac_running := False\<rparr>, [(ac_handler c, True, False)]) else (c, []))"

definition AckController_Reschedule ::
  "(int \<Rightarrow> int \<Rightarrow> int) \<Rightarrow> int \<Rightarrow> u32 \<Rightarrow> int \<Rightarrow> int \<Rightarrow> 'h AckController \<Rightarrow> hresult \<times> 'h AckController" where
  "AckController_Reschedule add now clientId transactionId offsetInMilliseconds c =
     (let newTimeout = add now offsetInMilliseconds in
      if \<not> ac_running c
      then (ERROR_NONE, c\<lparr>ac_timeout := max (ac_timeout c) newTimeout\<rparr>)
      else if transactionId \<noteq> ac_transactionId c then (ERROR_INVALID_PARAMETER, c)
      else if clientId \<notin> ac_pending c then (ERROR_INVALID_PARAMETER, c)
      else if ac_timeout c < newTimeout
      then (ERROR_NONE, c\<lparr>ac_timeout := newTimeout, ac_scheduled := Some newTimeout\<rparr>)
      else (ERROR_NONE, c))"

text \<open>The destructor, which is \<open>revoke\<close>.\<close>

definition AckController_revoke :: "'h AckController \<Rightarrow> 'h AckController \<times> 'h call list" where
  "AckController_revoke c =
     (let (c1, calls) =
        (if ac_running c
         then (let c' = c\<lparr>ac_running := False\<rparr>
               in if ac_timerJob c'
                  then (c'\<lparr>ac_scheduled := None\<rparr>, [(ac_handler c', False, True)]) else (c', []))
         else (c, []))
      in (if ac_timerJob c1 then c1\<lparr>ac_timerJob := False\<rparr> else c1, calls))"

section \<open>Sessions\<close>

datatype ack_op =
    AwaitOp u32
  | AckOp u32 int
  | RescheduleOp int u32 int int
  | TimerOp int
  | DestroyOp

text \<open>
  One operation. The worker pool runs the job when its time has come, and forgets it.
\<close>

fun ack_step ::
  "(int \<Rightarrow> int \<Rightarrow> int) \<Rightarrow> ack_op \<Rightarrow> 'h AckController \<Rightarrow> 'h AckController \<times> 'h call list" where
  "ack_step add (AwaitOp k) c = (AckController_AckAwait k c, [])"
| "ack_step add (AckOp k t) c = snd (AckController_Ack k t c)"
| "ack_step add (RescheduleOp now k t off) c = (snd (AckController_Reschedule add now k t off c), [])"
| "ack_step add (TimerOp now) c =
     (case ac_scheduled c of
        None \<Rightarrow> (c, [])
      | Some t \<Rightarrow> (if t \<le> now then AckController_timerJob (c\<lparr>ac_scheduled := None\<rparr>) else (c, [])))"
| "ack_step add DestroyOp c = AckController_revoke c"

fun ack_run ::
  "(int \<Rightarrow> int \<Rightarrow> int) \<Rightarrow> ack_op list \<Rightarrow> 'h AckController \<Rightarrow> 'h AckController \<times> 'h call list" where
  "ack_run add [] c = (c, [])"
| "ack_run add (a # as) c =
     (let (c1, cs) = ack_step add a c; (c2, ds) = ack_run add as c1 in (c2, cs @ ds))"

definition ack_session ::
  "(int \<Rightarrow> int \<Rightarrow> int) \<Rightarrow> PowerState \<Rightarrow> int \<Rightarrow> int \<Rightarrow> ack_op list \<Rightarrow> int \<Rightarrow> int \<Rightarrow> 'h \<Rightarrow> ack_op list
     \<Rightarrow> 'h AckController \<times> 'h call list" where
  "ack_session add ps next now0 pre now off h post =
     (let (c0, next1) = AckController_ctor ps next now0;
          (c1, cs1) = ack_run add pre c0;
          (c2, cs2) = AckController_Schedule add now off h c1;
          (c3, cs3) = ack_run add post c2
      in (c3, cs1 @ cs2 @ cs3))"

text \<open>The state of a controller between operations, before and after \<open>Schedule\<close>.\<close>

definition ack_idle :: "'h AckController \<Rightarrow> bool" where
  "ack_idle c \<longleftrightarrow> \<not> ac_running c \<and> ac_handler c = None \<and> ac_scheduled c = None \<and> \<not> ac_timerJob c"

definition ack_inv :: "'h \<Rightarrow> 'h AckController \<Rightarrow> bool" where
  "ack_inv h c \<longleftrightarrow>
     (if ac_running c
      then ac_handler c = Some h \<and> ac_timerJob c \<and> ac_scheduled c = Some (ac_timeout c)
        \<and> ac_pending c \<noteq> {}
      else ac_scheduled c = None)"

lemmas ack_defs = AckController_AckAwait_def AckController_Ack_def AckController_runHandler_def
  AckController_Reschedule_def AckController_timerJob_def AckController_revoke_def

lemma ack_step_inv: "ack_inv h c \<Longrightarrow> ack_inv h (fst (ack_step add a c))"
  by (cases a) (auto simp: ack_inv_def ack_defs Let_def split: option.splits if_splits)

lemma ack_step_armed:
  assumes "ack_inv h c" and "ac_running c"
  shows "if ac_running (fst (ack_step add a c)) then snd (ack_step add a c) = []
    else length (snd (ack_step add a c)) = 1"
  using assms by (cases a) (auto simp: ack_inv_def ack_defs Let_def split: option.splits)

lemma ack_step_idle:
  assumes "ack_inv h c" and "\<not> ac_running c"
  shows "\<not> ac_running (fst (ack_step add a c)) \<and> snd (ack_step add a c) = []"
  using assms by (cases a) (auto simp: ack_inv_def ack_defs Let_def split: option.splits)

interpretation ack: one_shot ac_running "ack_inv h" "ack_step add" for h add
  by unfold_locales (rule ack_step_inv ack_step_armed ack_step_idle; assumption)+

lemma ack_run_eq: "ack_run add as c = ack.run add as c"
  by (induction as arbitrary: c) (simp_all add: ack.run.simps)

text \<open>Who completes a session, and with which arguments.\<close>

lemma ack_step_call:
  assumes "ack_inv h c" and "(h', t, r) \<in> set (snd (ack_step add a c))"
  shows "h' = Some h \<and>
    ((\<exists>k. a = AckOp k (ac_transactionId c) \<and> ac_pending c = {k} \<and> \<not> t \<and> \<not> r)
     \<or> (\<exists>now. a = TimerOp now \<and> ac_timeout c \<le> now \<and> ac_pending c \<noteq> {} \<and> t \<and> \<not> r)
     \<or> (a = DestroyOp \<and> ac_pending c \<noteq> {} \<and> \<not> t \<and> r))"
  using assms
  by (cases a) (auto simp: ack_inv_def ack_defs Let_def split: option.splits if_splits)

lemma ack_step_timeout:
  "ac_timeout c \<le> ac_timeout (fst (ack_step add a c))"
  by (cases a) (auto simp: ack_defs Let_def split: option.splits)

lemma ack_run_timeout: "ac_timeout c \<le> ac_timeout (fst (ack_run add as c))"
proof (induction as arbitrary: c)
  case (Cons a as)
  then show ?case
    using ack_step_timeout [of c add a] order_trans by (fastforce simp: Let_def split: prod.splits)
qed simp

lemma ack_idle_step:
  "ack_idle c \<Longrightarrow> ack_idle (fst (ack_step add a c)) \<and> snd (ack_step add a c) = []"
  by (cases a) (auto simp: ack_idle_def ack_defs Let_def)

lemma ack_idle_run: "ack_idle c \<Longrightarrow> ack_idle (fst (ack_run add as c)) \<and> snd (ack_run add as c) = []"
proof (induction as arbitrary: c)
  case (Cons a as)
  then show ?case using ack_idle_step [of c add a] by (force simp: Let_def split: prod.splits)
qed simp

lemma ack_idle_ctor: "ack_idle (fst (AckController_ctor ps n now))"
  by (simp add: ack_idle_def AckController_ctor_def)

lemma ack_schedule:
  assumes "ack_idle c"
  shows "ack_inv h (fst (AckController_Schedule add now off h c))
    \<and> (if ac_running (fst (AckController_Schedule add now off h c))
       then snd (AckController_Schedule add now off h c) = []
       else snd (AckController_Schedule add now off h c) = [(Some h, False, False)])"
  using assms by (auto simp: AckController_Schedule_def ack_inv_def ack_idle_def Let_def)

lemma ack_run_handler:
  assumes "ack_inv h c" and "(h', t, r) \<in> set (snd (ack_run add as c))"
  shows "h' = Some h"
  using assms
proof (induction as arbitrary: c)
  case (Cons a as)
  then show ?case
    using ack_step_inv [of h c add a] ack_step_call [of h c h' t r add a]
    by (auto simp: Let_def split: prod.splits)
qed simp

lemma ack_destroyed: "\<not> ac_running (fst (ack_step add DestroyOp c))"
  by (simp add: AckController_revoke_def Let_def)

lemma ack_run_append:
  "ack_run add (as @ bs) c =
     (let (c1, cs) = ack_run add as c; (c2, ds) = ack_run add bs c1 in (c2, cs @ ds))"
  by (induction as arbitrary: c) (simp_all add: Let_def split: prod.splits)

lemma ack_session_calls:
  fixes h :: 'h
  shows "let (c, calls) = ack_session add ps n now0 pre now off h post
   in (if ac_running c then calls = [] else length calls = 1)
      \<and> (\<forall>(h', t, r) \<in> set calls. h' = Some h)"
proof -
  define c1 where "c1 = fst (ack_run add pre (fst (AckController_ctor ps n now0)) :: 'h AckController \<times> _)"
  define c2 where "c2 = fst (AckController_Schedule add now off h c1)"
  have idle: "ack_idle c1" "snd (ack_run add pre (fst (AckController_ctor ps n now0)) :: 'h AckController \<times> _) = []"
    by (simp_all add: c1_def ack_idle_run [OF ack_idle_ctor])
  have eq: "ack_session add ps n now0 pre now off h post =
      (fst (ack_run add post c2), snd (AckController_Schedule add now off h c1) @ snd (ack_run add post c2))"
    using idle(2) by (simp add: ack_session_def c1_def c2_def case_prod_unfold Let_def)
  note sch = ack_schedule [OF idle(1), of h add now off]
  show ?thesis
  proof (cases "ac_running c2")
    case True
    then show ?thesis
      using sch ack.armed_run [of h c2 add post] ack_run_handler [of h c2 _ _ _ add post]
      by (auto simp: eq c2_def ack_run_eq)
  next
    case False
    then show ?thesis
      using sch ack.idle_run [of h c2 add post] by (auto simp: eq c2_def ack_run_eq)
  qed
qed

section \<open>Properties\<close>

lemma ack_session_state:
  fixes h :: 'h
  shows "ack_inv h (fst (ack_session add ps n now0 pre now off h post))"
proof -
  let ?c1 = "fst (ack_run add pre (fst (AckController_ctor ps n now0))) :: 'h AckController"
  have idle: "ack_idle ?c1"
    by (simp add: ack_idle_run [OF ack_idle_ctor])
  have "fst (ack_session add ps n now0 pre now off h post) =
      fst (ack_run add post (fst (AckController_Schedule add now off h ?c1)))"
    by (simp add: ack_session_def case_prod_unfold Let_def)
  then show ?thesis
    using ack.ok_run [of h "fst (AckController_Schedule add now off h ?c1)" add post]
      ack_schedule [OF idle, of h add now off] by (simp add: ack_run_eq)
qed

text \<open>
  C2. A session calls the completion handler exactly once: whatever acknowledgements, delays and
  additional clients come before and after \<open>Schedule\<close>, in any order and from any client, once the
  controller is destroyed the handler given to \<open>Schedule\<close>, and no other, has been called once.
\<close>

theorem ack_exactly_once:
  "\<exists>t r. snd (ack_session add ps n now0 pre now off h (post @ [DestroyOp])) = [(Some h, t, r)]"
proof -
  let ?s = "ack_session add ps n now0 pre now off h (post @ [DestroyOp])"
  have "fst ?s = fst (ack_step add DestroyOp (fst (ack_session add ps n now0 pre now off h post)))"
    by (simp add: ack_session_def ack_run_append case_prod_unfold Let_def)
  then have "\<not> ac_running (fst ?s)" by (simp only: ack_destroyed not_False_eq_True)
  then show ?thesis
    using ack_session_calls [of add ps n now0 pre now off h "post @ [DestroyOp]"]
    by (cases "snd ?s") (auto simp: case_prod_unfold Let_def)
qed

text \<open>
  C18. What completes a scheduled session, and how the handler is told: the acknowledgement of the
  last pending client with the session's transaction id (no flag), the timer from the time-out on
  (\<open>isTimedout\<close>), the destruction (\<open>isRevoked\<close>); nothing else, and nothing after completion.
\<close>

theorem ack_completion_cause:
  fixes h :: 'h
  defines "c \<equiv> \<lambda>add ps n now0 pre now off h post.
      fst (ack_session add ps n now0 pre now off (h :: 'h) post)"
  shows "snd (ack_step add a (c add ps n now0 pre now off h post)) =
    (let c = c add ps n now0 pre now off h post in
     if ac_running c then
       (case a of
          AckOp k tid \<Rightarrow> if tid = ac_transactionId c \<and> ac_pending c = {k} then [(Some h, False, False)] else []
        | TimerOp t \<Rightarrow> if ac_timeout c \<le> t then [(Some h, True, False)] else []
        | DestroyOp \<Rightarrow> [(Some h, False, True)]
        | _ \<Rightarrow> [])
     else [])"
proof -
  have inv: "ack_inv h (c add ps n now0 pre now off h post)"
    unfolding c_def by (rule ack_session_state)
  show ?thesis
    using inv by (cases a) (auto simp: ack_inv_def ack_defs Let_def split: option.splits if_splits)
qed

text \<open>
  An accepted delay holds: once \<open>Reschedule\<close> has returned success, the time-out is never before
  the time asked for, whatever operations follow.
\<close>

theorem ack_delay_holds:
  assumes "fst (AckController_Reschedule add now k tid off c) = ERROR_NONE"
  shows "add now off \<le> ac_timeout (fst (ack_run add as (snd (AckController_Reschedule add now k tid off c))))"
proof -
  have "add now off \<le> ac_timeout (snd (AckController_Reschedule add now k tid off c))"
    using assms by (auto simp: AckController_Reschedule_def Let_def split: if_splits)
  also have "\<dots> \<le> ac_timeout (fst (ack_run add as (snd (AckController_Reschedule add now k tid off c))))"
    by (rule ack_run_timeout)
  finally show ?thesis .
qed

definition ack_example :: "nat AckController" where
  "ack_example = fst (AckController_Schedule (+) 100 1000 7
     (AckController_AckAwait 2 (AckController_AckAwait 1 (fst (AckController_ctor POWER_STATE_ON 0 0)))))"

theorem ack_delay_holds_witness:
  "(300 :: int) + 5000 \<le> ac_timeout (fst (ack_run (+) [AckOp 2 1, RescheduleOp 400 1 1 10]
     (snd (AckController_Reschedule (+) 300 1 1 5000 ack_example))))"
  by (rule ack_delay_holds)
    (simp add: ack_example_def AckController_Reschedule_def AckController_Schedule_def
      AckController_AckAwait_def AckController_ctor_def)

text \<open>
  When every pending client acknowledges, in any order, with the transaction id, a running
  session completes by the last of these acknowledgements and calls the handler then.
\<close>

theorem all_acks_complete:
  assumes "ack_inv h c" and "ac_running c" and "distinct ks" and "set ks = ac_pending c"
  shows "snd (ack_run add (map (\<lambda>k. AckOp k (ac_transactionId c)) ks) c) = [(Some h, False, False)]
    \<and> \<not> ac_running (fst (ack_run add (map (\<lambda>k. AckOp k (ac_transactionId c)) ks) c))"
  using assms
proof (induction ks arbitrary: c)
  case Nil
  then show ?case by (auto simp: ack_inv_def)
next
  case (Cons k ks)
  let ?c = "fst (ack_step add (AckOp k (ac_transactionId c)) c)"
  show ?case
  proof (cases ks)
    case Nil
    then show ?thesis
      using Cons.prems by (auto simp: ack_defs ack_inv_def Let_def)
  next
    case (Cons k' ks')
    have "k \<in> ac_pending c" "ac_pending c - {k} = set ks" "set ks \<noteq> {}"
      using Cons.prems Cons by auto
    then have step: "ack_step add (AckOp k (ac_transactionId c)) c =
        (c\<lparr>ac_pending := set ks\<rparr>, [])" by (simp add: ack_defs Let_def)
    have "ack_inv h (c\<lparr>ac_pending := set ks\<rparr>)"
      using Cons.prems(1,2) \<open>set ks \<noteq> {}\<close> by (simp add: ack_inv_def)
    then show ?thesis
      using Cons.IH [of "c\<lparr>ac_pending := set ks\<rparr>"] Cons.prems step
      by (simp add: case_prod_unfold Let_def del: ack_step.simps)
  qed
qed

theorem all_acks_complete_witness:
  "snd (ack_run (+) [AckOp 2 1, AckOp 1 1] ack_example) = [(Some 7, False, False)]"
  using all_acks_complete [of 7 ack_example "[2, 1]" "(+)"]
  by (auto simp: ack_example_def ack_inv_def AckController_Schedule_def AckController_AckAwait_def
      AckController_ctor_def)

end
