(* ===== verification/PlatformHal.thy ===== *)
theory PlatformHal imports PowerTypes Complex_Main begin

text \<open>
  The hardware abstraction of the power manager (\<open>PowerManager/hal\<close>).

  The abstract classes \<open>IPlatform\<close> of \<open>Power.h\<close>, \<open>DeepSleep.h\<close> and \<open>Thermal.h\<close> are records of
  operations (\<open>power_platform\<close>, \<open>deepsleep_platform\<close>, \<open>thermal_platform\<close>): a virtual call is the
  application of a field. Their implementations (\<open>PowerImpl\<close>, \<open>DeepSleepImpl\<close>, \<open>ThermalImpl\<close>) are
  values of these records, built over the vendor's C functions, which are not in the repository:
  those are the fields of \<open>plat_api\<close>, \<open>ds_api\<close> and \<open>mfr_api\<close>, each a function of a hardware
  state \<open>'p\<close> of any type. An out parameter a callee may leave unwritten is passed in and returned.

  Vendor enumerations that the code only switches on are datatypes, with a constructor for the
  values outside the enumerators (\<open>default:\<close>); the power state code and \<open>pmStatus_t\<close>, whose
  numbers matter (one is stored in a file, the sign of the other is tested), are numbers whose
  enumerators are the fields of \<open>plat_power_h\<close>; \<open>plat_power_ok\<close> says that they are distinct and
  that success is 0 and the failures are positive. \<open>float\<close> values are reals: the code only
  converts integers to \<open>float\<close> and back and passes floats on.
\<close>

section \<open>Interfaces\<close>

record 'p power_platform =
  pp_SetPowerState :: "PowerState \<Rightarrow> 'p \<Rightarrow> hresult \<times> 'p"
  pp_GetPowerState :: "PowerState \<Rightarrow> 'p \<Rightarrow> hresult \<times> PowerState \<times> 'p"
  pp_SetWakeupSrc :: "WakeupSrcType \<Rightarrow> bool \<Rightarrow> bool \<Rightarrow> 'p \<Rightarrow> hresult \<times> bool \<times> 'p"
  pp_GetWakeupSrc :: "WakeupSrcType \<Rightarrow> bool \<Rightarrow> bool \<Rightarrow> 'p \<Rightarrow> hresult \<times> bool \<times> bool \<times> 'p"

record 'p deepsleep_platform =
  dp_SetDeepSleep :: "u32 \<Rightarrow> bool \<Rightarrow> bool \<Rightarrow> 'p \<Rightarrow> hresult \<times> bool \<times> 'p"
  dp_DeepSleepWakeup :: "'p \<Rightarrow> hresult \<times> 'p"
  dp_GetLastWakeupReason :: "WakeupReason \<Rightarrow> 'p \<Rightarrow> hresult \<times> WakeupReason \<times> 'p"
  dp_GetLastWakeupKeyCode :: "int \<Rightarrow> 'p \<Rightarrow> hresult \<times> int \<times> 'p"

record 'p thermal_platform =
  tp_GetTemperatureThresholds :: "real \<Rightarrow> real \<Rightarrow> 'p \<Rightarrow> hresult \<times> real \<times> real \<times> 'p"
  tp_SetTemperatureThresholds :: "real \<Rightarrow> real \<Rightarrow> 'p \<Rightarrow> hresult \<times> 'p"
  tp_GetClockSpeed :: "u32 \<Rightarrow> 'p \<Rightarrow> hresult \<times> u32 \<times> 'p"
  tp_SetClockSpeed :: "u32 \<Rightarrow> 'p \<Rightarrow> hresult \<times> 'p"
  tp_DetemineClockSpeeds :: "u32 \<Rightarrow> u32 \<Rightarrow> u32 \<Rightarrow> 'p \<Rightarrow> hresult \<times> u32 \<times> u32 \<times> u32 \<times> 'p"
  tp_GetTemperature :: "ThermalTemperature \<Rightarrow> real \<Rightarrow> real \<Rightarrow> 'p
     \<Rightarrow> hresult \<times> ThermalTemperature \<times> real \<times> real \<times> 'p"

section \<open>PowerImpl\<close>

record plat_power_h =
  PWRMGR_POWERSTATE_OFF :: u32
  PWRMGR_POWERSTATE_ON :: u32
  PWRMGR_POWERSTATE_STANDBY :: u32
  PWRMGR_POWERSTATE_STANDBY_LIGHT_SLEEP :: u32
  PWRMGR_POWERSTATE_STANDBY_DEEP_SLEEP :: u32
  PWRMGR_POWERSTATE_MAX :: u32
  PWRMGR_SUCCESS :: int
  PWRMGR_INVALID_ARGUMENT :: int
  PWRMGR_NOT_INITIALIZED :: int
  PWRMGR_SET_FAILURE :: int
  PWRMGR_GET_FAILURE :: int

definition power_codes :: "plat_power_h \<Rightarrow> u32 list" where
  "power_codes H = [PWRMGR_POWERSTATE_OFF H, PWRMGR_POWERSTATE_ON H, PWRMGR_POWERSTATE_STANDBY H,
     PWRMGR_POWERSTATE_STANDBY_LIGHT_SLEEP H, PWRMGR_POWERSTATE_STANDBY_DEEP_SLEEP H,
     PWRMGR_POWERSTATE_MAX H]"

definition plat_power_ok :: "plat_power_h \<Rightarrow> bool" where
  "plat_power_ok H \<longleftrightarrow> distinct (power_codes H) \<and> PWRMGR_SUCCESS H = 0
     \<and> 0 < PWRMGR_INVALID_ARGUMENT H \<and> 0 < PWRMGR_NOT_INITIALIZED H
     \<and> 0 < PWRMGR_SET_FAILURE H \<and> 0 < PWRMGR_GET_FAILURE H
     \<and> distinct [PWRMGR_INVALID_ARGUMENT H, PWRMGR_NOT_INITIALIZED H, PWRMGR_SET_FAILURE H,
          PWRMGR_GET_FAILURE H]"

datatype PWRMGR_WakeupSrcType_t =
    PWRMGR_WAKEUPSRC_VOICE
  | PWRMGR_WAKEUPSRC_PRESENCE_DETECTION
  | PWRMGR_WAKEUPSRC_BLUETOOTH
  | PWRMGR_WAKEUPSRC_WIFI
  | PWRMGR_WAKEUPSRC_IR
  | PWRMGR_WAKEUPSRC_POWER_KEY
  | PWRMGR_WAKEUPSRC_TIMER
  | PWRMGR_WAKEUPSRC_CEC
  | PWRMGR_WAKEUPSRC_LAN
  | PWRMGR_WAKEUPSRC_MAX

record 'p plat_api =
  PLAT_API_SetPowerState :: "u32 \<Rightarrow> 'p \<Rightarrow> int \<times> 'p"
  PLAT_API_GetPowerState :: "u32 \<Rightarrow> 'p \<Rightarrow> int \<times> u32 \<times> 'p"
  PLAT_API_SetWakeupSrc :: "PWRMGR_WakeupSrcType_t \<Rightarrow> bool \<Rightarrow> 'p \<Rightarrow> int \<times> 'p"
  PLAT_API_GetWakeupSrc :: "PWRMGR_WakeupSrcType_t \<Rightarrow> bool \<Rightarrow> 'p \<Rightarrow> int \<times> bool \<times> 'p"

fun hal_conv_WakeupSrc :: "WakeupSrcType \<Rightarrow> PWRMGR_WakeupSrcType_t" where
  "hal_conv_WakeupSrc WAKEUP_SRC_VOICE = PWRMGR_WAKEUPSRC_VOICE"
| "hal_conv_WakeupSrc WAKEUP_SRC_PRESENCEDETECTED = PWRMGR_WAKEUPSRC_PRESENCE_DETECTION"
| "hal_conv_WakeupSrc WAKEUP_SRC_BLUETOOTH = PWRMGR_WAKEUPSRC_BLUETOOTH"
| "hal_conv_WakeupSrc WAKEUP_SRC_WIFI = PWRMGR_WAKEUPSRC_WIFI"
| "hal_conv_WakeupSrc WAKEUP_SRC_IR = PWRMGR_WAKEUPSRC_IR"
| "hal_conv_WakeupSrc WAKEUP_SRC_POWERKEY = PWRMGR_WAKEUPSRC_POWER_KEY"
| "hal_conv_WakeupSrc WAKEUP_SRC_TIMER = PWRMGR_WAKEUPSRC_TIMER"
| "hal_conv_WakeupSrc WAKEUP_SRC_CEC = PWRMGR_WAKEUPSRC_CEC"
| "hal_conv_WakeupSrc WAKEUP_SRC_LAN = PWRMGR_WAKEUPSRC_LAN"
| "hal_conv_WakeupSrc WAKEUP_SRC_RF4CE = PWRMGR_WAKEUPSRC_MAX"
| "hal_conv_WakeupSrc WAKEUP_SRC_UNKNOWN = PWRMGR_WAKEUPSRC_MAX"

definition hal_conv_from_plat :: "plat_power_h \<Rightarrow> u32 \<Rightarrow> PowerState" where
  "hal_conv_from_plat H state =
     (if state = PWRMGR_POWERSTATE_OFF H then POWER_STATE_OFF
      else if state = PWRMGR_POWERSTATE_ON H then POWER_STATE_ON
      else if state = PWRMGR_POWERSTATE_STANDBY H then POWER_STATE_STANDBY
      else if state = PWRMGR_POWERSTATE_STANDBY_LIGHT_SLEEP H then POWER_STATE_STANDBY_LIGHT_SLEEP
      else if state = PWRMGR_POWERSTATE_STANDBY_DEEP_SLEEP H then POWER_STATE_STANDBY_DEEP_SLEEP
      else POWER_STATE_UNKNOWN)"

fun hal_conv_to_plat :: "plat_power_h \<Rightarrow> PowerState \<Rightarrow> u32" where
  "hal_conv_to_plat H POWER_STATE_OFF = PWRMGR_POWERSTATE_OFF H"
| "hal_conv_to_plat H POWER_STATE_ON = PWRMGR_POWERSTATE_ON H"
| "hal_conv_to_plat H POWER_STATE_STANDBY = PWRMGR_POWERSTATE_STANDBY H"
| "hal_conv_to_plat H POWER_STATE_STANDBY_LIGHT_SLEEP = PWRMGR_POWERSTATE_STANDBY_LIGHT_SLEEP H"
| "hal_conv_to_plat H POWER_STATE_STANDBY_DEEP_SLEEP = PWRMGR_POWERSTATE_STANDBY_DEEP_SLEEP H"
| "hal_conv_to_plat H POWER_STATE_UNKNOWN = PWRMGR_POWERSTATE_MAX H"

definition hal_conv_status :: "plat_power_h \<Rightarrow> int \<Rightarrow> hresult" where
  "hal_conv_status H result =
     (if result < 0 then ERROR_GENERAL
      else if result = PWRMGR_SUCCESS H then ERROR_NONE
      else if result = PWRMGR_INVALID_ARGUMENT H then ERROR_INVALID_PARAMETER
      else if result = PWRMGR_NOT_INITIALIZED H then ERROR_ILLEGAL_STATE
      else if result = PWRMGR_SET_FAILURE H then ERROR_WRITE_ERROR
      else if result = PWRMGR_GET_FAILURE H then ERROR_READ_ERROR
      else ERROR_GENERAL)"

definition PowerImpl_SetWakeupSrc ::
  "plat_power_h \<Rightarrow> 'p plat_api \<Rightarrow> WakeupSrcType \<Rightarrow> bool \<Rightarrow> bool \<Rightarrow> 'p \<Rightarrow> hresult \<times> bool \<times> 'p" where
  "PowerImpl_SetWakeupSrc H A src en supported p =
     (let (result, p1) = PLAT_API_SetWakeupSrc A (hal_conv_WakeupSrc src) en p
      in (hal_conv_status H result, \<not> (0 < result), p1))"

definition PowerImpl_GetWakeupSrc ::
  "plat_power_h \<Rightarrow> 'p plat_api \<Rightarrow> WakeupSrcType \<Rightarrow> bool \<Rightarrow> bool \<Rightarrow> 'p
     \<Rightarrow> hresult \<times> bool \<times> bool \<times> 'p" where
  "PowerImpl_GetWakeupSrc H A src en supported p =
     (let (result, en1, p1) = PLAT_API_GetWakeupSrc A (hal_conv_WakeupSrc src) en p
      in (hal_conv_status H result, en1, \<not> (0 < result), p1))"

definition PowerImpl_SetPowerState ::
  "plat_power_h \<Rightarrow> 'p plat_api \<Rightarrow> PowerState \<Rightarrow> 'p \<Rightarrow> hresult \<times> 'p" where
  "PowerImpl_SetPowerState H A newState p =
     (let (result, p1) = PLAT_API_SetPowerState A (hal_conv_to_plat H newState) p
      in (if result = PWRMGR_SUCCESS H then ERROR_NONE else ERROR_GENERAL, p1))"

definition PowerImpl_GetPowerState ::
  "plat_power_h \<Rightarrow> 'p plat_api \<Rightarrow> PowerState \<Rightarrow> 'p \<Rightarrow> hresult \<times> PowerState \<times> 'p" where
  "PowerImpl_GetPowerState H A curState p =
     (let (result, state, p1) = PLAT_API_GetPowerState A (PWRMGR_POWERSTATE_MAX H) p
      in if result = PWRMGR_SUCCESS H then (ERROR_NONE, hal_conv_from_plat H state, p1)
         else (ERROR_GENERAL, curState, p1))"

definition PowerImpl :: "plat_power_h \<Rightarrow> 'p plat_api \<Rightarrow> 'p power_platform" where
  "PowerImpl H A = \<lparr> pp_SetPowerState = PowerImpl_SetPowerState H A,
     pp_GetPowerState = PowerImpl_GetPowerState H A,
     pp_SetWakeupSrc = PowerImpl_SetWakeupSrc H A,
     pp_GetWakeupSrc = PowerImpl_GetWakeupSrc H A \<rparr>"

text \<open>
  The constructor of \<open>PowerImpl\<close>: \<open>PLAT_INIT\<close> is called until it succeeds, 35 times at most. The
  calls yield a status or throw (\<open>None\<close>); the result is whether the platform is initialised and
  how many calls were made.
\<close>

fun PowerImpl_init :: "plat_power_h \<Rightarrow> ('p \<Rightarrow> int option \<times> 'p) \<Rightarrow> nat \<Rightarrow> nat \<Rightarrow> 'p \<Rightarrow> bool \<times> nat \<times> 'p"
where
  "PowerImpl_init H plat_init 0 retryCount p = (False, retryCount, p)"
| "PowerImpl_init H plat_init (Suc left) retryCount p =
     (let (r, p1) = plat_init p
      in if r = Some (PWRMGR_SUCCESS H) then (True, Suc retryCount, p1)
         else PowerImpl_init H plat_init left (Suc retryCount) p1)"

definition PowerImpl_ctor ::
  "plat_power_h \<Rightarrow> ('p \<Rightarrow> int option \<times> 'p) \<Rightarrow> 'p \<Rightarrow> bool \<times> nat \<times> 'p" where
  "PowerImpl_ctor H plat_init p = PowerImpl_init H plat_init 35 0 p"

lemma hal_conv_roundtrip:
  "plat_power_ok H \<Longrightarrow> hal_conv_from_plat H (hal_conv_to_plat H s) = s"
  by (cases s) (auto simp: plat_power_ok_def power_codes_def hal_conv_from_plat_def)

lemma hal_conv_to_plat_code:
  "plat_power_ok H \<Longrightarrow> w \<in> set (power_codes H) \<Longrightarrow>
   hal_conv_to_plat H (hal_conv_from_plat H w) = w"
  by (auto simp: plat_power_ok_def power_codes_def hal_conv_from_plat_def)

lemma hal_conv_status_none:
  "plat_power_ok H \<Longrightarrow> hal_conv_status H r = ERROR_NONE \<longleftrightarrow> r = 0"
  by (auto simp: plat_power_ok_def hal_conv_status_def)

lemma PowerImpl_init_bound:
  "PowerImpl_init H f left n p = (ok, m, q) \<Longrightarrow> n \<le> m \<and> m \<le> n + left \<and> (\<not> ok \<longrightarrow> m = n + left)"
proof (induction left arbitrary: n p)
  case 0
  then show ?case by simp
next
  case (Suc left)
  obtain r p1 where rp: "f p = (r, p1)" by (cases "f p")
  show ?case
  proof (cases "r = Some (PWRMGR_SUCCESS H)")
    case True
    with Suc.prems rp show ?thesis by auto
  next
    case False
    with Suc.prems rp have "PowerImpl_init H f left (Suc n) p1 = (ok, m, q)" by simp
    from Suc.IH [OF this] show ?thesis by auto
  qed
qed

section \<open>DeepSleepImpl\<close>

datatype DeepSleep_Return_Status_t =
    DEEPSLEEPMGR_SUCCESS
  | DEEPSLEEPMGR_INVALID_ARGUMENT
  | DEEPSLEEPMGR_ALREADY_INITIALIZED
  | DEEPSLEEPMGR_NOT_INITIALIZED
  | DEEPSLEEPMGR_INIT_FAILURE
  | DEEPSLEEPMGR_SET_FAILURE
  | DEEPSLEEPMGR_WAKEUP_FAILURE
  | DEEPSLEEPMGR_TERM_FAILURE
  | DEEPSLEEPMGR_status_other

datatype DeepSleep_WakeupReason_t =
    DEEPSLEEP_WAKEUPREASON_IR
  | DEEPSLEEP_WAKEUPREASON_RCU_BT
  | DEEPSLEEP_WAKEUPREASON_RCU_RF4CE
  | DEEPSLEEP_WAKEUPREASON_GPIO
  | DEEPSLEEP_WAKEUPREASON_LAN
  | DEEPSLEEP_WAKEUPREASON_WLAN
  | DEEPSLEEP_WAKEUPREASON_TIMER
  | DEEPSLEEP_WAKEUPREASON_FRONT_PANEL
  | DEEPSLEEP_WAKEUPREASON_WATCHDOG
  | DEEPSLEEP_WAKEUPREASON_SOFTWARE_RESET
  | DEEPSLEEP_WAKEUPREASON_THERMAL_RESET
  | DEEPSLEEP_WAKEUPREASON_WARM_RESET
  | DEEPSLEEP_WAKEUPREASON_COLDBOOT
  | DEEPSLEEP_WAKEUPREASON_STR_AUTH_FAILURE
  | DEEPSLEEP_WAKEUPREASON_CEC
  | DEEPSLEEP_WAKEUPREASON_PRESENCE
  | DEEPSLEEP_WAKEUPREASON_VOICE
  | DEEPSLEEP_WAKEUPREASON_UNKNOWN
  | DEEPSLEEP_WAKEUPREASON_other

record 'p ds_api =
  PLAT_DS_SetDeepSleep :: "u32 \<Rightarrow> bool \<Rightarrow> bool \<Rightarrow> 'p \<Rightarrow> DeepSleep_Return_Status_t \<times> bool \<times> 'p"
  PLAT_DS_DeepSleepWakeup :: "'p \<Rightarrow> DeepSleep_Return_Status_t \<times> 'p"
  PLAT_DS_GetLastWakeupReason ::
    "DeepSleep_WakeupReason_t \<Rightarrow> 'p \<Rightarrow> DeepSleep_Return_Status_t \<times> DeepSleep_WakeupReason_t \<times> 'p"
  PLAT_DS_GetLastWakeupKeyCode :: "int \<Rightarrow> 'p \<Rightarrow> DeepSleep_Return_Status_t \<times> int \<times> 'p"

fun ds_conv_reason :: "DeepSleep_WakeupReason_t \<Rightarrow> WakeupReason" where
  "ds_conv_reason DEEPSLEEP_WAKEUPREASON_IR = WAKEUP_REASON_IR"
| "ds_conv_reason DEEPSLEEP_WAKEUPREASON_RCU_BT = WAKEUP_REASON_BLUETOOTH"
| "ds_conv_reason DEEPSLEEP_WAKEUPREASON_RCU_RF4CE = WAKEUP_REASON_RF4CE"
| "ds_conv_reason DEEPSLEEP_WAKEUPREASON_GPIO = WAKEUP_REASON_GPIO"
| "ds_conv_reason DEEPSLEEP_WAKEUPREASON_LAN = WAKEUP_REASON_LAN"
| "ds_conv_reason DEEPSLEEP_WAKEUPREASON_WLAN = WAKEUP_REASON_WIFI"
| "ds_conv_reason DEEPSLEEP_WAKEUPREASON_TIMER = WAKEUP_REASON_TIMER"
| "ds_conv_reason DEEPSLEEP_WAKEUPREASON_FRONT_PANEL = WAKEUP_REASON_FRONTPANEL"
| "ds_conv_reason DEEPSLEEP_WAKEUPREASON_WATCHDOG = WAKEUP_REASON_WATCHDOG"
| "ds_conv_reason DEEPSLEEP_WAKEUPREASON_SOFTWARE_RESET = WAKEUP_REASON_SOFTWARERESET"
| "ds_conv_reason DEEPSLEEP_WAKEUPREASON_THERMAL_RESET = WAKEUP_REASON_THERMALRESET"
| "ds_conv_reason DEEPSLEEP_WAKEUPREASON_WARM_RESET = WAKEUP_REASON_WARMRESET"
| "ds_conv_reason DEEPSLEEP_WAKEUPREASON_COLDBOOT = WAKEUP_REASON_COLDBOOT"
| "ds_conv_reason DEEPSLEEP_WAKEUPREASON_STR_AUTH_FAILURE = WAKEUP_REASON_STRAUTHFAIL"
| "ds_conv_reason DEEPSLEEP_WAKEUPREASON_CEC = WAKEUP_REASON_CEC"
| "ds_conv_reason DEEPSLEEP_WAKEUPREASON_PRESENCE = WAKEUP_REASON_PRESENCE"
| "ds_conv_reason DEEPSLEEP_WAKEUPREASON_VOICE = WAKEUP_REASON_VOICE"
| "ds_conv_reason DEEPSLEEP_WAKEUPREASON_UNKNOWN = WAKEUP_REASON_UNKNOWN"
| "ds_conv_reason DEEPSLEEP_WAKEUPREASON_other = WAKEUP_REASON_UNKNOWN"

fun ds_conv_status :: "DeepSleep_Return_Status_t \<Rightarrow> hresult" where
  "ds_conv_status DEEPSLEEPMGR_SUCCESS = ERROR_NONE"
| "ds_conv_status DEEPSLEEPMGR_INVALID_ARGUMENT = ERROR_INVALID_PARAMETER"
| "ds_conv_status DEEPSLEEPMGR_ALREADY_INITIALIZED = ERROR_GENERAL"
| "ds_conv_status DEEPSLEEPMGR_NOT_INITIALIZED = ERROR_GENERAL"
| "ds_conv_status DEEPSLEEPMGR_INIT_FAILURE = ERROR_GENERAL"
| "ds_conv_status DEEPSLEEPMGR_SET_FAILURE = ERROR_GENERAL"
| "ds_conv_status DEEPSLEEPMGR_WAKEUP_FAILURE = ERROR_GENERAL"
| "ds_conv_status DEEPSLEEPMGR_TERM_FAILURE = ERROR_GENERAL"
| "ds_conv_status DEEPSLEEPMGR_status_other = ERROR_GENERAL"

definition DeepSleepImpl_SetDeepSleep ::
  "'p ds_api \<Rightarrow> u32 \<Rightarrow> bool \<Rightarrow> bool \<Rightarrow> 'p \<Rightarrow> hresult \<times> bool \<times> 'p" where
  "DeepSleepImpl_SetDeepSleep A deepSleepTime isGPIOWakeup networkStandby p =
     (let (status, gpio, p1) = PLAT_DS_SetDeepSleep A deepSleepTime isGPIOWakeup networkStandby p
      in (ds_conv_status status, gpio, p1))"

definition DeepSleepImpl_DeepSleepWakeup :: "'p ds_api \<Rightarrow> 'p \<Rightarrow> hresult \<times> 'p" where
  "DeepSleepImpl_DeepSleepWakeup A p =
     (let (status, p1) = PLAT_DS_DeepSleepWakeup A p in (ds_conv_status status, p1))"

definition DeepSleepImpl_GetLastWakeupReason ::
  "'p ds_api \<Rightarrow> WakeupReason \<Rightarrow> 'p \<Rightarrow> hresult \<times> WakeupReason \<times> 'p" where
  "DeepSleepImpl_GetLastWakeupReason A wakeupReason p =
     (let (status, reason, p1) = PLAT_DS_GetLastWakeupReason A DEEPSLEEP_WAKEUPREASON_UNKNOWN p;
          retCode = ds_conv_status status
      in (retCode, if retCode = ERROR_NONE then ds_conv_reason reason else wakeupReason, p1))"

definition DeepSleepImpl_GetLastWakeupKeyCode ::
  "'p ds_api \<Rightarrow> int \<Rightarrow> 'p \<Rightarrow> hresult \<times> int \<times> 'p" where
  "DeepSleepImpl_GetLastWakeupKeyCode A wakeupKeyCode p =
     (let (status, keyCode, p1) = PLAT_DS_GetLastWakeupKeyCode A 0 p;
          retCode = ds_conv_status status
      in (retCode, if retCode = ERROR_NONE then keyCode else wakeupKeyCode, p1))"

definition DeepSleepImpl :: "'p ds_api \<Rightarrow> 'p deepsleep_platform" where
  "DeepSleepImpl A = \<lparr> dp_SetDeepSleep = DeepSleepImpl_SetDeepSleep A,
     dp_DeepSleepWakeup = DeepSleepImpl_DeepSleepWakeup A,
     dp_GetLastWakeupReason = DeepSleepImpl_GetLastWakeupReason A,
     dp_GetLastWakeupKeyCode = DeepSleepImpl_GetLastWakeupKeyCode A \<rparr>"

section \<open>ThermalImpl\<close>

datatype PWRMgr_ThermalState_t =
    PWRMGR_TEMPERATURE_NORMAL
  | PWRMGR_TEMPERATURE_HIGH
  | PWRMGR_TEMPERATURE_CRITICAL
  | PWRMGR_TEMPERATURE_other

fun thermal_conv :: "PWRMgr_ThermalState_t \<Rightarrow> ThermalTemperature" where
  "thermal_conv PWRMGR_TEMPERATURE_NORMAL = THERMAL_TEMPERATURE_NORMAL"
| "thermal_conv PWRMGR_TEMPERATURE_HIGH = THERMAL_TEMPERATURE_HIGH"
| "thermal_conv PWRMGR_TEMPERATURE_CRITICAL = THERMAL_TEMPERATURE_CRITICAL"
| "thermal_conv PWRMGR_TEMPERATURE_other = THERMAL_TEMPERATURE_UNKNOWN"

text \<open>
  The manufacturer library and the \<open>cpufreq\<close> files. A \<open>None\<close> of a file operation is a failed
  \<open>fopen\<close>; \<open>scaling_available_frequencies\<close> yields the numbers \<open>fscanf\<close> reads from the file, in
  order; \<open>scaling_cur_freq\<close> the number read, or \<open>None\<close> inside if no number could be read.
\<close>

record 'p mfr_api =
  mfrGetTempThresholds :: "'p \<Rightarrow> (int \<times> int) option \<times> 'p"
  mfrSetTempThresholds :: "real \<Rightarrow> real \<Rightarrow> 'p \<Rightarrow> bool \<times> 'p"
  mfrGetTemperature :: "'p \<Rightarrow> (PWRMgr_ThermalState_t \<times> int \<times> int) option \<times> 'p"
  scaling_cur_freq :: "'p \<Rightarrow> u32 option option"
  scaling_governor :: "'p \<Rightarrow> 'p option"
  scaling_setspeed :: "u32 \<Rightarrow> 'p \<Rightarrow> 'p option"
  scaling_available_frequencies :: "'p \<Rightarrow> u32 list option"

definition ThermalImpl_GetTemperatureThresholds ::
  "'p mfr_api \<Rightarrow> real \<Rightarrow> real \<Rightarrow> 'p \<Rightarrow> hresult \<times> real \<times> real \<times> 'p" where
  "ThermalImpl_GetTemperatureThresholds M tempHigh tempCritical p =
     (case mfrGetTempThresholds M p of
        (Some (high, critical), p1) \<Rightarrow> (ERROR_NONE, real_of_int high, real_of_int critical, p1)
      | (None, p1) \<Rightarrow> (ERROR_GENERAL, tempHigh, tempCritical, p1))"

definition ThermalImpl_SetTemperatureThresholds ::
  "'p mfr_api \<Rightarrow> real \<Rightarrow> real \<Rightarrow> 'p \<Rightarrow> hresult \<times> 'p" where
  "ThermalImpl_SetTemperatureThresholds M tempHigh tempCritical p =
     (let (ok, p1) = mfrSetTempThresholds M tempHigh tempCritical p
      in (if ok then ERROR_NONE else ERROR_GENERAL, p1))"

definition ThermalImpl_GetClockSpeed :: "'p mfr_api \<Rightarrow> u32 \<Rightarrow> 'p \<Rightarrow> hresult \<times> u32 \<times> 'p" where
  "ThermalImpl_GetClockSpeed M speed p =
     (case scaling_cur_freq M p of
        None \<Rightarrow> (ERROR_GENERAL, speed, p)
      | Some None \<Rightarrow> (ERROR_NONE, speed, p)
      | Some (Some v) \<Rightarrow> (ERROR_NONE, v, p))"

definition ThermalImpl_SetClockSpeed :: "'p mfr_api \<Rightarrow> u32 \<Rightarrow> 'p \<Rightarrow> hresult \<times> 'p" where
  "ThermalImpl_SetClockSpeed M speed p =
     (case scaling_governor M p of
        None \<Rightarrow> (ERROR_GENERAL, p)
      | Some p1 \<Rightarrow>
          (case scaling_setspeed M speed p1 of
             None \<Rightarrow> (ERROR_GENERAL, p1)
           | Some p2 \<Rightarrow>
               (let (r, cur_speed, p3) = ThermalImpl_GetClockSpeed M 0 p2
                in if r \<noteq> ERROR_NONE then (ERROR_NONE, p3)
                   else (if speed = cur_speed then ERROR_NONE else ERROR_GENERAL, p3))))"

definition ThermalImpl_DetemineClockSpeeds ::
  "'p mfr_api \<Rightarrow> u32 \<Rightarrow> u32 \<Rightarrow> u32 \<Rightarrow> 'p \<Rightarrow> hresult \<times> u32 \<times> u32 \<times> u32 \<times> 'p" where
  "ThermalImpl_DetemineClockSpeeds M n s m p =
     (case scaling_available_frequencies M p of
        None \<Rightarrow> (ERROR_GENERAL, n, s, m, p)
      | Some nums \<Rightarrow>
          (let freqs = take 32 nums; numFreqs = length freqs
           in if numFreqs = 0 then (ERROR_GENERAL, n, s, m, p)
              else (let freqList = sort freqs;
                        minimal = freqList ! 0;
                        scaled = freqList ! (numFreqs div 2);
                        normal = freqList ! (numFreqs - 1)
                    in (ERROR_NONE, if n = 0 then normal else n, if s = 0 then scaled else s,
                        if m = 0 then minimal else m, p))))"

definition ThermalImpl_GetTemperature ::
  "'p mfr_api \<Rightarrow> ThermalTemperature \<Rightarrow> real \<Rightarrow> real \<Rightarrow> 'p
     \<Rightarrow> hresult \<times> ThermalTemperature \<times> real \<times> real \<times> 'p" where
  "ThermalImpl_GetTemperature M curState curTemperature wifiTemperature p =
     (case mfrGetTemperature M p of
        (Some (state, temperatureValue, wifiTempValue), p1) \<Rightarrow>
          (ERROR_NONE, thermal_conv state, real_of_int temperatureValue, real_of_int wifiTempValue, p1)
      | (None, p1) \<Rightarrow> (ERROR_GENERAL, curState, curTemperature, wifiTemperature, p1))"

definition ThermalImpl :: "'p mfr_api \<Rightarrow> 'p thermal_platform" where
  "ThermalImpl M = \<lparr> tp_GetTemperatureThresholds = ThermalImpl_GetTemperatureThresholds M,
     tp_SetTemperatureThresholds = ThermalImpl_SetTemperatureThresholds M,
     tp_GetClockSpeed = ThermalImpl_GetClockSpeed M,
     tp_SetClockSpeed = ThermalImpl_SetClockSpeed M,
     tp_DetemineClockSpeeds = ThermalImpl_DetemineClockSpeeds M,
     tp_GetTemperature = ThermalImpl_GetTemperature M \<rparr>"

lemma sorted_picks:
  fixes l :: "'a :: linorder list"
  assumes "sorted l" and "l \<noteq> []"
  shows "l ! 0 \<le> l ! (length l div 2) \<and> l ! (length l div 2) \<le> l ! (length l - 1)
    \<and> {l ! 0, l ! (length l div 2), l ! (length l - 1)} \<subseteq> set l
    \<and> (\<forall>f \<in> set l. l ! 0 \<le> f \<and> f \<le> l ! (length l - 1))"
proof -
  have len: "0 < length l" "length l div 2 < length l" "length l - 1 < length l"
    using assms(2) by simp_all
  have lo: "l ! 0 \<le> l ! i" and hi: "l ! i \<le> l ! (length l - 1)" if "i < length l" for i
    using that assms(1) by (auto intro!: sorted_nth_mono)
  have "\<forall>f \<in> set l. l ! 0 \<le> f \<and> f \<le> l ! (length l - 1)"
    using lo hi by (auto simp: in_set_conv_nth)
  moreover have "{l ! 0, l ! (length l div 2), l ! (length l - 1)} \<subseteq> set l"
    using nth_mem [OF len(1)] nth_mem [OF len(2)] nth_mem [OF len(3)] by simp
  ultimately show ?thesis using lo [OF len(2)] hi [OF len(2)] by blast
qed

lemma ThermalImpl_speeds_ordered:
  assumes "ThermalImpl_DetemineClockSpeeds M 0 0 0 p = (ERROR_NONE, n, s, m, q)"
  shows "m \<le> s \<and> s \<le> n \<and> (\<exists>nums. scaling_available_frequencies M p = Some nums
           \<and> {m, s, n} \<subseteq> set (take 32 nums) \<and> (\<forall>f \<in> set (take 32 nums). m \<le> f \<and> f \<le> n))"
proof -
  obtain nums where nums: "scaling_available_frequencies M p = Some nums"
    using assms by (auto simp: ThermalImpl_DetemineClockSpeeds_def split: option.splits)
  define l where "l = sort (take 32 nums)"
  have set_l: "set l = set (take 32 nums)" and sorted_l: "sorted l"
    and length_l: "length l = length (take 32 nums)" by (simp_all add: l_def)
  have ne: "take 32 nums \<noteq> []"
    using assms nums by (auto simp: ThermalImpl_DetemineClockSpeeds_def Let_def split: if_splits)
  have "l \<noteq> []" using ne length_l by (metis length_0_conv)
  have eqs: "m = l ! 0" "s = l ! (length l div 2)" "n = l ! (length l - 1)"
    using assms nums
    by (auto simp: ThermalImpl_DetemineClockSpeeds_def Let_def l_def split: if_splits)
  show ?thesis
    using sorted_picks [OF sorted_l \<open>l \<noteq> []\<close>] nums unfolding eqs set_l by auto
qed

section \<open>Properties\<close>

text \<open>
  The clock speeds determined for an unconfigured system are available frequencies: the minimal
  one is the lowest and the normal one the highest of those read, with the scaled one in between.
\<close>

theorem clock_speeds_ordered:
  assumes "ThermalImpl_DetemineClockSpeeds M 0 0 0 p = (ERROR_NONE, n, s, m, q)"
  shows "m \<le> s \<and> s \<le> n \<and> (\<exists>nums. scaling_available_frequencies M p = Some nums
           \<and> {m, s, n} \<subseteq> set (take 32 nums)
           \<and> list_all (\<lambda>f. m \<le> f \<and> f \<le> n) (take 32 nums))"
  using ThermalImpl_speeds_ordered [OF assms] by (auto simp: list_all_iff)

definition example_mfr :: "unit mfr_api" where
  "example_mfr = \<lparr> mfrGetTempThresholds = (\<lambda>p. (None, p)), mfrSetTempThresholds = (\<lambda>a b p. (True, p)),
     mfrGetTemperature = (\<lambda>p. (None, p)), scaling_cur_freq = (\<lambda>p. None),
     scaling_governor = (\<lambda>p. None), scaling_setspeed = (\<lambda>s p. None),
     scaling_available_frequencies = (\<lambda>p. Some [1000, 600, 1500, 800]) \<rparr>"

theorem clock_speeds_ordered_witness:
  "(600 :: u32) \<le> 1000 \<and> (1000 :: u32) \<le> 1500
   \<and> ThermalImpl_DetemineClockSpeeds example_mfr 0 0 0 () = (ERROR_NONE, 1500, 1000, 600, ())"
proof -
  have eq: "ThermalImpl_DetemineClockSpeeds example_mfr 0 0 0 () = (ERROR_NONE, 1500, 1000, 600, ())"
    by (simp add: ThermalImpl_DetemineClockSpeeds_def example_mfr_def Let_def)
  show ?thesis using clock_speeds_ordered [OF eq] eq by simp
qed

text \<open>
  The power state codes of the vendor library and the plugin's power states correspond: a state
  set on the hardware is read back as that state.
\<close>

theorem power_codes_roundtrip:
  assumes "plat_power_ok H"
  shows "hal_conv_from_plat H (hal_conv_to_plat H s) = s"
  by (rule hal_conv_roundtrip [OF assms])

theorem power_codes_roundtrip_witness:
  "hal_conv_from_plat \<lparr> PWRMGR_POWERSTATE_OFF = 0, PWRMGR_POWERSTATE_ON = 2, PWRMGR_POWERSTATE_STANDBY = 1,
     PWRMGR_POWERSTATE_STANDBY_LIGHT_SLEEP = 3, PWRMGR_POWERSTATE_STANDBY_DEEP_SLEEP = 4,
     PWRMGR_POWERSTATE_MAX = 5, PWRMGR_SUCCESS = 0, PWRMGR_INVALID_ARGUMENT = 1,
     PWRMGR_NOT_INITIALIZED = 3, PWRMGR_SET_FAILURE = 5, PWRMGR_GET_FAILURE = 6 \<rparr> 4
   = POWER_STATE_STANDBY_DEEP_SLEEP"
  using power_codes_roundtrip [of "\<lparr> PWRMGR_POWERSTATE_OFF = 0, PWRMGR_POWERSTATE_ON = 2, PWRMGR_POWERSTATE_STANDBY = 1,
     PWRMGR_POWERSTATE_STANDBY_LIGHT_SLEEP = 3, PWRMGR_POWERSTATE_STANDBY_DEEP_SLEEP = 4,
     PWRMGR_POWERSTATE_MAX = 5, PWRMGR_SUCCESS = 0, PWRMGR_INVALID_ARGUMENT = 1,
     PWRMGR_NOT_INITIALIZED = 3, PWRMGR_SET_FAILURE = 5, PWRMGR_GET_FAILURE = 6 \<rparr>"
     POWER_STATE_STANDBY_DEEP_SLEEP]
  by (simp add: plat_power_ok_def power_codes_def)

end
