(* ===== verification/PersistSettings.thy ===== *)
theory PersistSettings imports PlatformHal begin

text \<open>
  The persistent settings of the power manager (\<open>PowerManager/Settings.h\<close>, \<open>Settings.cpp\<close>), down
  to the bytes of the settings file.

  A file system maps paths to contents; \<open>fs_noopen\<close> and \<open>fs_nowrite\<close> are the paths where
  \<open>open\<close> and \<open>write\<close> fail. \<open>lseek\<close> to the start of a regular file succeeds, and \<open>read\<close> and
  \<open>write\<close> of a few bytes transfer all of them. The structure is laid out as on the targets: 32-bit
  little-endian integers and enumerations, a one-byte \<open>bool\<close> aligned to the end of the word, which
  gives \<open>sizeof\<close> 64 with the 32 bytes of padding and \<open>Size()\<close> 32. Monotonic time is in
  nanoseconds. The lemmas: what \<open>Save\<close> writes \<open>Load\<close> reads back; a file that is not a V1
  settings file is replaced by the defaults; the state before the reboot survives restarts.
\<close>

section \<open>Files\<close>

record fs =
  fs_data :: "string \<Rightarrow> u8 list option"
  fs_noopen :: "string \<Rightarrow> bool"
  fs_nowrite :: "string \<Rightarrow> bool"

definition fs_exists :: "fs \<Rightarrow> string \<Rightarrow> bool" where
  "fs_exists f path \<longleftrightarrow> fs_data f path \<noteq> None"

definition fs_content :: "fs \<Rightarrow> string \<Rightarrow> u8 list" where
  "fs_content f path = (case fs_data f path of None \<Rightarrow> [] | Some bs \<Rightarrow> bs)"

definition fs_create :: "fs \<Rightarrow> string \<Rightarrow> fs" where
  "fs_create f path = f\<lparr>fs_data := (fs_data f)(path \<mapsto> fs_content f path)\<rparr>"

definition fs_write :: "fs \<Rightarrow> string \<Rightarrow> u8 list \<Rightarrow> bool \<times> fs" where
  "fs_write f path bs =
     (if fs_nowrite f path then (False, f)
      else (True, f\<lparr>fs_data := (fs_data f)(path \<mapsto> bs @ drop (length bs) (fs_content f path))\<rparr>))"

section \<open>The settings and their file format\<close>

record Settings =
  st_magic :: u32
  st_version :: u32
  st_powerState :: PowerState
  st_powerStateBeforeReboot :: PowerState
  st_deepSleepTimeout :: u32
  st_nwStandbyMode :: bool
  st_lastUpdateTime :: int

definition kSettingsFilePath :: string where
  "kSettingsFilePath = ''/opt/uimgr_settings.bin''"

definition kRamSettingsFilePath :: string where
  "kRamSettingsFilePath = ''/tmp/uimgr_settings.bin''"

definition Settings_ctor :: "int \<Rightarrow> Settings" where
  "Settings_ctor now = \<lparr> st_magic = 0, st_version = 0xFFFFFFFF, st_powerState = POWER_STATE_ON,
     st_powerStateBeforeReboot = POWER_STATE_ON, st_deepSleepTimeout = 8 * 60 * 60,
     st_nwStandbyMode = False, st_lastUpdateTime = now \<rparr>"

definition Settings_SetPowerState :: "PowerState \<Rightarrow> int \<Rightarrow> Settings \<Rightarrow> Settings" where
  "Settings_SetPowerState powerState now s =
     (if st_powerState s \<noteq> powerState
      then s\<lparr>st_powerState := powerState, st_lastUpdateTime := now\<rparr> else s)"

definition Settings_InactiveDuration :: "int \<Rightarrow> Settings \<Rightarrow> int" where
  "Settings_InactiveDuration now s =
     (if st_powerState s \<noteq> POWER_STATE_ON then tdiv (now - st_lastUpdateTime s) 1000000000 else 0)"

definition UIMGR_SETTINGS_MAGIC :: u32 where
  "UIMGR_SETTINGS_MAGIC = 0xFEBEEFAC"

fun V1_conv_to :: "plat_power_h \<Rightarrow> PowerState \<Rightarrow> u32" where
  "V1_conv_to H POWER_STATE_OFF = PWRMGR_POWERSTATE_OFF H"
| "V1_conv_to H POWER_STATE_ON = PWRMGR_POWERSTATE_ON H"
| "V1_conv_to H POWER_STATE_STANDBY = PWRMGR_POWERSTATE_STANDBY H"
| "V1_conv_to H POWER_STATE_STANDBY_LIGHT_SLEEP = PWRMGR_POWERSTATE_STANDBY_LIGHT_SLEEP H"
| "V1_conv_to H POWER_STATE_STANDBY_DEEP_SLEEP = PWRMGR_POWERSTATE_STANDBY_DEEP_SLEEP H"
| "V1_conv_to H POWER_STATE_UNKNOWN = PWRMGR_POWERSTATE_MAX H"

definition V1_conv_from :: "plat_power_h \<Rightarrow> u32 \<Rightarrow> PowerState" where
  "V1_conv_from H state =
     (if state = PWRMGR_POWERSTATE_OFF H then POWER_STATE_OFF
      else if state = PWRMGR_POWERSTATE_ON H then POWER_STATE_ON
      else if state = PWRMGR_POWERSTATE_STANDBY H then POWER_STATE_STANDBY
      else if state = PWRMGR_POWERSTATE_STANDBY_LIGHT_SLEEP H then POWER_STATE_STANDBY_LIGHT_SLEEP
      else if state = PWRMGR_POWERSTATE_STANDBY_DEEP_SLEEP H then POWER_STATE_STANDBY_DEEP_SLEEP
      else POWER_STATE_UNKNOWN)"

definition V1_Size :: nat where
  "V1_Size = 64 - 32"

text \<open>The bytes \<open>PWRMgr_Settings_t\<close> occupies up to \<open>Size()\<close>; the LED fields are unused.\<close>

definition V1_bytes :: "plat_power_h \<Rightarrow> Settings \<Rightarrow> u8 list" where
  "V1_bytes H s = le32 (st_magic s) @ le32 (st_version s) @ le32 (of_nat V1_Size)
     @ le32 (V1_conv_to H (st_powerState s)) @ le32 0 @ le32 0
     @ le32 (st_deepSleepTimeout s) @ [if st_nwStandbyMode s then 1 else 0, 0, 0, 0]"

definition V1_Load :: "plat_power_h \<Rightarrow> u32 \<Rightarrow> u8 list \<Rightarrow> Settings \<Rightarrow> Settings option" where
  "V1_Load H header_length content s =
     (if header_length = of_nat V1_Size then
        (if length content < V1_Size then None
         else Some (s\<lparr> st_magic := rd32 content 0, st_version := rd32 content 4,
                       st_powerState := V1_conv_from H (rd32 content 12),
                       st_deepSleepTimeout := rd32 content 24,
                       st_nwStandbyMode := (content ! 28 \<noteq> 0) \<rparr>))
      else None)"

definition V1_Save :: "plat_power_h \<Rightarrow> Settings \<Rightarrow> string \<Rightarrow> fs \<Rightarrow> bool \<times> fs" where
  "V1_Save H s path f = fs_write f path (V1_bytes H s)"

definition V1_initDefaults :: "Settings \<Rightarrow> Settings" where
  "V1_initDefaults s = s\<lparr>st_magic := UIMGR_SETTINGS_MAGIC, st_version := 1\<rparr>"

section \<open>Load and Save\<close>

text \<open>\<open>Settings::Load\<close> up to the closing of the file.\<close>

definition Settings_load_file :: "plat_power_h \<Rightarrow> string \<Rightarrow> int \<Rightarrow> fs \<Rightarrow> Settings \<times> fs" where
  "Settings_load_file H path now f =
     (if fs_noopen f path then (Settings_ctor now, f)
      else let f1 = fs_create f path;
               content = fs_content f1 path;
               loaded = (if 12 \<le> length content
                         then (if rd32 content 4 = 1
                               then V1_Load H (rd32 content 8) content (Settings_ctor now) else None)
                         else None)
           in case loaded of
                Some s \<Rightarrow> (s, f1)
              | None \<Rightarrow> (let s = V1_initDefaults (Settings_ctor now)
                         in (s, snd (V1_Save H s path f1))))"

definition Settings_Save :: "plat_power_h \<Rightarrow> Settings \<Rightarrow> string \<Rightarrow> fs \<Rightarrow> bool \<times> fs" where
  "Settings_Save H s path f =
     (if fs_noopen f path then (False, f) else V1_Save H s path (fs_create f path))"

text \<open>
  \<open>Settings::Load\<close>: the settings file, then the power state before the reboot from the RAM copy,
  which the first load after a boot creates. \<open>platco\<close> is the build option
  \<open>PLATCO_BOOTTO_STANDBY\<close>.
\<close>

definition Settings_Load :: "plat_power_h \<Rightarrow> bool \<Rightarrow> string \<Rightarrow> int \<Rightarrow> fs \<Rightarrow> Settings \<times> fs" where
  "Settings_Load H platco path now f =
     (let (s, f1) = Settings_load_file H path now f
      in if path = kRamSettingsFilePath then (s, f1)
         else
           let s1 = s\<lparr>st_powerStateBeforeReboot := st_powerState s\<rparr>;
               (s2, f2) =
                 (if \<not> fs_exists f1 kRamSettingsFilePath
                  then (s1, snd (Settings_Save H s1 kRamSettingsFilePath f1))
                  else (let (ram, f') = Settings_load_file H kRamSettingsFilePath now f1
                        in (s1\<lparr>st_powerStateBeforeReboot := st_powerState ram\<rparr>, f')));
               s3 = (if platco \<and> \<not> fs_exists f2 ''/tmp/pwrmgr_restarted''
                     then s2\<lparr>st_powerState := POWER_STATE_STANDBY\<rparr> else s2)
           in (s3, f2))"

section \<open>Reading back what was written\<close>

lemma V1_conv_hal: "V1_conv_to = hal_conv_to_plat" "V1_conv_from = hal_conv_from_plat"
proof -
  have "V1_conv_to H s = hal_conv_to_plat H s" for H s by (cases s) simp_all
  then show "V1_conv_to = hal_conv_to_plat" by (intro ext)
  show "V1_conv_from = hal_conv_from_plat"
    by (intro ext) (simp add: V1_conv_from_def hal_conv_from_plat_def)
qed

lemma length_V1_bytes [simp]: "length (V1_bytes H s) = 32"
  by (simp add: V1_bytes_def)

lemma V1_bytes_fields:
  "rd32 (V1_bytes H s @ t) 0 = st_magic s"
  "rd32 (V1_bytes H s @ t) 4 = st_version s"
  "rd32 (V1_bytes H s @ t) 8 = of_nat V1_Size"
  "rd32 (V1_bytes H s @ t) 12 = V1_conv_to H (st_powerState s)"
  "rd32 (V1_bytes H s @ t) 24 = st_deepSleepTimeout s"
  "(V1_bytes H s @ t) ! 28 = (if st_nwStandbyMode s then 1 else 0)"
  by (simp_all add: V1_bytes_def rd32_def le32_def le32_parts)

lemma V1_Load_bytes:
  assumes "plat_power_ok H"
  shows "V1_Load H (of_nat V1_Size) (V1_bytes H s @ t) s0 =
    Some (s0\<lparr> st_magic := st_magic s, st_version := st_version s,
      st_powerState := st_powerState s, st_deepSleepTimeout := st_deepSleepTimeout s,
      st_nwStandbyMode := st_nwStandbyMode s \<rparr>)"
  using assms by (simp add: V1_Load_def V1_bytes_fields V1_conv_hal hal_conv_roundtrip V1_Size_def)

text \<open>The fields the file holds, over freshly constructed settings.\<close>

definition restored :: "Settings \<Rightarrow> int \<Rightarrow> Settings" where
  "restored s now = (Settings_ctor now)\<lparr> st_magic := st_magic s, st_version := st_version s,
      st_powerState := st_powerState s, st_deepSleepTimeout := st_deepSleepTimeout s,
      st_nwStandbyMode := st_nwStandbyMode s \<rparr>"

lemma restored_simps [simp]:
  "st_powerState (restored s now) = st_powerState s"
  "st_version (restored s now) = st_version s"
  "st_deepSleepTimeout (restored s now) = st_deepSleepTimeout s"
  "st_nwStandbyMode (restored s now) = st_nwStandbyMode s"
  by (simp_all add: restored_def)

definition holds_V1 :: "plat_power_h \<Rightarrow> Settings \<Rightarrow> string \<Rightarrow> fs \<Rightarrow> bool" where
  "holds_V1 H s path f \<longleftrightarrow> (\<exists>t. fs_data f path = Some (V1_bytes H s @ t))"

lemma fs_create_frame [simp]:
  "fs_noopen (fs_create f p) = fs_noopen f" "fs_nowrite (fs_create f p) = fs_nowrite f"
  "fs_exists (fs_create f p) p" "fs_content (fs_create f p) q = fs_content f q"
  "q \<noteq> p \<Longrightarrow> fs_data (fs_create f p) q = fs_data f q"
  by (simp_all add: fs_create_def fs_exists_def fs_content_def)

lemma fs_create_id: "fs_data f p = Some c \<Longrightarrow> fs_create f p = f"
  by (simp add: fs_create_def fs_content_def fun_upd_idem)

lemma fs_write_frame:
  "fs_write f p bs = (ok, f') \<Longrightarrow> fs_noopen f' = fs_noopen f \<and> fs_nowrite f' = fs_nowrite f
     \<and> (\<forall>q. q \<noteq> p \<longrightarrow> fs_data f' q = fs_data f q)"
  by (auto simp: fs_write_def split: if_splits)

lemma Settings_Save_holds:
  assumes "\<not> fs_noopen f p" and "\<not> fs_nowrite f p"
  shows "fst (Settings_Save H s p f) \<and> holds_V1 H s p (snd (Settings_Save H s p f))"
  using assms by (simp add: Settings_Save_def V1_Save_def fs_write_def holds_V1_def)

lemma Settings_Save_frame:
  "fs_noopen (snd (Settings_Save H s p f)) = fs_noopen f"
  "fs_nowrite (snd (Settings_Save H s p f)) = fs_nowrite f"
  "q \<noteq> p \<Longrightarrow> fs_data (snd (Settings_Save H s p f)) q = fs_data f q"
  by (simp_all add: Settings_Save_def V1_Save_def fs_write_def)

lemma load_file_holds:
  assumes "plat_power_ok H" and "holds_V1 H s p f" and "st_version s = 1" and "\<not> fs_noopen f p"
  shows "Settings_load_file H p now f = (restored s now, f)"
proof -
  obtain t where t: "fs_data f p = Some (V1_bytes H s @ t)"
    using assms(2) by (auto simp: holds_V1_def)
  then have "fs_create f p = f" and "fs_content f p = V1_bytes H s @ t"
    by (simp_all add: fs_create_id fs_content_def)
  then show ?thesis
    using assms(1,3,4)
    by (simp add: Settings_load_file_def V1_bytes_fields V1_Load_bytes restored_def)
qed

lemma load_file_version:
  "\<not> fs_noopen f p \<Longrightarrow> Settings_load_file H p now f = (s, f') \<Longrightarrow> st_version s = 1"
  by (auto simp: Settings_load_file_def Let_def V1_Load_def V1_initDefaults_def
      split: if_splits option.splits)

lemma load_file_frame:
  assumes "Settings_load_file H p now f = (s, f')"
  shows "fs_noopen f' = fs_noopen f \<and> fs_nowrite f' = fs_nowrite f
    \<and> (\<forall>q. q \<noteq> p \<longrightarrow> fs_data f' q = fs_data f q)"
  using assms
  by (auto simp: Settings_load_file_def Let_def V1_Save_def fs_write_def
      split: if_splits option.splits)

text \<open>A file that cannot be used yields the defaults, and the file is repaired.\<close>

definition valid_V1_file :: "u8 list \<Rightarrow> bool" where
  "valid_V1_file c \<longleftrightarrow> 32 \<le> length c \<and> rd32 c 4 = 1 \<and> rd32 c 8 = 32"

lemma load_file_invalid:
  assumes "\<not> fs_noopen f p" and "\<not> valid_V1_file (fs_content f p)"
  shows "fst (Settings_load_file H p now f) = V1_initDefaults (Settings_ctor now)
    \<and> (\<not> fs_nowrite f p \<longrightarrow>
       holds_V1 H (V1_initDefaults (Settings_ctor now)) p (snd (Settings_load_file H p now f)))"
  using assms
  by (auto simp: Settings_load_file_def V1_Load_def V1_Size_def valid_V1_file_def Let_def
      V1_Save_def fs_write_def holds_V1_def split: if_splits)

section \<open>The power state before the reboot\<close>

lemma Load_cold_boot:
  assumes "plat_power_ok H" and "holds_V1 H s p f" and "st_version s = 1" and "\<not> fs_noopen f p"
    and "p \<noteq> kRamSettingsFilePath" and "\<not> fs_exists f kRamSettingsFilePath"
    and "\<not> fs_noopen f kRamSettingsFilePath" and "\<not> fs_nowrite f kRamSettingsFilePath"
  shows "\<exists>f'. Settings_Load H False p now f =
      ((restored s now)\<lparr>st_powerStateBeforeReboot := st_powerState s\<rparr>, f')
    \<and> holds_V1 H s kRamSettingsFilePath f' \<and> fs_data f' p = fs_data f p
    \<and> fs_noopen f' = fs_noopen f \<and> fs_nowrite f' = fs_nowrite f"
proof -
  let ?s1 = "(restored s now)\<lparr>st_powerStateBeforeReboot := st_powerState s\<rparr>"
  let ?f' = "snd (Settings_Save H ?s1 kRamSettingsFilePath f)"
  have "Settings_Load H False p now f = (?s1, ?f')"
    using assms by (simp add: Settings_Load_def Let_def load_file_holds [OF assms(1-4)])
  moreover have "holds_V1 H ?s1 kRamSettingsFilePath ?f'"
    using Settings_Save_holds assms(7,8) by blast
  then have "holds_V1 H s kRamSettingsFilePath ?f'"
    by (simp add: holds_V1_def V1_bytes_def restored_def)
  ultimately show ?thesis
    using assms(5) by (auto simp: Settings_Save_frame)
qed

lemma Load_restart:
  assumes "plat_power_ok H" and "holds_V1 H s p f" and "st_version s = 1" and "\<not> fs_noopen f p"
    and "p \<noteq> kRamSettingsFilePath" and "holds_V1 H r kRamSettingsFilePath f" and "st_version r = 1"
    and "\<not> fs_noopen f kRamSettingsFilePath"
  shows "Settings_Load H False p now f =
      ((restored s now)\<lparr>st_powerStateBeforeReboot := st_powerState r\<rparr>, f)"
proof -
  have "fs_exists f kRamSettingsFilePath"
    using assms(6) by (auto simp: holds_V1_def fs_exists_def)
  then show ?thesis
    using assms
    by (simp add: Settings_Load_def Let_def load_file_holds [OF assms(1-4)]
        load_file_holds [OF assms(1,6,7,8)])
qed

text \<open>
  An uptime of the device: the power manager changes the state and saves it, and is restarted,
  in any order.
\<close>

datatype uptime_act = SaveState PowerState | RestartPlugin

fun uptime :: "plat_power_h \<Rightarrow> int \<Rightarrow> uptime_act list \<Rightarrow> Settings \<times> fs \<Rightarrow> Settings \<times> fs" where
  "uptime H now [] sf = sf"
| "uptime H now (SaveState ps # acts) (s, f) =
     (let s1 = Settings_SetPowerState ps now s
      in uptime H now acts (s1, snd (Settings_Save H s1 kSettingsFilePath f)))"
| "uptime H now (RestartPlugin # acts) (s, f) =
     uptime H now acts (Settings_Load H False kSettingsFilePath now f)"

definition up_inv :: "plat_power_h \<Rightarrow> PowerState \<Rightarrow> Settings \<times> fs \<Rightarrow> bool" where
  "up_inv H boot sf \<longleftrightarrow> (case sf of (s, f) \<Rightarrow>
     st_version s = 1 \<and> st_powerStateBeforeReboot s = boot
     \<and> holds_V1 H s kSettingsFilePath f
     \<and> (\<exists>r. st_version r = 1 \<and> st_powerState r = boot \<and> holds_V1 H r kRamSettingsFilePath f)
     \<and> \<not> fs_noopen f kSettingsFilePath \<and> \<not> fs_nowrite f kSettingsFilePath
     \<and> \<not> fs_noopen f kRamSettingsFilePath)"

lemma paths_differ [simp]: "kSettingsFilePath \<noteq> kRamSettingsFilePath"
  by (simp add: kSettingsFilePath_def kRamSettingsFilePath_def)

lemma uptime_inv:
  assumes "up_inv H boot sf" and "plat_power_ok H"
  shows "up_inv H boot (uptime H now acts sf)"
  using assms
proof (induction H now acts sf rule: uptime.induct)
  case (1 H now sf)
  then show ?case by simp
next
  case (2 H now ps acts s f)
  let ?s1 = "Settings_SetPowerState ps now s"
  have "up_inv H boot (?s1, snd (Settings_Save H ?s1 kSettingsFilePath f))"
    using "2.prems" Settings_Save_holds [of f kSettingsFilePath H ?s1]
    by (auto simp: up_inv_def Settings_Save_frame Settings_SetPowerState_def holds_V1_def
        paths_differ [symmetric])
  then show ?case using "2.IH" [OF refl] "2.prems"(2) by (simp add: Let_def)
next
  case (3 H now acts s f)
  from "3.prems" obtain r where r: "st_version r = 1" "st_powerState r = boot"
    "holds_V1 H r kRamSettingsFilePath f" by (auto simp: up_inv_def)
  from "3.prems"(1) have s: "holds_V1 H s kSettingsFilePath f" "st_version s = 1"
    "\<not> fs_noopen f kSettingsFilePath" "\<not> fs_noopen f kRamSettingsFilePath"
    by (auto simp: up_inv_def)
  have "Settings_Load H False kSettingsFilePath now f =
      ((restored s now)\<lparr>st_powerStateBeforeReboot := boot\<rparr>, f)"
    using Load_restart [OF "3.prems"(2) s(1,2,3) paths_differ r(3,1) s(4)] r(2) by simp
  moreover have "V1_bytes H ((restored s now)\<lparr>st_powerStateBeforeReboot := boot\<rparr>) = V1_bytes H s"
    by (simp add: V1_bytes_def restored_def)
  ultimately have "up_inv H boot (Settings_Load H False kSettingsFilePath now f)"
    using "3.prems" by (simp add: up_inv_def holds_V1_def)
  then show ?case using "3.IH" "3.prems"(2) by simp
qed

section \<open>Properties\<close>

text \<open>
  C15. The power state before the reboot is the one saved last before it: after a cold boot, it
  stays so through every change of the power state and every restart of the plugin, until the
  RAM copy is gone.
\<close>

theorem before_reboot_kept:
  assumes "plat_power_ok H" and "holds_V1 H s kSettingsFilePath f" and "st_version s = 1"
    and "\<not> fs_exists f kRamSettingsFilePath"
    and "\<not> fs_noopen f kSettingsFilePath" and "\<not> fs_nowrite f kSettingsFilePath"
    and "\<not> fs_noopen f kRamSettingsFilePath" and "\<not> fs_nowrite f kRamSettingsFilePath"
  shows "st_powerStateBeforeReboot
      (fst (uptime H later acts (Settings_Load H False kSettingsFilePath now f))) = st_powerState s"
proof -
  obtain f' where load: "Settings_Load H False kSettingsFilePath now f =
      ((restored s now)\<lparr>st_powerStateBeforeReboot := st_powerState s\<rparr>, f')"
    and f': "holds_V1 H s kRamSettingsFilePath f'" "fs_data f' kSettingsFilePath = fs_data f kSettingsFilePath"
      "fs_noopen f' = fs_noopen f" "fs_nowrite f' = fs_nowrite f"
    using Load_cold_boot [OF assms(1,2,3,5) paths_differ assms(4,7,8)] by metis
  have "V1_bytes H ((restored s now)\<lparr>st_powerStateBeforeReboot := st_powerState s\<rparr>) = V1_bytes H s"
    by (simp add: V1_bytes_def restored_def)
  then have "up_inv H (st_powerState s) (Settings_Load H False kSettingsFilePath now f)"
    using assms f' unfolding load up_inv_def holds_V1_def by auto
  from uptime_inv [OF this assms(1), of later acts] show ?thesis by (simp add: up_inv_def case_prod_unfold)
qed

definition example_codes :: plat_power_h where
  "example_codes = \<lparr> PWRMGR_POWERSTATE_OFF = 0, PWRMGR_POWERSTATE_ON = 2, PWRMGR_POWERSTATE_STANDBY = 1,
     PWRMGR_POWERSTATE_STANDBY_LIGHT_SLEEP = 3, PWRMGR_POWERSTATE_STANDBY_DEEP_SLEEP = 4,
     PWRMGR_POWERSTATE_MAX = 5, PWRMGR_SUCCESS = 0, PWRMGR_INVALID_ARGUMENT = 1,
     PWRMGR_NOT_INITIALIZED = 3, PWRMGR_SET_FAILURE = 5, PWRMGR_GET_FAILURE = 6 \<rparr>"

lemma example_codes_ok: "plat_power_ok example_codes"
  by (simp add: plat_power_ok_def power_codes_def example_codes_def)

definition example_settings :: Settings where
  "example_settings = V1_initDefaults ((Settings_ctor 0)\<lparr>st_powerState := POWER_STATE_STANDBY\<rparr>)"

definition example_fs :: fs where
  "example_fs = \<lparr> fs_data = [kSettingsFilePath \<mapsto> V1_bytes example_codes example_settings],
     fs_noopen = (\<lambda>_. False), fs_nowrite = (\<lambda>_. False) \<rparr>"

lemma example_fs_simps:
  "holds_V1 example_codes example_settings kSettingsFilePath example_fs"
  "st_version example_settings = 1" "st_powerState example_settings = POWER_STATE_STANDBY"
  "\<not> fs_exists example_fs kRamSettingsFilePath"
  "\<not> fs_noopen example_fs p" "\<not> fs_nowrite example_fs p"
  by (simp_all add: example_fs_def example_settings_def holds_V1_def fs_exists_def V1_initDefaults_def
      paths_differ [symmetric])

theorem before_reboot_kept_witness:
  "st_powerStateBeforeReboot (fst (uptime example_codes 9 [SaveState POWER_STATE_ON, RestartPlugin]
     (Settings_Load example_codes False kSettingsFilePath 5 example_fs))) = POWER_STATE_STANDBY"
  using before_reboot_kept [of example_codes example_settings example_fs 9
      "[SaveState POWER_STATE_ON, RestartPlugin]" 5] example_codes_ok example_fs_simps by simp

text \<open>
  What \<open>Save\<close> writes \<open>Load\<close> reads back: the power state, deep sleep time-out and network standby
  mode survive, whatever was in the file before.
\<close>

theorem save_load_roundtrip:
  assumes "plat_power_ok H" and "st_version s = 1" and "\<not> fs_noopen f p" and "\<not> fs_nowrite f p"
  shows "let s' = fst (Settings_load_file H p now (snd (Settings_Save H s p f)))
    in st_powerState s' = st_powerState s \<and> st_deepSleepTimeout s' = st_deepSleepTimeout s
      \<and> st_nwStandbyMode s' = st_nwStandbyMode s"
proof -
  have "holds_V1 H s p (snd (Settings_Save H s p f))" using Settings_Save_holds [OF assms(3,4)] by blast
  then have "Settings_load_file H p now (snd (Settings_Save H s p f)) =
      (restored s now, snd (Settings_Save H s p f))"
    using assms by (intro load_file_holds) (simp_all add: Settings_Save_frame)
  then show ?thesis by simp
qed

theorem save_load_roundtrip_witness:
  "st_powerState (fst (Settings_load_file example_codes kRamSettingsFilePath 3
     (snd (Settings_Save example_codes example_settings kRamSettingsFilePath example_fs)))) = POWER_STATE_STANDBY"
  using save_load_roundtrip [OF example_codes_ok, of example_settings example_fs kRamSettingsFilePath 3]
    example_fs_simps by (simp add: Let_def)

text \<open>
  A file that is not a settings file of version 1 (too short, another version or length) gives
  the default settings and is replaced by them, so that the next load finds a valid file.
\<close>

theorem invalid_file_repaired:
  assumes "\<not> fs_noopen f p" and "\<not> fs_nowrite f p" and "\<not> valid_V1_file (fs_content f p)"
  shows "fst (Settings_load_file H p now f) = V1_initDefaults (Settings_ctor now)
    \<and> valid_V1_file (fs_content (snd (Settings_load_file H p now f)) p)"
proof -
  have eq: "fst (Settings_load_file H p now f) = V1_initDefaults (Settings_ctor now)"
    and "holds_V1 H (V1_initDefaults (Settings_ctor now)) p (snd (Settings_load_file H p now f))"
    using load_file_invalid [OF assms(1,3), of H now] assms(2) by auto
  then obtain t where
    "fs_data (snd (Settings_load_file H p now f)) p = Some (V1_bytes H (V1_initDefaults (Settings_ctor now)) @ t)"
    by (auto simp: holds_V1_def)
  then show ?thesis
    using eq by (simp add: fs_content_def valid_V1_file_def V1_bytes_fields V1_initDefaults_def V1_Size_def)
qed

theorem invalid_file_repaired_witness:
  "valid_V1_file (fs_content (snd (Settings_load_file example_codes ''/x'' 3
     (example_fs\<lparr>fs_data := [''/x'' \<mapsto> [1, 2, 3]]\<rparr>))) ''/x'')"
  using invalid_file_repaired [of "example_fs\<lparr>fs_data := [''/x'' \<mapsto> [1, 2, 3]]\<rparr>" "''/x''" example_codes 3]
  by (simp add: example_fs_def valid_V1_file_def fs_content_def)

end
