(* ===== verification/DeepSleep.thy ===== *)
theory DeepSleep imports PersistSettings begin

text \<open>
  Deep sleep (\<open>PowerManager/DeepSleepController.h\<close>, \<open>.cpp\<close>): how long the device sleeps, and the
  controller that puts it to sleep, retries and reports how it woke up.

  \<open>ds_env\<close> is what the controller calls: the platform of \<open>PlatformHal\<close>, the monotonic clock (in
  nanoseconds), \<open>sleep\<close> and the configuration files under \<open>/tmp\<close>, all over a hardware state \<open>'p\<close>.
  The operations return the notifications they send to their owner, which are always the last thing
  an operation does. The delayed entry is a job of the worker pool: \<open>ds_delayJob\<close> is its delay in
  milliseconds while it is scheduled.

  The lemmas: how often the hardware is asked to sleep and with which arguments, exactly one
  notification per activation, and the range of the wake-up time.
\<close>

section \<open>The wake-up time\<close>

datatype conf_scan = NoFile | ScanEof | ScanMismatch | ScanInt int

record tm =
  tm_day :: int
  tm_hour :: int
  tm_min :: int
  tm_sec :: int

record sysmgr_state =
  tz_error :: bool
  tz_state :: int
  tz_payload :: string

definition maptzValues :: "(string \<times> int) list" where
  "maptzValues =
     [(''HST11'', 11), (''HST11HDT,M3.2.0,M11.1.0'', 10),
      (''AKST'', 9), (''AKST09AKDT,M3.2.0,M11.1.0'', 8),
      (''PST08'', 8), (''PST08PDT,M3.2.0,M11.1.0'', 8),
      (''MST07'', 7), (''MST07MDT,M3.2.0,M11.1.0'', 6),
      (''CST06'', 6), (''CST06CDT,M3.2.0,M11.1.0'', 5),
      (''EST05'', 5), (''EST05EDT,M3.2.0,M11.1.0'', 4)]"

text \<open>\<open>sysmgr\<close> is the answer of the system manager, if the call succeeds.\<close>

definition getTZDiffInSec :: "sysmgr_state option \<Rightarrow> u32" where
  "getTZDiffInSec sysmgr =
     (let TZDiffTime = 6 * 3600 in
      case sysmgr of
        None \<Rightarrow> TZDiffTime
      | Some param \<Rightarrow>
          if tz_error param then TZDiffTime
          else if tz_state param = 2 then
            (if 1 < length (tz_payload param)
             then (case map_of maptzValues (tz_payload param) of
                     None \<Rightarrow> 0 | Some v \<Rightarrow> word_of_int (v * 3600))
             else TZDiffTime)
          else TZDiffTime)"

definition wakeup_limit :: u32 where
  "wakeup_limit = 6 * 24 * 60 * 60"

definition getWakeupTime ::
  "conf_scan \<Rightarrow> (int \<Rightarrow> tm option) \<Rightarrow> (tm \<Rightarrow> int) \<Rightarrow> u32 \<Rightarrow> sysmgr_state option \<Rightarrow> int \<Rightarrow> u32" where
  "getWakeupTime file localtime mktime secure_random sysmgr now =
     (let override = (\<lambda>wakeupTimeInMin :: u32.
            if wakeup_limit < wakeupTimeInMin * 60 then wakeup_limit else wakeupTimeInMin * 60);
          calculated =
            (case localtime now of
               None \<Rightarrow> 0
             | Some res \<Rightarrow>
                 (let base =
                    (if 0 \<le> tm_hour res \<and> tm_hour res < 2
                     then word_of_int (mktime (res\<lparr>tm_hour := 2, tm_min := 0, tm_sec := 0\<rparr>) - now)
                     else word_of_int (mktime (res\<lparr>tm_hour := 23, tm_min := 59, tm_sec := 60\<rparr>) - now)
                            + 7200)
                  in base + secure_random mod 3600 + getTZDiffInSec sysmgr))
      in case file of
           NoFile \<Rightarrow> calculated
         | ScanEof \<Rightarrow> calculated
         | ScanMismatch \<Rightarrow> override 5
         | ScanInt v \<Rightarrow> override (word_of_int v))"

definition DeepSleepWakeupSettings_timeout :: "bool \<Rightarrow> Settings \<Rightarrow> u32 \<Rightarrow> u32" where
  "DeepSleepWakeupSettings_timeout isDeepSleepTimeoutSet settings wakeupTime =
     (if isDeepSleepTimeoutSet then st_deepSleepTimeout settings else wakeupTime)"

definition DeepSleepWakeupSettings_SetTimeout ::
  "plat_power_h \<Rightarrow> u32 \<Rightarrow> Settings \<Rightarrow> fs \<Rightarrow> bool \<times> Settings \<times> fs" where
  "DeepSleepWakeupSettings_SetTimeout H timeout settings f =
     (let s1 = settings\<lparr>st_deepSleepTimeout := timeout\<rparr>
      in (True, s1, snd (Settings_Save H s1 kSettingsFilePath f)))"

section \<open>The controller\<close>

datatype DeepSleepState = Failed | NotStarted | InProgress | Completed

datatype ds_event =
    onDeepSleepTimerWakeup int
  | onDeepSleepUserWakeup bool
  | onDeepSleepFailed

record 'p ds_env =
  de_platform :: "'p deepsleep_platform"
  de_clock :: "'p \<Rightarrow> int"
  de_sleep :: "nat \<Rightarrow> 'p \<Rightarrow> 'p"
  de_conf :: "string \<Rightarrow> 'p \<Rightarrow> conf_scan"

record DeepSleepController =
  ds_deepSleepState :: DeepSleepState
  ds_startTime :: int
  ds_delaySec :: u32
  ds_wakeupTimeoutSec :: u32
  ds_delayJob :: "u32 option"
  ds_nwStandbyMode :: bool

definition DeepSleepController_ctor :: DeepSleepController where
  "DeepSleepController_ctor = \<lparr> ds_deepSleepState = NotStarted, ds_startTime = 0, ds_delaySec = 0,
     ds_wakeupTimeoutSec = 0, ds_delayJob = None, ds_nwStandbyMode = False \<rparr>"

definition IsDeepSleepInProgress :: "DeepSleepController \<Rightarrow> bool" where
  "IsDeepSleepInProgress c \<longleftrightarrow> ds_deepSleepState c = InProgress"

definition Elapsed :: "'p ds_env \<Rightarrow> DeepSleepController \<Rightarrow> 'p \<Rightarrow> int" where
  "Elapsed E c p = (if ds_startTime c = 0 then 0 else de_clock E p - ds_startTime c)"

definition DeepSleepController_Deactivate ::
  "'p ds_env \<Rightarrow> DeepSleepController \<Rightarrow> 'p \<Rightarrow> hresult \<times> DeepSleepController \<times> 'p" where
  "DeepSleepController_Deactivate E c p =
     (let c1 = c\<lparr>ds_delayJob := None\<rparr>;
          (errorCode, p1) = dp_DeepSleepWakeup (de_platform E) p
      in (errorCode, c1\<lparr>ds_deepSleepState := NotStarted\<rparr>, p1))"

fun read_integer_conf :: "conf_scan \<Rightarrow> u32 \<Rightarrow> bool \<times> u32" where
  "read_integer_conf (ScanInt v) val = (True, word_of_int v)"
| "read_integer_conf NoFile val = (False, val)"
| "read_integer_conf ScanEof val = (False, val)"
| "read_integer_conf ScanMismatch val = (False, val)"

definition deepSleepTimerWakeup ::
  "'p ds_env \<Rightarrow> DeepSleepController \<Rightarrow> 'p \<Rightarrow> 'p \<times> ds_event list" where
  "deepSleepTimerWakeup E c p =
     (let p1 = (if uint (ds_wakeupTimeoutSec c) * 1000000000 \<le> Elapsed E c p then p
                else snd (snd (dp_GetLastWakeupReason (de_platform E) WAKEUP_REASON_UNKNOWN p)))
      in (p1, [onDeepSleepTimerWakeup (sint (ds_wakeupTimeoutSec c))]))"

definition enterDeepSleepDelayed ::
  "'p ds_env \<Rightarrow> DeepSleepController \<Rightarrow> 'p \<Rightarrow> DeepSleepController \<times> 'p \<times> ds_event list" where
  "enterDeepSleepDelayed E c p =
     (let c1 = c\<lparr>ds_delayJob := None\<rparr>;
          (status, userWakeup, p1) =
             dp_SetDeepSleep (de_platform E) (ds_wakeupTimeoutSec c1) False False p
      in if status \<noteq> ERROR_NONE
         then (c1\<lparr>ds_deepSleepState := Failed\<rparr>, p1, [onDeepSleepFailed])
         else let c2 = c1\<lparr>ds_deepSleepState := Completed\<rparr>
              in if userWakeup then (c2, p1, [onDeepSleepUserWakeup userWakeup])
                 else (let (p2, evs) = deepSleepTimerWakeup E c2 p1 in (c2, p2, evs)))"

text \<open>The loop of \<open>enterDeepSleepNow\<close>: whether it failed, \<open>userWakeup\<close>, and the new states.\<close>

fun ds_retry ::
  "'p ds_env \<Rightarrow> nat \<Rightarrow> bool \<Rightarrow> DeepSleepController \<Rightarrow> 'p \<Rightarrow> bool \<times> bool \<times> DeepSleepController \<times> 'p"
where
  "ds_retry E 0 userWakeup c p = (True, userWakeup, c, p)"
| "ds_retry E (Suc retryCount) userWakeup c p =
     (let (errorCode, userWakeup1, p1) =
        dp_SetDeepSleep (de_platform E) (ds_wakeupTimeoutSec c) userWakeup (ds_nwStandbyMode c) p
      in if errorCode \<noteq> ERROR_NONE
         then ds_retry E retryCount userWakeup1 (c\<lparr>ds_deepSleepState := Failed\<rparr>)
                (if retryCount \<noteq> 0 then de_sleep E 5 p1 else p1)
         else (False, userWakeup1, c\<lparr>ds_deepSleepState := Completed\<rparr>, p1))"

definition enterDeepSleepNow ::
  "'p ds_env \<Rightarrow> DeepSleepController \<Rightarrow> 'p \<Rightarrow> DeepSleepController \<times> 'p \<times> ds_event list" where
  "enterDeepSleepNow E c p =
     (let p0 = de_sleep E 1 p;
          (failed, userWakeup, c1, p1) = ds_retry E 5 False c p0
      in if failed then (c1, p1, [onDeepSleepFailed])
         else if userWakeup then (c1, p1, [onDeepSleepUserWakeup userWakeup])
         else (let (p2, evs) = deepSleepTimerWakeup E c1 p1 in (c1, p2, evs)))"

definition performActivate ::
  "'p ds_env \<Rightarrow> u32 \<Rightarrow> bool \<Rightarrow> DeepSleepController \<Rightarrow> 'p \<Rightarrow> DeepSleepController \<times> 'p \<times> ds_event list"
where
  "performActivate E timeOut nwStandbyMode c p =
     (if \<not> IsDeepSleepInProgress c then
        let c1 = c\<lparr>ds_deepSleepState := InProgress, ds_startTime := de_clock E p,
                   ds_wakeupTimeoutSec := timeOut\<rparr>;
            (ok1, delayTimeOut) = read_integer_conf (de_conf E ''/tmp/deepSleepTimer'' p) 0;
            c2 = (if ok1 \<and> delayTimeOut \<noteq> 0 then c1\<lparr>ds_delaySec := delayTimeOut\<rparr> else c1);
            (ok2, wakeupTimer) = read_integer_conf (de_conf E ''/tmp/deepSleepTimerVal'' p) 0;
            c3 = (if ok2 \<and> wakeupTimer \<noteq> 0 then c2\<lparr>ds_wakeupTimeoutSec := wakeupTimer\<rparr> else c2)
        in if ds_delaySec c3 \<noteq> 0
           then (c3\<lparr>ds_delayJob := Some (ds_delaySec c3 * 1000)\<rparr>, p, [])
           else enterDeepSleepNow E c3 p
      else (c, p, []))"

section \<open>What the hardware is asked\<close>

text \<open>
  The same environment over a state that also records the \<open>SetDeepSleep\<close> calls: their time-out,
  the network standby mode and the result.
\<close>

type_synonym ds_log = "(u32 \<times> bool \<times> hresult) list"

definition logged :: "'p ds_env \<Rightarrow> ('p \<times> ds_log) ds_env" where
  "logged E = \<lparr>
     de_platform = \<lparr>
       dp_SetDeepSleep = (\<lambda>t u n (p, l). case dp_SetDeepSleep (de_platform E) t u n p of
          (e, u', p') \<Rightarrow> (e, u', p', l @ [(t, n, e)])),
       dp_DeepSleepWakeup = (\<lambda>(p, l). case dp_DeepSleepWakeup (de_platform E) p of (e, p') \<Rightarrow> (e, p', l)),
       dp_GetLastWakeupReason = (\<lambda>r (p, l). case dp_GetLastWakeupReason (de_platform E) r p of
          (e, r', p') \<Rightarrow> (e, r', p', l)),
       dp_GetLastWakeupKeyCode = (\<lambda>k (p, l). case dp_GetLastWakeupKeyCode (de_platform E) k p of
          (e, k', p') \<Rightarrow> (e, k', p', l)) \<rparr>,
     de_clock = (\<lambda>(p, l). de_clock E p),
     de_sleep = (\<lambda>n (p, l). (de_sleep E n p, l)),
     de_conf = (\<lambda>path (p, l). de_conf E path p) \<rparr>"

text \<open>The calls of one activation: same arguments, all failed but possibly the last, at most \<open>n\<close>.\<close>

definition attempts :: "nat \<Rightarrow> u32 \<Rightarrow> bool \<Rightarrow> bool \<Rightarrow> ds_log \<Rightarrow> bool" where
  "attempts n t nw failed l \<longleftrightarrow>
     length l \<le> n \<and> (\<forall>(t', nw', e) \<in> set l. t' = t \<and> nw' = nw)
     \<and> (if failed then length l = n \<and> (\<forall>(t', nw', e) \<in> set l. e \<noteq> ERROR_NONE)
        else l \<noteq> [] \<and> (\<forall>(t', nw', e) \<in> set (butlast l). e \<noteq> ERROR_NONE)
             \<and> snd (snd (last l)) = ERROR_NONE)"

lemma attempts_Cons:
  assumes "attempts n t nw failed l" and "e \<noteq> ERROR_NONE"
  shows "attempts (Suc n) t nw failed ((t, nw, e) # l)"
  using assms by (auto simp: attempts_def)

lemma ds_retry_log:
  "\<exists>l'. snd (snd (snd (snd (ds_retry (logged E) n u c (p, l))))) = l @ l'
     \<and> attempts n (ds_wakeupTimeoutSec c) (ds_nwStandbyMode c) (fst (ds_retry (logged E) n u c (p, l))) l'
     \<and> (0 < n \<longrightarrow> ds_deepSleepState (fst (snd (snd (ds_retry (logged E) n u c (p, l))))) =
          (if fst (ds_retry (logged E) n u c (p, l)) then Failed else Completed))"
proof (induction n arbitrary: u c p l)
  case 0
  then show ?case by (simp add: attempts_def)
next
  case (Suc n)
  obtain e u1 p1 where call:
    "dp_SetDeepSleep (de_platform E) (ds_wakeupTimeoutSec c) u (ds_nwStandbyMode c) p = (e, u1, p1)"
    by (metis prod_cases3)
  let ?l = "l @ [(ds_wakeupTimeoutSec c, ds_nwStandbyMode c, e)]"
  show ?case
  proof (cases "e = ERROR_NONE")
    case True
    then show ?thesis using call by (simp add: logged_def attempts_def)
  next
    case False
    let ?c = "c\<lparr>ds_deepSleepState := Failed\<rparr>" and ?p = "if n \<noteq> 0 then de_sleep E 5 p1 else p1"
    obtain l' where l': "snd (snd (snd (snd (ds_retry (logged E) n u1 ?c (?p, ?l))))) = ?l @ l'"
      "attempts n (ds_wakeupTimeoutSec c) (ds_nwStandbyMode c) (fst (ds_retry (logged E) n u1 ?c (?p, ?l))) l'"
      "0 < n \<longrightarrow> ds_deepSleepState (fst (snd (snd (ds_retry (logged E) n u1 ?c (?p, ?l))))) =
          (if fst (ds_retry (logged E) n u1 ?c (?p, ?l)) then Failed else Completed)"
      using Suc [of u1 ?c ?p ?l] by auto
    have eq: "ds_retry (logged E) (Suc n) u c (p, l) = ds_retry (logged E) n u1 ?c (?p, ?l)"
      using call False by (simp add: logged_def)
    have "n = 0 \<Longrightarrow> ds_deepSleepState (fst (snd (snd (ds_retry (logged E) n u1 ?c (?p, ?l))))) = Failed
        \<and> fst (ds_retry (logged E) n u1 ?c (?p, ?l))" by simp
    then show ?thesis
      unfolding eq
      using l' attempts_Cons [OF l'(2) False]
      by (intro exI [of _ "(ds_wakeupTimeoutSec c, ds_nwStandbyMode c, e) # l'"]) auto
  qed
qed

lemma ds_retry_args:
  "ds_wakeupTimeoutSec (fst (snd (snd (ds_retry E n u c p)))) = ds_wakeupTimeoutSec c
   \<and> ds_nwStandbyMode (fst (snd (snd (ds_retry E n u c p)))) = ds_nwStandbyMode c"
  by (induction n arbitrary: u c p) (simp_all add: Let_def split: prod.splits)

text \<open>Recording changes nothing else.\<close>

lemma ds_retry_erase:
  "(case ds_retry (logged E) n u c (p, l) of (f, u', c', p', l') \<Rightarrow> (f, u', c', p')) = ds_retry E n u c p"
proof (induction n arbitrary: u c p l)
  case (Suc n)
  obtain e u1 p1 where
    "dp_SetDeepSleep (de_platform E) (ds_wakeupTimeoutSec c) u (ds_nwStandbyMode c) p = (e, u1, p1)"
    by (metis prod_cases3)
  then show ?case using Suc by (simp add: logged_def)
qed simp

lemma deepSleepTimerWakeup_logged:
  "deepSleepTimerWakeup (logged E) c (p, l) =
     (case deepSleepTimerWakeup E c p of (p', evs) \<Rightarrow> ((p', l), evs))"
  by (simp add: deepSleepTimerWakeup_def logged_def Elapsed_def Let_def split: prod.splits)

lemma deepSleepTimerWakeup_events:
  "snd (deepSleepTimerWakeup E c p) = [onDeepSleepTimerWakeup (sint (ds_wakeupTimeoutSec c))]"
  by (simp add: deepSleepTimerWakeup_def Let_def)

lemma logged_sleep [simp]: "de_sleep (logged E) n (p, l) = (de_sleep E n p, l)"
  by (simp add: logged_def)

lemma enterDeepSleepNow_erase:
  "(case enterDeepSleepNow (logged E) c (p, l) of (c', (p', l'), evs) \<Rightarrow> (c', p', evs))
     = enterDeepSleepNow E c p"
proof -
  obtain f u' c' p' l' where r: "ds_retry (logged E) 5 False c (de_sleep E 1 p, l) = (f, u', c', p', l')"
    by (metis prod_cases5)
  then have "ds_retry E 5 False c (de_sleep E 1 p) = (f, u', c', p')"
    using ds_retry_erase [of E 5 False c "de_sleep E 1 p" l] by simp
  then show ?thesis
    using r by (simp add: enterDeepSleepNow_def deepSleepTimerWakeup_logged split: prod.splits)
qed

lemma enterDeepSleepNow_cases:
  obtains l' failed where
    "snd (fst (snd (enterDeepSleepNow (logged E) c (p, l)))) = l @ l'"
    "attempts 5 (ds_wakeupTimeoutSec c) (ds_nwStandbyMode c) failed l'"
    "ds_deepSleepState (fst (enterDeepSleepNow (logged E) c (p, l))) =
       (if failed then Failed else Completed)"
    "failed \<Longrightarrow> snd (snd (enterDeepSleepNow (logged E) c (p, l))) = [onDeepSleepFailed]"
    "\<not> failed \<Longrightarrow> snd (snd (enterDeepSleepNow (logged E) c (p, l))) = [onDeepSleepUserWakeup True]
       \<or> snd (snd (enterDeepSleepNow (logged E) c (p, l))) =
           [onDeepSleepTimerWakeup (sint (ds_wakeupTimeoutSec c))]"
proof -
  obtain f u' c' p' l1 where r: "ds_retry (logged E) 5 False c (de_sleep E 1 p, l) = (f, u', c', p', l1)"
    by (metis prod_cases5)
  have args: "ds_wakeupTimeoutSec c' = ds_wakeupTimeoutSec c"
    using ds_retry_args [of "logged E" 5 False c "(de_sleep E 1 p, l)"] r by simp
  obtain l' where l': "l1 = l @ l'"
    "attempts 5 (ds_wakeupTimeoutSec c) (ds_nwStandbyMode c) f l'"
    "ds_deepSleepState c' = (if f then Failed else Completed)"
    using ds_retry_log [of E 5 False c "de_sleep E 1 p" l] r by auto
  obtain p2 where wake: "deepSleepTimerWakeup E c' p' =
      (p2, [onDeepSleepTimerWakeup (sint (ds_wakeupTimeoutSec c))])"
    using deepSleepTimerWakeup_events [of E c' p'] args by (metis prod.collapse)
  show thesis
    by (rule that [of l' f])
      (use l' r wake in \<open>auto simp: enterDeepSleepNow_def deepSleepTimerWakeup_logged split: if_splits\<close>)
qed

text \<open>
  A history of the controller: activations, the delayed entry when its job runs, deactivations.
\<close>

datatype ds_act = ActivateAct u32 bool | DelayJobAct | DeactivateAct

fun ds_step :: "'p ds_env \<Rightarrow> ds_act \<Rightarrow> DeepSleepController \<Rightarrow> 'p \<Rightarrow> DeepSleepController \<times> 'p \<times> ds_event list"
where
  "ds_step E (ActivateAct timeOut nw) c p = performActivate E timeOut nw c p"
| "ds_step E DelayJobAct c p =
     (if ds_delayJob c \<noteq> None then enterDeepSleepDelayed E c p else (c, p, []))"
| "ds_step E DeactivateAct c p =
     (let (e, c1, p1) = DeepSleepController_Deactivate E c p in (c1, p1, []))"

fun ds_run :: "'p ds_env \<Rightarrow> ds_act list \<Rightarrow> DeepSleepController \<Rightarrow> 'p \<Rightarrow> DeepSleepController \<times> 'p \<times> ds_event list"
where
  "ds_run E [] c p = (c, p, [])"
| "ds_run E (a # as) c p =
     (let (c1, p1, evs) = ds_step E a c p; (c2, p2, evs') = ds_run E as c1 p1 in (c2, p2, evs @ evs'))"

definition no_standby :: "ds_log \<Rightarrow> bool" where
  "no_standby l = list_all (\<lambda>(t, nw, e). \<not> nw) l"

lemma attempts_args: "attempts n t False failed l \<Longrightarrow> no_standby l"
  by (auto simp: attempts_def no_standby_def list_all_iff)

lemma no_standby_append [simp]: "no_standby (l @ l') \<longleftrightarrow> no_standby l \<and> no_standby l'"
  by (simp add: no_standby_def)

lemma enterDeepSleepNow_standby:
  assumes "no_standby l" and "\<not> ds_nwStandbyMode c"
  shows "no_standby (snd (fst (snd (enterDeepSleepNow (logged E) c (p, l)))))
    \<and> \<not> ds_nwStandbyMode (fst (enterDeepSleepNow (logged E) c (p, l)))"
proof -
  obtain l' failed where l': "snd (fst (snd (enterDeepSleepNow (logged E) c (p, l)))) = l @ l'"
    "attempts 5 (ds_wakeupTimeoutSec c) (ds_nwStandbyMode c) failed l'"
    using enterDeepSleepNow_cases [of E c p l] by metis
  moreover have "ds_nwStandbyMode (fst (enterDeepSleepNow (logged E) c (p, l))) = ds_nwStandbyMode c"
    using ds_retry_args [of "logged E" 5 False c "(de_sleep E 1 p, l)"]
    by (simp add: enterDeepSleepNow_def Let_def case_prod_unfold)
  ultimately show ?thesis using assms attempts_args by auto
qed

lemma ds_step_standby:
  assumes "no_standby l" and "\<not> ds_nwStandbyMode c"
  shows "no_standby (snd (fst (snd (ds_step (logged E) a c (p, l)))))
    \<and> \<not> ds_nwStandbyMode (fst (ds_step (logged E) a c (p, l)))"
proof (cases a)
  case (ActivateAct timeOut nw)
  then show ?thesis
    using assms
    by (auto simp: performActivate_def Let_def enterDeepSleepNow_standby split: prod.splits)
next
  case DelayJobAct
  obtain e u p1 where "dp_SetDeepSleep (de_platform E) (ds_wakeupTimeoutSec c) False False p = (e, u, p1)"
    by (metis prod_cases3)
  then show ?thesis
    using DelayJobAct assms
    by (auto simp: enterDeepSleepDelayed_def deepSleepTimerWakeup_logged Let_def split: prod.splits)
      (auto simp: logged_def no_standby_def)
next
  case DeactivateAct
  then show ?thesis
    using assms by (auto simp: DeepSleepController_Deactivate_def logged_def split: prod.splits)
qed

lemma ds_run_standby:
  assumes "no_standby l" and "\<not> ds_nwStandbyMode c"
  shows "no_standby (snd (fst (snd (ds_run (logged E) as c (p, l)))))"
  using assms
proof (induction as arbitrary: c p l)
  case (Cons a as)
  obtain c1 p1 l1 evs where s: "ds_step (logged E) a c (p, l) = (c1, (p1, l1), evs)"
    by (metis prod.collapse)
  then have "no_standby l1" "\<not> ds_nwStandbyMode c1"
    using ds_step_standby [OF Cons.prems, of E a p] by auto
  then show ?case using Cons.IH [of l1 c1 p1] s by (auto split: prod.splits)
qed simp

section \<open>The calculated wake-up time\<close>

text \<open>The standard library's clock in a zone at a fixed offset from UTC.\<close>

definition local_tm :: "int \<Rightarrow> int \<Rightarrow> tm" where
  "local_tm off t = (let s = t + off in
     \<lparr> tm_day = s div 86400, tm_hour = s mod 86400 div 3600, tm_min = s mod 3600 div 60,
       tm_sec = s mod 60 \<rparr>)"

definition mk_time :: "int \<Rightarrow> tm \<Rightarrow> int" where
  "mk_time off r = tm_day r * 86400 + tm_hour r * 3600 + tm_min r * 60 + tm_sec r - off"

lemma getWakeupTime_calculated:
  "let w = uint (getWakeupTime NoFile (\<lambda>t. Some (local_tm off t)) (mk_time off) rnd sysmgr now
         - getTZDiffInSec sysmgr)
   in 0 < w \<and> w < 90000 \<and> 7200 \<le> (now + off + w) mod 86400 \<and> (now + off + w) mod 86400 < 10800"
proof -
  define w where "w = uint (getWakeupTime NoFile (\<lambda>t. Some (local_tm off t)) (mk_time off) rnd sysmgr now
      - getTZDiffInSec sysmgr)"
  define d where "d = (now + off) div 86400"
  define s where "s = (now + off) mod 86400"
  have now: "now + off = d * 86400 + s" "0 \<le> s" "s < 86400"
    by (simp_all add: d_def s_def)
  define r where "r = uint (rnd mod 3600)"
  have r: "0 \<le> r" "r < 3600" by (simp_all add: r_def uint_mod)
  define B where "B = (if s < 7200 then 7200 - s else 93600 - s)"
  have B: "0 < B" "B \<le> 86400" using now by (auto simp: B_def)
  have base: "word_of_int (d * 86400 + 7200 - off - now) = (word_of_int (7200 - s) :: u32)"
    "word_of_int (86400 + d * 86400 - off - now) + 7200 = (word_of_int (93600 - s) :: u32)"
    using now(1) by (simp_all add: algebra_simps flip: of_int_add)
  have add_uint: "word_of_int (x + uint u) = word_of_int x + (u :: u32)" for x u by simp
  have hour: "s div 3600 < 2 \<longleftrightarrow> s < 7200" by auto
  have "getWakeupTime NoFile (\<lambda>t. Some (local_tm off t)) (mk_time off) rnd sysmgr now
      - getTZDiffInSec sysmgr = word_of_int (B + r)"
    using now hour
    by (simp add: getWakeupTime_def local_tm_def mk_time_def B_def r_def Let_def d_def [symmetric]
        s_def [symmetric] pos_imp_zdiv_nonneg_iff base add_uint
        del: of_int_add of_int_diff of_int_minus of_int_mult)
  then have w: "w = B + r"
    using B r by (simp add: w_def uint_word_of_int del: of_int_add)
  have "now + off + w = (if s < 7200 then d else d + 1) * 86400 + (7200 + r)"
    using now by (simp add: w B_def algebra_simps)
  then have "(now + off + w) mod 86400 = 7200 + r"
    using r by (simp only: mod_mult_self3) simp
  then show ?thesis using w B r unfolding Let_def w_def [symmetric] by simp
qed

section \<open>Properties\<close>

text \<open>
  C16. Entering deep sleep asks the hardware at most five times, always with the controller's
  time-out and network standby mode, again only after a failure; it ends with exactly one
  notification, the failure one exactly if all five calls failed, and the state records the outcome.
\<close>

theorem deep_sleep_attempts:
  "\<exists>l' failed. snd (fst (snd (enterDeepSleepNow (logged E) c (p, l)))) = l @ l'
     \<and> attempts 5 (ds_wakeupTimeoutSec c) (ds_nwStandbyMode c) failed l'
     \<and> ds_deepSleepState (fst (enterDeepSleepNow (logged E) c (p, l))) = (if failed then Failed else Completed)
     \<and> snd (snd (enterDeepSleepNow (logged E) c (p, l))) \<in>
         (if failed then {[onDeepSleepFailed]}
          else {[onDeepSleepUserWakeup True], [onDeepSleepTimerWakeup (sint (ds_wakeupTimeoutSec c))]})
     \<and> fst (enterDeepSleepNow (logged E) c (p, l)) = fst (enterDeepSleepNow E c p)"
proof -
  obtain l' failed where l': "snd (fst (snd (enterDeepSleepNow (logged E) c (p, l)))) = l @ l'"
    "attempts 5 (ds_wakeupTimeoutSec c) (ds_nwStandbyMode c) failed l'"
    "ds_deepSleepState (fst (enterDeepSleepNow (logged E) c (p, l))) = (if failed then Failed else Completed)"
    "failed \<Longrightarrow> snd (snd (enterDeepSleepNow (logged E) c (p, l))) = [onDeepSleepFailed]"
    "\<not> failed \<Longrightarrow> snd (snd (enterDeepSleepNow (logged E) c (p, l))) = [onDeepSleepUserWakeup True]
       \<or> snd (snd (enterDeepSleepNow (logged E) c (p, l))) =
           [onDeepSleepTimerWakeup (sint (ds_wakeupTimeoutSec c))]"
    using enterDeepSleepNow_cases [of E c p l] by metis
  moreover have "fst (enterDeepSleepNow (logged E) c (p, l)) = fst (enterDeepSleepNow E c p)"
    using enterDeepSleepNow_erase [of E c p l] by (simp add: case_prod_unfold prod_eq_iff)
  ultimately show ?thesis by (intro exI [of _ l'] exI [of _ failed]) auto
qed

text \<open>
  Whatever network standby mode the activations ask for, the hardware is always put to sleep
  with network standby disabled: the mode given to \<open>Activate\<close> never reaches \<open>SetDeepSleep\<close>.
\<close>

theorem standby_mode_lost:
  "no_standby (snd (fst (snd (ds_run (logged E) acts DeepSleepController_ctor (p, [])))))"
  by (rule ds_run_standby) (simp_all add: no_standby_def DeepSleepController_ctor_def)

text \<open>
  The calculated wake-up time, less the time zone correction, is in the future, less than 25
  hours away, and between 2 and 3 o'clock local time, in a zone at a constant offset.
\<close>

theorem wakeup_between_2_and_3:
  "let w = uint (getWakeupTime NoFile (\<lambda>t. Some (local_tm off t)) (mk_time off) rnd sysmgr now
         - getTZDiffInSec sysmgr)
   in 0 < w \<and> w < 90000 \<and> (now + off + w) mod 86400 div 3600 = 2"
proof -
  have "(a :: int) mod 86400 div 3600 = 2 \<longleftrightarrow> 7200 \<le> a mod 86400 \<and> a mod 86400 < 10800" for a by auto
  then show ?thesis
    using getWakeupTime_calculated [of off rnd sysmgr now] by (simp add: Let_def)
qed

text \<open>
  The override file gives its number of minutes in seconds, at most six days; the product is
  computed in 32 bits, so that from 71582789 minutes on the limit is passed by.
\<close>

theorem wakeup_override:
  "uint (getWakeupTime (ScanInt v) localtime mktime rnd sysmgr now) = min ((60 * v) mod 2 ^ 32) 518400"
proof -
  have "(word_of_int v * 60 :: u32) = word_of_int (60 * v)" by (simp add: mult.commute)
  then have m: "uint (word_of_int v * 60 :: u32) = (60 * v) mod 2 ^ 32"
    by (simp only: uint_word_of_int) simp
  have "uint (wakeup_limit :: u32) = 518400" by (simp add: wakeup_limit_def)
  then show ?thesis
    using m by (simp add: getWakeupTime_def Let_def word_less_def min_def)
qed

end
