(* ===== verification/PowerController.thy ===== *)
theory PowerController imports DeepSleep "HOL-Library.Sublist" begin

text \<open>
  The power controller (\<open>PowerManager/PowerController.h\<close>, \<open>.cpp\<close>): the power state of the device,
  kept in the settings and on the hardware, network standby and the wake-up sources, deep sleep
  time-outs and reboots.

  \<open>pc_env\<close> is what it calls: the power platform and the clock over the hardware state \<open>'p\<close>, and the
  platform's power state codes. Its state is a \<open>PowerController\<close>; the operations thread the
  hardware state and the file system.

  The lemmas: the settings and the hardware hold the same power state from construction on, if the
  hardware does what it reports (\<open>honest_power\<close>); the state changes only with a successful call of
  the platform and is then on disk; the wake-up sources listed are the supported ones.
\<close>

section \<open>The controller\<close>

record 'p pc_env =
  pe_platform :: "'p power_platform"
  pe_clock :: "'p \<Rightarrow> int"
  pe_codes :: plat_power_h

record PowerController =
  pc_lastKnownPowerState :: PowerState
  pc_settings :: Settings
  pc_isDeepSleepTimeoutSet :: bool

definition PowerController_SetPowerState ::
  "'p pc_env \<Rightarrow> PowerState \<Rightarrow> PowerController \<Rightarrow> 'p \<Rightarrow> fs \<Rightarrow> hresult \<times> PowerController \<times> 'p \<times> fs" where
  "PowerController_SetPowerState E powerState c p f =
     (if fs_exists f ''/tmp/ignoredeepsleep'' \<and> powerState = POWER_STATE_STANDBY_DEEP_SLEEP
      then (ERROR_ILLEGAL_STATE, c, p, f)
      else
        let curState = st_powerState (pc_settings c);
            (errCode, p1) = pp_SetPowerState (pe_platform E) powerState p
        in if errCode \<noteq> ERROR_NONE then (errCode, c, p1, f)
           else let s1 = Settings_SetPowerState powerState (pe_clock E p1) (pc_settings c);
                    f1 = snd (Settings_Save (pe_codes E) s1 kSettingsFilePath f)
                in (errCode, c\<lparr>pc_settings := s1, pc_lastKnownPowerState := curState\<rparr>, p1, f1))"

fun SetWakeupSourceConfig_loop ::
  "'p power_platform \<Rightarrow> WakeupSourceConfig list \<Rightarrow> bool \<Rightarrow> 'p \<Rightarrow> bool \<times> 'p" where
  "SetWakeupSourceConfig_loop P [] failed p = (failed, p)"
| "SetWakeupSourceConfig_loop P (config # configs) failed p =
     (let (result, supported, p1) =
        pp_SetWakeupSrc P (wakeupSource config) (enabled config) False p
      in SetWakeupSourceConfig_loop P configs (failed \<or> (result \<noteq> ERROR_NONE \<and> supported)) p1)"

definition PowerController_SetWakeupSourceConfig ::
  "'p pc_env \<Rightarrow> WakeupSourceConfig list \<Rightarrow> 'p \<Rightarrow> hresult \<times> 'p" where
  "PowerController_SetWakeupSourceConfig E configs p =
     (let (failed, p1) = SetWakeupSourceConfig_loop (pe_platform E) configs False p
      in (if failed then ERROR_GENERAL else ERROR_NONE, p1))"

text \<open>The sources from \<open>WAKEUP_SRC_VOICE\<close> to \<open>WAKEUP_SRC_RF4CE\<close>, in the order of the loop.\<close>

definition wakeup_sources :: "WakeupSrcType list" where
  "wakeup_sources = [WAKEUP_SRC_VOICE, WAKEUP_SRC_PRESENCEDETECTED, WAKEUP_SRC_BLUETOOTH,
     WAKEUP_SRC_WIFI, WAKEUP_SRC_IR, WAKEUP_SRC_POWERKEY, WAKEUP_SRC_TIMER, WAKEUP_SRC_CEC,
     WAKEUP_SRC_LAN, WAKEUP_SRC_RF4CE]"

fun GetWakeupSourceConfig_loop ::
  "'p power_platform \<Rightarrow> WakeupSrcType list \<Rightarrow> bool \<Rightarrow> WakeupSourceConfig list \<Rightarrow> 'p
     \<Rightarrow> bool \<times> WakeupSourceConfig list \<times> 'p" where
  "GetWakeupSourceConfig_loop P [] failed configs p = (failed, configs, p)"
| "GetWakeupSourceConfig_loop P (src # srcs) failed configs p =
     (let (result, en, supported, p1) = pp_GetWakeupSrc P src False False p
      in if result = ERROR_NONE
         then GetWakeupSourceConfig_loop P srcs failed
                (configs @ [\<lparr>wakeupSource = src, enabled = en\<rparr>]) p1
         else if \<not> supported then GetWakeupSourceConfig_loop P srcs failed configs p1
         else GetWakeupSourceConfig_loop P srcs True configs p1)"

definition PowerController_GetWakeupSourceConfig ::
  "'p pc_env \<Rightarrow> WakeupSourceConfig list \<Rightarrow> 'p \<Rightarrow> hresult \<times> WakeupSourceConfig list \<times> 'p" where
  "PowerController_GetWakeupSourceConfig E configs p =
     (let (failed, configs1, p1) =
        GetWakeupSourceConfig_loop (pe_platform E) wakeup_sources False configs p
      in (if failed then ERROR_GENERAL else ERROR_NONE, configs1, p1))"

definition standby_configs :: "bool \<Rightarrow> WakeupSourceConfig list" where
  "standby_configs mode = [\<lparr>wakeupSource = WAKEUP_SRC_WIFI, enabled = mode\<rparr>,
     \<lparr>wakeupSource = WAKEUP_SRC_LAN, enabled = mode\<rparr>]"

definition PowerController_init ::
  "'p pc_env \<Rightarrow> PowerController \<Rightarrow> 'p \<Rightarrow> fs \<Rightarrow> PowerController \<times> 'p \<times> fs" where
  "PowerController_init E c p f =
     (let c1 = c\<lparr>pc_lastKnownPowerState := st_powerState (pc_settings c)\<rparr>;
          (errorCode, currentState, p1) =
            pp_GetPowerState (pe_platform E) POWER_STATE_UNKNOWN p
      in if errorCode \<noteq> ERROR_NONE then (c1, p1, f)
         else if st_powerState (pc_settings c1) = currentState then (c1, p1, f)
         else
           (let (errorCode2, c2, p2, f2) =
              PowerController_SetPowerState E (st_powerState (pc_settings c1)) c1 p1 f
            in if errorCode2 = ERROR_NONE then (c2, p2, f2)
               else let s3 = Settings_SetPowerState currentState (pe_clock E p2) (pc_settings c2)
                    in (c2\<lparr>pc_settings := s3\<rparr>, p2,
                        snd (Settings_Save (pe_codes E) s3 kSettingsFilePath f2))))"

definition PowerController_ctor ::
  "'p pc_env \<Rightarrow> bool \<Rightarrow> 'p \<Rightarrow> fs \<Rightarrow> PowerController \<times> 'p \<times> fs" where
  "PowerController_ctor E platco p f =
     (let (s, f1) = Settings_Load (pe_codes E) platco kSettingsFilePath (pe_clock E p) f;
          c = \<lparr> pc_lastKnownPowerState = POWER_STATE_ON, pc_settings = s,
                pc_isDeepSleepTimeoutSet = False \<rparr>;
          (errorCode, p1) =
            PowerController_SetWakeupSourceConfig E (standby_configs (st_nwStandbyMode s)) p
      in PowerController_init E c p1 f1)"

definition PowerController_GetPowerState :: "PowerController \<Rightarrow> hresult \<times> PowerState \<times> PowerState" where
  "PowerController_GetPowerState c =
     (ERROR_NONE, st_powerState (pc_settings c), pc_lastKnownPowerState c)"

definition PowerController_GetPowerStateBeforeReboot :: "PowerController \<Rightarrow> hresult \<times> PowerState" where
  "PowerController_GetPowerStateBeforeReboot c =
     (ERROR_NONE, st_powerStateBeforeReboot (pc_settings c))"

text \<open>\<open>ActivateDeepSleep\<close>: the arguments of the call of \<open>DeepSleepController::Activate\<close>.\<close>

definition PowerController_ActivateDeepSleep :: "u32 \<Rightarrow> PowerController \<Rightarrow> u32 \<times> bool" where
  "PowerController_ActivateDeepSleep wakeupTime c =
     (DeepSleepWakeupSettings_timeout (pc_isDeepSleepTimeoutSet c) (pc_settings c) wakeupTime,
      st_nwStandbyMode (pc_settings c))"

definition PowerController_SetNetworkStandbyMode ::
  "'p pc_env \<Rightarrow> bool \<Rightarrow> PowerController \<Rightarrow> 'p \<Rightarrow> fs \<Rightarrow> hresult \<times> PowerController \<times> 'p \<times> fs" where
  "PowerController_SetNetworkStandbyMode E standbyMode c p f =
     (if standbyMode = st_nwStandbyMode (pc_settings c) then (ERROR_NONE, c, p, f)
      else
        let (errorCode, p1) = PowerController_SetWakeupSourceConfig E (standby_configs standbyMode) p
        in if errorCode = ERROR_NONE
           then let s1 = (pc_settings c)\<lparr>st_nwStandbyMode := standbyMode\<rparr>;
                    (ok, f1) = Settings_Save (pe_codes E) s1 kSettingsFilePath f
                in (if \<not> ok then ERROR_GENERAL else errorCode, c\<lparr>pc_settings := s1\<rparr>, p1, f1)
           else (errorCode, c, p1, f))"

definition PowerController_GetNetworkStandbyMode :: "PowerController \<Rightarrow> hresult \<times> bool" where
  "PowerController_GetNetworkStandbyMode c = (ERROR_NONE, st_nwStandbyMode (pc_settings c))"

definition PowerController_SetDeepSleepTimer ::
  "plat_power_h \<Rightarrow> int \<Rightarrow> PowerController \<Rightarrow> fs \<Rightarrow> hresult \<times> PowerController \<times> fs" where
  "PowerController_SetDeepSleepTimer H timeOut c f =
     (let (isSet, s1, f1) =
        DeepSleepWakeupSettings_SetTimeout H (word_of_int timeOut) (pc_settings c) f
      in (ERROR_NONE, c\<lparr>pc_settings := s1, pc_isDeepSleepTimeoutSet := isSet\<rparr>,
          snd (Settings_Save H s1 kSettingsFilePath f1)))"

text \<open>The commands of the job \<open>Reboot\<close> submits.\<close>

definition quoted_arg :: "string \<Rightarrow> string" where
  "quoted_arg s = CHR 0x27 # s @ [CHR 0x27]"

definition PowerController_Reboot :: "string \<Rightarrow> string \<Rightarrow> string \<Rightarrow> fs \<Rightarrow> string list" where
  "PowerController_Reboot requestor reasonCustom reasonOther f =
     [''echo 0 > /opt/.rebootFlag'',
      (if fs_exists f ''/rebootNow.sh'' then ''/rebootNow.sh'' else ''/lib/rdk/rebootNow.sh'')
        @ '' -s '' @ quoted_arg requestor @ '' -r '' @ quoted_arg reasonCustom
        @ '' -o '' @ quoted_arg reasonOther]"

section \<open>Settings and hardware agree\<close>

text \<open>
  What the platform promises: the hardware is in the state that was set when a call reports
  success, in the old one when it reports an error, and the other calls do not touch it. A vendor
  library with the same property gives such a platform (\<open>PowerImpl_honest\<close>).
\<close>

definition honest_power :: "'p power_platform \<Rightarrow> ('p \<Rightarrow> PowerState) \<Rightarrow> bool" where
  "honest_power P hw \<longleftrightarrow>
     (\<forall>s p e p1. pp_SetPowerState P s p = (e, p1) \<longrightarrow> hw p1 = (if e = ERROR_NONE then s else hw p))
     \<and> (\<forall>c p e s p1. pp_GetPowerState P c p = (e, s, p1) \<longrightarrow>
          hw p1 = hw p \<and> (e = ERROR_NONE \<longrightarrow> s = hw p))
     \<and> (\<forall>w en su p e su1 p1. pp_SetWakeupSrc P w en su p = (e, su1, p1) \<longrightarrow> hw p1 = hw p)
     \<and> (\<forall>w en su p e en1 su1 p1. pp_GetWakeupSrc P w en su p = (e, en1, su1, p1) \<longrightarrow> hw p1 = hw p)"

definition honest_api :: "plat_power_h \<Rightarrow> 'p plat_api \<Rightarrow> ('p \<Rightarrow> u32) \<Rightarrow> bool" where
  "honest_api H A hw \<longleftrightarrow>
     (\<forall>s p r p1. PLAT_API_SetPowerState A s p = (r, p1) \<longrightarrow>
        hw p1 = (if r = PWRMGR_SUCCESS H then s else hw p))
     \<and> (\<forall>c p r s p1. PLAT_API_GetPowerState A c p = (r, s, p1) \<longrightarrow>
          hw p1 = hw p \<and> (r = PWRMGR_SUCCESS H \<longrightarrow> s = hw p))
     \<and> (\<forall>w en p r p1. PLAT_API_SetWakeupSrc A w en p = (r, p1) \<longrightarrow> hw p1 = hw p)
     \<and> (\<forall>w en p r en1 p1. PLAT_API_GetWakeupSrc A w en p = (r, en1, p1) \<longrightarrow> hw p1 = hw p)"

lemma PowerImpl_honest:
  assumes "plat_power_ok H" and "honest_api H A hw"
  shows "honest_power (PowerImpl H A) (\<lambda>p. hal_conv_from_plat H (hw p))"
  using assms(2) hal_conv_roundtrip [OF assms(1)]
  unfolding honest_power_def honest_api_def
  by (auto simp: PowerImpl_def PowerImpl_SetPowerState_def PowerImpl_GetPowerState_def
      PowerImpl_SetWakeupSrc_def PowerImpl_GetWakeupSrc_def split: prod.splits if_splits)

definition in_sync :: "('p \<Rightarrow> PowerState) \<Rightarrow> PowerController \<Rightarrow> 'p \<Rightarrow> bool" where
  "in_sync hw c p \<longleftrightarrow> st_powerState (pc_settings c) = hw p"

lemma Settings_SetPowerState_simps [simp]:
  "st_powerState (Settings_SetPowerState s now st) = s"
  "st_version (Settings_SetPowerState s now st) = st_version st"
  "st_nwStandbyMode (Settings_SetPowerState s now st) = st_nwStandbyMode st"
  by (simp_all add: Settings_SetPowerState_def)

lemma SetPowerState_cases:
  assumes "PowerController_SetPowerState E s c p f = (e, c1, p1, f1)"
  obtains (ignored) "e = ERROR_ILLEGAL_STATE" "c1 = c" "p1 = p" "f1 = f"
      "s = POWER_STATE_STANDBY_DEEP_SLEEP" "fs_exists f ''/tmp/ignoredeepsleep''"
    | (failed) "e \<noteq> ERROR_NONE" "pp_SetPowerState (pe_platform E) s p = (e, p1)" "c1 = c" "f1 = f"
    | (changed) "e = ERROR_NONE" "pp_SetPowerState (pe_platform E) s p = (ERROR_NONE, p1)"
      "c1 = c\<lparr>pc_settings := Settings_SetPowerState s (pe_clock E p1) (pc_settings c),
              pc_lastKnownPowerState := st_powerState (pc_settings c)\<rparr>"
      "f1 = snd (Settings_Save (pe_codes E) (pc_settings c1) kSettingsFilePath f)"
  using assms by (auto simp: PowerController_SetPowerState_def Let_def split: if_splits prod.splits)

lemma SetPowerState_sync:
  assumes "honest_power (pe_platform E) hw" and "in_sync hw c p"
    and "PowerController_SetPowerState E s c p f = (e, c1, p1, f1)"
  shows "in_sync hw c1 p1"
  using assms(3)
proof (cases rule: SetPowerState_cases)
  case failed
  then show ?thesis using assms(1,2) by (auto simp: honest_power_def in_sync_def)
next
  case changed
  then show ?thesis using assms(1,2) by (auto simp: honest_power_def in_sync_def)
qed (use assms(2) in simp)

lemma SetWakeup_loop_hw:
  assumes "honest_power P hw"
  shows "hw (snd (SetWakeupSourceConfig_loop P configs failed p)) = hw p"
  using assms
proof (induction configs arbitrary: failed p)
  case (Cons config configs)
  then show ?case by (auto simp: honest_power_def split: prod.splits)
qed simp

lemma SetWakeup_hw:
  "honest_power (pe_platform E) hw \<Longrightarrow>
   hw (snd (PowerController_SetWakeupSourceConfig E configs p)) = hw p"
  using SetWakeup_loop_hw [of "pe_platform E" hw configs False p]
  by (auto simp: PowerController_SetWakeupSourceConfig_def split: prod.splits)

lemma init_sync:
  assumes "honest_power (pe_platform E) hw"
    and "fst (pp_GetPowerState (pe_platform E) POWER_STATE_UNKNOWN p) = ERROR_NONE"
    and "PowerController_init E c p f = (c1, p1, f1)"
  shows "in_sync hw c1 p1"
proof -
  let ?c = "c\<lparr>pc_lastKnownPowerState := st_powerState (pc_settings c)\<rparr>"
  obtain s q where get: "pp_GetPowerState (pe_platform E) POWER_STATE_UNKNOWN p = (ERROR_NONE, s, q)"
    using assms(2) by (metis prod.collapse)
  then have q: "hw q = hw p" "s = hw p" using assms(1) by (auto simp: honest_power_def)
  obtain e c2 p2 f2 where set: "PowerController_SetPowerState E (st_powerState (pc_settings c)) ?c q f
      = (e, c2, p2, f2)" by (metis prod_cases4)
  show ?thesis
  proof (cases "st_powerState (pc_settings c) = s")
    case True
    then show ?thesis using assms(3) get q by (auto simp: PowerController_init_def in_sync_def)
  next
    case False
    from set show ?thesis
    proof (cases rule: SetPowerState_cases)
      case ignored
      then show ?thesis
        using assms(3) get q False set by (auto simp: PowerController_init_def in_sync_def Let_def)
    next
      case failed
      then have "hw p2 = hw q" using assms(1) by (auto simp: honest_power_def)
      then show ?thesis using failed assms(3) get q False set
        by (auto simp: PowerController_init_def in_sync_def Let_def)
    next
      case changed
      then have "hw p2 = st_powerState (pc_settings c)"
        using assms(1) by (auto simp: honest_power_def)
      then show ?thesis using changed assms(3) get q False set
        by (auto simp: PowerController_init_def in_sync_def Let_def)
    qed
  qed
qed

lemma ctor_sync:
  assumes "honest_power (pe_platform E) hw"
    and "\<And>q. fst (pp_GetPowerState (pe_platform E) POWER_STATE_UNKNOWN q) = ERROR_NONE"
    and "PowerController_ctor E platco p f = (c1, p1, f1)"
  shows "in_sync hw c1 p1"
  using assms(3) init_sync [OF assms(1,2)]
  by (auto simp: PowerController_ctor_def Let_def split: prod.splits)

lemma SetNetworkStandbyMode_sync:
  assumes "honest_power (pe_platform E) hw" and "in_sync hw c p"
    and "PowerController_SetNetworkStandbyMode E mode c p f = (e, c1, p1, f1)"
  shows "in_sync hw c1 p1"
  using assms(2,3) SetWakeup_hw [OF assms(1), of "standby_configs mode" p]
  by (auto simp: PowerController_SetNetworkStandbyMode_def in_sync_def Let_def
      split: if_splits prod.splits)

section \<open>The wake-up sources\<close>

lemma GetWakeup_loop_sources:
  assumes "GetWakeupSourceConfig_loop P srcs failed configs p = (failed1, configs1, p1)"
  shows "\<exists>new. configs1 = configs @ new \<and> subseq (map wakeupSource new) srcs"
  using assms
proof (induction srcs arbitrary: failed configs p)
  case (Cons src srcs)
  obtain r en su q where get: "pp_GetWakeupSrc P src False False p = (r, en, su, q)"
    by (metis prod_cases4)
  show ?case
  proof (cases "r = ERROR_NONE")
    case True
    then show ?thesis
      using Cons.IH [of failed "configs @ [\<lparr>wakeupSource = src, enabled = en\<rparr>]" q] Cons.prems get
      by fastforce
  next
    case False
    then have "GetWakeupSourceConfig_loop P srcs (if su then True else failed) configs q = (failed1, configs1, p1)"
      using Cons.prems get by (cases su) simp_all
    from Cons.IH [OF this] show ?thesis by auto
  qed
qed simp

text \<open>The results of the vendor calls for a list of sources.\<close>

fun vendor_results :: "'p plat_api \<Rightarrow> WakeupSourceConfig list \<Rightarrow> 'p \<Rightarrow> int list" where
  "vendor_results A [] p = []"
| "vendor_results A (config # configs) p =
     (let (r, p1) = PLAT_API_SetWakeupSrc A (hal_conv_WakeupSrc (wakeupSource config)) (enabled config) p
      in r # vendor_results A configs p1)"

lemma SetWakeup_loop_vendor:
  assumes "PWRMGR_SUCCESS H = 0"
  shows "fst (SetWakeupSourceConfig_loop (PowerImpl H A) configs failed p) \<longleftrightarrow>
    failed \<or> list_ex (\<lambda>r. r < 0) (vendor_results A configs p)"
proof (induction configs arbitrary: failed p)
  case (Cons config configs)
  obtain r q where
    "PLAT_API_SetWakeupSrc A (hal_conv_WakeupSrc (wakeupSource config)) (enabled config) p = (r, q)"
    by (metis prod.collapse)
  then show ?case
    using assms Cons
    by (auto simp: PowerImpl_def PowerImpl_SetWakeupSrc_def hal_conv_status_def)
qed simp

section \<open>Properties\<close>

text \<open>A platform whose hardware state is the power state, for the witnesses.\<close>

definition example_platform :: "PowerState power_platform" where
  "example_platform = \<lparr> pp_SetPowerState = (\<lambda>s p. (ERROR_NONE, s)),
     pp_GetPowerState = (\<lambda>c p. (ERROR_NONE, p, p)), pp_SetWakeupSrc = (\<lambda>w en su p. (ERROR_NONE, True, p)),
     pp_GetWakeupSrc = (\<lambda>w en su p. (ERROR_NONE, True, True, p)) \<rparr>"

definition example_pc_env :: "PowerState pc_env" where
  "example_pc_env = \<lparr> pe_platform = example_platform, pe_clock = (\<lambda>_. 7), pe_codes = example_codes \<rparr>"

definition example_pc :: PowerController where
  "example_pc = \<lparr> pc_lastKnownPowerState = POWER_STATE_ON, pc_settings = example_settings,
     pc_isDeepSleepTimeoutSet = False \<rparr>"

text \<open>
  A power state change reported as successful is on disk: loading the settings file afterwards
  yields the new state, and the state before is the previous state.
\<close>

theorem power_state_persisted:
  assumes "PowerController_SetPowerState E s c p f = (ERROR_NONE, c1, p1, f1)"
    and "plat_power_ok (pe_codes E)" and "st_version (pc_settings c) = 1"
    and "\<not> fs_noopen f kSettingsFilePath" and "\<not> fs_nowrite f kSettingsFilePath"
  shows "st_powerState (fst (Settings_load_file (pe_codes E) kSettingsFilePath now f1)) = s
    \<and> PowerController_GetPowerState c1 = (ERROR_NONE, s, st_powerState (pc_settings c))"
  using assms(1)
proof (cases rule: SetPowerState_cases)
  case changed
  let ?s1 = "Settings_SetPowerState s (pe_clock E p1) (pc_settings c)"
  have "holds_V1 (pe_codes E) ?s1 kSettingsFilePath f1" "\<not> fs_noopen f1 kSettingsFilePath"
    using changed Settings_Save_holds [OF assms(4,5), of "pe_codes E" ?s1]
    by (simp_all add: Settings_Save_frame assms(4))
  then have "Settings_load_file (pe_codes E) kSettingsFilePath now f1 = (restored ?s1 now, f1)"
    using assms(2,3) by (intro load_file_holds) simp_all
  then show ?thesis using changed by (simp add: PowerController_GetPowerState_def)
qed simp_all

theorem power_state_persisted_witness:
  "st_powerState (fst (Settings_load_file example_codes kSettingsFilePath 9
     (snd (snd (snd (PowerController_SetPowerState example_pc_env POWER_STATE_STANDBY_LIGHT_SLEEP
        example_pc POWER_STATE_STANDBY example_fs)))))) = POWER_STATE_STANDBY_LIGHT_SLEEP"
proof -
  let ?r = "PowerController_SetPowerState example_pc_env POWER_STATE_STANDBY_LIGHT_SLEEP
        example_pc POWER_STATE_STANDBY example_fs"
  have "?r = (ERROR_NONE, fst (snd ?r), fst (snd (snd ?r)), snd (snd (snd ?r)))"
    by (simp add: PowerController_SetPowerState_def example_pc_env_def example_platform_def Let_def)
  from power_state_persisted [OF this, of 9] show ?thesis
    using example_codes_ok example_fs_simps by (simp add: example_pc_env_def example_pc_def)
qed

text \<open>
  Configuring wake-up sources on the vendor's platform fails exactly if the vendor library
  returned a negative status for one of them; a positive status, such as a failure to set, counts
  as an unsupported source and is not reported.
\<close>

theorem wakeup_config_failures:
  assumes "PWRMGR_SUCCESS H = 0" and "pe_platform E = PowerImpl H A"
  shows "fst (PowerController_SetWakeupSourceConfig E configs p) =
    (if list_ex (\<lambda>r. r < 0) (vendor_results A configs p) then ERROR_GENERAL else ERROR_NONE)"
  using SetWakeup_loop_vendor [OF assms(1), of A configs False p] assms(2)
  by (simp add: PowerController_SetWakeupSourceConfig_def split_def Let_def)

definition failing_api :: "nat plat_api" where
  "failing_api = \<lparr> PLAT_API_SetPowerState = (\<lambda>s p. (5, p)), PLAT_API_GetPowerState = (\<lambda>c p. (6, c, p)),
     PLAT_API_SetWakeupSrc = (\<lambda>w en p. (5, Suc p)), PLAT_API_GetWakeupSrc = (\<lambda>w en p. (6, en, p)) \<rparr>"

theorem wakeup_config_failures_witness:
  "fst (PowerController_SetWakeupSourceConfig \<lparr> pe_platform = PowerImpl example_codes failing_api,
      pe_clock = (\<lambda>_. 0), pe_codes = example_codes \<rparr> (standby_configs True) 0) = ERROR_NONE"
  using wakeup_config_failures [of example_codes "\<lparr> pe_platform = PowerImpl example_codes failing_api,
      pe_clock = (\<lambda>_. 0), pe_codes = example_codes \<rparr>" failing_api "standby_configs True" 0]
  by (simp add: example_codes_def failing_api_def standby_configs_def)

text \<open>
  The wake-up sources returned are distinct known sources in the order of the enumeration,
  after the ones passed in.
\<close>

theorem wakeup_sources_listed:
  "\<exists>new. fst (snd (PowerController_GetWakeupSourceConfig E configs p)) = configs @ new
     \<and> subseq (map wakeupSource new) wakeup_sources \<and> distinct (map wakeupSource new)"
proof -
  obtain failed configs1 p1 where
    "GetWakeupSourceConfig_loop (pe_platform E) wakeup_sources False configs p = (failed, configs1, p1)"
    by (metis prod_cases3)
  moreover have "distinct wakeup_sources" by (simp add: wakeup_sources_def)
  ultimately show ?thesis
    using GetWakeup_loop_sources [of "pe_platform E" wakeup_sources False configs p failed configs1 p1]
    by (auto simp: PowerController_GetWakeupSourceConfig_def subseq_conv_nths distinct_nthsI)
qed

end
