(* ===== verification/Thermal.thy ===== *)
theory Thermal imports PlatformHal begin

text \<open>
  The thermal controller (\<open>PowerManager/ThermalController.h\<close>, \<open>.cpp\<close>): it polls the temperature,
  reports changes of the thermal level, puts the device to deep sleep or reboots it when it stays too
  hot, and lowers the CPU clock.

  The function-static variables of the sources are fields of the state. \<open>te_time\<close> is the clock in
  seconds (\<open>gettimeofday\<close>) as a function of the hardware state, \<open>te_rfc\<close> the remote feature control
  (\<open>getRFCParameter\<close>), \<open>te_mfr\<close> the build option \<open>MFR_TEMP_CLOCK_READ\<close>, \<open>te_declock\<close> the absence
  of \<open>DISABLE_DECLOCKING_LOGIC\<close>. Undefined behaviour (a division by zero, a copy past a buffer) is
  \<open>None\<close>. A body of the polling loop sees \<open>_stopThread\<close> once in the middle (\<open>stop\<close>).

  The lemmas: a zone (deep sleep or reboot) fires exactly after a critical reading or after a hot
  spell as long as the grace interval; the CPU clock follows the temperature with hysteresis; for
  which polling intervals the loop is defined.
\<close>

section \<open>State\<close>

record Thresholds =
  critical :: int
  concern :: int
  safe :: int
  graceInterval :: int

record ThermalController =
  th_rebootThreshold :: Thresholds
  th_deepsleepThreshold :: Thresholds
  th_declockThreshold :: Thresholds
  th_poll_interval :: int
  th_read_config_param :: bool
  th_isFeatureEnabled :: bool
  th_level :: ThermalTemperature
  th_value :: int
  th_cur_Cpu_Speed :: u32
  th_SPEED_NORMAL :: u32
  th_SPEED_SCALED :: u32
  th_SPEED_MINIMAL :: u32
  th_rebootZone :: bool
  th_rebootMonitor :: int
  th_deepSleepZone :: bool
  th_deepSleepMonitor :: int
  th_declockMonitor :: int
  th_locked :: bool

datatype th_event =
    onThermalTemperatureChanged ThermalTemperature ThermalTemperature real
  | onDeepSleepForThermalChange
  | LogShutdownReason
  | RebootCommand bool

record 'p th_env =
  te_platform :: "'p thermal_platform"
  te_time :: "'p \<Rightarrow> int"
  te_rfc :: "string \<Rightarrow> string option"
  te_mfr :: bool
  te_declock :: bool

definition ThermalController_fields :: "bool \<Rightarrow> ThermalController" where
  "ThermalController_fields mfr = \<lparr>
     th_rebootThreshold = (if \<not> mfr
       then \<lparr>critical = 120, concern = 120, safe = 110, graceInterval = 600\<rparr>
       else \<lparr>critical = 110, concern = 102, safe = 100, graceInterval = 600\<rparr>),
     th_deepsleepThreshold = (if \<not> mfr
       then \<lparr>critical = 115, concern = 110, safe = 100, graceInterval = 600\<rparr>
       else \<lparr>critical = 105, concern = 100, safe = 90, graceInterval = 600\<rparr>),
     th_declockThreshold = (if \<not> mfr
       then \<lparr>critical = 110, concern = 100, safe = 90, graceInterval = 60\<rparr>
       else \<lparr>critical = 100, concern = 90, safe = 80, graceInterval = 60\<rparr>),
     th_poll_interval = 30, th_read_config_param = False, th_isFeatureEnabled = True,
     th_level = THERMAL_TEMPERATURE_NORMAL, th_value = 0, th_cur_Cpu_Speed = 0,
     th_SPEED_NORMAL = 0, th_SPEED_SCALED = 0, th_SPEED_MINIMAL = 0,
     th_rebootZone = False, th_rebootMonitor = 0, th_deepSleepZone = False,
     th_deepSleepMonitor = 0, th_declockMonitor = 0, th_locked = False \<rparr>"

section \<open>Configuration\<close>

definition MAX_THERMAL_RFC :: nat where
  "MAX_THERMAL_RFC = 16"

text \<open>
  \<open>None\<close> is undefined behaviour: for the value \<open>"\<close> the length \<open>dataLen - 2\<close> wraps around and
  \<open>strncpy\<close> clears memory past the buffer. \<open>Some None\<close> is the null pointer.
\<close>

definition read_ConfigProperty :: "(string \<Rightarrow> string option) \<Rightarrow> string \<Rightarrow> string option option" where
  "read_ConfigProperty rfc key =
     (let valueBuf =
        (case rfc key of
           None \<Rightarrow> Some []
         | Some value \<Rightarrow>
             (let dataLen = (if MAX_THERMAL_RFC - 1 < length value then MAX_THERMAL_RFC - 1
                             else length value)
              in if value \<noteq> [] \<and> value ! 0 = CHR 0x22 \<and> value ! (dataLen - 1) = CHR 0x22
                 then (if dataLen < 2 then None else Some (take (dataLen - 2) (drop 1 value)))
                 else Some (take (MAX_THERMAL_RFC - 1) value)))
      in map_option (\<lambda>buf. if buf \<noteq> [] then Some buf else None) valueBuf)"

text \<open>One \<open>value = read_ConfigProperty(key); if (NULL != value) field = atoi(value)\<close>.\<close>

definition config_int ::
  "(string \<Rightarrow> string option) \<Rightarrow> string \<Rightarrow> (int \<Rightarrow> ThermalController \<Rightarrow> ThermalController)
     \<Rightarrow> ThermalController option \<Rightarrow> ThermalController option" where
  "config_int rfc key upd c =
     Option.bind c (\<lambda>c. Option.bind (read_ConfigProperty rfc (''RFC_DATA_ThermalProtection_'' @ key))
       (\<lambda>value. Some (case value of None \<Rightarrow> c | Some v \<Rightarrow> upd (atoi v) c)))"

definition read_ConfigProps ::
  "(string \<Rightarrow> string option) \<Rightarrow> ThermalController \<Rightarrow> ThermalController option" where
  "read_ConfigProps rfc c =
     (config_int rfc ''PLAT_CPU_SPEED_MINIMAL'' (\<lambda>v c. c\<lparr>th_SPEED_MINIMAL := word_of_int v\<rparr>)
     (config_int rfc ''PLAT_CPU_SPEED_SCALED'' (\<lambda>v c. c\<lparr>th_SPEED_SCALED := word_of_int v\<rparr>)
     (config_int rfc ''PLAT_CPU_SPEED_NORMAL'' (\<lambda>v c. c\<lparr>th_SPEED_NORMAL := word_of_int v\<rparr>)
     (config_int rfc ''POLL_INTERVAL'' (\<lambda>v c. c\<lparr>th_poll_interval := v\<rparr>)
     (config_int rfc ''DEEPSLEEP_GRACE_INTERVAL''
        (\<lambda>v c. c\<lparr>th_deepsleepThreshold := (th_deepsleepThreshold c)\<lparr>graceInterval := v\<rparr>\<rparr>)
     (config_int rfc ''DEEPSLEEP_SAFE_THRESHOLD''
        (\<lambda>v c. c\<lparr>th_deepsleepThreshold := (th_deepsleepThreshold c)\<lparr>safe := v\<rparr>\<rparr>)
     (config_int rfc ''DEEPSLEEP_CONCERN_THRESHOLD''
        (\<lambda>v c. c\<lparr>th_deepsleepThreshold := (th_deepsleepThreshold c)\<lparr>concern := v\<rparr>\<rparr>)
     (config_int rfc ''DEEPSLEEP_CRITICAL_THRESHOLD''
        (\<lambda>v c. c\<lparr>th_deepsleepThreshold := (th_deepsleepThreshold c)\<lparr>critical := v\<rparr>\<rparr>)
     (config_int rfc ''DECLOCK_GRACE_INTERVAL''
        (\<lambda>v c. c\<lparr>th_declockThreshold := (th_declockThreshold c)\<lparr>graceInterval := v\<rparr>\<rparr>)
     (config_int rfc ''DECLOCK_SAFE_THRESHOLD''
        (\<lambda>v c. c\<lparr>th_declockThreshold := (th_declockThreshold c)\<lparr>safe := v\<rparr>\<rparr>)
     (config_int rfc ''DECLOCK_CONCERN_THRESHOLD''
        (\<lambda>v c. c\<lparr>th_declockThreshold := (th_declockThreshold c)\<lparr>concern := v\<rparr>\<rparr>)
     (config_int rfc ''DECLOCK_CRITICAL_THRESHOLD''
        (\<lambda>v c. c\<lparr>th_declockThreshold := (th_declockThreshold c)\<lparr>critical := v\<rparr>\<rparr>)
     (config_int rfc ''REBOOT_GRACE_INTERVAL''
        (\<lambda>v c. c\<lparr>th_rebootThreshold := (th_rebootThreshold c)\<lparr>graceInterval := v\<rparr>\<rparr>)
     (config_int rfc ''REBOOT_SAFE_THRESHOLD''
        (\<lambda>v c. c\<lparr>th_rebootThreshold := (th_rebootThreshold c)\<lparr>safe := v\<rparr>\<rparr>)
     (config_int rfc ''REBOOT_CONCERN_THRESHOLD''
        (\<lambda>v c. c\<lparr>th_rebootThreshold := (th_rebootThreshold c)\<lparr>concern := v\<rparr>\<rparr>)
     (config_int rfc ''REBOOT_CRITICAL_THRESHOLD''
        (\<lambda>v c. c\<lparr>th_rebootThreshold := (th_rebootThreshold c)\<lparr>critical := v\<rparr>\<rparr>)
     (Some c)))))))))))))))))"

definition updateRFCStatus ::
  "(string \<Rightarrow> string option) \<Rightarrow> ThermalController \<Rightarrow> bool \<times> ThermalController" where
  "updateRFCStatus rfc c =
     (let c1 = c\<lparr>th_isFeatureEnabled := True\<rparr> in
      case rfc ''RFC_ENABLE_ThermalProtection'' of
        None \<Rightarrow> (False, c1)
      | Some v \<Rightarrow> (if strncasecmp_eq v ''false'' 5 then (False, c1\<lparr>th_isFeatureEnabled := False\<rparr>)
                  else (True, c1)))"

definition isThermalProtectionEnabled ::
  "(string \<Rightarrow> string option) \<Rightarrow> ThermalController \<Rightarrow> (bool \<times> ThermalController) option" where
  "isThermalProtectionEnabled rfc c =
     map_option (\<lambda>c. (th_isFeatureEnabled c, c))
       (if \<not> th_read_config_param c
        then map_option (\<lambda>c. c\<lparr>th_read_config_param := True\<rparr>)
               (let (ok, c1) = updateRFCStatus rfc c in if ok then read_ConfigProps rfc c1 else Some c1)
        else Some c)"

text \<open>The result also tells whether the polling thread is started.\<close>

definition initializeThermalProtection ::
  "'p th_env \<Rightarrow> ThermalController \<Rightarrow> 'p \<Rightarrow> (bool \<times> ThermalController \<times> 'p) option" where
  "initializeThermalProtection E c p =
     map_option (\<lambda>(on, c1).
       if on then
         (let (c2, p2) =
            (if te_declock E \<and> 0 < graceInterval (th_declockThreshold c1)
             then
               (let (e, n, s, m, q) = tp_DetemineClockSpeeds (te_platform E) (th_SPEED_NORMAL c1)
                      (th_SPEED_SCALED c1) (th_SPEED_MINIMAL c1) p;
                    c' = c1\<lparr>th_SPEED_NORMAL := n, th_SPEED_SCALED := s, th_SPEED_MINIMAL := m\<rparr>;
                    c'' = (if n = 0 \<or> s = 0 \<or> m = 0
                           then c'\<lparr>th_declockThreshold := (th_declockThreshold c')\<lparr>graceInterval := 0\<rparr>\<rparr>
                           else c')
                in (c''\<lparr>th_cur_Cpu_Speed := n\<rparr>, q))
             else (c1, p));
              (e, p3) = tp_SetTemperatureThresholds (te_platform E)
                 (real_of_int (concern (th_declockThreshold c2)))
                 (real_of_int (critical (th_declockThreshold c2))) p2
          in (True, c2, p3))
       else (False, c1, p)) (isThermalProtectionEnabled (te_rfc E) c)"

section \<open>Operations\<close>

definition ThermalController_GetThermalState :: "ThermalController \<Rightarrow> hresult \<times> ThermalTemperature \<times> real" where
  "ThermalController_GetThermalState c = (ERROR_NONE, th_level c, real_of_int (th_value c))"

definition ThermalController_GetTemperatureThresholds ::
  "'p thermal_platform \<Rightarrow> real \<Rightarrow> real \<Rightarrow> 'p \<Rightarrow> hresult \<times> real \<times> real \<times> 'p" where
  "ThermalController_GetTemperatureThresholds P tempHigh tempCritical p =
     tp_GetTemperatureThresholds P tempHigh tempCritical p"

definition ThermalController_SetTemperatureThresholds ::
  "'p thermal_platform \<Rightarrow> real \<Rightarrow> real \<Rightarrow> 'p \<Rightarrow> hresult \<times> 'p" where
  "ThermalController_SetTemperatureThresholds P tempHigh tempCritical p =
     tp_SetTemperatureThresholds P tempHigh tempCritical p"

definition ThermalController_GetOvertempGraceInterval :: "ThermalController \<Rightarrow> hresult \<times> int" where
  "ThermalController_GetOvertempGraceInterval c = (ERROR_NONE, graceInterval (th_rebootThreshold c))"

definition ThermalController_SetOvertempGraceInterval ::
  "int \<Rightarrow> ThermalController \<Rightarrow> hresult \<times> ThermalController" where
  "ThermalController_SetOvertempGraceInterval g c =
     (if 0 \<le> g
      then (ERROR_NONE,
            c\<lparr>th_rebootThreshold := (th_rebootThreshold c)\<lparr>graceInterval := g\<rparr>,
              th_deepsleepThreshold := (th_deepsleepThreshold c)\<lparr>graceInterval := g\<rparr>\<rparr>)
      else (ERROR_INVALID_PARAMETER, c))"

section \<open>The checks of a poll\<close>

definition rebootIfNeeded :: "int \<Rightarrow> ThermalController \<Rightarrow> ThermalController \<times> th_event list" where
  "rebootIfNeeded now c =
     (let T = th_rebootThreshold c; v = th_value c in
      if graceInterval T = 0 then (c, [])
      else
        (let (c1, e1) =
           (if critical T \<le> v then (c, [RebootCommand True])
            else if \<not> th_rebootZone c \<and> concern T \<le> v
            then (c\<lparr>th_rebootMonitor := now, th_rebootZone := True\<rparr>, [])
            else if th_rebootZone c \<and> v < safe T then (c\<lparr>th_rebootZone := False\<rparr>, [])
            else (c, []))
         in if th_rebootZone c1 \<and> graceInterval T \<le> now - th_rebootMonitor c1
            then (c1, e1 @ [RebootCommand False]) else (c1, e1)))"

definition deepSleepIfNeeded :: "int \<Rightarrow> ThermalController \<Rightarrow> ThermalController \<times> th_event list" where
  "deepSleepIfNeeded now c =
     (let T = th_deepsleepThreshold c; v = th_value c in
      if graceInterval T = 0 then (c, [])
      else
        (let (c1, e1) =
           (if critical T \<le> v then (c, [LogShutdownReason, onDeepSleepForThermalChange])
            else if \<not> th_deepSleepZone c \<and> concern T \<le> v
            then (c\<lparr>th_deepSleepMonitor := now, th_deepSleepZone := True\<rparr>, [])
            else if th_deepSleepZone c \<and> v < safe T then (c\<lparr>th_deepSleepZone := False\<rparr>, [])
            else (c, []))
         in if th_deepSleepZone c1 \<and> graceInterval T \<le> now - th_deepSleepMonitor c1
            then (c1, e1 @ [LogShutdownReason, onDeepSleepForThermalChange]) else (c1, e1)))"

text \<open>Besides the new state, the clock speed the platform is asked for.\<close>

definition declock_decide :: "int \<Rightarrow> ThermalController \<Rightarrow> ThermalController \<times> u32 option" where
  "declock_decide now c =
     (let T = th_declockThreshold c; v = th_value c; speed = th_cur_Cpu_Speed c;
          N = th_SPEED_NORMAL c; S = th_SPEED_SCALED c; M = th_SPEED_MINIMAL c in
      if graceInterval T = 0 then (c, None)
      else if critical T \<le> v then
        (if speed \<noteq> M then (c\<lparr>th_cur_Cpu_Speed := M, th_declockMonitor := now\<rparr>, Some M)
         else (c\<lparr>th_declockMonitor := now\<rparr>, None))
      else if concern T \<le> v then
        (if speed = N then (c\<lparr>th_cur_Cpu_Speed := S, th_declockMonitor := now\<rparr>, Some S)
         else (c\<lparr>th_declockMonitor := now\<rparr>, None))
      else if safe T < v then
        (if speed = M
         then (if graceInterval T \<le> now - th_declockMonitor c
               then (c\<lparr>th_cur_Cpu_Speed := S, th_declockMonitor := now\<rparr>, Some S) else (c, None))
         else (c\<lparr>th_declockMonitor := now\<rparr>, None))
      else
        (if speed \<noteq> N \<and> graceInterval T \<le> now - th_declockMonitor c
         then (c\<lparr>th_cur_Cpu_Speed := N\<rparr>, Some N) else (c, None)))"

definition declockIfNeeded :: "'p th_env \<Rightarrow> ThermalController \<Rightarrow> 'p \<Rightarrow> ThermalController \<times> 'p" where
  "declockIfNeeded E c p =
     (if te_declock E
      then (let (c1, set) = declock_decide (te_time E p) c
            in (c1, case set of None \<Rightarrow> p | Some speed \<Rightarrow> snd (tp_SetClockSpeed (te_platform E) speed p)))
      else (c, p))"

text \<open>The conversion of a \<open>float\<close> to \<open>int\<close>, within its range.\<close>

definition int_of_float :: "real \<Rightarrow> int" where
  "int_of_float x = (if 0 \<le> x then \<lfloor>x\<rfloor> else \<lceil>x\<rceil>)"

text \<open>
  The intervals of the two log messages, divisors of the poll count: \<open>None\<close> for a division by zero.
\<close>

definition poll_intervals :: "int \<Rightarrow> (int \<times> int) option" where
  "poll_intervals interval =
     (if interval = 0 then None else Some (tdiv 300 interval, tdiv 900 interval))"

text \<open>
  One round of the loop of \<open>pollThermalLevels\<close>, up to \<open>sleep\<close>. The first component of the result
  tells whether the loop goes on.
\<close>

definition poll_round ::
  "'p th_env \<Rightarrow> int \<times> int \<Rightarrow> bool \<Rightarrow> ThermalTemperature \<times> real \<times> real \<Rightarrow> ThermalController \<Rightarrow> 'p
     \<Rightarrow> (bool \<times> (ThermalTemperature \<times> real \<times> real) \<times> ThermalController \<times> 'p \<times> th_event list) option"
where
  "poll_round E intervals stop vars c p =
     (let (thermalLogInterval, fifteenMinInterval) = intervals;
          (state0, temp0, wifi0) = vars;
          c = c\<lparr>th_locked := True\<rparr>;
          (result, state, temp, wifi, p1) = tp_GetTemperature (te_platform E) state0 temp0 wifi0 p
      in if result = ERROR_NONE then
           (let (c1, e1) =
              (if th_level c \<noteq> state
               then (c\<lparr>th_level := state\<rparr>, [onThermalTemperatureChanged (th_level c) state temp])
               else (c, []))
            in if fifteenMinInterval = 0 \<or> thermalLogInterval = 0 then None
               else
                 (let c2 = c1\<lparr>th_value := int_of_float temp\<rparr>
                  in if stop then Some (False, (state, temp, wifi), c2, p1, e1)
                     else
                       (let c3 = c2\<lparr>th_locked := False\<rparr>;
                            (c4, e4) = deepSleepIfNeeded (te_time E p1) c3;
                            (c5, e5) = rebootIfNeeded (te_time E p1) c4;
                            (c6, p6) = declockIfNeeded E c5 p1
                        in Some (True, (state, temp, wifi), c6, p6, e1 @ e4 @ e5))))
         else Some (True, (state, temp, wifi), c\<lparr>th_locked := False\<rparr>, p1, []))"
section \<open>Zones\<close>

text \<open>
  The contract of a zone over a series of readings \<open>(v, t)\<close> (a temperature and its time): a reading
  from the critical level on fires and leaves the zone as it is; a reading from the concern level
  enters the zone, one below the safe level leaves it; it also fires in the zone once the grace
  interval has passed since it was entered. The client's lemma says when a series fires, without
  the state.
\<close>

locale hysteresis_zone =
  fixes zone :: "'s \<Rightarrow> bool" and entered :: "'s \<Rightarrow> int"
    and step :: "int \<Rightarrow> int \<Rightarrow> 's \<Rightarrow> 's \<times> 'e list" and ok :: "'s \<Rightarrow> bool"
    and T :: Thresholds
  assumes step_ok: "ok s \<Longrightarrow> ok (fst (step v t s))"
    and zone_step: "ok s \<Longrightarrow> zone (fst (step v t s)) \<longleftrightarrow>
      (if critical T \<le> v then zone s else if zone s then safe T \<le> v else concern T \<le> v)"
    and entered_step: "ok s \<Longrightarrow> entered (fst (step v t s)) =
      (if v < critical T \<and> \<not> zone s \<and> concern T \<le> v then t else entered s)"
    and fires: "ok s \<Longrightarrow> snd (step v t s) \<noteq> [] \<longleftrightarrow> critical T \<le> v
      \<or> (zone (fst (step v t s)) \<and> graceInterval T \<le> t - entered (fst (step v t s)))"
begin

fun zrun :: "(int \<times> int) list \<Rightarrow> 's \<Rightarrow> 's" where
  "zrun [] s = s"
| "zrun ((v, t) # l) s = zrun l (fst (step v t s))"

definition hot :: "(int \<times> int) list \<Rightarrow> int \<Rightarrow> bool" where
  "hot l t0 \<longleftrightarrow> (\<exists>pre v0 mid. l = pre @ (v0, t0) # mid \<and> concern T \<le> v0 \<and> v0 < critical T
     \<and> (\<forall>(v, t) \<in> set mid. safe T \<le> v \<or> critical T \<le> v))"

lemma zrun_snoc: "zrun (l @ [(v, t)]) s = fst (step v t (zrun l s))"
  by (induction l arbitrary: s) auto

lemma zrun_ok: "ok s \<Longrightarrow> ok (zrun l s)"
  by (induction l arbitrary: s) (auto simp: step_ok)

lemma hot_snoc:
  "hot (l @ [(v, t)]) t0 \<longleftrightarrow>
    (t0 = t \<and> concern T \<le> v \<and> v < critical T) \<or> (hot l t0 \<and> (safe T \<le> v \<or> critical T \<le> v))"
proof
  assume "hot (l @ [(v, t)]) t0"
  then obtain pre v0 mid where eq: "l @ [(v, t)] = pre @ (v0, t0) # mid"
    and c: "concern T \<le> v0" "v0 < critical T"
    and mid: "\<forall>(v, t) \<in> set mid. safe T \<le> v \<or> critical T \<le> v"
    by (auto simp: hot_def)
  show "(t0 = t \<and> concern T \<le> v \<and> v < critical T) \<or> (hot l t0 \<and> (safe T \<le> v \<or> critical T \<le> v))"
  proof (cases mid rule: rev_cases)
    case Nil
    then show ?thesis using eq c by simp
  next
    case (snoc mid' x)
    then have "l = pre @ (v0, t0) # mid'" "x = (v, t)" using eq by auto
    then show ?thesis using snoc mid c by (auto simp: hot_def)
  qed
next
  assume "(t0 = t \<and> concern T \<le> v \<and> v < critical T) \<or> (hot l t0 \<and> (safe T \<le> v \<or> critical T \<le> v))"
  then show "hot (l @ [(v, t)]) t0"
  proof
    assume "t0 = t \<and> concern T \<le> v \<and> v < critical T"
    then show ?thesis unfolding hot_def by (intro exI [of _ l] exI [of _ v] exI [of _ "[]"]) simp
  next
    assume *: "hot l t0 \<and> (safe T \<le> v \<or> critical T \<le> v)"
    then obtain pre v0 mid where "l = pre @ (v0, t0) # mid" "concern T \<le> v0" "v0 < critical T"
      "\<forall>(v, t) \<in> set mid. safe T \<le> v \<or> critical T \<le> v" by (auto simp: hot_def)
    then show ?thesis using * unfolding hot_def
      by (intro exI [of _ pre] exI [of _ v0] exI [of _ "mid @ [(v, t)]"]) auto
  qed
qed

lemma zone_hot:
  assumes "ok s" and "\<not> zone s" and "sorted (map snd l)" and "safe T \<le> concern T"
  shows "(zone (zrun l s) \<longrightarrow> hot l (entered (zrun l s)))
    \<and> (\<forall>t0. hot l t0 \<longrightarrow> zone (zrun l s) \<and> entered (zrun l s) \<le> t0)"
  using assms(3)
proof (induction l rule: rev_induct)
  case Nil
  then show ?case using assms(2) by (simp add: hot_def)
next
  case (snoc x l)
  obtain v t where x: "x = (v, t)" by force
  have ok: "ok (zrun l s)" using assms(1) by (rule zrun_ok)
  have IH: "zone (zrun l s) \<longrightarrow> hot l (entered (zrun l s))"
    "\<forall>t0. hot l t0 \<longrightarrow> zone (zrun l s) \<and> entered (zrun l s) \<le> t0"
    using snoc by (auto simp: sorted_append)
  have le: "hot l t0 \<Longrightarrow> t0 \<le> t" for t0
    using snoc.prems x by (auto simp: hot_def sorted_append)
  then have "zone (zrun l s) \<Longrightarrow> entered (zrun l s) \<le> t" using IH(1) by blast
  then show ?case
    using IH assms(4) le
    by (auto simp: x zrun_snoc hot_snoc zone_step [OF ok] entered_step [OF ok])
qed

lemma fires_iff:
  assumes "ok s" and "\<not> zone s" and "sorted (map snd (l @ [(v, t)]))" and "safe T \<le> concern T"
  shows "snd (step v t (zrun l s)) \<noteq> [] \<longleftrightarrow>
    critical T \<le> v \<or> (\<exists>t0. hot (l @ [(v, t)]) t0 \<and> graceInterval T \<le> t - t0)"
proof -
  have z: "(zone (zrun (l @ [(v, t)]) s) \<longrightarrow> hot (l @ [(v, t)]) (entered (zrun (l @ [(v, t)]) s)))
    \<and> (\<forall>t0. hot (l @ [(v, t)]) t0 \<longrightarrow>
         zone (zrun (l @ [(v, t)]) s) \<and> entered (zrun (l @ [(v, t)]) s) \<le> t0)"
    by (rule zone_hot [OF assms])
  show ?thesis
    unfolding fires [OF zrun_ok [OF assms(1)]] zrun_snoc [symmetric]
    using z by force
qed

end

text \<open>The two zones of the controller.\<close>

definition deepsleep_sample :: "int \<Rightarrow> int \<Rightarrow> ThermalController \<Rightarrow> ThermalController \<times> th_event list" where
  "deepsleep_sample v now c = deepSleepIfNeeded now (c\<lparr>th_value := v\<rparr>)"

definition reboot_sample :: "int \<Rightarrow> int \<Rightarrow> ThermalController \<Rightarrow> ThermalController \<times> th_event list" where
  "reboot_sample v now c = rebootIfNeeded now (c\<lparr>th_value := v\<rparr>)"

definition deepsleep_on :: "Thresholds \<Rightarrow> ThermalController \<Rightarrow> bool" where
  "deepsleep_on T c \<longleftrightarrow> th_deepsleepThreshold c = T \<and> graceInterval T \<noteq> 0"

definition reboot_on :: "Thresholds \<Rightarrow> ThermalController \<Rightarrow> bool" where
  "reboot_on T c \<longleftrightarrow> th_rebootThreshold c = T \<and> graceInterval T \<noteq> 0"

interpretation deepsleep_zone:
  hysteresis_zone th_deepSleepZone th_deepSleepMonitor deepsleep_sample "deepsleep_on T" T for T
  by unfold_locales
    (auto simp: deepsleep_sample_def deepsleep_on_def deepSleepIfNeeded_def Let_def split: if_splits)

interpretation reboot_zone:
  hysteresis_zone th_rebootZone th_rebootMonitor reboot_sample "reboot_on T" T for T
  by unfold_locales
    (auto simp: reboot_sample_def reboot_on_def rebootIfNeeded_def Let_def split: if_splits)


fun deepsleep_samples :: "(int \<times> int) list \<Rightarrow> ThermalController \<Rightarrow> ThermalController" where
  "deepsleep_samples [] c = c"
| "deepsleep_samples ((v, t) # l) c = deepsleep_samples l (fst (deepsleep_sample v t c))"

fun reboot_samples :: "(int \<times> int) list \<Rightarrow> ThermalController \<Rightarrow> ThermalController" where
  "reboot_samples [] c = c"
| "reboot_samples ((v, t) # l) c = reboot_samples l (fst (reboot_sample v t c))"

text \<open>
  The readings \<open>l\<close> end with a hot spell that began at \<open>t0\<close>: with a reading between the concern and
  the critical level, and none below the safe level since.
\<close>

definition hot_spell :: "Thresholds \<Rightarrow> (int \<times> int) list \<Rightarrow> int \<Rightarrow> bool" where
  "hot_spell T l t0 \<longleftrightarrow> (\<exists>pre v0 mid. l = pre @ (v0, t0) # mid \<and> concern T \<le> v0 \<and> v0 < critical T
     \<and> (\<forall>(v, t) \<in> set mid. safe T \<le> v \<or> critical T \<le> v))"

lemma deepsleep_samples_eq: "deepsleep_samples l c = deepsleep_zone.zrun l c"
  by (induction l arbitrary: c) auto

lemma reboot_samples_eq: "reboot_samples l c = reboot_zone.zrun l c"
  by (induction l arbitrary: c) auto

lemma hot_spell_eq: "hot_spell T l t0 = deepsleep_zone.hot T l t0" "hot_spell T l t0 = reboot_zone.hot T l t0"
  by (simp_all add: hot_spell_def deepsleep_zone.hot_def reboot_zone.hot_def)

section \<open>The CPU clock\<close>

definition declock_sample :: "int \<Rightarrow> int \<Rightarrow> ThermalController \<Rightarrow> ThermalController \<times> u32 option" where
  "declock_sample v now c = declock_decide now (c\<lparr>th_value := v\<rparr>)"

fun declock_samples :: "(int \<times> int) list \<Rightarrow> ThermalController \<Rightarrow> ThermalController" where
  "declock_samples [] c = c"
| "declock_samples ((v, t) # l) c = declock_samples l (fst (declock_sample v t c))"

lemma declock_sample_frame:
  "th_declockThreshold (fst (declock_sample v t c)) = th_declockThreshold c
   \<and> th_SPEED_NORMAL (fst (declock_sample v t c)) = th_SPEED_NORMAL c
   \<and> th_SPEED_SCALED (fst (declock_sample v t c)) = th_SPEED_SCALED c
   \<and> th_SPEED_MINIMAL (fst (declock_sample v t c)) = th_SPEED_MINIMAL c"
  by (simp add: declock_sample_def declock_decide_def Let_def)

lemma declock_samples_snoc:
  "declock_samples (l @ [(v, t)]) c = fst (declock_sample v t (declock_samples l c))"
  by (induction l arbitrary: c) auto

lemma declock_samples_frame:
  "th_declockThreshold (declock_samples l c) = th_declockThreshold c
   \<and> th_SPEED_NORMAL (declock_samples l c) = th_SPEED_NORMAL c
   \<and> th_SPEED_SCALED (declock_samples l c) = th_SPEED_SCALED c
   \<and> th_SPEED_MINIMAL (declock_samples l c) = th_SPEED_MINIMAL c"
  by (induction l arbitrary: c) (auto simp: declock_sample_frame)

text \<open>Whether the clock may run at full speed after a reading.\<close>

definition declock_ok :: "int \<Rightarrow> ThermalController \<Rightarrow> bool" where
  "declock_ok v c \<longleftrightarrow>
     (if critical (th_declockThreshold c) \<le> v then th_cur_Cpu_Speed c = th_SPEED_MINIMAL c
      else if concern (th_declockThreshold c) \<le> v then th_cur_Cpu_Speed c \<noteq> th_SPEED_NORMAL c
      else True)"

definition speeds_distinct :: "ThermalController \<Rightarrow> bool" where
  "speeds_distinct c \<longleftrightarrow> distinct [th_SPEED_NORMAL c, th_SPEED_SCALED c, th_SPEED_MINIMAL c]"

lemma declock_sample_ok:
  "graceInterval (th_declockThreshold c) \<noteq> 0 \<Longrightarrow> speeds_distinct c
   \<Longrightarrow> declock_ok v (fst (declock_sample v t c))"
  by (auto simp: declock_ok_def declock_sample_def declock_decide_def Let_def speeds_distinct_def)

lemma declock_monitor:
  assumes "graceInterval (th_declockThreshold c) \<noteq> 0" and "sorted (map snd l)"
    and "concern (th_declockThreshold c) \<le> critical (th_declockThreshold c)"
    and "(v, t) \<in> set l" and "concern (th_declockThreshold c) \<le> v"
  shows "t \<le> th_declockMonitor (declock_samples l c)"
  using assms(2,4,5)
proof (induction l arbitrary: v t rule: rev_induct)
  case (snoc x l)
  obtain v1 t1 where x: "x = (v1, t1)" by force
  let ?c = "declock_samples l c"
  have grace: "graceInterval (th_declockThreshold ?c) \<noteq> 0"
    "th_declockThreshold ?c = th_declockThreshold c"
    using assms(1) declock_samples_frame [of l c] by simp_all
  then have mon: "th_declockMonitor (fst (declock_sample v1 t1 ?c)) \<in> {t1, th_declockMonitor ?c}"
    and hot: "concern (th_declockThreshold c) \<le> v1 \<Longrightarrow> th_declockMonitor (fst (declock_sample v1 t1 ?c)) = t1"
    using assms(3) by (auto simp: declock_sample_def declock_decide_def Let_def)
  show ?case
  proof (cases "(v, t) = x")
    case True
    then show ?thesis using hot snoc.prems x by (simp add: declock_samples_snoc)
  next
    case False
    then have "(v, t) \<in> set l" using snoc.prems by auto
    then have "t \<le> th_declockMonitor ?c" "t \<le> t1"
      using snoc x by (auto simp: sorted_append)
    then show ?thesis using mon x by (auto simp: declock_samples_snoc)
  qed
qed simp

lemma declock_normal:
  assumes "snd (declock_sample v t c) = Some (th_SPEED_NORMAL c)" and "speeds_distinct c"
  shows "v \<le> safe (th_declockThreshold c)
    \<and> graceInterval (th_declockThreshold c) \<le> t - th_declockMonitor c"
  using assms
  by (auto simp: declock_sample_def declock_decide_def Let_def speeds_distinct_def split: if_splits)

section \<open>The polling interval\<close>

lemma tdiv_zero_iff: "0 < n \<Longrightarrow> tdiv n i = 0 \<longleftrightarrow> i = 0 \<or> n < \<bar>i\<bar>"
  by (auto simp: tdiv_def sgn_if div_pos_pos_trivial zdiv_eq_0_iff)

lemma poll_round_none:
  "poll_round E (l, f) stop (s0, t0, w0) c p = None \<longleftrightarrow>
   fst (tp_GetTemperature (te_platform E) s0 t0 w0 p) = ERROR_NONE \<and> (l = 0 \<or> f = 0)"
  by (auto simp: poll_round_def Let_def split: prod.splits)

lemma checks_locked:
  "th_locked (fst (deepSleepIfNeeded now c)) = th_locked c"
  "th_locked (fst (rebootIfNeeded now c)) = th_locked c"
  "th_locked (fst (declockIfNeeded E c p)) = th_locked c"
proof -
  show "th_locked (fst (deepSleepIfNeeded now c)) = th_locked c"
    "th_locked (fst (rebootIfNeeded now c)) = th_locked c"
    by (simp_all add: deepSleepIfNeeded_def rebootIfNeeded_def Let_def)
  have "th_locked (fst (declock_decide now c)) = th_locked c" for now
    by (simp add: declock_decide_def Let_def)
  then show "th_locked (fst (declockIfNeeded E c p)) = th_locked c"
    by (simp add: declockIfNeeded_def case_prod_unfold Let_def)
qed

lemma poll_round_lock:
  "poll_round E iv stop vars c p = Some (go, vars1, c1, p1, evs) \<Longrightarrow> th_locked c1 \<longleftrightarrow> \<not> go"
  by (auto simp: poll_round_def Let_def case_prod_unfold checks_locked split: if_splits)

section \<open>Properties\<close>

text \<open>
  C17. Over a series of readings in the order of time, a reading asks for deep sleep exactly if it
  reaches the critical level, or the readings since some one between the concern and the critical
  level never fell below the safe level for the grace interval.
\<close>

theorem deep_sleep_after_hot_spell:
  assumes "th_deepsleepThreshold c = T" and "graceInterval T \<noteq> 0" and "\<not> th_deepSleepZone c"
    and "safe T \<le> concern T" and "sorted (map snd (l @ [(v, t)]))"
  shows "onDeepSleepForThermalChange \<in> set (snd (deepsleep_sample v t (deepsleep_samples l c))) \<longleftrightarrow>
    critical T \<le> v \<or> (\<exists>t0. hot_spell T (l @ [(v, t)]) t0 \<and> graceInterval T \<le> t - t0)"
proof -
  have on: "deepsleep_on T c" using assms(1,2) by (simp add: deepsleep_on_def)
  have "onDeepSleepForThermalChange \<in> set (snd (deepsleep_sample v t c')) \<longleftrightarrow>
      snd (deepsleep_sample v t c') \<noteq> []" for c'
    by (simp add: deepsleep_sample_def deepSleepIfNeeded_def Let_def)
  then show ?thesis
    using deepsleep_zone.fires_iff [OF on assms(3,5,4)]
    by (simp add: deepsleep_samples_eq hot_spell_eq)
qed

definition example_thermal :: ThermalController where
  "example_thermal = (ThermalController_fields False)\<lparr>th_SPEED_NORMAL := 3, th_SPEED_SCALED := 2,
     th_SPEED_MINIMAL := 1, th_cur_Cpu_Speed := 3\<rparr>"

theorem deep_sleep_after_hot_spell_witness:
  "onDeepSleepForThermalChange \<in> set (snd (deepsleep_sample 101 700 (deepsleep_samples [(111, 50)] example_thermal)))"
proof -
  let ?T = "th_deepsleepThreshold example_thermal"
  have "hot_spell ?T ([(111, 50)] @ [(101, 700)]) 50"
    unfolding hot_spell_def
    by (intro exI [of _ "[]"] exI [of _ 111] exI [of _ "[(101, 700)]"])
      (simp add: example_thermal_def ThermalController_fields_def)
  then show ?thesis
    using deep_sleep_after_hot_spell [of example_thermal ?T "[(111, 50)]" 101 700]
    by (force simp: example_thermal_def ThermalController_fields_def)
qed

text \<open>
  The reboot zone works the same way with its own thresholds.
\<close>

theorem reboot_after_hot_spell:
  assumes "th_rebootThreshold c = T" and "graceInterval T \<noteq> 0" and "\<not> th_rebootZone c"
    and "safe T \<le> concern T" and "sorted (map snd (l @ [(v, t)]))"
  shows "snd (reboot_sample v t (reboot_samples l c)) \<noteq> [] \<longleftrightarrow>
    critical T \<le> v \<or> (\<exists>t0. hot_spell T (l @ [(v, t)]) t0 \<and> graceInterval T \<le> t - t0)"
proof -
  have on: "reboot_on T c" using assms(1,2) by (simp add: reboot_on_def)
  then show ?thesis
    using reboot_zone.fires_iff [OF on assms(3,5,4)] by (simp add: reboot_samples_eq hot_spell_eq)
qed

theorem reboot_after_hot_spell_witness:
  "snd (reboot_sample 119 700 (reboot_samples [(111, 50)] example_thermal)) = []"
proof -
  let ?T = "th_rebootThreshold example_thermal"
  have "\<not> hot_spell ?T ([(111, 50)] @ [(119, 700)]) t0" for t0
    by (auto simp: hot_spell_def example_thermal_def ThermalController_fields_def Cons_eq_append_conv)
  then show ?thesis
    using reboot_after_hot_spell [of example_thermal ?T "[(111, 50)]" 119 700]
    by (simp add: example_thermal_def ThermalController_fields_def)
qed

text \<open>
  The CPU clock goes back to normal only at or below the safe temperature, and only once the
  grace interval has passed since the last reading at or above the concern level; a hot reading
  leaves the clock below normal, a critical one at its minimum.
\<close>

theorem declock_hysteresis:
  assumes "graceInterval (th_declockThreshold c) \<noteq> 0" and "speeds_distinct c"
    and "concern (th_declockThreshold c) \<le> critical (th_declockThreshold c)" and "sorted (map snd l)"
  shows "declock_ok v (fst (declock_sample v t (declock_samples l c)))
    \<and> (if snd (declock_sample v t (declock_samples l c)) = Some (th_SPEED_NORMAL c)
       then v \<le> safe (th_declockThreshold c)
         \<and> list_all (\<lambda>(v', t'). v' < concern (th_declockThreshold c)
              \<or> t' + graceInterval (th_declockThreshold c) \<le> t) l
       else True)"
proof -
  let ?c = "declock_samples l c"
  note frame = declock_samples_frame [of l c]
  have sp: "speeds_distinct ?c" using assms(2) frame by (simp add: speeds_distinct_def)
  have "declock_ok v (fst (declock_sample v t ?c))"
    using declock_sample_ok [of ?c v t] sp frame assms(1) by simp
  moreover have "v \<le> safe (th_declockThreshold c)
      \<and> list_all (\<lambda>(v', t'). v' < concern (th_declockThreshold c)
           \<or> t' + graceInterval (th_declockThreshold c) \<le> t) l"
    if "snd (declock_sample v t ?c) = Some (th_SPEED_NORMAL c)"
  proof -
    have n: "v \<le> safe (th_declockThreshold c)"
      "graceInterval (th_declockThreshold c) \<le> t - th_declockMonitor ?c"
      using declock_normal [of v t ?c] that sp frame by simp_all
    have "v' < concern (th_declockThreshold c) \<or> t' + graceInterval (th_declockThreshold c) \<le> t"
      if "(v', t') \<in> set l" for v' t'
      using declock_monitor [OF assms(1,4,3) that] n(2) by linarith
    then show ?thesis using n(1) by (auto simp: list_all_iff)
  qed
  ultimately show ?thesis by simp
qed

theorem declock_hysteresis_witness:
  "declock_ok 101 (fst (declock_sample 101 20 (declock_samples [(80, 10)] example_thermal)))"
  using declock_hysteresis [of example_thermal "[(80, 10)]" 101 20]
  by (simp add: example_thermal_def ThermalController_fields_def speeds_distinct_def)

text \<open>
  With the poll interval \<open>i\<close> the polling thread divides by zero exactly if \<open>i\<close> is 0, or longer
  than 300 seconds and the temperature could be read.
\<close>

theorem poll_interval_defined:
  "(case poll_intervals i of None \<Rightarrow> True
    | Some iv \<Rightarrow> poll_round E iv stop (s0, t0, w0) c p = None) \<longleftrightarrow>
   i = 0 \<or> (300 < \<bar>i\<bar> \<and> fst (tp_GetTemperature (te_platform E) s0 t0 w0 p) = ERROR_NONE)"
  using tdiv_zero_iff [of 300 i] tdiv_zero_iff [of 900 i]
  by (auto simp: poll_intervals_def poll_round_none)

text \<open>
  The polling loop goes on with the thermal mutex released, and ends with it locked.
\<close>

theorem poll_loop_lock:
  assumes "poll_round E iv stop vars c p = Some (go, vars1, c1, p1, evs)"
  shows "th_locked c1 \<longleftrightarrow> \<not> go"
  by (rule poll_round_lock [OF assms])

definition example_th_env :: "int th_env" where
  "example_th_env = \<lparr> te_platform = \<lparr>
       tp_GetTemperatureThresholds = (\<lambda>a b p. (ERROR_NONE, a, b, p)),
       tp_SetTemperatureThresholds = (\<lambda>a b p. (ERROR_NONE, p)),
       tp_GetClockSpeed = (\<lambda>s p. (ERROR_NONE, s, p)), tp_SetClockSpeed = (\<lambda>s p. (ERROR_NONE, p)),
       tp_DetemineClockSpeeds = (\<lambda>a b c p. (ERROR_NONE, 3, 2, 1, p)),
       tp_GetTemperature = (\<lambda>s a b p. (ERROR_NONE, THERMAL_TEMPERATURE_NORMAL, 50, 40, p)) \<rparr>,
     te_time = (\<lambda>p. p), te_rfc = (\<lambda>_. None), te_mfr = False, te_declock = True \<rparr>"

theorem poll_loop_lock_witness:
  "th_locked (fst (snd (snd (the (poll_round example_th_env (10, 30) True
     (THERMAL_TEMPERATURE_NORMAL, 0, 0) example_thermal 5)))))"
proof -
  let ?c = "example_thermal\<lparr>th_locked := True, th_value := 50\<rparr>"
  have "poll_round example_th_env (10, 30) True (THERMAL_TEMPERATURE_NORMAL, 0, 0) example_thermal 5
    = Some (False, (THERMAL_TEMPERATURE_NORMAL, 50, 40), ?c, 5, [])"
    by (simp add: poll_round_def example_th_env_def example_thermal_def ThermalController_fields_def
        int_of_float_def Let_def)
  from poll_loop_lock [OF this] this show ?thesis by simp
qed

end
