(* ===== verification/SinkRegistry.thy ===== *)
theory SinkRegistry imports Prelude begin

text \<open>
  Lists of notification sinks, which the plugins keep for each kind of event
  (\<open>PowerManagerImplementation::Register\<close> and \<open>Unregister\<close>, templates over the kind). A sink is
  an address; the list is in the order of dispatch; \<open>sk_refs\<close> counts the references the registry
  holds on a sink (\<open>AddRef\<close> minus \<open>Release\<close>).

  The locale \<open>sink_members\<close> is what the owner of such a list relies on: registering and
  unregistering are idempotent set operations, and the registry holds exactly one reference on each
  of its sinks. In \<open>sink_set\<close> the status tells besides whether an operation had an effect.
\<close>

record sinks =
  sk_list :: "nat list"
  sk_refs :: "nat \<Rightarrow> int"

definition sinks_empty :: sinks where
  "sinks_empty = \<lparr>sk_list = [], sk_refs = (\<lambda>_. 0)\<rparr>"

definition sink_Register :: "nat \<Rightarrow> sinks \<Rightarrow> hresult \<times> sinks" where
  "sink_Register notification s =
     (if notification \<notin> set (sk_list s)
      then (ERROR_NONE, \<lparr>sk_list = sk_list s @ [notification],
              sk_refs = (sk_refs s)(notification := sk_refs s notification + 1)\<rparr>)
      else (ERROR_GENERAL, s))"

definition sink_Unregister :: "nat \<Rightarrow> sinks \<Rightarrow> hresult \<times> sinks" where
  "sink_Unregister notification s =
     (if notification \<in> set (sk_list s)
      then (ERROR_NONE, \<lparr>sk_list = remove1 notification (sk_list s),
              sk_refs = (sk_refs s)(notification := sk_refs s notification - 1)\<rparr>)
      else (ERROR_GENERAL, s))"

section \<open>The contract\<close>

datatype sink_op = Reg nat | Unreg nat

locale sink_members =
  fixes members :: "'s \<Rightarrow> nat list" and refs :: "'s \<Rightarrow> nat \<Rightarrow> int"
    and reg unreg :: "nat \<Rightarrow> 's \<Rightarrow> hresult \<times> 's" and ok :: "'s \<Rightarrow> bool"
  assumes ok_members: "ok s \<Longrightarrow> distinct (members s)"
    and ok_refs: "ok s \<Longrightarrow> refs s n = (if n \<in> set (members s) then 1 else 0)"
    and reg_ok: "ok s \<Longrightarrow> ok (snd (reg n s))"
    and unreg_ok: "ok s \<Longrightarrow> ok (snd (unreg n s))"
    and reg_members: "ok s \<Longrightarrow> set (members (snd (reg n s))) = insert n (set (members s))"
    and unreg_members: "ok s \<Longrightarrow> set (members (snd (unreg n s))) = set (members s) - {n}"
begin

fun run :: "sink_op list \<Rightarrow> 's \<Rightarrow> 's" where
  "run [] s = s"
| "run (Reg n # ops) s = run ops (snd (reg n s))"
| "run (Unreg n # ops) s = run ops (snd (unreg n s))"

text \<open>The members after a series of operations: the sinks whose last operation was \<open>Reg\<close>.\<close>

fun last_reg :: "nat \<Rightarrow> bool \<Rightarrow> sink_op list \<Rightarrow> bool" where
  "last_reg n b [] = b"
| "last_reg n b (Reg m # ops) = last_reg n (b \<or> m = n) ops"
| "last_reg n b (Unreg m # ops) = last_reg n (b \<and> m \<noteq> n) ops"

lemma run_ok: "ok s \<Longrightarrow> ok (run ops s)"
  by (induction ops s rule: run.induct) (simp_all add: reg_ok unreg_ok)

lemma run_members: "ok s \<Longrightarrow> n \<in> set (members (run ops s)) \<longleftrightarrow> last_reg n (n \<in> set (members s)) ops"
proof (induction ops s rule: run.induct)
  case (2 m ops s)
  then show ?case by (simp add: reg_ok reg_members disj_commute eq_commute)
next
  case (3 m ops s)
  then show ?case by (simp add: unreg_ok unreg_members eq_commute)
qed simp

lemma run_refs:
  "ok s \<Longrightarrow> refs (run ops s) n = (if last_reg n (n \<in> set (members s)) ops then 1 else 0)"
  by (simp add: ok_refs run_ok run_members)

end

locale sink_set = sink_members +
  assumes reg_status: "ok s \<Longrightarrow> fst (reg n s) = ERROR_NONE \<longleftrightarrow> n \<notin> set (members s)"
    and unreg_status: "ok s \<Longrightarrow> fst (unreg n s) = ERROR_NONE \<longleftrightarrow> n \<in> set (members s)"
begin

lemma reg_then_unreg: "ok s \<Longrightarrow> fst (unreg n (snd (reg n s))) = ERROR_NONE"
  by (simp add: unreg_status reg_ok reg_members)

end

section \<open>The registry satisfies it\<close>

definition sinks_ok :: "sinks \<Rightarrow> bool" where
  "sinks_ok s \<longleftrightarrow> distinct (sk_list s) \<and> (\<forall>n. sk_refs s n = (if n \<in> set (sk_list s) then 1 else 0))"

lemma sinks_ok_empty: "sinks_ok sinks_empty"
  by (simp add: sinks_ok_def sinks_empty_def)

interpretation sinks: sink_set sk_list sk_refs sink_Register sink_Unregister sinks_ok
  by unfold_locales (auto simp: sinks_ok_def sink_Register_def sink_Unregister_def)

text \<open>The operations one after the other, and the references they leave.\<close>

fun sink_run :: "sink_op list \<Rightarrow> sinks \<Rightarrow> sinks" where
  "sink_run [] s = s"
| "sink_run (Reg n # ops) s = sink_run ops (snd (sink_Register n s))"
| "sink_run (Unreg n # ops) s = sink_run ops (snd (sink_Unregister n s))"

fun registered :: "nat \<Rightarrow> bool \<Rightarrow> sink_op list \<Rightarrow> bool" where
  "registered n b [] = b"
| "registered n b (Reg m # ops) = registered n (b \<or> m = n) ops"
| "registered n b (Unreg m # ops) = registered n (b \<and> m \<noteq> n) ops"

lemma sink_run_eq: "sink_run ops s = sinks.run ops s"
  by (induction ops s rule: sink_run.induct) simp_all

lemma registered_eq: "registered n b ops = sinks.last_reg n b ops"
  by (induction n b ops rule: registered.induct) simp_all

text \<open>
  Whatever the order of registrations and unregistrations, a sink is in the list exactly if it
  was registered last, once, and the registry holds exactly one reference on it, none on others.
\<close>

theorem sinks_balanced:
  "distinct (sk_list (sink_run ops sinks_empty))
   \<and> (n \<in> set (sk_list (sink_run ops sinks_empty)) \<longleftrightarrow> registered n False ops)
   \<and> sk_refs (sink_run ops sinks_empty) n = (if registered n False ops then 1 else 0)"
  using sinks.run_members [OF sinks_ok_empty, of n ops] sinks.run_refs [OF sinks_ok_empty, of ops n]
    sinks.ok_members [OF sinks.run_ok [OF sinks_ok_empty, of ops]]
  by (simp add: sink_run_eq registered_eq) (simp add: sinks_empty_def)

end
