(* ===== verification/PowerManager.thy ===== *)
theory PowerManager imports AckController PowerController Thermal SinkRegistry "HOL-Library.AList" begin

text \<open>
  The power manager (\<open>PowerManager/PowerManagerImplementation.h\<close>, \<open>.cpp\<close>), which composes the
  controllers: requests to change the power state, which wait for the acknowledgements of the
  registered clients, the notifications, and the interface of the plugin.

  The sources run in many threads. The model is a state machine whose steps are the critical
  sections: \<open>SetPowerState\<close> is two steps, up to the end of the \<open>_apiLock\<close> section with the
  submission of the pre-change notifications (\<open>SetPowerState_begin\<close>), and the call of \<open>Schedule\<close>
  (\<open>SetPowerState_schedule\<close>); between them other operations run, but no other \<open>SetPowerState\<close>,
  because \<open>selfLock\<close> is held. The rest of the state:

  \<^item> \<open>pm_jobs\<close> are the jobs given to the worker pool and not run yet, and the calls of
    \<open>SetPowerState\<close> that callbacks of the controllers are about to make;
  \<^item> \<open>pm_refs\<close> counts the references the object took on itself (\<open>AddRef\<close> minus \<open>Release\<close>);
  \<^item> \<open>pm_events\<close> are the notifications delivered to the sinks and the shell commands, in order;
  \<^item> \<open>pm_request\<close> is the request between its two steps: the completion handler with the variables
    it captures, and the time-out.

  Notifications are delivered to sinks outside the process; what a sink calls in turn are further
  steps. \<open>CriticalSection\<close> is recursive, so \<open>_apiLock\<close> within a step is not a state.
\<close>

section \<open>State\<close>

datatype sink_kind =
    RebootSink
  | ModePreChangeSink
  | ModeChangedSink
  | DeepSleepTimeoutSink
  | NetworkStandbyModeChangedSink
  | ThermalModeChangedSink

record pm_handler =
  hd_keyCode :: int
  hd_currState :: PowerState
  hd_newState :: PowerState
  hd_reason :: string
  hd_isSync :: bool

datatype pm_job =
    PreChangeJob nat PowerState PowerState int int
  | ActivateJob u32 bool
  | RebootJob "string list"
  | SetPowerStateCall PowerState string

datatype pm_event =
    OnPowerModeChanged nat PowerState PowerState
  | OnPowerModePreChange nat PowerState PowerState int int
  | OnDeepSleepTimeout nat u32
  | OnRebootBegin nat string string string
  | OnThermalModeChanged nat ThermalTemperature ThermalTemperature real
  | OnNetworkStandbyModeChanged nat bool
  | ShellCommand string

record 'p PowerManager =
  pm_hw :: 'p
  pm_fs :: fs
  pm_power :: PowerController
  pm_deepSleep :: DeepSleepController
  pm_thermal :: ThermalController
  pm_modeChangeController :: "pm_handler AckController option"
  pm_modeChangeClients :: "(u32 \<times> string) list"
  pm_nextClientId :: u32
  pm_nextTransactionId :: int
  pm_sinks :: "sink_kind \<Rightarrow> sinks"
  pm_refs :: int
  pm_selfLock :: bool
  pm_request :: "(pm_handler \<times> u32) option"
  pm_jobs :: "pm_job list"
  pm_events :: "pm_event list"

text \<open>
  What the power manager calls. \<open>me_add\<close> is \<open>Core::Time::Add\<close>, \<open>me_timeoutSec\<close> the build option
  \<open>POWER_MODE_PRECHANGE_TIMEOUT_SEC\<close>, \<open>me_platco\<close> \<open>PLATCO_BOOTTO_STANDBY\<close>, \<open>me_thermalOn\<close>
  \<open>ENABLE_THERMAL_PROTECTION\<close>; \<open>me_idle\<close> is what the hardware does while nothing is called.
\<close>

record 'p pm_env =
  me_power :: "'p pc_env"
  me_deepSleep :: "'p ds_env"
  me_thermal :: "'p th_env"
  me_add :: "int \<Rightarrow> int \<Rightarrow> int"
  me_timeoutSec :: u32
  me_platco :: bool
  me_thermalOn :: bool
  me_localtime :: "int \<Rightarrow> tm option"
  me_mktime :: "tm \<Rightarrow> int"
  me_time :: "'p \<Rightarrow> int"
  me_random :: "'p \<Rightarrow> u32"
  me_sysmgr :: "'p \<Rightarrow> sysmgr_state option"
  me_idle :: "'p \<Rightarrow> 'p"

definition PowerManagerImplementation_ctor :: "'p pm_env \<Rightarrow> 'p \<Rightarrow> fs \<Rightarrow> 'p PowerManager option" where
  "PowerManagerImplementation_ctor E p f =
     (let (pc, p1, f1) = PowerController_ctor (me_power E) (me_platco E) p f in
      map_option (\<lambda>(started, th, p2).
        \<lparr> pm_hw = p2, pm_fs = f1, pm_power = pc, pm_deepSleep = DeepSleepController_ctor,
          pm_thermal = th, pm_modeChangeController = None, pm_modeChangeClients = [],
          pm_nextClientId = 0, pm_nextTransactionId = 0, pm_sinks = (\<lambda>_. sinks_empty),
          pm_refs = 0, pm_selfLock = False, pm_request = None, pm_jobs = [], pm_events = [] \<rparr>)
        (initializeThermalProtection (me_thermal E) (ThermalController_fields (te_mfr (me_thermal E))) p1))"

section \<open>Notifications\<close>

definition dispatch :: "sink_kind \<Rightarrow> (nat \<Rightarrow> pm_event) \<Rightarrow> 'p PowerManager \<Rightarrow> 'p PowerManager" where
  "dispatch k ev pm = pm\<lparr>pm_events := pm_events pm @ map ev (sk_list (pm_sinks pm k))\<rparr>"

definition dispatchPowerModeChangedEvent ::
  "PowerState \<Rightarrow> PowerState \<Rightarrow> 'p PowerManager \<Rightarrow> 'p PowerManager" where
  "dispatchPowerModeChangedEvent prevState newState =
     dispatch ModeChangedSink (\<lambda>n. OnPowerModeChanged n prevState newState)"

definition dispatchDeepSleepTimeoutEvent :: "u32 \<Rightarrow> 'p PowerManager \<Rightarrow> 'p PowerManager" where
  "dispatchDeepSleepTimeoutEvent timeout =
     dispatch DeepSleepTimeoutSink (\<lambda>n. OnDeepSleepTimeout n timeout)"

definition dispatchRebootBeginEvent ::
  "string \<Rightarrow> string \<Rightarrow> string \<Rightarrow> 'p PowerManager \<Rightarrow> 'p PowerManager" where
  "dispatchRebootBeginEvent requestor reasonCustom reasonOther =
     dispatch RebootSink (\<lambda>n. OnRebootBegin n reasonCustom reasonOther requestor)"

definition dispatchThermalModeChangedEvent ::
  "ThermalTemperature \<Rightarrow> ThermalTemperature \<Rightarrow> real \<Rightarrow> 'p PowerManager \<Rightarrow> 'p PowerManager" where
  "dispatchThermalModeChangedEvent currentLevel newLevel temperature =
     dispatch ThermalModeChangedSink (\<lambda>n. OnThermalModeChanged n currentLevel newLevel temperature)"

definition dispatchNetworkStandbyModeChangedEvent :: "bool \<Rightarrow> 'p PowerManager \<Rightarrow> 'p PowerManager" where
  "dispatchNetworkStandbyModeChangedEvent en =
     dispatch NetworkStandbyModeChangedSink (\<lambda>n. OnNetworkStandbyModeChanged n en)"

definition PowerManager_Register :: "sink_kind \<Rightarrow> nat \<Rightarrow> 'p PowerManager \<Rightarrow> hresult \<times> 'p PowerManager" where
  "PowerManager_Register k notification pm =
     (let (status, s) = sink_Register notification (pm_sinks pm k)
      in (status, pm\<lparr>pm_sinks := (pm_sinks pm)(k := s)\<rparr>))"

definition PowerManager_Unregister :: "sink_kind \<Rightarrow> nat \<Rightarrow> 'p PowerManager \<Rightarrow> hresult \<times> 'p PowerManager" where
  "PowerManager_Unregister k notification pm =
     (let (status, s) = sink_Unregister notification (pm_sinks pm k)
      in (status, pm\<lparr>pm_sinks := (pm_sinks pm)(k := s)\<rparr>))"

section \<open>Changing the power state\<close>

definition PowerManager_GetPowerState :: "'p PowerManager \<Rightarrow> hresult \<times> PowerState \<times> PowerState" where
  "PowerManager_GetPowerState pm = PowerController_GetPowerState (pm_power pm)"

text \<open>The wake-up time \<open>ActivateDeepSleep\<close> would calculate now.\<close>

definition wakeupTime_now :: "'p pm_env \<Rightarrow> 'p \<Rightarrow> u32" where
  "wakeupTime_now E p =
     getWakeupTime (de_conf (me_deepSleep E) ''/tmp/deepSleepWakeupTimer'' p) (me_localtime E)
       (me_mktime E) (me_random E p) (me_sysmgr E p) (me_time E p)"

definition setDevicePowerState ::
  "'p pm_env \<Rightarrow> PowerState \<Rightarrow> PowerState \<Rightarrow> 'p PowerManager \<Rightarrow> hresult \<times> 'p PowerManager" where
  "setDevicePowerState E prevState newState pm =
     (let (errorCode, pc, p1, f1) =
        PowerController_SetPowerState (me_power E) newState (pm_power pm) (pm_hw pm) (pm_fs pm);
          pm1 = pm\<lparr>pm_power := pc, pm_hw := p1, pm_fs := f1\<rparr>
      in if errorCode \<noteq> ERROR_NONE then (errorCode, pm1)
         else
           let pm2 = dispatchPowerModeChangedEvent prevState newState pm1;
               pm3 = (if newState = POWER_STATE_STANDBY_DEEP_SLEEP
                      then (let (timeOut, nw) = PowerController_ActivateDeepSleep
                                   (wakeupTime_now E (pm_hw pm2)) (pm_power pm2)
                            in pm2\<lparr>pm_jobs := pm_jobs pm2 @ [ActivateJob timeOut nw]\<rparr>)
                      else pm2)
           in (errorCode, pm3))"

definition isSyncStateChange :: "PowerState \<Rightarrow> PowerState \<Rightarrow> bool" where
  "isSyncStateChange currState newState \<longleftrightarrow>
     currState = POWER_STATE_STANDBY_DEEP_SLEEP \<and> newState = POWER_STATE_STANDBY_LIGHT_SLEEP"

text \<open>The completion handler of a request.\<close>

fun run_handler :: "'p pm_env \<Rightarrow> pm_handler call \<Rightarrow> 'p PowerManager \<Rightarrow> 'p PowerManager" where
  "run_handler E (None, isTimedout, isAborted) pm = pm"
| "run_handler E (Some h, isTimedout, isAborted) pm =
     (let pm1 = (if \<not> isAborted
                 then snd (setDevicePowerState E (hd_currState h) (hd_newState h) pm) else pm);
          pm2 = pm1\<lparr>pm_refs := pm_refs pm1 - 1\<rparr>
      in if hd_isSync h then pm2\<lparr>pm_selfLock := False\<rparr> else pm2)"

fun run_calls :: "'p pm_env \<Rightarrow> pm_handler call list \<Rightarrow> 'p PowerManager \<Rightarrow> 'p PowerManager" where
  "run_calls E [] pm = pm"
| "run_calls E (call # calls) pm = run_calls E calls (run_handler E call pm)"

definition kTransientDeepsleepThresholdSec :: int where
  "kTransientDeepsleepThresholdSec = 5"

definition submitPowerModePreChangeEvent ::
  "PowerState \<Rightarrow> PowerState \<Rightarrow> int \<Rightarrow> int \<Rightarrow> 'p PowerManager \<Rightarrow> 'p PowerManager" where
  "submitPowerModePreChangeEvent currState newState transactionId timeOut pm =
     (let sinks = sk_list (pm_sinks pm ModePreChangeSink)
      in pm\<lparr>pm_jobs := pm_jobs pm @
                map (\<lambda>n. PreChangeJob n currState newState transactionId timeOut) sinks,
            pm_refs := pm_refs pm + int (length sinks)\<rparr>)"

definition SetPowerState_begin ::
  "'p pm_env \<Rightarrow> int \<Rightarrow> int \<Rightarrow> PowerState \<Rightarrow> string \<Rightarrow> 'p PowerManager \<Rightarrow> 'p PowerManager" where
  "SetPowerState_begin E now keyCode newState reason pm =
     (let pm = pm\<lparr>pm_selfLock := True\<rparr>;
          (errorCode, currState, prevState) = PowerManager_GetPowerState pm
      in if currState \<noteq> newState then
           let isSync = isSyncStateChange currState newState
           in if currState = POWER_STATE_STANDBY_DEEP_SLEEP \<and> IsDeepSleepInProgress (pm_deepSleep pm)
                 \<and> Elapsed (me_deepSleep E) (pm_deepSleep pm) (pm_hw pm)
                      < kTransientDeepsleepThresholdSec * 1000000000
              then pm\<lparr>pm_selfLock := False\<rparr>
              else
                let pm1 = (if currState = POWER_STATE_STANDBY_DEEP_SLEEP
                           then (let (e, ds, p1) = DeepSleepController_Deactivate (me_deepSleep E)
                                       (pm_deepSleep pm) (pm_hw pm)
                                 in pm\<lparr>pm_deepSleep := ds, pm_hw := p1\<rparr>)
                           else pm)
                in if map_option ac_powerState (pm_modeChangeController pm1) = Some newState
                   then pm1\<lparr>pm_selfLock := False\<rparr>
                   else
                     let pm2 = (case pm_modeChangeController pm1 of
                                  None \<Rightarrow> pm1
                                | Some c \<Rightarrow> run_calls E (snd (AckController_revoke c))
                                             (pm1\<lparr>pm_modeChangeController := None\<rparr>));
                         (c0, nextId) = AckController_ctor newState (pm_nextTransactionId pm2) now;
                         c1 = fold AckController_AckAwait (map fst (pm_modeChangeClients pm2)) c0;
                         timeOut = (if isSync then 0 else me_timeoutSec E);
                         pm3 = pm2\<lparr>pm_modeChangeController := Some c1,
                                   pm_nextTransactionId := nextId,
                                   pm_refs := pm_refs pm2 + 1,
                                   pm_request := Some (\<lparr>hd_keyCode = keyCode, hd_currState = currState,
                                       hd_newState = newState, hd_reason = reason,
                                       hd_isSync = isSync\<rparr>, timeOut)\<rparr>
                     in submitPowerModePreChangeEvent currState newState (ac_transactionId c1)
                          (sint timeOut) pm3
         else pm\<lparr>pm_selfLock := False\<rparr>)"

definition SetPowerState_schedule :: "'p pm_env \<Rightarrow> int \<Rightarrow> 'p PowerManager \<Rightarrow> 'p PowerManager option" where
  "SetPowerState_schedule E now pm =
     (case (pm_request pm, pm_modeChangeController pm) of
        (Some (h, timeOut), Some c) \<Rightarrow>
          (let (c1, calls) = AckController_Schedule (me_add E) now (uint (timeOut * 1000)) h c;
               pm1 = run_calls E calls
                       (pm\<lparr>pm_modeChangeController := Some c1, pm_request := None\<rparr>)
           in Some (if \<not> hd_isSync h then pm1\<lparr>pm_selfLock := False\<rparr> else pm1))
      | _ \<Rightarrow> None)"

definition PowerModePreChangeComplete ::
  "'p pm_env \<Rightarrow> u32 \<Rightarrow> int \<Rightarrow> 'p PowerManager \<Rightarrow> hresult \<times> 'p PowerManager" where
  "PowerModePreChangeComplete E clientId transactionId pm =
     (case pm_modeChangeController pm of
        None \<Rightarrow> (ERROR_INVALID_PARAMETER, pm)
      | Some c \<Rightarrow>
          (let (errorCode, c1, calls) = AckController_Ack clientId transactionId c
           in (errorCode, run_calls E calls (pm\<lparr>pm_modeChangeController := Some c1\<rparr>))))"

text \<open>\<open>None\<close>: the delay in milliseconds overflows \<open>int\<close>.\<close>

definition DelayPowerModeChangeBy ::
  "'p pm_env \<Rightarrow> int \<Rightarrow> u32 \<Rightarrow> int \<Rightarrow> int \<Rightarrow> 'p PowerManager \<Rightarrow> (hresult \<times> 'p PowerManager) option" where
  "DelayPowerModeChangeBy E now clientId transactionId delayPeriod pm =
     (case pm_modeChangeController pm of
        None \<Rightarrow> Some (ERROR_INVALID_PARAMETER, pm)
      | Some c \<Rightarrow>
          if \<not> c_int (delayPeriod * 1000) then None
          else (let (errorCode, c1) = AckController_Reschedule (me_add E) now clientId transactionId
                      (delayPeriod * 1000) c
                in Some (errorCode, pm\<lparr>pm_modeChangeController := Some c1\<rparr>)))"

text \<open>The timer of the mode change controller.\<close>

definition ack_timer :: "'p pm_env \<Rightarrow> int \<Rightarrow> 'p PowerManager \<Rightarrow> 'p PowerManager option" where
  "ack_timer E now pm =
     (case pm_modeChangeController pm of
        None \<Rightarrow> None
      | Some c \<Rightarrow>
          (let (c1, calls) = ack_step (me_add E) (TimerOp now) c
           in Some (run_calls E calls (pm\<lparr>pm_modeChangeController := Some c1\<rparr>))))"

definition AddPowerModePreChangeClient ::
  "string \<Rightarrow> u32 \<Rightarrow> 'p PowerManager \<Rightarrow> hresult \<times> u32 \<times> 'p PowerManager" where
  "AddPowerModePreChangeClient clientName clientId pm =
     (if clientName = [] then (ERROR_INVALID_PARAMETER, clientId, pm)
      else case find (\<lambda>client. snd client = clientName) (pm_modeChangeClients pm) of
             None \<Rightarrow>
               (let newId = pm_nextClientId pm + 1
                in (ERROR_NONE, newId,
                    pm\<lparr>pm_nextClientId := newId,
                       pm_modeChangeClients := AList.update newId clientName (pm_modeChangeClients pm)\<rparr>))
           | Some it \<Rightarrow> (ERROR_NONE, fst it, pm))"

definition RemovePowerModePreChangeClient ::
  "'p pm_env \<Rightarrow> u32 \<Rightarrow> 'p PowerManager \<Rightarrow> hresult \<times> 'p PowerManager" where
  "RemovePowerModePreChangeClient E clientId pm =
     (case map_of (pm_modeChangeClients pm) clientId of
        None \<Rightarrow> (ERROR_INVALID_PARAMETER, pm)
      | Some name \<Rightarrow>
          (let pm1 = pm\<lparr>pm_modeChangeClients := AList.delete clientId (pm_modeChangeClients pm)\<rparr>
           in case pm_modeChangeController pm1 of
                None \<Rightarrow> (ERROR_NONE, pm1)
              | Some c \<Rightarrow>
                  (let (e, c1, calls) = AckController_Ack_any clientId c
                   in (ERROR_NONE, run_calls E calls (pm1\<lparr>pm_modeChangeController := Some c1\<rparr>)))))"

section \<open>The other operations of the interface\<close>

definition PowerManager_GetTemperatureThresholds ::
  "'p pm_env \<Rightarrow> real \<Rightarrow> real \<Rightarrow> 'p PowerManager \<Rightarrow> hresult \<times> real \<times> real \<times> 'p PowerManager" where
  "PowerManager_GetTemperatureThresholds E high crit pm =
     (let (errorCode, h, c, p1) = ThermalController_GetTemperatureThresholds
             (te_platform (me_thermal E)) high crit (pm_hw pm)
      in (errorCode, h, c, pm\<lparr>pm_hw := p1\<rparr>))"

definition PowerManager_SetTemperatureThresholds ::
  "'p pm_env \<Rightarrow> real \<Rightarrow> real \<Rightarrow> 'p PowerManager \<Rightarrow> hresult \<times> 'p PowerManager" where
  "PowerManager_SetTemperatureThresholds E high crit pm =
     (let (errorCode, p1) = ThermalController_SetTemperatureThresholds
             (te_platform (me_thermal E)) high crit (pm_hw pm)
      in (errorCode, pm\<lparr>pm_hw := p1\<rparr>))"

definition PowerManager_GetOvertempGraceInterval :: "'p PowerManager \<Rightarrow> hresult \<times> int" where
  "PowerManager_GetOvertempGraceInterval pm = ThermalController_GetOvertempGraceInterval (pm_thermal pm)"

definition PowerManager_SetOvertempGraceInterval :: "int \<Rightarrow> 'p PowerManager \<Rightarrow> hresult \<times> 'p PowerManager" where
  "PowerManager_SetOvertempGraceInterval g pm =
     (let (errorCode, th) = ThermalController_SetOvertempGraceInterval g (pm_thermal pm)
      in (errorCode, pm\<lparr>pm_thermal := th\<rparr>))"

definition PowerManager_GetThermalState :: "'p pm_env \<Rightarrow> 'p PowerManager \<Rightarrow> hresult \<times> real" where
  "PowerManager_GetThermalState E pm =
     (if me_thermalOn E
      then (let (errorCode, curLevel, curTemperature) = ThermalController_GetThermalState (pm_thermal pm)
            in (errorCode, curTemperature))
      else (ERROR_GENERAL, -1))"

definition PowerManager_SetDeepSleepTimer ::
  "'p pm_env \<Rightarrow> int \<Rightarrow> 'p PowerManager \<Rightarrow> hresult \<times> 'p PowerManager" where
  "PowerManager_SetDeepSleepTimer E timeOut pm =
     (let timeOutVal = (if 86400 < timeOut then 0 else timeOut);
          (errorCode, pc, f1) = PowerController_SetDeepSleepTimer (pe_codes (me_power E)) timeOutVal
             (pm_power pm) (pm_fs pm)
      in (errorCode, pm\<lparr>pm_power := pc, pm_fs := f1\<rparr>))"

definition PowerManager_GetLastWakeupReason ::
  "'p pm_env \<Rightarrow> WakeupReason \<Rightarrow> 'p PowerManager \<Rightarrow> hresult \<times> WakeupReason \<times> 'p PowerManager" where
  "PowerManager_GetLastWakeupReason E wakeupReason pm =
     (let (errorCode, r, p1) = dp_GetLastWakeupReason (de_platform (me_deepSleep E)) wakeupReason (pm_hw pm)
      in (errorCode, r, pm\<lparr>pm_hw := p1\<rparr>))"

definition PowerManager_GetLastWakeupKeyCode ::
  "'p pm_env \<Rightarrow> int \<Rightarrow> 'p PowerManager \<Rightarrow> hresult \<times> int \<times> 'p PowerManager" where
  "PowerManager_GetLastWakeupKeyCode E keycode pm =
     (let (errorCode, k, p1) = dp_GetLastWakeupKeyCode (de_platform (me_deepSleep E)) keycode (pm_hw pm)
      in (errorCode, k, pm\<lparr>pm_hw := p1\<rparr>))"

definition PowerManager_Reboot :: "string \<Rightarrow> string \<Rightarrow> string \<Rightarrow> 'p PowerManager \<Rightarrow> hresult \<times> 'p PowerManager" where
  "PowerManager_Reboot rebootRequestor rebootReasonCustom rebootReasonOther pm =
     (let defaultArg = ''Unknown'';
          requestor = (if rebootRequestor = [] then defaultArg else rebootRequestor);
          customReason = (if rebootReasonCustom = [] then defaultArg else rebootReasonCustom);
          otherReason = (if rebootReasonOther = [] then defaultArg else rebootReasonOther);
          pm1 = dispatchRebootBeginEvent requestor customReason otherReason pm
      in (ERROR_NONE, pm1\<lparr>pm_jobs := pm_jobs pm1 @ [RebootJob (PowerController_Reboot rebootRequestor
            rebootReasonCustom rebootReasonOther (pm_fs pm1))]\<rparr>))"

definition PowerManager_SetNetworkStandbyMode ::
  "'p pm_env \<Rightarrow> bool \<Rightarrow> 'p PowerManager \<Rightarrow> hresult \<times> 'p PowerManager" where
  "PowerManager_SetNetworkStandbyMode E standbyMode pm =
     (let (errorCode, pc, p1, f1) = PowerController_SetNetworkStandbyMode (me_power E) standbyMode
             (pm_power pm) (pm_hw pm) (pm_fs pm);
          pm1 = pm\<lparr>pm_power := pc, pm_hw := p1, pm_fs := f1\<rparr>
      in (errorCode, if errorCode = ERROR_NONE
                     then dispatchNetworkStandbyModeChangedEvent standbyMode pm1 else pm1))"

definition PowerManager_GetNetworkStandbyMode :: "'p PowerManager \<Rightarrow> hresult \<times> bool" where
  "PowerManager_GetNetworkStandbyMode pm = PowerController_GetNetworkStandbyMode (pm_power pm)"

definition isWakeupSrcEnabled :: "WakeupSourceConfig list \<Rightarrow> WakeupSrcType \<Rightarrow> bool" where
  "isWakeupSrcEnabled configs src =
     (case find (\<lambda>config. wakeupSource config = src) configs of
        None \<Rightarrow> False | Some it \<Rightarrow> enabled it)"

definition getWakeupSourceConfig ::
  "'p pm_env \<Rightarrow> WakeupSourceConfig list \<Rightarrow> 'p PowerManager
     \<Rightarrow> hresult \<times> WakeupSourceConfig list \<times> 'p PowerManager" where
  "getWakeupSourceConfig E configs pm =
     (let (errorCode, configs1, p1) =
        PowerController_GetWakeupSourceConfig (me_power E) configs (pm_hw pm)
      in (errorCode, configs1, pm\<lparr>pm_hw := p1\<rparr>))"

definition setWakeupSourceConfig ::
  "'p pm_env \<Rightarrow> WakeupSourceConfig list \<Rightarrow> 'p PowerManager \<Rightarrow> hresult \<times> 'p PowerManager" where
  "setWakeupSourceConfig E configs pm =
     (let (errorCode, p1) = PowerController_SetWakeupSourceConfig (me_power E) configs (pm_hw pm);
          pm1 = pm\<lparr>pm_hw := p1\<rparr>
      in if errorCode \<noteq> ERROR_NONE then (errorCode, pm1)
         else
           let (errorCode2, currConfigs, pm2) = getWakeupSourceConfig E [] pm1
           in if errorCode2 \<noteq> ERROR_NONE then (errorCode2, pm2)
              else
                let isWiFiEnabled = isWakeupSrcEnabled currConfigs WAKEUP_SRC_WIFI;
                    isLanEnabled = isWakeupSrcEnabled currConfigs WAKEUP_SRC_LAN
                in if isWiFiEnabled \<noteq> isLanEnabled then (errorCode2, pm2)
                   else
                     let (errorCode3, currNwStandbyMode) = PowerManager_GetNetworkStandbyMode pm2
                     in if errorCode3 \<noteq> ERROR_NONE then (errorCode3, pm2)
                        else
                          let nwStandbyMode = (isWiFiEnabled \<and> isLanEnabled)
                          in if nwStandbyMode = currNwStandbyMode then (errorCode3, pm2)
                             else PowerManager_SetNetworkStandbyMode E nwStandbyMode pm2)"

text \<open>The list built from the caller's iterator, up to the first unknown source.\<close>

fun collect_configs :: "WakeupSourceConfig list \<Rightarrow> hresult \<times> WakeupSourceConfig list" where
  "collect_configs [] = (ERROR_NONE, [])"
| "collect_configs (config # rest) =
     (if wakeupSource config = WAKEUP_SRC_UNKNOWN then (ERROR_INVALID_PARAMETER, [])
      else (let (e, configs) = collect_configs rest in (e, config # configs)))"

definition PowerManager_SetWakeupSourceConfig ::
  "'p pm_env \<Rightarrow> WakeupSourceConfig list \<Rightarrow> 'p PowerManager \<Rightarrow> hresult \<times> 'p PowerManager" where
  "PowerManager_SetWakeupSourceConfig E wakeupSources pm =
     (let (errorCode, configs) = collect_configs wakeupSources
      in if errorCode = ERROR_NONE then setWakeupSourceConfig E configs pm else (errorCode, pm))"

text \<open>The result holds the sources handed to the caller, if any.\<close>

definition PowerManager_GetWakeupSourceConfig ::
  "'p pm_env \<Rightarrow> 'p PowerManager \<Rightarrow> hresult \<times> WakeupSourceConfig list option \<times> 'p PowerManager" where
  "PowerManager_GetWakeupSourceConfig E pm =
     (let (errorCode, configs, pm1) = getWakeupSourceConfig E [] pm
      in (errorCode, if errorCode = ERROR_NONE then Some configs else None, pm1))"

definition PowerManager_GetPowerStateBeforeReboot :: "'p PowerManager \<Rightarrow> hresult \<times> PowerState" where
  "PowerManager_GetPowerStateBeforeReboot pm = PowerController_GetPowerStateBeforeReboot (pm_power pm)"

section \<open>Callbacks of the controllers and jobs\<close>

definition onDeepSleepFailed_newState :: "bool \<Rightarrow> PowerState" where
  "onDeepSleepFailed_newState platco = (if platco then POWER_STATE_STANDBY_LIGHT_SLEEP else POWER_STATE_ON)"

fun handle_ds_event :: "'p pm_env \<Rightarrow> ds_event \<Rightarrow> 'p PowerManager \<Rightarrow> 'p PowerManager" where
  "handle_ds_event E (onDeepSleepTimerWakeup wakeupTimeout) pm =
     (let pm1 = dispatchDeepSleepTimeoutEvent (word_of_int wakeupTimeout) pm
      in pm1\<lparr>pm_jobs := pm_jobs pm1 @
           [SetPowerStateCall POWER_STATE_STANDBY_LIGHT_SLEEP ''DeepSleep timedout'']\<rparr>)"
| "handle_ds_event E (onDeepSleepUserWakeup userWakeup) pm =
     (let newState = (if me_platco E then POWER_STATE_STANDBY_LIGHT_SLEEP else POWER_STATE_ON)
      in pm\<lparr>pm_jobs := pm_jobs pm @ [SetPowerStateCall newState ''DeepSleep userwakeup'']\<rparr>)"
| "handle_ds_event E onDeepSleepFailed pm =
     pm\<lparr>pm_jobs := pm_jobs pm @
          [SetPowerStateCall (onDeepSleepFailed_newState (me_platco E)) ''DeepSleep failed'']\<rparr>"

fun handle_th_event :: "th_event \<Rightarrow> 'p PowerManager \<Rightarrow> 'p PowerManager" where
  "handle_th_event (onThermalTemperatureChanged cur new temp) pm =
     dispatchThermalModeChangedEvent cur new temp pm"
| "handle_th_event onDeepSleepForThermalChange pm =
     pm\<lparr>pm_jobs := pm_jobs pm @
          [SetPowerStateCall POWER_STATE_STANDBY_DEEP_SLEEP ''DeepSleep on Thermal change'']\<rparr>"
| "handle_th_event LogShutdownReason pm =
     pm\<lparr>pm_events := pm_events pm @ [ShellCommand ''echo THERMAL_SHUTDOWN > /opt/standbyReason.txt'']\<rparr>"
| "handle_th_event (RebootCommand isCritical) pm =
     pm\<lparr>pm_events := pm_events pm @ [ShellCommand
          (''/rebootNow.sh -s Power_Thermmgr -o '' @ quoted_arg
             (if isCritical
              then ''Rebooting the box due to stb temperature greater than rebootThreshold critical...''
              else ''Rebooting the box as the stb temperature is still above critical level after 20 seconds...''))]\<rparr>"

definition is_prechange :: "pm_job \<Rightarrow> bool" where
  "is_prechange j = (case j of PreChangeJob n c s t o' \<Rightarrow> True | _ \<Rightarrow> False)"

text \<open>
  A thread of the worker pool runs a job. A job with a pre-change notification holds a reference on
  the object until it has run. A pending call of \<open>SetPowerState\<close> needs \<open>selfLock\<close>.
\<close>

fun run_job :: "'p pm_env \<Rightarrow> int \<Rightarrow> pm_job \<Rightarrow> 'p PowerManager \<Rightarrow> 'p PowerManager option" where
  "run_job E now (PreChangeJob n cur new transactionId timeOut) pm =
     Some (pm\<lparr>pm_events := pm_events pm @ [OnPowerModePreChange n cur new transactionId timeOut],
              pm_refs := pm_refs pm - 1\<rparr>)"
| "run_job E now (ActivateJob timeOut nw) pm =
     (let (ds, p1, evs) = performActivate (me_deepSleep E) timeOut nw (pm_deepSleep pm) (pm_hw pm)
      in Some (fold (handle_ds_event E) evs (pm\<lparr>pm_deepSleep := ds, pm_hw := p1\<rparr>)))"
| "run_job E now (RebootJob cmds) pm =
     Some (pm\<lparr>pm_events := pm_events pm @ map ShellCommand cmds\<rparr>)"
| "run_job E now (SetPowerStateCall newState reason) pm =
     (if pm_selfLock pm then None else Some (SetPowerState_begin E now 0 newState reason pm))"

definition deepSleepDelayJob :: "'p pm_env \<Rightarrow> 'p PowerManager \<Rightarrow> 'p PowerManager option" where
  "deepSleepDelayJob E pm =
     (if ds_delayJob (pm_deepSleep pm) = None then None
      else (let (ds, p1, evs) = enterDeepSleepDelayed (me_deepSleep E) (pm_deepSleep pm) (pm_hw pm)
            in Some (fold (handle_ds_event E) evs (pm\<lparr>pm_deepSleep := ds, pm_hw := p1\<rparr>))))"

definition thermalPoll ::
  "'p pm_env \<Rightarrow> bool \<Rightarrow> ThermalTemperature \<times> real \<times> real \<Rightarrow> 'p PowerManager \<Rightarrow> 'p PowerManager option" where
  "thermalPoll E stop vars pm =
     Option.bind (poll_intervals (th_poll_interval (pm_thermal pm))) (\<lambda>intervals.
       map_option (\<lambda>(go, vars1, th, p1, evs).
           fold handle_th_event evs (pm\<lparr>pm_thermal := th, pm_hw := p1\<rparr>))
         (poll_round (me_thermal E) intervals stop vars (pm_thermal pm) (pm_hw pm)))"

section \<open>The machine\<close>

datatype pm_op =
    SetPowerStateOp int PowerState string
  | ScheduleOp
  | CompleteOp u32 int
  | DelayOp u32 int int
  | AddClientOp string
  | RemoveClientOp u32
  | AckTimerOp
  | RunJobOp nat
  | DelayJobOp
  | ThermalPollOp bool "ThermalTemperature \<times> real \<times> real"
  | RegisterOp sink_kind nat
  | UnregisterOp sink_kind nat
  | SetNetworkStandbyOp bool
  | SetWakeupOp "WakeupSourceConfig list"
  | SetDeepSleepTimerOp int
  | SetGraceOp int
  | RebootOp string string string
  | IdleOp

text \<open>A step at time \<open>now\<close>; \<open>None\<close>: it is not possible in the state.\<close>

fun pm_exec :: "'p pm_env \<Rightarrow> int \<Rightarrow> pm_op \<Rightarrow> 'p PowerManager \<Rightarrow> 'p PowerManager option" where
  "pm_exec E now (SetPowerStateOp k s r) pm =
     (if pm_selfLock pm then None else Some (SetPowerState_begin E now k s r pm))"
| "pm_exec E now ScheduleOp pm = SetPowerState_schedule E now pm"
| "pm_exec E now (CompleteOp cid tid) pm = Some (snd (PowerModePreChangeComplete E cid tid pm))"
| "pm_exec E now (DelayOp cid tid d) pm = map_option snd (DelayPowerModeChangeBy E now cid tid d pm)"
| "pm_exec E now (AddClientOp name) pm = Some (snd (snd (AddPowerModePreChangeClient name 0 pm)))"
| "pm_exec E now (RemoveClientOp cid) pm = Some (snd (RemovePowerModePreChangeClient E cid pm))"
| "pm_exec E now AckTimerOp pm = ack_timer E now pm"
| "pm_exec E now (RunJobOp i) pm =
     (if i < length (pm_jobs pm)
      then run_job E now (pm_jobs pm ! i)
             (pm\<lparr>pm_jobs := take i (pm_jobs pm) @ drop (Suc i) (pm_jobs pm)\<rparr>)
      else None)"
| "pm_exec E now DelayJobOp pm = deepSleepDelayJob E pm"
| "pm_exec E now (ThermalPollOp stop vars) pm = thermalPoll E stop vars pm"
| "pm_exec E now (RegisterOp k n) pm = Some (snd (PowerManager_Register k n pm))"
| "pm_exec E now (UnregisterOp k n) pm = Some (snd (PowerManager_Unregister k n pm))"
| "pm_exec E now (SetNetworkStandbyOp b) pm = Some (snd (PowerManager_SetNetworkStandbyMode E b pm))"
| "pm_exec E now (SetWakeupOp cs) pm = Some (snd (PowerManager_SetWakeupSourceConfig E cs pm))"
| "pm_exec E now (SetDeepSleepTimerOp t) pm = Some (snd (PowerManager_SetDeepSleepTimer E t pm))"
| "pm_exec E now (SetGraceOp g) pm = Some (snd (PowerManager_SetOvertempGraceInterval g pm))"
| "pm_exec E now (RebootOp a b c) pm = Some (snd (PowerManager_Reboot a b c pm))"
| "pm_exec E now IdleOp pm = Some (pm\<lparr>pm_hw := me_idle E (pm_hw pm)\<rparr>)"

inductive pm_reach :: "'p pm_env \<Rightarrow> 'p PowerManager \<Rightarrow> bool" for E where
  pm_reach_init: "PowerManagerImplementation_ctor E p f = Some pm \<Longrightarrow> pm_reach E pm"
| pm_reach_step: "pm_reach E pm \<Longrightarrow> pm_exec E now op' pm = Some pm1 \<Longrightarrow> pm_reach E pm1"

fun pm_run :: "'p pm_env \<Rightarrow> (int \<times> pm_op) list \<Rightarrow> 'p PowerManager \<Rightarrow> 'p PowerManager option" where
  "pm_run E [] pm = Some pm"
| "pm_run E ((now, a) # as) pm = Option.bind (pm_exec E now a pm) (pm_run E as)"

end
