(* ===== verification/PowerManagerInv.thy ===== *)
theory PowerManagerInv imports PowerManager begin

text \<open>
  The invariants of the power manager's state machine, and what its operations do to the power
  state.

  \<open>pm_inv\<close> says that the references the object holds on itself are the outstanding transition plus
  the queued notifications; that \<open>selfLock\<close> is held exactly between the two steps of a request; that
  the mode change controller is idle in between and satisfies the invariant of \<open>AckController\<close>
  otherwise, with an asynchronous request; that clients have distinct ids and names; and that the
  sink lists are sets. Each operation preserves it (\<open>pm_exec_inv\<close>), so it holds in every reachable
  state. The second part shows which steps can change the power state, and that the settings and
  the hardware agree in every reachable state.
\<close>

section \<open>The invariant\<close>

definition pre_count :: "pm_job list \<Rightarrow> nat" where
  "pre_count jobs = length (filter is_prechange jobs)"

definition outstanding :: "'p PowerManager \<Rightarrow> int" where
  "outstanding pm = (if pm_request pm = None then 0 else 1)
     + (case pm_modeChangeController pm of None \<Rightarrow> 0 | Some c \<Rightarrow> int_of_bool (ac_running c))
     + int (pre_count (pm_jobs pm))"

definition clients_ok :: "(u32 \<times> string) list \<Rightarrow> bool" where
  "clients_ok cs \<longleftrightarrow> distinct (map fst cs) \<and> distinct (map snd cs) \<and> [] \<notin> set (map snd cs)"

definition ctl_ok :: "'p PowerManager \<Rightarrow> bool" where
  "ctl_ok pm \<longleftrightarrow>
     (case pm_request pm of
        Some (h, t) \<Rightarrow> pm_selfLock pm \<and> (hd_isSync h \<longrightarrow> t = 0)
          \<and> (\<exists>c. pm_modeChangeController pm = Some c \<and> ack_idle c \<and> ac_powerState c = hd_newState h)
      | None \<Rightarrow> \<not> pm_selfLock pm
          \<and> (\<forall>c. pm_modeChangeController pm = Some c \<longrightarrow>
               (\<exists>h. ack_inv h c \<and> \<not> hd_isSync h \<and> (ac_running c \<longrightarrow> ac_powerState c = hd_newState h))))"

definition pm_inv :: "'p PowerManager \<Rightarrow> bool" where
  "pm_inv pm \<longleftrightarrow> pm_refs pm = outstanding pm \<and> ctl_ok pm \<and> clients_ok (pm_modeChangeClients pm)
     \<and> (\<forall>k. sinks_ok (pm_sinks pm k))"

text \<open>The part of the state the invariant reads, apart from the handler's effect.\<close>

definition same_ctl :: "'p PowerManager \<Rightarrow> 'p PowerManager \<Rightarrow> bool" where
  "same_ctl pm pm1 \<longleftrightarrow> pm_modeChangeController pm1 = pm_modeChangeController pm
     \<and> pm_modeChangeClients pm1 = pm_modeChangeClients pm \<and> pm_request pm1 = pm_request pm
     \<and> pm_sinks pm1 = pm_sinks pm \<and> pre_count (pm_jobs pm1) = pre_count (pm_jobs pm)
     \<and> pm_nextTransactionId pm1 = pm_nextTransactionId pm"

lemma same_ctl_refl [simp]: "same_ctl pm pm"
  by (simp add: same_ctl_def)

lemma same_ctl_trans: "same_ctl a b \<Longrightarrow> same_ctl b c \<Longrightarrow> same_ctl a c"
  by (simp add: same_ctl_def)

lemma pm_inv_frame:
  assumes "same_ctl pm pm1" and "pm_refs pm1 = pm_refs pm" and "pm_selfLock pm1 = pm_selfLock pm"
  shows "pm_inv pm1 = pm_inv pm"
  using assms
  by (cases "pm_request pm") (simp_all add: pm_inv_def same_ctl_def outstanding_def ctl_ok_def split_def)

lemma pre_count_append [simp]: "pre_count (js @ ks) = pre_count js + pre_count ks"
  by (simp add: pre_count_def)

lemma pre_count_simps [simp]:
  "pre_count [] = 0" "pre_count (PreChangeJob n a b c d # js) = Suc (pre_count js)"
  "pre_count (ActivateJob t nw # js) = pre_count js" "pre_count (RebootJob cmds # js) = pre_count js"
  "pre_count (SetPowerStateCall s r # js) = pre_count js"
  by (simp_all add: pre_count_def is_prechange_def)

lemma pre_count_map [simp]: "pre_count (map (\<lambda>n. PreChangeJob n a b c d) ns) = length ns"
  by (induction ns) simp_all

section \<open>The completion handler\<close>

lemma dispatch_frame [simp]:
  "same_ctl pm (dispatch k ev pm)" "pm_refs (dispatch k ev pm) = pm_refs pm"
  "pm_selfLock (dispatch k ev pm) = pm_selfLock pm" "pm_power (dispatch k ev pm) = pm_power pm"
  "pm_hw (dispatch k ev pm) = pm_hw pm" "pm_fs (dispatch k ev pm) = pm_fs pm"
  "pm_jobs (dispatch k ev pm) = pm_jobs pm" "pm_thermal (dispatch k ev pm) = pm_thermal pm"
  "pm_deepSleep (dispatch k ev pm) = pm_deepSleep pm"
  by (simp_all add: dispatch_def same_ctl_def)

lemmas dispatch_defs = dispatchPowerModeChangedEvent_def dispatchDeepSleepTimeoutEvent_def
  dispatchRebootBeginEvent_def dispatchThermalModeChangedEvent_def
  dispatchNetworkStandbyModeChangedEvent_def

lemma setDevicePowerState_frame:
  "same_ctl pm (snd (setDevicePowerState E a b pm))"
  "pm_refs (snd (setDevicePowerState E a b pm)) = pm_refs pm"
  "pm_selfLock (snd (setDevicePowerState E a b pm)) = pm_selfLock pm"
  by (auto simp: setDevicePowerState_def dispatch_defs dispatch_def same_ctl_def Let_def
      split: prod.splits)

lemma run_handler_frame:
  "same_ctl pm (run_handler E (Some h, t, a) pm)"
  "pm_refs (run_handler E (Some h, t, a) pm) = pm_refs pm - 1"
  "pm_selfLock (run_handler E (Some h, t, a) pm) = (pm_selfLock pm \<and> \<not> hd_isSync h)"
  using setDevicePowerState_frame [where pm = pm and E = E and a = "hd_currState h" and b = "hd_newState h"]
  by (simp_all add: Let_def same_ctl_def)

text \<open>At most one call comes from an operation on a controller.\<close>

lemma run_calls_one:
  assumes "set calls \<subseteq> {(Some h, t, a)}" and "length calls \<le> 1"
  shows "run_calls E calls pm = (if calls = [] then pm else run_handler E (Some h, t, a) pm)"
  using assms by (cases calls) auto

text \<open>An operation on a controller with a request: the calls it makes are for that request.\<close>

lemma ack_step_calls:
  assumes "ack_inv h c"
  shows "\<exists>t a. set (snd (ack_step add op' c)) \<subseteq> {(Some h, t, a)} \<and> length (snd (ack_step add op' c)) \<le> 1
    \<and> int (length (snd (ack_step add op' c))) =
        int_of_bool (ac_running c) - int_of_bool (ac_running (fst (ack_step add op' c)))"
proof -
  have len: "length (snd (ack_step add op' c)) \<le> 1
    \<and> int (length (snd (ack_step add op' c))) =
        int_of_bool (ac_running c) - int_of_bool (ac_running (fst (ack_step add op' c)))"
    using ack_step_armed [OF assms] ack_step_idle [OF assms]
    by (cases "ac_running c") (auto simp: int_of_bool_def split: if_splits)
  show ?thesis
  proof (cases "snd (ack_step add op' c)")
    case Nil
    then show ?thesis using len by simp
  next
    case (Cons x xs)
    obtain h' t a where x: "x = (h', t, a)" by (metis prod_cases3)
    then have "h' = Some h" using ack_step_call [OF assms, of h' t a add op'] Cons by simp
    then show ?thesis using len Cons x by (intro exI [of _ t] exI [of _ a]) auto
  qed
qed

lemma ack_step_state:
  "ac_powerState (fst (ack_step add op' c)) = ac_powerState c"
  by (cases op') (auto simp: ack_defs Let_def split: option.splits)

text \<open>An operation of the controller within a step of the power manager.\<close>

lemma ack_op_inv:
  assumes inv: "pm_inv pm" and c: "pm_modeChangeController pm = Some c"
  shows "pm_inv (run_calls E (snd (ack_step add op' c))
           (pm\<lparr>pm_modeChangeController := Some (fst (ack_step add op' c))\<rparr>))"
proof (cases "pm_request pm")
  case (Some ht)
  then have "ack_idle c" using inv c by (auto simp: pm_inv_def ctl_ok_def split: prod.splits)
  then show ?thesis
    using inv c Some ack_idle_step [of c add op'] ack_step_state [of add op' c]
    by (auto simp: pm_inv_def ctl_ok_def outstanding_def ack_idle_def split: prod.splits)
next
  case None
  then obtain h where h: "ack_inv h c" "\<not> hd_isSync h" "ac_running c \<longrightarrow> ac_powerState c = hd_newState h"
    using inv c by (auto simp: pm_inv_def ctl_ok_def)
  let ?c = "fst (ack_step add op' c)" and ?calls = "snd (ack_step add op' c)"
  let ?pm = "pm\<lparr>pm_modeChangeController := Some ?c\<rparr>"
  obtain t a where calls: "set ?calls \<subseteq> {(Some h, t, a)}" "length ?calls \<le> 1"
    "int (length ?calls) = int_of_bool (ac_running c) - int_of_bool (ac_running ?c)"
    using ack_step_calls [OF h(1), of add op'] by auto
  have "ack_inv h ?c" "ac_running ?c \<Longrightarrow> ac_running c" "ac_powerState ?c = ac_powerState c"
    using ack_step_inv [OF h(1)] ack_step_idle [OF h(1)] ack_step_state by blast+
  then show ?thesis
    using inv c None h calls run_handler_frame [where pm = ?pm and E = E and h = h and t = t and a = a] run_calls_one [OF calls(1,2), of E ?pm]
    by (cases "?calls = []")
      (auto simp: pm_inv_def ctl_ok_def outstanding_def same_ctl_def le_Suc_eq simp del: run_handler.simps)
qed

section \<open>Requests\<close>

text \<open>
  What \<open>SetPowerState_begin\<close> does: it ignores the request, possibly after waking the device up, or
  it cancels the transition in progress and accepts the request.
\<close>

definition woken :: "'p pm_env \<Rightarrow> 'p PowerManager \<Rightarrow> 'p PowerManager" where
  "woken E pm =
     (if st_powerState (pc_settings (pm_power pm)) = POWER_STATE_STANDBY_DEEP_SLEEP
      then (let (e, ds, p1) = DeepSleepController_Deactivate (me_deepSleep E) (pm_deepSleep pm) (pm_hw pm)
            in pm\<lparr>pm_deepSleep := ds, pm_hw := p1\<rparr>) else pm)"

definition cancelled :: "'p pm_env \<Rightarrow> 'p PowerManager \<Rightarrow> 'p PowerManager" where
  "cancelled E pm =
     (case pm_modeChangeController pm of
        None \<Rightarrow> pm
      | Some c \<Rightarrow> run_calls E (snd (AckController_revoke c)) (pm\<lparr>pm_modeChangeController := None\<rparr>))"

definition accepted :: "'p pm_env \<Rightarrow> int \<Rightarrow> int \<Rightarrow> PowerState \<Rightarrow> PowerState \<Rightarrow> string \<Rightarrow> 'p PowerManager \<Rightarrow> 'p PowerManager" where
  "accepted E now k currState newState reason pm =
     (let isSync = isSyncStateChange currState newState;
          (c0, nextId) = AckController_ctor newState (pm_nextTransactionId pm) now;
          c1 = fold AckController_AckAwait (map fst (pm_modeChangeClients pm)) c0;
          timeOut = (if isSync then 0 else me_timeoutSec E)
      in submitPowerModePreChangeEvent currState newState (ac_transactionId c1) (sint timeOut)
           (pm\<lparr>pm_modeChangeController := Some c1, pm_nextTransactionId := nextId,
              pm_refs := pm_refs pm + 1,
              pm_request := Some (\<lparr>hd_keyCode = k, hd_currState = currState,
                  hd_newState = newState, hd_reason = reason, hd_isSync = isSync\<rparr>, timeOut)\<rparr>))"

lemma begin_cases:
  defines "cur pm \<equiv> st_powerState (pc_settings (pm_power pm))"
  shows "SetPowerState_begin E now k newState reason pm =
     (if cur pm = newState then pm\<lparr>pm_selfLock := False\<rparr>
      else if cur pm = POWER_STATE_STANDBY_DEEP_SLEEP \<and> IsDeepSleepInProgress (pm_deepSleep pm)
           \<and> Elapsed (me_deepSleep E) (pm_deepSleep pm) (pm_hw pm) < 5000000000
      then pm\<lparr>pm_selfLock := False\<rparr>
      else if map_option ac_powerState (pm_modeChangeController pm) = Some newState
      then (woken E pm)\<lparr>pm_selfLock := False\<rparr>
      else accepted E now k (cur pm) newState reason (cancelled E (woken E (pm\<lparr>pm_selfLock := True\<rparr>))))"
proof -
  obtain e ds p1 where d:
    "DeepSleepController_Deactivate (me_deepSleep E) (pm_deepSleep pm) (pm_hw pm) = (e, ds, p1)"
    by (metis prod_cases3)
  let ?deep = "cur pm = POWER_STATE_STANDBY_DEEP_SLEEP" and ?same = "cur pm = newState"
    and ?early = "IsDeepSleepInProgress (pm_deepSleep pm)
      \<and> Elapsed (me_deepSleep E) (pm_deepSleep pm) (pm_hw pm) < 5000000000"
    and ?again = "map_option ac_powerState (pm_modeChangeController pm) = Some newState"
  note defs = SetPowerState_begin_def Let_def cur_def PowerManager_GetPowerState_def
    PowerController_GetPowerState_def kTransientDeepsleepThresholdSec_def
  consider "?same" | "\<not> ?same" "?deep" "?early" | "\<not> ?same" "?deep" "\<not> ?early" "?again"
    | "\<not> ?same" "?deep" "\<not> ?early" "\<not> ?again" | "\<not> ?same" "\<not> ?deep" "?again"
    | "\<not> ?same" "\<not> ?deep" "\<not> ?again" by blast
  then show ?thesis
  proof cases
    case 4
    then show ?thesis unfolding defs 
      by (cases "pm_modeChangeController pm")
        (simp_all add: woken_def d cancelled_def accepted_def Let_def del: map_option_eq_Some de_Morgan_conj)
  next
    case 6
    then show ?thesis unfolding defs
      by (cases "pm_modeChangeController pm")
        (simp_all add: woken_def cancelled_def accepted_def Let_def del: map_option_eq_Some)
  qed (unfold defs, simp_all add: woken_def d del: map_option_eq_Some de_Morgan_conj)
qed

lemma woken_frame [simp]:
  "same_ctl pm (woken E pm)" "pm_refs (woken E pm) = pm_refs pm"
  "pm_selfLock (woken E pm) = pm_selfLock pm" "pm_power (woken E pm) = pm_power pm"
  by (simp_all add: woken_def same_ctl_def split: prod.splits)

lemma fold_AckAwait:
  "fold AckController_AckAwait ks c = c\<lparr>ac_pending := ac_pending c \<union> set ks\<rparr>"
  by (induction ks arbitrary: c) (simp_all add: AckController_AckAwait_def Un_commute)

lemma cancelled_frame:
  assumes "pm_inv pm0" and "same_ctl pm0 pm" and "pm_refs pm = pm_refs pm0" and "pm_request pm0 = None"
  shows "pm_modeChangeController (cancelled E pm) = None"
    and "pm_refs (cancelled E pm) = int (pre_count (pm_jobs (cancelled E pm)))"
    and "pm_modeChangeClients (cancelled E pm) = pm_modeChangeClients pm0"
    and "pm_sinks (cancelled E pm) = pm_sinks pm0"
    and "pm_selfLock (cancelled E pm) = pm_selfLock pm"
    and "pm_request (cancelled E pm) = None"
proof -
  have eqs: "pm_modeChangeController pm = pm_modeChangeController pm0"
    "pm_modeChangeClients pm = pm_modeChangeClients pm0" "pm_sinks pm = pm_sinks pm0"
    "pre_count (pm_jobs pm) = pre_count (pm_jobs pm0)" "pm_request pm = None"
    using assms(2,4) by (simp_all add: same_ctl_def)
  have "pm_modeChangeController (cancelled E pm) = None
    \<and> pm_refs (cancelled E pm) = int (pre_count (pm_jobs (cancelled E pm)))
    \<and> pm_modeChangeClients (cancelled E pm) = pm_modeChangeClients pm0
    \<and> pm_sinks (cancelled E pm) = pm_sinks pm0 \<and> pm_selfLock (cancelled E pm) = pm_selfLock pm
    \<and> pm_request (cancelled E pm) = None"
  proof (cases "pm_modeChangeController pm0")
    case None
    then show ?thesis
      using assms eqs by (simp add: cancelled_def pm_inv_def outstanding_def)
  next
    case (Some c)
    then obtain h where h: "ack_inv h c" "\<not> hd_isSync h"
      using assms(1,4) by (auto simp: pm_inv_def ctl_ok_def)
    let ?pm = "pm\<lparr>pm_modeChangeController := None\<rparr>"
    obtain t a where calls: "set (snd (ack_step (+) DestroyOp c)) \<subseteq> {(Some h, t, a)}"
      "length (snd (ack_step (+) DestroyOp c)) \<le> 1"
      "int (length (snd (ack_step (+) DestroyOp c))) =
         int_of_bool (ac_running c) - int_of_bool (ac_running (fst (ack_step (+) DestroyOp c)))"
      using ack_step_calls [OF h(1), of "(+)" DestroyOp] by auto
    have refs: "pm_refs pm0 = int_of_bool (ac_running c) + int (pre_count (pm_jobs pm0))"
      using assms(1,4) Some by (simp add: pm_inv_def outstanding_def)
    have stopped: "\<not> ac_running (fst (ack_step (+) DestroyOp c))" by (rule ack_destroyed)
    have eq: "cancelled E pm = run_calls E (snd (ack_step (+) DestroyOp c)) ?pm"
      using Some eqs by (simp add: cancelled_def)
    show ?thesis
      unfolding eq run_calls_one [OF calls(1,2)]
      using run_handler_frame [where pm = ?pm and E = E and h = h and t = t and a = a] refs eqs h calls stopped assms(3)
      by (cases "ac_running c") (auto simp: same_ctl_def int_of_bool_def simp del: run_handler.simps)
  qed
  then show "pm_modeChangeController (cancelled E pm) = None"
    and "pm_refs (cancelled E pm) = int (pre_count (pm_jobs (cancelled E pm)))"
    and "pm_modeChangeClients (cancelled E pm) = pm_modeChangeClients pm0"
    and "pm_sinks (cancelled E pm) = pm_sinks pm0"
    and "pm_selfLock (cancelled E pm) = pm_selfLock pm"
    and "pm_request (cancelled E pm) = None"
    by simp_all
qed

lemma pm_inv_unlocked: "pm_inv pm \<Longrightarrow> \<not> pm_selfLock pm \<Longrightarrow> pm_request pm = None"
  by (auto simp: pm_inv_def ctl_ok_def split: option.splits prod.splits)

lemma begin_inv:
  assumes "pm_inv pm" and "\<not> pm_selfLock pm"
  shows "pm_inv (SetPowerState_begin E now k newState reason pm)"
proof -
  note req = pm_inv_unlocked [OF assms]
  have ignore: "pm_inv (pm\<lparr>pm_selfLock := False\<rparr>)" "pm_inv ((woken E pm)\<lparr>pm_selfLock := False\<rparr>)"
    using assms woken_frame [where pm = pm and E = E] pm_inv_frame [of pm "pm\<lparr>pm_selfLock := False\<rparr>"]
      pm_inv_frame [of pm "(woken E pm)\<lparr>pm_selfLock := False\<rparr>"]
    by (simp_all add: same_ctl_def)
  let ?w = "woken E (pm\<lparr>pm_selfLock := True\<rparr>)"
  have w: "same_ctl pm ?w" "pm_refs ?w = pm_refs pm" "pm_selfLock ?w"
    using woken_frame [where pm = "pm\<lparr>pm_selfLock := True\<rparr>" and E = E] by (simp_all add: same_ctl_def)
  have "pm_inv (accepted E now k cur newState reason (cancelled E ?w))" for cur
    using cancelled_frame [OF assms(1) w(1,2) req, of E] w(3) assms(1)
    by (auto simp: accepted_def AckController_ctor_def fold_AckAwait submitPowerModePreChangeEvent_def
        pm_inv_def ctl_ok_def outstanding_def ack_idle_def int_of_bool_def Let_def)
  then show ?thesis unfolding begin_cases using ignore by simp
qed

lemma schedule_inv:
  assumes "pm_inv pm" and "SetPowerState_schedule E now pm = Some pm1"
  shows "pm_inv pm1"
proof -
  obtain h t c where req: "pm_request pm = Some (h, t)" "pm_modeChangeController pm = Some c"
    using assms(2) by (auto simp: SetPowerState_schedule_def split: option.splits)
  have idle: "ack_idle c" and lock: "pm_selfLock pm" and sync: "hd_isSync h \<longrightarrow> t = 0"
    and state: "ac_powerState c = hd_newState h"
    and refs: "pm_refs pm = 1 + int (pre_count (pm_jobs pm))"
    using assms(1) req by (auto simp: pm_inv_def ctl_ok_def outstanding_def int_of_bool_def ack_idle_def)
  let ?s = "AckController_Schedule (me_add E) now (uint (t * 1000)) h c"
  let ?c = "fst ?s" and ?calls = "snd ?s"
  let ?pm = "pm\<lparr>pm_modeChangeController := Some ?c, pm_request := None\<rparr>"
  have eq: "pm1 = (if \<not> hd_isSync h then (run_calls E ?calls ?pm)\<lparr>pm_selfLock := False\<rparr>
      else run_calls E ?calls ?pm)"
    using assms(2) req by (auto simp: SetPowerState_schedule_def split_def Let_def)
  note sch = ack_schedule [OF idle, of h "me_add E" now "uint (t * 1000)"]
  have now0: "hd_isSync h \<Longrightarrow> \<not> ac_running ?c"
    using sync idle by (simp add: AckController_Schedule_def ack_idle_def)
  have st: "ac_powerState ?c = hd_newState h"
    using state by (simp add: AckController_Schedule_def Let_def)
  show ?thesis
  proof (cases "ac_running ?c")
    case True
    then show ?thesis
      using sch st refs now0 assms(1) unfolding eq
      by (auto simp: pm_inv_def ctl_ok_def outstanding_def int_of_bool_def)
  next
    case False
    obtain h0 :: pm_handler where h0: "\<not> hd_isSync h0" by (metis pm_handler.select_convs(5))
    have inv0: "ack_inv h0 ?c" using False sch by (simp add: ack_inv_def)
    have "run_calls E ?calls ?pm = run_handler E (Some h, False, False) ?pm" using sch False by simp
    then show ?thesis
      using sch False refs assms(1) h0 inv0 unfolding eq
      using run_handler_frame [where pm = ?pm and E = E and h = h and t = False and a = False]
      by (auto simp: pm_inv_def ctl_ok_def outstanding_def int_of_bool_def same_ctl_def
          simp del: run_handler.simps)
  qed
qed

section \<open>The other operations\<close>

lemma complete_inv: "pm_inv pm \<Longrightarrow> pm_inv (snd (PowerModePreChangeComplete E cid tid pm))"
  using ack_op_inv [where pm = pm and E = E and op' = "AckOp cid tid" and add = "me_add E"]
  by (auto simp: PowerModePreChangeComplete_def split: option.splits prod.splits)

lemma delay_inv:
  assumes "pm_inv pm" and "DelayPowerModeChangeBy E now cid tid d pm = Some (e, pm1)"
  shows "pm_inv pm1"
proof (cases "pm_modeChangeController pm")
  case None
  then show ?thesis using assms by (simp add: DelayPowerModeChangeBy_def)
next
  case (Some c)
  then show ?thesis
    using assms ack_op_inv [OF assms(1) Some, of E "me_add E" "RescheduleOp now cid tid (d * 1000)"]
    by (auto simp: DelayPowerModeChangeBy_def split_def Let_def split: if_splits)
qed

lemma timer_inv: "pm_inv pm \<Longrightarrow> ack_timer E now pm = Some pm1 \<Longrightarrow> pm_inv pm1"
  using ack_op_inv [where pm = pm and E = E and op' = "TimerOp now" and add = "me_add E"]
  by (auto simp: ack_timer_def split_def Let_def simp del: ack_step.simps split: option.splits)

lemma clients_ok_add:
  assumes "clients_ok cs" and "find (\<lambda>c. snd c = name) cs = None" and "name \<noteq> []"
  shows "clients_ok (AList.update i name cs)"
proof -
  have new: "name \<notin> snd ` set cs" using assms(2) by (auto simp: find_None_iff)
  have "snd ` set (AList.update i name cs) \<subseteq> insert name (snd ` set cs)
      \<and> distinct (map snd (AList.update i name cs))"
    using assms(1) new unfolding clients_ok_def by (induction cs) auto
  then show ?thesis
    using assms distinct_update [of cs i name] by (auto simp: clients_ok_def)
qed

lemma clients_ok_delete: "clients_ok cs \<Longrightarrow> clients_ok (AList.delete i cs)"
  unfolding clients_ok_def AList.delete_eq by (auto intro: distinct_map_filter)

lemma pm_inv_clients:
  "pm_inv pm \<Longrightarrow> clients_ok cs \<Longrightarrow> pm_inv (pm\<lparr>pm_modeChangeClients := cs\<rparr>)"
  "pm_inv pm \<Longrightarrow> pm_inv (pm\<lparr>pm_nextClientId := n\<rparr>)"
  by (cases "pm_request pm"; simp add: pm_inv_def ctl_ok_def outstanding_def split_def)+

lemma pm_inv_sinks:
  "pm_inv pm \<Longrightarrow> sinks_ok s \<Longrightarrow> pm_inv (pm\<lparr>pm_sinks := (pm_sinks pm)(k := s)\<rparr>)"
  by (cases "pm_request pm") (simp_all add: pm_inv_def ctl_ok_def outstanding_def split_def)

lemma add_client_inv: "pm_inv pm \<Longrightarrow> pm_inv (snd (snd (AddPowerModePreChangeClient name i pm)))"
proof (cases "name = [] \<or> find (\<lambda>client. snd client = name) (pm_modeChangeClients pm) \<noteq> None")
  case True
  then show "pm_inv pm \<Longrightarrow> pm_inv (snd (snd (AddPowerModePreChangeClient name i pm)))"
    by (auto simp: AddPowerModePreChangeClient_def)
next
  case False
  assume inv: "pm_inv pm"
  then have ok: "clients_ok (pm_modeChangeClients pm)" by (simp add: pm_inv_def)
  have none: "find (\<lambda>client. snd client = name) (pm_modeChangeClients pm) = None" "name \<noteq> []"
    using False by (cases "find (\<lambda>client. snd client = name) (pm_modeChangeClients pm)"; auto)+
  show "pm_inv (snd (snd (AddPowerModePreChangeClient name i pm)))"
    using none pm_inv_clients(1) [OF pm_inv_clients(2) [OF inv] clients_ok_add [OF ok none]]
    by (simp add: AddPowerModePreChangeClient_def Let_def)
qed

lemma remove_client_inv:
  assumes "pm_inv pm"
  shows "pm_inv (snd (RemovePowerModePreChangeClient E cid pm))"
proof (cases "map_of (pm_modeChangeClients pm) cid")
  case None
  then show ?thesis using assms by (simp add: RemovePowerModePreChangeClient_def)
next
  case (Some name)
  let ?pm = "pm\<lparr>pm_modeChangeClients := AList.delete cid (pm_modeChangeClients pm)\<rparr>"
  have inv: "pm_inv ?pm"
    using assms pm_inv_clients(1) clients_ok_delete by (auto simp: pm_inv_def)
  show ?thesis
  proof (cases "pm_modeChangeController pm")
    case None
    then show ?thesis using Some inv by (simp add: RemovePowerModePreChangeClient_def)
  next
    case (Some c)
    then show ?thesis
      using \<open>map_of _ _ = Some name\<close> ack_op_inv [OF inv, of c E "me_add E" "AckOp cid (ac_transactionId c)"]
      by (simp add: RemovePowerModePreChangeClient_def AckController_Ack_any_def split_def Let_def)
  qed
qed

lemma handle_ds_event_frame:
  "same_ctl pm (handle_ds_event E ev pm)" "pm_refs (handle_ds_event E ev pm) = pm_refs pm"
  "pm_selfLock (handle_ds_event E ev pm) = pm_selfLock pm"
  by (cases ev; simp add: same_ctl_def dispatch_defs dispatch_def Let_def)+

lemma handle_ds_events_inv:
  "pm_inv (fold (handle_ds_event E) evs pm) = pm_inv pm"
proof (induction evs arbitrary: pm)
  case (Cons ev evs)
  then show ?case
    by (simp add: pm_inv_frame [OF handle_ds_event_frame])
qed simp

lemma handle_th_event_frame:
  "same_ctl pm (handle_th_event ev pm)" "pm_refs (handle_th_event ev pm) = pm_refs pm"
  "pm_selfLock (handle_th_event ev pm) = pm_selfLock pm"
  by (cases ev; simp add: same_ctl_def dispatch_defs dispatch_def Let_def)+

lemma handle_th_events_inv: "pm_inv (fold handle_th_event evs pm) = pm_inv pm"
proof (induction evs arbitrary: pm)
  case (Cons ev evs)
  then show ?case
    by (simp add: pm_inv_frame [OF handle_th_event_frame])
qed simp

lemma pm_inv_hw [simp]:
  "pm_inv (pm\<lparr>pm_hw := p\<rparr>) = pm_inv pm" "pm_inv (pm\<lparr>pm_fs := f\<rparr>) = pm_inv pm"
  "pm_inv (pm\<lparr>pm_power := pc\<rparr>) = pm_inv pm" "pm_inv (pm\<lparr>pm_deepSleep := ds\<rparr>) = pm_inv pm"
  "pm_inv (pm\<lparr>pm_thermal := th\<rparr>) = pm_inv pm" "pm_inv (pm\<lparr>pm_events := evs\<rparr>) = pm_inv pm"
  by (rule pm_inv_frame; simp add: same_ctl_def)+

lemma pm_inv_dispatch [simp]: "pm_inv (dispatch k ev pm) = pm_inv pm"
  by (rule pm_inv_frame) simp_all

lemma pm_inv_job:
  assumes "i < length (pm_jobs pm)"
  shows "pre_count (pm_jobs pm) =
    pre_count (take i (pm_jobs pm) @ drop (Suc i) (pm_jobs pm)) + (if is_prechange (pm_jobs pm ! i) then 1 else 0)"
proof -
  have "pm_jobs pm = take i (pm_jobs pm) @ pm_jobs pm ! i # drop (Suc i) (pm_jobs pm)"
    using assms by (simp add: id_take_nth_drop)
  then have "pre_count (pm_jobs pm) =
      pre_count (take i (pm_jobs pm) @ pm_jobs pm ! i # drop (Suc i) (pm_jobs pm))" by simp
  then show ?thesis by (simp add: pre_count_def)
qed

lemma run_job_inv:
  assumes "pm_inv pm" and "i < length (pm_jobs pm)"
    and "run_job E now (pm_jobs pm ! i)
           (pm\<lparr>pm_jobs := take i (pm_jobs pm) @ drop (Suc i) (pm_jobs pm)\<rparr>) = Some pm1"
  shows "pm_inv pm1"
proof -
  let ?pm = "pm\<lparr>pm_jobs := take i (pm_jobs pm) @ drop (Suc i) (pm_jobs pm)\<rparr>"
  note count = pm_inv_job [OF assms(2)]
  have other: "pm_inv ?pm" if "\<not> is_prechange (pm_jobs pm ! i)"
    using assms(1) that count pm_inv_frame [of pm ?pm] by (simp add: same_ctl_def)
  show ?thesis
  proof (cases "pm_jobs pm ! i")
    case (PreChangeJob n a b c d)
    then show ?thesis
      using assms(1,3) count
      by (cases "pm_request pm")
        (auto simp: is_prechange_def pm_inv_def ctl_ok_def outstanding_def split_def)
  next
    case (ActivateJob t nw)
    then show ?thesis
      using assms(3) other by (auto simp: is_prechange_def handle_ds_events_inv split: prod.splits)
  next
    case (RebootJob cmds)
    then show ?thesis using assms(3) other by (auto simp: is_prechange_def)
  next
    case (SetPowerStateCall s r)
    then show ?thesis
      using assms(3) other begin_inv [of ?pm E now 0 s r] by (auto simp: is_prechange_def split: if_splits)
  qed
qed

lemma setNwStandby_inv: "pm_inv (snd (PowerManager_SetNetworkStandbyMode E b pm)) = pm_inv pm"
  by (simp add: PowerManager_SetNetworkStandbyMode_def dispatch_defs Let_def split: prod.splits)

lemma setWakeup_inv: "pm_inv (snd (setWakeupSourceConfig E cs pm)) = pm_inv pm"
  by (simp add: setWakeupSourceConfig_def getWakeupSourceConfig_def setNwStandby_inv Let_def split_def)

lemma reboot_inv: "pm_inv (snd (PowerManager_Reboot a b c pm)) = pm_inv pm"
  by (simp only: PowerManager_Reboot_def Let_def snd_conv)
    (rule pm_inv_frame; simp add: dispatch_defs same_ctl_def dispatch_def)

lemma pm_inv_sinks_ok: "pm_inv pm \<Longrightarrow> sinks_ok (pm_sinks pm k)"
  by (simp add: pm_inv_def)

lemma register_inv:
  "pm_inv pm \<Longrightarrow> pm_inv (snd (PowerManager_Register k n pm))"
  "pm_inv pm \<Longrightarrow> pm_inv (snd (PowerManager_Unregister k n pm))"
  by (auto simp: PowerManager_Register_def PowerManager_Unregister_def split_def Let_def
      intro!: pm_inv_sinks sinks.reg_ok sinks.unreg_ok pm_inv_sinks_ok)

lemma delayJob_inv: "pm_inv pm \<Longrightarrow> deepSleepDelayJob E pm = Some pm1 \<Longrightarrow> pm_inv pm1"
  by (auto simp: deepSleepDelayJob_def handle_ds_events_inv split_def Let_def split: if_splits)

lemma thermalPoll_inv: "pm_inv pm \<Longrightarrow> thermalPoll E stop vars pm = Some pm1 \<Longrightarrow> pm_inv pm1"
  by (auto simp: thermalPoll_def handle_th_events_inv split: bind_splits)

lemma setWakeupOp_inv: "pm_inv pm \<Longrightarrow> pm_inv (snd (PowerManager_SetWakeupSourceConfig E cs pm))"
  by (simp add: PowerManager_SetWakeupSourceConfig_def setWakeup_inv split_def Let_def)

lemma setTimers_inv:
  "pm_inv pm \<Longrightarrow> pm_inv (snd (PowerManager_SetDeepSleepTimer E t pm))"
  "pm_inv pm \<Longrightarrow> pm_inv (snd (PowerManager_SetOvertempGraceInterval g pm))"
  by (simp_all add: PowerManager_SetDeepSleepTimer_def PowerManager_SetOvertempGraceInterval_def
      split_def Let_def)

lemma pm_exec_inv:
  assumes "pm_inv pm" and "pm_exec E now op' pm = Some pm1"
  shows "pm_inv pm1"
  using assms(2)
proof (cases op')
  case (RunJobOp i)
  then show ?thesis using assms run_job_inv [OF assms(1), of i E now pm1] by (simp split: if_splits)
next
  case (SetPowerStateOp k s r)
  then show ?thesis using assms begin_inv [OF assms(1), of E now k s r] by (auto split: if_splits)
next
  case ScheduleOp
  then show ?thesis using assms schedule_inv [OF assms(1)] by simp
next
  case (DelayOp cid tid d)
  then show ?thesis using assms delay_inv [OF assms(1)] by auto
next
  case AckTimerOp
  then show ?thesis using assms timer_inv [OF assms(1)] by simp
next
  case DelayJobOp
  then show ?thesis using assms delayJob_inv [OF assms(1)] by simp
next
  case (ThermalPollOp stop vars)
  then show ?thesis using assms thermalPoll_inv [OF assms(1)] by simp
next
  case (CompleteOp cid tid)
  then show ?thesis using assms complete_inv [OF assms(1), of E cid tid] by simp
next
  case (RemoveClientOp cid)
  then show ?thesis using assms remove_client_inv [OF assms(1), of E cid] by simp
next
  case (SetWakeupOp cs)
  then show ?thesis using assms setWakeupOp_inv [OF assms(1), of E cs] by simp
next
  case (SetNetworkStandbyOp b)
  then show ?thesis using assms setNwStandby_inv [of E b pm] by simp
next
  case (AddClientOp name)
  then show ?thesis using assms add_client_inv [OF assms(1), of name 0] by simp
next
  case (RebootOp a b c)
  then show ?thesis using assms by (auto simp: reboot_inv)
qed (use assms(1) register_inv setTimers_inv in auto)

lemma ctor_inv: "PowerManagerImplementation_ctor E p f = Some pm \<Longrightarrow> pm_inv pm"
  by (auto simp: PowerManagerImplementation_ctor_def pm_inv_def ctl_ok_def outstanding_def
      clients_ok_def sinks_ok_empty split: prod.splits)

lemma pm_reach_inv: "pm_reach E pm \<Longrightarrow> pm_inv pm"
proof (induction rule: pm_reach.induct)
  case (pm_reach_init p f pm)
  then show ?case by (rule ctor_inv)
next
  case (pm_reach_step pm now op' pm1)
  then show ?case using pm_exec_inv [of pm E now op' pm1] by simp
qed

section \<open>What changes the power state\<close>

definition cur :: "'p PowerManager \<Rightarrow> PowerState" where
  "cur pm = st_powerState (pc_settings (pm_power pm))"

lemma setDevicePowerState_cur: "cur (snd (setDevicePowerState E a b pm)) \<in> {cur pm, b}"
proof -
  obtain e pc p1 f1 where s:
    "PowerController_SetPowerState (me_power E) b (pm_power pm) (pm_hw pm) (pm_fs pm) = (e, pc, p1, f1)"
    by (metis prod_cases4)
  then have "st_powerState (pc_settings pc) \<in> {cur pm, b}"
    by (cases rule: SetPowerState_cases) (auto simp: cur_def)
  moreover have "cur (snd (setDevicePowerState E a b pm)) = st_powerState (pc_settings pc)"
    by (simp add: setDevicePowerState_def s cur_def dispatch_defs dispatch_def Let_def split_def)
  ultimately show ?thesis by simp
qed

lemma run_handler_cur:
  "cur (run_handler E (h, t, a) pm) \<noteq> cur pm \<Longrightarrow>
   \<exists>h'. h = Some h' \<and> \<not> a \<and> cur (run_handler E (h, t, a) pm) = hd_newState h'"
proof (cases h)
  case (Some h')
  assume *: "cur (run_handler E (h, t, a) pm) \<noteq> cur pm"
  have "cur (run_handler E (h, t, a) pm) =
      (if a then cur pm else cur (snd (setDevicePowerState E (hd_currState h') (hd_newState h') pm)))"
    using Some by (simp add: cur_def Let_def)
  then show ?thesis
    using * Some setDevicePowerState_cur [of E "hd_currState h'" "hd_newState h'" pm]
    by (auto split: if_splits)
qed simp

lemma revoke_calls: "snd (AckController_revoke c) \<in> {[], [(ac_handler c, False, True)]}"
  by (simp add: AckController_revoke_def Let_def)

lemma aborted_power: "pm_power (run_handler E (h, t, True) pm) = pm_power pm"
  by (cases h) (simp_all add: Let_def)

lemma cancelled_power: "pm_power (cancelled E pm) = pm_power pm"
proof (cases "pm_modeChangeController pm")
  case (Some c)
  have "snd (AckController_revoke c) = [] \<or> snd (AckController_revoke c) = [(ac_handler c, False, True)]"
    using revoke_calls [of c] by simp
  then show ?thesis using Some by (auto simp: cancelled_def aborted_power)
qed (simp add: cancelled_def)

lemma begin_power: "pm_power (SetPowerState_begin E now k s r pm) = pm_power pm"
  unfolding begin_cases
  by (simp add: accepted_def submitPowerModePreChangeEvent_def cancelled_power split_def Let_def)

lemma events_power:
  "pm_power (fold (handle_ds_event E) evs pm) = pm_power pm"
  "pm_power (fold handle_th_event evs2 pm) = pm_power pm"
proof -
  have *: "pm_power (handle_ds_event E ev pm) = pm_power pm" for ev and pm :: "'a PowerManager"
    by (cases ev) (simp_all add: dispatch_defs dispatch_def Let_def)
  then show "pm_power (fold (handle_ds_event E) evs pm) = pm_power pm"
    by (induction evs arbitrary: pm) simp_all
  have **: "pm_power (handle_th_event ev pm) = pm_power pm" for ev and pm :: "'a PowerManager"
    by (cases ev) (simp_all add: dispatch_defs dispatch_def Let_def)
  then show "pm_power (fold handle_th_event evs2 pm) = pm_power pm"
    by (induction evs2 arbitrary: pm) simp_all
qed

lemma nwStandby_cur: "cur (snd (PowerManager_SetNetworkStandbyMode E b pm)) = cur pm"
  by (simp add: PowerManager_SetNetworkStandbyMode_def PowerController_SetNetworkStandbyMode_def
      cur_def dispatch_defs dispatch_def Let_def split_def)

lemma wakeup_cur: "cur (snd (PowerManager_SetWakeupSourceConfig E cs pm)) = cur pm"
proof -
  have eq: "cur (pm\<lparr>pm_hw := p\<rparr>) = cur pm" for p by (simp add: cur_def)
  show ?thesis
    by (simp add: PowerManager_SetWakeupSourceConfig_def setWakeupSourceConfig_def
        getWakeupSourceConfig_def nwStandby_cur eq Let_def split_def)
qed

lemma deepSleepTimer_cur: "cur (snd (PowerManager_SetDeepSleepTimer E t pm)) = cur pm"
  by (simp add: PowerManager_SetDeepSleepTimer_def PowerController_SetDeepSleepTimer_def
      DeepSleepWakeupSettings_SetTimeout_def cur_def Let_def split_def)

text \<open>
  The completion of a transition to \<open>s\<close> by an operation: the request needs no acknowledgement, or
  has a time-out of 0; the last client acknowledges or is removed; the timer runs out.
\<close>

definition completes :: "int \<Rightarrow> pm_op \<Rightarrow> 'p PowerManager \<Rightarrow> PowerState \<Rightarrow> bool" where
  "completes now op' pm s \<longleftrightarrow>
     (case pm_modeChangeController pm of
        None \<Rightarrow> False
      | Some c \<Rightarrow> ac_powerState c = s \<and>
          (case op' of
             ScheduleOp \<Rightarrow> (case pm_request pm of
                 None \<Rightarrow> False | Some (h, t) \<Rightarrow> ac_pending c = {} \<or> uint (t * 1000) = 0)
           | CompleteOp k tid \<Rightarrow> ac_running c \<and> tid = ac_transactionId c \<and> ac_pending c = {k}
           | RemoveClientOp k \<Rightarrow> ac_running c \<and> ac_pending c = {k}
           | AckTimerOp \<Rightarrow> ac_running c \<and> ac_timeout c \<le> now
           | _ \<Rightarrow> False))"

lemma ack_op_cur:
  assumes "pm_inv pm" and c: "pm_modeChangeController pm = Some c"
    and pm1: "pm1 = run_calls E (snd (ack_step add a c))
                (pm'\<lparr>pm_modeChangeController := Some (fst (ack_step add a c))\<rparr>)"
    and pm': "cur pm' = cur pm" and diff: "cur pm1 \<noteq> cur pm"
  shows "ac_running c \<and> ac_powerState c = cur pm1 \<and>
    ((\<exists>k. a = AckOp k (ac_transactionId c) \<and> ac_pending c = {k}) \<or> (\<exists>now. a = TimerOp now \<and> ac_timeout c \<le> now))"
proof -
  let ?pm = "pm'\<lparr>pm_modeChangeController := Some (fst (ack_step add a c))\<rparr>"
  have pm'cur: "cur ?pm = cur pm" using pm' by (simp add: cur_def)
  then have some: "snd (ack_step add a c) \<noteq> []" using diff pm1 by auto
  have "\<not> ack_idle c" using some ack_idle_step [of c add a] by auto
  then obtain h where inv: "ack_inv h c" "ac_running c \<longrightarrow> ac_powerState c = hd_newState h"
    using assms(1) c by (auto simp: pm_inv_def ctl_ok_def split: option.splits prod.splits)
  then have run: "ac_running c" using some ack_step_idle [of h c add a] by auto
  then have h: "ack_inv h c" "ac_powerState c = hd_newState h" using inv by auto
  obtain t b where calls: "snd (ack_step add a c) = [(Some h, t, b)]"
    using ack_step_calls [OF h(1), of add a] some by (cases "snd (ack_step add a c)") auto
  then have "pm1 = run_handler E (Some h, t, b) ?pm" using pm1 by simp
  then have "\<not> b" "cur pm1 = hd_newState h" using run_handler_cur [of E "Some h" t b ?pm] diff pm'cur by auto
  then show ?thesis using run h ack_step_call [OF h(1), of "Some h" t b add a] calls by auto
qed

lemma exec_cur:
  assumes "pm_inv pm" and "pm_exec E now op' pm = Some pm1" and "cur pm1 \<noteq> cur pm"
  shows "completes now op' pm (cur pm1)"
proof (cases op')
  case ScheduleOp
  obtain h t c where req: "pm_request pm = Some (h, t)" "pm_modeChangeController pm = Some c"
    using assms(2) ScheduleOp by (auto simp: SetPowerState_schedule_def split: option.splits)
  then have idle: "ack_idle c" "ac_powerState c = hd_newState h"
    using assms(1) by (auto simp: pm_inv_def ctl_ok_def)
  let ?s = "AckController_Schedule (me_add E) now (uint (t * 1000)) h c"
  let ?pm = "pm\<lparr>pm_modeChangeController := Some (fst ?s), pm_request := None\<rparr>"
  have "cur pm1 = cur (run_calls E (snd ?s) ?pm)"
    using assms(2) ScheduleOp req by (auto simp: SetPowerState_schedule_def cur_def split_def Let_def)
  moreover have "cur ?pm = cur pm" by (simp add: cur_def)
  ultimately have "snd ?s \<noteq> []" "cur (run_calls E (snd ?s) ?pm) \<noteq> cur ?pm" using assms(3) by auto
  then have "ac_pending c = {} \<or> uint (t * 1000) = 0" "cur pm1 = hd_newState h"
    using run_handler_cur [of E "Some h" False False ?pm] \<open>cur pm1 = _\<close>
    by (auto simp: AckController_Schedule_def Let_def simp del: run_handler.simps split: if_splits)
  then show ?thesis using ScheduleOp req idle by (simp add: completes_def)
next
  case (CompleteOp k tid)
  then obtain c where c: "pm_modeChangeController pm = Some c"
    using assms(2,3) by (auto simp: PowerModePreChangeComplete_def split: option.splits)
  then have "pm1 = run_calls E (snd (ack_step (me_add E) (AckOp k tid) c))
      (pm\<lparr>pm_modeChangeController := Some (fst (ack_step (me_add E) (AckOp k tid) c))\<rparr>)"
    using assms(2) CompleteOp by (auto simp: PowerModePreChangeComplete_def split_def Let_def)
  from ack_op_cur [OF assms(1) c this refl assms(3)] show ?thesis
    using CompleteOp c by (auto simp: completes_def)
next
  case (RemoveClientOp k)
  then obtain c n where c: "pm_modeChangeController pm = Some c" "map_of (pm_modeChangeClients pm) k = Some n"
    using assms(2,3) by (auto simp: RemovePowerModePreChangeClient_def cur_def Let_def split: option.splits)
  let ?pm = "pm\<lparr>pm_modeChangeClients := AList.delete k (pm_modeChangeClients pm)\<rparr>"
  have pm1: "pm1 = run_calls E (snd (ack_step (me_add E) (AckOp k (ac_transactionId c)) c))
      (?pm\<lparr>pm_modeChangeController := Some (fst (ack_step (me_add E) (AckOp k (ac_transactionId c)) c))\<rparr>)"
    using assms(2) RemoveClientOp c
    by (auto simp: RemovePowerModePreChangeClient_def AckController_Ack_any_def split_def Let_def)
  have "cur ?pm = cur pm" by (simp add: cur_def)
  from ack_op_cur [OF assms(1) c(1) pm1 this assms(3)] show ?thesis
    using RemoveClientOp c by (auto simp: completes_def)
next
  case AckTimerOp
  then obtain c where c: "pm_modeChangeController pm = Some c"
    using assms(2) by (auto simp: ack_timer_def split: option.splits)
  then have "pm1 = run_calls E (snd (ack_step (me_add E) (TimerOp now) c))
      (pm\<lparr>pm_modeChangeController := Some (fst (ack_step (me_add E) (TimerOp now) c))\<rparr>)"
    using assms(2) AckTimerOp by (auto simp: ack_timer_def split_def Let_def simp del: ack_step.simps)
  from ack_op_cur [OF assms(1) c this refl assms(3)] show ?thesis
    using AckTimerOp c by (auto simp: completes_def)
next
  case (RunJobOp i)
  then have "pm_power pm1 = pm_power pm"
    using assms(2)
    by (cases "pm_jobs pm ! i") (auto simp: events_power begin_power split_def Let_def split: if_splits)
  then show ?thesis using assms(3) by (simp add: cur_def)
next
  case (SetPowerStateOp k s r)
  then have "pm_power pm1 = pm_power pm" using assms(2) by (auto simp: begin_power split: if_splits)
  then show ?thesis using assms(3) by (simp add: cur_def)
next
  case (ThermalPollOp stop vars)
  then have "pm_power pm1 = pm_power pm"
    using assms(2) by (auto simp: thermalPoll_def events_power split: bind_splits)
  then show ?thesis using assms(3) by (simp add: cur_def)
next
  case DelayJobOp
  then have "pm_power pm1 = pm_power pm"
    using assms(2) by (auto simp: deepSleepDelayJob_def events_power split_def Let_def split: if_splits)
  then show ?thesis using assms(3) by (simp add: cur_def)
next
  case (SetWakeupOp cs)
  then show ?thesis using assms(2,3) wakeup_cur [of E cs pm] by auto
next
  case (SetNetworkStandbyOp b)
  then show ?thesis using assms(2,3) nwStandby_cur [of E b pm] by auto
next
  case (SetDeepSleepTimerOp t)
  then show ?thesis using assms(2,3) deepSleepTimer_cur [of E t pm] by auto
next
  case (DelayOp k tid d)
  then have "pm_power pm1 = pm_power pm"
    using assms(2) by (auto simp: DelayPowerModeChangeBy_def split_def Let_def split: option.splits if_splits)
  then show ?thesis using assms(3) by (simp add: cur_def)
next
  case (AddClientOp name)
  then have "pm_power pm1 = pm_power pm"
    using assms(2) by (auto simp: AddPowerModePreChangeClient_def Let_def split: option.splits if_splits)
  then show ?thesis using assms(3) by (simp add: cur_def)
qed (use assms(2,3) in \<open>auto simp: cur_def PowerManager_Register_def PowerManager_Unregister_def
      PowerManager_SetOvertempGraceInterval_def PowerManager_Reboot_def dispatch_defs dispatch_def
      split_def Let_def\<close>)

end
