(* ===== verification/PowerSync.thy ===== *)
theory PowerSync imports PowerManagerInv begin

text \<open>
  The power state the plugin reports is the one the hardware is in, in every reachable state of the
  power manager, if the platforms do what they report: \<open>honest_env\<close> says that the power platform
  is honest (\<open>honest_power\<close>), answers when it is asked for the state, and that the deep sleep and
  thermal platforms and the passing of time leave the power state of the hardware alone.
\<close>

definition honest_env :: "'p pm_env \<Rightarrow> ('p \<Rightarrow> PowerState) \<Rightarrow> bool" where
  "honest_env E hw \<longleftrightarrow>
     honest_power (pe_platform (me_power E)) hw
     \<and> (\<forall>p. fst (pp_GetPowerState (pe_platform (me_power E)) POWER_STATE_UNKNOWN p) = ERROR_NONE)
     \<and> (\<forall>t u n p. hw (snd (snd (dp_SetDeepSleep (de_platform (me_deepSleep E)) t u n p))) = hw p)
     \<and> (\<forall>p. hw (snd (dp_DeepSleepWakeup (de_platform (me_deepSleep E)) p)) = hw p)
     \<and> (\<forall>r p. hw (snd (snd (dp_GetLastWakeupReason (de_platform (me_deepSleep E)) r p))) = hw p)
     \<and> (\<forall>n p. hw (de_sleep (me_deepSleep E) n p) = hw p)
     \<and> (\<forall>a b c p. hw (snd (snd (snd (snd
          (tp_DetemineClockSpeeds (te_platform (me_thermal E)) a b c p))))) = hw p)
     \<and> (\<forall>a b p. hw (snd (tp_SetTemperatureThresholds (te_platform (me_thermal E)) a b p)) = hw p)
     \<and> (\<forall>a b c p. hw (snd (snd (snd (snd (tp_GetTemperature (te_platform (me_thermal E)) a b c p))))) = hw p)
     \<and> (\<forall>s p. hw (snd (tp_SetClockSpeed (te_platform (me_thermal E)) s p)) = hw p)
     \<and> (\<forall>p. hw (me_idle E p) = hw p)"

definition sync :: "('p \<Rightarrow> PowerState) \<Rightarrow> 'p PowerManager \<Rightarrow> bool" where
  "sync hw pm \<longleftrightarrow> cur pm = hw (pm_hw pm)"

lemma sync_frame: "cur pm1 = cur pm \<Longrightarrow> hw (pm_hw pm1) = hw (pm_hw pm) \<Longrightarrow> sync hw pm1 = sync hw pm"
  by (simp add: sync_def)

lemma honest_env_simps:
  assumes "honest_env E hw"
  shows "hw (snd (snd (dp_SetDeepSleep (de_platform (me_deepSleep E)) t u n p))) = hw p"
    and "hw (snd (dp_DeepSleepWakeup (de_platform (me_deepSleep E)) p)) = hw p"
    and "hw (snd (snd (dp_GetLastWakeupReason (de_platform (me_deepSleep E)) r p))) = hw p"
    and "hw (de_sleep (me_deepSleep E) k p) = hw p"
    and "hw (snd (snd (snd (snd (tp_DetemineClockSpeeds (te_platform (me_thermal E)) a b c p))))) = hw p"
    and "hw (snd (tp_SetTemperatureThresholds (te_platform (me_thermal E)) x y p)) = hw p"
    and "hw (snd (snd (snd (snd (tp_GetTemperature (te_platform (me_thermal E)) l x y p))))) = hw p"
    and "hw (snd (tp_SetClockSpeed (te_platform (me_thermal E)) s p)) = hw p"
    and "hw (me_idle E p) = hw p"
  using assms by (simp_all add: honest_env_def)

section \<open>Completing a transition\<close>

lemma setDevicePowerState_sync:
  assumes "honest_env E hw" and "sync hw pm"
  shows "sync hw (snd (setDevicePowerState E a b pm))"
proof -
  have honest: "honest_power (pe_platform (me_power E)) hw" using assms(1) by (simp add: honest_env_def)
  obtain e pc p1 f1 where s:
    "PowerController_SetPowerState (me_power E) b (pm_power pm) (pm_hw pm) (pm_fs pm) = (e, pc, p1, f1)"
    by (metis prod_cases4)
  have "in_sync hw pc p1"
    using SetPowerState_sync [OF honest _ s] assms(2) by (simp add: in_sync_def sync_def cur_def)
  then show ?thesis
    by (simp add: setDevicePowerState_def s sync_def in_sync_def cur_def dispatch_defs dispatch_def
        Let_def split_def)
qed

lemma run_handler_sync:
  assumes "honest_env E hw" and "sync hw pm"
  shows "sync hw (run_handler E (h, t, a) pm)"
proof (cases h)
  case (Some h')
  then show ?thesis
    using setDevicePowerState_sync [OF assms, of "hd_currState h'" "hd_newState h'"] assms(2)
    by (simp add: sync_def cur_def Let_def)
qed (use assms(2) in simp)

lemma run_calls_sync: "honest_env E hw \<Longrightarrow> sync hw pm \<Longrightarrow> sync hw (run_calls E calls pm)"
proof (induction calls arbitrary: pm)
  case (Cons call calls)
  obtain h t a where call: "call = (h, t, a)" by (metis prod_cases3)
  have "sync hw (run_handler E call pm)" unfolding call by (rule run_handler_sync [OF Cons.prems])
  then show ?case using Cons.IH Cons.prems(1) by simp
qed simp

lemma sync_ctl [simp]:
  "sync hw (pm\<lparr>pm_modeChangeController := c\<rparr>) = sync hw pm"
  "sync hw (pm\<lparr>pm_request := r\<rparr>) = sync hw pm" "sync hw (pm\<lparr>pm_selfLock := b\<rparr>) = sync hw pm"
  "sync hw (pm\<lparr>pm_modeChangeClients := cs\<rparr>) = sync hw pm" "sync hw (pm\<lparr>pm_jobs := js\<rparr>) = sync hw pm"
  "sync hw (pm\<lparr>pm_refs := n\<rparr>) = sync hw pm" "sync hw (pm\<lparr>pm_nextTransactionId := i\<rparr>) = sync hw pm"
  "sync hw (pm\<lparr>pm_events := evs\<rparr>) = sync hw pm" "sync hw (pm\<lparr>pm_sinks := ss\<rparr>) = sync hw pm"
  "sync hw (pm\<lparr>pm_nextClientId := k\<rparr>) = sync hw pm" "sync hw (pm\<lparr>pm_thermal := th\<rparr>) = sync hw pm"
  "sync hw (pm\<lparr>pm_deepSleep := ds\<rparr>) = sync hw pm" "sync hw (pm\<lparr>pm_fs := f\<rparr>) = sync hw pm"
  by (simp_all add: sync_def cur_def)

lemma sync_hw: "hw p = hw (pm_hw pm) \<Longrightarrow> sync hw (pm\<lparr>pm_hw := p\<rparr>) = sync hw pm"
  by (simp add: sync_def cur_def)

lemma sync_dispatch [simp]: "sync hw (dispatch k ev pm) = sync hw pm"
  by (simp add: sync_def cur_def)

section \<open>The other platforms\<close>

lemma woken_sync: "honest_env E hw \<Longrightarrow> sync hw (woken E pm) = sync hw pm"
  by (simp add: woken_def DeepSleepController_Deactivate_def split_def Let_def sync_hw
      honest_env_simps(2))

lemma begin_sync:
  assumes "honest_env E hw" and "sync hw pm"
  shows "sync hw (SetPowerState_begin E now k s r pm)"
proof -
  have w: "sync hw (woken E (pm\<lparr>pm_selfLock := b\<rparr>))" "sync hw (woken E pm)" for b
    using assms(2) by (simp_all add: woken_sync [OF assms(1)])
  have "sync hw (cancelled E (woken E (pm\<lparr>pm_selfLock := True\<rparr>)))"
    unfolding cancelled_def using w run_calls_sync [OF assms(1)] by (simp split: option.split)
  then show ?thesis
    unfolding begin_cases using assms(2) w
    by (simp add: accepted_def submitPowerModePreChangeEvent_def split_def Let_def)
qed

lemma timerWakeup_hw:
  "honest_env E hw \<Longrightarrow> hw (fst (deepSleepTimerWakeup (me_deepSleep E) c p)) = hw p"
  by (simp add: deepSleepTimerWakeup_def honest_env_simps Let_def)

lemma ds_retry_hw:
  "honest_env E hw \<Longrightarrow> hw (snd (snd (snd (ds_retry (me_deepSleep E) n u c p)))) = hw p"
proof (induction n arbitrary: u c p)
  case (Suc n)
  then show ?case
    using honest_env_simps(1) [OF Suc.prems, of "ds_wakeupTimeoutSec c" u "ds_nwStandbyMode c" p]
    by (simp add: split_def Let_def honest_env_simps(4))
qed simp

lemma performActivate_hw:
  assumes "honest_env E hw"
  shows "hw (fst (snd (performActivate (me_deepSleep E) t nw c p))) = hw p"
proof -
  have "hw (fst (snd (enterDeepSleepNow (me_deepSleep E) c p))) = hw p" for c
    using ds_retry_hw [OF assms, of 5 False c "de_sleep (me_deepSleep E) 1 p"]
    by (simp add: enterDeepSleepNow_def timerWakeup_hw [OF assms] honest_env_simps [OF assms]
        split_def Let_def)
  then show ?thesis by (simp add: performActivate_def split_def Let_def)
qed

lemma enterDeepSleepDelayed_hw:
  "honest_env E hw \<Longrightarrow> hw (fst (snd (enterDeepSleepDelayed (me_deepSleep E) c p))) = hw p"
  by (simp add: enterDeepSleepDelayed_def timerWakeup_hw honest_env_simps split_def Let_def)

lemma poll_round_hw:
  assumes "honest_env E hw" and "poll_round (me_thermal E) iv stop vars c p = Some (go, vars1, c1, p1, evs)"
  shows "hw p1 = hw p"
proof -
  have "hw (snd (declockIfNeeded (me_thermal E) c q)) = hw q" for c q
    by (simp add: declockIfNeeded_def split_def Let_def honest_env_simps [OF assms(1)] split: option.split)
  then show ?thesis
    using assms(2)
    by (auto simp: poll_round_def split_def Let_def honest_env_simps [OF assms(1)] split: if_splits)
qed

lemma events_sync:
  "sync hw (fold (handle_ds_event E) evs pm) = sync hw pm"
  "sync hw (fold handle_th_event evs2 pm) = sync hw pm"
proof -
  have *: "sync hw (handle_ds_event E ev pm) = sync hw pm" for ev and pm :: "'a PowerManager"
    by (cases ev) (simp_all add: dispatch_defs Let_def)
  then show "sync hw (fold (handle_ds_event E) evs pm) = sync hw pm"
    by (induction evs arbitrary: pm) simp_all
  have **: "sync hw (handle_th_event ev pm) = sync hw pm" for ev and pm :: "'a PowerManager"
    by (cases ev) (simp_all add: dispatch_defs)
  then show "sync hw (fold handle_th_event evs2 pm) = sync hw pm"
    by (induction evs2 arbitrary: pm) simp_all
qed

section \<open>Network standby and wake-up sources\<close>

lemma nwStandby_sync:
  assumes "honest_env E hw" and "sync hw pm"
  shows "sync hw (snd (PowerManager_SetNetworkStandbyMode E b pm))"
proof -
  have honest: "honest_power (pe_platform (me_power E)) hw" using assms(1) by (simp add: honest_env_def)
  obtain e pc p1 f1 where s:
    "PowerController_SetNetworkStandbyMode (me_power E) b (pm_power pm) (pm_hw pm) (pm_fs pm) = (e, pc, p1, f1)"
    by (metis prod_cases4)
  have "in_sync hw pc p1"
    using SetNetworkStandbyMode_sync [OF honest _ s] assms(2) by (simp add: in_sync_def sync_def cur_def)
  then have "sync hw (pm\<lparr>pm_power := pc, pm_hw := p1, pm_fs := f1\<rparr>)"
    by (simp add: sync_def cur_def in_sync_def)
  then show ?thesis
    by (simp add: PowerManager_SetNetworkStandbyMode_def s dispatch_defs Let_def)
qed

lemma GetWakeup_loop_hw:
  assumes "honest_power P hw"
  shows "hw (snd (snd (GetWakeupSourceConfig_loop P srcs failed configs p))) = hw p"
  using assms
proof (induction srcs arbitrary: failed configs p)
  case (Cons src srcs)
  then show ?case by (auto simp: honest_power_def split: prod.splits)
qed simp

lemma wakeup_sync:
  assumes "honest_env E hw" and "sync hw pm"
  shows "sync hw (snd (PowerManager_SetWakeupSourceConfig E cs pm))"
proof -
  have honest: "honest_power (pe_platform (me_power E)) hw" using assms(1) by (simp add: honest_env_def)
  have get: "sync hw (snd (snd (getWakeupSourceConfig E cs q))) = sync hw q" for cs and q :: "'a PowerManager"
    by (simp add: getWakeupSourceConfig_def PowerController_GetWakeupSourceConfig_def
        GetWakeup_loop_hw [OF honest] sync_hw split_def Let_def)
  have set: "sync hw (q\<lparr>pm_hw := snd (PowerController_SetWakeupSourceConfig (me_power E) cs (pm_hw q))\<rparr>)
      = sync hw q" for cs and q :: "'a PowerManager"
    by (simp add: SetWakeup_hw [OF honest] sync_hw)
  show ?thesis
    by (simp add: PowerManager_SetWakeupSourceConfig_def setWakeupSourceConfig_def nwStandby_sync
        get set assms split_def Let_def)
qed

section \<open>Every step\<close>

lemma exec_sync:
  assumes h: "honest_env E hw" and s: "sync hw pm" and x: "pm_exec E now op' pm = Some pm1"
  shows "sync hw pm1"
proof (cases op')
  case (SetPowerStateOp k st r)
  then show ?thesis using x begin_sync [OF h s] by (auto split: if_splits)
next
  case ScheduleOp
  then show ?thesis
    using x s by (auto simp: SetPowerState_schedule_def run_calls_sync [OF h] split_def Let_def
        split: option.splits if_splits)
next
  case (CompleteOp cid tid)
  then show ?thesis
    using x s by (auto simp: PowerModePreChangeComplete_def run_calls_sync [OF h] split_def Let_def
        split: option.splits)
next
  case (RemoveClientOp cid)
  then show ?thesis
    using x s by (auto simp: RemovePowerModePreChangeClient_def run_calls_sync [OF h] split_def Let_def
        split: option.splits)
next
  case AckTimerOp
  then show ?thesis
    using x s by (auto simp: ack_timer_def run_calls_sync [OF h] split_def Let_def split: option.splits)
next
  case (DelayOp cid tid d)
  then show ?thesis
    using x s by (auto simp: DelayPowerModeChangeBy_def split_def Let_def split: option.splits if_splits)
next
  case (AddClientOp name)
  then show ?thesis
    using x s by (auto simp: AddPowerModePreChangeClient_def Let_def split: option.splits if_splits)
next
  case (RunJobOp i)
  let ?pm = "pm\<lparr>pm_jobs := take i (pm_jobs pm) @ drop (Suc i) (pm_jobs pm)\<rparr>"
  have "sync hw ?pm" using s by simp
  then show ?thesis
    using x RunJobOp
    by (cases "pm_jobs pm ! i")
      (auto simp: events_sync begin_sync [OF h] performActivate_hw [OF h] sync_hw split_def Let_def
        split: if_splits)
next
  case DelayJobOp
  then show ?thesis
    using x s by (auto simp: deepSleepDelayJob_def events_sync enterDeepSleepDelayed_hw [OF h] sync_hw
        split_def Let_def split: if_splits)
next
  case (ThermalPollOp stop vars)
  then obtain iv go vars1 th p1 evs where
    "poll_round (me_thermal E) iv stop vars (pm_thermal pm) (pm_hw pm) = Some (go, vars1, th, p1, evs)"
    "pm1 = fold handle_th_event evs (pm\<lparr>pm_thermal := th, pm_hw := p1\<rparr>)"
    using x by (auto simp: thermalPoll_def split: bind_splits)
  then show ?thesis using s poll_round_hw [OF h] by (simp add: events_sync sync_hw)
next
  case (SetNetworkStandbyOp b)
  then show ?thesis using x nwStandby_sync [OF h s] by auto
next
  case (SetWakeupOp cs)
  then show ?thesis using x wakeup_sync [OF h s] by auto
next
  case (SetDeepSleepTimerOp t)
  moreover have "pm_hw (snd (PowerManager_SetDeepSleepTimer E t pm)) = pm_hw pm"
    by (simp add: PowerManager_SetDeepSleepTimer_def split_def Let_def)
  ultimately show ?thesis using x s deepSleepTimer_cur [of E t pm] by (auto simp: sync_def)
next
  case IdleOp
  then show ?thesis using x s honest_env_simps(9) [OF h] by (auto simp: sync_hw)
qed (use x s in \<open>auto simp: PowerManager_Register_def PowerManager_Unregister_def PowerManager_Reboot_def
      PowerManager_SetOvertempGraceInterval_def dispatch_defs split_def Let_def\<close>)

lemma init_thermal_hw:
  assumes "honest_env E hw"
    and "initializeThermalProtection (me_thermal E) c p = Some (on, c1, p1)"
  shows "hw p1 = hw p"
  using assms(2)
  by (auto simp: initializeThermalProtection_def honest_env_simps [OF assms(1)] split_def Let_def
      split: if_splits)

lemma ctor_sync_pm:
  assumes "honest_env E hw" and "PowerManagerImplementation_ctor E p f = Some pm"
  shows "sync hw pm"
proof -
  have honest: "honest_power (pe_platform (me_power E)) hw"
    "\<And>q. fst (pp_GetPowerState (pe_platform (me_power E)) POWER_STATE_UNKNOWN q) = ERROR_NONE"
    using assms(1) by (simp_all add: honest_env_def)
  obtain pc p1 f1 where c: "PowerController_ctor (me_power E) (me_platco E) p f = (pc, p1, f1)"
    by (metis prod_cases3)
  have s: "in_sync hw pc p1" using ctor_sync [OF honest c] .
  obtain on th p2 where i: "initializeThermalProtection (me_thermal E)
      (ThermalController_fields (te_mfr (me_thermal E))) p1 = Some (on, th, p2)"
    "pm_hw pm = p2" "pm_power pm = pc"
    using assms(2) c by (auto simp: PowerManagerImplementation_ctor_def)
  then show ?thesis
    using s init_thermal_hw [OF assms(1) i(1)] by (simp add: sync_def cur_def in_sync_def)
qed

lemma pm_reach_sync:
  assumes "pm_reach E pm" and "honest_env E hw"
  shows "sync hw pm"
  using assms
proof (induction rule: pm_reach.induct)
  case (pm_reach_init p f pm)
  from ctor_sync_pm [OF pm_reach_init(2,1)] show ?case .
next
  case (pm_reach_step pm now op' pm1)
  from exec_sync [OF pm_reach_step(4) pm_reach_step(3) [OF pm_reach_step(4)] pm_reach_step(2)] show ?case .
qed

end
