(* ===== verification/Reboot.thy ===== *)
theory Reboot imports PersistSettings begin

text \<open>
  The maintenance reboots (\<open>PowerManager/RebootController.h\<close>, \<open>.cpp\<close>). A heartbeat every five
  minutes compares the uptime with two thresholds, which the first heartbeat reads from the remote
  feature control; \<open>rfc\<close> is its answer for a key (\<open>getRFCParameter\<close>). The result of a heartbeat
  are the shell commands it runs and the delay of the next one in milliseconds.

  The lemmas: when a heartbeat reboots the device, and what the parser of the thresholds accepts.
\<close>

record Threshold =
  threshold :: int
  graceInterval :: int

definition Threshold_SetThreshold :: "int \<Rightarrow> Threshold \<Rightarrow> Threshold" where
  "Threshold_SetThreshold v t = (if 0 < v then t\<lparr>threshold := v\<rparr> else t)"

definition IsThresholdExceeded :: "Threshold \<Rightarrow> int \<Rightarrow> bool" where
  "IsThresholdExceeded t up \<longleftrightarrow> threshold t \<le> sint (word_of_int up :: u32)"

definition IsGraceIntervalExceeded :: "Threshold \<Rightarrow> int \<Rightarrow> bool" where
  "IsGraceIntervalExceeded t up \<longleftrightarrow> graceInterval t \<le> up"

record RebootController =
  rb_standbyRebootThreshold :: Threshold
  rb_forcedRebootThreshold :: Threshold
  rb_rfcUpdated :: bool

definition RebootController_ctor :: RebootController where
  "RebootController_ctor = \<lparr>
     rb_standbyRebootThreshold = \<lparr>threshold = 86400 * 3, graceInterval = 300\<rparr>,
     rb_forcedRebootThreshold = \<lparr>threshold = 172800 * 3, graceInterval = 0\<rparr>,
     rb_rfcUpdated = False \<rparr>"

definition STANDBY_REBOOT_ENABLE :: string where
  "STANDBY_REBOOT_ENABLE = ''Device.DeviceInfo.X_RDKCENTRAL-COM_RFC.Feature.StandbyReboot.Enable''"

definition STANDBY_REBOOT :: string where
  "STANDBY_REBOOT = ''Device.DeviceInfo.X_RDKCENTRAL-COM_RFC.Feature.StandbyReboot.StandbyAutoReboot''"

definition FORCE_REBOOT :: string where
  "FORCE_REBOOT = ''Device.DeviceInfo.X_RDKCENTRAL-COM_RFC.Feature.StandbyReboot.ForceAutoReboot''"

definition MAX_RFC_LEN :: nat where
  "MAX_RFC_LEN = 15"

definition scheduleHeartbeat :: int where
  "scheduleHeartbeat = 300 * 1000"

text \<open>The character at an index of a C string, the terminating NUL included.\<close>

definition c_at :: "string \<Rightarrow> nat \<Rightarrow> char" where
  "c_at s i = (if i < length s then s ! i else CHR 0x00)"

definition fetchRFCValueInt :: "(string \<Rightarrow> string option) \<Rightarrow> string \<Rightarrow> int" where
  "fetchRFCValueInt rfc key =
     (case rfc key of
        None \<Rightarrow> -1
      | Some value \<Rightarrow>
          (let len = (if MAX_RFC_LEN < length value then MAX_RFC_LEN else length value)
           in if c_at value 0 = CHR 0x22 \<and> c_at value len = CHR 0x22
              then atoi (take (len - 1) (drop 1 value))
              else atoi (take len (take (MAX_RFC_LEN - 1) value))))"

definition isStandbyRebootEnabled :: "(string \<Rightarrow> string option) \<Rightarrow> bool" where
  "isStandbyRebootEnabled rfc =
     (case rfc STANDBY_REBOOT_ENABLE of None \<Rightarrow> False | Some v \<Rightarrow> strncasecmp_eq v ''true'' 4)"

definition standby_reboot_cmd :: string where
  "standby_reboot_cmd = ''sh /rebootNow.sh -s PwrMgr -o '' @ [CHR 0x27] @ ''Standby Maintenance reboot'' @ [CHR 0x27]"

definition forced_reboot_cmd :: string where
  "forced_reboot_cmd = ''sh /rebootNow.sh -s PwrMgr -o '' @ [CHR 0x27] @ ''Forced Maintenance reboot'' @ [CHR 0x27]"

text \<open>\<open>up\<close> and \<open>now\<close> are the steady clock in seconds and in nanoseconds.\<close>

definition heartbeatMsg ::
  "(string \<Rightarrow> string option) \<Rightarrow> Settings \<Rightarrow> int \<Rightarrow> int \<Rightarrow> RebootController
     \<Rightarrow> RebootController \<times> string list \<times> int" where
  "heartbeatMsg rfc settings up now c =
     (let c1 =
        (if \<not> rb_rfcUpdated c
         then
           let val1 = fetchRFCValueInt rfc STANDBY_REBOOT;
               c' = (if val1 \<noteq> -1
                     then c\<lparr>rb_standbyRebootThreshold :=
                              Threshold_SetThreshold val1 (rb_standbyRebootThreshold c)\<rparr> else c);
               val2 = fetchRFCValueInt rfc FORCE_REBOOT;
               c'' = (if val2 \<noteq> -1
                      then c'\<lparr>rb_forcedRebootThreshold :=
                               Threshold_SetThreshold val2 (rb_forcedRebootThreshold c')\<rparr> else c')
           in c''\<lparr>rb_rfcUpdated := True\<rparr>
         else c);
          cmds =
        (if isStandbyRebootEnabled rfc \<and> IsThresholdExceeded (rb_standbyRebootThreshold c1) up
         then (if IsGraceIntervalExceeded (rb_standbyRebootThreshold c1)
                    (Settings_InactiveDuration now settings)
               then [standby_reboot_cmd] else [])
              @ (if IsThresholdExceeded (rb_forcedRebootThreshold c1) up
                 then [forced_reboot_cmd] else [])
         else [])
      in (c1, cmds, scheduleHeartbeat))"

fun heartbeats ::
  "((string \<Rightarrow> string option) \<times> Settings \<times> int \<times> int) list \<Rightarrow> RebootController \<Rightarrow> RebootController" where
  "heartbeats [] c = c"
| "heartbeats ((rfc, s, up, now) # hs) c = heartbeats hs (fst (heartbeatMsg rfc s up now c))"

section \<open>Thresholds\<close>

definition thresholds_ok :: "RebootController \<Rightarrow> bool" where
  "thresholds_ok c \<longleftrightarrow> 0 < threshold (rb_standbyRebootThreshold c)
     \<and> 0 < threshold (rb_forcedRebootThreshold c)
     \<and> graceInterval (rb_standbyRebootThreshold c) = 300"

lemma heartbeatMsg_thresholds: "thresholds_ok c \<Longrightarrow> thresholds_ok (fst (heartbeatMsg rfc s up now c))"
  by (auto simp: heartbeatMsg_def thresholds_ok_def Threshold_SetThreshold_def Let_def)

lemma heartbeats_thresholds: "thresholds_ok c \<Longrightarrow> thresholds_ok (heartbeats hs c)"
  by (induction hs c rule: heartbeats.induct) (simp_all add: heartbeatMsg_thresholds)

lemma heartbeatMsg_latched:
  "rb_rfcUpdated c \<Longrightarrow> fst (heartbeatMsg rfc s up now c) = c"
  by (simp add: heartbeatMsg_def Let_def)

lemma heartbeatMsg_updated: "rb_rfcUpdated (fst (heartbeatMsg rfc s up now c))"
  by (simp add: heartbeatMsg_def Let_def)

lemma heartbeats_latched: "rb_rfcUpdated c \<Longrightarrow> heartbeats hs c = c"
  by (induction hs c rule: heartbeats.induct) (simp_all add: heartbeatMsg_latched)

lemma heartbeatMsg_reboots:
  assumes "c1 = fst (heartbeatMsg rfc s up now c)"
  shows "standby_reboot_cmd \<in> set (fst (snd (heartbeatMsg rfc s up now c))) \<longleftrightarrow>
     isStandbyRebootEnabled rfc \<and> IsThresholdExceeded (rb_standbyRebootThreshold c1) up
     \<and> IsGraceIntervalExceeded (rb_standbyRebootThreshold c1) (Settings_InactiveDuration now s)"
    and "forced_reboot_cmd \<in> set (fst (snd (heartbeatMsg rfc s up now c))) \<longleftrightarrow>
     isStandbyRebootEnabled rfc \<and> IsThresholdExceeded (rb_standbyRebootThreshold c1) up
     \<and> IsThresholdExceeded (rb_forcedRebootThreshold c1) up"
  using assms by (auto simp: heartbeatMsg_def Let_def standby_reboot_cmd_def forced_reboot_cmd_def)

text \<open>A value in quotes is not recognised as such; its number is read as 0.\<close>

lemma atoi_quote: "atoi (CHR 0x22 # s) = 0"
  by (rule atoi_no_number [of _ "CHR 0x22" s]) (simp_all add: c_isspace_def c_isdigit_def ascii_def)

lemma fetchRFCValueInt_quoted:
  assumes "rfc key = Some (CHR 0x22 # v @ [CHR 0x22])" and "length v \<le> 13"
  shows "fetchRFCValueInt rfc key = 0"
  using assms by (auto simp: fetchRFCValueInt_def c_at_def MAX_RFC_LEN_def atoi_quote Let_def
      take_Cons' split: if_splits)

lemma fetchRFCValueInt_plain:
  assumes "rfc key = Some v" and "length v \<le> 14" and "c_at v 0 \<noteq> CHR 0x22"
  shows "fetchRFCValueInt rfc key = atoi v"
  using assms by (auto simp: fetchRFCValueInt_def MAX_RFC_LEN_def Let_def)

section \<open>Properties\<close>

text \<open>
  A heartbeat runs the standby reboot exactly if the feature is enabled, the uptime has reached
  the standby threshold and the device has been inactive for the grace interval, and the forced
  reboot exactly if the feature is enabled and the uptime has reached both thresholds.
\<close>

theorem heartbeat_reboots:
  "let c1 = fst (heartbeatMsg rfc s up now c); cmds = fst (snd (heartbeatMsg rfc s up now c))
   in (standby_reboot_cmd \<in> set cmds \<longleftrightarrow> isStandbyRebootEnabled rfc
        \<and> IsThresholdExceeded (rb_standbyRebootThreshold c1) up
        \<and> IsGraceIntervalExceeded (rb_standbyRebootThreshold c1) (Settings_InactiveDuration now s))
    \<and> (forced_reboot_cmd \<in> set cmds \<longleftrightarrow> isStandbyRebootEnabled rfc
        \<and> IsThresholdExceeded (rb_standbyRebootThreshold c1) up
        \<and> IsThresholdExceeded (rb_forcedRebootThreshold c1) up)"
  using heartbeatMsg_reboots [OF refl, of rfc s up now c] by (simp add: Let_def)

text \<open>
  The thresholds are read once: after any number of heartbeats they are positive, the grace
  interval is five minutes, and once a heartbeat has run no later one changes them.
\<close>

theorem thresholds_read_once:
  "thresholds_ok (heartbeats hs RebootController_ctor)
   \<and> heartbeats (h # hs) RebootController_ctor = heartbeats [h] RebootController_ctor"
proof -
  obtain rfc s up now where h: "h = (rfc, s, up, now)" by (metis prod_cases4)
  have "heartbeats hs (fst (heartbeatMsg rfc s up now RebootController_ctor)) =
      fst (heartbeatMsg rfc s up now RebootController_ctor)"
    by (rule heartbeats_latched [OF heartbeatMsg_updated])
  then show ?thesis
    using heartbeats_thresholds [of RebootController_ctor hs]
    by (simp add: h thresholds_ok_def RebootController_ctor_def)
qed

text \<open>
  A threshold configured in quotation marks is read as 0, and so is not used.
\<close>

theorem quoted_threshold_ignored:
  assumes "rfc key = Some (CHR 0x22 # v @ [CHR 0x22])" and "length v \<le> 13"
  shows "Threshold_SetThreshold (fetchRFCValueInt rfc key) t = t"
  using fetchRFCValueInt_quoted [of rfc key v] assms by (simp add: Threshold_SetThreshold_def)

theorem quoted_threshold_ignored_witness:
  "Threshold_SetThreshold (fetchRFCValueInt [STANDBY_REBOOT \<mapsto> [CHR 0x22, CHR ''9'', CHR 0x22]] STANDBY_REBOOT)
     \<lparr>threshold = 5, graceInterval = 300\<rparr> = \<lparr>threshold = 5, graceInterval = 300\<rparr>"
  by (rule quoted_threshold_ignored [of _ _ "''9''"]) simp_all

end
