(* ===== verification/ThermalMfr.thy ===== *)
theory ThermalMfr imports PlatformHal begin

text \<open>
  The thermal platform over the IARM bus (\<open>PowerManager/hal/ThermalMfrImpl.h\<close>), which is used instead
  of \<open>ThermalImpl\<close> when the plugin is built with \<open>MFR_TEMP_CLOCK_READ\<close>. A bus call is a parameter: it
  yields the parameter block the manufacturer library filled in, or \<open>None\<close> when the call did not
  return \<open>IARM_RESULT_SUCCESS\<close>. The temperatures of the block are integers; the ones to set are
  truncated, which is defined for values that fit an \<open>int\<close>.

  The locale \<open>keeps_outputs\<close> is what the thermal controller relies on when a platform reports an
  error: the variables passed by reference are as before. Both platforms provide it.
\<close>

section \<open>ThermalMfrImpl\<close>

record 'p iarm_mfr =
  im_GetTemperatureThresholds :: "'p \<Rightarrow> (int \<times> int) option \<times> 'p"
  im_SetTemperatureThresholds :: "int \<Rightarrow> int \<Rightarrow> 'p \<Rightarrow> bool \<times> 'p"
  im_GetCPUClockSpeed :: "'p \<Rightarrow> u32 option \<times> 'p"
  im_SetCPUClockSpeed :: "u32 \<Rightarrow> 'p \<Rightarrow> bool \<times> 'p"
  im_SearchCPUClockSpeeds :: "'p \<Rightarrow> (u32 \<times> u32 \<times> u32) option \<times> 'p"
  im_GetTemperature :: "'p \<Rightarrow> (PWRMgr_ThermalState_t \<times> int \<times> int) option \<times> 'p"

text \<open>\<open>ThermalMfrImpl::conv\<close> of a state of the library, and its inverse.\<close>

fun mfr_conv :: "PWRMgr_ThermalState_t \<Rightarrow> ThermalTemperature" where
  "mfr_conv PWRMGR_TEMPERATURE_NORMAL = THERMAL_TEMPERATURE_NORMAL"
| "mfr_conv PWRMGR_TEMPERATURE_HIGH = THERMAL_TEMPERATURE_HIGH"
| "mfr_conv PWRMGR_TEMPERATURE_CRITICAL = THERMAL_TEMPERATURE_CRITICAL"
| "mfr_conv PWRMGR_TEMPERATURE_other = THERMAL_TEMPERATURE_UNKNOWN"

definition mfr_unconv :: "ThermalTemperature \<Rightarrow> PWRMgr_ThermalState_t" where
  "mfr_unconv state =
     (if state = THERMAL_TEMPERATURE_NORMAL then PWRMGR_TEMPERATURE_NORMAL
      else if state = THERMAL_TEMPERATURE_HIGH then PWRMGR_TEMPERATURE_HIGH
      else if state = THERMAL_TEMPERATURE_CRITICAL then PWRMGR_TEMPERATURE_CRITICAL
      else PWRMGR_TEMPERATURE_NORMAL)"

definition ThermalMfrImpl_GetTemperatureThresholds ::
  "'p iarm_mfr \<Rightarrow> real \<Rightarrow> real \<Rightarrow> 'p \<Rightarrow> hresult \<times> real \<times> real \<times> 'p" where
  "ThermalMfrImpl_GetTemperatureThresholds B tempHigh tempCritical p =
     (case im_GetTemperatureThresholds B p of
        (Some (highTemp, criticalTemp), p1) \<Rightarrow>
          (ERROR_NONE, real_of_int highTemp, real_of_int criticalTemp, p1)
      | (None, p1) \<Rightarrow> (ERROR_GENERAL, tempHigh, tempCritical, p1))"

definition trunc :: "real \<Rightarrow> int" where
  "trunc x = (if 0 \<le> x then \<lfloor>x\<rfloor> else \<lceil>x\<rceil>)"

definition ThermalMfrImpl_SetTemperatureThresholds ::
  "'p iarm_mfr \<Rightarrow> real \<Rightarrow> real \<Rightarrow> 'p \<Rightarrow> hresult \<times> 'p" where
  "ThermalMfrImpl_SetTemperatureThresholds B tempHigh tempCritical p =
     (let (ok, p1) = im_SetTemperatureThresholds B (trunc tempHigh) (trunc tempCritical) p
      in (if ok then ERROR_NONE else ERROR_GENERAL, p1))"

definition ThermalMfrImpl_GetClockSpeed :: "'p iarm_mfr \<Rightarrow> u32 \<Rightarrow> 'p \<Rightarrow> hresult \<times> u32 \<times> 'p" where
  "ThermalMfrImpl_GetClockSpeed B speed p =
     (case im_GetCPUClockSpeed B p of
        (Some cpu_clock_speed, p1) \<Rightarrow> (ERROR_NONE, cpu_clock_speed, p1)
      | (None, p1) \<Rightarrow> (ERROR_GENERAL, speed, p1))"

definition ThermalMfrImpl_SetClockSpeed :: "'p iarm_mfr \<Rightarrow> u32 \<Rightarrow> 'p \<Rightarrow> hresult \<times> 'p" where
  "ThermalMfrImpl_SetClockSpeed B speed p =
     (let (ok, p1) = im_SetCPUClockSpeed B speed p in (if ok then ERROR_NONE else ERROR_GENERAL, p1))"

definition ThermalMfrImpl_DetemineClockSpeeds ::
  "'p iarm_mfr \<Rightarrow> u32 \<Rightarrow> u32 \<Rightarrow> u32 \<Rightarrow> 'p \<Rightarrow> hresult \<times> u32 \<times> u32 \<times> u32 \<times> 'p" where
  "ThermalMfrImpl_DetemineClockSpeeds B cpu_rate_Normal cpu_rate_Scaled cpu_rate_Minimal p =
     (case im_SearchCPUClockSpeeds B p of
        (Some (n, s, m), p1) \<Rightarrow> (ERROR_NONE, n, s, m, p1)
      | (None, p1) \<Rightarrow> (ERROR_GENERAL, cpu_rate_Normal, cpu_rate_Scaled, cpu_rate_Minimal, p1))"

definition ThermalMfrImpl_GetTemperature ::
  "'p iarm_mfr \<Rightarrow> ThermalTemperature \<Rightarrow> real \<Rightarrow> real \<Rightarrow> 'p
     \<Rightarrow> hresult \<times> ThermalTemperature \<times> real \<times> real \<times> 'p" where
  "ThermalMfrImpl_GetTemperature B curState curTemperature wifiTemperature p =
     (case im_GetTemperature B p of
        (Some (state, curSoCTemperature, curWiFiTemperature), p1) \<Rightarrow>
          (ERROR_NONE, mfr_conv state, real_of_int curSoCTemperature, real_of_int curWiFiTemperature, p1)
      | (None, p1) \<Rightarrow> (ERROR_GENERAL, curState, curTemperature, wifiTemperature, p1))"

definition ThermalMfrImpl :: "'p iarm_mfr \<Rightarrow> 'p thermal_platform" where
  "ThermalMfrImpl B = \<lparr> tp_GetTemperatureThresholds = ThermalMfrImpl_GetTemperatureThresholds B,
     tp_SetTemperatureThresholds = ThermalMfrImpl_SetTemperatureThresholds B,
     tp_GetClockSpeed = ThermalMfrImpl_GetClockSpeed B,
     tp_SetClockSpeed = ThermalMfrImpl_SetClockSpeed B,
     tp_DetemineClockSpeeds = ThermalMfrImpl_DetemineClockSpeeds B,
     tp_GetTemperature = ThermalMfrImpl_GetTemperature B \<rparr>"

lemma mfr_unconv_conv: "s \<noteq> PWRMGR_TEMPERATURE_other \<Longrightarrow> mfr_unconv (mfr_conv s) = s"
  by (cases s) (simp_all add: mfr_unconv_def)

lemma mfr_conv_eq: "mfr_conv = thermal_conv"
proof
  show "mfr_conv s = thermal_conv s" for s by (cases s) simp_all
qed

section \<open>Errors leave the outputs alone\<close>

locale keeps_outputs =
  fixes P :: "'p thermal_platform"
  assumes temperature: "tp_GetTemperature P s t w p = (e, s', t', w', p') \<Longrightarrow> e \<noteq> ERROR_NONE
      \<Longrightarrow> s' = s \<and> t' = t \<and> w' = w"
    and thresholds: "tp_GetTemperatureThresholds P h c p = (e, h', c', p') \<Longrightarrow> e \<noteq> ERROR_NONE
      \<Longrightarrow> h' = h \<and> c' = c"
    and speeds: "tp_DetemineClockSpeeds P x y z p = (e, x', y', z', p') \<Longrightarrow> e \<noteq> ERROR_NONE
      \<Longrightarrow> x' = x \<and> y' = y \<and> z' = z"
    and speed: "tp_GetClockSpeed P v p = (e, v', p') \<Longrightarrow> e \<noteq> ERROR_NONE \<Longrightarrow> v' = v"
begin

text \<open>A value read through such a platform is the last one that was read without an error.\<close>

fun readings :: "'p list \<Rightarrow> ThermalTemperature \<times> real \<times> real \<Rightarrow> ThermalTemperature \<times> real \<times> real" where
  "readings [] v = v"
| "readings (p # ps) (s, t, w) =
     readings ps (case tp_GetTemperature P s t w p of (e, s', t', w', p') \<Rightarrow> (s', t', w'))"

lemma failed_readings:
  "\<forall>p \<in> set ps. \<forall>s t w. fst (tp_GetTemperature P s t w p) \<noteq> ERROR_NONE \<Longrightarrow> readings ps v = v"
proof (induction ps v rule: readings.induct)
  case (2 p ps s t w)
  obtain e s' t' w' p' where r: "tp_GetTemperature P s t w p = (e, s', t', w', p')" by (metis prod_cases5)
  have "e \<noteq> ERROR_NONE" using 2(2) r by (metis fst_conv list.set_intros(1))
  then have "(s', t', w') = (s, t, w)" using temperature [OF r] by simp
  then show ?case using 2 r by simp
qed simp

end

interpretation thermal_cpu: keeps_outputs "ThermalImpl M"
  by unfold_locales
    (auto simp: ThermalImpl_def ThermalImpl_GetTemperature_def ThermalImpl_GetTemperatureThresholds_def
      ThermalImpl_DetemineClockSpeeds_def ThermalImpl_GetClockSpeed_def Let_def
      split: option.splits prod.splits if_splits)

interpretation thermal_mfr: keeps_outputs "ThermalMfrImpl B"
  by unfold_locales
    (auto simp: ThermalMfrImpl_def ThermalMfrImpl_GetTemperature_def
      ThermalMfrImpl_GetTemperatureThresholds_def ThermalMfrImpl_DetemineClockSpeeds_def
      ThermalMfrImpl_GetClockSpeed_def split: option.splits prod.splits)

end
