(* ===== verification/UserPreferences.thy ===== *)
theory UserPreferences imports CLib begin

text \<open>
  The UserPreferences plugin (\<open>UserPreferences/UserPreferences.cpp\<close>): it keeps the file
  \<open>/opt/user_preferences.conf\<close>, which holds a UI language such as \<open>US_en\<close>, in step with the
  presentation language, such as \<open>en-US\<close>, of the UserSettings plugin. The UserSettings plugin and
  the key files of GLib are parameters: functions on a world of type \<open>'w\<close>. \<open>up_refs\<close> counts the
  references the plugin holds on interfaces it has queried. The \<open>_instance\<close> pointer and the lock
  have no counterpart; the empty notification handlers have none either.
\<close>

section \<open>Language formats\<close>

definition LANGUAGE_CODE_SEPARATOR_POS :: nat where "LANGUAGE_CODE_SEPARATOR_POS = 2"
definition LANGUAGE_CODE_LENGTH :: nat where "LANGUAGE_CODE_LENGTH = 5"

definition ConvertToUserSettingsFormat :: "string \<Rightarrow> string \<Rightarrow> bool \<times> string" where
  "ConvertToUserSettingsFormat uiLanguage presentationLanguage =
     (let sep = find_char CHR ''_'' uiLanguage in
      if sep = Some LANGUAGE_CODE_SEPARATOR_POS \<and> length uiLanguage = LANGUAGE_CODE_LENGTH
      then (True, drop (the sep + 1) uiLanguage @ ''-'' @ take (the sep) uiLanguage)
      else (False, presentationLanguage))"

definition ConvertToUserPrefsFormat :: "string \<Rightarrow> string \<Rightarrow> bool \<times> string" where
  "ConvertToUserPrefsFormat presentationLanguage uiLanguage =
     (let sep = find_char CHR ''-'' presentationLanguage in
      if sep = Some LANGUAGE_CODE_SEPARATOR_POS \<and> length presentationLanguage = LANGUAGE_CODE_LENGTH
      then (True, drop (the sep + 1) presentationLanguage @ ''_'' @ take (the sep) presentationLanguage)
      else (False, uiLanguage))"

section \<open>The plugin\<close>

datatype load_result = Loaded "string option" | NoEnt | LoadError

datatype json_param = JString string | JOther

text \<open>
  \<open>ue_UserSettings\<close> and \<open>ue_Inspector\<close> are the two interface queries; \<open>ue_load\<close> loads the key file and
  reads its language; \<open>ue_save\<close> replaces it by a file with the language given.
\<close>

record 'w up_env =
  ue_UserSettings :: "'w \<Rightarrow> bool \<times> 'w"
  ue_Inspector :: "'w \<Rightarrow> bool \<times> 'w"
  ue_GetMigrationState :: "'w \<Rightarrow> hresult \<times> bool \<times> 'w"
  ue_SetPresentationLanguage :: "string \<Rightarrow> 'w \<Rightarrow> hresult \<times> 'w"
  ue_GetPresentationLanguage :: "'w \<Rightarrow> hresult \<times> string \<times> 'w"
  ue_Register :: "'w \<Rightarrow> 'w"
  ue_Unregister :: "'w \<Rightarrow> 'w"
  ue_load :: "'w \<Rightarrow> load_result \<times> 'w"
  ue_save :: "string \<Rightarrow> 'w \<Rightarrow> bool \<times> 'w"
  ue_usleep :: "nat \<Rightarrow> 'w \<Rightarrow> 'w"

record UserPreferences =
  up_service :: bool
  up_isMigrationDone :: bool
  up_lastUILanguage :: string
  up_refs :: int

definition UserPreferences_ctor :: UserPreferences where
  "UserPreferences_ctor = \<lparr>up_service = False, up_isMigrationDone = False, up_lastUILanguage = [],
     up_refs = 0\<rparr>"

definition up_AddRef :: "UserPreferences \<Rightarrow> UserPreferences" where
  "up_AddRef c = c\<lparr>up_refs := up_refs c + 1\<rparr>"

definition up_Release :: "UserPreferences \<Rightarrow> UserPreferences" where
  "up_Release c = c\<lparr>up_refs := up_refs c - 1\<rparr>"

text \<open>Migration is required: the file decides, or the service if there is no file.\<close>

definition write_ui_language :: "'w up_env \<Rightarrow> 'w \<Rightarrow> 'w" where
  "write_ui_language E w =
     (let (status, presentationLanguage, w1) = ue_GetPresentationLanguage E w in
      if status = ERROR_NONE
      then (let (ok, uiLanguage) = ConvertToUserPrefsFormat presentationLanguage []
            in if ok then snd (ue_save E uiLanguage w1) else w1)
      else w1)"

definition migrate_required :: "'w up_env \<Rightarrow> 'w \<Rightarrow> bool \<times> 'w" where
  "migrate_required E w =
     (let (file, w1) = ue_load E w in
      case file of
        Loaded (Some uiLanguage) \<Rightarrow>
          (let (ok, presentationLanguage) = ConvertToUserSettingsFormat uiLanguage []
           in if ok then (let (status, w2) = ue_SetPresentationLanguage E presentationLanguage w1
                          in (status = ERROR_NONE, w2))
              else (True, w1))
      | Loaded None \<Rightarrow> (True, w1)
      | NoEnt \<Rightarrow> (True, write_ui_language E w1)
      | LoadError \<Rightarrow> (True, w1))"

definition PerformMigration :: "'w up_env \<Rightarrow> UserPreferences \<Rightarrow> 'w \<Rightarrow> bool \<times> UserPreferences \<times> 'w" where
  "PerformMigration E c w =
     (let (inspector, w1) = ue_Inspector E w in
      if \<not> inspector then (False, c, w1)
      else
        let c1 = up_AddRef c; (status, requiresMigration, w2) = ue_GetMigrationState E w1 in
        if status \<noteq> ERROR_NONE then (False, up_Release c1, w2)
        else
          let (ok, w3) = (if requiresMigration then migrate_required E w2
                          else (True, write_ui_language E w2))
          in if \<not> ok then (False, up_Release c1, w3)
             else (True, up_Release (c1\<lparr>up_isMigrationDone := True\<rparr>), w3))"

fun obtain_UserSettings :: "'w up_env \<Rightarrow> nat \<Rightarrow> 'w \<Rightarrow> bool \<times> 'w" where
  "obtain_UserSettings E 0 w = (False, w)"
| "obtain_UserSettings E (Suc retries) w =
     (let (userSettings, w1) = ue_UserSettings E w
      in if userSettings then (True, w1)
         else obtain_UserSettings E retries (ue_usleep E 1000000 w1))"

definition UserPreferences_Initialize ::
  "'w up_env \<Rightarrow> UserPreferences \<Rightarrow> 'w \<Rightarrow> string \<times> UserPreferences \<times> 'w" where
  "UserPreferences_Initialize E c w =
     (let c1 = c\<lparr>up_service := True\<rparr>; (userSettings, w1) = obtain_UserSettings E 5 w in
      if \<not> userSettings then ('' '', c1, w1)
      else let (r, c2, w2) = PerformMigration E (up_AddRef c1) w1
           in ([], up_Release c2, ue_Register E w2))"

definition UserPreferences_Deinitialize ::
  "'w up_env \<Rightarrow> UserPreferences \<Rightarrow> 'w \<Rightarrow> UserPreferences \<times> 'w" where
  "UserPreferences_Deinitialize E c w =
     (let (userSettings, w1) = ue_UserSettings E w;
          (c1, w2) = (if userSettings then (up_Release (up_AddRef c), ue_Unregister E w1) else (c, w1))
      in (c1\<lparr>up_service := False\<rparr>, w2))"

text \<open>Saving a language unless it was the last one saved.\<close>

definition save_if_changed ::
  "'w up_env \<Rightarrow> string \<Rightarrow> UserPreferences \<Rightarrow> 'w \<Rightarrow> UserPreferences \<times> 'w" where
  "save_if_changed E language c w =
     (if language \<noteq> up_lastUILanguage c
      then (let (ok, w1) = ue_save E language w
            in (if ok then c\<lparr>up_lastUILanguage := language\<rparr> else c, w1))
      else (c, w))"

definition OnPresentationLanguageChanged ::
  "'w up_env \<Rightarrow> string \<Rightarrow> UserPreferences \<Rightarrow> 'w \<Rightarrow> UserPreferences \<times> 'w" where
  "OnPresentationLanguageChanged E language c w =
     (let (ok, uiLanguage) = ConvertToUserPrefsFormat language []
      in if ok then save_if_changed E uiLanguage c w else (c, w))"

text \<open>\<open>None\<close> is a response with \<open>success\<close> false.\<close>

definition getUILanguage ::
  "'w up_env \<Rightarrow> UserPreferences \<Rightarrow> 'w \<Rightarrow> string option \<times> UserPreferences \<times> 'w" where
  "getUILanguage E c w =
     (let (userSettings, w1) = ue_UserSettings E w in
      if \<not> userSettings then (None, c, w1)
      else
        let w2 = ue_Register E w1;
            (ok, c1, w3) = (if \<not> up_isMigrationDone c then PerformMigration E (up_AddRef c) w2
                            else (True, up_AddRef c, w2))
        in if \<not> ok then (None, up_Release c1, w3)
           else
             let (status, presentationLanguage, w4) = ue_GetPresentationLanguage E w3 in
             if status = ERROR_NONE then
               (let (converted, language) = ConvertToUserPrefsFormat presentationLanguage []
                in if \<not> converted then (None, up_Release c1, w4)
                   else let (c2, w5) = save_if_changed E language c1 w4
                        in (Some language, up_Release c2, w5))
             else (None, up_Release c1, w4))"

definition setUILanguage ::
  "'w up_env \<Rightarrow> json_param option \<Rightarrow> UserPreferences \<Rightarrow> 'w \<Rightarrow> bool \<times> UserPreferences \<times> 'w" where
  "setUILanguage E parameter c w =
     (let (userSettings, w1) = ue_UserSettings E w in
      if \<not> userSettings then (False, c, w1)
      else case parameter of
        Some (JString uiLanguage) \<Rightarrow>
          (let w2 = ue_Register E w1;
               (ok, c1, w3) = (if \<not> up_isMigrationDone c then PerformMigration E (up_AddRef c) w2
                               else (True, up_AddRef c, w2))
           in if \<not> ok then (False, up_Release c1, w3)
              else
                let (converted, presentationLanguage) = ConvertToUserSettingsFormat uiLanguage [] in
                if \<not> converted then (False, up_Release c1, w3)
                else let (status, w4) = ue_SetPresentationLanguage E presentationLanguage w3
                     in (status = ERROR_NONE, up_Release c1, w4))
      | _ \<Rightarrow> (False, up_AddRef c, w1))"

section \<open>The formats\<close>

lemma code_shape:
  "find_char c s = Some 2 \<and> length s = 5 \<longleftrightarrow> (\<exists>a b d e. s = [a, b, c, d, e] \<and> a \<noteq> c \<and> b \<noteq> c)"
proof
  assume *: "find_char c s = Some 2 \<and> length s = 5"
  then obtain a b x d e where s: "s = [a, b, x, d, e]"
    by (auto simp: numeral_eq_Suc length_Suc_conv)
  then show "\<exists>a b d e. s = [a, b, c, d, e] \<and> a \<noteq> c \<and> b \<noteq> c"
    using * by (auto split: if_splits)
qed (auto simp: numeral_2_eq_2)

lemma ConvertToUserSettings_eq:
  "ConvertToUserSettingsFormat u x = (True, p) \<longleftrightarrow>
     (\<exists>a b d e. u = [a, b, CHR ''_'', d, e] \<and> CHR ''_'' \<notin> {a, b} \<and> p = [d, e, CHR ''-'', a, b])"
proof -
  have "ConvertToUserSettingsFormat u x = (True, p) \<longleftrightarrow>
      (find_char CHR ''_'' u = Some 2 \<and> length u = 5) \<and> p = drop 3 u @ ''-'' @ take 2 u"
    by (auto simp: ConvertToUserSettingsFormat_def LANGUAGE_CODE_SEPARATOR_POS_def
        LANGUAGE_CODE_LENGTH_def Let_def split: if_splits)
  then show ?thesis unfolding code_shape by (auto simp: numeral_eq_Suc)
qed

lemma ConvertToUserPrefs_eq:
  "ConvertToUserPrefsFormat p x = (True, u) \<longleftrightarrow>
     (\<exists>d e a b. p = [d, e, CHR ''-'', a, b] \<and> CHR ''-'' \<notin> {d, e} \<and> u = [a, b, CHR ''_'', d, e])"
proof -
  have "ConvertToUserPrefsFormat p x = (True, u) \<longleftrightarrow>
      (find_char CHR ''-'' p = Some 2 \<and> length p = 5) \<and> u = drop 3 p @ ''_'' @ take 2 p"
    by (auto simp: ConvertToUserPrefsFormat_def LANGUAGE_CODE_SEPARATOR_POS_def
        LANGUAGE_CODE_LENGTH_def Let_def split: if_splits)
  then show ?thesis unfolding code_shape by (auto simp: numeral_eq_Suc)
qed

lemma Convert_invalid:
  "fst (ConvertToUserSettingsFormat u x) \<or> ConvertToUserSettingsFormat u x = (False, x)"
  "fst (ConvertToUserPrefsFormat p x) \<or> ConvertToUserPrefsFormat p x = (False, x)"
  by (simp_all add: ConvertToUserSettingsFormat_def ConvertToUserPrefsFormat_def Let_def)

text \<open>The conversions as partial functions, and the strings they are inverse on.\<close>

definition to_settings :: "string \<Rightarrow> string option" where
  "to_settings u = (let (ok, p) = ConvertToUserSettingsFormat u [] in if ok then Some p else None)"

definition to_prefs :: "string \<Rightarrow> string option" where
  "to_prefs p = (let (ok, u) = ConvertToUserPrefsFormat p [] in if ok then Some u else None)"

lemma to_settings_iff: "to_settings u = Some p \<longleftrightarrow> ConvertToUserSettingsFormat u [] = (True, p)"
  by (auto simp: to_settings_def split: prod.split)

lemma to_prefs_iff: "to_prefs p = Some u \<longleftrightarrow> ConvertToUserPrefsFormat p [] = (True, u)"
  by (auto simp: to_prefs_def split: prod.split)

definition proper_ui :: "string \<Rightarrow> bool" where
  "proper_ui u = (CHR ''-'' \<notin> set (drop 3 u) \<and> CHR ''_'' \<notin> set (drop 3 u) \<and> CHR ''-'' \<notin> set (take 2 u))"

definition proper_presentation :: "string \<Rightarrow> bool" where
  "proper_presentation p =
     (CHR ''_'' \<notin> set (drop 3 p) \<and> CHR ''_'' \<notin> set (take 2 p) \<and> CHR ''-'' \<notin> set (drop 3 p))"

interpretation language: partial_codec to_settings to_prefs proper_ui proper_presentation
  by unfold_locales
    (auto simp: to_settings_iff to_prefs_iff ConvertToUserSettings_eq ConvertToUserPrefs_eq
      proper_ui_def proper_presentation_def numeral_eq_Suc)

text \<open>
  The two conversions undo each other, except where one side's code contains the other's
  separator: then the converted language is itself rejected by the conversion back.
\<close>

theorem language_roundtrip:
  "(case to_settings u of
      None \<Rightarrow> True
    | Some p \<Rightarrow> to_prefs p = (if CHR ''-'' \<in> set (drop 3 u) then None else Some u))
   \<and> (case to_prefs p of
      None \<Rightarrow> True
    | Some u \<Rightarrow> to_settings u = (if CHR ''_'' \<in> set (drop 3 p) then None else Some p))"
proof -
  have inv: "to_prefs q = None" if "\<And>v. to_prefs q \<noteq> Some v" for q using that by blast
  have inv': "to_settings q = None" if "\<And>v. to_settings q \<noteq> Some v" for q using that by blast
  have "to_prefs p = (if CHR ''-'' \<in> set (drop 3 u) then None else Some u)"
    if "to_settings u = Some p" for u p
    using that by (auto simp: to_settings_iff to_prefs_iff ConvertToUserSettings_eq
        ConvertToUserPrefs_eq numeral_eq_Suc intro!: inv)
  moreover have "to_settings u = (if CHR ''_'' \<in> set (drop 3 p) then None else Some p)"
    if "to_prefs p = Some u" for u p
    using that by (auto simp: to_settings_iff to_prefs_iff ConvertToUserSettings_eq
        ConvertToUserPrefs_eq numeral_eq_Suc intro!: inv')
  ultimately show ?thesis by (auto split: option.split)
qed

section \<open>References\<close>

lemma up_refs_AddRef [simp]: "up_refs (up_AddRef c) = up_refs c + 1"
  by (simp add: up_AddRef_def)

lemma up_refs_Release [simp]: "up_refs (up_Release c) = up_refs c - 1"
  by (simp add: up_Release_def)

lemma PerformMigration_refs [simp]: "up_refs (fst (snd (PerformMigration E c w))) = up_refs c"
  by (simp add: PerformMigration_def Let_def split: prod.split)

lemma save_if_changed_refs [simp]: "up_refs (fst (save_if_changed E l c w)) = up_refs c"
  by (simp add: save_if_changed_def Let_def split: prod.split)

datatype up_op = UpInitialize | UpDeinitialize | UpGet | UpSet "json_param option" | UpChanged string

fun up_step :: "'w up_env \<Rightarrow> up_op \<Rightarrow> UserPreferences \<times> 'w \<Rightarrow> UserPreferences \<times> 'w" where
  "up_step E UpInitialize (c, w) = snd (UserPreferences_Initialize E c w)"
| "up_step E UpDeinitialize (c, w) = UserPreferences_Deinitialize E c w"
| "up_step E UpGet (c, w) = snd (getUILanguage E c w)"
| "up_step E (UpSet parameter) (c, w) = snd (setUILanguage E parameter c w)"
| "up_step E (UpChanged language) (c, w) = OnPresentationLanguageChanged E language c w"

fun up_run :: "'w up_env \<Rightarrow> up_op list \<Rightarrow> UserPreferences \<times> 'w \<Rightarrow> UserPreferences \<times> 'w" where
  "up_run E [] s = s"
| "up_run E (op' # ops) s = up_run E ops (up_step E op' s)"

text \<open>The operations that leave a reference behind: \<open>setUILanguage\<close> without a language.\<close>

definition leaks :: "'w up_env \<Rightarrow> up_op \<Rightarrow> 'w \<Rightarrow> bool" where
  "leaks E op' w = (case op' of
      UpSet (Some (JString _)) \<Rightarrow> False
    | UpSet _ \<Rightarrow> fst (ue_UserSettings E w)
    | _ \<Rightarrow> False)"

text \<open>
  Every operation releases the interfaces it has queried, on every path, with one exception:
  \<open>setUILanguage\<close> called without a language string keeps its reference on UserSettings.
\<close>

theorem interfaces_released:
  "up_refs (fst (up_step E op' (c, w))) = up_refs c + int_of_bool (leaks E op' w)"
proof (cases op')
  case UpInitialize
  then show ?thesis
    by (simp add: UserPreferences_Initialize_def leaks_def int_of_bool_def split_def Let_def)
next
  case UpDeinitialize
  then show ?thesis
    by (simp add: UserPreferences_Deinitialize_def leaks_def int_of_bool_def split_def Let_def)
next
  case UpGet
  then show ?thesis
    by (simp add: getUILanguage_def leaks_def int_of_bool_def split_def Let_def)
next
  case (UpSet parameter)
  then show ?thesis
    by (simp add: setUILanguage_def leaks_def int_of_bool_def split_def Let_def
        split: option.split json_param.split)
next
  case (UpChanged language)
  then show ?thesis
    by (simp add: OnPresentationLanguageChanged_def leaks_def int_of_bool_def split_def Let_def)
qed

section \<open>The file follows the service\<close>

text \<open>
  What is documented of the two services: queries change neither the language \<open>lang\<close> nor the file,
  a language read is the one set, a save that reports success has replaced the file, and one that
  reports failure has left it as it was. Any save can fail.
\<close>

definition honest_settings :: "('w \<Rightarrow> string) \<Rightarrow> ('w \<Rightarrow> string option) \<Rightarrow> 'w up_env \<Rightarrow> bool" where
  "honest_settings lang file E \<longleftrightarrow>
     (\<forall>w. (\<forall>w' \<in> {snd (ue_UserSettings E w), snd (ue_Inspector E w), ue_Register E w,
                 ue_Unregister E w, snd (snd (ue_GetPresentationLanguage E w))}.
             lang w' = lang w \<and> file w' = file w)
        \<and> (fst (ue_GetPresentationLanguage E w) = ERROR_NONE \<longrightarrow>
             fst (snd (ue_GetPresentationLanguage E w)) = lang w)
        \<and> (\<forall>l. file (snd (ue_SetPresentationLanguage E l w)) = file w)
        \<and> (\<forall>s. lang (snd (ue_save E s w)) = lang w
             \<and> file (snd (ue_save E s w)) = (if fst (ue_save E s w) then Some s else file w)))"

lemma honest_settingsD:
  assumes "honest_settings lang file E"
  shows "ue_UserSettings E w = (b, w') \<Longrightarrow> lang w' = lang w \<and> file w' = file w"
    and "ue_Inspector E w = (b, w') \<Longrightarrow> lang w' = lang w \<and> file w' = file w"
    and "lang (ue_Register E w) = lang w \<and> file (ue_Register E w) = file w"
    and "lang (ue_Unregister E w) = lang w \<and> file (ue_Unregister E w) = file w"
    and "ue_GetPresentationLanguage E w = (st, l, w') \<Longrightarrow>
           lang w' = lang w \<and> file w' = file w \<and> (st = ERROR_NONE \<longrightarrow> l = lang w)"
    and "ue_SetPresentationLanguage E l w = (st, w') \<Longrightarrow> file w' = file w"
    and "ue_save E s w = (ok, w') \<Longrightarrow> lang w' = lang w \<and> file w' = (if ok then Some s else file w)"
  using assms unfolding honest_settings_def by (metis fst_conv snd_conv insertI1 insertI2)+

definition in_sync :: "('w \<Rightarrow> string option) \<Rightarrow> UserPreferences \<times> 'w \<Rightarrow> bool" where
  "in_sync file s = (up_isMigrationDone (fst s)
     \<and> (up_lastUILanguage (fst s) = [] \<or> file (snd s) = Some (up_lastUILanguage (fst s))))"

lemma up_AddRef_simps [simp]:
  "up_isMigrationDone (up_AddRef c) = up_isMigrationDone c" "up_lastUILanguage (up_AddRef c) = up_lastUILanguage c"
  "up_isMigrationDone (up_Release c) = up_isMigrationDone c" "up_lastUILanguage (up_Release c) = up_lastUILanguage c"
  by (simp_all add: up_AddRef_def up_Release_def)

lemma save_if_changed_sync:
  assumes "honest_settings lang file E" and "in_sync file (c, w)"
    and "save_if_changed E l c w = (c1, w1)" and "l \<noteq> []"
  shows "in_sync file (c1, w1)" and "lang w1 = lang w"
    and "file w1 = (if up_lastUILanguage c1 = l then Some l else file w)"
    and "up_lastUILanguage c1 \<noteq> l \<Longrightarrow> \<not> fst (ue_save E l w)"
  using assms(2-) honest_settingsD(7) [OF assms(1), of l w]
  by (auto simp: save_if_changed_def in_sync_def split: if_splits prod.splits)

lemma to_prefs_nonempty: "ConvertToUserPrefsFormat p x = (True, u) \<Longrightarrow> u \<noteq> []"
  by (auto simp: ConvertToUserPrefs_eq)

lemma getUILanguage_sync:
  assumes "honest_settings lang file E" and "in_sync file (c, w)"
    and "getUILanguage E c w = (r, c1, w1)"
  shows "in_sync file (c1, w1)
    \<and> (case r of None \<Rightarrow> True
        | Some u \<Rightarrow> to_prefs (lang w1) = Some u \<and> file w1 = (if up_lastUILanguage c1 = u then Some u else file w)
            \<and> (up_lastUILanguage c1 \<noteq> u \<longrightarrow> (\<exists>w'. \<not> fst (ue_save E u w'))))"
proof -
  note H = honest_settingsD [OF assms(1)]
  obtain b w2 where q: "ue_UserSettings E w = (b, w2)" by fastforce
  obtain st l w3 where g: "ue_GetPresentationLanguage E (ue_Register E w2) = (st, l, w3)"
    by (metis prod_cases3)
  obtain ok u where cv: "ConvertToUserPrefsFormat l [] = (ok, u)" by fastforce
  obtain c2 w4 where s: "save_if_changed E u (up_AddRef c) w3 = (c2, w4)" by fastforce
  have mig: "up_isMigrationDone c" using assms(2) by (simp add: in_sync_def)
  have w3: "lang w3 = lang w" "file w3 = file w" "st = ERROR_NONE \<Longrightarrow> l = lang w"
    using H(1) [OF q] H(3) [of w2] H(5) [OF g] by auto
  have sync: "in_sync file (up_AddRef c, w3)" "in_sync file (c, w2)" "in_sync file (up_Release (up_AddRef c), w3)"
    using assms(2) w3 H(1) [OF q] by (auto simp: in_sync_def)
  show ?thesis
  proof (cases "b \<and> st = ERROR_NONE \<and> ok")
    case True
    then have "u \<noteq> []" "to_prefs (lang w) = Some u"
      using cv w3(3) to_prefs_nonempty by (auto simp: to_prefs_iff)
    moreover have "r = Some u" "c1 = up_Release c2" "w1 = w4"
      using assms(3) True mig q g cv s by (auto simp: getUILanguage_def Let_def)
    moreover note save_if_changed_sync [OF assms(1) sync(1) s \<open>u \<noteq> []\<close>]
    ultimately show ?thesis using w3 by (auto simp: in_sync_def split: if_splits)
  next
    case False
    then have "r = None" "(c1, w1) \<in> {(c, w2), (up_Release (up_AddRef c), w3)}"
      using assms(3) mig q g cv by (auto simp: getUILanguage_def Let_def split: if_splits)
    then show ?thesis using sync by auto
  qed
qed

lemma up_step_sync:
  assumes "honest_settings lang file E" and "in_sync file (c, w)" and "op' \<noteq> UpInitialize"
  shows "in_sync file (up_step E op' (c, w))"
proof (cases op')
  case UpDeinitialize
  then show ?thesis
    using assms(2) honest_settingsD [OF assms(1)]
    by (auto simp: UserPreferences_Deinitialize_def in_sync_def split: prod.split if_splits)
next
  case UpGet
  obtain r c1 w1 where "getUILanguage E c w = (r, c1, w1)" by (metis prod_cases3)
  then show ?thesis using UpGet getUILanguage_sync [OF assms(1,2)] by simp
next
  case (UpSet parameter)
  have mig: "up_isMigrationDone c" using assms(2) by (simp add: in_sync_def)
  have "in_sync file (snd (setUILanguage E parameter c w))"
    using assms(2) honest_settingsD [OF assms(1)] mig
    by (auto simp: setUILanguage_def in_sync_def Let_def split: prod.split if_splits option.split json_param.split)
  then show ?thesis using UpSet by simp
next
  case (UpChanged l)
  obtain ok u where cv: "ConvertToUserPrefsFormat l [] = (ok, u)" by fastforce
  obtain c1 w1 where s: "save_if_changed E u c w = (c1, w1)" by fastforce
  have "ok \<Longrightarrow> in_sync file (c1, w1)"
    using save_if_changed_sync [OF assms(1,2) s] to_prefs_nonempty cv by simp
  then show ?thesis
    using UpChanged assms(2) cv s by (simp add: OnPresentationLanguageChanged_def)
qed (use assms(3) in simp)

lemma up_run_sync:
  assumes "honest_settings lang file E"
  shows "in_sync file s \<Longrightarrow> UpInitialize \<notin> set ops \<Longrightarrow> in_sync file (up_run E ops s)"
proof (induction ops arbitrary: s)
  case (Cons op' ops)
  then have "in_sync file (up_step E op' s)"
    using up_step_sync [OF assms, of "fst s" "snd s" op'] by auto
  then show ?case using Cons by simp
qed simp

lemma PerformMigration_last: "up_lastUILanguage (fst (snd (PerformMigration E c w))) = up_lastUILanguage c"
  by (simp add: PerformMigration_def Let_def split: prod.split)

lemma Initialize_sync:
  "up_isMigrationDone (fst (snd (UserPreferences_Initialize E UserPreferences_ctor w))) \<Longrightarrow>
   in_sync file (snd (UserPreferences_Initialize E UserPreferences_ctor w))"
  using PerformMigration_last [of E "up_AddRef (UserPreferences_ctor\<lparr>up_service := True\<rparr>)"
      "snd (obtain_UserSettings E 5 w)"]
  by (auto simp: in_sync_def UserPreferences_Initialize_def UserPreferences_ctor_def Let_def split_def)

text \<open>
  C19. Once the plugin has been initialised and migrated, whatever calls and notifications follow and
  whichever saves fail, a UI language that \<open>getUILanguage\<close> returns is the presentation language of
  the service. It is in the file, unless the call had to save it and the save failed: then the file is
  as it was before the call, and the plugin does not take the language for saved, so the next call
  tries again.
\<close>

theorem ui_language_in_sync:
  assumes "honest_settings lang file E"
    and "UserPreferences_Initialize E UserPreferences_ctor w0 = (r, c, w)" and "up_isMigrationDone c"
    and "UpInitialize \<notin> set ops" and "up_run E ops (c, w) = (c1, w1)"
    and "getUILanguage E c1 w1 = (Some u, c2, w2)"
  shows "to_prefs (lang w2) = Some u \<and> file w2 = (if up_lastUILanguage c2 = u then Some u else file w1)
    \<and> (up_lastUILanguage c2 \<noteq> u \<longrightarrow> (\<exists>w'. \<not> fst (ue_save E u w')))"
proof -
  have "in_sync file (c, w)" using Initialize_sync [of E w0] assms(2,3) by simp
  then have "in_sync file (c1, w1)" using up_run_sync [OF assms(1) _ assms(4)] assms(5) by metis
  then show ?thesis using getUILanguage_sync [OF assms(1) _ assms(6)] by simp
qed

text \<open>A service that holds a language, with a file.\<close>

definition example_up_env :: "(string \<times> string option) up_env" where
  "example_up_env = \<lparr> ue_UserSettings = (\<lambda>w. (True, w)), ue_Inspector = (\<lambda>w. (True, w)),
     ue_GetMigrationState = (\<lambda>w. (ERROR_NONE, True, w)),
     ue_SetPresentationLanguage = (\<lambda>l w. (ERROR_NONE, (l, snd w))),
     ue_GetPresentationLanguage = (\<lambda>w. (ERROR_NONE, fst w, w)),
     ue_Register = (\<lambda>w. w), ue_Unregister = (\<lambda>w. w),
     ue_load = (\<lambda>w. (case snd w of None \<Rightarrow> NoEnt | Some v \<Rightarrow> Loaded (Some v), w)),
     ue_save = (\<lambda>s w. (True, (fst w, Some s))), ue_usleep = (\<lambda>n w. w) \<rparr>"

lemma example_up_honest: "honest_settings fst snd example_up_env"
  by (simp add: honest_settings_def example_up_env_def)

lemmas up_eval = example_up_env_def UserPreferences_Initialize_def UserPreferences_ctor_def
  PerformMigration_def migrate_required_def getUILanguage_def setUILanguage_def save_if_changed_def
  OnPresentationLanguageChanged_def ConvertToUserSettingsFormat_def ConvertToUserPrefsFormat_def
  LANGUAGE_CODE_SEPARATOR_POS_def LANGUAGE_CODE_LENGTH_def up_AddRef_def up_Release_def Let_def
  numeral_eq_Suc

theorem ui_language_in_sync_witness:
  "\<exists>c2 w2. getUILanguage example_up_env
       (fst (up_run example_up_env [UpSet (Some (JString ''GB_en'')), UpChanged ''en-GB'']
          (snd (UserPreferences_Initialize example_up_env UserPreferences_ctor (''es-ES'', Some ''US_en'')))))
       (snd (up_run example_up_env [UpSet (Some (JString ''GB_en'')), UpChanged ''en-GB'']
          (snd (UserPreferences_Initialize example_up_env UserPreferences_ctor (''es-ES'', Some ''US_en'')))))
     = (Some ''GB_en'', c2, w2) \<and> snd w2 = Some ''GB_en'' \<and> to_prefs (fst w2) = Some ''GB_en''"
proof -
  let ?i = "UserPreferences_Initialize example_up_env UserPreferences_ctor (''es-ES'', Some ''US_en'')"
  let ?ops = "[UpSet (Some (JString ''GB_en'')), UpChanged ''en-GB'']"
  obtain r c w where i: "?i = (r, c, w)" by (metis prod_cases3)
  have c: "up_isMigrationDone c \<and> c = \<lparr>up_service = True, up_isMigrationDone = True, up_lastUILanguage = [], up_refs = 0\<rparr>
      \<and> w = (''en-US'', Some ''US_en'')" using i by (auto simp: up_eval)
  obtain c1 w1 where run: "up_run example_up_env ?ops (c, w) = (c1, w1)" by (rule prod.exhaust)
  have "c1 = c\<lparr>up_lastUILanguage := ''GB_en''\<rparr> \<and> w1 = (''en-GB'', Some ''GB_en'')"
    using run c by (auto simp: up_eval)
  then obtain c2 w2 where g: "getUILanguage example_up_env c1 w1 = (Some ''GB_en'', c2, w2)"
    using c by (auto simp: up_eval)
  have "snd w2 = Some ''GB_en'' \<and> to_prefs (fst w2) = Some ''GB_en''"
    using ui_language_in_sync [OF example_up_honest i _ _ run g] c by (simp add: example_up_env_def split: if_splits)
  then show ?thesis using g run i by (intro exI [of _ c2] exI [of _ w2]) simp
qed

end
