(* ===== verification/FrameRate.thy ===== *)
theory FrameRate imports CLib begin

text \<open>
  The FrameRate plugin (\<open>FrameRate/FrameRateImplementation.cpp\<close> and \<open>.h\<close>): collection of frame rates
  with its reports, the display frame rate and mode through the device settings library, and the
  notification list, on which a sink may stand more than once. The library is a parameter; a call
  returns a code, 0 for success, or throws. The counters are integers; an operation that would
  overflow the \<open>int\<close> of the code is \<open>None\<close>. The timer is its interval while it is active; its
  expiry is the operation \<open>onReportFpsTimer\<close>. \<open>TpTimer\<close> restarts itself, so it stays active.
\<close>

section \<open>State\<close>

definition DEFAULT_FPS_COLLECTION_TIME_IN_MILLISECONDS :: int where
  "DEFAULT_FPS_COLLECTION_TIME_IN_MILLISECONDS = 10000"
definition MINIMUM_FPS_COLLECTION_TIME_IN_MILLISECONDS :: int where
  "MINIMUM_FPS_COLLECTION_TIME_IN_MILLISECONDS = 100"
definition DEFAULT_MIN_FPS_VALUE :: int where "DEFAULT_MIN_FPS_VALUE = 60"
definition DEFAULT_MAX_FPS_VALUE :: int where "DEFAULT_MAX_FPS_VALUE = - 1"

datatype fr_event =
    OnFpsEvent int int int
  | OnDisplayFrameRateChanging string
  | OnDisplayFrameRateChanged string

datatype fr_job = DISPLAY_FRAMRATE_PRECHANGE string | DISPLAY_FRAMRATE_POSTCHANGE string

record FrameRate =
  fr_notification :: "nat list"
  fr_refs :: "nat \<Rightarrow> int"
  fr_fpsCollectionFrequencyInMs :: int
  fr_minFpsValue :: int
  fr_maxFpsValue :: int
  fr_totalFpsValues :: int
  fr_numberOfFpsUpdates :: int
  fr_fpsCollectionInProgress :: bool
  fr_lastFpsValue :: int
  fr_reportFpsTimer :: "int option"
  fr_jobs :: "fr_job list"

definition FrameRateImplementation_ctor :: FrameRate where
  "FrameRateImplementation_ctor = \<lparr>
     fr_notification = [], fr_refs = (\<lambda>_. 0),
     fr_fpsCollectionFrequencyInMs = DEFAULT_FPS_COLLECTION_TIME_IN_MILLISECONDS,
     fr_minFpsValue = DEFAULT_MIN_FPS_VALUE, fr_maxFpsValue = DEFAULT_MAX_FPS_VALUE,
     fr_totalFpsValues = 0, fr_numberOfFpsUpdates = 0, fr_fpsCollectionInProgress = False,
     fr_lastFpsValue = 0, fr_reportFpsTimer = None, fr_jobs = [] \<rparr>"

section \<open>Notifications\<close>

text \<open>What the sinks of the list are sent, in order.\<close>

definition fr_dispatch :: "fr_event \<Rightarrow> FrameRate \<Rightarrow> (nat \<times> fr_event) list" where
  "fr_dispatch event c = map (\<lambda>index. (index, event)) (fr_notification c)"

definition DispatchDSMGRDisplayFramerateChangeEvent :: "fr_job \<Rightarrow> FrameRate \<Rightarrow> (nat \<times> fr_event) list" where
  "DispatchDSMGRDisplayFramerateChangeEvent job c =
     (case job of
        DISPLAY_FRAMRATE_PRECHANGE params \<Rightarrow> fr_dispatch (OnDisplayFrameRateChanging params) c
      | DISPLAY_FRAMRATE_POSTCHANGE params \<Rightarrow> fr_dispatch (OnDisplayFrameRateChanged params) c)"

definition FrameRate_Register :: "nat \<Rightarrow> FrameRate \<Rightarrow> hresult \<times> FrameRate" where
  "FrameRate_Register notification c =
     (let status = (if notification \<in> set (fr_notification c) then ERROR_ALREADY_CONNECTED else ERROR_NONE)
      in (status, c\<lparr>fr_notification := fr_notification c @ [notification],
                    fr_refs := (fr_refs c)(notification := fr_refs c notification + 1)\<rparr>))"

definition FrameRate_Unregister :: "nat \<Rightarrow> FrameRate \<Rightarrow> hresult \<times> FrameRate" where
  "FrameRate_Unregister notification c =
     (if notification \<in> set (fr_notification c)
      then (ERROR_NONE, c\<lparr>fr_notification := remove1 notification (fr_notification c),
                          fr_refs := (fr_refs c)(notification := fr_refs c notification - 1)\<rparr>)
      else (ERROR_GENERAL, c))"

section \<open>The display\<close>

text \<open>
  The device settings library: the video devices (\<open>None\<close> when it throws), and operations on the
  first one. \<open>getCurrentDisframerate\<close> fills a buffer with a string.
\<close>

datatype 'a ds_call = Returns 'a | Throws

record 'w fr_device =
  fd_videoDevices :: "'w \<Rightarrow> nat ds_call"
  fd_getCurrentDisframerate :: "'w \<Rightarrow> (int \<times> string) ds_call"
  fd_getFRFMode :: "int \<Rightarrow> 'w \<Rightarrow> (int \<times> int) ds_call"
  fd_setDisplayframerate :: "string \<Rightarrow> 'w \<Rightarrow> int ds_call \<times> 'w"
  fd_setFRFMode :: "int \<Rightarrow> 'w \<Rightarrow> int ds_call \<times> 'w"

definition GetDisplayFrameRate :: "'w fr_device \<Rightarrow> string \<Rightarrow> 'w \<Rightarrow> hresult \<times> string \<times> bool" where
  "GetDisplayFrameRate D framerate w =
     (case fd_videoDevices D w of
        Throws \<Rightarrow> (ERROR_GENERAL, framerate, False)
      | Returns n \<Rightarrow>
          if n = 0 then (ERROR_NOT_SUPPORTED, framerate, False)
          else (case fd_getCurrentDisframerate D w of
                  Throws \<Rightarrow> (ERROR_GENERAL, framerate, False)
                | Returns (e, s) \<Rightarrow>
                    if e = 0 \<and> s \<noteq> [] then (ERROR_NONE, s, True) else (ERROR_GENERAL, framerate, False)))"

definition GetFrmMode :: "'w fr_device \<Rightarrow> int \<Rightarrow> 'w \<Rightarrow> hresult \<times> int \<times> bool" where
  "GetFrmMode D autoFRMMode w =
     (case fd_videoDevices D w of
        Throws \<Rightarrow> (ERROR_GENERAL, autoFRMMode, False)
      | Returns n \<Rightarrow>
          if n = 0 then (ERROR_NOT_SUPPORTED, autoFRMMode, False)
          else (case fd_getFRFMode D autoFRMMode w of
                  Throws \<Rightarrow> (ERROR_GENERAL, autoFRMMode, False)
                | Returns (e, mode) \<Rightarrow>
                    if e = 0 then (ERROR_NONE, mode, True) else (ERROR_GENERAL, mode, False)))"

text \<open>The common shape of the two setters, after their arguments have been checked.\<close>

definition on_first_device ::
  "'w fr_device \<Rightarrow> ('w \<Rightarrow> int ds_call \<times> 'w) \<Rightarrow> 'w \<Rightarrow> hresult \<times> bool \<times> 'w" where
  "on_first_device D call w =
     (case fd_videoDevices D w of
        Throws \<Rightarrow> (ERROR_GENERAL, False, w)
      | Returns n \<Rightarrow>
          if n = 0 then (ERROR_NOT_SUPPORTED, False, w)
          else (let (r, w1) = call w
                in if r = Returns 0 then (ERROR_NONE, True, w1) else (ERROR_GENERAL, False, w1)))"

definition valid_framerate :: "string \<Rightarrow> bool" where
  "valid_framerate framerate =
     (\<not> (count_list framerate CHR ''x'' \<noteq> 2 \<or> \<not> c_isdigit (hd framerate) \<or> \<not> c_isdigit (last framerate)))"

definition SetDisplayFrameRate :: "'w fr_device \<Rightarrow> string \<Rightarrow> 'w \<Rightarrow> hresult \<times> bool \<times> 'w" where
  "SetDisplayFrameRate D framerate w =
     (if \<not> valid_framerate framerate then (ERROR_INVALID_PARAMETER, False, w)
      else on_first_device D (fd_setDisplayframerate D framerate) w)"

definition SetFrmMode :: "'w fr_device \<Rightarrow> int \<Rightarrow> 'w \<Rightarrow> hresult \<times> bool \<times> 'w" where
  "SetFrmMode D frmmode w =
     (if frmmode \<noteq> 0 \<and> frmmode \<noteq> 1 then (ERROR_INVALID_PARAMETER, False, w)
      else on_first_device D (fd_setFRFMode D frmmode) w)"

section \<open>Collection\<close>

definition SetCollectionFrequency :: "int \<Rightarrow> FrameRate \<Rightarrow> hresult \<times> bool \<times> FrameRate" where
  "SetCollectionFrequency frequency c =
     (if frequency < MINIMUM_FPS_COLLECTION_TIME_IN_MILLISECONDS
      then (ERROR_INVALID_PARAMETER, False, c)
      else (ERROR_NONE, True, c\<lparr>fr_fpsCollectionFrequencyInMs := frequency\<rparr>))"

definition StartFpsCollection :: "FrameRate \<Rightarrow> hresult \<times> bool \<times> FrameRate" where
  "StartFpsCollection c =
     (let c1 = c\<lparr>fr_reportFpsTimer := None, fr_minFpsValue := DEFAULT_MIN_FPS_VALUE,
                 fr_maxFpsValue := DEFAULT_MAX_FPS_VALUE, fr_totalFpsValues := 0,
                 fr_numberOfFpsUpdates := 0, fr_fpsCollectionInProgress := True\<rparr>;
          fpsCollectionFrequency =
            (if fr_fpsCollectionFrequencyInMs c1 < MINIMUM_FPS_COLLECTION_TIME_IN_MILLISECONDS
             then MINIMUM_FPS_COLLECTION_TIME_IN_MILLISECONDS else fr_fpsCollectionFrequencyInMs c1)
      in (ERROR_NONE, True, c1\<lparr>fr_lastFpsValue := - 1, fr_reportFpsTimer := Some fpsCollectionFrequency\<rparr>))"

definition StopFpsCollection :: "FrameRate \<Rightarrow> hresult \<times> bool \<times> FrameRate \<times> (nat \<times> fr_event) list" where
  "StopFpsCollection c =
     (let c1 = c\<lparr>fr_reportFpsTimer := None\<rparr> in
      if fr_fpsCollectionInProgress c1 then
        (let c2 = c1\<lparr>fr_fpsCollectionInProgress := False\<rparr>
         in if fr_numberOfFpsUpdates c2 > 0
            then (ERROR_NONE, True, c2, fr_dispatch (OnFpsEvent
                    (tdiv (fr_totalFpsValues c2) (fr_numberOfFpsUpdates c2))
                    (fr_minFpsValue c2) (fr_maxFpsValue c2)) c2)
            else (ERROR_NONE, True, c2, []))
      else (ERROR_NONE, True, c1, []))"

definition UpdateFps :: "int \<Rightarrow> FrameRate \<Rightarrow> (hresult \<times> bool \<times> FrameRate) option" where
  "UpdateFps newFpsValue c =
     (if newFpsValue < 0 then Some (ERROR_INVALID_PARAMETER, False, c)
      else if \<not> c_int (fr_totalFpsValues c + newFpsValue) \<or> \<not> c_int (fr_numberOfFpsUpdates c + 1)
      then None
      else Some (ERROR_NONE, True,
        c\<lparr>fr_maxFpsValue := max (fr_maxFpsValue c) newFpsValue,
          fr_minFpsValue := min (fr_minFpsValue c) newFpsValue,
          fr_totalFpsValues := fr_totalFpsValues c + newFpsValue,
          fr_numberOfFpsUpdates := fr_numberOfFpsUpdates c + 1,
          fr_lastFpsValue := newFpsValue\<rparr>))"

definition onReportFpsTimer :: "FrameRate \<Rightarrow> FrameRate \<times> (nat \<times> fr_event) list" where
  "onReportFpsTimer c =
     (let averageFps = (if fr_numberOfFpsUpdates c > 0
                        then tdiv (fr_totalFpsValues c) (fr_numberOfFpsUpdates c) else - 1);
          minFps = (if fr_numberOfFpsUpdates c > 0 then fr_minFpsValue c else DEFAULT_MIN_FPS_VALUE);
          maxFps = (if fr_numberOfFpsUpdates c > 0 then fr_maxFpsValue c else DEFAULT_MAX_FPS_VALUE);
          events = fr_dispatch (OnFpsEvent averageFps minFps maxFps) c
      in if fr_lastFpsValue c \<ge> 0
         then (c\<lparr>fr_minFpsValue := fr_lastFpsValue c, fr_maxFpsValue := fr_lastFpsValue c,
                 fr_totalFpsValues := fr_lastFpsValue c, fr_numberOfFpsUpdates := 1\<rparr>, events)
         else (c\<lparr>fr_minFpsValue := DEFAULT_MIN_FPS_VALUE, fr_maxFpsValue := DEFAULT_MAX_FPS_VALUE,
                 fr_totalFpsValues := 0, fr_numberOfFpsUpdates := 0\<rparr>, events))"

definition OnDisplayFrameratePreChange :: "string \<Rightarrow> FrameRate \<Rightarrow> FrameRate" where
  "OnDisplayFrameratePreChange frameRate c =
     c\<lparr>fr_jobs := fr_jobs c @ [DISPLAY_FRAMRATE_PRECHANGE frameRate]\<rparr>"

definition OnDisplayFrameratePostChange :: "string \<Rightarrow> FrameRate \<Rightarrow> FrameRate" where
  "OnDisplayFrameratePostChange frameRate c =
     c\<lparr>fr_jobs := fr_jobs c @ [DISPLAY_FRAMRATE_POSTCHANGE frameRate]\<rparr>"

text \<open>The worker pool runs the next job.\<close>

definition FrameRate_run_job :: "FrameRate \<Rightarrow> FrameRate \<times> (nat \<times> fr_event) list" where
  "FrameRate_run_job c =
     (case fr_jobs c of
        [] \<Rightarrow> (c, [])
      | job # jobs \<Rightarrow> (c\<lparr>fr_jobs := jobs\<rparr>, DispatchDSMGRDisplayFramerateChangeEvent job c))"

section \<open>Runs\<close>

datatype fr_op =
    FrRegister nat | FrUnregister nat | FrFrequency int | FrStart | FrStop | FrUpdate int | FrTimer
  | FrPreChange string | FrPostChange string | FrJob

fun fr_step :: "fr_op \<Rightarrow> FrameRate \<Rightarrow> (FrameRate \<times> (nat \<times> fr_event) list) option" where
  "fr_step (FrRegister n) c = Some (snd (FrameRate_Register n c), [])"
| "fr_step (FrUnregister n) c = Some (snd (FrameRate_Unregister n c), [])"
| "fr_step (FrFrequency f) c = Some (snd (snd (SetCollectionFrequency f c)), [])"
| "fr_step FrStart c = Some (snd (snd (StartFpsCollection c)), [])"
| "fr_step FrStop c = Some (snd (snd (StopFpsCollection c)))"
| "fr_step (FrUpdate v) c = map_option (\<lambda>(e, s, c1). (c1, [])) (UpdateFps v c)"
| "fr_step FrTimer c = Some (onReportFpsTimer c)"
| "fr_step (FrPreChange s) c = Some (OnDisplayFrameratePreChange s c, [])"
| "fr_step (FrPostChange s) c = Some (OnDisplayFrameratePostChange s c, [])"
| "fr_step FrJob c = Some (FrameRate_run_job c)"

fun fr_run :: "fr_op list \<Rightarrow> FrameRate \<Rightarrow> FrameRate option" where
  "fr_run [] c = Some c"
| "fr_run (op' # ops) c = (case fr_step op' c of None \<Rightarrow> None | Some (c1, _) \<Rightarrow> fr_run ops c1)"

lemmas fr_model = FrameRate_Register_def FrameRate_Unregister_def SetCollectionFrequency_def
  StartFpsCollection_def StopFpsCollection_def UpdateFps_def onReportFpsTimer_def
  OnDisplayFrameratePreChange_def OnDisplayFrameratePostChange_def FrameRate_run_job_def
  DispatchDSMGRDisplayFramerateChangeEvent_def fr_dispatch_def

section \<open>What the counters mean\<close>

text \<open>The counters enclose the average.\<close>

definition counters_ok :: "FrameRate \<Rightarrow> bool" where
  "counters_ok c \<longleftrightarrow>
     (if fr_numberOfFpsUpdates c = 0
      then fr_minFpsValue c = 60 \<and> fr_maxFpsValue c = - 1 \<and> fr_totalFpsValues c = 0
      else 0 < fr_numberOfFpsUpdates c \<and> 0 \<le> fr_minFpsValue c
        \<and> fr_minFpsValue c * fr_numberOfFpsUpdates c \<le> fr_totalFpsValues c
        \<and> fr_totalFpsValues c \<le> fr_maxFpsValue c * fr_numberOfFpsUpdates c)"

definition fr_ok :: "FrameRate \<Rightarrow> bool" where
  "fr_ok c \<longleftrightarrow> counters_ok c
     \<and> (\<forall>n. fr_refs c n = int (count_list (fr_notification c) n))
     \<and> (case fr_reportFpsTimer c of None \<Rightarrow> True | Some ms \<Rightarrow> 100 \<le> ms)"

lemma count_remove1:
  "int (count_list (remove1 x xs) n) = int (count_list xs n) - (if n = x \<and> x \<in> set xs then 1 else 0)"
  by (induction xs) auto

lemma counters_update:
  assumes "counters_ok c" and "0 \<le> v"
  shows "counters_ok (c\<lparr>fr_maxFpsValue := max (fr_maxFpsValue c) v,
    fr_minFpsValue := min (fr_minFpsValue c) v, fr_totalFpsValues := fr_totalFpsValues c + v,
    fr_numberOfFpsUpdates := fr_numberOfFpsUpdates c + 1, fr_lastFpsValue := v\<rparr>)"
proof (cases "fr_numberOfFpsUpdates c = 0")
  case True
  then show ?thesis using assms by (simp add: counters_ok_def)
next
  case False
  let ?n = "fr_numberOfFpsUpdates c"
  have n: "0 < ?n" "0 \<le> fr_minFpsValue c" "fr_minFpsValue c * ?n \<le> fr_totalFpsValues c"
    "fr_totalFpsValues c \<le> fr_maxFpsValue c * ?n"
    using assms(1) False by (auto simp: counters_ok_def)
  have "min (fr_minFpsValue c) v * ?n \<le> fr_minFpsValue c * ?n"
    "fr_maxFpsValue c * ?n \<le> max (fr_maxFpsValue c) v * ?n"
    using n(1) by (simp_all add: mult_right_mono)
  then have "min (fr_minFpsValue c) v * ?n + min (fr_minFpsValue c) v \<le> fr_totalFpsValues c + v"
    "fr_totalFpsValues c + v \<le> max (fr_maxFpsValue c) v * ?n + max (fr_maxFpsValue c) v"
    using n by (auto intro!: add_mono order_trans [OF _ n(3)] order_trans [OF n(4)])
  then show ?thesis using n assms(2) by (auto simp: counters_ok_def distrib_left)
qed

lemma counters_ok_upd [simp]:
  "counters_ok (c\<lparr>fr_notification := ns\<rparr>) = counters_ok c"
  "counters_ok (c\<lparr>fr_refs := rs\<rparr>) = counters_ok c"
  "counters_ok (c\<lparr>fr_fpsCollectionFrequencyInMs := f\<rparr>) = counters_ok c"
  "counters_ok (c\<lparr>fr_fpsCollectionInProgress := b\<rparr>) = counters_ok c"
  "counters_ok (c\<lparr>fr_lastFpsValue := l\<rparr>) = counters_ok c"
  "counters_ok (c\<lparr>fr_reportFpsTimer := tm\<rparr>) = counters_ok c"
  "counters_ok (c\<lparr>fr_jobs := js\<rparr>) = counters_ok c"
  by (simp_all add: counters_ok_def)

lemma counters_start:
  "counters_ok (c\<lparr>fr_minFpsValue := 60, fr_maxFpsValue := - 1, fr_totalFpsValues := 0,
     fr_numberOfFpsUpdates := 0\<rparr>)"
  "0 \<le> l \<Longrightarrow> counters_ok (c\<lparr>fr_minFpsValue := l, fr_maxFpsValue := l, fr_totalFpsValues := l,
     fr_numberOfFpsUpdates := 1\<rparr>)"
  by (simp_all add: counters_ok_def)

lemma fr_step_ok:
  assumes "fr_ok c" and "fr_step op' c = Some (c1, evs)"
  shows "fr_ok c1"
proof -
  have start: "counters_ok (snd (snd (StartFpsCollection c)))"
    by (simp add: StartFpsCollection_def Let_def DEFAULT_MIN_FPS_VALUE_def DEFAULT_MAX_FPS_VALUE_def
        counters_ok_def)
  have timer: "counters_ok (fst (onReportFpsTimer c))"
    by (simp add: onReportFpsTimer_def Let_def DEFAULT_MIN_FPS_VALUE_def DEFAULT_MAX_FPS_VALUE_def
        counters_start)
  show ?thesis
    using assms start timer counters_update [of c]
    by (cases op')
      (auto simp: fr_ok_def FrameRate_Register_def FrameRate_Unregister_def SetCollectionFrequency_def
        StartFpsCollection_def StopFpsCollection_def UpdateFps_def onReportFpsTimer_def
        OnDisplayFrameratePreChange_def OnDisplayFrameratePostChange_def FrameRate_run_job_def
        MINIMUM_FPS_COLLECTION_TIME_IN_MILLISECONDS_def count_remove1 Let_def
        simp del: count_list_remove1 split: if_splits list.splits)
qed

lemma fr_run_ok: "fr_ok c \<Longrightarrow> fr_run ops c = Some c1 \<Longrightarrow> fr_ok c1"
proof (induction ops arbitrary: c)
  case (Cons op' ops)
  then show ?case using fr_step_ok [of c op'] by (auto split: option.splits)
qed simp

lemma fr_ok_ctor: "fr_ok FrameRateImplementation_ctor"
  by (simp add: fr_ok_def counters_ok_def FrameRateImplementation_ctor_def DEFAULT_MIN_FPS_VALUE_def
      DEFAULT_MAX_FPS_VALUE_def)

definition report_ok :: "fr_event \<Rightarrow> bool" where
  "report_ok e = (case e of
      OnFpsEvent average mn mx \<Rightarrow>
        (average, mn, mx) = (- 1, 60, - 1) \<or> (0 \<le> mn \<and> mn \<le> average \<and> average \<le> mx)
    | _ \<Rightarrow> True)"

lemma counters_report:
  assumes "counters_ok c" and "0 < fr_numberOfFpsUpdates c"
  shows "report_ok (OnFpsEvent (tdiv (fr_totalFpsValues c) (fr_numberOfFpsUpdates c))
    (fr_minFpsValue c) (fr_maxFpsValue c))"
  using assms tdiv_bounds [of "fr_minFpsValue c" "fr_numberOfFpsUpdates c" "fr_totalFpsValues c"
      "fr_maxFpsValue c"]
  by (auto simp: counters_ok_def report_ok_def)

lemma fr_step_reports:
  assumes "fr_ok c" and "fr_step op' c = Some (c1, evs)" and "(n, e) \<in> set evs"
  shows "report_ok e"
proof -
  have ok: "counters_ok c" using assms(1) by (simp add: fr_ok_def)
  show ?thesis
  proof (cases op')
    case FrStop
    then show ?thesis
      using assms(2,3) counters_report [of "c\<lparr>fr_reportFpsTimer := None, fr_fpsCollectionInProgress := False\<rparr>"] ok
      by (auto simp: StopFpsCollection_def fr_dispatch_def Let_def counters_ok_def split: if_splits)
  next
    case FrTimer
    have "\<not> 0 < fr_numberOfFpsUpdates c \<Longrightarrow> fr_numberOfFpsUpdates c = 0"
      using ok by (auto simp: counters_ok_def split: if_splits)
    then show ?thesis
      using FrTimer assms(2,3) counters_report [OF ok]
      by (auto simp: onReportFpsTimer_def fr_dispatch_def Let_def report_ok_def DEFAULT_MIN_FPS_VALUE_def
          DEFAULT_MAX_FPS_VALUE_def split: if_splits)
  next
    case FrJob
    then show ?thesis
      using assms(2,3) by (auto simp: FrameRate_run_job_def DispatchDSMGRDisplayFramerateChangeEvent_def
          fr_dispatch_def report_ok_def split: list.splits fr_job.splits)
  qed (use assms(2,3) in \<open>auto split: option.splits\<close>)
qed

section \<open>Windows of updates\<close>

lemma fr_run_append: "fr_run (xs @ ys) c = Option.bind (fr_run xs c) (fr_run ys)"
  by (induction xs arbitrary: c) (auto split: option.splits)

text \<open>The counters after a series of updates.\<close>

lemma updates_fold:
  assumes "\<forall>v \<in> set vs. 0 \<le> v" and "vs \<noteq> []" and "fr_run (map FrUpdate vs) c = Some c1"
  shows "fr_totalFpsValues c1 = fr_totalFpsValues c + sum_list vs
    \<and> fr_numberOfFpsUpdates c1 = fr_numberOfFpsUpdates c + int (length vs)
    \<and> fr_minFpsValue c1 = Min (insert (fr_minFpsValue c) (set vs))
    \<and> fr_maxFpsValue c1 = Max (insert (fr_maxFpsValue c) (set vs))
    \<and> fr_lastFpsValue c1 = last vs \<and> fr_notification c1 = fr_notification c
    \<and> fr_fpsCollectionInProgress c1 = fr_fpsCollectionInProgress c"
  using assms
proof (induction vs arbitrary: c)
  case (Cons v vs)
  let ?c = "c\<lparr>fr_maxFpsValue := max (fr_maxFpsValue c) v, fr_minFpsValue := min (fr_minFpsValue c) v,
    fr_totalFpsValues := fr_totalFpsValues c + v,
    fr_numberOfFpsUpdates := fr_numberOfFpsUpdates c + 1, fr_lastFpsValue := v\<rparr>"
  have run: "fr_run (map FrUpdate vs) ?c = Some c1"
    using Cons.prems by (auto simp: UpdateFps_def split: if_splits)
  show ?case
  proof (cases "vs = []")
    case True
    then show ?thesis using run by (auto simp: min.commute max.commute)
  next
    case False
    then have "Min (insert (min (fr_minFpsValue c) v) (set vs)) = Min (insert (fr_minFpsValue c) (insert v (set vs)))"
      "Max (insert (max (fr_maxFpsValue c) v) (set vs)) = Max (insert (fr_maxFpsValue c) (insert v (set vs)))"
      by (simp_all add: min.assoc max.assoc)
    then show ?thesis using Cons.IH [OF _ False run] Cons.prems(1) False by simp
  qed
qed simp

definition fps_report :: "int list \<Rightarrow> int \<Rightarrow> FrameRate \<Rightarrow> (nat \<times> fr_event) list" where
  "fps_report vs mn c =
     fr_dispatch (OnFpsEvent (sum_list vs div int (length vs)) mn (Max (set vs))) c"

text \<open>
  Reports of a collection: after \<open>StartFpsCollection\<close> and the updates \<open>vs\<close>, a report, by the
  timer or by \<open>StopFpsCollection\<close>, carries their average and maximum, but never a minimum above 60;
  after a report by the timer, the next one covers the last rate of \<open>vs\<close> and the updates since,
  with their true minimum.
\<close>

theorem collection_reports:
  assumes "vs \<noteq> []" and "list_all (\<lambda>v. 0 \<le> v) (vs @ ws)"
    and "fr_run (FrStart # map FrUpdate vs) c = Some c1"
    and "fr_run (map FrUpdate ws) (fst (onReportFpsTimer c1)) = Some c2"
  shows "snd (onReportFpsTimer c1) = fps_report vs (Min (insert 60 (set vs))) c
    \<and> snd (snd (snd (StopFpsCollection c1))) = fps_report vs (Min (insert 60 (set vs))) c
    \<and> snd (onReportFpsTimer c2) = fps_report (last vs # ws) (Min (set (last vs # ws))) c
    \<and> snd (snd (snd (StopFpsCollection c2))) = fps_report (last vs # ws) (Min (set (last vs # ws))) c"
proof -
  let ?s = "snd (snd (StartFpsCollection c))"
  have s: "fr_totalFpsValues ?s = 0" "fr_numberOfFpsUpdates ?s = 0" "fr_minFpsValue ?s = 60"
    "fr_maxFpsValue ?s = - 1" "fr_notification ?s = fr_notification c" "fr_fpsCollectionInProgress ?s"
    by (simp_all add: StartFpsCollection_def Let_def DEFAULT_MIN_FPS_VALUE_def DEFAULT_MAX_FPS_VALUE_def)
  have pos: "\<forall>v \<in> set vs. 0 \<le> v" "\<forall>v \<in> set ws. 0 \<le> v" "0 \<le> last vs"
    using assms(1,2) by (auto simp: list_all_iff)
  then have sum: "0 \<le> sum_list vs" "0 \<le> last vs + sum_list ws" by (simp_all add: sum_list_nonneg)
  have "fr_run (map FrUpdate vs) ?s = Some c1" using assms(3) by simp
  note c1 = updates_fold [OF pos(1) assms(1) this, unfolded s]
  have "0 \<le> Max (set vs)" using pos(1) assms(1) Max_in [of "set vs"] by simp
  then have "Max (insert (- 1) (set vs)) = Max (set vs)" using assms(1) by simp
  then have max: "fr_maxFpsValue c1 = Max (set vs)" using c1 by simp
  let ?t = "fst (onReportFpsTimer c1)"
  have t: "fr_totalFpsValues ?t = last vs" "fr_numberOfFpsUpdates ?t = 1" "fr_minFpsValue ?t = last vs"
    "fr_maxFpsValue ?t = last vs" "fr_notification ?t = fr_notification c" "fr_fpsCollectionInProgress ?t"
    using c1 pos(3) s by (simp_all add: onReportFpsTimer_def Let_def)
  have c2: "fr_totalFpsValues c2 = last vs + sum_list ws" "fr_numberOfFpsUpdates c2 = 1 + int (length ws)"
    "fr_minFpsValue c2 = Min (set (last vs # ws))" "fr_maxFpsValue c2 = Max (set (last vs # ws))"
    "fr_notification c2 = fr_notification c" "fr_fpsCollectionInProgress c2"
    using updates_fold [OF pos(2) _ assms(4), unfolded t] assms(4) t by (cases "ws = []"; simp)+
  show ?thesis
    using c1 c2 max sum s(6) assms(1)
    by (simp add: onReportFpsTimer_def StopFpsCollection_def fps_report_def fr_dispatch_def Let_def)
qed

text \<open>
  In every reachable state a report says either that there were no updates, or its average is
  between its minimum and its maximum; the collection timer is never set below 100 ms; and the
  plugin holds as many references on a sink as the sink stands on the list.
\<close>

theorem reports_consistent:
  assumes "fr_run ops FrameRateImplementation_ctor = Some c" and "fr_step op' c = Some (c1, evs)"
  shows "list_all (\<lambda>(n, e). report_ok e) evs
    \<and> (case fr_reportFpsTimer c1 of None \<Rightarrow> True | Some ms \<Rightarrow> 100 \<le> ms)
    \<and> fr_refs c1 n = int (count_list (fr_notification c1) n)"
proof -
  have ok: "fr_ok c" using fr_run_ok [OF fr_ok_ctor assms(1)] .
  then show ?thesis
    using fr_step_reports [OF ok assms(2)] fr_step_ok [OF ok assms(2)]
    by (auto simp: list_all_iff fr_ok_def)
qed

text \<open>A sink that hears of 100 and 120 frames per second, then of 90.\<close>

definition example_fr :: FrameRate where
  "example_fr = snd (FrameRate_Register 7 FrameRateImplementation_ctor)"

theorem collection_reports_witness:
  "\<exists>c1 c2. fr_run (FrStart # map FrUpdate [100, 120]) example_fr = Some c1
     \<and> fr_run (map FrUpdate [90]) (fst (onReportFpsTimer c1)) = Some c2
     \<and> snd (onReportFpsTimer c1) = [(7, OnFpsEvent 110 60 120)]
     \<and> snd (onReportFpsTimer c2) = [(7, OnFpsEvent 105 90 120)]"
proof -
  obtain c1 where c1: "fr_run (FrStart # map FrUpdate [100, 120]) example_fr = Some c1"
    by (simp add: UpdateFps_def StartFpsCollection_def Let_def c_int_def)
  obtain c2 where c2: "fr_run (map FrUpdate [90]) (fst (onReportFpsTimer c1)) = Some c2"
    using c1 by (auto simp: UpdateFps_def StartFpsCollection_def onReportFpsTimer_def Let_def c_int_def)
  have n: "fr_notification example_fr = [7]"
    by (simp add: example_fr_def FrameRate_Register_def FrameRateImplementation_ctor_def)
  show ?thesis
    using c1 c2 collection_reports [OF _ _ c1 c2] n
    by (intro exI [of _ c1] exI [of _ c2]) (simp add: fps_report_def fr_dispatch_def)
qed

theorem reports_consistent_witness:
  "\<exists>c evs. fr_run [FrRegister 7, FrRegister 7, FrStart, FrUpdate 50] FrameRateImplementation_ctor = Some c
     \<and> evs = snd (onReportFpsTimer c) \<and> evs \<noteq> [] \<and> list_all (\<lambda>(n, e). report_ok e) evs
     \<and> fr_refs (fst (onReportFpsTimer c)) 7 = 2"
proof -
  obtain c where c: "fr_run [FrRegister 7, FrRegister 7, FrStart, FrUpdate 50] FrameRateImplementation_ctor = Some c"
    and l: "fr_notification c = [7, 7]"
    by (simp add: UpdateFps_def StartFpsCollection_def FrameRate_Register_def
        FrameRateImplementation_ctor_def Let_def c_int_def)
  have t: "fr_step FrTimer c = Some (fst (onReportFpsTimer c), snd (onReportFpsTimer c))" by simp
  have "fr_notification (fst (onReportFpsTimer c)) = [7, 7]" "snd (onReportFpsTimer c) \<noteq> []"
    using l by (simp_all add: onReportFpsTimer_def fr_dispatch_def Let_def)
  then show ?thesis
    using reports_consistent [OF c t, of 7] c by (intro exI [of _ c]) simp
qed

end
