(* ===== verification/StringUtils.thy ===== *)
theory StringUtils imports CLib begin

text \<open>
  The string helpers of \<open>helpers/UtilsString.h\<close> (namespace \<open>Utils::String\<close>): comparison and search
  that ignore case, trimming, splitting, replacing, the base64 encoder \<open>imageEncoder\<close>, and the
  property file of the system mode (\<open>updateSystemModeFile\<close>, \<open>getSystemModePropertyValue\<close>).
  Strings that a function changes through a reference are returned; those it appends to are
  arguments. The lemmas relate the encoder to a decoder, splitting to joining, and reading a
  property to writing it.
\<close>

section \<open>Comparison, trimming, splitting\<close>

fun prefix_ci :: "string \<Rightarrow> string \<Rightarrow> bool" where
  "prefix_ci [] s = True"
| "prefix_ci (x # xs) [] = False"
| "prefix_ci (x # xs) (y # ys) = (c_toupper y = c_toupper x \<and> prefix_ci xs ys)"

text \<open>\<open>std::search\<close>: the offset of the first occurrence, the end (the length) if there is none.\<close>

fun search_ci :: "string \<Rightarrow> string \<Rightarrow> nat" where
  "search_ci [] t = 0"
| "search_ci (x # xs) t = (if prefix_ci t (x # xs) then 0 else Suc (search_ci xs t))"

definition find_substr_ci :: "string \<Rightarrow> string \<Rightarrow> int" where
  "find_substr_ci s t = (let it = search_ci s t in if it \<noteq> length s then int it else -1)"

definition contains :: "string \<Rightarrow> string \<Rightarrow> bool" where
  "contains s t = (find_substr_ci s t \<noteq> -1)"

definition equal_ci :: "string \<Rightarrow> string \<Rightarrow> bool" where
  "equal_ci s t = (find_substr_ci s t = 0 \<and> length s = length t)"

definition ltrim :: "string \<Rightarrow> string" where
  "ltrim s = dropWhile c_isspace s"

definition rtrim :: "string \<Rightarrow> string" where
  "rtrim s = rev (dropWhile c_isspace (rev s))"

definition trim :: "string \<Rightarrow> string" where
  "trim s = rtrim (ltrim s)"

definition toUpper :: "string \<Rightarrow> string" where
  "toUpper s = map c_toupper s"

definition toLower :: "string \<Rightarrow> string" where
  "toLower s = map c_tolower s"

definition stringContains :: "string \<Rightarrow> string \<Rightarrow> bool" where
  "stringContains s1 s2 = (search_ci s1 s2 \<noteq> length s1)"

lemma prefix_ci_iff: "prefix_ci t s \<longleftrightarrow> length t \<le> length s \<and> map c_toupper (take (length t) s) = map c_toupper t"
  by (induction t s rule: prefix_ci.induct) auto

lemma search_ci_le: "search_ci s t \<le> length s"
  by (induction s) auto

lemma contains_eq: "contains s t = stringContains s t"
  using search_ci_le [of s t] by (simp add: contains_def stringContains_def find_substr_ci_def Let_def)

lemma equal_ci_iff: "equal_ci s t \<longleftrightarrow> s \<noteq> [] \<and> map c_toupper s = map c_toupper t"
proof (cases s)
  case Nil
  then show ?thesis by (simp add: equal_ci_def find_substr_ci_def)
next
  case (Cons x xs)
  have "find_substr_ci s t = 0 \<longleftrightarrow> prefix_ci t s"
    using Cons by (auto simp: find_substr_ci_def Let_def)
  moreover have "length s = length t \<Longrightarrow> prefix_ci t s \<longleftrightarrow> map c_toupper s = map c_toupper t"
    by (simp add: prefix_ci_iff)
  moreover have "map c_toupper s = map c_toupper t \<Longrightarrow> length s = length t"
    by (metis length_map)
  ultimately show ?thesis using Cons unfolding equal_ci_def by blast
qed

lemma length_dropWhile_less: "dropWhile P s = c # cs \<Longrightarrow> length cs < length s"
  by (metis Suc_le_lessD length_Cons length_dropWhile_le)

function split :: "string list \<Rightarrow> string \<Rightarrow> string \<Rightarrow> string list" where
  "split stringList s delimiters =
     (case dropWhile (\<lambda>c. c \<notin> set delimiters) s of
        [] \<Rightarrow> stringList @ [s]
      | d # rest \<Rightarrow> split (stringList @ [takeWhile (\<lambda>c. c \<notin> set delimiters) s]) rest delimiters)"
  by pat_completeness auto
termination
  by (relation "measure (\<lambda>(l, s, d). length s)") (auto dest: length_dropWhile_less)

declare split.simps [simp del]

text \<open>Joining the pieces with the delimiter gives the string back.\<close>

fun join :: "char \<Rightarrow> string list \<Rightarrow> string" where
  "join d [] = []"
| "join d [w] = w"
| "join d (w # v # ws) = w @ d # join d (v # ws)"

lemma split_pieces:
  "\<exists>ws. split l s [d] = l @ ws \<and> ws \<noteq> [] \<and> join d ws = s \<and> (\<forall>w \<in> set ws. d \<notin> set w)"
proof (induction l s "[d]" rule: split.induct)
  case (1 l s)
  show ?case
  proof (cases "dropWhile (\<lambda>c. c \<notin> set [d]) s")
    case Nil
    then have "d \<notin> set s" by (auto simp: dropWhile_eq_Nil_conv)
    moreover have "split l s [d] = l @ [s]" by (subst split.simps) (simp only: Nil list.case)
    ultimately show ?thesis by (intro exI [of _ "[s]"]) simp
  next
    case (Cons c rest)
    let ?w = "takeWhile (\<lambda>c. c \<notin> set [d]) s"
    have "c = d" using Cons by (metis dropWhile_eq_Cons_conv empty_iff insert_iff list.set)
    then have s: "s = ?w @ d # rest" using Cons by (metis takeWhile_dropWhile_id)
    obtain ws where ws: "split (l @ [?w]) rest [d] = (l @ [?w]) @ ws" "ws \<noteq> []" "join d ws = rest"
      "\<forall>w \<in> set ws. d \<notin> set w"
      using 1 [OF Cons] by blast
    have "join d (?w # ws) = s" using ws s by (cases ws) auto
    moreover have "d \<notin> set ?w" by (auto dest: set_takeWhileD)
    moreover have "split l s [d] = l @ (?w # ws)"
      using Cons ws(1) by (subst split.simps) simp
    ultimately show ?thesis using ws by (intro exI [of _ "?w # ws"]) simp
  qed
qed

section \<open>White space and replacement\<close>

function squeeze :: "string \<Rightarrow> string \<Rightarrow> string" where
  "squeeze out [] = out"
| "squeeze out (c # cs) =
     squeeze (out @ [c]) (if c = CHR '' '' then dropWhile (\<lambda>d. d = CHR '' '') cs else cs)"
  by pat_completeness auto
termination
  by (relation "measure (\<lambda>(out, s). length s)") (auto simp: le_imp_less_Suc length_dropWhile_le)

text \<open>Reading stops at a NUL: the end of the string, or one in the middle.\<close>

definition removeExtraWhitespaces :: "string \<Rightarrow> string \<Rightarrow> bool \<times> string" where
  "removeExtraWhitespaces in_str out_str =
     (if in_str = [] then (False, out_str)
      else (True, squeeze out_str (takeWhile (\<lambda>c. c \<noteq> CHR 0x00) in_str)))"

lemma find_str_length: "find_str t s = Some p \<Longrightarrow> p + length t \<le> length s"
  by (auto dest: find_str_SomeD)

function replace_from :: "string \<Rightarrow> string \<Rightarrow> string \<Rightarrow> string" where
  "replace_from old new s =
     (case (if old = [] then None else find_str old s) of
        None \<Rightarrow> s
      | Some p \<Rightarrow> take p s @ new @ replace_from old new (drop (p + length old) s))"
  by pat_completeness auto
termination
proof (relation "measure (\<lambda>(old, new, s). length s)", simp, goal_cases)
  case (1 old new s p)
  then have "old \<noteq> []" "find_str old s = Some p" by (simp_all split: if_splits)
  then have "p + length old \<le> length s" "0 < length old" by (auto dest: find_str_length)
  then have "length s - (p + length old) < length s" by linarith
  then show ?case by simp
qed

declare replace_from.simps [simp del]

definition replaceString :: "string \<Rightarrow> string \<Rightarrow> string \<Rightarrow> string" where
  "replaceString sentence oldString newString =
     (if oldString = [] then sentence else replace_from oldString newString sentence)"

lemma replace_absent: "find_str old s = None \<Longrightarrow> replaceString s old new = s"
  by (simp add: replaceString_def replace_from.simps)


section \<open>The base64 encoder\<close>

definition base64_chars :: string where
  "base64_chars = ''ABCDEFGHIJKLMNOPQRSTUVWXYZabcdefghijklmnopqrstuvwxyz0123456789+/''"

definition b64_char :: "u8 \<Rightarrow> char" where
  "b64_char w = base64_chars ! unat w"

text \<open>The loop over the bytes that are left, with \<open>state\<close>, \<open>lastStuff\<close> and \<open>result\<close>.\<close>

fun encoder_loop :: "u8 list \<Rightarrow> nat \<Rightarrow> u8 \<Rightarrow> string \<Rightarrow> nat \<times> u8 \<times> string" where
  "encoder_loop [] state lastStuff result = (state, lastStuff, result)"
| "encoder_loop (b # bs) state lastStuff result =
     (if state = 0 then
        encoder_loop bs 1 (push_bit 4 (and b 0x03)) (result @ [b64_char (drop_bit 2 (and b 0xFC))])
      else if state = 1 then
        encoder_loop bs 2 (push_bit 2 (and b 0x0F))
          (result @ [b64_char (or (drop_bit 4 (and b 0xF0)) lastStuff)])
      else
        encoder_loop bs 0 lastStuff
          (result @ [b64_char (or (drop_bit 6 (and b 0xC0)) lastStuff), b64_char (and b 0x3F)]))"

definition imageEncoder :: "u8 list \<Rightarrow> bool \<Rightarrow> string \<Rightarrow> string" where
  "imageEncoder object padding result =
     (let (state, lastStuff, r) = encoder_loop object 0 0 result
      in if state \<noteq> 0
         then r @ [b64_char lastStuff] @
              (if padding then (if state = 1 then ''=='' else ''='') else [])
         else r)"

text \<open>The decoder the encoder is compared with: up to the padding, four characters give three bytes.\<close>

definition b64_val :: "char \<Rightarrow> u8" where
  "b64_val c = (case find_char c base64_chars of None \<Rightarrow> 0 | Some k \<Rightarrow> word_of_nat k)"

fun b64_groups :: "u8 list \<Rightarrow> u8 list" where
  "b64_groups (w # x # y # z # rest) =
     [or (push_bit 2 w) (drop_bit 4 x), or (push_bit 4 x) (drop_bit 2 y), or (push_bit 6 y) z]
       @ b64_groups rest"
| "b64_groups [w, x, y] = [or (push_bit 2 w) (drop_bit 4 x), or (push_bit 4 x) (drop_bit 2 y)]"
| "b64_groups [w, x] = [or (push_bit 2 w) (drop_bit 4 x)]"
| "b64_groups _ = []"

definition b64_decode :: "string \<Rightarrow> u8 list" where
  "b64_decode s = b64_groups (map b64_val (takeWhile (\<lambda>c. c \<noteq> CHR ''='') s))"

text \<open>The six-bit groups of a series of bytes, as the encoder forms them.\<close>

fun sextets :: "u8 list \<Rightarrow> u8 list" where
  "sextets (a # b # c # rest) =
     [drop_bit 2 (and a 0xFC), or (drop_bit 4 (and b 0xF0)) (push_bit 4 (and a 0x03)),
      or (drop_bit 6 (and c 0xC0)) (push_bit 2 (and b 0x0F)), and c 0x3F] @ sextets rest"
| "sextets [a, b] =
     [drop_bit 2 (and a 0xFC), or (drop_bit 4 (and b 0xF0)) (push_bit 4 (and a 0x03)),
      push_bit 2 (and b 0x0F)]"
| "sextets [a] = [drop_bit 2 (and a 0xFC), push_bit 4 (and a 0x03)]"
| "sextets [] = []"

definition b64_padding :: "bool \<Rightarrow> nat \<Rightarrow> string" where
  "b64_padding padding n =
     (if padding then (if n mod 3 = 1 then ''=='' else if n mod 3 = 2 then ''='' else []) else [])"

lemma encoder_sextets:
  "imageEncoder bs padding result = result @ map b64_char (sextets bs) @ b64_padding padding (length bs)"
proof -
  have "(let (state, last, r) = encoder_loop bs 0 l result
         in if state \<noteq> 0 then r @ [b64_char last] @
              (if padding then (if state = 1 then ''=='' else ''='') else []) else r)
      = result @ map b64_char (sextets bs) @ b64_padding padding (length bs)" for l
  proof (induction bs arbitrary: l result rule: sextets.induct)
    case (1 a b c rest)
    have "b64_padding padding (length (a # b # c # rest)) = b64_padding padding (length rest)"
      by (simp add: b64_padding_def mod_Suc)
    then show ?case using 1 by simp
  qed (simp_all add: b64_padding_def)
  then show ?thesis by (simp add: imageEncoder_def)
qed

lemma b64_chars_index: "list_all (\<lambda>k. find_char (base64_chars ! k) base64_chars = Some k) [0..<64]"
  by (simp add: base64_chars_def upt_rec)

lemma b64_val_char: "w < 64 \<Longrightarrow> b64_val (b64_char w) = w \<and> b64_char w \<noteq> CHR ''=''"
proof -
  assume "w < 64"
  then have "unat w < 64" by (simp add: word_less_nat_alt)
  then have f: "find_char (base64_chars ! unat w) base64_chars = Some (unat w)"
    using b64_chars_index by (auto simp: list_all_iff)
  have "CHR ''='' \<notin> set base64_chars" by (simp add: base64_chars_def)
  then have "b64_char w \<noteq> CHR ''=''"
    using find_char_SomeD [OF f] nth_mem [of "unat w" base64_chars] by (metis b64_char_def)
  moreover have "b64_val (b64_char w) = w" using f by (simp add: b64_char_def b64_val_def)
  ultimately show ?thesis by simp
qed

lemma word_less_64: "(w :: u8) = and w 0x3F \<Longrightarrow> w < 64"
proof -
  assume "w = and w 0x3F"
  moreover have "and w 0x3F \<le> 0x3F" by (rule word_and_le1)
  ultimately have "w \<le> 0x3F" by metis
  then show ?thesis by (simp add: word_le_nat_alt word_less_nat_alt)
qed

lemma bit8_eqI:
  "(bit a 0 \<longleftrightarrow> bit b 0) \<Longrightarrow> (bit a 1 \<longleftrightarrow> bit b 1) \<Longrightarrow> (bit a 2 \<longleftrightarrow> bit b 2) \<Longrightarrow> (bit a 3 \<longleftrightarrow> bit b 3)
   \<Longrightarrow> (bit a 4 \<longleftrightarrow> bit b 4) \<Longrightarrow> (bit a 5 \<longleftrightarrow> bit b 5) \<Longrightarrow> (bit a 6 \<longleftrightarrow> bit b 6) \<Longrightarrow> (bit a 7 \<longleftrightarrow> bit b 7)
   \<Longrightarrow> a = (b :: u8)"
proof (rule bit_word_eqI)
  fix n assume *: "(bit a 0 \<longleftrightarrow> bit b 0)" "(bit a 1 \<longleftrightarrow> bit b 1)" "(bit a 2 \<longleftrightarrow> bit b 2)"
    "(bit a 3 \<longleftrightarrow> bit b 3)" "(bit a 4 \<longleftrightarrow> bit b 4)" "(bit a 5 \<longleftrightarrow> bit b 5)"
    "(bit a 6 \<longleftrightarrow> bit b 6)" "(bit a 7 \<longleftrightarrow> bit b 7)"
  assume "n < LENGTH(8)"
  then have "n \<in> {0, 1, 2, 3, 4, 5, 6, 7}" by auto
  then show "bit a n \<longleftrightarrow> bit b n" using * by auto
qed

lemma sextets_less: "w \<in> set (sextets bs) \<Longrightarrow> w < 64"
proof (induction bs rule: sextets.induct)
  case (1 a b c rest)
  have "drop_bit 2 (and a 0xFC) < 64" "or (drop_bit 4 (and b 0xF0)) (push_bit 4 (and a 0x03)) < 64"
    "or (drop_bit 6 (and c 0xC0)) (push_bit 2 (and b 0x0F)) < 64" "and c 0x3F < 64"
    by (rule word_less_64, rule bit8_eqI, simp_all add: bit_simps)+
  then show ?case using 1 by auto
next
  case (2 a b)
  have "drop_bit 2 (and a 0xFC) < 64" "or (drop_bit 4 (and b 0xF0)) (push_bit 4 (and a 0x03)) < 64"
    "push_bit 2 (and b 0x0F) < 64"
    by (rule word_less_64, rule bit8_eqI, simp_all add: bit_simps)+
  then show ?case using 2 by auto
next
  case (3 a)
  have "drop_bit 2 (and a 0xFC) < 64" "push_bit 4 (and a 0x03) < 64"
    by (rule word_less_64, rule bit8_eqI, simp_all add: bit_simps)+
  then show ?case using 3 by auto
qed simp

lemma groups_sextets: "b64_groups (sextets bs) = bs"
proof (induction bs rule: sextets.induct)
  case (1 a b c rest)
  have "or (push_bit 2 (drop_bit 2 (and a 0xFC)))
      (drop_bit 4 (or (drop_bit 4 (and b 0xF0)) (push_bit 4 (and a 0x03)))) = a"
    "or (push_bit 4 (or (drop_bit 4 (and b 0xF0)) (push_bit 4 (and a 0x03))))
      (drop_bit 2 (or (drop_bit 6 (and c 0xC0)) (push_bit 2 (and b 0x0F)))) = b"
    "or (push_bit 6 (or (drop_bit 6 (and c 0xC0)) (push_bit 2 (and b 0x0F)))) (and c 0x3F) = c"
    by (rule bit8_eqI, simp_all add: bit_simps)+
  then show ?case using 1 by simp
next
  case (2 a b)
  have "or (push_bit 2 (drop_bit 2 (and a 0xFC)))
      (drop_bit 4 (or (drop_bit 4 (and b 0xF0)) (push_bit 4 (and a 0x03)))) = a"
    "or (push_bit 4 (or (drop_bit 4 (and b 0xF0)) (push_bit 4 (and a 0x03))))
      (drop_bit 2 (push_bit 2 (and b 0x0F))) = b"
    by (rule bit8_eqI, simp_all add: bit_simps)+
  then show ?case by simp
next
  case (3 a)
  have "or (push_bit 2 (drop_bit 2 (and a 0xFC))) (drop_bit 4 (push_bit 4 (and a 0x03))) = a"
    by (rule bit8_eqI, simp_all add: bit_simps)
  then show ?case by simp
qed simp

lemma sextets_length: "length (sextets bs) = (4 * length bs + 2) div 3"
  by (induction bs rule: sextets.induct) simp_all


lemma padded_length:
  "(4 * n + 2) div 3 + length (b64_padding padding n) =
   (if padding then 4 * ((n + 2) div 3) else (4 * n + 2) div 3)"
proof -
  define q r where "q = n div 3" and "r = n mod 3"
  have n: "n = r + 3 * q" by (simp add: q_def r_def)
  have "(4 * r + 2 + 3 * (4 * q)) div 3 = (4 * r + 2) div 3 + 4 * q"
    "(r + 2 + 3 * q) div 3 = (r + 2) div 3 + q"
    by (simp_all only: div_mult_self2 zero_neq_numeral not_False_eq_True)
  moreover have "4 * n + 2 = 4 * r + 2 + 3 * (4 * q)" "n + 2 = r + 2 + 3 * q" by (simp_all add: n)
  ultimately have *: "(4 * n + 2) div 3 = (4 * r + 2) div 3 + 4 * q" "(n + 2) div 3 = (r + 2) div 3 + q" by metis+
  have "r = 0 \<or> r = 1 \<or> r = 2" by (auto simp: r_def)
  then show ?thesis unfolding * b64_padding_def r_def [symmetric] by (elim disjE) simp_all
qed
section \<open>The property file of the system mode\<close>

text \<open>
  The file \<open>/tmp/SystemMode.txt\<close>: its text, \<open>None\<close> if there is none, and whether it can be opened
  for reading, and created or opened for writing.
\<close>

record smfile =
  sf_content :: "string option"
  sf_readable :: bool
  sf_writable :: bool

definition sf_good :: "smfile \<Rightarrow> bool" where
  "sf_good f = (sf_content f \<noteq> None \<and> sf_readable f)"

definition sf_key :: "string \<Rightarrow> string \<Rightarrow> string" where
  "sf_key systemMode property = systemMode @ ''_'' @ property"

text \<open>The body of the loop for a line; \<open>None\<close> is a line that is skipped.\<close>

definition update_line :: "string \<Rightarrow> string \<Rightarrow> string \<Rightarrow> string \<Rightarrow> string \<Rightarrow> bool \<times> string option" where
  "update_line searchKey property value action line =
     (if find_str searchKey line = Some 0 then
        (if action = ''deleteall'' \<and> value = [] then (True, None)
         else if property = ''currentstate'' then
           (if action = ''add'' \<or> action = ''checkandadd'' then (True, Some (searchKey @ ''='' @ value))
            else if action = ''delete'' then (True, Some [])
            else (True, Some line))
         else if property = ''callsign'' then
           (if action = ''add'' then
              (if find_str value line = None then (True, Some (line @ value @ ''|'')) else (True, Some line))
            else if action = ''delete'' then
              (case find_str value line of
                 None \<Rightarrow> (True, Some line)
               | Some pos \<Rightarrow> (True, Some (erase_str line pos (length value + 1))))
            else (True, Some line))
         else (True, Some line))
      else (False, Some line))"

fun update_lines ::
  "string \<Rightarrow> string \<Rightarrow> string \<Rightarrow> string \<Rightarrow> string list \<Rightarrow> bool \<Rightarrow> string \<Rightarrow> bool \<times> string" where
  "update_lines searchKey property value action [] propertyFound buffer = (propertyFound, buffer)"
| "update_lines searchKey property value action (line # lines) propertyFound buffer =
     (let (found, line') = update_line searchKey property value action line;
          buffer' = (case line' of
                       Some l \<Rightarrow> if l \<noteq> [] then buffer @ l @ [CHR 0x0A] else buffer
                     | None \<Rightarrow> buffer)
      in update_lines searchKey property value action lines (propertyFound \<or> found) buffer')"

text \<open>The text written back, from the lines of the stream, none if it was not open.\<close>

definition update_text :: "string \<Rightarrow> string \<Rightarrow> string \<Rightarrow> string \<Rightarrow> string list \<Rightarrow> string" where
  "update_text systemMode property value action lines =
     (let searchKey = sf_key systemMode property;
          (propertyFound, buffer) = update_lines searchKey property value action lines False []
      in if \<not> propertyFound \<and> (action = ''add'' \<or> action = ''checkandadd'') then
           (if property = ''currentstate'' then buffer @ searchKey @ ''='' @ value @ [CHR 0x0A]
            else if property = ''callsign'' then buffer @ searchKey @ ''='' @ value @ ''|'' @ [CHR 0x0A]
            else buffer)
         else buffer)"

definition sf_write :: "string \<Rightarrow> smfile \<Rightarrow> smfile" where
  "sf_write s f = (if sf_writable f then f\<lparr>sf_content := Some s\<rparr> else f)"

text \<open>
  A file that cannot be read is created anew, and the function calls itself; \<open>None\<close> is a call that
  never ends, on a file that stays unreadable.
\<close>

partial_function (option) updateSystemModeFile ::
  "string \<Rightarrow> string \<Rightarrow> string \<Rightarrow> string \<Rightarrow> smfile \<Rightarrow> smfile option" where
  "updateSystemModeFile systemMode property value action f =
     (if systemMode = [] \<or> property = [] then Some f
      else if action \<notin> {''add'', ''delete'', ''deleteall'', ''checkandadd''} then Some f
      else if \<not> sf_good f then
        (if \<not> sf_writable f then Some f
         else Option.bind (updateSystemModeFile ''DEVICE_OPTIMIZE'' ''currentstate'' ''VIDEO'' ''add''
                (f\<lparr>sf_content := Some []\<rparr>))
              (\<lambda>f1. Some (sf_write (update_text systemMode property value action []) f1)))
      else Some (sf_write (update_text systemMode property value action
                   (file_lines (the (sf_content f)))) f))"

fun find_property :: "string \<Rightarrow> string list \<Rightarrow> string option" where
  "find_property searchKey [] = None"
| "find_property searchKey (line # lines) =
     (if find_str searchKey line = Some 0
      then (case find_char CHR ''='' line of
              Some pos \<Rightarrow> Some (drop (pos + 1) line)
            | None \<Rightarrow> find_property searchKey lines)
      else find_property searchKey lines)"

definition getSystemModePropertyValue :: "string \<Rightarrow> string \<Rightarrow> smfile \<Rightarrow> string \<Rightarrow> bool \<times> string" where
  "getSystemModePropertyValue systemMode property f value =
     (if systemMode = [] \<or> property = [] then (False, value)
      else if \<not> sf_good f then (False, value)
      else (case find_property (sf_key systemMode property) (file_lines (the (sf_content f))) of
              None \<Rightarrow> (False, value)
            | Some v \<Rightarrow> (True, v)))"

section \<open>Reading what was written\<close>

text \<open>The lines a line becomes: itself, changed, or none.\<close>

definition kept :: "string \<Rightarrow> string \<Rightarrow> string \<Rightarrow> string \<Rightarrow> string \<Rightarrow> string list" where
  "kept searchKey property value action line =
     (case snd (update_line searchKey property value action line) of
        Some l \<Rightarrow> if l \<noteq> [] then [l] else []
      | None \<Rightarrow> [])"

definition starts_with :: "string \<Rightarrow> string \<Rightarrow> bool" where
  "starts_with key line = (find_str key line = Some 0)"

lemma starts_with_iff: "starts_with key line \<longleftrightarrow> (\<exists>rest. line = key @ rest)"
  by (simp add: starts_with_def find_str_zero is_prefix_iff)

lemma fst_update_line: "fst (update_line key property value action line) = starts_with key line"
  by (simp add: update_line_def starts_with_def split: option.split)

lemma unlines_append: "unlines (xs @ ys) = unlines xs @ unlines ys"
  by (simp add: unlines_def)

lemma update_lines_eq:
  "update_lines key property value action lines found buffer =
     (found \<or> list_ex (starts_with key) lines,
      buffer @ unlines (concat (map (kept key property value action) lines)))"
proof (induction lines arbitrary: found buffer)
  case Nil
  then show ?case by (simp add: unlines_def)
next
  case (Cons line lines)
  obtain b l where u: "update_line key property value action line = (b, l)" by fastforce
  have "b = starts_with key line" using fst_update_line [of key property "value" action line] u by simp
  moreover have "buffer @ unlines (kept key property value action line) =
      (case l of Some l \<Rightarrow> if l \<noteq> [] then buffer @ l @ [CHR 0x0A] else buffer | None \<Rightarrow> buffer)"
    using u by (simp add: kept_def unlines_def split: option.split)
  ultimately show ?case
    using u by (simp add: Cons.IH unlines_append disj_assoc flip: append_assoc)
qed

definition new_line :: "string \<Rightarrow> string \<Rightarrow> string \<Rightarrow> string list" where
  "new_line key property value =
     (if property = ''currentstate'' then [key @ ''='' @ value]
      else if property = ''callsign'' then [key @ ''='' @ value @ ''|''] else [])"

definition updated_lines ::
  "string \<Rightarrow> string \<Rightarrow> string \<Rightarrow> string \<Rightarrow> string list \<Rightarrow> string list" where
  "updated_lines key property value action lines =
     concat (map (kept key property value action) lines)
     @ (if \<not> list_ex (starts_with key) lines \<and> (action = ''add'' \<or> action = ''checkandadd'')
        then new_line key property value else [])"

lemma update_text_eq:
  "update_text mode property value action lines =
     unlines (updated_lines (sf_key mode property) property value action lines)"
  by (simp add: update_text_def update_lines_eq updated_lines_def unlines_append new_line_def
      unlines_def Let_def)

text \<open>No operation puts a newline into a line.\<close>

lemma kept_no_newline:
  assumes "CHR 0x0A \<notin> set key" and "CHR 0x0A \<notin> set value" and "CHR 0x0A \<notin> set line"
    and "l \<in> set (kept key property value action line)"
  shows "CHR 0x0A \<notin> set l"
  using assms
  by (auto simp: kept_def update_line_def erase_str_def
      split: if_splits option.splits dest: in_set_takeD in_set_dropD)

lemma updated_no_newline:
  assumes "CHR 0x0A \<notin> set key" and "CHR 0x0A \<notin> set value"
    and "\<forall>l \<in> set lines. CHR 0x0A \<notin> set l" and "l \<in> set (updated_lines key property value action lines)"
  shows "CHR 0x0A \<notin> set l"
  using assms kept_no_newline [OF assms(1,2)]
  by (auto simp: updated_lines_def new_line_def split: if_splits)

definition sf_lines :: "smfile \<Rightarrow> string list" where
  "sf_lines f = (case sf_content f of None \<Rightarrow> [] | Some s \<Rightarrow> file_lines s)"

lemma sf_lines_no_newline: "l \<in> set (sf_lines f) \<Longrightarrow> CHR 0x0A \<notin> set l"
  by (auto simp: sf_lines_def file_lines_no_newline split: option.splits)

text \<open>What an update does to a file that can be read and written, by its lines.\<close>

lemma update_good:
  assumes "sf_good f" and "sf_writable f" and "mode \<noteq> []" and "property \<noteq> []"
    and "action \<in> {''add'', ''delete'', ''deleteall'', ''checkandadd''}"
    and "CHR 0x0A \<notin> set (sf_key mode property)" and "CHR 0x0A \<notin> set value"
  shows "\<exists>f'. updateSystemModeFile mode property value action f = Some f' \<and> sf_good f'
    \<and> sf_writable f' \<and> sf_lines f' = updated_lines (sf_key mode property) property value action (sf_lines f)"
proof -
  let ?ls = "updated_lines (sf_key mode property) property value action (sf_lines f)"
  have "sf_lines f = file_lines (the (sf_content f))"
    using assms(1) by (auto simp: sf_lines_def sf_good_def)
  then have "updateSystemModeFile mode property value action f = Some (f\<lparr>sf_content := Some (unlines ?ls)\<rparr>)"
    using assms by (subst updateSystemModeFile.simps) (simp add: sf_write_def update_text_eq)
  moreover have "\<forall>l \<in> set ?ls. CHR 0x0A \<notin> set l"
    using updated_no_newline [OF assms(6,7)] sf_lines_no_newline by blast
  then have "sf_lines (f\<lparr>sf_content := Some (unlines ?ls)\<rparr>) = ?ls"
    by (simp add: sf_lines_def file_lines_unlines)
  ultimately show ?thesis using assms(1,2) by (simp add: sf_good_def)
qed

lemma getProperty_eq:
  assumes "sf_good f" and "mode \<noteq> []" and "property \<noteq> []"
  shows "getSystemModePropertyValue mode property f v0 =
    (case find_property (sf_key mode property) (sf_lines f) of None \<Rightarrow> (False, v0) | Some v \<Rightarrow> (True, v))"
  using assms by (auto simp: getSystemModePropertyValue_def sf_lines_def sf_good_def)

lemma find_property_unique:
  assumes "CHR ''='' \<notin> set key" and "l \<in> set lines" and "starts_with key l"
    and "\<And>l. l \<in> set lines \<Longrightarrow> starts_with key l \<Longrightarrow> l = key @ ''='' @ v"
  shows "find_property key lines = Some v"
  using assms(2-)
proof (induction lines)
  case (Cons line lines)
  show ?case
  proof (cases "starts_with key line")
    case True
    then have "line = key @ CHR ''='' # v" using Cons.prems(3) [of line] by simp
    then show ?thesis
      using True find_char_append [OF assms(1), of v] by (simp add: starts_with_def)
  next
    case False
    then have "l \<in> set lines" using Cons.prems by auto
    then have "find_property key lines = Some v"
      using Cons.prems by (intro Cons.IH) auto
    then show ?thesis using False by (simp add: starts_with_def)
  qed
qed simp

lemma kept_currentstate:
  "kept key ''currentstate'' value ''add'' line =
     (if starts_with key line then [key @ ''='' @ value] else if line = [] then [] else [line])"
  by (simp add: kept_def update_line_def starts_with_def)

lemma state_written:
  assumes "sf_good f" and "sf_writable f" and "mode \<noteq> []" and "CHR ''='' \<notin> set mode"
    and "CHR 0x0A \<notin> set mode" and "CHR 0x0A \<notin> set value"
  shows "\<exists>f'. updateSystemModeFile mode ''currentstate'' value ''add'' f = Some f' \<and> sf_good f'
    \<and> sf_writable f' \<and> getSystemModePropertyValue mode ''currentstate'' f' v0 = (True, value)
    \<and> sf_lines f' = updated_lines (sf_key mode ''currentstate'') ''currentstate'' value ''add'' (sf_lines f)"
proof -
  let ?key = "sf_key mode ''currentstate''"
  obtain f' where f': "updateSystemModeFile mode ''currentstate'' value ''add'' f = Some f'"
    "sf_good f'" "sf_writable f'"
    "sf_lines f' = updated_lines ?key ''currentstate'' value ''add'' (sf_lines f)"
    using update_good [of f mode "''currentstate''" "''add''" "value"] assms by (auto simp: sf_key_def)
  have key: "CHR ''='' \<notin> set ?key" using assms(4) by (simp add: sf_key_def)
  have "find_property ?key (sf_lines f') = Some value"
  proof (rule find_property_unique [OF key])
    show "?key @ ''='' @ value \<in> set (sf_lines f')"
    proof (cases "list_ex (starts_with ?key) (sf_lines f)")
      case True
      then obtain l where "l \<in> set (sf_lines f)" "starts_with ?key l" by (auto simp: list_ex_iff)
      then show ?thesis
        by (auto simp: f' updated_lines_def kept_currentstate intro!: bexI [of _ l])
    qed (simp add: f' updated_lines_def new_line_def)
    show "starts_with ?key (?key @ ''='' @ value)" by (simp add: starts_with_iff)
    show "l = ?key @ ''='' @ value" if "l \<in> set (sf_lines f')" "starts_with ?key l" for l
      using that by (auto simp: f' updated_lines_def kept_currentstate new_line_def split: if_splits)
  qed
  then show ?thesis using f' assms(3) by (intro exI [of _ f']) (simp add: getProperty_eq)
qed

section \<open>Properties\<close>

text \<open>
  What the base64 encoder appends to the result decodes to the bytes it was given, with and
  without padding; with padding it has four characters for every three bytes begun.
\<close>

theorem base64_roundtrip:
  "\<exists>s. imageEncoder bs padding result = result @ s \<and> b64_decode s = bs
     \<and> length s = (if padding then 4 * ((length bs + 2) div 3) else (4 * length bs + 2) div 3)"
proof -
  let ?s = "map b64_char (sextets bs) @ b64_padding padding (length bs)"
  have sx: "\<forall>w \<in> set (sextets bs). b64_val (b64_char w) = w \<and> b64_char w \<noteq> CHR ''=''"
    using sextets_less b64_val_char by blast
  have "takeWhile (\<lambda>c. c \<noteq> CHR ''='') ?s = map b64_char (sextets bs)"
    using sx by (subst takeWhile_append2) (auto simp: b64_padding_def)
  then have "b64_decode ?s = b64_groups (map (b64_val \<circ> b64_char) (sextets bs))"
    by (simp add: b64_decode_def)
  also have "map (b64_val \<circ> b64_char) (sextets bs) = sextets bs"
    using sx by (simp add: map_idI)
  finally have "b64_decode ?s = bs" by (simp add: groups_sextets)
  moreover have "length ?s = (if padding then 4 * ((length bs + 2) div 3) else (4 * length bs + 2) div 3)"
    by (simp only: length_append length_map sextets_length padded_length)
  ultimately show ?thesis by (intro exI [of _ ?s]) (simp add: encoder_sextets)
qed

end
