(* ===== verification/SystemMode.thy ===== *)
theory SystemMode imports StringUtils "HOL-Library.Char_ord" "HOL-Library.List_Lexorder" begin

text \<open>
  The SystemMode plugin (\<open>SystemMode/SystemModeImplementation.cpp\<close> and \<open>.h\<close>): the state of the system
  mode \<open>DEVICE_OPTIMIZE\<close>, the plugins (clients) that are asked to follow it, and the file that keeps
  both over a restart. A client is a callsign with the address of its activator interface, which
  Thunder finds: an argument that yields the activator of an activated plugin, \<open>None\<close> if the plugin
  cannot be opened or has no such interface. \<open>sm_refs\<close> counts the references held on an
  activator. A call of \<open>Request\<close> on an activator is an element of the list returned. The COM-RPC
  communicator and the lock have no counterpart; \<open>_controller\<close> is released in the call that
  opened it.

  A result \<open>None\<close> is a call that does not end (see \<open>StringUtils\<close>) or, in \<open>ClientActivated\<close>, the use
  of a state that was never set. The enumerator \<open>DEVICE_OPTIMIZE\<close> is the only one, with value 1.
\<close>

section \<open>State\<close>

datatype SystemMode = DEVICE_OPTIMIZE | SystemMode_other int
datatype sm_state = VIDEO | GAME | State_other int

fun SystemModeMap :: "SystemMode \<Rightarrow> string option" where
  "SystemModeMap DEVICE_OPTIMIZE = Some ''DEVICE_OPTIMIZE''"
| "SystemModeMap (SystemMode_other n) = None"

definition SystemModeInterfaceMap :: "string \<Rightarrow> SystemMode option" where
  "SystemModeInterfaceMap s = (if s = ''DEVICE_OPTIMIZE'' then Some DEVICE_OPTIMIZE else None)"

fun deviceOptimizeStateMap :: "sm_state \<Rightarrow> string option" where
  "deviceOptimizeStateMap VIDEO = Some ''VIDEO''"
| "deviceOptimizeStateMap GAME = Some ''GAME''"
| "deviceOptimizeStateMap (State_other n) = None"

record SystemModeImpl =
  sm_clients :: "(string \<times> nat) list"
  sm_refs :: "nat \<Rightarrow> int"
  sm_stateRequested :: bool
  sm_file :: smfile

definition sm_AddRef :: "nat \<Rightarrow> SystemModeImpl \<Rightarrow> SystemModeImpl" where
  "sm_AddRef a c = c\<lparr>sm_refs := (sm_refs c)(a := sm_refs c a + 1)\<rparr>"

definition sm_Release :: "nat \<Rightarrow> SystemModeImpl \<Rightarrow> SystemModeImpl" where
  "sm_Release a c = c\<lparr>sm_refs := (sm_refs c)(a := sm_refs c a - 1)\<rparr>"

text \<open>\<open>std::map::insert\<close>, in the order of the keys: an entry that is there stays as it is.\<close>

fun map_insert :: "string \<Rightarrow> nat \<Rightarrow> (string \<times> nat) list \<Rightarrow> (string \<times> nat) list" where
  "map_insert k v [] = [(k, v)]"
| "map_insert k v ((k', v') # m) =
     (if k = k' then (k', v') # m else if k < k' then (k, v) # (k', v') # m
      else (k', v') # map_insert k v m)"

section \<open>Operations\<close>

definition GetState :: "SystemMode \<Rightarrow> SystemModeImpl \<Rightarrow> sm_state option \<Rightarrow> hresult \<times> sm_state option" where
  "GetState pSystemMode c successResult =
     (case SystemModeMap pSystemMode of
        None \<Rightarrow> (ERROR_GENERAL, successResult)
      | Some systemMode_str \<Rightarrow>
          (let (found, value) = getSystemModePropertyValue systemMode_str ''currentstate'' (sm_file c) []
           in (ERROR_NONE,
               (if deviceOptimizeStateMap VIDEO = Some value then Some VIDEO
                else if deviceOptimizeStateMap GAME = Some value then Some GAME
                else successResult))))"

definition RequestState ::
  "SystemMode \<Rightarrow> sm_state \<Rightarrow> SystemModeImpl \<Rightarrow> (hresult \<times> SystemModeImpl \<times> (nat \<times> string) list) option" where
  "RequestState pSystemMode pState c =
     (case SystemModeMap pSystemMode of
        None \<Rightarrow> Some (ERROR_GENERAL, c, [])
      | Some systemMode_str \<Rightarrow>
          (case deviceOptimizeStateMap pState of
             None \<Rightarrow> Some (ERROR_GENERAL, c, [])
           | Some new_state \<Rightarrow>
               (let requests = map (\<lambda>it. (snd it, new_state)) (sm_clients c)
                in case updateSystemModeFile systemMode_str ''currentstate'' new_state ''add'' (sm_file c) of
                     None \<Rightarrow> None
                   | Some f \<Rightarrow>
                       Some (ERROR_NONE, c\<lparr>sm_file := f, sm_stateRequested := True\<rparr>, requests))))"

definition ClientActivated ::
  "(string \<Rightarrow> nat option) \<Rightarrow> string \<Rightarrow> string \<Rightarrow> SystemModeImpl
   \<Rightarrow> (SystemModeImpl \<times> (nat \<times> string) list) option" where
  "ClientActivated open_activator callsign systemMode c =
     (case SystemModeInterfaceMap systemMode of
        None \<Rightarrow> Some (c, [])
      | Some pSystemMode \<Rightarrow>
          if callsign \<noteq> [] then
            (case open_activator callsign of
               None \<Rightarrow> Some (c, [])
             | Some activator \<Rightarrow>
                 let c1 = sm_AddRef activator c;
                     c2 = c1\<lparr>sm_clients := map_insert callsign activator (sm_clients c1)\<rparr>
                 in case updateSystemModeFile (the (SystemModeMap pSystemMode)) ''callsign'' callsign ''add''
                           (sm_file c2) of
                      None \<Rightarrow> None
                    | Some f \<Rightarrow>
                        let c3 = c2\<lparr>sm_file := f\<rparr> in
                        if sm_stateRequested c3 then
                          (case GetState pSystemMode c3 None of
                             (e, None) \<Rightarrow> None
                           | (e, Some state) \<Rightarrow>
                               Some (c3, [(activator, the (deviceOptimizeStateMap state))]))
                        else Some (c3, []))
          else Some (c, []))"

definition ClientDeactivated ::
  "string \<Rightarrow> string \<Rightarrow> SystemModeImpl \<Rightarrow> SystemModeImpl option" where
  "ClientDeactivated callsign systemMode c =
     (case SystemModeInterfaceMap systemMode of
        None \<Rightarrow> Some c
      | Some pSystemMode \<Rightarrow>
          (case map_of (sm_clients c) callsign of
             None \<Rightarrow> Some c
           | Some temp \<Rightarrow>
               let c1 = sm_Release temp c;
                   c2 = c1\<lparr>sm_clients := filter (\<lambda>index. fst index \<noteq> callsign) (sm_clients c1)\<rparr>
               in map_option (\<lambda>f. c2\<lparr>sm_file := f\<rparr>)
                    (updateSystemModeFile (the (SystemModeMap pSystemMode)) ''callsign'' callsign ''delete''
                       (sm_file c2))))"

fun activate_tokens ::
  "(string \<Rightarrow> nat option) \<Rightarrow> string list \<Rightarrow> string \<Rightarrow> SystemModeImpl
   \<Rightarrow> (SystemModeImpl \<times> (nat \<times> string) list) option" where
  "activate_tokens open_activator [] systemMode c = Some (c, [])"
| "activate_tokens open_activator (token # callSignList) systemMode c =
     (case ClientActivated open_activator token systemMode c of
        None \<Rightarrow> None
      | Some (c1, calls) \<Rightarrow>
          map_option (\<lambda>(c2, calls'). (c2, calls @ calls'))
            (activate_tokens open_activator callSignList systemMode c1))"

definition SystemMode_fields :: "smfile \<Rightarrow> SystemModeImpl" where
  "SystemMode_fields f = \<lparr>sm_clients = [], sm_refs = (\<lambda>_. 0), sm_stateRequested = False, sm_file = f\<rparr>"

definition SystemModeImplementation_ctor ::
  "(string \<Rightarrow> nat option) \<Rightarrow> smfile \<Rightarrow> (SystemModeImpl \<times> (nat \<times> string) list) option" where
  "SystemModeImplementation_ctor open_activator f =
     (if \<not> sf_good f then
        (if sf_writable f
         then map_option (\<lambda>f1. (SystemMode_fields f1, []))
                (updateSystemModeFile ''DEVICE_OPTIMIZE'' ''currentstate'' ''VIDEO'' ''add''
                   (f\<lparr>sf_content := Some []\<rparr>))
         else Some (SystemMode_fields f, []))
      else
        let currentstate = snd (getSystemModePropertyValue ''DEVICE_OPTIMIZE'' ''currentstate'' f []) in
        case (if currentstate = []
              then updateSystemModeFile ''DEVICE_OPTIMIZE'' ''currentstate'' ''VIDEO'' ''add'' f
              else Some f) of
          None \<Rightarrow> None
        | Some f1 \<Rightarrow>
            let systemMode = the (SystemModeMap DEVICE_OPTIMIZE);
                value = snd (getSystemModePropertyValue systemMode ''callsign'' f1 [])
            in if value \<noteq> [] then
                 (case updateSystemModeFile systemMode ''callsign'' [] ''deleteall'' f1 of
                    None \<Rightarrow> None
                  | Some f2 \<Rightarrow>
                      activate_tokens open_activator (split [] value ''|'') systemMode (SystemMode_fields f2))
               else Some (SystemMode_fields f1, []))"

text \<open>The destructor releases the activators; the file stays for the next start.\<close>

definition SystemModeImplementation_dtor :: "SystemModeImpl \<Rightarrow> SystemModeImpl" where
  "SystemModeImplementation_dtor c = foldr (\<lambda>entry. sm_Release (snd entry)) (sm_clients c) c"

section \<open>The file, by its lines\<close>

definition sm_entries :: "string list \<Rightarrow> string" where
  "sm_entries ns = concat (map (\<lambda>n. n @ ''|'') ns)"

abbreviation state_key :: string where "state_key \<equiv> ''DEVICE_OPTIMIZE_currentstate''"
abbreviation callsign_key :: string where "callsign_key \<equiv> ''DEVICE_OPTIMIZE_callsign''"

definition state_line :: "string \<Rightarrow> string" where "state_line st = state_key @ ''='' @ st"
definition client_line :: "string list \<Rightarrow> string" where
  "client_line ns = callsign_key @ ''='' @ sm_entries ns"

definition mode_lines :: "string \<Rightarrow> string list option \<Rightarrow> string list" where
  "mode_lines st nso = state_line st # (case nso of None \<Rightarrow> [] | Some ns \<Rightarrow> [client_line ns])"

text \<open>
  Callsigns that the file can tell apart: none has a separator, occurs in the name of the property
  or in another callsign.
\<close>

definition plain :: "string \<Rightarrow> bool" where
  "plain u = (u \<noteq> [] \<and> set u \<inter> {CHR ''='', CHR ''|'', CHR 0x0A} = {} \<and> find_str u callsign_key = None)"

definition separate :: "string set \<Rightarrow> bool" where
  "separate U = (\<forall>u \<in> U. plain u \<and> (\<forall>v \<in> U. u \<noteq> v \<longrightarrow> find_str u v = None))"

definition occurs :: "string \<Rightarrow> string \<Rightarrow> bool" where
  "occurs u s = (\<exists>a b. s = a @ u @ b)"

lemma find_str_occurs: "find_str u s = None \<longleftrightarrow> \<not> occurs u s"
  by (simp add: occurs_def find_str_None_iff)

lemma plainD:
  assumes "plain u"
  shows "CHR ''='' \<notin> set u" "CHR ''|'' \<notin> set u" "u \<noteq> []" "\<not> occurs u callsign_key" "CHR 0x0A \<notin> set u"
  using assms by (simp_all only: plain_def find_str_occurs disjoint_insert Int_empty_right
      simp_thms not_False_eq_True disjoint_iff insert_iff empty_iff) blast+

lemma separateD:
  assumes "separate U" and "u \<in> U"
  shows "plain u" and "v \<in> U \<Longrightarrow> v \<noteq> u \<Longrightarrow> \<not> occurs u v"
  using assms by (simp_all add: separate_def find_str_occurs)

lemma occurs_delim:
  assumes "d \<notin> set u" and "u \<noteq> []"
  shows "occurs u (x @ d # y) \<longleftrightarrow> occurs u x \<or> occurs u y"
proof
  assume "occurs u (x @ d # y)"
  then obtain a b where "a @ u @ b = x @ d # y" by (auto simp: occurs_def)
  then consider us where "a = x @ us" "us @ u @ b = d # y" | us where "x = a @ us" "u @ b = us @ d # y"
    by (auto simp: append_eq_append_conv2)
  then show "occurs u x \<or> occurs u y"
  proof cases
    case 1
    then show ?thesis using assms by (cases us; cases u) (auto simp: occurs_def)
  next
    case 2
    then consider vs where "us = u @ vs" | vs where "u = us @ vs" "vs @ b = d # y"
      by (auto simp: append_eq_append_conv2)
    then show ?thesis
    proof cases
      case 1
      then show ?thesis using \<open>x = a @ us\<close> by (auto simp: occurs_def)
    next
      case 2
      then have "vs = []" using assms(1) by (cases vs) auto
      then show ?thesis using 2 \<open>x = a @ us\<close> by (auto simp: occurs_def intro: exI [of _ "[]"])
    qed
  qed
next
  assume "occurs u x \<or> occurs u y"
  then show "occurs u (x @ d # y)"
  proof
    assume "occurs u x"
    then obtain a b where "x = a @ u @ b" by (auto simp: occurs_def)
    then have "x @ d # y = a @ u @ (b @ d # y)" by simp
    then show ?thesis unfolding occurs_def by blast
  next
    assume "occurs u y"
    then obtain a b where "y = a @ u @ b" by (auto simp: occurs_def)
    then have "x @ d # y = (x @ d # a) @ u @ b" by simp
    then show ?thesis unfolding occurs_def by blast
  qed
qed

lemma occurs_entries:
  assumes "CHR ''|'' \<notin> set u" and "u \<noteq> []"
  shows "occurs u (sm_entries ns) \<longleftrightarrow> (\<exists>n \<in> set ns. occurs u n)"
proof (induction ns)
  case Nil
  then show ?case using assms by (auto simp: sm_entries_def occurs_def)
next
  case (Cons n ns)
  have "sm_entries (n # ns) = n @ CHR ''|'' # sm_entries ns" by (simp add: sm_entries_def)
  then show ?case using occurs_delim [OF assms] Cons by simp
qed

lemma occurs_client_line:
  assumes "separate U" and "u \<in> U" and "set ns \<subseteq> U"
  shows "occurs u (client_line ns) \<longleftrightarrow> u \<in> set ns"
proof -
  note u = plainD [OF separateD(1) [OF assms(1,2)]]
  have "client_line ns = callsign_key @ CHR ''='' # sm_entries ns" by (simp add: client_line_def)
  then have "occurs u (client_line ns) \<longleftrightarrow> (\<exists>n \<in> set ns. occurs u n)"
    using occurs_delim [OF u(1,3), of callsign_key "sm_entries ns"] occurs_entries [OF u(2,3)] u(4)
    by simp
  moreover have "occurs u n \<longleftrightarrow> n = u" if "n \<in> set ns" for n
  proof -
    have "n \<in> U" by (rule subsetD [OF assms(3) that])
    then have "n \<noteq> u \<Longrightarrow> \<not> occurs u n" using separateD(2) [OF assms(1,2)] by metis
    moreover have "occurs u u" unfolding occurs_def by (intro exI [of _ "[]"]) simp
    ultimately show ?thesis by blast
  qed
  ultimately show ?thesis by blast
qed

text \<open>The first occurrence of a callsign behind a separator, if it does not occur before.\<close>

lemma find_str_behind:
  assumes "d \<notin> set u" and "u \<noteq> []" and "\<not> occurs u (x @ [d])"
  shows "find_str u (x @ d # u @ y) = Some (length x + 1)"
  using assms(3)
proof (induction x)
  case Nil
  have "\<not> is_prefix u (d # u @ y)" using assms(1,2) by (cases u) auto
  moreover have "find_str u (u @ y) = Some 0" by (simp add: find_str_zero)
  ultimately show ?case by simp
next
  case (Cons c x)
  have "\<not> is_prefix u ((c # x) @ d # u @ y)"
  proof
    assume "is_prefix u ((c # x) @ d # u @ y)"
    then obtain b where "u @ b = (c # x) @ d # u @ y" by (auto simp: is_prefix_iff)
    then consider vs where "c # x = u @ vs" | vs where "u = (c # x) @ vs" "vs @ b = d # u @ y"
      unfolding append_eq_append_conv2 by metis
    then show False
    proof cases
      case 1
      then have "(c # x) @ [d] = [] @ u @ (vs @ [d])" by simp
      then show False using Cons.prems unfolding occurs_def by blast
    next
      case 2
      then have "vs = []" using assms(1) by (cases vs) auto
      then have "(c # x) @ [d] = [] @ u @ [d]" using 2 by simp
      then show False using Cons.prems unfolding occurs_def by blast
    qed
  qed
  moreover have "\<not> occurs u (x @ [d])"
  proof
    assume "occurs u (x @ [d])"
    then obtain a b where "x @ [d] = a @ u @ b" by (auto simp: occurs_def)
    then have "(c # x) @ [d] = (c # a) @ u @ b" by simp
    then show False using Cons.prems unfolding occurs_def by blast
  qed
  ultimately show ?case using Cons.IH by simp
qed

section \<open>What the operations do to the lines\<close>

lemma sf_keys [simp]:
  "sf_key ''DEVICE_OPTIMIZE'' ''currentstate'' = state_key"
  "sf_key ''DEVICE_OPTIMIZE'' ''callsign'' = callsign_key"
  by (simp_all add: sf_key_def)

lemma starts_with_lines [simp]:
  "starts_with state_key (state_line st)" "\<not> starts_with callsign_key (state_line st)"
  "starts_with callsign_key (client_line ns)" "\<not> starts_with state_key (client_line ns)"
  by (simp_all add: starts_with_iff state_line_def client_line_def)

lemma lines_nonempty [simp]: "state_line st \<noteq> []" "client_line ns \<noteq> []"
  by (simp_all add: state_line_def client_line_def)

lemma kept_other:
  "\<not> starts_with key line \<Longrightarrow> line \<noteq> [] \<Longrightarrow> kept key property v action line = [line]"
  by (simp add: kept_def update_line_def starts_with_def)

lemma set_state_lines:
  "updated_lines state_key ''currentstate'' st' ''add'' (mode_lines st nso) = mode_lines st' nso"
  by (simp add: updated_lines_def mode_lines_def kept_currentstate kept_other state_line_def [of st']
      split: option.split)

lemma first_state_lines: "updated_lines state_key ''currentstate'' st ''add'' [] = mode_lines st None"
  by (simp add: updated_lines_def mode_lines_def new_line_def state_line_def)

lemma sm_entries_append: "sm_entries (ns @ ms) = sm_entries ns @ sm_entries ms"
  by (simp add: sm_entries_def)

definition add_callsign :: "string \<Rightarrow> string list option \<Rightarrow> string list" where
  "add_callsign u nso = (case nso of None \<Rightarrow> [u] | Some ns \<Rightarrow> if u \<in> set ns then ns else ns @ [u])"

lemma kept_add:
  assumes "separate U" and "u \<in> U" and "set ns \<subseteq> U"
  shows "kept callsign_key ''callsign'' u ''add'' (client_line ns) = [client_line (add_callsign u (Some ns))]"
proof (cases "u \<in> set ns")
  case True
  then have "find_str u (client_line ns) \<noteq> None"
    using occurs_client_line [OF assms] by (simp only: find_str_occurs not_not)
  moreover have "find_str callsign_key (client_line ns) = Some 0"
    using starts_with_lines(3) unfolding starts_with_def .
  ultimately show ?thesis using True by (simp add: kept_def update_line_def add_callsign_def)
next
  case False
  then have "find_str u (client_line ns) = None"
    using occurs_client_line [OF assms] by (simp only: find_str_occurs not_False_eq_True)
  moreover have "find_str callsign_key (client_line ns) = Some 0"
    using starts_with_lines(3) unfolding starts_with_def .
  moreover have "client_line ns @ u @ ''|'' = client_line (ns @ [u])"
    by (simp add: client_line_def sm_entries_append) (simp add: sm_entries_def)
  ultimately show ?thesis using False by (simp add: kept_def update_line_def add_callsign_def)
qed

lemma add_callsign_lines:
  assumes "separate U" and "u \<in> U" and "case nso of None \<Rightarrow> True | Some ns \<Rightarrow> set ns \<subseteq> U"
  shows "updated_lines callsign_key ''callsign'' u ''add'' (mode_lines st nso)
    = mode_lines st (Some (add_callsign u nso))"
proof (cases nso)
  case None
  have "new_line callsign_key ''callsign'' u = [client_line [u]]"
    by (simp add: new_line_def client_line_def sm_entries_def)
  then show ?thesis using None by (simp add: updated_lines_def mode_lines_def kept_other add_callsign_def)
next
  case (Some ns)
  then show ?thesis
    using kept_add [OF assms(1,2), of ns] assms(3)
    by (simp add: updated_lines_def mode_lines_def kept_other)
qed

lemma kept_delete:
  assumes "separate U" and "u \<in> set ns" and "set ns \<subseteq> U" and "distinct ns"
  shows "kept callsign_key ''callsign'' u ''delete'' (client_line ns) = [client_line (remove1 u ns)]"
proof -
  obtain p s where ns: "ns = p @ u # s" "u \<notin> set p" using split_list_first [OF assms(2)] by blast
  have uU: "u \<in> U" "set p \<subseteq> U" using assms(2,3) ns by auto
  note u = plainD [OF separateD(1) [OF assms(1) uU(1)]]
  define x where "x = (if p = [] then callsign_key else callsign_key @ ''='' @ butlast (sm_entries p))"
  define d where "d = (if p = [] then CHR ''='' else CHR ''|'')"
  have "sm_entries p \<noteq> [] \<and> last (sm_entries p) = CHR ''|''" if "p \<noteq> []"
    using that by (cases p rule: rev_cases) (auto simp: sm_entries_def)
  then have "p \<noteq> [] \<Longrightarrow> butlast (sm_entries p) @ ''|'' = sm_entries p" by (metis append_butlast_last_id)
  then have x: "x @ [d] = client_line p"
    by (cases "p = []") (simp_all add: x_def d_def client_line_def, simp add: sm_entries_def)
  have line: "client_line ns = x @ d # u @ (CHR ''|'' # sm_entries s)"
  proof -
    have "client_line ns = client_line p @ u @ CHR ''|'' # sm_entries s"
      by (simp add: ns client_line_def sm_entries_append) (simp add: sm_entries_def)
    then show ?thesis by (simp add: x [symmetric])
  qed
  have "d \<notin> set u" using u(1,2) by (simp add: d_def)
  moreover have "\<not> occurs u (x @ [d])" using occurs_client_line [OF assms(1) uU] ns(2) by (simp add: x)
  ultimately have pos: "find_str u (client_line ns) = Some (length x + 1)"
    unfolding line using find_str_behind [OF _ u(3)] by blast
  have "erase_str (client_line ns) (length x + 1) (length u + 1) = client_line (p @ s)"
  proof -
    have "client_line ns = client_line p @ (u @ ''|'') @ sm_entries s" "length (client_line p) = length x + 1"
      by (simp add: line x [symmetric]) (simp add: x [symmetric])
    then show ?thesis
      by (simp add: erase_str_def) (simp add: client_line_def sm_entries_append)
  qed
  moreover have "remove1 u ns = p @ s" using ns by (simp add: remove1_append)
  moreover have "find_str callsign_key (client_line ns) = Some 0"
    using starts_with_lines(3) unfolding starts_with_def .
  ultimately show ?thesis using pos by (simp add: kept_def update_line_def)
qed

lemma delete_callsign_lines:
  assumes "separate U" and "u \<in> set ns" and "set ns \<subseteq> U" and "distinct ns"
  shows "updated_lines callsign_key ''callsign'' u ''delete'' (mode_lines st (Some ns))
    = mode_lines st (Some (remove1 u ns))"
  using kept_delete [OF assms] by (simp add: updated_lines_def mode_lines_def kept_other)

lemma deleteall_lines:
  "updated_lines callsign_key ''callsign'' [] ''deleteall'' (mode_lines st (Some ns)) = mode_lines st None"
proof -
  have "find_str callsign_key (client_line ns) = Some 0"
    using starts_with_lines(3) unfolding starts_with_def .
  then have "kept callsign_key ''callsign'' [] ''deleteall'' (client_line ns) = []"
    by (simp add: kept_def update_line_def)
  then show ?thesis by (simp add: updated_lines_def mode_lines_def kept_other)
qed

lemma find_state: "find_property state_key (mode_lines st nso) = Some st"
proof -
  have "find_char CHR ''='' (state_line st) = Some (length state_key)"
    unfolding state_line_def using find_char_append [of "CHR ''=''" state_key st] by simp
  then have "find_property state_key [state_line st] = Some st"
    using starts_with_lines(1) [of st] by (simp add: starts_with_def) (simp add: state_line_def)
  then show ?thesis by (simp add: mode_lines_def split: if_splits option.splits)
qed

lemma find_callsigns:
  "find_property callsign_key (mode_lines st nso) = map_option sm_entries nso"
proof -
  have "find_char CHR ''='' (client_line ns) = Some (length callsign_key)" for ns
    unfolding client_line_def using find_char_append [of "CHR ''=''" callsign_key "sm_entries ns"] by simp
  then have "find_property callsign_key [client_line ns] = Some (sm_entries ns)" for ns
    using starts_with_lines(3) [of ns] by (simp add: starts_with_def) (simp add: client_line_def)
  moreover have "find_property callsign_key (state_line st # ls) = find_property callsign_key ls" for ls
    using starts_with_lines(2) [of st] by (simp add: starts_with_def)
  ultimately show ?thesis by (simp add: mode_lines_def split: option.split)
qed

lemma split_entries:
  "\<forall>n \<in> set ns. CHR ''|'' \<notin> set n \<Longrightarrow> split l (sm_entries ns) ''|'' = l @ ns @ [[]]"
proof (induction ns arbitrary: l)
  case Nil
  then show ?case by (subst split.simps) (simp add: sm_entries_def)
next
  case (Cons n ns)
  have e: "sm_entries (n # ns) = n @ CHR ''|'' # sm_entries ns" by (simp add: sm_entries_def)
  have "dropWhile (\<lambda>c. c \<notin> set ''|'') (sm_entries (n # ns)) = CHR ''|'' # sm_entries ns"
    "takeWhile (\<lambda>c. c \<notin> set ''|'') (sm_entries (n # ns)) = n"
    using Cons.prems unfolding e by (subst dropWhile_append2 takeWhile_append2; force)+
  then show ?case using Cons by (subst split.simps) simp
qed

section \<open>The specification and the simulation\<close>

text \<open>
  What the plugin promises: a state, whether one was requested since the start, and the registered
  clients, each with the activator of its last activation, as the comment in \<open>ClientActivated\<close> has it.
  The calls of \<open>Request\<close> are a set of activators and states.
\<close>

record mode_spec =
  ms_state :: sm_state
  ms_requested :: bool
  ms_clients :: "string \<rightharpoonup> nat"

datatype sm_op =
    SmRequest sm_state | SmActivate string "nat option" | SmDeactivate string
  | SmRestart "string \<Rightarrow> nat option"

fun spec_step :: "sm_op \<Rightarrow> mode_spec \<Rightarrow> mode_spec \<times> (nat \<times> string) set" where
  "spec_step (SmRequest s) m =
     (case deviceOptimizeStateMap s of
        None \<Rightarrow> (m, {})
      | Some name \<Rightarrow> (m\<lparr>ms_state := s, ms_requested := True\<rparr>, (\<lambda>a. (a, name)) ` ran (ms_clients m)))"
| "spec_step (SmActivate n None) m = (m, {})"
| "spec_step (SmActivate n (Some a)) m =
     (m\<lparr>ms_clients := (ms_clients m)(n \<mapsto> a)\<rparr>,
      if ms_requested m then {(a, the (deviceOptimizeStateMap (ms_state m)))} else {})"
| "spec_step (SmDeactivate n) m = (m\<lparr>ms_clients := (ms_clients m)(n := None)\<rparr>, {})"
| "spec_step (SmRestart op') m =
     (m\<lparr>ms_requested := False,
        ms_clients := (\<lambda>n. if ms_clients m n = None then None else op' n)\<rparr>, {})"

text \<open>
  The one operation that does not follow it: a client that is still registered is activated again with
  another activator, and \<open>std::map::insert\<close> keeps the old one.
\<close>

fun reactivates :: "sm_op \<Rightarrow> mode_spec \<Rightarrow> bool" where
  "reactivates (SmActivate n (Some a)) m = (\<exists>b. ms_clients m n = Some b \<and> b \<noteq> a)"
| "reactivates _ m = False"

fun sm_step :: "sm_op \<Rightarrow> SystemModeImpl \<Rightarrow> (SystemModeImpl \<times> (nat \<times> string) list) option" where
  "sm_step (SmRequest s) c = map_option snd (RequestState DEVICE_OPTIMIZE s c)"
| "sm_step (SmActivate n a) c = ClientActivated (\<lambda>_. a) n ''DEVICE_OPTIMIZE'' c"
| "sm_step (SmDeactivate n) c = map_option (\<lambda>c1. (c1, [])) (ClientDeactivated n ''DEVICE_OPTIMIZE'' c)"
| "sm_step (SmRestart op') c = SystemModeImplementation_ctor op' (sm_file (SystemModeImplementation_dtor c))"

fun sm_run :: "sm_op list \<Rightarrow> SystemModeImpl \<Rightarrow> SystemModeImpl option" where
  "sm_run [] c = Some c"
| "sm_run (op' # ops) c = (case sm_step op' c of None \<Rightarrow> None | Some (c1, calls) \<Rightarrow> sm_run ops c1)"

definition sm_abs :: "SystemModeImpl \<Rightarrow> mode_spec" where
  "sm_abs c = \<lparr>ms_state = the (snd (GetState DEVICE_OPTIMIZE c None)),
     ms_requested = sm_stateRequested c, ms_clients = map_of (sm_clients c)\<rparr>"

fun op_callsigns :: "sm_op \<Rightarrow> string set" where
  "op_callsigns (SmActivate n a) = {n}"
| "op_callsigns (SmDeactivate n) = {n}"
| "op_callsigns _ = {}"

text \<open>The invariant: the lines of the file are those of a state and of the clients.\<close>

definition names_ok :: "string set \<Rightarrow> string list option \<Rightarrow> (string \<times> nat) list \<Rightarrow> bool" where
  "names_ok U nso m = (case nso of
      None \<Rightarrow> m = []
    | Some ns \<Rightarrow> distinct ns \<and> set ns \<subseteq> U \<and> set ns = fst ` set m)"

lemma names_ok_simps [simp]:
  "names_ok U None m \<longleftrightarrow> m = []"
  "names_ok U (Some ns) m \<longleftrightarrow> distinct ns \<and> set ns \<subseteq> U \<and> set ns = fst ` set m"
  by (simp_all add: names_ok_def)

definition sm_inv :: "string set \<Rightarrow> sm_state \<Rightarrow> string list option \<Rightarrow> SystemModeImpl \<Rightarrow> bool" where
  "sm_inv U s nso c \<longleftrightarrow> sf_good (sm_file c) \<and> sf_writable (sm_file c)
     \<and> (s = VIDEO \<or> s = GAME)
     \<and> sf_lines (sm_file c) = mode_lines (the (deviceOptimizeStateMap s)) nso
     \<and> sorted_wrt (<) (map fst (sm_clients c)) \<and> separate U
     \<and> names_ok U nso (sm_clients c)"

lemma state_names:
  "s = VIDEO \<or> s = GAME \<Longrightarrow> deviceOptimizeStateMap s = Some (the (deviceOptimizeStateMap s))
     \<and> CHR 0x0A \<notin> set (the (deviceOptimizeStateMap s))"
  "deviceOptimizeStateMap s = Some n \<Longrightarrow> s = VIDEO \<or> s = GAME"
  by (cases s; simp)+

lemma sm_inv_state:
  assumes "sm_inv U s nso c"
  shows "GetState DEVICE_OPTIMIZE c r = (ERROR_NONE, Some s)"
    and "snd (getSystemModePropertyValue ''DEVICE_OPTIMIZE'' ''currentstate'' (sm_file c) [])
      = the (deviceOptimizeStateMap s)"
    and "snd (getSystemModePropertyValue ''DEVICE_OPTIMIZE'' ''callsign'' (sm_file c) [])
      = (case nso of None \<Rightarrow> [] | Some ns \<Rightarrow> sm_entries ns)"
proof -
  have good: "sf_good (sm_file c)" and s: "s = VIDEO \<or> s = GAME"
    and lines: "sf_lines (sm_file c) = mode_lines (the (deviceOptimizeStateMap s)) nso"
    using assms by (simp_all add: sm_inv_def)
  have g: "getSystemModePropertyValue ''DEVICE_OPTIMIZE'' ''currentstate'' (sm_file c) []
      = (True, the (deviceOptimizeStateMap s))"
    by (subst getProperty_eq [OF good]) (simp_all add: lines find_state)
  then show "snd (getSystemModePropertyValue ''DEVICE_OPTIMIZE'' ''currentstate'' (sm_file c) [])
      = the (deviceOptimizeStateMap s)" by simp
  show "GetState DEVICE_OPTIMIZE c r = (ERROR_NONE, Some s)"
    using s by (auto simp: GetState_def g)
  show "snd (getSystemModePropertyValue ''DEVICE_OPTIMIZE'' ''callsign'' (sm_file c) [])
      = (case nso of None \<Rightarrow> [] | Some ns \<Rightarrow> sm_entries ns)"
    by (subst getProperty_eq [OF good]) (cases nso; simp add: lines find_callsigns)+
qed

lemma map_insert_of:
  "sorted_wrt (<) (map fst m) \<Longrightarrow>
   map_of (map_insert k v m) = (if map_of m k = None then (map_of m)(k \<mapsto> v) else map_of m)"
proof (induction k v m rule: map_insert.induct)
  case (2 k v k' v' m)
  have "k < k' \<Longrightarrow> map_of m k = None"
    using 2(2) by (auto simp: map_of_eq_None_iff dest: less_trans)
  then show ?case using 2 by (auto simp: fun_eq_iff)
qed auto

lemma map_insert_keys: "fst ` set (map_insert k v m) = insert k (fst ` set m)"
  by (induction k v m rule: map_insert.induct) auto

lemma map_insert_sorted:
  "sorted_wrt (<) (map fst m) \<Longrightarrow> sorted_wrt (<) (map fst (map_insert k v m))"
proof (induction k v m rule: map_insert.induct)
  case (2 k v k' v' m)
  have "fst ` set (map_insert k v m) = insert k (fst ` set m)" by (rule map_insert_keys)
  then have "k \<noteq> k' \<Longrightarrow> \<not> k < k' \<Longrightarrow> \<forall>x \<in> fst ` set (map_insert k v m). k' < x"
    using 2(2) by auto
  then show ?case using 2 by (auto dest: less_trans)
qed simp

section \<open>The operations keep the invariant and follow the specification\<close>

lemma file_update:
  assumes "sf_good f" and "sf_writable f" and "property \<in> {''currentstate'', ''callsign''}"
    and "action \<in> {''add'', ''delete'', ''deleteall''}" and "CHR 0x0A \<notin> set v"
  shows "\<exists>f'. updateSystemModeFile ''DEVICE_OPTIMIZE'' property v action f = Some f' \<and> sf_good f'
    \<and> sf_writable f'
    \<and> sf_lines f' = updated_lines (sf_key ''DEVICE_OPTIMIZE'' property) property v action (sf_lines f)"
  using assms by (intro update_good) (auto simp: sf_key_def)

lemma request_step:
  assumes "sm_inv U s nso c" and "deviceOptimizeStateMap s' = Some n"
  shows "\<exists>c1. RequestState DEVICE_OPTIMIZE s' c = Some (ERROR_NONE, c1, map (\<lambda>it. (snd it, n)) (sm_clients c))
    \<and> sm_inv U s' nso c1 \<and> sm_stateRequested c1 \<and> sm_clients c1 = sm_clients c"
proof -
  have n: "CHR 0x0A \<notin> set n" "s' = VIDEO \<or> s' = GAME"
    using assms(2) state_names by fastforce+
  have "sf_good (sm_file c)" "sf_writable (sm_file c)" using assms(1) by (simp_all add: sm_inv_def)
  then obtain f where f: "updateSystemModeFile ''DEVICE_OPTIMIZE'' ''currentstate'' n ''add'' (sm_file c) = Some f"
    "sf_good f" "sf_writable f"
    "sf_lines f = updated_lines state_key ''currentstate'' n ''add'' (sf_lines (sm_file c))"
    using file_update [of "sm_file c" "''currentstate''" "''add''" n] n(1) by auto
  have "sf_lines (sm_file c) = mode_lines (the (deviceOptimizeStateMap s)) nso"
    using assms(1) by (simp add: sm_inv_def)
  then have "sf_lines f = mode_lines n nso" using f(4) set_state_lines by simp
  then show ?thesis
    using f assms n(2) by (simp add: RequestState_def sm_inv_def)
qed

lemma activate_step:
  assumes "sm_inv U s nso c" and "u \<in> U"
  shows "\<exists>c1. ClientActivated (\<lambda>_. Some a) u ''DEVICE_OPTIMIZE'' c =
      Some (c1, if sm_stateRequested c then [(a, the (deviceOptimizeStateMap s))] else [])
    \<and> sm_inv U s (Some (add_callsign u nso)) c1 \<and> sm_stateRequested c1 = sm_stateRequested c
    \<and> sm_clients c1 = map_insert u a (sm_clients c) \<and> sm_refs c1 a = sm_refs c a + 1"
proof -
  have sep: "separate U" using assms(1) by (simp add: sm_inv_def)
  note u = plainD [OF separateD(1) [OF sep assms(2)]]
  have ns: "case nso of None \<Rightarrow> True | Some ns \<Rightarrow> set ns \<subseteq> U"
    using assms(1) by (cases nso) (auto simp: sm_inv_def)
  have "sf_good (sm_file c)" "sf_writable (sm_file c)" using assms(1) by (simp_all add: sm_inv_def)
  then obtain f where f: "updateSystemModeFile ''DEVICE_OPTIMIZE'' ''callsign'' u ''add'' (sm_file c) = Some f"
    "sf_good f" "sf_writable f"
    "sf_lines f = updated_lines callsign_key ''callsign'' u ''add'' (sf_lines (sm_file c))"
    using file_update [of "sm_file c" "''callsign''" "''add''" u] u(5) by auto
  have "sf_lines (sm_file c) = mode_lines (the (deviceOptimizeStateMap s)) nso"
    using assms(1) by (simp add: sm_inv_def)
  then have lines: "sf_lines f = mode_lines (the (deviceOptimizeStateMap s)) (Some (add_callsign u nso))"
    using f(4) add_callsign_lines [OF sep assms(2) ns] by simp
  let ?c1 = "(sm_AddRef a c)\<lparr>sm_clients := map_insert u a (sm_clients c), sm_file := f\<rparr>"
  have names: "distinct (add_callsign u nso) \<and> set (add_callsign u nso) \<subseteq> U
      \<and> set (add_callsign u nso) = fst ` set (map_insert u a (sm_clients c))"
    using assms by (cases nso) (auto simp: add_callsign_def sm_inv_def map_insert_keys)
  have inv: "sm_inv U s (Some (add_callsign u nso)) ?c1"
    using assms(1) f lines names by (auto simp: sm_inv_def map_insert_sorted)
  moreover have "sm_clients (sm_AddRef a c) = sm_clients c" "sm_file (sm_AddRef a c) = sm_file c"
    "sm_stateRequested (sm_AddRef a c) = sm_stateRequested c" by (simp_all add: sm_AddRef_def)
  moreover have "GetState DEVICE_OPTIMIZE ?c1 None = (ERROR_NONE, Some s)"
    using sm_inv_state(1) [OF inv] .
  ultimately show ?thesis
    using f(1) u(3) by (simp add: ClientActivated_def SystemModeInterfaceMap_def sm_AddRef_def Let_def)
qed

lemma not_activated: "ClientActivated (\<lambda>_. None) u ''DEVICE_OPTIMIZE'' c = Some (c, [])"
  by (simp add: ClientActivated_def SystemModeInterfaceMap_def)

lemma map_of_filter_fst: "map_of (filter (\<lambda>x. fst x \<noteq> u) m) = (map_of m)(u := None)"
  by (induction m) (auto simp: fun_eq_iff)

lemma deactivate_step:
  assumes "sm_inv U s nso c" and "u \<in> U"
  shows "\<exists>c1 nso1. ClientDeactivated u ''DEVICE_OPTIMIZE'' c = Some c1
    \<and> sm_inv U s nso1 c1 \<and> sm_stateRequested c1 = sm_stateRequested c
    \<and> map_of (sm_clients c1) = (map_of (sm_clients c))(u := None)"
proof (cases "map_of (sm_clients c) u")
  case None
  then show ?thesis
    using assms by (intro exI [of _ c] exI [of _ nso])
      (auto simp: ClientDeactivated_def SystemModeInterfaceMap_def fun_eq_iff)
next
  case (Some a)
  have inv: "sf_good (sm_file c)" "sf_writable (sm_file c)" "separate U"
    "sorted_wrt (<) (map fst (sm_clients c))"
    "sf_lines (sm_file c) = mode_lines (the (deviceOptimizeStateMap s)) nso"
    using assms(1) by (simp_all add: sm_inv_def)
  obtain ns where nso: "nso = Some ns" using Some assms(1) by (cases nso) (simp_all add: sm_inv_def)
  have ns: "distinct ns" "set ns \<subseteq> U" "set ns = fst ` set (sm_clients c)"
    using assms(1) nso by (auto simp: sm_inv_def)
  have "u \<in> set ns" using Some ns(3) by (metis domI dom_map_of_conv_image_fst)
  note u = plainD [OF separateD(1) [OF inv(3) assms(2)]]
  obtain f where f: "updateSystemModeFile ''DEVICE_OPTIMIZE'' ''callsign'' u ''delete'' (sm_file c) = Some f"
    "sf_good f" "sf_writable f"
    "sf_lines f = updated_lines callsign_key ''callsign'' u ''delete'' (sf_lines (sm_file c))"
    using file_update [of "sm_file c" "''callsign''" "''delete''" u] u(5) inv(1,2) by auto
  have lines: "sf_lines f = mode_lines (the (deviceOptimizeStateMap s)) (Some (remove1 u ns))"
    using f(4) delete_callsign_lines [OF inv(3) \<open>u \<in> set ns\<close> ns(2,1)] inv(5) nso by simp
  let ?m = "filter (\<lambda>index. fst index \<noteq> u) (sm_clients c)"
  let ?c1 = "(sm_Release a c)\<lparr>sm_clients := ?m, sm_file := f\<rparr>"
  have "map fst ?m = filter (\<lambda>n. n \<noteq> u) (map fst (sm_clients c))" by (simp add: filter_map comp_def)
  then have "sorted_wrt (<) (map fst ?m)" using inv(4) sorted_wrt_filter by metis
  moreover have "set (remove1 u ns) = fst ` set ?m" using ns by auto
  moreover have "s = VIDEO \<or> s = GAME" using assms(1) by (simp add: sm_inv_def)
  moreover have "distinct (remove1 u ns)" "set (remove1 u ns) \<subseteq> U"
    using ns set_remove1_subset [of u ns] by auto
  ultimately have "sm_inv U s (Some (remove1 u ns)) ?c1"
    using f(2,3) lines inv(3) unfolding sm_inv_def names_ok_simps by simp
  moreover have "map_of ?m = (map_of (sm_clients c))(u := None)"
    by (rule map_of_filter_fst)
  moreover have "ClientDeactivated u ''DEVICE_OPTIMIZE'' c = Some ?c1"
    using Some f(1) by (simp add: ClientDeactivated_def SystemModeInterfaceMap_def sm_Release_def Let_def)
  ultimately show ?thesis
    by (intro exI [of _ ?c1] exI [of _ "Some (remove1 u ns)"]) (simp add: sm_Release_def)
qed

lemma ClientActivated_at: "ClientActivated op' u m c = ClientActivated (\<lambda>_. op' u) u m c"
  by (simp add: ClientActivated_def)

lemma activate_tokens_step:
  assumes "sm_inv U s nso c" and "\<not> sm_stateRequested c" and "set tokens \<subseteq> insert [] U"
  shows "\<exists>c1 nso1. activate_tokens op' tokens ''DEVICE_OPTIMIZE'' c = Some (c1, [])
    \<and> sm_inv U s nso1 c1 \<and> \<not> sm_stateRequested c1
    \<and> map_of (sm_clients c1) = (\<lambda>n. if map_of (sm_clients c) n \<noteq> None then map_of (sm_clients c) n
        else if n \<in> set tokens \<and> n \<noteq> [] then op' n else None)"
  using assms
proof (induction tokens arbitrary: c nso)
  case Nil
  then show ?case by (intro exI [of _ c] exI [of _ nso]) (simp add: fun_eq_iff)
next
  case (Cons u tokens)
  show ?case
  proof (cases "u = [] \<or> op' u = None")
    case True
    then have "ClientActivated op' u ''DEVICE_OPTIMIZE'' c = Some (c, [])"
      by (auto simp: ClientActivated_def SystemModeInterfaceMap_def)
    moreover obtain c1 nso1 where "activate_tokens op' tokens ''DEVICE_OPTIMIZE'' c = Some (c1, [])"
      "sm_inv U s nso1 c1" "\<not> sm_stateRequested c1"
      "map_of (sm_clients c1) = (\<lambda>n. if map_of (sm_clients c) n \<noteq> None then map_of (sm_clients c) n
        else if n \<in> set tokens \<and> n \<noteq> [] then op' n else None)"
      using Cons.IH [OF Cons.prems(1,2)] Cons.prems(3) by auto
    ultimately show ?thesis
      using True by (intro exI [of _ c1] exI [of _ nso1]) (auto simp: fun_eq_iff)
  next
    case False
    then obtain a where a: "op' u = Some a" by auto
    have "u \<in> U" using False Cons.prems(3) by auto
    then obtain c1 where c1: "ClientActivated op' u ''DEVICE_OPTIMIZE'' c = Some (c1, [])"
      "sm_inv U s (Some (add_callsign u nso)) c1" "\<not> sm_stateRequested c1"
      "sm_clients c1 = map_insert u a (sm_clients c)"
      using activate_step [OF Cons.prems(1), of u a] Cons.prems(2) ClientActivated_at [of op' u] a
      by auto
    obtain c2 nso2 where "activate_tokens op' tokens ''DEVICE_OPTIMIZE'' c1 = Some (c2, [])"
      "sm_inv U s nso2 c2" "\<not> sm_stateRequested c2"
      "map_of (sm_clients c2) = (\<lambda>n. if map_of (sm_clients c1) n \<noteq> None then map_of (sm_clients c1) n
        else if n \<in> set tokens \<and> n \<noteq> [] then op' n else None)"
      using Cons.IH [OF c1(2,3)] Cons.prems(3) by auto
    moreover have "map_of (sm_clients c1) =
        (if map_of (sm_clients c) u = None then (map_of (sm_clients c))(u \<mapsto> a) else map_of (sm_clients c))"
      using c1(4) Cons.prems(1) by (simp add: map_insert_of sm_inv_def)
    ultimately show ?thesis
      using c1(1) a False by (intro exI [of _ c2] exI [of _ nso2]) (auto simp: fun_eq_iff)
  qed
qed

lemma restart_step:
  assumes "sm_inv U s nso c"
  shows "\<exists>c1 nso1. SystemModeImplementation_ctor op' (sm_file c) = Some (c1, []) \<and> sm_inv U s nso1 c1
    \<and> \<not> sm_stateRequested c1
    \<and> map_of (sm_clients c1) = (\<lambda>n. if map_of (sm_clients c) n = None then None else op' n)"
proof -
  let ?f = "sm_file c"
  have good: "sf_good ?f" "sf_writable ?f" and s: "s = VIDEO \<or> s = GAME" and sep: "separate U"
    and lines: "sf_lines ?f = mode_lines (the (deviceOptimizeStateMap s)) nso"
    and names: "names_ok U nso (sm_clients c)"
    using assms by (simp_all add: sm_inv_def)
  have st: "snd (getSystemModePropertyValue ''DEVICE_OPTIMIZE'' ''currentstate'' ?f []) \<noteq> []"
    using sm_inv_state(2) [OF assms] s by auto
  note v = sm_inv_state(3) [OF assms]
  show ?thesis
  proof (cases "nso = None \<or> nso = Some []")
    case True
    then have "sm_clients c = []" using names by auto
    moreover have "SystemModeImplementation_ctor op' ?f = Some (SystemMode_fields ?f, [])"
      using st v True good by (auto simp: SystemModeImplementation_ctor_def sm_entries_def)
    moreover have "sm_inv U s nso (SystemMode_fields ?f)"
      using good s sep lines True by (auto simp: sm_inv_def SystemMode_fields_def)
    ultimately show ?thesis
      by (intro exI [of _ "SystemMode_fields ?f"] exI [of _ nso]) (simp add: SystemMode_fields_def fun_eq_iff)
  next
    case False
    then obtain ns where ns: "nso = Some ns" "ns \<noteq> []" by auto
    have entries: "sm_entries ns \<noteq> []" using ns(2) by (cases ns) (simp_all add: sm_entries_def)
    have nsU: "set ns \<subseteq> U" "set ns = fst ` set (sm_clients c)" using names ns by auto
    obtain f where f: "updateSystemModeFile ''DEVICE_OPTIMIZE'' ''callsign'' [] ''deleteall'' ?f = Some f"
      "sf_good f" "sf_writable f"
      "sf_lines f = updated_lines callsign_key ''callsign'' [] ''deleteall'' (sf_lines ?f)"
      using file_update [of ?f "''callsign''" "''deleteall''" "[]"] good by auto
    have "sm_inv U s None (SystemMode_fields f)"
      using f(2-4) s sep lines ns(1) deleteall_lines by (simp add: sm_inv_def SystemMode_fields_def)
    moreover have "set (ns @ [[]]) \<subseteq> insert [] U" using nsU by auto
    ultimately obtain c1 nso1 where c1:
      "activate_tokens op' (ns @ [[]]) ''DEVICE_OPTIMIZE'' (SystemMode_fields f) = Some (c1, [])"
      "sm_inv U s nso1 c1" "\<not> sm_stateRequested c1"
      "map_of (sm_clients c1) = (\<lambda>n. if map_of (sm_clients (SystemMode_fields f)) n \<noteq> None
         then map_of (sm_clients (SystemMode_fields f)) n
         else if n \<in> set (ns @ [[]]) \<and> n \<noteq> [] then op' n else None)"
      using activate_tokens_step [of U s None "SystemMode_fields f" "ns @ [[]]" op']
      by (auto simp: SystemMode_fields_def)
    have "\<forall>n \<in> set ns. n \<noteq> [] \<and> CHR ''|'' \<notin> set n"
      using plainD(2,3) separateD(1) [OF sep] nsU(1) by blast
    then have split: "split [] (sm_entries ns) ''|'' = ns @ [[]]" and ne: "[] \<notin> set ns"
      using split_entries [of ns "[]"] by auto
    have "SystemModeImplementation_ctor op' ?f = Some (c1, [])"
      using st v ns(1) entries good f(1) c1(1) split by (simp add: SystemModeImplementation_ctor_def)
    moreover have "map_of (sm_clients c) n = None \<longleftrightarrow> n \<notin> set ns" for n
      by (simp add: nsU(2) map_of_eq_None_iff)
    then have "map_of (sm_clients c1) = (\<lambda>n. if map_of (sm_clients c) n = None then None else op' n)"
      using c1(4) ne by (auto simp: fun_eq_iff SystemMode_fields_def)
    ultimately show ?thesis using c1(2,3) by blast
  qed
qed

lemma fresh_start:
  assumes "sf_content f = None" and "sf_readable f" and "sf_writable f" and "separate U"
  shows "\<exists>c. SystemModeImplementation_ctor op' f = Some (c, []) \<and> sm_inv U VIDEO None c
    \<and> \<not> sm_stateRequested c"
proof -
  let ?f = "f\<lparr>sf_content := Some []\<rparr>"
  obtain f1 where f1: "updateSystemModeFile ''DEVICE_OPTIMIZE'' ''currentstate'' ''VIDEO'' ''add'' ?f = Some f1"
    "sf_good f1" "sf_writable f1" "sf_lines f1 = updated_lines state_key ''currentstate'' ''VIDEO'' ''add'' (sf_lines ?f)"
    using file_update [of ?f "''currentstate''" "''add''" "''VIDEO''"] assms by (auto simp: sf_good_def)
  have "sf_lines ?f = []" by (simp add: sf_lines_def file_lines_def)
  then have "sm_inv U VIDEO None (SystemMode_fields f1)"
    using f1(2-4) first_state_lines assms(4) by (simp add: sm_inv_def SystemMode_fields_def)
  then show ?thesis
    using f1(1) assms by (simp add: SystemModeImplementation_ctor_def sf_good_def SystemMode_fields_def)
qed

lemma dtor_file: "sm_file (SystemModeImplementation_dtor c) = sm_file c"
proof -
  have "sm_file (foldr (\<lambda>entry. sm_Release (snd entry)) m c) = sm_file c" for m
    by (induction m) (simp_all add: sm_Release_def)
  then show ?thesis by (simp add: SystemModeImplementation_dtor_def)
qed

lemma sm_abs_eq:
  "sm_inv U s nso c \<Longrightarrow>
   sm_abs c = \<lparr>ms_state = s, ms_requested = sm_stateRequested c, ms_clients = map_of (sm_clients c)\<rparr>"
  by (simp add: sm_abs_def sm_inv_state(1))

lemma sm_simulation:
  assumes "sm_inv U s nso c" and "op_callsigns op' \<subseteq> U"
  shows "\<exists>c1 calls s1 nso1. sm_step op' c = Some (c1, calls) \<and> sm_inv U s1 nso1 c1
    \<and> sm_abs c1 = (if reactivates op' (sm_abs c) then sm_abs c else fst (spec_step op' (sm_abs c)))
    \<and> set calls = snd (spec_step op' (sm_abs c))
    \<and> (\<forall>u a. op' = SmActivate u (Some a) \<longrightarrow> sm_refs c1 a = sm_refs c a + 1)"
proof (cases op')
  case (SmRequest s')
  show ?thesis
  proof (cases "deviceOptimizeStateMap s'")
    case None
    then show ?thesis using SmRequest assms(1) by (auto simp: RequestState_def)
  next
    case (Some n)
    obtain c1 where c1: "RequestState DEVICE_OPTIMIZE s' c = Some (ERROR_NONE, c1, map (\<lambda>it. (snd it, n)) (sm_clients c))"
      "sm_inv U s' nso c1" "sm_stateRequested c1" "sm_clients c1 = sm_clients c"
      using request_step [OF assms(1) Some] by auto
    have "distinct (map fst (sm_clients c))"
      using assms(1) strict_sorted_iff [of "map fst (sm_clients c)"] by (simp add: sm_inv_def)
    then have "ran (map_of (sm_clients c)) = snd ` set (sm_clients c)" by (rule ran_distinct)
    then show ?thesis
      using c1 SmRequest Some by (simp add: sm_abs_eq [OF c1(2)] sm_abs_eq [OF assms(1)] image_image) blast
  qed
next
  case (SmActivate u a)
  show ?thesis
  proof (cases a)
    case None
    then show ?thesis using SmActivate assms(1) not_activated by auto
  next
    case (Some b)
    have "u \<in> U" using assms(2) SmActivate by simp
    from activate_step [OF assms(1) this, of b] obtain c1 where c1:
      "ClientActivated (\<lambda>_. Some b) u ''DEVICE_OPTIMIZE'' c =
        Some (c1, if sm_stateRequested c then [(b, the (deviceOptimizeStateMap s))] else [])"
      "sm_inv U s (Some (add_callsign u nso)) c1" "sm_stateRequested c1 = sm_stateRequested c"
      "sm_clients c1 = map_insert u b (sm_clients c)" "sm_refs c1 b = sm_refs c b + 1" by blast
    have "map_of (sm_clients c1) = (if map_of (sm_clients c) u = None then (map_of (sm_clients c))(u \<mapsto> b)
        else map_of (sm_clients c))"
      using c1(4) assms(1) by (simp add: map_insert_of sm_inv_def)
    moreover have "(map_of (sm_clients c))(u \<mapsto> b) = map_of (sm_clients c)" if "map_of (sm_clients c) u = Some b"
      using that by (simp add: fun_upd_idem)
    ultimately show ?thesis
      using c1 SmActivate Some by (cases "map_of (sm_clients c) u") (auto simp: sm_abs_eq [OF c1(2)] sm_abs_eq [OF assms(1)])
  qed
next
  case (SmDeactivate u)
  have "u \<in> U" using assms(2) SmDeactivate by simp
  from deactivate_step [OF assms(1) this] obtain c1 nso1 where c1:
    "ClientDeactivated u ''DEVICE_OPTIMIZE'' c = Some c1" "sm_inv U s nso1 c1"
    "sm_stateRequested c1 = sm_stateRequested c" "map_of (sm_clients c1) = (map_of (sm_clients c))(u := None)"
    by blast
  then show ?thesis
    using SmDeactivate by (simp add: sm_abs_eq [OF c1(2)] sm_abs_eq [OF assms(1)]) blast
next
  case (SmRestart open')
  from restart_step [OF assms(1), of open'] obtain c1 nso1 where c1:
    "SystemModeImplementation_ctor open' (sm_file c) = Some (c1, [])" "sm_inv U s nso1 c1"
    "\<not> sm_stateRequested c1"
    "map_of (sm_clients c1) = (\<lambda>n. if map_of (sm_clients c) n = None then None else open' n)" by blast
  then show ?thesis
    using SmRestart by (simp add: dtor_file sm_abs_eq [OF c1(2)] sm_abs_eq [OF assms(1)]) blast
qed

lemma sm_run_inv:
  "sm_inv U s nso c \<Longrightarrow> \<Union> (op_callsigns ` set ops) \<subseteq> U
   \<Longrightarrow> \<exists>c1 s1 nso1. sm_run ops c = Some c1 \<and> sm_inv U s1 nso1 c1"
proof (induction ops arbitrary: c s nso)
  case (Cons op' ops)
  then obtain c1 calls s1 nso1 where "sm_step op' c = Some (c1, calls)" "sm_inv U s1 nso1 c1"
    using sm_simulation [OF Cons.prems(1), of op'] by auto
  then show ?case using Cons.IH [of s1 nso1 c1] Cons.prems(2) by auto
qed auto

text \<open>
  C8. The plugin implements its specification on callsigns the file can tell apart: started without a
  settings file, where one can be made, read and written, through any requests, activations,
  deactivations and restarts of clients whose callsigns have no separator and do not occur in one
  another or in the name of the property, each operation ends, exactly the specified activators are
  asked for the specified state, and its effect on the state, the requested flag and the clients is the
  specified one, the state surviving a restart. The one exception is a client that is activated again
  with another activator while it is registered: the clients stay as they are, with its old activator,
  although a reference to the new one was taken.
\<close>

theorem system_mode_refines:
  assumes "separate (\<Union> (op_callsigns ` set (op' # ops)))"
    and "sf_content f = None" and "sf_readable f" and "sf_writable f"
  shows "\<exists>c0 c c1 calls. SystemModeImplementation_ctor available f = Some (c0, [])
    \<and> sm_abs c0 = \<lparr>ms_state = VIDEO, ms_requested = False, ms_clients = Map.empty\<rparr>
    \<and> sm_run ops c0 = Some c \<and> sm_step op' c = Some (c1, calls)
    \<and> set calls = snd (spec_step op' (sm_abs c))
    \<and> sm_abs c1 = (if reactivates op' (sm_abs c) then sm_abs c else fst (spec_step op' (sm_abs c)))
    \<and> (\<forall>u a. op' = SmActivate u (Some a) \<longrightarrow> sm_refs c1 a = sm_refs c a + 1)
    \<and> GetState DEVICE_OPTIMIZE c1 r = (ERROR_NONE, Some (ms_state (sm_abs c1)))"
proof -
  let ?U = "\<Union> (op_callsigns ` set (op' # ops))"
  obtain c0 where c0: "SystemModeImplementation_ctor available f = Some (c0, [])"
    "sm_inv ?U VIDEO None c0" "\<not> sm_stateRequested c0"
    using fresh_start [OF assms(2-4,1)] by blast
  obtain c s nso where c: "sm_run ops c0 = Some c" "sm_inv ?U s nso c"
    using sm_run_inv [OF c0(2), of ops] by auto
  obtain c1 calls s1 nso1 where c1: "sm_step op' c = Some (c1, calls)" "sm_inv ?U s1 nso1 c1"
    "sm_abs c1 = (if reactivates op' (sm_abs c) then sm_abs c else fst (spec_step op' (sm_abs c)))"
    "set calls = snd (spec_step op' (sm_abs c))"
    "\<forall>u a. op' = SmActivate u (Some a) \<longrightarrow> sm_refs c1 a = sm_refs c a + 1"
    using sm_simulation [OF c(2), of op'] by auto
  have "sm_abs c0 = \<lparr>ms_state = VIDEO, ms_requested = False, ms_clients = Map.empty\<rparr>"
    using c0(2,3) by (simp add: sm_abs_eq [OF c0(2)]) (simp add: sm_inv_def)
  moreover have "GetState DEVICE_OPTIMIZE c1 r = (ERROR_NONE, Some (ms_state (sm_abs c1)))"
    by (simp add: sm_abs_eq [OF c1(2)] sm_inv_state(1) [OF c1(2)])
  ultimately show ?thesis using c0(1) c(1) c1(1,3-5) by blast
qed

text \<open>
  The condition on the callsigns is needed: a client whose callsign occurs in one that is recorded, or
  in the name of the property, is registered but not recorded, so the next start does not know it.
\<close>

lemma overlapping_callsign_lost:
  assumes "sm_inv U s (Some ns) c" "occurs u (client_line ns)" "u \<noteq> []" "CHR 0x0A \<notin> set u"
  shows "\<exists>c1. ClientActivated (\<lambda>_. Some a) u ''DEVICE_OPTIMIZE'' c =
        Some (c1, if sm_stateRequested c then [(a, the (deviceOptimizeStateMap s))] else [])
    \<and> map_of (sm_clients c1) u \<noteq> None \<and> sf_lines (sm_file c1) = sf_lines (sm_file c)"
proof -
  have good: "sf_good (sm_file c)" "sf_writable (sm_file c)" using assms(1) by (simp_all add: sm_inv_def)
  then obtain f where f: "updateSystemModeFile ''DEVICE_OPTIMIZE'' ''callsign'' u ''add'' (sm_file c) = Some f"
    "sf_good f" "sf_writable f"
    "sf_lines f = updated_lines callsign_key ''callsign'' u ''add'' (sf_lines (sm_file c))"
    using file_update [of "sm_file c" "''callsign''" "''add''" u] assms(4) by auto
  have lines: "sf_lines (sm_file c) = mode_lines (the (deviceOptimizeStateMap s)) (Some ns)"
    using assms(1) by (simp add: sm_inv_def)
  have "find_str u (client_line ns) \<noteq> None" using assms(2) by (simp only: find_str_occurs not_not)
  moreover have "find_str callsign_key (client_line ns) = Some 0"
    using starts_with_lines(3) unfolding starts_with_def .
  ultimately have "kept callsign_key ''callsign'' u ''add'' (client_line ns) = [client_line ns]"
    by (simp add: kept_def update_line_def)
  then have same: "sf_lines f = sf_lines (sm_file c)"
    using f(4) lines by (simp add: updated_lines_def mode_lines_def kept_other)
  let ?c1 = "(sm_AddRef a c)\<lparr>sm_clients := map_insert u a (sm_clients c), sm_file := f\<rparr>"
  have "GetState DEVICE_OPTIMIZE ?c1 None = GetState DEVICE_OPTIMIZE (c\<lparr>sm_file := f\<rparr>) None"
    by (simp add: GetState_def)
  moreover have "sm_inv U s (Some ns) (c\<lparr>sm_file := f\<rparr>)" using assms(1) f(2,3) same by (auto simp: sm_inv_def)
  ultimately have "GetState DEVICE_OPTIMIZE ?c1 None = (ERROR_NONE, Some s)" using sm_inv_state(1) by metis
  moreover have "map_of (map_insert u a (sm_clients c)) u \<noteq> None"
    using assms(1) by (simp add: map_insert_of sm_inv_def)
  ultimately show ?thesis
    using f(1) same assms(3) by (simp add: ClientActivated_def SystemModeInterfaceMap_def sm_AddRef_def Let_def)
qed

text \<open>
  The file records the clients: after any such operations the callsigns it holds, read and
  split as the next start does, are those of the registered clients.
\<close>

theorem clients_recorded:
  assumes "separate (\<Union> (op_callsigns ` set ops))"
    and "sf_content f = None" and "sf_readable f" and "sf_writable f"
  shows "\<exists>c0 c. SystemModeImplementation_ctor available f = Some (c0, []) \<and> sm_run ops c0 = Some c
    \<and> set (split [] (snd (getSystemModePropertyValue ''DEVICE_OPTIMIZE'' ''callsign'' (sm_file c) [])) ''|'')
        = insert [] (fst ` set (sm_clients c))"
proof -
  let ?U = "\<Union> (op_callsigns ` set ops)"
  obtain c0 where c0: "SystemModeImplementation_ctor available f = Some (c0, [])" "sm_inv ?U VIDEO None c0"
    using fresh_start [OF assms(2-4,1)] by blast
  obtain c s nso where c: "sm_run ops c0 = Some c" "sm_inv ?U s nso c"
    using sm_run_inv [OF c0(2), of ops] by auto
  have empty: "split [] [] ''|'' = [[]]" by (subst split.simps) simp
  have "set (split [] (snd (getSystemModePropertyValue ''DEVICE_OPTIMIZE'' ''callsign'' (sm_file c) [])) ''|'')
      = insert [] (fst ` set (sm_clients c))"
  proof (cases nso)
    case None
    then show ?thesis using c(2) empty by (simp add: sm_inv_state(3) [OF c(2)]) (simp add: sm_inv_def)
  next
    case (Some ns)
    then have ns: "set ns \<subseteq> ?U" "set ns = fst ` set (sm_clients c)" using c(2) by (auto simp: sm_inv_def)
    then have "\<forall>n \<in> set ns. CHR ''|'' \<notin> set n" using plainD(2) separateD(1) [OF assms(1)] by blast
    then show ?thesis
      using Some ns(2) by (simp add: sm_inv_state(3) [OF c(2)] split_entries)
  qed
  then show ?thesis using c0(1) c(1) by blast
qed

definition example_smfile :: smfile where
  "example_smfile = \<lparr>sf_content = None, sf_readable = True, sf_writable = True\<rparr>"

lemma example_separate: "separate {''org.rdk.A'', ''org.rdk.B''}"
  by (simp add: separate_def plain_def)

theorem system_mode_refines_witness:
  "\<exists>c0 c c1 calls. SystemModeImplementation_ctor (\<lambda>_. None) example_smfile = Some (c0, [])
    \<and> sm_run [SmActivate ''org.rdk.A'' (Some 1), SmRequest GAME] c0 = Some c
    \<and> sm_step (SmActivate ''org.rdk.B'' (Some 2)) c = Some (c1, calls)
    \<and> set calls = snd (spec_step (SmActivate ''org.rdk.B'' (Some 2)) (sm_abs c))
    \<and> sm_refs c1 2 = sm_refs c 2 + 1"
proof -
  have "\<Union> (op_callsigns ` set (SmActivate ''org.rdk.B'' (Some 2) #
      [SmActivate ''org.rdk.A'' (Some 1), SmRequest GAME])) = {''org.rdk.A'', ''org.rdk.B''}"
    by auto
  then have "separate (\<Union> (op_callsigns ` set (SmActivate ''org.rdk.B'' (Some 2) #
      [SmActivate ''org.rdk.A'' (Some 1), SmRequest GAME])))"
    using example_separate by (simp only:)
  from system_mode_refines [OF this, of example_smfile "\<lambda>_. None"]
  show ?thesis unfolding example_smfile_def by fastforce
qed

theorem clients_recorded_witness:
  "\<exists>c0 c. SystemModeImplementation_ctor (\<lambda>_. None) example_smfile = Some (c0, [])
    \<and> sm_run [SmActivate ''org.rdk.A'' (Some 1), SmActivate ''org.rdk.B'' (Some 2), SmDeactivate ''org.rdk.A''] c0
        = Some c
    \<and> set (split [] (snd (getSystemModePropertyValue ''DEVICE_OPTIMIZE'' ''callsign'' (sm_file c) [])) ''|'')
        = insert [] (fst ` set (sm_clients c))"
proof -
  have "\<Union> (op_callsigns ` set [SmActivate ''org.rdk.A'' (Some 1), SmActivate ''org.rdk.B'' (Some 2),
      SmDeactivate ''org.rdk.A'']) = {''org.rdk.A'', ''org.rdk.B''}" by auto
  then have "separate (\<Union> (op_callsigns ` set [SmActivate ''org.rdk.A'' (Some 1),
      SmActivate ''org.rdk.B'' (Some 2), SmDeactivate ''org.rdk.A'']))"
    using example_separate by (simp only:)
  from clients_recorded [OF this, of example_smfile "\<lambda>_. None"]
  show ?thesis unfolding example_smfile_def by fastforce
qed

end
