(* ===== verification/FileContent.thy ===== *)
theory FileContent imports StringUtils begin

text \<open>
  The file helpers of \<open>helpers/UtilsgetFileContent.h\<close> and \<open>helpers/UtilsFile.h\<close>: reading properties,
  expanding them in a string, searching files by pattern, reading and moving files.

  A file is missing, cannot be read, can be read, or can be read and written; \<open>std::regex_search\<close>,
  directory listings and \<open>access\<close> are parameters. A result \<open>None\<close> of the functions on properties
  is a recursion that never ends. The lookup reads its file once: the source opens it again for each
  reference, keeps all the streams open, and returns false when an open fails.
\<close>

section \<open>Text files\<close>

datatype file_st = Missing | Unreadable | ReadOnly string | Regular string

type_synonym files = "string \<Rightarrow> file_st"

definition fileExists :: "files \<Rightarrow> string \<Rightarrow> bool" where
  "fileExists F p = (F p \<noteq> Missing)"

definition open_read :: "files \<Rightarrow> string \<Rightarrow> string option" where
  "open_read F p = (case F p of ReadOnly s \<Rightarrow> Some s | Regular s \<Rightarrow> Some s | _ \<Rightarrow> None)"

text \<open>
  Writing: a file that can be written, or is missing and can be made, is replaced by the part of the
  text that the device takes.
\<close>

record disk =
  dk_create :: "string \<Rightarrow> bool"
  dk_written :: "string \<Rightarrow> string \<Rightarrow> nat"

definition open_write :: "disk \<Rightarrow> files \<Rightarrow> string \<Rightarrow> bool" where
  "open_write D F p = (case F p of Missing \<Rightarrow> dk_create D p | Regular s \<Rightarrow> True | _ \<Rightarrow> False)"

definition write_text :: "disk \<Rightarrow> string \<Rightarrow> string \<Rightarrow> files \<Rightarrow> files" where
  "write_text D p s F = F(p := Regular (take (dk_written D p s) s))"

definition all_written :: "disk \<Rightarrow> string \<Rightarrow> bool" where
  "all_written D p = (\<forall>s. length s \<le> dk_written D p s)"

lemma open_read_write_text: "open_read (write_text D p s F) p = Some (take (dk_written D p s) s)"
  by (simp add: open_read_def write_text_def)

lemma open_read_all_written [simp]: "all_written D p \<Longrightarrow> open_read (write_text D p s F) p = Some s"
  by (simp add: open_read_write_text all_written_def)

lemma open_read_other [simp]: "p \<noteq> q \<Longrightarrow> open_read (write_text D p s F) q = open_read F q"
  by (simp add: open_read_def write_text_def)

lemma fileExists_write_text [simp]: "fileExists (write_text D p s F) q \<longleftrightarrow> q = p \<or> fileExists F q"
  by (simp add: fileExists_def write_text_def)

text \<open>\<open>fgets\<close> with a buffer of \<open>n + 1\<close> bytes: up to \<open>n\<close> characters, through the first newline.\<close>

fun fgets_chunk :: "nat \<Rightarrow> string \<Rightarrow> string" where
  "fgets_chunk 0 s = []"
| "fgets_chunk (Suc n) [] = []"
| "fgets_chunk (Suc n) (c # cs) = c # (if c = CHR 0x0A then [] else fgets_chunk n cs)"

definition c_string :: "string \<Rightarrow> string" where
  "c_string s = takeWhile (\<lambda>c. c \<noteq> CHR 0x00) s"

lemma fgets_chunk_prefix: "\<exists>rest. s = fgets_chunk n s @ rest"
  by (induction n s rule: fgets_chunk.induct) auto

lemma fgets_chunk_nonempty: "0 < n \<Longrightarrow> s \<noteq> [] \<Longrightarrow> fgets_chunk n s \<noteq> []"
  by (cases n; cases s) auto

lemma fgets_chunk_length: "length (fgets_chunk n s) \<le> length s"
  using fgets_chunk_prefix [of s n] by (metis le_add1 length_append)

function read_chunks :: "nat \<Rightarrow> string \<Rightarrow> string \<Rightarrow> string" where
  "read_chunks n s content =
     (if s = [] \<or> n = 0 then content
      else read_chunks n (drop (length (fgets_chunk n s)) s) (content @ c_string (fgets_chunk n s)))"
  by pat_completeness auto
termination
  by (relation "measure (\<lambda>(n, s, c). length s)") (auto simp: fgets_chunk_nonempty)

declare read_chunks.simps [simp del]

definition READ_BUFFER_SIZE :: nat where "READ_BUFFER_SIZE = 1024"

definition readFileContent :: "files \<Rightarrow> string \<Rightarrow> string \<Rightarrow> bool \<times> string" where
  "readFileContent F filename content =
     (case open_read F filename of
        None \<Rightarrow> (False, content)
      | Some s \<Rightarrow> (s \<noteq> [], read_chunks (READ_BUFFER_SIZE - 1) s content))"

lemma c_string_id: "CHR 0x00 \<notin> set s \<Longrightarrow> c_string s = s"
  by (auto simp: c_string_def takeWhile_eq_all_conv)

text \<open>The buffers that a loop over \<open>fgets\<close> sees, each as a C string.\<close>

function fgets_lines :: "nat \<Rightarrow> string \<Rightarrow> string list" where
  "fgets_lines n s =
     (if s = [] \<or> n = 0 then []
      else c_string (fgets_chunk n s) # fgets_lines n (drop (length (fgets_chunk n s)) s))"
  by pat_completeness auto
termination
  by (relation "measure (\<lambda>(n, s). length s)") (auto simp: fgets_chunk_nonempty)

declare fgets_lines.simps [simp del]

lemma fgets_lines_short: "s \<noteq> [] \<Longrightarrow> length s \<le> n \<Longrightarrow> CHR 0x0A \<notin> set s \<Longrightarrow> CHR 0x00 \<notin> set s \<Longrightarrow> fgets_lines n s = [s]"
proof -
  assume s: "s \<noteq> []" "length s \<le> n" "CHR 0x0A \<notin> set s" "CHR 0x00 \<notin> set s"
  have "fgets_chunk n s = s" using s(2,3) by (induction n s rule: fgets_chunk.induct) auto
  moreover have "n \<noteq> 0" using s by (cases n) auto
  ultimately show ?thesis using s by (subst fgets_lines.simps) (auto simp: fgets_lines.simps [of n "[]"] c_string_id)
qed

lemma read_chunks_all:
  "0 < n \<Longrightarrow> CHR 0x00 \<notin> set s \<Longrightarrow> read_chunks n s content = content @ s"
proof (induction n s content rule: read_chunks.induct)
  case (1 n s content)
  obtain rest where rest: "s = fgets_chunk n s @ rest" using fgets_chunk_prefix by blast
  then have drop: "drop (length (fgets_chunk n s)) s = rest" by (metis append_eq_conv_conj)
  have "CHR 0x00 \<notin> set (fgets_chunk n s)" "CHR 0x00 \<notin> set rest"
    using 1(3) rest by (metis Un_iff set_append)+
  then show ?case
    using 1 rest drop by (cases "s = []") (simp_all add: read_chunks.simps [of n] c_string_id)
qed

lemma readFileContent_all:
  "open_read F p = Some s \<Longrightarrow> CHR 0x00 \<notin> set s \<Longrightarrow> readFileContent F p content = (s \<noteq> [], content @ s)"
  by (simp add: readFileContent_def READ_BUFFER_SIZE_def read_chunks_all)

text \<open>
  The first buffer of \<open>n + 1\<close> bytes that holds a key, from the key on: the loops of \<open>fgets\<close> and \<open>strstr\<close>.
\<close>

function first_chunk :: "nat \<Rightarrow> string \<Rightarrow> string \<Rightarrow> string option" where
  "first_chunk n key s =
     (if s = [] \<or> n = 0 then None
      else (let line = c_string (fgets_chunk n s)
            in case find_str key line of
                 Some p \<Rightarrow> Some (drop p line)
               | None \<Rightarrow> first_chunk n key (drop (length (fgets_chunk n s)) s)))"
  by pat_completeness auto
termination
  by (relation "measure (\<lambda>(n, k, s). length s)") (auto simp: fgets_chunk_nonempty)

declare first_chunk.simps [simp del]

text \<open>The last line of a text that is not empty.\<close>

fun last_nonempty :: "string list \<Rightarrow> bool \<Rightarrow> string \<Rightarrow> bool \<times> string" where
  "last_nonempty [] ret_value res_str = (ret_value, res_str)"
| "last_nonempty (read_line # lines) ret_value res_str =
     (if read_line \<noteq> [] then last_nonempty lines True read_line
      else last_nonempty lines ret_value res_str)"

definition getLastLine :: "string \<Rightarrow> string \<Rightarrow> bool \<times> string" where
  "getLastLine input res_str =
     (if input \<noteq> [] then last_nonempty (file_lines input) False res_str else (False, res_str))"

lemma last_nonempty_eq:
  "last_nonempty ls b r = (if filter (\<lambda>l. l \<noteq> []) ls = [] then (b, r) else (True, last (filter (\<lambda>l. l \<noteq> []) ls)))"
  by (induction ls b r rule: last_nonempty.induct) auto

lemma file_lines_acc_chars: "l \<in> set (file_lines_acc acc s) \<Longrightarrow> set l \<subseteq> set acc \<union> set s"
  by (induction acc s arbitrary: l rule: file_lines_acc.induct) (auto split: if_splits)

lemma file_lines_chars: "l \<in> set (file_lines s) \<Longrightarrow> set l \<subseteq> set s"
  unfolding file_lines_def by (drule file_lines_acc_chars) simp

section \<open>Properties\<close>

definition property_line :: "string \<Rightarrow> string \<Rightarrow> bool" where
  "property_line property line =
     (\<not> (line \<noteq> [] \<and> hd line = CHR ''#'')
      \<and> (find_str (property @ '' '') line = Some 0 \<or> find_str (property @ ''='') line = Some 0))"

text \<open>\<open>line.substr(line.find("=") + 1)\<close>: the whole line if there is no \<open>=\<close>, since \<open>npos + 1\<close> is 0.\<close>

definition property_content :: "string \<Rightarrow> string" where
  "property_content line = (case find_char CHR ''='' line of None \<Rightarrow> line | Some p \<Rightarrow> drop (p + 1) line)"

definition chomp :: "string \<Rightarrow> string" where
  "chomp s = (if s \<noteq> [] \<and> (last s = CHR 0x0D \<or> last s = CHR 0x0A) then butlast s else s)"

text \<open>
  The loop over the lines \<open>rest\<close> of a file with the lines \<open>all\<close>; a value that begins with \<open>$\<close> is the
  value of another property of the same file, which is looked up from the start.
\<close>

partial_function (option) read_property ::
  "string list \<Rightarrow> string list \<Rightarrow> string \<Rightarrow> string \<Rightarrow> (bool \<times> string) option" where
  "read_property all rest property propertyValue =
     (if rest = [] then Some (False, propertyValue)
      else if property_line property (hd rest) then
        (if property_content (hd rest) \<noteq> [] \<and> hd (property_content (hd rest)) = CHR ''$'' then
           Option.bind (read_property all all (tl (property_content (hd rest))) [])
             (\<lambda>(found, v). if found then Some (True, v) else read_property all (tl rest) property v)
         else Some (True, chomp (property_content (hd rest))))
      else read_property all (tl rest) property propertyValue)"

definition readPropertyFromFile :: "files \<Rightarrow> string \<Rightarrow> string \<Rightarrow> (bool \<times> string) option" where
  "readPropertyFromFile F filename property =
     (case open_read F filename of
        None \<Rightarrow> Some (False, [])
      | Some s \<Rightarrow> read_property (file_lines s) (file_lines s) property [])"

section \<open>Expansion\<close>

text \<open>
  A step of the loop of \<open>ExpandPropertiesInString\<close>: \<open>consumed\<close> is the input before a \<open>$\<close>, \<open>after\<close>
  what follows it. The string built so far is assigned anew from the input in every step, so what
  the step before appended to it is lost.
\<close>

function expand_from ::
  "(string \<Rightarrow> (bool \<times> string) option) \<Rightarrow> string \<Rightarrow> string \<Rightarrow> (bool \<times> string) option" where
  "expand_from lookup consumed after =
     (let expandedString = consumed;
          variable = takeWhile (\<lambda>c. c \<notin> set '' /'') after;
          delimited = dropWhile (\<lambda>c. c \<notin> set '' /'') after
      in case (if delimited \<noteq> [] then lookup variable else Some (True, [])) of
           None \<Rightarrow> None
         | Some (found, tempPropertyValue) \<Rightarrow>
             if \<not> found then Some (False, expandedString)
             else
               let endPos = (if delimited \<noteq> [] then delimited else after);
                   expandedString1 = (if delimited \<noteq> [] then expandedString @ tempPropertyValue
                                      else expandedString)
               in case dropWhile (\<lambda>c. c \<noteq> CHR ''$'') endPos of
                    [] \<Rightarrow> Some (True, expandedString1 @ endPos)
                  | d # after' \<Rightarrow>
                      expand_from lookup (consumed @ ''$'' @ take (length after - length (d # after')) after)
                        after')"
  by pat_completeness auto
termination
proof (relation "measure (\<lambda>(l, c, a). length a)", simp, goal_cases)
  case (1 lookup consumed after x xa xb r found v)
  have suffix: "length (dropWhile (\<lambda>c. c \<notin> set '' /'') after) \<le> length after" by (rule length_dropWhile_le)
  show ?case
    using 1 suffix by (auto split: if_splits dest!: length_dropWhile_less)
qed

declare expand_from.simps [simp del]

definition ExpandPropertiesInString ::
  "files \<Rightarrow> string \<Rightarrow> string \<Rightarrow> string \<Rightarrow> (bool \<times> string) option" where
  "ExpandPropertiesInString F input filePath expandedString =
     (case dropWhile (\<lambda>c. c \<noteq> CHR ''$'') input of
        [] \<Rightarrow> Some (True, expandedString)
      | d # after \<Rightarrow>
          expand_from (readPropertyFromFile F filePath) (takeWhile (\<lambda>c. c \<noteq> CHR ''$'') input) after)"

section \<open>Searching\<close>

record fs_env =
  fe_readdir :: "string \<Rightarrow> string list option"
  fe_access :: "string \<Rightarrow> bool"
  fe_regex_search :: "string \<Rightarrow> string \<Rightarrow> bool"

text \<open>A pattern with \<open>*\<close> and \<open>?\<close> as a regular expression.\<close>

definition glob_pattern :: "string \<Rightarrow> string" where
  "glob_pattern currentPath =
     replaceString
       (replaceString currentPath ''*'' (''[^'' @ [CHR 0x5C] @ ''n]*''))
       ''?'' (''[^'' @ [CHR 0x5C] @ ''n]{1}'')"

text \<open>
  The loop over a directory at the last level. \<open>inputPath\<close> is extended by every name that matches,
  and not taken back.
\<close>

fun search_last ::
  "fs_env \<Rightarrow> string \<Rightarrow> string list \<Rightarrow> string list \<Rightarrow> string \<Rightarrow> string \<Rightarrow> nat \<Rightarrow> string" where
  "search_last E pattern exclusions [] inputPath result count = result"
| "search_last E pattern exclusions (fileName # entries) inputPath result count =
     (if fileName = ''.'' \<or> fileName = ''..'' then
        search_last E pattern exclusions entries inputPath result count
      else if fe_regex_search E pattern fileName \<and> fileName \<notin> set exclusions then
        let inputPath1 = inputPath @ fileName in
        if fe_access E inputPath1 then
          let result1 = result @ inputPath1 @ [CHR 0x0A]; count1 = count + 1
          in if count1 \<ge> 10 then result1
             else search_last E pattern exclusions entries inputPath1 result1 count1
        else search_last E pattern exclusions entries inputPath1 result count
      else search_last E pattern exclusions entries inputPath result count)"

text \<open>The loop at a level above: \<open>rec\<close> searches the next level in the path list it is given.\<close>

fun search_level ::
  "fs_env \<Rightarrow> (string list \<Rightarrow> string \<Rightarrow> bool \<times> string list \<times> string) \<Rightarrow> nat \<Rightarrow> string \<Rightarrow> string list
   \<Rightarrow> string list \<Rightarrow> string list \<Rightarrow> string \<Rightarrow> string list \<times> string" where
  "search_level E rec currentDepth pattern exclusions [] pathList result = (pathList, result)"
| "search_level E rec currentDepth pattern exclusions (fileName # entries) pathList result =
     (if fileName = ''.'' \<or> fileName = ''..'' then
        search_level E rec currentDepth pattern exclusions entries pathList result
      else if fe_regex_search E pattern fileName \<and> fileName \<notin> set exclusions then
        (let (ok, pathList1, result1) = rec (pathList[currentDepth := fileName]) result
         in search_level E rec currentDepth pattern exclusions entries pathList1 result1)
      else search_level E rec currentDepth pattern exclusions entries pathList result)"

definition path_prefix :: "string list \<Rightarrow> nat \<Rightarrow> string" where
  "path_prefix pathList currentDepth = ''/'' @ concat (map (\<lambda>n. pathList ! n @ ''/'') [0..<currentDepth])"

text \<open>
  \<open>levels\<close> is the number of levels below \<open>currentDepth\<close>. The path list is changed in place: a
  pattern is replaced by the names it matched.
\<close>

fun searchFilesRec ::
  "fs_env \<Rightarrow> string list \<Rightarrow> nat \<Rightarrow> string list \<Rightarrow> string \<Rightarrow> bool \<times> string list \<times> string" where
  "searchFilesRec E exclusions levels pathList result =
     (let currentDepth = length pathList - 1 - levels;
          inputPath = path_prefix pathList currentDepth;
          currentPath = pathList ! currentDepth
      in if CHR ''*'' \<in> set currentPath \<or> CHR ''?'' \<in> set currentPath then
           (case fe_readdir E inputPath of
              None \<Rightarrow> (False, pathList, result)
            | Some entries \<Rightarrow>
                (case levels of
                   0 \<Rightarrow> (True, pathList,
                         search_last E (glob_pattern currentPath) exclusions entries inputPath result 0)
                 | Suc l \<Rightarrow>
                     (let (pathList1, result1) =
                        search_level E (searchFilesRec E exclusions l) currentDepth
                          (glob_pattern currentPath) exclusions entries pathList result
                      in (True, pathList1, result1))))
         else
           (case levels of
              0 \<Rightarrow> (True, pathList,
                    if fe_access E (inputPath @ currentPath) then result @ inputPath @ currentPath @ [CHR 0x0A]
                    else result)
            | Suc l \<Rightarrow> (let (ok, pathList1, result1) = searchFilesRec E exclusions l pathList result
                       in (True, pathList1, result1))))"

definition searchFiles :: "fs_env \<Rightarrow> string \<Rightarrow> string list \<Rightarrow> string \<Rightarrow> bool \<times> string" where
  "searchFiles E inputPath exclusions result =
     (let pathList = tl (split [] inputPath ''/'') in
      if pathList = [] then (False, result)
      else (let (ok, pathList1, result1) = searchFilesRec E exclusions (length pathList - 1) pathList result
            in (ok, result1)))"

section \<open>Moving a file\<close>

text \<open>
  Source and destination are their contents, \<open>None\<close> if there is no such file. The \<open>k\<close>-th write of
  \<open>len\<close> bytes writes \<open>mv_Write k len\<close> of them, at most \<open>len\<close>; 0 is a failure. The \<open>r\<close>-th read, with
  \<open>len\<close> bytes left, gives \<open>mv_Read r len\<close> of them, at most \<open>len\<close> and at most the 1024 of the buffer;
  0 is the end of the file or a failure.
\<close>

record mv_env =
  mv_Open :: bool
  mv_Create :: bool
  mv_Read :: "nat \<Rightarrow> nat \<Rightarrow> nat"
  mv_Write :: "nat \<Rightarrow> nat \<Rightarrow> nat"

text \<open>The inner loop: the number of writes so far, what was written, and whether all of it was.\<close>

function write_all :: "mv_env \<Rightarrow> nat \<Rightarrow> u8 list \<Rightarrow> u8 list \<Rightarrow> bool \<times> nat \<times> u8 list" where
  "write_all E k ptr out =
     (let count = min (mv_Write E k (length ptr)) (length ptr) in
      if count = 0 then (False, k + 1, out)
      else if drop count ptr = [] then (True, k + 1, out @ take count ptr)
      else write_all E (k + 1) (drop count ptr) (out @ take count ptr))"
  by pat_completeness auto
termination
  by (relation "measure (\<lambda>(E, k, p, out). length p)") auto

declare write_all.simps [simp del]

function copy_all :: "mv_env \<Rightarrow> nat \<Rightarrow> nat \<Rightarrow> u8 list \<Rightarrow> u8 list \<Rightarrow> bool \<times> u8 list" where
  "copy_all E r k source out =
     (let len = min (mv_Read E r (length source)) (min 1024 (length source)) in
      if len = 0 then (True, out)
      else (let (ok, k1, out1) = write_all E k (take len source) out
            in if ok then copy_all E (r + 1) k1 (drop len source) out1 else (False, out1)))"
  by pat_completeness auto
termination
  by (relation "measure (\<lambda>(E, r, k, s, out). length s)") auto

declare copy_all.simps [simp del]

definition MoveFile ::
  "mv_env \<Rightarrow> u8 list option \<Rightarrow> u8 list option \<Rightarrow> bool \<times> u8 list option \<times> u8 list option" where
  "MoveFile E from to =
     (if from \<noteq> None \<and> to = None \<and> mv_Open E then
        (if mv_Create E then
           (let (result, out) = copy_all E 0 0 (the from) []
            in if result then (True, None, Some out) else (False, from, None))
         else (False, from, to))
      else (False, from, to))"

section \<open>Looking up properties\<close>

definition is_reference :: "string \<Rightarrow> bool" where
  "is_reference line = (property_content line \<noteq> [] \<and> hd (property_content line) = CHR ''$'')"

definition referenced :: "string \<Rightarrow> string" where
  "referenced line = tl (property_content line)"

text \<open>A rank of property names that every reference of the file decreases; and a set of names all
  whose lines refer to the set.\<close>

definition ranked :: "(string \<Rightarrow> nat) \<Rightarrow> string list \<Rightarrow> bool" where
  "ranked r lines = (\<forall>line \<in> set lines. \<forall>p. property_line p line \<longrightarrow> is_reference line \<longrightarrow> r (referenced line) < r p)"

definition cyclic :: "string set \<Rightarrow> string list \<Rightarrow> bool" where
  "cyclic P lines = (\<forall>p \<in> P. (\<exists>line \<in> set lines. property_line p line)
     \<and> (\<forall>line \<in> set lines. property_line p line \<longrightarrow> is_reference line \<and> referenced line \<in> P))"

lemma read_property_returns:
  assumes "ranked r all"
  shows "set rest \<subseteq> set all \<Longrightarrow> \<exists>res. read_property all rest p v = Some res"
proof (induction "r p" arbitrary: p rest v rule: less_induct)
  case less
  note outer = less.hyps
  show ?case
    using less.prems
  proof (induction rest arbitrary: v)
    case Nil
    have "read_property all [] p v = Some (False, v)" by (subst read_property.simps) simp
    then show ?case by blast
  next
    case (Cons line rest)
    have IH: "\<exists>res. read_property all rest p v' = Some res" for v' using Cons by simp
    show ?case
    proof (cases "property_line p line \<and> is_reference line")
      case True
      then have "r (referenced line) < r p" using assms Cons.prems by (auto simp: ranked_def)
      then obtain b w where "read_property all all (referenced line) [] = Some (b, w)"
        using outer by fastforce
      then show ?thesis
        using True IH [of w]
        by (subst read_property.simps) (cases b; auto simp: is_reference_def referenced_def)
    next
      case False
      then show ?thesis
        using IH [of v] by (subst read_property.simps) (auto simp: is_reference_def)
    qed
  qed
qed

lemma read_property_diverges:
  assumes "cyclic P all" "read_property al rest p v = Some y"
  shows "\<not> (al = all \<and> set rest \<subseteq> set all \<and> p \<in> P \<and> (\<exists>line \<in> set rest. property_line p line))"
  using assms(2)
proof (rule read_property.raw_induct [rotated, where P = "\<lambda>al rest p v y.
    \<not> (al = all \<and> set rest \<subseteq> set all \<and> p \<in> P \<and> (\<exists>line \<in> set rest. property_line p line))"])
  fix rec :: "string list \<Rightarrow> string list \<Rightarrow> string \<Rightarrow> string \<Rightarrow> (bool \<times> string) option" and al rest p v y
  assume IH: "\<And>al rest p v y. rec al rest p v = Some y \<Longrightarrow>
      \<not> (al = all \<and> set rest \<subseteq> set all \<and> p \<in> P \<and> (\<exists>line \<in> set rest. property_line p line))"
    and step: "(if rest = [] then Some (False, v)
      else if property_line p (hd rest) then
        (if property_content (hd rest) \<noteq> [] \<and> hd (property_content (hd rest)) = CHR ''$'' then
           Option.bind (rec al al (tl (property_content (hd rest))) [])
             (\<lambda>(found, v). if found then Some (True, v) else rec al (tl rest) p v)
         else Some (True, chomp (property_content (hd rest))))
      else rec al (tl rest) p v) = Some y"
  show "\<not> (al = all \<and> set rest \<subseteq> set all \<and> p \<in> P \<and> (\<exists>line \<in> set rest. property_line p line))"
  proof
    assume *: "al = all \<and> set rest \<subseteq> set all \<and> p \<in> P \<and> (\<exists>line \<in> set rest. property_line p line)"
    then obtain line rest' where rest: "rest = line # rest'" by (cases rest) auto
    show False
    proof (cases "property_line p line")
      case True
      then have ref: "is_reference line" "referenced line \<in> P"
        using assms(1) * rest by (auto simp: cyclic_def)
      then have "\<exists>l \<in> set all. property_line (referenced line) l" using assms(1) by (simp add: cyclic_def)
      then have "rec all all (referenced line) [] = None"
        using IH ref(2) by (metis not_None_eq subset_refl)
      then show False
        using step True ref(1) rest * by (simp add: is_reference_def referenced_def)
    next
      case False
      then have "rec al rest' p v = Some y" using step rest by simp
      then show False using IH * rest False by fastforce
    qed
  qed
qed

text \<open>
  C38. Reading a property ends if the references between the properties of the file decrease some
  rank, and never ends for a property whose every definition refers into a cycle.
\<close>

theorem property_lookup_ends:
  assumes "open_read F f = Some s"
  shows "(ranked r (file_lines s) \<longrightarrow> (\<exists>found v. readPropertyFromFile F f p = Some (found, v)))
    \<and> (cyclic P (file_lines s) \<and> p \<in> P \<longrightarrow> readPropertyFromFile F f p = None)"
proof -
  have "\<exists>found v. readPropertyFromFile F f p = Some (found, v)" if "ranked r (file_lines s)"
    using read_property_returns [OF that subset_refl, of p "[]"] assms
    by (auto simp: readPropertyFromFile_def)
  moreover have "readPropertyFromFile F f p = None" if c: "cyclic P (file_lines s)" "p \<in> P"
  proof -
    have "\<exists>line \<in> set (file_lines s). property_line p line" using c by (simp add: cyclic_def)
    then have "read_property (file_lines s) (file_lines s) p [] \<noteq> Some y" for y
      using read_property_diverges [OF c(1), of "file_lines s" "file_lines s" p "[]" y] c(2) by blast
    then have "read_property (file_lines s) (file_lines s) p [] = None"
      by (metis not_None_eq)
    then show ?thesis using assms by (simp add: readPropertyFromFile_def)
  qed
  ultimately show ?thesis by blast
qed

definition example_properties :: string where
  "example_properties = ''BASE=/opt'' @ [CHR 0x0A] @ ''LOG=$BASE'' @ [CHR 0x0A] @ ''A=$B'' @ [CHR 0x0A] @ ''B=$A'' @ [CHR 0x0A]"

lemma example_properties_lines:
  "file_lines example_properties = [''BASE=/opt'', ''LOG=$BASE'', ''A=$B'', ''B=$A'']"
  by (simp add: example_properties_def file_lines_def)

theorem property_lookup_ends_witness:
  "readPropertyFromFile (\<lambda>_. ReadOnly example_properties) ''f'' ''A'' = None
   \<and> (\<exists>found v. readPropertyFromFile (\<lambda>_. ReadOnly (''LOG=$BASE'' @ [CHR 0x0A])) ''f'' ''LOG'' = Some (found, v))"
proof -
  have "cyclic {''A'', ''B''} (file_lines example_properties)"
    by (simp add: cyclic_def example_properties_lines property_line_def is_reference_def referenced_def
        property_content_def)
  moreover have "file_lines (''LOG=$BASE'' @ [CHR 0x0A]) = [''LOG=$BASE'']" by (simp add: file_lines_def)
  moreover have "ranked (\<lambda>p. if p = ''BASE'' then 0 else 1) [''LOG=$BASE'']"
    by (auto simp: ranked_def property_line_def referenced_def property_content_def find_str_zero is_prefix_iff
        append_eq_Cons_conv)
  ultimately show ?thesis
    using property_lookup_ends [of "\<lambda>_. ReadOnly example_properties" "''f''" example_properties _ "''A''" "{''A'', ''B''}"]
      property_lookup_ends [of "\<lambda>_. ReadOnly (''LOG=$BASE'' @ [CHR 0x0A])" "''f''" "''LOG=$BASE'' @ [CHR 0x0A]"
        "\<lambda>p. if p = ''BASE'' then 0 else 1" "''LOG''" "{}"]
    by (simp add: open_read_def)
qed

section \<open>Expanding and moving\<close>

text \<open>
  Two variables in a string: the first is looked up, and then its value is dropped, because the
  second step assigns the result anew from the input.
\<close>

lemma find_step:
  "CHR ''$'' \<notin> set a \<Longrightarrow> dropWhile (\<lambda>c. c \<noteq> CHR ''$'') (a @ ''$'' @ b) = ''$'' @ b"
  "CHR ''$'' \<notin> set a \<Longrightarrow> takeWhile (\<lambda>c. c \<noteq> CHR ''$'') (a @ ''$'' @ b) = a"
  by (induction a) auto

lemma no_dollar:
  "CHR ''$'' \<notin> set a \<Longrightarrow> dropWhile (\<lambda>c. c \<noteq> CHR ''$'') a = []"
  "CHR ''$'' \<notin> set a \<Longrightarrow> takeWhile (\<lambda>c. c \<noteq> CHR ''$'') a = a"
  by (auto simp: dropWhile_eq_Nil_conv takeWhile_eq_all_conv)

lemma split_variable:
  assumes "\<forall>c \<in> set v. c \<notin> set '' /''" "d \<in> set '' /''"
  shows "takeWhile (\<lambda>c. c \<notin> set '' /'') (v @ d # rest) = v"
    "dropWhile (\<lambda>c. c \<notin> set '' /'') (v @ d # rest) = d # rest"
  using assms by (auto simp: dropWhile_append3 takeWhile_append2)

lemma expand_last:
  assumes "\<forall>c \<in> set v. c \<notin> set '' /''" "d \<in> set '' /''" "CHR ''$'' \<notin> set (d # rest)" "lookup v = Some (True, value)"
  shows "expand_from lookup pre (v @ d # rest) = Some (True, pre @ value @ d # rest)"
proof -
  have "d \<noteq> CHR ''$''" "dropWhile (\<lambda>c. c \<noteq> CHR ''$'') rest = []" using assms(3) by auto
  then show ?thesis
    by (subst expand_from.simps)
      (simp add: split_variable [OF assms(1,2)] assms(4) Let_def del: set_simps dropWhile_eq_Nil_conv)
qed

lemma expand_two:
  assumes "\<forall>c \<in> set v. c \<notin> set '' /''" "d \<in> set '' /''" "CHR ''$'' \<notin> set (d # mid)" "lookup v = Some (True, value)"
  shows "expand_from lookup pre (v @ d # mid @ ''$'' @ after) = expand_from lookup (pre @ ''$'' @ v @ d # mid) after"
proof -
  have "dropWhile (\<lambda>c. c \<noteq> CHR ''$'') (d # mid @ ''$'' @ after) = ''$'' @ after"
    using find_step(1) [OF assms(3), of after] by simp
  then show ?thesis
    by (subst expand_from.simps)
      (simp add: split_variable [OF assms(1,2)] assms(4) Let_def del: set_simps)
qed

text \<open>
  A string with one delimited variable is expanded; of two variables the first keeps its name.
\<close>

theorem expand_one_variable:
  assumes "CHR ''$'' \<notin> set pre" "\<forall>c \<in> set v. c \<notin> set '' /$''" "d \<in> set '' /''" "CHR ''$'' \<notin> set rest"
    "readPropertyFromFile F f v = Some (True, value)"
  shows "ExpandPropertiesInString F (pre @ ''$'' @ v @ d # rest) f e = Some (True, pre @ value @ d # rest)"
proof -
  have "expand_from (readPropertyFromFile F f) pre (v @ d # rest) = Some (True, pre @ value @ d # rest)"
    using assms by (intro expand_last) auto
  then show ?thesis using find_step [OF assms(1), of "v @ d # rest"] by (simp add: ExpandPropertiesInString_def)
qed

theorem expand_two_variables:
  assumes "CHR ''$'' \<notin> set pre" "\<forall>c \<in> set v. c \<notin> set '' /$''" "d \<in> set '' /''" "CHR ''$'' \<notin> set mid"
    "\<forall>c \<in> set w. c \<notin> set '' /$''" "d' \<in> set '' /''" "CHR ''$'' \<notin> set rest"
    "readPropertyFromFile F f v = Some (True, value)" "readPropertyFromFile F f w = Some (True, value')"
  shows "ExpandPropertiesInString F (pre @ ''$'' @ v @ d # mid @ ''$'' @ w @ d' # rest) f e
    = Some (True, pre @ ''$'' @ v @ d # mid @ value' @ d' # rest)"
proof -
  let ?l = "readPropertyFromFile F f"
  have "expand_from ?l pre (v @ d # mid @ ''$'' @ w @ d' # rest) = expand_from ?l (pre @ ''$'' @ v @ d # mid) (w @ d' # rest)"
    using assms by (intro expand_two) auto
  also have "\<dots> = Some (True, (pre @ ''$'' @ v @ d # mid) @ value' @ d' # rest)"
    using assms by (intro expand_last) auto
  finally show ?thesis
    using find_step [OF assms(1), of "v @ d # mid @ ''$'' @ w @ d' # rest"] by (simp add: ExpandPropertiesInString_def)
qed

lemma write_all_result:
  "write_all E k p out = (ok, k', out') \<Longrightarrow> p \<noteq> [] \<Longrightarrow> ok \<Longrightarrow> out' = out @ p"
proof (induction E k p out arbitrary: ok k' out' rule: write_all.induct)
  case (1 E k ptr out)
  let ?n = "min (mv_Write E k (length ptr)) (length ptr)"
  have step: "write_all E k ptr out =
    (if ?n = 0 then (False, k + 1, out)
     else if drop ?n ptr = [] then (True, k + 1, out @ take ?n ptr)
     else write_all E (k + 1) (drop ?n ptr) (out @ take ?n ptr))"
    by (subst write_all.simps) (simp only: Let_def)
  consider "?n = 0" | "?n \<noteq> 0" "drop ?n ptr = []" | "?n \<noteq> 0" "drop ?n ptr \<noteq> []" by blast
  then show ?case
  proof cases
    case 3
    then have "write_all E (k + 1) (drop ?n ptr) (out @ take ?n ptr) = (ok, k', out')"
      using 1(2) step by simp
    then have "out' = (out @ take ?n ptr) @ drop ?n ptr"
      using 1(1) [OF refl 3 _ 3(2) 1(4)] by blast
    then show ?thesis by simp
  qed (use 1(2,4) step in auto)
qed

lemma copy_all_result:
  "copy_all E r k s out = (ok, out') \<Longrightarrow> ok \<Longrightarrow>
    \<exists>n. out' = out @ take n s \<and> ((\<forall>r n. 0 < n \<longrightarrow> 0 < mv_Read E r n) \<longrightarrow> take n s = s)"
proof (induction E r k s out arbitrary: ok out' rule: copy_all.induct)
  case (1 E r k s out)
  let ?n = "min (mv_Read E r (length s)) (min 1024 (length s))"
  have step: "copy_all E r k s out =
    (if ?n = 0 then (True, out)
     else (let (ok, k1, out1) = write_all E k (take ?n s) out
           in if ok then copy_all E (r + 1) k1 (drop ?n s) out1 else (False, out1)))"
    by (subst copy_all.simps) (simp only: Let_def)
  show ?case
  proof (cases "?n = 0")
    case True
    then have "out' = out @ take 0 s" "(\<forall>r n. 0 < n \<longrightarrow> 0 < mv_Read E r n) \<longrightarrow> take 0 s = s"
      using 1(2) step by (cases s; auto simp: min_def split: if_splits)+
    then show ?thesis by blast
  next
    case False
    obtain ok1 k1 out1 where w: "write_all E k (take ?n s) out = (ok1, k1, out1)" by (rule prod_cases3)
    then have ok1: ok1 and rest: "copy_all E (r + 1) k1 (drop ?n s) out1 = (ok, out')"
      using 1(2,3) step False by (auto split: if_splits)
    have out1: "out1 = out @ take ?n s" using write_all_result [OF w _ ok1] False by auto
    obtain m where m: "out' = out1 @ take m (drop ?n s)"
      "(\<forall>r n. 0 < n \<longrightarrow> 0 < mv_Read E r n) \<longrightarrow> take m (drop ?n s) = drop ?n s"
      using 1(1) [OF refl False w [symmetric] refl refl ok1 rest 1(3)] by blast
    have "take ?n s @ take m (drop ?n s) = take (?n + m) s" by (simp only: take_add)
    then show ?thesis using m out1 by (metis append.assoc append_take_drop_id)
  qed
qed

text \<open>
  A move that fails leaves both files as they were. One that succeeds had no destination before,
  removes the source and leaves a prefix of it at the destination, all of it if no read fails.
\<close>

theorem move_file_atomic:
  assumes "MoveFile E from to = (moved, from', to')"
  shows "(\<not> moved \<longrightarrow> from' = from \<and> to' = to)
    \<and> (moved \<longrightarrow> (\<exists>s n. from = Some s \<and> to = None \<and> from' = None \<and> to' = Some (take n s)
         \<and> ((\<forall>r n. 0 < n \<longrightarrow> 0 < mv_Read E r n) \<longrightarrow> to' = from)))"
proof (cases "from \<noteq> None \<and> to = None \<and> mv_Open E \<and> mv_Create E")
  case True
  obtain ok out where c: "copy_all E 0 0 (the from) [] = (ok, out)" by (rule prod.exhaust)
  show ?thesis
  proof (cases ok)
    case True': True
    obtain n where n: "out = take n (the from)"
      "(\<forall>r n. 0 < n \<longrightarrow> 0 < mv_Read E r n) \<longrightarrow> take n (the from) = the from"
      using copy_all_result [OF c True'] by auto
    then show ?thesis using assms True True' c by (auto simp: MoveFile_def) (metis take_all order_refl)+
  next
    case False
    then show ?thesis using assms True c by (auto simp: MoveFile_def)
  qed
next
  case False
  then show ?thesis using assms by (auto simp: MoveFile_def split: if_splits)
qed

text \<open>A read that fails in the middle is taken for the end of the file, and the source is destroyed.\<close>

theorem move_loses_data:
  "MoveFile \<lparr>mv_Open = True, mv_Create = True, mv_Read = (\<lambda>r n. 0), mv_Write = (\<lambda>k n. n)\<rparr> (Some s) None
    = (True, None, Some [])"
  by (simp add: MoveFile_def copy_all.simps)

theorem move_file_atomic_witness:
  "\<exists>to'. MoveFile \<lparr>mv_Open = True, mv_Create = True, mv_Read = (\<lambda>r n. n), mv_Write = (\<lambda>k n. 1)\<rparr> (Some [1, 2, 3]) None
     = (True, None, to') \<and> to' = Some [1, 2, 3]"
proof -
  let ?E = "\<lparr>mv_Open = True, mv_Create = True, mv_Read = (\<lambda>r n. n), mv_Write = (\<lambda>k n. 1)\<rparr>"
  have "MoveFile ?E (Some [1, 2, 3]) None = (True, None, Some [1, 2, 3])"
    by (simp add: MoveFile_def copy_all.simps write_all.simps)
  from move_file_atomic [OF this] this show ?thesis by blast
qed

end
