(* ===== verification/Json.thy ===== *)
theory Json imports CLib "HOL-Library.AList" begin

text \<open>
  JSON values and parameters as the plugins use them, the parameter macros of \<open>helpers/UtilsJsonRpc.h\<close>,
  and the conversions between numbers and texts.

  A request is the list of its members; reading a member that is not there gives an empty value. The
  text of an array or object is not used by the sources and is empty here.
\<close>

section \<open>Numbers and texts\<close>

function nat_to_string :: "nat \<Rightarrow> string" where
  "nat_to_string n = (if n < 10 then [char_of (48 + n)] else nat_to_string (n div 10) @ [char_of (48 + n mod 10)])"
  by pat_completeness auto
termination by (relation "measure id") auto

declare nat_to_string.simps [simp del]

definition to_string_int :: "int \<Rightarrow> string" where
  "to_string_int n = (if n < 0 then ''-'' @ nat_to_string (nat (- n)) else nat_to_string (nat n))"

lemma nat_to_string_digits: "nat_to_string n \<noteq> [] \<and> (\<forall>c \<in> set (nat_to_string n). c_isdigit c)"
proof (induction n rule: nat_to_string.induct)
  case (1 n)
  have d: "c_isdigit (char_of (48 + k))" if "k < 10" for k :: nat
    using that by (simp add: c_isdigit_def ascii_char_of)
  show ?case
  proof (cases "n < 10")
    case True
    then show ?thesis using d by (subst nat_to_string.simps, simp)+
  next
    case False
    then show ?thesis using 1 d [of "n mod 10"] by (subst nat_to_string.simps, simp)+
  qed
qed

lemma digits_val_append: "\<forall>c \<in> set s. c_isdigit c \<Longrightarrow> digits_val acc (s @ t) = digits_val (digits_val acc s) t"
  by (induction s arbitrary: acc) auto

lemma digits_val_nat_to_string: "digits_val 0 (nat_to_string n) = int n"
proof (induction n rule: nat_to_string.induct)
  case (1 n)
  show ?case
  proof (cases "n < 10")
    case True
    then show ?thesis by (subst nat_to_string.simps) (simp add: c_isdigit_def ascii_char_of)
  next
    case False
    then have "digits_val 0 (nat_to_string (n div 10)) = int (n div 10)" using 1 by simp
    then show ?thesis
      using False nat_to_string_digits [of "n div 10"]
      by (subst nat_to_string.simps) (simp add: digits_val_append c_isdigit_def ascii_char_of zdiv_int zmod_int)
  qed
qed

text \<open>\<open>std::stoi\<close>: \<open>None\<close> is an exception, without digits or out of the range of an \<open>int\<close>.\<close>

definition stoi :: "string \<Rightarrow> int option" where
  "stoi s =
     (let t = dropWhile c_isspace s;
          (neg, u) = (case t of
             [] \<Rightarrow> (False, [])
           | c # cs \<Rightarrow> if c = CHR ''-'' then (True, cs) else if c = CHR ''+'' then (False, cs) else (False, t));
          n = (if neg then - digits_val 0 u else digits_val 0 u)
      in if u = [] \<or> \<not> c_isdigit (hd u) then None else if c_int n then Some n else None)"

definition to_int32 :: "int \<Rightarrow> int" where
  "to_int32 n = sint (word_of_int n :: u32)"

lemma to_int32_id: "c_int n \<Longrightarrow> to_int32 n = n"
  by (simp add: to_int32_def int_word_sint c_int_def)

lemma c_int_to_int32: "c_int (to_int32 n)"
  unfolding to_int32_def by (rule c_int_sint)

lemma not_digit_signs: "\<not> c_isdigit CHR ''-''" "\<not> c_isdigit CHR ''+''" "\<not> c_isspace CHR ''-''" "c_isdigit c \<Longrightarrow> \<not> c_isspace c"
  by (auto simp: c_isdigit_def c_isspace_def ascii_def)

lemma stoi_to_string: "c_int n \<Longrightarrow> stoi (to_string_int n) = Some n"
proof -
  assume n: "c_int n"
  obtain c cs where c: "nat_to_string (nat \<bar>n\<bar>) = c # cs" "c_isdigit c"
    using nat_to_string_digits [of "nat \<bar>n\<bar>"] by (cases "nat_to_string (nat \<bar>n\<bar>)") auto
  then have "c \<noteq> CHR ''-''" "c \<noteq> CHR ''+''" "\<not> c_isspace c" using not_digit_signs by auto
  moreover have "digits_val 0 (c # cs) = \<bar>n\<bar>" using digits_val_nat_to_string [of "nat \<bar>n\<bar>"] c by simp
  ultimately show ?thesis
    using c n not_digit_signs(3) by (cases "n < 0") (simp_all add: stoi_def to_string_int_def)
qed

section \<open>Values\<close>

datatype json =
    JNull
  | JString string
  | JNumber int
  | JBool bool
  | JArray "json list"
  | JObject "(string \<times> json) list"

fun json_String :: "json \<Rightarrow> string" where
  "json_String (JString s) = s"
| "json_String (JNumber n) = to_string_int n"
| "json_String (JBool b) = (if b then ''true'' else ''false'')"
| "json_String _ = []"

type_synonym json_params = "(string \<times> json) list"

definition HasLabel :: "json_params \<Rightarrow> string \<Rightarrow> bool" where
  "HasLabel parameters name = (map_of parameters name \<noteq> None)"

definition member :: "json_params \<Rightarrow> string \<Rightarrow> json" where
  "member parameters name = (case map_of parameters name of Some v \<Rightarrow> v | None \<Rightarrow> JNull)"

definition member_String :: "json_params \<Rightarrow> string \<Rightarrow> string" where
  "member_String parameters name = json_String (member parameters name)"

text \<open>Writing a member: \<open>object[name] = v\<close>.\<close>

definition set_member :: "string \<Rightarrow> json \<Rightarrow> json_params \<Rightarrow> json_params" where
  "set_member name v ps = AList.update name v ps"

lemma map_of_set_member: "map_of (set_member name v ps) = (map_of ps)(name \<mapsto> v)"
  by (simp add: set_member_def update_conv')

lemma member_set_member [simp]: "member (set_member name v ps) k = (if k = name then v else member ps k)"
  by (simp add: member_def map_of_set_member)

text \<open>
  The conversions of the framework for values of another type than the one asked for: a number, a
  truth value, an object, an array. Values of that type are themselves.
\<close>

record variant =
  vr_Number :: "json \<Rightarrow> int"
  vr_Boolean :: "json \<Rightarrow> bool"
  vr_Object :: "json \<Rightarrow> json_params"
  vr_Array :: "json \<Rightarrow> json list"

definition variant_Number :: "variant \<Rightarrow> json \<Rightarrow> int" where
  "variant_Number V v = (case v of JNumber n \<Rightarrow> n | _ \<Rightarrow> vr_Number V v)"

definition variant_Boolean :: "variant \<Rightarrow> json \<Rightarrow> bool" where
  "variant_Boolean V v = (case v of JBool b \<Rightarrow> b | _ \<Rightarrow> vr_Boolean V v)"

definition variant_Object :: "variant \<Rightarrow> json \<Rightarrow> json_params" where
  "variant_Object V v = (case v of JObject ps \<Rightarrow> ps | _ \<Rightarrow> vr_Object V v)"

definition variant_Array :: "variant \<Rightarrow> json \<Rightarrow> json list" where
  "variant_Array V v = (case v of JArray vs \<Rightarrow> vs | _ \<Rightarrow> vr_Array V v)"

section \<open>The macros\<close>

definition getNumberParameterObject :: "json_params \<Rightarrow> string \<Rightarrow> int" where
  "getNumberParameterObject parameters name =
     (case member parameters name of
        JNumber n \<Rightarrow> to_int32 n
      | v \<Rightarrow> (case stoi (json_String v) of Some n \<Rightarrow> n | None \<Rightarrow> 0))"

definition getDefaultNumberParameter :: "json_params \<Rightarrow> string \<Rightarrow> int \<Rightarrow> int" where
  "getDefaultNumberParameter parameters name default_value =
     (if HasLabel parameters name then
        (case member parameters name of
           JNumber n \<Rightarrow> to_int32 n
         | v \<Rightarrow> (case stoi (json_String v) of Some n \<Rightarrow> n | None \<Rightarrow> default_value))
      else default_value)"

definition getBoolParameter :: "json_params \<Rightarrow> string \<Rightarrow> bool" where
  "getBoolParameter parameters name =
     (case member parameters name of
        JBool b \<Rightarrow> b
      | v \<Rightarrow> json_String v = ''true'' \<or> json_String v = ''1'')"

definition getDefaultBoolParameter :: "json_params \<Rightarrow> string \<Rightarrow> bool \<Rightarrow> bool" where
  "getDefaultBoolParameter parameters name default_value =
     (if HasLabel parameters name then getBoolParameter parameters name else default_value)"

definition getStringParameter :: "json_params \<Rightarrow> string \<Rightarrow> string \<Rightarrow> string" where
  "getStringParameter parameters name param =
     (case member parameters name of JString s \<Rightarrow> s | _ \<Rightarrow> param)"

definition getDefaultStringParameter :: "json_params \<Rightarrow> string \<Rightarrow> string \<Rightarrow> string" where
  "getDefaultStringParameter parameters name default_value =
     (case member parameters name of JString s \<Rightarrow> s | _ \<Rightarrow> default_value)"

definition string_param :: "json_params \<Rightarrow> string \<Rightarrow> string option" where
  "string_param parameters name = (case map_of parameters name of Some (JString s) \<Rightarrow> Some s | _ \<Rightarrow> None)"

definition bool_param :: "json_params \<Rightarrow> string \<Rightarrow> bool option" where
  "bool_param parameters name = (case map_of parameters name of Some (JBool b) \<Rightarrow> Some b | _ \<Rightarrow> None)"

definition number_param :: "json_params \<Rightarrow> string \<Rightarrow> int option" where
  "number_param parameters name = (case map_of parameters name of Some (JNumber n) \<Rightarrow> Some n | _ \<Rightarrow> None)"

text \<open>\<open>returnResponse\<close>: the status and the field of the response.\<close>

definition returnResponse :: "bool \<Rightarrow> json_params \<Rightarrow> hresult \<times> json_params" where
  "returnResponse ok response =
     (if ok then ERROR_NONE else ERROR_GENERAL, set_member ''success'' (JBool ok) response)"

text \<open>
  A number is read the same from a number and from its text; a missing one and a text that is no
  number are 0, or the default.
\<close>

lemma number_parameter:
  "c_int n \<Longrightarrow> map_of ps k = Some (JNumber n) \<or> map_of ps k = Some (JString (to_string_int n)) \<Longrightarrow>
     getNumberParameterObject ps k = n \<and> getDefaultNumberParameter ps k d = n"
  by (auto simp: getNumberParameterObject_def getDefaultNumberParameter_def member_def HasLabel_def to_int32_id stoi_to_string)

lemma stoi_range: "stoi s = Some n \<Longrightarrow> c_int n"
  by (auto simp: stoi_def Let_def split: if_splits prod.splits)

lemma number_parameter_range: "c_int (getNumberParameterObject ps k)"
  by (auto simp: getNumberParameterObject_def c_int_to_int32 stoi_range c_int_def [of 0] split: json.split option.split)

end
