(* ===== verification/ConfFiles.thy ===== *)
theory ConfFiles imports FileContent Json "HOL-Library.AList" begin

text \<open>
  Configuration files: \<open>helpers/cSettings.h\<close>, a map of settings kept in a file of \<open>key=value\<close> lines,
  and \<open>helpers/UtilsSearchRDKProfile.h\<close>, the device profile in the device properties.

  The members of the \<open>JsonObject\<close> are an association list in the order its iterator gives them; no
  claim depends on that order. A file that can be read but not opened for writing is \<open>ReadOnly\<close>.
  Keys have no null characters, at which \<open>key.c_str()\<close> would end them.
\<close>

section \<open>Settings\<close>

record cSettings =
  cs_filename :: string
  cs_data :: "(string \<times> json) list"

definition settings_put :: "string \<Rightarrow> json \<Rightarrow> cSettings \<Rightarrow> cSettings" where
  "settings_put key val c = c\<lparr>cs_data := AList.update key val (cs_data c)\<rparr>"

definition find_last_eq :: "string \<Rightarrow> nat option" where
  "find_last_eq s = map_option (\<lambda>k. length s - 1 - k) (find_char CHR ''='' (rev s))"

definition read_setting :: "string \<Rightarrow> (string \<times> json) list \<Rightarrow> (string \<times> json) list" where
  "read_setting content data =
     (case find_last_eq content of
        Some pos \<Rightarrow> AList.update (take pos content) (JString (drop (pos + 1) content)) data
      | None \<Rightarrow> data)"

text \<open>
  The loop also looks at the empty rest after the last newline, which holds no \<open>=\<close>.
\<close>

definition settings_readFromFile :: "files \<Rightarrow> cSettings \<Rightarrow> bool \<times> cSettings" where
  "settings_readFromFile F c =
     (case open_read F (cs_filename c) of
        None \<Rightarrow> (False, c)
      | Some s \<Rightarrow> (True, c\<lparr>cs_data := fold read_setting (file_lines s) (cs_data c)\<rparr>))"

definition settings_text :: "(string \<times> json) list \<Rightarrow> string" where
  "settings_text data =
     concat (map (\<lambda>(label, v). if json_String v \<noteq> [] then label @ ''='' @ json_String v @ [CHR 0x0A] else []) data)"

definition settings_writeToFile :: "cSettings \<Rightarrow> files \<Rightarrow> bool \<times> files" where
  "settings_writeToFile c F =
     (case F (cs_filename c) of
        Regular s \<Rightarrow> (True, F(cs_filename c := Regular (settings_text (cs_data c))))
      | _ \<Rightarrow> (False, F))"

text \<open>\<open>can_create\<close> tells whether the file system lets a missing file be made.\<close>

definition cSettings_ctor :: "bool \<Rightarrow> string \<Rightarrow> files \<Rightarrow> cSettings \<times> files" where
  "cSettings_ctor can_create file F =
     (let (ok, c) = settings_readFromFile F \<lparr>cs_filename = file, cs_data = []\<rparr>
      in if \<not> ok then
           (c, if can_create \<and> F file = Missing then F(file := Regular []) else F)
         else (c, F))"

definition settings_getValue :: "cSettings \<Rightarrow> string \<Rightarrow> json option" where
  "settings_getValue c key = map_of (cs_data c) key"

definition settings_setValue :: "string \<Rightarrow> json \<Rightarrow> cSettings \<Rightarrow> files \<Rightarrow> bool \<times> cSettings \<times> files" where
  "settings_setValue key val c F =
     (let c1 = settings_put key val c; (ok, F1) = settings_writeToFile c1 F in (ok, c1, F1))"

definition settings_contains :: "cSettings \<Rightarrow> string \<Rightarrow> bool" where
  "settings_contains c key =
     (case map_of (cs_data c) key of Some v \<Rightarrow> json_String v \<noteq> [] | None \<Rightarrow> False)"

definition settings_remove :: "string \<Rightarrow> cSettings \<Rightarrow> files \<Rightarrow> bool \<times> cSettings \<times> files" where
  "settings_remove key c F =
     (let c1 = settings_put key (JString []) c;
          c2 = c1\<lparr>cs_data := AList.delete key (cs_data c1)\<rparr>
      in if \<not> settings_contains c2 key then
           (let (ok, F1) = settings_writeToFile c2 F in (ok, c2, F1))
         else (False, c2, F))"

section \<open>The device profile\<close>

datatype profile_t = NOT_FOUND | STB | TV

definition searchRdkProfile :: "files \<Rightarrow> profile_t" where
  "searchRdkProfile F =
     (case open_read F ''/etc/device.properties'' of
        None \<Rightarrow> NOT_FOUND
      | Some s \<Rightarrow>
          (case map_option (drop 12) (first_chunk 255 ''RDK_PROFILE='' s) of
             None \<Rightarrow> NOT_FOUND
           | Some rdkProfile \<Rightarrow>
               if take 2 rdkProfile = ''TV'' then TV
               else if take 3 rdkProfile = ''STB'' then STB
               else NOT_FOUND))"

section \<open>What a restart reads back\<close>

text \<open>
  A key or value that survives: no newline, and no equality sign in the value, because the last one
  of the line separates the two.
\<close>

definition plain_setting :: "string \<Rightarrow> json \<Rightarrow> bool" where
  "plain_setting k v = (CHR 0x0A \<notin> set k \<and> CHR 0x0A \<notin> set (json_String v) \<and> CHR ''='' \<notin> set (json_String v))"

definition settings_ok :: "cSettings \<Rightarrow> bool" where
  "settings_ok c = (distinct (map fst (cs_data c)) \<and> (\<forall>k v. map_of (cs_data c) k = Some v \<longrightarrow> plain_setting k v))"

definition text_of :: "json option \<Rightarrow> string option" where
  "text_of v = (case v of None \<Rightarrow> None | Some v \<Rightarrow> if json_String v = [] then None else Some (json_String v))"

lemma find_last_eq_line:
  "CHR ''='' \<notin> set v \<Longrightarrow> find_last_eq (k @ ''='' @ v) = Some (length k)"
  using find_char_append [of "CHR ''=''" "rev v" "rev k"] by (simp add: find_last_eq_def)

lemma read_setting_line:
  "CHR ''='' \<notin> set v \<Longrightarrow> read_setting (k @ ''='' @ v) d = AList.update k (JString v) d"
  using find_last_eq_line [of v k] by (simp add: read_setting_def)

definition setting_lines :: "(string \<times> json) list \<Rightarrow> string list" where
  "setting_lines data = concat (map (\<lambda>(l, v). if json_String v \<noteq> [] then [l @ ''='' @ json_String v] else []) data)"

lemma settings_text_unlines: "settings_text data = unlines (setting_lines data)"
  by (induction data) (auto simp: settings_text_def setting_lines_def unlines_def)

lemma read_setting_lines:
  "distinct (map fst data) \<Longrightarrow> \<forall>(k, v) \<in> set data. plain_setting k v \<Longrightarrow>
   map_of (fold read_setting (setting_lines data) d) k =
     (case text_of (map_of data k) of Some t \<Rightarrow> Some (JString t) | None \<Rightarrow> map_of d k)"
proof (induction data arbitrary: d)
  case Nil
  then show ?case by (simp add: setting_lines_def text_of_def)
next
  case (Cons p data)
  obtain l v where p: "p = (l, v)" by (rule prod.exhaust)
  have plain: "CHR ''='' \<notin> set (json_String v)" using Cons.prems p by (simp add: plain_setting_def)
  have fresh: "map_of data l = None" using Cons.prems(1) p by (simp add: map_of_eq_None_iff)
  have lines: "setting_lines (p # data) = (if json_String v \<noteq> [] then [l @ ''='' @ json_String v] else []) @ setting_lines data"
    using p by (simp add: setting_lines_def)
  show ?case
  proof (cases "k = l")
    case True
    then show ?thesis
      using Cons.IH [of "if json_String v \<noteq> [] then AList.update l (JString (json_String v)) d else d"] Cons.prems fresh p
        read_setting_line [OF plain] lines
      by (auto simp: text_of_def update_conv')
  next
    case False
    then show ?thesis
      using Cons.IH [of "if json_String v \<noteq> [] then AList.update l (JString (json_String v)) d else d"] Cons.prems p
        read_setting_line [OF plain] lines
      by (auto simp: update_conv' split: option.split)
  qed
qed

lemma restart_reads:
  assumes "settings_ok c" "settings_writeToFile c F = (True, F')"
  shows "fst (cSettings_ctor any (cs_filename c) F') = c\<lparr>cs_data := fold read_setting (setting_lines (cs_data c)) []\<rparr>"
    and "text_of (settings_getValue (fst (cSettings_ctor any (cs_filename c) F')) k) = text_of (settings_getValue c k)"
proof -
  have plain: "\<forall>(k, v) \<in> set (cs_data c). plain_setting k v" "distinct (map fst (cs_data c))"
    using assms(1) by (auto simp: settings_ok_def)
  then have "\<forall>l \<in> set (setting_lines (cs_data c)). CHR 0x0A \<notin> set l"
    by (auto simp: setting_lines_def plain_setting_def)
  then have lines: "file_lines (settings_text (cs_data c)) = setting_lines (cs_data c)"
    by (simp add: settings_text_unlines file_lines_unlines)
  have F': "F' (cs_filename c) = Regular (settings_text (cs_data c))"
    using assms(2) by (auto simp: settings_writeToFile_def split: file_st.splits)
  then show *: "fst (cSettings_ctor any (cs_filename c) F') = c\<lparr>cs_data := fold read_setting (setting_lines (cs_data c)) []\<rparr>"
    by (simp add: cSettings_ctor_def settings_readFromFile_def open_read_def lines)
  show "text_of (settings_getValue (fst (cSettings_ctor any (cs_filename c) F')) k) = text_of (settings_getValue c k)"
    unfolding * using read_setting_lines [OF plain(2,1), of "[]" k]
    by (auto simp: settings_getValue_def text_of_def split: option.splits if_splits)
qed

datatype setting_op = OpSet string json | OpRemove string

fun setting_step :: "setting_op \<Rightarrow> cSettings \<times> files \<Rightarrow> cSettings \<times> files" where
  "setting_step (OpSet k v) (c, F) = snd (settings_setValue k v c F)"
| "setting_step (OpRemove k) (c, F) = snd (settings_remove k c F)"

fun op_plain :: "setting_op \<Rightarrow> bool" where
  "op_plain (OpSet k v) = plain_setting k v"
| "op_plain (OpRemove k) = True"

text \<open>The abstract settings: a map from keys to texts that are not empty.\<close>

fun abs_step :: "setting_op \<Rightarrow> (string \<rightharpoonup> string) \<Rightarrow> (string \<rightharpoonup> string)" where
  "abs_step (OpSet k v) m = m(k := text_of (Some v))"
| "abs_step (OpRemove k) m = m(k := None)"

definition abs_settings :: "cSettings \<Rightarrow> (string \<rightharpoonup> string)" where
  "abs_settings c = (\<lambda>k. text_of (settings_getValue c k))"

definition on_disk :: "cSettings \<Rightarrow> files \<Rightarrow> bool" where
  "on_disk c F = (\<exists>s. F (cs_filename c) = Regular s)"

definition saved :: "cSettings \<Rightarrow> files \<Rightarrow> bool" where
  "saved c F = (\<forall>any. abs_settings (fst (cSettings_ctor any (cs_filename c) F)) = abs_settings c)"

lemma settings_ok_put:
  "settings_ok c \<Longrightarrow> plain_setting k v \<Longrightarrow> settings_ok (settings_put k v c)"
  by (auto simp: settings_ok_def settings_put_def distinct_update update_conv' split: if_splits)

lemma settings_ok_remove:
  "settings_ok c \<Longrightarrow> settings_ok (c\<lparr>cs_data := AList.delete k (AList.update k v (cs_data c))\<rparr>)"
  by (auto simp: settings_ok_def distinct_delete distinct_update delete_conv' update_conv' split: if_splits)

lemma written:
  assumes "settings_ok c" "on_disk c F"
  shows "\<exists>F'. settings_writeToFile c F = (True, F') \<and> on_disk c F' \<and> saved c F'"
proof -
  obtain F' where F': "settings_writeToFile c F = (True, F')" "on_disk c F'"
    using assms(2) by (auto simp: settings_writeToFile_def on_disk_def)
  then show ?thesis using restart_reads(2) [OF assms(1) F'(1)] by (auto simp: saved_def abs_settings_def)
qed

lemma setting_step_sim:
  assumes "settings_ok c" "on_disk c F" "op_plain op" "setting_step op (c, F) = (c', F')"
  shows "settings_ok c' \<and> on_disk c' F' \<and> cs_filename c' = cs_filename c
    \<and> abs_settings c' = abs_step op (abs_settings c) \<and> saved c' F'"
proof (cases op)
  case (OpSet k v)
  have ok: "settings_ok (settings_put k v c)" "on_disk (settings_put k v c) F"
    using settings_ok_put [OF assms(1), of k v] assms(2,3) OpSet by (simp_all add: on_disk_def settings_put_def)
  obtain F1 where F1: "settings_writeToFile (settings_put k v c) F = (True, F1)"
    "on_disk (settings_put k v c) F1" "saved (settings_put k v c) F1"
    using written [OF ok] by blast
  then have "c' = settings_put k v c" "F' = F1" using assms(4) OpSet by (simp_all add: settings_setValue_def)
  moreover have "abs_settings (settings_put k v c) = abs_step op (abs_settings c)"
    using OpSet by (auto simp: abs_settings_def settings_put_def settings_getValue_def update_conv' text_of_def)
  ultimately show ?thesis using ok F1 by (simp add: settings_put_def)
next
  case (OpRemove k)
  let ?c = "c\<lparr>cs_data := AList.delete k (AList.update k (JString []) (cs_data c))\<rparr>"
  have ok: "settings_ok ?c" "on_disk ?c F"
    using assms(1,2) settings_ok_remove by (auto simp: on_disk_def)
  obtain F1 where F1: "settings_writeToFile ?c F = (True, F1)" "on_disk ?c F1" "saved ?c F1"
    using written [OF ok] by blast
  have "\<not> settings_contains ?c k" by (simp add: settings_contains_def delete_conv')
  then have "c' = ?c" "F' = F1"
    using assms(4) OpRemove F1 by (simp_all add: settings_remove_def settings_put_def Let_def)
  moreover have "abs_settings ?c = abs_step op (abs_settings c)"
    using OpRemove by (auto simp: abs_settings_def settings_getValue_def update_conv' delete_conv' text_of_def)
  ultimately show ?thesis using ok F1 by simp
qed

fun settings_run :: "setting_op list \<Rightarrow> cSettings \<times> files \<Rightarrow> cSettings \<times> files" where
  "settings_run [] s = s"
| "settings_run (op # ops) s = settings_run ops (setting_step op s)"

lemma settings_run_sim:
  "settings_ok c \<Longrightarrow> on_disk c F \<Longrightarrow> \<forall>op \<in> set ops. op_plain op \<Longrightarrow> settings_run ops (c, F) = (c', F') \<Longrightarrow> saved c F \<Longrightarrow>
   cs_filename c' = cs_filename c \<and> abs_settings c' = fold abs_step ops (abs_settings c) \<and> saved c' F'"
proof (induction ops arbitrary: c F)
  case Nil
  then show ?case by simp
next
  case (Cons op ops)
  obtain c1 F1 where s: "setting_step op (c, F) = (c1, F1)" by (rule prod.exhaust)
  show ?case
    using setting_step_sim [OF Cons.prems(1,2) _ s] Cons.IH [of c1 F1] Cons.prems s by auto
qed

text \<open>
  C40. A settings file refines a map from keys to texts: started on an empty file, through any
  changes with plain keys and values, the object has the settings of the map, and a restart on the
  file has them again.
\<close>

theorem settings_refine_map:
  assumes "cSettings_ctor True file F = (c, F0)" "F file = Missing \<or> F file = Regular []"
    "\<forall>op \<in> set ops. op_plain op" "settings_run ops (c, F0) = (c', F')"
  shows "abs_settings c' = fold abs_step ops Map.empty
    \<and> abs_settings (fst (cSettings_ctor True file F')) = abs_settings c'
    \<and> (\<forall>k. settings_contains c' k \<longleftrightarrow> fold abs_step ops Map.empty k \<noteq> None)"
proof -
  have start: "settings_ok c" "on_disk c F0" "cs_filename c = file" "abs_settings c = Map.empty" "saved c F0"
    using assms(1,2)
    by (auto simp: cSettings_ctor_def settings_readFromFile_def open_read_def settings_ok_def on_disk_def saved_def
        abs_settings_def settings_getValue_def text_of_def file_lines_def split: file_st.splits)
  have end': "cs_filename c' = file" "abs_settings c' = fold abs_step ops Map.empty" "saved c' F'"
    using settings_run_sim [OF start(1,2) assms(3,4) start(5)] start by auto
  have "settings_contains c' k \<longleftrightarrow> abs_settings c' k \<noteq> None" for k
    by (auto simp: settings_contains_def abs_settings_def settings_getValue_def text_of_def split: option.splits)
  then show ?thesis using end' by (simp add: saved_def)
qed

theorem settings_refine_map_witness:
  "\<exists>c F0. cSettings_ctor True ''f'' (\<lambda>_. Missing) = (c, F0) \<and>
     abs_settings (fst (settings_run [OpSet ''mode'' (JString ''EAS''), OpSet ''n'' (JBool True), OpRemove ''n''] (c, F0)))
       = [''mode'' \<mapsto> ''EAS'']"
proof -
  let ?ops = "[OpSet ''mode'' (JString ''EAS''), OpSet ''n'' (JBool True), OpRemove ''n'']"
  obtain c F0 where c: "cSettings_ctor True ''f'' (\<lambda>_. Missing) = (c, F0)" by (rule prod.exhaust)
  obtain c' F' where r: "settings_run ?ops (c, F0) = (c', F')" by (rule prod.exhaust)
  have "abs_settings c' = fold abs_step ?ops Map.empty"
    using settings_refine_map [OF c _ _ r] by (simp add: plain_setting_def)
  then show ?thesis using c r by (auto simp: text_of_def)
qed

text \<open>A value with an equality sign is not read back: it moves into the key.\<close>

theorem equality_in_value:
  "settings_getValue (fst (cSettings_ctor True ''f''
      (\<lambda>_. Regular (settings_text [(''url'', JString ''x=1'')])))) ''url'' = None"
  by (simp add: settings_text_def cSettings_ctor_def settings_readFromFile_def open_read_def file_lines_def
      read_setting_def find_last_eq_def settings_getValue_def)

end
