(* ===== verification/Validation.thy ===== *)
theory Validation imports Json "HOL-Library.List_Lexorder" "HOL-Library.Char_ord" begin

text \<open>
  The validation of inputs: \<open>helpers/UtilsInputValidator.h\<close> and \<open>helpers/UtilsisValidInt.h\<close>.

  The templates are instantiated for strings, integers and Booleans; the dynamic cast of
  \<open>ValidationManager::validate\<close> is the match of the type a validator was made for. Matching a regular
  expression is a parameter. \<open>std::string\<close> is ordered as lists of unsigned characters.
\<close>

section \<open>Expected values\<close>

datatype ev_type = EvNone | EvDiscrete | EvRange | EvRegExp

record 't ExpectedValues =
  m_type :: ev_type
  m_range :: "'t \<times> 't"
  m_values :: "'t set"
  m_regex :: string

definition ev_default :: "'t \<Rightarrow> 't ExpectedValues" where
  "ev_default any = \<lparr>m_type = EvNone, m_range = (any, any), m_values = {}, m_regex = []\<rparr>"

definition ev_range :: "'t \<Rightarrow> 't \<Rightarrow> 't ExpectedValues" where
  "ev_range min_v max_v = (ev_default min_v)\<lparr>m_type := EvRange, m_range := (min_v, max_v)\<rparr>"

definition ev_regexp :: "'t \<Rightarrow> string \<Rightarrow> 't ExpectedValues" where
  "ev_regexp any regexStr = (ev_default any)\<lparr>m_type := EvRegExp, m_regex := regexStr\<rparr>"

definition ev_discrete :: "'t \<Rightarrow> 't list \<Rightarrow> 't ExpectedValues" where
  "ev_discrete any values = (ev_default any)\<lparr>m_type := EvDiscrete, m_values := set values\<rparr>"

text \<open>The list of C strings, with null pointers skipped.\<close>

definition ev_discrete_cstr :: "string option list \<Rightarrow> string ExpectedValues" where
  "ev_discrete_cstr values = ev_discrete [] (concat (map (\<lambda>v. case v of None \<Rightarrow> [] | Some s \<Rightarrow> [s]) values))"

definition ev_copy_assign :: "'t ExpectedValues \<Rightarrow> 't ExpectedValues \<Rightarrow> 't ExpectedValues" where
  "ev_copy_assign this copy =
     (let this1 = this\<lparr>m_type := m_type copy\<rparr> in
      case m_type copy of
        EvDiscrete \<Rightarrow> this1\<lparr>m_values := m_values this \<union> m_values copy\<rparr>
      | EvRange \<Rightarrow> this1\<lparr>m_range := m_range copy\<rparr>
      | EvRegExp \<Rightarrow> this1\<lparr>m_regex := m_regex copy\<rparr>
      | EvNone \<Rightarrow> this1)"

definition ev_move_assign :: "'t ExpectedValues \<Rightarrow> 't ExpectedValues \<Rightarrow> 't ExpectedValues" where
  "ev_move_assign this copy =
     (let this1 = this\<lparr>m_type := m_type copy\<rparr> in
      case m_type copy of
        EvDiscrete \<Rightarrow> this1\<lparr>m_values := m_values copy\<rparr>
      | EvRange \<Rightarrow> this1\<lparr>m_range := m_range copy\<rparr>
      | EvRegExp \<Rightarrow> this1\<lparr>m_regex := m_regex copy\<rparr>
      | EvNone \<Rightarrow> this1)"

definition ev_copy :: "'t \<Rightarrow> 't ExpectedValues \<Rightarrow> 't ExpectedValues" where
  "ev_copy any copy = ev_copy_assign (ev_default any) copy"

definition ev_validate ::
  "(string \<Rightarrow> string \<Rightarrow> bool) \<Rightarrow> ('t \<Rightarrow> string) \<Rightarrow> ('t :: linorder) ExpectedValues \<Rightarrow> 't \<Rightarrow> bool" where
  "ev_validate regex_match to_string e v =
     (case m_type e of
        EvDiscrete \<Rightarrow> v \<in> m_values e
      | EvRange \<Rightarrow> v \<ge> fst (m_range e) \<and> v \<le> snd (m_range e)
      | EvRegExp \<Rightarrow> regex_match (m_regex e) (to_string v)
      | EvNone \<Rightarrow> True)"

section \<open>Validators\<close>

datatype 't Validator = ValNone | UseExpectedValues "'t ExpectedValues" | CustomValidation "'t \<Rightarrow> bool"

fun validator_validate ::
  "(string \<Rightarrow> string \<Rightarrow> bool) \<Rightarrow> ('t \<Rightarrow> string) \<Rightarrow> ('t :: linorder) Validator \<Rightarrow> 't \<Rightarrow> bool" where
  "validator_validate regex_match to_string (CustomValidation f) v = f v"
| "validator_validate regex_match to_string (UseExpectedValues e) v = ev_validate regex_match to_string e v"
| "validator_validate regex_match to_string ValNone v = False"

datatype ValidatorBase = StringValidator "string Validator" | IntValidator "int Validator" | BoolValidator "bool Validator"

datatype cpp_value = CppString string | CppInt int | CppBool bool

text \<open>\<open>std::to_string\<close> of a Boolean, which is converted to an \<open>int\<close>.\<close>

definition to_string_bool :: "bool \<Rightarrow> string" where
  "to_string_bool b = to_string_int (if b then 1 else 0)"

text \<open>The dynamic cast and the call of the validator; \<open>None\<close> is a null pointer.\<close>

fun cast_validate :: "(string \<Rightarrow> string \<Rightarrow> bool) \<Rightarrow> ValidatorBase \<Rightarrow> cpp_value \<Rightarrow> bool option" where
  "cast_validate rx (StringValidator w) (CppString s) = Some (validator_validate rx (\<lambda>s. s) w s)"
| "cast_validate rx (IntValidator w) (CppInt n) = Some (validator_validate rx to_string_int w n)"
| "cast_validate rx (BoolValidator w) (CppBool b) = Some (validator_validate rx to_string_bool w b)"
| "cast_validate rx _ _ = None"

section \<open>The manager\<close>

type_synonym ValidatorMap = "string \<rightharpoonup> ValidatorBase list"

definition addValidator :: "string \<Rightarrow> ValidatorBase \<Rightarrow> ValidatorMap \<Rightarrow> ValidatorMap" where
  "addValidator name validator m_validators =
     m_validators(name \<mapsto> (case m_validators name of None \<Rightarrow> [] | Some l \<Rightarrow> l) @ [validator])"

text \<open>The loop, with the number of messages it logs.\<close>

fun validate_loop :: "(string \<Rightarrow> string \<Rightarrow> bool) \<Rightarrow> ValidatorBase list \<Rightarrow> cpp_value \<Rightarrow> bool \<times> nat" where
  "validate_loop rx [] v = (True, 0)"
| "validate_loop rx (w # ws) v = (if cast_validate rx w v \<noteq> Some True then (False, 1) else validate_loop rx ws v)"

definition manager_validate ::
  "(string \<Rightarrow> string \<Rightarrow> bool) \<Rightarrow> ValidatorMap \<Rightarrow> string \<Rightarrow> cpp_value \<Rightarrow> bool \<times> nat" where
  "manager_validate rx m_validators name v =
     (case m_validators name of Some ws \<Rightarrow> validate_loop rx ws v | None \<Rightarrow> (False, 0))"

definition manager_validate_cstr ::
  "(string \<Rightarrow> string \<Rightarrow> bool) \<Rightarrow> ValidatorMap \<Rightarrow> string \<Rightarrow> string option \<Rightarrow> bool \<times> nat" where
  "manager_validate_cstr rx m_validators name v =
     (case v of Some s \<Rightarrow> manager_validate rx m_validators name (CppString s) | None \<Rightarrow> (False, 0))"

section \<open>Integers in strings\<close>

text \<open>The loop over the characters of a C string; the list ends at the terminating NUL.\<close>

fun digits_loop :: "string \<Rightarrow> bool" where
  "digits_loop [] = False"
| "digits_loop (c # cs) = (if c_isdigit c then (if cs = [] then True else digits_loop cs) else False)"

definition isValidUnsignedInt :: "string \<Rightarrow> bool" where
  "isValidUnsignedInt x = digits_loop x"

definition isValidInt :: "string \<Rightarrow> bool" where
  "isValidInt x = (if x \<noteq> [] \<and> hd x = CHR ''-'' then digits_loop (tl x) else digits_loop x)"

section \<open>What the validators accept\<close>

datatype cpp_type = TString | TInt | TBool

fun type_of_value :: "cpp_value \<Rightarrow> cpp_type" where
  "type_of_value (CppString s) = TString"
| "type_of_value (CppInt n) = TInt"
| "type_of_value (CppBool b) = TBool"

fun type_of_validator :: "ValidatorBase \<Rightarrow> cpp_type" where
  "type_of_validator (StringValidator w) = TString"
| "type_of_validator (IntValidator w) = TInt"
| "type_of_validator (BoolValidator w) = TBool"

lemma cast_validate_type:
  "cast_validate rx w v \<noteq> None \<longleftrightarrow> type_of_validator w = type_of_value v"
  by (cases w; cases v) auto

lemma validate_loop_eq:
  "validate_loop rx ws v = ((\<forall>w \<in> set ws. cast_validate rx w v = Some True),
     if \<forall>w \<in> set ws. cast_validate rx w v = Some True then 0 else 1)"
  by (induction ws) auto

text \<open>The registered validators of a name after a series of registrations.\<close>

fun addValidators :: "(string \<times> ValidatorBase) list \<Rightarrow> ValidatorMap \<Rightarrow> ValidatorMap" where
  "addValidators [] m = m"
| "addValidators ((n, w) # regs) m = addValidators regs (addValidator n w m)"

lemma addValidator_apply:
  "addValidator n w m name =
     (if name = n then Some ((case m name of None \<Rightarrow> [] | Some l \<Rightarrow> l) @ [w]) else m name)"
  by (simp add: addValidator_def)

lemma addValidators_names:
  "addValidators regs m name =
     (if filter (\<lambda>r. fst r = name) regs = [] then m name
      else Some ((case m name of None \<Rightarrow> [] | Some l \<Rightarrow> l) @ map snd (filter (\<lambda>r. fst r = name) regs)))"
proof (induction regs m rule: addValidators.induct)
  case (2 n w regs m)
  then show ?case using addValidator_apply [of n w m name] by auto
qed simp

text \<open>
  C39. After any registrations a value is valid for a name exactly if something was registered for
  the name and every validator registered for it was made for the type of the value and accepts it;
  a name with validators of two types accepts no value at all.
\<close>

theorem validate_by_type:
  assumes "m = addValidators regs Map.empty"
    "ws = map snd (filter (\<lambda>r. fst r = name) regs)"
  shows "(fst (manager_validate rx m name v) \<longleftrightarrow>
      ws \<noteq> [] \<and> (\<forall>w \<in> set ws. type_of_validator w = type_of_value v \<and> cast_validate rx w v = Some True))
    \<and> (\<forall>w1 \<in> set ws. \<forall>w2 \<in> set ws. type_of_validator w1 \<noteq> type_of_validator w2 \<longrightarrow>
         \<not> fst (manager_validate rx m name v))"
proof -
  have "m name = (if ws = [] then None else Some ws)"
    using addValidators_names [of regs Map.empty name] assms by simp
  then have "fst (manager_validate rx m name v) \<longleftrightarrow>
      ws \<noteq> [] \<and> (\<forall>w \<in> set ws. type_of_validator w = type_of_value v \<and> cast_validate rx w v = Some True)"
    using cast_validate_type [of rx _ v] by (auto simp: manager_validate_def validate_loop_eq)
  then show ?thesis by auto
qed

theorem validate_by_type_witness:
  "fst (manager_validate (\<lambda>r s. r = s) (addValidators
      [(''volume'', IntValidator (UseExpectedValues (ev_range 0 100)))] Map.empty) ''volume'' (CppInt 30))"
proof -
  have "cast_validate (\<lambda>r s. r = s) (IntValidator (UseExpectedValues (ev_range 0 100))) (CppInt 30) = Some True"
    by (simp add: ev_validate_def ev_range_def ev_default_def)
  then show ?thesis
    using validate_by_type [OF refl refl, where regs = "[(''volume'', IntValidator (UseExpectedValues (ev_range 0 100)))]"
        and rx = "\<lambda>r s. r = s" and name = "''volume''" and v = "CppInt 30"] by simp
qed

text \<open>
  A copy accepts what the original accepts, whatever it was made with; assigned over another
  discrete set it accepts the values of both, while a moved one takes the place of the old one.
\<close>

theorem copies_accept:
  "ev_validate rx ts (ev_copy any e) v = ev_validate rx ts e v"
  "ev_validate rx ts (ev_move_assign this e) v = ev_validate rx ts e v"
  "ev_validate rx ts (ev_copy_assign this e) v =
     (ev_validate rx ts e v \<or> m_type e = EvDiscrete \<and> v \<in> m_values this)"
  by (auto simp: ev_validate_def ev_copy_def ev_copy_assign_def ev_move_assign_def ev_default_def Let_def
      split: ev_type.splits)

lemma digits_loop_iff: "digits_loop s \<longleftrightarrow> s \<noteq> [] \<and> (\<forall>c \<in> set s. c_isdigit c)"
  by (induction s rule: digits_loop.induct) auto

text \<open>
  The texts of the integers are valid integers and are read back as them, and the texts of the
  natural numbers are valid unsigned integers.
\<close>

theorem valid_integers_roundtrip:
  "isValidInt (to_string_int n) \<and> (isValidUnsignedInt (to_string_int n) \<longleftrightarrow> 0 \<le> n)
   \<and> (- (2 ^ 31) \<le> n \<and> n < 2 ^ 31 \<longrightarrow> atoi (to_string_int n) = n)"
proof (intro conjI)
  have digits: "nat_to_string k \<noteq> []" "\<forall>c \<in> set (nat_to_string k). c_isdigit c" for k
    using nat_to_string_digits by auto
  have hd: "c_isdigit (hd (nat_to_string k))" for k using digits [of k] by (cases "nat_to_string k") auto
  have no: "\<not> c_isdigit CHR ''-''" "\<not> c_isdigit CHR ''+''" "c_isdigit c \<Longrightarrow> \<not> c_isspace c" for c
    by (auto simp: c_isdigit_def c_isspace_def ascii_def)
  show "isValidInt (to_string_int n)"
  proof (cases "n < 0")
    case False
    have "hd (nat_to_string (nat n)) \<noteq> CHR ''-''" using hd no by metis
    then show ?thesis using False digits by (simp add: isValidInt_def to_string_int_def digits_loop_iff)
  qed (use digits in \<open>simp add: isValidInt_def to_string_int_def digits_loop_iff\<close>)
  show "isValidUnsignedInt (to_string_int n) \<longleftrightarrow> 0 \<le> n"
    using digits no by (auto simp: isValidUnsignedInt_def to_string_int_def digits_loop_iff)
  have small: "sint (word_of_int n :: u32) = n" if "- (2 ^ 31) \<le> n \<and> n < 2 ^ 31"
    using that by (simp add: int_word_sint)
  obtain c cs where c: "nat_to_string (nat n) = c # cs" "c_isdigit c"
    using digits [of "nat n"] by (cases "nat_to_string (nat n)") auto
  then have "c \<noteq> CHR ''-''" "c \<noteq> CHR ''+''" "\<not> c_isspace c" using no by auto
  moreover have "\<not> c_isspace CHR ''-''" by (simp add: c_isspace_def ascii_def)
  ultimately show "- (2 ^ 31) \<le> n \<and> n < 2 ^ 31 \<longrightarrow> atoi (to_string_int n) = n"
    using small c digits_val_nat_to_string [of "nat n"] digits_val_nat_to_string [of "nat (- n)"]
    by (auto simp: atoi_def to_string_int_def)
qed

end
