(* ===== verification/ServiceHelpers.thy ===== *)
theory ServiceHelpers imports FileContent Json begin

text \<open>
  The helper functions of the SystemServices plugin, \<open>SystemServices/SystemServicesHelper.cpp\<close>, and
  the parameters of a log upload, \<open>SystemServices/uploadlogs.cpp\<close>.

  The files the helpers read are a map from paths (\<open>FileContent\<close>); the pipe of \<open>getModel\<close> and
  \<open>curl_easy_escape\<close> are arguments. The regular expressions are written out as the recognisers they
  denote. \<open>None\<close> is an exception or an access out of bounds.
\<close>

section \<open>Error codes\<close>

datatype SysSrv_ErrorCode =
    SysSrv_OK
  | SysSrv_MethodNotFound
  | SysSrv_MissingKeyValues
  | SysSrv_UnSupportedFormat
  | SysSrv_FileNotPresent
  | SysSrv_FileAccessFailed
  | SysSrv_FileContentUnsupported
  | SysSrv_Unexpected
  | SysSrv_SupportNotAvailable
  | SysSrv_LibcurlError
  | SysSrv_DynamicMemoryAllocationFailed
  | SysSrv_ManufacturerDataReadFailed
  | SysSrv_KeyNotFound

fun ss_code :: "SysSrv_ErrorCode \<Rightarrow> int" where
  "ss_code SysSrv_OK = 0"
| "ss_code SysSrv_MethodNotFound = 1"
| "ss_code SysSrv_MissingKeyValues = 2"
| "ss_code SysSrv_UnSupportedFormat = 3"
| "ss_code SysSrv_FileNotPresent = 4"
| "ss_code SysSrv_FileAccessFailed = 5"
| "ss_code SysSrv_FileContentUnsupported = 6"
| "ss_code SysSrv_Unexpected = 7"
| "ss_code SysSrv_SupportNotAvailable = 8"
| "ss_code SysSrv_LibcurlError = 9"
| "ss_code SysSrv_DynamicMemoryAllocationFailed = 10"
| "ss_code SysSrv_ManufacturerDataReadFailed = 11"
| "ss_code SysSrv_KeyNotFound = 12"

definition ErrCodeMap :: "(int \<times> string) list" where
  "ErrCodeMap =
    [(ss_code SysSrv_OK, ''Processed Successfully''),
     (ss_code SysSrv_MethodNotFound, ''Method not found''),
     (ss_code SysSrv_MissingKeyValues, ''Missing required key/value(s)''),
     (ss_code SysSrv_UnSupportedFormat, ''Unsupported or malformed format''),
     (ss_code SysSrv_FileNotPresent, ''Expected file not found''),
     (ss_code SysSrv_FileAccessFailed, ''File access failed''),
     (ss_code SysSrv_FileContentUnsupported, ''Unsupported file content''),
     (ss_code SysSrv_Unexpected, ''Unexpected error''),
     (ss_code SysSrv_SupportNotAvailable, ''Support not available/enabled''),
     (ss_code SysSrv_LibcurlError, ''LIbCurl service error''),
     (ss_code SysSrv_DynamicMemoryAllocationFailed, ''Dynamic Memory Allocation Failed''),
     (ss_code SysSrv_ManufacturerDataReadFailed, ''Manufacturer Data Read Failed''),
     (ss_code SysSrv_KeyNotFound, ''Key not found'')]"

definition getErrorDescription :: "int \<Rightarrow> string" where
  "getErrorDescription errCode =
     (case map_of ErrCodeMap errCode of Some msg \<Rightarrow> msg | None \<Rightarrow> ''Unexpected Error'')"

text \<open>The two fields the error adds to a response: the status and the message.\<close>

definition populateResponseWithError :: "SysSrv_ErrorCode \<Rightarrow> json_params \<Rightarrow> json_params" where
  "populateResponseWithError errorCode response =
     (if ss_code errorCode \<noteq> 0
      then set_member ''errorMessage'' (JString (getErrorDescription (ss_code errorCode)))
        (set_member ''SysSrv_Status'' (JNumber (ss_code errorCode)) response)
      else response)"

section \<open>Files\<close>

definition find_last_char :: "char \<Rightarrow> string \<Rightarrow> nat option" where
  "find_last_char c s = map_option (\<lambda>k. length s - 1 - k) (find_char c (rev s))"

definition dirnameOf :: "string \<Rightarrow> string" where
  "dirnameOf fname = (case find_last_char CHR ''/'' fname of None \<Rightarrow> [] | Some pos \<Rightarrow> take (pos + 1) fname)"

definition dirExists :: "(string \<Rightarrow> bool) \<Rightarrow> string \<Rightarrow> bool" where
  "dirExists is_dir fname = is_dir (dirnameOf fname)"

definition readFromFile :: "files \<Rightarrow> string \<Rightarrow> string \<Rightarrow> bool \<times> string" where
  "readFromFile F filename content =
     (if \<not> fileExists F filename then (False, content)
      else (case open_read F filename of
              Some s \<Rightarrow> (True, takeWhile (\<lambda>c. c \<noteq> CHR 0x0A) s)
            | None \<Rightarrow> (False, content)))"

definition getFileContent :: "files \<Rightarrow> string \<Rightarrow> string \<Rightarrow> bool \<times> string" where
  "getFileContent F fileName fileContent =
     (case open_read F fileName of None \<Rightarrow> (False, fileContent) | Some s \<Rightarrow> (True, s))"

definition getFileContent_lines :: "files \<Rightarrow> string \<Rightarrow> string list \<Rightarrow> bool \<times> string list" where
  "getFileContent_lines F fileName vecOfStrs =
     (case open_read F fileName of
        None \<Rightarrow> (False, vecOfStrs)
      | Some s \<Rightarrow> (True, vecOfStrs @ filter (\<lambda>line. length line > 0) (file_lines s)))"

fun parse_lines :: "string list \<Rightarrow> string \<Rightarrow> string \<Rightarrow> bool \<times> string" where
  "parse_lines [] findkey val = (False, val)"
| "parse_lines (line # lines) findkey val =
     (case find_char CHR ''='' line of
        Some eq \<Rightarrow> if take eq line = findkey then (True, drop (eq + 1) line)
                   else parse_lines lines findkey val
      | None \<Rightarrow> parse_lines lines findkey val)"

definition parseConfigFile :: "files \<Rightarrow> string \<Rightarrow> string \<Rightarrow> string \<Rightarrow> bool \<times> string" where
  "parseConfigFile F filename findkey val = parse_lines (snd (getFileContent_lines F filename [])) findkey val"

definition XCONF_OVERRIDE_FILE :: string where "XCONF_OVERRIDE_FILE = ''/opt/swupdate.conf''"
definition TZ_FILE :: string where "TZ_FILE = ''/opt/persistent/timeZoneDST''"
definition TZ_ACCURACY_FILE :: string where "TZ_ACCURACY_FILE = ''/opt/persistent/timeZoneDSTAccuracy''"
definition RECEIVER_STANDBY_PREFS :: string where "RECEIVER_STANDBY_PREFS = ''/tmp/retainConnection''"
definition DOWNLOAD_PROGRESS_FILE :: string where "DOWNLOAD_PROGRESS_FILE = ''/opt/curl_progress''"
definition DEVICE_PROPERTIES :: string where "DEVICE_PROPERTIES = ''/etc/device.properties''"
definition OPT_DCM_PROPERTIES :: string where "OPT_DCM_PROPERTIES = ''/opt/dcm.properties''"
definition ETC_DCM_PROPERTIES :: string where "ETC_DCM_PROPERTIES = ''/etc/dcm.properties''"
definition TMP_DCM_SETTINGS :: string where "TMP_DCM_SETTINGS = ''/tmp/DCMSettings.conf''"

fun xconf_lines :: "string list \<Rightarrow> string \<Rightarrow> string" where
  "xconf_lines [] xconfUrl = xconfUrl"
| "xconf_lines (line # lines) xconfUrl =
     xconf_lines lines (if line \<noteq> [] \<and> hd line \<noteq> CHR ''#'' then line else xconfUrl)"

text \<open>The URL and whether the file exists.\<close>

definition getXconfOverrideUrl :: "files \<Rightarrow> string \<times> bool" where
  "getXconfOverrideUrl F =
     (if \<not> fileExists F XCONF_OVERRIDE_FILE then ([], False)
      else (let (ok, lines) = getFileContent_lines F XCONF_OVERRIDE_FILE []
            in (if ok then xconf_lines lines [] else [], True)))"

definition getTimeZoneDSTHelper :: "files \<Rightarrow> string" where
  "getTimeZoneDSTHelper F =
     (if \<not> fileExists F TZ_FILE then []
      else (let (ok, lines) = getFileContent_lines F TZ_FILE []
            in if ok \<and> length lines > 0 then hd lines else []))"

definition getTimeZoneAccuracyDSTHelper :: "files \<Rightarrow> string" where
  "getTimeZoneAccuracyDSTHelper F =
     (if \<not> fileExists F TZ_ACCURACY_FILE then ''INITIAL''
      else (let (ok, lines) = getFileContent_lines F TZ_ACCURACY_FILE [];
                timeZoneAccuracy = (if ok \<and> length lines > 0 then hd lines else [])
            in if timeZoneAccuracy \<noteq> ''INITIAL'' \<and> timeZoneAccuracy \<noteq> ''INTERIM'' \<and> timeZoneAccuracy \<noteq> ''FINAL''
               then ''INITIAL'' else timeZoneAccuracy))"

text \<open>\<open>can_create\<close> and \<open>can_remove\<close> tell whether the file system lets the file be made or removed.\<close>

definition enableXREConnectionRetentionHelper ::
  "bool \<Rightarrow> bool \<Rightarrow> bool \<Rightarrow> files \<Rightarrow> SysSrv_ErrorCode \<times> files" where
  "enableXREConnectionRetentionHelper can_create can_remove enable F =
     (if enable then
        (if \<not> fileExists F RECEIVER_STANDBY_PREFS then
           (if can_create then (SysSrv_OK, F(RECEIVER_STANDBY_PREFS := Regular []))
            else (SysSrv_FileAccessFailed, F))
         else (SysSrv_OK, F))
      else
        (if fileExists F RECEIVER_STANDBY_PREFS then
           (SysSrv_OK, if can_remove then F(RECEIVER_STANDBY_PREFS := Missing) else F)
         else (SysSrv_OK, F)))"

section \<open>Texts\<close>

definition WHITESPACE :: string where
  "WHITESPACE = [CHR '' '', CHR 0x0A, CHR 0x0D, CHR 0x09, CHR 0x0C, CHR 0x0B]"

definition ss_ltrim :: "string \<Rightarrow> string" where
  "ss_ltrim s = dropWhile (\<lambda>c. c \<in> set WHITESPACE) s"

definition ss_rtrim :: "string \<Rightarrow> string" where
  "ss_rtrim s = rev (dropWhile (\<lambda>c. c \<in> set WHITESPACE) (rev s))"

definition ss_trim :: "string \<Rightarrow> string" where
  "ss_trim s = ss_rtrim (ss_ltrim s)"

definition convertCase :: "string \<Rightarrow> string" where
  "convertCase str = map c_toupper str"

definition convert :: "string \<Rightarrow> string \<Rightarrow> bool" where
  "convert str3 firm = (find_str str3 (c_string (convertCase firm)) \<noteq> None)"

text \<open>The text matched by \<open>([^\r\n]*)\<close> after the first occurrence of the key in any case.\<close>

definition capture_ci :: "string \<Rightarrow> string \<Rightarrow> string option" where
  "capture_ci key s =
     (case find_str (map c_tolower key) (map c_tolower s) of
        None \<Rightarrow> None
      | Some p \<Rightarrow> Some (takeWhile (\<lambda>c. c \<noteq> CHR 0x0D \<and> c \<noteq> CHR 0x0A) (drop (p + length key) s)))"

definition caseInsensitive :: "string \<Rightarrow> string" where
  "caseInsensitive str7 =
     (case capture_ci ''model='' str7 of
        Some m \<Rightarrow> m
      | None \<Rightarrow> (case capture_ci ''model_number='' str7 of Some m \<Rightarrow> m | None \<Rightarrow> ''ERROR''))"

text \<open>\<open>getModel\<close> from the output of the script, \<open>None\<close> if the pipe could not be opened.\<close>

definition getModel :: "string option \<Rightarrow> string" where
  "getModel pipe =
     (case pipe of
        None \<Rightarrow> ''ERROR''
      | Some out \<Rightarrow> ss_trim (c_string (caseInsensitive (read_chunks 127 out []))))"

fun strcicmp :: "string \<Rightarrow> string \<Rightarrow> int" where
  "strcicmp [] [] = 0"
| "strcicmp [] (b # bs) = 0 - int (ascii (c_tolower b))"
| "strcicmp (a # as) [] = int (ascii (c_tolower a)) - 0"
| "strcicmp (a # as) (b # bs) =
     (let d = int (ascii (c_tolower a)) - int (ascii (c_tolower b)) in if d \<noteq> 0 then d else strcicmp as bs)"

definition findCaseInsensitive :: "string \<Rightarrow> string \<Rightarrow> nat \<Rightarrow> bool" where
  "findCaseInsensitive data toSearch pos =
     (pos \<le> length data \<and> find_str (map c_tolower toSearch) (drop pos (map c_tolower data)) \<noteq> None)"

fun removeCharsFromString :: "string \<Rightarrow> string \<Rightarrow> string" where
  "removeCharsFromString str [] = str"
| "removeCharsFromString str (c # charsToRemove) = removeCharsFromString (filter (\<lambda>d. d \<noteq> c) str) charsToRemove"

definition url_encode :: "(string \<Rightarrow> string) option \<Rightarrow> string \<Rightarrow> string" where
  "url_encode curl_easy_escape urlIn =
     (if length urlIn = 0 then []
      else (case curl_easy_escape of Some esc \<Rightarrow> esc urlIn | None \<Rightarrow> []))"

section \<open>Addresses and progress\<close>

definition is_hex_upper :: "char \<Rightarrow> bool" where
  "is_hex_upper c = (c_isdigit c \<or> 65 \<le> ascii c \<and> ascii c \<le> 70)"

text \<open>The expression \<open>^([0-9A-F]{2}[:]){5}([0-9A-F]{2})$\<close>.\<close>

definition is_mac :: "string \<Rightarrow> bool" where
  "is_mac s = (length s = 17 \<and> (\<forall>i < 17. if i mod 3 = 2 then s ! i = CHR '':'' else is_hex_upper (s ! i)))"

definition defMac :: string where "defMac = ''00:00:00:00:00:00''"

text \<open>
  A key that is not found is at \<open>npos\<close>, the largest \<open>size_t\<close>, and adding its length gives its length
  less one. \<open>substr\<close> throws beyond the end.
\<close>

definition findMacInString :: "string \<Rightarrow> string \<Rightarrow> string option" where
  "findMacInString totalStr macId =
     (let pos = (case find_str macId totalStr of Some found \<Rightarrow> found + length macId | None \<Rightarrow> length macId - 1)
      in if pos > length totalStr then None
         else (let mac = substr totalStr pos 17 in Some (if is_mac mac then mac else defMac)))"

text \<open>\<open>strtol\<close> in base 10, which saturates at the 64-bit bounds, kept in an \<open>int\<close>.\<close>

definition strtol_int :: "string \<Rightarrow> int" where
  "strtol_int s =
     (let t = dropWhile c_isspace s;
          n = (case t of
                 [] \<Rightarrow> 0
               | c # cs \<Rightarrow> if c = CHR ''-'' then - digits_val 0 cs
                          else if c = CHR ''+'' then digits_val 0 cs
                          else digits_val 0 t)
      in sint (word_of_int (max (- 9223372036854775808) (min 9223372036854775807 n)) :: u32))"

definition getDownloadProgress :: "files \<Rightarrow> int \<Rightarrow> (bool \<times> int) option" where
  "getDownloadProgress F downloadPercent =
     (let (ok, file_content) = readFileContent F DOWNLOAD_PROGRESS_FILE []
      in if ok \<and> file_content \<noteq> [] then
           (let (ok2, last_line) = getLastLine file_content []
            in if ok2 \<and> last_line \<noteq> [] then
                 (let line = ltrim last_line
                  in if CHR ''M'' \<in> set line \<or> CHR ''G'' \<in> set line then
                       (let str = snd (removeExtraWhitespaces line []);
                            stringList = split [] str '' ''
                        in if length stringList \<le> 2 then None
                           else if stringList ! 2 \<noteq> [] then Some (True, strtol_int (stringList ! 2))
                           else Some (False, downloadPercent))
                     else Some (False, downloadPercent))
               else Some (ok2, downloadPercent))
         else Some (ok, downloadPercent))"

section \<open>Curl callbacks\<close>

text \<open>The handler gets its string by value: the caller's string is returned as it was.\<close>

definition writeCurlResponse :: "string \<Rightarrow> string \<Rightarrow> nat \<times> string" where
  "writeCurlResponse ptr stream = (length ptr, stream)"

definition CURL_BUFFER_SIZE :: nat where "CURL_BUFFER_SIZE = 64 * 1024"

record write_result =
  wr_data :: string
  wr_pos :: nat

text \<open>\<open>data\<close> are the bytes before \<open>pos\<close> of the buffer; the result \<open>-1\<close> is \<open>None\<close>.\<close>

definition curl_write :: "string \<Rightarrow> write_result \<Rightarrow> nat option \<times> write_result" where
  "curl_write ptr result =
     (if wr_pos result + length ptr \<ge> CURL_BUFFER_SIZE - 1 then (None, result)
      else (Some (length ptr), result\<lparr>wr_data := wr_data result @ ptr, wr_pos := wr_pos result + length ptr\<rparr>))"

section \<open>The parameters of a log upload\<close>

text \<open>The first match of \<open>key([^\n]+)\<close>.\<close>

fun capture_line :: "string \<Rightarrow> string \<Rightarrow> string option" where
  "capture_line key [] = None"
| "capture_line key (c # cs) =
     (let rest = drop (length key) (c # cs)
      in if is_prefix key (c # cs) \<and> rest \<noteq> [] \<and> hd rest \<noteq> CHR 0x0A
         then Some (takeWhile (\<lambda>d. d \<noteq> CHR 0x0A) rest)
         else capture_line key cs)"

definition capture_trim :: "string \<Rightarrow> string \<Rightarrow> string \<Rightarrow> string" where
  "capture_trim key dcminfo temp = (case capture_line key dcminfo of Some m \<Rightarrow> ss_trim m | None \<Rightarrow> temp)"

text \<open>\<open>temp\<close> is shared by the three searches and not cleared between them.\<close>

definition getDCMconfigDetails ::
  "files \<Rightarrow> string \<times> string \<times> string \<Rightarrow> bool \<times> string \<times> string \<times> string" where
  "getDCMconfigDetails F params =
     (let (upload_protocol, httplink, uploadCheck) = params;
          (ok, dcminfo) = getFileContent F TMP_DCM_SETTINGS []
      in if \<not> ok then (False, params)
         else if length dcminfo < 1 then (False, params)
         else
           (let temp1 = capture_trim ''LogUploadSettings:UploadRepository:uploadProtocol='' dcminfo [];
                temp2 = capture_trim ''LogUploadSettings:UploadRepository:URL='' dcminfo temp1;
                temp3 = capture_trim ''LogUploadSettings:UploadOnReboot='' dcminfo temp2
            in (True, if temp1 \<noteq> [] then temp1 else upload_protocol,
                if temp2 \<noteq> [] then temp2 else httplink,
                if temp3 \<noteq> [] then temp3 else uploadCheck)))"

definition checkmTlsLogUploadFlag :: bool where "checkmTlsLogUploadFlag = True"

text \<open>The result is whether it succeeds, the TFTP server, the protocol and the link.\<close>

definition getUploadLogParameters ::
  "files \<Rightarrow> string \<times> string \<times> string \<Rightarrow> bool \<times> string \<times> string \<times> string" where
  "getUploadLogParameters F params =
     (let (tftp_server, upload_protocol, upload_httplink) = params;
          mTlsLogUpload = checkmTlsLogUploadFlag;
          (built, build_type) = parseConfigFile F DEVICE_PROPERTIES ''BUILD_TYPE'' []
      in if \<not> built then (False, params)
         else
           (let dcmFile = (if build_type \<noteq> ''prod'' \<and> fileExists F OPT_DCM_PROPERTIES
                           then OPT_DCM_PROPERTIES else ETC_DCM_PROPERTIES);
                (logged, tftp_server1) = parseConfigFile F dcmFile ''LOG_SERVER'' tftp_server
            in if \<not> logged then (False, tftp_server1, upload_protocol, upload_httplink)
               else
                 (let (forced, force_mtls) = parseConfigFile F DEVICE_PROPERTIES ''FORCE_MTLS'' [];
                      mTls = (if forced \<and> force_mtls = ''true'' then True else mTlsLogUpload);
                      (ok, protocol, httplink, uploadcheck) = getDCMconfigDetails F (upload_protocol, [], [])
                  in if \<not> ok then (False, tftp_server1, upload_protocol, upload_httplink)
                     else (True, tftp_server1, protocol,
                       if mTls \<and> force_mtls \<noteq> ''true''
                       then replaceString httplink ''cgi-bin'' ''secure/cgi-bin'' else httplink))))"

text \<open>The arguments of the script, or \<open>None\<close> if nothing is started.\<close>

definition logUploadAsync :: "files \<Rightarrow> string list option" where
  "logUploadAsync F =
     (if \<not> fileExists F ''/lib/rdk/uploadSTBLogs.sh'' then None
      else (let (ok, tftp_server, upload_protocol, upload_httplink) = getUploadLogParameters F ([], [], [])
            in if \<not> ok then None
               else Some [''/bin/sh'', ''/lib/rdk/uploadSTBLogs.sh'', tftp_server, ''0'', ''1'', ''0'',
                 upload_protocol, upload_httplink, ''1'']))"

section \<open>What the helpers do\<close>

lemma ascii_tolower_zero: "ascii (c_tolower c) = 0 \<longleftrightarrow> c = CHR 0x00"
proof
  assume "ascii (c_tolower c) = 0"
  then have "ascii c = ascii CHR 0x00" by (auto simp: c_tolower_def ascii_char_of ascii_def split: if_splits)
  then show "c = CHR 0x00" by (rule ascii_inj)
qed (simp add: c_tolower_def ascii_def)

lemma strcicmp_zero:
  "CHR 0x00 \<notin> set a \<Longrightarrow> CHR 0x00 \<notin> set b \<Longrightarrow> strcicmp a b = 0 \<longleftrightarrow> map c_tolower a = map c_tolower b"
proof (induction a b rule: strcicmp.induct)
  case (4 a as b bs)
  then show ?case by (auto simp: Let_def dest: ascii_inj)
qed (auto simp: ascii_tolower_zero)

lemma removeCharsFromString_eq: "removeCharsFromString str cs = filter (\<lambda>c. c \<notin> set cs) str"
  by (induction str cs rule: removeCharsFromString.induct) (auto intro: filter_cong)

lemma ss_trim_eq: "ss_trim s = trim s"
proof -
  have "c \<in> set WHITESPACE \<longleftrightarrow> c_isspace c" for c
  proof
    assume "c_isspace c"
    then have "ascii c \<in> set (map ascii WHITESPACE)"
      by (simp add: c_isspace_def WHITESPACE_def ascii_def) blast
    then show "c \<in> set WHITESPACE" using ascii_inj by auto
  qed (auto simp: WHITESPACE_def c_isspace_def ascii_def)
  then have "(\<lambda>c. c \<in> set WHITESPACE) = c_isspace" by blast
  then show ?thesis by (simp add: ss_trim_def ss_rtrim_def ss_ltrim_def trim_def rtrim_def ltrim_def)
qed

lemma is_mac_defMac: "is_mac defMac"
proof -
  have "list_all (\<lambda>i. if i mod 3 = 2 then defMac ! i = CHR '':'' else is_hex_upper (defMac ! i)) [0..<17]"
    by (simp add: upt_rec defMac_def is_hex_upper_def c_isdigit_def ascii_def)
  then show ?thesis by (simp add: is_mac_def list_all_iff) (simp add: defMac_def)
qed

text \<open>
  \<open>findMacInString\<close> gives a well-formed address whatever the text, the one after the first
  occurrence of the key if it is one there; it throws exactly if the key is not in the text and is
  longer than the text and one character.
\<close>

theorem mac_well_formed:
  "(findMacInString t k = None \<longleftrightarrow> find_str k t = None \<and> length t + 1 < length k)
   \<and> (\<forall>mac. findMacInString t k = Some mac \<longrightarrow> is_mac mac)
   \<and> (\<forall>p. find_str k t = Some p \<longrightarrow> is_mac (substr t (p + length k) 17)
        \<longrightarrow> findMacInString t k = Some (substr t (p + length k) 17))"
  using find_str_length [of k t] is_mac_defMac
  by (auto simp: findMacInString_def Let_def split: option.splits)

text \<open>Well-formed addresses that are read: the last write and the number of bytes.\<close>

definition curl_run :: "string list \<Rightarrow> write_result \<Rightarrow> write_result" where
  "curl_run chunks r = foldl (\<lambda>r c. snd (curl_write c r)) r chunks"

lemma curl_write_bound:
  "wr_pos r = length (wr_data r) \<Longrightarrow> wr_pos r < CURL_BUFFER_SIZE - 1 \<Longrightarrow>
   wr_pos (curl_run chunks r) = length (wr_data (curl_run chunks r)) \<and> wr_pos (curl_run chunks r) < CURL_BUFFER_SIZE - 1
   \<and> (\<exists>rest. wr_data (curl_run chunks r) = wr_data r @ rest)"
proof (induction chunks arbitrary: r)
  case Nil
  then show ?case by (simp add: curl_run_def)
next
  case (Cons c chunks)
  have "wr_pos (snd (curl_write c r)) = length (wr_data (snd (curl_write c r)))"
    "wr_pos (snd (curl_write c r)) < CURL_BUFFER_SIZE - 1" "\<exists>rest. wr_data (snd (curl_write c r)) = wr_data r @ rest"
    using Cons.prems by (auto simp: curl_write_def)
  then show ?case using Cons.IH [of "snd (curl_write c r)"] by (auto simp: curl_run_def)
qed

lemma parse_lines_first:
  "find_char CHR ''='' line = Some eq \<Longrightarrow> take eq line = key \<Longrightarrow>
   \<forall>l \<in> set before. \<not> (\<exists>e. find_char CHR ''='' l = Some e \<and> take e l = key) \<Longrightarrow>
   parse_lines (before @ line # after) key val = (True, drop (eq + 1) line)"
  by (induction before) (auto split: option.splits)

lemma parse_lines_none:
  "fst (parse_lines lines key val) \<longleftrightarrow> (\<exists>l \<in> set lines. \<exists>e. find_char CHR ''='' l = Some e \<and> take e l = key)"
  by (induction lines) (auto split: option.splits)

lemma split_length: "length (split l s [d]) = length l + 1 + length (filter (\<lambda>c. c = d) s)"
proof (induction l s "[d]" rule: split.induct)
  case (1 l s)
  have *: "filter (\<lambda>c. c = d) s = filter (\<lambda>c. c = d) (dropWhile (\<lambda>c. c \<notin> set [d]) s)"
    by (induction s) auto
  show ?case
  proof (cases "dropWhile (\<lambda>c. c \<notin> set [d]) s")
    case Nil
    then have "split l s [d] = l @ [s]" by (subst split.simps) (simp only: list.case)
    moreover have "filter (\<lambda>c. c = d) s = []" using * [unfolded Nil] by simp
    ultimately show ?thesis by simp
  next
    case (Cons e rest)
    then have e: "e = d" by (metis dropWhile_eq_Cons_conv empty_iff insert_iff list.set)
    have "split l s [d] = split (l @ [takeWhile (\<lambda>c. c \<notin> set [d]) s]) rest [d]"
      by (subst split.simps) (simp only: Cons list.case)
    moreover have "filter (\<lambda>c. c = d) s = d # filter (\<lambda>c. c = d) rest" using * [unfolded Cons] e by simp
    moreover have "length (split (l @ [takeWhile (\<lambda>c. c \<notin> set [d]) s]) rest [d])
        = length (l @ [takeWhile (\<lambda>c. c \<notin> set [d]) s]) + 1 + length (filter (\<lambda>c. c = d) rest)"
      by (rule 1 [OF Cons])
    ultimately show ?thesis by simp
  qed
qed

text \<open>
  Reading the download progress accesses a word that is not there exactly if the last line of
  the file that is not empty has an M or a G and fewer than two runs of spaces after the leading ones.
\<close>

theorem download_progress_defined:
  assumes "open_read F DOWNLOAD_PROGRESS_FILE = Some s" "CHR 0x00 \<notin> set s"
    "filter (\<lambda>l. l \<noteq> []) (file_lines s) = ls"
  shows "getDownloadProgress F d = None \<longleftrightarrow>
    ls \<noteq> [] \<and> (CHR ''M'' \<in> set (last ls) \<or> CHR ''G'' \<in> set (last ls))
    \<and> length (filter (\<lambda>c. c = CHR '' '') (squeeze [] (ltrim (last ls)))) < 2"
proof (cases "ls = []")
  case True
  then show ?thesis
    using assms by (auto simp: getDownloadProgress_def readFileContent_all getLastLine_def last_nonempty_eq Let_def)
next
  case False
  then have s: "s \<noteq> []" using assms(3) by (auto simp: file_lines_def)
  have last: "last ls \<in> set (file_lines s)" "last ls \<noteq> []"
    using last_in_set [OF False] assms(3) by auto
  have sub: "set (ltrim l) \<subseteq> set l" for l by (auto simp: ltrim_def dest: set_dropWhileD)
  have letters: "c \<in> set (ltrim l) \<longleftrightarrow> c \<in> set l" if "\<not> c_isspace c" for c l
  proof -
    have "l = takeWhile c_isspace l @ ltrim l" by (simp add: ltrim_def)
    then have "set l = set (takeWhile c_isspace l) \<union> set (ltrim l)" by (metis set_append)
    then show ?thesis using that set_takeWhileD [of c c_isspace l] by auto
  qed
  have MG: "\<not> c_isspace CHR ''M''" "\<not> c_isspace CHR ''G''" by (simp_all add: c_isspace_def ascii_def)
  have nonul: "CHR 0x00 \<notin> set l" if "l \<in> set (file_lines s)" for l
    using file_lines_chars [OF that] assms(2) by auto
  have line: "takeWhile (\<lambda>c. c \<noteq> CHR 0x00) (ltrim (last ls)) = ltrim (last ls)"
    using nonul [OF last(1)] sub by (auto simp: takeWhile_eq_all_conv)
  have ne: "ltrim (last ls) \<noteq> []" if "CHR ''M'' \<in> set (last ls) \<or> CHR ''G'' \<in> set (last ls)"
    using letters [of "CHR ''M''" "last ls"] letters [of "CHR ''G''" "last ls"] MG that by auto
  have "getLastLine s [] = (True, last ls)"
    using s False assms(3) by (simp add: getLastLine_def last_nonempty_eq)
  moreover have "readFileContent F DOWNLOAD_PROGRESS_FILE [] = (True, s)"
    using assms(1,2) s by (simp add: readFileContent_all)
  moreover have "snd (removeExtraWhitespaces (ltrim (last ls)) []) = squeeze [] (ltrim (last ls))"
    if "CHR ''M'' \<in> set (last ls) \<or> CHR ''G'' \<in> set (last ls)"
    using ne [OF that] by (simp add: removeExtraWhitespaces_def line)
  ultimately show ?thesis
    using s False last(2) letters [OF MG(1)] letters [OF MG(2)]
    by (auto simp: getDownloadProgress_def Let_def split_length)
qed

text \<open>
  A settings file with a protocol but without the URL of the repository: the protocol is uploaded to
  as if it were the URL.
\<close>

theorem missing_url_is_protocol:
  assumes "open_read F TMP_DCM_SETTINGS = Some s" "s \<noteq> []"
    "capture_line ''LogUploadSettings:UploadRepository:uploadProtocol='' s = Some protocol" "ss_trim protocol \<noteq> []"
    "capture_line ''LogUploadSettings:UploadRepository:URL='' s = None"
  shows "\<exists>check. getDCMconfigDetails F (p, h, c) = (True, ss_trim protocol, ss_trim protocol, check)"
  using assms by (simp add: getDCMconfigDetails_def getFileContent_def capture_trim_def Let_def)

text \<open>The accuracy is one of the three known ones; a saved valid one is reported as it is.\<close>

theorem accuracy_known:
  "getTimeZoneAccuracyDSTHelper F \<in> {''INITIAL'', ''INTERIM'', ''FINAL''}
   \<and> (\<forall>a \<in> {''INITIAL'', ''INTERIM'', ''FINAL''}. F TZ_ACCURACY_FILE = Regular (a @ [CHR 0x0A]) \<longrightarrow>
        getTimeZoneAccuracyDSTHelper F = a)"
  by (auto simp: getTimeZoneAccuracyDSTHelper_def getFileContent_lines_def open_read_def fileExists_def Let_def
      file_lines_def split: file_st.splits)

end
