(* ===== verification/Regex.thy ===== *)
theory Regex imports CLib begin

text \<open>
  The regular expressions of the sources that are sequences of repeated character classes, with the
  backtracking semantics of \<open>std::regex\<close> (ECMAScript): every repetition is greedy, and the first
  assignment of lengths that lets the rest match is taken. The result is the list of the captured
  groups.
\<close>

datatype rx_item = Rx (rx_class: "char \<Rightarrow> bool") (rx_min: nat) (rx_max: "nat option") (rx_group: bool)

definition rx_lengths :: "(char \<Rightarrow> bool) \<Rightarrow> nat \<Rightarrow> nat option \<Rightarrow> string \<Rightarrow> nat list" where
  "rx_lengths P lo hi s =
     (let n = length (takeWhile P s); m = (case hi of None \<Rightarrow> n | Some h \<Rightarrow> min h n) in rev [lo..<m + 1])"

fun first_some :: "'a option list \<Rightarrow> 'a option" where
  "first_some [] = None"
| "first_some (Some x # xs) = Some x"
| "first_some (None # xs) = first_some xs"

text \<open>\<open>full\<close> asks for the whole string to be matched.\<close>

fun rx_seq :: "bool \<Rightarrow> rx_item list \<Rightarrow> string \<Rightarrow> string list option" where
  "rx_seq full [] s = (if full \<and> s \<noteq> [] then None else Some [])"
| "rx_seq full (Rx P lo hi g # items) s =
     first_some (map (\<lambda>k. map_option (\<lambda>groups. if g then take k s # groups else groups) (rx_seq full items (drop k s)))
       (rx_lengths P lo hi s))"

definition regex_match :: "rx_item list \<Rightarrow> string \<Rightarrow> string list option" where
  "regex_match items s = rx_seq True items s"

fun regex_search :: "rx_item list \<Rightarrow> string \<Rightarrow> string list option" where
  "regex_search items [] = rx_seq False items []"
| "regex_search items (c # cs) =
     (case rx_seq False items (c # cs) of Some groups \<Rightarrow> Some groups | None \<Rightarrow> regex_search items cs)"

text \<open>Building expressions: a literal, a class with any number, some, or at most one.\<close>

definition rx_lit :: "string \<Rightarrow> rx_item list" where
  "rx_lit t = map (\<lambda>c. Rx (\<lambda>d. d = c) 1 (Some 1) False) t"

definition rx_star :: "(char \<Rightarrow> bool) \<Rightarrow> rx_item" where "rx_star P = Rx P 0 None False"
definition rx_opt :: "(char \<Rightarrow> bool) \<Rightarrow> rx_item" where "rx_opt P = Rx P 0 (Some 1) False"
definition rx_one :: "(char \<Rightarrow> bool) \<Rightarrow> rx_item" where "rx_one P = Rx P 1 (Some 1) False"
definition rx_some_group :: "(char \<Rightarrow> bool) \<Rightarrow> rx_item" where "rx_some_group P = Rx P 1 None True"

lemma first_some_SomeD: "first_some xs = Some y \<Longrightarrow> Some y \<in> set xs"
  by (induction xs rule: first_some.induct) auto

lemma first_some_None: "first_some xs = None \<longleftrightarrow> (\<forall>x \<in> set xs. x = None)"
  by (induction xs rule: first_some.induct) auto

lemma take_takeWhile: "k \<le> length (takeWhile P s) \<Longrightarrow> \<forall>c \<in> set (take k s). P c"
  by (metis in_set_takeD set_takeWhileD takeWhile_eq_take take_take min.absorb1 min.commute)

text \<open>Every repetition takes characters of its class only.\<close>

lemma rx_seq_groups:
  "rx_seq full items s = Some groups \<Longrightarrow>
   list_all2 (\<lambda>it g. rx_min it \<le> length g \<and> (\<forall>c \<in> set g. rx_class it c)) (filter rx_group items) groups"
proof (induction items arbitrary: s groups)
  case Nil
  then show ?case by (simp split: if_splits)
next
  case (Cons it items)
  obtain P lo hi g where it: "it = Rx P lo hi g" by (cases it)
  obtain k gs where k: "k \<in> set (rx_lengths P lo hi s)" "rx_seq full items (drop k s) = Some gs"
    "groups = (if g then take k s # gs else gs)"
    using Cons.prems it by (force dest!: first_some_SomeD sym [of "Some _"])
  have "lo \<le> k" "k \<le> length (takeWhile P s)" using k(1) by (auto simp: rx_lengths_def Let_def split: option.splits)
  then have "lo \<le> length (take k s)" "\<forall>c \<in> set (take k s). P c"
    using take_takeWhile [of k P s] length_takeWhile_le [of P s] by auto
  then show ?case using Cons.IH [OF k(2)] k(3) it by auto
qed

text \<open>The greedy choice, if the rest matches after it.\<close>

lemma rx_seq_greedy:
  assumes "\<forall>c \<in> set xs. P c" "ys \<noteq> [] \<Longrightarrow> \<not> P (hd ys)" "lo \<le> length xs" "rx_seq full items ys = Some groups"
  shows "rx_seq full (Rx P lo None g # items) (xs @ ys) = Some (if g then xs # groups else groups)"
proof -
  have "takeWhile P (xs @ ys) = xs" using assms(1,2) by (cases ys) (simp_all add: takeWhile_append2)
  then have "rx_lengths P lo None (xs @ ys) = length xs # rev [lo..<length xs]"
    using assms(3) by (simp add: rx_lengths_def Let_def)
  then show ?thesis using assms(4) by simp
qed

lemma rx_lengths_one: "rx_lengths P 1 (Some 1) s = (if s \<noteq> [] \<and> P (hd s) then [1] else [])"
  by (cases s) (auto simp: rx_lengths_def)

lemma rx_seq_one:
  "rx_seq full (Rx P 1 (Some 1) False # items) s =
     (if s \<noteq> [] \<and> P (hd s) then rx_seq full items (tl s) else None)"
  by (cases "rx_seq full items (tl s)"; cases s) (simp_all add: rx_lengths_one [simplified])

lemma rx_seq_lit: "rx_seq full (rx_lit t @ items) s = (if is_prefix t s then rx_seq full items (drop (length t) s) else None)"
proof (induction t arbitrary: s)
  case Nil
  then show ?case by (simp add: rx_lit_def)
next
  case (Cons c t)
  have "rx_lit (c # t) @ items = Rx (\<lambda>d. d = c) 1 (Some 1) False # (rx_lit t @ items)" by (simp add: rx_lit_def)
  then show ?case using Cons by (cases s) (auto simp: rx_seq_one [unfolded One_nat_def] simp del: rx_seq.simps(2))
qed

lemma rx_seq_opt:
  "rx_seq full (Rx P 0 (Some 1) False # items) s =
     (if s \<noteq> [] \<and> P (hd s)
      then (case rx_seq full items (tl s) of Some gs \<Rightarrow> Some gs | None \<Rightarrow> rx_seq full items s)
      else rx_seq full items s)"
proof (cases s)
  case (Cons c cs)
  then show ?thesis
    by (cases "rx_seq full items cs"; cases "rx_seq full items s") (simp_all add: rx_lengths_def)
qed (cases "rx_seq full items s"; simp add: rx_lengths_def)

lemma rx_one_step:
  "rx_seq full (rx_one P # items) s = (if s \<noteq> [] \<and> P (hd s) then rx_seq full items (tl s) else None)"
  unfolding rx_one_def by (rule rx_seq_one)

lemma rx_opt_step:
  "rx_seq full (rx_opt P # items) s =
     (if s \<noteq> [] \<and> P (hd s)
      then (case rx_seq full items (tl s) of Some gs \<Rightarrow> Some gs | None \<Rightarrow> rx_seq full items s)
      else rx_seq full items s)"
  unfolding rx_opt_def by (rule rx_seq_opt)

end
