(* ===== verification/PlatformCaps.thy ===== *)
theory PlatformCaps imports FileContent Json Regex begin

text \<open>
  The platform capabilities of SystemServices: \<open>platformcaps/platformcaps.cpp\<close>,
  \<open>platformcapsdata.cpp\<close> and \<open>platformcapsdatarpc.cpp\<close>, built with \<open>YOCTO_BUILD\<close> and \<open>AAMP_SUPPORTED\<close> as
  the file defines them.

  The results of other plugins are parameters: the AuthService interface if it could be had, and the
  results of JSON-RPC calls by callsign and method. The static \<open>once_flag\<close> of \<open>getDeviceProperties\<close> is
  passed along (\<open>True\<close> once it has been used).
\<close>

section \<open>Environment\<close>

record auth_service =
  as_deviceInfo :: "string option"
  as_alternateIds :: "json_params option"
  as_xDeviceId :: "string option"
  as_token :: "string option"
  as_experience :: "string option"

record pc_env =
  pc_files :: files
  pc_getenv :: "string \<Rightarrow> bool"
  pc_rfc :: "string \<Rightarrow> string option"
  pc_json :: "string \<Rightarrow> json_params option"
  pc_msdecode :: "bool option"
  pc_auth :: "auth_service option"
  pc_invoke :: "string \<Rightarrow> string \<Rightarrow> json_params"

section \<open>Properties of the device\<close>

definition SWUpdateConf :: string where "SWUpdateConf = ''/opt/swupdate.conf''"
definition DeviceRunXREProperties :: string where "DeviceRunXREProperties = ''/etc/device.runXRE.properties''"
definition DeviceProperties :: string where "DeviceProperties = ''/etc/device.properties''"
definition PlaybackTypes :: "string list" where
  "PlaybackTypes = [''LINEAR_TV'', ''VOD'', ''IVOD'', ''DVR'', ''CDVR'', ''IPDVR'', ''EAS'']"

text \<open>
  A line is split at its first equality sign, unless it begins with one. A line without one passes the
  test too, since \<open>npos\<close> is positive, and is its own key and value.
\<close>

definition property_of_line :: "string \<Rightarrow> (string \<times> string) option" where
  "property_of_line line =
     (if line = [] then None
      else (case find_char CHR ''='' line of
              None \<Rightarrow> Some (line, line)
            | Some 0 \<Rightarrow> None
            | Some p \<Rightarrow> Some (take p line, drop (p + 1) line)))"

definition getProperties :: "files \<Rightarrow> string \<Rightarrow> string \<rightharpoonup> string" where
  "getProperties F filename =
     (case open_read F filename of
        None \<Rightarrow> Map.empty
      | Some s \<Rightarrow> fold (\<lambda>line m. case property_of_line line of Some (k, v) \<Rightarrow> m(k \<mapsto> v) | None \<Rightarrow> m) (file_lines s) Map.empty)"

text \<open>\<open>insert\<close> keeps the entries of the first file. Every call but the first gives an empty map.\<close>

definition getDeviceProperties :: "files \<Rightarrow> bool \<Rightarrow> (string \<rightharpoonup> string) \<times> bool" where
  "getDeviceProperties F flag =
     (if flag then (Map.empty, True)
      else (getProperties F DeviceProperties ++ getProperties F DeviceRunXREProperties, True))"

section \<open>The data\<close>

text \<open>The tokens between colons; empty ones play no role for the names looked up.\<close>

definition colon_tokens :: "string \<Rightarrow> string list" where
  "colon_tokens s = filter (\<lambda>t. t \<noteq> []) (split [] s '':'')"

definition AddDashExclusionList :: "pc_env \<Rightarrow> bool \<Rightarrow> (string \<times> string list) list \<times> bool" where
  "AddDashExclusionList E flag =
     (let (properties, flag1) = getDeviceProperties (pc_files E) flag;
          dashInclusions =
            (if properties ''ONLY_AVE_SUPPORTED'' = None \<or> properties ''DISABLE_DASH_SUPPORT'' = None
             then (case pc_rfc E ''Device.DeviceInfo.X_RDKCENTRAL-COM_RFC.Feature.AAMP_CFG.DashPlaybackInclusions'' of
                     Some str \<Rightarrow> colon_tokens str | None \<Rightarrow> [])
             else [])
      in (if ''*'' \<notin> set dashInclusions
          then map (\<lambda>t. (t, [''application/dash+xml''])) (filter (\<lambda>t. t \<notin> set dashInclusions) PlaybackTypes)
          else [], flag1))"

definition quirks_list :: "string list" where
  "quirks_list = [''XRE-4621'', ''XRE-4826'', ''XRE-4896'', ''XRE-5553'', ''XRE-5743'',
     ''XRE-6350'', ''XRE-6827'', ''XRE-7267'', ''XRE-7366'', ''XRE-7415'', ''XRE-7389'', ''DELIA-6142'', ''RDK-2222'',
     ''XRE-7924'', ''DELIA-8978'', ''XRE-7711'', ''RDK-2849'', ''DELIA-9338'', ''ZYN-172'', ''XRE-8970'', ''XRE-9001'',
     ''DELIA-17939'', ''DELIA-17204'', ''CPC-1594'', ''DELIA-21775'', ''XRE-11602'', ''CPC-1767'', ''CPC-1824'',
     ''XRE-10057'', ''RDK-21197'', ''CPC-2004'', ''DELIA-27583'', ''XRE-12919'', ''DELIA-28101'',
     ''XRE-13590'', ''XRE-13692'', ''XRE-13722'', ''DELIA-30269'', ''RDK-22801'', ''CPC-2404'', ''XRE-14664'', ''XRE-14921'',
     ''XRE-14963'', ''RDK-26425'', ''RDK-28990'', ''RDK-32261'']"

definition GetQuirks :: "pc_env \<Rightarrow> string list" where
  "GetQuirks E = quirks_list
     @ (if pc_getenv E ''KEEP_RECEIVER_PROCESS_ON_STANDBY'' then [''RDK-22152''] else [])
     @ (if pc_getenv E ''RFC_ENABLE_HDMICEC_DAEMON'' then [''RDK-22967''] else [])
     @ (if pc_getenv E ''RFC_ENABLE_XDIALCAST'' then [''RDK-21397''] else [])
     @ (if pc_getenv E ''RFC_ENABLE_BT_AUX_AUDIO'' then [''RDK-3575'', ''RDK-24936''] else [])"

text \<open>The first of two files that can be read; \<open>pc_json\<close> is its content.\<close>

definition first_json :: "pc_env \<Rightarrow> string \<Rightarrow> string \<Rightarrow> json_params option" where
  "first_json E override default_file =
     (case pc_json E override of Some j \<Rightarrow> Some j | None \<Rightarrow> pc_json E default_file)"

definition GetBrowser :: "pc_env \<Rightarrow> string \<times> string \<times> string" where
  "GetBrowser E =
     (let type = (case first_json E ''/opt/webbackend.conf'' ''/home/root/webbackend.conf'' of
                    Some j \<Rightarrow> member_String j ''html_view'' | None \<Rightarrow> [])
      in if type = ''rdkbrowser'' then
           (''WPE'', ''1.0.0.0'', ''Mozilla/5.0 (Linux; x86_64 GNU/Linux) AppleWebKit/601.1 (KHTML, like Gecko) Version/8.0 Safari/601.1 WPE'')
         else if type = ''cef'' then
           (''CEF'', ''1.0.0.0'', ''Mozilla/5.0 (Unknown; Linux i686) AppleWebKit/537.21 (KHTML, like Gecko) NativeXREReceiver'')
         else if type = ''webkit'' then
           (''qtwebkit'', ''1.0.0.0'', ''Mozilla/5.0 (Unknown; Linux i686) AppleWebKit/537.21 (KHTML, like Gecko) NativeXREReceiver'')
         else
           (''WPE'', ''1.0.0.0'', ''Mozilla/5.0 (Linux; x86_64 GNU/Linux) AppleWebKit/601.1 (KHTML, like Gecko) Version/8.0 Safari/601.1 WPE''))"

definition SupportsTrueSD :: bool where "SupportsTrueSD = True"

text \<open>\<open>pc_msdecode\<close>: the first video port's audio port, \<open>None\<close> if there is no port or the library throws.\<close>

definition CanMixPCMWithSurround :: "pc_env \<Rightarrow> bool" where
  "CanMixPCMWithSurround E = (case pc_msdecode E of Some b \<Rightarrow> b | None \<Rightarrow> False)"

definition GetFirmwareUpdateDisabled :: "pc_env \<Rightarrow> bool" where
  "GetFirmwareUpdateDisabled E = fileExists (pc_files E) SWUpdateConf"

definition GetMimeTypes :: "string list" where "GetMimeTypes = []"

definition lib_path :: "string \<Rightarrow> string" where
  "lib_path lib = (if lib = [] \<or> hd lib \<noteq> CHR ''/'' then ''/usr/lib'' @ ''/'' @ lib else lib)"

fun verifyLibraries :: "files \<Rightarrow> json list \<Rightarrow> bool" where
  "verifyLibraries F [] = True"
| "verifyLibraries F (l # ls) = (if fileExists F (lib_path (json_String l)) then verifyLibraries F ls else False)"

fun json_list :: "json \<Rightarrow> json list" where
  "json_list (JArray vs) = vs"
| "json_list _ = []"

fun json_object :: "json \<Rightarrow> json_params" where
  "json_object (JObject ps) = ps"
| "json_object _ = []"

definition uint8_of :: "int \<Rightarrow> u8" where "uint8_of n = word_of_int n"

definition plugin_disabled :: "json_params \<Rightarrow> bool" where
  "plugin_disabled h = (HasLabel h ''enabled'' \<and> member_String h ''enabled'' = ''false'')"

definition plugin_complete :: "json_params \<Rightarrow> bool" where
  "plugin_complete h = (HasLabel h ''appName'' \<and> HasLabel h ''libraries'' \<and> HasLabel h ''version'' \<and> \<not> plugin_disabled h)"

definition plugin_version :: "json_params \<Rightarrow> u8" where
  "plugin_version h = uint8_of (atoi (member_String h ''version''))"

text \<open>\<open>emplace\<close> keeps an entry that is there.\<close>

definition emplace :: "string \<Rightarrow> u8 \<Rightarrow> (string \<rightharpoonup> u8) \<Rightarrow> (string \<rightharpoonup> u8)" where
  "emplace k v m = (if m k = None then m(k \<mapsto> v) else m)"

fun device_plugins :: "files \<Rightarrow> json list \<Rightarrow> (string \<rightharpoonup> u8) \<Rightarrow> string list \<Rightarrow> (string \<rightharpoonup> u8) \<times> string list" where
  "device_plugins F [] result removePlugins = (result, removePlugins)"
| "device_plugins F (p # ps) result removePlugins =
     (let h = json_object p
      in if HasLabel h ''appName'' \<and> plugin_disabled h
         then device_plugins F ps result (removePlugins @ [member_String h ''appName''])
         else if plugin_complete h \<and> verifyLibraries F (json_list (member h ''libraries''))
         then device_plugins F ps (emplace (member_String h ''appName'') (plugin_version h) result) removePlugins
         else device_plugins F ps result removePlugins)"

fun generic_plugins :: "files \<Rightarrow> string list \<Rightarrow> json list \<Rightarrow> (string \<rightharpoonup> u8) \<Rightarrow> (string \<rightharpoonup> u8)" where
  "generic_plugins F removePlugins [] result = result"
| "generic_plugins F removePlugins (p # ps) result =
     (let h = json_object p; appName = member_String h ''appName''
      in if plugin_complete h then
           (if result appName \<noteq> None then generic_plugins F removePlugins ps result
            else if appName \<in> set removePlugins then generic_plugins F removePlugins ps result
            else if verifyLibraries F (json_list (member h ''libraries''))
            then generic_plugins F removePlugins ps (emplace appName (plugin_version h) result)
            else generic_plugins F removePlugins ps result)
         else generic_plugins F removePlugins ps result)"

definition registry_of :: "json_params option \<Rightarrow> json list" where
  "registry_of j = (case j of Some ps \<Rightarrow> json_list (member ps ''pluginregistry'') | None \<Rightarrow> [])"

definition getAvailablePlugins :: "pc_env \<Rightarrow> (string \<rightharpoonup> u8)" where
  "getAvailablePlugins E =
     (let plugins = registry_of (first_json E ''/opt/xrepluginregistry.conf'' ''/home/root/xrepluginregistry.conf'');
          devicePlugins = registry_of (pc_json E ''/home/root/xrepluginregistry.device.conf'');
          (result, removePlugins) = device_plugins (pc_files E) devicePlugins Map.empty []
      in generic_plugins (pc_files E) removePlugins plugins result)"

definition fixed_features :: "(string \<rightharpoonup> u8)" where
  "fixed_features = map_of (map (\<lambda>k. (k, 1))
     [''htmlview.headers'', ''htmlview.cookies'', ''htmlview.httpCookies'', ''htmlview.evaluateJavaScript'',
      ''htmlview.callJavaScriptWithResult'', ''htmlview.urlpatterns'', ''htmlview.disableCSSAnimations'',
      ''htmlview.postMessage'', ''allowSelfSignedWithIPAddress'', ''connection.supportsSecure'', ''keySource''])"

definition DeviceCapsFeatures :: "pc_env \<Rightarrow> bool \<Rightarrow> (string \<rightharpoonup> u8) \<times> bool" where
  "DeviceCapsFeatures E flag =
     (let (properties, flag1) = getDeviceProperties (pc_files E) flag;
          result1 = (case properties ''OPEN_BROWSING'' of
                       Some v \<Rightarrow> if v = ''0'' \<or> v = ''false'' then fixed_features(''openBrowsing'' \<mapsto> 0) else fixed_features
                     | None \<Rightarrow> fixed_features);
          result2 = result1 ++ getAvailablePlugins E
      in (result2(''uhd_4k_decode'' \<mapsto> (case properties ''UHD_4K_DECODE'' of Some v \<Rightarrow> uint8_of (atoi v) | None \<Rightarrow> 0)), flag1))"

section \<open>Data of other plugins\<close>

definition hex_digit :: "char \<Rightarrow> int option" where
  "hex_digit c =
     (if c_isdigit c then Some (int (ascii c) - 48)
      else if 97 \<le> ascii c \<and> ascii c \<le> 102 then Some (int (ascii c) - 87)
      else if 65 \<le> ascii c \<and> ascii c \<le> 70 then Some (int (ascii c) - 55)
      else None)"

text \<open>\<open>strtol\<close> in base 16 of at most two characters, the sign and white space included.\<close>

fun hex_digits :: "int \<Rightarrow> string \<Rightarrow> int" where
  "hex_digits acc [] = acc"
| "hex_digits acc (c # cs) = (case hex_digit c of Some d \<Rightarrow> hex_digits (16 * acc + d) cs | None \<Rightarrow> acc)"

definition strtol16 :: "string \<Rightarrow> int" where
  "strtol16 s =
     (case dropWhile c_isspace s of
        [] \<Rightarrow> 0
      | c # cs \<Rightarrow> if c = CHR ''-'' then - hex_digits 0 cs else if c = CHR ''+'' then hex_digits 0 cs else hex_digits 0 (c # cs))"

fun stringFromHex :: "string \<Rightarrow> string" where
  "stringFromHex [] = []"
| "stringFromHex [a] = [char_of (nat (strtol16 [a] mod 256))]"
| "stringFromHex (a # b # rest) = char_of (nat (strtol16 [a, b] mod 256)) # stringFromHex rest"

definition word_char :: "char \<Rightarrow> bool" where
  "word_char c = (c_isdigit c \<or> c_isdigit c \<or> 65 \<le> ascii c \<and> ascii c \<le> 90 \<or> 97 \<le> ascii c \<and> ascii c \<le> 122 \<or> c = CHR ''_'')"

definition deviceType_rx :: "rx_item list" where
  "deviceType_rx = rx_lit ''deviceType='' @ [rx_some_group word_char, rx_one (\<lambda>c. c = CHR '','')]"

definition pc_GetDeviceType :: "pc_env \<Rightarrow> string" where
  "pc_GetDeviceType E =
     (case pc_auth E of
        Some a \<Rightarrow>
          (case regex_search deviceType_rx (stringFromHex (case as_deviceInfo a of Some h \<Rightarrow> h | None \<Rightarrow> [])) of
             Some (t # _) \<Rightarrow> t
           | _ \<Rightarrow> [])
      | None \<Rightarrow>
          (let t = member_String (pc_invoke E ''org.rdk.System'' ''getDeviceInfo'') ''device_type''
           in if t = ''mediaclient'' then ''IpStb'' else if t = ''hybrid'' then ''QamIpStb'' else ''TV''))"

definition pc_GetModel :: "pc_env \<Rightarrow> string" where
  "pc_GetModel E = member_String (pc_invoke E ''org.rdk.System'' ''getDeviceInfo'') ''model_number''"

fun comma_list :: "json list \<Rightarrow> string \<Rightarrow> string" where
  "comma_list [] result = result"
| "comma_list (v # vs) result = comma_list vs ((if result \<noteq> [] then result @ '','' else result) @ json_String v)"

definition GetHDRCapability :: "pc_env \<Rightarrow> string" where
  "GetHDRCapability E =
     comma_list (json_list (member (pc_invoke E ''org.rdk.DisplaySettings'' ''getSettopHDRSupport'') ''standards'')) []"

definition with_auth :: "pc_env \<Rightarrow> (auth_service \<Rightarrow> string option) \<Rightarrow> string" where
  "with_auth E f = (case pc_auth E of None \<Rightarrow> [] | Some a \<Rightarrow> (case f a of Some s \<Rightarrow> s | None \<Rightarrow> []))"

definition GetAccountId :: "pc_env \<Rightarrow> string" where
  "GetAccountId E = with_auth E (\<lambda>a. map_option (\<lambda>j. member_String j ''_xbo_account_id'') (as_alternateIds a))"

definition GetX1DeviceId :: "pc_env \<Rightarrow> string" where
  "GetX1DeviceId E = with_auth E as_xDeviceId"

definition XCALSessionTokenAvailable :: "pc_env \<Rightarrow> bool" where
  "XCALSessionTokenAvailable E =
     (case pc_auth E of None \<Rightarrow> False | Some a \<Rightarrow> (case as_token a of Some t \<Rightarrow> t \<noteq> [] | None \<Rightarrow> False))"

definition GetExperience :: "pc_env \<Rightarrow> string" where
  "GetExperience E = with_auth E as_experience"

definition GetDdeviceMACAddress :: "pc_env \<Rightarrow> string" where
  "GetDdeviceMACAddress E = member_String (pc_invoke E ''org.rdk.System'' ''getDeviceInfo'') ''estb_mac''"

definition GetPublicIP :: "pc_env \<Rightarrow> string" where
  "GetPublicIP E = member_String (pc_invoke E ''org.rdk.Network'' ''getPublicIP'') ''public_ip''"

section \<open>Loading\<close>

text \<open>A member is added for an empty query and for its own name.\<close>

definition wanted :: "string \<Rightarrow> string \<Rightarrow> bool" where
  "wanted query name = (query = [] \<or> query = name)"

definition AccountInfo_Load :: "pc_env \<Rightarrow> string \<Rightarrow> json_params" where
  "AccountInfo_Load E query =
     (if wanted query ''accountId'' then [(''accountId'', JString (GetAccountId E))] else [])
     @ (if wanted query ''x1DeviceId'' then [(''x1DeviceId'', JString (GetX1DeviceId E))] else [])
     @ (if wanted query ''XCALSessionTokenAvailable'' then [(''XCALSessionTokenAvailable'', JBool (XCALSessionTokenAvailable E))] else [])
     @ (if wanted query ''experience'' then [(''experience'', JString (GetExperience E))] else [])
     @ (if wanted query ''deviceMACAddress'' then [(''deviceMACAddress'', JString (GetDdeviceMACAddress E))] else [])
     @ (if wanted query ''firmwareUpdateDisabled'' then [(''firmwareUpdateDisabled'', JBool (GetFirmwareUpdateDisabled E))] else [])"

text \<open>The features are a map; \<open>labels\<close> lists its members.\<close>

definition DeviceInfo_Load ::
  "pc_env \<Rightarrow> ((string \<rightharpoonup> u8) \<Rightarrow> (string \<times> json) list) \<Rightarrow> string \<Rightarrow> bool \<Rightarrow> json_params \<times> bool" where
  "DeviceInfo_Load E labels query flag =
     (let (hash, flag1) = (if wanted query ''mimeTypeExclusions'' then AddDashExclusionList E flag else ([], flag));
          (features, flag2) = (if wanted query ''features'' then DeviceCapsFeatures E flag1 else (Map.empty, flag1));
          (b, v, u) = GetBrowser E
      in ((if wanted query ''quirks'' then [(''quirks'', JArray (map JString (GetQuirks E)))] else [])
          @ (if hash \<noteq> [] then [(''mimeTypeExclusions'', JObject (map (\<lambda>(k, l). (k, JArray (map JString l))) hash))] else [])
          @ (if wanted query ''features'' \<and> features \<noteq> Map.empty then [(''features'', JObject (labels features))] else [])
          @ (if wanted query ''mimeTypes'' then [(''mimeTypes'', JArray (map JString GetMimeTypes))] else [])
          @ (if wanted query ''model'' then [(''model'', JString (pc_GetModel E))] else [])
          @ (if wanted query ''deviceType'' then [(''deviceType'', JString (pc_GetDeviceType E))] else [])
          @ (if wanted query ''supportsTrueSD'' then [(''supportsTrueSD'', JBool SupportsTrueSD)] else [])
          @ (if wanted query ''webBrowser'' then [(''webBrowser'', JObject [(''browserType'', JString b),
               (''version'', JString v), (''userAgent'', JString u)])] else [])
          @ (if wanted query ''HdrCapability'' then [(''HdrCapability'', JString (GetHDRCapability E))] else [])
          @ (if wanted query ''canMixPCMWithSurround'' then [(''canMixPCMWithSurround'', JBool (CanMixPCMWithSurround E))] else [])
          @ (if wanted query ''publicIP'' then [(''publicIP'', JString (GetPublicIP E))] else []), flag2))"

text \<open>
  The match of \<open>^(AccountInfo|DeviceInfo)(\.(\w*)){0,1}\<close>: the first group and the third.
\<close>

definition caps_query :: "string \<Rightarrow> (string \<times> string) option" where
  "caps_query query =
     (let sub = (\<lambda>k. case drop (length k) query of
                   c # cs \<Rightarrow> if c = CHR ''.'' then takeWhile word_char cs else []
                 | [] \<Rightarrow> [])
      in if is_prefix ''AccountInfo'' query then Some (''AccountInfo'', sub ''AccountInfo'')
         else if is_prefix ''DeviceInfo'' query then Some (''DeviceInfo'', sub ''DeviceInfo'')
         else None)"

definition PlatformCaps_Load ::
  "pc_env \<Rightarrow> ((string \<rightharpoonup> u8) \<Rightarrow> (string \<times> json) list) \<Rightarrow> string \<Rightarrow> bool \<Rightarrow> bool \<times> json_params \<times> bool" where
  "PlatformCaps_Load E labels query flag =
     (if query = [] \<or> caps_query query \<noteq> None then
        (let (which, sub) = (case caps_query query of Some w \<Rightarrow> w | None \<Rightarrow> ([], []));
             account = (if query = [] \<or> which = ''AccountInfo''
                        then [(''AccountInfo'', JObject (AccountInfo_Load E sub))] else []);
             (device, flag1) = (if query = [] \<or> which = ''DeviceInfo''
                        then (let (ms, f) = DeviceInfo_Load E labels sub flag in ([(''DeviceInfo'', JObject ms)], f))
                        else ([], flag))
         in (True, account @ device @ [(''success'', JBool True)], flag1))
      else (False, [(''success'', JBool False)], flag))"

section \<open>Properties\<close>

text \<open>
  A query for all capabilities of the device reports no 4K decoding, whatever the properties of
  the device say: the exclusions read them first, and a second reading is empty.
\<close>

theorem features_without_properties:
  "\<exists>ms features. DeviceInfo_Load E labels [] flag = (ms, True)
     \<and> map_of ms ''features'' = Some (JObject (labels features)) \<and> features ''uhd_4k_decode'' = Some 0"
proof -
  have g: "snd (getDeviceProperties (pc_files E) flag) = True" by (simp add: getDeviceProperties_def)
  have h: "snd (AddDashExclusionList E flag) = True"
    unfolding AddDashExclusionList_def Let_def split_beta snd_conv by (rule g)
  have f: "snd (DeviceCapsFeatures E True) = True" "fst (DeviceCapsFeatures E True) ''uhd_4k_decode'' = Some 0"
    by (simp_all add: DeviceCapsFeatures_def getDeviceProperties_def)
  from f(2) have ne: "fst (DeviceCapsFeatures E True) \<noteq> Map.empty" by auto
  have "snd (DeviceInfo_Load E labels [] flag) = True"
    using h f(1) by (simp add: DeviceInfo_Load_def wanted_def split_beta)
  moreover have "map_of (fst (DeviceInfo_Load E labels [] flag)) ''features''
      = Some (JObject (labels (fst (DeviceCapsFeatures E True))))"
    using h ne by (simp add: DeviceInfo_Load_def wanted_def split_beta)
  ultimately show ?thesis using f(2)
    by (intro exI [of _ "fst (DeviceInfo_Load E labels [] flag)"] exI [of _ "fst (DeviceCapsFeatures E True)"])
      (simp only: prod_eq_iff fst_conv snd_conv simp_thms)
qed

lemma emplace_keeps: "m k = Some v \<Longrightarrow> emplace k' v' m k = Some v"
  by (auto simp: emplace_def)

lemma emplace_other: "k \<noteq> k' \<Longrightarrow> emplace k' v' m k = m k"
  by (simp add: emplace_def)

lemma generic_keeps: "result k = Some v \<Longrightarrow> generic_plugins F rm ps result k = Some v"
  by (induction F rm ps result rule: generic_plugins.induct) (auto simp: Let_def emplace_keeps)

lemma generic_removed: "k \<in> set rm \<Longrightarrow> result k = None \<Longrightarrow> generic_plugins F rm ps result k = None"
proof (induction F rm ps result rule: generic_plugins.induct)
  case (2 F rm p ps result)
  have "appName \<notin> set rm \<Longrightarrow> emplace appName v result k = None" for appName v
    using 2(6,7) emplace_other [of k appName v result] by auto
  then show ?case using 2 by (simp add: Let_def)
qed simp

text \<open>
  An application has at most one version: that of the device registry if its libraries are there,
  none if the device registry disables it and does not list it otherwise, and else that of the general
  registry.
\<close>

theorem device_registry_wins:
  assumes "device_plugins (pc_files E) (registry_of (pc_json E ''/home/root/xrepluginregistry.device.conf'')) Map.empty [] = (result, rm)"
  shows "(result app = Some v \<longrightarrow> getAvailablePlugins E app = Some v)
    \<and> (app \<in> set rm \<and> result app = None \<longrightarrow> getAvailablePlugins E app = None)"
  using assms by (auto simp: getAvailablePlugins_def Let_def generic_keeps generic_removed)

text \<open>A hexadecimal text is decoded to the bytes it prints.\<close>

definition hex_char :: "nat \<Rightarrow> char" where
  "hex_char d = (if d < 10 then char_of (48 + d) else char_of (87 + d))"

definition to_hex :: "string \<Rightarrow> string" where
  "to_hex s = concat (map (\<lambda>c. [hex_char (ascii c div 16), hex_char (ascii c mod 16)]) s)"

lemma hex_digit_char: "d < 16 \<Longrightarrow> hex_digit (hex_char d) = Some (int d)"
  by (auto simp: hex_digit_def hex_char_def c_isdigit_def ascii_char_of)

lemma hex_char_plain: "d < 16 \<Longrightarrow> \<not> c_isspace (hex_char d) \<and> hex_char d \<noteq> CHR ''-'' \<and> hex_char d \<noteq> CHR ''+''"
proof -
  assume "d < 16"
  then have "48 \<le> ascii (hex_char d)" by (simp add: hex_char_def ascii_char_of)
  then show ?thesis by (auto simp: c_isspace_def ascii_def)
qed

theorem hex_roundtrip: "stringFromHex (to_hex s) = s"
proof (induction s)
  case Nil
  then show ?case by (simp add: to_hex_def)
next
  case (Cons c s)
  let ?a = "ascii c div 16" and ?b = "ascii c mod 16"
  have ab: "?a < 16" "?b < 16" using ascii_less [of c] by simp_all
  have "strtol16 [hex_char ?a, hex_char ?b] = 16 * int ?a + int ?b"
    using hex_char_plain [OF ab(1)] hex_digit_char [OF ab(1)] hex_digit_char [OF ab(2)] by (simp add: strtol16_def)
  also have "\<dots> = int (ascii c)"
  proof -
    have "int (16 * ?a + ?b) = int (ascii c)" by (simp only: mult_div_mod_eq)
    then show ?thesis by (simp only: of_nat_add of_nat_mult of_nat_numeral)
  qed
  finally have "char_of (nat (strtol16 [hex_char ?a, hex_char ?b] mod 256)) = c"
    using ascii_less [of c] by (simp add: ascii_def)
  then show ?case using Cons by (simp add: to_hex_def)
qed

end
