(* ===== verification/Warehouse.thy ===== *)
theory Warehouse imports FileContent SinkRegistry begin

text \<open>
  The Warehouse plugin, \<open>Warehouse/WarehouseImplementation.cpp\<close>: resets of the device, the check
  whether it is clean, and hardware tests.

  The operations give the list of their effects: commands run, files touched, parameters set and
  events sent. What a command returns, the remote parameters, the environment variables, the clock
  and the file system are parameters (\<open>wh_env\<close>). The body of the reset thread is a function of its
  own; \<open>ResetDevice\<close> joins the thread before and starts the next.
\<close>

section \<open>Environment and effects\<close>

record wh_env =
  we_files :: files
  we_fs :: fs_env
  we_mtime :: "string \<Rightarrow> int option"
  we_now :: int
  we_system :: "string \<Rightarrow> int"
  we_getRFC :: "string \<Rightarrow> string option"
  we_setRFC :: "string \<Rightarrow> string \<Rightarrow> bool"
  we_getenv :: "string \<Rightarrow> string option"

datatype wh_effect =
    WSystem string
  | WTouch string
  | WFlagReset
  | WRemove string
  | WSetRFC string string
  | WResetDone bool string

definition HWHEALTH_ENABLE :: string where
  "HWHEALTH_ENABLE = ''Device.DeviceInfo.X_RDKCENTRAL-COM_RFC.Feature.hwHealthTest.Enable''"
definition HWHEALTH_EXECUTE :: string where
  "HWHEALTH_EXECUTE = ''Device.DeviceInfo.X_RDKCENTRAL-COM_xOpsDeviceMgmt.hwHealthTest.ExecuteTest''"
definition HWHEALTH_RESULTS :: string where
  "HWHEALTH_RESULTS = ''Device.DeviceInfo.X_RDKCENTRAL-COM_xOpsDeviceMgmt.hwHealthTest.Results''"
definition VERSION_FILE_NAME :: string where "VERSION_FILE_NAME = ''/version.txt''"
definition CUSTOM_DATA_FILE :: string where "CUSTOM_DATA_FILE = ''/lib/rdk/wh_api_5.conf''"
definition device_properties_file :: string where "device_properties_file = ''/etc/device.properties''"

definition LIGHT_RESET_SCRIPT :: string where
  "LIGHT_RESET_SCRIPT = ''/opt/netflix/* SD_CARD_MOUNT_PATH/netflix/* XDG_DATA_HOME/* XDG_CACHE_HOME/* XDG_CACHE_HOME/../.sparkStorage/ /opt/QT/home/data/* /opt/hn_service_settings.conf /opt/apps/common/proxies.conf /opt/lib/bluetooth /opt/persistent/rdkservicestore''"

definition INTERNAL_RESET_SCRIPT :: string where
  "INTERNAL_RESET_SCRIPT = ''rm -rf /opt/drm /opt/www/whitebox /opt/www/authService && /rebootNow.sh -s WarehouseService &''"

text \<open>\<open>isFileExistsAndOlderThen\<close>; the difference of the times is exact in a double.\<close>

definition isFileExistsAndOlderThen :: "wh_env \<Rightarrow> string \<Rightarrow> int \<Rightarrow> bool" where
  "isFileExistsAndOlderThen E pFileName age =
     (case we_mtime E pFileName of
        None \<Rightarrow> False
      | Some mtime \<Rightarrow> if age = -1 then True else we_now E - mtime > age)"

section \<open>Notifications\<close>

definition wh_Register :: "nat \<Rightarrow> sinks \<Rightarrow> hresult \<times> sinks" where
  "wh_Register notification s =
     (ERROR_NONE,
      if notification \<notin> set (sk_list s)
      then \<lparr>sk_list = sk_list s @ [notification],
            sk_refs = (sk_refs s)(notification := sk_refs s notification + 1)\<rparr>
      else s)"

definition wh_Unregister :: "nat \<Rightarrow> sinks \<Rightarrow> hresult \<times> sinks" where
  "wh_Unregister notification s =
     (if notification \<in> set (sk_list s)
      then (ERROR_NONE, \<lparr>sk_list = remove1 notification (sk_list s),
              sk_refs = (sk_refs s)(notification := sk_refs s notification - 1)\<rparr>)
      else (ERROR_GENERAL, s))"

definition wh_Dispatch :: "bool \<Rightarrow> string \<Rightarrow> sinks \<Rightarrow> (nat \<times> bool \<times> string) list" where
  "wh_Dispatch success error s = map (\<lambda>index. (index, success, error)) (sk_list s)"

interpretation wh_sinks: sink_members sk_list sk_refs wh_Register wh_Unregister sinks_ok
  by unfold_locales (auto simp: sinks_ok_def wh_Register_def wh_Unregister_def)

section \<open>Resets\<close>

definition processColdFactoryReset :: "wh_env \<Rightarrow> int \<times> wh_effect list" where
  "processColdFactoryReset E =
     (0, [WSystem ''sh /lib/rdk/deviceReset.sh coldfactory'', WFlagReset,
          WSystem ('' /rebootNow.sh -s PowerMgr_coldFactoryReset -o 'Rebooting the box due to Cold Factory Reset process ...'' @ [CHR 0x27])])"

definition processFactoryReset :: "wh_env \<Rightarrow> int \<times> wh_effect list" where
  "processFactoryReset E = (0, [WSystem ''sh /lib/rdk/deviceReset.sh factory'', WFlagReset])"

definition processUserFactoryReset :: "wh_env \<Rightarrow> int \<times> wh_effect list" where
  "processUserFactoryReset E = (0, [WFlagReset, WSystem ''sh /lib/rdk/deviceReset.sh userfactory''])"

definition processWHReset :: "wh_env \<Rightarrow> int \<times> wh_effect list" where
  "processWHReset E =
     (we_system E ''sh /lib/rdk/deviceReset.sh warehouse'',
      [WFlagReset, WTouch ''/tmp/.warehouse-reset'', WSystem ''sh /lib/rdk/deviceReset.sh warehouse''])"

definition processWHClear :: "wh_env \<Rightarrow> int \<times> wh_effect list" where
  "processWHClear E =
     (0, [WFlagReset, WTouch ''/tmp/.warehouse-clear'', WSystem ''sh /lib/rdk/deviceReset.sh WAREHOUSE_CLEAR''])"

definition processWHClearNoReboot :: "wh_env \<Rightarrow> int \<times> wh_effect list" where
  "processWHClearNoReboot E =
     (we_system E ''sh /lib/rdk/deviceReset.sh WAREHOUSE_CLEAR --suppressReboot'',
      [WTouch ''/tmp/.warehouse-clear'', WSystem ''sh /lib/rdk/deviceReset.sh WAREHOUSE_CLEAR --suppressReboot''])"

definition processWHResetNoReboot :: "wh_env \<Rightarrow> int \<times> wh_effect list" where
  "processWHResetNoReboot E =
     (we_system E ''sh /lib/rdk/deviceReset.sh warehouse --suppressReboot &'',
      [WTouch ''/tmp/.warehouse-reset'', WSystem ''sh /lib/rdk/deviceReset.sh warehouse --suppressReboot &''])"

text \<open>
  The body of the thread. The status of the IARM call stays at its initial failure, so \<open>ok\<close> is
  whether the reset succeeded.
\<close>

definition WareHouseResetIARM :: "wh_env \<Rightarrow> bool \<Rightarrow> string \<Rightarrow> wh_effect list" where
  "WareHouseResetIARM E suppressReboot resetType =
     (let isWareHouseKind = (resetType \<notin> {''COLD'', ''FACTORY'', ''USERFACTORY''});
          (ret, effects) =
            (if resetType = ''COLD'' then processColdFactoryReset E
             else if resetType = ''FACTORY'' then processFactoryReset E
             else if resetType = ''USERFACTORY'' then processUserFactoryReset E
             else if resetType = ''WAREHOUSE_CLEAR'' then
               (if suppressReboot then processWHClearNoReboot E else processWHClear E)
             else (if suppressReboot then processWHResetNoReboot E else processWHReset E));
          isWareHouse = (isWareHouseKind \<and> ret = 0);
          error = (if ret = 0 then [] else ''Reset failed'');
          ok = (if suppressReboot then ret = 0 else True)
      in effects @
         (if isWareHouse \<and> suppressReboot
          then [WResetDone ok (if ok then error else ''Reset failed'')]
          else []))"

text \<open>
  \<open>thread_fails\<close> is an exception of the thread library. The result is the success and the error
  reported to the caller (the error is kept if it is not set), and the effects.
\<close>

definition ResetDevice :: "wh_env \<Rightarrow> bool \<Rightarrow> bool \<Rightarrow> string \<Rightarrow> string \<Rightarrow> bool \<times> string \<times> wh_effect list" where
  "ResetDevice E thread_fails suppressReboot resetType error =
     (if thread_fails
      then (True, ''exception in submitting request'', [WResetDone False ''exception in submitting request''])
      else (True, error, WareHouseResetIARM E suppressReboot resetType))"

fun version_lines :: "string list \<Rightarrow> bool" where
  "version_lines [] = False"
| "version_lines (line # lines) =
     (if find_str ''imagename:'' line \<noteq> None then find_str ''PROD'' line \<noteq> None else version_lines lines)"

definition InternalReset :: "wh_env \<Rightarrow> string \<Rightarrow> string \<Rightarrow> bool \<times> string \<times> wh_effect list" where
  "InternalReset E passPhrase error =
     (if passPhrase = [] \<or> passPhrase \<noteq> ''FOR TEST PURPOSES ONLY''
      then (False, ''incorrect pass phrase'', [])
      else if (case open_read (we_files E) VERSION_FILE_NAME of
                 Some s \<Rightarrow> version_lines (file_lines s) | None \<Rightarrow> False)
      then (False, ''version is PROD'', [])
      else (let ok = (we_system E INTERNAL_RESET_SCRIPT = 0)
            in (ok, if ok then error else [], [WSystem INTERNAL_RESET_SCRIPT])))"

section \<open>Hardware tests\<close>

definition ExecuteHardwareTest :: "wh_env \<Rightarrow> bool \<times> wh_effect list" where
  "ExecuteHardwareTest E =
     (if we_setRFC E HWHEALTH_ENABLE ''true''
      then (we_setRFC E HWHEALTH_EXECUTE ''1'', [WSetRFC HWHEALTH_ENABLE ''true'', WSetRFC HWHEALTH_EXECUTE ''1''])
      else (False, [WSetRFC HWHEALTH_ENABLE ''true'']))"

definition GetHardwareTestResults :: "wh_env \<Rightarrow> string \<Rightarrow> bool \<times> string \<times> wh_effect list" where
  "GetHardwareTestResults E testResults =
     (case we_getRFC E HWHEALTH_RESULTS of
        Some v \<Rightarrow> (we_setRFC E HWHEALTH_ENABLE ''false'', v, [WSetRFC HWHEALTH_ENABLE ''false''])
      | None \<Rightarrow> (False, testResults, []))"

section \<open>The light reset\<close>

definition sd_line_path :: "string \<Rightarrow> string" where
  "sd_line_path line =
     takeWhile (\<lambda>c. c \<noteq> CHR '' '') (dropWhile (\<lambda>c. c = CHR '' '') (dropWhile (\<lambda>c. c \<noteq> CHR '' '') line))"

definition getSDCardMountPath :: "wh_env \<Rightarrow> string option" where
  "getSDCardMountPath E =
     (case open_read (we_files E) ''/proc/mounts'' of
        None \<Rightarrow> None
      | Some s \<Rightarrow> map_option sd_line_path (first_chunk 1023 ''mmcblk0p1'' s))"

definition upper_start :: "char \<Rightarrow> bool" where
  "upper_start c = (65 \<le> ascii c \<and> ascii c \<le> 90 \<or> c = CHR ''_'')"

definition upper_part :: "char \<Rightarrow> bool" where
  "upper_part c = (upper_start c \<or> c_isdigit c)"

definition trim_ws :: "string \<Rightarrow> string" where
  "trim_ws s =
     (let ws = (\<lambda>c. c \<in> set [CHR '' '', CHR 0x0A, CHR 0x0D, CHR 0x09])
      in rev (dropWhile ws (rev (dropWhile ws s))))"

text \<open>The value of a variable: the environment's, or for the SD card the mount path.\<close>

definition reset_variable :: "wh_env \<Rightarrow> string \<Rightarrow> string" where
  "reset_variable E var =
     (case we_getenv E var of
        Some (c # cs) \<Rightarrow> c # cs
      | _ \<Rightarrow> if var = ''SD_CARD_MOUNT_PATH''
             then (case getSDCardMountPath E of Some p \<Rightarrow> trim_ws p | None \<Rightarrow> [])
             else [])"

text \<open>What replaces a variable with the white space before it and the text up to the next one.\<close>

definition replacement :: "string \<Rightarrow> string \<Rightarrow> string \<Rightarrow> string" where
  "replacement ws val tail_text =
     (if val = [] then []
      else (let r = val @ tail_text
            in if hd r = CHR ''/''
               then (case dropWhile (\<lambda>c. c = CHR ''/'') r of
                       [] \<Rightarrow> []
                     | c # cs \<Rightarrow> if c \<noteq> CHR ''*'' then ws @ r else [])
               else ws @ r))"

function expand_script :: "wh_env \<Rightarrow> string \<Rightarrow> string" where
  "expand_script E s =
     (let pre = takeWhile (\<lambda>c. \<not> c_isspace c) s;
          ws = takeWhile c_isspace (dropWhile (\<lambda>c. \<not> c_isspace c) s);
          rest = dropWhile c_isspace (dropWhile (\<lambda>c. \<not> c_isspace c) s)
      in if ws = [] then s
         else if rest \<noteq> [] \<and> upper_start (hd rest) then
           (let var = takeWhile upper_part rest;
                tail_text = takeWhile (\<lambda>c. \<not> c_isspace c) (dropWhile upper_part rest)
            in pre @ replacement ws (reset_variable E var) tail_text
                 @ expand_script E (drop (length var + length tail_text) rest))
         else pre @ ws @ expand_script E rest)"
  by pat_completeness auto
termination
proof (relation "measure (\<lambda>(E, s). length s)", simp, goal_cases)
  have shrink: "length (dropWhile c_isspace (dropWhile (\<lambda>c. \<not> c_isspace c) s)) < length s"
    if "takeWhile c_isspace (dropWhile (\<lambda>c. \<not> c_isspace c) s) \<noteq> []" for s
  proof -
    have "length (takeWhile c_isspace (dropWhile (\<lambda>c. \<not> c_isspace c) s))
        + length (dropWhile c_isspace (dropWhile (\<lambda>c. \<not> c_isspace c) s)) = length (dropWhile (\<lambda>c. \<not> c_isspace c) s)"
      by (metis length_append takeWhile_dropWhile_id)
    moreover have "0 < length (takeWhile c_isspace (dropWhile (\<lambda>c. \<not> c_isspace c) s))" using that by simp
    ultimately show ?thesis using length_dropWhile_le [of "\<lambda>c. \<not> c_isspace c" s] by linarith
  qed
  {
    case (1 E s)
    then show ?case using shrink [of s] by (simp add: less_imp_diff_less)
  next
    case (2 E s)
    then show ?case using shrink [of s] by simp
  }
qed

declare expand_script.simps [simp del]

text \<open>
  The expanded script, which is logged; and the success, error and effects of the operation, which
  runs the script as it was.
\<close>

definition LightReset :: "wh_env \<Rightarrow> string \<Rightarrow> bool \<times> string \<times> string \<times> wh_effect list" where
  "LightReset E error =
     (let script = expand_script E LIGHT_RESET_SCRIPT;
          command = ''sh -c 'rm -rf '' @ LIGHT_RESET_SCRIPT @ [CHR 0x27];
          ok = (we_system E command = 0)
      in (ok, if ok then error else [], script,
          [WSystem command, WRemove ''/opt/secure/persistent/rdkservicestore'']))"

section \<open>The clean check\<close>

definition path_line :: "string \<Rightarrow> bool" where
  "path_line line =
     (length line > 0 \<and> hd line \<noteq> CHR ''#'' \<and> hd line \<noteq> CHR ''['' \<and> take 2 line \<noteq> ''. '')"

definition listPathsToRemove :: "string \<Rightarrow> string list" where
  "listPathsToRemove text = filter path_line (map trim (file_lines text))"

text \<open>The match of \<open>\$([^$\{\}\/]*)\<close>, trimmed.\<close>

definition path_variable :: "string \<Rightarrow> string" where
  "path_variable path =
     (case dropWhile (\<lambda>c. c \<noteq> CHR ''$'') path of
        [] \<Rightarrow> []
      | d # after \<Rightarrow> trim (takeWhile (\<lambda>c. c \<notin> set ''${}/'') after))"

text \<open>The value of the variable of a path; empty if there is none.\<close>

definition path_value :: "wh_env \<Rightarrow> string \<Rightarrow> string option" where
  "path_value E path =
     (let variable = path_variable path
      in if length variable > 0 then
           (case readPropertyFromFile (we_files E) device_properties_file variable of
              None \<Rightarrow> None
            | Some (found, val) \<Rightarrow> Some (if found then trim val else val))
         else Some [])"

definition has_wildcard :: "string \<Rightarrow> bool" where
  "has_wildcard path = list_ex (\<lambda>c. c \<in> set ''$*?+'') path"

text \<open>The path and the exclusions of a path with bars; \<open>None\<close> takes the front of an empty list.\<close>

definition path_exclusions :: "string \<Rightarrow> (string \<times> string list) option" where
  "path_exclusions path =
     (if CHR ''|'' \<in> set path then
        (let exclusions = filter (\<lambda>s. length s > 0) (map trim (split [] path ''|''))
         in case exclusions of [] \<Rightarrow> None | p # ps \<Rightarrow> Some (p, exclusions))
      else Some (path, []))"

definition objects_found :: "wh_env \<Rightarrow> int \<Rightarrow> string \<Rightarrow> string list" where
  "objects_found E age result =
     (if length result > 1
      then filter (\<lambda>line. age > -1 \<longrightarrow> isFileExistsAndOlderThen E line age) (file_lines result)
      else [])"

text \<open>The objects listed for a path; \<open>None\<close> if the check never ends or is undefined.\<close>

definition check_path :: "wh_env \<Rightarrow> int \<Rightarrow> string \<Rightarrow> string list option" where
  "check_path E age path =
     (case (if CHR ''$'' \<in> set path then path_value E path else Some ''-'') of
        None \<Rightarrow> None
      | Some val \<Rightarrow>
          if val = [] then Some []
          else if has_wildcard path then
            (case path_exclusions path of
               None \<Rightarrow> None
             | Some (path1, exclusions) \<Rightarrow>
                 (case ExpandPropertiesInString (we_files E) path1 device_properties_file path1 of
                    None \<Rightarrow> None
                  | Some (expanded, inputPath) \<Rightarrow>
                      (let (found, result) = searchFiles (we_fs E) inputPath exclusions []
                       in Some (objects_found E age (if found then trim result else result)))))
          else Some (if isFileExistsAndOlderThen E path age then [path] else []))"

fun check_paths :: "wh_env \<Rightarrow> int \<Rightarrow> string list \<Rightarrow> string list option" where
  "check_paths E age [] = Some []"
| "check_paths E age (path # paths) =
     (case check_path E age path of
        None \<Rightarrow> None
      | Some objects \<Rightarrow> map_option (\<lambda>rest. objects @ rest) (check_paths E age paths))"

record clean_result =
  cr_clean :: bool
  cr_files :: "string list"
  cr_success :: bool
  cr_error :: string

definition IsClean :: "wh_env \<Rightarrow> int \<Rightarrow> string \<Rightarrow> clean_result option" where
  "IsClean E age error =
     (case open_read (we_files E) CUSTOM_DATA_FILE of
        None \<Rightarrow> Some \<lparr>cr_clean = False, cr_files = [[]], cr_success = False,
                  cr_error = ''Can't open file '' @ CUSTOM_DATA_FILE\<rparr>
      | Some text \<Rightarrow>
          if length (listPathsToRemove text) = 0
          then Some \<lparr>cr_clean = False, cr_files = [[]], cr_success = False,
                 cr_error = ''file '' @ CUSTOM_DATA_FILE @ '' doesn't have any lines with paths''\<rparr>
          else map_option (\<lambda>objects. \<lparr>cr_clean = (objects = []),
                 cr_files = (if objects = [] then [[]] else objects), cr_success = True, cr_error = error\<rparr>)
                 (check_paths E age (listPathsToRemove text)))"

section \<open>Properties\<close>

text \<open>
  A reset is announced only when a warehouse reset without reboot succeeded, and then as a
  success: no failure of a reset is ever announced by the reset thread.
\<close>

theorem reset_announced:
  "WResetDone b e \<in> set (WareHouseResetIARM E suppressReboot resetType) \<longleftrightarrow>
     b \<and> e = [] \<and> suppressReboot \<and> resetType \<notin> {''COLD'', ''FACTORY'', ''USERFACTORY''}
     \<and> we_system E (if resetType = ''WAREHOUSE_CLEAR'' then ''sh /lib/rdk/deviceReset.sh WAREHOUSE_CLEAR --suppressReboot''
                   else ''sh /lib/rdk/deviceReset.sh warehouse --suppressReboot &'') = 0"
  by (auto simp: WareHouseResetIARM_def Let_def processColdFactoryReset_def processFactoryReset_def
      processUserFactoryReset_def processWHReset_def processWHClear_def processWHClearNoReboot_def processWHResetNoReboot_def)

text \<open>The request is reported as a success also when it could not be submitted.\<close>

theorem reset_request_succeeds: "fst (ResetDevice E thread_fails suppressReboot resetType error)"
  by (simp add: ResetDevice_def)

text \<open>
  The internal reset runs its script only with the pass phrase, and not on an image whose name
  in the version file says PROD.
\<close>

theorem internal_reset_guarded:
  assumes "InternalReset E passPhrase error = (success, error', effects)" "effects \<noteq> []"
  shows "passPhrase = ''FOR TEST PURPOSES ONLY'' \<and> effects = [WSystem INTERNAL_RESET_SCRIPT]
    \<and> (\<forall>text before line after. open_read (we_files E) VERSION_FILE_NAME = Some text \<longrightarrow>
        file_lines text = before @ line # after \<longrightarrow> (\<forall>l \<in> set before. find_str ''imagename:'' l = None) \<longrightarrow>
        find_str ''imagename:'' line \<noteq> None \<longrightarrow> find_str ''PROD'' line = None)"
proof -
  have first: "version_lines (before @ line # after) = (find_str ''PROD'' line \<noteq> None)"
    if "\<forall>l \<in> set before. find_str ''imagename:'' l = None" "find_str ''imagename:'' line \<noteq> None" for before line after
    using that by (induction before) auto
  show ?thesis
    using assms first by (auto simp: InternalReset_def Let_def split: if_splits option.splits)
qed

text \<open>The light reset runs its script with the variables in it, whatever their values.\<close>

theorem light_reset_not_expanded:
  "snd (snd (snd (LightReset E error))) = [WSystem (''sh -c 'rm -rf '' @ LIGHT_RESET_SCRIPT @ [CHR 0x27]),
     WRemove ''/opt/secure/persistent/rdkservicestore'']"
  by (simp add: LightReset_def Let_def)

lemma check_path_old:
  "check_path E age path = Some objects \<Longrightarrow> 0 \<le> age \<Longrightarrow> o1 \<in> set objects \<Longrightarrow> isFileExistsAndOlderThen E o1 age"
  by (auto simp: check_path_def objects_found_def split: option.splits if_splits prod.splits)

lemma check_paths_old:
  "check_paths E age paths = Some objects \<Longrightarrow> 0 \<le> age \<Longrightarrow> o1 \<in> set objects \<Longrightarrow> isFileExistsAndOlderThen E o1 age"
  by (induction paths arbitrary: objects) (auto split: option.splits dest: check_path_old)

lemma check_paths_member:
  "check_paths E age paths = Some objects \<Longrightarrow> path \<in> set paths \<Longrightarrow> \<exists>obs. check_path E age path = Some obs \<and> set obs \<subseteq> set objects"
  by (induction paths arbitrary: objects) (fastforce split: option.splits)+

text \<open>
  A check for objects of an age that succeeds lists existing objects that are older, lists every
  listed path without wildcards that is one, and says clean exactly if it found none.
\<close>

theorem clean_check:
  assumes "IsClean E age error = Some r" "cr_success r" "0 \<le> age"
    "open_read (we_files E) CUSTOM_DATA_FILE = Some text"
  shows "(cr_clean r \<longrightarrow> cr_files r = [[]])
    \<and> (\<not> cr_clean r \<longrightarrow> cr_files r \<noteq> [] \<and> (\<forall>f \<in> set (cr_files r). isFileExistsAndOlderThen E f age))
    \<and> (\<forall>path \<in> set (listPathsToRemove text). \<not> has_wildcard path \<longrightarrow> isFileExistsAndOlderThen E path age \<longrightarrow>
         \<not> cr_clean r \<and> path \<in> set (cr_files r))"
proof -
  obtain objects where objects: "check_paths E age (listPathsToRemove text) = Some objects"
    and r: "cr_clean r = (objects = [])" "cr_files r = (if objects = [] then [[]] else objects)"
    using assms(1,2,4) by (auto simp: IsClean_def split: if_splits)
  have "path \<in> set objects" if "path \<in> set (listPathsToRemove text)" "\<not> has_wildcard path" "isFileExistsAndOlderThen E path age" for path
  proof -
    have "CHR ''$'' \<notin> set path" using that(2) by (auto simp: has_wildcard_def list_ex_iff)
    then have "check_path E age path = Some [path]" using that(2,3) by (simp add: check_path_def)
    then show ?thesis using check_paths_member [OF objects that(1)] by auto
  qed
  then show ?thesis using r check_paths_old [OF objects assms(3)] by auto
qed

definition example_env :: wh_env where
  "example_env = \<lparr>we_files = (\<lambda>_. Missing)(CUSTOM_DATA_FILE := ReadOnly (''# paths'' @ [CHR 0x0A] @ ''/opt/a'' @ [CHR 0x0A])),
     we_fs = \<lparr>fe_readdir = (\<lambda>_. None), fe_access = (\<lambda>_. False), fe_regex_search = (\<lambda>_ _. False)\<rparr>,
     we_mtime = (\<lambda>f. if f = ''/opt/a'' then Some 100 else None), we_now = 200,
     we_system = (\<lambda>_. 0), we_getRFC = (\<lambda>_. None), we_setRFC = (\<lambda>_ _. True), we_getenv = (\<lambda>_. None)\<rparr>"

theorem clean_check_witness:
  "\<exists>r. IsClean example_env 50 [] = Some r \<and> \<not> cr_clean r \<and> ''/opt/a'' \<in> set (cr_files r)"
proof -
  have trims: "trim ''# paths'' = ''# paths''" "trim ''/opt/a'' = ''/opt/a''"
    by (simp_all add: trim_def ltrim_def rtrim_def c_isspace_def ascii_def)
  have paths: "listPathsToRemove (''# paths'' @ [CHR 0x0A] @ ''/opt/a'' @ [CHR 0x0A]) = [''/opt/a'']"
    by (simp add: listPathsToRemove_def file_lines_def trims path_line_def)
  have custom: "open_read (we_files example_env) CUSTOM_DATA_FILE = Some (''# paths'' @ [CHR 0x0A] @ ''/opt/a'' @ [CHR 0x0A])"
    by (simp add: example_env_def open_read_def)
  have old: "isFileExistsAndOlderThen example_env ''/opt/a'' 50"
    by (simp add: example_env_def isFileExistsAndOlderThen_def)
  obtain r where r: "IsClean example_env 50 [] = Some r" "cr_success r"
    using custom paths old by (auto simp: IsClean_def check_path_def has_wildcard_def)
  show ?thesis
    using clean_check [OF r _ custom] paths old r by (simp add: has_wildcard_def)
qed

theorem internal_reset_guarded_witness:
  "\<exists>s e. InternalReset example_env ''FOR TEST PURPOSES ONLY'' [] = (s, e, [WSystem INTERNAL_RESET_SCRIPT])"
proof -
  obtain s e effects where r: "InternalReset example_env ''FOR TEST PURPOSES ONLY'' [] = (s, e, effects)"
    by (rule prod_cases3)
  then have "effects \<noteq> []"
    by (auto simp: InternalReset_def Let_def example_env_def open_read_def VERSION_FILE_NAME_def CUSTOM_DATA_FILE_def)
  from internal_reset_guarded [OF r this] r show ?thesis by blast
qed

end
