(* ===== verification/DeviceInfo.thy ===== *)
theory DeviceInfo imports FileContent Regex begin

text \<open>
  The DeviceInfo plugin: \<open>DeviceInfo/DeviceInfoImplementation.cpp\<close>, \<open>DeviceAudioCapabilities.cpp\<close> and
  \<open>DeviceVideoCapabilities.cpp\<close>.

  Every query reads files, the manufacturer library, remote parameters, the device script or the
  device settings library, which are the fields of \<open>di_env\<close>; \<open>None\<close> is a failure or an exception of
  theirs. An operation gives its status and the output it leaves; an output that is not set stays
  what the caller passed.
\<close>

section \<open>Sources of data\<close>

datatype mfr_type =
    mfrSERIALIZED_TYPE_SERIALNUMBER
  | mfrSERIALIZED_TYPE_MODELNAME
  | mfrSERIALIZED_TYPE_MANUFACTURER
  | mfrSERIALIZED_TYPE_PROVISIONED_MODELNAME
  | mfrSERIALIZED_TYPE_PDRIVERSION
  | mfrSERIALIZED_TYPE_HWID
  | mfrSERIALIZED_TYPE_MANUFACTURING_SERIALNUMBER

record di_env =
  di_files :: files
  di_mfr :: "mfr_type \<Rightarrow> string option"
  di_rfc :: "string \<Rightarrow> string option"
  di_pipe :: "string \<Rightarrow> string option"

fun match_lines :: "rx_item list \<Rightarrow> string list \<Rightarrow> string option" where
  "match_lines rx [] = None"
| "match_lines rx (line # lines) =
     (case regex_match rx line of Some (g # gs) \<Rightarrow> Some g | _ \<Rightarrow> match_lines rx lines)"

definition GetFileRegex :: "di_env \<Rightarrow> string \<Rightarrow> rx_item list \<Rightarrow> string \<Rightarrow> hresult \<times> string" where
  "GetFileRegex E filename rx response =
     (case open_read (di_files E) filename of
        None \<Rightarrow> (ERROR_GENERAL, response)
      | Some s \<Rightarrow> (case match_lines rx (file_lines s) of Some g \<Rightarrow> (ERROR_NONE, g) | None \<Rightarrow> (ERROR_GENERAL, response)))"

definition GetMFRData :: "di_env \<Rightarrow> mfr_type \<Rightarrow> string \<Rightarrow> hresult \<times> string" where
  "GetMFRData E type response =
     (case di_mfr E type of
        Some b \<Rightarrow> if length b > 0 then (ERROR_NONE, b) else (ERROR_GENERAL, response)
      | None \<Rightarrow> (ERROR_GENERAL, response))"

definition GetRFCData :: "di_env \<Rightarrow> string \<Rightarrow> string \<Rightarrow> hresult \<times> string" where
  "GetRFCData E name response =
     (case di_rfc E name of
        Some v \<Rightarrow> if v \<noteq> [] then (ERROR_NONE, v) else (ERROR_GENERAL, response)
      | None \<Rightarrow> (ERROR_GENERAL, response))"

text \<open>A source, and if it fails the next one.\<close>

definition or_else :: "hresult \<times> string \<Rightarrow> (string \<Rightarrow> hresult \<times> string) \<Rightarrow> hresult \<times> string" where
  "or_else r next_source = (if fst r = ERROR_NONE then r else next_source (snd r))"

section \<open>Expressions\<close>

definition not_newline :: "char \<Rightarrow> bool" where "not_newline c = (c \<noteq> CHR 0x0A)"
definition not_quote :: "char \<Rightarrow> bool" where "not_quote c = (c \<noteq> CHR 0x22 \<and> c \<noteq> CHR 0x0A)"

text \<open>\<open>^KEY(?:\s*)=(?:\s*)(?:"{0,1})([^"\n]+)(?:"{0,1})(?:\s*)$\<close>\<close>

definition property_rx :: "string \<Rightarrow> rx_item list" where
  "property_rx key =
     rx_lit key @ [rx_star c_isspace, rx_one (\<lambda>c. c = CHR ''=''), rx_star c_isspace, rx_opt (\<lambda>c. c = CHR 0x22),
       rx_some_group not_quote, rx_opt (\<lambda>c. c = CHR 0x22), rx_star c_isspace]"

definition prefix_rx :: "string \<Rightarrow> rx_item list" where
  "prefix_rx key = rx_lit key @ [rx_some_group not_newline]"

definition version_rx :: "rx_item list" where
  "version_rx = [rx_some_group c_isdigit, rx_one (\<lambda>c. c = CHR ''.''), rx_some_group c_isdigit,
     rx_one (\<lambda>c. c = CHR ''s'' \<or> c = CHR ''p'')]"

definition device_properties :: string where "device_properties = ''/etc/device.properties''"
definition version_txt :: string where "version_txt = ''/version.txt''"

section \<open>The queries\<close>

definition SerialNumber :: "di_env \<Rightarrow> string \<Rightarrow> hresult \<times> string" where
  "SerialNumber E out = or_else (GetMFRData E mfrSERIALIZED_TYPE_SERIALNUMBER out)
     (GetRFCData E ''Device.DeviceInfo.SerialNumber'')"

definition Sku :: "di_env \<Rightarrow> string \<Rightarrow> hresult \<times> string" where
  "Sku E out = or_else (GetFileRegex E device_properties (property_rx ''MODEL_NUM'') out)
     (\<lambda>out. or_else (GetMFRData E mfrSERIALIZED_TYPE_MODELNAME out) (GetRFCData E ''Device.DeviceInfo.ModelName''))"

definition Make :: "di_env \<Rightarrow> string \<Rightarrow> hresult \<times> string" where
  "Make E out = or_else (GetMFRData E mfrSERIALIZED_TYPE_MANUFACTURER out)
     (GetFileRegex E device_properties (property_rx ''MFG_NAME''))"

definition Model :: "di_env \<Rightarrow> string \<Rightarrow> hresult \<times> string" where
  "Model E out =
     (let (result, device_name) = GetFileRegex E device_properties (property_rx ''DEVICE_NAME'') []
      in if result = ERROR_NONE \<and> (device_name = ''PLATCO'' \<or> device_name = ''LLAMA'')
         then or_else (GetMFRData E mfrSERIALIZED_TYPE_PROVISIONED_MODELNAME out)
                (GetFileRegex E device_properties (property_rx ''FRIENDLY_ID''))
         else GetFileRegex E device_properties (property_rx ''FRIENDLY_ID'') out)"

definition Brand :: "di_env \<Rightarrow> hresult \<times> string" where
  "Brand E = or_else (GetFileRegex E ''/tmp/.manufacturer'' (prefix_rx []) ''Unknown'')
     (GetMFRData E mfrSERIALIZED_TYPE_MANUFACTURER)"

datatype DeviceTypeInfo = DEVICE_TYPE_IPTV | DEVICE_TYPE_IPSTB | DEVICE_TYPE_QAMIPSTB

definition stringToDeviceType :: "(string \<times> DeviceTypeInfo) list" where
  "stringToDeviceType = [(''IpTv'', DEVICE_TYPE_IPTV), (''IpStb'', DEVICE_TYPE_IPSTB), (''QamIpStb'', DEVICE_TYPE_QAMIPSTB)]"

definition DeviceType :: "di_env \<Rightarrow> DeviceTypeInfo \<Rightarrow> hresult \<times> DeviceTypeInfo" where
  "DeviceType E out =
     (let (result1, info1) = GetFileRegex E ''/etc/authService.conf'' (property_rx ''deviceType'') [];
          (result, info) =
            (if result1 \<noteq> ERROR_NONE then
               (let (result2, info2) = GetFileRegex E device_properties (property_rx ''DEVICE_TYPE'') info1
                in if result2 = ERROR_NONE
                   then (result2, if info2 = ''mediaclient'' then ''IpStb'' else if info2 = ''hybrid'' then ''QamIpStb'' else ''IpTv'')
                   else (result2, info2))
             else (result1, info1))
      in (result, case map_of stringToDeviceType info of Some t \<Rightarrow> t | None \<Rightarrow> out))"

definition SocName :: "di_env \<Rightarrow> string \<Rightarrow> hresult \<times> string" where
  "SocName E out = GetFileRegex E device_properties (property_rx ''SOC'') out"

definition DistributorId :: "di_env \<Rightarrow> string \<Rightarrow> hresult \<times> string" where
  "DistributorId E out = or_else (GetFileRegex E ''/opt/www/authService/partnerId3.dat'' (prefix_rx []) out)
     (GetRFCData E ''Device.DeviceInfo.X_RDKCENTRAL-COM_Syndication.PartnerId'')"

definition ReleaseVersion :: "di_env \<Rightarrow> hresult \<times> string" where
  "ReleaseVersion E =
     (let (result, imagename) = GetFileRegex E version_txt (prefix_rx ''imagename:'') []
      in (ERROR_NONE,
          if result = ERROR_NONE then
            (case regex_search version_rx imagename of
               Some [major, minor] \<Rightarrow> major @ ''.'' @ minor @ ''.0.0''
             | _ \<Rightarrow> ''99.99.0.0'')
          else ''99.99.0.0''))"

definition ChipSet :: "di_env \<Rightarrow> string \<Rightarrow> hresult \<times> string" where
  "ChipSet E out = GetFileRegex E device_properties (property_rx ''CHIPSET_NAME'') out"

record FirmwareversionInfo =
  fw_imagename :: string
  fw_sdk :: string
  fw_mediarite :: string
  fw_yocto :: string
  fw_pdri :: string

definition or_empty :: "hresult \<times> string \<Rightarrow> string" where
  "or_empty r = (if fst r \<noteq> ERROR_NONE then [] else snd r)"

definition FirmwareVersion :: "di_env \<Rightarrow> FirmwareversionInfo \<Rightarrow> hresult \<times> FirmwareversionInfo" where
  "FirmwareVersion E out =
     (let (result, imagename) = GetFileRegex E version_txt (prefix_rx ''imagename:'') (fw_imagename out)
      in if result = ERROR_NONE then
           (result, \<lparr>fw_imagename = imagename,
              fw_sdk = or_empty (GetFileRegex E version_txt (prefix_rx ''SDK_VERSION='') (fw_sdk out)),
              fw_mediarite = or_empty (GetFileRegex E version_txt (prefix_rx ''MEDIARITE='') (fw_mediarite out)),
              fw_yocto = or_empty (GetFileRegex E version_txt (prefix_rx ''YOCTO_VERSION='') (fw_yocto out)),
              fw_pdri = or_empty (GetMFRData E mfrSERIALIZED_TYPE_PDRIVERSION (fw_pdri out))\<rparr>)
         else (result, out\<lparr>fw_imagename := imagename\<rparr>))"

text \<open>
  The addresses: for every interface its name, its MAC address and its IPv4 addresses. The node name
  is kept from one interface to the next.
\<close>

fun Addresses_loop :: "(string \<times> string \<times> string list) list \<Rightarrow> string \<Rightarrow> (string \<times> string \<times> string) list" where
  "Addresses_loop [] nodeName = []"
| "Addresses_loop ((name, mac, ips) # interfaces) nodeName =
     (let nodeName1 = fold (\<lambda>ip n. ip) ips nodeName in (name, mac, nodeName1) # Addresses_loop interfaces nodeName1)"

definition Addresses :: "(string \<times> string \<times> string list) list \<Rightarrow> (string \<times> string \<times> string) list" where
  "Addresses interfaces = Addresses_loop interfaces []"

text \<open>The four queries that run the device script.\<close>

definition pipe_query :: "di_env \<Rightarrow> string \<Rightarrow> string \<Rightarrow> hresult \<times> string" where
  "pipe_query E command out =
     (case di_pipe E command of
        None \<Rightarrow> (ERROR_GENERAL, out)
      | Some text \<Rightarrow>
          (let s = read_chunks 255 text []
           in (ERROR_NONE, if s \<noteq> [] \<and> last s = CHR 0x0A then butlast s else s)))"

definition EthMac :: "di_env \<Rightarrow> string \<Rightarrow> hresult \<times> string" where
  "EthMac E out = pipe_query E ''/lib/rdk/getDeviceDetails.sh read eth_mac'' out"
definition EstbMac :: "di_env \<Rightarrow> string \<Rightarrow> hresult \<times> string" where
  "EstbMac E out = pipe_query E ''/lib/rdk/getDeviceDetails.sh read estb_mac'' out"
definition WifiMac :: "di_env \<Rightarrow> string \<Rightarrow> hresult \<times> string" where
  "WifiMac E out = pipe_query E ''/lib/rdk/getDeviceDetails.sh read wifi_mac'' out"
definition EstbIp :: "di_env \<Rightarrow> string \<Rightarrow> hresult \<times> string" where
  "EstbIp E out = pipe_query E ''/lib/rdk/getDeviceDetails.sh read estb_ip'' out"

section \<open>Audio and video capabilities\<close>

text \<open>
  The device settings library: the ports, and for a port its capability bits, profiles, default
  resolution, resolutions and HDCP version; \<open>None\<close> is an exception. The values of its bits are \<open>masks\<close>.
\<close>

record ds_ports =
  dp_audio_ports :: "string list option"
  dp_default_audio :: "string option"
  dp_audio_caps :: "string \<Rightarrow> u32 option"
  dp_ms12_caps :: "string \<Rightarrow> u32 option"
  dp_ms12_profiles :: "string \<Rightarrow> string list option"
  dp_video_ports :: "string list option"
  dp_default_video :: "string option"
  dp_edid :: "u8 list option"
  dp_default_res :: "string \<Rightarrow> string option"
  dp_resolutions :: "string \<Rightarrow> string list option"
  dp_hdcp :: "string \<Rightarrow> nat option"

datatype AudioCapability = AUDIOCAPABILITY_NONE | ATMOS | DD | DDPLUS | DAD | DAPV2 | MS12
datatype MS12Capability = MS12CAPABILITY_NONE | DOLBYVOLUME | INTELIGENTEQUALIZER | DIALOGUEENHANCER

definition SupportedAudioPorts :: "ds_ports \<Rightarrow> (string list) option" where
  "SupportedAudioPorts D = dp_audio_ports D"

text \<open>The default port for an empty name, then the query on it.\<close>

definition on_port :: "string option \<Rightarrow> (string \<Rightarrow> 'a option) \<Rightarrow> string \<Rightarrow> 'a option" where
  "on_port default_port query port =
     (case (if port = [] then default_port else Some port) of None \<Rightarrow> None | Some p \<Rightarrow> query p)"

definition cap_list :: "'c \<Rightarrow> ('c \<Rightarrow> u32) \<Rightarrow> 'c list \<Rightarrow> u32 \<Rightarrow> 'c list" where
  "cap_list none masks caps capabilities =
     (if capabilities = 0 then [none] else []) @ filter (\<lambda>c. and capabilities (masks c) \<noteq> 0) caps"

definition AudioCapabilities :: "ds_ports \<Rightarrow> (AudioCapability \<Rightarrow> u32) \<Rightarrow> string \<Rightarrow> AudioCapability list option" where
  "AudioCapabilities D masks audioPort =
     map_option (cap_list AUDIOCAPABILITY_NONE masks [ATMOS, DD, DDPLUS, DAD, DAPV2, MS12])
       (on_port (dp_default_audio D) (dp_audio_caps D) audioPort)"

definition MS12Capabilities :: "ds_ports \<Rightarrow> (MS12Capability \<Rightarrow> u32) \<Rightarrow> string \<Rightarrow> MS12Capability list option" where
  "MS12Capabilities D masks audioPort =
     map_option (cap_list MS12CAPABILITY_NONE masks [DOLBYVOLUME, INTELIGENTEQUALIZER, DIALOGUEENHANCER])
       (on_port (dp_default_audio D) (dp_ms12_caps D) audioPort)"

definition SupportedMS12AudioProfiles :: "ds_ports \<Rightarrow> string \<Rightarrow> string list option" where
  "SupportedMS12AudioProfiles D audioPort = on_port (dp_default_audio D) (dp_ms12_profiles D) audioPort"

fun distinct_names :: "string list \<Rightarrow> string list \<Rightarrow> string list" where
  "distinct_names [] list = list"
| "distinct_names (name # ports) list =
     (if name \<in> set list then distinct_names ports list else distinct_names ports (list @ [name]))"

definition SupportedVideoDisplays :: "ds_ports \<Rightarrow> string list option" where
  "SupportedVideoDisplays D = map_option (\<lambda>vPorts. distinct_names vPorts []) (dp_video_ports D)"

text \<open>\<open>to_base64\<close> is the encoder of the framework.\<close>

definition HostEDID :: "(u8 list \<Rightarrow> string) \<Rightarrow> ds_ports \<Rightarrow> string option" where
  "HostEDID to_base64 D =
     (case dp_edid D of
        None \<Rightarrow> None
      | Some edidVec \<Rightarrow> if length edidVec > 65535 then None else Some (to_base64 edidVec))"

definition DefaultResolution :: "ds_ports \<Rightarrow> string \<Rightarrow> string option" where
  "DefaultResolution D videoDisplay = on_port (dp_default_video D) (dp_default_res D) videoDisplay"

definition SupportedResolutions :: "ds_ports \<Rightarrow> string \<Rightarrow> string list option" where
  "SupportedResolutions D videoDisplay = on_port (dp_default_video D) (dp_resolutions D) videoDisplay"

datatype CopyProtection = HDCP_14 | HDCP_22

text \<open>\<open>v1\<close> and \<open>v2\<close> are the values of \<open>dsHDCP_VERSION_1X\<close> and \<open>dsHDCP_VERSION_2X\<close>.\<close>

definition SupportedHdcp :: "nat \<Rightarrow> nat \<Rightarrow> ds_ports \<Rightarrow> string \<Rightarrow> CopyProtection option" where
  "SupportedHdcp v1 v2 D videoDisplay =
     (case on_port (dp_default_video D) (dp_hdcp D) videoDisplay of
        None \<Rightarrow> None
      | Some v \<Rightarrow> if v = v2 then Some HDCP_22 else if v = v1 then Some HDCP_14 else None)"

section \<open>Properties\<close>

lemma group_end:
  assumes "\<forall>c \<in> set v. not_quote c" "v \<noteq> []" "after = [] \<or> (\<exists>ws. after = CHR 0x22 # ws \<and> (\<forall>c \<in> set ws. c_isspace c))"
  shows "rx_seq True [rx_some_group not_quote, rx_opt (\<lambda>c. c = CHR 0x22), rx_star c_isspace] (v @ after) = Some [v]"
proof -
  have star: "rx_seq True [rx_star c_isspace] ws = Some []" if "\<forall>c \<in> set ws. c_isspace c" for ws
    using rx_seq_greedy [of ws c_isspace "[]" 0 True "[]" "[]" False] that by (simp add: rx_star_def)
  have "rx_seq True [rx_opt (\<lambda>c. c = CHR 0x22), rx_star c_isspace] after = Some []"
    using assms(3) star [of "[]"] star by (auto simp: rx_opt_step simp del: rx_seq.simps)
  moreover have "after \<noteq> [] \<Longrightarrow> \<not> not_quote (hd after)" using assms(3) by (auto simp: not_quote_def)
  moreover have "1 \<le> length v" using assms(2) by (cases v) simp_all
  ultimately have "rx_seq True (Rx not_quote 1 None True # [rx_opt (\<lambda>c. c = CHR 0x22), rx_star c_isspace]) (v @ after)
      = Some (if True then v # [] else [])"
    using assms(1) by (intro rx_seq_greedy)
  then show ?thesis by (simp only: rx_some_group_def if_True)
qed

lemma property_rx_value:
  assumes "\<forall>c \<in> set ws1. c_isspace c" "\<forall>c \<in> set ws2. c_isspace c" "rest \<noteq> []" "\<not> c_isspace (hd rest)"
    "rx_seq True [rx_opt (\<lambda>c. c = CHR 0x22), rx_some_group not_quote, rx_opt (\<lambda>c. c = CHR 0x22), rx_star c_isspace] rest = Some gs"
  shows "regex_match (property_rx key) (key @ ws1 @ ''='' @ ws2 @ rest) = Some gs"
proof -
  have eq: "\<not> c_isspace CHR ''=''" by (simp add: c_isspace_def ascii_def)
  let ?tail = "[rx_opt (\<lambda>c. c = CHR 0x22), rx_some_group not_quote, rx_opt (\<lambda>c. c = CHR 0x22), rx_star c_isspace]"
  have "rx_seq True (rx_star c_isspace # ?tail) (ws2 @ rest) = Some gs"
    using rx_seq_greedy [of ws2 c_isspace rest 0 True ?tail gs False] assms
    by (simp add: rx_star_def del: rx_seq.simps)
  then have "rx_seq True (rx_one (\<lambda>c. c = CHR ''='') # rx_star c_isspace # ?tail) (''='' @ ws2 @ rest) = Some gs"
    by (simp add: rx_one_step del: rx_seq.simps)
  then have "rx_seq True (rx_star c_isspace # rx_one (\<lambda>c. c = CHR ''='') # rx_star c_isspace # ?tail) (ws1 @ ''='' @ ws2 @ rest) = Some gs"
    using rx_seq_greedy [of ws1 c_isspace "''='' @ ws2 @ rest" 0 True _ gs False] assms(1) eq
    by (simp add: rx_star_def del: rx_seq.simps)
  then show ?thesis by (simp add: regex_match_def property_rx_def rx_seq_lit del: rx_seq.simps)
qed

text \<open>
  A property line gives the value between the quotation marks; without them it gives everything
  after the equality sign and its white space, trailing white space included.
\<close>

theorem property_value:
  assumes "\<forall>c \<in> set ws1 \<union> set ws2 \<union> set ws3. c_isspace c" "v \<noteq> []" "\<forall>c \<in> set v. not_quote c"
  shows "regex_match (property_rx key) (key @ ws1 @ ''='' @ ws2 @ [CHR 0x22] @ v @ [CHR 0x22] @ ws3) = Some [v]
    \<and> (\<not> c_isspace (hd v) \<longrightarrow> regex_match (property_rx key) (key @ ws1 @ ''='' @ ws2 @ v) = Some [v])"
proof (intro conjI impI)
  have quote: "\<not> c_isspace CHR 0x22" by (simp add: c_isspace_def ascii_def)
  have "rx_seq True [rx_some_group not_quote, rx_opt (\<lambda>c. c = CHR 0x22), rx_star c_isspace] (v @ [CHR 0x22] @ ws3) = Some [v]"
    using group_end [OF assms(3,2), of "CHR 0x22 # ws3"] assms(1) by simp
  then have "rx_seq True [rx_opt (\<lambda>c. c = CHR 0x22), rx_some_group not_quote, rx_opt (\<lambda>c. c = CHR 0x22), rx_star c_isspace]
      ([CHR 0x22] @ v @ [CHR 0x22] @ ws3) = Some [v]"
    by (subst rx_opt_step) (simp del: rx_seq.simps)
  then show "regex_match (property_rx key) (key @ ws1 @ ''='' @ ws2 @ [CHR 0x22] @ v @ [CHR 0x22] @ ws3) = Some [v]"
    using assms(1) quote by (intro property_rx_value) auto
  assume hd: "\<not> c_isspace (hd v)"
  have "hd v \<noteq> CHR 0x22" using assms(2,3) by (cases v) (auto simp: not_quote_def)
  then have "rx_seq True [rx_opt (\<lambda>c. c = CHR 0x22), rx_some_group not_quote, rx_opt (\<lambda>c. c = CHR 0x22), rx_star c_isspace] v = Some [v]"
    using group_end [OF assms(3,2), of "[]"] assms(2)
    by (subst rx_opt_step) (simp del: rx_seq.simps)
  then show "regex_match (property_rx key) (key @ ws1 @ ''='' @ ws2 @ v) = Some [v]"
    using assms(1,2) hd by (intro property_rx_value) auto
qed

theorem property_value_witness:
  "regex_match (property_rx ''SOC'') (''SOC'' @ '' '' @ ''='' @ '' '' @ [CHR 0x22] @ ''BRCM'' @ [CHR 0x22] @ '' '') = Some [''BRCM'']"
  using property_value [of "'' ''" "'' ''" "'' ''" "''BRCM''" "''SOC''"]
  by (simp add: c_isspace_def ascii_def not_quote_def)

text \<open>The release version is two numbers of the image name, or the default.\<close>

theorem release_version_form:
  "\<exists>major minor. ReleaseVersion E = (ERROR_NONE, major @ ''.'' @ minor @ ''.0.0'')
     \<and> major \<noteq> [] \<and> minor \<noteq> [] \<and> (\<forall>c \<in> set major \<union> set minor. c_isdigit c)"
proof -
  have nine: "c_isdigit CHR ''9''" by (simp add: c_isdigit_def ascii_def)
  have groups: "regex_search version_rx s = Some gs \<Longrightarrow>
      \<exists>major minor. gs = [major, minor] \<and> major \<noteq> [] \<and> minor \<noteq> [] \<and> (\<forall>c \<in> set major \<union> set minor. c_isdigit c)" for s gs
  proof (induction s)
    case Nil
    then have "rx_seq False version_rx [] = Some gs" by simp
    from rx_seq_groups [OF this] show ?case
      by (auto simp: version_rx_def rx_some_group_def rx_one_def list_all2_Cons1 Suc_le_eq)
  next
    case (Cons c s)
    show ?case
    proof (cases "rx_seq False version_rx (c # s)")
      case None
      then show ?thesis using Cons by (simp del: rx_seq.simps)
    next
      case (Some gs')
      then have "rx_seq False version_rx (c # s) = Some gs" using Cons.prems by (simp del: rx_seq.simps)
      from rx_seq_groups [OF this] show ?thesis
        by (auto simp: version_rx_def rx_some_group_def rx_one_def list_all2_Cons1 Suc_le_eq)
    qed
  qed
  obtain result imagename where r: "GetFileRegex E version_txt (prefix_rx ''imagename:'') [] = (result, imagename)"
    by (rule prod.exhaust)
  show ?thesis
  proof (cases "result = ERROR_NONE \<and> regex_search version_rx imagename \<noteq> None")
    case True
    then obtain gs where "regex_search version_rx imagename = Some gs" by auto
    then obtain major minor where m: "gs = [major, minor]" "major \<noteq> []" "minor \<noteq> []"
      "\<forall>c \<in> set major \<union> set minor. c_isdigit c" "regex_search version_rx imagename = Some gs"
      using groups by blast
    then have "ReleaseVersion E = (ERROR_NONE, major @ ''.'' @ minor @ ''.0.0'')"
      using True r by (simp add: ReleaseVersion_def)
    then show ?thesis using m by blast
  next
    case False
    then have "ReleaseVersion E = (ERROR_NONE, ''99.99.0.0'')" using r by (auto simp: ReleaseVersion_def)
    moreover have "''99.99.0.0'' = ''99'' @ ''.'' @ ''99'' @ ''.0.0''" by simp
    moreover have "\<forall>c \<in> set ''99'' \<union> set ''99''. c_isdigit c" using nine by simp
    ultimately show ?thesis by (metis list.distinct(1))
  qed
qed

text \<open>An interface without an IPv4 address reports that of the one before.\<close>

theorem address_of_previous_interface:
  "Addresses [(n1, m1, [ip]), (n2, m2, [])] = [(n1, m1, ip), (n2, m2, ip)]"
  by (simp add: Addresses_def)

text \<open>The displays are the port names without repetition.\<close>

theorem displays_distinct:
  "dp_video_ports D = Some ports \<Longrightarrow> \<exists>names. SupportedVideoDisplays D = Some names \<and> distinct names \<and> set names = set ports"
proof -
  have "distinct l \<Longrightarrow> distinct (distinct_names ps l) \<and> set (distinct_names ps l) = set l \<union> set ps" for ps l
    by (induction ps l rule: distinct_names.induct) auto
  then show "dp_video_ports D = Some ports \<Longrightarrow> ?thesis" by (simp add: SupportedVideoDisplays_def)
qed

end
