(* ===== verification/DeviceDiagnostics.thy ===== *)
theory DeviceDiagnostics imports FileContent SinkRegistry begin

text \<open>
  The DeviceDiagnostics plugin, \<open>DeviceDiagnostics/DeviceDiagnosticsImplementation.cpp\<close>: reading the
  configuration from the answer of a local server, milestones and the decoder status.

  The request over libcurl is a parameter: \<open>None\<close> if it failed or the status was neither 0 nor 200,
  else the body. The answer is searched with positions, where \<open>npos\<close> is \<open>None\<close> and adding to it wraps.
  The polling of the decoder status is a round per interval (built with \<open>ENABLE_ERM\<close>).
\<close>

section \<open>Notifications and milestones\<close>

definition dd_Register :: "nat \<Rightarrow> sinks \<Rightarrow> hresult \<times> sinks" where
  "dd_Register notification s =
     (ERROR_NONE,
      if notification \<notin> set (sk_list s)
      then \<lparr>sk_list = sk_list s @ [notification],
            sk_refs = (sk_refs s)(notification := sk_refs s notification + 1)\<rparr>
      else s)"

definition dd_Unregister :: "nat \<Rightarrow> sinks \<Rightarrow> hresult \<times> sinks" where
  "dd_Unregister notification s =
     (if notification \<in> set (sk_list s)
      then (ERROR_NONE, \<lparr>sk_list = remove1 notification (sk_list s),
              sk_refs = (sk_refs s)(notification := sk_refs s notification - 1)\<rparr>)
      else (ERROR_GENERAL, s))"

interpretation dd_sinks: sink_members sk_list sk_refs dd_Register dd_Unregister sinks_ok
  by unfold_locales (auto simp: sinks_ok_def dd_Register_def dd_Unregister_def)

definition MILESTONES_LOG_FILE :: string where "MILESTONES_LOG_FILE = ''/opt/logs/rdk_milestones.log''"

definition dd_getFileContent :: "files \<Rightarrow> string \<Rightarrow> string list \<Rightarrow> bool \<times> string list" where
  "dd_getFileContent F fileName listOfStrs =
     (case open_read F fileName of
        None \<Rightarrow> (False, listOfStrs)
      | Some s \<Rightarrow> (True, listOfStrs @ filter (\<lambda>line. length line > 0) (file_lines s)))"

text \<open>The status, the success and the milestones, \<open>None\<close> if no iterator is given.\<close>

definition GetMilestones :: "files \<Rightarrow> hresult \<times> bool \<times> string list option" where
  "GetMilestones F =
     (if fileExists F MILESTONES_LOG_FILE then
        (let (retAPIStatus, list) = dd_getFileContent F MILESTONES_LOG_FILE []
         in if \<not> retAPIStatus then (ERROR_GENERAL, False, None) else (ERROR_NONE, True, Some list))
      else (ERROR_GENERAL, False, None))"

definition LogMilestone :: "string \<Rightarrow> string list \<Rightarrow> hresult \<times> bool \<times> string list" where
  "LogMilestone marker log = (if marker = [] then (ERROR_GENERAL, False, log) else (ERROR_NONE, True, log @ [marker]))"

section \<open>The decoder status\<close>

definition decoderStatusStr :: "string list" where
  "decoderStatusStr = [''IDLE'', ''PAUSED'', ''ACTIVE'']"

text \<open>\<open>None\<close> reads the null pointer after the names or beyond the array.\<close>

definition decoder_name :: "nat \<Rightarrow> string option" where
  "decoder_name status = (if status < length decoderStatusStr then Some (decoderStatusStr ! status) else None)"

definition GetAVDecoderStatus :: "nat \<Rightarrow> string option" where
  "GetAVDecoderStatus status = decoder_name status"

text \<open>
  The polling thread: a round has whether the thread shall still run and the status; the result is
  the events, \<open>None\<close> if a name is not defined.
\<close>

fun AVPollThread :: "nat \<Rightarrow> (bool \<times> nat) list \<Rightarrow> string list option" where
  "AVPollThread lastStatus [] = Some []"
| "AVPollThread lastStatus ((run, status) # rounds) =
     (if \<not> run then Some []
      else if status = lastStatus then AVPollThread lastStatus rounds
      else (case decoder_name status of
              None \<Rightarrow> None
            | Some n \<Rightarrow> map_option (\<lambda>events. n # events) (AVPollThread status rounds)))"

section \<open>The configuration\<close>

text \<open>\<open>s.find(t, pos)\<close>; a position beyond the end, \<open>npos\<close> included, finds nothing.\<close>

definition find_from :: "string \<Rightarrow> string \<Rightarrow> nat option \<Rightarrow> nat option" where
  "find_from t s pos =
     (case pos of
        None \<Rightarrow> None
      | Some p \<Rightarrow> if p \<le> length s then map_option (\<lambda>k. p + k) (find_str t (drop p s)) else None)"

definition npos_add :: "nat option \<Rightarrow> nat \<Rightarrow> nat" where
  "npos_add pos k = (case pos of None \<Rightarrow> k - 1 | Some p \<Rightarrow> p + k)"

text \<open>\<open>s.substr(start, end - start)\<close>, with \<open>npos\<close> as the end for the rest; \<open>None\<close> throws.\<close>

definition sub_between :: "string \<Rightarrow> nat \<Rightarrow> nat option \<Rightarrow> string option" where
  "sub_between s start stop =
     (if start > length s then None
      else Some (case stop of None \<Rightarrow> drop start s | Some e \<Rightarrow> take (e - start) (drop start s)))"

definition name_key :: string where "name_key = [CHR 0x22] @ ''name'' @ [CHR 0x22] @ '':''"
definition value_key :: string where "value_key = [CHR 0x22] @ ''value'' @ [CHR 0x22] @ '':''"

text \<open>The body of the loop, from the position of a name: the pair and the next position.\<close>

definition config_entry :: "string \<Rightarrow> nat \<Rightarrow> ((string \<times> string) \<times> nat option) option" where
  "config_entry response start =
     (let start1 = npos_add (find_from [CHR 0x22] response (Some (start + 6))) 1;
          end1 = find_from [CHR 0x22] response (Some start1);
          start2 = npos_add (find_from value_key response end1) 8;
          end2 = find_from ''}'' response (Some start2)
      in case (sub_between response start1 end1, sub_between response start2 end2) of
           (Some name, Some val) \<Rightarrow> Some ((name, val), end2)
         | _ \<Rightarrow> None)"

text \<open>
  The loop. The result is the list, or \<open>None\<close> for an exception; the partial function is not defined
  where the loop never ends.
\<close>

partial_function (option) config_loop ::
  "string \<Rightarrow> nat option \<Rightarrow> (string \<times> string) list \<Rightarrow> (string \<times> string) list option option" where
  "config_loop response stop paramListInfo =
     (case find_from name_key response stop of
        None \<Rightarrow> Some (Some paramListInfo)
      | Some start \<Rightarrow>
          (case config_entry response start of
             None \<Rightarrow> Some None
           | Some (param, stop1) \<Rightarrow> config_loop response stop1 (paramListInfo @ [param])))"

text \<open>The result code and the list.\<close>

definition getConfig :: "string option \<Rightarrow> (int \<times> (string \<times> string) list) option option" where
  "getConfig curl =
     (case curl of
        None \<Rightarrow> Some (Some (-1, []))
      | Some response \<Rightarrow> map_option (map_option (\<lambda>l. (0, l))) (config_loop response (Some 0) []))"

definition GetConfiguration :: "string option \<Rightarrow> (hresult \<times> bool \<times> (string \<times> string) list) option option" where
  "GetConfiguration curl =
     map_option (map_option (\<lambda>(r, l). if r = 0 then (ERROR_NONE, True, l) else (ERROR_GENERAL, False, []))) (getConfig curl)"

section \<open>Properties\<close>

text \<open>The statuses without repetitions, the first one different from the last one known.\<close>

fun changes :: "nat \<Rightarrow> nat list \<Rightarrow> nat list" where
  "changes l [] = []"
| "changes l (s # ss) = (if s = l then changes l ss else s # changes s ss)"

text \<open>
  While it runs, the polling thread announces exactly the changes of the decoder status, in
  order and each by its name, the first against idle.
\<close>

theorem decoder_events:
  assumes "\<forall>s \<in> set statuses. s < 3"
  shows "AVPollThread idle (map (\<lambda>s. (True, s)) statuses) = Some (map (\<lambda>s. decoderStatusStr ! s) (changes idle statuses))"
  using assms by (induction idle statuses rule: changes.induct) (auto simp: decoder_name_def decoderStatusStr_def)

theorem decoder_events_witness:
  "AVPollThread 0 (map (\<lambda>s. (True, s)) [0, 1, 1, 2, 0]) = Some (map (\<lambda>s. decoderStatusStr ! s) (changes 0 [0, 1, 1, 2, 0]))"
  by (rule decoder_events) simp

lemma find_str_skip: "\<not> is_prefix t (c # s) \<Longrightarrow> find_str t (c # s) = map_option Suc (find_str t s)"
  by simp

lemma find_char_str: "find_str [c] s = find_char c s"
  by (induction s) auto

lemma find_from_at:
  "p \<le> length s \<Longrightarrow> drop p s = rest \<Longrightarrow> find_str t rest = Some k \<Longrightarrow> find_from t s (Some p) = Some (p + k)"
  by (simp add: find_from_def)

definition print_param :: "string \<times> string \<Rightarrow> string" where
  "print_param p = ''{'' @ name_key @ [CHR 0x22] @ fst p @ [CHR 0x22] @ '','' @ value_key @ snd p @ ''}''"

definition print_params :: "(string \<times> string) list \<Rightarrow> string" where
  "print_params ps = concat (map (\<lambda>p. print_param p @ '','') ps)"

definition param_ok :: "string \<times> string \<Rightarrow> bool" where
  "param_ok p = (CHR 0x22 \<notin> set (fst p) \<and> CHR ''}'' \<notin> set (snd p))"

lemma entry_at:
  assumes "drop q R = name_key @ [CHR 0x22] @ n @ [CHR 0x22] @ '','' @ value_key @ v @ ''}'' @ rest" "q \<le> length R"
    "param_ok (n, v)"
  shows "config_entry R q = Some ((n, v), Some (q + 18 + length n + length v))
    \<and> drop (q + 18 + length n + length v) R = ''}'' @ rest"
proof -
  have n: "CHR 0x22 \<notin> set n" and v: "CHR ''}'' \<notin> set v" using assms(3) by (simp_all add: param_ok_def)
  have d: "drop (q + k) R = drop k (name_key @ [CHR 0x22] @ n @ [CHR 0x22] @ '','' @ value_key @ v @ ''}'' @ rest)" for k
    using assms(1) by (metis add.commute drop_drop)
  have len: "length R = q + length (name_key @ [CHR 0x22] @ n @ [CHR 0x22] @ '','' @ value_key @ v @ ''}'' @ rest)"
    using assms(1,2) by (metis append_take_drop_id length_append length_take min.absorb2)
  have lenk: "length name_key = 7" "length value_key = 8" by (simp_all add: name_key_def value_key_def)
  have len': "length R = q + 19 + length n + length v + length rest" using len lenk by simp
  have d6: "drop (q + 6) R = '':'' @ [CHR 0x22] @ n @ [CHR 0x22] @ '','' @ value_key @ v @ ''}'' @ rest"
    by (simp add: d name_key_def)
  have d8: "drop (q + 8) R = n @ CHR 0x22 # '','' @ value_key @ v @ ''}'' @ rest"
    by (simp add: d name_key_def)
  have add: "drop (a + b) xs = drop b (drop a xs)" for a b and xs :: string by (simp add: add.commute)
  have d8n: "drop (q + 8 + length n) R = CHR 0x22 # '','' @ value_key @ v @ ''}'' @ rest"
    unfolding add [of "q + 8"] d8 by simp
  have eq: "q + 18 + length n = (q + 8 + length n) + 10" by simp
  have dv: "drop (q + 18 + length n) R = v @ CHR ''}'' # rest"
    unfolding eq add [of "q + 8 + length n"] d8n by (simp add: value_key_def)
  have s1: "find_from [CHR 0x22] R (Some (q + 6)) = Some (q + 7)"
    using find_from_at [OF _ d6, of "[CHR 0x22]" 1] len' by simp
  have e1: "find_from [CHR 0x22] R (Some (q + 8)) = Some (q + 8 + length n)"
    using find_from_at [OF _ d8, of "[CHR 0x22]" "length n"] len' find_char_append [OF n] by (simp add: find_char_str)
  have s2: "find_from value_key R (Some (q + 8 + length n)) = Some (q + 10 + length n)"
    using find_from_at [OF _ d8n, of value_key 2] len' by (simp add: value_key_def)
  have e2: "find_from ''}'' R (Some (q + 18 + length n)) = Some (q + 18 + length n + length v)"
    using find_from_at [OF _ dv, of "''}''" "length v"] len' find_char_append [OF v] by (simp add: find_char_str)
  have start1: "npos_add (find_from [CHR 0x22] R (Some (q + 6))) 1 = q + 8"
    and start2: "npos_add (find_from value_key R (Some (q + 8 + length n))) 8 = q + 18 + length n"
    by (simp_all add: s1 s2 npos_add_def)
  have sub: "sub_between R (q + 8) (Some (q + 8 + length n)) = Some n"
    "sub_between R (q + 18 + length n) (Some (q + 18 + length n + length v)) = Some v"
    using len' by (simp_all add: sub_between_def d8 dv)
  have "drop (q + 18 + length n + length v) R = ''}'' @ rest"
    unfolding add [of "q + 18 + length n"] dv by simp
  moreover have "config_entry R q = Some ((n, v), Some (q + 18 + length n + length v))"
    unfolding config_entry_def Let_def start1 e1 start2 e2 sub by simp
  ultimately show ?thesis by blast
qed

lemma config_loop_params:
  "\<forall>p \<in> set ps. param_ok p \<Longrightarrow> e \<le> length R \<Longrightarrow> drop e R = sep @ print_params ps @ tail \<Longrightarrow>
   sep = [] \<or> sep = ''},'' \<Longrightarrow> find_str name_key (''},'' @ tail) = None \<Longrightarrow>
   config_loop R (Some e) acc = Some (Some (acc @ ps))"
proof (induction ps arbitrary: e acc sep)
  case Nil
  have none: "\<nexists>a b. ''},'' @ tail = a @ name_key @ b" using Nil.prems(5) find_str_None_iff by blast
  have "\<nexists>a b. drop e R = a @ name_key @ b"
  proof
    assume "\<exists>a b. drop e R = a @ name_key @ b"
    then obtain a b where "sep @ tail = a @ name_key @ b" using Nil.prems(3) by (auto simp: print_params_def)
    then show False using none Nil.prems(4) by (metis append.assoc append_Nil)
  qed
  then have "find_str name_key (drop e R) = None" using find_str_None_iff by blast
  then show ?case
    using Nil.prems(2) by (subst config_loop.simps) (simp add: find_from_def)
next
  case (Cons p ps)
  obtain n v where p: "p = (n, v)" by (rule prod.exhaust)
  let ?rest = "'','' @ print_params ps @ tail"
  let ?entry = "name_key @ [CHR 0x22] @ n @ [CHR 0x22] @ '','' @ value_key @ v @ ''}'' @ ?rest"
  define k where "k = length sep + 1"
  have de: "drop e R = sep @ ''{'' @ ?entry" using Cons.prems(3) p by (simp add: print_params_def print_param_def)
  have "find_str name_key (sep @ ''{'' @ ?entry) = Some k"
    using Cons.prems(4) by (auto simp: k_def name_key_def)
  then have found: "find_from name_key R (Some e) = Some (e + k)"
    using de Cons.prems(2) by (simp add: find_from_def)
  have "length R = e + length (sep @ ''{'' @ ?entry)" using de Cons.prems(2) by (metis append_take_drop_id length_append length_take min.absorb2)
  then have bound: "e + k \<le> length R" by (simp add: k_def)
  have "drop (e + k) R = drop k (drop e R)" by (simp add: add.commute)
  then have "drop (e + k) R = ?entry" by (simp add: de k_def)
  then obtain e2 where e2: "config_entry R (e + k) = Some ((n, v), Some e2)" "drop e2 R = ''}'' @ ?rest"
    using entry_at [of "e + k" R n v ?rest] bound Cons.prems(1) p by auto
  then have "e2 \<le> length R" by (cases "e2 \<le> length R") auto
  moreover have "drop e2 R = ''},'' @ print_params ps @ tail" using e2(2) by simp
  ultimately have "config_loop R (Some e2) (acc @ [(n, v)]) = Some (Some ((acc @ [(n, v)]) @ ps))"
    using Cons.IH Cons.prems(1,5) by auto
  then show ?case using found e2(1) p by (subst config_loop.simps) simp
qed

text \<open>
  The configuration that a well-formed answer prints is read back, whatever text without a name
  surrounds it.
\<close>

theorem configuration_roundtrip:
  assumes "\<forall>p \<in> set ps. param_ok p" "find_str name_key (''},'' @ tail) = None"
  shows "GetConfiguration (Some (print_params ps @ tail)) = Some (Some (ERROR_NONE, True, ps))"
  using config_loop_params [OF assms(1), of 0 "print_params ps @ tail" "[]" tail "[]"] assms(2)
  by (simp add: GetConfiguration_def getConfig_def)

lemma config_loop_diverges:
  assumes "find_from name_key R (Some e) = Some q" "config_entry R q = Some (param, Some e)"
  shows "config_loop R (Some e) acc = None"
proof -
  have "config_loop R stop acc = Some y \<Longrightarrow> stop \<noteq> Some e" for stop acc y
  proof (rule config_loop.raw_induct [rotated, where P = "\<lambda>r stop acc y. r = R \<longrightarrow> stop \<noteq> Some e", THEN mp])
    fix rec :: "string \<Rightarrow> nat option \<Rightarrow> (string \<times> string) list \<Rightarrow> (string \<times> string) list option option"
      and r stop acc y
    assume IH: "\<And>r stop acc y. rec r stop acc = Some y \<Longrightarrow> r = R \<longrightarrow> stop \<noteq> Some e"
      and step: "(case find_from name_key r stop of
        None \<Rightarrow> Some (Some acc)
      | Some start \<Rightarrow>
          (case config_entry r start of
             None \<Rightarrow> Some None
           | Some (param, stop1) \<Rightarrow> rec r stop1 (acc @ [param]))) = Some y"
    show "r = R \<longrightarrow> stop \<noteq> Some e"
    proof (intro impI notI)
      assume "r = R" "stop = Some e"
      then have "rec R (Some e) (acc @ [param]) = Some y" using step assms by simp
      then show False using IH by blast
    qed
  qed simp_all
  then show ?thesis by (metis not_None_eq)
qed

lemma find_from_le: "find_from t s pos = Some k \<Longrightarrow> k + length t \<le> length s"
  by (auto simp: find_from_def split: option.splits if_splits dest!: find_str_SomeD)
    (metis Suc_leI append_take_drop_id length_append length_drop length_take linorder_not_less le_add1 add.assoc min.absorb2 nat_add_left_cancel_le)

lemma no_value_entry:
  assumes "find_str value_key R = None" "find_from ''}'' R (Some 7) = Some e" "7 \<le> length R"
  shows "\<exists>param. config_entry R q = Some (param, Some e)"
proof -
  have "\<nexists>a b. R = a @ value_key @ b" using assms(1) find_str_None_iff by blast
  then have "\<nexists>a b. drop p R = a @ value_key @ b" for p by (metis append.assoc append_take_drop_id)
  then have "find_str value_key (drop p R) = None" for p using find_str_None_iff by blast
  then have none: "find_from value_key R pos = None" for pos by (simp add: find_from_def split: option.split)
  have start: "npos_add (find_from [CHR 0x22] R pos) 1 \<le> length R" for pos
    using find_from_le [of "[CHR 0x22]" R pos] by (cases "find_from [CHR 0x22] R pos") (simp_all add: npos_add_def)
  obtain name where name: "sub_between R (npos_add (find_from [CHR 0x22] R (Some (q + 6))) 1)
      (find_from [CHR 0x22] R (Some (npos_add (find_from [CHR 0x22] R (Some (q + 6))) 1))) = Some name"
    using start [of "Some (q + 6)"] by (simp add: sub_between_def)
  obtain val where val: "sub_between R 7 (Some e) = Some val" using assms(3) by (simp add: sub_between_def)
  have seven: "npos_add None 8 = 7" by (simp add: npos_add_def)
  show ?thesis unfolding config_entry_def Let_def none seven assms(2) name val by simp
qed

theorem configuration_roundtrip_witness:
  "GetConfiguration (Some (print_params [(''Power'', ''1''), (''Mode'', [CHR 0x22] @ ''x'' @ [CHR 0x22])] @ ''{}''))
   = Some (Some (ERROR_NONE, True, [(''Power'', ''1''), (''Mode'', [CHR 0x22] @ ''x'' @ [CHR 0x22])]))"
  by (rule configuration_roundtrip) (simp_all add: param_ok_def name_key_def)

text \<open>
  Two names without values make the loop go on for ever: looking for the value fails, and the
  search goes on from the start of the answer.
\<close>

theorem names_without_values:
  assumes "find_str value_key R = None" "find_from ''}'' R (Some 7) = Some e"
    "find_from name_key R (Some e) = Some q" "find_from name_key R (Some 0) = Some q0"
  shows "GetConfiguration (Some R) = None"
proof -
  have len: "7 \<le> length R" using find_from_le [OF assms(4)] by (simp add: name_key_def)
  obtain param where param: "config_entry R q = Some (param, Some e)"
    using no_value_entry [OF assms(1,2) len] by blast
  obtain param0 where param0: "config_entry R q0 = Some (param0, Some e)"
    using no_value_entry [OF assms(1,2) len] by blast
  have "config_loop R (Some 0) [] = config_loop R (Some e) [param0]"
    using assms(4) param0 by (subst config_loop.simps) simp
  then show ?thesis
    using config_loop_diverges [OF assms(3) param] by (simp add: GetConfiguration_def getConfig_def)
qed

theorem names_without_values_witness:
  "GetConfiguration (Some (''{'' @ name_key @ ''1}{'' @ name_key @ ''2}'')) = None"
  by (rule names_without_values [where e = 9 and q = 11 and q0 = 1])
    (simp_all add: name_key_def value_key_def find_from_def)

end
