(* ===== verification/FrontPanel.thy ===== *)
theory FrontPanel imports Json begin

text \<open>
  The front panel of \<open>helpers/frontpanel.cpp\<close> and \<open>frontpanel.h\<close>, built with \<open>USE_DS\<close> and
  \<open>HAS_API_POWERSTATE\<close> and without \<open>CLOCK_BRIGHTNESS_ENABLED\<close>.

  The indicators of the device settings library are a state of their own, \<open>fp_device\<close>: asking for an
  unknown indicator or colour, or setting a brightness that is not accepted, throws, which ends the
  rest of the \<open>try\<close> block. The static variables of the file and the members of \<open>CFrontPanel\<close> are one
  record. The timer is the duration it was last scheduled with; \<open>onBlinkTimer\<close> runs when it expires.
\<close>

section \<open>Indicators\<close>

datatype fp_color = ColorValue u32 | ColorName string

record fp_device =
  dv_known :: "string \<Rightarrow> bool"
  dv_colors :: "string \<Rightarrow> bool"
  dv_accepts :: "int \<Rightarrow> bool"
  dv_brightness :: "string \<Rightarrow> int"
  dv_on :: "string \<Rightarrow> bool"
  dv_color :: "string \<Rightarrow> fp_color"

definition dev_setState :: "string \<Rightarrow> bool \<Rightarrow> fp_device \<Rightarrow> bool \<times> fp_device" where
  "dev_setState name on d = (if dv_known d name then (True, d\<lparr>dv_on := (dv_on d)(name := on)\<rparr>) else (False, d))"

definition dev_setBrightness :: "string \<Rightarrow> int \<Rightarrow> fp_device \<Rightarrow> bool \<times> fp_device" where
  "dev_setBrightness name b d =
     (if dv_known d name \<and> dv_accepts d b then (True, d\<lparr>dv_brightness := (dv_brightness d)(name := b)\<rparr>) else (False, d))"

definition dev_setColor :: "string \<Rightarrow> fp_color \<Rightarrow> fp_device \<Rightarrow> bool \<times> fp_device" where
  "dev_setColor name c d =
     (if dv_known d name \<and> (case c of ColorName n \<Rightarrow> dv_colors d n | ColorValue w \<Rightarrow> True)
      then (True, d\<lparr>dv_color := (dv_color d)(name := c)\<rparr>) else (False, d))"

text \<open>Calls in a \<open>try\<close> block: the first that throws ends it.\<close>

fun dev_try :: "(fp_device \<Rightarrow> bool \<times> fp_device) list \<Rightarrow> fp_device \<Rightarrow> bool \<times> fp_device" where
  "dev_try [] d = (True, d)"
| "dev_try (f # fs) d = (let (ok, d1) = f d in if ok then dev_try fs d1 else (False, d1))"

section \<open>State\<close>

record FrontPanelBlinkInfo =
  bi_ledIndicator :: string
  bi_colorName :: string
  bi_colorValue :: u32
  bi_brightness :: int
  bi_durationInMs :: int
  bi_colorMode :: nat

datatype frontPanelIndicator =
    FRONT_PANEL_INDICATOR_CLOCK
  | FRONT_PANEL_INDICATOR_MESSAGE
  | FRONT_PANEL_INDICATOR_POWER
  | FRONT_PANEL_INDICATOR_RECORD
  | FRONT_PANEL_INDICATOR_REMOTE
  | FRONT_PANEL_INDICATOR_RFBYPASS
  | FRONT_PANEL_INDICATOR_ALL

record CFrontPanel =
  globalLedBrightness :: int
  initDone :: bool
  isMessageLedOn :: bool
  isRecordLedOn :: bool
  powerStatus :: bool
  started :: bool
  m_numberOfBlinks :: int
  m_maxNumberOfBlinkRepeats :: int
  m_currentBlinkListIndex :: nat
  m_lights :: "string list"
  fpIndicators :: "string list"
  m_isBlinking :: bool
  m_blinkList :: "FrontPanelBlinkInfo list"
  fp_timer :: "int option"
  m_observers :: "nat list"
  m_preferencesHash :: json_params

definition fp_initial :: CFrontPanel where
  "fp_initial = \<lparr>globalLedBrightness = 100, initDone = False, isMessageLedOn = False, isRecordLedOn = False,
     powerStatus = False, started = False, m_numberOfBlinks = 0, m_maxNumberOfBlinkRepeats = 0,
     m_currentBlinkListIndex = 0, m_lights = [], fpIndicators = [], m_isBlinking = False, m_blinkList = [],
     fp_timer = None, m_observers = [], m_preferencesHash = []\<rparr>"

type_synonym fp = "CFrontPanel \<times> fp_device"

definition svc2iarm :: "string \<Rightarrow> string" where
  "svc2iarm name =
     (if name = ''record_led'' then ''Record''
      else if name = ''data_led'' then ''Message''
      else if name = ''power_led'' then ''Power''
      else name)"

fun add_lights :: "string list \<Rightarrow> string list \<Rightarrow> string list" where
  "add_lights lights [] = lights"
| "add_lights lights (name # names) = add_lights (if name \<in> set lights then lights else lights @ [name]) names"

section \<open>Operations\<close>

text \<open>
  \<open>indicators\<close> is what the library lists, \<open>None\<close> if it throws; \<open>power_on\<close> whether the power manager
  reports the state ON.
\<close>

definition fp_instance :: "string list option \<Rightarrow> bool \<Rightarrow> fp \<Rightarrow> fp" where
  "fp_instance indicators power_on st =
     (let (c, d) = st
      in if initDone c then (c, d)
         else (case indicators of
                 None \<Rightarrow> (c\<lparr>initDone := True\<rparr>, d)
               | Some names \<Rightarrow>
                   (let c1 = c\<lparr>fpIndicators := names, m_lights := add_lights (m_lights c) names,
                               powerStatus := powerStatus c \<or> power_on, initDone := True\<rparr>
                    in if \<not> dv_known d ''Power'' then (c1, d)
                       else
                         (let c2 = c1\<lparr>globalLedBrightness := dv_brightness d ''Power''\<rparr>;
                              (ok, d1) = dev_try
                                (concat (map (\<lambda>n. (if powerStatus c2 then [dev_setBrightness n (globalLedBrightness c2)] else [])
                                   @ [dev_setState n False]) names)
                                 @ (if powerStatus c2 then [dev_setState ''Power'' True] else [])) d
                          in (c2, d1)))))"

definition stopBlinkTimer :: "CFrontPanel \<Rightarrow> CFrontPanel" where
  "stopBlinkTimer c = c\<lparr>m_isBlinking := False, fp_timer := None\<rparr>"

definition fp_start :: "string list option \<Rightarrow> fp \<Rightarrow> bool \<times> fp" where
  "fp_start indicators st =
     (let (c, d) = st;
          (ok, d1) = (if powerStatus c then dev_setState ''Power'' True d else (True, d));
          c1 = (case indicators of Some names \<Rightarrow> if ok then c\<lparr>m_lights := add_lights (m_lights c) names\<rparr> else c | None \<Rightarrow> c);
          c2 = (if \<not> started c1
                then c1\<lparr>m_numberOfBlinks := 0, m_maxNumberOfBlinkRepeats := 0, m_currentBlinkListIndex := 0, started := True\<rparr>
                else c1)
      in (True, c2, d1))"

definition fp_stop :: "fp \<Rightarrow> bool \<times> fp" where
  "fp_stop st = (True, stopBlinkTimer (fst st), snd st)"

definition setPowerStatus :: "bool \<Rightarrow> fp \<Rightarrow> fp" where
  "setPowerStatus bPowerStatus st = ((fst st)\<lparr>powerStatus := bPowerStatus\<rparr>, snd st)"

definition addEventObserver :: "nat \<Rightarrow> fp \<Rightarrow> fp" where
  "addEventObserver o1 st =
     (if o1 \<in> set (m_observers (fst st)) then st
      else ((fst st)\<lparr>m_observers := m_observers (fst st) @ [o1]\<rparr>, snd st))"

definition removeEventObserver :: "nat \<Rightarrow> fp \<Rightarrow> fp" where
  "removeEventObserver o1 st = ((fst st)\<lparr>m_observers := removeAll o1 (m_observers (fst st))\<rparr>, snd st)"

fun led_on_calls :: "frontPanelIndicator \<Rightarrow> CFrontPanel \<Rightarrow> CFrontPanel \<times> (fp_device \<Rightarrow> bool \<times> fp_device) list" where
  "led_on_calls FRONT_PANEL_INDICATOR_CLOCK c = (c, [])"
| "led_on_calls FRONT_PANEL_INDICATOR_MESSAGE c = (c\<lparr>isMessageLedOn := True\<rparr>, [dev_setState ''Message'' True])"
| "led_on_calls FRONT_PANEL_INDICATOR_RECORD c = (c\<lparr>isRecordLedOn := True\<rparr>, [dev_setState ''Record'' True])"
| "led_on_calls FRONT_PANEL_INDICATOR_REMOTE c = (c, [dev_setState ''Remote'' True])"
| "led_on_calls FRONT_PANEL_INDICATOR_RFBYPASS c = (c, [dev_setState ''RfByPass'' True])"
| "led_on_calls FRONT_PANEL_INDICATOR_ALL c =
     (c, (if isMessageLedOn c then [dev_setState ''Message'' True] else [])
       @ (if isRecordLedOn c then [dev_setState ''Record'' True] else []) @ [dev_setState ''Power'' True])"
| "led_on_calls FRONT_PANEL_INDICATOR_POWER c = (c, [dev_setState ''Power'' True])"

definition powerOnLed :: "frontPanelIndicator \<Rightarrow> fp \<Rightarrow> bool \<times> fp" where
  "powerOnLed fp_indicator st =
     (let c = stopBlinkTimer (fst st)
      in if powerStatus c then
           (let (c1, calls) = led_on_calls fp_indicator c; (ok, d1) = dev_try calls (snd st) in (ok, c1, d1))
         else (True, c, snd st))"

fun led_off_calls :: "frontPanelIndicator \<Rightarrow> CFrontPanel \<Rightarrow> CFrontPanel \<times> (fp_device \<Rightarrow> bool \<times> fp_device) list" where
  "led_off_calls FRONT_PANEL_INDICATOR_CLOCK c = (c, [])"
| "led_off_calls FRONT_PANEL_INDICATOR_MESSAGE c = (c\<lparr>isMessageLedOn := False\<rparr>, [dev_setState ''Message'' False])"
| "led_off_calls FRONT_PANEL_INDICATOR_RECORD c = (c\<lparr>isRecordLedOn := False\<rparr>, [dev_setState ''Record'' False])"
| "led_off_calls FRONT_PANEL_INDICATOR_REMOTE c = (c, [dev_setState ''Remote'' False])"
| "led_off_calls FRONT_PANEL_INDICATOR_RFBYPASS c = (c, [dev_setState ''RfByPass'' False])"
| "led_off_calls FRONT_PANEL_INDICATOR_ALL c = (c, map (\<lambda>n. dev_setState n False) (fpIndicators c))"
| "led_off_calls FRONT_PANEL_INDICATOR_POWER c = (c, [dev_setState ''Power'' False])"

definition powerOffLed :: "frontPanelIndicator \<Rightarrow> fp \<Rightarrow> bool \<times> fp" where
  "powerOffLed fp_indicator st =
     (let c = stopBlinkTimer (fst st); (c1, calls) = led_off_calls fp_indicator c; (ok, d1) = dev_try calls (snd st)
      in (ok, c1, d1))"

definition powerOffAllLed :: "fp \<Rightarrow> bool \<times> fp" where
  "powerOffAllLed st = (True, snd (powerOffLed FRONT_PANEL_INDICATOR_ALL st))"

definition powerOnAllLed :: "fp \<Rightarrow> bool \<times> fp" where
  "powerOnAllLed st = (True, snd (powerOnLed FRONT_PANEL_INDICATOR_ALL st))"

definition fp_setBrightness :: "int \<Rightarrow> fp \<Rightarrow> bool \<times> fp" where
  "fp_setBrightness fp_brightness st =
     (let c = (stopBlinkTimer (fst st))\<lparr>globalLedBrightness := fp_brightness\<rparr>;
          (ok, d1) = dev_try (map (\<lambda>n. dev_setBrightness n fp_brightness) (fpIndicators c)) (snd st)
      in (True, snd (powerOnLed FRONT_PANEL_INDICATOR_ALL (c, d1))))"

definition fp_getBrightness :: "fp \<Rightarrow> int \<times> fp" where
  "fp_getBrightness st =
     (let (c, d) = st;
          c1 = (if dv_known d ''Power'' then c\<lparr>globalLedBrightness := dv_brightness d ''Power''\<rparr> else c)
      in (globalLedBrightness c1, c1, d))"

definition rgb :: "json_params \<Rightarrow> u32" where
  "rgb ps =
     (let red = word_of_int (getNumberParameterObject ps ''red'');
          green = word_of_int (getNumberParameterObject ps ''green'');
          blue = word_of_int (getNumberParameterObject ps ''blue'')
      in or (or (push_bit 16 red) (push_bit 8 green)) blue)"

definition setLED :: "json_params \<Rightarrow> fp \<Rightarrow> bool \<times> fp" where
  "setLED parameters st =
     (let c = stopBlinkTimer (fst st);
          ledIndicator = svc2iarm (member_String parameters ''ledIndicator'');
          brightness = (if HasLabel parameters ''brightness'' then getNumberParameterObject parameters ''brightness'' else -1);
          (colored, d1) =
            (if HasLabel parameters ''color''
             then dev_setColor ledIndicator (ColorName (member_String parameters ''color'')) (snd st)
             else if HasLabel parameters ''red'' then dev_setColor ledIndicator (ColorValue (rgb parameters)) (snd st)
             else (False, snd st))
      in if brightness = -1 \<and> \<not> dv_known d1 ledIndicator then (False, c, d1)
         else (let (success, d2) = dev_setBrightness ledIndicator
                     (if brightness = -1 then dv_brightness d1 ledIndicator else brightness) d1
               in (success, c, d2)))"

definition setBlinkLed :: "FrontPanelBlinkInfo \<Rightarrow> fp_device \<Rightarrow> fp_device" where
  "setBlinkLed b d =
     (let d1 = (if bi_colorMode b = 1 then snd (dev_setColor (bi_ledIndicator b) (ColorValue (bi_colorValue b)) d)
                else if bi_colorMode b = 2 then snd (dev_setColor (bi_ledIndicator b) (ColorName (bi_colorName b)) d)
                else d)
      in if bi_brightness b = -1
         then (if dv_known d1 (bi_ledIndicator b)
               then snd (dev_setBrightness (bi_ledIndicator b) (dv_brightness d1 (bi_ledIndicator b)) d1) else d1)
         else snd (dev_setBrightness (bi_ledIndicator b) (bi_brightness b) d1))"

definition blink_info :: "string \<Rightarrow> json_params \<Rightarrow> FrontPanelBlinkInfo" where
  "blink_info ledIndicator h =
     (let b = \<lparr>bi_ledIndicator = ledIndicator, bi_colorName = [], bi_colorValue = 0,
               bi_brightness = (if HasLabel h ''brightness'' then getNumberParameterObject h ''brightness'' else -1),
               bi_durationInMs = getNumberParameterObject h ''duration'', bi_colorMode = 0\<rparr>
      in if HasLabel h ''color'' then b\<lparr>bi_colorName := member_String h ''color'', bi_colorMode := 2\<rparr>
         else if HasLabel h ''red'' then b\<lparr>bi_colorValue := rgb h, bi_colorMode := 1\<rparr>
         else b)"

text \<open>The result is what was shown, if anything.\<close>

definition startBlinkTimer :: "int \<Rightarrow> fp \<Rightarrow> fp \<times> FrontPanelBlinkInfo list" where
  "startBlinkTimer numberOfBlinkRepeats st =
     (let c = (stopBlinkTimer (fst st))\<lparr>m_numberOfBlinks := 0, m_isBlinking := True,
                m_maxNumberOfBlinkRepeats := numberOfBlinkRepeats, m_currentBlinkListIndex := 0\<rparr>
      in case m_blinkList c of
           [] \<Rightarrow> ((c, snd st), [])
         | blinkInfo # _ \<Rightarrow> ((c\<lparr>fp_timer := Some (bi_durationInMs blinkInfo)\<rparr>, setBlinkLed blinkInfo (snd st)), [blinkInfo]))"

fun json_members :: "json \<Rightarrow> json_params" where
  "json_members (JObject ps) = ps"
| "json_members _ = []"

fun json_elements :: "json \<Rightarrow> json list" where
  "json_elements (JArray vs) = vs"
| "json_elements _ = []"

definition setBlink :: "json_params \<Rightarrow> fp \<Rightarrow> fp \<times> FrontPanelBlinkInfo list" where
  "setBlink blinkInfo st =
     (let c = stopBlinkTimer (fst st);
          ledIndicator = svc2iarm (member_String blinkInfo ''ledIndicator'');
          iterations = getNumberParameterObject blinkInfo ''iterations'';
          c1 = c\<lparr>m_blinkList := map (\<lambda>v. blink_info ledIndicator (json_members v)) (json_elements (member blinkInfo ''pattern''))\<rparr>
      in startBlinkTimer iterations (c1, snd st))"

text \<open>\<open>None\<close> is the exception of \<open>at\<close>.\<close>

definition onBlinkTimer :: "fp \<Rightarrow> (fp \<times> FrontPanelBlinkInfo list) option" where
  "onBlinkTimer st =
     (let (c, d) = st;
          c1 = c\<lparr>m_currentBlinkListIndex := m_currentBlinkListIndex c + 1, fp_timer := None\<rparr>;
          wrap = (m_currentBlinkListIndex c1 \<ge> length (m_blinkList c1));
          c2 = (if wrap then c1\<lparr>m_currentBlinkListIndex := 0, m_numberOfBlinks := m_numberOfBlinks c1 + 1\<rparr> else c1);
          blinkAgain = (\<not> wrap \<or> m_maxNumberOfBlinkRepeats c2 < 0 \<or> m_numberOfBlinks c2 \<le> m_maxNumberOfBlinkRepeats c2)
      in if blinkAgain then
           (if m_currentBlinkListIndex c2 < length (m_blinkList c2) then
              (let blinkInfo = m_blinkList c2 ! m_currentBlinkListIndex c2
               in Some ((if m_isBlinking c2 then c2\<lparr>fp_timer := Some (bi_durationInMs blinkInfo)\<rparr> else c2,
                         setBlinkLed blinkInfo d), [blinkInfo]))
            else None)
         else Some ((c2, d), []))"

definition getPreferences :: "fp \<Rightarrow> json_params" where
  "getPreferences st = m_preferencesHash (fst st)"

text \<open>The preferences and the file, which is replaced.\<close>

definition setPreferences :: "json_params \<Rightarrow> fp \<times> json_params \<Rightarrow> fp \<times> json_params" where
  "setPreferences preferences s = (let ((c, d), file) = s in ((c\<lparr>m_preferencesHash := preferences\<rparr>, d), preferences))"

definition loadPreferences :: "fp \<times> json_params \<Rightarrow> fp \<times> json_params" where
  "loadPreferences s = (let ((c, d), file) = s in ((c\<lparr>m_preferencesHash := file\<rparr>, d), file))"

section \<open>Blinking\<close>

datatype fp_op =
    FInstance "string list option" bool
  | FStart "string list option"
  | FStop
  | FPowerStatus bool
  | FBrightness int
  | FLedOn frontPanelIndicator
  | FLedOff frontPanelIndicator
  | FSetLED json_params
  | FSetBlink json_params
  | FTimer

text \<open>A step; the timer runs only when it is scheduled. The result is what is shown by blinking.\<close>

fun fp_step :: "fp_op \<Rightarrow> fp \<Rightarrow> (fp \<times> FrontPanelBlinkInfo list) option" where
  "fp_step (FInstance names on) st = Some (fp_instance names on st, [])"
| "fp_step (FStart names) st = Some (snd (fp_start names st), [])"
| "fp_step FStop st = Some (snd (fp_stop st), [])"
| "fp_step (FPowerStatus b) st = Some (setPowerStatus b st, [])"
| "fp_step (FBrightness b) st = Some (snd (fp_setBrightness b st), [])"
| "fp_step (FLedOn i) st = Some (snd (powerOnLed i st), [])"
| "fp_step (FLedOff i) st = Some (snd (powerOffLed i st), [])"
| "fp_step (FSetLED ps) st = Some (snd (setLED ps st), [])"
| "fp_step (FSetBlink ps) st = Some (setBlink ps st)"
| "fp_step FTimer st = (if fp_timer (fst st) = None then Some (st, []) else onBlinkTimer st)"

fun fp_run :: "fp_op list \<Rightarrow> fp \<Rightarrow> (fp \<times> FrontPanelBlinkInfo list) option" where
  "fp_run [] st = Some (st, [])"
| "fp_run (op # ops) st =
     (case fp_step op st of
        None \<Rightarrow> None
      | Some (st1, shown) \<Rightarrow> map_option (\<lambda>(st2, more). (st2, shown @ more)) (fp_run ops st1))"

text \<open>A scheduled timer has something to show, and only a blinking panel has one.\<close>

definition fp_inv :: "fp \<Rightarrow> bool" where
  "fp_inv st = (fp_timer (fst st) \<noteq> None \<longrightarrow>
     m_isBlinking (fst st) \<and> m_blinkList (fst st) \<noteq> [] \<and> m_currentBlinkListIndex (fst st) < length (m_blinkList (fst st)))"

lemma led_calls_timer:
  "fp_timer (fst (led_on_calls i c)) = fp_timer c" "fp_timer (fst (led_off_calls i c)) = fp_timer c"
  by (cases i; simp)+

lemma stop_timer [simp]: "fp_timer (stopBlinkTimer c) = None"
  by (simp add: stopBlinkTimer_def)

lemma stopped_inv: "fp_timer (fst st) = None \<Longrightarrow> fp_inv st"
  by (simp add: fp_inv_def)

lemma led_on_stops: "fp_timer (fst (snd (powerOnLed i st))) = None"
  using led_calls_timer(1) [of i "stopBlinkTimer (fst st)"]
  by (auto simp: powerOnLed_def Let_def split: prod.splits if_splits)

lemma led_off_stops: "fp_timer (fst (snd (powerOffLed i st))) = None"
  using led_calls_timer(2) [of i "stopBlinkTimer (fst st)"]
  by (auto simp: powerOffLed_def Let_def split: prod.splits)

lemma instance_timer:
  "fp_timer (fst (fp_instance names on st)) = fp_timer (fst st) \<and> m_isBlinking (fst (fp_instance names on st)) = m_isBlinking (fst st)
   \<and> m_blinkList (fst (fp_instance names on st)) = m_blinkList (fst st)
   \<and> m_currentBlinkListIndex (fst (fp_instance names on st)) = m_currentBlinkListIndex (fst st)"
  by (auto simp: fp_instance_def Let_def split: prod.splits option.splits)

lemma start_blink_inv: "fp_inv (fst (startBlinkTimer n st))"
  by (auto simp: startBlinkTimer_def fp_inv_def Let_def split: list.split)

lemma blink_timer_inv: "fp_inv st \<Longrightarrow> fp_timer (fst st) \<noteq> None \<Longrightarrow> \<exists>st' shown. onBlinkTimer st = Some (st', shown) \<and> fp_inv st'"
  by (cases st) (auto simp: onBlinkTimer_def fp_inv_def Let_def)

lemma fp_start_inv: "fp_inv st \<Longrightarrow> fp_inv (snd (fp_start names st))"
  by (auto simp: fp_start_def fp_inv_def Let_def split: prod.splits option.splits)

lemma fp_step_inv: "fp_inv st \<Longrightarrow> \<exists>st' shown. fp_step op st = Some (st', shown) \<and> fp_inv st'"
proof (cases op)
  case (FInstance names on)
  then show "fp_inv st \<Longrightarrow> ?thesis" using instance_timer [of names on st] by (auto simp: fp_inv_def)
next
  case (FStart names)
  then show "fp_inv st \<Longrightarrow> ?thesis" using fp_start_inv [of st names] by (cases "fp_start names st") auto
next
  case (FSetBlink ps)
  have "fp_inv (fst (setBlink ps st))" using start_blink_inv by (simp add: setBlink_def Let_def)
  then show ?thesis using FSetBlink by (cases "setBlink ps st") auto
next
  case FTimer
  then show "fp_inv st \<Longrightarrow> ?thesis" using blink_timer_inv [of st] by (cases st) auto
qed (auto simp: stopped_inv fp_start_inv led_on_stops led_off_stops fp_stop_def setPowerStatus_def fp_setBrightness_def
    setLED_def fp_inv_def Let_def split: prod.splits)

lemma fp_run_inv: "fp_inv st \<Longrightarrow> \<exists>st' shown. fp_run ops st = Some (st', shown) \<and> fp_inv st'"
proof (induction ops arbitrary: st)
  case (Cons op ops)
  then obtain st1 shown1 where s: "fp_step op st = Some (st1, shown1)" "fp_inv st1" using fp_step_inv by blast
  then obtain st2 shown2 where "fp_run ops st1 = Some (st2, shown2)" "fp_inv st2" using Cons.IH by blast
  then show ?case using s by auto
qed simp

text \<open>The times the timer expires after a blink has been set, and what is shown.\<close>

definition blink_state :: "CFrontPanel \<Rightarrow> FrontPanelBlinkInfo list \<Rightarrow> int \<Rightarrow> int \<Rightarrow> nat \<Rightarrow> bool" where
  "blink_state c l maxn n k =
     (m_blinkList c = l \<and> m_maxNumberOfBlinkRepeats c = maxn \<and> m_numberOfBlinks c = n \<and> m_currentBlinkListIndex c = k
      \<and> m_isBlinking c \<and> fp_timer c \<noteq> None)"

lemma timer_step:
  assumes "blink_state c l maxn n k" "k < length l"
  shows "k + 1 < length l \<Longrightarrow> \<exists>c' d'. fp_step FTimer (c, d) = Some ((c', d'), [l ! (k + 1)]) \<and> blink_state c' l maxn n (k + 1)"
    and "k + 1 = length l \<Longrightarrow> n < maxn \<Longrightarrow> \<exists>c' d'. fp_step FTimer (c, d) = Some ((c', d'), [l ! 0]) \<and> blink_state c' l maxn (n + 1) 0"
    and "k + 1 = length l \<Longrightarrow> n = maxn \<Longrightarrow> 0 \<le> maxn \<Longrightarrow> \<exists>c'. fp_step FTimer (c, d) = Some ((c', d), []) \<and> fp_timer c' = None"
  using assms by (auto simp: blink_state_def onBlinkTimer_def Let_def)

lemma round_shown:
  "blink_state c l maxn n k \<Longrightarrow> k < length l \<Longrightarrow>
   \<exists>c' d'. fp_run (replicate (length l - 1 - k) FTimer) (c, d) = Some ((c', d'), drop (k + 1) l)
     \<and> blink_state c' l maxn n (length l - 1)"
proof (induction "length l - 1 - k" arbitrary: c d k)
  case 0
  then have "k = length l - 1" by simp
  then show ?case using 0 by simp
next
  case (Suc m)
  then have k1: "k + 1 < length l" by simp
  obtain c1 d1 where s: "fp_step FTimer (c, d) = Some ((c1, d1), [l ! (k + 1)])" "blink_state c1 l maxn n (k + 1)"
    using timer_step(1) [OF Suc.prems k1] by blast
  have m: "m = length l - 1 - (k + 1)" using Suc.hyps(2) by simp
  obtain c2 d2 where r: "fp_run (replicate m FTimer) (c1, d1) = Some ((c2, d2), drop (k + 2) l)" "blink_state c2 l maxn n (length l - 1)"
    using Suc.hyps(1) [OF m s(2) k1, of d1] m by auto
  have "replicate (length l - 1 - k) FTimer = FTimer # replicate m FTimer" using Suc.hyps(2) by (metis replicate_Suc)
  moreover have "drop (k + 1) l = l ! (k + 1) # drop (k + 2) l" using k1 by (metis Cons_nth_drop_Suc Suc_eq_plus1 add_2_eq_Suc')
  moreover have "fp_run (FTimer # replicate m FTimer) (c, d) = Some ((c2, d2), l ! (k + 1) # drop (k + 2) l)"
    using s(1) r(1) by (simp del: fp_step.simps)
  ultimately show ?case using r(2) by auto
qed

lemma fp_run_append:
  "fp_run (xs @ ys) st = (case fp_run xs st of None \<Rightarrow> None
     | Some (st1, a) \<Rightarrow> map_option (\<lambda>(st2, b). (st2, a @ b)) (fp_run ys st1))"
  by (induction xs arbitrary: st) (auto split: option.splits simp: option.map_comp comp_def prod.case_distrib option.map_id)

lemma rounds_shown:
  "blink_state c l (int m) (int n) 0 \<Longrightarrow> l \<noteq> [] \<Longrightarrow> n \<le> m \<Longrightarrow>
   \<exists>c' d'. fp_run (replicate ((m - n + 1) * length l) FTimer) (c, d) = Some ((c', d'), tl l @ concat (replicate (m - n) l))
     \<and> fp_timer c' = None"
proof (induction "m - n" arbitrary: n c d)
  case 0
  have len: "0 < length l" using 0 by simp
  obtain c1 d1 where r: "fp_run (replicate (length l - 1) FTimer) (c, d) = Some ((c1, d1), tl l)" "blink_state c1 l (int m) (int n) (length l - 1)"
    using round_shown [OF 0(2) len, of d] by (auto simp: drop_Suc)
  obtain c2 where s: "fp_step FTimer (c1, d1) = Some ((c2, d1), [])" "fp_timer c2 = None"
    using timer_step(3) [OF r(2), of d1] 0 len by auto
  have "(m - n + 1) * length l = Suc (length l - 1)" using 0(1) len by simp
  then have "replicate ((m - n + 1) * length l) FTimer = replicate (length l - 1) FTimer @ [FTimer]"
    by (metis replicate_Suc replicate_append_same)
  moreover have "fp_run (replicate (length l - 1) FTimer @ [FTimer]) (c, d) = Some ((c2, d1), tl l)"
    using r(1) s(1) by (simp add: fp_run_append del: fp_step.simps)
  ultimately show ?case using s(2) 0(1) by auto
next
  case (Suc k)
  have len: "0 < length l" and lt: "n < m" using Suc by auto
  obtain c1 d1 where r: "fp_run (replicate (length l - 1) FTimer) (c, d) = Some ((c1, d1), tl l)" "blink_state c1 l (int m) (int n) (length l - 1)"
    using round_shown [OF Suc.prems(1) len, of d] by (auto simp: drop_Suc)
  obtain c2 d2 where s: "fp_step FTimer (c1, d1) = Some ((c2, d2), [l ! 0])" "blink_state c2 l (int m) (int (n + 1)) 0"
    using timer_step(2) [OF r(2), of d1] lt len by (auto simp: add.commute)
  have k: "k = m - (n + 1)" using Suc.hyps(2) by simp
  obtain c3 d3 where t: "fp_run (replicate ((m - (n + 1) + 1) * length l) FTimer) (c2, d2)
      = Some ((c3, d3), tl l @ concat (replicate (m - (n + 1)) l))" "fp_timer c3 = None"
    using Suc.hyps(1) [OF k s(2) Suc.prems(2), of d2] lt by (auto simp del: One_nat_def mult_Suc replicate.simps)
  have mn: "m - n = Suc (m - (n + 1))" using lt by simp
  have "(m - n + 1) * length l = (length l - 1) + Suc ((m - (n + 1) + 1) * length l)"
    unfolding mn using len by simp
  then have "replicate ((m - n + 1) * length l) FTimer
      = replicate (length l - 1) FTimer @ FTimer # replicate ((m - (n + 1) + 1) * length l) FTimer"
    by (simp only: replicate_add replicate_Suc)
  moreover have "concat (replicate (m - n) l) = l ! 0 # tl l @ concat (replicate (m - (n + 1)) l)"
    unfolding mn using Suc.prems(2) by (cases l) simp_all
  moreover have "fp_run (replicate (length l - 1) FTimer @ FTimer # replicate ((m - (n + 1) + 1) * length l) FTimer) (c, d)
      = Some ((c3, d3), tl l @ l ! 0 # tl l @ concat (replicate (m - (n + 1)) l))"
    using r(1) s(1) t(1) by (simp only: fp_run_append fp_run.simps option.case prod.case) simp
  ultimately show ?case using t(2) by auto
qed

text \<open>
  From a new front panel, whatever operations and timer expiries come before, setting a blink
  pattern with a repeat count that is not negative shows the pattern once and that many times more,
  each entry in order, and then the timer is no longer scheduled.
\<close>

theorem blink_sequence:
  assumes "getNumberParameterObject ps ''iterations'' = int m"
    "l = map (\<lambda>v. blink_info (svc2iarm (member_String ps ''ledIndicator'')) (json_members v)) (json_elements (member ps ''pattern''))"
    "l \<noteq> []"
  shows "\<exists>st before st' shown. fp_run ops (fp_initial, d) = Some (st, before)
    \<and> fp_run (FSetBlink ps # replicate ((m + 1) * length l) FTimer) st = Some (st', shown)
    \<and> shown = concat (replicate (m + 1) l) \<and> fp_timer (fst st') = None"
proof -
  have "fp_inv (fp_initial, d)" by (simp add: fp_inv_def fp_initial_def)
  then obtain c1 d1 before where b: "fp_run ops (fp_initial, d) = Some ((c1, d1), before)"
    using fp_run_inv by (metis prod.exhaust)
  obtain c2 d2 where s: "fp_step (FSetBlink ps) (c1, d1) = Some ((c2, d2), [hd l])" "blink_state c2 l (int m) (int 0) 0"
    using assms by (cases l) (auto simp: setBlink_def startBlinkTimer_def stopBlinkTimer_def blink_state_def Let_def)
  obtain c3 d3 where t: "fp_run (replicate ((m - 0 + 1) * length l) FTimer) (c2, d2) = Some ((c3, d3), tl l @ concat (replicate (m - 0) l))"
    "fp_timer c3 = None"
    using rounds_shown [OF s(2) assms(3), of d2] by auto
  have "[hd l] @ tl l @ concat (replicate m l) = concat (replicate (m + 1) l)" using assms(3) by (cases l) simp_all
  then have "fp_run (FSetBlink ps # replicate ((m + 1) * length l) FTimer) (c1, d1)
      = Some ((c3, d3), concat (replicate (m + 1) l))"
    using s(1) t(1) by (simp del: fp_step.simps)
  then show ?thesis using b t(2) by fastforce
qed

definition example_blink :: json_params where
  "example_blink = [(''ledIndicator'', JString ''power_led''), (''iterations'', JNumber 1),
     (''pattern'', JArray [JObject [(''brightness'', JNumber 20), (''duration'', JNumber 100)], JObject [(''brightness'', JNumber 0)]])]"

definition example_device :: fp_device where
  "example_device = \<lparr>dv_known = (\<lambda>n. n = ''Power''), dv_colors = (\<lambda>n. n = ''white''), dv_accepts = (\<lambda>b. b \<le> 100),
     dv_brightness = (\<lambda>_. 100), dv_on = (\<lambda>_. True), dv_color = (\<lambda>_. ColorName ''white'')\<rparr>"

theorem blink_sequence_witness:
  "\<exists>st before st' shown. fp_run [FStart (Some [''Power''])] (fp_initial, example_device) = Some (st, before)
    \<and> fp_run (FSetBlink example_blink # replicate 4 FTimer) st = Some (st', shown) \<and> length shown = 4 \<and> fp_timer (fst st') = None"
proof -
  let ?l = "map (\<lambda>v. blink_info (svc2iarm (member_String example_blink ''ledIndicator'')) (json_members v))
      (json_elements (member example_blink ''pattern''))"
  have l: "length ?l = 2" by (simp add: example_blink_def member_def)
  have "getNumberParameterObject example_blink ''iterations'' = int 1"
    by (simp add: example_blink_def getNumberParameterObject_def member_def to_int32_id c_int_def)
  from blink_sequence [OF this refl, of "[FStart (Some [''Power''])]" example_device] l obtain st before st' shown
    where "fp_run [FStart (Some [''Power''])] (fp_initial, example_device) = Some (st, before)"
      "fp_run (FSetBlink example_blink # replicate ((1 + 1) * length ?l) FTimer) st = Some (st', shown)"
      "shown = concat (replicate (1 + 1) ?l)" "fp_timer (fst st') = None"
    by fastforce
  moreover have "(1 + 1) * length ?l = 4" "length (concat (replicate (1 + 1) ?l)) = 4" using l by simp_all
  ultimately show ?thesis by metis
qed

text \<open>A colour that cannot be set is reported as success when the brightness can.\<close>

theorem led_color_failure_hidden:
  assumes "map_of ps ''color'' = Some (JString col)" "map_of ps ''brightness'' = None"
    "dv_known d (svc2iarm (member_String ps ''ledIndicator''))" "\<not> dv_colors d col"
    "dv_accepts d (dv_brightness d (svc2iarm (member_String ps ''ledIndicator'')))"
  shows "fst (setLED ps (c, d))"
  using assms by (simp add: setLED_def HasLabel_def member_String_def member_def dev_setColor_def dev_setBrightness_def Let_def)

end
