(* ===== verification/ServiceMode.thy ===== *)
theory ServiceMode imports ServiceHelpers ConfFiles begin

text \<open>
  The operating mode of SystemServices: the timer of \<open>SystemServices/cTimer.cpp\<close> and \<open>setMode\<close>,
  \<open>startModeTimer\<close>, \<open>stopModeTimer\<close>, \<open>updateDuration\<close> and the part of \<open>Initialize\<close> that restores
  the mode, in \<open>SystemServices/SystemServices.cpp\<close>.

  The timer is its flag, whether its \<open>std::thread\<close> object has a thread, and the number of timer
  threads that have not returned. A wake-up of a thread is a step; calls are steps too, between which
  the threads sleep. \<open>None\<close> is \<open>std::terminate\<close>: starting the timer while its thread object still has
  a thread, or an exception in the timer's thread. The settings file of the mode is that of
  \<open>ConfFiles\<close>; the result of the bus call that announces a mode is an argument. Every operation that
  changes a file (making the settings file, a write of the settings, \<open>fopen\<close> and \<open>unlink\<close> of the file
  of the warehouse mode) can be refused on its own: the state holds the outcomes of those to come. A
  write that is taken is taken as a whole.
\<close>

section \<open>The timer\<close>

record cTimer =
  tm_clear :: bool
  tm_interval :: int
  tm_callback :: bool
  tm_joinable :: bool
  tm_live :: nat

definition cTimer_ctor :: cTimer where
  "cTimer_ctor = \<lparr>tm_clear = False, tm_interval = 0, tm_callback = False, tm_joinable = False, tm_live = 0\<rparr>"

definition timer_setInterval :: "int \<Rightarrow> cTimer \<Rightarrow> cTimer" where
  "timer_setInterval val t = t\<lparr>tm_callback := True, tm_interval := val\<rparr>"

definition timer_start :: "cTimer \<Rightarrow> (bool \<times> cTimer) option" where
  "timer_start t =
     (if tm_interval t \<le> 0 \<and> \<not> tm_callback t then Some (False, t)
      else if tm_joinable t then None
      else Some (True, t\<lparr>tm_clear := False, tm_joinable := True, tm_live := Suc (tm_live t)\<rparr>))"

definition timer_stop :: "cTimer \<Rightarrow> cTimer" where
  "timer_stop t = t\<lparr>tm_clear := True\<rparr>"

definition timer_detach :: "cTimer \<Rightarrow> cTimer option" where
  "timer_detach t = (if tm_joinable t then Some (t\<lparr>tm_joinable := False\<rparr>) else None)"

definition timer_join :: "cTimer \<Rightarrow> cTimer" where
  "timer_join t = t\<lparr>tm_joinable := False\<rparr>"

section \<open>The mode\<close>

datatype IARM_SysMode = IARM_BUS_SYS_MODE_NORMAL | IARM_BUS_SYS_MODE_EAS | IARM_BUS_SYS_MODE_WAREHOUSE

definition MODE_NORMAL :: string where "MODE_NORMAL = ''NORMAL''"
definition MODE_EAS :: string where "MODE_EAS = ''EAS''"
definition MODE_WAREHOUSE :: string where "MODE_WAREHOUSE = ''WAREHOUSE''"
definition MODE_TIMER_UPDATE_INTERVAL :: int where "MODE_TIMER_UPDATE_INTERVAL = 1000"
definition SYSTEM_SERVICE_TEMP_FILE :: string where "SYSTEM_SERVICE_TEMP_FILE = ''/tmp/system_service_temp.conf''"
definition WAREHOUSE_MODE_FILE :: string where "WAREHOUSE_MODE_FILE = ''/opt/warehouse_mode_active''"

definition iarmModeToString :: "IARM_SysMode \<Rightarrow> string" where
  "iarmModeToString iarmMode =
     (if IARM_BUS_SYS_MODE_WAREHOUSE = iarmMode then MODE_WAREHOUSE
      else if IARM_BUS_SYS_MODE_EAS = iarmMode then MODE_EAS
      else MODE_NORMAL)"

definition stringToIarmMode :: "string \<Rightarrow> IARM_SysMode" where
  "stringToIarmMode mode =
     (if MODE_WAREHOUSE = mode then IARM_BUS_SYS_MODE_WAREHOUSE
      else if MODE_EAS = mode then IARM_BUS_SYS_MODE_EAS
      else IARM_BUS_SYS_MODE_NORMAL)"

text \<open>The statics of the class, and the files.\<close>

record mode_state =
  ms_currentMode :: string
  ms_remainingDuration :: int
  ms_timer :: cTimer
  ms_settings :: cSettings
  ms_files :: files
  ms_io :: "bool list"

text \<open>The next operation on a file: whether it is taken; those after the end of the list are.\<close>

definition next_io :: "bool list \<Rightarrow> bool \<times> bool list" where
  "next_io io = (case io of [] \<Rightarrow> (True, []) | b # bs \<Rightarrow> (b, bs))"

text \<open>The object has the new value whether the file can be written or not.\<close>

definition save_setting :: "string \<Rightarrow> json \<Rightarrow> mode_state \<Rightarrow> mode_state" where
  "save_setting key v s =
     (let (taken, io) = next_io (ms_io s)
      in if taken
         then (let (ok, c, F) = settings_setValue key v (ms_settings s) (ms_files s)
               in s\<lparr>ms_settings := c, ms_files := F, ms_io := io\<rparr>)
         else s\<lparr>ms_settings := settings_put key v (ms_settings s), ms_io := io\<rparr>)"

definition save_duration :: "mode_state \<Rightarrow> mode_state" where
  "save_duration s = save_setting ''mode_duration'' (JNumber (ms_remainingDuration s)) s"

definition startModeTimer :: "int \<Rightarrow> mode_state \<Rightarrow> mode_state option" where
  "startModeTimer duration s =
     (case timer_start (ms_timer s) of
        None \<Rightarrow> None
      | Some (started, t) \<Rightarrow> Some (save_duration (s\<lparr>ms_remainingDuration := duration, ms_timer := t\<rparr>)))"

definition stopModeTimer :: "mode_state \<Rightarrow> mode_state" where
  "stopModeTimer s = save_duration (s\<lparr>ms_remainingDuration := 0, ms_timer := timer_stop (ms_timer s)\<rparr>)"

text \<open>
  The file that says the device is in warehouse mode: opened for writing, or removed if it exists. If
  that is refused, the file stays as it is, which is only logged.
\<close>

definition warehouse_file :: "bool \<Rightarrow> string \<Rightarrow> files \<Rightarrow> files" where
  "warehouse_file taken mode F =
     (if MODE_WAREHOUSE = mode
      then (case F WAREHOUSE_MODE_FILE of
              Missing \<Rightarrow> if taken then F(WAREHOUSE_MODE_FILE := Regular []) else F
            | Regular _ \<Rightarrow> if taken then F(WAREHOUSE_MODE_FILE := Regular []) else F
            | _ \<Rightarrow> F)
      else if fileExists F WAREHOUSE_MODE_FILE
      then (if taken then F(WAREHOUSE_MODE_FILE := Missing) else F)
      else F)"

text \<open>What follows the choice of the mode: the call on the bus, whose result is \<open>ok\<close>, and the files.\<close>

definition change_mode :: "bool \<Rightarrow> mode_state \<Rightarrow> bool \<times> mode_state" where
  "change_mode ok s =
     (let s1 = (if ok then s else (stopModeTimer s)\<lparr>ms_currentMode := MODE_NORMAL\<rparr>);
          (taken, io) = next_io (ms_io s1);
          s2 = s1\<lparr>ms_files := warehouse_file taken (ms_currentMode s1) (ms_files s1), ms_io := io\<rparr>
      in (ok, save_duration (save_setting ''mode'' (JString (ms_currentMode s2)) s2)))"

text \<open>
  The result is whether it succeeds, the response, the mode announced on the bus with the old one, and
  the state.
\<close>

definition setMode ::
  "variant \<Rightarrow> bool \<Rightarrow> json_params \<Rightarrow> json_params \<Rightarrow> mode_state
     \<Rightarrow> (bool \<times> json_params \<times> (IARM_SysMode \<times> IARM_SysMode) list \<times> mode_state) option" where
  "setMode V ok parameters response s =
     (if \<not> HasLabel parameters ''modeInfo''
      then Some (False, populateResponseWithError SysSrv_MissingKeyValues response, [], s)
      else
        (let param = variant_Object V (member parameters ''modeInfo'')
         in if \<not> (HasLabel param ''duration'' \<and> HasLabel param ''mode'')
            then Some (False, populateResponseWithError SysSrv_MissingKeyValues response, [], s)
            else
              (let duration = to_int32 (variant_Number V (member param ''duration''));
                   newMode = member_String param ''mode'';
                   oldMode = ms_currentMode s
               in if newMode \<notin> {MODE_NORMAL, MODE_WAREHOUSE, MODE_EAS} then Some (False, response, [], s)
                  else if MODE_NORMAL = oldMode \<and> (duration = 0 \<or> MODE_NORMAL = newMode) then Some (True, response, [], s)
                  else
                    (let chosen = (if MODE_NORMAL \<noteq> newMode \<and> duration \<noteq> 0
                                   then (if duration < 0 then Some (stopModeTimer (s\<lparr>ms_currentMode := newMode\<rparr>))
                                         else startModeTimer duration (s\<lparr>ms_currentMode := newMode\<rparr>))
                                   else Some (stopModeTimer (s\<lparr>ms_currentMode := MODE_NORMAL\<rparr>)))
                     in (case chosen of
                           None \<Rightarrow> None
                         | Some s1 \<Rightarrow>
                             (let (result, s2) = change_mode ok s1
                              in Some (result, response, [(stringToIarmMode oldMode, stringToIarmMode (ms_currentMode s1))], s2)))))))"

definition mode_params :: "json \<Rightarrow> json \<Rightarrow> json_params" where
  "mode_params mode duration = [(''modeInfo'', JObject [(''mode'', mode), (''duration'', duration)])]"

text \<open>The timer's callback; an instance of the plugin exists.\<close>

definition updateDuration :: "variant \<Rightarrow> bool \<Rightarrow> mode_state \<Rightarrow> mode_state option" where
  "updateDuration V ok s =
     (case (if ms_remainingDuration s > 0 then Some (s\<lparr>ms_remainingDuration := ms_remainingDuration s - 1\<rparr>)
            else (case timer_detach (timer_stop (ms_timer s)) of
                    None \<Rightarrow> None
                  | Some t \<Rightarrow> map_option (\<lambda>(r, resp, calls, s1). s1)
                      (setMode V ok (mode_params (JString ''NORMAL'') (JNumber 0)) [] (s\<lparr>ms_timer := t\<rparr>)))) of
        None \<Rightarrow> None
      | Some s1 \<Rightarrow> Some (save_duration s1))"

text \<open>
  A timer thread wakes up: it returns if the timer is cleared; otherwise it calls back and returns if
  the timer is cleared then.
\<close>

definition thread_returns :: "mode_state \<Rightarrow> mode_state" where
  "thread_returns s = s\<lparr>ms_timer := (ms_timer s)\<lparr>tm_live := tm_live (ms_timer s) - 1\<rparr>\<rparr>"

definition timerFunction_wake :: "variant \<Rightarrow> bool \<Rightarrow> mode_state \<Rightarrow> mode_state option" where
  "timerFunction_wake V ok s =
     (if tm_live (ms_timer s) = 0 then Some s
      else if tm_clear (ms_timer s) then Some (thread_returns s)
      else map_option (\<lambda>s1. if tm_clear (ms_timer s1) then thread_returns s1 else s1) (updateDuration V ok s))"

text \<open>
  The part of \<open>Initialize\<close> about the mode, in a new process: its statics, the settings from the file,
  and the mode of the last process. A setting that is not there is an empty value.
\<close>

definition mode_Initialize :: "variant \<Rightarrow> bool \<Rightarrow> mode_state \<Rightarrow> mode_state option" where
  "mode_Initialize V ok s0 =
     (let s = s0\<lparr>ms_timer := timer_setInterval MODE_TIMER_UPDATE_INTERVAL (ms_timer s0)\<rparr>
      in if \<not> settings_contains (ms_settings s) ''mode'' \<and> ms_currentMode s = []
         then map_option (\<lambda>(r, resp, calls, s1). s1) (setMode V ok (mode_params (JString MODE_NORMAL) (JNumber (-1))) [] s)
         else if ms_currentMode s = []
         then map_option (\<lambda>(r, resp, calls, s1). s1)
           (setMode V ok (mode_params (case settings_getValue (ms_settings s) ''mode'' of Some v \<Rightarrow> v | None \<Rightarrow> JNull)
              (case settings_getValue (ms_settings s) ''mode_duration'' of Some v \<Rightarrow> v | None \<Rightarrow> JNull)) [] s)
         else Some s)"

definition mode_process :: "bool list \<Rightarrow> files \<Rightarrow> mode_state" where
  "mode_process outcomes F =
     (let (taken, io) = next_io outcomes;
          (c, F1) = cSettings_ctor taken SYSTEM_SERVICE_TEMP_FILE F
      in \<lparr>ms_currentMode = [], ms_remainingDuration = 0, ms_timer = cTimer_ctor, ms_settings = c, ms_files = F1, ms_io = io\<rparr>)"

text \<open>The plugin is deactivated, which stops the timer, and activated again in the same process.\<close>

definition mode_Deinitialize :: "mode_state \<Rightarrow> mode_state" where
  "mode_Deinitialize s = s\<lparr>ms_timer := timer_stop (ms_timer s)\<rparr>"

section \<open>Runs\<close>

text \<open>
  A step has the answers of its environment: the result of the bus call, should one be made, and the
  outcomes of its operations on files. \<open>NewProcess\<close> starts the process again on the files of the last
  one.
\<close>

type_synonym answers = "bool \<times> bool list"

datatype mode_op = SetMode answers json_params | TimerWake answers | Reactivate answers | NewProcess answers

fun mode_step :: "variant \<Rightarrow> mode_op \<Rightarrow> mode_state \<Rightarrow> mode_state option" where
  "mode_step V (SetMode a ps) s = map_option (\<lambda>(r, resp, calls, s1). s1) (setMode V (fst a) ps [] (s\<lparr>ms_io := snd a\<rparr>))"
| "mode_step V (TimerWake a) s = timerFunction_wake V (fst a) (s\<lparr>ms_io := snd a\<rparr>)"
| "mode_step V (Reactivate a) s = mode_Initialize V (fst a) (mode_Deinitialize (s\<lparr>ms_io := snd a\<rparr>))"
| "mode_step V (NewProcess a) s = mode_Initialize V (fst a) (mode_process (snd a) (ms_files s))"

fun mode_run :: "variant \<Rightarrow> mode_op list \<Rightarrow> mode_state \<Rightarrow> mode_state option" where
  "mode_run V [] s = Some s"
| "mode_run V (op # ops) s = Option.bind (mode_step V op s) (mode_run V ops)"

section \<open>The settings\<close>

definition modes :: "string set" where "modes = {MODE_NORMAL, MODE_WAREHOUSE, MODE_EAS}"

definition setting :: "string \<Rightarrow> mode_state \<Rightarrow> string option" where
  "setting k s = abs_settings (ms_settings s) k"

text \<open>What a new process reads: the settings file is missing, or holds what an earlier call wrote.\<close>

definition read_back :: "files \<Rightarrow> string \<Rightarrow> string option" where
  "read_back F = abs_settings (fst (cSettings_ctor False SYSTEM_SERVICE_TEMP_FILE F))"

definition mode_file_ok :: "files \<Rightarrow> bool" where
  "mode_file_ok F = ((F SYSTEM_SERVICE_TEMP_FILE = Missing \<or> (\<exists>x. F SYSTEM_SERVICE_TEMP_FILE = Regular x))
     \<and> (\<forall>m. read_back F ''mode'' = Some m \<longrightarrow> m \<in> modes))"

definition kept :: "mode_state \<Rightarrow> bool" where
  "kept s = (settings_ok (ms_settings s) \<and> cs_filename (ms_settings s) = SYSTEM_SERVICE_TEMP_FILE
     \<and> (\<forall>m. setting ''mode'' s = Some m \<longrightarrow> m \<in> modes) \<and> mode_file_ok (ms_files s))"

text \<open>The file has the settings of the object; the operations to come are taken.\<close>

definition stored :: "mode_state \<Rightarrow> bool" where
  "stored s = (read_back (ms_files s) = abs_settings (ms_settings s))"

definition taken_all :: "mode_state \<Rightarrow> bool" where
  "taken_all s = (False \<notin> set (ms_io s))"

definition file_there :: "mode_state \<Rightarrow> bool" where
  "file_there s = (ms_files s SYSTEM_SERVICE_TEMP_FILE \<noteq> Missing)"

lemma files_differ [simp]: "WAREHOUSE_MODE_FILE \<noteq> SYSTEM_SERVICE_TEMP_FILE" "SYSTEM_SERVICE_TEMP_FILE \<noteq> WAREHOUSE_MODE_FILE"
  by (simp_all add: WAREHOUSE_MODE_FILE_def SYSTEM_SERVICE_TEMP_FILE_def)

lemma next_io_taken: "False \<notin> set io \<Longrightarrow> next_io io = (True, tl io)"
  by (auto simp: next_io_def split: list.split)

lemma tl_taken: "False \<notin> set io \<Longrightarrow> False \<notin> set (tl io)"
  by (cases io) auto

lemma writeToFile_other: "settings_writeToFile c F = (ok, F') \<Longrightarrow> p \<noteq> cs_filename c \<Longrightarrow> F' p = F p"
  by (auto simp: settings_writeToFile_def split: file_st.splits)

lemma ctor_same: "fst (cSettings_ctor any f F) = fst (cSettings_ctor any' f F')" if "F f = F' f" for any f and F F' :: files
  using that by (simp add: cSettings_ctor_def settings_readFromFile_def open_read_def split: option.split)

lemma read_back_cong: "F SYSTEM_SERVICE_TEMP_FILE = F' SYSTEM_SERVICE_TEMP_FILE \<Longrightarrow> read_back F = read_back F'"
  unfolding read_back_def using ctor_same by metis

lemma read_back_any: "abs_settings (fst (cSettings_ctor any SYSTEM_SERVICE_TEMP_FILE F)) = read_back F"
  unfolding read_back_def using ctor_same by metis

lemma setting_put: "abs_settings (settings_put k v c) j = (if j = k then text_of (Some v) else abs_settings c j)"
  by (auto simp: abs_settings_def settings_put_def settings_getValue_def update_conv' text_of_def)

lemma save_setting_effect:
  assumes "kept s"
  shows "ms_settings (save_setting k v s) = settings_put k v (ms_settings s)"
    "ms_files (save_setting k v s) WAREHOUSE_MODE_FILE = ms_files s WAREHOUSE_MODE_FILE"
    "file_there (save_setting k v s) = file_there s"
    "taken_all s \<Longrightarrow> taken_all (save_setting k v s)"
    "ms_files (save_setting k v s) = ms_files s
       \<or> settings_writeToFile (settings_put k v (ms_settings s)) (ms_files s) = (True, ms_files (save_setting k v s))"
    "taken_all s \<Longrightarrow> file_there s \<Longrightarrow>
       settings_writeToFile (settings_put k v (ms_settings s)) (ms_files s) = (True, ms_files (save_setting k v s))"
proof -
  let ?c = "settings_put k v (ms_settings s)"
  have f: "cs_filename ?c = SYSTEM_SERVICE_TEMP_FILE" using assms by (simp add: kept_def settings_put_def)
  have opened: "ms_files s SYSTEM_SERVICE_TEMP_FILE = Missing \<or> (\<exists>x. ms_files s SYSTEM_SERVICE_TEMP_FILE = Regular x)"
    using assms by (simp add: kept_def mode_file_ok_def)
  obtain taken io where io: "next_io (ms_io s) = (taken, io)" by (rule prod.exhaust)
  obtain ok F where w: "settings_writeToFile ?c (ms_files s) = (ok, F)" by (rule prod.exhaust)
  have s: "save_setting k v s = s\<lparr>ms_settings := ?c, ms_files := (if taken then F else ms_files s), ms_io := io\<rparr>"
    using io w by (simp add: save_setting_def settings_setValue_def)
  show "ms_settings (save_setting k v s) = ?c" by (simp add: s)
  show "ms_files (save_setting k v s) WAREHOUSE_MODE_FILE = ms_files s WAREHOUSE_MODE_FILE"
    using writeToFile_other [OF w, of WAREHOUSE_MODE_FILE] f by (simp add: s)
  show "file_there (save_setting k v s) = file_there s"
    using w f by (auto simp: s file_there_def settings_writeToFile_def split: file_st.splits)
  show "taken_all s \<Longrightarrow> taken_all (save_setting k v s)"
    using io next_io_taken [of "ms_io s"] tl_taken [of "ms_io s"] by (simp add: s taken_all_def)
  show "ms_files (save_setting k v s) = ms_files s
       \<or> settings_writeToFile ?c (ms_files s) = (True, ms_files (save_setting k v s))"
    using w f opened by (auto simp: s settings_writeToFile_def)
  show "taken_all s \<Longrightarrow> file_there s \<Longrightarrow> settings_writeToFile ?c (ms_files s) = (True, ms_files (save_setting k v s))"
    using w f opened io next_io_taken [of "ms_io s"] by (auto simp: s taken_all_def file_there_def settings_writeToFile_def)
qed

lemma written_back:
  assumes "settings_ok c" "cs_filename c = SYSTEM_SERVICE_TEMP_FILE" "settings_writeToFile c F = (True, F')"
  shows "read_back F' = abs_settings c" "\<exists>x. F' SYSTEM_SERVICE_TEMP_FILE = Regular x"
  using restart_reads(2) [OF assms(1,3)] assms(2,3)
  by (auto simp: read_back_def abs_settings_def settings_writeToFile_def split: file_st.splits)

lemma save_setting_kept:
  assumes "kept s" "plain_setting k v" "k = ''mode'' \<Longrightarrow> json_String v \<in> modes"
  shows "kept (save_setting k v s)"
    "setting j (save_setting k v s) = (if j = k then text_of (Some v) else setting j s)"
    "taken_all s \<Longrightarrow> file_there s \<Longrightarrow> stored (save_setting k v s)"
proof -
  let ?s = "save_setting k v s" and ?c = "settings_put k v (ms_settings s)"
  note e = save_setting_effect [OF assms(1), of k v]
  show reads: "setting j ?s = (if j = k then text_of (Some v) else setting j s)" for j
    by (simp add: setting_def e(1) setting_put)
  have c: "settings_ok ?c" "cs_filename ?c = SYSTEM_SERVICE_TEMP_FILE"
    using assms(1) settings_ok_put [OF _ assms(2)] by (simp_all add: kept_def settings_put_def)
  note wb = written_back [OF c]
  have mode: "\<forall>m. setting ''mode'' ?s = Some m \<longrightarrow> m \<in> modes"
    using assms(1,3) reads by (auto simp: kept_def text_of_def split: if_splits)
  have "mode_file_ok (ms_files ?s)"
    using e(5)
  proof
    assume "ms_files ?s = ms_files s"
    then show ?thesis using assms(1) by (simp add: kept_def)
  next
    assume w: "settings_writeToFile ?c (ms_files s) = (True, ms_files ?s)"
    show ?thesis using wb [OF w] mode e(1) by (simp add: mode_file_ok_def setting_def)
  qed
  then show "kept ?s" using c mode e(1) by (simp add: kept_def)
  show "taken_all s \<Longrightarrow> file_there s \<Longrightarrow> stored ?s" using wb(1) [OF e(6)] e(1) by (simp add: stored_def)
qed

lemma save_setting_fields [simp]:
  "ms_currentMode (save_setting k v s) = ms_currentMode s" "ms_remainingDuration (save_setting k v s) = ms_remainingDuration s"
  "ms_timer (save_setting k v s) = ms_timer s"
  by (simp_all add: save_setting_def Let_def split: prod.split)

lemma plain_number: "plain_setting ''mode_duration'' (JNumber n)"
proof -
  have "c_isdigit c \<Longrightarrow> c \<noteq> CHR 0x0A \<and> c \<noteq> CHR ''=''" for c by (auto simp: c_isdigit_def ascii_def)
  then have "CHR 0x0A \<notin> set (nat_to_string k) \<and> CHR ''='' \<notin> set (nat_to_string k)" for k
    using nat_to_string_digits by blast
  then show ?thesis by (simp add: plain_setting_def to_string_int_def)
qed

lemma to_string_int_nonempty [simp]: "to_string_int n \<noteq> []"
  using nat_to_string_digits by (simp add: to_string_int_def)

lemma save_duration_kept:
  assumes "kept s"
  shows "kept (save_duration s)" "setting ''mode_duration'' (save_duration s) = Some (to_string_int (ms_remainingDuration s))"
    "setting ''mode'' (save_duration s) = setting ''mode'' s"
    "ms_files (save_duration s) WAREHOUSE_MODE_FILE = ms_files s WAREHOUSE_MODE_FILE"
    "file_there (save_duration s) = file_there s" "taken_all s \<Longrightarrow> taken_all (save_duration s)"
    "taken_all s \<Longrightarrow> file_there s \<Longrightarrow> stored (save_duration s)"
  using save_setting_kept [OF assms plain_number] save_setting_effect [OF assms]
  by (simp_all add: save_duration_def text_of_def)

lemma save_duration_fields [simp]:
  "ms_currentMode (save_duration s) = ms_currentMode s" "ms_remainingDuration (save_duration s) = ms_remainingDuration s"
  "ms_timer (save_duration s) = ms_timer s"
  by (simp_all add: save_duration_def)

lemma kept_cong:
  "kept s \<Longrightarrow> ms_settings s' = ms_settings s \<Longrightarrow> ms_files s' SYSTEM_SERVICE_TEMP_FILE = ms_files s SYSTEM_SERVICE_TEMP_FILE
   \<Longrightarrow> kept s'"
  using read_back_cong [of "ms_files s'" "ms_files s"] by (simp add: kept_def setting_def mode_file_ok_def)

lemma kept_fields [simp]:
  "kept (s\<lparr>ms_currentMode := m\<rparr>) = kept s" "kept (s\<lparr>ms_remainingDuration := n\<rparr>) = kept s"
  "kept (s\<lparr>ms_timer := t\<rparr>) = kept s" "kept (s\<lparr>ms_io := io\<rparr>) = kept s"
  "setting k (s\<lparr>ms_currentMode := m\<rparr>) = setting k s" "setting k (s\<lparr>ms_remainingDuration := n\<rparr>) = setting k s"
  "setting k (s\<lparr>ms_timer := t\<rparr>) = setting k s" "setting k (s\<lparr>ms_files := F\<rparr>) = setting k s" "setting k (s\<lparr>ms_io := io\<rparr>) = setting k s"
  "taken_all (s\<lparr>ms_currentMode := m\<rparr>) = taken_all s" "taken_all (s\<lparr>ms_remainingDuration := n\<rparr>) = taken_all s"
  "taken_all (s\<lparr>ms_timer := t\<rparr>) = taken_all s" "taken_all (s\<lparr>ms_files := F\<rparr>) = taken_all s"
  "file_there (s\<lparr>ms_currentMode := m\<rparr>) = file_there s" "file_there (s\<lparr>ms_remainingDuration := n\<rparr>) = file_there s"
  "file_there (s\<lparr>ms_timer := t\<rparr>) = file_there s" "file_there (s\<lparr>ms_io := io\<rparr>) = file_there s"
  by (simp_all add: kept_def setting_def taken_all_def file_there_def)

section \<open>What a change of the mode does\<close>

text \<open>
  A state between calls: the object of the settings holds the mode and the duration, the timer runs in
  a mode that is not normal only, and its thread is the one of its thread object.
\<close>

definition mode_stored :: "mode_state \<Rightarrow> bool" where
  "mode_stored s = (ms_currentMode s \<in> modes \<and> kept s
     \<and> setting ''mode'' s = Some (ms_currentMode s)
     \<and> setting ''mode_duration'' s = Some (to_string_int (ms_remainingDuration s)))"

text \<open>What is on the disk agrees with the mode.\<close>

definition disk_agrees :: "mode_state \<Rightarrow> bool" where
  "disk_agrees s = (read_back (ms_files s) ''mode'' = Some (ms_currentMode s)
     \<and> read_back (ms_files s) ''mode_duration'' = Some (to_string_int (ms_remainingDuration s))
     \<and> (fileExists (ms_files s) WAREHOUSE_MODE_FILE \<longleftrightarrow> ms_currentMode s = MODE_WAREHOUSE))"

definition timer_ok :: "mode_state \<Rightarrow> bool" where
  "timer_ok s = (0 \<le> ms_remainingDuration s \<and> c_int (ms_remainingDuration s) \<and> tm_callback (ms_timer s) \<and> tm_live (ms_timer s) \<le> 1
     \<and> (ms_currentMode s = MODE_NORMAL \<longrightarrow> ms_remainingDuration s = 0 \<and> tm_clear (ms_timer s))
     \<and> (\<not> tm_clear (ms_timer s) \<longrightarrow> tm_live (ms_timer s) = 1)
     \<and> (tm_live (ms_timer s) = 1 \<longrightarrow> tm_joinable (ms_timer s)))"

definition mode_inv :: "mode_state \<Rightarrow> bool" where
  "mode_inv s = (mode_stored s \<and> timer_ok s)"

lemma mode_names [simp]:
  "MODE_NORMAL \<noteq> MODE_WAREHOUSE" "MODE_WAREHOUSE \<noteq> MODE_NORMAL" "MODE_NORMAL \<noteq> MODE_EAS" "MODE_EAS \<noteq> MODE_NORMAL"
  "MODE_EAS \<noteq> MODE_WAREHOUSE" "MODE_WAREHOUSE \<noteq> MODE_EAS" "MODE_NORMAL \<noteq> []" "MODE_EAS \<noteq> []" "MODE_WAREHOUSE \<noteq> []"
  by (simp_all add: MODE_NORMAL_def MODE_WAREHOUSE_def MODE_EAS_def)

lemma plain_mode: "m \<in> modes \<Longrightarrow> plain_setting ''mode'' (JString m)"
  by (auto simp: modes_def MODE_NORMAL_def MODE_WAREHOUSE_def MODE_EAS_def plain_setting_def)

lemma modes_nonempty: "m \<in> modes \<Longrightarrow> m \<noteq> []"
  by (auto simp: modes_def MODE_NORMAL_def MODE_WAREHOUSE_def MODE_EAS_def)

lemma stopModeTimer_facts:
  "kept s \<Longrightarrow> kept (stopModeTimer s)"
  "ms_currentMode (stopModeTimer s) = ms_currentMode s" "ms_remainingDuration (stopModeTimer s) = 0"
  "ms_timer (stopModeTimer s) = (ms_timer s)\<lparr>tm_clear := True\<rparr>"
  "kept s \<Longrightarrow> taken_all s \<Longrightarrow> taken_all (stopModeTimer s)" "kept s \<Longrightarrow> file_there (stopModeTimer s) = file_there s"
  using save_duration_kept [of "s\<lparr>ms_remainingDuration := 0, ms_timer := timer_stop (ms_timer s)\<rparr>"]
  by (simp_all add: stopModeTimer_def timer_stop_def)

lemma warehouse_file_facts:
  "fileExists (warehouse_file True m F) WAREHOUSE_MODE_FILE \<longleftrightarrow> m = MODE_WAREHOUSE"
  "warehouse_file taken m F SYSTEM_SERVICE_TEMP_FILE = F SYSTEM_SERVICE_TEMP_FILE"
  by (auto simp: warehouse_file_def fileExists_def split: file_st.split)

lemma change_mode_facts:
  assumes "kept s" "ms_currentMode s \<in> modes" "change_mode ok s = (r, s')"
  shows "mode_stored s' \<and> r = ok \<and> (ok \<longrightarrow> ms_currentMode s' = ms_currentMode s
      \<and> ms_remainingDuration s' = ms_remainingDuration s \<and> ms_timer s' = ms_timer s)
    \<and> (\<not> ok \<longrightarrow> ms_currentMode s' = MODE_NORMAL \<and> ms_remainingDuration s' = 0 \<and> ms_timer s' = (ms_timer s)\<lparr>tm_clear := True\<rparr>)
    \<and> (taken_all s \<longrightarrow> file_there s \<longrightarrow> disk_agrees s' \<and> taken_all s' \<and> file_there s')"
proof -
  define s1 where "s1 = (if ok then s else (stopModeTimer s)\<lparr>ms_currentMode := MODE_NORMAL\<rparr>)"
  obtain taken io where io: "next_io (ms_io s1) = (taken, io)" by (rule prod.exhaust)
  define s2 where "s2 = s1\<lparr>ms_files := warehouse_file taken (ms_currentMode s1) (ms_files s1), ms_io := io\<rparr>"
  define s3 where "s3 = save_setting ''mode'' (JString (ms_currentMode s2)) s2"
  have s': "s' = save_duration s3" "r = ok"
    using assms(3) io by (auto simp: change_mode_def s1_def [symmetric] s2_def s3_def Let_def)
  have 1: "kept s1" "ms_currentMode s1 \<in> modes" "taken_all s \<longrightarrow> taken_all s1" "file_there s1 = file_there s"
    using assms(1,2) stopModeTimer_facts [of s] by (auto simp: s1_def modes_def)
  have 2: "kept s2" "ms_currentMode s2 \<in> modes" "file_there s2 = file_there s"
    using kept_cong [OF 1(1), of s2] warehouse_file_facts(2) 1(2,4) by (auto simp: s2_def file_there_def)
  have taken2: "taken_all s2" "fileExists (ms_files s2) WAREHOUSE_MODE_FILE \<longleftrightarrow> ms_currentMode s2 = MODE_WAREHOUSE" if "taken_all s"
    using io that 1(3) next_io_taken [of "ms_io s1"] tl_taken [of "ms_io s1"] warehouse_file_facts(1)
    by (auto simp: s2_def taken_all_def)
  note 3 = save_setting_kept [OF 2(1) plain_mode [OF 2(2)], folded s3_def]
    save_setting_effect [OF 2(1), of "''mode''" "JString (ms_currentMode s2)", folded s3_def]
  have k3: "kept s3" using 3(1) 2(2) by simp
  have 4: "setting ''mode'' s3 = Some (ms_currentMode s2)"
    using 3(2) [of "''mode''"] modes_nonempty [OF 2(2)] 2(2) by (simp add: text_of_def)
  note 5 = save_duration_kept [OF k3]
  have fields: "ms_currentMode s3 = ms_currentMode s1" "ms_remainingDuration s3 = ms_remainingDuration s1" "ms_timer s3 = ms_timer s1"
    "ms_currentMode s2 = ms_currentMode s1"
    by (simp_all add: s3_def s2_def)
  have stored: "mode_stored s'" using 1(2) 4 5(1-3) fields by (simp add: mode_stored_def s')
  have "disk_agrees s' \<and> taken_all s' \<and> file_there s'" if "taken_all s" "file_there s"
  proof -
    have t3: "taken_all s3" "file_there s3" using 3(6,7) 2(3) taken2(1) that by simp_all
    then have "read_back (ms_files s') = abs_settings (ms_settings s')" using 5(7) by (simp add: stored_def s')
    then have "disk_agrees s'"
      using stored 5(4) 3(5) taken2(2) [OF that(1)] fields by (simp add: disk_agrees_def mode_stored_def setting_def fileExists_def s')
    then show ?thesis using 5(5,6) t3 s' by simp
  qed
  then show ?thesis using stored s' fields stopModeTimer_facts [of s] by (simp add: s1_def)
qed

lemma change_mode_inv:
  assumes "kept s" "timer_ok s" "ms_currentMode s \<in> modes" "change_mode ok s = (r, s')"
  shows "mode_inv s'"
  using change_mode_facts [OF assms(1,3,4)] assms(2) by (cases ok) (auto simp: mode_inv_def timer_ok_def c_int_def [of 0])

definition timed :: "variant \<Rightarrow> json_params \<Rightarrow> string \<Rightarrow> int \<Rightarrow> bool" where
  "timed V ps m d =
     (HasLabel ps ''modeInfo''
      \<and> (let param = variant_Object V (member ps ''modeInfo'')
         in HasLabel param ''duration'' \<and> HasLabel param ''mode'' \<and> member_String param ''mode'' = m
          \<and> to_int32 (variant_Number V (member param ''duration'')) = d))"

lemma timed_range: "timed V ps m d \<Longrightarrow> c_int d"
  by (auto simp: timed_def Let_def c_int_to_int32)

lemma c_int_down: "c_int n \<Longrightarrow> 0 < n \<Longrightarrow> c_int (n - 1)" "c_int 0"
  by (simp_all add: c_int_def)

text \<open>The outcomes of a call: nothing changes, or the mode is chosen and announced.\<close>

lemma setMode_cases:
  assumes "setMode V ok ps resp s = Some (r, resp', calls, s')"
  obtains (unchanged) "s' = s" "calls = []"
  | (timed) m d where "timed V ps m d" "m \<in> modes" "m \<noteq> MODE_NORMAL" "d > 0"
      "\<exists>s1. startModeTimer d (s\<lparr>ms_currentMode := m\<rparr>) = Some s1 \<and> change_mode ok s1 = (r, s')"
  | (untimed) m d where "timed V ps m d" "m \<in> modes" "m \<noteq> MODE_NORMAL" "d < 0"
      "change_mode ok (stopModeTimer (s\<lparr>ms_currentMode := m\<rparr>)) = (r, s')"
  | (normal) m d where "timed V ps m d" "m = MODE_NORMAL \<or> d = 0"
      "change_mode ok (stopModeTimer (s\<lparr>ms_currentMode := MODE_NORMAL\<rparr>)) = (r, s')"
proof (cases "timed V ps (member_String (variant_Object V (member ps ''modeInfo'')) ''mode'')
    (to_int32 (variant_Number V (member (variant_Object V (member ps ''modeInfo'')) ''duration'')))")
  case False
  then show ?thesis using assms unchanged by (auto simp: setMode_def timed_def Let_def split: if_splits)
next
  case True
  let ?p = "variant_Object V (member ps ''modeInfo'')"
  let ?m = "member_String ?p ''mode''" and ?d = "to_int32 (variant_Number V (member ?p ''duration''))"
  have labels: "HasLabel ps ''modeInfo''" "HasLabel ?p ''duration''" "HasLabel ?p ''mode''"
    using True by (simp_all add: timed_def Let_def)
  show ?thesis
  proof (cases "?m \<in> modes \<and> \<not> (MODE_NORMAL = ms_currentMode s \<and> (?d = 0 \<or> MODE_NORMAL = ?m))")
    case False
    then show ?thesis using assms labels unchanged by (auto simp: setMode_def Let_def modes_def split: if_splits)
  next
    case go: True
    then have m: "?m \<in> modes" by blast
    define chosen where "chosen = (if MODE_NORMAL \<noteq> ?m \<and> ?d \<noteq> 0
        then (if ?d < 0 then Some (stopModeTimer (s\<lparr>ms_currentMode := ?m\<rparr>)) else startModeTimer ?d (s\<lparr>ms_currentMode := ?m\<rparr>))
        else Some (stopModeTimer (s\<lparr>ms_currentMode := MODE_NORMAL\<rparr>)))"
    obtain s1 where s1: "chosen = Some s1" "change_mode ok s1 = (r, s')"
      using assms labels go
      by (auto simp: setMode_def Let_def modes_def chosen_def split: option.splits prod.splits if_splits)
    consider "MODE_NORMAL \<noteq> ?m" "?d > 0" | "MODE_NORMAL \<noteq> ?m" "?d < 0" | "MODE_NORMAL = ?m \<or> ?d = 0" by linarith
    then show ?thesis
    proof cases
      case 1
      then show ?thesis using timed [OF True m] s1 by (auto simp: chosen_def)
    next
      case 2
      then show ?thesis using untimed [OF True m] s1 by (auto simp: chosen_def)
    next
      case 3
      then show ?thesis using normal [OF True] s1 by (auto simp: chosen_def)
    qed
  qed
qed

lemma startModeTimer_facts:
  assumes "startModeTimer d s = Some s'" "kept s" "tm_callback (ms_timer s)"
  shows "kept s'" "ms_currentMode s' = ms_currentMode s" "ms_remainingDuration s' = d" "\<not> tm_joinable (ms_timer s)"
    "ms_timer s' = (ms_timer s)\<lparr>tm_clear := False, tm_joinable := True, tm_live := Suc (tm_live (ms_timer s))\<rparr>"
    "taken_all s \<Longrightarrow> taken_all s'" "file_there s' = file_there s"
  using assms save_duration_kept(1,5,6) [of "s\<lparr>ms_remainingDuration := d, ms_timer := (ms_timer s)
      \<lparr>tm_clear := False, tm_joinable := True, tm_live := Suc (tm_live (ms_timer s))\<rparr>\<rparr>"]
  by (auto simp: startModeTimer_def timer_start_def split: if_splits)

lemma setMode_inv:
  assumes "setMode V ok ps resp s = Some (r, resp', calls, s')" "kept s" "tm_callback (ms_timer s)"
    "tm_live (ms_timer s) \<le> 1" "tm_live (ms_timer s) = 1 \<longrightarrow> tm_joinable (ms_timer s)" "s' \<noteq> s"
  shows "mode_inv s'"
  using assms(1)
proof (cases rule: setMode_cases)
  case unchanged
  then show ?thesis using assms(6) by simp
next
  case (timed m d)
  then obtain s1 where s1: "startModeTimer d (s\<lparr>ms_currentMode := m\<rparr>) = Some s1" "change_mode ok s1 = (r, s')" by blast
  note f = startModeTimer_facts [OF s1(1)]
  have "kept s1" "ms_currentMode s1 = m" "ms_remainingDuration s1 = d" "tm_live (ms_timer s) = 0"
    "ms_timer s1 = (ms_timer s)\<lparr>tm_clear := False, tm_joinable := True, tm_live := Suc (tm_live (ms_timer s))\<rparr>"
    using f assms(2-5) by auto
  then show ?thesis using change_mode_inv [OF _ _ _ s1(2)] timed timed_range [OF timed(1)] assms(3) by (auto simp: timer_ok_def)
next
  case (untimed m d)
  then show ?thesis
    using change_mode_inv [OF _ _ _ untimed(5)] stopModeTimer_facts [of "s\<lparr>ms_currentMode := m\<rparr>"] assms(2-5)
    by (auto simp: timer_ok_def c_int_down)
next
  case (normal m d)
  then show ?thesis
    using change_mode_inv [OF _ _ _ normal(3)] stopModeTimer_facts [of "s\<lparr>ms_currentMode := MODE_NORMAL\<rparr>"] assms(2-5)
    by (auto simp: timer_ok_def modes_def c_int_down)
qed

section \<open>Steps\<close>

lemma mode_inv_io [simp]: "mode_inv (s\<lparr>ms_io := io\<rparr>) = mode_inv s"
  by (simp add: mode_inv_def mode_stored_def timer_ok_def)

text \<open>What a wake-up does.\<close>

lemma wake_cases:
  assumes "mode_inv s" "timerFunction_wake V ok s = Some s'"
  obtains (idle) "s' = s"
  | (returned) "tm_live (ms_timer s) = 1" "tm_clear (ms_timer s)" "s' = thread_returns s"
  | (counted) "tm_live (ms_timer s) = 1" "\<not> tm_clear (ms_timer s)" "ms_remainingDuration s > 0"
      "s' = save_duration (s\<lparr>ms_remainingDuration := ms_remainingDuration s - 1\<rparr>)"
  | (expired) s0 r s2 where "tm_live (ms_timer s) = 1" "\<not> tm_clear (ms_timer s)"
      "s0 = s\<lparr>ms_timer := (ms_timer s)\<lparr>tm_clear := True, tm_joinable := False\<rparr>, ms_currentMode := MODE_NORMAL\<rparr>"
      "change_mode ok (stopModeTimer s0) = (r, s2)" "s' = thread_returns (save_duration s2)"
      "ms_timer s2 = (ms_timer s)\<lparr>tm_clear := True, tm_joinable := False\<rparr>"
      "ms_currentMode s2 = MODE_NORMAL" "ms_remainingDuration s2 = 0" "mode_stored s2"
      "taken_all s \<Longrightarrow> file_there s \<Longrightarrow> disk_agrees s2 \<and> taken_all s2 \<and> file_there s2"
proof -
  let ?t = "ms_timer s"
  have st: "kept s" "timer_ok s" using assms(1) by (simp_all add: mode_inv_def mode_stored_def)
  consider "tm_live ?t = 0" | "tm_live ?t = 1" "tm_clear ?t" | "tm_live ?t = 1" "\<not> tm_clear ?t"
    using st(2) by (auto simp: timer_ok_def le_Suc_eq)
  then show thesis
  proof cases
    case 1
    then show thesis using idle assms(2) by (simp add: timerFunction_wake_def)
  next
    case 2
    then show thesis using returned assms(2) by (simp add: timerFunction_wake_def)
  next
    case 3
    then obtain s1 where u: "updateDuration V ok s = Some s1" "s' = (if tm_clear (ms_timer s1) then thread_returns s1 else s1)"
      using assms(2) by (auto simp: timerFunction_wake_def)
    have join: "tm_joinable ?t" "ms_currentMode s \<noteq> MODE_NORMAL" using st(2) 3 by (auto simp: timer_ok_def)
    show thesis
    proof (cases "ms_remainingDuration s > 0")
      case True
      then show thesis using counted [OF 3 True] u 3 by (auto simp: updateDuration_def)
    next
      case False
      define s0 where "s0 = s\<lparr>ms_timer := ?t\<lparr>tm_clear := True, tm_joinable := False\<rparr>\<rparr>"
      have "timer_detach (timer_stop ?t) = Some (?t\<lparr>tm_clear := True, tm_joinable := False\<rparr>)"
        using join by (simp add: timer_detach_def timer_stop_def)
      then obtain r resp calls s2 where s2: "setMode V ok (mode_params (JString ''NORMAL'') (JNumber 0)) [] s0 = Some (r, resp, calls, s2)"
        "s1 = save_duration s2"
        using u(1) False by (auto simp: updateDuration_def s0_def split: option.splits)
      have c: "change_mode ok (stopModeTimer (s0\<lparr>ms_currentMode := MODE_NORMAL\<rparr>)) = (r, s2)"
        using s2(1) join(2)
        by (auto simp: setMode_def mode_params_def HasLabel_def member_def member_String_def variant_Object_def MODE_NORMAL_def s0_def
            Let_def split: prod.splits)
      note f = change_mode_facts [of "stopModeTimer (s0\<lparr>ms_currentMode := MODE_NORMAL\<rparr>)" ok r s2]
          stopModeTimer_facts [of "s0\<lparr>ms_currentMode := MODE_NORMAL\<rparr>"]
      have m: "ms_timer s2 = ?t\<lparr>tm_clear := True, tm_joinable := False\<rparr>" "ms_currentMode s2 = MODE_NORMAL"
          "ms_remainingDuration s2 = 0" "mode_stored s2"
        using f c st(1) by (cases ok; simp add: s0_def modes_def)+
      have "taken_all s \<Longrightarrow> file_there s \<Longrightarrow> disk_agrees s2 \<and> taken_all s2 \<and> file_there s2"
        using f c st(1) by (simp add: s0_def modes_def)
      then show thesis using expired [OF 3 _ _ _ m] c u(2) s2(2) m(1) by (simp add: s0_def)
    qed
  qed
qed

lemma wake_inv:
  assumes "mode_inv s" "timerFunction_wake V ok s = Some s'"
  shows "mode_inv s'"
  using assms
proof (cases rule: wake_cases)
  case counted
  then show ?thesis
    using assms(1) save_duration_kept [of "s\<lparr>ms_remainingDuration := ms_remainingDuration s - 1\<rparr>"]
    by (auto simp: mode_inv_def mode_stored_def timer_ok_def c_int_down)
next
  case (expired s0 r s2)
  then show ?thesis
    using assms(1) save_duration_kept [of s2]
    by (auto simp: mode_inv_def mode_stored_def timer_ok_def thread_returns_def c_int_down)
qed (use assms(1) in \<open>auto simp: mode_inv_def mode_stored_def timer_ok_def thread_returns_def\<close>)

lemma disk_agrees_cong:
  "ms_files s' = ms_files s \<Longrightarrow> ms_currentMode s' = ms_currentMode s \<Longrightarrow> ms_remainingDuration s' = ms_remainingDuration s \<Longrightarrow>
   disk_agrees s' = disk_agrees s"
  by (simp add: disk_agrees_def)

text \<open>What was agreed stays agreed when the time changes and the write is taken.\<close>

lemma save_duration_agrees:
  assumes "kept s" "setting ''mode'' s = Some (ms_currentMode s)" "taken_all s" "file_there s"
    "fileExists (ms_files s) WAREHOUSE_MODE_FILE \<longleftrightarrow> ms_currentMode s = MODE_WAREHOUSE"
  shows "disk_agrees (save_duration s)"
  using save_duration_kept [OF assms(1)] assms(2-5) by (simp add: disk_agrees_def stored_def setting_def fileExists_def)

lemma agrees_there: "disk_agrees s \<Longrightarrow> file_there s"
  by (auto simp: disk_agrees_def file_there_def read_back_def cSettings_ctor_def settings_readFromFile_def open_read_def
      abs_settings_def settings_getValue_def text_of_def)

lemma wake_agrees:
  assumes "mode_inv s" "timerFunction_wake V ok s = Some s'" "taken_all s"
    "disk_agrees s \<or> ms_currentMode s' \<noteq> ms_currentMode s \<and> file_there s"
  shows "disk_agrees s'"
  using assms(1,2)
proof (cases rule: wake_cases)
  case counted
  then have "disk_agrees s" using assms(4) by simp
  then show ?thesis
    using counted assms(1,3) save_duration_agrees [of "s\<lparr>ms_remainingDuration := ms_remainingDuration s - 1\<rparr>"] agrees_there [of s]
    by (simp add: mode_inv_def mode_stored_def disk_agrees_def)
next
  case (expired s0 r s2)
  then have "disk_agrees s2" "taken_all s2" "file_there s2" using assms(3,4) agrees_there by auto
  then have "disk_agrees (save_duration s2)"
    using save_duration_agrees [of s2] expired by (simp add: mode_stored_def disk_agrees_def)
  then show ?thesis using expired(5) disk_agrees_cong [of s' "save_duration s2"] by (simp add: thread_returns_def)
qed (use assms(4) disk_agrees_cong [of s' s] in \<open>simp_all add: thread_returns_def\<close>)

lemma setMode_agrees:
  assumes "setMode V ok ps resp s = Some (r, resp', calls, s')" "kept s" "tm_callback (ms_timer s)" "taken_all s" "file_there s"
    "calls \<noteq> []"
  shows "disk_agrees s'"
  using assms(1)
proof (cases rule: setMode_cases)
  case unchanged
  then show ?thesis using assms(6) by simp
next
  case (timed m d)
  then obtain s1 where s1: "startModeTimer d (s\<lparr>ms_currentMode := m\<rparr>) = Some s1" "change_mode ok s1 = (r, s')" by blast
  then show ?thesis using startModeTimer_facts [OF s1(1)] change_mode_facts [OF _ _ s1(2)] timed(2) assms(2-5) by simp
next
  case (untimed m d)
  then show ?thesis
    using change_mode_facts [OF _ _ untimed(5)] stopModeTimer_facts [of "s\<lparr>ms_currentMode := m\<rparr>"] assms(2-5) by simp
next
  case (normal m d)
  then show ?thesis
    using change_mode_facts [OF _ _ normal(3)] stopModeTimer_facts [of "s\<lparr>ms_currentMode := MODE_NORMAL\<rparr>"] assms(2-5)
    by (simp add: modes_def)
qed

lemma setMode_silent: "setMode V ok ps resp s = Some (r, resp', [], s') \<Longrightarrow> s' = s"
  by (auto simp: setMode_def Let_def split: if_splits option.splits prod.splits)

lemma setMode_first:
  assumes "ms_currentMode s = []" "kept s" "ms_timer s = timer_setInterval MODE_TIMER_UPDATE_INTERVAL cTimer_ctor"
    "json_String v \<in> modes"
  obtains r resp calls s' where "setMode V ok (mode_params v dur) [] s = Some (r, resp, calls, s')" "mode_inv s'"
    "calls \<noteq> []" "r = ok" "json_String v = MODE_NORMAL \<Longrightarrow> \<not> tm_joinable (ms_timer s')"
    "ok \<Longrightarrow> ms_currentMode s' = (if json_String v \<noteq> MODE_NORMAL \<and> to_int32 (variant_Number V dur) \<noteq> 0 then json_String v else MODE_NORMAL)"
    "ok \<Longrightarrow> ms_currentMode s' \<noteq> MODE_NORMAL \<Longrightarrow> ms_remainingDuration s' = max 0 (to_int32 (variant_Number V dur))"
proof -
  let ?m = "json_String v" and ?d = "to_int32 (variant_Number V dur)"
  have t: "tm_live (ms_timer s) = 0" "tm_callback (ms_timer s)" "\<not> tm_joinable (ms_timer s)"
    using assms(3) by (simp_all add: timer_setInterval_def cTimer_ctor_def)
  have "\<exists>s2. startModeTimer ?d (s\<lparr>ms_currentMode := ?m\<rparr>) = Some s2"
    using t by (simp add: startModeTimer_def timer_start_def)
  then obtain s2 where start: "startModeTimer ?d (s\<lparr>ms_currentMode := ?m\<rparr>) = Some s2" by blast
  define s1 where "s1 = (if MODE_NORMAL \<noteq> ?m \<and> ?d \<noteq> 0
      then (if ?d < 0 then stopModeTimer (s\<lparr>ms_currentMode := ?m\<rparr>) else s2)
      else stopModeTimer (s\<lparr>ms_currentMode := MODE_NORMAL\<rparr>))"
  note f = startModeTimer_facts [OF start]
  have 1: "kept s1" "timer_ok s1" "ms_currentMode s1 = (if ?m \<noteq> MODE_NORMAL \<and> ?d \<noteq> 0 then ?m else MODE_NORMAL)"
      "ms_currentMode s1 \<noteq> MODE_NORMAL \<longrightarrow> ms_remainingDuration s1 = max 0 ?d"
      "?m = MODE_NORMAL \<longrightarrow> \<not> tm_joinable (ms_timer s1)"
    using f assms(2) t stopModeTimer_facts [of "s\<lparr>ms_currentMode := ?m\<rparr>"] stopModeTimer_facts [of "s\<lparr>ms_currentMode := MODE_NORMAL\<rparr>"]
    by (auto simp: s1_def timer_ok_def c_int_down c_int_to_int32)
  then have m: "ms_currentMode s1 \<in> modes" using assms(4) by (auto simp: modes_def)
  obtain r s' where c: "change_mode ok s1 = (r, s')" by (rule prod.exhaust)
  have "setMode V ok (mode_params v dur) [] s = Some (r, [], [(stringToIarmMode [], stringToIarmMode (ms_currentMode s1))], s')"
    using c assms(1,4) start modes_nonempty [of MODE_NORMAL]
    by (auto simp: setMode_def mode_params_def HasLabel_def member_def member_String_def variant_Object_def modes_def
        s1_def Let_def)
  then show thesis
    using that change_mode_facts [OF 1(1) m c] change_mode_inv [OF 1(1,2) m c] 1(3-5) by (cases ok) auto
qed

section \<open>A new process\<close>

lemma find_last_eq_rest: "find_last_eq s = Some p \<Longrightarrow> CHR ''='' \<notin> set (drop (p + 1) s) \<and> p < length s"
proof -
  assume "find_last_eq s = Some p"
  then obtain k where k: "find_char CHR ''='' (rev s) = Some k" "p = length s - 1 - k"
    by (auto simp: find_last_eq_def)
  then have "k < length s" "CHR ''='' \<notin> set (take k (rev s))" using find_char_SomeD [OF k(1)] by auto
  moreover have p: "p + 1 = length s - k" "p < length s" using k(2) \<open>k < length s\<close> by simp_all
  ultimately show ?thesis unfolding p(1) by (simp add: take_rev)
qed

lemma read_settings_ok:
  "\<forall>l \<in> set lines. CHR 0x0A \<notin> set l \<Longrightarrow> settings_ok \<lparr>cs_filename = f, cs_data = d\<rparr> \<Longrightarrow>
   settings_ok \<lparr>cs_filename = f, cs_data = fold read_setting lines d\<rparr>"
proof (induction lines arbitrary: d)
  case (Cons l lines)
  have "settings_ok \<lparr>cs_filename = f, cs_data = read_setting l d\<rparr>"
  proof (cases "find_last_eq l")
    case (Some p)
    have "CHR ''='' \<notin> set (drop (p + 1) l)" using find_last_eq_rest [OF Some] by simp
    moreover have "CHR 0x0A \<notin> set (drop (p + 1) l)" "CHR 0x0A \<notin> set (take p l)"
      using Cons.prems(1) by (auto dest: in_set_dropD in_set_takeD)
    ultimately have "plain_setting (take p l) (JString (drop (p + 1) l))" by (simp add: plain_setting_def)
    then show ?thesis
      using settings_ok_put [OF Cons.prems(2), of "take p l" "JString (drop (p + 1) l)"] Some
      by (simp add: settings_put_def read_setting_def)
  qed (use Cons.prems in \<open>simp add: read_setting_def\<close>)
  then show ?case using Cons by simp
qed simp

lemma read_settings_strings:
  "\<forall>v \<in> ran (map_of d). \<exists>x. v = JString x \<Longrightarrow> \<forall>v \<in> ran (map_of (fold read_setting lines d)). \<exists>x. v = JString x"
proof (induction lines arbitrary: d)
  case (Cons l lines)
  have "\<forall>v \<in> ran (map_of (read_setting l d)). \<exists>x. v = JString x"
    using Cons.prems by (auto simp: read_setting_def update_conv' ran_def split: option.split if_splits)
  then show ?case using Cons.IH by simp
qed simp

lemma read_back_ok:
  assumes "mode_file_ok F"
  shows "settings_ok (fst (cSettings_ctor any SYSTEM_SERVICE_TEMP_FILE F))"
    "cs_filename (fst (cSettings_ctor any SYSTEM_SERVICE_TEMP_FILE F)) = SYSTEM_SERVICE_TEMP_FILE"
  using assms read_settings_ok [of "file_lines x" SYSTEM_SERVICE_TEMP_FILE "[]" for x] file_lines_no_newline
  by (auto simp: mode_file_ok_def cSettings_ctor_def settings_readFromFile_def open_read_def settings_ok_def [of "\<lparr>cs_filename = f, cs_data = []\<rparr>" for f])

lemma process_kept:
  assumes "mode_file_ok F"
  shows "kept (mode_process io F)" "ms_currentMode (mode_process io F) = []" "ms_timer (mode_process io F) = cTimer_ctor"
    "abs_settings (ms_settings (mode_process io F)) = read_back F"
    "False \<notin> set io \<Longrightarrow> taken_all (mode_process io F) \<and> file_there (mode_process io F)"
proof -
  obtain b io1 where io: "next_io io = (b, io1)" by (rule prod.exhaust)
  obtain c F1 where c: "cSettings_ctor b SYSTEM_SERVICE_TEMP_FILE F = (c, F1)" by (rule prod.exhaust)
  have s: "mode_process io F = \<lparr>ms_currentMode = [], ms_remainingDuration = 0, ms_timer = cTimer_ctor, ms_settings = c, ms_files = F1, ms_io = io1\<rparr>"
    using io c by (simp add: mode_process_def)
  show "ms_currentMode (mode_process io F) = []" "ms_timer (mode_process io F) = cTimer_ctor" by (simp_all add: s)
  show rb: "abs_settings (ms_settings (mode_process io F)) = read_back F"
    using read_back_any [of b F] c by (simp add: s)
  have F1: "F1 = F \<or> F SYSTEM_SERVICE_TEMP_FILE = Missing \<and> F1 = F(SYSTEM_SERVICE_TEMP_FILE := Regular [])"
    "b \<Longrightarrow> F1 SYSTEM_SERVICE_TEMP_FILE \<noteq> Missing"
    using c assms by (auto simp: cSettings_ctor_def settings_readFromFile_def open_read_def mode_file_ok_def split: option.splits if_splits)
  have "read_back F1 = read_back F"
    using F1(1) by (auto simp: read_back_def cSettings_ctor_def settings_readFromFile_def open_read_def file_lines_def)
  then have "mode_file_ok F1" using assms F1(1) by (auto simp: mode_file_ok_def)
  then show "kept (mode_process io F)"
    using read_back_ok [OF assms, of b] c rb assms by (simp add: kept_def setting_def s mode_file_ok_def)
  show "False \<notin> set io \<Longrightarrow> taken_all (mode_process io F) \<and> file_there (mode_process io F)"
    using io next_io_taken [of io] tl_taken [of io] F1(2) by (simp add: s taken_all_def file_there_def)
qed

lemma process_strings: "settings_getValue (ms_settings (mode_process io F)) k = Some v \<Longrightarrow> v = JString (json_String v)"
proof -
  assume v: "settings_getValue (ms_settings (mode_process io F)) k = Some v"
  obtain b io1 where io: "next_io io = (b, io1)" by (rule prod.exhaust)
  obtain c F1 where c: "cSettings_ctor b SYSTEM_SERVICE_TEMP_FILE F = (c, F1)" by (rule prod.exhaust)
  have "\<forall>v \<in> ran (map_of (cs_data c)). \<exists>x. v = JString x"
    using c read_settings_strings [of "[]"]
    by (auto simp: cSettings_ctor_def settings_readFromFile_def split: option.splits)
  then show ?thesis using v c io by (auto simp: mode_process_def settings_getValue_def ran_def)
qed

definition fresh :: "bool list \<Rightarrow> files \<Rightarrow> mode_state" where
  "fresh io F = (mode_process io F)\<lparr>ms_timer := timer_setInterval MODE_TIMER_UPDATE_INTERVAL cTimer_ctor\<rparr>"

lemma fresh_facts:
  assumes "mode_file_ok F"
  shows "ms_currentMode (fresh io F) = []" "kept (fresh io F)"
    "ms_timer (fresh io F) = timer_setInterval MODE_TIMER_UPDATE_INTERVAL cTimer_ctor"
    "False \<notin> set io \<Longrightarrow> taken_all (fresh io F) \<and> file_there (fresh io F)"
  using process_kept [OF assms, of io] by (simp_all add: fresh_def)

text \<open>A new process sets the mode its settings file has, or the normal one.\<close>

lemma booted:
  assumes "mode_file_ok F"
  obtains v dur where "json_String v \<in> modes"
    "mode_Initialize V ok (mode_process io F) = map_option (\<lambda>(r, resp, calls, s1). s1) (setMode V ok (mode_params v dur) [] (fresh io F))"
    "read_back F ''mode'' = None \<longrightarrow> v = JString MODE_NORMAL"
    "\<forall>m d. read_back F ''mode'' = Some m \<longrightarrow> read_back F ''mode_duration'' = Some d \<longrightarrow> v = JString m \<and> dur = JString d"
proof -
  let ?s = "mode_process io F"
  note p = process_kept [OF assms, of io]
  have get: "settings_getValue (ms_settings ?s) k = Some (JString x)" if "read_back F k = Some x" for k x
  proof -
    have "abs_settings (ms_settings ?s) k = Some x" using that by (simp add: p(4))
    then show ?thesis
      using process_strings [of io F k] by (auto simp: abs_settings_def text_of_def split: option.splits if_splits)
  qed
  have contains: "settings_contains (ms_settings ?s) ''mode'' \<longleftrightarrow> read_back F ''mode'' \<noteq> None"
    unfolding p(4) [symmetric]
    by (auto simp: settings_contains_def abs_settings_def settings_getValue_def text_of_def split: option.splits)
  show thesis
  proof (cases "read_back F ''mode''")
    case None
    then have "mode_Initialize V ok ?s = map_option (\<lambda>(r, resp, calls, s1). s1)
        (setMode V ok (mode_params (JString MODE_NORMAL) (JNumber (-1))) [] (fresh io F))"
      using contains p(2,3) by (simp add: mode_Initialize_def fresh_def Let_def)
    then show thesis using that [of "JString MODE_NORMAL" "JNumber (-1)"] None by (simp add: modes_def)
  next
    case (Some m)
    let ?d = "case settings_getValue (ms_settings ?s) ''mode_duration'' of Some v \<Rightarrow> v | None \<Rightarrow> JNull"
    have "mode_Initialize V ok ?s = map_option (\<lambda>(r, resp, calls, s1). s1)
        (setMode V ok (mode_params (JString m) ?d) [] (fresh io F))"
      using contains p(2,3) Some get [OF Some] by (simp add: mode_Initialize_def fresh_def Let_def)
    moreover have "m \<in> modes" using assms Some by (simp add: mode_file_ok_def)
    ultimately show thesis using that [of "JString m" ?d] Some get [of "''mode_duration''"] by auto
  qed
qed

lemma first_file:
  assumes "F SYSTEM_SERVICE_TEMP_FILE = Missing \<or> F SYSTEM_SERVICE_TEMP_FILE = Regular []"
  shows "mode_file_ok F" "read_back F = Map.empty"
proof -
  show "read_back F = Map.empty"
    using assms
    by (auto simp: read_back_def cSettings_ctor_def settings_readFromFile_def open_read_def file_lines_def
        abs_settings_def settings_getValue_def text_of_def)
  then show "mode_file_ok F" using assms by (auto simp: mode_file_ok_def)
qed

lemma Initialize_inv:
  assumes "mode_file_ok F" "mode_Initialize V ok (mode_process io F) = Some s'"
  shows "mode_inv s'" "False \<notin> set io \<Longrightarrow> disk_agrees s'"
proof -
  note f = fresh_facts [OF assms(1), of io]
  obtain v dur where v: "json_String v \<in> modes"
    "mode_Initialize V ok (mode_process io F) = map_option (\<lambda>(r, resp, calls, s1). s1) (setMode V ok (mode_params v dur) [] (fresh io F))"
    using booted [OF assms(1), of V ok io] by metis
  obtain r resp calls s1 where s1: "setMode V ok (mode_params v dur) [] (fresh io F) = Some (r, resp, calls, s1)" "mode_inv s1" "calls \<noteq> []"
    by (rule setMode_first [OF f(1-3) v(1), of V ok dur]) blast
  then have "s1 = s'" using v(2) assms(2) by simp
  then show "mode_inv s'" "False \<notin> set io \<Longrightarrow> disk_agrees s'"
    using s1 setMode_agrees [OF s1(1) f(2)] f(3,4) by (simp_all add: timer_setInterval_def)
qed

text \<open>The states that are reached from the first boot of a device.\<close>

inductive mode_reach :: "variant \<Rightarrow> mode_state \<Rightarrow> bool" for V :: variant where
  first: "\<lbrakk>F SYSTEM_SERVICE_TEMP_FILE = Missing \<or> F SYSTEM_SERVICE_TEMP_FILE = Regular [];
           mode_Initialize V ok (mode_process io F) = Some s\<rbrakk> \<Longrightarrow> mode_reach V s"
| step: "\<lbrakk>mode_reach V s; mode_step V op s = Some s'\<rbrakk> \<Longrightarrow> mode_reach V s'"

lemma reactivate_inv:
  assumes "mode_inv s" "mode_step V (Reactivate a) s = Some s'"
  shows "mode_inv s'"
    "s' = s\<lparr>ms_io := snd a, ms_timer := timer_setInterval MODE_TIMER_UPDATE_INTERVAL (timer_stop (ms_timer s))\<rparr>"
proof -
  have "ms_currentMode s \<noteq> []" using assms(1) modes_nonempty by (auto simp: mode_inv_def mode_stored_def)
  then show s': "s' = s\<lparr>ms_io := snd a, ms_timer := timer_setInterval MODE_TIMER_UPDATE_INTERVAL (timer_stop (ms_timer s))\<rparr>"
    using assms(2) by (simp add: mode_Initialize_def mode_Deinitialize_def)
  show "mode_inv s'"
    using assms(1) by (auto simp: s' mode_inv_def mode_stored_def timer_ok_def timer_stop_def timer_setInterval_def)
qed

lemma inv_file: "mode_inv s \<Longrightarrow> mode_file_ok (ms_files s)"
  by (simp add: mode_inv_def mode_stored_def kept_def)

lemma mode_step_inv:
  assumes "mode_inv s" "mode_step V op s = Some s'"
  shows "mode_inv s'"
proof (cases op)
  case (SetMode a ps)
  then obtain r resp calls where m: "setMode V (fst a) ps [] (s\<lparr>ms_io := snd a\<rparr>) = Some (r, resp, calls, s')"
    using assms(2) by auto
  show ?thesis
    using setMode_inv [OF m] assms(1)
    by (cases "s' = s\<lparr>ms_io := snd a\<rparr>") (auto simp: mode_inv_def mode_stored_def timer_ok_def)
next
  case (TimerWake a)
  then show ?thesis using wake_inv [of "s\<lparr>ms_io := snd a\<rparr>"] assms by simp
next
  case (Reactivate a)
  then show ?thesis using reactivate_inv(1) [OF assms(1)] assms(2) by simp
next
  case (NewProcess a)
  then show ?thesis using Initialize_inv(1) [OF inv_file [OF assms(1)]] assms(2) by simp
qed

section \<open>Properties\<close>

lemma mode_reach_inv: "mode_reach V s \<Longrightarrow> mode_inv s"
proof (induction rule: mode_reach.induct)
  case (first F ok io s)
  then show ?case using Initialize_inv(1) first_file(1) by blast
next
  case (step s op s')
  then show ?case using mode_step_inv by blast
qed

text \<open>A device for the witnesses: it boots, and a mode is set for two seconds.\<close>

definition sample_V :: variant where
  "sample_V = \<lparr>vr_Number = (\<lambda>_. 0), vr_Boolean = (\<lambda>_. False), vr_Object = (\<lambda>_. []), vr_Array = (\<lambda>_. [])\<rparr>"

lemma boot_reach: "\<exists>s. mode_Initialize V True (mode_process [] (\<lambda>_. Missing)) = Some s \<and> mode_reach V s
    \<and> ms_currentMode s = MODE_NORMAL \<and> \<not> tm_joinable (ms_timer s) \<and> disk_agrees s"
proof -
  let ?F = "(\<lambda>_. Missing) :: files"
  have F: "mode_file_ok ?F" "read_back ?F = Map.empty" using first_file [of ?F] by simp_all
  note f = fresh_facts [OF F(1), of "[]"]
  obtain v dur where b: "mode_Initialize V True (mode_process [] ?F)
      = map_option (\<lambda>(r, resp, calls, s1). s1) (setMode V True (mode_params v dur) [] (fresh [] ?F))"
      "read_back ?F ''mode'' = None \<longrightarrow> v = JString MODE_NORMAL"
    by (rule booted [OF F(1), of V True "[]"]) (rule that, assumption+)
  have v: "json_String v = MODE_NORMAL" using b(2) F(2) by simp
  obtain r resp calls s1 where s1: "setMode V True (mode_params v dur) [] (fresh [] ?F) = Some (r, resp, calls, s1)"
      "\<not> tm_joinable (ms_timer s1)" "ms_currentMode s1 = MODE_NORMAL"
    by (rule setMode_first [OF f(1-3), of v V True dur]) (use v in \<open>auto simp: modes_def\<close>)
  have i: "mode_Initialize V True (mode_process [] ?F) = Some s1" using b(1) s1(1) by simp
  have r: "mode_reach V s1" by (rule mode_reach.first [of ?F, OF _ i]) simp
  have d: "disk_agrees s1" using Initialize_inv(2) [OF F(1) i] by simp
  show ?thesis using i r d s1(2,3) by blast
qed

lemma change_mode_ok: "change_mode ok s = (False, s') \<Longrightarrow> ms_currentMode s' = MODE_NORMAL"
  by (auto simp: change_mode_def Let_def split: if_splits prod.splits)

lemma setMode_failed:
  assumes "setMode V ok (mode_params v dur) [] s = Some (False, resp, calls, s')" "kept s" "ms_currentMode s = []"
    "json_String v \<in> modes"
  shows "ms_currentMode s' = MODE_NORMAL"
  using assms(1)
proof (cases rule: setMode_cases)
  case unchanged
  then show ?thesis using assms by (auto simp: setMode_def mode_params_def HasLabel_def member_def member_String_def
    variant_Object_def modes_def Let_def split: if_splits option.splits prod.splits)
next
  case (timed m d)
  then show ?thesis using change_mode_ok by fastforce
next
  case (untimed m d)
  then show ?thesis using change_mode_ok by fastforce
next
  case (normal m d)
  then show ?thesis using change_mode_ok by fastforce
qed

fun op_answers :: "mode_op \<Rightarrow> answers" where
  "op_answers (SetMode a ps) = a"
| "op_answers (TimerWake a) = a"
| "op_answers (Reactivate a) = a"
| "op_answers (NewProcess a) = a"

lemma step_agrees:
  assumes "mode_inv s" "mode_step V op s = Some s'" "False \<notin> set (snd (op_answers op))"
    "disk_agrees s \<or> (\<exists>a. op = NewProcess a) \<or> ms_currentMode s' \<noteq> ms_currentMode s \<and> file_there s"
  shows "disk_agrees s'"
proof (cases op)
  case (SetMode a ps)
  let ?s = "s\<lparr>ms_io := snd a\<rparr>"
  obtain r resp calls where m: "setMode V (fst a) ps [] ?s = Some (r, resp, calls, s')" using SetMode assms(2) by auto
  have there: "file_there s" using SetMode assms(4) agrees_there by auto
  show ?thesis
  proof (cases "calls = []")
    case True
    then have "s' = ?s" using setMode_silent m by blast
    then show ?thesis using SetMode assms(4) disk_agrees_cong [of s' s] by simp
  next
    case False
    then show ?thesis
      using setMode_agrees [OF m] there SetMode assms(1,3) by (simp add: mode_inv_def mode_stored_def timer_ok_def taken_all_def)
  qed
next
  case (TimerWake a)
  then show ?thesis
    using wake_agrees [of "s\<lparr>ms_io := snd a\<rparr>" V "fst a" s'] assms disk_agrees_cong [of "s\<lparr>ms_io := snd a\<rparr>" s]
    by (auto simp: taken_all_def)
next
  case (Reactivate a)
  then have "s' = s\<lparr>ms_io := snd a, ms_timer := timer_setInterval MODE_TIMER_UPDATE_INTERVAL (timer_stop (ms_timer s))\<rparr>"
    using reactivate_inv(2) [OF assms(1)] assms(2) by blast
  then show ?thesis using Reactivate assms(4) disk_agrees_cong [of s' s] by simp
next
  case (NewProcess a)
  then show ?thesis using Initialize_inv(2) [OF inv_file [OF assms(1)]] assms(2,3) by simp
qed

text \<open>
  C9. The mode and what is on the disk, over every step that is reached from the first boot, through
  calls, wake-ups of the timer, deactivations and restarts of the process, with any answers of the bus
  and whatever operations on files were refused. The mode is one of the three; in the normal mode the
  timer is stopped with no time left, and a timer that is not stopped has one thread, which counts; what
  the settings file reads back as a mode, if anything, is one of the three. The disk agrees with the
  mode (the settings file reads back as the mode and the remaining time, and the file of the warehouse
  mode is there in that mode only) as far as the operations are taken: a step all of whose operations
  on files are taken keeps the agreement, and brings it about, whatever was refused before, if it
  starts the process again or changes the mode while the settings file exists.
\<close>

theorem mode_on_disk:
  assumes "mode_reach V s" "mode_step V op s = Some s'"
  shows "ms_currentMode s' \<in> {MODE_NORMAL, MODE_EAS, MODE_WAREHOUSE}
    \<and> (ms_currentMode s' = MODE_NORMAL \<longrightarrow> ms_remainingDuration s' = 0 \<and> tm_clear (ms_timer s'))
    \<and> (\<not> tm_clear (ms_timer s') \<longrightarrow> tm_live (ms_timer s') = 1 \<and> tm_joinable (ms_timer s'))
    \<and> (\<forall>m. read_back (ms_files s') ''mode'' = Some m \<longrightarrow> m \<in> {MODE_NORMAL, MODE_EAS, MODE_WAREHOUSE})
    \<and> (False \<notin> set (snd (op_answers op))
        \<and> (disk_agrees s \<or> (\<exists>a. op = NewProcess a)
            \<or> ms_currentMode s' \<noteq> ms_currentMode s \<and> ms_files s SYSTEM_SERVICE_TEMP_FILE \<noteq> Missing)
      \<longrightarrow> read_back (ms_files s') ''mode'' = Some (ms_currentMode s')
        \<and> read_back (ms_files s') ''mode_duration'' = Some (to_string_int (ms_remainingDuration s'))
        \<and> (fileExists (ms_files s') WAREHOUSE_MODE_FILE \<longleftrightarrow> ms_currentMode s' = MODE_WAREHOUSE))"
proof -
  have i: "mode_inv s" "mode_inv s'" using mode_reach_inv [OF assms(1)] mode_step_inv [OF _ assms(2)] by simp_all
  note a = step_agrees [OF i(1) assms(2)]
  show ?thesis
    using i(2) a by (auto simp: mode_inv_def mode_stored_def timer_ok_def modes_def kept_def mode_file_ok_def file_there_def disk_agrees_def)
qed

text \<open>
  The condition is needed: when the removal of the file of the warehouse mode is refused, the device
  leaves the mode with success and the file stays.
\<close>

lemma warehouse_file_left:
  assumes "kept s" "ms_currentMode s = MODE_NORMAL" "fileExists (ms_files s) WAREHOUSE_MODE_FILE" "ms_io s = False # io"
    "change_mode True s = (r, s')"
  shows "r \<and> ms_currentMode s' = MODE_NORMAL \<and> fileExists (ms_files s') WAREHOUSE_MODE_FILE"
proof -
  define s2 where "s2 = s\<lparr>ms_io := io\<rparr>"
  define s3 where "s3 = save_setting ''mode'' (JString (ms_currentMode s2)) s2"
  have s: "s' = save_duration s3" "r"
    using assms(2-5) by (auto simp: change_mode_def Let_def next_io_def warehouse_file_def s2_def s3_def)
  have "kept s2" using assms(1) by (simp add: s2_def)
  note 3 = save_setting_effect [OF this, of "''mode''" "JString (ms_currentMode s2)", folded s3_def]
  have "kept s3"
    unfolding s3_def
    by (rule save_setting_kept(1) [OF \<open>kept s2\<close> plain_mode]) (use assms(2) in \<open>simp_all add: s2_def modes_def\<close>)
  then show ?thesis
    using save_duration_kept(4) [of s3] 3(2) assms(2,3) s by (simp add: fileExists_def s3_def s2_def)
qed

theorem mode_on_disk_witness:
  "\<exists>s s'. mode_reach sample_V s \<and> mode_step sample_V (NewProcess (False, [True, True])) s = Some s'
    \<and> read_back (ms_files s') ''mode'' = Some ''NORMAL'' \<and> \<not> fileExists (ms_files s') WAREHOUSE_MODE_FILE"
proof -
  obtain s where s: "mode_reach sample_V s" "ms_currentMode s = MODE_NORMAL" "disk_agrees s" using boot_reach by blast
  have F: "mode_file_ok (ms_files s)" using inv_file mode_reach_inv [OF s(1)] by blast
  note f = fresh_facts [OF F, of "[True, True]"]
  obtain v dur where b: "mode_Initialize sample_V False (mode_process [True, True] (ms_files s))
      = map_option (\<lambda>(r, resp, calls, s1). s1) (setMode sample_V False (mode_params v dur) [] (fresh [True, True] (ms_files s)))"
      "\<forall>m d. read_back (ms_files s) ''mode'' = Some m \<longrightarrow> read_back (ms_files s) ''mode_duration'' = Some d \<longrightarrow> v = JString m \<and> dur = JString d"
    by (rule booted [OF F, of sample_V False "[True, True]"]) (rule that, assumption+)
  have v: "json_String v = MODE_NORMAL" using b(2) s(2,3) by (auto simp: disk_agrees_def)
  obtain r resp calls s1 where s1: "setMode sample_V False (mode_params v dur) [] (fresh [True, True] (ms_files s)) = Some (r, resp, calls, s1)"
      "r = False"
    by (rule setMode_first [OF f(1-3), of v sample_V False dur]) (use v in \<open>auto simp: modes_def\<close>)
  have i: "mode_step sample_V (NewProcess (False, [True, True])) s = Some s1" using b(1) s1(1) by simp
  have "ms_currentMode s1 = MODE_NORMAL" using setMode_failed [of sample_V False v dur "fresh [True, True] (ms_files s)" resp calls s1] s1 f v
    by (simp add: modes_def)
  then have "read_back (ms_files s1) ''mode'' = Some MODE_NORMAL" "\<not> fileExists (ms_files s1) WAREHOUSE_MODE_FILE"
    using mode_on_disk [OF s(1) i] s(3) by simp_all
  then show ?thesis unfolding MODE_NORMAL_def using s(1) i by blast
qed

text \<open>
  A new process, on a disk that agrees with the mode, goes on with the mode of the last one when the
  framework reads the stored time as a number that is not 0, and in the normal mode otherwise; if the
  bus refuses, in the normal mode. So a mode that was set for an unlimited time, which is stored with
  the time 0, is lost by a restart.
\<close>

theorem mode_after_restart:
  assumes "mode_reach V s" "disk_agrees s"
  shows "\<exists>s'. mode_step V (NewProcess a) s = Some s' \<and> mode_reach V s'
    \<and> (let d = to_int32 (vr_Number V (JString (to_string_int (ms_remainingDuration s))))
       in ms_currentMode s' = (if fst a \<and> d \<noteq> 0 then ms_currentMode s else MODE_NORMAL)
        \<and> (ms_currentMode s' \<noteq> MODE_NORMAL \<longrightarrow> ms_remainingDuration s' = max 0 d))"
proof -
  have m: "ms_currentMode s \<in> modes" and F: "mode_file_ok (ms_files s)"
    using mode_reach_inv [OF assms(1)] inv_file by (auto simp: mode_inv_def mode_stored_def)
  note f = fresh_facts [OF F, of "snd a"]
  let ?v = "JString (ms_currentMode s)" and ?dur = "JString (to_string_int (ms_remainingDuration s))"
  have n: "variant_Number V ?dur = vr_Number V ?dur" by (simp add: variant_Number_def)
  have init: "mode_step V (NewProcess a) s
      = map_option (\<lambda>(r, resp, calls, s1). s1) (setMode V (fst a) (mode_params ?v ?dur) [] (fresh (snd a) (ms_files s)))"
    by (rule booted [OF F, of V "fst a" "snd a"]) (use assms(2) in \<open>simp add: disk_agrees_def\<close>)
  obtain r resp calls s' where s': "setMode V (fst a) (mode_params ?v ?dur) [] (fresh (snd a) (ms_files s)) = Some (r, resp, calls, s')" "r = fst a"
    "fst a \<Longrightarrow> ms_currentMode s' = (if ms_currentMode s \<noteq> MODE_NORMAL \<and> to_int32 (vr_Number V ?dur) \<noteq> 0 then ms_currentMode s else MODE_NORMAL)"
    "fst a \<Longrightarrow> ms_currentMode s' \<noteq> MODE_NORMAL \<Longrightarrow> ms_remainingDuration s' = max 0 (to_int32 (vr_Number V ?dur))"
    by (rule setMode_first [where s = "fresh (snd a) (ms_files s)" and V = V and ok = "fst a" and v = ?v and dur = ?dur])
      (use f m n in auto)
  have failed: "\<not> fst a \<Longrightarrow> ms_currentMode s' = MODE_NORMAL"
    using setMode_failed [of V "fst a" ?v ?dur "fresh (snd a) (ms_files s)" resp calls s'] s'(1,2) f m by auto
  have step: "mode_step V (NewProcess a) s = Some s'" using init s'(1) by simp
  then show ?thesis
    using mode_reach.step [OF assms(1) step] s'(3,4) failed by (cases "fst a") (auto simp: Let_def)
qed

lemma wake_counts:
  assumes "mode_inv s" "\<not> tm_clear (ms_timer s)" "ms_remainingDuration s > 0"
  shows "timerFunction_wake V ok s = Some (save_duration (s\<lparr>ms_remainingDuration := ms_remainingDuration s - 1\<rparr>))"
proof -
  have "tm_live (ms_timer s) = 1" using assms by (simp add: mode_inv_def timer_ok_def)
  then show ?thesis using assms(2,3) by (simp add: timerFunction_wake_def updateDuration_def)
qed

lemma wake_expires:
  assumes "mode_inv s" "\<not> tm_clear (ms_timer s)" "ms_remainingDuration s = 0"
  shows "\<exists>s'. timerFunction_wake V ok s = Some s' \<and> ms_currentMode s' = MODE_NORMAL \<and> ms_remainingDuration s' = 0
    \<and> tm_live (ms_timer s') = 0 \<and> \<not> tm_joinable (ms_timer s')"
proof -
  let ?t = "ms_timer s"
  have st: "tm_live ?t = 1" "tm_joinable ?t" "ms_currentMode s \<noteq> MODE_NORMAL" "kept s"
    using assms by (auto simp: mode_inv_def mode_stored_def timer_ok_def)
  define s0 where "s0 = s\<lparr>ms_timer := ?t\<lparr>tm_clear := True, tm_joinable := False\<rparr>\<rparr>"
  obtain r s2 where c: "change_mode ok (stopModeTimer (s0\<lparr>ms_currentMode := MODE_NORMAL\<rparr>)) = (r, s2)" by (rule prod.exhaust)
  have "\<exists>resp calls. setMode V ok (mode_params (JString ''NORMAL'') (JNumber 0)) [] s0 = Some (r, resp, calls, s2)"
    using c st(3) by (simp add: setMode_def mode_params_def HasLabel_def member_def member_String_def variant_Object_def
        MODE_NORMAL_def s0_def Let_def)
  moreover have "timer_detach (timer_stop ?t) = Some (?t\<lparr>tm_clear := True, tm_joinable := False\<rparr>)"
    using st by (simp add: timer_detach_def timer_stop_def)
  ultimately have u: "updateDuration V ok s = Some (save_duration s2)"
    using assms(3) by (auto simp: updateDuration_def s0_def)
  have f: "ms_currentMode s2 = MODE_NORMAL" "ms_remainingDuration s2 = 0" "ms_timer s2 = ?t\<lparr>tm_clear := True, tm_joinable := False\<rparr>"
    using change_mode_facts [of "stopModeTimer (s0\<lparr>ms_currentMode := MODE_NORMAL\<rparr>)" ok r s2] c st(4)
      stopModeTimer_facts [of "s0\<lparr>ms_currentMode := MODE_NORMAL\<rparr>"]
    by (cases ok; simp add: s0_def modes_def)+
  then show ?thesis using u st assms(2) by (simp add: timerFunction_wake_def thread_returns_def)
qed

lemma mode_run_append: "mode_run V (xs @ ys) s = Option.bind (mode_run V xs s) (mode_run V ys)"
  by (induction xs arbitrary: s) (auto split: bind_split)

lemma counting:
  assumes "mode_inv s" "\<not> tm_clear (ms_timer s)" "int (length oks) \<le> ms_remainingDuration s"
  shows "\<exists>s'. mode_run V (map TimerWake oks) s = Some s' \<and> mode_inv s' \<and> \<not> tm_clear (ms_timer s')
    \<and> ms_currentMode s' = ms_currentMode s \<and> ms_remainingDuration s' = ms_remainingDuration s - int (length oks)"
  using assms
proof (induction oks arbitrary: s)
  case (Cons a oks)
  let ?s = "s\<lparr>ms_io := snd a\<rparr>"
  let ?s1 = "save_duration (?s\<lparr>ms_remainingDuration := ms_remainingDuration s - 1\<rparr>)"
  have i: "mode_inv ?s" "\<not> tm_clear (ms_timer ?s)" using Cons.prems(1,2) by simp_all
  have w: "timerFunction_wake V (fst a) ?s = Some ?s1" using wake_counts [OF i] Cons.prems(3) by simp
  have "mode_inv ?s1" using wake_inv [OF i(1) w] .
  then show ?case using Cons.IH [of ?s1] Cons.prems(2,3) w by (auto simp: algebra_simps)
qed simp

text \<open>
  C10. A mode that is set for \<open>d\<close> ticks ends: from any reachable state with a running timer, each of the
  next wake-ups lowers the time by one and keeps the mode, and the one after the time has come to 0
  sets the normal mode, whether the bus takes it or not, and the timer thread has returned.
\<close>

theorem timed_mode_expires:
  assumes "mode_reach V s" "\<not> tm_clear (ms_timer s)" "length oks = nat (ms_remainingDuration s)"
  shows "(\<forall>k \<le> length oks. \<exists>s1. mode_run V (map TimerWake (take k oks)) s = Some s1
      \<and> ms_currentMode s1 = ms_currentMode s \<and> ms_currentMode s1 \<noteq> MODE_NORMAL
      \<and> ms_remainingDuration s1 = ms_remainingDuration s - int k)
    \<and> (\<exists>s2. mode_run V (map TimerWake (oks @ [ok])) s = Some s2 \<and> ms_currentMode s2 = MODE_NORMAL
      \<and> tm_live (ms_timer s2) = 0 \<and> \<not> tm_joinable (ms_timer s2))"
proof -
  have i: "mode_inv s" "int (length oks) = ms_remainingDuration s" "ms_currentMode s \<noteq> MODE_NORMAL"
    using mode_reach_inv [OF assms(1)] assms(2,3) by (auto simp: mode_inv_def timer_ok_def)
  have "\<exists>s1. mode_run V (map TimerWake (take k oks)) s = Some s1
      \<and> ms_currentMode s1 = ms_currentMode s \<and> ms_currentMode s1 \<noteq> MODE_NORMAL
      \<and> ms_remainingDuration s1 = ms_remainingDuration s - int k" if "k \<le> length oks" for k
    using counting [OF i(1) assms(2), of "take k oks" V] i(2,3) that by auto
  moreover obtain s1 where s1: "mode_run V (map TimerWake oks) s = Some s1" "mode_inv s1" "\<not> tm_clear (ms_timer s1)"
      "ms_remainingDuration s1 = 0"
    using counting [OF i(1) assms(2), of oks V] i(2) by auto
  ultimately show ?thesis
    using wake_expires [of "s1\<lparr>ms_io := snd ok\<rparr>" V "fst ok"] s1 by (auto simp: mode_run_append)
qed

lemma timed_fails:
  assumes "timed V ps m d" "m \<in> {MODE_EAS, MODE_WAREHOUSE}" "d > 0" "tm_joinable (ms_timer s)" "tm_callback (ms_timer s)"
  shows "setMode V ok ps resp s = None"
proof -
  have "startModeTimer d (s\<lparr>ms_currentMode := m\<rparr>) = None" using assms(4,5) by (simp add: startModeTimer_def timer_start_def)
  then show ?thesis using assms(1-3) by (auto simp: setMode_def timed_def Let_def)
qed

lemma cancelled_step:
  assumes "mode_inv s" "tm_joinable (ms_timer s)" "tm_clear (ms_timer s)" "mode_step V op s = Some s'" "\<forall>ok. op \<noteq> NewProcess ok"
  shows "tm_joinable (ms_timer s') \<and> tm_clear (ms_timer s')"
proof (cases op)
  case (SetMode a ps)
  define s0 where "s0 = s\<lparr>ms_io := snd a\<rparr>"
  obtain r resp calls where m: "setMode V (fst a) ps [] s0 = Some (r, resp, calls, s')" using SetMode assms(4) by (auto simp: s0_def)
  have st: "kept s0" "tm_callback (ms_timer s0)" "tm_joinable (ms_timer s0)" "tm_clear (ms_timer s0)"
    using assms(1-3) by (auto simp: mode_inv_def mode_stored_def timer_ok_def s0_def)
  from m show ?thesis
  proof (cases rule: setMode_cases)
    case unchanged
    then show ?thesis using st by simp
  next
    case (timed m d)
    then show ?thesis using startModeTimer_facts(4) [of d "s0\<lparr>ms_currentMode := m\<rparr>"] st by auto
  next
    case (untimed m d)
    then show ?thesis
      using change_mode_facts [OF _ _ untimed(5)] stopModeTimer_facts [of "s0\<lparr>ms_currentMode := m\<rparr>"] st
      by (cases "fst a") simp_all
  next
    case (normal m d)
    then show ?thesis
      using change_mode_facts [OF _ _ normal(3)] stopModeTimer_facts [of "s0\<lparr>ms_currentMode := MODE_NORMAL\<rparr>"] st
      by (cases "fst a") (simp_all add: modes_def)
  qed
next
  case (TimerWake ok)
  then show ?thesis using assms by (auto simp: timerFunction_wake_def thread_returns_def split: if_splits)
next
  case (Reactivate a)
  then have "s' = s\<lparr>ms_io := snd a, ms_timer := timer_setInterval MODE_TIMER_UPDATE_INTERVAL (timer_stop (ms_timer s))\<rparr>"
    using reactivate_inv(2) [OF assms(1)] assms(4) by blast
  then show ?thesis using assms(2) by (simp add: timer_setInterval_def timer_stop_def)
qed (use assms in simp)

lemma cancelled_run:
  "mode_inv s \<Longrightarrow> tm_joinable (ms_timer s) \<Longrightarrow> tm_clear (ms_timer s) \<Longrightarrow> \<forall>ok. NewProcess ok \<notin> set ops \<Longrightarrow>
   mode_run V ops s = Some s' \<Longrightarrow> mode_inv s' \<and> tm_joinable (ms_timer s') \<and> tm_clear (ms_timer s')"
proof (induction ops arbitrary: s)
  case (Cons op ops)
  obtain s1 where s1: "mode_step V op s = Some s1" "mode_run V ops s1 = Some s'"
    using Cons.prems(5) by (auto split: bind_splits)
  then show ?case
    using Cons.IH [of s1] Cons.prems cancelled_step [OF Cons.prems(1-3) s1(1)] mode_step_inv [OF Cons.prems(1) s1(1)] by auto
qed simp

text \<open>
  C28. A timed mode that is left before its time cannot be followed by another one: the thread object of
  the timer keeps its thread, so in the same process, after any further calls, wake-ups and
  reactivations, a request for a timed mode ends the process.
\<close>

theorem timed_mode_after_cancelled:
  assumes "mode_reach V s" "tm_joinable (ms_timer s)" "tm_clear (ms_timer s)" "\<forall>ok. NewProcess ok \<notin> set ops"
    "mode_run V ops s = Some s'" "timed V ps m d" "m \<in> {MODE_EAS, MODE_WAREHOUSE}" "d > 0"
  shows "mode_step V (SetMode ok ps) s' = None"
proof -
  have "mode_inv s'" "tm_joinable (ms_timer s')" using cancelled_run [OF mode_reach_inv [OF assms(1)] assms(2-5)] by simp_all
  then show ?thesis using timed_fails [OF assms(6-8)] by (simp add: mode_inv_def timer_ok_def)
qed

text \<open>The device of the witnesses in the mode \<open>EAS\<close> for two ticks, and after it is left at once.\<close>

lemma sample_timed:
  "\<exists>s s1. mode_Initialize sample_V True (mode_process [] (\<lambda>_. Missing)) = Some s
    \<and> mode_run sample_V [SetMode (True, []) (mode_params (JString ''EAS'') (JNumber 2))] s = Some s1
    \<and> mode_reach sample_V s1 \<and> ms_currentMode s1 = MODE_EAS \<and> ms_remainingDuration s1 = 2
    \<and> tm_joinable (ms_timer s1) \<and> \<not> tm_clear (ms_timer s1) \<and> disk_agrees s1"
proof -
  obtain s where s: "mode_Initialize sample_V True (mode_process [] (\<lambda>_. Missing)) = Some s" "mode_reach sample_V s"
    "ms_currentMode s = MODE_NORMAL" "\<not> tm_joinable (ms_timer s)" "disk_agrees s"
    using boot_reach by blast
  let ?s = "s\<lparr>ms_io := []\<rparr>"
  let ?ps = "mode_params (JString ''EAS'') (JNumber 2)"
  have two: "to_int32 2 = 2" by (rule to_int32_id) (simp add: c_int_def)
  have ini: "tm_callback (ms_timer s)" "\<not> tm_joinable (ms_timer s)" "kept s" "file_there s"
    using mode_reach_inv [OF s(2)] s(4) agrees_there [OF s(5)] by (auto simp: mode_inv_def mode_stored_def timer_ok_def)
  then obtain s2 where s2: "startModeTimer 2 (?s\<lparr>ms_currentMode := MODE_EAS\<rparr>) = Some s2"
    by (simp add: startModeTimer_def timer_start_def)
  note f2 = startModeTimer_facts [OF s2]
  obtain r s3 where s3: "change_mode True s2 = (r, s3)" by (rule prod.exhaust)
  note f3 = change_mode_facts [OF _ _ s3]
  have "setMode sample_V True ?ps [] ?s = Some (r, [], [(IARM_BUS_SYS_MODE_NORMAL, IARM_BUS_SYS_MODE_EAS)], s3)"
    using s(3) s2 s3 two f2(2) ini
    by (simp add: setMode_def mode_params_def HasLabel_def member_def member_String_def variant_Object_def variant_Number_def
        stringToIarmMode_def MODE_EAS_def [symmetric] Let_def)
  then have step: "mode_step sample_V (SetMode (True, []) ?ps) s = Some s3" by simp
  then show ?thesis
    using s mode_reach.step [OF s(2) step] f3 f2 ini by (auto simp: modes_def taken_all_def)
qed

theorem timed_mode_expires_witness:
  "\<exists>s s1. mode_run sample_V [SetMode (True, []) (mode_params (JString ''EAS'') (JNumber 2))] s = Some s1
    \<and> ms_currentMode s1 = ''EAS''
    \<and> (\<exists>s2. mode_run sample_V [TimerWake (True, []), TimerWake (False, [False]), TimerWake (True, [])] s1 = Some s2 \<and> ms_currentMode s2 = ''NORMAL'')"
proof -
  obtain s s1 where s: "mode_run sample_V [SetMode (True, []) (mode_params (JString ''EAS'') (JNumber 2))] s = Some s1"
    "mode_reach sample_V s1" "ms_currentMode s1 = MODE_EAS" "ms_remainingDuration s1 = 2" "\<not> tm_clear (ms_timer s1)"
    using sample_timed by blast
  have "\<exists>s2. mode_run sample_V (map TimerWake ([(True, []), (False, [False])] @ [(True, [])])) s1 = Some s2 \<and> ms_currentMode s2 = MODE_NORMAL"
    using timed_mode_expires [OF s(2,5), of "[(True, []), (False, [False])]" "(True, [])"] s(4) by auto
  then show ?thesis using s(1,3) unfolding MODE_EAS_def MODE_NORMAL_def by auto
qed

theorem timed_mode_after_cancelled_witness:
  "\<exists>s. mode_reach sample_V s
    \<and> (\<exists>s1. mode_run sample_V [SetMode (True, []) (mode_params (JString ''EAS'') (JNumber 2)),
          SetMode (True, []) (mode_params (JString ''NORMAL'') (JNumber 0)), TimerWake (True, [])] s = Some s1
        \<and> mode_step sample_V (SetMode (True, []) (mode_params (JString ''EAS'') (JNumber 2))) s1 = None)"
proof -
  let ?eas = "mode_params (JString ''EAS'') (JNumber 2)" and ?normal = "mode_params (JString ''NORMAL'') (JNumber 0)"
  obtain s s1 where s: "mode_Initialize sample_V True (mode_process [] (\<lambda>_. Missing)) = Some s"
    "mode_run sample_V [SetMode (True, []) ?eas] s = Some s1"
    "mode_reach sample_V s1" "ms_currentMode s1 = MODE_EAS" "tm_joinable (ms_timer s1)"
    using sample_timed by blast
  have st: "kept s1" using mode_reach_inv [OF s(3)] by (simp add: mode_inv_def mode_stored_def)
  let ?s2 = "stopModeTimer (s1\<lparr>ms_io := [], ms_currentMode := MODE_NORMAL\<rparr>)"
  obtain r s3 where c: "change_mode True ?s2 = (r, s3)" by (rule prod.exhaust)
  have f: "tm_joinable (ms_timer s3)" "tm_clear (ms_timer s3)"
    using change_mode_facts [OF _ _ c] stopModeTimer_facts [of "s1\<lparr>ms_io := [], ms_currentMode := MODE_NORMAL\<rparr>"] st s(5) by (auto simp: modes_def)
  have "\<exists>resp calls. setMode sample_V True ?normal [] (s1\<lparr>ms_io := []\<rparr>) = Some (r, resp, calls, s3)"
    using c s(4) by (simp add: setMode_def mode_params_def HasLabel_def member_def member_String_def variant_Object_def
        MODE_NORMAL_def [symmetric] Let_def)
  then have 3: "mode_step sample_V (SetMode (True, []) ?normal) s1 = Some s3" by auto
  have "\<exists>s4. mode_run sample_V [TimerWake (True, [])] s3 = Some s4" using f by (simp add: timerFunction_wake_def)
  then obtain s4 where 4: "mode_run sample_V [TimerWake (True, [])] s3 = Some s4" by blast
  have 5: "mode_run sample_V [SetMode (True, []) ?normal, TimerWake (True, [])] s1 = Some s4"
    unfolding mode_run.simps(2) [of _ "SetMode (True, []) ?normal"] 3 using 4 by simp
  have "to_int32 2 = 2" by (rule to_int32_id) (simp add: c_int_def)
  then have "timed sample_V ?eas MODE_EAS 2"
    by (simp add: timed_def mode_params_def HasLabel_def member_def member_String_def variant_Object_def variant_Number_def MODE_EAS_def)
  then have "mode_step sample_V (SetMode (True, []) ?eas) s4 = None"
    using timed_mode_after_cancelled [OF mode_reach.step [OF s(3) 3] f _ 4] by auto
  moreover have "mode_run sample_V [SetMode (True, []) ?eas, SetMode (True, []) ?normal, TimerWake (True, [])] s = Some s4"
    using mode_run_append [of sample_V "[SetMode (True, []) ?eas]" "[SetMode (True, []) ?normal, TimerWake (True, [])]" s] s(2) 5
    by (simp del: mode_step.simps mode_run.simps)
  moreover have "mode_reach sample_V s" using mode_reach.first [OF _ s(1)] by simp
  ultimately show ?thesis by blast
qed

theorem mode_after_restart_witness:
  "\<exists>s s'. ms_currentMode s = ''EAS'' \<and> mode_step sample_V (NewProcess (True, [])) s = Some s' \<and> ms_currentMode s' = ''NORMAL''"
proof -
  obtain s where s: "mode_reach sample_V s" "ms_currentMode s = MODE_EAS" "ms_remainingDuration s = 2" "disk_agrees s"
    using sample_timed by blast
  show ?thesis
    using mode_after_restart [OF s(1,4), of "(True, [])"] s(2) unfolding MODE_EAS_def MODE_NORMAL_def
    by (auto simp: sample_V_def to_int32_def Let_def)
qed

end
