(* ===== verification/DeviceState.thy ===== *)
theory DeviceState imports ServiceHelpers begin

text \<open>
  The settings of SystemServices that are a line or a text of a file of their own: the block list flag
  (\<open>write_parameters\<close>, \<open>read_parameters\<close> and the methods that use them), the telemetry opt-out, the
  migration status, the boot and build types, and the friendly name, in
  \<open>SystemServices/SystemServices.cpp\<close>.

  Notifications are the list of the events with their parameters. \<open>junk\<close> is the value of a variable
  that the source does not initialise.
\<close>

type_synonym notifications = "(string \<times> json_params) list"

definition OPFLASH_STORE :: string where "OPFLASH_STORE = ''/opt/secure/persistent/opflashstore''"
definition DEVICESTATE_FILE :: string where "DEVICESTATE_FILE = OPFLASH_STORE @ ''/devicestate.txt''"
definition BLOCKLIST :: string where "BLOCKLIST = ''blocklist''"

section \<open>Parameters in a file\<close>

definition checkOpFlashStoreDir :: "bool \<Rightarrow> int \<Rightarrow> bool" where
  "checkOpFlashStoreDir accessible mkdir_result = (let ret = (if \<not> accessible then mkdir_result else 0) in ret = 0)"

definition bool_text :: "bool \<Rightarrow> string" where
  "bool_text b = (if b then ''true'' else ''false'')"

definition parameter_of :: "string \<Rightarrow> (string \<times> string) option" where
  "parameter_of line = map_option (\<lambda>pos. (take pos line, drop (pos + 1) line)) (find_char CHR ''='' line)"

text \<open>
  The loop over the lines: \<open>Inl\<close> if the value is there already, otherwise the new lines, whether the
  parameter was found, and the flags.
\<close>

fun write_lines :: "string \<Rightarrow> string \<Rightarrow> string list \<Rightarrow> bool \<Rightarrow> bool \<Rightarrow> bool \<Rightarrow> bool + (string list \<times> bool \<times> bool \<times> bool)" where
  "write_lines param text [] param_found update oldFlag = Inr ([], param_found, update, oldFlag)"
| "write_lines param text (line # rest) param_found update oldFlag =
     (case parameter_of line of
        Some (file_param, file_value) \<Rightarrow>
          if file_param = param then
            (if file_value = text then Inl oldFlag
             else map_sum id (\<lambda>(ls, r). ((param @ ''='' @ text) # ls, r))
               (write_lines param text rest True True
                 (if file_value = ''true'' then True else if file_value = ''false'' then False else oldFlag)))
          else map_sum id (\<lambda>(ls, r). (line # ls, r)) (write_lines param text rest param_found update oldFlag)
      | None \<Rightarrow> map_sum id (\<lambda>(ls, r). (line # ls, r)) (write_lines param text rest param_found update oldFlag))"

text \<open>The result is the status, the two flags and the files. A file that cannot be opened for writing is no failure.\<close>

definition write_parameters ::
  "disk \<Rightarrow> string \<Rightarrow> string \<Rightarrow> bool \<Rightarrow> bool \<Rightarrow> bool \<Rightarrow> files \<Rightarrow> bool \<times> bool \<times> bool \<times> files" where
  "write_parameters D filename param val update oldFlag F =
     (case write_lines param (bool_text val)
             (case open_read F filename of Some s \<Rightarrow> file_lines s | None \<Rightarrow> []) False update oldFlag of
        Inl old \<Rightarrow> (True, False, old, F)
      | Inr (lines, param_found, update1, old) \<Rightarrow>
          (let lines1 = (if \<not> param_found then lines @ [param @ ''='' @ bool_text val] else lines);
               F1 = (if open_write D F filename then write_text D filename (unlines lines1) F else F)
           in (True, update1, old, F1)))"

fun read_lines :: "string \<Rightarrow> string list \<Rightarrow> bool \<Rightarrow> bool \<times> bool" where
  "read_lines param [] val = (False, val)"
| "read_lines param (line # rest) val =
     (case parameter_of line of
        Some (file_param, file_value) \<Rightarrow>
          if file_param = param then
            (if file_value = ''true'' then (True, True)
             else if file_value = ''false'' then (True, False)
             else (False, val))
          else read_lines param rest val
      | None \<Rightarrow> read_lines param rest val)"

definition read_parameters :: "string \<Rightarrow> string \<Rightarrow> bool \<Rightarrow> files \<Rightarrow> bool \<times> bool" where
  "read_parameters filename param val F =
     (case open_read F filename of
        None \<Rightarrow> (False, val)
      | Some s \<Rightarrow> read_lines param (file_lines s) val)"

section \<open>The block list flag\<close>

definition service_error :: "string \<Rightarrow> string \<Rightarrow> json_params \<Rightarrow> json_params" where
  "service_error message code response =
     set_member ''error'' (JObject [(''message'', JString message), (''code'', JString code)]) response"

definition onBlocklistChanged :: "bool \<Rightarrow> bool \<Rightarrow> notifications" where
  "onBlocklistChanged newBlocklistFlag oldBlocklistFlag =
     [(''onBlocklistChanged'', [(''oldBlocklistFlag'', JBool oldBlocklistFlag), (''newBlocklistFlag'', JBool newBlocklistFlag)])]"

definition setBlocklistFlag ::
  "variant \<Rightarrow> disk \<Rightarrow> bool \<Rightarrow> bool \<Rightarrow> json_params \<Rightarrow> json_params \<Rightarrow> files
     \<Rightarrow> (hresult \<times> json_params) \<times> notifications \<times> files" where
  "setBlocklistFlag V D dir junk parameters response F =
     (if HasLabel parameters BLOCKLIST then
        (if \<not> dir then (returnResponse False (service_error ''Blocklist flag update failed'' ''-32604'' response), [], F)
         else
           (let blocklistFlag = variant_Boolean V (member parameters BLOCKLIST);
                (status, update, oldBlocklistFlag, F1) = write_parameters D DEVICESTATE_FILE BLOCKLIST blocklistFlag False junk F;
                response1 = (if \<not> status then service_error ''Blocklist flag update failed'' ''-32604'' response else response)
            in (returnResponse status response1, if update then onBlocklistChanged blocklistFlag oldBlocklistFlag else [], F1)))
      else (returnResponse False (service_error ''Invalid params'' ''-32602'' (populateResponseWithError SysSrv_MissingKeyValues response)), [], F))"

definition getBlocklistFlag :: "bool \<Rightarrow> bool \<Rightarrow> json_params \<Rightarrow> files \<Rightarrow> hresult \<times> json_params" where
  "getBlocklistFlag dir junk response F =
     (let failed = returnResponse False (service_error ''Blocklist flag retrieved failed from persistent memory.'' ''-32099'' response)
      in if \<not> dir then failed
         else (let (result, blocklistFlag) = read_parameters DEVICESTATE_FILE BLOCKLIST junk F
               in if result then returnResponse True (set_member ''blocklist'' (JBool blocklistFlag) response) else failed))"

section \<open>Opt-out, migration, boot and build types\<close>

definition OPTOUT_TELEMETRY_STATUS :: string where "OPTOUT_TELEMETRY_STATUS = ''/opt/tmtryoptout''"
definition MIGRATIONSTATUS :: string where "MIGRATIONSTATUS = ''/opt/secure/persistent/MigrationStatus''"
definition TR181_MIGRATIONSTATUS :: string where "TR181_MIGRATIONSTATUS = ''Device.DeviceInfo.Migration.MigrationStatus''"
definition TR181_SYSTEM_FRIENDLY_NAME :: string where
  "TR181_SYSTEM_FRIENDLY_NAME = ''Device.DeviceInfo.X_RDKCENTRAL-COM_RFC.SystemServices.FriendlyName''"

definition setOptOutTelemetry ::
  "variant \<Rightarrow> disk \<Rightarrow> json_params \<Rightarrow> json_params \<Rightarrow> files \<Rightarrow> (hresult \<times> json_params) \<times> files" where
  "setOptOutTelemetry V D parameters response F =
     (if HasLabel parameters ''Opt-Out'' then
        (let optout = variant_Boolean V (member parameters ''Opt-Out'')
         in if open_write D F OPTOUT_TELEMETRY_STATUS
            then (returnResponse True response, write_text D OPTOUT_TELEMETRY_STATUS (bool_text optout) F)
            else (returnResponse False response, F))
      else (returnResponse False (populateResponseWithError SysSrv_MissingKeyValues response), F))"

definition isOptOutTelemetry :: "json_params \<Rightarrow> files \<Rightarrow> hresult \<times> json_params" where
  "isOptOutTelemetry response F =
     (let (retVal, optOutStatus) = getFileContent F OPTOUT_TELEMETRY_STATUS [];
          optout = (if retVal \<and> length optOutStatus \<noteq> 0 then find_str ''true'' optOutStatus \<noteq> None else False)
      in returnResponse True (set_member ''Opt-Out'' (JBool optout) response))"

definition Status_Set :: "string list" where
  "Status_Set = [''NOT_STARTED'', ''NOT_NEEDED'', ''STARTED'', ''PRIORITY_SETTINGS_MIGRATED'', ''DEVICE_SETTINGS_MIGRATED'',
     ''CLOUD_SETTINGS_MIGRATED'', ''APP_DATA_MIGRATED'', ''MIGRATION_COMPLETED'']"

definition setMigrationStatus :: "disk \<Rightarrow> json_params \<Rightarrow> json_params \<Rightarrow> files \<Rightarrow> (hresult \<times> json_params) \<times> files" where
  "setMigrationStatus D parameters response F =
     (let val = member_String parameters ''status''
      in if List.member Status_Set val then
           (if open_write D F MIGRATIONSTATUS then (returnResponse True response, write_text D MIGRATIONSTATUS val F)
            else ((ERROR_FILE_IO, response), F))
         else ((ERROR_INVALID_PARAMETER, response), F))"

text \<open>
  \<open>rfc\<close> gives the value of a parameter of the remote configuration, \<open>None\<close> for a failure and, for the
  friendly name, for a value that is no string.
\<close>

definition getMigrationStatus :: "(string \<Rightarrow> string option) \<Rightarrow> json_params \<Rightarrow> hresult \<times> json_params" where
  "getMigrationStatus rfc response =
     (case rfc TR181_MIGRATIONSTATUS of
        Some v \<Rightarrow> (ERROR_NONE, set_member ''migrationStatus'' (JString v) response)
      | None \<Rightarrow> (ERROR_FILE_IO, response))"

definition getBootTypeInfo :: "json_params \<Rightarrow> files \<Rightarrow> (hresult \<times> json_params) option" where
  "getBootTypeInfo response F =
     (case readPropertyFromFile F ''/tmp/bootType'' ''BOOT_TYPE'' of
        None \<Rightarrow> None
      | Some (True, bootType) \<Rightarrow> Some (ERROR_NONE, set_member ''bootType'' (JString bootType) response)
      | Some (False, _) \<Rightarrow> Some (ERROR_FILE_IO, response))"

definition getBuildType :: "json_params \<Rightarrow> files \<Rightarrow> (hresult \<times> json_params) option" where
  "getBuildType response F =
     (case readPropertyFromFile F ''/etc/device.properties'' ''BUILD_TYPE'' of
        None \<Rightarrow> None
      | Some (True, buildType) \<Rightarrow> Some (returnResponse True (set_member ''build_type'' (JString buildType) response))
      | Some (False, _) \<Rightarrow> Some (returnResponse False response))"

text \<open>
  The friendly name is a member of the plugin; \<open>Initialize\<close> reads it from the remote configuration,
  and a new one is written there. The result has the parameters that are written.
\<close>

definition friendlyName_Initialize :: "(string \<Rightarrow> string option) \<Rightarrow> string \<Rightarrow> string" where
  "friendlyName_Initialize rfc m_friendlyName =
     (case rfc TR181_SYSTEM_FRIENDLY_NAME of Some v \<Rightarrow> v | None \<Rightarrow> m_friendlyName)"

definition getFriendlyName :: "json_params \<Rightarrow> string \<Rightarrow> hresult \<times> json_params" where
  "getFriendlyName response m_friendlyName = returnResponse True (set_member ''friendlyName'' (JString m_friendlyName) response)"

definition setFriendlyName ::
  "json_params \<Rightarrow> json_params \<Rightarrow> string \<Rightarrow> (hresult \<times> json_params) \<times> notifications \<times> (string \<times> string) list \<times> string" where
  "setFriendlyName parameters response m_friendlyName =
     (if \<not> HasLabel parameters ''friendlyName'' then (returnResponse False response, [], [], m_friendlyName)
      else
        (let friendlyName = member_String parameters ''friendlyName''
         in if m_friendlyName \<noteq> friendlyName
            then (returnResponse True response, [(''onFriendlyNameChanged'', [(''friendlyName'', JString friendlyName)])],
                  [(TR181_SYSTEM_FRIENDLY_NAME, friendlyName)], friendlyName)
            else (returnResponse True response, [], [], m_friendlyName)))"

section \<open>Properties\<close>

definition is_parameter :: "string \<Rightarrow> string \<Rightarrow> bool" where
  "is_parameter param line = (case parameter_of line of Some (k, v) \<Rightarrow> k = param | None \<Rightarrow> False)"

lemma parameter_of_line: "CHR ''='' \<notin> set param \<Longrightarrow> parameter_of (param @ ''='' @ text) = Some (param, text)"
  by (simp add: parameter_of_def find_char_append)

lemma write_lines_absent:
  "\<forall>l \<in> set ls. \<not> is_parameter param l \<Longrightarrow> write_lines param text (ls @ rest) f u old
     = map_sum id (\<lambda>(xs, r). (ls @ xs, r)) (write_lines param text rest f u old)"
proof (induction ls)
  case Nil
  then show ?case by (cases "write_lines param text rest f u old") auto
next
  case (Cons l ls)
  then show ?case
    by (cases "write_lines param text rest f u old") (auto simp: is_parameter_def split: option.splits)
qed

lemma write_lines_one:
  assumes "parameter_of l = Some (param, v)" "\<forall>x \<in> set xs \<union> set ys. \<not> is_parameter param x"
  shows "write_lines param text (xs @ l # ys) f u old =
    (if v = text then Inl old
     else Inr (xs @ (param @ ''='' @ text) # ys, True, True, if v = ''true'' then True else if v = ''false'' then False else old))"
  using assms write_lines_absent [of xs param "text" "l # ys" f u old] write_lines_absent [of ys param "text" "[]"]
  by auto

lemma read_lines_skip:
  "\<forall>l \<in> set ls. \<not> is_parameter param l \<Longrightarrow> read_lines param (ls @ rest) val = read_lines param rest val"
  by (induction ls) (auto simp: is_parameter_def split: option.splits)

lemma one_parameter:
  assumes "length (filter (is_parameter param) ls) \<le> 1"
  obtains (absent) "\<forall>l \<in> set ls. \<not> is_parameter param l"
  | (one) xs l ys v where "ls = xs @ l # ys" "parameter_of l = Some (param, v)" "\<forall>x \<in> set xs \<union> set ys. \<not> is_parameter param x"
proof (cases "filter (is_parameter param) ls")
  case Nil
  then show thesis using absent by (simp add: filter_empty_conv)
next
  case (Cons l rest)
  then have "rest = []" using assms by simp
  then obtain xs ys where x: "ls = xs @ l # ys" "\<forall>x \<in> set xs. \<not> is_parameter param x" "is_parameter param l" "filter (is_parameter param) ys = []"
    using Cons filter_eq_Cons_iff [of "is_parameter param" ls l "[]"] by metis
  then obtain v where "parameter_of l = Some (param, v)" by (auto simp: is_parameter_def split: option.splits)
  then show thesis by (rule one [OF x(1)]) (use x in \<open>auto simp: filter_empty_conv\<close>)
qed

text \<open>The value that a file has for a parameter.\<close>

definition stored_value :: "string \<Rightarrow> string list \<Rightarrow> string option" where
  "stored_value param ls =
     (case filter (is_parameter param) ls of [] \<Rightarrow> None | l # _ \<Rightarrow> map_option snd (parameter_of l))"

lemma stored_absent: "\<forall>l \<in> set ls. \<not> is_parameter param l \<Longrightarrow> stored_value param ls = None"
  by (simp add: stored_value_def filter_False)

lemma stored_one:
  assumes "parameter_of l = Some (param, v)" "\<forall>x \<in> set xs \<union> set ys. \<not> is_parameter param x"
  shows "stored_value param (xs @ l # ys) = Some v"
  using assms by (simp add: stored_value_def is_parameter_def)

text \<open>
  C35. Setting the block list flag is read back: with a file that can be written and has the flag at
  most once, a set succeeds, the flag that is read is the one that was set, all the other lines of
  the file are kept in their order, and the notifications are none if the file had no flag or the same
  one, and otherwise one with the new and the old flag. The old flag of a line that is neither
  \<open>true\<close> nor \<open>false\<close> is the value of a variable that nothing has set.
\<close>

theorem blocklist_roundtrip:
  assumes "HasLabel ps BLOCKLIST" "member ps BLOCKLIST = JBool b"
    "open_write D F DEVICESTATE_FILE" "all_written D DEVICESTATE_FILE"
    "lines = (case open_read F DEVICESTATE_FILE of Some s \<Rightarrow> file_lines s | None \<Rightarrow> [])"
    "length (filter (is_parameter BLOCKLIST) lines) \<le> 1"
    "setBlocklistFlag V D True junk ps resp F = ((res, resp'), events, F')"
  shows "res = ERROR_NONE
    \<and> getBlocklistFlag True junk' [] F' = (ERROR_NONE, [(''blocklist'', JBool b), (''success'', JBool True)])
    \<and> (\<exists>s. open_read F' DEVICESTATE_FILE = Some s
        \<and> filter (\<lambda>l. \<not> is_parameter BLOCKLIST l) (file_lines s) = filter (\<lambda>l. \<not> is_parameter BLOCKLIST l) lines)
    \<and> events = (case stored_value BLOCKLIST lines of None \<Rightarrow> []
        | Some v \<Rightarrow> if v = bool_text b then []
                    else onBlocklistChanged b (if v = ''true'' then True else if v = ''false'' then False else junk))"
proof -
  have flag: "variant_Boolean V (member ps BLOCKLIST) = b" using assms(2) by (simp add: variant_Boolean_def)
  have eq: "CHR ''='' \<notin> set BLOCKLIST" by (simp add: BLOCKLIST_def)
  have new: "parameter_of (BLOCKLIST @ ''='' @ bool_text b) = Some (BLOCKLIST, bool_text b)"
    using parameter_of_line [OF eq] .
  have plain: "CHR 0x0A \<notin> set (BLOCKLIST @ ''='' @ bool_text b)" by (simp add: BLOCKLIST_def bool_text_def)
  have nl: "\<forall>l \<in> set lines. CHR 0x0A \<notin> set l"
    using file_lines_no_newline by (auto simp: assms(5) split: option.splits)
  have read: "getBlocklistFlag True junk' [] G = (ERROR_NONE, [(''blocklist'', JBool b), (''success'', JBool True)])"
    if "open_read G DEVICESTATE_FILE = Some s" "read_lines BLOCKLIST (file_lines s) junk' = (True, b)" for G s
    using that by (simp add: getBlocklistFlag_def read_parameters_def returnResponse_def set_member_def)
  have isnew: "is_parameter BLOCKLIST (BLOCKLIST @ ''='' @ bool_text b)" using new by (simp add: is_parameter_def)
  have rl: "read_lines BLOCKLIST (xs @ l # ys) j = (True, b)"
    if "parameter_of l = Some (BLOCKLIST, bool_text b)" "\<forall>x \<in> set xs. \<not> is_parameter BLOCKLIST x" for xs l ys j
    using that read_lines_skip [of xs BLOCKLIST "l # ys" j] by (simp add: bool_text_def split: if_splits)
  note set = assms(7) [unfolded setBlocklistFlag_def Let_def flag write_parameters_def assms(5) [symmetric]]
  from assms(6) show ?thesis
  proof (cases rule: one_parameter)
    case absent
    have w: "write_lines BLOCKLIST (bool_text b) lines False False junk = Inr (lines, False, False, junk)"
      using write_lines_absent [OF absent, of "bool_text b" "[]"] by simp
    let ?ls = "lines @ [BLOCKLIST @ ''='' @ bool_text b]"
    have f: "res = ERROR_NONE" "events = []" "F' = write_text D DEVICESTATE_FILE (unlines ?ls) F"
      using set w assms(1,3) by (auto simp: returnResponse_def)
    have "open_read F' DEVICESTATE_FILE = Some (unlines ?ls)" using assms(4) by (simp add: f)
    moreover have "file_lines (unlines ?ls) = ?ls" using nl plain by (intro file_lines_unlines) auto
    ultimately show ?thesis
      using f read rl [OF new, of lines "[]" junk'] absent isnew stored_absent [OF absent] by (auto simp: is_parameter_def)
  next
    case (one xs l ys v)
    note stored = stored_one [OF one(2,3), folded one(1)]
    have isone: "is_parameter BLOCKLIST l" using one(2) by (simp add: is_parameter_def)
    note w = write_lines_one [OF one(2,3), of "bool_text b" False False junk, folded one(1)]
    show ?thesis
    proof (cases "v = bool_text b")
      case True
      obtain s where s: "open_read F DEVICESTATE_FILE = Some s" "lines = file_lines s"
        using one(1) assms(5) by (cases "open_read F DEVICESTATE_FILE") auto
      have "res = ERROR_NONE" "events = []" "F' = F" using set w assms(1) True by (auto simp: returnResponse_def)
      moreover have "read_lines BLOCKLIST (file_lines s) junk' = (True, b)"
        using s(2) rl [of l xs ys junk'] one(1-3) True by auto
      moreover have "filter (\<lambda>l. \<not> is_parameter BLOCKLIST l) (file_lines s) = filter (\<lambda>l. \<not> is_parameter BLOCKLIST l) lines"
        by (simp add: s(2))
      ultimately show ?thesis using s(1) read [OF s(1)] stored True by auto
    next
      case False
      let ?ls = "xs @ (BLOCKLIST @ ''='' @ bool_text b) # ys"
      have f: "res = ERROR_NONE" "F' = write_text D DEVICESTATE_FILE (unlines ?ls) F"
        "events = onBlocklistChanged b (if v = ''true'' then True else if v = ''false'' then False else junk)"
        using set w assms(1,3) False by (auto simp: returnResponse_def)
      have "open_read F' DEVICESTATE_FILE = Some (unlines ?ls)" using assms(4) by (simp add: f)
      moreover have "file_lines (unlines ?ls) = ?ls" using nl plain one(1) by (intro file_lines_unlines) auto
      moreover have "read_lines BLOCKLIST ?ls junk' = (True, b)" using rl [OF new, of xs ys junk'] one(3) by simp
      moreover have "filter (\<lambda>l. \<not> is_parameter BLOCKLIST l) ?ls = filter (\<lambda>l. \<not> is_parameter BLOCKLIST l) lines"
        using isnew isone by (simp add: one(1))
      ultimately show ?thesis using f(1,3) read [of F' "unlines ?ls"] stored False by auto
    qed
  qed
qed

definition good_disk :: disk where
  "good_disk = \<lparr>dk_create = (\<lambda>_. True), dk_written = (\<lambda>p s. length s)\<rparr>"

lemma good_disk [simp]: "all_written good_disk p"
  by (simp add: all_written_def good_disk_def)

theorem blocklist_roundtrip_witness:
  "\<exists>res resp events F'. setBlocklistFlag (undefined :: variant) good_disk True False [(BLOCKLIST, JBool True)] []
      ((\<lambda>_. Missing)(DEVICESTATE_FILE := Regular (unlines [''a=1'', ''blocklist=false''])))
    = ((res, resp), events, F')
    \<and> getBlocklistFlag True False [] F' = (ERROR_NONE, [(''blocklist'', JBool True), (''success'', JBool True)])
    \<and> events = onBlocklistChanged True False"
proof -
  let ?F = "(\<lambda>_. Missing)(DEVICESTATE_FILE := Regular (unlines [''a=1'', ''blocklist=false'']))" and ?ps = "[(BLOCKLIST, JBool True)]"
  obtain res resp events F' where r: "setBlocklistFlag (undefined :: variant) good_disk True False ?ps [] ?F = ((res, resp), events, F')"
    by (metis prod.exhaust)
  let ?ls = "[''a=1'', ''blocklist=false'']"
  have "file_lines (unlines ?ls) = ?ls" by (rule file_lines_unlines) simp
  then have lines: "?ls = (case open_read ?F DEVICESTATE_FILE of Some s \<Rightarrow> file_lines s | None \<Rightarrow> [])" by (simp add: open_read_def)
  have pa: "parameter_of ''a=1'' = Some (''a'', ''1'')" "parameter_of ''blocklist=false'' = Some (BLOCKLIST, ''false'')"
    by (simp_all add: parameter_of_def BLOCKLIST_def)
  have stored: "stored_value BLOCKLIST ?ls = Some ''false''"
    by (simp add: stored_value_def is_parameter_def pa) (simp add: BLOCKLIST_def)
  have args: "HasLabel ?ps BLOCKLIST" "member ?ps BLOCKLIST = JBool True" "open_write good_disk ?F DEVICESTATE_FILE"
    "all_written good_disk DEVICESTATE_FILE" "length (filter (is_parameter BLOCKLIST) ?ls) \<le> 1"
    using pa by (simp_all add: HasLabel_def member_def open_write_def is_parameter_def BLOCKLIST_def)
  note c = blocklist_roundtrip [OF args(1-4) lines args(5) r, where junk' = False, unfolded stored]
  then have "events = onBlocklistChanged True False" by (simp add: bool_text_def)
  then show ?thesis using r c by auto
qed

text \<open>A file that cannot be opened for writing: the set succeeds, may be announced, and changes nothing.\<close>

lemma blocklist_not_written:
  assumes "HasLabel ps BLOCKLIST" "\<not> open_write D F DEVICESTATE_FILE"
    "setBlocklistFlag V D True junk ps resp F = ((res, resp'), events, F')"
  shows "res = ERROR_NONE \<and> F' = F"
  using assms by (auto simp: setBlocklistFlag_def write_parameters_def returnResponse_def Let_def split: sum.splits prod.splits if_splits)

text \<open>Values other than a truth value in the file: the old flag that is announced is not initialised.\<close>

lemma blocklist_old_flag_unset:
  "F DEVICESTATE_FILE = Regular (unlines [''blocklist=maybe'']) \<Longrightarrow>
   fst (snd (setBlocklistFlag V D True junk [(BLOCKLIST, JBool True)] [] F)) = onBlocklistChanged True junk"
proof -
  assume F: "F DEVICESTATE_FILE = Regular (unlines [''blocklist=maybe''])"
  have "file_lines (unlines [''blocklist=maybe'']) = [''blocklist=maybe'']" by (rule file_lines_unlines) simp
  moreover have "parameter_of ''blocklist=maybe'' = Some (BLOCKLIST, ''maybe'')" by (simp add: parameter_of_def BLOCKLIST_def)
  ultimately show ?thesis
    using F by (simp add: setBlocklistFlag_def HasLabel_def member_def variant_Boolean_def write_parameters_def open_read_def bool_text_def)
qed

lemma opt_out_roundtrip:
  assumes "HasLabel ps ''Opt-Out''" "member ps ''Opt-Out'' = JBool b" "all_written D OPTOUT_TELEMETRY_STATUS"
    "setOptOutTelemetry V D ps resp F = ((ERROR_NONE, resp'), F')"
  shows "isOptOutTelemetry [] F' = (ERROR_NONE, [(''Opt-Out'', JBool b), (''success'', JBool True)])"
proof -
  have "F' = write_text D OPTOUT_TELEMETRY_STATUS (bool_text b) F"
    using assms(1,2,4) by (auto simp: setOptOutTelemetry_def variant_Boolean_def returnResponse_def split: if_splits)
  then have "getFileContent F' OPTOUT_TELEMETRY_STATUS [] = (True, bool_text b)"
    using assms(3) by (simp add: getFileContent_def)
  moreover have "find_str ''true'' (bool_text b) \<noteq> None \<longleftrightarrow> b" by (cases b) (simp_all add: bool_text_def)
  ultimately show ?thesis by (simp add: isOptOutTelemetry_def returnResponse_def set_member_def bool_text_def)
qed

end
