(* ===== verification/Territory.thy ===== *)
theory Territory imports DeviceState begin

text \<open>
  The territory and region of the device in \<open>SystemServices/SystemServices.cpp\<close>: \<open>setTerritory\<close>,
  \<open>getTerritory\<close> and the functions they use. The state is the two members of the plugin and the file
  of the territory.
\<close>

definition TERRITORYFILE :: string where "TERRITORYFILE = ''/opt/secure/persistent/System/Territory.txt''"

text \<open>The list of the constructor, by the lines of its literal, which run on with spaces.\<close>

definition territories_1 :: string where
  "territories_1 = ''ABW AFG AGO AIA ALA ALB AND ARE ARG ARM ASM ATA ATF ATG AUS AUT AZE BDI BEL BEN BES BFA BGD BGR BHR BHS BIH BLM BLR BLZ BMU BOL''"

definition territories_2 :: string where
  "territories_2 = ''BRA BRB BRN BTN BVT BWA CAF CAN CCK CHE CHL CHN CIV CMR COD COG COK COL COM CPV CRI CUB Cuba CUW CXR CYM CYP CZE DEU DJI DMA DNK DOM DZA ECU EGY ERI ESH ESP''"

definition territories_3 :: string where
  "territories_3 = ''EST ETH FIN FJI FLK FRA FRO FSM GAB GBR GEO GGY GHA GIB GIN GLP GMB GNB GNQ GRC GRD GRL GTM GUF GUM GUY HKG HMD HND HRV HTI HUN IDN IMN IND IOT IRL IRN IRQ''"

definition territories_4 :: string where
  "territories_4 = ''ISL ISR ITA JAM JEY JOR JPN KAZ KEN KGZ KHM KIR KNA KOR KWT LAO LBN LBR LBY LCA LIE LKA LSO LTU LUX LVA MAC MAF MAR MCO MDA MDG MDV MEX MHL MKD MLI MLT MMR''"

definition territories_5 :: string where
  "territories_5 = ''MNE MNG MNP MOZ MRT MSR MTQ MUS MWI MYS MYT NAM NCL NER NFK NGA NIC NIU NLD NOR NPL NRU NZL OMN PAK PAN PCN PER PHL PLW PNG POL PRI PRK PRT PRY PSE PYF QAT''"

definition territories_6 :: string where
  "territories_6 = ''REU ROU RUS RWA SAU SDN SEN SGP SGS SHN SJM SLB SLE SLV SMR SOM SPM SRB SSD STP SUR SVK SVN SWE SWZ SXM SYC SYR TCA TCD TGO THA TJK TKL TKM TLS TON TTO TUN''"

definition territories_7 :: string where
  "territories_7 = ''TUR TUV TWN TZA UGA UKR UMI URY USA UZB VAT VCT VEN VGB VIR VNM VUT WLF WSM YEM ZAF ZMB ZWE''"

definition m_strStandardTerritoryList :: string where
  "m_strStandardTerritoryList =
     territories_1 @ replicate 16 CHR '' '' @ territories_2 @ replicate 16 CHR '' '' @ territories_3 @ replicate 17 CHR '' '' @ territories_4
     @ replicate 17 CHR '' '' @ territories_5 @ replicate 17 CHR '' '' @ territories_6 @ replicate 17 CHR '' '' @ territories_7"

record territory_state =
  tr_territory :: string
  tr_region :: string

definition c_isupper :: "char \<Rightarrow> bool" where
  "c_isupper c = (65 \<le> ascii c \<and> ascii c \<le> 90)"

text \<open>The bound of the loop wraps for an empty string, whose first character is its terminator.\<close>

definition isStrAlphaUpper :: "string \<Rightarrow> bool" where
  "isStrAlphaUpper strVal = list_all c_isupper (if strVal = [] then [CHR 0x00] else strVal)"

text \<open>\<open>find\<close> of a hyphen that is not there is \<open>npos\<close>: \<open>substr(0, npos)\<close> and \<open>substr(npos + 1)\<close> are the whole string.\<close>

definition isRegionValid :: "string \<Rightarrow> bool" where
  "isRegionValid regionStr =
     (if length regionStr < 7 then
        (let strRegion = (case find_char CHR ''-'' regionStr of Some p \<Rightarrow> take p regionStr | None \<Rightarrow> regionStr)
         in if length strRegion = 2 then
              (if isStrAlphaUpper strRegion then
                 (let strRegion1 = (case find_char CHR ''-'' regionStr of Some p \<Rightarrow> drop (p + 1) regionStr | None \<Rightarrow> regionStr)
                  in if length strRegion1 \<ge> 2 then isStrAlphaUpper strRegion1 else False)
               else False)
            else False)
      else False)"

definition safeExtractAfterColon :: "string \<Rightarrow> string" where
  "safeExtractAfterColon inputLine =
     (case find_char CHR '':'' inputLine of
        Some pos \<Rightarrow> if pos + 1 < length inputLine then drop (pos + 1) inputLine else []
      | None \<Rightarrow> [])"

text \<open>\<open>find\<close> gives -1 as an \<open>int\<close> for a territory that is not there.\<close>

definition isTerritoryValid :: "string \<Rightarrow> bool" where
  "isTerritoryValid territoryStr =
     (let index = (case find_str territoryStr m_strStandardTerritoryList of Some p \<Rightarrow> int p | None \<Rightarrow> -1)
      in length territoryStr = 3 \<and> index \<ge> 0 \<and> index \<le> 1100)"

text \<open>
  Two calls of \<open>getline\<close> into one string: after a first line without an end the second call fails and
  leaves the string as it is.
\<close>

definition two_lines :: "string \<Rightarrow> string \<times> string" where
  "two_lines s =
     (let first = takeWhile (\<lambda>c. c \<noteq> CHR 0x0A) s
      in (first, case dropWhile (\<lambda>c. c \<noteq> CHR 0x0A) s of
                   [] \<Rightarrow> first
                 | c # rest \<Rightarrow> takeWhile (\<lambda>c. c \<noteq> CHR 0x0A) rest))"

definition readTerritoryFromFile :: "files \<Rightarrow> territory_state \<Rightarrow> bool \<times> territory_state" where
  "readTerritoryFromFile F s =
     (if fileExists F TERRITORYFILE then
        (let (first, second) = two_lines (case open_read F TERRITORYFILE of Some content \<Rightarrow> content | None \<Rightarrow> [])
         in if length first > 0 then
              (let t = safeExtractAfterColon first
               in if isTerritoryValid t then
                    (if length second > 0 then
                       (let r = safeExtractAfterColon second
                        in if \<not> isRegionValid r then (True, \<lparr>tr_territory = [], tr_region = []\<rparr>)
                           else (True, \<lparr>tr_territory = t, tr_region = r\<rparr>))
                     else (True, s\<lparr>tr_territory := t\<rparr>))
                  else (True, \<lparr>tr_territory = [], tr_region = []\<rparr>))
            else (True, s))
      else (True, s))"

definition writeTerritory :: "disk \<Rightarrow> string \<Rightarrow> string \<Rightarrow> files \<Rightarrow> bool \<times> files" where
  "writeTerritory D territory region F =
     (if \<not> open_write D F TERRITORYFILE then (False, F)
      else (territory \<noteq> [] \<or> region \<noteq> [],
        write_text D TERRITORYFILE
          ((if territory \<noteq> [] then ''territory:'' @ territory @ [CHR 0x0A] else [])
           @ (if region \<noteq> [] then ''region:'' @ region @ [CHR 0x0A] else [])) F))"

definition onTerritoryChanged :: "string \<Rightarrow> string \<Rightarrow> string \<Rightarrow> string \<Rightarrow> notifications" where
  "onTerritoryChanged oldTerritory newTerritory oldRegion newRegion =
     [(''onTerritoryChanged'',
       [(''oldTerritory'', JString oldTerritory), (''newTerritory'', JString newTerritory)]
       @ (if newRegion \<noteq> [] then [(''oldRegion'', JString oldRegion), (''newRegion'', JString newRegion)] else []))]"

definition error_message :: "string \<Rightarrow> json_params \<Rightarrow> json_params" where
  "error_message message response = set_member ''error'' (JObject [(''message'', JString message)]) response"

definition setTerritory ::
  "disk \<Rightarrow> json_params \<Rightarrow> json_params \<Rightarrow> territory_state \<Rightarrow> files
     \<Rightarrow> (hresult \<times> json_params) \<times> notifications \<times> territory_state \<times> files" where
  "setTerritory D parameters response s F =
     (if \<not> HasLabel parameters ''territory''
      then (returnResponse False (error_message ''Invalid territory name'' response), [], s, F)
      else
        (let s1 = snd (readTerritoryFromFile F s);
             territoryStr = member_String parameters ''territory''
         in if \<not> isTerritoryValid territoryStr
            then (returnResponse False (error_message ''Invalid territory'' response), [], s1, F)
            else
              (let regionStr = (if HasLabel parameters ''region'' then member_String parameters ''region'' else [])
               in if HasLabel parameters ''region'' \<and> regionStr \<noteq> [] \<and> \<not> isRegionValid regionStr
                  then (returnResponse False (error_message ''Invalid region'' response), [], s1, F)
                  else
                    (let (resp, F1) = (if HasLabel parameters ''region'' \<and> regionStr = [] then (False, F)
                                       else writeTerritory D territoryStr regionStr F)
                     in (returnResponse resp response,
                         if resp then onTerritoryChanged (tr_territory s1) territoryStr (tr_region s1) regionStr else [],
                         s1, F1)))))"

definition getTerritory :: "json_params \<Rightarrow> territory_state \<Rightarrow> files \<Rightarrow> (hresult \<times> json_params) \<times> territory_state" where
  "getTerritory response s F =
     (let (resp, s1) = readTerritoryFromFile F \<lparr>tr_territory = [], tr_region = []\<rparr>
      in (returnResponse resp (set_member ''region'' (JString (tr_region s1))
            (set_member ''territory'' (JString (tr_territory s1)) response)), s1))"

section \<open>Properties\<close>

lemma territory_list_no_newline: "CHR 0x0A \<notin> set m_strStandardTerritoryList"
  by (simp add: m_strStandardTerritoryList_def territories_1_def territories_2_def territories_3_def territories_4_def territories_5_def territories_6_def territories_7_def)

lemma isTerritoryValidD: "isTerritoryValid t \<Longrightarrow> length t = 3 \<and> CHR 0x0A \<notin> set t \<and> (\<exists>a b. m_strStandardTerritoryList = a @ t @ b)"
proof -
  assume v: "isTerritoryValid t"
  then obtain p where p: "find_str t m_strStandardTerritoryList = Some p" "length t = 3"
    by (auto simp: isTerritoryValid_def Let_def split: option.splits)
  obtain a b where "m_strStandardTerritoryList = a @ t @ b" using find_str_SomeD [OF p(1)] by blast
  moreover then have "set t \<subseteq> set m_strStandardTerritoryList" by (metis inf_sup_ord(3) le_supI2 set_append)
  ultimately show ?thesis using territory_list_no_newline p(2) by blast
qed

lemma upper_plain: "isStrAlphaUpper s \<Longrightarrow> CHR 0x0A \<notin> set s"
  by (auto simp: isStrAlphaUpper_def list_all_iff c_isupper_def ascii_def split: if_splits)

lemma isRegionValidD: "isRegionValid r \<Longrightarrow> CHR 0x0A \<notin> set r \<and> 2 \<le> length r \<and> length r < 7"
proof -
  assume v: "isRegionValid r"
  show ?thesis
  proof (cases "find_char CHR ''-'' r")
    case None
    then show ?thesis using v upper_plain [of r] by (auto simp: isRegionValid_def Let_def split: if_splits)
  next
    case (Some p)
    then have p: "p < length r" "r ! p = CHR ''-''" using find_char_SomeD by auto
    then have r: "r = take p r @ CHR ''-'' # drop (p + 1) r" using id_take_nth_drop [OF p(1)] by simp
    have u: "isStrAlphaUpper (take p r)" "isStrAlphaUpper (drop (p + 1) r)" "length r < 7" "length (take p r) = 2"
      using v Some by (auto simp: isRegionValid_def Let_def split: if_splits)
    then have "CHR 0x0A \<notin> set (take p r @ CHR ''-'' # drop (p + 1) r)"
      using upper_plain by auto
    then have "CHR 0x0A \<notin> set r" using r by metis
    then show ?thesis using u(3,4) p(1) by simp
  qed
qed

lemma extract_territory: "length t = 3 \<Longrightarrow> safeExtractAfterColon (''territory:'' @ t) = t"
  by (simp add: safeExtractAfterColon_def)

lemma extract_region: "2 \<le> length r \<Longrightarrow> safeExtractAfterColon (''region:'' @ r) = r"
  by (simp add: safeExtractAfterColon_def)

lemma two_lines_line:
  "CHR 0x0A \<notin> set l \<Longrightarrow> two_lines (l @ CHR 0x0A # rest) = (l, takeWhile (\<lambda>c. c \<noteq> CHR 0x0A) rest)"
proof -
  assume "CHR 0x0A \<notin> set l"
  then have "\<forall>c \<in> set l. c \<noteq> CHR 0x0A" by blast
  then have "takeWhile (\<lambda>c. c \<noteq> CHR 0x0A) (l @ CHR 0x0A # rest) = l"
    "dropWhile (\<lambda>c. c \<noteq> CHR 0x0A) (l @ CHR 0x0A # rest) = CHR 0x0A # rest"
    by (simp_all add: takeWhile_append2 dropWhile_append2)
  then show ?thesis by (simp add: two_lines_def)
qed

lemma takeWhile_tail: "c \<notin> set l \<Longrightarrow> takeWhile (\<lambda>d. d \<noteq> c) (l @ [c]) = l"
  by (induction l) auto

lemma readTerritory_written:
  assumes "isTerritoryValid t" "r \<noteq> [] \<Longrightarrow> isRegionValid r"
    "open_read F TERRITORYFILE = Some (''territory:'' @ t @ [CHR 0x0A] @ (if r \<noteq> [] then ''region:'' @ r @ [CHR 0x0A] else []))"
  shows "readTerritoryFromFile F s = (True, if r \<noteq> [] then \<lparr>tr_territory = t, tr_region = r\<rparr> else s\<lparr>tr_territory := t\<rparr>)"
proof -
  note t = isTerritoryValidD [OF assms(1)]
  let ?rest = "if r \<noteq> [] then ''region:'' @ r @ [CHR 0x0A] else []"
  have there: "fileExists F TERRITORYFILE"
    using assms(3) by (auto simp: fileExists_def open_read_def split: file_st.splits)
  have "two_lines (''territory:'' @ t @ [CHR 0x0A] @ ?rest) = (''territory:'' @ t, takeWhile (\<lambda>c. c \<noteq> CHR 0x0A) ?rest)"
    using two_lines_line [of "''territory:'' @ t" ?rest] t by simp
  moreover have "takeWhile (\<lambda>c. c \<noteq> CHR 0x0A) ?rest = (if r \<noteq> [] then ''region:'' @ r else [])"
    using assms(2) isRegionValidD [of r] by (auto simp: takeWhile_tail)
  ultimately have lines: "two_lines (case open_read F TERRITORYFILE of Some c \<Rightarrow> c | None \<Rightarrow> [])
      = (''territory:'' @ t, if r \<noteq> [] then ''region:'' @ r else [])"
    using assms(3) by simp
  show ?thesis
    unfolding readTerritoryFromFile_def lines
    using there assms(1,2) extract_territory t extract_region isRegionValidD [of r] by (auto simp: Let_def)
qed

text \<open>
  A territory that is set is read back: after a successful \<open>setTerritory\<close> the methods of any instance
  of the plugin read the territory and the region of the request, the region empty if the request
  had none, and exactly one notification names the new territory.
\<close>

theorem territory_roundtrip:
  assumes "setTerritory D ps resp s F = ((ERROR_NONE, resp'), events, s', F')" "all_written D TERRITORYFILE"
  shows "(let t = member_String ps ''territory''; r = member_String ps ''region''
     in fst (getTerritory [] s0 F') = (ERROR_NONE, [(''territory'', JString t), (''region'', JString r), (''success'', JBool True)])
      \<and> isTerritoryValid t \<and> (r \<noteq> [] \<longrightarrow> isRegionValid r)
      \<and> events = onTerritoryChanged (tr_territory s') t (tr_region s') r)"
proof -
  let ?t = "member_String ps ''territory''" and ?r = "member_String ps ''region''"
  have none: "\<not> HasLabel ps ''region'' \<Longrightarrow> ?r = []" by (auto simp: HasLabel_def member_String_def member_def)
  have v: "isTerritoryValid ?t" "?r \<noteq> [] \<Longrightarrow> isRegionValid ?r"
    and w: "writeTerritory D ?t ?r F = (True, F')" "events = onTerritoryChanged (tr_territory s') ?t (tr_region s') ?r"
    using assms(1) none by (auto simp: setTerritory_def returnResponse_def Let_def split: if_splits prod.splits)
  have t: "?t \<noteq> []" using isTerritoryValidD [OF v(1)] by auto
  have "F' = write_text D TERRITORYFILE
      (''territory:'' @ ?t @ [CHR 0x0A] @ (if ?r \<noteq> [] then ''region:'' @ ?r @ [CHR 0x0A] else [])) F"
    using w(1) t by (simp add: writeTerritory_def split: if_splits)
  then have "open_read F' TERRITORYFILE = Some (''territory:'' @ ?t @ [CHR 0x0A] @ (if ?r \<noteq> [] then ''region:'' @ ?r @ [CHR 0x0A] else []))"
    using assms(2) by simp
  note rd = readTerritory_written [OF v this]
  have "fst (getTerritory [] s0 F') = (ERROR_NONE, [(''territory'', JString ?t), (''region'', JString ?r), (''success'', JBool True)])"
    by (auto simp: getTerritory_def rd returnResponse_def set_member_def)
  then show ?thesis using v w(2) by (simp add: Let_def)
qed

lemma isTerritoryValid_iff: "isTerritoryValid t \<longleftrightarrow> length t = 3 \<and> (\<exists>a b. m_strStandardTerritoryList = a @ t @ b)"
proof
  assume r: "length t = 3 \<and> (\<exists>a b. m_strStandardTerritoryList = a @ t @ b)"
  then obtain p where p: "find_str t m_strStandardTerritoryList = Some p"
    using find_str_None_iff [of t m_strStandardTerritoryList] by (cases "find_str t m_strStandardTerritoryList") auto
  have "length m_strStandardTerritoryList \<le> 1100" by (simp add: m_strStandardTerritoryList_def territories_1_def territories_2_def territories_3_def territories_4_def territories_5_def territories_6_def territories_7_def)
  then have "int p \<le> 1100" using find_str_length [OF p] by simp
  then show "isTerritoryValid t" using r p by (simp add: isTerritoryValid_def)
qed (use isTerritoryValidD in blast)

lemma sample_territory: "isTerritoryValid ''USA''"
proof -
  have "territories_7 = ''TUR TUV TWN TZA UGA UKR UMI URY '' @ ''USA'' @ '' UZB VAT VCT VEN VGB VIR VNM VUT WLF WSM YEM ZAF ZMB ZWE''"
    by (simp add: territories_7_def)
  then have "\<exists>a b. m_strStandardTerritoryList = a @ ''USA'' @ b"
    unfolding m_strStandardTerritoryList_def by (metis append_assoc)
  then show ?thesis by (simp add: isTerritoryValid_iff)
qed

text \<open>The search does not look at whole words: three spaces are a territory.\<close>

lemma blank_territory: "isTerritoryValid ''   ''"
proof -
  have "replicate 16 CHR '' '' = ''   '' @ replicate 13 CHR '' ''" by (simp add: numeral_eq_Suc)
  then have "\<exists>a b. m_strStandardTerritoryList = a @ ''   '' @ b"
    unfolding m_strStandardTerritoryList_def by (metis append_assoc)
  then show "isTerritoryValid ''   ''" by (simp add: isTerritoryValid_iff)
qed

theorem territory_roundtrip_witness:
  "\<exists>resp events s' F'. setTerritory good_disk [(''territory'', JString ''USA''), (''region'', JString ''US-NY'')] []
      \<lparr>tr_territory = [], tr_region = []\<rparr> (\<lambda>_. Missing) = ((ERROR_NONE, resp), events, s', F')
    \<and> fst (getTerritory [] s' F')
      = (ERROR_NONE, [(''territory'', JString ''USA''), (''region'', JString ''US-NY''), (''success'', JBool True)])"
proof -
  let ?ps = "[(''territory'', JString ''USA''), (''region'', JString ''US-NY'')]" and ?s = "\<lparr>tr_territory = [], tr_region = []\<rparr>"
  obtain res resp events s' F' where r: "setTerritory good_disk ?ps [] ?s (\<lambda>_. Missing) = ((res, resp), events, s', F')"
    by (metis prod.exhaust)
  moreover have "isRegionValid ''US-NY''"
    by (simp add: isRegionValid_def isStrAlphaUpper_def c_isupper_def ascii_def)
  ultimately have "res = ERROR_NONE"
    by (auto simp: setTerritory_def HasLabel_def member_String_def member_def sample_territory writeTerritory_def open_write_def
        good_disk_def returnResponse_def Let_def)
  then show ?thesis
    using r territory_roundtrip [of good_disk ?ps "[]" ?s "\<lambda>_. Missing" resp events s' F' s']
    by (auto simp: member_String_def member_def Let_def)
qed

text \<open>
  \<open>getTerritory\<close> always succeeds, and what it returns is empty or valid whatever the file holds: a
  territory is three consecutive characters of the list, a region has a valid form and comes with a
  territory.
\<close>

theorem territory_read_valid:
  "\<exists>t r. fst (getTerritory [] s F) = (ERROR_NONE, [(''territory'', JString t), (''region'', JString r), (''success'', JBool True)])
    \<and> (t \<in> {u. length u = 3 \<and> (\<exists>a b. m_strStandardTerritoryList = a @ u @ b)} \<union> {[]})
    \<and> (r \<in> {u. isRegionValid u \<and> t \<noteq> []} \<union> {[]})"
proof -
  obtain ok s1 where r: "readTerritoryFromFile F \<lparr>tr_territory = [], tr_region = []\<rparr> = (ok, s1)" by (rule prod.exhaust)
  then have "ok \<and> (tr_territory s1 = [] \<or> isTerritoryValid (tr_territory s1))
      \<and> (tr_region s1 = [] \<or> isRegionValid (tr_region s1) \<and> isTerritoryValid (tr_territory s1))"
    by (auto simp: readTerritoryFromFile_def Let_def split: if_splits prod.splits)
  then show ?thesis
    using r isTerritoryValidD [of "tr_territory s1"]
    by (auto simp: getTerritory_def returnResponse_def set_member_def)
qed

text \<open>
  A change without a region leaves the region of the plugin as it was, and the notification of the
  next change has it as the old region, though no region is set.
\<close>

lemma stale_old_region:
  assumes "isTerritoryValid t" "isTerritoryValid t2" "isRegionValid r2" "r2 \<noteq> []"
    "open_read F TERRITORYFILE = Some (''territory:'' @ t @ [CHR 0x0A])" "open_write D F TERRITORYFILE"
  shows "fst (snd (setTerritory D [(''territory'', JString t2), (''region'', JString r2)] [] \<lparr>tr_territory = x, tr_region = old\<rparr> F))
      = onTerritoryChanged t t2 old r2"
    "snd (snd (fst (getTerritory [] s F)) ! 1) = JString []"
proof -
  have rd: "readTerritoryFromFile F s = (True, s\<lparr>tr_territory := t\<rparr>)" for s
    using readTerritory_written [of t "[]" F s] assms(1,5) by simp
  have "t2 \<noteq> []" using isTerritoryValidD [OF assms(2)] by auto
  then show "fst (snd (setTerritory D [(''territory'', JString t2), (''region'', JString r2)] [] \<lparr>tr_territory = x, tr_region = old\<rparr> F))
      = onTerritoryChanged t t2 old r2"
    using assms rd by (simp add: setTerritory_def HasLabel_def member_String_def member_def writeTerritory_def)
  show "snd (snd (fst (getTerritory [] s F)) ! 1) = JString []"
    by (simp add: getTerritory_def rd returnResponse_def set_member_def)
qed

end
