(* ===== verification/TimeZone.thy ===== *)
theory TimeZone imports DeviceState begin

text \<open>
  The time zone of the device in \<open>SystemServices/SystemServices.cpp\<close>: \<open>setTimeZoneDST\<close>,
  \<open>getTimeZoneDST\<close>, and the listing of the time zones, \<open>processTimeZones\<close> and \<open>getTimeZones\<close>.

  Directories are files that exist and cannot be read as a text. The tool \<open>zdump\<close>, \<open>access\<close> and
  \<open>stat\<close> are parameters. The links and the environment that some builds set are left out.
\<close>

definition ZONEINFO_DIR :: string where "ZONEINFO_DIR = ''/usr/share/zoneinfo''"
definition TZ_DEFAULT :: string where "TZ_DEFAULT = ''UTC''"
definition TZ_ACCURACIES :: "string set" where "TZ_ACCURACIES = {''INITIAL'', ''INTERIM'', ''FINAL''}"

section \<open>The time zone\<close>

definition onTimeZoneDSTChanged :: "string \<Rightarrow> string \<Rightarrow> string \<Rightarrow> string \<Rightarrow> notifications" where
  "onTimeZoneDSTChanged oldTimeZone newTimeZone oldAccuracy newAccuracy =
     [(''onTimeZoneDSTChanged'',
       [(''oldTimeZone'', JString oldTimeZone), (''newTimeZone'', JString newTimeZone),
        (''oldAccuracy'', JString oldAccuracy), (''newAccuracy'', JString newAccuracy)])]"

definition city_path :: "string \<Rightarrow> string" where
  "city_path timeZone = ZONEINFO_DIR @ ''/'' @ timeZone"

definition country_path :: "string \<Rightarrow> string" where
  "country_path timeZone =
     ZONEINFO_DIR @ ''/'' @ (case find_char CHR ''/'' timeZone of Some pos \<Rightarrow> take pos timeZone | None \<Rightarrow> timeZone)"

definition new_accuracy :: "json_params \<Rightarrow> string \<Rightarrow> string" where
  "new_accuracy parameters oldAccuracy =
     (if HasLabel parameters ''accuracy'' then
        (let accuracy = member_String parameters ''accuracy''
         in if accuracy \<notin> TZ_ACCURACIES then oldAccuracy else accuracy)
      else oldAccuracy)"

text \<open>
  The tests of the format only write to the log: whatever form the time zone has, what counts is that
  the directory of the zones and the file of the zone exist.
\<close>

definition setTimeZoneDST ::
  "(string \<Rightarrow> bool) \<Rightarrow> disk \<Rightarrow> json_params \<Rightarrow> json_params \<Rightarrow> files \<Rightarrow> (hresult \<times> json_params) \<times> notifications \<times> files" where
  "setTimeZoneDST is_dir D parameters response F =
     (if \<not> HasLabel parameters ''timeZone''
      then (returnResponse True (populateResponseWithError SysSrv_MissingKeyValues response), [], F)
      else
        (let timeZone = member_String parameters ''timeZone''
         in if \<not> (dirExists is_dir (country_path timeZone) \<and> fileExists F (city_path timeZone))
            then (returnResponse False (populateResponseWithError SysSrv_FileNotPresent response), [], F)
            else
              (let oldTimeZoneDST = getTimeZoneDSTHelper F;
                   (resp, response1, F1) =
                     (if oldTimeZoneDST = timeZone then (True, response, F)
                      else if open_write D F TZ_FILE
                      then (length timeZone \<le> dk_written D TZ_FILE timeZone, response, write_text D TZ_FILE timeZone F)
                      else (False, populateResponseWithError SysSrv_FileAccessFailed response, F));
                   oldAccuracy = getTimeZoneAccuracyDSTHelper F1;
                   accuracy = new_accuracy parameters oldAccuracy;
                   (resp1, F2) =
                     (if accuracy \<noteq> oldAccuracy \<and> open_write D F1 TZ_ACCURACY_FILE
                      then (resp \<and> length accuracy \<le> dk_written D TZ_ACCURACY_FILE accuracy, write_text D TZ_ACCURACY_FILE accuracy F1)
                      else (resp, F1))
               in (returnResponse resp1 response1,
                   if oldTimeZoneDST \<noteq> timeZone \<or> oldAccuracy \<noteq> accuracy
                   then onTimeZoneDSTChanged oldTimeZoneDST timeZone oldAccuracy accuracy else [],
                   F2))))"

definition getTimeZoneDST :: "json_params \<Rightarrow> files \<Rightarrow> hresult \<times> json_params" where
  "getTimeZoneDST response F =
     (let (resp, response1) =
        (if fileExists F TZ_FILE then
           (let (ok, timezone) = readFromFile F TZ_FILE []
            in if ok then (True, set_member ''timeZone'' (JString timezone) response)
               else (False, set_member ''timeZone'' (JString ''null'') response))
         else (True, set_member ''timeZone'' (JString TZ_DEFAULT) response))
      in returnResponse resp
        (if resp then set_member ''accuracy'' (JString (getTimeZoneAccuracyDSTHelper F)) response1 else response1))"

section \<open>The list of the time zones\<close>

record zone_env =
  zn_access :: "string \<Rightarrow> bool"
  zn_stat :: "string \<Rightarrow> bool option"
  zn_popen :: "string \<Rightarrow> (string \<times> int) option"

definition zone_space :: "char \<Rightarrow> bool" where
  "zone_space c = (c \<in> {CHR '' '', CHR 0x0A, CHR 0x0D, CHR 0x09})"

definition zone_blank :: "char \<Rightarrow> bool" where
  "zone_blank c = (c = CHR '' '' \<or> c = CHR 0x09)"

definition zone_trim :: "string \<Rightarrow> string" where
  "zone_trim line = rev (dropWhile zone_space (rev (dropWhile zone_space line)))"

text \<open>The last component of a path: \<open>npos + 1\<close> is 0.\<close>

definition zone_name :: "string \<Rightarrow> string" where
  "zone_name fullName = (case find_last_char CHR ''/'' fullName of Some p \<Rightarrow> drop (p + 1) fullName | None \<Rightarrow> fullName)"

text \<open>A line of the output: a directory is kept for later, a zone is written to the object.\<close>

definition zone_line :: "zone_env \<Rightarrow> string \<Rightarrow> string list \<times> json_params \<Rightarrow> string list \<times> json_params" where
  "zone_line E buf = (\<lambda>(dirs, out).
     (let line = zone_trim buf
      in if \<not> list_ex zone_blank line then (dirs, out)
         else (let fullName = takeWhile (\<lambda>c. \<not> zone_blank c) line
               in case zn_stat E fullName of
                    None \<Rightarrow> (dirs, out)
                  | Some True \<Rightarrow> (dirs @ [fullName], out)
                  | Some False \<Rightarrow>
                      (dirs, set_member (zone_name fullName)
                        (JString (dropWhile zone_space (dropWhile (\<lambda>c. \<not> zone_blank c) line))) out))))"

definition zdump_command :: "zone_env \<Rightarrow> string \<Rightarrow> string" where
  "zdump_command E entry = ''zdump '' @ entry @ (if zn_stat E entry = Some True then ''/*'' else [])"

fun zone_dirs :: "(string \<Rightarrow> (bool \<times> json_params) option) \<Rightarrow> string list \<Rightarrow> json_params \<Rightarrow> json_params option" where
  "zone_dirs rec [] out = Some out"
| "zone_dirs rec (dir # dirs) out =
     (case rec dir of
        None \<Rightarrow> None
      | Some (ok, dirObject) \<Rightarrow> zone_dirs rec dirs (set_member (zone_name dir) (JObject dirObject) out))"

text \<open>\<open>depth\<close> bounds the nesting of the directories; \<open>None\<close> is a deeper one.\<close>

fun processTimeZones :: "zone_env \<Rightarrow> nat \<Rightarrow> string \<Rightarrow> json_params \<Rightarrow> (bool \<times> json_params) option" where
  "processTimeZones E 0 entry out = None"
| "processTimeZones E (Suc depth) entry out =
     (if \<not> zn_access E entry then Some (False, out)
      else
        (case zn_popen E (zdump_command E entry) of
           None \<Rightarrow> Some (False, out)
         | Some (text, err) \<Rightarrow>
             (let (dirs, out1) = fold (zone_line E) (fgets_lines 4095 text) ([], out)
              in if err \<noteq> 0 then Some (False, out1)
                 else (case zone_dirs (\<lambda>d. processTimeZones E depth d []) dirs out1 of
                         None \<Rightarrow> None
                       | Some out2 \<Rightarrow> Some (True, out2)))))"

fun zone_requests :: "zone_env \<Rightarrow> nat \<Rightarrow> json list \<Rightarrow> bool \<Rightarrow> json_params \<Rightarrow> (bool \<times> json_params) option" where
  "zone_requests E depth [] resp out = Some (resp, out)"
| "zone_requests E depth (JString s # js) resp out =
     (case processTimeZones E depth (ZONEINFO_DIR @ ''/'' @ s) out of
        None \<Rightarrow> None
      | Some (ok, out1) \<Rightarrow> zone_requests E depth js (ok \<or> resp) out1)"
| "zone_requests E depth (j # js) resp out = zone_requests E depth js resp out"

definition getTimeZones :: "zone_env \<Rightarrow> nat \<Rightarrow> json_params \<Rightarrow> json_params \<Rightarrow> (hresult \<times> json_params) option" where
  "getTimeZones E depth parameters response =
     (if HasLabel parameters ''timeZones'' then
        (case member parameters ''timeZones'' of
           JArray timeZones \<Rightarrow> map_option (\<lambda>(resp, dirObject). returnResponse resp (set_member ''zoneinfo'' (JObject dirObject) response))
             (zone_requests E depth timeZones False [])
         | _ \<Rightarrow> Some (returnResponse False response))
      else map_option (\<lambda>(resp, dirObject). returnResponse resp (set_member ''zoneinfo'' (JObject dirObject) response))
        (processTimeZones E depth ZONEINFO_DIR []))"

section \<open>Properties\<close>

text \<open>The directories that the listing of a directory names.\<close>

definition subdirectories :: "zone_env \<Rightarrow> string \<Rightarrow> string list" where
  "subdirectories E entry =
     (case zn_popen E (zdump_command E entry) of
        Some (text, err) \<Rightarrow> if zn_access E entry \<and> err = 0 then fst (fold (zone_line E) (fgets_lines 4095 text) ([], [])) else []
      | None \<Rightarrow> [])"

lemma zone_line_dirs: "fst (zone_line E buf (dirs, out)) = dirs @ fst (zone_line E buf ([], []))"
  by (simp add: zone_line_def Let_def split: option.split bool.split)

lemma fold_zone_line_dirs:
  "fst (fold (zone_line E) bufs (dirs, out)) = dirs @ fst (fold (zone_line E) bufs ([], []))"
proof (induction bufs arbitrary: dirs out)
  case (Cons buf bufs)
  have split: "fold (zone_line E) bufs p = fold (zone_line E) bufs (fst p, snd p)" for p by simp
  show ?case
    using zone_line_dirs [of E buf dirs out]
    by (simp, subst split, subst Cons.IH, subst (2) split, subst (2) Cons.IH) simp
qed simp

lemma zone_dirs_total: "\<forall>d \<in> set dirs. rec d \<noteq> None \<Longrightarrow> zone_dirs rec dirs out \<noteq> None"
proof (induction dirs arbitrary: out)
  case (Cons d dirs)
  then obtain ok o' where "rec d = Some (ok, o')" by force
  then show ?case using Cons by simp
qed simp

lemma zone_dirs_cong: "\<forall>d \<in> set dirs. rec d = rec' d \<Longrightarrow> zone_dirs rec dirs out = zone_dirs rec' dirs out"
  by (induction dirs arbitrary: out) (auto split: option.split)

text \<open>
  Listing the time zones ends if every directory that a listing names is smaller in some rank, as
  directories without links to their ancestors are: then a depth above the rank is never reached,
  and the result is the same for every greater one.
\<close>

theorem zones_listed:
  assumes "\<And>entry dir. dir \<in> set (subdirectories E entry) \<Longrightarrow> rank dir < rank entry" "rank entry < depth"
  shows "processTimeZones E depth entry out \<noteq> None
    \<and> processTimeZones E (depth + k) entry out = processTimeZones E depth entry out"
  using assms(2)
proof (induction depth arbitrary: entry out)
  case (Suc depth)
  show ?case
  proof (cases "zn_popen E (zdump_command E entry)")
    case None
    then show ?thesis by (simp del: not_None_eq)
  next
    case (Some p)
    obtain tx err where p: "p = (tx, err)" by (rule prod.exhaust)
    obtain dirs out1 where d: "fold (zone_line E) (fgets_lines 4095 tx) ([], out) = (dirs, out1)" by (rule prod.exhaust)
    show ?thesis
    proof (cases "zn_access E entry \<and> err = 0")
      case True
      then have "dirs = subdirectories E entry"
        using fold_zone_line_dirs [of E "fgets_lines 4095 tx" "[]" out] d Some p by (simp add: subdirectories_def)
      then have "\<forall>x \<in> set dirs. rank x < depth" using assms(1) Suc.prems by fastforce
      then have "\<forall>x \<in> set dirs. processTimeZones E depth x [] \<noteq> None"
        "\<forall>x \<in> set dirs. processTimeZones E (depth + k) x [] = processTimeZones E depth x []"
        using Suc.IH by blast+
      then show ?thesis
        using zone_dirs_total [of dirs "\<lambda>x. processTimeZones E depth x []" out1]
          zone_dirs_cong [of dirs "\<lambda>x. processTimeZones E (depth + k) x []" "\<lambda>x. processTimeZones E depth x []" out1] Some p d True
        by (auto simp del: not_None_eq split: option.split)
    next
      case False
      then show ?thesis using Some p d by (auto simp del: not_None_eq)
    qed
  qed
qed simp

definition sample_zones :: zone_env where
  "sample_zones = \<lparr>zn_access = (\<lambda>_. True), zn_stat = (\<lambda>p. Some (p = ''/z'' \<or> p = ''/z/A'')),
     zn_popen = (\<lambda>c. Some (if c = ''zdump /z/*'' then ''/z/A d'' else if c = ''zdump /z/A/*'' then ''/z/A/B  UTC'' else [], 0))\<rparr>"

lemma sample_lines:
  "fgets_lines 4095 ''/z/A d'' = [''/z/A d'']" "fgets_lines 4095 ''/z/A/B  UTC'' = [''/z/A/B  UTC'']" "fgets_lines n [] = []"
  by (simp_all add: fgets_lines_short fgets_lines.simps [of n "[]"])

lemma sample_zone_lines:
  "zone_line sample_zones ''/z/A d'' ([], out) = ([''/z/A''], out)"
  "zone_line sample_zones ''/z/A/B  UTC'' ([], []) = ([], [(''B'', JString ''UTC'')])"
  by (simp_all add: zone_line_def zone_trim_def zone_space_def zone_blank_def sample_zones_def zone_name_def find_last_char_def
      set_member_def)

theorem zones_listed_witness:
  "processTimeZones sample_zones 2 ''/z'' [] \<noteq> None
    \<and> processTimeZones sample_zones 2 ''/z'' [] = Some (True, [(''A'', JObject [(''B'', JString ''UTC'')])])"
proof -
  let ?rank = "\<lambda>e. if e = ''/z'' \<or> e = ''/z/*'' then 1 else 0 :: nat"
  have cmd: "zdump_command sample_zones e = ''zdump /z/*'' \<Longrightarrow> e = ''/z'' \<or> e = ''/z/*''" for e
    by (auto simp: zdump_command_def sample_zones_def split: if_splits)
  have sub: "?rank d < ?rank e" if "d \<in> set (subdirectories sample_zones e)" for d e
  proof (cases "zdump_command sample_zones e = ''zdump /z/*''")
    case True
    then have "d = ''/z/A''"
      using that sample_lines(1) sample_zone_lines(1) by (simp add: subdirectories_def sample_zones_def split: if_splits)
    then show ?thesis using cmd [OF True] by auto
  next
    case False
    then have "set (subdirectories sample_zones e) = {}"
      using sample_lines sample_zone_lines(2) by (simp add: subdirectories_def sample_zones_def split: if_splits)
    then show ?thesis using that by simp
  qed
  have 1: "processTimeZones sample_zones 2 ''/z'' [] \<noteq> None"
    using zones_listed [where rank = ?rank and E = sample_zones and depth = 2 and entry = "''/z''" and out = "[]", OF sub] by simp
  have z: "zdump_command sample_zones ''/z'' = ''zdump /z/*''" "zdump_command sample_zones ''/z/A'' = ''zdump /z/A/*''"
    "zn_access sample_zones e" "zn_popen sample_zones ''zdump /z/*'' = Some (''/z/A d'', 0)"
    "zn_popen sample_zones ''zdump /z/A/*'' = Some (''/z/A/B  UTC'', 0)" for e
    by (simp_all add: zdump_command_def sample_zones_def)
  have "processTimeZones sample_zones 2 ''/z'' [] = Some (True, [(''A'', JObject [(''B'', JString ''UTC'')])])"
    by (simp add: numeral_2_eq_2 z sample_lines sample_zone_lines zone_name_def find_last_char_def set_member_def)
  then show ?thesis using 1 by blast
qed

lemma file_lines_one: "s \<noteq> [] \<Longrightarrow> CHR 0x0A \<notin> set s \<Longrightarrow> file_lines s = [s]"
proof -
  have "file_lines_acc acc s = (if acc = [] \<and> s = [] then [] else [rev acc @ s])" if "CHR 0x0A \<notin> set s" for acc
    using that by (induction acc s rule: file_lines_acc.induct) auto
  then show "s \<noteq> [] \<Longrightarrow> CHR 0x0A \<notin> set s \<Longrightarrow> file_lines s = [s]" by (simp add: file_lines_def)
qed

lemma helper_one:
  "open_read F TZ_FILE = Some s \<Longrightarrow> CHR 0x0A \<notin> set s \<Longrightarrow> getTimeZoneDSTHelper F = s"
proof -
  assume s: "open_read F TZ_FILE = Some s" "CHR 0x0A \<notin> set s"
  then have "fileExists F TZ_FILE" by (auto simp: fileExists_def open_read_def)
  then show ?thesis
    using s file_lines_one [of s] by (cases "s = []") (auto simp: getTimeZoneDSTHelper_def getFileContent_lines_def file_lines_def)
qed

lemma accuracy_one:
  "open_read F TZ_ACCURACY_FILE = Some a \<Longrightarrow> a \<in> TZ_ACCURACIES \<Longrightarrow> getTimeZoneAccuracyDSTHelper F = a"
proof -
  assume a: "open_read F TZ_ACCURACY_FILE = Some a" "a \<in> TZ_ACCURACIES"
  then have "fileExists F TZ_ACCURACY_FILE" "file_lines a = [a]" "a \<noteq> []"
    using file_lines_one [of a] by (auto simp: fileExists_def open_read_def TZ_ACCURACIES_def)
  then show ?thesis using a by (auto simp: getTimeZoneAccuracyDSTHelper_def getFileContent_lines_def TZ_ACCURACIES_def)
qed

lemma tz_files [simp]: "TZ_FILE \<noteq> TZ_ACCURACY_FILE" "TZ_ACCURACY_FILE \<noteq> TZ_FILE"
  by (simp_all add: TZ_FILE_def TZ_ACCURACY_FILE_def)

text \<open>
  A time zone that is set is read back: after a successful \<open>setTimeZoneDST\<close> of a zone,
  \<open>getTimeZoneDST\<close> returns it, together with the accuracy of the request if that is one of the three
  and its file can be written, and a notification is sent exactly if the zone or the accuracy is new.
\<close>

theorem time_zone_roundtrip:
  assumes "setTimeZoneDST is_dir D ps resp F = ((ERROR_NONE, resp'), events, F')" "HasLabel ps ''timeZone''"
    "tz = member_String ps ''timeZone''" "tz \<noteq> []" "CHR 0x0A \<notin> set tz"
    "\<forall>s. open_read F TZ_FILE = Some s \<longrightarrow> CHR 0x0A \<notin> set s" "all_written D TZ_FILE" "all_written D TZ_ACCURACY_FILE"
  shows "\<exists>a. getTimeZoneDST [] F' = (ERROR_NONE, [(''timeZone'', JString tz), (''accuracy'', JString a), (''success'', JBool True)])
    \<and> (HasLabel ps ''accuracy'' \<and> member_String ps ''accuracy'' \<in> TZ_ACCURACIES \<and> open_write D F TZ_ACCURACY_FILE
        \<longrightarrow> a = member_String ps ''accuracy'')
    \<and> (events = [] \<longleftrightarrow> getTimeZoneDSTHelper F = tz \<and> new_accuracy ps (getTimeZoneAccuracyDSTHelper F) = getTimeZoneAccuracyDSTHelper F)"
proof -
  let ?old = "getTimeZoneDSTHelper F" and ?acc = "getTimeZoneAccuracyDSTHelper F"
  let ?new = "new_accuracy ps ?acc"
  define F1 where "F1 = (if ?old = tz then F else write_text D TZ_FILE tz F)"
  have same: "getTimeZoneAccuracyDSTHelper F1 = ?acc" "open_write D F1 TZ_ACCURACY_FILE = open_write D F TZ_ACCURACY_FILE"
    by (simp_all add: F1_def getTimeZoneAccuracyDSTHelper_def getFileContent_lines_def open_write_def write_text_def open_read_def fileExists_def)
  have ok: "length s \<le> dk_written D TZ_FILE s" "length s \<le> dk_written D TZ_ACCURACY_FILE s" for s
    using assms(7,8) by (simp_all add: all_written_def)
  have F': "F' = (if ?new \<noteq> ?acc \<and> open_write D F TZ_ACCURACY_FILE then write_text D TZ_ACCURACY_FILE ?new F1 else F1)"
    and ev: "events = (if ?old \<noteq> tz \<or> ?acc \<noteq> ?new then onTimeZoneDSTChanged ?old tz ?acc ?new else [])"
    using assms(1-3) same ok
    by (auto simp: setTimeZoneDST_def returnResponse_def Let_def F1_def split: if_splits)
  have tz: "open_read F1 TZ_FILE = Some tz"
  proof (cases "?old = tz")
    case True
    then obtain s where s: "open_read F TZ_FILE = Some s"
      using assms(4) by (auto simp: getTimeZoneDSTHelper_def getFileContent_lines_def split: if_splits option.splits)
    then show ?thesis using helper_one [OF s] assms(6) True by (simp add: F1_def)
  qed (use assms(7) in \<open>simp add: F1_def\<close>)
  then have "open_read F' TZ_FILE = Some tz" by (simp add: F')
  moreover then have "fileExists F' TZ_FILE" by (auto simp: fileExists_def open_read_def)
  moreover have "takeWhile (\<lambda>c. c \<noteq> CHR 0x0A) tz = tz" using assms(5) by (auto simp: takeWhile_eq_all_conv)
  ultimately have get: "getTimeZoneDST [] F' = (ERROR_NONE, [(''timeZone'', JString tz),
      (''accuracy'', JString (getTimeZoneAccuracyDSTHelper F')), (''success'', JBool True)])"
    by (simp add: getTimeZoneDST_def readFromFile_def returnResponse_def set_member_def)
  have "getTimeZoneAccuracyDSTHelper F' = member_String ps ''accuracy''"
    if "HasLabel ps ''accuracy''" "member_String ps ''accuracy'' \<in> TZ_ACCURACIES" "open_write D F TZ_ACCURACY_FILE"
  proof -
    have "?new = member_String ps ''accuracy''" using that by (simp add: new_accuracy_def)
    then show ?thesis using that(2,3) accuracy_one [of F' ?new] assms(8) same F' by (cases "?new = ?acc") auto
  qed
  then show ?thesis using get ev by (auto simp: onTimeZoneDSTChanged_def)
qed

theorem time_zone_roundtrip_witness:
  "\<exists>resp events F'. setTimeZoneDST (\<lambda>_. True) good_disk [(''timeZone'', JString ''Europe/Rome''), (''accuracy'', JString ''FINAL'')] []
      ((\<lambda>_. Missing)(city_path ''Europe/Rome'' := Regular [])) = ((ERROR_NONE, resp), events, F')
    \<and> getTimeZoneDST [] F'
      = (ERROR_NONE, [(''timeZone'', JString ''Europe/Rome''), (''accuracy'', JString ''FINAL''), (''success'', JBool True)])"
proof -
  let ?ps = "[(''timeZone'', JString ''Europe/Rome''), (''accuracy'', JString ''FINAL'')]"
  let ?F = "(\<lambda>_. Missing)(city_path ''Europe/Rome'' := Regular [])"
  obtain res resp events F' where r: "setTimeZoneDST (\<lambda>_. True) good_disk ?ps [] ?F = ((res, resp), events, F')"
    by (metis prod.exhaust)
  have c: "city_path ''Europe/Rome'' \<noteq> TZ_FILE" "city_path ''Europe/Rome'' \<noteq> TZ_ACCURACY_FILE"
    by (simp_all add: city_path_def ZONEINFO_DIR_def TZ_FILE_def TZ_ACCURACY_FILE_def)
  have "res = ERROR_NONE"
    using r c by (auto simp: setTimeZoneDST_def HasLabel_def member_String_def member_def dirExists_def fileExists_def good_disk_def
        getTimeZoneDSTHelper_def open_write_def returnResponse_def Let_def split: if_splits)
  moreover have create: "dk_create good_disk p" for p by (simp add: good_disk_def)
  moreover have "open_read ?F TZ_FILE = None" using c by (simp add: open_read_def)
  ultimately show ?thesis
    using r c time_zone_roundtrip [of "\<lambda>_. True" good_disk ?ps "[]" ?F resp events F' "''Europe/Rome''"]
    by (auto simp: HasLabel_def member_String_def member_def TZ_ACCURACIES_def open_write_def create)
qed

text \<open>
  Every form is taken: an empty zone passes if the directory of the zones exists, and a request without
  a zone is a success.
\<close>

lemma any_time_zone:
  "\<not> HasLabel ps ''timeZone'' \<Longrightarrow> fst (fst (setTimeZoneDST is_dir D ps resp F)) = ERROR_NONE"
  "is_dir (ZONEINFO_DIR @ ''/'') \<Longrightarrow> fileExists F (ZONEINFO_DIR @ ''/'') \<Longrightarrow> open_write D F TZ_FILE \<Longrightarrow>
   fst (fst (setTimeZoneDST is_dir D [(''timeZone'', JString [])] [] F)) = ERROR_NONE"
proof -
  show "\<not> HasLabel ps ''timeZone'' \<Longrightarrow> fst (fst (setTimeZoneDST is_dir D ps resp F)) = ERROR_NONE"
    by (simp add: setTimeZoneDST_def returnResponse_def)
  have "dirnameOf (ZONEINFO_DIR @ ''/'') = ZONEINFO_DIR @ ''/''"
    by (simp add: dirnameOf_def find_last_char_def ZONEINFO_DIR_def)
  then show "is_dir (ZONEINFO_DIR @ ''/'') \<Longrightarrow> fileExists F (ZONEINFO_DIR @ ''/'') \<Longrightarrow> open_write D F TZ_FILE \<Longrightarrow>
   fst (fst (setTimeZoneDST is_dir D [(''timeZone'', JString [])] [] F)) = ERROR_NONE"
    by (simp add: setTimeZoneDST_def HasLabel_def member_String_def member_def dirExists_def country_path_def city_path_def
        new_accuracy_def returnResponse_def Let_def)
qed

end
