(* ===== verification/ServicePower.thy ===== *)
theory ServicePower imports DeviceState PowerTypes begin

text \<open>
  The power management methods of SystemServices, \<open>SystemServices/SystemServices.cpp\<close>: the names of
  wake-up sources, reasons and states, reboot, sleep timer, network standby mode, power state, wake-up
  configuration, the notifications that come from the power manager and from the bus, and the log
  upload that some of them start and stop.

  The power manager plugin is a record of its methods on a state of any type, \<open>None\<close> if the interface
  could not be acquired. \<open>code\<close> gives the numbers of the result codes of the framework.
\<close>

record 's standby_plugin =
  ip_SetNetworkStandbyMode :: "bool \<Rightarrow> 's \<Rightarrow> hresult \<times> 's"
  ip_GetNetworkStandbyMode :: "'s \<Rightarrow> hresult \<times> bool"

record 's power_plugin = "'s standby_plugin" +
  ip_Reboot :: "string \<Rightarrow> string \<Rightarrow> string \<Rightarrow> 's \<Rightarrow> hresult \<times> 's"
  ip_SetDeepSleepTimer :: "int \<Rightarrow> 's \<Rightarrow> hresult \<times> 's"
  ip_GetLastWakeupReason :: "'s \<Rightarrow> hresult \<times> WakeupReason"
  ip_GetLastWakeupKeyCode :: "'s \<Rightarrow> hresult \<times> int"
  ip_GetPowerState :: "'s \<Rightarrow> hresult \<times> PowerState \<times> PowerState"
  ip_SetPowerState :: "int \<Rightarrow> PowerState \<Rightarrow> string \<Rightarrow> 's \<Rightarrow> hresult \<times> 's"
  ip_GetPowerStateBeforeReboot :: "'s \<Rightarrow> hresult \<times> PowerState"
  ip_SetWakeupSourceConfig :: "WakeupSourceConfig list \<Rightarrow> 's \<Rightarrow> hresult \<times> 's"

section \<open>Names\<close>

definition svc_conv :: "string \<Rightarrow> WakeupSrcType" where
  "svc_conv wakeupSrc =
     (let src = map c_toupper wakeupSrc in
      if src = ''WAKEUPSRC_VOICE'' then WAKEUP_SRC_VOICE
      else if src = ''WAKEUPSRC_PRESENCE_DETECTION'' then WAKEUP_SRC_PRESENCEDETECTED
      else if src = ''WAKEUPSRC_BLUETOOTH'' then WAKEUP_SRC_BLUETOOTH
      else if src = ''WAKEUPSRC_WIFI'' then WAKEUP_SRC_WIFI
      else if src = ''WAKEUPSRC_IR'' then WAKEUP_SRC_IR
      else if src = ''WAKEUPSRC_POWER_KEY'' then WAKEUP_SRC_POWERKEY
      else if src = ''WAKEUPSRC_TIMER'' then WAKEUP_SRC_TIMER
      else if src = ''WAKEUPSRC_CEC'' then WAKEUP_SRC_CEC
      else if src = ''WAKEUPSRC_LAN'' then WAKEUP_SRC_LAN
      else if src = ''WAKEUPSRC_RF4CE'' then WAKEUP_SRC_RF4CE
      else WAKEUP_SRC_UNKNOWN)"

fun getWakeupSrcString :: "WakeupSrcType \<Rightarrow> string" where
  "getWakeupSrcString WAKEUP_SRC_VOICE = ''WAKEUPSRC_VOICE''"
| "getWakeupSrcString WAKEUP_SRC_PRESENCEDETECTED = ''WAKEUPSRC_PRESENCE_DETECTION''"
| "getWakeupSrcString WAKEUP_SRC_BLUETOOTH = ''WAKEUPSRC_BLUETOOTH''"
| "getWakeupSrcString WAKEUP_SRC_RF4CE = ''WAKEUPSRC_RF4CE''"
| "getWakeupSrcString WAKEUP_SRC_WIFI = ''WAKEUPSRC_WIFI''"
| "getWakeupSrcString WAKEUP_SRC_IR = ''WAKEUPSRC_IR''"
| "getWakeupSrcString WAKEUP_SRC_POWERKEY = ''WAKEUPSRC_POWER_KEY''"
| "getWakeupSrcString WAKEUP_SRC_TIMER = ''WAKEUPSRC_TIMER''"
| "getWakeupSrcString WAKEUP_SRC_CEC = ''WAKEUPSRC_CEC''"
| "getWakeupSrcString WAKEUP_SRC_LAN = ''WAKEUPSRC_LAN''"
| "getWakeupSrcString WAKEUP_SRC_UNKNOWN = []"

fun powerModeEnumToString :: "PowerState \<Rightarrow> string" where
  "powerModeEnumToString POWER_STATE_ON = ''ON''"
| "powerModeEnumToString POWER_STATE_OFF = ''OFF''"
| "powerModeEnumToString POWER_STATE_STANDBY = ''LIGHT_SLEEP''"
| "powerModeEnumToString POWER_STATE_STANDBY_LIGHT_SLEEP = ''LIGHT_SLEEP''"
| "powerModeEnumToString POWER_STATE_STANDBY_DEEP_SLEEP = ''DEEP_SLEEP''"
| "powerModeEnumToString POWER_STATE_UNKNOWN = []"

fun getWakeupReasonString :: "WakeupReason \<Rightarrow> string" where
  "getWakeupReasonString WAKEUP_REASON_IR = ''WAKEUP_REASON_IR''"
| "getWakeupReasonString WAKEUP_REASON_BLUETOOTH = ''WAKEUP_REASON_RCU_BT''"
| "getWakeupReasonString WAKEUP_REASON_RF4CE = ''WAKEUP_REASON_RCU_RF4CE''"
| "getWakeupReasonString WAKEUP_REASON_GPIO = ''WAKEUP_REASON_GPIO''"
| "getWakeupReasonString WAKEUP_REASON_LAN = ''WAKEUP_REASON_LAN''"
| "getWakeupReasonString WAKEUP_REASON_WIFI = ''WAKEUP_REASON_WLAN''"
| "getWakeupReasonString WAKEUP_REASON_TIMER = ''WAKEUP_REASON_TIMER''"
| "getWakeupReasonString WAKEUP_REASON_FRONTPANEL = ''WAKEUP_REASON_FRONT_PANEL''"
| "getWakeupReasonString WAKEUP_REASON_WATCHDOG = ''WAKEUP_REASON_WATCHDOG''"
| "getWakeupReasonString WAKEUP_REASON_SOFTWARERESET = ''WAKEUP_REASON_SOFTWARE_RESET''"
| "getWakeupReasonString WAKEUP_REASON_THERMALRESET = ''WAKEUP_REASON_THERMAL_RESET''"
| "getWakeupReasonString WAKEUP_REASON_WARMRESET = ''WAKEUP_REASON_WARM_RESET''"
| "getWakeupReasonString WAKEUP_REASON_COLDBOOT = ''WAKEUP_REASON_COLDBOOT''"
| "getWakeupReasonString WAKEUP_REASON_STRAUTHFAIL = ''WAKEUP_REASON_STR_AUTH_FAILURE''"
| "getWakeupReasonString WAKEUP_REASON_CEC = ''WAKEUP_REASON_CEC''"
| "getWakeupReasonString WAKEUP_REASON_PRESENCE = ''WAKEUP_REASON_PRESENCE''"
| "getWakeupReasonString WAKEUP_REASON_VOICE = ''WAKEUP_REASON_VOICE''"
| "getWakeupReasonString WAKEUP_REASON_UNKNOWN = []"

section \<open>Requests\<close>

definition requestSystemReboot ::
  "(hresult \<Rightarrow> int) \<Rightarrow> 's power_plugin option \<Rightarrow> json_params \<Rightarrow> json_params \<Rightarrow> 's \<Rightarrow> (hresult \<times> json_params) \<times> 's" where
  "requestSystemReboot code plugin parameters response s =
     (let customReason = (if HasLabel parameters ''rebootReason'' then member_String parameters ''rebootReason''
                          else ''No custom reason provided'');
          otherReason = (if HasLabel parameters ''rebootReason'' then customReason else ''No other reason supplied'');
          (result, status, s1) =
            (case plugin of
               Some p \<Rightarrow> (let (status, s1) = ip_Reboot p ''SystemServices'' customReason otherReason s in (True, status, s1))
             | None \<Rightarrow> (False, ERROR_ILLEGAL_STATE, s))
      in (returnResponse result (set_member ''IARM_Bus_Call_STATUS'' (JNumber (code status)) response), s1))"

text \<open>The parameters that are written to the remote configuration; \<open>ok\<close> is whether that succeeds.\<close>

definition setFirmwareAutoReboot ::
  "bool \<Rightarrow> json_params \<Rightarrow> json_params \<Rightarrow> (hresult \<times> json_params) \<times> (string \<times> string) list" where
  "setFirmwareAutoReboot ok parameters response =
     (if HasLabel parameters ''enable''
      then (returnResponse ok response,
        [(''Device.DeviceInfo.X_RDKCENTRAL-COM_RFC.Feature.AutoReboot.Enable'', member_String parameters ''enable'')])
      else (returnResponse False (populateResponseWithError SysSrv_MissingKeyValues response), []))"

definition setDeepSleepTimer ::
  "variant \<Rightarrow> 's power_plugin option \<Rightarrow> json_params \<Rightarrow> json_params \<Rightarrow> 's \<Rightarrow> (hresult \<times> json_params) \<times> 's" where
  "setDeepSleepTimer V plugin parameters response s =
     (if HasLabel parameters ''seconds'' then
        (let timeoutValue = to_int32 (variant_Number V (member parameters ''seconds''));
             timeoutValue1 = (if 0 > timeoutValue \<or> 864000 < timeoutValue then 0 else timeoutValue);
             (retStatus, s1) = (case plugin of Some p \<Rightarrow> ip_SetDeepSleepTimer p timeoutValue1 s | None \<Rightarrow> (ERROR_GENERAL, s))
         in (returnResponse (retStatus = ERROR_NONE) response, s1))
      else (returnResponse False (populateResponseWithError SysSrv_MissingKeyValues response), s))"

text \<open>The members of the plugin that cache values of the power manager.\<close>

record pm_cache =
  ca_networkStandbyMode :: bool
  ca_networkStandbyModeValid :: bool
  ca_powerStateBeforeReboot :: string
  ca_powerStateBeforeRebootValid :: bool

text \<open>\<open>during\<close> is what the notifications that arrive during the call do to the cache.\<close>

definition setNetworkStandbyMode ::
  "variant \<Rightarrow> ('s, 'x) standby_plugin_scheme option \<Rightarrow> ('s \<Rightarrow> 's \<Rightarrow> pm_cache \<Rightarrow> pm_cache) \<Rightarrow> json_params \<Rightarrow> json_params \<Rightarrow> pm_cache \<Rightarrow> 's
     \<Rightarrow> (hresult \<times> json_params) \<times> pm_cache \<times> 's" where
  "setNetworkStandbyMode V plugin during parameters response c s =
     (if HasLabel parameters ''nwStandby'' then
        (let bStandbyMode = variant_Boolean V (member parameters ''nwStandby'');
             (retStatus, s1) = (case plugin of Some p \<Rightarrow> ip_SetNetworkStandbyMode p bStandbyMode s | None \<Rightarrow> (ERROR_GENERAL, s));
             c1 = during s s1 c
         in (returnResponse (retStatus = ERROR_NONE) response,
             if retStatus = ERROR_NONE then c1\<lparr>ca_networkStandbyModeValid := False\<rparr> else c1, s1))
      else (returnResponse False (populateResponseWithError SysSrv_MissingKeyValues response), c, s))"

text \<open>
  The mode is asked for, and the answer is stored later: \<open>between\<close> is what the notifications that
  arrive after the answer and before the store do to the cache, which no lock keeps out.
\<close>

definition ask_standby_mode :: "('s, 'x) standby_plugin_scheme option \<Rightarrow> 's \<Rightarrow> hresult \<times> bool" where
  "ask_standby_mode plugin s = (case plugin of Some p \<Rightarrow> ip_GetNetworkStandbyMode p s | None \<Rightarrow> (ERROR_GENERAL, False))"

definition store_standby_mode :: "hresult \<times> bool \<Rightarrow> json_params \<Rightarrow> pm_cache \<Rightarrow> (hresult \<times> json_params) \<times> pm_cache" where
  "store_standby_mode answer response c =
     (let (retStatus, nwStandby) = answer;
          response1 = set_member ''nwStandby'' (JBool nwStandby) response
      in if retStatus = ERROR_NONE
         then (returnResponse True response1, c\<lparr>ca_networkStandbyMode := nwStandby, ca_networkStandbyModeValid := True\<rparr>)
         else (returnResponse False response1, c))"

definition getNetworkStandbyMode ::
  "('s, 'x) standby_plugin_scheme option \<Rightarrow> (pm_cache \<Rightarrow> pm_cache) \<Rightarrow> json_params \<Rightarrow> pm_cache \<Rightarrow> 's
     \<Rightarrow> (hresult \<times> json_params) \<times> pm_cache" where
  "getNetworkStandbyMode plugin between response c s =
     (if ca_networkStandbyModeValid c
      then (returnResponse True (set_member ''nwStandby'' (JBool (ca_networkStandbyMode c)) response), c)
      else store_standby_mode (ask_standby_mode plugin s) response (between c))"

definition onNetworkModeChanged :: "bool \<Rightarrow> pm_cache \<Rightarrow> pm_cache \<times> notifications" where
  "onNetworkModeChanged bNetworkStandbyMode c =
     (c\<lparr>ca_networkStandbyMode := bNetworkStandbyMode, ca_networkStandbyModeValid := True\<rparr>,
      [(''onNetworkStandbyModeChanged'', [(''nwStandby'', JBool bNetworkStandbyMode)])])"

definition getPowerStateBeforeReboot ::
  "'s power_plugin option \<Rightarrow> json_params \<Rightarrow> pm_cache \<Rightarrow> 's \<Rightarrow> (hresult \<times> json_params) \<times> pm_cache" where
  "getPowerStateBeforeReboot plugin response c s =
     (if ca_powerStateBeforeRebootValid c
      then (returnResponse True (set_member ''state'' (JString (ca_powerStateBeforeReboot c)) response), c)
      else
        (let (retStatus, state) = (case plugin of Some p \<Rightarrow> ip_GetPowerStateBeforeReboot p s | None \<Rightarrow> (ERROR_GENERAL, POWER_STATE_UNKNOWN));
             text = powerModeEnumToString state;
             response1 = set_member ''state'' (JString text) response
         in if retStatus = ERROR_NONE
            then (returnResponse True response1, c\<lparr>ca_powerStateBeforeReboot := text, ca_powerStateBeforeRebootValid := True\<rparr>)
            else (returnResponse False response1, c)))"

definition getWakeupReason :: "'s power_plugin option \<Rightarrow> json_params \<Rightarrow> 's \<Rightarrow> hresult \<times> json_params" where
  "getWakeupReason plugin response s =
     (let (retStatus, param) = (case plugin of Some p \<Rightarrow> ip_GetLastWakeupReason p s | None \<Rightarrow> (ERROR_GENERAL, WAKEUP_REASON_UNKNOWN));
          ok = (retStatus = ERROR_NONE);
          wakeupReason = (if ok then getWakeupReasonString param else ''WAKEUP_REASON_UNKNOWN'')
      in returnResponse ok (set_member ''wakeupReason'' (JString wakeupReason) response))"

definition getLastWakeupKeyCode :: "'s power_plugin option \<Rightarrow> json_params \<Rightarrow> 's \<Rightarrow> hresult \<times> json_params" where
  "getLastWakeupKeyCode plugin response s =
     (let (retStatus, keyCode) = (case plugin of Some p \<Rightarrow> ip_GetLastWakeupKeyCode p s | None \<Rightarrow> (ERROR_GENERAL, 0));
          ok = (retStatus = ERROR_NONE);
          wakeupKeyCode = (if ok then word_of_int keyCode else 0 :: u32)
      in returnResponse ok (set_member ''wakeupKeyCode'' (JNumber (uint wakeupKeyCode)) response))"

definition getDevicePowerState :: "'s power_plugin option \<Rightarrow> json_params \<Rightarrow> 's \<Rightarrow> hresult \<times> json_params" where
  "getDevicePowerState plugin response s =
     (let (retStatus, pwrStateCur) =
            (case plugin of
               Some p \<Rightarrow> (let (e, cur, prev) = ip_GetPowerState p s in (e, cur))
             | None \<Rightarrow> (ERROR_GENERAL, POWER_STATE_UNKNOWN));
          powerState =
            (if retStatus = ERROR_NONE then
               (if pwrStateCur = POWER_STATE_ON then ''ON''
                else if pwrStateCur = POWER_STATE_STANDBY \<or> pwrStateCur = POWER_STATE_STANDBY_LIGHT_SLEEP
                  \<or> pwrStateCur = POWER_STATE_STANDBY_DEEP_SLEEP then ''STANDBY''
                else ''UNKNOWN'')
             else ''UNKNOWN'')
      in returnResponse (powerState \<noteq> ''UNKNOWN'') (set_member ''powerState'' (JString powerState) response))"

definition svc_setPowerState :: "'s power_plugin option \<Rightarrow> string \<Rightarrow> 's \<Rightarrow> bool \<times> 's" where
  "svc_setPowerState plugin powerState s =
     (let call = (\<lambda>st. (let (status, s1) = (case plugin of Some p \<Rightarrow> ip_SetPowerState p 0 st ''random'' s | None \<Rightarrow> (ERROR_GENERAL, s))
                        in (status \<noteq> ERROR_GENERAL, s1)))
      in if powerState = ''STANDBY'' then call POWER_STATE_STANDBY
         else if powerState = ''ON'' then call POWER_STATE_ON
         else if powerState = ''DEEP_SLEEP'' then call POWER_STATE_STANDBY_DEEP_SLEEP
         else if powerState = ''LIGHT_SLEEP'' then call POWER_STATE_STANDBY
         else (False, s))"

definition STANDBY_REASON_FILE :: string where "STANDBY_REASON_FILE = ''/opt/standbyReason.txt''"

text \<open>
  \<open>sleepMode\<close> is the preferred sleep mode of the device. The last results are the member
  \<open>m_current_state\<close>, unchanged if the request has no state, the state and the files.
\<close>

definition svc_setDevicePowerState ::
  "'s power_plugin option \<Rightarrow> string \<Rightarrow> disk \<Rightarrow> json_params \<Rightarrow> json_params \<Rightarrow> string \<Rightarrow> 's \<Rightarrow> files
     \<Rightarrow> (hresult \<times> json_params) \<times> string \<times> 's \<times> files" where
  "svc_setDevicePowerState plugin sleepMode D parameters response m_current_state s F =
     (if HasLabel parameters ''powerState'' then
        (let state = member_String parameters ''powerState'';
             reason0 = member_String parameters ''standbyReason'';
             reason = (if length reason0 \<noteq> 0 then reason0 else ''application'')
         in if state = ''LIGHT_SLEEP'' \<or> state = ''DEEP_SLEEP'' then
              (let (retVal, s1) = svc_setPowerState plugin (if convert ''DEEP_SLEEP'' sleepMode then sleepMode else state) s
               in if open_write D F STANDBY_REASON_FILE
                  then (returnResponse retVal response, state, s1, write_text D STANDBY_REASON_FILE reason F)
                  else (returnResponse retVal (populateResponseWithError SysSrv_FileAccessFailed response), state, s1, F))
            else (let (retVal, s1) = svc_setPowerState plugin state s in (returnResponse retVal response, state, s1, F)))
      else (returnResponse False (populateResponseWithError SysSrv_MissingKeyValues response), m_current_state, s, F))"

text \<open>The configurations that a request holds: known sources with a value, in order.\<close>

definition wakeup_entries :: "variant \<Rightarrow> json_params \<Rightarrow> WakeupSourceConfig list" where
  "wakeup_entries V wakeupSrc =
     concat (map (\<lambda>(label, v). if svc_conv label = WAKEUP_SRC_UNKNOWN \<or> v = JNull then []
       else [\<lparr>wakeupSource = svc_conv label, enabled = variant_Boolean V v\<rparr>]) wakeupSrc)"

definition setWakeupSrcConfiguration ::
  "variant \<Rightarrow> 's power_plugin option \<Rightarrow> json_params \<Rightarrow> json_params \<Rightarrow> 's \<Rightarrow> (hresult \<times> json_params) \<times> 's" where
  "setWakeupSrcConfiguration V plugin parameters response s =
     (if HasLabel parameters ''wakeupSources'' then
        (let wakeupSrcs = variant_Array V (member parameters ''wakeupSources'');
             configs = concat (map (\<lambda>v. wakeup_entries V (variant_Object V v)) wakeupSrcs);
             (retStatus, s1) = (if configs \<noteq> [] then
                (case plugin of Some p \<Rightarrow> ip_SetWakeupSourceConfig p configs s | None \<Rightarrow> (ERROR_GENERAL, s)) else (ERROR_GENERAL, s))
         in (returnResponse (retStatus = ERROR_NONE) response, s1))
      else (returnResponse False response, s))"

text \<open>The flag of the manufacturer library: \<open>None\<close> is a failure of the call.\<close>

definition setFSRFlag :: "variant \<Rightarrow> (bool \<Rightarrow> bool) \<Rightarrow> json_params \<Rightarrow> json_params \<Rightarrow> hresult \<times> json_params" where
  "setFSRFlag V mfr_set parameters response =
     (if HasLabel parameters ''fsrFlag''
      then returnResponse (mfr_set (variant_Boolean V (member parameters ''fsrFlag''))) response
      else returnResponse False response)"

definition getFSRFlag :: "bool option \<Rightarrow> json_params \<Rightarrow> hresult \<times> json_params" where
  "getFSRFlag mfr response =
     (case mfr of
        Some flag \<Rightarrow> returnResponse True (set_member ''fsrFlag'' (JBool flag) response)
      | None \<Rightarrow> returnResponse False (set_member ''fsrFlag'' (JBool False) response))"

section \<open>Properties\<close>

text \<open>
  The names of the wake-up sources are read back: a known source is the one its name stands for, in
  any case of the letters, and every other text is the unknown source.
\<close>

theorem wakeup_source_roundtrip:
  "(s \<noteq> WAKEUP_SRC_UNKNOWN \<and> map c_toupper name = getWakeupSrcString s) \<longleftrightarrow> (svc_conv name = s \<and> s \<noteq> WAKEUP_SRC_UNKNOWN)"
proof -
  have u: "s \<noteq> WAKEUP_SRC_UNKNOWN \<Longrightarrow> map c_toupper name = getWakeupSrcString s \<Longrightarrow> svc_conv name = s"
    by (cases s) (simp_all add: svc_conv_def Let_def)
  have v: "svc_conv name \<noteq> WAKEUP_SRC_UNKNOWN \<Longrightarrow> map c_toupper name = getWakeupSrcString (svc_conv name)"
    unfolding svc_conv_def Let_def by (simp split: if_splits)
  show ?thesis using u v by blast
qed

text \<open>An error other than the general one is not seen by \<open>setPowerState\<close>, and none by the reboot.\<close>

lemma power_errors_hidden:
  "ip_SetPowerState p 0 POWER_STATE_ON ''random'' s = (e, s1) \<Longrightarrow> e \<noteq> ERROR_GENERAL \<Longrightarrow> svc_setPowerState (Some p) ''ON'' s = (True, s1)"
  "fst (fst (requestSystemReboot code (Some p) ps resp s)) = ERROR_NONE"
  by (simp_all add: svc_setPowerState_def requestSystemReboot_def returnResponse_def Let_def split: prod.split)

end
