(* ===== verification/ServiceEvents.thy ===== *)
theory ServiceEvents imports ServicePower "HOL-Library.Multiset" begin

text \<open>
  The events that SystemServices handles, \<open>SystemServices/SystemServices.cpp\<close>: the log upload with the
  process it starts, changes of the power state, of temperature levels and of the system state that
  come from the power manager and the bus, and the notifications they cause.

  Process identifiers are integers, -1 is none. Signals and waits are the list of the effects.
\<close>

section \<open>The log upload\<close>

datatype upload_effect = Kill int | WaitPid int

record upload =
  up_pid :: int
  up_notes :: notifications
  up_effects :: "upload_effect list"

definition upload_note :: "string \<Rightarrow> string \<times> json_params" where
  "upload_note status = (''onLogUpload'', [(''logUploadStatus'', JString status)])"

text \<open>\<open>children\<close> are the processes that the script has started, \<open>None\<close> if they cannot be found.\<close>

definition abortLogUpload :: "int list option \<Rightarrow> json_params \<Rightarrow> upload \<Rightarrow> (hresult \<times> json_params) \<times> upload" where
  "abortLogUpload children response u =
     (if up_pid u \<noteq> -1 then
        (returnResponse True response,
         u\<lparr>up_pid := -1, up_notes := up_notes u @ [upload_note ''UPLOAD_ABORTED''],
           up_effects := up_effects u @ map Kill (filter (\<lambda>pid. pid \<noteq> 0 \<and> pid \<noteq> 1) (case children of Some pids \<Rightarrow> pids | None \<Rightarrow> []))
             @ [Kill (up_pid u), WaitPid (up_pid u)]\<rparr>)
      else (returnResponse False response, u))"

text \<open>
  \<open>started\<close> is the result of starting the script, -1 if it is not started. The mutex is taken three
  times: for the look at the identifier, for the abort, and for the start. What other threads do before
  the abort and before the start are arguments.
\<close>

definition uploadLogsAsync_start :: "int \<Rightarrow> upload \<Rightarrow> upload" where
  "uploadLogsAsync_start started u = u\<lparr>up_pid := started\<rparr>"

definition uploadLogsAsync ::
  "int \<Rightarrow> int list option \<Rightarrow> (upload \<Rightarrow> upload) \<Rightarrow> (upload \<Rightarrow> upload) \<Rightarrow> json_params \<Rightarrow> upload \<Rightarrow> (hresult \<times> json_params) \<times> upload" where
  "uploadLogsAsync started children before_abort before_start response u =
     (let uploadLogsPid = up_pid u;
          ((code, response1), u1) =
            (if -1 \<noteq> uploadLogsPid then abortLogUpload children response (before_abort u) else ((ERROR_NONE, response), u))
      in (returnResponse True response1, uploadLogsAsync_start started (before_start u1)))"

datatype log_upload_state = LOG_UPLOAD_SUCCESS | LOG_UPLOAD_ABORTED | LOG_UPLOAD_FAILED

definition onLogUpload :: "log_upload_state \<Rightarrow> upload \<Rightarrow> upload" where
  "onLogUpload newState u =
     (if up_pid u \<noteq> -1 then
        u\<lparr>up_pid := -1,
          up_notes := up_notes u @ [upload_note (if newState = LOG_UPLOAD_SUCCESS then ''UPLOAD_SUCCESS''
            else if newState = LOG_UPLOAD_ABORTED then ''UPLOAD_ABORTED'' else ''UPLOAD_FAILURE'')],
          up_effects := up_effects u @ [WaitPid (up_pid u)]\<rparr>
      else u)"

section \<open>The power state\<close>

text \<open>
  \<open>upload_rfc\<close> is whether uploads before deep sleep are enabled; the other arguments are as above.
\<close>

definition onSystemPowerStateChanged ::
  "bool \<Rightarrow> int \<Rightarrow> int list option \<Rightarrow> (upload \<Rightarrow> upload) \<Rightarrow> (upload \<Rightarrow> upload) \<Rightarrow> string \<Rightarrow> string \<Rightarrow> upload \<Rightarrow> upload" where
  "onSystemPowerStateChanged upload_rfc started children before_abort before_start currentPowerState powerState u =
     (let u1 = (if ''LIGHT_SLEEP'' = powerState \<or> ''STANDBY'' = powerState then
                  (if ''ON'' = currentPowerState \<and> upload_rfc
                   then snd (uploadLogsAsync started children before_abort before_start [] u) else u)
                else if ''DEEP_SLEEP'' = powerState \<and> up_pid u \<noteq> -1
                then snd (abortLogUpload children [] (before_abort u))
                else u)
      in u1\<lparr>up_notes := up_notes u1 @ [(''onSystemPowerStateChanged'',
           [(''powerState'', JString powerState), (''currentPowerState'', JString currentPowerState)])]\<rparr>)"

definition svc_onPowerModeChanged ::
  "bool \<Rightarrow> int \<Rightarrow> int list option \<Rightarrow> (upload \<Rightarrow> upload) \<Rightarrow> (upload \<Rightarrow> upload) \<Rightarrow> PowerState \<Rightarrow> PowerState \<Rightarrow> upload \<Rightarrow> upload" where
  "svc_onPowerModeChanged upload_rfc started children before_abort before_start currentState newState u =
     onSystemPowerStateChanged upload_rfc started children before_abort before_start
       (powerModeEnumToString currentState) (powerModeEnumToString newState) u"

definition onPwrMgrReboot :: "string \<Rightarrow> string \<Rightarrow> notifications" where
  "onPwrMgrReboot requestedApp rebootReason =
     [(''onRebootRequest'', [(''requestedApp'', JString requestedApp), (''rebootReason'', JString rebootReason)])]"

definition onRebootBegin :: "string \<Rightarrow> string \<Rightarrow> string \<Rightarrow> notifications" where
  "onRebootBegin rebootReasonCustom rebootReasonOther rebootRequestor = onPwrMgrReboot rebootRequestor rebootReasonOther"

section \<open>The temperature\<close>

text \<open>\<open>temperature\<close> is the text of the temperature.\<close>

definition onTemperatureThresholdChanged :: "string \<Rightarrow> bool \<Rightarrow> string \<Rightarrow> notifications" where
  "onTemperatureThresholdChanged thresholdType exceed temperature =
     [(''onTemperatureThresholdChanged'',
       [(''thresholdType'', JString thresholdType), (''exceeded'', JBool exceed), (''temperature'', JString temperature)])]"

definition handleThermalLevelChange :: "ThermalTemperature \<Rightarrow> ThermalTemperature \<Rightarrow> string \<Rightarrow> notifications" where
  "handleThermalLevelChange currentThermalLevel newThermalLevel currentTemperature =
     (case (case newThermalLevel of
              THERMAL_TEMPERATURE_NORMAL \<Rightarrow>
                (case currentThermalLevel of
                   THERMAL_TEMPERATURE_HIGH \<Rightarrow> Some (False, ''WARN'')
                 | THERMAL_TEMPERATURE_CRITICAL \<Rightarrow> Some (False, ''WARN'')
                 | _ \<Rightarrow> None)
            | THERMAL_TEMPERATURE_HIGH \<Rightarrow>
                (case currentThermalLevel of
                   THERMAL_TEMPERATURE_NORMAL \<Rightarrow> Some (True, ''WARN'')
                 | THERMAL_TEMPERATURE_CRITICAL \<Rightarrow> Some (False, ''MAX'')
                 | _ \<Rightarrow> None)
            | THERMAL_TEMPERATURE_CRITICAL \<Rightarrow>
                (case currentThermalLevel of
                   THERMAL_TEMPERATURE_HIGH \<Rightarrow> Some (True, ''MAX'')
                 | THERMAL_TEMPERATURE_NORMAL \<Rightarrow> Some (True, ''MAX'')
                 | _ \<Rightarrow> None)
            | _ \<Rightarrow> None) of
        None \<Rightarrow> []
      | Some (crossOver, thermLevel) \<Rightarrow> onTemperatureThresholdChanged thermLevel crossOver currentTemperature)"

section \<open>The system state\<close>

definition onFirmwarePendingReboot :: "int \<Rightarrow> notifications" where
  "onFirmwarePendingReboot seconds = [(''onFirmwarePendingReboot'', [(''fireFirmwarePendingReboot'', JNumber seconds)])]"

text \<open>The result has the member \<open>m_FwUpdateState_LatestEvent\<close>.\<close>

definition onFirmwareUpdateStateChange :: "int \<Rightarrow> int \<Rightarrow> int \<times> notifications" where
  "onFirmwareUpdateStateChange newState m_FwUpdateState_LatestEvent =
     (if newState \<noteq> m_FwUpdateState_LatestEvent
      then (newState, [(''onFirmwareUpdateStateChange'', [(''firmwareUpdateStateChange'', JNumber newState)])])
      else (m_FwUpdateState_LatestEvent, []))"

definition getFirmwareUpdateState :: "json_params \<Rightarrow> int \<Rightarrow> hresult \<times> json_params" where
  "getFirmwareUpdateState response m_FwUpdateState_LatestEvent =
     returnResponse True (set_member ''firmwareUpdateState'' (JNumber m_FwUpdateState_LatestEvent) response)"

text \<open>The states that the handler looks at. \<open>critical\<close> is the number of the state that asks for a reboot.\<close>

datatype system_state =
    SYSSTATE_FIRMWARE_UPDATE_STATE
  | SYSSTATE_TIME_SOURCE
  | SYSSTATE_LOG_UPLOAD
  | SYSSTATE_OTHER

definition systemStateChanged ::
  "int \<Rightarrow> (int \<Rightarrow> log_upload_state) \<Rightarrow> system_state \<Rightarrow> int \<Rightarrow> int \<Rightarrow> upload \<Rightarrow> int \<times> upload" where
  "systemStateChanged critical upload_state stateId state fw u =
     (case stateId of
        SYSSTATE_FIRMWARE_UPDATE_STATE \<Rightarrow>
          (if critical = state then (fw, u\<lparr>up_notes := up_notes u @ onFirmwarePendingReboot 600\<rparr>)
           else (let (fw1, ns) = onFirmwareUpdateStateChange state fw in (fw1, u\<lparr>up_notes := up_notes u @ ns\<rparr>)))
      | SYSSTATE_TIME_SOURCE \<Rightarrow> (fw, if state \<noteq> 0 then u\<lparr>up_notes := up_notes u @ [(''onSystemClockSet'', [])]\<rparr> else u)
      | SYSSTATE_LOG_UPLOAD \<Rightarrow> (fw, onLogUpload (upload_state state) u)
      | SYSSTATE_OTHER \<Rightarrow> (fw, u))"

definition onSystemModeChanged :: "string \<Rightarrow> notifications" where
  "onSystemModeChanged mode = [(''onSystemModeChanged'', [(''mode'', JString mode)])]"

definition onDeviceMgtUpdateReceived :: "string \<Rightarrow> string \<Rightarrow> bool \<Rightarrow> notifications" where
  "onDeviceMgtUpdateReceived source kind status =
     [(''onDeviceMgtUpdateReceived'', [(''source'', JString source), (''type'', JString kind), (''success'', JBool status)])]"

section \<open>Runs of the upload\<close>

text \<open>
  All threads together: the calls that have looked at the identifier and go on to an abort, followed by
  a start or not, or to a start; the scripts that were started, and those whose identifier was
  overwritten by a later start. A power event begins as a call does and ends with its notification.
\<close>

datatype upload_phase = MayAbort bool | MayStart

record uploads =
  us_upload :: upload
  us_calls :: "upload_phase list"
  us_started :: "int list"
  us_lost :: "int list"

datatype upload_op =
    UploadCheck
  | PowerCheck bool PowerState PowerState
  | PhaseAbort nat "int list option"
  | PhaseStart nat int
  | AbortOp "int list option"
  | UploadStateOp log_upload_state
  | PowerNote PowerState PowerState

definition power_note :: "PowerState \<Rightarrow> PowerState \<Rightarrow> upload \<Rightarrow> upload" where
  "power_note cur new u = u\<lparr>up_notes := up_notes u @ [(''onSystemPowerStateChanged'',
     [(''powerState'', JString (powerModeEnumToString new)), (''currentPowerState'', JString (powerModeEnumToString cur))])]\<rparr>"

definition upload_check :: "uploads \<Rightarrow> uploads" where
  "upload_check s = s\<lparr>us_calls := us_calls s @ [if up_pid (us_upload s) \<noteq> -1 then MayAbort True else MayStart]\<rparr>"

fun uploads_for_power :: "bool \<Rightarrow> PowerState \<Rightarrow> PowerState \<Rightarrow> bool" where
  "uploads_for_power rfc cur new = (rfc \<and> cur = POWER_STATE_ON \<and> (new = POWER_STATE_STANDBY \<or> new = POWER_STATE_STANDBY_LIGHT_SLEEP))"

fun uploads_step :: "upload_op \<Rightarrow> uploads \<Rightarrow> uploads" where
  "uploads_step UploadCheck s = upload_check s"
| "uploads_step (PowerCheck rfc cur new) s =
     (if uploads_for_power rfc cur new then upload_check s
      else if new = POWER_STATE_STANDBY_DEEP_SLEEP \<and> up_pid (us_upload s) \<noteq> -1
      then s\<lparr>us_calls := us_calls s @ [MayAbort False]\<rparr>
      else s)"
| "uploads_step (PhaseAbort i children) s =
     (if i < length (us_calls s) then
        (case us_calls s ! i of
           MayAbort start \<Rightarrow> s\<lparr>us_upload := snd (abortLogUpload children [] (us_upload s)),
             us_calls := (if start then (us_calls s)[i := MayStart] else remove_at i (us_calls s))\<rparr>
         | MayStart \<Rightarrow> s)
      else s)"
| "uploads_step (PhaseStart i started) s =
     (if i < length (us_calls s) \<and> us_calls s ! i = MayStart
      then s\<lparr>us_upload := uploadLogsAsync_start started (us_upload s), us_calls := remove_at i (us_calls s),
        us_started := us_started s @ (if started \<noteq> -1 then [started] else []),
        us_lost := us_lost s @ (if up_pid (us_upload s) \<noteq> -1 then [up_pid (us_upload s)] else [])\<rparr>
      else s)"
| "uploads_step (AbortOp children) s = s\<lparr>us_upload := snd (abortLogUpload children [] (us_upload s))\<rparr>"
| "uploads_step (UploadStateOp st) s = s\<lparr>us_upload := onLogUpload st (us_upload s)\<rparr>"
| "uploads_step (PowerNote cur new) s = s\<lparr>us_upload := power_note cur new (us_upload s)\<rparr>"

definition idle_uploads :: uploads where
  "idle_uploads = \<lparr>us_upload = \<lparr>up_pid = -1, up_notes = [], up_effects = []\<rparr>, us_calls = [], us_started = [], us_lost = []\<rparr>"

text \<open>The steps one after the other are the methods, when no other thread does anything.\<close>

lemma call_in_steps:
  assumes "us_calls s = []"
  shows "us_upload (fold uploads_step
      (if up_pid (us_upload s) \<noteq> -1 then [UploadCheck, PhaseAbort 0 children, PhaseStart 0 started]
       else [UploadCheck, PhaseStart 0 started]) s)
    = snd (uploadLogsAsync started children (\<lambda>u. u) (\<lambda>u. u) resp (us_upload s))"
  using assms
  by (simp add: upload_check_def uploadLogsAsync_def uploadLogsAsync_start_def abortLogUpload_def remove_at_def split_def Let_def)

lemma power_event_in_steps:
  assumes "us_calls s = []"
  shows "us_upload (fold uploads_step
      ([PowerCheck rfc cur new]
       @ (if uploads_for_power rfc cur new \<and> up_pid (us_upload s) \<noteq> -1 \<or> new = POWER_STATE_STANDBY_DEEP_SLEEP
          then [PhaseAbort 0 children] else [])
       @ (if uploads_for_power rfc cur new then [PhaseStart 0 started] else []) @ [PowerNote cur new]) s)
    = svc_onPowerModeChanged rfc started children (\<lambda>u. u) (\<lambda>u. u) cur new (us_upload s)"
  using assms
  unfolding svc_onPowerModeChanged_def onSystemPowerStateChanged_def power_note_def [abs_def] Let_def
  by (cases cur; cases new; simp add: upload_check_def uploadLogsAsync_def power_note_def split_def Let_def)

text \<open>Each upload call begins when none is under way.\<close>

fun begins_upload :: "upload_op \<Rightarrow> bool" where
  "begins_upload UploadCheck = True"
| "begins_upload (PowerCheck rfc cur new) = uploads_for_power rfc cur new"
| "begins_upload _ = False"

definition upload_calls :: "uploads \<Rightarrow> upload_phase multiset" where
  "upload_calls s = filter_mset (\<lambda>c. c \<noteq> MayAbort False) (mset (us_calls s))"

fun calls_apart :: "upload_op list \<Rightarrow> uploads \<Rightarrow> bool" where
  "calls_apart [] s = True"
| "calls_apart (op # ops) s =
     ((begins_upload op \<longrightarrow> (\<forall>c \<in> set (us_calls s). c = MayAbort False)) \<and> calls_apart ops (uploads_step op s))"

definition announced :: "notifications \<Rightarrow> nat" where
  "announced ns = length (filter (\<lambda>(name, ps). name = ''onLogUpload'') ns)"

lemma announced_append [simp]: "announced (xs @ ys) = announced xs + announced ys"
  by (simp add: announced_def)

lemma announced_simps [simp]:
  "announced [] = 0" "announced (upload_note s # ns) = Suc (announced ns)"
  "name \<noteq> ''onLogUpload'' \<Longrightarrow> announced ((name, ps) # ns) = announced ns"
  by (simp_all add: announced_def upload_note_def)

definition waits :: "upload_effect list \<Rightarrow> int list" where
  "waits es = concat (map (\<lambda>e. case e of WaitPid p \<Rightarrow> [p] | Kill p \<Rightarrow> []) es)"

lemma waits_simps [simp]:
  "waits [] = []" "waits (xs @ ys) = waits xs @ waits ys" "waits (WaitPid p # es) = p # waits es" "waits (Kill p # es) = waits es"
  "waits (map Kill ps) = []"
  by (simp_all add: waits_def comp_def)

definition running :: "upload \<Rightarrow> int list" where
  "running u = (if up_pid u = -1 then [] else [up_pid u])"

text \<open>The scripts waited for, the one that is recorded and the lost ones are those that were started.\<close>

definition accounted :: "uploads \<Rightarrow> bool" where
  "accounted s = (mset (waits (up_effects (us_upload s))) + mset (running (us_upload s)) + mset (us_lost s) = mset (us_started s)
     \<and> announced (up_notes (us_upload s)) = length (waits (up_effects (us_upload s))))"

lemma abort_effect:
  "up_pid (snd (abortLogUpload children resp u)) = -1"
  "waits (up_effects (snd (abortLogUpload children resp u))) = waits (up_effects u) @ running u"
  "announced (up_notes (snd (abortLogUpload children resp u))) = announced (up_notes u) + length (running u)"
  by (simp_all add: abortLogUpload_def running_def)

lemma ended_effect:
  "up_pid (onLogUpload st u) = -1"
  "waits (up_effects (onLogUpload st u)) = waits (up_effects u) @ running u"
  "announced (up_notes (onLogUpload st u)) = announced (up_notes u) + length (running u)"
  by (simp_all add: onLogUpload_def running_def)

lemma power_note_simps [simp]:
  "up_pid (power_note cur new u) = up_pid u" "up_effects (power_note cur new u) = up_effects u"
  "announced (up_notes (power_note cur new u)) = announced (up_notes u)"
  by (simp_all add: power_note_def)

lemma step_accounted: "accounted s \<Longrightarrow> accounted (uploads_step op s)"
  by (cases op)
    (auto simp: accounted_def upload_check_def abort_effect ended_effect uploadLogsAsync_start_def running_def ac_simps
      split: upload_phase.split)

lemma mset_remove_at: "i < length xs \<Longrightarrow> mset xs = add_mset (xs ! i) (mset (remove_at i xs))"
  using id_take_nth_drop [of i xs] by (metis mset_append mset.simps(2) remove_at_def union_mset_add_mset_right)

text \<open>With the calls apart, a call that may start finds no script.\<close>

definition start_finds_none :: "uploads \<Rightarrow> bool" where
  "start_finds_none s = (size (upload_calls s) \<le> 1 \<and> (MayStart \<in> set (us_calls s) \<longrightarrow> up_pid (us_upload s) = -1) \<and> us_lost s = [])"

lemma step_finds_none:
  assumes "start_finds_none s" "begins_upload op \<longrightarrow> (\<forall>c \<in> set (us_calls s). c = MayAbort False)"
  shows "start_finds_none (uploads_step op s)"
proof -
  have check: "start_finds_none (upload_check s)" if "\<forall>c \<in> set (us_calls s). c = MayAbort False"
  proof -
    have "upload_calls s = {#}" using that by (auto simp: upload_calls_def)
    then show ?thesis using assms(1) that by (auto simp: start_finds_none_def upload_check_def upload_calls_def)
  qed
  show ?thesis
  proof (cases op)
    case UploadCheck
    then show ?thesis using check assms(2) by simp
  next
    case (PowerCheck rfc cur new)
    then show ?thesis
      using check assms by (cases "uploads_for_power rfc cur new") (auto simp: start_finds_none_def upload_calls_def)
  next
    case (PhaseAbort i children)
    show ?thesis
    proof (cases "i < length (us_calls s) \<and> (\<exists>b. us_calls s ! i = MayAbort b)")
      case True
      then obtain b where b: "us_calls s ! i = MayAbort b" and len: "i < length (us_calls s)" by blast
      have split: "mset (us_calls s) = add_mset (MayAbort b) (mset (remove_at i (us_calls s)))"
        using mset_remove_at [OF len] b by simp
      then have "mset ((us_calls s)[i := MayStart]) = add_mset MayStart (mset (remove_at i (us_calls s)))"
        using mset_update [OF len, of MayStart] b by simp
      then show ?thesis
        using PhaseAbort assms(1) b len split abort_effect(1)
        by (auto simp: start_finds_none_def upload_calls_def)
    next
      case False
      then show ?thesis using PhaseAbort assms(1) by (auto split: upload_phase.split)
    qed
  next
    case (PhaseStart i started)
    show ?thesis
    proof (cases "i < length (us_calls s) \<and> us_calls s ! i = MayStart")
      case True
      then have split: "mset (us_calls s) = add_mset MayStart (mset (remove_at i (us_calls s)))"
        using mset_remove_at [of i "us_calls s"] by simp
      then have none: "filter_mset (\<lambda>c. c \<noteq> MayAbort False) (mset (remove_at i (us_calls s))) = {#}"
        using assms(1) by (simp add: start_finds_none_def upload_calls_def)
      have "MayStart \<in># mset (us_calls s)" unfolding split by simp
      then have "up_pid (us_upload s) = -1" using assms(1) by (simp add: start_finds_none_def)
      moreover have "MayStart \<notin># mset (remove_at i (us_calls s))"
        using none by auto
      ultimately show ?thesis
        using PhaseStart True assms(1) by (auto simp: start_finds_none_def upload_calls_def none)
    qed (use PhaseStart assms(1) in auto)
  qed (use assms(1) in \<open>auto simp: start_finds_none_def upload_calls_def abort_effect ended_effect\<close>)
qed

text \<open>
  C33. Every log upload is announced once, or lost: through any interleaving of the lock regions of the
  calls, aborts, state events and power changes, the scripts that were started are those that were
  waited for, each with one notification, the one that is recorded as running, and those whose
  identifier a later start has overwritten. If every call of \<open>uploadLogsAsync\<close> begins when no other is
  under way, none is lost, so no two run at a time.
\<close>

theorem uploads_announced_once:
  "let s = fold uploads_step ops idle_uploads; u = us_upload s
   in mset (us_started s) = mset (waits (up_effects u)) + mset (running u) + mset (us_lost s)
    \<and> announced (up_notes u) = length (waits (up_effects u))
    \<and> (calls_apart ops idle_uploads \<longrightarrow> us_lost s = [])"
proof -
  have 1: "accounted (fold uploads_step ops s)" if "accounted s" for s
    using that by (induction ops arbitrary: s) (simp_all add: step_accounted)
  have 2: "start_finds_none (fold uploads_step ops s)" if "start_finds_none s" "calls_apart ops s" for s
    using that by (induction ops arbitrary: s) (simp_all add: step_finds_none)
  have "accounted idle_uploads" "start_finds_none idle_uploads"
    by (simp_all add: accounted_def idle_uploads_def running_def start_finds_none_def upload_calls_def)
  from 1 [OF this(1)] 2 [OF this(2)] show ?thesis by (simp add: accounted_def start_finds_none_def Let_def)
qed

lemmas upload_eval = uploads_step.simps upload_check_def idle_uploads_def abortLogUpload_def onLogUpload_def
  uploadLogsAsync_start_def remove_at_def power_note_def

theorem uploads_announced_once_witness:
  "let s = fold uploads_step [UploadCheck, PhaseStart 0 5, UploadCheck, PhaseAbort 0 None, PhaseStart 0 6,
       UploadStateOp LOG_UPLOAD_SUCCESS] idle_uploads
   in us_lost s = [] \<and> us_started s = [5, 6] \<and> announced (up_notes (us_upload s)) = 2"
proof -
  let ?ops = "[UploadCheck, PhaseStart 0 5, UploadCheck, PhaseAbort 0 None, PhaseStart 0 6, UploadStateOp LOG_UPLOAD_SUCCESS]"
  have "calls_apart ?ops idle_uploads" by (simp add: upload_eval)
  then have "us_lost (fold uploads_step ?ops idle_uploads) = []" using uploads_announced_once [of ?ops] by (simp add: Let_def)
  moreover have "us_started (fold uploads_step ?ops idle_uploads) = [5, 6]" "announced (up_notes (us_upload (fold uploads_step ?ops idle_uploads))) = 2"
    by (simp_all add: upload_eval)
  ultimately show ?thesis by (simp add: Let_def)
qed

text \<open>
  Two calls that overlap, each of which has found no script, start two: the first one is never waited
  for or announced, and cannot be aborted any more.
\<close>

theorem upload_lost:
  "let s = fold uploads_step [UploadCheck, UploadCheck, PhaseStart 0 5, PhaseStart 0 6, UploadStateOp LOG_UPLOAD_SUCCESS,
       AbortOp None] idle_uploads
   in us_started s = [5, 6] \<and> us_lost s = [5] \<and> up_effects (us_upload s) = [WaitPid 6] \<and> announced (up_notes (us_upload s)) = 1"
  by (simp add: upload_eval)

end
