(* ===== verification/StandbyCache.thy ===== *)
theory StandbyCache imports PowerManagerInv ServicePower begin

text \<open>
  SystemServices and the power manager together: SystemServices keeps the network standby mode of the
  power manager in a cache, which a notification sets and its own requests invalidate. Here both run
  on the model of \<open>PowerManagerImplementation\<close> in steps between which any other thread can run: the
  part of \<open>SetNetworkStandbyMode\<close> that holds \<open>_apiLock\<close> and the notification that follows it outside
  the lock, the answer to \<open>getNetworkStandbyMode\<close> and its store in the cache, which takes no lock, the
  invalidation at the end of \<open>setNetworkStandbyMode\<close>, and the other operations of the power manager.
\<close>

definition pm_standby :: "'p pm_env \<Rightarrow> 'p PowerManager standby_plugin" where
  "pm_standby E = \<lparr>ip_SetNetworkStandbyMode = PowerManager_SetNetworkStandbyMode E,
     ip_GetNetworkStandbyMode = PowerManager_GetNetworkStandbyMode\<rparr>"

text \<open>The mode of the power manager, and the notifications of it that were sent.\<close>

definition nw_mode :: "'p PowerManager \<Rightarrow> bool" where
  "nw_mode pm = st_nwStandbyMode (pc_settings (pm_power pm))"

definition nw_log :: "'p PowerManager \<Rightarrow> (nat \<times> bool) list" where
  "nw_log pm = concat (map (\<lambda>e. case e of OnNetworkStandbyModeChanged n b \<Rightarrow> [(n, b)] | _ \<Rightarrow> []) (pm_events pm))"

definition no_cache :: pm_cache where
  "no_cache = \<lparr>ca_networkStandbyMode = False, ca_networkStandbyModeValid = False,
     ca_powerStateBeforeReboot = [], ca_powerStateBeforeRebootValid = False\<rparr>"

definition nw_registered :: "nat \<Rightarrow> 'p PowerManager \<Rightarrow> bool" where
  "nw_registered me pm = (me \<in> set (sk_list (pm_sinks pm NetworkStandbyModeChangedSink)))"

definition saves :: "'p pm_env \<Rightarrow> 'p PowerManager \<Rightarrow> bool" where
  "saves E pm = (\<forall>s. fst (Settings_Save (pe_codes (me_power E)) s kSettingsFilePath (pm_fs pm)))"

text \<open>The part of \<open>SetNetworkStandbyMode\<close> under the lock; the notification follows if it succeeds.\<close>

definition SetNetworkStandbyMode_locked :: "'p pm_env \<Rightarrow> bool \<Rightarrow> 'p PowerManager \<Rightarrow> hresult \<times> 'p PowerManager" where
  "SetNetworkStandbyMode_locked E standbyMode pm =
     (let (errorCode, pc, p1, f1) = PowerController_SetNetworkStandbyMode (me_power E) standbyMode
             (pm_power pm) (pm_hw pm) (pm_fs pm)
      in (errorCode, pm\<lparr>pm_power := pc, pm_hw := p1, pm_fs := f1\<rparr>))"

lemma SetNetworkStandbyMode_parts:
  "PowerManager_SetNetworkStandbyMode E b pm =
     (let (e, pm1) = SetNetworkStandbyMode_locked E b pm
      in (e, if e = ERROR_NONE then dispatchNetworkStandbyModeChangedEvent b pm1 else pm1))"
  by (simp add: PowerManager_SetNetworkStandbyMode_def SetNetworkStandbyMode_locked_def Let_def split: prod.split)

text \<open>
  Both together: the power manager, the cache, the answers that were given and are not stored yet, and
  the notifications that are due. The requests of all clients of the power manager are steps, those of
  \<open>SetWakeupSourceConfig\<close> too, which configures and inquires the platform and may set the mode.
  \<open>Ask\<close> is a call that does not find a valid cache.
\<close>

record 'p svc =
  sv_pm :: "'p PowerManager"
  sv_cache :: pm_cache
  sv_answers :: "(hresult \<times> bool) list"
  sv_due :: "bool list"

datatype svc_op =
    PmOp int pm_op | Configure "WakeupSourceConfig list" | Inquire "WakeupSourceConfig list"
  | SetLocked bool | Notify nat | Invalidate | Ask | Store nat

fun svc_exec :: "'p pm_env \<Rightarrow> nat \<Rightarrow> svc_op \<Rightarrow> 'p svc \<Rightarrow> 'p svc option" where
  "svc_exec E me (PmOp now op') s = map_option (\<lambda>pm1. s\<lparr>sv_pm := pm1\<rparr>) (pm_exec E now op' (sv_pm s))"
| "svc_exec E me (Configure cs) s = Some (s\<lparr>sv_pm :=
     (sv_pm s)\<lparr>pm_hw := snd (PowerController_SetWakeupSourceConfig (me_power E) cs (pm_hw (sv_pm s)))\<rparr>\<rparr>)"
| "svc_exec E me (Inquire cs) s = Some (s\<lparr>sv_pm := snd (snd (getWakeupSourceConfig E cs (sv_pm s)))\<rparr>)"
| "svc_exec E me (SetLocked b) s =
     (let (e, pm1) = SetNetworkStandbyMode_locked E b (sv_pm s)
      in Some (s\<lparr>sv_pm := pm1, sv_due := (if e = ERROR_NONE then sv_due s @ [b] else sv_due s)\<rparr>))"
| "svc_exec E me (Notify i) s =
     (if i < length (sv_due s)
      then Some (s\<lparr>sv_pm := dispatchNetworkStandbyModeChangedEvent (sv_due s ! i) (sv_pm s),
        sv_cache := (if nw_registered me (sv_pm s) then fst (onNetworkModeChanged (sv_due s ! i) (sv_cache s)) else sv_cache s),
        sv_due := remove_at i (sv_due s)\<rparr>)
      else None)"
| "svc_exec E me Invalidate s = Some (s\<lparr>sv_cache := (sv_cache s)\<lparr>ca_networkStandbyModeValid := False\<rparr>\<rparr>)"
| "svc_exec E me Ask s =
     (if ca_networkStandbyModeValid (sv_cache s) then Some s
      else Some (s\<lparr>sv_answers := sv_answers s @ [ask_standby_mode (Some (pm_standby E)) (sv_pm s)]\<rparr>))"
| "svc_exec E me (Store i) s =
     (if i < length (sv_answers s)
      then Some (s\<lparr>sv_cache := snd (store_standby_mode (sv_answers s ! i) [] (sv_cache s)),
        sv_answers := remove_at i (sv_answers s)\<rparr>)
      else None)"

fun svc_run :: "'p pm_env \<Rightarrow> nat \<Rightarrow> svc_op list \<Rightarrow> 'p svc \<Rightarrow> 'p svc option" where
  "svc_run E me [] s = Some s"
| "svc_run E me (op' # ops) s = Option.bind (svc_exec E me op' s) (svc_run E me ops)"

text \<open>
  The steps that do not overlap: the mode is set while no answer waits for its store and no
  notification for its dispatch. \<open>PmOp\<close> is an operation that is not split here.
\<close>

fun sets_mode :: "pm_op \<Rightarrow> bool" where
  "sets_mode (SetNetworkStandbyOp b) = True"
| "sets_mode (SetWakeupOp cs) = True"
| "sets_mode _ = False"

fun orderly :: "svc_op \<Rightarrow> 'p svc \<Rightarrow> bool" where
  "orderly (SetLocked b) s = (sv_answers s = [] \<and> sv_due s = [])"
| "orderly (PmOp now op') s = (\<not> sets_mode op')"
| "orderly _ s = True"

inductive svc_reach :: "'p pm_env \<Rightarrow> nat \<Rightarrow> 'p svc \<Rightarrow> bool" for E me where
  activated: "\<lbrakk>pm_reach E pm; set due \<subseteq> {nw_mode pm}\<rbrakk>
     \<Longrightarrow> svc_reach E me \<lparr>sv_pm = pm, sv_cache = no_cache, sv_answers = [], sv_due = due\<rparr>"
| step: "\<lbrakk>svc_reach E me s; nw_registered me (sv_pm s); saves E (sv_pm s); orderly op' s; svc_exec E me op' s = Some s1\<rbrakk>
     \<Longrightarrow> svc_reach E me s1"

section \<open>What the other operations leave alone\<close>

definition nw_same :: "'p PowerManager \<Rightarrow> 'p PowerManager \<Rightarrow> bool" where
  "nw_same pm pm1 = (nw_mode pm1 = nw_mode pm \<and> nw_log pm1 = nw_log pm)"

lemma nw_same_refl [simp]: "nw_same pm pm"
  by (simp add: nw_same_def)

lemma nw_same_trans: "nw_same pm pm1 \<Longrightarrow> nw_same pm1 pm2 \<Longrightarrow> nw_same pm pm2"
  by (simp add: nw_same_def)

text \<open>A step that keeps the controller and adds no notification of the mode.\<close>

lemma nw_sameI: "pm_power pm1 = pm_power pm \<Longrightarrow> pm_events pm1 = pm_events pm \<Longrightarrow> nw_same pm pm1"
  by (simp add: nw_same_def nw_mode_def nw_log_def)

lemma nw_log_dispatch:
  "nw_log (dispatch k ev pm) = nw_log pm @ concat (map (\<lambda>n. case ev n of OnNetworkStandbyModeChanged n b \<Rightarrow> [(n, b)] | _ \<Rightarrow> []) (sk_list (pm_sinks pm k)))"
  by (simp add: nw_log_def dispatch_def comp_def)

lemma nw_mode_dispatch [simp]: "nw_mode (dispatch k ev pm) = nw_mode pm"
  by (simp add: nw_mode_def)

lemma nw_same_dispatch [simp]:
  "nw_same pm (dispatchPowerModeChangedEvent a b pm)" "nw_same pm (dispatchDeepSleepTimeoutEvent t pm)"
  "nw_same pm (dispatchRebootBeginEvent r s u pm)" "nw_same pm (dispatchThermalModeChangedEvent x y z pm)"
  by (simp_all add: nw_same_def dispatch_defs nw_log_dispatch)

lemma SetPowerState_nw:
  "PowerController_SetPowerState E s c p f = (e, c1, p1, f1) \<Longrightarrow> st_nwStandbyMode (pc_settings c1) = st_nwStandbyMode (pc_settings c)"
  by (auto simp: PowerController_SetPowerState_def Settings_SetPowerState_def Let_def split: if_splits prod.splits)

lemma setDevicePowerState_nw: "nw_same pm (snd (setDevicePowerState E a b pm))"
proof -
  obtain e pc p1 f1 where r: "PowerController_SetPowerState (me_power E) b (pm_power pm) (pm_hw pm) (pm_fs pm) = (e, pc, p1, f1)"
    by (rule prod_cases4)
  let ?pm1 = "pm\<lparr>pm_power := pc, pm_hw := p1, pm_fs := f1\<rparr>"
  have 1: "nw_same pm ?pm1" using SetPowerState_nw [OF r] by (simp add: nw_same_def nw_mode_def nw_log_def)
  have 2: "nw_same ?pm1 (dispatchPowerModeChangedEvent a b ?pm1)" by simp
  have 3: "nw_same pm2 (pm2\<lparr>pm_jobs := j\<rparr>)" for pm2 :: "'a PowerManager" and j by (rule nw_sameI) simp_all
  have 4: "nw_same pm (dispatchPowerModeChangedEvent a b ?pm1)" by (rule nw_same_trans [OF 1 2])
  show ?thesis
    using 1 4 nw_same_trans [OF 4 3] by (auto simp: setDevicePowerState_def r Let_def split_def)
qed

lemma run_handler_nw: "nw_same pm (run_handler E call pm)"
proof (cases call)
  case (fields h t a)
  show ?thesis
  proof (cases h)
    case (Some h')
    let ?pm1 = "if \<not> a then snd (setDevicePowerState E (hd_currState h') (hd_newState h') pm) else pm"
    have "nw_same pm ?pm1" by (simp add: setDevicePowerState_nw)
    moreover have "nw_same ?pm1 (run_handler E call pm)"
      by (rule nw_sameI) (simp_all add: fields Some Let_def)
    ultimately show ?thesis by (rule nw_same_trans)
  qed (simp add: fields)
qed

lemma run_calls_nw: "nw_same pm (run_calls E calls pm)"
  by (induction calls arbitrary: pm) (auto intro: nw_same_trans [OF run_handler_nw])

lemma events_nw: "nw_same pm (fold (handle_ds_event E) evs pm)" "nw_same pm (fold handle_th_event evs2 pm)"
proof -
  have "nw_same pm (handle_ds_event E ev pm)" for ev and pm :: "'a PowerManager"
    by (cases ev) (auto simp: Let_def nw_same_def nw_mode_def nw_log_def dispatch_defs dispatch_def)
  then show "nw_same pm (fold (handle_ds_event E) evs pm)"
    by (induction evs arbitrary: pm) (auto intro: nw_same_trans)
  have "nw_same pm (handle_th_event ev pm)" for ev and pm :: "'a PowerManager"
    by (cases ev) (auto simp: Let_def nw_same_def nw_mode_def nw_log_def dispatch_defs dispatch_def)
  then show "nw_same pm (fold handle_th_event evs2 pm)"
    by (induction evs2 arbitrary: pm) (auto intro: nw_same_trans)
qed

lemma cancelled_nw: "nw_same pm (cancelled E pm)"
proof (cases "pm_modeChangeController pm")
  case (Some c)
  have "nw_same pm (pm\<lparr>pm_modeChangeController := None\<rparr>)" by (rule nw_sameI) simp_all
  then show ?thesis using Some nw_same_trans [OF _ run_calls_nw] by (simp add: cancelled_def)
qed (simp add: cancelled_def)

lemma begin_nw: "nw_same pm (SetPowerState_begin E now k s r pm)"
proof -
  have woken: "nw_same pm (woken E pm)" for pm :: "'a PowerManager"
    by (rule nw_sameI) (simp_all add: woken_def split_def Let_def)
  have lock: "nw_same pm (pm\<lparr>pm_selfLock := b\<rparr>)" for pm :: "'a PowerManager" and b
    by (rule nw_sameI) simp_all
  have accepted: "nw_same pm (accepted E now k a s r pm)" for pm :: "'a PowerManager" and a
    by (rule nw_sameI) (simp_all add: accepted_def submitPowerModePreChangeEvent_def split_def Let_def)
  have "nw_same pm (accepted E now k a s r (cancelled E (woken E (pm\<lparr>pm_selfLock := True\<rparr>))))" for a
    by (rule nw_same_trans [OF nw_same_trans [OF nw_same_trans [OF lock woken] cancelled_nw] accepted])
  moreover have "nw_same pm ((woken E pm)\<lparr>pm_selfLock := False\<rparr>)" by (rule nw_same_trans [OF woken lock])
  ultimately show ?thesis unfolding begin_cases using lock by simp
qed

lemma calls_nw: "pm_power pm1 = pm_power pm \<Longrightarrow> pm_events pm1 = pm_events pm \<Longrightarrow> nw_same pm (run_calls E calls pm1)"
  by (rule nw_same_trans [OF nw_sameI run_calls_nw])

lemma ds_events_nw: "pm_power pm1 = pm_power pm \<Longrightarrow> pm_events pm1 = pm_events pm \<Longrightarrow> nw_same pm (fold (handle_ds_event E) evs pm1)"
  by (rule nw_same_trans [OF nw_sameI events_nw(1)])

lemma th_events_nw: "pm_power pm1 = pm_power pm \<Longrightarrow> pm_events pm1 = pm_events pm \<Longrightarrow> nw_same pm (fold handle_th_event evs pm1)"
  by (rule nw_same_trans [OF nw_sameI events_nw(2)])

lemma run_job_nw:
  assumes "run_job E now j pm' = Some pm1" and "pm_power pm' = pm_power pm" "pm_events pm' = pm_events pm"
  shows "nw_same pm pm1"
proof (cases j)
  case (ActivateJob t nw)
  then show ?thesis using assms by (auto simp: split_def Let_def intro: ds_events_nw)
next
  case (SetPowerStateCall s r)
  have "nw_same pm pm'" by (rule nw_sameI [OF assms(2,3)])
  then show ?thesis
    using assms SetPowerStateCall nw_same_trans [OF _ begin_nw] by (auto split: if_splits)
qed (use assms in \<open>auto simp: nw_same_def nw_mode_def nw_log_def\<close>)

lemma exec_nw:
  assumes "pm_exec E now op' pm = Some pm1" and "\<not> sets_mode op'"
  shows "nw_same pm pm1"
proof (cases op')
  case (SetPowerStateOp k s r)
  then show ?thesis using assms(1) by (auto simp: begin_nw split: if_splits)
next
  case (RunJobOp i)
  then show ?thesis using assms(1) by (auto intro!: run_job_nw split: if_splits)
next
  case ScheduleOp
  have lock: "nw_same pm pm2 \<Longrightarrow> nw_same pm (pm2\<lparr>pm_selfLock := b\<rparr>)" for pm2 b
    by (simp add: nw_same_def nw_mode_def nw_log_def)
  show ?thesis using assms(1) ScheduleOp
    by (auto simp: SetPowerState_schedule_def split_def Let_def intro!: lock calls_nw split: option.splits if_splits)
next
  case (CompleteOp k tid)
  then show ?thesis using assms(1)
    by (auto simp: PowerModePreChangeComplete_def split_def Let_def intro!: calls_nw split: option.splits)
next
  case (RemoveClientOp k)
  then show ?thesis using assms(1)
    by (auto simp: RemovePowerModePreChangeClient_def split_def Let_def intro: calls_nw nw_sameI split: option.splits)
next
  case AckTimerOp
  then show ?thesis using assms(1)
    by (auto simp: ack_timer_def split_def Let_def simp del: ack_step.simps intro!: calls_nw split: option.splits)
next
  case DelayJobOp
  then show ?thesis using assms(1)
    by (auto simp: deepSleepDelayJob_def split_def Let_def intro!: ds_events_nw split: if_splits)
next
  case (ThermalPollOp stop vars)
  then show ?thesis using assms(1)
    by (auto simp: thermalPoll_def intro!: th_events_nw split: bind_splits)
next
  case (SetDeepSleepTimerOp t)
  then show ?thesis using assms(1)
    by (auto simp: PowerManager_SetDeepSleepTimer_def PowerController_SetDeepSleepTimer_def DeepSleepWakeupSettings_SetTimeout_def
        nw_same_def nw_mode_def nw_log_def split_def Let_def)
next
  case (RebootOp a b c)
  then show ?thesis using assms(1)
    by (auto simp: PowerManager_Reboot_def dispatch_defs dispatch_def nw_same_def nw_mode_def nw_log_def split_def Let_def)
next
  case (DelayOp k tid d)
  then show ?thesis using assms(1)
    by (auto simp: DelayPowerModeChangeBy_def split_def Let_def intro!: nw_sameI split: option.splits if_splits)
next
  case (AddClientOp name)
  then show ?thesis using assms(1)
    by (auto simp: AddPowerModePreChangeClient_def Let_def intro!: nw_sameI split: option.splits if_splits)
next
  case (SetNetworkStandbyOp b)
  then show ?thesis using assms(2) by simp
next
  case (SetWakeupOp cs)
  then show ?thesis using assms(2) by simp
qed (use assms(1) in \<open>auto simp: PowerManager_Register_def PowerManager_Unregister_def PowerManager_SetOvertempGraceInterval_def
      split_def Let_def intro!: nw_sameI\<close>)

section \<open>The operation that sets the mode\<close>

lemma locked_nw:
  assumes "saves E pm" and "SetNetworkStandbyMode_locked E b pm = (e, pm1)"
  shows "nw_mode pm1 = (if e = ERROR_NONE then b else nw_mode pm)" "pm_sinks pm1 = pm_sinks pm" "pm_events pm1 = pm_events pm"
proof -
  obtain e1 pc p1 f1 where r: "PowerController_SetNetworkStandbyMode (me_power E) b (pm_power pm) (pm_hw pm) (pm_fs pm) = (e1, pc, p1, f1)"
    by (rule prod_cases4)
  have "fst (Settings_Save (pe_codes (me_power E)) s kSettingsFilePath (pm_fs pm))" for s
    using assms(1) by (simp add: saves_def)
  then have "e1 = ERROR_NONE \<Longrightarrow> st_nwStandbyMode (pc_settings pc) = b" "e1 \<noteq> ERROR_NONE \<Longrightarrow> pc = pm_power pm"
    using r by (auto simp: PowerController_SetNetworkStandbyMode_def Let_def split: if_splits prod.splits dest: spec)
      (metis fst_conv)+
  then show "nw_mode pm1 = (if e = ERROR_NONE then b else nw_mode pm)" "pm_sinks pm1 = pm_sinks pm" "pm_events pm1 = pm_events pm"
    using assms(2) r by (auto simp: SetNetworkStandbyMode_locked_def nw_mode_def)
qed

section \<open>The cache\<close>

text \<open>
  The answers that wait and the notifications that are due have the mode of the power manager; the
  cache has it unless a notification is due.
\<close>

definition coherent :: "'p svc \<Rightarrow> bool" where
  "coherent s = (set (sv_due s) \<subseteq> {nw_mode (sv_pm s)}
     \<and> (\<forall>(e, b) \<in> set (sv_answers s). e = ERROR_NONE \<longrightarrow> b = nw_mode (sv_pm s))
     \<and> (sv_due s = [] \<longrightarrow> ca_networkStandbyModeValid (sv_cache s) \<longrightarrow> ca_networkStandbyMode (sv_cache s) = nw_mode (sv_pm s)))"

lemma coherent_mode:
  "coherent s \<Longrightarrow> nw_mode (sv_pm s1) = nw_mode (sv_pm s) \<Longrightarrow> sv_cache s1 = sv_cache s \<Longrightarrow> sv_answers s1 = sv_answers s
   \<Longrightarrow> sv_due s1 = sv_due s \<Longrightarrow> coherent s1"
  by (simp add: coherent_def)

lemma svc_exec_coherent:
  assumes "coherent s" "nw_registered me (sv_pm s)" "saves E (sv_pm s)" "orderly op' s" "svc_exec E me op' s = Some s1"
  shows "coherent s1"
proof (cases op')
  case (PmOp now op2)
  then obtain pm1 where "pm_exec E now op2 (sv_pm s) = Some pm1" "s1 = s\<lparr>sv_pm := pm1\<rparr>" using assms(5) by auto
  then show ?thesis using PmOp assms(1,4) exec_nw [of E now op2 "sv_pm s" pm1] by (simp add: nw_same_def coherent_def)
next
  case (Configure cs)
  then have "nw_mode (sv_pm s1) = nw_mode (sv_pm s)" "sv_cache s1 = sv_cache s" "sv_answers s1 = sv_answers s" "sv_due s1 = sv_due s"
    using assms(5) by (auto simp: nw_mode_def)
  then show ?thesis using coherent_mode [OF assms(1)] by blast
next
  case (Inquire cs)
  then have "nw_mode (sv_pm s1) = nw_mode (sv_pm s)" "sv_cache s1 = sv_cache s" "sv_answers s1 = sv_answers s" "sv_due s1 = sv_due s"
    using assms(5) by (auto simp: nw_mode_def getWakeupSourceConfig_def split_def Let_def)
  then show ?thesis using coherent_mode [OF assms(1)] by blast
next
  case (SetLocked b)
  obtain e pm1 where l: "SetNetworkStandbyMode_locked E b (sv_pm s) = (e, pm1)" by (rule prod.exhaust)
  then have s1: "s1 = s\<lparr>sv_pm := pm1, sv_due := (if e = ERROR_NONE then [b] else [])\<rparr>" "sv_answers s = []" "sv_due s = []"
    using SetLocked assms(4,5) by auto
  then show ?thesis using locked_nw(1) [OF assms(3) l] assms(1) by (auto simp: coherent_def)
next
  case (Notify i)
  then have len: "i < length (sv_due s)" using assms(5) by (simp split: if_splits)
  then have s1: "s\<lparr>sv_pm := dispatchNetworkStandbyModeChangedEvent (sv_due s ! i) (sv_pm s),
      sv_cache := fst (onNetworkModeChanged (sv_due s ! i) (sv_cache s)), sv_due := remove_at i (sv_due s)\<rparr> = s1"
    using Notify assms(2,5) by simp
  have due: "set (sv_due s) \<subseteq> {nw_mode (sv_pm s)}" using assms(1) by (simp add: coherent_def)
  have b: "sv_due s ! i = nw_mode (sv_pm s)" using due nth_mem [OF len] by blast
  have "set (remove_at i (sv_due s)) \<subseteq> {nw_mode (sv_pm s)}" by (rule subset_trans [OF set_remove_at due])
  then show ?thesis
    using assms(1) unfolding s1 [symmetric] b by (simp add: coherent_def onNetworkModeChanged_def dispatch_defs)
next
  case (Store i)
  then have len: "i < length (sv_answers s)" using assms(5) by (simp split: if_splits)
  then have s1: "s\<lparr>sv_cache := snd (store_standby_mode (sv_answers s ! i) [] (sv_cache s)),
      sv_answers := remove_at i (sv_answers s)\<rparr> = s1"
    using Store assms(5) by simp
  obtain e b where a: "sv_answers s ! i = (e, b)" by (rule prod.exhaust)
  have answers: "\<forall>(e, b) \<in> set (sv_answers s). e = ERROR_NONE \<longrightarrow> b = nw_mode (sv_pm s)"
    using assms(1) by (simp add: coherent_def)
  then have "e = ERROR_NONE \<longrightarrow> b = nw_mode (sv_pm s)" using nth_mem [OF len] a by auto
  moreover have "\<forall>(e, b) \<in> set (remove_at i (sv_answers s)). e = ERROR_NONE \<longrightarrow> b = nw_mode (sv_pm s)"
    by (rule ballI, rule bspec [OF answers], rule subsetD [OF set_remove_at])
  ultimately show ?thesis
    using assms(1) unfolding s1 [symmetric] by (simp add: coherent_def store_standby_mode_def a Let_def)
qed (use assms in \<open>auto simp: coherent_def ask_standby_mode_def pm_standby_def PowerManager_GetNetworkStandbyMode_def
      PowerController_GetNetworkStandbyMode_def nw_mode_def split: if_splits\<close>)

lemma svc_reach_coherent: "svc_reach E me s \<Longrightarrow> coherent s"
proof (induction rule: svc_reach.induct)
  case (activated pm due)
  then show ?case by (simp add: coherent_def no_cache_def)
next
  case (step s op' s1)
  then show ?case using svc_exec_coherent by blast
qed

lemma asked_mode: "ask_standby_mode (Some (pm_standby E)) pm = (ERROR_NONE, nw_mode pm)"
  by (simp add: ask_standby_mode_def pm_standby_def PowerManager_GetNetworkStandbyMode_def
      PowerController_GetNetworkStandbyMode_def nw_mode_def)

text \<open>A call, a change of the mode and its notification, in the order in which they do not overlap.\<close>

lemma orderly_run:
  assumes "pm_reach E pm" "nw_registered me pm" "saves E pm" "SetNetworkStandbyMode_locked E b pm = (ERROR_NONE, pm1)" "saves E pm1"
  shows "\<exists>s1. svc_run E me [Ask, Store 0, SetLocked b, Notify 0] \<lparr>sv_pm = pm, sv_cache = no_cache, sv_answers = [], sv_due = []\<rparr> = Some s1
    \<and> svc_reach E me s1 \<and> sv_due s1 = [] \<and> nw_mode (sv_pm s1) = b \<and> ca_networkStandbyModeValid (sv_cache s1)"
proof -
  let ?s0 = "\<lparr>sv_pm = pm, sv_cache = no_cache, sv_answers = [], sv_due = []\<rparr>"
  let ?c = "no_cache\<lparr>ca_networkStandbyMode := nw_mode pm, ca_networkStandbyModeValid := True\<rparr>"
  let ?s1 = "?s0\<lparr>sv_answers := [(ERROR_NONE, nw_mode pm)]\<rparr>" and ?s2 = "?s0\<lparr>sv_cache := ?c\<rparr>"
  let ?s3 = "?s2\<lparr>sv_pm := pm1, sv_due := [b]\<rparr>"
  let ?s4 = "?s3\<lparr>sv_pm := dispatchNetworkStandbyModeChangedEvent b pm1,
    sv_cache := ?c\<lparr>ca_networkStandbyMode := b, ca_networkStandbyModeValid := True\<rparr>, sv_due := []\<rparr>"
  have 0: "svc_reach E me ?s0" using svc_reach.activated [OF assms(1), of "[]" me] by simp
  have e1: "svc_exec E me Ask ?s0 = Some ?s1" by (simp add: no_cache_def asked_mode)
  have e2: "svc_exec E me (Store 0) ?s1 = Some ?s2" by (simp add: remove_at_def store_standby_mode_def)
  have e3: "svc_exec E me (SetLocked b) ?s2 = Some ?s3" using assms(4) by simp
  have reg: "nw_registered me pm1" using locked_nw(2) [OF assms(3,4)] assms(2) by (simp add: nw_registered_def)
  have e4: "svc_exec E me (Notify 0) ?s3 = Some ?s4" using reg by (simp add: remove_at_def onNetworkModeChanged_def)
  have "svc_reach E me ?s1" by (rule svc_reach.step [OF 0 _ _ _ e1]) (use assms in simp_all)
  from svc_reach.step [OF this _ _ _ e2] have "svc_reach E me ?s2" using assms by simp
  from svc_reach.step [OF this _ _ _ e3] have "svc_reach E me ?s3" using assms by simp
  from svc_reach.step [OF this _ _ _ e4] have 4: "svc_reach E me ?s4" using assms(5) reg by simp
  have "svc_run E me [Ask, Store 0, SetLocked b, Notify 0] ?s0 = Some ?s4"
    using e1 e2 e3 e4 by (simp del: svc_exec.simps)
  then show ?thesis using 4 locked_nw(1) [OF assms(3,4)] by (auto simp: dispatch_defs)
qed

text \<open>Whether the disk can be written does not change with the start of the power manager.\<close>

definition writable :: "fs \<Rightarrow> bool" where
  "writable f = (\<forall>p. \<not> fs_noopen f p \<and> \<not> fs_nowrite f p)"

lemma writable_save [simp]: "writable (snd (Settings_Save H s p f)) = writable f"
  by (simp add: writable_def Settings_Save_frame)

lemma saves_writable: "writable (pm_fs pm) \<Longrightarrow> saves E pm"
  by (simp add: saves_def writable_def Settings_Save_def V1_Save_def fs_write_def)

lemma writable_load_file: "Settings_load_file H p now f = (s, f') \<Longrightarrow> writable f' = writable f"
  using load_file_frame [of H p now f s f'] by (simp add: writable_def)

lemma writable_load: "writable (snd (Settings_Load H platco p now f)) = writable f"
  by (auto simp: Settings_Load_def Let_def writable_load_file split: prod.splits)

lemma writable_SetPowerState:
  "PowerController_SetPowerState E s c p f = (e, c1, p1, f1) \<Longrightarrow> writable f1 = writable f"
  by (auto simp: PowerController_SetPowerState_def Let_def split: if_splits prod.splits)

lemma writable_ctor: "PowerController_ctor E platco p f = (c, p1, f1) \<Longrightarrow> writable f \<Longrightarrow> writable f1"
  using writable_load [of "pe_codes E" platco kSettingsFilePath "pe_clock E p" f]
  by (auto simp: PowerController_ctor_def PowerController_init_def Let_def writable_SetPowerState split: if_splits prod.splits)

lemma ctor_fs:
  "PowerManagerImplementation_ctor E p f = Some pm \<Longrightarrow> PowerController_ctor (me_power E) (me_platco E) p f = (pc, p1, f1)
   \<Longrightarrow> pm_fs pm = f1"
  by (auto simp: PowerManagerImplementation_ctor_def)

lemma writable_locked: "SetNetworkStandbyMode_locked E b pm = (e, pm1) \<Longrightarrow> writable (pm_fs pm) \<Longrightarrow> writable (pm_fs pm1)"
  using Settings_Save_frame
  by (auto simp: SetNetworkStandbyMode_locked_def PowerController_SetNetworkStandbyMode_def Let_def writable_def
      split: if_splits prod.splits) (metis snd_conv)+

text \<open>
  The order matters: if the mode is changed and announced between the answer to a call and its store,
  the store puts the old mode over the new one. Nothing is waiting then, and the cache goes on
  answering with the old mode.
\<close>

theorem store_after_change_stale:
  assumes "\<not> ca_networkStandbyModeValid (sv_cache s)" "sv_answers s = []" "sv_due s = []" "nw_registered me (sv_pm s)"
    "saves E (sv_pm s)" "SetNetworkStandbyMode_locked E b (sv_pm s) = (ERROR_NONE, pm1)"
  shows "\<exists>s1. svc_run E me [Ask, SetLocked b, Notify 0, Store 0] s = Some s1 \<and> sv_due s1 = [] \<and> sv_answers s1 = []
    \<and> nw_mode (sv_pm s1) = b
    \<and> fst (getNetworkStandbyMode (Some (pm_standby E)) between resp (sv_cache s1) (sv_pm s1))
        = returnResponse True (set_member ''nwStandby'' (JBool (nw_mode (sv_pm s))) resp)"
proof -
  have "nw_registered me pm1" using locked_nw(2) [OF assms(5,6)] assms(4) by (simp add: nw_registered_def)
  then show ?thesis
    using assms locked_nw(1) [OF assms(5,6)]
    by (simp add: asked_mode remove_at_def onNetworkModeChanged_def store_standby_mode_def getNetworkStandbyMode_def dispatch_defs Let_def)
qed

text \<open>
  A mode that cannot be saved: the power manager has it, but reports a failure and notifies nobody, so
  a cache that was valid now holds the old mode and goes on answering with it.
\<close>

lemma unsaved_mode_stale:
  assumes "nw_mode (sv_pm s) = (\<not> b)"
    and "PowerController_SetWakeupSourceConfig (me_power E) (standby_configs b) (pm_hw (sv_pm s)) = (ERROR_NONE, p1)"
    and "\<And>st. \<not> fst (Settings_Save (pe_codes (me_power E)) st kSettingsFilePath (pm_fs (sv_pm s)))"
    and "ca_networkStandbyModeValid (sv_cache s)" "ca_networkStandbyMode (sv_cache s) = (\<not> b)"
    and "svc_exec E me (SetLocked b) s = Some s1"
  shows "nw_mode (sv_pm s1) = b" "sv_due s1 = sv_due s"
    and "fst (getNetworkStandbyMode (Some (pm_standby E)) between resp (sv_cache s1) (sv_pm s1))
      = returnResponse True (set_member ''nwStandby'' (JBool (\<not> b)) resp)"
proof -
  obtain ok f1 where s: "Settings_Save (pe_codes (me_power E)) ((pc_settings (pm_power (sv_pm s)))\<lparr>st_nwStandbyMode := b\<rparr>)
      kSettingsFilePath (pm_fs (sv_pm s)) = (ok, f1)"
    by fastforce
  then have nok: "\<not> ok" using assms(3) by (metis fst_conv)
  let ?pc = "(pm_power (sv_pm s))\<lparr>pc_settings := (pc_settings (pm_power (sv_pm s)))\<lparr>st_nwStandbyMode := b\<rparr>\<rparr>"
  have "SetNetworkStandbyMode_locked E b (sv_pm s) = (ERROR_GENERAL, (sv_pm s)\<lparr>pm_power := ?pc, pm_hw := p1, pm_fs := f1\<rparr>)"
    using assms(1,2) s nok
    by (simp add: SetNetworkStandbyMode_locked_def PowerController_SetNetworkStandbyMode_def nw_mode_def Let_def)
  then show "nw_mode (sv_pm s1) = b" "sv_due s1 = sv_due s"
    and "fst (getNetworkStandbyMode (Some (pm_standby E)) between resp (sv_cache s1) (sv_pm s1))
      = returnResponse True (set_member ''nwStandby'' (JBool (\<not> b)) resp)"
    using assms(4-6) by (auto simp: nw_mode_def getNetworkStandbyMode_def)
qed

end
