(* ===== verification/FirmwareInfo.thy ===== *)
theory FirmwareInfo imports DeviceState DeviceInfo begin

text \<open>
  What SystemServices tells of the firmware, \<open>SystemServices/SystemServices.cpp\<close>: the values of property
  files, the versions with their caches, the check for an update, the state of a download and the
  reason of its failure.

  The parser of the framework for JSON texts, the script that asks the server and the conversion of a
  date are arguments. The build has none of the macros with fixed version strings. \<open>None\<close> is an
  exception that leaves the method.
\<close>

section \<open>Values of property files\<close>

definition find_first_of :: "string \<Rightarrow> string \<Rightarrow> nat option" where
  "find_first_of chars s =
     (let n = length (takeWhile (\<lambda>c. c \<notin> set chars) s) in if n < length s then Some n else None)"

text \<open>The delimiters that are used have one character.\<close>

fun value_of_lines :: "string \<Rightarrow> string \<Rightarrow> string list \<Rightarrow> string option" where
  "value_of_lines key delimiter [] = None"
| "value_of_lines key delimiter (line # rest) =
     (case find_first_of delimiter line of
        Some eq \<Rightarrow> if take eq line = key then Some (trim (drop (eq + length delimiter) line))
                   else value_of_lines key delimiter rest
      | None \<Rightarrow> value_of_lines key delimiter rest)"

definition GetValueFromPropertiesFile :: "files \<Rightarrow> string \<Rightarrow> string \<Rightarrow> string \<Rightarrow> string \<Rightarrow> hresult \<times> string" where
  "GetValueFromPropertiesFile F filename key response delimiter =
     (case open_read F filename of
        None \<Rightarrow> (ERROR_GENERAL, response)
      | Some s \<Rightarrow>
          (case value_of_lines key delimiter (fgets_lines 1023 s) of
             Some v \<Rightarrow> (ERROR_NONE, v)
           | None \<Rightarrow> (ERROR_GENERAL, response)))"

definition SetValueFromPropertiesFile ::
  "files \<Rightarrow> string \<Rightarrow> string \<Rightarrow> json_params \<Rightarrow> string \<Rightarrow> string \<Rightarrow> hresult \<times> json_params" where
  "SetValueFromPropertiesFile F filename key response parameterName delimiter =
     (let (result, v) = GetValueFromPropertiesFile F filename key [] delimiter
      in if result = ERROR_NONE then (ERROR_NONE, set_member parameterName (JString v) response)
         else (ERROR_GENERAL, response))"

text \<open>The first line that matches decides, even if it has another number of groups than one.\<close>

fun regex_line :: "rx_item list \<Rightarrow> string list \<Rightarrow> string option" where
  "regex_line rx [] = None"
| "regex_line rx (line # rest) =
     (case regex_match rx line of
        Some groups \<Rightarrow> (if length groups = 1 then Some (hd groups) else None)
      | None \<Rightarrow> regex_line rx rest)"

definition svc_GetFileRegex :: "files \<Rightarrow> string \<Rightarrow> rx_item list \<Rightarrow> string \<Rightarrow> hresult \<times> string" where
  "svc_GetFileRegex F filename rx response =
     (case open_read F filename of
        None \<Rightarrow> (ERROR_GENERAL, response)
      | Some s \<Rightarrow> (case regex_line rx (file_lines s) of Some g \<Rightarrow> (ERROR_NONE, g) | None \<Rightarrow> (ERROR_GENERAL, response)))"

section \<open>Versions\<close>

text \<open>The member and the statics that keep a version once it is found; empty is not found.\<close>

record versions =
  vs_stb :: string
  vs_client :: string
  vs_timestamp :: string
  vs_branch :: string

definition VERSION_FILE_NAME :: string where "VERSION_FILE_NAME = ''/version.txt''"

definition version_lines_of :: "files \<Rightarrow> string list option" where
  "version_lines_of F =
     (let (ok, lines) = getFileContent_lines F VERSION_FILE_NAME [] in if ok then Some (map c_string lines) else None)"

text \<open>\<open>s.substr(s.find(c) + 1)\<close>: all of it without the character.\<close>

definition after_char :: "char \<Rightarrow> string \<Rightarrow> string" where
  "after_char c s = (case find_char c s of Some p \<Rightarrow> drop (p + 1) s | None \<Rightarrow> s)"

fun image_name :: "string list \<Rightarrow> string option" where
  "image_name [] = None"
| "image_name (line # rest) =
     (if find_str ''imagename:'' line \<noteq> None \<and> after_char CHR '':'' line \<noteq> []
      then Some (after_char CHR '':'' line) else image_name rest)"

definition getStbVersionString :: "files \<Rightarrow> versions \<Rightarrow> string \<times> versions" where
  "getStbVersionString F v =
     (if vs_stb v \<noteq> [] then (vs_stb v, v)
      else
        (let found = (case version_lines_of F of Some lines \<Rightarrow> image_name lines | None \<Rightarrow> None);
             t = (case found of Some token \<Rightarrow> token | None \<Rightarrow> ''unknown'')
         in (t, v\<lparr>vs_stb := t\<rparr>)))"

text \<open>The first line that begins with \<open>key\<close>.\<close>

definition key_line :: "string \<Rightarrow> string list \<Rightarrow> string option" where
  "key_line key lines = find (\<lambda>line. take (length key) line = key) lines"

definition getClientVersionString :: "files \<Rightarrow> versions \<Rightarrow> string \<times> versions" where
  "getClientVersionString F v =
     (if vs_client v \<noteq> [] then (vs_client v, v)
      else
        (let t = (case version_lines_of F of
                    Some lines \<Rightarrow> (case key_line ''VERSION='' lines of
                                     Some line \<Rightarrow> take 12 (after_char CHR ''='' line) | None \<Rightarrow> [])
                  | None \<Rightarrow> [])
         in (if t \<noteq> [] then t else ''unknown'', v\<lparr>vs_client := t\<rparr>)))"

text \<open>\<open>date\<close> is the result of \<open>strptime\<close> and \<open>strftime\<close>, \<open>None\<close> if the text is no date.\<close>

definition stringTodate :: "(string \<Rightarrow> string option) \<Rightarrow> string \<Rightarrow> string" where
  "stringTodate date pBuffer = (case date pBuffer of None \<Rightarrow> [] | Some s \<Rightarrow> s)"

text \<open>The time starts one character after the equality sign; a line that ends there makes \<open>substr\<close> throw.\<close>

definition getStbTimestampString :: "(string \<Rightarrow> string option) \<Rightarrow> files \<Rightarrow> versions \<Rightarrow> (string \<times> versions) option" where
  "getStbTimestampString date F v =
     (if vs_timestamp v \<noteq> [] then Some (vs_timestamp v, v)
      else
        (case (case version_lines_of F of Some lines \<Rightarrow> key_line ''BUILD_TIME='' lines | None \<Rightarrow> None) of
           None \<Rightarrow> Some (''unknown'', v)
         | Some line \<Rightarrow>
             if after_char CHR ''='' line = [] then None
             else (let t = stringTodate date (take 19 (tl (after_char CHR ''='' line)))
                   in Some (if t \<noteq> [] then t else ''unknown'', v\<lparr>vs_timestamp := t\<rparr>))))"

definition getStbBranchString :: "files \<Rightarrow> versions \<Rightarrow> string \<times> versions" where
  "getStbBranchString F v =
     (if vs_branch v \<noteq> [] then (vs_branch v, v)
      else
        (let t = (case version_lines_of F of
                    Some lines \<Rightarrow> (case key_line ''BRANCH='' lines of
                                     Some line \<Rightarrow> after_char CHR ''_'' (after_char CHR ''='' line) | None \<Rightarrow> [])
                  | None \<Rightarrow> [])
         in (if t \<noteq> [] then t else ''unknown'', v\<lparr>vs_branch := t\<rparr>)))"

text \<open>Five numbers of at most three digits, with dots between them.\<close>

definition branch_rx :: "rx_item list" where
  "branch_rx = (let d = Rx c_isdigit 1 (Some 3) False; p = rx_one (\<lambda>c. c = CHR ''.'') in [d, p, d, p, d, p, d, p, d])"

definition getSystemVersions ::
  "(string \<Rightarrow> string option) \<Rightarrow> files \<Rightarrow> json_params \<Rightarrow> versions \<Rightarrow> ((hresult \<times> json_params) \<times> versions) option" where
  "getSystemVersions date F response v =
     (let (stb, v1) = getStbVersionString F v;
          response1 = set_member ''stbVersion'' (JString stb) response;
          (branch, v2) = getStbBranchString F v1;
          (receiver, v3) = (if regex_match branch_rx branch \<noteq> None then (branch, v2) else getClientVersionString F v2);
          response2 = set_member ''receiverVersion'' (JString receiver) response1
      in map_option (\<lambda>(time, v4). (returnResponse True (set_member ''stbTimestamp'' (JString time) response2), v4))
           (getStbTimestampString date F v3))"

section \<open>The check for an update\<close>

datatype FWUpdateAvailableEnum = FW_UPDATE_AVAILABLE | FW_MATCH_CURRENT_VER | NO_FW_VERSION | EMPTY_SW_UPDATE_CONF

fun fw_enum :: "FWUpdateAvailableEnum \<Rightarrow> int" where
  "fw_enum FW_UPDATE_AVAILABLE = 0"
| "fw_enum FW_MATCH_CURRENT_VER = 1"
| "fw_enum NO_FW_VERSION = 2"
| "fw_enum EMPTY_SW_UPDATE_CONF = 3"

definition STATUS_CODE_NO_SWUPDATE_CONF :: int where "STATUS_CODE_NO_SWUPDATE_CONF = 460"

text \<open>\<open>parse\<close> is the parser of the framework.\<close>

definition reportFirmwareUpdateInfoReceived ::
  "(string \<Rightarrow> json_params option) \<Rightarrow> string \<Rightarrow> int \<Rightarrow> bool \<Rightarrow> string \<Rightarrow> string \<Rightarrow> notifications" where
  "reportFirmwareUpdateInfoReceived parse firmwareUpdateVersion httpStatus ok firmwareVersion responseString =
     (let p0 = [(''status'', JNumber httpStatus), (''responseString'', JString (c_string responseString)), (''rebootImmediately'', JBool False)];
          p1 = (if responseString \<noteq> [] then
                  (case parse responseString of
                     Some xconf \<Rightarrow> set_member ''rebootImmediately'' (member xconf ''rebootImmediately'') p0
                   | None \<Rightarrow> p0)
                else p0);
          p2 = (if httpStatus = STATUS_CODE_NO_SWUPDATE_CONF then
                  set_member ''success'' (JBool True) (set_member ''updateAvailableEnum'' (JNumber (fw_enum EMPTY_SW_UPDATE_CONF))
                    (set_member ''updateAvailable'' (JBool False) (set_member ''status'' (JNumber 0) p1)))
                else if httpStatus = 404 then
                  set_member ''success'' (JBool True) (set_member ''updateAvailableEnum'' (JNumber (fw_enum FW_MATCH_CURRENT_VER))
                    (set_member ''updateAvailable'' (JBool False) p1))
                else
                  (let (p, available, kind) =
                         (if length firmwareUpdateVersion > 0 then
                            (set_member ''firmwareUpdateVersion'' (JString (c_string firmwareUpdateVersion)) p1,
                             firmwareUpdateVersion \<noteq> firmwareVersion,
                             if firmwareUpdateVersion \<noteq> firmwareVersion then FW_UPDATE_AVAILABLE else FW_MATCH_CURRENT_VER)
                          else (set_member ''firmwareUpdateVersion'' (JString []) p1, False, NO_FW_VERSION))
                   in set_member ''success'' (JBool ok) (set_member ''updateAvailableEnum'' (JNumber (fw_enum kind))
                        (set_member ''updateAvailable'' (JBool available) p))))
      in [(''onFirmwareUpdateInfoReceived'', p2)])"

definition firmware_env :: "string \<Rightarrow> string" where
  "firmware_env firmwareVersion =
     (if findCaseInsensitive firmwareVersion ''DEV'' 0 then ''DEV''
      else if findCaseInsensitive firmwareVersion ''VBN'' 0 then ''VBN''
      else if findCaseInsensitive firmwareVersion ''PROD'' 0 then ''PROD''
      else if findCaseInsensitive firmwareVersion ''CQA'' 0 then ''CQA'' else [])"

text \<open>
  The worker; \<open>script\<close> is what the image check does to the files. An instance of the plugin exists. The
  fields of \<open>firmwareUpdate\<close> are the version, the status and the success.
\<close>

definition http_status :: "files \<Rightarrow> int" where
  "http_status F =
     (let (ok, code) = readFileContent F ''/tmp/xconf_httpcode_thunder.txt'' []
      in if ok then (case stoi code of Some n \<Rightarrow> n | None \<Rightarrow> 0) else 0)"

definition xconf_answer :: "(string \<Rightarrow> json_params option) \<Rightarrow> files \<Rightarrow> string \<times> bool \<times> string" where
  "xconf_answer parse F =
     (let (ok, response) = readFileContent F ''/tmp/xconf_response_thunder.txt'' []
      in if \<not> ok then ([], False, response)
         else (case parse response of
                 None \<Rightarrow> ([], False, response)
               | Some httpResp \<Rightarrow>
                   if HasLabel httpResp ''firmwareVersion'' then (member_String httpResp ''firmwareVersion'', True, response)
                   else ([], False, [])))"

definition firmwareUpdateInfoReceived ::
  "(string \<Rightarrow> json_params option) \<Rightarrow> (files \<Rightarrow> files) \<Rightarrow> files \<Rightarrow> versions \<Rightarrow> notifications \<times> files \<times> versions" where
  "firmwareUpdateInfoReceived parse script F v =
     (let (firmwareVersion, v1) = getStbVersionString F v;
          (xconfOverride, bFileExists) = getXconfOverrideUrl F
      in if firmware_env firmwareVersion \<noteq> ''PROD'' \<and> bFileExists \<and> xconfOverride = []
         then (reportFirmwareUpdateInfoReceived parse [] STATUS_CODE_NO_SWUPDATE_CONF True [] [], F, v1)
         else
           (let F1 = script F;
                (version, ok, response) = xconf_answer parse F1
            in (reportFirmwareUpdateInfoReceived parse version (http_status F1) ok firmwareVersion response, F1, v1)))"

text \<open>The worker runs in a thread, if one could be started.\<close>

definition getFirmwareUpdateInfo :: "bool \<Rightarrow> json_params \<Rightarrow> hresult \<times> json_params" where
  "getFirmwareUpdateInfo started response =
     returnResponse started (set_member ''asyncResponse'' (JBool started) response)"

section \<open>The download\<close>

definition FWDNLDSTATUS_FILE_NAME :: string where "FWDNLDSTATUS_FILE_NAME = ''/opt/fwdnldstatus.txt''"

text \<open>Erasing up to each bar leaves what follows the last one; the expression removes blanks at both ends.\<close>

definition last_field :: "string \<Rightarrow> string" where
  "last_field line = rev (takeWhile (\<lambda>c. c \<noteq> CHR ''|'') (rev line))"

definition strip_blanks :: "string \<Rightarrow> string" where
  "strip_blanks line = rev (dropWhile (\<lambda>c. c = CHR '' '') (rev (dropWhile (\<lambda>c. c = CHR '' '') line)))"

text \<open>The line that is left, and the value if it is longer than one character.\<close>

definition fw_field :: "string \<Rightarrow> string \<Rightarrow> string \<times> string option" where
  "fw_field key line =
     (if find_str key line \<noteq> None then
        (let l = strip_blanks (last_field line) in (l, if length l > 1 then Some l else None))
      else (line, None))"

definition yes_text :: "string \<Rightarrow> bool" where
  "yes_text t = (strncasecmp_eq t ''1'' 1 \<or> strncasecmp_eq t ''yes'' 3 \<or> strncasecmp_eq t ''true'' 4)"

definition download_line :: "int \<Rightarrow> string \<Rightarrow> string \<times> string \<times> bool \<Rightarrow> string \<times> string \<times> bool" where
  "download_line latest line = (\<lambda>(version, location, deferred).
     (let (line1, reboot) = fw_field ''Reboot|'' line;
          deferred1 = (case reboot of Some t \<Rightarrow> yes_text t \<or> deferred | None \<Rightarrow> deferred)
      in if latest \<ge> 2 then
           (let (line2, ver) = fw_field ''DnldVersn|'' line1;
                (line3, url) = fw_field ''DnldURL|'' line2
            in (case ver of Some t \<Rightarrow> c_string t | None \<Rightarrow> version,
                case url of Some t \<Rightarrow> c_string t | None \<Rightarrow> location, deferred1))
         else (version, location, deferred1)))"

definition download_members :: "string \<times> string \<times> bool \<Rightarrow> json_params \<Rightarrow> json_params" where
  "download_members = (\<lambda>(version, location, deferred) response.
     set_member ''isRebootDeferred'' (JBool deferred) (set_member ''downloadedFWLocation'' (JString location)
       (set_member ''downloadedFWVersion'' (JString version) response)))"

definition getDownloadedFirmwareInfo :: "files \<Rightarrow> int \<Rightarrow> json_params \<Rightarrow> versions \<Rightarrow> (hresult \<times> json_params) \<times> versions" where
  "getDownloadedFirmwareInfo F latest response v =
     (if \<not> fileExists F FWDNLDSTATUS_FILE_NAME then
        (let (ver, v1) = getStbVersionString F v;
             response1 = download_members ([], [], False) response
         in (returnResponse (ver \<noteq> ''unknown'')
               (set_member ''currentFWVersion'' (JString (if ver = ''unknown'' then [] else ver)) response1), v1))
      else
        (let (ok, lines) = getFileContent_lines F FWDNLDSTATUS_FILE_NAME []
         in if ok then
              (let (ver, v1) = getStbVersionString F v
               in (returnResponse True (download_members (fold (download_line latest) lines ([], [], False))
                     (set_member ''currentFWVersion'' (JString ver) response)), v1))
            else (returnResponse False (populateResponseWithError SysSrv_FileContentUnsupported response), v)))"

definition getFirmwareDownloadPercent :: "files \<Rightarrow> json_params \<Rightarrow> (hresult \<times> json_params) option" where
  "getFirmwareDownloadPercent F response =
     (if fileExists F DOWNLOAD_PROGRESS_FILE then
        map_option (\<lambda>(ok, percent). returnResponse ok (set_member ''downloadPercent'' (JNumber percent) response))
          (getDownloadProgress F (-1))
      else Some (returnResponse True (set_member ''downloadPercent'' (JNumber (-1)) response)))"

section \<open>The reason of a failure\<close>

datatype FwFailReason =
    FwFailReasonNone
  | FwFailReasonNotFound
  | FwFailReasonNetworkFailure
  | FwFailReasonServerUnreachable
  | FwFailReasonCorruptDownloadFile
  | FwFailReasonFailureInFlashWrite
  | FwFailReasonUpgradeFailedAfterFlashWrite

fun FwFailReasonToText :: "FwFailReason \<Rightarrow> string" where
  "FwFailReasonToText FwFailReasonNone = ''None''"
| "FwFailReasonToText FwFailReasonNotFound = ''Not found''"
| "FwFailReasonToText FwFailReasonNetworkFailure = ''Network failure''"
| "FwFailReasonToText FwFailReasonServerUnreachable = ''Server unreachable''"
| "FwFailReasonToText FwFailReasonCorruptDownloadFile = ''Corrupt download file''"
| "FwFailReasonToText FwFailReasonFailureInFlashWrite = ''Failure in flash write''"
| "FwFailReasonToText FwFailReasonUpgradeFailedAfterFlashWrite = ''Upgrade failed after flash write''"

definition FwFailReasonFromText :: "(string \<times> FwFailReason) list" where
  "FwFailReasonFromText =
    [(''ESTB Download Failure'', FwFailReasonServerUnreachable),
     (''Image Download Failed - Unable to connect'', FwFailReasonNetworkFailure),
     (''Image Download Failed - Server not Found'', FwFailReasonNotFound),
     (''Image Download Failed - Error response from server'', FwFailReasonServerUnreachable),
     (''Image Download Failed - Unknown'', FwFailReasonServerUnreachable),
     (''Image download failed from server'', FwFailReasonServerUnreachable),
     (''RCDL Upgrade Failed'', FwFailReasonFailureInFlashWrite),
     (''ECM trigger failed'', FwFailReasonFailureInFlashWrite),
     (''Failed in flash write'', FwFailReasonFailureInFlashWrite),
     (''Flashing failed'', FwFailReasonFailureInFlashWrite),
     (''Versions Match'', FwFailReasonNone),
     (''Cloud FW Version is empty'', FwFailReasonNone),
     (''Cloud FW Version is invalid'', FwFailReasonNone),
     (''Invalid Request'', FwFailReasonNone),
     (''Network Communication Error'', FwFailReasonNone),
     (''Previous Upgrade In Progress'', FwFailReasonNone),
     (''Empty image name from CDL server'', FwFailReasonNone),
     (''Upgrade failed after flash write'', FwFailReasonUpgradeFailedAfterFlashWrite)]"

definition reason_rx :: "rx_item list" where
  "reason_rx = rx_lit ''FailureReason|'' @ [Rx (\<lambda>c. c \<noteq> CHR 0x0A \<and> c \<noteq> CHR 0x0D) 0 None True]"

definition reason_text :: "string list \<Rightarrow> string" where
  "reason_text lines =
     fold (\<lambda>line str. case regex_match reason_rx line of Some (g # gs) \<Rightarrow> g | _ \<Rightarrow> str) lines []"

definition fail_reason :: "string \<Rightarrow> FwFailReason" where
  "fail_reason str =
     (case find (\<lambda>t. map c_tolower (fst t) = map c_tolower (c_string str)) FwFailReasonFromText of
        Some (t, r) \<Rightarrow> r | None \<Rightarrow> FwFailReasonNone)"

definition getLastFirmwareFailureReason :: "files \<Rightarrow> json_params \<Rightarrow> hresult \<times> json_params" where
  "getLastFirmwareFailureReason F response =
     (let (ok, lines) = getFileContent_lines F FWDNLDSTATUS_FILE_NAME [];
          failReason = (if ok then fail_reason (reason_text lines) else FwFailReasonNone)
      in returnResponse True (set_member ''failReason'' (JString (FwFailReasonToText failReason)) response))"

section \<open>Versions are kept\<close>

text \<open>Once a version is found it is returned whatever the file holds then.\<close>

lemma versions_kept:
  "getStbVersionString F v = (t, v1) \<Longrightarrow> t \<noteq> [] \<Longrightarrow> getStbVersionString F2 v1 = (t, v1)"
  "getStbBranchString F v = (t, v1) \<Longrightarrow> t \<noteq> ''unknown'' \<Longrightarrow> getStbBranchString F2 v1 = (t, v1)"
  "getClientVersionString F v = (t, v1) \<Longrightarrow> t \<noteq> ''unknown'' \<Longrightarrow> getClientVersionString F2 v1 = (t, v1)"
  by (auto simp: getStbVersionString_def getStbBranchString_def getClientVersionString_def Let_def split: if_splits)

text \<open>A build time that is not there makes the method throw.\<close>

lemma empty_build_time_throws:
  assumes "open_read F VERSION_FILE_NAME = Some (''imagename:a'' @ [CHR 0x0A] @ ''BUILD_TIME='' @ [CHR 0x0A])" "vs_timestamp v = []"
  shows "getSystemVersions date F resp v = None"
proof -
  have "version_lines_of F = Some [''imagename:a'', ''BUILD_TIME='']"
    using assms(1) by (simp add: version_lines_of_def getFileContent_lines_def file_lines_def c_string_def)
  moreover have "vs_timestamp (snd (getStbVersionString F w)) = vs_timestamp w" "vs_timestamp (snd (getStbBranchString F w)) = vs_timestamp w"
    "vs_timestamp (snd (getClientVersionString F w)) = vs_timestamp w" for w
    by (simp_all add: getStbVersionString_def getStbBranchString_def getClientVersionString_def Let_def)
  ultimately show ?thesis
    using assms(2) by (auto simp: getSystemVersions_def getStbTimestampString_def key_line_def after_char_def Let_def split_def)
qed

section \<open>The check for an update is reported\<close>

lemma report_members:
  "\<exists>ps. reportFirmwareUpdateInfoReceived parse upd code ok cur resp = [(''onFirmwareUpdateInfoReceived'', ps)]
    \<and> (code = 460 \<longrightarrow> member ps ''updateAvailable'' = JBool False \<and> member ps ''updateAvailableEnum'' = JNumber 3)
    \<and> (code = 404 \<longrightarrow> member ps ''updateAvailable'' = JBool False \<and> member ps ''updateAvailableEnum'' = JNumber 1)
    \<and> (code \<notin> {404, 460} \<longrightarrow> member ps ''updateAvailable'' = JBool (upd \<noteq> [] \<and> upd \<noteq> cur)
      \<and> member ps ''firmwareUpdateVersion'' = JString (c_string upd))"
  by (simp add: reportFirmwareUpdateInfoReceived_def STATUS_CODE_NO_SWUPDATE_CONF_def Let_def c_string_def)

lemma member_String_missing: "\<not> HasLabel ps k \<Longrightarrow> member_String ps k = []"
  by (auto simp: HasLabel_def member_String_def member_def)

text \<open>The version that the server's answer names.\<close>

definition answered :: "(string \<Rightarrow> json_params option) \<Rightarrow> files \<Rightarrow> string \<Rightarrow> bool" where
  "answered parse F w =
     (\<exists>txt j. readFileContent F ''/tmp/xconf_response_thunder.txt'' [] = (True, txt) \<and> parse txt = Some j
        \<and> member_String j ''firmwareVersion'' = w)"

lemma answer_version: "w \<noteq> [] \<Longrightarrow> answered parse F w \<longleftrightarrow> fst (xconf_answer parse F) = w"
  by (auto simp: answered_def xconf_answer_def member_String_missing split: prod.splits option.splits if_splits)

text \<open>
  C36. The check for an update sends one notification. A device that is not of the kind \<open>PROD\<close> with an
  empty override file does not ask the server and says so. Otherwise an update is announced exactly
  if the server's status is neither 404 nor 460 and its answer names a version other than the one
  that runs, and the version announced is that one.
\<close>

theorem firmware_update_reported:
  assumes "firmwareUpdateInfoReceived parse script F v = (ns, F1, v1)"
  shows "\<exists>ps. ns = [(''onFirmwareUpdateInfoReceived'', ps)] \<and>
    (let cur = fst (getStbVersionString F v)
     in if firmware_env cur \<noteq> ''PROD'' \<and> getXconfOverrideUrl F = ([], True)
        then F1 = F \<and> member ps ''updateAvailable'' = JBool False \<and> member ps ''updateAvailableEnum'' = JNumber 3
        else F1 = script F
          \<and> (\<forall>w. w \<noteq> [] \<and> member ps ''updateAvailable'' = JBool True \<and> answered parse F1 w \<longrightarrow>
               member ps ''firmwareUpdateVersion'' = JString (c_string w))
          \<and> (member ps ''updateAvailable'' = JBool True \<longleftrightarrow>
               http_status F1 \<notin> {404, 460} \<and> (\<exists>w. w \<noteq> [] \<and> w \<noteq> cur \<and> answered parse F1 w)))"
proof -
  obtain cur vv where cur: "getStbVersionString F v = (cur, vv)" by (rule prod.exhaust)
  obtain url e where url: "getXconfOverrideUrl F = (url, e)" by (rule prod.exhaust)
  show ?thesis
  proof (cases "firmware_env cur \<noteq> ''PROD'' \<and> e \<and> url = []")
    case True
    then have "ns = reportFirmwareUpdateInfoReceived parse [] 460 True [] []" "F1 = F"
      using assms cur url by (auto simp: firmwareUpdateInfoReceived_def STATUS_CODE_NO_SWUPDATE_CONF_def)
    then show ?thesis using True cur url report_members [of parse "[]" 460 True "[]" "[]"] by (auto simp: Let_def)
  next
    case False
    obtain w ok resp where w: "xconf_answer parse (script F) = (w, ok, resp)" by (rule prod_cases3)
    then have ns: "ns = reportFirmwareUpdateInfoReceived parse w (http_status (script F)) ok cur resp" "F1 = script F"
      using assms cur url False by (auto simp: firmwareUpdateInfoReceived_def Let_def split: if_splits)
    have a: "u \<noteq> [] \<Longrightarrow> answered parse F1 u \<longleftrightarrow> u = w" for u using answer_version [of u parse F1] w ns(2) by auto
    obtain ps where ps: "ns = [(''onFirmwareUpdateInfoReceived'', ps)]"
      "http_status F1 \<in> {404, 460} \<Longrightarrow> member ps ''updateAvailable'' = JBool False"
      "http_status F1 \<notin> {404, 460} \<Longrightarrow> member ps ''updateAvailable'' = JBool (w \<noteq> [] \<and> w \<noteq> cur)
        \<and> member ps ''firmwareUpdateVersion'' = JString (c_string w)"
      using report_members [of parse w "http_status F1" ok cur resp] ns by auto
    have "\<not> (firmware_env cur \<noteq> ''PROD'' \<and> getXconfOverrideUrl F = ([], True))" using False url by auto
    moreover have "(\<forall>u. u \<noteq> [] \<and> member ps ''updateAvailable'' = JBool True \<and> answered parse F1 u \<longrightarrow>
        member ps ''firmwareUpdateVersion'' = JString (c_string u))"
      using a ps(2,3) by (cases "http_status F1 \<in> {404, 460}") auto
    moreover have "member ps ''updateAvailable'' = JBool True \<longleftrightarrow>
        http_status F1 \<notin> {404, 460} \<and> (\<exists>u. u \<noteq> [] \<and> u \<noteq> cur \<and> answered parse F1 u)"
      using a ps(2,3) by (cases "http_status F1 \<in> {404, 460}") auto
    ultimately show ?thesis using ps(1) ns(2) cur by (auto simp: Let_def)
  qed
qed

section \<open>The download\<close>

definition status_line :: "string \<times> string \<Rightarrow> string" where
  "status_line = (\<lambda>(k, v). k @ ''|'' @ v)"

definition plain_entry :: "string \<times> string \<Rightarrow> bool" where
  "plain_entry = (\<lambda>(k, v). {CHR ''|'', CHR 0x0A} \<inter> (set k \<union> set v) = {} \<and> CHR 0x00 \<notin> set v
     \<and> (\<forall>name \<in> {''Reboot'', ''DnldVersn'', ''DnldURL''}. (\<exists>a. k = a @ name) \<longrightarrow> k = name))"

definition long_value :: "string \<Rightarrow> string \<times> string \<Rightarrow> bool" where
  "long_value key = (\<lambda>(k, v). k = key \<and> length (strip_blanks v) > 1)"

definition last_value :: "string \<Rightarrow> (string \<times> string) list \<Rightarrow> string" where
  "last_value key kvs = (case find (long_value key) (rev kvs) of Some (k, v) \<Rightarrow> strip_blanks v | None \<Rightarrow> [])"

lemma find_bar: "CHR ''|'' \<notin> set s \<Longrightarrow> find_str (key @ ''|'') s = None"
  by (auto simp: find_str_None_iff)

lemma find_status:
  assumes "plain_entry (k, v)" "name \<in> {''Reboot'', ''DnldVersn'', ''DnldURL''}"
  shows "find_str (name @ ''|'') (status_line (k, v)) \<noteq> None \<longleftrightarrow> k = name"
proof -
  have bars: "CHR ''|'' \<notin> set k" "CHR ''|'' \<notin> set v" using assms(1) by (auto simp: plain_entry_def)
  have "k @ CHR ''|'' # v = (a @ name) @ CHR ''|'' # b \<longleftrightarrow> k = a @ name \<and> v = b" for a b
    by (rule append_Cons_eq_iff) (use bars in auto)
  then have one: "(\<exists>a b. k @ CHR ''|'' # v = (a @ name) @ CHR ''|'' # b) \<longleftrightarrow> (\<exists>a. k = a @ name)" by blast
  have "find_str (name @ ''|'') (status_line (k, v)) \<noteq> None \<longleftrightarrow> (\<exists>a b. k @ CHR ''|'' # v = (a @ name) @ CHR ''|'' # b)"
    by (auto simp: find_str_None_iff status_line_def)
  also have "\<dots> \<longleftrightarrow> k = name"
  proof -
    have "(\<exists>a. k = a @ name) \<longrightarrow> k = name" using assms unfolding plain_entry_def prod.case by blast
    moreover have "k = name \<longrightarrow> (\<exists>a. k = a @ name)" by (metis append_Nil)
    ultimately show ?thesis unfolding one by blast
  qed
  finally show ?thesis .
qed

lemma last_field_status: "plain_entry (k, v) \<Longrightarrow> last_field (status_line (k, v)) = v"
proof -
  assume "plain_entry (k, v)"
  then have "takeWhile (\<lambda>c. c \<noteq> CHR ''|'') (rev v @ [CHR ''|''] @ rev k) = rev v"
    by (subst takeWhile_append2) (auto simp: plain_entry_def)
  then show ?thesis by (simp add: last_field_def status_line_def)
qed

lemma field_status:
  assumes "plain_entry (k, v)" "name \<in> {''Reboot'', ''DnldVersn'', ''DnldURL''}"
  shows "fw_field (name @ ''|'') (status_line (k, v)) =
    (if k = name then (strip_blanks v, if length (strip_blanks v) > 1 then Some (strip_blanks v) else None)
     else (status_line (k, v), None))"
  using find_status [OF assms] last_field_status [OF assms(1)] by (cases "k = name") (auto simp: fw_field_def Let_def)

lemma set_strip_blanks: "set (strip_blanks v) \<subseteq> set v"
  unfolding strip_blanks_def by (auto dest!: set_dropWhileD simp: dest: set_dropWhileD)

lemma field_no_bar: "CHR ''|'' \<notin> set s \<Longrightarrow> fw_field (key @ ''|'') s = (s, None)"
  using find_bar by (simp add: fw_field_def)

lemma download_step:
  assumes "plain_entry (k, v)"
  shows "download_line latest (status_line (k, v)) (ver, url, d) =
    (if latest \<ge> 2 \<and> long_value ''DnldVersn'' (k, v) then strip_blanks v else ver,
     if latest \<ge> 2 \<and> long_value ''DnldURL'' (k, v) then strip_blanks v else url,
     d \<or> long_value ''Reboot'' (k, v) \<and> yes_text (strip_blanks v))"
proof -
  let ?s = "strip_blanks v"
  have s: "CHR ''|'' \<notin> set ?s" "CHR 0x00 \<notin> set ?s" using set_strip_blanks [of v] assms by (auto simp: plain_entry_def)
  note f = field_status [OF assms, of "''Reboot''", simplified] field_status [OF assms, of "''DnldVersn''", simplified]
    field_status [OF assms, of "''DnldURL''", simplified]
  note n = field_no_bar [OF s(1), of "''DnldVersn''", simplified] field_no_bar [OF s(1), of "''DnldURL''", simplified]
  show ?thesis using f n c_string_id [OF s(2)]
    by (cases "k = ''Reboot''"; cases "k = ''DnldVersn''"; cases "k = ''DnldURL''")
      (auto simp: download_line_def long_value_def Let_def)
qed

lemma last_value_snoc: "last_value key (kvs @ [kv]) = (if long_value key kv then strip_blanks (snd kv) else last_value key kvs)"
  by (cases kv) (simp add: last_value_def)

lemma download_lines:
  "\<forall>kv \<in> set kvs. plain_entry kv \<Longrightarrow>
   fold (download_line latest) (map status_line kvs) ([], [], False) =
     (if latest \<ge> 2 then last_value ''DnldVersn'' kvs else [], if latest \<ge> 2 then last_value ''DnldURL'' kvs else [],
      \<exists>kv \<in> set kvs. long_value ''Reboot'' kv \<and> yes_text (strip_blanks (snd kv)))"
proof (induction kvs rule: rev_induct)
  case Nil
  then show ?case by (simp add: last_value_def)
next
  case (snoc kv kvs)
  obtain k v where kv: "kv = (k, v)" by (rule prod.exhaust)
  then have "plain_entry (k, v)" using snoc.prems by simp
  from download_step [OF this] show ?case using snoc kv by (auto simp: last_value_snoc)
qed

text \<open>
  What is known of a download is reported: for a status file of lines \<open>key|value\<close>, the call
  succeeds with the version that runs; once the update state has come to downloading, the version and the
  location are the last values of their keys that have more than one character, without the blanks
  around them; the reboot is deferred exactly if one of the \<open>Reboot\<close> lines has a value of more than
  one character that begins with 1, yes or true in any case.
\<close>

theorem downloaded_firmware_reported:
  assumes "open_read F FWDNLDSTATUS_FILE_NAME = Some (unlines (map status_line kvs))" "\<forall>kv \<in> set kvs. plain_entry kv"
  shows "\<exists>ps v1. getDownloadedFirmwareInfo F latest [] v = ((ERROR_NONE, ps), v1)
    \<and> member ps ''currentFWVersion'' = JString (fst (getStbVersionString F v))
    \<and> member ps ''downloadedFWVersion'' = JString (if latest \<ge> 2 then last_value ''DnldVersn'' kvs else [])
    \<and> member ps ''downloadedFWLocation'' = JString (if latest \<ge> 2 then last_value ''DnldURL'' kvs else [])
    \<and> member ps ''isRebootDeferred'' = JBool (\<exists>kv \<in> set kvs. long_value ''Reboot'' kv \<and> yes_text (strip_blanks (snd kv)))"
proof -
  have "CHR 0x0A \<notin> set (status_line kv) \<and> status_line kv \<noteq> []" if "kv \<in> set kvs" for kv
    using assms(2) that by (auto simp: plain_entry_def status_line_def)
  then have "getFileContent_lines F FWDNLDSTATUS_FILE_NAME [] = (True, map status_line kvs)"
    using assms(1) file_lines_unlines [of "map status_line kvs"] by (simp add: getFileContent_lines_def filter_id_conv)
  moreover have "fileExists F FWDNLDSTATUS_FILE_NAME"
    using assms(1) by (auto simp: open_read_def fileExists_def split: file_st.splits)
  ultimately show ?thesis
    using download_lines [OF assms(2), of latest]
    by (simp add: getDownloadedFirmwareInfo_def download_members_def returnResponse_def split_def Let_def)
qed

text \<open>The documented value 1 has one character, so it never defers the reboot.\<close>

lemma reboot_one_not_deferred: "\<not> long_value ''Reboot'' (''Reboot'', ''1'')"
  by (simp add: long_value_def strip_blanks_def)

section \<open>Witnesses\<close>

definition sample_answer :: string where "sample_answer = ''{}''"

definition sample_parse :: "string \<Rightarrow> json_params option" where
  "sample_parse s = (if s = sample_answer then Some [(''firmwareVersion'', JString ''V2'')] else None)"

definition sample_script :: "files \<Rightarrow> files" where
  "sample_script F = F(''/tmp/xconf_httpcode_thunder.txt'' := Regular ''200'', ''/tmp/xconf_response_thunder.txt'' := Regular sample_answer)"

definition no_versions :: versions where
  "no_versions = \<lparr>vs_stb = [], vs_client = [], vs_timestamp = [], vs_branch = []\<rparr>"

theorem firmware_update_reported_witness:
  "\<exists>ps. fst (firmwareUpdateInfoReceived sample_parse sample_script (\<lambda>_. Missing) no_versions) = [(''onFirmwareUpdateInfoReceived'', ps)]
     \<and> member ps ''updateAvailable'' = JBool True \<and> member ps ''firmwareUpdateVersion'' = JString ''V2''"
proof -
  let ?F = "\<lambda>_. Missing"
  let ?F1 = "sample_script ?F"
  obtain ns F1 v1 where r: "firmwareUpdateInfoReceived sample_parse sample_script ?F no_versions = (ns, F1, v1)" by (rule prod_cases3)
  have url: "getXconfOverrideUrl ?F = ([], False)"
    by (simp add: getXconfOverrideUrl_def fileExists_def)
  have cur: "fst (getStbVersionString ?F no_versions) = ''unknown''"
    by (simp add: getStbVersionString_def no_versions_def version_lines_of_def getFileContent_lines_def open_read_def Let_def)
  have code: "http_status ?F1 = 200"
  proof -
    have "readFileContent ?F1 ''/tmp/xconf_httpcode_thunder.txt'' [] = (True, ''200'')"
      by (subst readFileContent_all [where s = "''200''"]) (simp_all add: sample_script_def open_read_def)
    moreover have "stoi ''200'' = Some 200" by code_simp
    ultimately show ?thesis by (simp add: http_status_def)
  qed
  have body: "readFileContent ?F1 ''/tmp/xconf_response_thunder.txt'' [] = (True, sample_answer)"
    by (subst readFileContent_all [where s = sample_answer]) (simp_all add: sample_script_def open_read_def sample_answer_def)
  then have ans: "answered sample_parse ?F1 ''V2''"
    by (auto simp: answered_def sample_parse_def member_String_def member_def)
  from firmware_update_reported [OF r] obtain ps where
    "ns = [(''onFirmwareUpdateInfoReceived'', ps)]" "F1 = ?F1"
    "member ps ''updateAvailable'' = JBool True \<longrightarrow> member ps ''firmwareUpdateVersion'' = JString (c_string ''V2'')"
    "member ps ''updateAvailable'' = JBool True"
    using url cur code ans by (auto simp: Let_def)
  then show ?thesis using r by (auto simp: c_string_def)
qed

theorem downloaded_firmware_reported_witness:
  "\<exists>ps v1. getDownloadedFirmwareInfo ((\<lambda>_. Missing)(FWDNLDSTATUS_FILE_NAME := Regular (unlines (map status_line [(''Reboot'', ''true''), (''DnldVersn'', '' V2 '')])))) 2 [] no_versions
       = ((ERROR_NONE, ps), v1)
     \<and> member ps ''downloadedFWVersion'' = JString ''V2'' \<and> member ps ''isRebootDeferred'' = JBool True"
proof -
  let ?kvs = "[(''Reboot'', ''true''), (''DnldVersn'', '' V2 '')]"
  let ?F = "(\<lambda>_. Missing)(FWDNLDSTATUS_FILE_NAME := Regular (unlines (map status_line ?kvs)))"
  have r: "open_read ?F FWDNLDSTATUS_FILE_NAME = Some (unlines (map status_line ?kvs))" by (simp add: open_read_def)
  have p: "\<forall>kv \<in> set ?kvs. plain_entry kv" by (auto simp: plain_entry_def append_eq_Cons_conv Cons_eq_append_conv)
  have "last_value ''DnldVersn'' ?kvs = ''V2''" "\<exists>kv \<in> set ?kvs. long_value ''Reboot'' kv \<and> yes_text (strip_blanks (snd kv))"
    by (simp_all add: last_value_def long_value_def strip_blanks_def yes_text_def strncasecmp_eq_def)
  then show ?thesis using downloaded_firmware_reported [OF r p, of 2 no_versions] by auto
qed

end
