(* ===== verification/DeviceQueries.thy ===== *)
theory DeviceQueries imports FirmwareInfo begin

text \<open>
  What SystemServices tells of the device, \<open>SystemServices/SystemServices.cpp\<close>: the device information
  with its caches of manufacturer data, serial numbers, addresses, remote configuration, uptime and
  time status, and the splash screen of the boot loader.

  The manufacturer library, the device script and the remote configuration are arguments, \<open>None\<close> is a
  failure of theirs. \<open>mfr\<close> gives the bytes of the buffer that the library fills; the code takes them as a C
  string. The build has the manufacturer information.
\<close>

section \<open>Manufacturer data\<close>

definition DEVICE_PROPERTIES_FILE :: string where "DEVICE_PROPERTIES_FILE = ''/etc/device.properties''"
definition MODEL_NAME :: string where "MODEL_NAME = ''modelName''"
definition HARDWARE_ID :: string where "HARDWARE_ID = ''hardwareID''"
definition FRIENDLY_ID :: string where "FRIENDLY_ID = ''friendly_id''"

text \<open>The cached values with their flags.\<close>

record mfr_cache =
  mc_ModelName :: string
  mc_ModelNameValid :: bool
  mc_HardwareID :: string
  mc_HardwareIdValid :: bool
  mc_SerialNumber :: string
  mc_SerialNumberValid :: bool

definition getManufacturerData ::
  "(mfr_type \<Rightarrow> string option) \<Rightarrow> string \<Rightarrow> json_params \<Rightarrow> mfr_cache \<Rightarrow> bool \<times> json_params \<times> mfr_cache" where
  "getManufacturerData mfr parameter response c =
     (if mc_ModelNameValid c \<and> parameter = MODEL_NAME
      then (True, set_member parameter (JString (mc_ModelName c)) response, c)
      else if mc_HardwareIdValid c \<and> parameter = HARDWARE_ID
      then (True, set_member parameter (JString (mc_HardwareID c)) response, c)
      else
        (case mfr (if parameter = MODEL_NAME then mfrSERIALIZED_TYPE_PROVISIONED_MODELNAME
                   else if parameter = HARDWARE_ID then mfrSERIALIZED_TYPE_HWID
                   else mfrSERIALIZED_TYPE_MANUFACTURER) of
           Some b \<Rightarrow>
             (True, set_member parameter (JString (c_string b)) response,
              if parameter = MODEL_NAME then c\<lparr>mc_ModelName := c_string b, mc_ModelNameValid := True\<rparr>
              else if parameter = HARDWARE_ID then c\<lparr>mc_HardwareID := c_string b, mc_HardwareIdValid := True\<rparr> else c)
         | None \<Rightarrow> (False, populateResponseWithError SysSrv_ManufacturerDataReadFailed response, c)))"

definition getMfgSerialNumber ::
  "(mfr_type \<Rightarrow> string option) \<Rightarrow> json_params \<Rightarrow> mfr_cache \<Rightarrow> (hresult \<times> json_params) \<times> mfr_cache" where
  "getMfgSerialNumber mfr response c =
     (if mc_SerialNumberValid c
      then (returnResponse True (set_member ''mfgSerialNumber'' (JString (mc_SerialNumber c)) response), c)
      else (case mfr mfrSERIALIZED_TYPE_MANUFACTURING_SERIALNUMBER of
              Some b \<Rightarrow> (returnResponse True (set_member ''mfgSerialNumber'' (JString (c_string b)) response),
                         c\<lparr>mc_SerialNumber := c_string b, mc_SerialNumberValid := True\<rparr>)
            | None \<Rightarrow> (returnResponse False response, c)))"

definition friendly_id_of :: "files \<Rightarrow> string \<Rightarrow> json_params \<Rightarrow> bool \<times> json_params" where
  "friendly_id_of F parameter response =
     (let friendly_id = snd (svc_GetFileRegex F DEVICE_PROPERTIES_FILE (property_rx ''FRIENDLY_ID'') [])
      in if length friendly_id > 0 then (True, set_member parameter (JString friendly_id) response)
         else (False, populateResponseWithError SysSrv_MissingKeyValues response))"

definition getModelName ::
  "files \<Rightarrow> (mfr_type \<Rightarrow> string option) \<Rightarrow> string \<Rightarrow> json_params \<Rightarrow> bool \<times> json_params" where
  "getModelName F mfr parameter response =
     (let device_name = snd (GetValueFromPropertiesFile F DEVICE_PROPERTIES_FILE ''DEVICE_NAME'' [] ''='')
      in if device_name = ''PLATCO'' \<or> device_name = ''LLAMA'' then
           (case mfr mfrSERIALIZED_TYPE_PROVISIONED_MODELNAME of
              Some b \<Rightarrow> (if b \<noteq> [] then (True, set_member parameter (JString (c_string b)) response)
                         else friendly_id_of F parameter response)
            | None \<Rightarrow> friendly_id_of F parameter response)
         else friendly_id_of F parameter response)"

definition getSerialNumberTR069 :: "(string \<Rightarrow> string option) \<Rightarrow> json_params \<Rightarrow> bool \<times> json_params" where
  "getSerialNumberTR069 rfc response =
     (case rfc ''Device.DeviceInfo.SerialNumber'' of
        Some v \<Rightarrow> (True, set_member ''serialNumber'' (JString v) response)
      | None \<Rightarrow> (False, populateResponseWithError SysSrv_Unexpected response))"

definition getSerialNumberSnmp :: "(mfr_type \<Rightarrow> string option) \<Rightarrow> json_params \<Rightarrow> bool \<times> json_params" where
  "getSerialNumberSnmp mfr response =
     (case mfr mfrSERIALIZED_TYPE_SERIALNUMBER of
        Some b \<Rightarrow> (True, set_member ''serialNumber'' (JString (c_string b)) response)
      | None \<Rightarrow> (False, populateResponseWithError SysSrv_ManufacturerDataReadFailed response))"

text \<open>\<open>tr69\<close> is whether the build uses TR-069.\<close>

definition getSerialNumber ::
  "bool \<Rightarrow> (string \<Rightarrow> string option) \<Rightarrow> (mfr_type \<Rightarrow> string option) \<Rightarrow> json_params \<Rightarrow> hresult \<times> json_params" where
  "getSerialNumber tr69 rfc mfr response =
     (let (retAPIStatus, response1) = (if tr69 then getSerialNumberTR069 rfc response else getSerialNumberSnmp mfr response)
      in returnResponse retAPIStatus response1)"

section \<open>The device information\<close>

text \<open>The text that a method reads from a pipe with a buffer of 1024 characters.\<close>

definition pipe_text :: "string option \<Rightarrow> string" where
  "pipe_text pipe = (case pipe of Some s \<Rightarrow> concat (fgets_lines 1023 s) | None \<Rightarrow> [])"

definition name_char :: "char \<Rightarrow> bool" where
  "name_char c = (c_isdigit c \<or> 65 \<le> ascii c \<and> ascii c \<le> 90 \<or> 97 \<le> ascii c \<and> ascii c \<le> 122 \<or> c = CHR ''_'' \<or> c = CHR ''-'')"

text \<open>The regular expression \<open>[^[:alnum:]_-]{1}\<close> is found in the C string.\<close>

definition unallowable :: "string \<Rightarrow> bool" where
  "unallowable s = (\<exists>c \<in> set (c_string s). \<not> name_char c)"

text \<open>\<open>text_of\<close> is the framework's text of an array or an object.\<close>

definition variant_String :: "(json \<Rightarrow> string) \<Rightarrow> json \<Rightarrow> string" where
  "variant_String text_of v = (case v of JArray vs \<Rightarrow> text_of v | JObject ps \<Rightarrow> text_of v | _ \<Rightarrow> json_String v)"

definition make_of ::
  "files \<Rightarrow> (mfr_type \<Rightarrow> string option) \<Rightarrow> json_params \<Rightarrow> bool \<times> json_params" where
  "make_of F mfr response =
     (if snd (GetValueFromPropertiesFile F DEVICE_PROPERTIES_FILE ''DEVICE_NAME'' [] ''='') = ''PLATCO'' then
        (case mfr mfrSERIALIZED_TYPE_MANUFACTURER of
           Some b \<Rightarrow> (True, set_member ''make'' (JString (c_string b)) response)
         | None \<Rightarrow> (False, populateResponseWithError SysSrv_MissingKeyValues response))
      else
        (let make = snd (GetValueFromPropertiesFile F DEVICE_PROPERTIES_FILE ''MFG_NAME'' [] ''='')
         in if length make > 0 then (True, set_member ''make'' (JString make) response)
            else (False, populateResponseWithError SysSrv_MissingKeyValues response)))"

text \<open>A line of the script's answer to the query for everything.\<close>

definition info_line :: "string \<Rightarrow> json_params \<Rightarrow> json_params" where
  "info_line line response =
     (case find_char CHR ''='' line of
        None \<Rightarrow> response
      | Some eq \<Rightarrow>
          (let key = take eq line; v = JString (drop (eq + 1) line);
               response1 = set_member (c_string key) v response
           in if key = ''imageVersion'' then set_member ''software_version'' v (set_member ''version'' v response1)
              else if key = ''cableCardVersion'' then set_member ''cable_card_firmware_version'' v response1
              else response1))"

text \<open>The properties that are read from files; \<open>None\<close> if the query is not one of them or has no value.\<close>

definition property_query :: "files \<Rightarrow> string \<Rightarrow> json_params \<Rightarrow> json_params option" where
  "property_query F q response =
     (let get = (\<lambda>filename key delimiter.
            (let (r, response1) = SetValueFromPropertiesFile F filename key response q delimiter
             in if r = ERROR_NONE then Some response1 else None))
      in if q = ''model_number'' then get DEVICE_PROPERTIES_FILE ''MODEL_NUM'' ''=''
         else if q = ''imageVersion'' then get ''/version.txt'' ''imagename'' '':''
         else if q = ''build_type'' then
           map_option (\<lambda>r. set_member q (JString (toUpper (member_String r q))) r) (get DEVICE_PROPERTIES_FILE ''BUILD_TYPE'' ''='')
         else if q = ''device_type'' then get DEVICE_PROPERTIES_FILE ''DEVICE_TYPE'' ''=''
         else None)"

text \<open>The script runs with the query as its argument; the command is a C string.\<close>

definition script_query ::
  "files \<Rightarrow> (mfr_type \<Rightarrow> string option) \<Rightarrow> (string \<Rightarrow> string option) \<Rightarrow> string \<Rightarrow> bool \<Rightarrow> json_params \<Rightarrow> bool \<times> json_params" where
  "script_query F mfr script q status response =
     (let res = pipe_text (script (c_string q))
      in if res = [] then (status, response)
         else if q = [] then
           (True, snd (getModelName F mfr FRIENDLY_ID (fold info_line (file_lines res) response)))
         else (True, set_member (c_string q) (JString (trim res)) response))"

definition query_of :: "(json \<Rightarrow> string) \<Rightarrow> json_params \<Rightarrow> string" where
  "query_of text_of parameters =
     (if HasLabel parameters ''params''
      then removeCharsFromString (variant_String text_of (member parameters ''params'')) (''['' @ [CHR 0x22] @ '']'') else [])"

definition getDeviceInfo ::
  "(json \<Rightarrow> string) \<Rightarrow> files \<Rightarrow> (mfr_type \<Rightarrow> string option) \<Rightarrow> (string \<Rightarrow> string option) \<Rightarrow> json_params \<Rightarrow> json_params
     \<Rightarrow> mfr_cache \<Rightarrow> (hresult \<times> json_params) \<times> mfr_cache" where
  "getDeviceInfo text_of F mfr script parameters response c =
     (let q = query_of text_of parameters
      in if HasLabel parameters ''params'' \<and> unallowable q
         then (returnResponse False (set_member ''message'' (JString ''Input has unallowable characters'') response), c)
         else
           (let (status, response1) = (if q = [] \<or> q = ''make'' then make_of F mfr response else (False, response))
            in if q = ''make'' then (returnResponse status response1, c)
               else
                 (case property_query F q response1 of
                    Some response2 \<Rightarrow> (returnResponse True response2, c)
                  | None \<Rightarrow>
                      if q = MODEL_NAME \<or> q = HARDWARE_ID then
                        (let (ok, response2, c1) = getManufacturerData mfr q response1 c in (returnResponse ok response2, c1))
                      else
                        (let (ok, response2) = (if q = FRIENDLY_ID then getModelName F mfr q response1 else (False, response1))
                         in if ok then (returnResponse True response2, c)
                            else (let (status1, response3) = script_query F mfr script q status response2
                                  in (returnResponse status1 response3, c))))))"

section \<open>Addresses, remote configuration, times\<close>

definition macTypeList :: "string list" where
  "macTypeList = [''ecm_mac'', ''estb_mac'', ''moca_mac'', ''eth_mac'', ''wifi_mac'', ''bluetooth_mac'', ''rf4ce_mac'']"

definition mac_text :: "(string \<Rightarrow> string option) \<Rightarrow> string \<Rightarrow> string" where
  "mac_text script kind =
     (let t = removeCharsFromString (pipe_text (script kind)) [CHR 0x0A, CHR 0x0D]
      in if t = [] then ''00:00:00:00:00:00'' else t)"

definition getMacAddressesAsync :: "(string \<Rightarrow> string option) \<Rightarrow> notifications" where
  "getMacAddressesAsync script =
     [(''onMacAddressesRetreived'', set_member ''success'' (JBool True)
        (fold (\<lambda>kind. set_member kind (JString (mac_text script kind))) macTypeList []))]"

text \<open>\<open>started\<close> is whether the thread that runs the above could be started.\<close>

definition getMacAddresses :: "bool \<Rightarrow> files \<Rightarrow> json_params \<Rightarrow> hresult \<times> json_params" where
  "getMacAddresses started F response =
     (if \<not> fileExists F ''/lib/rdk/getDeviceDetails.sh''
      then returnResponse False (populateResponseWithError SysSrv_FileNotPresent
             (set_member ''SysSrv_Message'' (JString ''File: getDeviceDetails.sh'') response))
      else returnResponse started (set_member ''asyncResponse'' (JBool started) response))"

definition collectDeviceInfo :: "files \<Rightarrow> string \<Rightarrow> string" where
  "collectDeviceInfo F methodType =
     (case open_read F (''/tmp/.'' @ methodType) of
        None \<Rightarrow> []
      | Some s \<Rightarrow>
          (let buffer = c_string (fgets_chunk 126 s)
           in if length buffer > 0 then
                (if ''ecm_mac'' = methodType then map (\<lambda>c. if c = CHR '' '' then CHR '':'' else c) buffer else buffer)
              else if ''estb_mac'' = methodType then ''Acquiring'' else []))"

text \<open>The regular expression \<open>(\w|-|\.)+\<close>.\<close>

definition rfc_name :: "string \<Rightarrow> bool" where
  "rfc_name s = (s \<noteq> [] \<and> (\<forall>c \<in> set s. name_char c \<or> c = CHR ''.''))"

definition rfc_entry :: "(string \<Rightarrow> string option) \<Rightarrow> string \<Rightarrow> bool \<times> json_params \<Rightarrow> bool \<times> json_params" where
  "rfc_entry rfc name = (\<lambda>(status, hash).
     (if \<not> rfc_name name then (status, set_member (c_string name) (JString ''Invalid charset found'') hash)
      else
        (let cmdResponse = (case rfc name of Some v \<Rightarrow> v | None \<Rightarrow> [])
         in if cmdResponse \<noteq> []
            then (True, set_member (c_string name) (JString (removeCharsFromString cmdResponse [CHR 0x0A, CHR 0x0D])) hash)
            else (status, set_member (c_string name) (JString ''Empty response received'') hash))))"

definition getRFCConfig ::
  "variant \<Rightarrow> (string \<Rightarrow> string option) \<Rightarrow> json_params \<Rightarrow> json_params \<Rightarrow> hresult \<times> json_params" where
  "getRFCConfig V rfc parameters response =
     (if \<not> HasLabel parameters ''rfcList''
      then returnResponse False (populateResponseWithError SysSrv_MissingKeyValues response)
      else
        (let jsonRFCList = map json_String (variant_Array V (member parameters ''rfcList''))
         in if jsonRFCList = [] then returnResponse False (populateResponseWithError SysSrv_UnSupportedFormat response)
            else (let (status, hash) = fold (rfc_entry rfc) jsonRFCList (False, [])
                  in returnResponse status (set_member ''RFCConfig'' (JObject hash) response))))"

text \<open>\<open>uptime\<close> is \<open>std::to_string\<close> of the seconds, \<open>None\<close> if the clock could not be read.\<close>

definition requestSystemUptime :: "string option \<Rightarrow> json_params \<Rightarrow> hresult \<times> json_params" where
  "requestSystemUptime uptime response =
     (case uptime of
        None \<Rightarrow> returnResponse False response
      | Some t \<Rightarrow>
          (let v = rev (dropWhile (\<lambda>c. c = CHR ''0'') (rev t));
               v1 = (if v \<noteq> [] \<and> last v = CHR ''.'' then v @ ''0'' else v)
           in returnResponse True (set_member ''systemUptime'' (JString v1) response)))"

text \<open>The three fields of the message.\<close>

definition getSystemTimeStatus :: "(string \<times> string \<times> string) option \<Rightarrow> json_params \<Rightarrow> hresult \<times> json_params" where
  "getSystemTimeStatus param response =
     (case param of
        None \<Rightarrow> returnResponse False response
      | Some (quality, source, time) \<Rightarrow>
          returnResponse True (set_member ''Time'' (JString time) (set_member ''TimeSrc'' (JString source)
            (set_member ''TimeQuality'' (JString quality) response))))"

definition onTimeStatusChanged :: "string \<Rightarrow> string \<Rightarrow> string \<Rightarrow> notifications" where
  "onTimeStatusChanged timequality timesource utctime =
     [(''onTimeStatusChanged'', [(''TimeQuality'', JString timequality), (''TimeSrc'', JString timesource), (''Time'', JString utctime)])]"

definition onRebootRequest :: "string \<Rightarrow> notifications" where
  "onRebootRequest reason = [(''onRebootRequest'', [(''rebootReason'', JString reason)])]"

section \<open>The splash screen\<close>

text \<open>
  \<open>path_size\<close> is the size of the bus parameter's path. The result has the path that was sent; \<open>bus\<close> is
  whether the call succeeds.
\<close>

definition setBootLoaderSplashScreen ::
  "nat \<Rightarrow> (string \<Rightarrow> bool) \<Rightarrow> files \<Rightarrow> json_params \<Rightarrow> json_params \<Rightarrow> (hresult \<times> json_params) \<times> string option" where
  "setBootLoaderSplashScreen path_size bus F parameters response =
     (let path = member_String parameters ''path''
      in if path \<noteq> [] \<and> fileExists F (c_string path) then
           (let sent = take (path_size - 1) (c_string path)
            in (if bus sent then returnResponse True response
                else returnResponse False (service_error ''Update failed'' ''-32002'' response), Some sent))
         else (returnResponse False (service_error ''Invalid path'' ''-32001'' response), None))"

section \<open>What reaches the script and the remote configuration\<close>

lemma script_query_cong: "script (c_string q) = script' (c_string q) \<Longrightarrow>
    script_query F mfr script q status response = script_query F mfr script' q status response"
  by (simp add: script_query_def)

text \<open>
  C37. A query of the device information cannot inject commands: whatever the parameters are, the
  script that a shell runs is asked only for names of letters, digits, \<open>_\<close> and \<open>-\<close>. Two scripts that
  agree on those give the same result.
\<close>

theorem device_query_safe:
  assumes "\<And>name. \<forall>c \<in> set name. name_char c \<Longrightarrow> script name = script' name"
  shows "getDeviceInfo text_of F mfr script parameters response c = getDeviceInfo text_of F mfr script' parameters response c"
proof -
  let ?q = "query_of text_of parameters"
  show ?thesis
  proof (cases "HasLabel parameters ''params'' \<and> unallowable ?q")
    case True
    then show ?thesis by (simp add: getDeviceInfo_def)
  next
    case False
    then have "\<forall>c \<in> set (c_string ?q). name_char c" by (auto simp: unallowable_def query_of_def c_string_def)
    then have "script (c_string ?q) = script' (c_string ?q)" by (rule assms)
    then have q: "script_query F mfr script ?q st r = script_query F mfr script' ?q st r" for st r by (rule script_query_cong)
    show ?thesis unfolding getDeviceInfo_def Let_def q ..
  qed
qed

theorem device_query_safe_witness:
  "\<forall>c. getDeviceInfo json_String (\<lambda>_. Missing) (\<lambda>_. None) (\<lambda>_. None) [(''params'', JString ''estb_mac;reboot'')] [] c
   = getDeviceInfo json_String (\<lambda>_. Missing) (\<lambda>_. None) (\<lambda>q. if \<forall>c \<in> set q. name_char c then None else Some ''no'')
       [(''params'', JString ''estb_mac;reboot'')] [] c"
  by (rule allI, rule device_query_safe) simp

text \<open>Names outside the character set never reach the remote configuration.\<close>

lemma rfc_query_safe:
  assumes "\<And>name. rfc_name name \<Longrightarrow> rfc name = rfc' name"
  shows "getRFCConfig V rfc parameters response = getRFCConfig V rfc' parameters response"
proof -
  have "rfc_entry rfc = rfc_entry rfc'" using assms by (auto simp: rfc_entry_def fun_eq_iff Let_def)
  then show ?thesis by (simp add: getRFCConfig_def)
qed

text \<open>Manufacturer data that was read once is returned without the library, and the same.\<close>

lemma manufacturer_data_cached:
  assumes "getManufacturerData mfr p resp c = (True, resp1, c1)" "p \<in> {MODEL_NAME, HARDWARE_ID}"
  shows "getManufacturerData mfr' p resp2 c1 = (True, set_member p (member resp1 p) resp2, c1)"
proof -
  have "MODEL_NAME \<noteq> HARDWARE_ID" by (simp add: MODEL_NAME_def HARDWARE_ID_def)
  then show ?thesis using assms by (auto simp: getManufacturerData_def split: if_splits option.splits)
qed

text \<open>A path that is longer than the parameter is cut off, and the call is made with another path.\<close>

lemma long_splash_path:
  assumes "member_String ps ''path'' = path" "CHR 0x00 \<notin> set path" "fileExists F path" "path_size \<le> length path" "0 < path_size"
  shows "snd (setBootLoaderSplashScreen path_size bus F ps resp) = Some (take (path_size - 1) path)" "take (path_size - 1) path \<noteq> path"
  using assms by (auto simp: setBootLoaderSplashScreen_def c_string_id Let_def take_all_iff)

text \<open>A query for everything succeeds although the manufacturer is missing, with its error in the response.\<close>

lemma make_error_kept:
  assumes "make_of F mfr [] = (False, r)" "pipe_text (script []) = ''a=b'' @ [CHR 0x0A]" "friendly_id_of F FRIENDLY_ID r1 = (True, r2)"
    "snd (GetValueFromPropertiesFile F DEVICE_PROPERTIES_FILE ''DEVICE_NAME'' [] ''='') = []" "r1 = set_member ''a'' (JString ''b'') r"
  shows "fst (getDeviceInfo text_of F mfr script [] [] c) = returnResponse True r2"
proof -
  have "file_lines (''a=b'' @ [CHR 0x0A]) = [''a=b'']" by (simp add: file_lines_def)
  moreover have "info_line ''a=b'' r = r1" using assms(5) by (simp add: info_line_def c_string_def Let_def)
  ultimately show ?thesis
    using assms by (simp add: getDeviceInfo_def query_of_def property_query_def script_query_def getModelName_def HasLabel_def
        MODEL_NAME_def HARDWARE_ID_def FRIENDLY_ID_def c_string_def Let_def)
qed

end
