(* ===== verification/ArcRouting.thy ===== *)
theory ArcRouting imports DeviceState PowerTypes Validation begin

text \<open>
  Routing of the audio to a device at the HDMI ARC port, in \<open>DisplaySettings/DisplaySettings.cpp\<close>: the
  events of the HdmiCecSink plugin, the five timers, the queue of messages to that plugin, hot plugs,
  changes of the power state and the methods \<open>setEnableAudioPort\<close> and \<open>getEnableAudioPort\<close>.

  The members of \<open>DisplaySettings\<close> and the static variables of the file are the record \<open>arc\<close>, which
  also holds the state of the audio ports, of any type. The ports of the device settings library are a
  record of functions on that state; a call that throws a \<open>device::Exception\<close> has the result \<open>None\<close> and
  ends the \<open>try\<close> block it is in. What HdmiCecSink answers is a record too. Each handler is one step;
  a timer is whether it is scheduled. An operation returns \<open>None\<close> when an exception leaves it, with the
  state as it is then. \<open>ar_notes\<close> and \<open>ar_sent\<close> collect the notifications and the calls sent to
  HdmiCecSink.
\<close>

section \<open>Ports and plugins\<close>

datatype AudioStereoMode = kMono | kStereo | kSurround | kPassThru | kDD | kDDPlus

datatype port_type = kHDMI | kARC | kSPDIF | kHEADPHONE | kOTHER_PORT

datatype dsAudioARCTypes = dsAUDIOARCSUPPORT_NONE | dsAUDIOARCSUPPORT_ARC | dsAUDIOARCSUPPORT_eARC

datatype dsAudioPortType = dsAUDIOPORT_TYPE_HDMI_ARC | dsAUDIOPORT_TYPE_HEADPHONE | dsAUDIOPORT_TYPE_OTHER

datatype dsHDRStandard =
    dsHDRSTANDARD_HDR10 | dsHDRSTANDARD_HDR10PLUS | dsHDRSTANDARD_HLG | dsHDRSTANDARD_DolbyVision
  | dsHDRSTANDARD_TechnicolorPrime | dsHDRSTANDARD_SDR | dsHDRSTANDARD_NONE | dsHDRSTANDARD_Invalid

type_synonym ('d, 'a) call = "'d \<Rightarrow> 'a option \<times> 'd"

text \<open>
  The audio output ports by their names, and the surround mode of the display at the default video
  port. \<open>ah_eARC\<close> is whether eARC is among the supported types.
\<close>

record 'd audio_host =
  ah_ports :: "('d, string list) call"
  ah_open :: "string \<Rightarrow> ('d, unit) call"
  ah_reInitialize :: "string \<Rightarrow> ('d, unit) call"
  ah_getEnablePersist :: "string \<Rightarrow> ('d, bool) call"
  ah_setEnablePersist :: "string \<Rightarrow> bool \<Rightarrow> ('d, unit) call"
  ah_getHdmiArcPortId :: "string \<Rightarrow> ('d, int) call"
  ah_setEnablePort :: "string \<Rightarrow> bool \<Rightarrow> ('d, bool) call"
  ah_isEnabled :: "string \<Rightarrow> ('d, bool) call"
  ah_isMuted :: "string \<Rightarrow> ('d, bool) call"
  ah_setMuted :: "string \<Rightarrow> bool \<Rightarrow> ('d, unit) call"
  ah_isConnected :: "string \<Rightarrow> ('d, bool) call"
  ah_getType :: "string \<Rightarrow> ('d, port_type) call"
  ah_getStereoMode :: "string \<Rightarrow> ('d, AudioStereoMode) call"
  ah_setStereoMode :: "string \<Rightarrow> AudioStereoMode \<Rightarrow> bool \<Rightarrow> ('d, unit) call"
  ah_getStereoAuto :: "string \<Rightarrow> ('d, bool) call"
  ah_setStereoAuto :: "string \<Rightarrow> bool \<Rightarrow> bool \<Rightarrow> ('d, unit) call"
  ah_eARC :: "string \<Rightarrow> ('d, bool) call"
  ah_setSAD :: "string \<Rightarrow> int list \<Rightarrow> ('d, unit) call"
  ah_enableARC :: "string \<Rightarrow> dsAudioARCTypes \<Rightarrow> bool \<Rightarrow> ('d, unit) call"
  ah_getSurroundMode :: "('d, bool) call"

text \<open>HdmiCecSink: whether it is activated, its answers and whether it takes a subscription.\<close>

record cec_sink =
  cs_active :: bool
  cs_invoke :: "string \<Rightarrow> json_params \<Rightarrow> json_params"
  cs_subscribe :: "string \<Rightarrow> bool"

section \<open>State\<close>

datatype arc_state = ARC_STATE_REQUEST_ARC_INITIATION | ARC_STATE_ARC_INITIATED | ARC_STATE_ARC_TERMINATED

datatype audio_power =
    AUDIO_DEVICE_POWER_STATE_UNKNOWN
  | AUDIO_DEVICE_POWER_STATE_REQUEST
  | AUDIO_DEVICE_POWER_STATE_STANDBY
  | AUDIO_DEVICE_POWER_STATE_ON

datatype sad_state =
    AUDIO_DEVICE_SAD_UNKNOWN
  | AUDIO_DEVICE_SAD_REQUESTED
  | AUDIO_DEVICE_SAD_RECEIVED
  | AUDIO_DEVICE_SAD_UPDATED
  | AUDIO_DEVICE_SAD_CLEARED

datatype msg =
    SEND_AUDIO_DEVICE_POWERON_MSG
  | REQUEST_SHORT_AUDIO_DESCRIPTOR
  | REQUEST_AUDIO_DEVICE_POWER_STATUS
  | SEND_DEVICE_AUDIO_STATUS
  | SEND_MUTE_KEY_EVENT
  | SEND_REQUEST_ARC_INITIATION
  | SEND_REQUEST_ARC_TERMINATION

record 'd arc =
  ar_subscribed :: bool
  ar_hdmiInAudioDeviceConnected :: bool
  ar_arcEarcAudioEnabled :: bool
  ar_notifiedToUI :: bool
  ar_hdmiCecAudioDeviceDetected :: bool
  ar_powerRequestedAndReceived :: bool
  ar_hdmiInAudioDeviceType :: dsAudioARCTypes
  ar_devicePowerState :: audio_power
  ar_currentArcRoutingState :: arc_state
  ar_SADState :: sad_state
  ar_requestSadRetrigger :: bool
  ar_sad_list :: "int list"
  ar_timer :: bool
  ar_detectTimer :: bool
  ar_sadTimer :: bool
  ar_arcTimer :: bool
  ar_powerTimer :: bool
  ar_sendMsgQueue :: "msg list"
  ar_registeredEvents :: "string list"
  ar_audioOutputPortConfig :: "bool option"
  ar_portEnableStatus :: "string \<Rightarrow> bool"
  ar_powerState :: PowerState
  ar_isCecEnabled :: bool
  ar_hdmiArcPortId :: int
  ar_retryPowerRequestCount :: nat
  ar_retryArcCount :: nat
  ar_hdmiArcVolumeLevel :: int
  ar_hdmiArcMuteStatus :: bool
  ar_resCacheUpdated :: bool
  ar_displayCacheUpdated :: bool
  ar_hdrCache :: bool
  ar_currentResolution :: string
  ar_isHdmiDisplayConnected :: bool
  ar_stbHDRcapabilities :: "dsHDRStandard list"
  ar_cacheMuted :: bool
  ar_firstHotPlug :: bool
  ar_previousHotPlug :: int
  ar_sent :: "(string \<times> json_params) list"
  ar_notes :: notifications
  ar_dev :: 'd

text \<open>
  The constructor, on a library in the state \<open>d\<close>; the variables of the file have their initial values.
  It leaves one member as it happens to be, \<open>junk\<close>.
\<close>

definition DisplaySettings_ctor :: "bool \<Rightarrow> 'd \<Rightarrow> 'd arc" where
  "DisplaySettings_ctor junk d = \<lparr>
     ar_subscribed = False, ar_hdmiInAudioDeviceConnected = False, ar_arcEarcAudioEnabled = False,
     ar_notifiedToUI = False, ar_hdmiCecAudioDeviceDetected = False, ar_powerRequestedAndReceived = junk,
     ar_hdmiInAudioDeviceType = dsAUDIOARCSUPPORT_NONE, ar_devicePowerState = AUDIO_DEVICE_POWER_STATE_UNKNOWN,
     ar_currentArcRoutingState = ARC_STATE_ARC_TERMINATED, ar_SADState = AUDIO_DEVICE_SAD_UNKNOWN,
     ar_requestSadRetrigger = False, ar_sad_list = [], ar_timer = False, ar_detectTimer = False,
     ar_sadTimer = False, ar_arcTimer = False, ar_powerTimer = False, ar_sendMsgQueue = [],
     ar_registeredEvents = [], ar_audioOutputPortConfig = None, ar_portEnableStatus = (\<lambda>_. False),
     ar_powerState = POWER_STATE_STANDBY, ar_isCecEnabled = False, ar_hdmiArcPortId = -1,
     ar_retryPowerRequestCount = 0, ar_retryArcCount = 0, ar_hdmiArcVolumeLevel = 0,
     ar_hdmiArcMuteStatus = False, ar_resCacheUpdated = False, ar_displayCacheUpdated = False,
     ar_hdrCache = False, ar_currentResolution = [], ar_isHdmiDisplayConnected = False,
     ar_stbHDRcapabilities = [], ar_cacheMuted = False, ar_firstHotPlug = True, ar_previousHotPlug = 0,
     ar_sent = [], ar_notes = [], ar_dev = d \<rparr>"

text \<open>A call of the library and what follows it; an exception ends both.\<close>

definition ds_call ::
  "('d, 'a) call \<Rightarrow> ('a \<Rightarrow> 'd arc \<Rightarrow> 'b option \<times> 'd arc) \<Rightarrow> 'd arc \<Rightarrow> 'b option \<times> 'd arc" where
  "ds_call f k s =
     (case f (ar_dev s) of
        (None, d) \<Rightarrow> (None, s\<lparr>ar_dev := d\<rparr>)
      | (Some x, d) \<Rightarrow> k x (s\<lparr>ar_dev := d\<rparr>))"

text \<open>A handler that catches the exceptions.\<close>

definition caught :: "'b option \<times> 'd arc \<Rightarrow> unit option \<times> 'd arc" where
  "caught r = (Some (), snd r)"

abbreviation HDMI_ARC0 :: string where "HDMI_ARC0 \<equiv> ''HDMI_ARC0''"

section \<open>Messages and notifications\<close>

definition sendMsgToQueue :: "msg \<Rightarrow> 'd arc \<Rightarrow> 'd arc" where
  "sendMsgToQueue m s = s\<lparr>ar_sendMsgQueue := ar_sendMsgQueue s @ [m]\<rparr>"

definition sendNotify :: "string \<Rightarrow> json_params \<Rightarrow> 'd arc \<Rightarrow> 'd arc" where
  "sendNotify event ps s = s\<lparr>ar_notes := ar_notes s @ [(event, ps)]\<rparr>"

definition hotplugged :: "dsAudioPortType \<Rightarrow> json_params" where
  "hotplugged t =
     (case t of
        dsAUDIOPORT_TYPE_HDMI_ARC \<Rightarrow> [(''HotpluggedAudioPort'', JString HDMI_ARC0)]
      | dsAUDIOPORT_TYPE_HEADPHONE \<Rightarrow> [(''HotpluggedAudioPort'', JString ''HEADPHONE0'')]
      | dsAUDIOPORT_TYPE_OTHER \<Rightarrow> [])"

definition connectedAudioPortUpdated :: "dsAudioPortType \<Rightarrow> bool \<Rightarrow> 'd arc \<Rightarrow> 'd arc" where
  "connectedAudioPortUpdated t isPortConnected s =
     sendNotify ''connectedAudioPortUpdated''
       (hotplugged t @ [(''isConnected'', JString (if isPortConnected then ''connected'' else ''disconnected''))]) s"

definition arc_invoke :: "variant \<Rightarrow> cec_sink \<Rightarrow> string \<Rightarrow> json_params \<Rightarrow> 'd arc \<Rightarrow> bool \<times> 'd arc" where
  "arc_invoke V C name ps s =
     (if cs_active C then
        (variant_Boolean V (member (cs_invoke C name ps) ''success''), s\<lparr>ar_sent := ar_sent s @ [(name, ps)]\<rparr>)
      else (False, s))"

definition setUpHdmiCecSinkArcRouting :: "variant \<Rightarrow> cec_sink \<Rightarrow> bool \<Rightarrow> 'd arc \<Rightarrow> bool \<times> 'd arc" where
  "setUpHdmiCecSinkArcRouting V C arcEnable = arc_invoke V C ''setupARCRouting'' [(''enabled'', JBool arcEnable)]"

definition sendHdmiCecSinkAudioDevicePowerOn :: "variant \<Rightarrow> cec_sink \<Rightarrow> 'd arc \<Rightarrow> bool \<times> 'd arc" where
  "sendHdmiCecSinkAudioDevicePowerOn V C = arc_invoke V C ''sendAudioDevicePowerOnMessage'' []"

definition requestShortAudioDescriptor :: "variant \<Rightarrow> cec_sink \<Rightarrow> 'd arc \<Rightarrow> bool \<times> 'd arc" where
  "requestShortAudioDescriptor V C = arc_invoke V C ''requestShortAudioDescriptor'' []"

definition requestAudioDevicePowerStatus :: "variant \<Rightarrow> cec_sink \<Rightarrow> 'd arc \<Rightarrow> bool \<times> 'd arc" where
  "requestAudioDevicePowerStatus V C = arc_invoke V C ''requestAudioDevicePowerStatus'' []"

definition requestDeviceAudioStatus :: "variant \<Rightarrow> cec_sink \<Rightarrow> 'd arc \<Rightarrow> bool \<times> 'd arc" where
  "requestDeviceAudioStatus V C = arc_invoke V C ''sendGetAudioStatusMessage'' []"

definition sendUserControlPressCommand :: "variant \<Rightarrow> cec_sink \<Rightarrow> int \<Rightarrow> 'd arc \<Rightarrow> bool \<times> 'd arc" where
  "sendUserControlPressCommand V C keyCode =
     arc_invoke V C ''sendUserControlPressed'' [(''logicalAddress'', JNumber 5), (''keyCode'', JNumber keyCode)]"

text \<open>The two queries call the plugin as well; only their answer counts, whether they succeed or not.\<close>

definition cec_query :: "variant \<Rightarrow> cec_sink \<Rightarrow> string \<Rightarrow> string \<Rightarrow> 'd arc \<Rightarrow> bool \<times> 'd arc" where
  "cec_query V C name field s =
     (if cs_active C then
        (variant_Boolean V (member (cs_invoke C name []) field), s\<lparr>ar_sent := ar_sent s @ [(name, [])]\<rparr>)
      else (False, s))"

definition getHdmiCecSinkCecEnableStatus :: "variant \<Rightarrow> cec_sink \<Rightarrow> 'd arc \<Rightarrow> bool \<times> 'd arc" where
  "getHdmiCecSinkCecEnableStatus V C = cec_query V C ''getEnabled'' ''enabled''"

definition getHdmiCecSinkAudioDeviceConnectedStatus :: "variant \<Rightarrow> cec_sink \<Rightarrow> 'd arc \<Rightarrow> bool \<times> 'd arc" where
  "getHdmiCecSinkAudioDeviceConnectedStatus V C = cec_query V C ''getAudioDeviceConnectedStatus'' ''connected''"

text \<open>One round of the thread: the first message is sent and removed, whether it could be sent or not.\<close>

definition sendMsgThread :: "variant \<Rightarrow> cec_sink \<Rightarrow> 'd arc \<Rightarrow> 'd arc" where
  "sendMsgThread V C s =
     (case ar_sendMsgQueue s of
        [] \<Rightarrow> s
      | m # ms \<Rightarrow>
          (let (result, s1) =
             (case m of
                SEND_AUDIO_DEVICE_POWERON_MSG \<Rightarrow> sendHdmiCecSinkAudioDevicePowerOn V C s
              | REQUEST_SHORT_AUDIO_DESCRIPTOR \<Rightarrow> requestShortAudioDescriptor V C s
              | REQUEST_AUDIO_DEVICE_POWER_STATUS \<Rightarrow> requestAudioDevicePowerStatus V C s
              | SEND_MUTE_KEY_EVENT \<Rightarrow> sendUserControlPressCommand V C 67 s
              | SEND_DEVICE_AUDIO_STATUS \<Rightarrow> requestDeviceAudioStatus V C s
              | SEND_REQUEST_ARC_INITIATION \<Rightarrow> setUpHdmiCecSinkArcRouting V C True s
              | SEND_REQUEST_ARC_TERMINATION \<Rightarrow> setUpHdmiCecSinkArcRouting V C False s)
           in s1\<lparr>ar_sendMsgQueue := tl (ar_sendMsgQueue s1)\<rparr>))"

section \<open>Short audio descriptors\<close>

definition clear_SAD :: "'d arc \<Rightarrow> 'd arc" where
  "clear_SAD s = s\<lparr>ar_sad_list := [], ar_SADState := AUDIO_DEVICE_SAD_CLEARED, ar_requestSadRetrigger := False\<rparr>"

definition no_SAD :: "'d arc \<Rightarrow> bool" where
  "no_SAD s = (ar_SADState s = AUDIO_DEVICE_SAD_CLEARED \<or> ar_SADState s = AUDIO_DEVICE_SAD_UNKNOWN)"

definition request_SAD :: "'d arc \<Rightarrow> 'd arc" where
  "request_SAD s = sendMsgToQueue REQUEST_SHORT_AUDIO_DESCRIPTOR (s\<lparr>ar_SADState := AUDIO_DEVICE_SAD_REQUESTED\<rparr>)"

text \<open>The descriptors are set, and the mode of the port is set again.\<close>

definition update_SAD :: "'d audio_host \<Rightarrow> ('d arc \<Rightarrow> 'b option \<times> 'd arc) \<Rightarrow> 'd arc \<Rightarrow> 'b option \<times> 'd arc" where
  "update_SAD A k s =
     ds_call (ah_setSAD A HDMI_ARC0 (ar_sad_list s)) (\<lambda>_.
     ds_call (ah_getStereoAuto A HDMI_ARC0) (\<lambda>auto.
       if auto then ds_call (ah_setStereoAuto A HDMI_ARC0 True True) (\<lambda>_. k)
       else ds_call (ah_getStereoMode A HDMI_ARC0) (\<lambda>mode.
            ds_call (ah_setStereoMode A HDMI_ARC0 mode True) (\<lambda>_. k))))
     (s\<lparr>ar_SADState := AUDIO_DEVICE_SAD_UPDATED\<rparr>)"

definition enable_ARC :: "'d audio_host \<Rightarrow> dsAudioARCTypes \<Rightarrow> bool \<Rightarrow> ('d arc \<Rightarrow> 'b option \<times> 'd arc) \<Rightarrow> 'd arc \<Rightarrow> 'b option \<times> 'd arc" where
  "enable_ARC A t on k = ds_call (ah_enableARC A HDMI_ARC0 t on) (\<lambda>_ s. k (s\<lparr>ar_arcEarcAudioEnabled := on\<rparr>))"

section \<open>Events of HdmiCecSink\<close>

text \<open>The UI is told unless it has been told already.\<close>

definition notify_connected :: "'d arc \<Rightarrow> 'd arc" where
  "notify_connected s =
     (if \<not> ar_notifiedToUI s then (connectedAudioPortUpdated dsAUDIOPORT_TYPE_HDMI_ARC True s)\<lparr>ar_notifiedToUI := True\<rparr> else s)"

definition notify_disconnected :: "'d arc \<Rightarrow> 'd arc" where
  "notify_disconnected s =
     (if ar_notifiedToUI s then (connectedAudioPortUpdated dsAUDIOPORT_TYPE_HDMI_ARC False s)\<lparr>ar_notifiedToUI := False\<rparr> else s)"

definition tell_disconnected :: "'d arc \<Rightarrow> 'd arc" where
  "tell_disconnected s = (connectedAudioPortUpdated dsAUDIOPORT_TYPE_HDMI_ARC False s)\<lparr>ar_notifiedToUI := False\<rparr>"

definition onARCInitiationEventHandler :: "'d audio_host \<Rightarrow> json_params \<Rightarrow> 'd arc \<Rightarrow> unit option \<times> 'd arc" where
  "onARCInitiationEventHandler A parameters s =
     (if \<not> HasLabel parameters ''status'' then (Some (), s)
      else if ar_currentArcRoutingState s \<noteq> ARC_STATE_ARC_INITIATED \<and> ar_powerRequestedAndReceived s then
        (if member_String parameters ''status'' = ''success'' then
           ds_call (ah_open A HDMI_ARC0) (\<lambda>_.
           ds_call (ah_getStereoMode A HDMI_ARC0) (\<lambda>mode s1.
             (let routed = (\<lambda>auto s2.
                (let s3 = (if auto then request_SAD s2 else s2);
                     s4 = (if ar_hdmiInAudioDeviceType s3 = dsAUDIOARCSUPPORT_NONE
                           then s3\<lparr>ar_hdmiInAudioDeviceType := dsAUDIOARCSUPPORT_ARC\<rparr> else s3)
                 in (Some (), if ar_hdmiInAudioDeviceConnected s4 then s4
                              else notify_connected (s4\<lparr>ar_hdmiInAudioDeviceConnected := True\<rparr>))))
              in if no_SAD s1 \<and> mode \<noteq> kPassThru then ds_call (ah_getStereoAuto A HDMI_ARC0) routed s1
                 else routed (no_SAD s1) s1)))
           (s\<lparr>ar_currentArcRoutingState := ARC_STATE_ARC_INITIATED\<rparr>)
         else (Some (), s\<lparr>ar_currentArcRoutingState := ARC_STATE_ARC_TERMINATED\<rparr>))
      else (Some (), s))"

definition onARCTerminationEventHandler :: "json_params \<Rightarrow> 'd arc \<Rightarrow> unit option \<times> 'd arc" where
  "onARCTerminationEventHandler parameters s =
     (let s1 = (if ar_SADState s \<noteq> AUDIO_DEVICE_SAD_CLEARED then clear_SAD s else s)
      in (Some (),
          if ar_currentArcRoutingState s1 \<noteq> ARC_STATE_ARC_TERMINATED \<and> HasLabel parameters ''status'' then
            (let s2 = s1\<lparr>ar_currentArcRoutingState := ARC_STATE_ARC_TERMINATED, ar_requestSadRetrigger := False\<rparr>
             in if member_String parameters ''status'' = ''success'' \<and> ar_hdmiInAudioDeviceConnected s2
                then notify_disconnected (s2\<lparr>ar_hdmiInAudioDeviceConnected := False\<rparr>) else s2)
          else s1))"

text \<open>The descriptors received are added to the list.\<close>

definition onShortAudioDescriptorEventHandler ::
  "variant \<Rightarrow> 'd audio_host \<Rightarrow> json_params \<Rightarrow> 'd arc \<Rightarrow> unit option \<times> 'd arc" where
  "onShortAudioDescriptorEventHandler V A parameters s =
     (if HasLabel parameters ''shortAudioDescriptor'' \<and> ar_SADState s = AUDIO_DEVICE_SAD_REQUESTED then
        (let descriptors = map (to_int32 \<circ> variant_Number V) (variant_Array V (member parameters ''shortAudioDescriptor''))
         in caught (ds_call (ah_open A HDMI_ARC0) (\<lambda>_ s1.
              if descriptors = [] then (Some (), s1)
              else
                (let s2 = s1\<lparr>ar_sad_list := ar_sad_list s1 @ descriptors\<rparr>
                 in if ar_currentArcRoutingState s2 = ARC_STATE_ARC_INITIATED then
                      (let wasSADTimerActive = ar_sadTimer s2;
                           s3 = s2\<lparr>ar_sadTimer := False\<rparr>
                       in if wasSADTimerActive \<and> \<not> ar_arcEarcAudioEnabled s3 then
                            update_SAD A (enable_ARC A dsAUDIOARCSUPPORT_ARC True (\<lambda>s4. (Some (), s4))) s3
                          else if ar_arcEarcAudioEnabled s3 then update_SAD A (\<lambda>s4. (Some (), s4)) s3
                          else (Some (), s3))
                    else (Some (), s2)))
              (s\<lparr>ar_SADState := AUDIO_DEVICE_SAD_RECEIVED, ar_requestSadRetrigger := False\<rparr>)))
      else (Some (), s))"

definition onSystemAudioModeEventHandler :: "json_params \<Rightarrow> 'd arc \<Rightarrow> unit option \<times> 'd arc" where
  "onSystemAudioModeEventHandler parameters s =
     (let value = member_String parameters ''audioMode''
      in (Some (),
          if \<not> HasLabel parameters ''audioMode'' then s
          else if value = ''On'' then
            sendMsgToQueue REQUEST_AUDIO_DEVICE_POWER_STATUS
              (s\<lparr>ar_powerRequestedAndReceived := True, ar_devicePowerState := AUDIO_DEVICE_POWER_STATE_REQUEST\<rparr>)
          else if value = ''Off'' then
            (let s1 = s\<lparr>ar_devicePowerState := AUDIO_DEVICE_POWER_STATE_UNKNOWN\<rparr>
             in if ar_hdmiInAudioDeviceConnected s1 then
                  (notify_disconnected (s1\<lparr>ar_hdmiInAudioDeviceConnected := False\<rparr>))
                    \<lparr>ar_currentArcRoutingState := ARC_STATE_ARC_TERMINATED, ar_requestSadRetrigger := False\<rparr>
                else s1)
          else s))"

text \<open>\<open>stoi\<close> throws when the text is no number.\<close>

definition onArcAudioStatusEventHandler :: "json_params \<Rightarrow> 'd arc \<Rightarrow> unit option \<times> 'd arc" where
  "onArcAudioStatusEventHandler parameters s =
     (if HasLabel parameters ''muteStatus'' \<and> HasLabel parameters ''volumeLevel'' then
        (case stoi (member_String parameters ''volumeLevel'') of
           None \<Rightarrow> (None, s)
         | Some level \<Rightarrow>
             (let s1 = (if level \<noteq> ar_hdmiArcVolumeLevel s then
                          sendNotify ''volumeLevelChanged'' [(''volumeLevel'', JNumber level)] (s\<lparr>ar_hdmiArcVolumeLevel := level\<rparr>)
                        else s)
              in case stoi (member_String parameters ''muteStatus'') of
                   None \<Rightarrow> (None, s1)
                 | Some n \<Rightarrow>
                     (Some (), if (n \<noteq> 0) \<noteq> ar_hdmiArcMuteStatus s1 then
                        sendNotify ''muteStatusChanged'' [(''muted'', JBool (n \<noteq> 0))] (s1\<lparr>ar_hdmiArcMuteStatus := (n \<noteq> 0)\<rparr>)
                      else s1)))
      else (Some (), s))"

definition onAudioDeviceConnectedStatusEventHandler :: "json_params \<Rightarrow> 'd arc \<Rightarrow> unit option \<times> 'd arc" where
  "onAudioDeviceConnectedStatusEventHandler parameters s =
     (let removed = (\<lambda>s.
            (let s1 = (if ar_hdmiInAudioDeviceConnected s then
                         tell_disconnected (s\<lparr>ar_hdmiInAudioDeviceConnected := False,
                           ar_devicePowerState := AUDIO_DEVICE_POWER_STATE_UNKNOWN,
                           ar_currentArcRoutingState := ARC_STATE_ARC_TERMINATED, ar_requestSadRetrigger := False\<rparr>)
                       else s);
                 s2 = (if \<not> no_SAD s1 then clear_SAD s1 else s1)
             in if \<not> ar_arcEarcAudioEnabled s2 then s2\<lparr>ar_hdmiInAudioDeviceType := dsAUDIOARCSUPPORT_NONE\<rparr> else s2));
          s1 = (if member_String parameters ''audioDeviceConnected'' = ''true'' then
                  sendMsgToQueue REQUEST_AUDIO_DEVICE_POWER_STATUS
                    ((sendMsgToQueue SEND_DEVICE_AUDIO_STATUS (s\<lparr>ar_hdmiCecAudioDeviceDetected := True\<rparr>))
                      \<lparr>ar_devicePowerState := AUDIO_DEVICE_POWER_STATE_REQUEST\<rparr>)
                else removed (s\<lparr>ar_hdmiCecAudioDeviceDetected := False\<rparr>))
      in (Some (), s1\<lparr>ar_hdmiArcVolumeLevel := 0, ar_hdmiArcMuteStatus := False\<rparr>))"

text \<open>An eARC device that is on: it is connected, and the UI is told.\<close>

definition eARC_connected :: "'d arc \<Rightarrow> 'd arc" where
  "eARC_connected s =
     notify_connected (s\<lparr>ar_hdmiInAudioDeviceConnected := True, ar_hdmiInAudioDeviceType := dsAUDIOARCSUPPORT_eARC\<rparr>)"

text \<open>The states of the AVR are the numbers 0 (on), 1 (standby) and 2 (from standby to on).\<close>

definition onAudioDevicePowerStatusEventHandler ::
  "'d audio_host \<Rightarrow> json_params \<Rightarrow> 'd arc \<Rightarrow> unit option \<times> 'd arc" where
  "onAudioDevicePowerStatusEventHandler A parameters s =
     (let value = (if HasLabel parameters ''powerStatus'' then member_String parameters ''powerStatus'' else [])
      in if \<not> isValidInt value then (Some (), s)
         else (case stoi value of
            None \<Rightarrow> (None, s)
          | Some pState \<Rightarrow>
              if pState = 0 then
                (let s1 = s\<lparr>ar_devicePowerState := AUDIO_DEVICE_POWER_STATE_ON, ar_powerRequestedAndReceived := True\<rparr>;
                     s2 = (if ar_powerTimer s1 then s1\<lparr>ar_retryPowerRequestCount := 0, ar_powerTimer := False\<rparr> else s1)
                 in caught (ds_call (ah_open A HDMI_ARC0) (\<lambda>_.
                            ds_call (ah_eARC A HDMI_ARC0) (\<lambda>earc s3.
                      if earc \<and> \<not> ar_hdmiInAudioDeviceConnected s3 then (Some (), eARC_connected s3)
                      else if \<not> ar_hdmiInAudioDeviceConnected s3 then (Some (), s3\<lparr>ar_arcTimer := True\<rparr>)
                      else (Some (), s3))) s2))
              else if pState = 1 then (Some (), s\<lparr>ar_devicePowerState := AUDIO_DEVICE_POWER_STATE_STANDBY\<rparr>)
              else if pState = 2 then
                (Some (), sendMsgToQueue REQUEST_AUDIO_DEVICE_POWER_STATUS
                            (s\<lparr>ar_devicePowerState := AUDIO_DEVICE_POWER_STATE_REQUEST\<rparr>))
              else (Some (), s)))"

definition onCecEnabledEventHandler :: "json_params \<Rightarrow> 'd arc \<Rightarrow> unit option \<times> 'd arc" where
  "onCecEnabledEventHandler parameters s =
     (Some (),
      if member_String parameters ''cecEnable'' = ''true'' then s\<lparr>ar_isCecEnabled := True\<rparr>
      else
        (let s1 = s\<lparr>ar_isCecEnabled := False\<rparr>;
             s2 = (if \<not> ar_arcEarcAudioEnabled s1 then s1\<lparr>ar_hdmiInAudioDeviceType := dsAUDIOARCSUPPORT_NONE\<rparr> else s1)
         in if ar_hdmiInAudioDeviceConnected s2 then
              (tell_disconnected (s2\<lparr>ar_hdmiInAudioDeviceConnected := False\<rparr>))
                \<lparr>ar_devicePowerState := AUDIO_DEVICE_POWER_STATE_UNKNOWN\<rparr>
            else s2))"

section \<open>Enabling an audio port\<close>

definition getSystemPowerState :: "PowerState option \<Rightarrow> 'd arc \<Rightarrow> PowerState \<times> 'd arc" where
  "getSystemPowerState answer s =
     (let s1 = (case answer of Some p \<Rightarrow> s\<lparr>ar_powerState := p\<rparr> | None \<Rightarrow> s) in (ar_powerState s1, s1))"

text \<open>A port that is not the ARC port: the result is \<open>success\<close>.\<close>

definition enable_other :: "'d audio_host \<Rightarrow> string \<Rightarrow> bool \<Rightarrow> 'd arc \<Rightarrow> bool option \<times> 'd arc" where
  "enable_other A audioPort on =
     ds_call (ah_setEnablePort A audioPort on) (\<lambda>ok.
       if \<not> ok then (\<lambda>s. (Some False, s))
       else ds_call (ah_isMuted A audioPort) (\<lambda>muted.
              if muted then ds_call (ah_setMuted A audioPort True) (\<lambda>_ s. (Some True, s)) else (\<lambda>s. (Some True, s))))"

text \<open>An ARC device that waits for its audio, in the order of the cases of the state of its descriptors.\<close>

definition route_ARC :: "'d audio_host \<Rightarrow> AudioStereoMode \<Rightarrow> 'd arc \<Rightarrow> bool option \<times> 'd arc" where
  "route_ARC A mode s =
     (let routed = enable_ARC A dsAUDIOARCSUPPORT_ARC True (\<lambda>s. (Some True, s));
          by_SAD = (\<lambda>s.
            (case ar_SADState s of
               AUDIO_DEVICE_SAD_UPDATED \<Rightarrow> routed s
             | AUDIO_DEVICE_SAD_RECEIVED \<Rightarrow>
                 ds_call (ah_setSAD A HDMI_ARC0 (ar_sad_list s)) (\<lambda>_.
                 ds_call (ah_getStereoAuto A HDMI_ARC0) (\<lambda>auto.
                   if auto then ds_call (ah_setStereoAuto A HDMI_ARC0 True True) (\<lambda>_. routed)
                   else ds_call (ah_setStereoMode A HDMI_ARC0 mode True) (\<lambda>_. routed)))
                 (s\<lparr>ar_SADState := AUDIO_DEVICE_SAD_UPDATED\<rparr>)
             | AUDIO_DEVICE_SAD_REQUESTED \<Rightarrow> (Some True, s\<lparr>ar_sadTimer := True\<rparr>)
             | _ \<Rightarrow> (Some True, s)))
      in if mode = kPassThru then by_SAD s
         else ds_call (ah_getStereoAuto A HDMI_ARC0) (\<lambda>auto. if auto then by_SAD else routed) s)"

definition enable_arc_port :: "'d audio_host \<Rightarrow> AudioStereoMode \<Rightarrow> bool \<Rightarrow> 'd arc \<Rightarrow> bool option \<times> 'd arc" where
  "enable_arc_port A mode isAudioPortMuted s =
     (if \<not> ar_hdmiInAudioDeviceConnected s then (Some False, s)
      else if ar_arcEarcAudioEnabled s then (Some True, s)
      else (case ar_hdmiInAudioDeviceType s of
         dsAUDIOARCSUPPORT_eARC \<Rightarrow> enable_ARC A dsAUDIOARCSUPPORT_eARC True (\<lambda>s. (Some True, s)) s
       | dsAUDIOARCSUPPORT_ARC \<Rightarrow>
           (case route_ARC A mode (sendMsgToQueue SEND_AUDIO_DEVICE_POWERON_MSG s) of
              (None, s1) \<Rightarrow> (None, s1)
            | (Some ok, s1) \<Rightarrow>
                (Some ok, if isAudioPortMuted \<noteq> ar_hdmiArcMuteStatus s1 then sendMsgToQueue SEND_MUTE_KEY_EVENT s1 else s1))
       | dsAUDIOARCSUPPORT_NONE \<Rightarrow> (Some True, s)))"

definition disable_arc_port :: "'d audio_host \<Rightarrow> 'd arc \<Rightarrow> bool option \<times> 'd arc" where
  "disable_arc_port A s =
     (if ar_arcEarcAudioEnabled s \<and> ar_hdmiInAudioDeviceType s \<noteq> dsAUDIOARCSUPPORT_NONE then
        enable_ARC A (ar_hdmiInAudioDeviceType s) False
          (\<lambda>s. (Some True, if \<not> ar_hdmiInAudioDeviceConnected s
                           then s\<lparr>ar_hdmiInAudioDeviceType := dsAUDIOARCSUPPORT_NONE\<rparr> else s)) s
      else (Some True, s))"

definition set_arc_port :: "'d audio_host \<Rightarrow> bool \<Rightarrow> 'd arc \<Rightarrow> bool option \<times> 'd arc" where
  "set_arc_port A on s =
     (case ds_call (ah_isMuted A HDMI_ARC0) (\<lambda>muted.
           ds_call (ah_open A HDMI_ARC0) (\<lambda>_.
           ds_call (ah_getStereoMode A HDMI_ARC0) (\<lambda>mode.
             if on then enable_arc_port A mode muted else disable_arc_port A))) s of
        (None, s1) \<Rightarrow> (None, s1)
      | (Some ok, s1) \<Rightarrow> (Some ok, s1\<lparr>ar_audioOutputPortConfig := Some on\<rparr>))"

text \<open>The status of the port is recorded and announced also when an exception has made the call fail.\<close>

definition announce_enabled :: "string \<Rightarrow> bool \<Rightarrow> 'd arc \<Rightarrow> 'd arc" where
  "announce_enabled audioPort on s =
     (if ar_portEnableStatus s audioPort \<noteq> on then
        sendNotify ''audioPortEnableStatusChanged'' [(''audioPort'', JString audioPort), (''enable'', JBool on)]
          (s\<lparr>ar_portEnableStatus := (ar_portEnableStatus s)(audioPort := on)\<rparr>)
      else s)"

definition setEnableAudioPort ::
  "variant \<Rightarrow> 'd audio_host \<Rightarrow> PowerState option \<Rightarrow> json_params \<Rightarrow> json_params \<Rightarrow> 'd arc \<Rightarrow> (hresult \<times> json_params) \<times> 'd arc" where
  "setEnableAudioPort V A answer parameters response s =
     (if \<not> HasLabel parameters ''audioPort'' \<or> \<not> HasLabel parameters ''enable'' then (returnResponse False response, s)
      else
        (let audioPort = member_String parameters ''audioPort'';
             on = variant_Boolean V (member parameters ''enable'');
             (power, s1) = (if on then getSystemPowerState answer s else (POWER_STATE_UNKNOWN, s))
         in if on \<and> power = POWER_STATE_STANDBY then (returnResponse False response, s1)
            else
              (let (result, s2) =
                 ds_call (ah_open A audioPort) (\<lambda>_.
                 ds_call (ah_setEnablePersist A audioPort on) (\<lambda>_.
                   if audioPort \<noteq> HDMI_ARC0 then enable_other A audioPort on else set_arc_port A on)) s1
               in (returnResponse (result = Some True) response, announce_enabled audioPort on s2))))"

text \<open>For the ARC port the last value set counts, whether a device is connected or not.\<close>

definition getEnableAudioPort ::
  "'d audio_host \<Rightarrow> json_params \<Rightarrow> json_params \<Rightarrow> 'd arc \<Rightarrow> (hresult \<times> json_params) \<times> 'd arc" where
  "getEnableAudioPort A parameters response s =
     (let audioPort = (if HasLabel parameters ''audioPort'' then member_String parameters ''audioPort'' else ''HDMI0'');
          (result, s1) =
            (if audioPort = HDMI_ARC0 then (Some (ar_audioOutputPortConfig s = Some True), s)
             else ds_call (ah_open A audioPort) (\<lambda>_. ds_call (ah_isEnabled A audioPort) (\<lambda>b s. (Some b, s))) s)
      in (case result of
            None \<Rightarrow> (returnResponse False response, s1)
          | Some b \<Rightarrow> (returnResponse True (set_member ''enable'' (JBool b) response), s1)))"

section \<open>The connected ports\<close>

definition vectorSet :: "string list \<Rightarrow> string \<Rightarrow> string list" where
  "vectorSet v x = (if x \<in> set v then v else v @ [x])"

definition setResponseArray :: "string \<Rightarrow> string list \<Rightarrow> json_params \<Rightarrow> json_params" where
  "setResponseArray key items response = set_member key (JArray (map JString items)) response"

text \<open>
  A device that counts as connected before its port is connected is dropped; it is told to switch on, so
  that it starts again.
\<close>

definition restart_device :: "'d arc \<Rightarrow> 'd arc" where
  "restart_device s =
     sendMsgToQueue SEND_AUDIO_DEVICE_POWERON_MSG
       (tell_disconnected (s\<lparr>ar_hdmiInAudioDeviceConnected := False,
          ar_devicePowerState := AUDIO_DEVICE_POWER_STATE_UNKNOWN, ar_currentArcRoutingState := ARC_STATE_ARC_TERMINATED,
          ar_requestSadRetrigger := False, ar_hdmiInAudioDeviceType := dsAUDIOARCSUPPORT_NONE,
          ar_SADState := AUDIO_DEVICE_SAD_UNKNOWN\<rparr>))"

fun connected_ports :: "'d audio_host \<Rightarrow> string list \<Rightarrow> string list \<Rightarrow> 'd arc \<Rightarrow> string list \<times> 'd arc" where
  "connected_ports A [] acc s = (acc, s)"
| "connected_ports A (p # ps) acc s =
     (case ah_isConnected A p (ar_dev s) of
        (None, d) \<Rightarrow> (acc, s\<lparr>ar_dev := d\<rparr>)
      | (Some True, d) \<Rightarrow>
          connected_ports A ps (if p = HDMI_ARC0 \<and> \<not> ar_hdmiInAudioDeviceConnected s then acc else vectorSet acc p) (s\<lparr>ar_dev := d\<rparr>)
      | (Some False, d) \<Rightarrow>
          connected_ports A ps acc
            (if p = HDMI_ARC0 \<and> ar_hdmiInAudioDeviceConnected s \<and> \<not> ar_arcEarcAudioEnabled s
             then restart_device (s\<lparr>ar_dev := d\<rparr>) else s\<lparr>ar_dev := d\<rparr>))"

definition getConnectedAudioPorts ::
  "'d audio_host \<Rightarrow> json_params \<Rightarrow> 'd arc \<Rightarrow> (hresult \<times> json_params) \<times> 'd arc" where
  "getConnectedAudioPorts A response s =
     (let (ports, s1) =
        (case ah_ports A (ar_dev s) of
           (None, d) \<Rightarrow> ([], s\<lparr>ar_dev := d\<rparr>)
         | (Some ps, d) \<Rightarrow> connected_ports A ps [] (s\<lparr>ar_dev := d\<rparr>))
      in (returnResponse True (setResponseArray ''connectedAudioPorts'' ports response), s1))"

section \<open>Timers\<close>

text \<open>The exceptions of \<open>checkSADUpdate\<close> are not caught.\<close>

definition checkSADUpdate :: "'d audio_host \<Rightarrow> 'd arc \<Rightarrow> unit option \<times> 'd arc" where
  "checkSADUpdate A =
     ds_call (ah_open A HDMI_ARC0) (\<lambda>_ s1.
       (let s2 = s1\<lparr>ar_sadTimer := False\<rparr>;
            route = (\<lambda>s. if \<not> ar_requestSadRetrigger s
                         then enable_ARC A dsAUDIOARCSUPPORT_ARC True (\<lambda>s. (Some (), s)) s else (Some (), s))
        in if \<not> ar_arcEarcAudioEnabled s2 \<and> ar_hdmiInAudioDeviceConnected s2 then
             (if ar_SADState s2 = AUDIO_DEVICE_SAD_RECEIVED then update_SAD A route s2
              else if \<not> ar_requestSadRetrigger s2 then
                route ((request_SAD (s2\<lparr>ar_requestSadRetrigger := True\<rparr>))\<lparr>ar_sadTimer := True\<rparr>)
              else route (s2\<lparr>ar_requestSadRetrigger := False\<rparr>))
           else (Some (), s2)))"

definition checkArcDeviceConnected :: "'d audio_host \<Rightarrow> 'd arc \<Rightarrow> unit option \<times> 'd arc" where
  "checkArcDeviceConnected A s =
     caught (ds_call (ah_open A HDMI_ARC0) (\<lambda>_. ds_call (ah_eARC A HDMI_ARC0) (\<lambda>earc s1.
       (let s2 =
          (if ar_currentArcRoutingState s1 \<noteq> ARC_STATE_ARC_INITIATED \<and> \<not> ar_hdmiInAudioDeviceConnected s1 then
             (if earc then eARC_connected s1
              else
                (let r = s1\<lparr>ar_retryArcCount := ar_retryArcCount s1 + 1\<rparr>
                 in if ar_retryArcCount r \<ge> 3 then
                      (let r1 = r\<lparr>ar_hdmiInAudioDeviceType := dsAUDIOARCSUPPORT_ARC\<rparr>
                       in if ar_currentArcRoutingState r1 = ARC_STATE_ARC_TERMINATED \<and> ar_isCecEnabled r1 then
                            sendMsgToQueue SEND_REQUEST_ARC_INITIATION
                              (r1\<lparr>ar_currentArcRoutingState := ARC_STATE_REQUEST_ARC_INITIATION\<rparr>)
                          else r1)
                    else r))
           else s1)
        in (Some (),
            if ar_arcTimer s2 \<and> (ar_retryArcCount s2 \<ge> 3 \<or> ar_currentArcRoutingState s2 = ARC_STATE_ARC_INITIATED
                 \<or> ar_hdmiInAudioDeviceType s2 \<noteq> dsAUDIOARCSUPPORT_NONE)
            then s2\<lparr>ar_retryArcCount := 0, ar_arcTimer := False\<rparr> else s2)))) s)"

definition checkAudioDeviceDetectionTimer :: "'d arc \<Rightarrow> 'd arc" where
  "checkAudioDeviceDetectionTimer s =
     (let s1 = (if ar_subscribed s \<and> ar_hdmiCecAudioDeviceDetected s then
                  (sendMsgToQueue SEND_AUDIO_DEVICE_POWERON_MSG (s\<lparr>ar_powerRequestedAndReceived := False\<rparr>))
                    \<lparr>ar_powerTimer := True\<rparr>
                else s)
      in s1\<lparr>ar_detectTimer := False\<rparr>)"

definition checkAudioDevicePowerStatusTimer :: "'d arc \<Rightarrow> 'd arc" where
  "checkAudioDevicePowerStatusTimer s =
     (let s1 =
        (if ar_subscribed s \<and> ar_hdmiCecAudioDeviceDetected s \<and> ar_devicePowerState s \<noteq> AUDIO_DEVICE_POWER_STATE_ON then
           (let r = s\<lparr>ar_devicePowerState := AUDIO_DEVICE_POWER_STATE_REQUEST\<rparr>;
                r1 = (if ar_retryPowerRequestCount r = 2 \<or> ar_retryPowerRequestCount r = 4
                      then sendMsgToQueue SEND_AUDIO_DEVICE_POWERON_MSG r else r);
                r2 = sendMsgToQueue REQUEST_AUDIO_DEVICE_POWER_STATUS r1
            in r2\<lparr>ar_retryPowerRequestCount := ar_retryPowerRequestCount r2 + 1\<rparr>)
         else s)
      in if ar_retryPowerRequestCount s1 \<ge> 5 \<and> ar_powerTimer s1 then
           s1\<lparr>ar_powerRequestedAndReceived := True, ar_retryPowerRequestCount := 0, ar_powerTimer := False\<rparr>
         else s1)"

text \<open>The subscriptions, in the order of the source, up to the first that fails.\<close>

definition sink_events :: "string list" where
  "sink_events = [''arcInitiationEvent'', ''arcTerminationEvent'', ''shortAudiodescriptorEvent'', ''setSystemAudioModeEvent'',
     ''reportAudioDeviceConnectedStatus'', ''reportCecEnabledEvent'', ''reportAudioDevicePowerStatus'', ''reportAudioStatusEvent'']"

definition subscribeForHdmiCecSinkEvent :: "cec_sink \<Rightarrow> string \<Rightarrow> 'd arc \<Rightarrow> bool \<times> 'd arc" where
  "subscribeForHdmiCecSinkEvent C eventName s =
     (if eventName \<in> set sink_events
      then (cs_subscribe C eventName, s\<lparr>ar_registeredEvents := ar_registeredEvents s @ [eventName]\<rparr>) else (False, s))"

fun subscribe_all :: "cec_sink \<Rightarrow> string list \<Rightarrow> 'd arc \<Rightarrow> bool \<times> 'd arc" where
  "subscribe_all C [] s = (True, s)"
| "subscribe_all C (e # es) s =
     (let (ok, s1) = subscribeForHdmiCecSinkEvent C e s in if ok then subscribe_all C es s1 else (False, s1))"

definition onTimer :: "variant \<Rightarrow> cec_sink \<Rightarrow> 'd arc \<Rightarrow> 'd arc" where
  "onTimer V C s =
     (let s1 =
        (if \<not> ar_subscribed s then
           (let (ok, r) = (if cs_active C then subscribe_all C sink_events s else (False, s))
            in if ok then r\<lparr>ar_subscribed := True, ar_timer := False\<rparr> else r)
         else s\<lparr>ar_timer := False\<rparr>);
          s2 = (if \<not> ar_isCecEnabled s1
                then (let (cec, r) = getHdmiCecSinkCecEnableStatus V C s1 in r\<lparr>ar_isCecEnabled := cec\<rparr>) else s1)
      in if ar_subscribed s2 then
           sendMsgToQueue REQUEST_AUDIO_DEVICE_POWER_STATUS
             ((sendMsgToQueue SEND_AUDIO_DEVICE_POWERON_MSG s2)\<lparr>ar_devicePowerState := AUDIO_DEVICE_POWER_STATE_REQUEST\<rparr>)
         else s2)"

definition stop_timers :: "'d arc \<Rightarrow> 'd arc" where
  "stop_timers s = s\<lparr>ar_timer := False, ar_detectTimer := False, ar_sadTimer := False, ar_arcTimer := False, ar_powerTimer := False\<rparr>"

text \<open>Unsubscribing also deletes the client.\<close>

definition stopCecTimeAndUnsubscribeEvent :: "'d arc \<Rightarrow> 'd arc" where
  "stopCecTimeAndUnsubscribeEvent s = (stop_timers s)\<lparr>ar_registeredEvents := []\<rparr>"

section \<open>Power state and hot plugs\<close>

text \<open>
  Switched on, the ports are initialised by a thread (\<open>InitAudioPorts\<close>). Otherwise, on a device with an
  ARC port, the state is cleaned up and the timers are stopped; an exception ends the clean-up.
\<close>

definition onPowerModeChanged :: "'d audio_host \<Rightarrow> PowerState \<Rightarrow> 'd arc \<Rightarrow> unit option \<times> 'd arc" where
  "onPowerModeChanged A newState s =
     (let s1 = s\<lparr>ar_powerState := newState\<rparr>
      in if newState = POWER_STATE_ON then
           (Some (), s1\<lparr>ar_resCacheUpdated := False, ar_displayCacheUpdated := False, ar_hdrCache := False\<rparr>)
         else caught (ds_call (ah_ports A) (\<lambda>ports s2.
           if HDMI_ARC0 \<in> set ports then
             (let s3 = s2\<lparr>ar_currentArcRoutingState := ARC_STATE_ARC_TERMINATED, ar_requestSadRetrigger := False\<rparr>;
                  s4 = (if ar_hdmiInAudioDeviceConnected s3 then
                          (tell_disconnected (s3\<lparr>ar_hdmiInAudioDeviceConnected := False\<rparr>))
                            \<lparr>ar_devicePowerState := AUDIO_DEVICE_POWER_STATE_UNKNOWN\<rparr>
                        else s3);
                  finish = (\<lambda>s. (Some (), stop_timers (s\<lparr>ar_hdmiInAudioDeviceType := dsAUDIOARCSUPPORT_NONE\<rparr>)))
              in if ar_arcEarcAudioEnabled s4
                 then ds_call (ah_open A HDMI_ARC0) (\<lambda>_. enable_ARC A dsAUDIOARCSUPPORT_ARC False finish) s4
                 else finish s4)
           else (Some (), s2)) s1))"

definition OnAudioOutHotPlug :: "dsAudioPortType \<Rightarrow> bool \<Rightarrow> 'd arc \<Rightarrow> 'd arc" where
  "OnAudioOutHotPlug portType isPortConnected s =
     (let s1 = connectedAudioPortUpdated portType isPortConnected s
      in if portType = dsAUDIOPORT_TYPE_HDMI_ARC then s1\<lparr>ar_notifiedToUI := isPortConnected\<rparr> else s1)"

definition OnHdmiInEventHotPlug :: "int \<Rightarrow> bool \<Rightarrow> 'd arc \<Rightarrow> 'd arc" where
  "OnHdmiInEventHotPlug port isConnected s =
     (if port = ar_hdmiArcPortId s \<and> \<not> isConnected then
        (let s1 = (if ar_hdmiInAudioDeviceConnected s then
                     tell_disconnected (s\<lparr>ar_hdmiInAudioDeviceConnected := False,
                       ar_devicePowerState := AUDIO_DEVICE_POWER_STATE_UNKNOWN\<rparr>)
                   else s);
             s2 = s1\<lparr>ar_currentArcRoutingState := ARC_STATE_ARC_TERMINATED, ar_requestSadRetrigger := False\<rparr>
         in if ar_SADState s2 \<noteq> AUDIO_DEVICE_SAD_CLEARED then clear_SAD s2 else s2)
      else s)"

section \<open>Initialisation of the ports\<close>

definition AudioPortsReInitialize :: "'d audio_host \<Rightarrow> 'd arc \<Rightarrow> unit option \<times> 'd arc" where
  "AudioPortsReInitialize A s =
     caught (ds_call (ah_ports A) (\<lambda>ports.
       foldr (\<lambda>p k. ds_call (ah_reInitialize A p) (\<lambda>_. k)) ports (\<lambda>s. (Some (), s))) s)"

text \<open>The ARC port; \<open>app_control\<close> is the build option \<open>APP_CONTROL_AUDIOPORT_INIT\<close>.\<close>

definition start_arc_port :: "variant \<Rightarrow> cec_sink \<Rightarrow> 'd arc \<Rightarrow> 'd arc" where
  "start_arc_port V C s =
     (let (cec, s1) = getHdmiCecSinkCecEnableStatus V C (s\<lparr>ar_timer := False\<rparr>);
          s2 = s1\<lparr>ar_isCecEnabled := cec\<rparr>
      in if cs_active C then
           (let (ok, s3) = (if \<not> ar_subscribed s2 then subscribe_all C sink_events s2 else (True, s2));
                s4 = (if ok then s3\<lparr>ar_subscribed := True\<rparr> else s3)
            in if \<not> ar_subscribed s4 then s4
               else if ar_hdmiCecAudioDeviceDetected s4 then
                 (sendMsgToQueue SEND_AUDIO_DEVICE_POWERON_MSG
                    (sendMsgToQueue SEND_DEVICE_AUDIO_STATUS (s4\<lparr>ar_powerRequestedAndReceived := False\<rparr>)))
                   \<lparr>ar_powerTimer := True\<rparr>
               else s4\<lparr>ar_detectTimer := True\<rparr>)
         else s2\<lparr>ar_timer := True\<rparr>)"

definition init_port ::
  "variant \<Rightarrow> 'd audio_host \<Rightarrow> cec_sink \<Rightarrow> bool \<Rightarrow> PowerState option \<Rightarrow> string \<Rightarrow> 'd arc \<Rightarrow> unit option \<times> 'd arc" where
  "init_port V A C app_control answer portName s =
     (let (persist, s1) = ds_call (ah_getEnablePersist A portName) (\<lambda>b s. (Some b, s)) s;
          isPortPersistenceValEnabled = (case persist of Some b \<Rightarrow> b | None \<Rightarrow> True);
          (detected, s2) = getHdmiCecSinkAudioDeviceConnectedStatus V C s1;
          s3 = s2\<lparr>ar_hdmiCecAudioDeviceDetected := detected\<rparr>
      in if portName = HDMI_ARC0 then
           ds_call (ah_getHdmiArcPortId A HDMI_ARC0) (\<lambda>portId s4.
             (let s5 = (if portId \<ge> 0 then s4\<lparr>ar_hdmiArcPortId := portId\<rparr> else s4);
                  s6 = s5\<lparr>ar_audioOutputPortConfig :=
                            Some (isPortPersistenceValEnabled \<and> (app_control \<or> ar_hdmiCecAudioDeviceDetected s5))\<rparr>
              in (Some (), start_arc_port V C s6))) s3
         else
           (let on = (isPortPersistenceValEnabled \<or> \<not> app_control \<and> \<not> ar_hdmiCecAudioDeviceDetected s3)
            in (Some (), snd (setEnableAudioPort V A answer [(''audioPort'', JString portName), (''enable'', JBool on)] [] s3))))"

fun init_ports ::
  "variant \<Rightarrow> 'd audio_host \<Rightarrow> cec_sink \<Rightarrow> bool \<Rightarrow> PowerState option \<Rightarrow> string list \<Rightarrow> 'd arc \<Rightarrow> unit option \<times> 'd arc" where
  "init_ports V A C app_control answer [] s = (Some (), s)"
| "init_ports V A C app_control answer (p # ps) s =
     (case init_port V A C app_control answer p s of
        (None, s1) \<Rightarrow> (None, s1)
      | (Some _, s1) \<Rightarrow> init_ports V A C app_control answer ps s1)"

definition InitAudioPorts ::
  "variant \<Rightarrow> 'd audio_host \<Rightarrow> cec_sink \<Rightarrow> bool \<Rightarrow> PowerState option \<Rightarrow> 'd arc \<Rightarrow> unit option \<times> 'd arc" where
  "InitAudioPorts V A C app_control answer s =
     caught (ds_call (ah_ports A) (\<lambda>ports. init_ports V A C app_control answer ports) (s\<lparr>ar_powerRequestedAndReceived := True\<rparr>))"

end
