(* ===== verification/SoundMode.thy ===== *)
theory SoundMode imports ArcRouting begin

text \<open>
  The method \<open>setSoundMode\<close> of \<open>DisplaySettings/DisplaySettings.cpp\<close>, which also asks for the audio
  descriptors of an ARC device or drops them, and the names of the ports.
\<close>

definition checkPortName :: "string \<Rightarrow> string option" where
  "checkPortName name =
     (if stringContains name ''HDMI'' then Some (if stringContains name ''HDMI_ARC'' then HDMI_ARC0 else ''HDMI0'')
      else if stringContains name ''SPDIF'' then Some ''SPDIF0''
      else if stringContains name ''IDLR'' then Some ''IDLR0''
      else if stringContains name ''SPEAKER'' then Some ''SPEAKER0''
      else if stringContains name ''HEADPHONE'' then Some ''HEADPHONE0''
      else if name \<noteq> [] then None else Some [])"

definition sound_mode_of :: "string \<Rightarrow> (AudioStereoMode \<times> bool) option" where
  "sound_mode_of soundMode =
     (if soundMode = ''mono'' then Some (kMono, False)
      else if soundMode = ''stereo'' then Some (kStereo, False)
      else if soundMode = ''surround'' then Some (kSurround, False)
      else if soundMode = ''passthru'' then Some (kPassThru, False)
      else if soundMode = ''dolbydigital'' then Some (kDD, False)
      else if soundMode = ''dolbydigitalplus'' then Some (kDDPlus, False)
      else if soundMode = ''auto'' \<or> soundMode = ''auto '' then Some (kSurround, True)
      else if soundMode = ''dolby digital 5.1'' then Some (kSurround, False)
      else None)"

text \<open>An ARC port to which a device is connected.\<close>

definition arc_sound_mode ::
  "'d audio_host \<Rightarrow> string \<Rightarrow> AudioStereoMode \<Rightarrow> bool \<Rightarrow> bool \<Rightarrow> 'd arc \<Rightarrow> bool option \<times> 'd arc" where
  "arc_sound_mode A port mode stereoAuto persist s =
     (let arc_device = (\<lambda>s. ar_hdmiInAudioDeviceType s = dsAUDIOARCSUPPORT_ARC \<and> ar_hdmiInAudioDeviceConnected s);
          set_mode = ds_call (ah_setStereoMode A port mode persist) (\<lambda>_ s. (Some True, s));
          set_auto = ds_call (ah_setStereoAuto A port stereoAuto persist) (\<lambda>_ s. (Some True, s))
      in if mode \<in> {kSurround, kPassThru, kStereo} \<and> \<not> stereoAuto then
           ds_call (ah_setStereoAuto A port False persist) (\<lambda>_ s1.
             set_mode
               (if arc_device s1 \<and> mode = kPassThru \<and> no_SAD s1 then request_SAD s1
                else if arc_device s1 \<and> mode = kStereo \<and> ar_SADState s1 \<noteq> AUDIO_DEVICE_SAD_CLEARED then clear_SAD s1
                else s1)) s
         else if ar_hdmiInAudioDeviceType s = dsAUDIOARCSUPPORT_eARC then set_auto s
         else if arc_device s then set_auto (if no_SAD s then request_SAD s else s)
         else (Some True, s))"

definition connected_sound_mode ::
  "'d audio_host \<Rightarrow> string \<Rightarrow> AudioStereoMode \<Rightarrow> bool \<Rightarrow> bool \<Rightarrow> port_type \<Rightarrow> 'd arc \<Rightarrow> bool option \<times> 'd arc" where
  "connected_sound_mode A port mode stereoAuto persist type =
     (let set_mode = (\<lambda>m. ds_call (ah_setStereoMode A port m persist) (\<lambda>_ s. (Some True, s)));
          set_auto = (\<lambda>a k. ds_call (ah_setStereoAuto A port a persist) (\<lambda>_. k))
      in case type of
           kHDMI \<Rightarrow>
             if mode \<noteq> kPassThru then
               set_auto stereoAuto
                 (if stereoAuto then ds_call (ah_getSurroundMode A) (\<lambda>surround. set_mode (if surround then kSurround else kStereo))
                  else set_mode mode)
             else set_auto False (set_mode mode)
         | kARC \<Rightarrow> arc_sound_mode A port mode stereoAuto persist
         | kSPDIF \<Rightarrow> if \<not> stereoAuto then set_auto False (set_mode mode) else set_auto True (\<lambda>s. (Some True, s))
         | kHEADPHONE \<Rightarrow> if \<not> stereoAuto then set_auto False (set_mode mode) else set_auto True (\<lambda>s. (Some True, s))
         | kOTHER_PORT \<Rightarrow> (\<lambda>s. (Some True, s)))"

definition unconnected_sound_mode ::
  "'d audio_host \<Rightarrow> string \<Rightarrow> AudioStereoMode \<Rightarrow> bool \<Rightarrow> bool \<Rightarrow> port_type \<Rightarrow> 'd arc \<Rightarrow> bool option \<times> 'd arc" where
  "unconnected_sound_mode A port mode stereoAuto persist type =
     (let set_mode = ds_call (ah_setStereoMode A port mode persist) (\<lambda>_ s. (Some True, s));
          set_auto = (\<lambda>a k. ds_call (ah_setStereoAuto A port a persist) (\<lambda>_. k))
      in case type of
           kARC \<Rightarrow>
             if mode \<in> {kPassThru, kStereo, kSurround} \<and> \<not> stereoAuto then set_auto False set_mode
             else set_auto stereoAuto (\<lambda>s. (Some True, s))
         | kHDMI \<Rightarrow> set_auto (if mode \<noteq> kPassThru then stereoAuto else False) set_mode
         | _ \<Rightarrow> (\<lambda>s. (Some False, s)))"

definition port_sound_mode ::
  "'d audio_host \<Rightarrow> string \<Rightarrow> AudioStereoMode \<Rightarrow> bool \<Rightarrow> bool \<Rightarrow> 'd arc \<Rightarrow> bool option \<times> 'd arc" where
  "port_sound_mode A port mode stereoAuto persist =
     ds_call (ah_open A port) (\<lambda>_.
     ds_call (ah_isConnected A port) (\<lambda>connected.
     ds_call (ah_getType A port) (\<lambda>type.
       if connected then connected_sound_mode A port mode stereoAuto persist type
       else unconnected_sound_mode A port mode stereoAuto persist type)))"

text \<open>What a call does: it is refused or ignored, it sets one port, or it has no port.\<close>

datatype sound_plan = SoundDone bool | SoundPort string AudioStereoMode bool bool | SoundAll string

definition plan_sound :: "variant \<Rightarrow> json_params \<Rightarrow> sound_plan" where
  "plan_sound V parameters =
     (if \<not> HasLabel parameters ''soundMode'' then SoundDone False
      else
        (let soundMode = toLower (member_String parameters ''soundMode'');
             persist = (if HasLabel parameters ''persist'' then variant_Boolean V (member parameters ''persist'') else True);
             audioPort = member_String parameters ''audioPort''
         in case sound_mode_of soundMode of
              None \<Rightarrow> SoundDone True
            | Some (mode, stereoAuto) \<Rightarrow>
                (case checkPortName (if stereoAuto \<and> audioPort = [] then ''HDMI0'' else audioPort) of
                   None \<Rightarrow> SoundDone False
                 | Some port \<Rightarrow> if port \<noteq> [] then SoundPort port mode stereoAuto persist else SoundAll soundMode)))"

text \<open>
  Without a port the method calls itself, first with the response and then with one that is not used; it
  passes the port on as \<open>videoDisplay\<close>. A call that does not return is \<open>None\<close>.
\<close>

partial_function (option) setSoundMode ::
  "variant \<Rightarrow> 'd audio_host \<Rightarrow> json_params \<Rightarrow> json_params \<Rightarrow> 'd arc \<Rightarrow> ((hresult \<times> json_params) \<times> 'd arc) option" where
  "setSoundMode V A parameters response s =
     (case plan_sound V parameters of
        SoundDone ok \<Rightarrow> Some (returnResponse ok response, s)
      | SoundPort port mode stereoAuto persist \<Rightarrow>
          (let (result, s1) = port_sound_mode A port mode stereoAuto persist s
           in Some (returnResponse (result = Some True) response, s1))
      | SoundAll soundMode \<Rightarrow>
          Option.bind (setSoundMode V A [(''videoDisplay'', JString ''HDMI0''), (''soundMode'', JString soundMode)] response s)
            (\<lambda>(r1, s1).
          Option.bind (setSoundMode V A [(''videoDisplay'', JString ''SPDIF0''), (''soundMode'', JString soundMode)] [] s1)
            (\<lambda>(r2, s2). Some (returnResponse True (snd r1), s2))))"

section \<open>The sound mode without a port\<close>

lemma toLower_idem: "toLower (toLower s) = toLower s"
proof -
  have "c_tolower (c_tolower c) = c_tolower c" for c by (simp add: c_tolower_def ascii_char_of)
  then show ?thesis by (simp add: toLower_def)
qed

lemma port_name_empty: "checkPortName p = Some [] \<longleftrightarrow> p = []"
  by (auto simp: checkPortName_def stringContains_def)

lemma plan_again:
  assumes "plan_sound V ps = SoundAll m"
  shows "plan_sound V [(''videoDisplay'', d), (''soundMode'', JString m)] = SoundAll m"
proof -
  have "HasLabel ps ''soundMode''" "toLower (member_String ps ''soundMode'') = m"
    "\<exists>mode. sound_mode_of m = Some (mode, False)"
    using assms by (auto simp: plan_sound_def Let_def port_name_empty split: if_splits option.splits)
  moreover have "checkPortName [] = Some []" by (simp add: port_name_empty)
  ultimately show ?thesis
    by (auto simp: plan_sound_def HasLabel_def member_String_def member_def toLower_idem)
qed

lemma sound_mode_returns: "setSoundMode V A ps response s = Some y \<Longrightarrow> \<nexists>m. plan_sound V ps = SoundAll m"
proof (rule setSoundMode.raw_induct [rotated, where P = "\<lambda>V A ps response s y. \<nexists>m. plan_sound V ps = SoundAll m"])
  fix rec V ps response s y and A :: "'a audio_host"
  assume IH: "\<And>V A ps response s y. rec V A ps response s = Some y \<Longrightarrow> \<nexists>m. plan_sound V ps = SoundAll m"
    and step: "(case plan_sound V ps of
        SoundDone ok \<Rightarrow> Some (returnResponse ok response, s)
      | SoundPort port mode stereoAuto persist \<Rightarrow>
          (let (result, s1) = port_sound_mode A port mode stereoAuto persist s
           in Some (returnResponse (result = Some True) response, s1))
      | SoundAll soundMode \<Rightarrow>
          Option.bind (rec V A [(''videoDisplay'', JString ''HDMI0''), (''soundMode'', JString soundMode)] response s)
            (\<lambda>(r1, s1).
          Option.bind (rec V A [(''videoDisplay'', JString ''SPDIF0''), (''soundMode'', JString soundMode)] [] s1)
            (\<lambda>(r2, s2). Some (returnResponse True (snd r1), s2)))) = Some y"
  show "\<nexists>m. plan_sound V ps = SoundAll m"
  proof (rule notI, elim exE)
    fix m assume m: "plan_sound V ps = SoundAll m"
    then obtain r where "rec V A [(''videoDisplay'', JString ''HDMI0''), (''soundMode'', JString m)] response s = Some r"
      using step by (auto simp: bind_eq_Some_conv)
    then show False using IH plan_again [OF m] by blast
  qed
qed

lemma sound_mode_result:
  assumes "setSoundMode V A ps response s = Some (r, s')"
  shows "s' = s \<or> (\<exists>port mode auto persist. s' = snd (port_sound_mode A port mode auto persist s))"
proof (cases "plan_sound V ps")
  case (SoundPort port mode auto persist)
  obtain result s1 where call: "port_sound_mode A port mode auto persist s = (result, s1)" by (rule prod.exhaust)
  have "setSoundMode V A ps response s = Some (returnResponse (result = Some True) response, s1)"
    by (subst setSoundMode.simps) (simp add: SoundPort call)
  then have "s' = snd (port_sound_mode A port mode auto persist s)" using assms call by simp
  then show ?thesis by blast
next
  case (SoundDone ok)
  have "setSoundMode V A ps response s = Some (returnResponse ok response, s)"
    by (subst setSoundMode.simps) (simp add: SoundDone)
  then show ?thesis using assms by simp
next
  case (SoundAll m)
  then show ?thesis using sound_mode_returns [OF assms] by blast
qed

text \<open>
  C34. Without a port a known sound mode other than auto makes \<open>setSoundMode\<close> call itself for ever: it
  hands the ports on as \<open>videoDisplay\<close>, while it reads \<open>audioPort\<close>. All other calls return.
\<close>

theorem sound_mode_needs_port:
  "setSoundMode V A ps response s = None \<longleftrightarrow>
     HasLabel ps ''soundMode'' \<and> member_String ps ''audioPort'' = []
     \<and> (\<exists>mode. sound_mode_of (toLower (member_String ps ''soundMode'')) = Some (mode, False))"
proof -
  have "(\<exists>m. plan_sound V ps = SoundAll m) \<longleftrightarrow> HasLabel ps ''soundMode'' \<and> member_String ps ''audioPort'' = []
     \<and> (\<exists>mode. sound_mode_of (toLower (member_String ps ''soundMode'')) = Some (mode, False))"
  proof -
    have [simp]: "checkPortName ''HDMI0'' \<noteq> Some []" "checkPortName [] = Some []" by (simp_all add: port_name_empty)
    show ?thesis
      by (auto simp: plan_sound_def Let_def port_name_empty split: option.split bool.split)
  qed
  moreover have "setSoundMode V A ps response s = None \<longleftrightarrow> (\<exists>m. plan_sound V ps = SoundAll m)"
  proof
    assume "setSoundMode V A ps response s = None"
    then show "\<exists>m. plan_sound V ps = SoundAll m"
      by (subst (asm) setSoundMode.simps) (auto split: sound_plan.splits prod.splits)
  next
    assume "\<exists>m. plan_sound V ps = SoundAll m"
    then show "setSoundMode V A ps response s = None"
      using sound_mode_returns [of V A ps response s] by (cases "setSoundMode V A ps response s") auto
  qed
  ultimately show ?thesis by blast
qed

end
