(* ===== verification/ArcInv.thy ===== *)
theory ArcInv imports SoundMode begin

text \<open>
  Runs of the routing of \<open>ArcRouting\<close>: the operations in any order, and what holds in every state they
  reach. A timer runs only while it is scheduled; a call of \<open>setSoundMode\<close> that does not return is no step.
\<close>

section \<open>Runs\<close>

datatype arc_op =
    ArcInitiation json_params
  | ArcTermination json_params
  | ShortAudioDescriptor json_params
  | SystemAudioMode json_params
  | ArcAudioStatus json_params
  | AudioDeviceConnected json_params
  | AudioDevicePower json_params
  | CecEnabled json_params
  | EnablePort "PowerState option" json_params
  | SoundMode json_params
  | ConnectedPorts
  | SadTimer
  | ArcTimer
  | DetectTimer
  | PowerTimer
  | ReconnectTimer cec_sink
  | PowerModeChanged PowerState
  | AudioOutHotPlug dsAudioPortType bool
  | HdmiInHotPlug int bool
  | InitPorts cec_sink bool "PowerState option"
  | SendMessage cec_sink
  | StopTimers

definition when_active :: "bool \<Rightarrow> 'a \<Rightarrow> 'a option" where
  "when_active b x = (if b then Some x else None)"

fun arc_step :: "variant \<Rightarrow> 'd audio_host \<Rightarrow> arc_op \<Rightarrow> 'd arc \<Rightarrow> 'd arc option" where
  "arc_step V A (ArcInitiation ps) s = Some (snd (onARCInitiationEventHandler A ps s))"
| "arc_step V A (ArcTermination ps) s = Some (snd (onARCTerminationEventHandler ps s))"
| "arc_step V A (ShortAudioDescriptor ps) s = Some (snd (onShortAudioDescriptorEventHandler V A ps s))"
| "arc_step V A (SystemAudioMode ps) s = Some (snd (onSystemAudioModeEventHandler ps s))"
| "arc_step V A (ArcAudioStatus ps) s = Some (snd (onArcAudioStatusEventHandler ps s))"
| "arc_step V A (AudioDeviceConnected ps) s = Some (snd (onAudioDeviceConnectedStatusEventHandler ps s))"
| "arc_step V A (AudioDevicePower ps) s = Some (snd (onAudioDevicePowerStatusEventHandler A ps s))"
| "arc_step V A (CecEnabled ps) s = Some (snd (onCecEnabledEventHandler ps s))"
| "arc_step V A (EnablePort answer ps) s = Some (snd (setEnableAudioPort V A answer ps [] s))"
| "arc_step V A (SoundMode ps) s = map_option snd (setSoundMode V A ps [] s)"
| "arc_step V A ConnectedPorts s = Some (snd (getConnectedAudioPorts A [] s))"
| "arc_step V A SadTimer s = when_active (ar_sadTimer s) (snd (checkSADUpdate A s))"
| "arc_step V A ArcTimer s = when_active (ar_arcTimer s) (snd (checkArcDeviceConnected A s))"
| "arc_step V A DetectTimer s = when_active (ar_detectTimer s) (checkAudioDeviceDetectionTimer s)"
| "arc_step V A PowerTimer s = when_active (ar_powerTimer s) (checkAudioDevicePowerStatusTimer s)"
| "arc_step V A (ReconnectTimer C) s = when_active (ar_timer s) (onTimer V C s)"
| "arc_step V A (PowerModeChanged new) s = Some (snd (onPowerModeChanged A new s))"
| "arc_step V A (AudioOutHotPlug t b) s = Some (OnAudioOutHotPlug t b s)"
| "arc_step V A (HdmiInHotPlug port b) s = Some (OnHdmiInEventHotPlug port b s)"
| "arc_step V A (InitPorts C app_control answer) s = Some (snd (InitAudioPorts V A C app_control answer s))"
| "arc_step V A (SendMessage C) s = Some (sendMsgThread V C s)"
| "arc_step V A StopTimers s = Some (stopCecTimeAndUnsubscribeEvent s)"

text \<open>The states reached by operations that are allowed, from libraries in a state that may be the first.\<close>

inductive arc_reach ::
  "variant \<Rightarrow> 'd audio_host \<Rightarrow> ('d \<Rightarrow> bool) \<Rightarrow> (arc_op \<Rightarrow> bool) \<Rightarrow> 'd arc \<Rightarrow> bool" for V A first allowed where
  arc_start: "first d \<Longrightarrow> arc_reach V A first allowed (DisplaySettings_ctor junk d)"
| arc_next: "arc_reach V A first allowed s \<Longrightarrow> allowed op \<Longrightarrow> arc_step V A op s = Some s' \<Longrightarrow> arc_reach V A first allowed s'"

text \<open>What a predicate needs to hold after a call of the library, whatever the call does.\<close>

lemma ds_call_keeps:
  assumes "\<And>d. P (s\<lparr>ar_dev := d\<rparr>)" "\<And>x d. P (snd (k x (s\<lparr>ar_dev := d\<rparr>)))"
  shows "P (snd (ds_call f k s))"
  using assms by (auto simp: ds_call_def split: prod.split option.split)

section \<open>What the UI is told\<close>

definition told :: "notifications \<Rightarrow> bool list" where
  "told ns = map (\<lambda>(e, ps). member ps ''isConnected'' = JString ''connected'')
     (filter (\<lambda>(e, ps). e = ''connectedAudioPortUpdated'' \<and> member ps ''HotpluggedAudioPort'' = JString HDMI_ARC0) ns)"

fun alternate :: "bool \<Rightarrow> bool list \<Rightarrow> bool" where
  "alternate b [] = True"
| "alternate b (c # cs) = (c = b \<and> alternate (\<not> b) cs)"

lemma alternate_snoc: "alternate b (cs @ [c]) = (alternate b cs \<and> c = (if cs = [] then b else \<not> last cs))"
  by (induction cs arbitrary: b) auto

definition is_told :: "'d arc \<Rightarrow> bool" where
  "is_told s = (told (ar_notes s) \<noteq> [] \<and> last (told (ar_notes s)))"

lemma told_append: "told (ns @ ms) = told ns @ told ms"
  by (simp add: told_def)

lemma told_Cons2: "told (n # m # ns) = told [n] @ told (m # ns)"
  by (simp add: told_def)

lemma told_one:
  "told [(''connectedAudioPortUpdated'', hotplugged dsAUDIOPORT_TYPE_HDMI_ARC @
      [(''isConnected'', JString (if b then ''connected'' else ''disconnected''))])] = [b]"
  "told [(''connectedAudioPortUpdated'', hotplugged dsAUDIOPORT_TYPE_HEADPHONE @ ps)] = []"
  "told [(''connectedAudioPortUpdated'', hotplugged dsAUDIOPORT_TYPE_OTHER @
      [(''isConnected'', JString w)])] = []"
  "told [(''volumeLevelChanged'', ps)] = []" "told [(''muteStatusChanged'', ps)] = []"
  "told [(''audioPortEnableStatusChanged'', ps)] = []"
  by (simp_all add: told_def hotplugged_def member_def)

text \<open>The part of the state that counts here, and what the parts of the handlers do to it.\<close>

definition ui_view :: "'d arc \<Rightarrow> bool list \<times> bool \<times> bool \<times> dsAudioARCTypes" where
  "ui_view s = (told (ar_notes s), ar_notifiedToUI s, ar_hdmiInAudioDeviceConnected s, ar_hdmiInAudioDeviceType s)"

definition ui_ok :: "bool list \<times> bool \<times> bool \<times> dsAudioARCTypes \<Rightarrow> bool" where
  "ui_ok = (\<lambda>(ts, notified, connected, type).
     alternate True ts \<and> notified = (ts \<noteq> [] \<and> last ts) \<and> (connected \<longrightarrow> notified \<and> type \<noteq> dsAUDIOARCSUPPORT_NONE))"


named_theorems ui_simps

lemma ui_view_simps [ui_simps]:
  "ui_view (sendMsgToQueue m s) = ui_view s" "ui_view (request_SAD s) = ui_view s" "ui_view (clear_SAD s) = ui_view s"
  "ui_view (s\<lparr>ar_dev := d\<rparr>) = ui_view s"
  by (simp_all add: ui_view_def sendMsgToQueue_def request_SAD_def clear_SAD_def)

lemma ui_told [ui_simps]:
  "told (ar_notes (connectedAudioPortUpdated dsAUDIOPORT_TYPE_HDMI_ARC b s)) = told (ar_notes s) @ [b]"
  "told (ar_notes (connectedAudioPortUpdated dsAUDIOPORT_TYPE_HEADPHONE b s)) = told (ar_notes s)"
  "told (ar_notes (connectedAudioPortUpdated dsAUDIOPORT_TYPE_OTHER b s)) = told (ar_notes s)"
  using told_one
  by (auto simp: connectedAudioPortUpdated_def sendNotify_def told_append told_one(1) told_one(2,3) simp del: told_def)

lemma connectedAudioPortUpdated_fields [ui_simps]:
  "ar_hdmiInAudioDeviceConnected (connectedAudioPortUpdated t b s) = ar_hdmiInAudioDeviceConnected s"
  "ar_hdmiInAudioDeviceType (connectedAudioPortUpdated t b s) = ar_hdmiInAudioDeviceType s"
  "ar_notifiedToUI (connectedAudioPortUpdated t b s) = ar_notifiedToUI s"
  by (simp_all add: connectedAudioPortUpdated_def sendNotify_def)


lemmas ui_defs = ui_view_def ui_ok_def sendMsgToQueue_def request_SAD_def clear_SAD_def tell_disconnected_def
  notify_connected_def notify_disconnected_def eARC_connected_def alternate_snoc

lemma ui_events:
  "ui_ok (ui_view s) \<Longrightarrow> ui_ok (ui_view (snd (onARCTerminationEventHandler ps s)))"
  "ui_ok (ui_view s) \<Longrightarrow> ui_ok (ui_view (snd (onSystemAudioModeEventHandler ps s)))"
  "ui_ok (ui_view s) \<Longrightarrow> ui_ok (ui_view (snd (onAudioDeviceConnectedStatusEventHandler ps s)))"
  "ui_ok (ui_view s) \<Longrightarrow> ui_ok (ui_view (snd (onCecEnabledEventHandler ps s)))"
  "ui_ok (ui_view s) \<Longrightarrow> ui_ok (ui_view (OnHdmiInEventHotPlug port b s))"
  by (auto simp: onARCTerminationEventHandler_def onSystemAudioModeEventHandler_def
      onAudioDeviceConnectedStatusEventHandler_def onCecEnabledEventHandler_def OnHdmiInEventHotPlug_def
      Let_def ui_defs ui_simps)

lemma ui_volume: "ui_view (snd (onArcAudioStatusEventHandler ps s)) = ui_view s"
  by (auto simp: onArcAudioStatusEventHandler_def Let_def ui_view_def sendNotify_def told_append told_one
      told_Cons2 split: option.split)

lemma ui_connected:
  "ui_ok (ui_view s) \<Longrightarrow> ui_ok (ui_view (eARC_connected s))"
  "ui_ok (ui_view s) \<Longrightarrow> ar_hdmiInAudioDeviceType s \<noteq> dsAUDIOARCSUPPORT_NONE \<Longrightarrow>
     ui_ok (ui_view (notify_connected (s\<lparr>ar_hdmiInAudioDeviceConnected := True\<rparr>)))"
  by (auto simp: ui_defs ui_simps)

lemma ui_calls:
  "ui_view (snd (update_SAD A (\<lambda>s. (r, s)) s)) = ui_view s"
  "ui_view (snd (enable_ARC A t b (\<lambda>s. (r, s)) s)) = ui_view s"
  by (simp_all add: update_SAD_def enable_ARC_def ds_call_def ui_view_def split: prod.split option.split)

lemma ui_initiation: "ui_ok (ui_view s) \<Longrightarrow> ui_ok (ui_view (snd (onARCInitiationEventHandler A ps s)))"
  unfolding onARCInitiationEventHandler_def
  by (auto simp: Let_def ds_call_def ui_defs ui_simps split: prod.split option.split)


lemma ui_descriptors: "ui_view (snd (onShortAudioDescriptorEventHandler V A ps s)) = ui_view s"
  unfolding onShortAudioDescriptorEventHandler_def
  by (auto simp: Let_def caught_def update_SAD_def enable_ARC_def ds_call_def ui_view_def split: prod.split option.split)

lemma ui_ds_call:
  "ui_ok (ui_view s) \<Longrightarrow> (\<And>x s. ui_ok (ui_view s) \<Longrightarrow> ui_ok (ui_view (snd (k x s)))) \<Longrightarrow> ui_ok (ui_view (snd (ds_call f k s)))"
  by (rule ds_call_keeps [where P = "\<lambda>s. ui_ok (ui_view s)"]) (simp_all add: ui_view_simps)

lemma ui_power_view:
  "ui_view (s\<lparr>ar_devicePowerState := p\<rparr>) = ui_view s"
  "ui_view (s\<lparr>ar_devicePowerState := p, ar_powerRequestedAndReceived := b\<rparr>) = ui_view s"
  "ui_view (s\<lparr>ar_devicePowerState := p, ar_powerRequestedAndReceived := b, ar_retryPowerRequestCount := n, ar_powerTimer := c\<rparr>) = ui_view s"
  "ui_view (s\<lparr>ar_arcTimer := b\<rparr>) = ui_view s"
  by (simp_all add: ui_view_def)

lemma ui_power_status: "ui_ok (ui_view s) \<Longrightarrow> ui_ok (ui_view (snd (onAudioDevicePowerStatusEventHandler A ps s)))"
  unfolding onAudioDevicePowerStatusEventHandler_def Let_def caught_def
  by (simp add: ui_power_view ui_view_simps ui_connected ui_ds_call split: option.split)

lemma ui_update_SAD:
  "(\<And>s. ui_view (snd (k s)) = ui_view s) \<Longrightarrow> ui_view (snd (update_SAD A k s)) = ui_view s"
  by (simp add: update_SAD_def ds_call_def ui_view_def split: prod.split option.split)

lemma ui_sad_timer: "ui_view (snd (checkSADUpdate A s)) = ui_view s"
proof -
  define route :: "'a arc \<Rightarrow> unit option \<times> 'a arc" where "route = (\<lambda>s. if \<not> ar_requestSadRetrigger s
    then enable_ARC A dsAUDIOARCSUPPORT_ARC True (\<lambda>s. (Some (), s)) s else (Some (), s))"
  have r: "ui_view (snd (route s)) = ui_view s" for s by (simp add: route_def ui_calls)
  show ?thesis
    unfolding checkSADUpdate_def route_def [symmetric]
    by (rule ds_call_keeps)
       (simp_all add: Let_def r ui_update_SAD, simp_all add: ui_view_def request_SAD_def sendMsgToQueue_def)
qed

lemma ui_arc_timer: "ui_ok (ui_view s) \<Longrightarrow> ui_ok (ui_view (snd (checkArcDeviceConnected A s)))"
  by (auto simp: checkArcDeviceConnected_def Let_def caught_def ds_call_def ui_defs ui_simps
      split: prod.split option.split)

lemma ui_timers:
  "ui_view (checkAudioDeviceDetectionTimer s) = ui_view s"
  "ui_view (checkAudioDevicePowerStatusTimer s) = ui_view s"
  "ui_view (stopCecTimeAndUnsubscribeEvent s) = ui_view s"
  by (simp_all add: checkAudioDeviceDetectionTimer_def checkAudioDevicePowerStatusTimer_def
      stopCecTimeAndUnsubscribeEvent_def stop_timers_def Let_def ui_view_def sendMsgToQueue_def)

lemma ui_power_mode: "ui_ok (ui_view s) \<Longrightarrow> ui_ok (ui_view (snd (onPowerModeChanged A new s)))"
  unfolding onPowerModeChanged_def
  by (auto simp: Let_def caught_def enable_ARC_def stop_timers_def ds_call_def ui_defs ui_simps split: prod.split option.split)

lemma ui_invoke: "ui_view (snd (arc_invoke V C name ps s)) = ui_view s" "ui_view (snd (cec_query V C name k s)) = ui_view s"
  by (simp_all add: arc_invoke_def cec_query_def ui_view_def)

lemma ui_queue: "ui_view (s\<lparr>ar_sendMsgQueue := q\<rparr>) = ui_view s"
  by (simp add: ui_view_def)

lemma ui_thread: "ui_view (sendMsgThread V C s) = ui_view s"
  by (simp add: sendMsgThread_def ui_queue ui_invoke sendHdmiCecSinkAudioDevicePowerOn_def requestShortAudioDescriptor_def
      requestAudioDevicePowerStatus_def sendUserControlPressCommand_def requestDeviceAudioStatus_def
      setUpHdmiCecSinkArcRouting_def split_def Let_def split: list.split msg.split)

lemma ui_subscribe: "ui_view (snd (subscribe_all C es s)) = ui_view s"
  by (induction es arbitrary: s) (simp_all add: subscribeForHdmiCecSinkEvent_def split_def Let_def ui_view_def)

lemma ui_on_timer: "ui_view (onTimer V C s) = ui_view s"
  using ui_subscribe [of C sink_events s]
  by (simp add: onTimer_def Let_def split_def ui_view_def sendMsgToQueue_def getHdmiCecSinkCecEnableStatus_def cec_query_def)


lemma ui_call_eq:
  "(\<And>x s. ui_view (snd (k x s)) = ui_view s) \<Longrightarrow> ui_view (snd (ds_call f k s)) = ui_view s"
  by (simp add: ds_call_def ui_view_simps split: prod.split option.split)

lemma ui_enable_on:
  "ui_view (snd (enable_other A port b s)) = ui_view s"
  "ui_view (snd (route_ARC A mode s)) = ui_view s"
proof -
  show "ui_view (snd (enable_other A port b s)) = ui_view s"
    unfolding enable_other_def by (intro ui_call_eq) (simp add: ui_call_eq)
  have timer: "ui_view (s\<lparr>ar_sadTimer := b\<rparr>) = ui_view s" "ui_view (s\<lparr>ar_SADState := x\<rparr>) = ui_view s" for b x and s :: "'a arc"
    by (simp_all add: ui_view_def)
  show "ui_view (snd (route_ARC A mode s)) = ui_view s"
    unfolding route_ARC_def Let_def
    by (auto simp: ui_calls ui_call_eq timer split: sad_state.split intro!: ui_call_eq)
qed

lemma ui_enable_arc: "ui_view (snd (enable_arc_port A mode muted s)) = ui_view s"
  using ui_enable_on(2) [of A mode "sendMsgToQueue SEND_AUDIO_DEVICE_POWERON_MSG s"]
  by (auto simp: enable_arc_port_def ui_calls ui_view_simps split: dsAudioARCTypes.split prod.split option.split)

lemma ui_disable_arc: "ui_ok (ui_view s) \<Longrightarrow> ui_ok (ui_view (snd (disable_arc_port A s)))"
  by (auto simp: disable_arc_port_def enable_ARC_def ds_call_def ui_view_def ui_ok_def split: prod.split option.split)

lemma ui_set_arc: "ui_ok (ui_view s) \<Longrightarrow> ui_ok (ui_view (snd (set_arc_port A b s)))"
proof -
  assume s: "ui_ok (ui_view s)"
  let ?r = "ds_call (ah_isMuted A HDMI_ARC0) (\<lambda>muted. ds_call (ah_open A HDMI_ARC0) (\<lambda>_.
    ds_call (ah_getStereoMode A HDMI_ARC0) (\<lambda>mode. if b then enable_arc_port A mode muted else disable_arc_port A))) s"
  have "ui_ok (ui_view (snd ?r))"
    by (intro ui_ds_call s) (auto simp: ui_enable_arc ui_disable_arc)
  then show ?thesis
    by (auto simp: set_arc_port_def ui_view_def split: prod.split option.split)
qed

lemma ui_announce: "ui_view (announce_enabled port b s) = ui_view s"
  by (simp add: announce_enabled_def sendNotify_def ui_view_def told_append told_one)

lemma ui_enable_port: "ui_ok (ui_view s) \<Longrightarrow> ui_ok (ui_view (snd (setEnableAudioPort V A answer ps response s)))"
proof -
  assume s: "ui_ok (ui_view s)"
  have power: "ui_view (snd (getSystemPowerState answer s)) = ui_view s"
    by (simp add: getSystemPowerState_def Let_def ui_view_def split: option.split)
  have call: "ui_ok (ui_view (snd (ds_call (ah_open A port) (\<lambda>_. ds_call (ah_setEnablePersist A port b) (\<lambda>_.
      if port \<noteq> HDMI_ARC0 then enable_other A port b else set_arc_port A b)) s1)))" if "ui_ok (ui_view s1)" for port b s1
    by (intro ui_ds_call that) (auto simp: ui_enable_on ui_set_arc)
  show ?thesis
    using s power call by (auto simp: setEnableAudioPort_def Let_def split_def ui_announce)
qed

lemma ui_sound_port: "ui_view (snd (port_sound_mode A port mode a p s)) = ui_view s"
proof -
  have arc: "ui_view (snd (arc_sound_mode A port mode a p s)) = ui_view s" for s
    by (auto simp: arc_sound_mode_def Let_def ui_call_eq ui_view_simps intro!: ui_call_eq)
  have "ui_view (snd (connected_sound_mode A port mode a p type s)) = ui_view s"
    "ui_view (snd (unconnected_sound_mode A port mode a p type s)) = ui_view s" for type s
    by (cases type; auto simp: connected_sound_mode_def unconnected_sound_mode_def Let_def arc ui_call_eq intro!: ui_call_eq)+
  then show ?thesis
    unfolding port_sound_mode_def by (intro ui_call_eq) simp
qed

lemma subscribe_fields:
  "told (ar_notes (snd (subscribe_all C es s))) = told (ar_notes s)"
  "ar_notifiedToUI (snd (subscribe_all C es s)) = ar_notifiedToUI s"
  "ar_hdmiInAudioDeviceConnected (snd (subscribe_all C es s)) = ar_hdmiInAudioDeviceConnected s"
  "ar_hdmiInAudioDeviceType (snd (subscribe_all C es s)) = ar_hdmiInAudioDeviceType s"
  using ui_subscribe [of C es s] by (simp_all add: ui_view_def)

lemma ui_start_arc: "ui_view (start_arc_port V C s) = ui_view s"
  by (simp add: start_arc_port_def Let_def split_def subscribe_fields ui_view_def sendMsgToQueue_def
      getHdmiCecSinkCecEnableStatus_def cec_query_def)

lemma ui_init_port: "ui_ok (ui_view s) \<Longrightarrow> ui_ok (ui_view (snd (init_port V A C app answer p s)))"
proof -
  assume s: "ui_ok (ui_view s)"
  have q: "ui_view (snd (getHdmiCecSinkAudioDeviceConnectedStatus V C s)) = ui_view s" for s :: "'a arc"
    by (simp add: getHdmiCecSinkAudioDeviceConnectedStatus_def ui_invoke)
  have d: "ui_view (snd (ds_call f (\<lambda>b s. (Some b, s)) s)) = ui_view s" for f :: "('a, bool) call" and s
    by (rule ui_call_eq) simp
  have v: "ui_view (s\<lparr>ar_hdmiCecAudioDeviceDetected := b\<rparr>) = ui_view s" "ui_view (s\<lparr>ar_audioOutputPortConfig := c\<rparr>) = ui_view s"
    "ui_view (s\<lparr>ar_hdmiArcPortId := n\<rparr>) = ui_view s" for b c n and s :: "'a arc"
    by (simp_all add: ui_view_def)
  show ?thesis
    using s by (auto simp: init_port_def Let_def split_def q d v ui_start_arc intro!: ui_enable_port ui_ds_call)
qed

lemma ui_init: "ui_ok (ui_view s) \<Longrightarrow> ui_ok (ui_view (snd (InitAudioPorts V A C app answer s)))"
proof -
  assume s: "ui_ok (ui_view s)"
  have "ui_ok (ui_view (snd (init_ports V A C app answer ps s)))" if "ui_ok (ui_view s)" for ps s
    using that
  proof (induction ps arbitrary: s)
    case (Cons p ps)
    obtain r s1 where r: "init_port V A C app answer p s = (r, s1)" by (rule prod.exhaust)
    then have "ui_ok (ui_view s1)" using ui_init_port [OF Cons.prems, of V A C app answer p] by simp
    then show ?case using Cons.IH r by (cases r) auto
  qed simp
  moreover have "ui_view (s\<lparr>ar_powerRequestedAndReceived := True\<rparr>) = ui_view s" by (simp add: ui_view_def)
  ultimately show ?thesis
    using s by (auto simp: InitAudioPorts_def caught_def intro!: ui_ds_call)
qed

lemma ui_connected_ports: "ui_ok (ui_view s) \<Longrightarrow> ui_ok (ui_view (snd (connected_ports A ps acc s)))"
proof (induction A ps acc s rule: connected_ports.induct)
  case (2 A p ps acc s)
  obtain r d where r: "ah_isConnected A p (ar_dev s) = (r, d)" by (rule prod.exhaust)
  have "ui_ok (ui_view (restart_device (s\<lparr>ar_dev := d\<rparr>)))" if "ar_hdmiInAudioDeviceConnected s"
    using 2(3) that by (auto simp: restart_device_def ui_defs ui_simps)
  then show ?case using 2 r by (cases r; cases "r = Some True") (auto simp: ui_view_simps)
qed simp

lemma ui_get_connected: "ui_ok (ui_view s) \<Longrightarrow> ui_ok (ui_view (snd (getConnectedAudioPorts A response s)))"
  by (auto simp: getConnectedAudioPorts_def Let_def split_def ui_view_simps split: prod.split option.split intro!: ui_connected_ports)

section \<open>Every run\<close>

lemma ui_start: "ui_view (DisplaySettings_ctor junk d) = ([], False, False, dsAUDIOARCSUPPORT_NONE)"
  by (simp add: ui_view_def DisplaySettings_ctor_def told_def)

lemma ui_sound: "setSoundMode V A ps response s = Some (r, s') \<Longrightarrow> ui_view s' = ui_view s"
  using sound_mode_result [of V A ps response s r s'] by (auto simp: ui_sound_port)

definition no_hot_plug :: "arc_op \<Rightarrow> bool" where
  "no_hot_plug op = (case op of AudioOutHotPlug t b \<Rightarrow> t \<noteq> dsAUDIOPORT_TYPE_HDMI_ARC | _ \<Rightarrow> True)"

lemma ui_step:
  assumes "no_hot_plug op" "ui_ok (ui_view s)" "arc_step V A op s = Some s'"
  shows "ui_ok (ui_view s')"
proof (cases op)
  case (AudioOutHotPlug t b)
  then have "ui_view s' = ui_view s"
    using assms by (cases t) (auto simp: no_hot_plug_def OnAudioOutHotPlug_def ui_view_def ui_simps)
  then show ?thesis using assms by simp
next
  case (SoundMode ps)
  then show ?thesis using assms by (auto simp: ui_sound)
qed (use assms in \<open>auto simp: when_active_def ui_events ui_volume ui_initiation ui_descriptors ui_power_status
      ui_sad_timer ui_arc_timer ui_timers ui_power_mode ui_thread ui_on_timer ui_enable_port ui_init ui_get_connected split: if_splits\<close>)

text \<open>
  C6. In every run without a hot plug of the ARC port by the library, the UI is told in turn that an
  audio device is connected and disconnected, beginning with connected; the flag for it is what was told
  last; and a device that counts as connected has been told of and has a type.
\<close>

theorem ui_told_in_turn:
  assumes "arc_reach V A first no_hot_plug s"
  shows "alternate True (told (ar_notes s)) \<and> ar_notifiedToUI s = is_told s
    \<and> (ar_hdmiInAudioDeviceConnected s \<longrightarrow> is_told s \<and> ar_hdmiInAudioDeviceType s \<noteq> dsAUDIOARCSUPPORT_NONE)"
proof -
  have "ui_ok (ui_view s)"
    using assms
  proof induction
    case (arc_start d junk)
    show ?case by (simp add: ui_start ui_ok_def)
  next
    case (arc_next s op s')
    then show ?case by (blast intro: ui_step)
  qed
  then show ?thesis by (auto simp: ui_ok_def ui_view_def is_told_def)
qed

end
