(* ===== verification/ArcHardware.thy ===== *)
theory ArcHardware imports ArcInv begin

text \<open>
  The flag of \<open>ArcRouting\<close> for audio that is routed, and the state of the ARC port: nothing but the calls of
  \<open>enableARC\<close> changes either, and an exception changes neither. The port is routed as ARC or as eARC, and
  a call that disables the other type leaves it as it is.
\<close>

section \<open>The library\<close>

definition keeps_on :: "('d \<Rightarrow> 'k) \<Rightarrow> ('d, 'a) call \<Rightarrow> bool" where
  "keeps_on on f = (\<forall>d. on (snd (f d)) = on d)"

text \<open>
  \<open>on\<close> is the type that the port is routed as, if any. \<open>enableARC\<close> switches the type that it is given on or
  off, unless it throws; no other call changes the port.
\<close>

definition switched :: "dsAudioARCTypes \<Rightarrow> bool \<Rightarrow> dsAudioARCTypes \<Rightarrow> dsAudioARCTypes" where
  "switched t b k = (if b then t else if k = t then dsAUDIOARCSUPPORT_NONE else k)"

definition arc_hardware :: "'d audio_host \<Rightarrow> ('d \<Rightarrow> dsAudioARCTypes) \<Rightarrow> bool" where
  "arc_hardware A on =
     (keeps_on on (ah_ports A) \<and> keeps_on on (ah_getSurroundMode A)
      \<and> (\<forall>p. keeps_on on (ah_open A p) \<and> keeps_on on (ah_reInitialize A p) \<and> keeps_on on (ah_getEnablePersist A p)
           \<and> keeps_on on (ah_getHdmiArcPortId A p) \<and> keeps_on on (ah_isEnabled A p) \<and> keeps_on on (ah_isMuted A p)
           \<and> keeps_on on (ah_isConnected A p) \<and> keeps_on on (ah_getType A p) \<and> keeps_on on (ah_getStereoMode A p)
           \<and> keeps_on on (ah_getStereoAuto A p) \<and> keeps_on on (ah_eARC A p))
      \<and> (\<forall>p b. keeps_on on (ah_setEnablePersist A p b) \<and> keeps_on on (ah_setEnablePort A p b) \<and> keeps_on on (ah_setMuted A p b))
      \<and> (\<forall>p m b. keeps_on on (ah_setStereoMode A p m b)) \<and> (\<forall>p a b. keeps_on on (ah_setStereoAuto A p a b))
      \<and> (\<forall>p l. keeps_on on (ah_setSAD A p l))
      \<and> (\<forall>t b d. on (snd (ah_enableARC A HDMI_ARC0 t b d))
            = (if fst (ah_enableARC A HDMI_ARC0 t b d) = None then on d else switched t b (on d))))"

text \<open>No device offers eARC.\<close>

definition ARC_only :: "'d audio_host \<Rightarrow> bool" where
  "ARC_only A = (\<forall>p d d'. ah_eARC A p d \<noteq> (Some True, d'))"

lemma hardware_keeps:
  assumes "arc_hardware A on"
  shows "keeps_on on (ah_ports A)" "keeps_on on (ah_getSurroundMode A)" "keeps_on on (ah_open A p)"
    "keeps_on on (ah_reInitialize A p)" "keeps_on on (ah_getEnablePersist A p)" "keeps_on on (ah_getHdmiArcPortId A p)"
    "keeps_on on (ah_isEnabled A p)" "keeps_on on (ah_isMuted A p)" "keeps_on on (ah_isConnected A p)"
    "keeps_on on (ah_getType A p)" "keeps_on on (ah_getStereoMode A p)" "keeps_on on (ah_getStereoAuto A p)"
    "keeps_on on (ah_eARC A p)" "keeps_on on (ah_setEnablePersist A p b)" "keeps_on on (ah_setEnablePort A p b)"
    "keeps_on on (ah_setMuted A p b)" "keeps_on on (ah_setStereoMode A p m b)" "keeps_on on (ah_setStereoAuto A p b c)"
    "keeps_on on (ah_setSAD A p l)"
  using assms by (simp_all add: arc_hardware_def)

section \<open>The flag\<close>

text \<open>A relation \<open>Q\<close> of the flag, the type the port is routed as and the type of the device.\<close>

definition flag_ok ::
  "(bool \<Rightarrow> dsAudioARCTypes \<Rightarrow> dsAudioARCTypes \<Rightarrow> bool) \<Rightarrow> ('d \<Rightarrow> dsAudioARCTypes) \<Rightarrow> 'd arc \<Rightarrow> bool" where
  "flag_ok Q on s = Q (ar_arcEarcAudioEnabled s) (on (ar_dev s)) (ar_hdmiInAudioDeviceType s)"

text \<open>A request to disable the port disables the type of the device; the relation may hold without that type.\<close>

definition disable_keeps ::
  "(bool \<Rightarrow> dsAudioARCTypes \<Rightarrow> dsAudioARCTypes \<Rightarrow> bool) \<Rightarrow> ('d \<Rightarrow> dsAudioARCTypes) \<Rightarrow> 'd arc \<Rightarrow> bool" where
  "disable_keeps Q on s =
     (ar_arcEarcAudioEnabled s \<and> ar_hdmiInAudioDeviceType s \<noteq> dsAUDIOARCSUPPORT_NONE
      \<longrightarrow> Q False (switched (ar_hdmiInAudioDeviceType s) False (on (ar_dev s))) (ar_hdmiInAudioDeviceType s))"

text \<open>The two steps that disable the port keep the relation.\<close>

fun step_disables ::
  "(bool \<Rightarrow> dsAudioARCTypes \<Rightarrow> dsAudioARCTypes \<Rightarrow> bool) \<Rightarrow> ('d \<Rightarrow> dsAudioARCTypes) \<Rightarrow> arc_op \<Rightarrow> 'd arc \<Rightarrow> bool" where
  "step_disables Q on (PowerModeChanged new) s =
     (ar_arcEarcAudioEnabled s \<longrightarrow> Q False (switched dsAUDIOARCSUPPORT_ARC False (on (ar_dev s))) (ar_hdmiInAudioDeviceType s))"
| "step_disables Q on (EnablePort answer ps) s = disable_keeps Q on s"
| "step_disables Q on _ s = True"

text \<open>
  What such a relation has to allow: switching ARC on, switching the type of the device on, and any type of
  the device, eARC only if \<open>earc\<close>.
\<close>

locale flag_relation =
  fixes Q :: "bool \<Rightarrow> dsAudioARCTypes \<Rightarrow> dsAudioARCTypes \<Rightarrow> bool" and earc :: bool
  assumes switch_ARC: "Q f k ty \<Longrightarrow> Q True dsAUDIOARCSUPPORT_ARC ty"
    and switch_type: "Q f k ty \<Longrightarrow> ty \<noteq> dsAUDIOARCSUPPORT_NONE \<Longrightarrow> Q True ty ty"
    and any_type: "Q f k ty \<Longrightarrow> ty' \<noteq> dsAUDIOARCSUPPORT_eARC \<or> earc \<Longrightarrow> Q f k ty'"
begin

lemma flag_type: "flag_ok Q on s \<Longrightarrow> ty \<noteq> dsAUDIOARCSUPPORT_eARC \<or> earc \<Longrightarrow> flag_ok Q on (s\<lparr>ar_hdmiInAudioDeviceType := ty\<rparr>)"
  using any_type by (simp add: flag_ok_def)

lemma flag_dev: "on d = on (ar_dev s) \<Longrightarrow> flag_ok Q on s \<Longrightarrow> flag_ok Q on (s\<lparr>ar_dev := d\<rparr>)"
  by (simp add: flag_ok_def)

lemma flag_call_same:
  assumes "keeps_on on f" "flag_ok Q on s"
    "\<And>x d d'. f d' = (Some x, d) \<Longrightarrow> on d = on (ar_dev s) \<Longrightarrow> flag_ok Q on (snd (k x (s\<lparr>ar_dev := d\<rparr>)))"
  shows "flag_ok Q on (snd (ds_call f k s))"
proof -
  obtain r d where f: "f (ar_dev s) = (r, d)" by (rule prod.exhaust)
  have d: "on d = on (ar_dev s)" using assms(1) f unfolding keeps_on_def by (metis snd_conv)
  then have "flag_ok Q on (s\<lparr>ar_dev := d\<rparr>)" using assms(2) by (simp add: flag_ok_def)
  with f d assms(3) show ?thesis by (cases r) (auto simp: ds_call_def)
qed

lemma flag_call:
  assumes "keeps_on on f" "flag_ok Q on s" "\<And>x s. flag_ok Q on s \<Longrightarrow> flag_ok Q on (snd (k x s))"
  shows "flag_ok Q on (snd (ds_call f k s))"
proof (rule flag_call_same [OF assms(1,2)])
  fix x d d'
  assume "f d' = (Some x, d)" "on d = on (ar_dev s)"
  then have "flag_ok Q on (s\<lparr>ar_dev := d\<rparr>)" using assms(2) by (simp add: flag_ok_def)
  then show "flag_ok Q on (snd (k x (s\<lparr>ar_dev := d\<rparr>)))" by (rule assms(3))
qed

text \<open>Only a library that offers eARC makes a device one of that type.\<close>

lemma flag_ask_eARC:
  assumes "arc_hardware A on" "ARC_only A \<or> earc" "flag_ok Q on s"
    "\<And>s. flag_ok Q on s \<Longrightarrow> earc \<Longrightarrow> flag_ok Q on (snd (k True s))" "\<And>s. flag_ok Q on s \<Longrightarrow> flag_ok Q on (snd (k False s))"
  shows "flag_ok Q on (snd (ds_call (ah_eARC A p) k s))"
proof (rule flag_call_same [OF hardware_keeps(13) [OF assms(1)] assms(3)])
  fix x d d'
  assume f: "ah_eARC A p d' = (Some x, d)" "on d = on (ar_dev s)"
  then have "flag_ok Q on (s\<lparr>ar_dev := d\<rparr>)" using assms(3) by (simp add: flag_ok_def)
  then show "flag_ok Q on (snd (k x (s\<lparr>ar_dev := d\<rparr>)))"
    using f(1) assms(2,4,5) by (cases x) (auto simp: ARC_only_def)
qed

lemma flag_switch:
  assumes "arc_hardware A on" "flag_ok Q on s"
    "Q b (switched t b (on (ar_dev s))) (ar_hdmiInAudioDeviceType s)"
    "\<And>d. flag_ok Q on (s\<lparr>ar_dev := d, ar_arcEarcAudioEnabled := b\<rparr>) \<Longrightarrow> flag_ok Q on (snd (k (s\<lparr>ar_dev := d, ar_arcEarcAudioEnabled := b\<rparr>)))"
  shows "flag_ok Q on (snd (enable_ARC A t b k s))"
proof -
  obtain r d where f: "ah_enableARC A HDMI_ARC0 t b (ar_dev s) = (r, d)" by (rule prod.exhaust)
  have "on (snd (ah_enableARC A HDMI_ARC0 t b (ar_dev s))) = (if fst (ah_enableARC A HDMI_ARC0 t b (ar_dev s)) = None
      then on (ar_dev s) else switched t b (on (ar_dev s)))"
    using assms(1) by (simp add: arc_hardware_def)
  then have d: "on d = (if r = None then on (ar_dev s) else switched t b (on (ar_dev s)))" using f by simp
  show ?thesis
  proof (cases r)
    case None
    then show ?thesis using assms(2) f d by (simp add: enable_ARC_def ds_call_def flag_ok_def)
  next
    case (Some u)
    then have "flag_ok Q on (s\<lparr>ar_dev := d, ar_arcEarcAudioEnabled := b\<rparr>)" using d assms(3) by (simp add: flag_ok_def)
    then show ?thesis using assms(4) f Some by (simp add: enable_ARC_def ds_call_def)
  qed
qed

lemma flag_enable_ARC:
  assumes "arc_hardware A on" "flag_ok Q on s" "\<And>s. flag_ok Q on s \<Longrightarrow> flag_ok Q on (snd (k s))"
  shows "flag_ok Q on (snd (enable_ARC A dsAUDIOARCSUPPORT_ARC True k s))"
  using switch_ARC assms(2) by (intro flag_switch [OF assms(1,2)] assms(3)) (simp_all add: flag_ok_def switched_def)

lemma flag_update_SAD:
  assumes "arc_hardware A on" "flag_ok Q on s" "\<And>s. flag_ok Q on s \<Longrightarrow> flag_ok Q on (snd (k s))"
  shows "flag_ok Q on (snd (update_SAD A k s))"
proof -
  have "flag_ok Q on (s\<lparr>ar_SADState := x\<rparr>)" for x using assms(2) by (simp add: flag_ok_def)
  then show ?thesis
    unfolding update_SAD_def
    by (intro flag_call hardware_keeps [OF assms(1)]) (auto intro!: flag_call hardware_keeps [OF assms(1)] assms(3))
qed

lemma flag_simps:
  "flag_ok Q on (sendMsgToQueue m s) = flag_ok Q on s" "flag_ok Q on (sendNotify e ps s) = flag_ok Q on s"
  "flag_ok Q on (connectedAudioPortUpdated t b s) = flag_ok Q on s" "flag_ok Q on (request_SAD s) = flag_ok Q on s"
  "flag_ok Q on (clear_SAD s) = flag_ok Q on s" "flag_ok Q on (notify_connected s) = flag_ok Q on s"
  "flag_ok Q on (notify_disconnected s) = flag_ok Q on s" "flag_ok Q on (tell_disconnected s) = flag_ok Q on s"
  "flag_ok Q on (stop_timers s) = flag_ok Q on s"
  "flag_ok Q on (announce_enabled port b s) = flag_ok Q on s"
  by (simp_all add: flag_ok_def sendMsgToQueue_def sendNotify_def connectedAudioPortUpdated_def request_SAD_def clear_SAD_def
      notify_connected_def notify_disconnected_def tell_disconnected_def stop_timers_def announce_enabled_def)

lemma flag_updates:
  "flag_ok Q on (s\<lparr>ar_subscribed := b\<rparr>) = flag_ok Q on s" "flag_ok Q on (s\<lparr>ar_hdmiInAudioDeviceConnected := b\<rparr>) = flag_ok Q on s"
  "flag_ok Q on (s\<lparr>ar_notifiedToUI := b\<rparr>) = flag_ok Q on s" "flag_ok Q on (s\<lparr>ar_hdmiCecAudioDeviceDetected := b\<rparr>) = flag_ok Q on s"
  "flag_ok Q on (s\<lparr>ar_powerRequestedAndReceived := b\<rparr>) = flag_ok Q on s"
  "flag_ok Q on (s\<lparr>ar_devicePowerState := p\<rparr>) = flag_ok Q on s" "flag_ok Q on (s\<lparr>ar_currentArcRoutingState := a\<rparr>) = flag_ok Q on s"
  "flag_ok Q on (s\<lparr>ar_SADState := sad\<rparr>) = flag_ok Q on s" "flag_ok Q on (s\<lparr>ar_requestSadRetrigger := b\<rparr>) = flag_ok Q on s"
  "flag_ok Q on (s\<lparr>ar_sad_list := l\<rparr>) = flag_ok Q on s" "flag_ok Q on (s\<lparr>ar_timer := b\<rparr>) = flag_ok Q on s"
  "flag_ok Q on (s\<lparr>ar_detectTimer := b\<rparr>) = flag_ok Q on s" "flag_ok Q on (s\<lparr>ar_sadTimer := b\<rparr>) = flag_ok Q on s"
  "flag_ok Q on (s\<lparr>ar_arcTimer := b\<rparr>) = flag_ok Q on s" "flag_ok Q on (s\<lparr>ar_powerTimer := b\<rparr>) = flag_ok Q on s"
  "flag_ok Q on (s\<lparr>ar_sendMsgQueue := q\<rparr>) = flag_ok Q on s" "flag_ok Q on (s\<lparr>ar_registeredEvents := es\<rparr>) = flag_ok Q on s"
  "flag_ok Q on (s\<lparr>ar_audioOutputPortConfig := c\<rparr>) = flag_ok Q on s" "flag_ok Q on (s\<lparr>ar_portEnableStatus := f\<rparr>) = flag_ok Q on s"
  "flag_ok Q on (s\<lparr>ar_powerState := w\<rparr>) = flag_ok Q on s" "flag_ok Q on (s\<lparr>ar_isCecEnabled := b\<rparr>) = flag_ok Q on s"
  "flag_ok Q on (s\<lparr>ar_hdmiArcPortId := i\<rparr>) = flag_ok Q on s" "flag_ok Q on (s\<lparr>ar_retryPowerRequestCount := n\<rparr>) = flag_ok Q on s"
  "flag_ok Q on (s\<lparr>ar_retryArcCount := n\<rparr>) = flag_ok Q on s" "flag_ok Q on (s\<lparr>ar_hdmiArcVolumeLevel := i\<rparr>) = flag_ok Q on s"
  "flag_ok Q on (s\<lparr>ar_hdmiArcMuteStatus := b\<rparr>) = flag_ok Q on s" "flag_ok Q on (s\<lparr>ar_resCacheUpdated := b\<rparr>) = flag_ok Q on s"
  "flag_ok Q on (s\<lparr>ar_displayCacheUpdated := b\<rparr>) = flag_ok Q on s" "flag_ok Q on (s\<lparr>ar_hdrCache := b\<rparr>) = flag_ok Q on s"
  "flag_ok Q on (s\<lparr>ar_sent := cs\<rparr>) = flag_ok Q on s" "flag_ok Q on (s\<lparr>ar_notes := ns\<rparr>) = flag_ok Q on s"
  by (simp_all add: flag_ok_def)


lemma flag_eARC_connected: "flag_ok Q on s \<Longrightarrow> earc \<Longrightarrow> flag_ok Q on (eARC_connected s)"
  by (simp add: eARC_connected_def flag_simps flag_updates flag_type)

lemmas flag_rules = flag_call flag_enable_ARC flag_update_SAD

section \<open>The operations\<close>

lemma flag_events:
  "flag_ok Q on s \<Longrightarrow> flag_ok Q on (snd (onARCTerminationEventHandler ps s))"
  "flag_ok Q on s \<Longrightarrow> flag_ok Q on (snd (onSystemAudioModeEventHandler ps s))"
  "flag_ok Q on s \<Longrightarrow> flag_ok Q on (snd (onAudioDeviceConnectedStatusEventHandler ps s))"
  "flag_ok Q on s \<Longrightarrow> flag_ok Q on (snd (onCecEnabledEventHandler ps s))"
  "flag_ok Q on s \<Longrightarrow> flag_ok Q on (OnHdmiInEventHotPlug port b s)"
  "flag_ok Q on s \<Longrightarrow> flag_ok Q on (OnAudioOutHotPlug ty b s)"
  "flag_ok Q on s \<Longrightarrow> flag_ok Q on (snd (onArcAudioStatusEventHandler ps s))"
  "flag_ok Q on s \<Longrightarrow> flag_ok Q on (checkAudioDeviceDetectionTimer s)"
  "flag_ok Q on s \<Longrightarrow> flag_ok Q on (checkAudioDevicePowerStatusTimer s)"
  "flag_ok Q on s \<Longrightarrow> flag_ok Q on (stopCecTimeAndUnsubscribeEvent s)"
  by (simp_all add: onARCTerminationEventHandler_def onSystemAudioModeEventHandler_def
      onAudioDeviceConnectedStatusEventHandler_def onCecEnabledEventHandler_def OnHdmiInEventHotPlug_def
      OnAudioOutHotPlug_def onArcAudioStatusEventHandler_def checkAudioDeviceDetectionTimer_def
      checkAudioDevicePowerStatusTimer_def stopCecTimeAndUnsubscribeEvent_def
      Let_def flag_simps flag_updates flag_type split: option.split)

lemma flag_initiation:
  "arc_hardware A on \<Longrightarrow> flag_ok Q on s \<Longrightarrow> flag_ok Q on (snd (onARCInitiationEventHandler A ps s))"
  unfolding onARCInitiationEventHandler_def Let_def
  by (auto simp: flag_simps flag_updates flag_type intro!: flag_call hardware_keeps)

lemma flag_descriptors:
  "arc_hardware A on \<Longrightarrow> flag_ok Q on s \<Longrightarrow> flag_ok Q on (snd (onShortAudioDescriptorEventHandler V A ps s))"
  unfolding onShortAudioDescriptorEventHandler_def Let_def caught_def
  by (auto simp: flag_simps flag_updates intro!: flag_rules hardware_keeps)

lemma flag_power_status:
  "arc_hardware A on \<Longrightarrow> ARC_only A \<or> earc \<Longrightarrow> flag_ok Q on s \<Longrightarrow> flag_ok Q on (snd (onAudioDevicePowerStatusEventHandler A ps s))"
  unfolding onAudioDevicePowerStatusEventHandler_def Let_def caught_def
  by (auto simp: flag_simps flag_updates intro!: flag_ask_eARC flag_call [where f = "ah_open A HDMI_ARC0"] hardware_keeps flag_eARC_connected
      split: option.split)

lemma flag_sad_timer: "arc_hardware A on \<Longrightarrow> flag_ok Q on s \<Longrightarrow> flag_ok Q on (snd (checkSADUpdate A s))"
  unfolding checkSADUpdate_def Let_def
  by (auto simp: flag_simps flag_updates intro!: flag_rules hardware_keeps)

lemma flag_arc_timer:
  "arc_hardware A on \<Longrightarrow> ARC_only A \<or> earc \<Longrightarrow> flag_ok Q on s \<Longrightarrow> flag_ok Q on (snd (checkArcDeviceConnected A s))"
  unfolding checkArcDeviceConnected_def Let_def caught_def
  by (auto simp: flag_simps flag_updates flag_type intro!: flag_ask_eARC flag_call [where f = "ah_open A HDMI_ARC0"] hardware_keeps
      flag_eARC_connected)

text \<open>Standby disables ARC; it keeps the relation if that holds without ARC.\<close>

lemma flag_power_mode:
  assumes "arc_hardware A on" "flag_ok Q on s"
    "ar_arcEarcAudioEnabled s \<Longrightarrow> Q False (switched dsAUDIOARCSUPPORT_ARC False (on (ar_dev s))) (ar_hdmiInAudioDeviceType s)"
  shows "flag_ok Q on (snd (onPowerModeChanged A new s))"
proof -
  have off: "flag_ok Q on (snd (ds_call (ah_open A HDMI_ARC0) (\<lambda>_. enable_ARC A dsAUDIOARCSUPPORT_ARC False
      (\<lambda>s. (Some (), stop_timers (s\<lparr>ar_hdmiInAudioDeviceType := dsAUDIOARCSUPPORT_NONE\<rparr>)))) s1))"
    if "flag_ok Q on s1" "ar_arcEarcAudioEnabled s1" "ar_arcEarcAudioEnabled s" "on (ar_dev s1) = on (ar_dev s)"
      "ar_hdmiInAudioDeviceType s1 = ar_hdmiInAudioDeviceType s" for s1
  proof (intro flag_call_same hardware_keeps [OF assms(1)] that(1) flag_switch [OF assms(1)])
    fix d
    assume "on d = on (ar_dev s1)"
    then show "flag_ok Q on (s1\<lparr>ar_dev := d\<rparr>)"
      "Q False (switched dsAUDIOARCSUPPORT_ARC False (on (ar_dev (s1\<lparr>ar_dev := d\<rparr>)))) (ar_hdmiInAudioDeviceType (s1\<lparr>ar_dev := d\<rparr>))"
      using that assms(3) by (simp_all add: flag_ok_def)
  qed (simp add: flag_simps flag_type)
  have fields: "ar_dev (tell_disconnected s) = ar_dev s" "ar_arcEarcAudioEnabled (tell_disconnected s) = ar_arcEarcAudioEnabled s"
    "ar_hdmiInAudioDeviceType (tell_disconnected s) = ar_hdmiInAudioDeviceType s" for s :: "'a arc"
    by (simp_all add: tell_disconnected_def connectedAudioPortUpdated_def sendNotify_def)
  have start: "flag_ok Q on (snd (caught (ds_call (ah_ports A) k (s\<lparr>ar_powerState := new\<rparr>))))"
    if "\<And>x d. on d = on (ar_dev s) \<Longrightarrow> flag_ok Q on (snd (k x (s\<lparr>ar_powerState := new, ar_dev := d\<rparr>)))" for k
    using that assms(1,2) unfolding caught_def
    by (simp add: split_def) (rule flag_call_same [OF hardware_keeps(1)], simp_all add: flag_updates)
  then show ?thesis
    unfolding onPowerModeChanged_def Let_def using assms(2)
    by (auto simp: flag_simps flag_updates flag_type flag_dev fields intro!: start off)
qed

lemma flag_thread: "flag_ok Q on s \<Longrightarrow> flag_ok Q on (sendMsgThread V C s)"
  by (simp add: sendMsgThread_def flag_updates arc_invoke_def sendHdmiCecSinkAudioDevicePowerOn_def
      requestShortAudioDescriptor_def requestAudioDevicePowerStatus_def sendUserControlPressCommand_def
      requestDeviceAudioStatus_def setUpHdmiCecSinkArcRouting_def split_def Let_def split: list.split msg.split)

lemma flag_query: "flag_ok Q on (snd (cec_query V C name k s)) = flag_ok Q on s"
  by (simp add: cec_query_def flag_updates)

lemma flag_subscribe: "flag_ok Q on (snd (subscribe_all C es s)) = flag_ok Q on s"
  by (induction es arbitrary: s) (simp_all add: subscribeForHdmiCecSinkEvent_def split_def Let_def flag_updates)

lemma flag_on_timer: "flag_ok Q on s \<Longrightarrow> flag_ok Q on (onTimer V C s)"
  by (simp add: onTimer_def Let_def split_def flag_updates flag_simps flag_subscribe flag_query getHdmiCecSinkCecEnableStatus_def)


lemma flag_route: "arc_hardware A on \<Longrightarrow> flag_ok Q on s \<Longrightarrow> flag_ok Q on (snd (route_ARC A mode s))"
  unfolding route_ARC_def Let_def
  by (auto simp: flag_updates split: sad_state.split intro!: flag_rules hardware_keeps)

lemma flag_enable_arc:
  assumes "arc_hardware A on" "flag_ok Q on s"
  shows "flag_ok Q on (snd (enable_arc_port A mode muted s))"
proof -
  have "flag_ok Q on (snd (enable_ARC A dsAUDIOARCSUPPORT_eARC True (\<lambda>s. (Some True, s)) s))"
    if "ar_hdmiInAudioDeviceType s = dsAUDIOARCSUPPORT_eARC"
    using switch_type assms(2) that
    by (intro flag_switch assms) (auto simp: flag_ok_def switched_def)
  moreover have "flag_ok Q on (snd (route_ARC A mode (sendMsgToQueue SEND_AUDIO_DEVICE_POWERON_MSG s)))"
    by (intro flag_route assms(1)) (simp add: flag_simps assms(2))
  ultimately show ?thesis
    using assms(2) by (auto simp: enable_arc_port_def flag_simps split: dsAudioARCTypes.split prod.split option.split)
qed

lemma flag_disable_arc:
  "arc_hardware A on \<Longrightarrow> flag_ok Q on s \<Longrightarrow> disable_keeps Q on s \<Longrightarrow> flag_ok Q on (snd (disable_arc_port A s))"
  unfolding disable_arc_port_def disable_keeps_def
  by (auto simp: flag_type intro!: flag_switch)

lemma flag_set_arc:
  assumes "arc_hardware A on" "flag_ok Q on s" "disable_keeps Q on s"
  shows "flag_ok Q on (snd (set_arc_port A b s))"
proof -
  let ?r = "ds_call (ah_isMuted A HDMI_ARC0) (\<lambda>muted. ds_call (ah_open A HDMI_ARC0) (\<lambda>_.
    ds_call (ah_getStereoMode A HDMI_ARC0) (\<lambda>mode. if b then enable_arc_port A mode muted else disable_arc_port A))) s"
  have "flag_ok Q on (snd ?r)"
    using assms
    by (intro flag_call_same hardware_keeps)
      (auto simp: flag_dev disable_keeps_def intro!: flag_enable_arc flag_disable_arc)
  then show ?thesis by (auto simp: set_arc_port_def flag_updates split: prod.split option.split)
qed

lemma flag_enable_port:
  assumes "arc_hardware A on" "flag_ok Q on s"
    "member_String ps ''audioPort'' = HDMI_ARC0 \<Longrightarrow> disable_keeps Q on s"
  shows "flag_ok Q on (snd (setEnableAudioPort V A answer ps response s))"
proof -
  have power: "flag_ok Q on (snd (getSystemPowerState answer s))"
    "disable_keeps Q on s \<Longrightarrow> disable_keeps Q on (snd (getSystemPowerState answer s))"
    using assms by (simp_all add: getSystemPowerState_def Let_def flag_updates disable_keeps_def split: option.split)
  have other: "flag_ok Q on (snd (enable_other A port b s))" if "flag_ok Q on s" for port b s
    unfolding enable_other_def by (auto simp: that assms(1) intro!: flag_call hardware_keeps)
  have call: "flag_ok Q on (snd (ds_call (ah_open A port) (\<lambda>_. ds_call (ah_setEnablePersist A port b) (\<lambda>_.
      if port \<noteq> HDMI_ARC0 then enable_other A port b else set_arc_port A b)) s1))"
    if "flag_ok Q on s1" "port = HDMI_ARC0 \<Longrightarrow> disable_keeps Q on s1" for port b s1
    using that assms(1)
    by (intro flag_call_same hardware_keeps) (auto simp: flag_dev disable_keeps_def intro!: other flag_set_arc)
  show ?thesis
    using assms power call by (auto simp: setEnableAudioPort_def Let_def split_def flag_simps)
qed

lemma flag_sound_port:
  assumes "arc_hardware A on" "flag_ok Q on s"
  shows "flag_ok Q on (snd (port_sound_mode A port mode a p s))"
proof -
  have arc: "flag_ok Q on (snd (arc_sound_mode A port mode a p s))" if "flag_ok Q on s" for s
    using that assms(1) by (auto simp: arc_sound_mode_def Let_def flag_simps intro!: flag_call hardware_keeps)
  have "flag_ok Q on (snd (connected_sound_mode A port mode a p type s))" if "flag_ok Q on s" for type s
    using that assms(1)
    by (cases type; auto simp: connected_sound_mode_def Let_def arc intro!: flag_call hardware_keeps)
  moreover have "flag_ok Q on (snd (unconnected_sound_mode A port mode a p type s))" if "flag_ok Q on s" for type s
    using that assms(1)
    by (cases type; auto simp: unconnected_sound_mode_def Let_def intro!: flag_call hardware_keeps)
  ultimately show ?thesis
    unfolding port_sound_mode_def by (auto intro!: flag_call hardware_keeps assms)
qed

lemma flag_sound:
  "arc_hardware A on \<Longrightarrow> flag_ok Q on s \<Longrightarrow> setSoundMode V A ps response s = Some (r, s') \<Longrightarrow> flag_ok Q on s'"
  using sound_mode_result [of V A ps response s r s'] by (auto simp: flag_sound_port)

lemma flag_start_arc: "flag_ok Q on s \<Longrightarrow> flag_ok Q on (start_arc_port V C s)"
  by (simp add: start_arc_port_def Let_def split_def flag_updates flag_simps flag_subscribe flag_query getHdmiCecSinkCecEnableStatus_def)

lemma flag_init_port:
  assumes "arc_hardware A on" "flag_ok Q on s"
  shows "flag_ok Q on (snd (init_port V A C app answer p s))"
proof -
  have d: "flag_ok Q on (snd (ds_call (ah_getEnablePersist A p) (\<lambda>b s. (Some b, s)) s))"
    by (auto intro!: flag_call hardware_keeps assms)
  show ?thesis
    using d assms(1)
    by (auto simp: init_port_def Let_def split_def flag_updates flag_query getHdmiCecSinkAudioDeviceConnectedStatus_def
        member_String_def member_def intro!: flag_enable_port flag_call hardware_keeps flag_start_arc)
qed

lemma flag_init:
  assumes "arc_hardware A on" "flag_ok Q on s"
  shows "flag_ok Q on (snd (InitAudioPorts V A C app answer s))"
proof -
  have "flag_ok Q on (snd (init_ports V A C app answer ps s))" if "flag_ok Q on s" for ps s
    using that
  proof (induction ps arbitrary: s)
    case (Cons p ps)
    obtain r s1 where r: "init_port V A C app answer p s = (r, s1)" by (rule prod.exhaust)
    then have "flag_ok Q on s1" using flag_init_port [OF assms(1) Cons.prems, of V C app answer p] by simp
    then show ?case using Cons.IH r by (cases r) auto
  qed simp
  then show ?thesis
    using assms by (auto simp: InitAudioPorts_def caught_def flag_updates intro!: flag_call hardware_keeps)
qed

lemma flag_connected_ports:
  "arc_hardware A on \<Longrightarrow> flag_ok Q on s \<Longrightarrow> flag_ok Q on (snd (connected_ports A ps acc s))"
proof (induction A ps acc s rule: connected_ports.induct)
  case (2 A p ps acc s)
  obtain r d where r: "ah_isConnected A p (ar_dev s) = (r, d)" by (rule prod.exhaust)
  have "on (snd (ah_isConnected A p (ar_dev s))) = on (ar_dev s)"
    using hardware_keeps(9) [OF 2(3), of p] unfolding keeps_on_def by blast
  then have d: "flag_ok Q on (s\<lparr>ar_dev := d\<rparr>)" using 2(4) r by (simp add: flag_ok_def)
  moreover have "flag_ok Q on (restart_device (s\<lparr>ar_dev := d\<rparr>))" using d by (simp add: restart_device_def flag_simps flag_updates flag_type)
  ultimately show ?case using 2 r by (cases r; cases "r = Some True") auto
qed simp

lemma flag_get_connected:
  assumes "arc_hardware A on" "flag_ok Q on s"
  shows "flag_ok Q on (snd (getConnectedAudioPorts A response s))"
proof -
  obtain r d where r: "ah_ports A (ar_dev s) = (r, d)" by (rule prod.exhaust)
  have "on (snd (ah_ports A (ar_dev s))) = on (ar_dev s)"
    using hardware_keeps(1) [OF assms(1)] unfolding keeps_on_def by blast
  then have "flag_ok Q on (s\<lparr>ar_dev := d\<rparr>)" using assms(2) r by (simp add: flag_ok_def)
  then show ?thesis
    using r flag_connected_ports [OF assms(1)] by (cases r) (simp_all add: getConnectedAudioPorts_def Let_def split_def)
qed

lemma flag_step:
  assumes "arc_hardware A on" "ARC_only A \<or> earc" "flag_ok Q on s" "step_disables Q on op s" "arc_step V A op s = Some s'"
  shows "flag_ok Q on s'"
proof (cases op)
  case (SoundMode ps)
  then show ?thesis using assms by (auto simp: flag_sound)
next
  case (PowerModeChanged new)
  then show ?thesis using assms flag_power_mode [OF assms(1,3), of new] by auto
qed (use assms in \<open>auto simp: when_active_def flag_events flag_initiation flag_descriptors flag_power_status
      flag_sad_timer flag_arc_timer flag_power_mode flag_thread flag_on_timer flag_enable_port flag_init flag_get_connected split: if_splits\<close>)

end

section \<open>Three relations\<close>

definition routed :: "dsAudioARCTypes \<Rightarrow> bool" where
  "routed k = (k \<noteq> dsAUDIOARCSUPPORT_NONE)"

definition implies_routed :: "bool \<Rightarrow> dsAudioARCTypes \<Rightarrow> dsAudioARCTypes \<Rightarrow> bool" where
  "implies_routed f k ty = (f \<longrightarrow> routed k)"

definition agrees :: "bool \<Rightarrow> dsAudioARCTypes \<Rightarrow> dsAudioARCTypes \<Rightarrow> bool" where
  "agrees f k ty = (f = routed k)"

definition agrees_ARC :: "bool \<Rightarrow> dsAudioARCTypes \<Rightarrow> dsAudioARCTypes \<Rightarrow> bool" where
  "agrees_ARC f k ty = (f = routed k \<and> k \<noteq> dsAUDIOARCSUPPORT_eARC \<and> ty \<noteq> dsAUDIOARCSUPPORT_eARC)"

lemmas relation_defs = routed_def implies_routed_def agrees_def agrees_ARC_def

interpretation implies_routed: flag_relation implies_routed True
  by unfold_locales (auto simp: relation_defs)

interpretation agrees: flag_relation agrees True
  by unfold_locales (auto simp: relation_defs)

interpretation agrees_ARC: flag_relation agrees_ARC False
  by unfold_locales (auto simp: relation_defs)








text \<open>Standby leaves a port that is routed as eARC on: the call disables ARC, and the flag is cleared.\<close>

lemma standby_leaves_eARC:
  assumes "arc_hardware A on" "ar_arcEarcAudioEnabled s" "on (ar_dev s) = dsAUDIOARCSUPPORT_eARC" "new \<noteq> POWER_STATE_ON"
    "\<And>d. \<exists>d'. ah_ports A d = (Some [HDMI_ARC0], d')" "\<And>d. \<exists>d'. ah_open A HDMI_ARC0 d = (Some (), d')"
    "\<And>d. \<exists>d'. ah_enableARC A HDMI_ARC0 dsAUDIOARCSUPPORT_ARC False d = (Some (), d')"
  shows "\<not> ar_arcEarcAudioEnabled (snd (onPowerModeChanged A new s))
    \<and> on (ar_dev (snd (onPowerModeChanged A new s))) = dsAUDIOARCSUPPORT_eARC"
proof -
  obtain d1 where d1: "ah_ports A (ar_dev s) = (Some [HDMI_ARC0], d1)" using assms(5) by blast
  obtain d2 where d2: "ah_open A HDMI_ARC0 d1 = (Some (), d2)" using assms(6) by blast
  obtain d3 where d3: "ah_enableARC A HDMI_ARC0 dsAUDIOARCSUPPORT_ARC False d2 = (Some (), d3)" using assms(7) by blast
  have "on d1 = on (ar_dev s)" using hardware_keeps(1) [OF assms(1)] d1 unfolding keeps_on_def by (metis snd_conv)
  moreover have "on d2 = on d1" using hardware_keeps(3) [OF assms(1)] d2 unfolding keeps_on_def by (metis snd_conv)
  moreover have "on (snd (ah_enableARC A HDMI_ARC0 dsAUDIOARCSUPPORT_ARC False d2)) = switched dsAUDIOARCSUPPORT_ARC False (on d2)"
    using assms(1) d3 unfolding arc_hardware_def by (metis fst_conv option.distinct(1))
  ultimately have "on d3 = dsAUDIOARCSUPPORT_eARC" using d3 assms(3) by (simp add: switched_def)
  then show ?thesis
    using assms(2,4) d1 d2 d3
    by (simp add: onPowerModeChanged_def caught_def ds_call_def enable_ARC_def stop_timers_def tell_disconnected_def
        connectedAudioPortUpdated_def sendNotify_def Let_def)
qed

end
