(* ===== verification/ArcBehaviour.thy ===== *)
theory ArcBehaviour imports ArcHardware begin

text \<open>
  What starts the routing of audio, how long the plugin waits for descriptors and for the power of the
  device, and where a wait outlives its reason.
\<close>

section \<open>What routes the audio\<close>

definition quiet :: "'d arc \<Rightarrow> bool" where
  "quiet s = (\<not> ar_arcEarcAudioEnabled s)"

lemma quiet_call: "quiet s \<Longrightarrow> (\<And>x s. quiet s \<Longrightarrow> quiet (snd (k x s))) \<Longrightarrow> quiet (snd (ds_call f k s))"
  by (rule ds_call_keeps) (simp_all add: quiet_def)

text \<open>The flag alone is kept by what keeps it with the library.\<close>

lemma quiet_events:
  "quiet s \<Longrightarrow> quiet (snd (onARCTerminationEventHandler ps s))"
  "quiet s \<Longrightarrow> quiet (snd (onSystemAudioModeEventHandler ps s))"
  "quiet s \<Longrightarrow> quiet (snd (onAudioDeviceConnectedStatusEventHandler ps s))"
  "quiet s \<Longrightarrow> quiet (snd (onCecEnabledEventHandler ps s))"
  "quiet s \<Longrightarrow> quiet (OnHdmiInEventHotPlug port b s)"
  "quiet s \<Longrightarrow> quiet (OnAudioOutHotPlug ty b s)"
  "quiet s \<Longrightarrow> quiet (snd (onArcAudioStatusEventHandler ps s))"
  "quiet s \<Longrightarrow> quiet (checkAudioDeviceDetectionTimer s)"
  "quiet s \<Longrightarrow> quiet (checkAudioDevicePowerStatusTimer s)"
  "quiet s \<Longrightarrow> quiet (stopCecTimeAndUnsubscribeEvent s)"
  "quiet s \<Longrightarrow> quiet (onTimer V C s)"
  "quiet s \<Longrightarrow> quiet (sendMsgThread V C s)"
  "quiet s \<Longrightarrow> quiet (start_arc_port V C s)"
  using agrees.flag_events [of "\<lambda>_. dsAUDIOARCSUPPORT_NONE" s] agrees.flag_on_timer [of "\<lambda>_. dsAUDIOARCSUPPORT_NONE" s] agrees.flag_thread [of "\<lambda>_. dsAUDIOARCSUPPORT_NONE" s]
    agrees.flag_start_arc [of "\<lambda>_. dsAUDIOARCSUPPORT_NONE" s]
  by (simp_all add: flag_ok_def quiet_def agrees_def routed_def)

lemma quiet_simps:
  "quiet (request_SAD s) = quiet s" "quiet (clear_SAD s) = quiet s" "quiet (notify_connected s) = quiet s"
  "quiet (eARC_connected s) = quiet s" "quiet (tell_disconnected s) = quiet s" "quiet (stop_timers s) = quiet s"
  "quiet (sendMsgToQueue m s) = quiet s" "quiet (announce_enabled port b s) = quiet s"
  by (simp_all add: quiet_def request_SAD_def clear_SAD_def notify_connected_def eARC_connected_def tell_disconnected_def
      stop_timers_def sendMsgToQueue_def connectedAudioPortUpdated_def sendNotify_def announce_enabled_def)

lemma quiet_updates:
  "quiet (s\<lparr>ar_hdmiInAudioDeviceConnected := b\<rparr>) = quiet s" "quiet (s\<lparr>ar_hdmiInAudioDeviceType := ty\<rparr>) = quiet s"
  "quiet (s\<lparr>ar_devicePowerState := p\<rparr>) = quiet s" "quiet (s\<lparr>ar_currentArcRoutingState := a\<rparr>) = quiet s"
  "quiet (s\<lparr>ar_SADState := sad\<rparr>) = quiet s" "quiet (s\<lparr>ar_requestSadRetrigger := b\<rparr>) = quiet s"
  "quiet (s\<lparr>ar_powerRequestedAndReceived := b\<rparr>) = quiet s" "quiet (s\<lparr>ar_sadTimer := b\<rparr>) = quiet s"
  "quiet (s\<lparr>ar_arcTimer := b\<rparr>) = quiet s" "quiet (s\<lparr>ar_powerTimer := b\<rparr>) = quiet s"
  "quiet (s\<lparr>ar_retryPowerRequestCount := n\<rparr>) = quiet s" "quiet (s\<lparr>ar_retryArcCount := n\<rparr>) = quiet s"
  "quiet (s\<lparr>ar_powerState := w\<rparr>) = quiet s" "quiet (s\<lparr>ar_audioOutputPortConfig := c\<rparr>) = quiet s"
  "quiet (s\<lparr>ar_hdmiCecAudioDeviceDetected := b\<rparr>) = quiet s" "quiet (s\<lparr>ar_hdmiArcPortId := i\<rparr>) = quiet s"
  "quiet (s\<lparr>ar_resCacheUpdated := b\<rparr>) = quiet s" "quiet (s\<lparr>ar_displayCacheUpdated := b\<rparr>) = quiet s"
  "quiet (s\<lparr>ar_hdrCache := b\<rparr>) = quiet s" "quiet (s\<lparr>ar_sent := cs\<rparr>) = quiet s"
  "quiet (s\<lparr>ar_arcEarcAudioEnabled := False\<rparr>)"
  by (simp_all add: quiet_def)

lemma quiet_calls:
  "quiet s \<Longrightarrow> quiet (snd (onARCInitiationEventHandler A ps s))"
  "quiet s \<Longrightarrow> quiet (snd (onAudioDevicePowerStatusEventHandler A ps s))"
  "quiet s \<Longrightarrow> quiet (snd (checkArcDeviceConnected A s))"
  "quiet s \<Longrightarrow> quiet (snd (onPowerModeChanged A new s))"
  unfolding onARCInitiationEventHandler_def onAudioDevicePowerStatusEventHandler_def checkArcDeviceConnected_def
    onPowerModeChanged_def enable_ARC_def Let_def caught_def
  by (auto simp: quiet_simps quiet_updates intro!: quiet_call split: option.split)

lemma quiet_sound:
  assumes "quiet s" "setSoundMode V A ps response s = Some (r, s')"
  shows "quiet s'"
proof -
  have arc: "quiet s \<Longrightarrow> quiet (snd (arc_sound_mode A port mode a p s))" for port mode a p s
    by (auto simp: arc_sound_mode_def Let_def quiet_simps intro!: quiet_call)
  have "quiet s \<Longrightarrow> quiet (snd (connected_sound_mode A port mode a p type s))"
    "quiet s \<Longrightarrow> quiet (snd (unconnected_sound_mode A port mode a p type s))" for port mode a p type s
    by (cases type; auto simp: connected_sound_mode_def unconnected_sound_mode_def Let_def arc intro!: quiet_call)+
  then have "quiet (snd (port_sound_mode A port mode a p s))" for port mode a p
    unfolding port_sound_mode_def using assms(1) by (auto intro!: quiet_call)
  then show ?thesis using sound_mode_result [OF assms(2)] assms(1) by auto
qed

lemma quiet_connected_ports: "quiet s \<Longrightarrow> quiet (snd (connected_ports A ps acc s))"
proof (induction A ps acc s rule: connected_ports.induct)
  case (2 A p ps acc s)
  obtain r d where r: "ah_isConnected A p (ar_dev s) = (r, d)" by (rule prod.exhaust)
  have d: "quiet (s\<lparr>ar_dev := d\<rparr>)" using 2(3) by (simp add: quiet_def)
  moreover have "quiet (restart_device (s\<lparr>ar_dev := d\<rparr>))" using d by (simp add: restart_device_def quiet_simps quiet_updates)
  ultimately show ?case using 2 r by (cases r; cases "r = Some True") auto
qed simp

lemma quiet_get_connected: "quiet s \<Longrightarrow> quiet (snd (getConnectedAudioPorts A response s))"
proof -
  assume "quiet s"
  then have "quiet (s\<lparr>ar_dev := d\<rparr>)" for d by (simp add: quiet_def)
  then show ?thesis
    by (auto simp: getConnectedAudioPorts_def Let_def split_def split: prod.split option.split intro!: quiet_connected_ports)
qed

text \<open>A request for another port, or that is to disable the port, or without a device, does not route.\<close>

lemma quiet_enable_port:
  assumes "quiet s"
    "\<not> (member_String ps ''audioPort'' = HDMI_ARC0 \<and> variant_Boolean V (member ps ''enable'')
        \<and> ar_hdmiInAudioDeviceConnected s \<and> ar_hdmiInAudioDeviceType s \<noteq> dsAUDIOARCSUPPORT_NONE)"
  shows "quiet (snd (setEnableAudioPort V A answer ps response s))"
proof -
  define on where "on = variant_Boolean V (member ps ''enable'')"
  define fit where "fit = (\<lambda>s :: 'a arc. quiet s \<and> (on \<and> member_String ps ''audioPort'' = HDMI_ARC0 \<longrightarrow>
    \<not> (ar_hdmiInAudioDeviceConnected s \<and> ar_hdmiInAudioDeviceType s \<noteq> dsAUDIOARCSUPPORT_NONE)))"
  have dev: "fit (s\<lparr>ar_dev := d\<rparr>) = fit s" "fit (s\<lparr>ar_powerState := w\<rparr>) = fit s" for s d w by (simp_all add: fit_def quiet_def)
  have call: "fit s \<Longrightarrow> (\<And>x s. fit s \<Longrightarrow> quiet (snd (k x s))) \<Longrightarrow> quiet (snd (ds_call f k s))" for f k s
    by (simp add: ds_call_def dev split: prod.split option.split) (simp add: fit_def quiet_def)
  have other: "quiet s \<Longrightarrow> quiet (snd (enable_other A port b s))" for port b s
    unfolding enable_other_def by (auto intro!: quiet_call)
  have arc: "quiet (snd (set_arc_port A on s))" if "fit s" "member_String ps ''audioPort'' = HDMI_ARC0" for s
  proof -
    have "quiet (snd (ds_call (ah_isMuted A HDMI_ARC0) (\<lambda>muted. ds_call (ah_open A HDMI_ARC0) (\<lambda>_.
      ds_call (ah_getStereoMode A HDMI_ARC0) (\<lambda>mode. if on then enable_arc_port A mode muted else disable_arc_port A))) s))"
    proof (intro call that(1))
      fix muted mode s1 s2 s3 assume "fit s3"
      then show "quiet (snd ((if on then enable_arc_port A mode muted else disable_arc_port A) s3))"
        using that(2) by (auto simp: fit_def quiet_def enable_arc_port_def disable_arc_port_def split: dsAudioARCTypes.split)
    qed
    then show ?thesis by (auto simp: set_arc_port_def quiet_updates split: prod.split option.split)
  qed
  have power: "fit (snd (getSystemPowerState answer s))" "fit s"
    using assms by (auto simp: getSystemPowerState_def Let_def dev fit_def on_def quiet_def split: option.split)
  have both: "quiet (snd (ds_call (ah_open A port) (\<lambda>_. ds_call (ah_setEnablePersist A port on) (\<lambda>_.
      if port \<noteq> HDMI_ARC0 then enable_other A port on else set_arc_port A on)) s))"
    if "fit s" "port = member_String ps ''audioPort''" for port s
    by (intro call that(1)) (use that(2) in \<open>auto simp: fit_def other arc\<close>)
  show ?thesis
    using power assms(1) both by (auto simp: setEnableAudioPort_def Let_def split_def quiet_simps on_def [symmetric] fit_def)
qed


lemma quiet_init_port:
  assumes "quiet s"
  shows "quiet (snd (init_port V A C app answer p s))"
proof -
  have q: "quiet (snd (cec_query V C name k s)) = quiet s" for name k and s :: "'a arc"
    by (simp add: cec_query_def quiet_updates)
  have d: "quiet (snd (ds_call (ah_getEnablePersist A p) (\<lambda>b s. (Some b, s)) s))"
    by (auto intro!: quiet_call assms)
  have "p \<noteq> HDMI_ARC0 \<Longrightarrow> quiet s \<Longrightarrow>
      quiet (snd (setEnableAudioPort V A answer [(''audioPort'', JString p), (''enable'', JBool on)] [] s))" for on s
    by (rule quiet_enable_port) (simp_all add: member_String_def member_def)
  then show ?thesis
    using d by (auto simp: init_port_def Let_def split_def quiet_updates q getHdmiCecSinkAudioDeviceConnectedStatus_def
        quiet_events intro!: quiet_call)
qed

lemma quiet_init: "quiet s \<Longrightarrow> quiet (snd (InitAudioPorts V A C app answer s))"
proof -
  assume s: "quiet s"
  have "quiet (snd (init_ports V A C app answer ps s))" if "quiet s" for ps s
    using that
  proof (induction ps arbitrary: s)
    case (Cons p ps)
    obtain r s1 where r: "init_port V A C app answer p s = (r, s1)" by (rule prod.exhaust)
    then have "quiet s1" using quiet_init_port [OF Cons.prems, of V A C app answer p] by simp
    then show ?case using Cons.IH r by (cases r) auto
  qed simp
  then show ?thesis
    using s by (auto simp: InitAudioPorts_def caught_def quiet_updates intro!: quiet_call)
qed

lemma quiet_sad_timer: "quiet s \<Longrightarrow> \<not> ar_hdmiInAudioDeviceConnected s \<Longrightarrow> quiet (snd (checkSADUpdate A s))"
  by (simp add: checkSADUpdate_def ds_call_def quiet_def Let_def split: prod.split option.split)

lemma quiet_descriptors:
  assumes "quiet s" "\<not> (ar_SADState s = AUDIO_DEVICE_SAD_REQUESTED \<and> ar_sadTimer s \<and> ar_currentArcRoutingState s = ARC_STATE_ARC_INITIATED)"
  shows "quiet (snd (onShortAudioDescriptorEventHandler V A ps s))"
  using assms
  by (auto simp: onShortAudioDescriptorEventHandler_def Let_def caught_def ds_call_def quiet_def split: prod.split option.split)

text \<open>
  C7. Audio is routed to the ARC port by three operations only: a request that enables the ARC port while
  a device with a type is connected; the time-out for the descriptors while a device is connected; and the
  descriptors themselves when they have been requested, the time-out is running and ARC is initiated.
\<close>

theorem audio_routed_cause:
  assumes "arc_step V A op s = Some s'" "\<not> ar_arcEarcAudioEnabled s" "ar_arcEarcAudioEnabled s'"
  shows "(\<exists>answer ps. op = EnablePort answer ps \<and> member_String ps ''audioPort'' = HDMI_ARC0
            \<and> variant_Boolean V (member ps ''enable'')
            \<and> ar_hdmiInAudioDeviceConnected s \<and> ar_hdmiInAudioDeviceType s \<noteq> dsAUDIOARCSUPPORT_NONE)
    \<or> op = SadTimer \<and> ar_sadTimer s \<and> ar_hdmiInAudioDeviceConnected s
    \<or> (\<exists>ps. op = ShortAudioDescriptor ps \<and> ar_SADState s = AUDIO_DEVICE_SAD_REQUESTED \<and> ar_sadTimer s
            \<and> ar_currentArcRoutingState s = ARC_STATE_ARC_INITIATED)"
proof -
  have q: "quiet s" "\<not> quiet s'" using assms by (simp_all add: quiet_def)
  show ?thesis
  proof (cases op)
    case (EnablePort answer ps)
    then show ?thesis using q assms(1) quiet_enable_port [of s ps V A answer "[]"] by auto
  next
    case SadTimer
    then show ?thesis using q assms(1) quiet_sad_timer [of s A] by (auto simp: when_active_def split: if_splits)
  next
    case (ShortAudioDescriptor ps)
    then show ?thesis using q assms(1) quiet_descriptors [of s V A ps] by auto
  next
    case (SoundMode ps)
    then show ?thesis using q assms(1) by (auto dest: quiet_sound)
  qed (use q assms(1) in \<open>auto simp: when_active_def quiet_events quiet_calls quiet_init quiet_get_connected split: if_splits\<close>)
qed

section \<open>Waiting for the descriptors\<close>

text \<open>Ports that take what they are told: no call throws, and the other calls answer as they like.\<close>

definition takes_all :: "'d audio_host \<Rightarrow> bool" where
  "takes_all A =
     (\<forall>d. (\<forall>p. fst (ah_open A p d) \<noteq> None \<and> fst (ah_getStereoAuto A p d) \<noteq> None \<and> fst (ah_getStereoMode A p d) \<noteq> None)
        \<and> (\<forall>p b. fst (ah_isMuted A p d) \<noteq> None \<and> fst (ah_setEnablePersist A p b d) \<noteq> None)
        \<and> (\<forall>p l. fst (ah_setSAD A p l d) \<noteq> None) \<and> (\<forall>p m b. fst (ah_setStereoMode A p m b d) \<noteq> None)
        \<and> (\<forall>p a b. fst (ah_setStereoAuto A p a b d) \<noteq> None) \<and> (\<forall>p t b. fst (ah_enableARC A p t b d) \<noteq> None))"

lemma takes_call:
  assumes "fst (f (ar_dev s)) \<noteq> None"
  shows "\<exists>x d. ds_call f k s = k x (s\<lparr>ar_dev := d\<rparr>)"
proof -
  obtain x d where "f (ar_dev s) = (Some x, d)" using assms by (cases "f (ar_dev s)") auto
  then show ?thesis unfolding ds_call_def by auto
qed

lemma takes_enable:
  assumes "takes_all A"
  shows "\<exists>d. enable_ARC A t b k s = k (s\<lparr>ar_dev := d, ar_arcEarcAudioEnabled := b\<rparr>)"
  using takes_call [of "ah_enableARC A HDMI_ARC0 t b" s "\<lambda>_ s. k (s\<lparr>ar_arcEarcAudioEnabled := b\<rparr>)"] assms
  by (auto simp: enable_ARC_def takes_all_def)

text \<open>One time-out, for a connected device without audio.\<close>

lemma sad_timeout:
  assumes "takes_all A" "\<not> ar_arcEarcAudioEnabled s" "ar_hdmiInAudioDeviceConnected s" "ar_SADState s \<noteq> AUDIO_DEVICE_SAD_RECEIVED"
  shows "\<exists>d. snd (checkSADUpdate A s) =
    (if ar_requestSadRetrigger s
     then s\<lparr>ar_sadTimer := False, ar_requestSadRetrigger := False, ar_dev := d, ar_arcEarcAudioEnabled := True\<rparr>
     else s\<lparr>ar_dev := d, ar_sadTimer := True, ar_requestSadRetrigger := True, ar_SADState := AUDIO_DEVICE_SAD_REQUESTED,
            ar_sendMsgQueue := ar_sendMsgQueue s @ [REQUEST_SHORT_AUDIO_DESCRIPTOR]\<rparr>)"
proof -
  have "fst (ah_open A HDMI_ARC0 (ar_dev s)) \<noteq> None" using assms(1) by (simp add: takes_all_def)
  then obtain x d where op: "ah_open A HDMI_ARC0 (ar_dev s) = (Some x, d)" by (cases "ah_open A HDMI_ARC0 (ar_dev s)") auto
  show ?thesis
  proof (cases "ar_requestSadRetrigger s")
    case True
    obtain d' where "enable_ARC A dsAUDIOARCSUPPORT_ARC True (\<lambda>s. (Some (), s))
        (s\<lparr>ar_dev := d, ar_sadTimer := False, ar_requestSadRetrigger := False\<rparr>)
      = (Some (), s\<lparr>ar_sadTimer := False, ar_requestSadRetrigger := False, ar_dev := d', ar_arcEarcAudioEnabled := True\<rparr>)"
      using takes_enable [OF assms(1), of dsAUDIOARCSUPPORT_ARC True "\<lambda>s. (Some (), s)"
          "s\<lparr>ar_dev := d, ar_sadTimer := False, ar_requestSadRetrigger := False\<rparr>"] by auto
    then have "snd (checkSADUpdate A s)
        = s\<lparr>ar_sadTimer := False, ar_requestSadRetrigger := False, ar_dev := d', ar_arcEarcAudioEnabled := True\<rparr>"
      using True assms(2-4) op by (simp add: checkSADUpdate_def ds_call_def Let_def)
    then show ?thesis using True by auto
  next
    case False
    then have "snd (checkSADUpdate A s) = s\<lparr>ar_dev := d, ar_sadTimer := True, ar_requestSadRetrigger := True,
        ar_SADState := AUDIO_DEVICE_SAD_REQUESTED, ar_sendMsgQueue := ar_sendMsgQueue s @ [REQUEST_SHORT_AUDIO_DESCRIPTOR]\<rparr>"
      using assms(2-4) op by (simp add: checkSADUpdate_def ds_call_def Let_def request_SAD_def sendMsgToQueue_def)
    then show ?thesis using False by auto
  qed
qed


fun arc_run :: "variant \<Rightarrow> 'd audio_host \<Rightarrow> arc_op list \<Rightarrow> 'd arc \<Rightarrow> 'd arc option" where
  "arc_run V A [] s = Some s"
| "arc_run V A (op # ops) s = Option.bind (arc_step V A op s) (arc_run V A ops)"

lemma received_timeout:
  assumes "takes_all A" "\<not> ar_arcEarcAudioEnabled s" "ar_hdmiInAudioDeviceConnected s"
    "ar_SADState s = AUDIO_DEVICE_SAD_RECEIVED" "\<not> ar_requestSadRetrigger s"
  shows "\<exists>s'. snd (checkSADUpdate A s) = s' \<and> ar_arcEarcAudioEnabled s' \<and> ar_SADState s' = AUDIO_DEVICE_SAD_UPDATED
    \<and> ar_sendMsgQueue s' = ar_sendMsgQueue s \<and> \<not> ar_sadTimer s'"
proof -
  have answers: "\<exists>x d'. ah_open A HDMI_ARC0 d = (Some x, d')" "\<exists>x d'. ah_setSAD A HDMI_ARC0 l d = (Some x, d')"
    "\<exists>x d'. ah_getStereoAuto A HDMI_ARC0 d = (Some x, d')" "\<exists>x d'. ah_getStereoMode A HDMI_ARC0 d = (Some x, d')"
    "\<exists>x d'. ah_setStereoAuto A HDMI_ARC0 a b d = (Some x, d')" "\<exists>x d'. ah_setStereoMode A HDMI_ARC0 m b d = (Some x, d')"
    "\<exists>x d'. ah_enableARC A HDMI_ARC0 ty b d = (Some x, d')" for d l a b m ty
    using assms(1) unfolding takes_all_def by (metis option.exhaust prod.collapse)+
  obtain x1 d1 where 1: "ah_open A HDMI_ARC0 (ar_dev s) = (Some x1, d1)" using answers(1) by blast
  obtain x2 d2 where 2: "ah_setSAD A HDMI_ARC0 (ar_sad_list s) d1 = (Some x2, d2)" using answers(2) by blast
  obtain auto d3 where 3: "ah_getStereoAuto A HDMI_ARC0 d2 = (Some auto, d3)" using answers(3) by blast
  show ?thesis
  proof (cases auto)
    case True
    obtain x4 d4 where 4: "ah_setStereoAuto A HDMI_ARC0 True True d3 = (Some x4, d4)" using answers(5) by blast
    obtain x5 d5 where 5: "ah_enableARC A HDMI_ARC0 dsAUDIOARCSUPPORT_ARC True d4 = (Some x5, d5)" using answers(7) by blast
    show ?thesis
      using assms(2-5) 1 2 3 4 5 True by (simp add: checkSADUpdate_def update_SAD_def enable_ARC_def ds_call_def Let_def)
  next
    case False
    obtain m d4 where 4: "ah_getStereoMode A HDMI_ARC0 d3 = (Some m, d4)" using answers(4) by blast
    obtain x5 d5 where 5: "ah_setStereoMode A HDMI_ARC0 m True d4 = (Some x5, d5)" using answers(6) by blast
    obtain x6 d6 where 6: "ah_enableARC A HDMI_ARC0 dsAUDIOARCSUPPORT_ARC True d5 = (Some x6, d6)" using answers(7) by blast
    show ?thesis
      using assms(2-5) 1 2 3 4 5 6 False by (simp add: checkSADUpdate_def update_SAD_def enable_ARC_def ds_call_def Let_def)
  qed
qed

text \<open>A connected device waits for its audio: the time-out runs and has not been started again.\<close>

definition awaits_SAD :: "'d arc \<Rightarrow> bool" where
  "awaits_SAD s = (ar_hdmiInAudioDeviceConnected s \<and> \<not> ar_arcEarcAudioEnabled s \<and> ar_sadTimer s \<and> \<not> ar_requestSadRetrigger s)"

lemma two_timeouts:
  assumes "takes_all A" "awaits_SAD s" "ar_SADState s \<noteq> AUDIO_DEVICE_SAD_RECEIVED"
  shows "\<exists>s'. arc_run V A [SadTimer, SadTimer] s = Some s' \<and> ar_arcEarcAudioEnabled s' \<and> \<not> ar_sadTimer s'
    \<and> ar_sendMsgQueue s' = ar_sendMsgQueue s @ [REQUEST_SHORT_AUDIO_DESCRIPTOR]
    \<and> ar_portEnableStatus s' = ar_portEnableStatus s \<and> ar_audioOutputPortConfig s' = ar_audioOutputPortConfig s"
proof -
  let ?s1 = "\<lambda>d. s\<lparr>ar_dev := d, ar_sadTimer := True, ar_requestSadRetrigger := True, ar_SADState := AUDIO_DEVICE_SAD_REQUESTED,
    ar_sendMsgQueue := ar_sendMsgQueue s @ [REQUEST_SHORT_AUDIO_DESCRIPTOR]\<rparr>"
  obtain d where 1: "snd (checkSADUpdate A s) = ?s1 d"
    using sad_timeout [of A s] assms by (auto simp: awaits_SAD_def)
  obtain d' where "snd (checkSADUpdate A (?s1 d)) = (?s1 d)\<lparr>ar_sadTimer := False, ar_requestSadRetrigger := False,
      ar_dev := d', ar_arcEarcAudioEnabled := True\<rparr>"
    using sad_timeout [of A "?s1 d"] assms by (auto simp: awaits_SAD_def)
  then have "arc_run V A [SadTimer, SadTimer] s = Some ((?s1 d)\<lparr>ar_sadTimer := False, ar_requestSadRetrigger := False,
      ar_dev := d', ar_arcEarcAudioEnabled := True\<rparr>)"
    using 1 assms(2) by (simp add: when_active_def awaits_SAD_def)
  then show ?thesis by simp
qed

text \<open>
  C12. A device does not wait for its audio for ever: on ports that take what they are told, the first
  time-out routes the audio if the descriptors have come, and otherwise asks for them once more; the
  second routes the audio without them.
\<close>

theorem audio_after_timeouts:
  assumes "takes_all A" "awaits_SAD s"
  shows "\<exists>s'. arc_run V A (if ar_SADState s = AUDIO_DEVICE_SAD_RECEIVED then [SadTimer] else [SadTimer, SadTimer]) s = Some s'
    \<and> ar_arcEarcAudioEnabled s' \<and> \<not> ar_sadTimer s'
    \<and> ar_sendMsgQueue s' = ar_sendMsgQueue s
        @ (if ar_SADState s = AUDIO_DEVICE_SAD_RECEIVED then [] else [REQUEST_SHORT_AUDIO_DESCRIPTOR])"
proof (cases "ar_SADState s = AUDIO_DEVICE_SAD_RECEIVED")
  case True
  then show ?thesis using received_timeout [of A s] assms by (auto simp: awaits_SAD_def when_active_def)
next
  case False
  then show ?thesis using two_timeouts [OF assms False, of V] by auto
qed


text \<open>A request to disable the ARC port during the wait only records it.\<close>

definition disable_request :: json_params where
  "disable_request = [(''audioPort'', JString HDMI_ARC0), (''enable'', JBool False)]"

lemma disable_waiting:
  assumes "takes_all A" "\<not> ar_arcEarcAudioEnabled s"
  shows "\<exists>d. setEnableAudioPort V A answer disable_request [] s
    = (returnResponse True [], announce_enabled HDMI_ARC0 False (s\<lparr>ar_dev := d, ar_audioOutputPortConfig := Some False\<rparr>))"
proof -
  have answers: "\<exists>x d'. ah_open A HDMI_ARC0 d = (Some x, d')" "\<exists>x d'. ah_setEnablePersist A HDMI_ARC0 b d = (Some x, d')"
    "\<exists>x d'. ah_isMuted A HDMI_ARC0 d = (Some x, d')" "\<exists>x d'. ah_getStereoMode A HDMI_ARC0 d = (Some x, d')" for d b
    using assms(1) unfolding takes_all_def by (metis option.exhaust prod.collapse)+
  obtain x1 d1 where 1: "ah_open A HDMI_ARC0 (ar_dev s) = (Some x1, d1)" using answers(1) by blast
  obtain x2 d2 where 2: "ah_setEnablePersist A HDMI_ARC0 False d1 = (Some x2, d2)" using answers(2) by blast
  obtain x3 d3 where 3: "ah_isMuted A HDMI_ARC0 d2 = (Some x3, d3)" using answers(3) by blast
  obtain x4 d4 where 4: "ah_open A HDMI_ARC0 d3 = (Some x4, d4)" using answers(1) by blast
  obtain m d5 where 5: "ah_getStereoMode A HDMI_ARC0 d4 = (Some m, d5)" using answers(4) by blast
  have "set_arc_port A False (s\<lparr>ar_dev := d2\<rparr>) = (Some True, s\<lparr>ar_dev := d5, ar_audioOutputPortConfig := Some False\<rparr>)"
    using assms(2) 3 4 5 by (simp add: set_arc_port_def ds_call_def disable_arc_port_def)
  then show ?thesis
    using 1 2 by (auto simp: setEnableAudioPort_def disable_request_def HasLabel_def member_String_def member_def
        variant_Boolean_def ds_call_def)
qed

text \<open>
  C29. A request to disable the ARC port while the plugin waits for the descriptors is overridden: it
  succeeds, and two time-outs later the audio is routed all the same, with the port recorded as disabled.
\<close>

theorem disable_overridden:
  assumes "takes_all A" "awaits_SAD s" "ar_SADState s \<noteq> AUDIO_DEVICE_SAD_RECEIVED"
  shows "\<exists>s'. fst (setEnableAudioPort V A answer disable_request [] s) = returnResponse True []
    \<and> arc_run V A [EnablePort answer disable_request, SadTimer, SadTimer] s = Some s'
    \<and> ar_arcEarcAudioEnabled s' \<and> \<not> ar_portEnableStatus s' HDMI_ARC0 \<and> ar_audioOutputPortConfig s' = Some False"
proof -
  obtain d where d: "setEnableAudioPort V A answer disable_request [] s
      = (returnResponse True [], announce_enabled HDMI_ARC0 False (s\<lparr>ar_dev := d, ar_audioOutputPortConfig := Some False\<rparr>))"
    using disable_waiting [OF assms(1), of s V answer] assms(2) unfolding awaits_SAD_def by blast
  let ?s1 = "announce_enabled HDMI_ARC0 False (s\<lparr>ar_dev := d, ar_audioOutputPortConfig := Some False\<rparr>)"
  have "awaits_SAD ?s1" "ar_SADState ?s1 \<noteq> AUDIO_DEVICE_SAD_RECEIVED" "\<not> ar_portEnableStatus ?s1 HDMI_ARC0"
    "ar_audioOutputPortConfig ?s1 = Some False"
    using assms(2,3) by (auto simp: awaits_SAD_def announce_enabled_def sendNotify_def)
  then show ?thesis using two_timeouts [OF assms(1), of ?s1 V] d by auto
qed

section \<open>Waiting for the power of the device\<close>

lemma power_timer_step:
  assumes "ar_subscribed s" "ar_hdmiCecAudioDeviceDetected s" "ar_devicePowerState s \<noteq> AUDIO_DEVICE_POWER_STATE_ON" "ar_powerTimer s"
  shows "arc_step V A PowerTimer s = Some
    (let n = ar_retryPowerRequestCount s;
         s1 = s\<lparr>ar_devicePowerState := AUDIO_DEVICE_POWER_STATE_REQUEST,
                ar_sendMsgQueue := ar_sendMsgQueue s @ (if n = 2 \<or> n = 4 then [SEND_AUDIO_DEVICE_POWERON_MSG] else [])
                  @ [REQUEST_AUDIO_DEVICE_POWER_STATUS]\<rparr>
     in if n \<ge> 4 then s1\<lparr>ar_powerRequestedAndReceived := True, ar_retryPowerRequestCount := 0, ar_powerTimer := False\<rparr>
        else s1\<lparr>ar_retryPowerRequestCount := n + 1\<rparr>)"
  using assms by (auto simp: when_active_def checkAudioDevicePowerStatusTimer_def sendMsgToQueue_def Let_def)

text \<open>
  A device that does not answer is asked for its power state five times and told to switch on before
  the third and the fifth time; then the timer ends and ARC may be initiated all the same.
\<close>

theorem power_requests:
  assumes "ar_subscribed s" "ar_hdmiCecAudioDeviceDetected s" "ar_devicePowerState s \<noteq> AUDIO_DEVICE_POWER_STATE_ON"
    "ar_powerTimer s" "ar_retryPowerRequestCount s = 0"
  shows "\<exists>s'. arc_run V A (replicate 5 PowerTimer) s = Some s'
    \<and> ar_powerRequestedAndReceived s' \<and> \<not> ar_powerTimer s' \<and> ar_retryPowerRequestCount s' = 0
    \<and> ar_sendMsgQueue s' = ar_sendMsgQueue s @ [REQUEST_AUDIO_DEVICE_POWER_STATUS, REQUEST_AUDIO_DEVICE_POWER_STATUS,
         SEND_AUDIO_DEVICE_POWERON_MSG, REQUEST_AUDIO_DEVICE_POWER_STATUS, REQUEST_AUDIO_DEVICE_POWER_STATUS,
         SEND_AUDIO_DEVICE_POWERON_MSG, REQUEST_AUDIO_DEVICE_POWER_STATUS]"
  using assms by (simp add: eval_nat_numeral power_timer_step Let_def del: arc_step.simps)

text \<open>
  A device that is on already when its port is initialised is waited for without end: the timer never
  asks for the power state and never stops, and as long as nothing else comes the events that initiate ARC
  are ignored.
\<close>

theorem device_already_on:
  assumes "ar_subscribed s" "ar_hdmiCecAudioDeviceDetected s" "ar_devicePowerState s = AUDIO_DEVICE_POWER_STATE_ON"
    "ar_retryPowerRequestCount s = 0" "cs_active C"
  shows "ar_powerTimer (start_arc_port V C s)
    \<and> arc_run V A (replicate n PowerTimer) (start_arc_port V C s) = Some (start_arc_port V C s)
    \<and> onARCInitiationEventHandler A ps (start_arc_port V C s) = (Some (), start_arc_port V C s)"
proof -
  define s1 where "s1 = start_arc_port V C s"
  have s1: "ar_powerTimer s1" "ar_devicePowerState s1 = AUDIO_DEVICE_POWER_STATE_ON" "ar_retryPowerRequestCount s1 = 0"
    "\<not> ar_powerRequestedAndReceived s1"
    using assms by (simp_all add: s1_def start_arc_port_def getHdmiCecSinkCecEnableStatus_def cec_query_def Let_def sendMsgToQueue_def)
  then have "arc_step V A PowerTimer s1 = Some s1"
    by (simp add: when_active_def checkAudioDevicePowerStatusTimer_def)
  then have "arc_run V A (replicate n PowerTimer) s1 = Some s1" by (induction n) (simp_all del: arc_step.simps)
  then show ?thesis using s1 by (simp add: s1_def [symmetric] onARCInitiationEventHandler_def)
qed

section \<open>ARC that counts as initiated\<close>

text \<open>
  Disabling CEC disconnects the device but leaves the routing state: the events that initiate ARC are then
  ignored until ARC is terminated.
\<close>

lemma cec_disabled_blocks_arc:
  assumes "ar_currentArcRoutingState s = ARC_STATE_ARC_INITIATED" "member_String ps ''cecEnable'' \<noteq> ''true''"
  shows "let s1 = snd (onCecEnabledEventHandler ps s)
    in \<not> ar_hdmiInAudioDeviceConnected s1 \<and> onARCInitiationEventHandler A qs s1 = (Some (), s1)"
  using assms
  by (auto simp: onCecEnabledEventHandler_def Let_def tell_disconnected_def connectedAudioPortUpdated_def sendNotify_def
      onARCInitiationEventHandler_def)

text \<open>
  An exception of the library during the initiation leaves ARC initiated without a connected device; the
  same events are ignored from then on.
\<close>

lemma initiation_failed:
  assumes "fst (onARCInitiationEventHandler A ps s) = None"
  shows "let s1 = snd (onARCInitiationEventHandler A ps s)
    in ar_hdmiInAudioDeviceConnected s1 = ar_hdmiInAudioDeviceConnected s \<and> onARCInitiationEventHandler A qs s1 = (Some (), s1)"
proof -
  have "ar_currentArcRoutingState (snd (onARCInitiationEventHandler A ps s)) = ARC_STATE_ARC_INITIATED
    \<and> ar_hdmiInAudioDeviceConnected (snd (onARCInitiationEventHandler A ps s)) = ar_hdmiInAudioDeviceConnected s"
    using assms
    by (auto simp: onARCInitiationEventHandler_def ds_call_def Let_def split: if_splits prod.splits option.splits)
  then show ?thesis by (simp add: Let_def onARCInitiationEventHandler_def)
qed

text \<open>
  In passthrough mode without descriptors that have been asked for, enabling the port succeeds, routes
  nothing and waits for nothing.
\<close>

lemma enable_without_descriptors:
  assumes "takes_all A" "ar_hdmiInAudioDeviceConnected s" "\<not> ar_arcEarcAudioEnabled s"
    "ar_hdmiInAudioDeviceType s = dsAUDIOARCSUPPORT_ARC" "no_SAD s"
  shows "fst (enable_arc_port A kPassThru muted s) = Some True
    \<and> \<not> ar_arcEarcAudioEnabled (snd (enable_arc_port A kPassThru muted s))
    \<and> ar_sadTimer (snd (enable_arc_port A kPassThru muted s)) = ar_sadTimer s"
  using assms
  by (auto simp: enable_arc_port_def route_ARC_def no_SAD_def sendMsgToQueue_def Let_def split: if_splits)


section \<open>An example\<close>

text \<open>Ports that always answer the same and remember what the ARC port is routed as.\<close>

definition sample_host :: "dsAudioARCTypes audio_host" where
  "sample_host = \<lparr>
     ah_ports = (\<lambda>d. (Some [HDMI_ARC0], d)), ah_open = (\<lambda>p d. (Some (), d)), ah_reInitialize = (\<lambda>p d. (Some (), d)),
     ah_getEnablePersist = (\<lambda>p d. (Some True, d)), ah_setEnablePersist = (\<lambda>p b d. (Some (), d)),
     ah_getHdmiArcPortId = (\<lambda>p d. (Some 1, d)), ah_setEnablePort = (\<lambda>p b d. (Some True, d)),
     ah_isEnabled = (\<lambda>p d. (Some (routed d), d)), ah_isMuted = (\<lambda>p d. (Some False, d)), ah_setMuted = (\<lambda>p b d. (Some (), d)),
     ah_isConnected = (\<lambda>p d. (Some True, d)), ah_getType = (\<lambda>p d. (Some kARC, d)),
     ah_getStereoMode = (\<lambda>p d. (Some kPassThru, d)), ah_setStereoMode = (\<lambda>p m b d. (Some (), d)),
     ah_getStereoAuto = (\<lambda>p d. (Some False, d)), ah_setStereoAuto = (\<lambda>p a b d. (Some (), d)),
     ah_eARC = (\<lambda>p d. (Some False, d)), ah_setSAD = (\<lambda>p l d. (Some (), d)),
     ah_enableARC = (\<lambda>p t b d. (Some (), switched t b d)), ah_getSurroundMode = (\<lambda>d. (Some False, d)) \<rparr>"

definition sample_variant :: variant where
  "sample_variant = \<lparr> vr_Number = (\<lambda>_. 0), vr_Boolean = (\<lambda>_. False), vr_Object = (\<lambda>_. []), vr_Array = (\<lambda>_. []) \<rparr>"

definition sample_success :: json_params where
  "sample_success = [(''status'', JString ''success'')]"

definition sample_enable :: json_params where
  "sample_enable = [(''audioPort'', JString HDMI_ARC0), (''enable'', JBool True)]"

text \<open>A device is connected, and the port is enabled.\<close>

definition sample_connected :: "dsAudioARCTypes arc" where
  "sample_connected = snd (onARCInitiationEventHandler sample_host sample_success (DisplaySettings_ctor True dsAUDIOARCSUPPORT_NONE))"

definition sample_waiting :: "dsAudioARCTypes arc" where
  "sample_waiting = snd (setEnableAudioPort sample_variant sample_host (Some POWER_STATE_ON) sample_enable [] sample_connected)"

lemma sample_host_simps:
  "takes_all sample_host" "arc_hardware sample_host (\<lambda>d. d)"
  by (simp_all add: takes_all_def arc_hardware_def keeps_on_def sample_host_def)

lemma sample_connected_eq:
  "sample_connected = (DisplaySettings_ctor True dsAUDIOARCSUPPORT_NONE)\<lparr>ar_hdmiInAudioDeviceConnected := True, ar_notifiedToUI := True,
     ar_hdmiInAudioDeviceType := dsAUDIOARCSUPPORT_ARC, ar_currentArcRoutingState := ARC_STATE_ARC_INITIATED,
     ar_SADState := AUDIO_DEVICE_SAD_REQUESTED, ar_sendMsgQueue := [REQUEST_SHORT_AUDIO_DESCRIPTOR],
     ar_notes := ar_notes sample_connected\<rparr>"
  by (simp add: sample_connected_def onARCInitiationEventHandler_def sample_success_def sample_host_def ds_call_def
      DisplaySettings_ctor_def HasLabel_def member_String_def member_def no_SAD_def request_SAD_def sendMsgToQueue_def
      notify_connected_def connectedAudioPortUpdated_def sendNotify_def Let_def)

lemma sample_waiting_facts:
  "awaits_SAD sample_waiting" "ar_SADState sample_waiting = AUDIO_DEVICE_SAD_REQUESTED"
  unfolding sample_waiting_def
  by (subst sample_connected_eq, simp add: setEnableAudioPort_def sample_enable_def sample_host_def ds_call_def
      DisplaySettings_ctor_def HasLabel_def member_String_def member_def variant_Boolean_def getSystemPowerState_def
      set_arc_port_def enable_arc_port_def route_ARC_def sendMsgToQueue_def announce_enabled_def sendNotify_def
      awaits_SAD_def Let_def)+

lemma sample_reach:
  "arc_reach sample_variant sample_host (\<lambda>d. \<not> routed d) no_hot_plug sample_connected"
  "arc_reach sample_variant sample_host (\<lambda>d. \<not> routed d) no_hot_plug sample_waiting"
proof -
  have s: "arc_step sample_variant sample_host (ArcInitiation sample_success) (DisplaySettings_ctor True dsAUDIOARCSUPPORT_NONE) = Some sample_connected"
    "arc_step sample_variant sample_host (EnablePort (Some POWER_STATE_ON) sample_enable) sample_connected = Some sample_waiting"
    by (simp_all add: sample_connected_def sample_waiting_def)
  show 1: "arc_reach sample_variant sample_host (\<lambda>d. \<not> routed d) no_hot_plug sample_connected"
    by (rule arc_next [OF arc_start _ s(1)]) (simp_all add: no_hot_plug_def routed_def)
  show "arc_reach sample_variant sample_host (\<lambda>d. \<not> routed d) no_hot_plug sample_waiting"
    by (rule arc_next [OF 1 _ s(2)]) (simp add: no_hot_plug_def)
qed

theorem ui_told_in_turn_witness:
  "arc_reach sample_variant sample_host (\<lambda>d. \<not> routed d) no_hot_plug sample_connected
   \<and> ar_hdmiInAudioDeviceConnected sample_connected \<and> is_told sample_connected"
proof -
  have "ar_hdmiInAudioDeviceConnected sample_connected" by (subst sample_connected_eq) simp
  then show ?thesis using sample_reach(1) ui_told_in_turn [OF sample_reach(1)] by blast
qed



theorem audio_after_timeouts_witness:
  "awaits_SAD sample_waiting
   \<and> (\<exists>s'. arc_run sample_variant sample_host [SadTimer, SadTimer] sample_waiting = Some s' \<and> ar_arcEarcAudioEnabled s')"
  using audio_after_timeouts [OF sample_host_simps(1) sample_waiting_facts(1), of sample_variant] sample_waiting_facts
  by auto

theorem disable_overridden_witness:
  "\<exists>s'. arc_run sample_variant sample_host [EnablePort None disable_request, SadTimer, SadTimer] sample_waiting = Some s'
     \<and> ar_arcEarcAudioEnabled s' \<and> \<not> ar_portEnableStatus s' HDMI_ARC0"
  using disable_overridden [OF sample_host_simps(1) sample_waiting_facts(1), of sample_variant None] sample_waiting_facts(2)
  by auto

theorem audio_routed_cause_witness:
  "\<exists>s s'. ar_requestSadRetrigger s \<and> arc_step sample_variant sample_host SadTimer s = Some s' \<and> ar_arcEarcAudioEnabled s'
     \<and> ar_sadTimer s \<and> ar_hdmiInAudioDeviceConnected s"
proof -
  define s where "s = sample_waiting\<lparr>ar_requestSadRetrigger := True\<rparr>"
  have s: "\<not> ar_arcEarcAudioEnabled s" "ar_hdmiInAudioDeviceConnected s" "ar_SADState s = AUDIO_DEVICE_SAD_REQUESTED"
    "ar_sadTimer s" "ar_requestSadRetrigger s"
    using sample_waiting_facts by (simp_all add: s_def awaits_SAD_def)
  have e: "ar_arcEarcAudioEnabled (snd (checkSADUpdate sample_host s))"
    using sad_timeout [OF sample_host_simps(1) s(1,2)] s(3,5) by auto
  have st: "arc_step sample_variant sample_host SadTimer s = Some (snd (checkSADUpdate sample_host s))"
    using s(4) by (simp add: when_active_def)
  show ?thesis using audio_routed_cause [OF st s(1) e] s st e by blast
qed

definition sample_asking :: "dsAudioARCTypes arc" where
  "sample_asking = (DisplaySettings_ctor False dsAUDIOARCSUPPORT_NONE)
     \<lparr>ar_subscribed := True, ar_hdmiCecAudioDeviceDetected := True, ar_powerTimer := True\<rparr>"

theorem power_requests_witness:
  "\<exists>s'. arc_run sample_variant sample_host (replicate 5 PowerTimer) sample_asking = Some s' \<and> ar_powerRequestedAndReceived s'"
  using power_requests [of sample_asking sample_variant sample_host]
  by (auto simp: sample_asking_def DisplaySettings_ctor_def simp del: arc_run.simps)

theorem device_already_on_witness:
  "let C = \<lparr>cs_active = True, cs_invoke = (\<lambda>_ _. []), cs_subscribe = (\<lambda>_. True)\<rparr>;
       s = sample_asking\<lparr>ar_devicePowerState := AUDIO_DEVICE_POWER_STATE_ON\<rparr>
   in arc_run sample_variant sample_host (replicate 9 PowerTimer) (start_arc_port sample_variant C s)
      = Some (start_arc_port sample_variant C s)"
  unfolding Let_def
  by (rule device_already_on [THEN conjunct2, THEN conjunct1]) (simp_all add: sample_asking_def DisplaySettings_ctor_def)

end
