(* ===== verification/DisplayAudio.thy ===== *)
theory DisplayAudio imports SoundMode begin

text \<open>
  The settings of the audio ports in \<open>DisplaySettings/DisplaySettings.cpp\<close>: the methods that read and
  write the settings of one port. Most hand a value to the device settings library, which is a record
  of functions on the state of the ports, by the kind of the setting. A result \<open>None\<close> of a method is an
  exception that leaves it: \<open>std::stoi\<close> throws exceptions that the handlers of \<open>device::Exception\<close> do
  not catch.
\<close>

section \<open>The library\<close>

datatype port_number = BassEnhancer | DRCMode | Compression | DialogEnhancement | IntelligentEqualizerMode | GraphicEqualizerMode

datatype port_flag = SurroundDecoder | MISteering | DolbyVolumeMode

datatype port_level = VolumeLeveller | SurroundVirtualizer

datatype port_reset = ResetDialogEnhancement | ResetBassEnhancer | ResetSurroundVirtualizer | ResetVolumeLeveller

datatype audio_format =
    dsAUDIO_FORMAT_NONE | dsAUDIO_FORMAT_PCM | dsAUDIO_FORMAT_DOLBY_AC3 | dsAUDIO_FORMAT_DOLBY_EAC3
  | dsAUDIO_FORMAT_DOLBY_AC4 | dsAUDIO_FORMAT_DOLBY_MAT | dsAUDIO_FORMAT_DOLBY_TRUEHD
  | dsAUDIO_FORMAT_DOLBY_EAC3_ATMOS | dsAUDIO_FORMAT_DOLBY_TRUEHD_ATMOS | dsAUDIO_FORMAT_DOLBY_MAT_ATMOS
  | dsAUDIO_FORMAT_DOLBY_AC4_ATMOS | dsAUDIO_FORMAT_AAC | dsAUDIO_FORMAT_VORBIS | dsAUDIO_FORMAT_WMA
  | dsAUDIO_FORMAT_OTHER

datatype audio_capability = SUPPORT_ATMOS | SUPPORT_DD | SUPPORT_DDPLUS | SUPPORT_DAD | SUPPORT_DAPv2 | SUPPORT_MS12 | SUPPORT_OTHER

datatype ms12_capability = MS12_DolbyVolume | MS12_InteligentEqualizer | MS12_DialogueEnhancer | MS12_OTHER

datatype atmos = dsAUDIO_ATMOS_NOTSUPPORTED | dsAUDIO_ATMOS_DDPLUSSTREAM | dsAUDIO_ATMOS_ATMOSMETADATA

text \<open>
  The settings of one port by its name. Where the source asks the host instead of a port the port is
  \<open>None\<close>. A level is the mode and the level (or boost). Masks are the lists of their flags.
\<close>

record 'd port_library =
  pl_getNumber :: "port_number \<Rightarrow> string \<Rightarrow> ('d, int) call"
  pl_setNumber :: "port_number \<Rightarrow> string \<Rightarrow> int \<Rightarrow> ('d, unit) call"
  pl_getFlag :: "port_flag \<Rightarrow> string \<Rightarrow> ('d, bool) call"
  pl_setFlag :: "port_flag \<Rightarrow> string \<Rightarrow> bool \<Rightarrow> ('d, unit) call"
  pl_getLevel :: "port_level \<Rightarrow> string \<Rightarrow> ('d, int \<times> int) call"
  pl_setLevel :: "port_level \<Rightarrow> string \<Rightarrow> int \<times> int \<Rightarrow> ('d, unit) call"
  pl_reset :: "port_reset \<Rightarrow> string \<Rightarrow> ('d, unit) call"
  pl_getProfile :: "string \<Rightarrow> ('d, string) call"
  pl_setProfile :: "string \<Rightarrow> string \<Rightarrow> ('d, unit) call"
  pl_override :: "string \<Rightarrow> string \<Rightarrow> string \<Rightarrow> string \<Rightarrow> string \<Rightarrow> ('d, unit) call"
  pl_profiles :: "string \<Rightarrow> ('d, string list) call"
  pl_audioCapabilities :: "string \<Rightarrow> ('d, audio_capability list) call"
  pl_ms12Capabilities :: "string \<Rightarrow> ('d, ms12_capability list) call"
  pl_isHDMIOutPortPresent :: "('d, bool) call"
  pl_getMixing :: "string option \<Rightarrow> ('d, bool) call"
  pl_setMixing :: "string option \<Rightarrow> bool \<Rightarrow> ('d, unit) call"
  pl_getFader :: "string option \<Rightarrow> ('d, int) call"
  pl_setFader :: "string option \<Rightarrow> int \<Rightarrow> ('d, unit) call"
  pl_getLanguage :: "bool \<Rightarrow> string option \<Rightarrow> ('d, string) call"
  pl_setLanguage :: "bool \<Rightarrow> string option \<Rightarrow> string \<Rightarrow> ('d, unit) call"
  pl_currentFormat :: "('d, audio_format) call"
  pl_atmosCode :: "atmos \<Rightarrow> int"
  pl_getAtmos :: "string option \<Rightarrow> ('d, atmos) call"
  pl_modeName :: "AudioStereoMode \<Rightarrow> string"
  pl_stereoModes :: "string \<Rightarrow> ('d, string list) call"
  pl_getDelay :: "string \<Rightarrow> ('d, int) call"
  pl_setDelay :: "string \<Rightarrow> int \<Rightarrow> ('d, unit) call"
  pl_setAtmosMode :: "string option \<Rightarrow> bool \<Rightarrow> ('d, unit) call"

section \<open>Calls on a port\<close>

text \<open>
  The body of a \<open>try\<close> block ends with whether the method succeeds and the response, or with the
  exception, which \<open>attempt\<close> catches: then the method answers with \<open>failed\<close>.
\<close>

type_synonym reply = "hresult \<times> json_params"

type_synonym 'd body = "'d arc \<Rightarrow> (bool \<times> json_params) option \<times> 'd arc"

definition answer :: "bool \<Rightarrow> json_params \<Rightarrow> 'd body" where
  "answer ok response s = (Some (ok, response), s)"

definition attempt :: "'d body \<Rightarrow> bool \<times> json_params \<Rightarrow> 'd arc \<Rightarrow> reply \<times> 'd arc" where
  "attempt body failed s =
     (case body s of
        (Some (ok, r), s1) \<Rightarrow> (returnResponse ok r, s1)
      | (None, s1) \<Rightarrow> (returnResponse (fst failed) (snd failed), s1))"

definition port_of :: "json_params \<Rightarrow> string" where
  "port_of parameters = (if HasLabel parameters ''audioPort'' then member_String parameters ''audioPort'' else ''HDMI0'')"

definition on_port :: "'d audio_host \<Rightarrow> json_params \<Rightarrow> (string \<Rightarrow> 'd body) \<Rightarrow> 'd body" where
  "on_port A parameters k = ds_call (ah_open A (port_of parameters)) (\<lambda>_. k (port_of parameters))"

definition on_connected :: "'d audio_host \<Rightarrow> json_params \<Rightarrow> (string \<Rightarrow> 'd body) \<Rightarrow> 'd body \<Rightarrow> 'd body" where
  "on_connected A parameters k unconnected =
     on_port A parameters (\<lambda>p. ds_call (ah_isConnected A p) (\<lambda>connected. if connected then k p else unconnected))"

text \<open>With an HDMI output the port is asked, otherwise the host.\<close>

definition on_port_or_host ::
  "'d port_library \<Rightarrow> 'd audio_host \<Rightarrow> json_params \<Rightarrow> (string option \<Rightarrow> 'd body) \<Rightarrow> 'd body" where
  "on_port_or_host L A parameters k =
     ds_call (pl_isHDMIOutPortPresent L) (\<lambda>present. if present then on_port A parameters (\<lambda>p. k (Some p)) else k None)"

text \<open>A value is handed to the port.\<close>

definition store :: "'d audio_host \<Rightarrow> json_params \<Rightarrow> (string \<Rightarrow> ('d, unit) call) \<Rightarrow> json_params \<Rightarrow> 'd arc \<Rightarrow> reply \<times> 'd arc" where
  "store A parameters put response =
     attempt (on_port A parameters (\<lambda>p. ds_call (put p) (\<lambda>_. answer True response))) (False, response)"

definition store_or_host ::
  "'d port_library \<Rightarrow> 'd audio_host \<Rightarrow> json_params \<Rightarrow> (string option \<Rightarrow> ('d, unit) call) \<Rightarrow> json_params \<Rightarrow> 'd arc \<Rightarrow> reply \<times> 'd arc" where
  "store_or_host L A parameters put response =
     attempt (on_port_or_host L A parameters (\<lambda>p. ds_call (put p) (\<lambda>_. answer True response))) (False, response)"

text \<open>A call that returns, and one that is left by the exception of \<open>stoi\<close> when there is no number.\<close>

definition returned :: "reply \<times> 'd arc \<Rightarrow> reply option \<times> 'd arc" where
  "returned r = (Some (fst r), snd r)"

definition refuse :: "json_params \<Rightarrow> 'd arc \<Rightarrow> reply option \<times> 'd arc" where
  "refuse response s = (Some (returnResponse False response), s)"

definition parsed :: "int option \<Rightarrow> (int \<Rightarrow> 'd arc \<Rightarrow> reply option \<times> 'd arc) \<Rightarrow> 'd arc \<Rightarrow> reply option \<times> 'd arc" where
  "parsed n k s = (case n of None \<Rightarrow> (None, s) | Some i \<Rightarrow> k i s)"


section \<open>Reading the settings\<close>

definition enabled_and :: "string \<Rightarrow> int \<Rightarrow> json_params \<Rightarrow> json_params" where
  "enabled_and name n response = set_member name (JNumber n) (set_member ''enable'' (JBool (n \<noteq> 0)) response)"

definition getVolumeLeveller :: "'d port_library \<Rightarrow> 'd audio_host \<Rightarrow> json_params \<Rightarrow> json_params \<Rightarrow> 'd arc \<Rightarrow> reply \<times> 'd arc" where
  "getVolumeLeveller L A parameters response =
     attempt
       (on_connected A parameters
          (\<lambda>p. ds_call (pl_getLevel L VolumeLeveller p) (\<lambda>(mode, level).
             answer True (set_member ''level'' (JNumber level) (set_member ''enable'' (JBool (mode \<noteq> 0)) response))))
          (answer True response))
       (False, set_member ''level'' (JNumber 0) (set_member ''enable'' (JBool False) response))"

definition getVolumeLeveller2 :: "'d port_library \<Rightarrow> 'd audio_host \<Rightarrow> json_params \<Rightarrow> json_params \<Rightarrow> 'd arc \<Rightarrow> reply \<times> 'd arc" where
  "getVolumeLeveller2 L A parameters response =
     attempt
       (on_connected A parameters
          (\<lambda>p. ds_call (pl_getLevel L VolumeLeveller p) (\<lambda>(mode, level).
             answer True (set_member ''level'' (JNumber level) (set_member ''mode'' (JNumber mode) response))))
          (answer True response))
       (False, set_member ''level'' (JNumber 0) (set_member ''mode'' (JNumber 0) response))"

definition getBassEnhancer :: "'d port_library \<Rightarrow> 'd audio_host \<Rightarrow> json_params \<Rightarrow> json_params \<Rightarrow> 'd arc \<Rightarrow> reply \<times> 'd arc" where
  "getBassEnhancer L A parameters response =
     attempt
       (on_connected A parameters
          (\<lambda>p. ds_call (pl_getNumber L BassEnhancer p) (\<lambda>boost. answer True (enabled_and ''bassBoost'' boost response)))
          (answer False response))
       (False, set_member ''enable'' (JBool False) response)"

definition isSurroundDecoderEnabled :: "'d port_library \<Rightarrow> 'd audio_host \<Rightarrow> json_params \<Rightarrow> json_params \<Rightarrow> 'd arc \<Rightarrow> reply \<times> 'd arc" where
  "isSurroundDecoderEnabled L A parameters response =
     attempt
       (on_connected A parameters
          (\<lambda>p. ds_call (pl_getFlag L SurroundDecoder p) (\<lambda>b. answer True (set_member ''surroundDecoderEnable'' (JBool b) response)))
          (answer False response))
       (False, response)"

definition getMuted :: "'d audio_host \<Rightarrow> json_params \<Rightarrow> json_params \<Rightarrow> 'd arc \<Rightarrow> reply \<times> 'd arc" where
  "getMuted A parameters response =
     attempt
       (on_port A parameters (\<lambda>p. ds_call (ah_isMuted A p) (\<lambda>b. answer True (set_member ''muted'' (JBool b) response))))
       (False, response)"

definition getDRCMode :: "'d port_library \<Rightarrow> 'd audio_host \<Rightarrow> json_params \<Rightarrow> json_params \<Rightarrow> 'd arc \<Rightarrow> reply \<times> 'd arc" where
  "getDRCMode L A parameters response =
     attempt
       (on_connected A parameters
          (\<lambda>p. ds_call (pl_getNumber L DRCMode p) (\<lambda>mode.
             answer True (set_member ''DRCMode'' (JString (if mode \<noteq> 0 then ''RF'' else ''line'')) response)))
          (answer False response))
       (False, response)"

definition getSurroundVirtualizer :: "'d port_library \<Rightarrow> 'd audio_host \<Rightarrow> json_params \<Rightarrow> json_params \<Rightarrow> 'd arc \<Rightarrow> reply \<times> 'd arc" where
  "getSurroundVirtualizer L A parameters response =
     attempt
       (on_connected A parameters
          (\<lambda>p. ds_call (pl_getLevel L SurroundVirtualizer p) (\<lambda>(mode, boost).
             answer True (set_member ''boost'' (JNumber boost) (set_member ''enable'' (JBool (mode \<noteq> 0)) response))))
          (answer False response))
       (False, response)"

definition getSurroundVirtualizer2 :: "'d port_library \<Rightarrow> 'd audio_host \<Rightarrow> json_params \<Rightarrow> json_params \<Rightarrow> 'd arc \<Rightarrow> reply \<times> 'd arc" where
  "getSurroundVirtualizer2 L A parameters response =
     attempt
       (on_connected A parameters
          (\<lambda>p. ds_call (pl_getLevel L SurroundVirtualizer p) (\<lambda>(mode, boost).
             answer True (set_member ''boost'' (JNumber boost) (set_member ''mode'' (JNumber mode) response))))
          (answer False response))
       (False, set_member ''boost'' (JNumber 0) (set_member ''mode'' (JNumber 0) response))"

definition getMISteering :: "'d port_library \<Rightarrow> 'd audio_host \<Rightarrow> json_params \<Rightarrow> json_params \<Rightarrow> 'd arc \<Rightarrow> reply \<times> 'd arc" where
  "getMISteering L A parameters response =
     attempt
       (on_connected A parameters
          (\<lambda>p. ds_call (pl_getFlag L MISteering p) (\<lambda>b. answer True (set_member ''MISteeringEnable'' (JBool b) response)))
          (answer False response))
       (False, response)"

definition getMS12AudioCompression :: "'d port_library \<Rightarrow> 'd audio_host \<Rightarrow> json_params \<Rightarrow> json_params \<Rightarrow> 'd arc \<Rightarrow> reply \<times> 'd arc" where
  "getMS12AudioCompression L A parameters response =
     attempt
       (on_port A parameters (\<lambda>p. ds_call (pl_getNumber L Compression p) (\<lambda>n.
          answer True (set_member ''enable'' (JBool (n \<noteq> 0)) (set_member ''compressionlevel'' (JNumber n) response)))))
       (False, set_member ''enable'' (JBool False) (set_member ''compressionlevel'' (JNumber 0) response))"

definition getDolbyVolumeMode :: "'d port_library \<Rightarrow> 'd audio_host \<Rightarrow> json_params \<Rightarrow> json_params \<Rightarrow> 'd arc \<Rightarrow> reply \<times> 'd arc" where
  "getDolbyVolumeMode L A parameters response =
     attempt
       (on_port A parameters (\<lambda>p. ds_call (pl_getFlag L DolbyVolumeMode p) (\<lambda>b.
          answer True (set_member ''dolbyVolumeMode'' (JBool b) response))))
       (False, response)"

definition getDialogEnhancement :: "'d port_library \<Rightarrow> 'd audio_host \<Rightarrow> json_params \<Rightarrow> json_params \<Rightarrow> 'd arc \<Rightarrow> reply \<times> 'd arc" where
  "getDialogEnhancement L A parameters response =
     attempt
       (on_port A parameters (\<lambda>p. ds_call (pl_getNumber L DialogEnhancement p) (\<lambda>n.
          answer True (enabled_and ''enhancerlevel'' n response))))
       (False, enabled_and ''enhancerlevel'' 0 response)"

definition getIntelligentEqualizerMode :: "'d port_library \<Rightarrow> 'd audio_host \<Rightarrow> json_params \<Rightarrow> json_params \<Rightarrow> 'd arc \<Rightarrow> reply \<times> 'd arc" where
  "getIntelligentEqualizerMode L A parameters response =
     attempt
       (on_port A parameters (\<lambda>p. ds_call (pl_getNumber L IntelligentEqualizerMode p) (\<lambda>n.
          answer True (enabled_and ''mode'' n response))))
       (False, enabled_and ''mode'' 0 response)"

definition getGraphicEqualizerMode :: "'d port_library \<Rightarrow> 'd audio_host \<Rightarrow> json_params \<Rightarrow> json_params \<Rightarrow> 'd arc \<Rightarrow> reply \<times> 'd arc" where
  "getGraphicEqualizerMode L A parameters response =
     attempt
       (on_port A parameters (\<lambda>p. ds_call (pl_getNumber L GraphicEqualizerMode p) (\<lambda>n.
          answer True (enabled_and ''mode'' n response))))
       (False, enabled_and ''mode'' 0 response)"

definition getMS12AudioProfile :: "'d port_library \<Rightarrow> 'd audio_host \<Rightarrow> json_params \<Rightarrow> json_params \<Rightarrow> 'd arc \<Rightarrow> reply \<times> 'd arc" where
  "getMS12AudioProfile L A parameters response =
     attempt
       (on_port A parameters (\<lambda>p. ds_call (pl_getProfile L p) (\<lambda>profile.
          answer True (set_member ''ms12AudioProfile'' (JString profile) response))))
       (False, set_member ''ms12AudioProfile'' (JString ''None'') response)"

definition getSupportedMS12AudioProfiles :: "'d port_library \<Rightarrow> 'd audio_host \<Rightarrow> json_params \<Rightarrow> json_params \<Rightarrow> 'd arc \<Rightarrow> reply \<times> 'd arc" where
  "getSupportedMS12AudioProfiles L A parameters response =
     attempt
       (on_port A parameters (\<lambda>p. ds_call (pl_profiles L p) (\<lambda>profiles.
          answer True (setResponseArray ''supportedMS12AudioProfiles'' profiles response))))
       (True, setResponseArray ''supportedMS12AudioProfiles'' [] response)"

definition getAssociatedAudioMixing :: "'d port_library \<Rightarrow> 'd audio_host \<Rightarrow> json_params \<Rightarrow> json_params \<Rightarrow> 'd arc \<Rightarrow> reply \<times> 'd arc" where
  "getAssociatedAudioMixing L A parameters response =
     attempt
       (on_port_or_host L A parameters (\<lambda>p. ds_call (pl_getMixing L p) (\<lambda>b.
          answer True (set_member ''mixing'' (JBool b) response))))
       (False, response)"

definition getFaderControl :: "'d port_library \<Rightarrow> 'd audio_host \<Rightarrow> json_params \<Rightarrow> json_params \<Rightarrow> 'd arc \<Rightarrow> reply \<times> 'd arc" where
  "getFaderControl L A parameters response =
     attempt
       (on_port_or_host L A parameters (\<lambda>p. ds_call (pl_getFader L p) (\<lambda>n.
          answer True (set_member ''mixerBalance'' (JNumber n) response))))
       (False, response)"

definition getPrimaryLanguage :: "'d port_library \<Rightarrow> 'd audio_host \<Rightarrow> json_params \<Rightarrow> json_params \<Rightarrow> 'd arc \<Rightarrow> reply \<times> 'd arc" where
  "getPrimaryLanguage L A parameters response =
     attempt
       (on_port_or_host L A parameters (\<lambda>p. ds_call (pl_getLanguage L True p) (\<lambda>lang.
          answer True (set_member ''lang'' (JString lang) response))))
       (False, set_member ''lang'' (JString ''None'') response)"

definition getSecondaryLanguage :: "'d port_library \<Rightarrow> 'd audio_host \<Rightarrow> json_params \<Rightarrow> json_params \<Rightarrow> 'd arc \<Rightarrow> reply \<times> 'd arc" where
  "getSecondaryLanguage L A parameters response =
     attempt
       (on_port_or_host L A parameters (\<lambda>p. ds_call (pl_getLanguage L False p) (\<lambda>lang.
          answer True (set_member ''lang'' (JString lang) response))))
       (False, set_member ''lang'' (JString ''None'') response)"

section \<open>Capabilities and formats\<close>

definition audio_capability_names :: "audio_capability list \<Rightarrow> string list" where
  "audio_capability_names caps =
     (if caps = [] then [''none''] else [])
     @ concat (map (\<lambda>(c, name). if c \<in> set caps then [name] else [])
         [(SUPPORT_ATMOS, ''ATMOS''), (SUPPORT_DD, ''DOLBY DIGITAL''), (SUPPORT_DDPLUS, ''DOLBY DIGITAL PLUS''),
          (SUPPORT_DAD, ''Dual Audio Decode''), (SUPPORT_DAPv2, ''DAPv2''), (SUPPORT_MS12, ''MS12'')])"

definition getSettopAudioCapabilities :: "'d port_library \<Rightarrow> 'd audio_host \<Rightarrow> json_params \<Rightarrow> json_params \<Rightarrow> 'd arc \<Rightarrow> reply \<times> 'd arc" where
  "getSettopAudioCapabilities L A parameters response =
     attempt
       (on_port A parameters (\<lambda>p. ds_call (pl_audioCapabilities L p) (\<lambda>caps.
          answer True (setResponseArray ''AudioCapabilities'' (audio_capability_names caps) response))))
       (True, setResponseArray ''AudioCapabilities'' (audio_capability_names []) response)"

definition ms12_capability_names :: "ms12_capability list \<Rightarrow> string list" where
  "ms12_capability_names caps =
     (if caps = [] then [''none''] else [])
     @ concat (map (\<lambda>(c, name). if c \<in> set caps then [name] else [])
         [(MS12_DolbyVolume, ''Dolby Volume''), (MS12_InteligentEqualizer, ''Inteligent Equalizer''),
          (MS12_DialogueEnhancer, ''Dialogue Enhancer'')])"

definition getSettopMS12Capabilities :: "'d port_library \<Rightarrow> 'd audio_host \<Rightarrow> json_params \<Rightarrow> json_params \<Rightarrow> 'd arc \<Rightarrow> reply \<times> 'd arc" where
  "getSettopMS12Capabilities L A parameters response =
     attempt
       (on_port A parameters (\<lambda>p. ds_call (pl_ms12Capabilities L p) (\<lambda>caps.
          answer True (setResponseArray ''MS12Capabilities'' (ms12_capability_names caps) response))))
       (True, setResponseArray ''MS12Capabilities'' (ms12_capability_names []) response)"

definition supportedAudioFormat :: "string list" where
  "supportedAudioFormat =
     [''NONE'', ''PCM'', ''AAC'', ''VORBIS'', ''WMA'', ''DOLBY AC3'', ''DOLBY EAC3'', ''DOLBY AC4'', ''DOLBY MAT'', ''DOLBY TRUEHD'',
      ''DOLBY EAC3 ATMOS'', ''DOLBY TRUEHD ATMOS'', ''DOLBY MAT ATMOS'', ''DOLBY AC4 ATMOS'', ''UNKNOWN'']"

fun audio_format_name :: "audio_format \<Rightarrow> string" where
  "audio_format_name dsAUDIO_FORMAT_NONE = ''NONE''"
| "audio_format_name dsAUDIO_FORMAT_PCM = ''PCM''"
| "audio_format_name dsAUDIO_FORMAT_AAC = ''AAC''"
| "audio_format_name dsAUDIO_FORMAT_VORBIS = ''VORBIS''"
| "audio_format_name dsAUDIO_FORMAT_WMA = ''WMA''"
| "audio_format_name dsAUDIO_FORMAT_DOLBY_AC3 = ''DOLBY AC3''"
| "audio_format_name dsAUDIO_FORMAT_DOLBY_EAC3 = ''DOLBY EAC3''"
| "audio_format_name dsAUDIO_FORMAT_DOLBY_AC4 = ''DOLBY AC4''"
| "audio_format_name dsAUDIO_FORMAT_DOLBY_MAT = ''DOLBY MAT''"
| "audio_format_name dsAUDIO_FORMAT_DOLBY_TRUEHD = ''DOLBY TRUEHD''"
| "audio_format_name dsAUDIO_FORMAT_DOLBY_EAC3_ATMOS = ''DOLBY EAC3 ATMOS''"
| "audio_format_name dsAUDIO_FORMAT_DOLBY_TRUEHD_ATMOS = ''DOLBY TRUEHD ATMOS''"
| "audio_format_name dsAUDIO_FORMAT_DOLBY_MAT_ATMOS = ''DOLBY MAT ATMOS''"
| "audio_format_name dsAUDIO_FORMAT_DOLBY_AC4_ATMOS = ''DOLBY AC4 ATMOS''"
| "audio_format_name dsAUDIO_FORMAT_OTHER = ''UNKNOWN''"

definition audioFormatToString :: "audio_format \<Rightarrow> json_params \<Rightarrow> json_params" where
  "audioFormatToString audioFormat response =
     setResponseArray ''supportedAudioFormat'' supportedAudioFormat
       (set_member ''currentAudioFormat'' (JString (audio_format_name audioFormat)) response)"

definition getAudioFormat :: "'d port_library \<Rightarrow> json_params \<Rightarrow> json_params \<Rightarrow> 'd arc \<Rightarrow> reply \<times> 'd arc" where
  "getAudioFormat L parameters response =
     attempt (ds_call (pl_currentFormat L) (\<lambda>f. answer True (audioFormatToString f response)))
       (False, audioFormatToString dsAUDIO_FORMAT_NONE response)"


section \<open>Writing the settings\<close>

text \<open>A level of 0 switches off, any other on.\<close>

definition setVolumeLeveller :: "'d port_library \<Rightarrow> 'd audio_host \<Rightarrow> json_params \<Rightarrow> json_params \<Rightarrow> 'd arc \<Rightarrow> reply option \<times> 'd arc" where
  "setVolumeLeveller L A parameters response =
     (let value = member_String parameters ''level''
      in if \<not> HasLabel parameters ''level'' \<or> \<not> isValidUnsignedInt value then refuse response
         else parsed (stoi value) (\<lambda>n s. returned (store A parameters (\<lambda>p. pl_setLevel L VolumeLeveller p (if n = 0 then 0 else 1, n)) response s)))"

text \<open>
  The mode and the level, which counts in mode 1 only: \<open>Some None\<close> is an unknown mode, \<open>None\<close> the
  exception of \<open>stoi\<close>.
\<close>

definition level_of_mode :: "string \<Rightarrow> string \<Rightarrow> (int \<times> int) option option" where
  "level_of_mode sMode sLevel =
     (case stoi sMode of
        None \<Rightarrow> None
      | Some mode \<Rightarrow>
          if mode = 1 then map_option (\<lambda>level. Some (1, level)) (stoi sLevel)
          else if mode = 0 \<or> mode = 2 then Some (Some (mode, 0)) else Some None)"

text \<open>The condition tests the mode twice, and the level not at all.\<close>

definition setVolumeLeveller2 :: "'d port_library \<Rightarrow> 'd audio_host \<Rightarrow> json_params \<Rightarrow> json_params \<Rightarrow> 'd arc \<Rightarrow> reply option \<times> 'd arc" where
  "setVolumeLeveller2 L A parameters response =
     (let sMode = member_String parameters ''mode''; sLevel = member_String parameters ''level''
      in if \<not> HasLabel parameters ''mode'' \<or> \<not> isValidUnsignedInt sMode then refuse response
         else (case level_of_mode sMode sLevel of
            None \<Rightarrow> (\<lambda>s. (None, s))
          | Some None \<Rightarrow> refuse response
          | Some (Some l) \<Rightarrow> (\<lambda>s. returned (store A parameters (\<lambda>p. pl_setLevel L VolumeLeveller p l) response s))))"

definition enableSurroundDecoder :: "variant \<Rightarrow> 'd port_library \<Rightarrow> 'd audio_host \<Rightarrow> json_params \<Rightarrow> json_params \<Rightarrow> 'd arc \<Rightarrow> reply option \<times> 'd arc" where
  "enableSurroundDecoder V L A parameters response =
     (let b = variant_Boolean V (member parameters ''surroundDecoderEnable'')
      in if \<not> HasLabel parameters ''surroundDecoderEnable'' then refuse response
         else (\<lambda>s. returned (store A parameters (\<lambda>p. pl_setFlag L SurroundDecoder p b) response s)))"

definition setBassEnhancer :: "'d port_library \<Rightarrow> 'd audio_host \<Rightarrow> json_params \<Rightarrow> json_params \<Rightarrow> 'd arc \<Rightarrow> reply option \<times> 'd arc" where
  "setBassEnhancer L A parameters response =
     (let value = member_String parameters ''bassBoost''
      in if \<not> HasLabel parameters ''bassBoost'' \<or> \<not> isValidUnsignedInt value then refuse response
         else parsed (stoi value) (\<lambda>n s. returned (store A parameters (\<lambda>p. pl_setNumber L BassEnhancer p n) response s)))"

definition setSurroundVirtualizer :: "'d port_library \<Rightarrow> 'd audio_host \<Rightarrow> json_params \<Rightarrow> json_params \<Rightarrow> 'd arc \<Rightarrow> reply option \<times> 'd arc" where
  "setSurroundVirtualizer L A parameters response =
     (let value = member_String parameters ''boost''
      in if \<not> HasLabel parameters ''boost'' \<or> \<not> isValidUnsignedInt value then refuse response
         else parsed (stoi value) (\<lambda>n s. returned (store A parameters (\<lambda>p. pl_setLevel L SurroundVirtualizer p (if n = 0 then 0 else 1, n)) response s)))"

definition setSurroundVirtualizer2 :: "'d port_library \<Rightarrow> 'd audio_host \<Rightarrow> json_params \<Rightarrow> json_params \<Rightarrow> 'd arc \<Rightarrow> reply option \<times> 'd arc" where
  "setSurroundVirtualizer2 L A parameters response =
     (let sMode = member_String parameters ''mode''; sBoost = member_String parameters ''boost''
      in if \<not> HasLabel parameters ''mode'' \<or> \<not> isValidUnsignedInt sMode \<or> \<not> isValidUnsignedInt sBoost then refuse response
         else (case level_of_mode sMode sBoost of
            None \<Rightarrow> (\<lambda>s. (None, s))
          | Some None \<Rightarrow> refuse response
          | Some (Some l) \<Rightarrow> (\<lambda>s. returned (store A parameters (\<lambda>p. pl_setLevel L SurroundVirtualizer p l) response s))))"

definition setMISteering :: "variant \<Rightarrow> 'd port_library \<Rightarrow> 'd audio_host \<Rightarrow> json_params \<Rightarrow> json_params \<Rightarrow> 'd arc \<Rightarrow> reply option \<times> 'd arc" where
  "setMISteering V L A parameters response =
     (let b = variant_Boolean V (member parameters ''MISteeringEnable'')
      in if \<not> HasLabel parameters ''MISteeringEnable'' then refuse response
         else (\<lambda>s. returned (store A parameters (\<lambda>p. pl_setFlag L MISteering p b) response s)))"

text \<open>What was muted last is a static variable of the method, not of the port.\<close>

definition notify_mute :: "bool \<Rightarrow> 'd arc \<Rightarrow> 'd arc" where
  "notify_mute muted s =
     (if ar_cacheMuted s \<noteq> muted
      then sendNotify ''muteStatusChanged'' [(''muted'', JBool muted)] (s\<lparr>ar_cacheMuted := muted\<rparr>) else s)"

definition setMuted :: "variant \<Rightarrow> 'd audio_host \<Rightarrow> json_params \<Rightarrow> json_params \<Rightarrow> 'd arc \<Rightarrow> reply option \<times> 'd arc" where
  "setMuted V A parameters response =
     (let muted = variant_Boolean V (member parameters ''muted'')
      in if \<not> HasLabel parameters ''muted'' then refuse response
         else (\<lambda>s. returned (attempt
           (on_port A parameters (\<lambda>p. ds_call (ah_setMuted A p muted) (\<lambda>_ s1. answer True response (notify_mute muted s1))))
           (False, response) s)))"

definition setDRCMode :: "'d port_library \<Rightarrow> 'd audio_host \<Rightarrow> json_params \<Rightarrow> json_params \<Rightarrow> 'd arc \<Rightarrow> reply option \<times> 'd arc" where
  "setDRCMode L A parameters response =
     (let value = member_String parameters ''DRCMode''
      in if \<not> HasLabel parameters ''DRCMode'' \<or> \<not> isValidUnsignedInt value then refuse response
         else parsed (stoi value) (\<lambda>n s. returned (store A parameters (\<lambda>p. pl_setNumber L DRCMode p n) response s)))"

text \<open>These methods catch every exception of \<open>stoi\<close>.\<close>

definition setMS12AudioCompression :: "'d port_library \<Rightarrow> 'd audio_host \<Rightarrow> json_params \<Rightarrow> json_params \<Rightarrow> 'd arc \<Rightarrow> reply option \<times> 'd arc" where
  "setMS12AudioCompression L A parameters response =
     (if \<not> HasLabel parameters ''compresionLevel'' then refuse response
      else (case stoi (member_String parameters ''compresionLevel'') of
        Some n \<Rightarrow> (\<lambda>s. returned (store A parameters (\<lambda>p. pl_setNumber L Compression p n) response s))
      | None \<Rightarrow> refuse response))"

definition setDolbyVolumeMode :: "variant \<Rightarrow> 'd port_library \<Rightarrow> 'd audio_host \<Rightarrow> json_params \<Rightarrow> json_params \<Rightarrow> 'd arc \<Rightarrow> reply option \<times> 'd arc" where
  "setDolbyVolumeMode V L A parameters response =
     (let b = variant_Boolean V (member parameters ''dolbyVolumeMode'')
      in if \<not> HasLabel parameters ''dolbyVolumeMode'' then refuse response
         else (\<lambda>s. returned (store A parameters (\<lambda>p. pl_setFlag L DolbyVolumeMode p b) response s)))"

definition setDialogEnhancement :: "'d port_library \<Rightarrow> 'd audio_host \<Rightarrow> json_params \<Rightarrow> json_params \<Rightarrow> 'd arc \<Rightarrow> reply option \<times> 'd arc" where
  "setDialogEnhancement L A parameters response =
     (if \<not> HasLabel parameters ''enhancerlevel'' then refuse response
      else (case stoi (member_String parameters ''enhancerlevel'') of
        Some n \<Rightarrow> (\<lambda>s. returned (store A parameters (\<lambda>p. pl_setNumber L DialogEnhancement p n) response s))
      | None \<Rightarrow> refuse response))"

definition setIntelligentEqualizerMode :: "'d port_library \<Rightarrow> 'd audio_host \<Rightarrow> json_params \<Rightarrow> json_params \<Rightarrow> 'd arc \<Rightarrow> reply option \<times> 'd arc" where
  "setIntelligentEqualizerMode L A parameters response =
     (if \<not> HasLabel parameters ''intelligentEqualizerMode'' then refuse response
      else (case stoi (member_String parameters ''intelligentEqualizerMode'') of
        Some n \<Rightarrow> (\<lambda>s. returned (store A parameters (\<lambda>p. pl_setNumber L IntelligentEqualizerMode p n) response s))
      | None \<Rightarrow> refuse response))"

definition setGraphicEqualizerMode :: "'d port_library \<Rightarrow> 'd audio_host \<Rightarrow> json_params \<Rightarrow> json_params \<Rightarrow> 'd arc \<Rightarrow> reply option \<times> 'd arc" where
  "setGraphicEqualizerMode L A parameters response =
     (if \<not> HasLabel parameters ''graphicEqualizerMode'' then refuse response
      else (case stoi (member_String parameters ''graphicEqualizerMode'') of
        Some n \<Rightarrow> (\<lambda>s. returned (store A parameters (\<lambda>p. pl_setNumber L GraphicEqualizerMode p n) response s))
      | None \<Rightarrow> refuse response))"

definition setMS12AudioProfile :: "'d port_library \<Rightarrow> 'd audio_host \<Rightarrow> json_params \<Rightarrow> json_params \<Rightarrow> 'd arc \<Rightarrow> reply option \<times> 'd arc" where
  "setMS12AudioProfile L A parameters response =
     (if \<not> HasLabel parameters ''ms12AudioProfile'' then refuse response
      else (\<lambda>s. returned (store A parameters (\<lambda>p. pl_setProfile L p (member_String parameters ''ms12AudioProfile'')) response s)))"

definition setMS12ProfileSettingsOverride :: "'d port_library \<Rightarrow> 'd audio_host \<Rightarrow> json_params \<Rightarrow> json_params \<Rightarrow> 'd arc \<Rightarrow> reply option \<times> 'd arc" where
  "setMS12ProfileSettingsOverride L A parameters response =
     (if (\<exists>name \<in> set [''operation'', ''profileName'', ''ms12SettingsName'', ''ms12SettingsValue'']. \<not> HasLabel parameters name)
      then refuse response
      else (\<lambda>s. returned (store A parameters (\<lambda>p. pl_override L p (member_String parameters ''operation'')
        (member_String parameters ''profileName'') (member_String parameters ''ms12SettingsName'')
        (member_String parameters ''ms12SettingsValue'')) response s)))"

definition setAssociatedAudioMixing :: "variant \<Rightarrow> 'd port_library \<Rightarrow> 'd audio_host \<Rightarrow> json_params \<Rightarrow> json_params \<Rightarrow> 'd arc \<Rightarrow> reply option \<times> 'd arc" where
  "setAssociatedAudioMixing V L A parameters response =
     (let b = variant_Boolean V (member parameters ''mixing'')
      in if \<not> HasLabel parameters ''mixing'' then refuse response
         else (\<lambda>s. returned (store_or_host L A parameters (\<lambda>p. pl_setMixing L p b) response s)))"

definition setFaderControl :: "'d port_library \<Rightarrow> 'd audio_host \<Rightarrow> json_params \<Rightarrow> json_params \<Rightarrow> 'd arc \<Rightarrow> reply option \<times> 'd arc" where
  "setFaderControl L A parameters response =
     (let value = member_String parameters ''mixerBalance''
      in if \<not> HasLabel parameters ''mixerBalance'' \<or> \<not> isValidInt value then refuse response
         else parsed (stoi value) (\<lambda>n s. returned (store_or_host L A parameters (\<lambda>p. pl_setFader L p n) response s)))"

definition setLanguage :: "bool \<Rightarrow> 'd port_library \<Rightarrow> 'd audio_host \<Rightarrow> json_params \<Rightarrow> json_params \<Rightarrow> 'd arc \<Rightarrow> reply option \<times> 'd arc" where
  "setLanguage primary L A parameters response =
     (if \<not> HasLabel parameters ''lang'' then refuse response
      else (\<lambda>s. returned (store_or_host L A parameters (\<lambda>p. pl_setLanguage L primary p (member_String parameters ''lang'')) response s)))"

definition setPrimaryLanguage :: "'d port_library \<Rightarrow> 'd audio_host \<Rightarrow> json_params \<Rightarrow> json_params \<Rightarrow> 'd arc \<Rightarrow> reply option \<times> 'd arc" where
  "setPrimaryLanguage = setLanguage True"

definition setSecondaryLanguage :: "'d port_library \<Rightarrow> 'd audio_host \<Rightarrow> json_params \<Rightarrow> json_params \<Rightarrow> 'd arc \<Rightarrow> reply option \<times> 'd arc" where
  "setSecondaryLanguage = setLanguage False"

definition resetDialogEnhancement :: "'d port_library \<Rightarrow> 'd audio_host \<Rightarrow> json_params \<Rightarrow> json_params \<Rightarrow> 'd arc \<Rightarrow> reply \<times> 'd arc" where
  "resetDialogEnhancement L A parameters = store A parameters (pl_reset L ResetDialogEnhancement)"

definition resetBassEnhancer :: "'d port_library \<Rightarrow> 'd audio_host \<Rightarrow> json_params \<Rightarrow> json_params \<Rightarrow> 'd arc \<Rightarrow> reply \<times> 'd arc" where
  "resetBassEnhancer L A parameters = store A parameters (pl_reset L ResetBassEnhancer)"

definition resetSurroundVirtualizer :: "'d port_library \<Rightarrow> 'd audio_host \<Rightarrow> json_params \<Rightarrow> json_params \<Rightarrow> 'd arc \<Rightarrow> reply \<times> 'd arc" where
  "resetSurroundVirtualizer L A parameters = store A parameters (pl_reset L ResetSurroundVirtualizer)"

definition resetVolumeLeveller :: "'d port_library \<Rightarrow> 'd audio_host \<Rightarrow> json_params \<Rightarrow> json_params \<Rightarrow> 'd arc \<Rightarrow> reply \<times> 'd arc" where
  "resetVolumeLeveller L A parameters = store A parameters (pl_reset L ResetVolumeLeveller)"

section \<open>The methods by their names\<close>

type_synonym 'd audio_method =
  "variant \<Rightarrow> 'd port_library \<Rightarrow> 'd audio_host \<Rightarrow> json_params \<Rightarrow> json_params \<Rightarrow> 'd arc \<Rightarrow> reply option \<times> 'd arc"

definition audio_methods :: "(string \<times> 'd audio_method) list" where
  "audio_methods =
     [(''getVolumeLeveller'', \<lambda>V L A ps r s. returned (getVolumeLeveller L A ps r s)),
      (''getBassEnhancer'', \<lambda>V L A ps r s. returned (getBassEnhancer L A ps r s)),
      (''isSurroundDecoderEnabled'', \<lambda>V L A ps r s. returned (isSurroundDecoderEnabled L A ps r s)),
      (''getDRCMode'', \<lambda>V L A ps r s. returned (getDRCMode L A ps r s)),
      (''getSurroundVirtualizer'', \<lambda>V L A ps r s. returned (getSurroundVirtualizer L A ps r s)),
      (''getMISteering'', \<lambda>V L A ps r s. returned (getMISteering L A ps r s)),
      (''getMS12AudioCompression'', \<lambda>V L A ps r s. returned (getMS12AudioCompression L A ps r s)),
      (''getDolbyVolumeMode'', \<lambda>V L A ps r s. returned (getDolbyVolumeMode L A ps r s)),
      (''getDialogEnhancement'', \<lambda>V L A ps r s. returned (getDialogEnhancement L A ps r s)),
      (''getIntelligentEqualizerMode'', \<lambda>V L A ps r s. returned (getIntelligentEqualizerMode L A ps r s)),
      (''getGraphicEqualizerMode'', \<lambda>V L A ps r s. returned (getGraphicEqualizerMode L A ps r s)),
      (''getMS12AudioProfile'', \<lambda>V L A ps r s. returned (getMS12AudioProfile L A ps r s)),
      (''getSupportedMS12AudioProfiles'', \<lambda>V L A ps r s. returned (getSupportedMS12AudioProfiles L A ps r s)),
      (''resetDialogEnhancement'', \<lambda>V L A ps r s. returned (resetDialogEnhancement L A ps r s)),
      (''resetBassEnhancer'', \<lambda>V L A ps r s. returned (resetBassEnhancer L A ps r s)),
      (''resetSurroundVirtualizer'', \<lambda>V L A ps r s. returned (resetSurroundVirtualizer L A ps r s)),
      (''resetVolumeLeveller'', \<lambda>V L A ps r s. returned (resetVolumeLeveller L A ps r s)),
      (''getAssociatedAudioMixing'', \<lambda>V L A ps r s. returned (getAssociatedAudioMixing L A ps r s)),
      (''getFaderControl'', \<lambda>V L A ps r s. returned (getFaderControl L A ps r s)),
      (''getPrimaryLanguage'', \<lambda>V L A ps r s. returned (getPrimaryLanguage L A ps r s)),
      (''getSecondaryLanguage'', \<lambda>V L A ps r s. returned (getSecondaryLanguage L A ps r s)),
      (''getSettopMS12Capabilities'', \<lambda>V L A ps r s. returned (getSettopMS12Capabilities L A ps r s)),
      (''getSettopAudioCapabilities'', \<lambda>V L A ps r s. returned (getSettopAudioCapabilities L A ps r s)),
      (''getMuted'', \<lambda>V L A ps r s. returned (getMuted A ps r s)),
      (''getAudioFormat'', \<lambda>V L A ps r s. returned (getAudioFormat L ps r s)),
      (''setVolumeLeveller'', \<lambda>V. setVolumeLeveller),
      (''setBassEnhancer'', \<lambda>V. setBassEnhancer),
      (''setSurroundVirtualizer'', \<lambda>V. setSurroundVirtualizer),
      (''setDRCMode'', \<lambda>V. setDRCMode),
      (''setMS12AudioCompression'', \<lambda>V. setMS12AudioCompression),
      (''setDialogEnhancement'', \<lambda>V. setDialogEnhancement),
      (''setIntelligentEqualizerMode'', \<lambda>V. setIntelligentEqualizerMode),
      (''setGraphicEqualizerMode'', \<lambda>V. setGraphicEqualizerMode),
      (''setMS12AudioProfile'', \<lambda>V. setMS12AudioProfile),
      (''setFaderControl'', \<lambda>V. setFaderControl),
      (''setPrimaryLanguage'', \<lambda>V. setPrimaryLanguage),
      (''setSecondaryLanguage'', \<lambda>V. setSecondaryLanguage),
      (''setMS12ProfileSettingsOverride'', \<lambda>V. setMS12ProfileSettingsOverride),
      (''enableSurroundDecoder'', enableSurroundDecoder),
      (''setMISteering'', setMISteering),
      (''setDolbyVolumeMode'', setDolbyVolumeMode),
      (''setAssociatedAudioMixing'', setAssociatedAudioMixing),
      (''setMuted'', \<lambda>V L. setMuted V)]"

text \<open>Four methods have another meaning for clients of version 2.\<close>

definition audio_methods2 :: "(string \<times> 'd audio_method) list" where
  "audio_methods2 =
     [(''getVolumeLeveller'', \<lambda>V L A ps r s. returned (getVolumeLeveller2 L A ps r s)),
      (''setVolumeLeveller'', \<lambda>V. setVolumeLeveller2),
      (''getSurroundVirtualizer'', \<lambda>V L A ps r s. returned (getSurroundVirtualizer2 L A ps r s)),
      (''setSurroundVirtualizer'', \<lambda>V. setSurroundVirtualizer2)]"

end
