(* ===== verification/DisplayVideo.thy ===== *)
theory DisplayVideo imports DisplayAudio begin

text \<open>
  The video ports in \<open>DisplaySettings/DisplaySettings.cpp\<close>: displays, resolutions, HDR, color depths,
  and the three caches of the file, which hot plugs, resolution changes and power changes invalidate. The
  video part of the device settings library is a record of functions like that of the audio ports; masks
  are the lists of their flags. A result \<open>None\<close> of a method is an exception that leaves it.
\<close>

section \<open>The library\<close>

datatype tv_resolution =
    TV_480i | TV_480p | TV_576i | TV_576p | TV_720p50 | TV_720p | TV_1080p24 | TV_1080p25 | TV_1080p30 | TV_1080i50
  | TV_1080p50 | TV_1080i | TV_1080p | TV_1080p60 | TV_2160p24 | TV_2160p25 | TV_2160p30 | TV_2160p50 | TV_2160p60 | TV_other

datatype color_depth = DEPTH_UNKNOWN | DEPTH_8BIT | DEPTH_10BIT | DEPTH_12BIT | DEPTH_AUTO

datatype surround = dsSURROUNDMODE_DD | dsSURROUNDMODE_DDPLUS | dsSURROUNDMODE_other

datatype zoom = dsVIDEO_ZOOM_NONE | dsVIDEO_ZOOM_FULL | dsVIDEO_ZOOM_other

datatype display_event = dsDISPLAY_RXSENSE_ON | dsDISPLAY_RXSENSE_OFF | dsDISPLAY_other

datatype avi_content = dsAVICONTENT_TYPE_GAME | dsAVICONTENT_TYPE_NOT_SIGNALLED

datatype avi_scan = dsAVI_SCAN_TYPE_UNDERSCAN | dsAVI_SCAN_TYPE_NO_DATA

record output_settings =
  os_videoEOTF :: int
  os_matrixCoefficients :: int
  os_colorSpace :: int
  os_colorDepth :: int
  os_quantizationRange :: int

text \<open>
  \<open>vl_open\<close> is \<open>Host::getVideoOutputPort\<close>, \<open>vl_config\<close> is \<open>VideoOutputPortConfig::getPort\<close>.
  \<open>vl_hdrMask\<close> is the number of a mask and \<open>vl_base64\<close> the encoder of the framework.
\<close>

record 'd video_library =
  vl_defaultPort :: "('d, string) call"
  vl_ports :: "('d, string list) call"
  vl_open :: "string \<Rightarrow> ('d, unit) call"
  vl_config :: "string \<Rightarrow> ('d, unit) call"
  vl_isDisplayConnected :: "string \<Rightarrow> ('d, bool) call"
  vl_isActive :: "string \<Rightarrow> ('d, bool) call"
  vl_supportedResolutions :: "string \<Rightarrow> ('d, string list) call"
  vl_tvResolutions :: "string \<Rightarrow> ('d, tv_resolution list) call"
  vl_getResolution :: "string \<Rightarrow> ('d, string) call"
  vl_setResolution :: "string \<Rightarrow> string \<Rightarrow> bool \<Rightarrow> bool \<Rightarrow> ('d, unit) call"
  vl_defaultResolution :: "string \<Rightarrow> ('d, string) call"
  vl_tvHDR :: "string \<Rightarrow> ('d, dsHDRStandard list) call"
  vl_hdrMask :: "dsHDRStandard list \<Rightarrow> int"
  vl_setForceHDRMode :: "string \<Rightarrow> dsHDRStandard \<Rightarrow> ('d, bool) call"
  vl_videoEOTF :: "string \<Rightarrow> ('d, dsHDRStandard) call"
  vl_outputSettings :: "string \<Rightarrow> ('d, output_settings) call"
  vl_getColorDepth :: "string \<Rightarrow> bool \<Rightarrow> ('d, color_depth) call"
  vl_setColorDepth :: "string \<Rightarrow> color_depth \<Rightarrow> bool \<Rightarrow> ('d, unit) call"
  vl_colorDepths :: "string \<Rightarrow> ('d, color_depth list) call"
  vl_setScartParameter :: "string \<Rightarrow> string \<Rightarrow> string \<Rightarrow> ('d, bool) call"
  vl_isRepeater :: "string \<Rightarrow> ('d, bool) call"
  vl_surroundMode :: "string \<Rightarrow> ('d, surround list) call"
  vl_edid :: "string \<Rightarrow> ('d, u8 list) call"
  vl_hostEdid :: "('d, u8 list) call"
  vl_base64 :: "u8 list \<Rightarrow> string"
  vl_setAVIContentType :: "string \<Rightarrow> avi_content \<Rightarrow> ('d, unit) call"
  vl_setAVIScanInformation :: "string \<Rightarrow> avi_scan \<Rightarrow> ('d, unit) call"
  vl_setAllmEnabled :: "string \<Rightarrow> bool \<Rightarrow> ('d, unit) call"
  vl_videoDevices :: "('d, nat) call"
  vl_settopResolutions :: "('d, string list) call"
  vl_settopHDR :: "('d, dsHDRStandard list) call"
  vl_getDFC :: "('d, string) call"
  vl_setDFC :: "string \<Rightarrow> ('d, unit) call"
  vl_ms12Config :: "('d, string) call"

text \<open>One step after another; an exception ends both.\<close>

definition and_then :: "('d arc \<Rightarrow> 'a option \<times> 'd arc) \<Rightarrow> ('a \<Rightarrow> 'd arc \<Rightarrow> 'b option \<times> 'd arc) \<Rightarrow> 'd arc \<Rightarrow> 'b option \<times> 'd arc" where
  "and_then f k s = (case f s of (None, s1) \<Rightarrow> (None, s1) | (Some x, s1) \<Rightarrow> k x s1)"

text \<open>A body whose exception is caught without more.\<close>

definition or_else :: "('d arc \<Rightarrow> 'a option \<times> 'd arc) \<Rightarrow> 'a \<Rightarrow> 'd arc \<Rightarrow> 'a \<times> 'd arc" where
  "or_else f x s = (case f s of (None, s1) \<Rightarrow> (x, s1) | (Some y, s1) \<Rightarrow> (y, s1))"

section \<open>Connected displays\<close>

text \<open>
  The state of the display at the port HDMI0 is kept; for any other port, and when nothing is kept, the
  library is asked, and its answer is kept.
\<close>

definition isDisplayConnected :: "'d video_library \<Rightarrow> string \<Rightarrow> 'd arc \<Rightarrow> bool option \<times> 'd arc" where
  "isDisplayConnected W port s =
     (if \<not> ar_displayCacheUpdated s \<or> \<not> stringContains port ''HDMI0'' then
        ds_call (vl_config W port) (\<lambda>_. ds_call (vl_isDisplayConnected W port) (\<lambda>b s1.
          (Some b, s1\<lparr>ar_isHdmiDisplayConnected := b, ar_displayCacheUpdated := True\<rparr>))) s
      else (Some (ar_isHdmiDisplayConnected s), s))"

text \<open>The loop over the ports: a port of HDMI is the only one listed, and ends it.\<close>

fun displays_loop :: "'d video_library \<Rightarrow> string list \<Rightarrow> string list \<Rightarrow> 'd arc \<Rightarrow> string list \<times> 'd arc" where
  "displays_loop W [] acc s = (acc, s)"
| "displays_loop W (p # ps) acc s =
     (case isDisplayConnected W p s of
        (None, s1) \<Rightarrow> (acc, s1)
      | (Some False, s1) \<Rightarrow> displays_loop W ps acc s1
      | (Some True, s1) \<Rightarrow>
          if map c_tolower (take 4 p) = ''hdmi'' then ([p], s1) else displays_loop W ps (vectorSet acc p) s1)"

definition getConnectedVideoDisplaysHelper :: "'d video_library \<Rightarrow> 'd arc \<Rightarrow> string list \<times> 'd arc" where
  "getConnectedVideoDisplaysHelper W =
     or_else (ds_call (vl_ports W) (\<lambda>ports s. (let (ds, s1) = displays_loop W ports [] s in (Some ds, s1)))) []"

definition getConnectedVideoDisplays :: "'d video_library \<Rightarrow> json_params \<Rightarrow> json_params \<Rightarrow> 'd arc \<Rightarrow> reply \<times> 'd arc" where
  "getConnectedVideoDisplays W parameters response s =
     (let (displays, s1) = getConnectedVideoDisplaysHelper W s
      in (returnResponse True (setResponseArray ''connectedVideoDisplays'' displays response), s1))"

definition getSupportedVideoDisplays :: "'d video_library \<Rightarrow> json_params \<Rightarrow> json_params \<Rightarrow> 'd arc \<Rightarrow> reply \<times> 'd arc" where
  "getSupportedVideoDisplays W parameters response s =
     (let (displays, s1) = or_else (ds_call (vl_ports W) (\<lambda>ports s. (Some (foldl vectorSet [] ports), s))) [] s
      in (returnResponse True (setResponseArray ''supportedVideoDisplays'' displays response), s1))"

text \<open>
  The display that a method is about. The name of the default port is read outside the \<open>try\<close> block.
\<close>

definition with_display ::
  "'d video_library \<Rightarrow> json_params \<Rightarrow> (string \<Rightarrow> 'd arc \<Rightarrow> reply \<times> 'd arc) \<Rightarrow> 'd arc \<Rightarrow> reply option \<times> 'd arc" where
  "with_display W parameters k =
     ds_call (vl_defaultPort W) (\<lambda>port s.
       returned (k (if HasLabel parameters ''videoDisplay'' then member_String parameters ''videoDisplay'' else port) s))"

text \<open>The display at the default port, when it is connected.\<close>

definition at_default :: "'d video_library \<Rightarrow> (string \<Rightarrow> 'd body) \<Rightarrow> 'd body \<Rightarrow> 'd body" where
  "at_default W k unconnected =
     ds_call (vl_defaultPort W) (\<lambda>port. ds_call (vl_open W port) (\<lambda>_. and_then (isDisplayConnected W port)
       (\<lambda>connected. if connected then k port else unconnected)))"

definition getActiveInput :: "'d video_library \<Rightarrow> json_params \<Rightarrow> json_params \<Rightarrow> 'd arc \<Rightarrow> reply option \<times> 'd arc" where
  "getActiveInput W parameters response =
     with_display W parameters (\<lambda>display.
       attempt (ds_call (vl_open W display) (\<lambda>_. and_then (isDisplayConnected W display) (\<lambda>connected.
           if connected then ds_call (vl_isActive W display) (\<lambda>b. answer True (set_member ''activeInput'' (JBool b) response))
           else answer True (set_member ''activeInput'' (JBool False) response))))
         (False, set_member ''activeInput'' (JBool False) response))"

section \<open>Resolutions\<close>

definition getSupportedResolutions :: "'d video_library \<Rightarrow> json_params \<Rightarrow> json_params \<Rightarrow> 'd arc \<Rightarrow> reply option \<times> 'd arc" where
  "getSupportedResolutions W parameters response =
     with_display W parameters (\<lambda>display s.
       (let (names, s1) = or_else (ds_call (vl_open W display) (\<lambda>_. ds_call (vl_supportedResolutions W display)
              (\<lambda>rs s. (Some (foldl vectorSet [] rs), s)))) [] s
        in (returnResponse True (setResponseArray ''supportedResolutions'' names response), s1)))"

definition tv_resolution_names :: "tv_resolution list \<Rightarrow> string list" where
  "tv_resolution_names rs =
     (if rs = [] then [''none''] else [])
     @ concat (map (\<lambda>(r, name). if r \<in> set rs then [name] else [])
         [(TV_480i, ''480i''), (TV_480i, ''480i60''), (TV_480p, ''480p''), (TV_480p, ''480p60''), (TV_576i, ''576i50''),
          (TV_576p, ''576p50''), (TV_720p50, ''720p50''), (TV_720p, ''720p''), (TV_720p, ''720p60''), (TV_1080p24, ''1080p24''),
          (TV_1080p25, ''1080p25''), (TV_1080p30, ''1080p30''), (TV_1080i50, ''1080i50''), (TV_1080p50, ''1080p50''),
          (TV_1080i, ''1080i''), (TV_1080i, ''1080i60''), (TV_1080p, ''1080p''), (TV_1080p, ''1080p60''),
          (TV_1080p60, ''1080p60''), (TV_2160p24, ''2160p24''), (TV_2160p25, ''2160p25''), (TV_2160p30, ''2160p30''),
          (TV_2160p50, ''2160p50''), (TV_2160p60, ''2160p60'')])"

definition getSupportedTvResolutions :: "'d video_library \<Rightarrow> json_params \<Rightarrow> json_params \<Rightarrow> 'd arc \<Rightarrow> reply option \<times> 'd arc" where
  "getSupportedTvResolutions W parameters response =
     with_display W parameters (\<lambda>display s.
       (let (names, s1) = or_else (ds_call (vl_open W display) (\<lambda>_. ds_call (vl_tvResolutions W display)
              (\<lambda>rs s. (Some (tv_resolution_names rs), s)))) [] s
        in (returnResponse True (setResponseArray ''supportedTvResolutions'' names response), s1)))"

text \<open>Without a video device the methods of the set-top box fail at once.\<close>

definition on_device :: "'d video_library \<Rightarrow> 'd body \<Rightarrow> json_params \<Rightarrow> 'd body" where
  "on_device W k response = ds_call (vl_videoDevices W) (\<lambda>n. if n < 1 then answer False response else k)"

definition getSupportedSettopResolutions :: "'d video_library \<Rightarrow> json_params \<Rightarrow> json_params \<Rightarrow> 'd arc \<Rightarrow> reply \<times> 'd arc" where
  "getSupportedSettopResolutions W parameters response =
     attempt (on_device W (ds_call (vl_settopResolutions W) (\<lambda>rs.
         answer True (setResponseArray ''supportedSettopResolutions'' (foldl vectorSet [] rs) response))) response)
       (True, setResponseArray ''supportedSettopResolutions'' [] response)"

text \<open>Width and height by the prefix of the name, in the order of the tests.\<close>

definition resolution_size :: "string \<Rightarrow> int \<times> int" where
  "resolution_size res =
     (if take 3 res = ''480'' then (720, 480)
      else if take 3 res = ''576'' then (720, 576)
      else if take 3 res = ''720'' then (1280, 720)
      else if take 3 res = ''768'' then (1366, 768)
      else if take 4 res = ''1080'' then (1920, 1080)
      else if take 4 res = ''2160'' then (3840, 2160)
      else if take 9 res = ''4096x2160'' then (4096, 2160)
      else (1280, 720))"

definition resolution_members :: "string \<Rightarrow> json_params \<Rightarrow> json_params" where
  "resolution_members res response =
     set_member ''progressive'' (JBool (CHR ''p'' \<in> set res))
       (set_member ''h'' (JNumber (snd (resolution_size res)))
         (set_member ''w'' (JNumber (fst (resolution_size res)))
           (set_member ''resolution'' (JString res) response)))"

text \<open>The resolution that was read last is kept, of whatever display it was.\<close>

definition getCurrentResolution :: "'d video_library \<Rightarrow> json_params \<Rightarrow> json_params \<Rightarrow> 'd arc \<Rightarrow> reply option \<times> 'd arc" where
  "getCurrentResolution W parameters response =
     with_display W parameters (\<lambda>display.
       attempt (\<lambda>s.
           if \<not> ar_resCacheUpdated s then
             ds_call (vl_open W display) (\<lambda>_. ds_call (vl_getResolution W display) (\<lambda>res s1.
               answer True (resolution_members res response) (s1\<lparr>ar_currentResolution := res, ar_resCacheUpdated := True\<rparr>))) s
           else answer True (resolution_members (ar_currentResolution s) response) s)
         (False, response))"

definition setCurrentResolution :: "variant \<Rightarrow> 'd video_library \<Rightarrow> json_params \<Rightarrow> json_params \<Rightarrow> 'd arc \<Rightarrow> reply \<times> 'd arc" where
  "setCurrentResolution V W parameters response s =
     (let videoDisplay = member_String parameters ''videoDisplay'';
          persist = (if HasLabel parameters ''persist'' then variant_Boolean V (member parameters ''persist'') else True);
          isIgnoreEdid = (if HasLabel parameters ''ignoreEdid'' then variant_Boolean V (member parameters ''ignoreEdid'') else False)
      in if \<not> HasLabel parameters ''videoDisplay'' \<or> \<not> HasLabel parameters ''resolution'' then (returnResponse False response, s)
         else attempt (ds_call (vl_open W videoDisplay) (\<lambda>_.
             ds_call (vl_setResolution W videoDisplay (member_String parameters ''resolution'') persist isIgnoreEdid)
               (\<lambda>_. answer True response)))
           (False, response) s)"

definition getDefaultResolution :: "'d video_library \<Rightarrow> json_params \<Rightarrow> json_params \<Rightarrow> 'd arc \<Rightarrow> reply \<times> 'd arc" where
  "getDefaultResolution W parameters response =
     attempt (at_default W
         (\<lambda>port. ds_call (vl_defaultResolution W port) (\<lambda>res. answer True (set_member ''defaultResolution'' (JString res) response)))
         (answer False response))
       (False, response)"

section \<open>HDR\<close>

text \<open>\<open>dsHDRSTANDARD_NONE\<close> is the number 0.\<close>

definition no_hdr :: "dsHDRStandard list \<Rightarrow> bool" where
  "no_hdr caps = list_all (\<lambda>c. c = dsHDRSTANDARD_NONE) caps"

definition hdr_names :: "dsHDRStandard list \<Rightarrow> string list" where
  "hdr_names caps =
     (if no_hdr caps then [''none''] else [])
     @ concat (map (\<lambda>(c, name). if c \<in> set caps then [name] else [])
         [(dsHDRSTANDARD_HDR10, ''HDR10''), (dsHDRSTANDARD_HDR10PLUS, ''HDR10PLUS''), (dsHDRSTANDARD_HLG, ''HLG''),
          (dsHDRSTANDARD_DolbyVision, ''Dolby Vision''), (dsHDRSTANDARD_TechnicolorPrime, ''Technicolor Prime''),
          (dsHDRSTANDARD_SDR, ''SDR'')])"

definition hdr_members :: "dsHDRStandard list \<Rightarrow> json_params \<Rightarrow> json_params" where
  "hdr_members caps response =
     setResponseArray ''standards'' (hdr_names caps) (set_member ''supportsHDR'' (JBool (\<not> no_hdr caps)) response)"

definition getTvHDRSupport :: "'d video_library \<Rightarrow> json_params \<Rightarrow> json_params \<Rightarrow> 'd arc \<Rightarrow> reply \<times> 'd arc" where
  "getTvHDRSupport W parameters response =
     attempt (ds_call (vl_defaultPort W) (\<lambda>port. ds_call (vl_config W port) (\<lambda>_. and_then (isDisplayConnected W port)
         (\<lambda>connected. if connected then ds_call (vl_tvHDR W port) (\<lambda>caps. answer True (hdr_members caps response))
           else answer True (hdr_members [] response)))))
       (True, hdr_members [] response)"

text \<open>What the device supports is asked once; an exception counts as no HDR, and is kept too.\<close>

definition getSettopHDRSupport :: "'d video_library \<Rightarrow> json_params \<Rightarrow> json_params \<Rightarrow> 'd arc \<Rightarrow> reply \<times> 'd arc" where
  "getSettopHDRSupport W parameters response s =
     (if \<not> ar_hdrCache s then
        (case ds_call (vl_videoDevices W) (\<lambda>n. if n < 1 then (\<lambda>s. (Some None, s))
                else ds_call (vl_settopHDR W) (\<lambda>caps s. (Some (Some caps), s))) s of
           (Some None, s1) \<Rightarrow> (returnResponse False response, s1)
         | (Some (Some caps), s1) \<Rightarrow>
             (returnResponse True (hdr_members caps response), s1\<lparr>ar_stbHDRcapabilities := caps, ar_hdrCache := True\<rparr>)
         | (None, s1) \<Rightarrow>
             (returnResponse True (hdr_members [] response), s1\<lparr>ar_stbHDRcapabilities := [], ar_hdrCache := True\<rparr>))
      else (returnResponse True (hdr_members (ar_stbHDRcapabilities s) response), s))"

definition getTVHDRCapabilities :: "'d video_library \<Rightarrow> json_params \<Rightarrow> json_params \<Rightarrow> 'd arc \<Rightarrow> reply \<times> 'd arc" where
  "getTVHDRCapabilities W parameters response =
     attempt (at_default W
         (\<lambda>port. ds_call (vl_tvHDR W port) (\<lambda>caps. answer True (set_member ''capabilities'' (JNumber (vl_hdrMask W caps)) response)))
         (answer False response))
       (False, response)"

fun getVideoFormatTypeToString :: "dsHDRStandard \<Rightarrow> string" where
  "getVideoFormatTypeToString dsHDRSTANDARD_SDR = ''SDR''"
| "getVideoFormatTypeToString dsHDRSTANDARD_HDR10 = ''HDR10''"
| "getVideoFormatTypeToString dsHDRSTANDARD_HDR10PLUS = ''HDR10PLUS''"
| "getVideoFormatTypeToString dsHDRSTANDARD_HLG = ''HLG''"
| "getVideoFormatTypeToString dsHDRSTANDARD_DolbyVision = ''DV''"
| "getVideoFormatTypeToString dsHDRSTANDARD_TechnicolorPrime = ''TechnicolorPrime''"
| "getVideoFormatTypeToString _ = ''NONE''"

definition getVideoFormatTypeFromString :: "string \<Rightarrow> dsHDRStandard" where
  "getVideoFormatTypeFromString name =
     (if name = ''SDR'' then dsHDRSTANDARD_SDR
      else if name = ''NONE'' then dsHDRSTANDARD_NONE
      else if name = ''HDR10'' then dsHDRSTANDARD_HDR10
      else if name = ''HDR10PLUS'' then dsHDRSTANDARD_HDR10PLUS
      else if name = ''DV'' then dsHDRSTANDARD_DolbyVision
      else if name = ''HLG'' then dsHDRSTANDARD_TechnicolorPrime
      else if name = ''TechnicolorPrime'' then dsHDRSTANDARD_NONE
      else dsHDRSTANDARD_Invalid)"

definition video_format_names :: "dsHDRStandard list \<Rightarrow> string list" where
  "video_format_names caps =
     concat (map (\<lambda>(c, name). if c \<in> set caps then [name] else [])
       [(dsHDRSTANDARD_HDR10, ''HDR10''), (dsHDRSTANDARD_HLG, ''HLG''), (dsHDRSTANDARD_DolbyVision, ''DV''),
        (dsHDRSTANDARD_TechnicolorPrime, ''Technicolor Prime''), (dsHDRSTANDARD_HDR10PLUS, ''HDR10PLUS''),
        (dsHDRSTANDARD_SDR, ''SDR'')])"

definition getSupportedVideoFormats :: "'d video_library \<Rightarrow> 'd arc \<Rightarrow> string list \<times> 'd arc" where
  "getSupportedVideoFormats W =
     or_else (ds_call (vl_videoDevices W) (\<lambda>n. if n < 1 then (\<lambda>s. (Some [], s))
         else ds_call (vl_settopHDR W) (\<lambda>caps s. (Some (video_format_names caps), s)))) []"

definition getVideoFormat :: "'d video_library \<Rightarrow> json_params \<Rightarrow> json_params \<Rightarrow> 'd arc \<Rightarrow> reply \<times> 'd arc" where
  "getVideoFormat W parameters response s =
     (let (current, s1) =
        or_else (ds_call (vl_defaultPort W) (\<lambda>port. ds_call (vl_open W port) (\<lambda>_. and_then (isDisplayConnected W port)
          (\<lambda>connected. if connected then ds_call (vl_videoEOTF W port) (\<lambda>f s. (Some (getVideoFormatTypeToString f), s))
            else (\<lambda>s. (Some ''NONE'', s)))))) ''NONE'' s;
          (formats, s2) = getSupportedVideoFormats W s1
      in (returnResponse True (setResponseArray ''supportedVideoFormat'' formats
            (set_member ''currentVideoFormat'' (JString current) response)), s2))"

definition setForceHDRMode :: "'d video_library \<Rightarrow> json_params \<Rightarrow> json_params \<Rightarrow> 'd arc \<Rightarrow> reply \<times> 'd arc" where
  "setForceHDRMode W parameters response =
     (if \<not> HasLabel parameters ''hdr_mode'' then (\<lambda>s. (returnResponse False response, s))
      else attempt (at_default W
          (\<lambda>port. ds_call (vl_setForceHDRMode W port (getVideoFormatTypeFromString (member_String parameters ''hdr_mode'')))
            (\<lambda>b. answer b response))
          (answer False response))
        (False, response))"

section \<open>Other settings of the display\<close>

text \<open>At most 65535 bytes are encoded.\<close>

definition readEDID :: "'d video_library \<Rightarrow> json_params \<Rightarrow> json_params \<Rightarrow> 'd arc \<Rightarrow> reply \<times> 'd arc" where
  "readEDID W parameters response =
     attempt (at_default W
         (\<lambda>port. ds_call (vl_edid W port) (\<lambda>bytes. answer True (set_member ''EDID'' (JString (vl_base64 W (take 65535 bytes))) response)))
         (answer True (set_member ''EDID'' (JString []) response)))
       (True, set_member ''EDID'' (JString []) response)"

definition unknown_edid :: "u8 list" where
  "unknown_edid = map (word_of_nat \<circ> ascii) ''unknown''"

definition readHostEDID :: "'d video_library \<Rightarrow> json_params \<Rightarrow> json_params \<Rightarrow> 'd arc \<Rightarrow> reply \<times> 'd arc" where
  "readHostEDID W parameters response =
     attempt (ds_call (vl_hostEdid W) (\<lambda>bytes. answer True (set_member ''EDID'' (JString (vl_base64 W (take 65535 bytes))) response)))
       (True, set_member ''EDID'' (JString (vl_base64 W unknown_edid)) response)"

definition output_members :: "output_settings \<Rightarrow> json_params \<Rightarrow> json_params" where
  "output_members v response =
     set_member ''quantizationRange'' (JNumber (os_quantizationRange v)) (set_member ''videoEOTF'' (JNumber (os_videoEOTF v))
       (set_member ''matrixCoefficients'' (JNumber (os_matrixCoefficients v)) (set_member ''colorDepth'' (JNumber (os_colorDepth v))
         (set_member ''colorSpace'' (JNumber (os_colorSpace v)) response))))"

definition getCurrentOutputSettings :: "'d video_library \<Rightarrow> json_params \<Rightarrow> json_params \<Rightarrow> 'd arc \<Rightarrow> reply \<times> 'd arc" where
  "getCurrentOutputSettings W parameters response =
     attempt (at_default W
         (\<lambda>port. ds_call (vl_outputSettings W port) (\<lambda>v. answer True (output_members v response)))
         (answer False response))
       (False, response)"

definition isConnectedDeviceRepeater :: "'d video_library \<Rightarrow> json_params \<Rightarrow> json_params \<Rightarrow> 'd arc \<Rightarrow> reply \<times> 'd arc" where
  "isConnectedDeviceRepeater W parameters response =
     attempt (at_default W
         (\<lambda>port. ds_call (vl_isRepeater W port) (\<lambda>b. answer True (set_member ''HdcpRepeater'' (JBool b) response)))
         (answer False (set_member ''HdcpRepeater'' (JBool False) response)))
       (False, response)"

definition setScartParameter :: "'d video_library \<Rightarrow> json_params \<Rightarrow> json_params \<Rightarrow> 'd arc \<Rightarrow> reply \<times> 'd arc" where
  "setScartParameter W parameters response =
     (if \<not> HasLabel parameters ''scartParameter'' \<or> \<not> HasLabel parameters ''scartParameterData''
      then (\<lambda>s. (returnResponse False response, s))
      else attempt (ds_call (vl_open W ''SCART0'') (\<lambda>_. ds_call (vl_setScartParameter W ''SCART0''
            (member_String parameters ''scartParameter'') (member_String parameters ''scartParameterData'')) (\<lambda>b. answer b response)))
        (False, response))"

fun color_depth_name :: "color_depth \<Rightarrow> string option" where
  "color_depth_name DEPTH_8BIT = Some ''8 Bit''"
| "color_depth_name DEPTH_10BIT = Some ''10 Bit''"
| "color_depth_name DEPTH_12BIT = Some ''12 Bit''"
| "color_depth_name DEPTH_AUTO = Some ''Auto''"
| "color_depth_name DEPTH_UNKNOWN = None"

text \<open>The comparisons with \<open>strncmp\<close> look at the beginning only.\<close>

definition color_depth_of :: "string \<Rightarrow> color_depth" where
  "color_depth_of name =
     (if take 5 name = ''8 Bit'' then DEPTH_8BIT
      else if take 6 name = ''10 Bit'' then DEPTH_10BIT
      else if take 6 name = ''12 Bit'' then DEPTH_12BIT
      else if take 4 name = ''Auto'' then DEPTH_AUTO
      else DEPTH_UNKNOWN)"

definition persist_of :: "variant \<Rightarrow> json_params \<Rightarrow> bool" where
  "persist_of V parameters = (if HasLabel parameters ''persist'' then variant_Boolean V (member parameters ''persist'') else True)"

definition getPreferredColorDepth :: "variant \<Rightarrow> 'd video_library \<Rightarrow> json_params \<Rightarrow> json_params \<Rightarrow> 'd arc \<Rightarrow> reply option \<times> 'd arc" where
  "getPreferredColorDepth V W parameters response =
     with_display W parameters (\<lambda>display.
       attempt (ds_call (vl_open W display) (\<lambda>_. ds_call (vl_getColorDepth W display (persist_of V parameters)) (\<lambda>depth.
           case color_depth_name depth of
             Some name \<Rightarrow> answer True (set_member ''colorDepth'' (JString name) response)
           | None \<Rightarrow> answer False response)))
         (False, response))"

definition setPreferredColorDepth :: "variant \<Rightarrow> 'd video_library \<Rightarrow> json_params \<Rightarrow> json_params \<Rightarrow> 'd arc \<Rightarrow> reply \<times> 'd arc" where
  "setPreferredColorDepth V W parameters response =
     (let display = member_String parameters ''videoDisplay''; depth = color_depth_of (member_String parameters ''colorDepth'')
      in if \<not> HasLabel parameters ''videoDisplay'' \<or> \<not> HasLabel parameters ''colorDepth''
         then (\<lambda>s. (returnResponse False response, s))
         else attempt (ds_call (vl_open W display) (\<lambda>_.
             if depth = DEPTH_UNKNOWN then answer False response
             else ds_call (vl_setColorDepth W display depth (persist_of V parameters)) (\<lambda>_. answer True response)))
           (False, response))"

definition color_depth_names :: "color_depth list \<Rightarrow> string list" where
  "color_depth_names caps =
     (if list_all (\<lambda>c. c = DEPTH_UNKNOWN) caps then [''none''] else [])
     @ concat (map (\<lambda>(c, name). if c \<in> set caps then [name] else [])
         [(DEPTH_8BIT, ''8 Bit''), (DEPTH_10BIT, ''10 Bit''), (DEPTH_12BIT, ''12 Bit''), (DEPTH_AUTO, ''Auto'')])"

definition getColorDepthCapabilities :: "'d video_library \<Rightarrow> json_params \<Rightarrow> json_params \<Rightarrow> 'd arc \<Rightarrow> reply option \<times> 'd arc" where
  "getColorDepthCapabilities W parameters response =
     with_display W parameters (\<lambda>display s.
       (let (names, s1) = or_else (ds_call (vl_open W display) (\<lambda>_. ds_call (vl_colorDepths W display)
              (\<lambda>caps s. (Some (color_depth_names caps), s)))) [] s
        in (returnResponse True (setResponseArray ''capabilities'' names response), s1)))"

definition getSupportedMS12Config :: "'d video_library \<Rightarrow> json_params \<Rightarrow> json_params \<Rightarrow> 'd arc \<Rightarrow> reply \<times> 'd arc" where
  "getSupportedMS12Config W parameters response =
     attempt (ds_call (vl_ms12Config W) (\<lambda>config. answer True (set_member ''ms12config'' (JString config) response)))
       (False, response)"

definition getZoomSetting :: "'d video_library \<Rightarrow> json_params \<Rightarrow> json_params \<Rightarrow> 'd arc \<Rightarrow> reply \<times> 'd arc" where
  "getZoomSetting W parameters response s =
     (case ds_call (vl_videoDevices W) (\<lambda>n. if n < 1 then (\<lambda>s. (Some None, s))
             else ds_call (vl_getDFC W) (\<lambda>name s. (Some (Some name), s))) s of
        (Some None, s1) \<Rightarrow> (returnResponse False response, s1)
      | (Some (Some name), s1) \<Rightarrow> (returnResponse True (set_member ''zoomSetting'' (JString name) response), s1)
      | (None, s1) \<Rightarrow> (returnResponse False (set_member ''zoomSetting'' (JString ''unknown'') response), s1))"

definition setZoomSetting :: "'d video_library \<Rightarrow> json_params \<Rightarrow> json_params \<Rightarrow> 'd arc \<Rightarrow> reply \<times> 'd arc" where
  "setZoomSetting W parameters response =
     (if \<not> HasLabel parameters ''zoomSetting'' then (\<lambda>s. (returnResponse False response, s))
      else attempt (on_device W (ds_call (vl_setDFC W (member_String parameters ''zoomSetting'')) (\<lambda>_. answer True response)) response)
        (False, response))"

end
