(* ===== verification/DisplayEvents.thy ===== *)
theory DisplayEvents imports DisplayVideo begin

text \<open>
  The events of the device settings library in \<open>DisplaySettings/DisplaySettings.cpp\<close> that are not about
  routing: hot plugs of the display, resolutions, formats, zoom and the audio settings; and the methods
  that need both the audio and the video ports: sound modes, delays and Dolby Atmos.
\<close>

section \<open>Events of the video ports\<close>

text \<open>A display whose name contains that of the default port without its number is reported at once.\<close>

definition notify_resolution :: "int \<Rightarrow> int \<Rightarrow> string \<Rightarrow> string \<Rightarrow> 'd arc \<Rightarrow> 'd arc" where
  "notify_resolution w h display res =
     sendNotify ''resolutionChanged''
       [(''width'', JNumber w), (''height'', JNumber h), (''videoDisplayType'', JString display), (''resolution'', JString res)]"

fun resolution_loop ::
  "'d video_library \<Rightarrow> int \<Rightarrow> int \<Rightarrow> string list \<Rightarrow> (string \<times> string) option \<Rightarrow> 'd arc \<Rightarrow> unit option \<times> 'd arc" where
  "resolution_loop W w h [] first s =
     (Some (), case first of None \<Rightarrow> s | Some (display, res) \<Rightarrow> notify_resolution w h display res s)"
| "resolution_loop W w h (d # ds) first s =
     (let (res, s1) = or_else (ds_call (vl_open W d) (\<lambda>_. ds_call (vl_getResolution W d) (\<lambda>r s. (Some r, s)))) [] s
      in if res = [] then resolution_loop W w h ds first s1
         else (case vl_defaultPort W (ar_dev s1) of
             (None, dv) \<Rightarrow> (None, s1\<lparr>ar_dev := dv\<rparr>)
           | (Some port, dv) \<Rightarrow>
               if stringContains d (butlast port) then (Some (), notify_resolution w h d res (s1\<lparr>ar_dev := dv\<rparr>))
               else resolution_loop W w h ds (if first = None then Some (d, res) else first) (s1\<lparr>ar_dev := dv\<rparr>)))"

definition resolutionChanged :: "'d video_library \<Rightarrow> int \<Rightarrow> int \<Rightarrow> 'd arc \<Rightarrow> unit option \<times> 'd arc" where
  "resolutionChanged W w h s =
     (let (displays, s1) = getConnectedVideoDisplaysHelper W s in resolution_loop W w h displays None s1)"

definition resolutionPreChange :: "'d arc \<Rightarrow> 'd arc" where
  "resolutionPreChange = sendNotify ''resolutionPreChange'' []"

definition OnResolutionPreChange :: "'d arc \<Rightarrow> 'd arc" where
  "OnResolutionPreChange s = (resolutionPreChange s)\<lparr>ar_resCacheUpdated := False\<rparr>"

definition OnResolutionPostChange :: "'d video_library \<Rightarrow> int \<Rightarrow> int \<Rightarrow> 'd arc \<Rightarrow> unit option \<times> 'd arc" where
  "OnResolutionPostChange W w h = resolutionChanged W w h"

text \<open>The game mode is signalled to every connected display.\<close>

definition signal_display :: "'d video_library \<Rightarrow> bool \<Rightarrow> string \<Rightarrow> 'd arc \<Rightarrow> unit option \<times> 'd arc" where
  "signal_display W enable p =
     ds_call (vl_open W p) (\<lambda>_. and_then (isDisplayConnected W p) (\<lambda>connected.
       if connected then
         ds_call (vl_setAVIContentType W p (if enable then dsAVICONTENT_TYPE_GAME else dsAVICONTENT_TYPE_NOT_SIGNALLED)) (\<lambda>_.
         ds_call (vl_setAVIScanInformation W p (if enable then dsAVI_SCAN_TYPE_UNDERSCAN else dsAVI_SCAN_TYPE_NO_DATA)) (\<lambda>_.
         ds_call (vl_setAllmEnabled W p enable) (\<lambda>_ s. (Some (), s))))
       else (\<lambda>s. (Some (), s))))"

fun signal_displays :: "'d video_library \<Rightarrow> bool \<Rightarrow> string list \<Rightarrow> 'd arc \<Rightarrow> 'd arc" where
  "signal_displays W enable [] s = s"
| "signal_displays W enable (p # ps) s = signal_displays W enable ps (snd (signal_display W enable p s))"

definition Request :: "'d video_library \<Rightarrow> string \<Rightarrow> 'd arc \<Rightarrow> hresult \<times> 'd arc" where
  "Request W newState s =
     (let (displays, s1) = getConnectedVideoDisplaysHelper W s
      in (if displays = [] then ERROR_GENERAL else ERROR_NONE, signal_displays W (newState = ''GAME'') displays s1))"

text \<open>The event 0 is that a display was connected. The first event is always announced.\<close>

definition connectedVideoDisplaysUpdated :: "'d video_library \<Rightarrow> string \<Rightarrow> int \<Rightarrow> 'd arc \<Rightarrow> 'd arc" where
  "connectedVideoDisplaysUpdated W currentAllmState hdmiHotPlugEvent s =
     (let s1 =
        (if ar_firstHotPlug s \<or> ar_previousHotPlug s \<noteq> hdmiHotPlugEvent then
           sendNotify ''connectedVideoDisplaysUpdated''
             [(''connectedVideoDisplays'', JArray (if hdmiHotPlugEvent = 0 then [JString ''HDMI0''] else []))]
             (s\<lparr>ar_firstHotPlug := False\<rparr>)
         else s);
          s2 = s1\<lparr>ar_previousHotPlug := hdmiHotPlugEvent\<rparr>
      in if currentAllmState = ''VIDEO'' \<or> currentAllmState = ''GAME'' then snd (Request W currentAllmState s2) else s2)"

definition OnDisplayHDMIHotPlug :: "'d video_library \<Rightarrow> string \<Rightarrow> int \<Rightarrow> 'd arc \<Rightarrow> 'd arc" where
  "OnDisplayHDMIHotPlug W currentAllmState displayEvent s =
     connectedVideoDisplaysUpdated W currentAllmState displayEvent
       (s\<lparr>ar_resCacheUpdated := False, ar_displayCacheUpdated := False, ar_hdrCache := False\<rparr>)"

definition activeInputChanged :: "bool \<Rightarrow> 'd arc \<Rightarrow> 'd arc" where
  "activeInputChanged activeInput = sendNotify ''activeInputChanged'' [(''activeInput'', JBool activeInput)]"

definition OnDisplayRxSense :: "display_event \<Rightarrow> 'd arc \<Rightarrow> 'd arc" where
  "OnDisplayRxSense e s =
     (case e of
        dsDISPLAY_RXSENSE_ON \<Rightarrow> activeInputChanged True s
      | dsDISPLAY_RXSENSE_OFF \<Rightarrow> activeInputChanged False s
      | dsDISPLAY_other \<Rightarrow> s)"

definition zoomSettingUpdated :: "string \<Rightarrow> 'd arc \<Rightarrow> 'd arc" where
  "zoomSettingUpdated zoomSetting =
     sendNotify ''zoomSettingUpdated'' [(''zoomSetting'', JString zoomSetting), (''videoDisplayType'', JString ''all'')]"

definition OnZoomSettingsChanged :: "zoom \<Rightarrow> 'd arc \<Rightarrow> 'd arc" where
  "OnZoomSettingsChanged z s =
     (case z of
        dsVIDEO_ZOOM_NONE \<Rightarrow> zoomSettingUpdated ''NONE'' s
      | dsVIDEO_ZOOM_FULL \<Rightarrow> zoomSettingUpdated ''FULL'' s
      | dsVIDEO_ZOOM_other \<Rightarrow> s)"

definition notifyVideoFormatChange :: "'d video_library \<Rightarrow> dsHDRStandard \<Rightarrow> 'd arc \<Rightarrow> 'd arc" where
  "notifyVideoFormatChange W videoFormat s =
     (let (formats, s1) = getSupportedVideoFormats W s
      in sendNotify ''videoFormatChanged''
           (setResponseArray ''supportedVideoFormat'' formats
             [(''currentVideoFormat'', JString (getVideoFormatTypeToString videoFormat))]) s1)"

definition OnVideoFormatUpdate :: "'d video_library \<Rightarrow> dsHDRStandard \<Rightarrow> 'd arc \<Rightarrow> 'd arc" where
  "OnVideoFormatUpdate W = notifyVideoFormatChange W"

section \<open>Events of the audio settings\<close>

definition notifyAudioFormatChange :: "audio_format \<Rightarrow> 'd arc \<Rightarrow> 'd arc" where
  "notifyAudioFormatChange audioFormat = sendNotify ''audioFormatChanged'' (audioFormatToString audioFormat [])"

definition OnAudioFormatUpdate :: "audio_format \<Rightarrow> 'd arc \<Rightarrow> 'd arc" where
  "OnAudioFormatUpdate = notifyAudioFormatChange"

text \<open>The log says that an unknown capability is not notified; it is, without its member.\<close>

definition notifyAtmosCapabilityChange :: "atmos \<Rightarrow> 'd arc \<Rightarrow> 'd arc" where
  "notifyAtmosCapabilityChange atmosCaps =
     sendNotify ''AtmosCapabilityChanged''
       (case atmosCaps of
          dsAUDIO_ATMOS_ATMOSMETADATA \<Rightarrow> [(''currentAtmosCapability'', JString ''ATMOS_SUPPORTED'')]
        | dsAUDIO_ATMOS_NOTSUPPORTED \<Rightarrow> [(''currentAtmosCapability'', JString ''ATMOS_NOT_SUPPORTED'')]
        | _ \<Rightarrow> [])"

definition OnDolbyAtmosCapabilitiesChanged :: "atmos \<Rightarrow> bool \<Rightarrow> 'd arc \<Rightarrow> 'd arc" where
  "OnDolbyAtmosCapabilitiesChanged atmosCapability status s =
     (if status then notifyAtmosCapabilityChange atmosCapability s else s)"

definition notifyAssociatedAudioMixingChange :: "bool \<Rightarrow> 'd arc \<Rightarrow> 'd arc" where
  "notifyAssociatedAudioMixingChange mixing = sendNotify ''associatedAudioMixingChanged'' [(''mixing'', JBool mixing)]"

definition OnAssociatedAudioMixingChanged :: "bool \<Rightarrow> 'd arc \<Rightarrow> 'd arc" where
  "OnAssociatedAudioMixingChanged = notifyAssociatedAudioMixingChange"

text \<open>The balance is converted to the type of the parameter, a \<open>bool\<close>.\<close>

definition notifyFaderControlChange :: "bool \<Rightarrow> 'd arc \<Rightarrow> 'd arc" where
  "notifyFaderControlChange mixerbalance = sendNotify ''faderControlChanged'' [(''mixerBalance'', JBool mixerbalance)]"

definition OnAudioFaderControlChanged :: "int \<Rightarrow> 'd arc \<Rightarrow> 'd arc" where
  "OnAudioFaderControlChanged mixerBalance = notifyFaderControlChange (mixerBalance \<noteq> 0)"

definition notifyPrimaryLanguageChange :: "string \<Rightarrow> 'd arc \<Rightarrow> 'd arc" where
  "notifyPrimaryLanguageChange pLang = sendNotify ''primaryLanguageChanged'' [(''primaryLanguage'', JString pLang)]"

definition OnAudioPrimaryLanguageChanged :: "string \<Rightarrow> 'd arc \<Rightarrow> 'd arc" where
  "OnAudioPrimaryLanguageChanged = notifyPrimaryLanguageChange"

definition notifySecondaryLanguageChange :: "string \<Rightarrow> 'd arc \<Rightarrow> 'd arc" where
  "notifySecondaryLanguageChange sLang = sendNotify ''secondaryLanguageChanged'' [(''secondaryLanguage'', JString sLang)]"

definition OnAudioSecondaryLanguageChanged :: "string \<Rightarrow> 'd arc \<Rightarrow> 'd arc" where
  "OnAudioSecondaryLanguageChanged = notifySecondaryLanguageChange"

section \<open>Sound modes and delays\<close>

definition getSupportedAudioPorts :: "'d audio_host \<Rightarrow> json_params \<Rightarrow> json_params \<Rightarrow> 'd arc \<Rightarrow> reply \<times> 'd arc" where
  "getSupportedAudioPorts A parameters response s =
     (let (ports, s1) = or_else (ds_call (ah_ports A) (\<lambda>ps s. (Some (foldl vectorSet [] ps), s))) [] s
      in (returnResponse True (setResponseArray ''supportedAudioPorts'' ports response), s1))"

text \<open>
  Without a port the default port decides: HDMI0 if its display is connected, or if no display is, and
  SPDIF0 if another display is.
\<close>

fun any_display :: "'d video_library \<Rightarrow> string list \<Rightarrow> 'd arc \<Rightarrow> bool option \<times> 'd arc" where
  "any_display W [] s = (Some False, s)"
| "any_display W (p # ps) s = and_then (isDisplayConnected W p) (\<lambda>b. if b then (\<lambda>s. (Some True, s)) else any_display W ps) s"

definition audio_port :: "'d video_library \<Rightarrow> string \<Rightarrow> 'd arc \<Rightarrow> string option \<times> 'd arc" where
  "audio_port W port =
     (if port \<noteq> [] then (\<lambda>s. (Some port, s))
      else ds_call (vl_defaultPort W) (\<lambda>p. and_then (isDisplayConnected W p) (\<lambda>connected.
        if connected then (\<lambda>s. (Some ''HDMI0'', s))
        else ds_call (vl_ports W) (\<lambda>ports. and_then (any_display W ports) (\<lambda>any s. (Some (if any then ''SPDIF0'' else ''HDMI0''), s))))))"

definition named_port :: "json_params \<Rightarrow> string" where
  "named_port parameters = (case checkPortName (member_String parameters ''audioPort'') of Some p \<Rightarrow> p | None \<Rightarrow> ''HDMI0'')"

definition auto_text :: "surround list \<Rightarrow> string" where
  "auto_text surroundMode =
     (if dsSURROUNDMODE_DDPLUS \<in> set surroundMode then ''AUTO (Dolby Digital Plus)''
      else if dsSURROUNDMODE_DD \<in> set surroundMode then ''AUTO (Dolby Digital 5.1)''
      else ''AUTO (Stereo)'')"


definition give :: "'a \<Rightarrow> 'd arc \<Rightarrow> 'a option \<times> 'd arc" where
  "give x s = (Some x, s)"

definition connected_mode ::
  "'d port_library \<Rightarrow> 'd audio_host \<Rightarrow> 'd video_library \<Rightarrow> string \<Rightarrow> 'd arc \<Rightarrow> string option \<times> 'd arc" where
  "connected_mode L A W p =
     ds_call (ah_getStereoMode A p) (\<lambda>mode. ds_call (ah_getType A p) (\<lambda>t.
       if t = kHDMI then
         ds_call (ah_getStereoAuto A p) (\<lambda>auto.
           if auto \<or> mode = kSurround then
             ds_call (vl_defaultPort W) (\<lambda>v. ds_call (vl_open W v) (\<lambda>_. ds_call (vl_surroundMode W v) (\<lambda>m. give (auto_text m))))
           else give (if mode = kDD then ''DOLBYDIGITAL'' else if mode = kDDPlus then ''DOLBYDIGITALPLUS'' else pl_modeName L mode))
       else if t = kARC \<or> t = kSPDIF \<or> t = kHEADPHONE then
         ds_call (ah_getStereoAuto A p) (\<lambda>auto. give (if auto then ''AUTO'' else pl_modeName L mode))
       else give (pl_modeName L mode)))"

definition unconnected_mode ::
  "'d port_library \<Rightarrow> 'd audio_host \<Rightarrow> string \<Rightarrow> 'd arc \<Rightarrow> string option \<times> 'd arc" where
  "unconnected_mode L A p =
     ds_call (ah_getType A p) (\<lambda>t.
       if t = kARC then
         ds_call (ah_getStereoAuto A p) (\<lambda>auto. if auto then give ''AUTO''
           else ds_call (ah_getStereoMode A p) (\<lambda>mode. give (pl_modeName L mode)))
       else if t = kHDMI then
         ds_call (ah_getStereoMode A p) (\<lambda>mode. ds_call (ah_getStereoAuto A p) (\<lambda>auto.
           give (if auto \<or> mode = kSurround then ''AUTO (Stereo)'' else pl_modeName L mode)))
       else give (pl_modeName L kStereo))"

definition getSoundMode ::
  "'d port_library \<Rightarrow> 'd audio_host \<Rightarrow> 'd video_library \<Rightarrow> json_params \<Rightarrow> json_params \<Rightarrow> 'd arc \<Rightarrow> reply \<times> 'd arc" where
  "getSoundMode L A W parameters response s =
     (let (text, s1) =
        or_else (and_then (audio_port W (named_port parameters)) (\<lambda>p. ds_call (ah_open A p) (\<lambda>_. ds_call (ah_isConnected A p)
          (\<lambda>connected. if connected then connected_mode L A W p else unconnected_mode L A p)))) (pl_modeName L kStereo) s
      in (returnResponse True (set_member ''soundMode'' (JString text) response), s1))"

text \<open>
  The modes of the ports whose names contain the one asked for; whether one of them is the surround mode,
  which is not listed; and whether there was no exception.
\<close>

fun modes_of :: "string list \<Rightarrow> string list \<Rightarrow> bool \<Rightarrow> string list \<times> bool" where
  "modes_of [] acc surround = (acc, surround)"
| "modes_of (m # ms) acc surround =
     (if map c_toupper m = ''SURROUND'' then modes_of ms acc True else modes_of ms (vectorSet acc m) surround)"

fun modes_loop ::
  "'d port_library \<Rightarrow> string \<Rightarrow> string list \<Rightarrow> string list \<times> bool \<Rightarrow> 'd arc \<Rightarrow> (bool \<times> string list \<times> bool) \<times> 'd arc" where
  "modes_loop L audioPort [] acc s = ((True, acc), s)"
| "modes_loop L audioPort (p # ps) acc s =
     (if audioPort = [] \<or> stringContains p audioPort then
        (case pl_stereoModes L p (ar_dev s) of
           (None, d) \<Rightarrow> ((False, acc), s\<lparr>ar_dev := d\<rparr>)
         | (Some ms, d) \<Rightarrow> modes_loop L audioPort ps (modes_of ms (fst acc) (snd acc)) (s\<lparr>ar_dev := d\<rparr>))
      else modes_loop L audioPort ps acc s)"

definition hdmi_modes :: "'d video_library \<Rightarrow> 'd arc \<Rightarrow> string list option \<times> 'd arc" where
  "hdmi_modes W =
     ds_call (vl_defaultPort W) (\<lambda>v. ds_call (vl_config W v) (\<lambda>_ s.
       (let (surround, s1) = or_else (ds_call (vl_surroundMode W v) give) [] s
        in and_then (isDisplayConnected W v) (\<lambda>connected.
             give (if connected \<and> surround \<noteq> [] then
                     (if dsSURROUNDMODE_DDPLUS \<in> set surround then [''AUTO (Dolby Digital Plus)'']
                      else if dsSURROUNDMODE_DD \<in> set surround then [''AUTO (Dolby Digital 5.1)''] else [])
                   else [''AUTO (Stereo)''])) s1)))"

definition getSupportedAudioModes ::
  "'d port_library \<Rightarrow> 'd audio_host \<Rightarrow> 'd video_library \<Rightarrow> json_params \<Rightarrow> json_params \<Rightarrow> 'd arc \<Rightarrow> reply \<times> 'd arc" where
  "getSupportedAudioModes L A W parameters response s =
     (let audioPort = (if HasLabel parameters ''audioPort'' then member_String parameters ''audioPort'' else []);
          (modes, s1) =
        (case ds_call (ah_ports A) give s of
           (None, s1) \<Rightarrow> ([], s1)
         | (Some ports, s1) \<Rightarrow>
             (case modes_loop L audioPort ports ([], False) s1 of
                ((False, acc, surround), s2) \<Rightarrow> (acc, s2)
              | ((True, acc, surround), s2) \<Rightarrow>
                  if stringContains audioPort ''HDMI0'' then (let (more, s3) = or_else (hdmi_modes W) [] s2 in (acc @ more, s3))
                  else if (audioPort = [] \<or> stringContains audioPort ''SPDIF0'' \<or> stringContains audioPort HDMI_ARC0) \<and> surround
                  then (acc @ [''SURROUND''], s2) else (acc, s2)))
      in (returnResponse True (setResponseArray ''supportedAudioModes'' modes response), s1))"

definition getAudioDelay ::
  "'d port_library \<Rightarrow> 'd audio_host \<Rightarrow> 'd video_library \<Rightarrow> json_params \<Rightarrow> json_params \<Rightarrow> 'd arc \<Rightarrow> reply \<times> 'd arc" where
  "getAudioDelay L A W parameters response =
     attempt (and_then (audio_port W (named_port parameters)) (\<lambda>p. ds_call (ah_open A p) (\<lambda>_. ds_call (pl_getDelay L p)
         (\<lambda>ms. answer True (set_member ''audioDelay'' (JString (to_string_int ms)) response)))))
       (False, response)"

definition setAudioDelay ::
  "'d port_library \<Rightarrow> 'd audio_host \<Rightarrow> 'd video_library \<Rightarrow> json_params \<Rightarrow> json_params \<Rightarrow> 'd arc \<Rightarrow> reply \<times> 'd arc" where
  "setAudioDelay L A W parameters response =
     (if \<not> HasLabel parameters ''audioDelay'' then (\<lambda>s. (returnResponse False response, s))
      else (case stoi (member_String parameters ''audioDelay'') of
          None \<Rightarrow> (\<lambda>s. (returnResponse False response, s))
        | Some ms \<Rightarrow>
            if ms < 0 then (\<lambda>s. (returnResponse False response, s))
            else attempt (and_then (audio_port W (named_port parameters)) (\<lambda>p. ds_call (ah_open A p) (\<lambda>_.
                ds_call (pl_setDelay L p ms) (\<lambda>_. answer True response))))
              (False, response)))"

section \<open>Dolby Atmos\<close>

definition sink_atmos :: "'d port_library \<Rightarrow> string option \<Rightarrow> json_params \<Rightarrow> 'd body" where
  "sink_atmos L p response =
     ds_call (pl_getAtmos L p) (\<lambda>a. answer True (set_member ''atmos_capability'' (JNumber (pl_atmosCode L a)) response))"

definition atmos_port :: "'d port_library \<Rightarrow> 'd audio_host \<Rightarrow> string option \<Rightarrow> json_params \<Rightarrow> 'd body" where
  "atmos_port L A audioPort response =
     ds_call (pl_isHDMIOutPortPresent L) (\<lambda>present.
       if present then
         ds_call (ah_open A ''HDMI0'') (\<lambda>_.
           (let p = (case audioPort of Some p \<Rightarrow> p | None \<Rightarrow> ''HDMI0'');
                ask = ds_call (ah_isConnected A p) (\<lambda>c. if c then sink_atmos L (Some p) response else answer False response)
            in if audioPort = None then ask else ds_call (ah_open A p) (\<lambda>_. ask)))
       else
         (case audioPort of
            None \<Rightarrow> sink_atmos L None response
          | Some p \<Rightarrow> ds_call (ah_open A p) (\<lambda>_. ds_call (ah_isConnected A p) (\<lambda>c s.
              if c \<and> (p = HDMI_ARC0 \<longrightarrow> ar_arcEarcAudioEnabled s) then sink_atmos L (Some p) response s
              else answer False response s))))"

definition getSinkAtmosCapability ::
  "'d port_library \<Rightarrow> 'd audio_host \<Rightarrow> json_params \<Rightarrow> json_params \<Rightarrow> 'd arc \<Rightarrow> reply \<times> 'd arc" where
  "getSinkAtmosCapability L A parameters response =
     (let audioPort = (if HasLabel parameters ''audioPort'' then member_String parameters ''audioPort'' else ''NULL'')
      in attempt
           (if audioPort = ''NULL'' then atmos_port L A None response
            else ds_call (ah_ports A) (\<lambda>ports.
              if audioPort \<in> set ports then atmos_port L A (Some audioPort) response else answer False response))
           (False, response))"

definition setAudioAtmosOutputMode ::
  "variant \<Rightarrow> 'd port_library \<Rightarrow> 'd audio_host \<Rightarrow> json_params \<Rightarrow> json_params \<Rightarrow> 'd arc \<Rightarrow> reply \<times> 'd arc" where
  "setAudioAtmosOutputMode V L A parameters response =
     (let enable = variant_Boolean V (member parameters ''enable'')
      in if \<not> HasLabel parameters ''enable'' then (\<lambda>s. (returnResponse False response, s))
         else attempt
           (ds_call (pl_isHDMIOutPortPresent L) (\<lambda>present.
              if present then
                ds_call (ah_open A ''HDMI0'') (\<lambda>_. ds_call (ah_isConnected A ''HDMI0'') (\<lambda>c.
                  if c then ds_call (pl_setAtmosMode L (Some ''HDMI0'') enable) (\<lambda>_. answer True response)
                  else answer False response))
              else ds_call (pl_setAtmosMode L None enable) (\<lambda>_. answer True response)))
           (False, response))"

end
