(* ===== verification/AudioSettings.thy ===== *)
theory AudioSettings imports DisplayAudio ArcInv begin

text \<open>
  What the methods of \<open>DisplayAudio\<close> guarantee: which part of the plugin they touch, the
  notifications of the mute status, the two versions of the level methods, what is read back after
  it was written, and which calls are left by an exception.
\<close>

section \<open>What the methods touch\<close>

definition keeps :: "('d arc \<Rightarrow> 'd arc \<Rightarrow> bool) \<Rightarrow> ('d arc \<Rightarrow> 'a \<times> 'd arc) \<Rightarrow> bool" where
  "keeps R f = (\<forall>s. R s (snd (f s)))"

text \<open>
  What the library says of its functions for the settings of ports: whatever a port is set to, a view \<open>v\<close>
  of the device that has nothing to do with settings stays as it is, such as whether the ARC port is
  switched on. It says nothing of the functions that switch ports and ARC.
\<close>

definition keeps_view :: "('d \<Rightarrow> 'v) \<Rightarrow> ('d, 'a) call \<Rightarrow> bool" where
  "keeps_view v f = (\<forall>d. v (snd (f d)) = v d)"

definition settings_keep :: "('d \<Rightarrow> 'v) \<Rightarrow> 'd port_library \<Rightarrow> 'd audio_host \<Rightarrow> bool" where
  "settings_keep v L A =
     ((\<forall>k p. keeps_view v (pl_getNumber L k p)) \<and> (\<forall>k p n. keeps_view v (pl_setNumber L k p n))
    \<and> (\<forall>k p. keeps_view v (pl_getFlag L k p)) \<and> (\<forall>k p b. keeps_view v (pl_setFlag L k p b))
    \<and> (\<forall>k p. keeps_view v (pl_getLevel L k p)) \<and> (\<forall>k p l. keeps_view v (pl_setLevel L k p l))
    \<and> (\<forall>k p. keeps_view v (pl_reset L k p)) \<and> (\<forall>p. keeps_view v (pl_getProfile L p))
    \<and> (\<forall>p n. keeps_view v (pl_setProfile L p n)) \<and> (\<forall>p a b c e. keeps_view v (pl_override L p a b c e))
    \<and> (\<forall>p. keeps_view v (pl_profiles L p)) \<and> (\<forall>p. keeps_view v (pl_audioCapabilities L p))
    \<and> (\<forall>p. keeps_view v (pl_ms12Capabilities L p)) \<and> keeps_view v (pl_isHDMIOutPortPresent L)
    \<and> (\<forall>p. keeps_view v (pl_getMixing L p)) \<and> (\<forall>p b. keeps_view v (pl_setMixing L p b))
    \<and> (\<forall>p. keeps_view v (pl_getFader L p)) \<and> (\<forall>p n. keeps_view v (pl_setFader L p n))
    \<and> (\<forall>k p. keeps_view v (pl_getLanguage L k p)) \<and> (\<forall>k p l. keeps_view v (pl_setLanguage L k p l))
    \<and> keeps_view v (pl_currentFormat L)
    \<and> (\<forall>p. keeps_view v (ah_open A p)) \<and> (\<forall>p. keeps_view v (ah_isConnected A p))
    \<and> (\<forall>p. keeps_view v (ah_isMuted A p)) \<and> (\<forall>p b. keeps_view v (ah_setMuted A p b)))"

text \<open>A relation of states that calls of the library which keep the view keep.\<close>

locale call_relation =
  fixes R :: "'d arc \<Rightarrow> 'd arc \<Rightarrow> bool" and v :: "'d \<Rightarrow> 'v" and L :: "'d port_library" and A :: "'d audio_host"
  assumes refl: "R s s"
    and dev: "v d = v (ar_dev s) \<Longrightarrow> R (s\<lparr>ar_dev := d\<rparr>) t \<Longrightarrow> R s t"
    and lib: "settings_keep v L A"
begin

lemma call: "keeps_view v f \<Longrightarrow> (\<And>x. keeps R (k x)) \<Longrightarrow> keeps R (ds_call f k)"
  unfolding keeps_def ds_call_def keeps_view_def
  by (auto split: prod.split option.split intro: dev dev [OF _ refl]) (metis dev snd_conv refl)+

lemma library:
  "keeps_view v (pl_getNumber L k1 p)" "keeps_view v (pl_setNumber L k1 p n)" "keeps_view v (pl_getFlag L k2 p)"
  "keeps_view v (pl_setFlag L k2 p b)" "keeps_view v (pl_getLevel L k3 p)" "keeps_view v (pl_setLevel L k3 p l)"
  "keeps_view v (pl_reset L k4 p)" "keeps_view v (pl_getProfile L p)" "keeps_view v (pl_setProfile L p q)"
  "keeps_view v (pl_override L p a1 a2 a3 a4)" "keeps_view v (pl_profiles L p)" "keeps_view v (pl_audioCapabilities L p)"
  "keeps_view v (pl_ms12Capabilities L p)" "keeps_view v (pl_isHDMIOutPortPresent L)" "keeps_view v (pl_getMixing L o1)"
  "keeps_view v (pl_setMixing L o1 b)" "keeps_view v (pl_getFader L o1)" "keeps_view v (pl_setFader L o1 n)"
  "keeps_view v (pl_getLanguage L b o1)" "keeps_view v (pl_setLanguage L b o1 q)" "keeps_view v (pl_currentFormat L)"
  "keeps_view v (ah_open A p)" "keeps_view v (ah_isConnected A p)" "keeps_view v (ah_isMuted A p)"
  using lib unfolding settings_keep_def by (simp_all del: split_paired_All)

lemma answer: "keeps R (answer ok r)"
  by (simp add: keeps_def answer_def refl)

lemma attempt: "keeps R body \<Longrightarrow> keeps R (attempt body failed)"
  unfolding keeps_def attempt_def by (auto split: prod.split option.split) (metis snd_conv)+

lemma returned: "keeps R m \<Longrightarrow> keeps R (\<lambda>s. returned (m s))"
  by (simp add: keeps_def returned_def)

lemma refuse: "keeps R (refuse r)" "keeps R (Pair None)"
  by (simp_all add: keeps_def refuse_def refl)

lemma parsed: "(\<And>n. keeps R (k n)) \<Longrightarrow> keeps R (parsed x k)"
  unfolding keeps_def parsed_def by (auto simp: refl split: option.split)

lemma on_port: "(\<And>p. keeps R (k p)) \<Longrightarrow> keeps R (on_port A ps k)"
  unfolding on_port_def by (intro call library)

lemma on_connected: "(\<And>p. keeps R (k p)) \<Longrightarrow> keeps R u \<Longrightarrow> keeps R (on_connected A ps k u)"
  unfolding on_connected_def by (intro on_port call library) simp

lemma on_port_or_host: "(\<And>p. keeps R (k p)) \<Longrightarrow> keeps R (on_port_or_host L A ps k)"
  unfolding on_port_or_host_def by (intro call library) (auto intro: on_port)

lemma store:
  "(\<And>p. keeps_view v (put p)) \<Longrightarrow> keeps R (store A ps put r)"
  "(\<And>p. keeps_view v (put' p)) \<Longrightarrow> keeps R (store_or_host L A ps put' r)"
  unfolding store_def store_or_host_def by (intro attempt on_port on_port_or_host call answer; assumption)+

lemmas rules = call library answer attempt returned refuse parsed on_port on_connected on_port_or_host store

lemma getters:
  "keeps R (getVolumeLeveller L A ps r)" "keeps R (getVolumeLeveller2 L A ps r)" "keeps R (getBassEnhancer L A ps r)"
  "keeps R (isSurroundDecoderEnabled L A ps r)" "keeps R (getMuted A ps r)" "keeps R (getDRCMode L A ps r)"
  "keeps R (getSurroundVirtualizer L A ps r)" "keeps R (getSurroundVirtualizer2 L A ps r)" "keeps R (getMISteering L A ps r)"
  "keeps R (getMS12AudioCompression L A ps r)" "keeps R (getDolbyVolumeMode L A ps r)" "keeps R (getDialogEnhancement L A ps r)"
  "keeps R (getIntelligentEqualizerMode L A ps r)" "keeps R (getGraphicEqualizerMode L A ps r)"
  "keeps R (getMS12AudioProfile L A ps r)" "keeps R (getSupportedMS12AudioProfiles L A ps r)"
  "keeps R (getAssociatedAudioMixing L A ps r)" "keeps R (getFaderControl L A ps r)" "keeps R (getPrimaryLanguage L A ps r)"
  "keeps R (getSecondaryLanguage L A ps r)" "keeps R (getSettopAudioCapabilities L A ps r)"
  "keeps R (getSettopMS12Capabilities L A ps r)" "keeps R (getAudioFormat L ps r)"
  unfolding getVolumeLeveller_def getVolumeLeveller2_def getBassEnhancer_def isSurroundDecoderEnabled_def getMuted_def
    getDRCMode_def getSurroundVirtualizer_def getSurroundVirtualizer2_def getMISteering_def getMS12AudioCompression_def
    getDolbyVolumeMode_def getDialogEnhancement_def getIntelligentEqualizerMode_def getGraphicEqualizerMode_def
    getMS12AudioProfile_def getSupportedMS12AudioProfiles_def getAssociatedAudioMixing_def getFaderControl_def
    getPrimaryLanguage_def getSecondaryLanguage_def getSettopAudioCapabilities_def getSettopMS12Capabilities_def
    getAudioFormat_def
  by (intro rules; auto split: prod.split intro!: rules)+

lemma setters:
  "keeps R (setVolumeLeveller L A ps r)" "keeps R (setVolumeLeveller2 L A ps r)" "keeps R (enableSurroundDecoder V L A ps r)"
  "keeps R (setBassEnhancer L A ps r)" "keeps R (setSurroundVirtualizer L A ps r)" "keeps R (setSurroundVirtualizer2 L A ps r)"
  "keeps R (setMISteering V L A ps r)" "keeps R (setDRCMode L A ps r)"
  "keeps R (setMS12AudioCompression L A ps r)" "keeps R (setDolbyVolumeMode V L A ps r)" "keeps R (setDialogEnhancement L A ps r)"
  "keeps R (setIntelligentEqualizerMode L A ps r)" "keeps R (setGraphicEqualizerMode L A ps r)"
  "keeps R (setMS12AudioProfile L A ps r)" "keeps R (setMS12ProfileSettingsOverride L A ps r)"
  "keeps R (setAssociatedAudioMixing V L A ps r)" "keeps R (setFaderControl L A ps r)"
  "keeps R (setPrimaryLanguage L A ps r)" "keeps R (setSecondaryLanguage L A ps r)"
  "keeps R (resetDialogEnhancement L A ps r)" "keeps R (resetBassEnhancer L A ps r)"
  "keeps R (resetSurroundVirtualizer L A ps r)" "keeps R (resetVolumeLeveller L A ps r)"
  unfolding setVolumeLeveller_def setVolumeLeveller2_def enableSurroundDecoder_def setBassEnhancer_def
    setSurroundVirtualizer_def setSurroundVirtualizer2_def setMISteering_def setDRCMode_def
    setMS12AudioCompression_def setDolbyVolumeMode_def setDialogEnhancement_def setIntelligentEqualizerMode_def
    setGraphicEqualizerMode_def setMS12AudioProfile_def setMS12ProfileSettingsOverride_def setAssociatedAudioMixing_def
    setFaderControl_def setPrimaryLanguage_def setSecondaryLanguage_def setLanguage_def resetDialogEnhancement_def
    resetBassEnhancer_def resetSurroundVirtualizer_def resetVolumeLeveller_def Let_def
  by (auto split: option.split intro!: rules)

lemma methods: "(name, m) \<in> set audio_methods \<union> set audio_methods2 \<Longrightarrow> name \<noteq> ''setMuted'' \<Longrightarrow> keeps R (m V L A ps r)"
  unfolding audio_methods_def audio_methods2_def by (auto intro!: returned getters setters)

end


text \<open>The device changes and nothing else, and of the device the view stays.\<close>

definition only_device :: "('d \<Rightarrow> 'v) \<Rightarrow> 'd arc \<Rightarrow> 'd arc \<Rightarrow> bool" where
  "only_device v s t = (t = s\<lparr>ar_dev := ar_dev t\<rparr> \<and> v (ar_dev t) = v (ar_dev s))"

lemma device_relation:
  fixes v :: "'d \<Rightarrow> 'v"
  assumes "settings_keep v L A"
  shows "call_relation (only_device v) v L A"
proof unfold_locales
  show "settings_keep v L A" by (rule assms)
  fix s t :: "'d arc" and d
  show "only_device v s s" by (simp add: only_device_def)
  assume d: "v d = v (ar_dev s)" and "only_device v (s\<lparr>ar_dev := d\<rparr>) t"
  then have t: "t = s\<lparr>ar_dev := ar_dev t\<rparr>" "v (ar_dev t) = v d" by (simp_all add: only_device_def)
  then show "only_device v s t" unfolding only_device_def using t(2) d by (intro conjI) (assumption, rule trans)
qed

interpretation device: call_relation "only_device (\<lambda>_. ())" "\<lambda>_. ()" L A for L A
  by (rule device_relation) (simp add: settings_keep_def keeps_view_def)

text \<open>\<open>setMuted\<close> is the only method that tells the UI.\<close>

lemma muted_effect:
  fixes V :: variant and A :: "'d audio_host" and ps r :: json_params and s :: "'d arc"
  assumes "settings_keep v L A"
  defines "b \<equiv> variant_Boolean V (member ps ''muted'')"
  defines "t \<equiv> snd (setMuted V A ps r s)"
  shows "v (ar_dev t) = v (ar_dev s)"
    and "fst (setMuted V A ps r s) = Some (returnResponse True r) \<Longrightarrow>
      t = notify_mute b (s\<lparr>ar_dev := ar_dev t\<rparr>)
      \<and> (\<exists>d. ah_open A (port_of ps) (ar_dev s) = (Some (), d) \<and> ah_setMuted A (port_of ps) b d = (Some (), ar_dev t))"
    and "fst (setMuted V A ps r s) \<noteq> Some (returnResponse True r) \<Longrightarrow> t = s\<lparr>ar_dev := ar_dev t\<rparr>"
proof -
  obtain o1 d1 where 1: "ah_open A (port_of ps) (ar_dev s) = (o1, d1)" by (rule prod.exhaust)
  obtain o2 d2 where 2: "ah_setMuted A (port_of ps) b d1 = (o2, d2)" by (rule prod.exhaust)
  have k: "v d1 = v (ar_dev s)" "v d2 = v d1"
    using assms(1) 1 2 unfolding settings_keep_def keeps_view_def by (metis snd_conv)+
  have ne: "returnResponse True r \<noteq> returnResponse False r" by (simp add: returnResponse_def)
  have m: "setMuted V A ps r s =
     (if \<not> HasLabel ps ''muted'' then (Some (returnResponse False r), s)
      else if o1 = None then (Some (returnResponse False r), s\<lparr>ar_dev := d1\<rparr>)
      else if o2 = None then (Some (returnResponse False r), s\<lparr>ar_dev := d2\<rparr>)
      else (Some (returnResponse True r), notify_mute b (s\<lparr>ar_dev := d2\<rparr>)))"
    using 1 2 unfolding b_def
    by (simp add: setMuted_def refuse_def returned_def attempt_def on_port_def ds_call_def answer_def Let_def split: option.split)
  have n: "ar_dev (notify_mute b (s\<lparr>ar_dev := d2\<rparr>)) = d2" by (simp add: notify_mute_def sendNotify_def)
  show "v (ar_dev t) = v (ar_dev s)" using k n by (simp add: t_def m)
  show "fst (setMuted V A ps r s) = Some (returnResponse True r) \<Longrightarrow>
      t = notify_mute b (s\<lparr>ar_dev := ar_dev t\<rparr>)
      \<and> (\<exists>d. ah_open A (port_of ps) (ar_dev s) = (Some (), d) \<and> ah_setMuted A (port_of ps) b d = (Some (), ar_dev t))"
    using 1 2 n ne by (simp add: t_def m split: if_splits)
  show "fst (setMuted V A ps r s) \<noteq> Some (returnResponse True r) \<Longrightarrow> t = s\<lparr>ar_dev := ar_dev t\<rparr>"
    by (simp add: t_def m split: if_splits)
qed

lemma settings_effect:
  assumes "(name, m) \<in> set audio_methods \<union> set audio_methods2"
  obtains d b where "snd (m V L A ps r s) = notify_mute b (s\<lparr>ar_dev := d\<rparr>)"
proof (cases "name = ''setMuted''")
  case True
  then have m: "m = (\<lambda>V L. setMuted V)" using assms by (auto simp: audio_methods_def audio_methods2_def)
  note e = muted_effect [of "\<lambda>_. ()" L A V ps r s, OF device.lib]
  have "s\<lparr>ar_dev := d\<rparr> = notify_mute (ar_cacheMuted s) (s\<lparr>ar_dev := d\<rparr>)" for d by (simp add: notify_mute_def)
  then show thesis using that e(2,3) unfolding m by metis
next
  case False
  then have "snd (m V L A ps r s) = s\<lparr>ar_dev := ar_dev (snd (m V L A ps r s))\<rparr>"
    using device.methods [OF assms False, of V L A ps r] unfolding keeps_def only_device_def by blast
  moreover have "s\<lparr>ar_dev := d\<rparr> = notify_mute (ar_cacheMuted s) (s\<lparr>ar_dev := d\<rparr>)" for d by (simp add: notify_mute_def)
  ultimately show thesis using that by metis
qed

text \<open>
  C23. The methods for the settings of the ports do not disturb the routing. They keep whatever of the
  device the library's functions for settings keep, such as the state of the ARC port, so they call no
  function that switches ports or ARC; of the plugin all methods but \<open>setMuted\<close> change nothing and
  send nothing. \<open>setMuted\<close> tells the UI the status that it has handed to the port, if the port took
  it and the UI was told another one last, and changes and sends nothing if the port refused.
\<close>

theorem settings_apart:
  fixes m :: "'d audio_method" and V :: variant and L :: "'d port_library" and A :: "'d audio_host"
    and ps r :: json_params and s :: "'d arc"
  assumes "(name, m) \<in> set audio_methods \<union> set audio_methods2" "settings_keep v L A"
  defines "t \<equiv> snd (m V L A ps r s)" and "b \<equiv> variant_Boolean V (member ps ''muted'')"
  shows "v (ar_dev t) = v (ar_dev s)
    \<and> (if name = ''setMuted'' \<and> fst (m V L A ps r s) = Some (returnResponse True r)
       then (\<exists>d. ah_open A (port_of ps) (ar_dev s) = (Some (), d) \<and> ah_setMuted A (port_of ps) b d = (Some (), ar_dev t))
          \<and> t = (if b = ar_cacheMuted s then s\<lparr>ar_dev := ar_dev t\<rparr>
              else s\<lparr>ar_dev := ar_dev t, ar_cacheMuted := b,
                ar_notes := ar_notes s @ [(''muteStatusChanged'', [(''muted'', JBool b)])]\<rparr>)
       else t = s\<lparr>ar_dev := ar_dev t\<rparr>)"
proof (cases "name = ''setMuted''")
  case True
  then have m: "m = (\<lambda>V L. setMuted V)" using assms(1) by (auto simp: audio_methods_def audio_methods2_def)
  have "notify_mute b (s\<lparr>ar_dev := d\<rparr>) = (if b = ar_cacheMuted s then s\<lparr>ar_dev := d\<rparr>
      else s\<lparr>ar_dev := d, ar_cacheMuted := b, ar_notes := ar_notes s @ [(''muteStatusChanged'', [(''muted'', JBool b)])]\<rparr>)" for d
    by (simp add: notify_mute_def sendNotify_def)
  then show ?thesis using muted_effect [OF assms(2), of V ps r s] True unfolding t_def b_def m by auto
next
  case False
  have "keeps (only_device v) (m V L A ps r)"
    by (rule call_relation.methods [OF device_relation [OF assms(2)] assms(1) False])
  then show ?thesis using False unfolding keeps_def only_device_def t_def by auto
qed

text \<open>So they keep what the routing tells the UI.\<close>

lemma ui_settings:
  assumes "(name, m) \<in> set audio_methods \<union> set audio_methods2"
  shows "ui_view (snd (m V L A ps r s)) = ui_view s"
proof -
  obtain d b where "snd (m V L A ps r s) = notify_mute b (s\<lparr>ar_dev := d\<rparr>)"
    using settings_effect [OF assms] .
  then show ?thesis by (auto simp: ui_view_def notify_mute_def sendNotify_def told_append told_one)
qed

section \<open>The mute status\<close>

definition mute_told :: "notifications \<Rightarrow> bool list" where
  "mute_told ns = map (\<lambda>(e, ps). member ps ''muted'' = JBool True) (filter (\<lambda>(e, ps). e = ''muteStatusChanged'') ns)"

lemma mute_told_append: "mute_told (ns @ [(''muteStatusChanged'', [(''muted'', JBool b)])]) = mute_told ns @ [b]"
  by (simp add: mute_told_def member_def)

text \<open>Calls of the methods, one after the other.\<close>

inductive settings_reach :: "'d port_library \<Rightarrow> 'd audio_host \<Rightarrow> 'd arc \<Rightarrow> bool" for L A where
  settings_start: "settings_reach L A (DisplaySettings_ctor junk d)"
| settings_call: "settings_reach L A s \<Longrightarrow> (name, m) \<in> set audio_methods \<union> set audio_methods2
    \<Longrightarrow> settings_reach L A (snd (m V L A ps r s))"

text \<open>
  C24. Whatever settings are called, the UI is told in turn that the audio is muted and that it is not,
  beginning with muted, and what it was told last is what the plugin remembers, which is not kept per
  port.
\<close>

theorem mute_told_in_turn:
  assumes "settings_reach L A s"
  shows "alternate True (mute_told (ar_notes s))
    \<and> ar_cacheMuted s = (mute_told (ar_notes s) \<noteq> [] \<and> last (mute_told (ar_notes s)))"
  using assms
proof induction
  case (settings_start junk d)
  show ?case by (simp add: DisplaySettings_ctor_def mute_told_def)
next
  case (settings_call s name m V ps r)
  obtain d b where "snd (m V L A ps r s) = notify_mute b (s\<lparr>ar_dev := d\<rparr>)"
    using settings_effect [OF settings_call(2)] .
  then show ?case
    using settings_call(3) by (auto simp: notify_mute_def sendNotify_def mute_told_append alternate_snoc)
qed

section \<open>Exceptions\<close>

text \<open>The number in a text that passes the check of \<open>isValidInt\<close>.\<close>

definition number_in :: "string \<Rightarrow> int" where
  "number_in x = (if x \<noteq> [] \<and> hd x = CHR ''-'' then - digits_val 0 (tl x) else digits_val 0 x)"

lemma stoi_valid:
  assumes "isValidInt x"
  shows "stoi x = (if c_int (number_in x) then Some (number_in x) else None)"
proof (cases "hd x = CHR ''-''")
  case True
  then show ?thesis
    using assms not_digit_signs(3)
    by (cases x; cases "tl x") (auto simp: isValidInt_def digits_loop_iff stoi_def number_in_def)
next
  case False
  then obtain c cs where x: "x = c # cs" "c_isdigit c" "c \<noteq> CHR ''-''"
    using assms by (cases x) (auto simp: isValidInt_def digits_loop_iff)
  then have "c \<noteq> CHR ''+''" "\<not> c_isspace c" using not_digit_signs by auto
  then show ?thesis using x by (simp add: stoi_def number_in_def)
qed

lemma unsigned_is_int: "isValidUnsignedInt x \<Longrightarrow> isValidInt x"
  using not_digit_signs(1) by (cases x) (auto simp: isValidUnsignedInt_def isValidInt_def digits_loop_iff)

lemmas stoi_unsigned = stoi_valid [OF unsigned_is_int]

text \<open>A parameter that is there, passes the check and is not an \<open>int\<close>.\<close>

definition too_large :: "(string \<Rightarrow> bool) \<Rightarrow> json_params \<Rightarrow> string \<Rightarrow> bool" where
  "too_large valid ps name =
     (HasLabel ps name \<and> valid (member_String ps name) \<and> \<not> c_int (number_in (member_String ps name)))"

lemma returned_returns: "fst (returned x) \<noteq> None" "fst (refuse r s) \<noteq> None"
  by (simp_all add: returned_def refuse_def)

lemma checked_exceptions:
  "fst (setVolumeLeveller L A ps r s) = None \<longleftrightarrow> too_large isValidUnsignedInt ps ''level''"
  "fst (setBassEnhancer L A ps r s) = None \<longleftrightarrow> too_large isValidUnsignedInt ps ''bassBoost''"
  "fst (setSurroundVirtualizer L A ps r s) = None \<longleftrightarrow> too_large isValidUnsignedInt ps ''boost''"
  "fst (setDRCMode L A ps r s) = None \<longleftrightarrow> too_large isValidUnsignedInt ps ''DRCMode''"
  "fst (setFaderControl L A ps r s) = None \<longleftrightarrow> too_large isValidInt ps ''mixerBalance''"
  by (auto simp: setVolumeLeveller_def setBassEnhancer_def setSurroundVirtualizer_def setDRCMode_def setFaderControl_def
      too_large_def parsed_def stoi_valid stoi_unsigned returned_returns Let_def)

lemma caught_exceptions:
  "fst (setMS12AudioCompression L A ps r s) \<noteq> None" "fst (setDialogEnhancement L A ps r s) \<noteq> None"
  "fst (setIntelligentEqualizerMode L A ps r s) \<noteq> None" "fst (setGraphicEqualizerMode L A ps r s) \<noteq> None"
  "fst (setMS12AudioProfile L A ps r s) \<noteq> None" "fst (setMS12ProfileSettingsOverride L A ps r s) \<noteq> None"
  "fst (setPrimaryLanguage L A ps r s) \<noteq> None" "fst (setSecondaryLanguage L A ps r s) \<noteq> None"
  "fst (enableSurroundDecoder V L A ps r s) \<noteq> None" "fst (setMISteering V L A ps r s) \<noteq> None"
  "fst (setDolbyVolumeMode V L A ps r s) \<noteq> None" "fst (setAssociatedAudioMixing V L A ps r s) \<noteq> None"
  "fst (setMuted V A ps r s) \<noteq> None"
  by (auto simp: setMS12AudioCompression_def setDialogEnhancement_def setIntelligentEqualizerMode_def
      setGraphicEqualizerMode_def setMS12AudioProfile_def setMS12ProfileSettingsOverride_def setPrimaryLanguage_def
      setSecondaryLanguage_def setLanguage_def enableSurroundDecoder_def setMISteering_def setDolbyVolumeMode_def
      setAssociatedAudioMixing_def setMuted_def returned_returns Let_def simp del: not_None_eq split: option.split)

text \<open>
  A number of too many digits passes the checks and ends the call by an exception that nothing
  catches: this happens to five methods, for the parameter that they check, and to no other method of
  version 1.
\<close>

theorem settings_exceptions:
  assumes "(name, m) \<in> set audio_methods"
  shows "fst (m V L A ps r s) = None \<longleftrightarrow>
     name = ''setVolumeLeveller'' \<and> too_large isValidUnsignedInt ps ''level''
   \<or> name = ''setBassEnhancer'' \<and> too_large isValidUnsignedInt ps ''bassBoost''
   \<or> name = ''setSurroundVirtualizer'' \<and> too_large isValidUnsignedInt ps ''boost''
   \<or> name = ''setDRCMode'' \<and> too_large isValidUnsignedInt ps ''DRCMode''
   \<or> name = ''setFaderControl'' \<and> too_large isValidInt ps ''mixerBalance''"
  using assms unfolding audio_methods_def list.set insert_iff prod.inject empty_iff
  by (elim disjE conjE FalseE) (simp_all add: checked_exceptions caught_exceptions returned_returns del: not_None_eq)


section \<open>The two versions of the levels\<close>

lemma number_mode: "stoi ''0'' = Some 0" "stoi ''1'' = Some 1" "isValidUnsignedInt ''0''" "isValidUnsignedInt ''1''"
  by (simp_all add: stoi_def isValidUnsignedInt_def c_isdigit_def c_isspace_def ascii_def c_int_def)

lemma port_of_mode: "port_of (set_member ''mode'' v ps) = port_of ps"
  by (simp add: port_of_def HasLabel_def member_String_def map_of_set_member)

lemma on_port_mode: "on_port A (set_member ''mode'' v ps) = on_port A ps"
  unfolding on_port_def fun_eq_iff port_of_mode by simp

lemma store_mode: "store A (set_member ''mode'' v ps) = store A ps"
  unfolding store_def fun_eq_iff on_port_mode by simp

text \<open>
  C31. A method of version 1 that sets a level is that of version 2 with the mode off for the level 0
  and on for any other, exceptions included.
\<close>

theorem versions_agree:
  assumes "HasLabel ps name" "isValidUnsignedInt (member_String ps name)"
  defines "ps2 \<equiv> set_member ''mode'' (JString (if number_in (member_String ps name) = 0 then ''0'' else ''1'')) ps"
  shows "(name = ''level'' \<longrightarrow> setVolumeLeveller L A ps r = setVolumeLeveller2 L A ps2 r)
    \<and> (name = ''boost'' \<longrightarrow> setSurroundVirtualizer L A ps r = setSurroundVirtualizer2 L A ps2 r)"
proof -
  have label: "HasLabel ps2 ''mode''" by (simp add: ps2_def HasLabel_def map_of_set_member)
  have mode: "member_String ps2 ''mode'' = (if number_in (member_String ps name) = 0 then ''0'' else ''1'')"
    by (simp add: ps2_def member_String_def)
  have other: "k \<noteq> ''mode'' \<Longrightarrow> member_String ps2 k = member_String ps k" for k
    by (simp add: ps2_def member_String_def)
  have store: "store A ps2 = store A ps" unfolding ps2_def by (rule store_mode)
  define n where "n = number_in (member_String ps name)"
  have int: "c_int (0::int)" by (simp add: c_int_def)
  have valid: "isValidUnsignedInt (member_String ps2 ''mode'')" unfolding mode by (simp add: number_mode)
  have stoi: "stoi (member_String ps name) = (if c_int n then Some n else None)"
    unfolding n_def by (rule stoi_unsigned [OF assms(2)])
  have level: "level_of_mode (member_String ps2 ''mode'') (member_String ps name) =
      (if c_int n then Some (Some (if n = 0 then 0 else 1, n)) else None)"
    using int unfolding mode n_def [symmetric] by (simp add: level_of_mode_def number_mode stoi)
  show ?thesis
  proof (intro conjI impI)
    assume name: "name = ''level''"
    show "setVolumeLeveller L A ps r = setVolumeLeveller2 L A ps2 r"
      using assms(1,2) label valid level stoi other [of "''level''"] store unfolding name
      by (intro ext) (simp add: setVolumeLeveller_def setVolumeLeveller2_def parsed_def Let_def)
  next
    assume name: "name = ''boost''"
    show "setSurroundVirtualizer L A ps r = setSurroundVirtualizer2 L A ps2 r"
      using assms(1,2) label valid level stoi other [of "''boost''"] store unfolding name
      by (intro ext) (simp add: setSurroundVirtualizer_def setSurroundVirtualizer2_def parsed_def Let_def)
  qed
qed

section \<open>Levels that are read back\<close>

text \<open>A connected port that keeps the levels it is given; \<open>lev\<close> reads them.\<close>

definition level_port :: "'d port_library \<Rightarrow> 'd audio_host \<Rightarrow> string \<Rightarrow> ('d \<Rightarrow> port_level \<Rightarrow> int \<times> int) \<Rightarrow> bool" where
  "level_port L A p lev =
     (\<forall>d. ah_open A p d = (Some (), d) \<and> ah_isConnected A p d = (Some True, d)
        \<and> (\<forall>k. pl_getLevel L k p d = (Some (lev d k), d))
        \<and> (\<forall>k l. fst (pl_setLevel L k p l d) = Some () \<and> lev (snd (pl_setLevel L k p l d)) = (lev d)(k := l)))"

lemma level_read:
  assumes "level_port L A (port_of ps) lev"
  shows "getVolumeLeveller2 L A ps r s =
      (returnResponse True (set_member ''level'' (JNumber (snd (lev (ar_dev s) VolumeLeveller)))
         (set_member ''mode'' (JNumber (fst (lev (ar_dev s) VolumeLeveller))) r)), s)"
    "getVolumeLeveller L A ps r s =
      (returnResponse True (set_member ''level'' (JNumber (snd (lev (ar_dev s) VolumeLeveller)))
         (set_member ''enable'' (JBool (fst (lev (ar_dev s) VolumeLeveller) \<noteq> 0)) r)), s)"
  using assms
  by (simp_all add: getVolumeLeveller2_def getVolumeLeveller_def attempt_def on_connected_def on_port_def ds_call_def
      answer_def level_port_def split_def)

lemma level_stored:
  assumes "level_port L A (port_of ps) lev"
  shows "\<exists>s'. store A ps (\<lambda>p. pl_setLevel L k p l) r s = (returnResponse True r, s')
    \<and> lev (ar_dev s') = (lev (ar_dev s))(k := l)"
proof -
  obtain d where "pl_setLevel L k (port_of ps) l (ar_dev s) = (Some (), d)" "lev d = (lev (ar_dev s))(k := l)"
    using assms unfolding level_port_def by (metis prod.collapse)
  then show ?thesis
    using assms by (simp add: store_def attempt_def on_port_def ds_call_def answer_def level_port_def)
qed

text \<open>
  C32. On a connected port that keeps its levels, setting the volume leveller succeeds for the modes 0, 1
  and 2 only, and both versions read back what was set: the mode, or whether it is on, and the level, which
  is 0 unless the mode is 1.
\<close>

theorem leveller_roundtrip:
  assumes "level_port L A (port_of ps) lev" "port_of qs = port_of ps"
    "setVolumeLeveller2 L A ps r s = (Some (ERROR_NONE, r'), t)"
  shows "\<exists>mode level. mode \<in> {0, 1, 2} \<and> stoi (member_String ps ''mode'') = Some mode
    \<and> (if mode = 1 then stoi (member_String ps ''level'') = Some level else level = 0)
    \<and> fst (getVolumeLeveller2 L A qs q t) =
        returnResponse True (set_member ''level'' (JNumber level) (set_member ''mode'' (JNumber mode) q))
    \<and> fst (getVolumeLeveller L A qs q t) =
        returnResponse True (set_member ''level'' (JNumber level) (set_member ''enable'' (JBool (mode \<noteq> 0)) q))"
proof -
  obtain mode level where m: "level_of_mode (member_String ps ''mode'') (member_String ps ''level'') = Some (Some (mode, level))"
    "returned (store A ps (\<lambda>p. pl_setLevel L VolumeLeveller p (mode, level)) r s) = (Some (ERROR_NONE, r'), t)"
    using assms(3)
    by (auto simp: setVolumeLeveller2_def Let_def refuse_def returnResponse_def split: if_splits option.splits)
  obtain s' where s': "store A ps (\<lambda>p. pl_setLevel L VolumeLeveller p (mode, level)) r s = (returnResponse True r, s')"
    "lev (ar_dev s') = (lev (ar_dev s))(VolumeLeveller := (mode, level))"
    using level_stored [OF assms(1)] by blast
  then have "t = s'" using m(2) by (simp add: returned_def)
  then have "lev (ar_dev t) VolumeLeveller = (mode, level)" using s'(2) by simp
  moreover have "level_port L A (port_of qs) lev" using assms(1,2) by simp
  moreover have "mode \<in> {0, 1, 2} \<and> stoi (member_String ps ''mode'') = Some mode
      \<and> (if mode = 1 then stoi (member_String ps ''level'') = Some level else level = 0)"
    using m(1) by (auto simp: level_of_mode_def split: option.splits if_splits)
  ultimately show ?thesis by (intro exI [of _ mode] exI [of _ level]) (simp add: level_read)
qed

text \<open>The level is not checked: in mode 1 a text that is no number ends the call by an exception.\<close>

lemma unchecked_level:
  assumes "HasLabel ps ''mode''" "isValidUnsignedInt (member_String ps ''mode'')"
  shows "fst (setVolumeLeveller2 L A ps r s) = None \<longleftrightarrow>
     \<not> c_int (number_in (member_String ps ''mode''))
   \<or> number_in (member_String ps ''mode'') = 1 \<and> stoi (member_String ps ''level'') = None"
proof -
  have "c_int (1::int)" by (simp add: c_int_def)
  then show ?thesis
    using assms
    by (auto simp: setVolumeLeveller2_def level_of_mode_def stoi_unsigned Let_def returned_returns simp del: not_None_eq
        split: option.split)
qed


section \<open>Examples\<close>

text \<open>A port that keeps its levels and its mute status, and nothing else.\<close>

definition no_call :: "('d, 'a) call" where
  "no_call d = (None, d)"

definition level_library :: "(bool \<times> (port_level \<Rightarrow> int \<times> int)) port_library" where
  "level_library = \<lparr>
     pl_getNumber = (\<lambda>k p. no_call), pl_setNumber = (\<lambda>k p n. no_call), pl_getFlag = (\<lambda>k p. no_call),
     pl_setFlag = (\<lambda>k p b. no_call), pl_getLevel = (\<lambda>k p d. (Some (snd d k), d)),
     pl_setLevel = (\<lambda>k p l d. (Some (), fst d, (snd d)(k := l))), pl_reset = (\<lambda>k p. no_call),
     pl_getProfile = (\<lambda>p. no_call), pl_setProfile = (\<lambda>p n. no_call), pl_override = (\<lambda>p a b c e. no_call),
     pl_profiles = (\<lambda>p. no_call), pl_audioCapabilities = (\<lambda>p. no_call), pl_ms12Capabilities = (\<lambda>p. no_call),
     pl_isHDMIOutPortPresent = no_call, pl_getMixing = (\<lambda>p. no_call), pl_setMixing = (\<lambda>p b. no_call),
     pl_getFader = (\<lambda>p. no_call), pl_setFader = (\<lambda>p n. no_call), pl_getLanguage = (\<lambda>k p. no_call),
     pl_setLanguage = (\<lambda>k p l. no_call), pl_currentFormat = no_call, pl_atmosCode = (\<lambda>a. 0),
     pl_getAtmos = (\<lambda>p. no_call), pl_modeName = (\<lambda>m. []), pl_stereoModes = (\<lambda>p. no_call),
     pl_getDelay = (\<lambda>p. no_call), pl_setDelay = (\<lambda>p n. no_call), pl_setAtmosMode = (\<lambda>p b. no_call) \<rparr>"

definition level_host :: "(bool \<times> (port_level \<Rightarrow> int \<times> int)) audio_host" where
  "level_host = \<lparr>
     ah_ports = no_call, ah_open = (\<lambda>p d. (Some (), d)), ah_reInitialize = (\<lambda>p. no_call),
     ah_getEnablePersist = (\<lambda>p. no_call), ah_setEnablePersist = (\<lambda>p b. no_call), ah_getHdmiArcPortId = (\<lambda>p. no_call),
     ah_setEnablePort = (\<lambda>p b. no_call), ah_isEnabled = (\<lambda>p. no_call), ah_isMuted = (\<lambda>p d. (Some (fst d), d)),
     ah_setMuted = (\<lambda>p b d. (Some (), b, snd d)), ah_isConnected = (\<lambda>p d. (Some True, d)), ah_getType = (\<lambda>p. no_call),
     ah_getStereoMode = (\<lambda>p. no_call), ah_setStereoMode = (\<lambda>p m b. no_call), ah_getStereoAuto = (\<lambda>p. no_call),
     ah_setStereoAuto = (\<lambda>p a b. no_call), ah_eARC = (\<lambda>p. no_call), ah_setSAD = (\<lambda>p l. no_call),
     ah_enableARC = (\<lambda>p t b. no_call), ah_getSurroundMode = no_call \<rparr>"

definition level_state :: "(bool \<times> (port_level \<Rightarrow> int \<times> int)) arc" where
  "level_state = DisplaySettings_ctor False (False, \<lambda>_. (0, 0))"

definition level_request :: "json_params" where
  "level_request = [(''mode'', JString ''1''), (''level'', JString ''7'')]"

lemma level_request_simps:
  "HasLabel level_request ''mode''" "HasLabel level_request ''level''" "member_String level_request ''mode'' = ''1''"
  "member_String level_request ''level'' = ''7''" "isValidUnsignedInt ''1''" "isValidUnsignedInt ''7''"
  "stoi ''1'' = Some 1" "stoi ''7'' = Some 7" "port_of level_request = ''HDMI0''"
  by (simp_all add: level_request_def HasLabel_def member_String_def member_def isValidUnsignedInt_def stoi_def port_of_def
      c_isdigit_def c_isspace_def ascii_def c_int_def)

lemma level_host_keeps: "level_port level_library level_host p snd"
  by (simp add: level_port_def level_library_def level_host_def)

text \<open>A port with a mute status, and whether ARC is on; every other function raises an exception.\<close>

definition no_library :: "'d port_library" where
  "no_library = \<lparr>
     pl_getNumber = (\<lambda>k p. no_call), pl_setNumber = (\<lambda>k p n. no_call), pl_getFlag = (\<lambda>k p. no_call),
     pl_setFlag = (\<lambda>k p b. no_call), pl_getLevel = (\<lambda>k p. no_call), pl_setLevel = (\<lambda>k p l. no_call),
     pl_reset = (\<lambda>k p. no_call), pl_getProfile = (\<lambda>p. no_call), pl_setProfile = (\<lambda>p n. no_call),
     pl_override = (\<lambda>p a b c e. no_call), pl_profiles = (\<lambda>p. no_call), pl_audioCapabilities = (\<lambda>p. no_call),
     pl_ms12Capabilities = (\<lambda>p. no_call), pl_isHDMIOutPortPresent = no_call, pl_getMixing = (\<lambda>p. no_call),
     pl_setMixing = (\<lambda>p b. no_call), pl_getFader = (\<lambda>p. no_call), pl_setFader = (\<lambda>p n. no_call),
     pl_getLanguage = (\<lambda>k p. no_call), pl_setLanguage = (\<lambda>k p l. no_call), pl_currentFormat = no_call,
     pl_atmosCode = (\<lambda>a. 0), pl_getAtmos = (\<lambda>p. no_call), pl_modeName = (\<lambda>m. []), pl_stereoModes = (\<lambda>p. no_call),
     pl_getDelay = (\<lambda>p. no_call), pl_setDelay = (\<lambda>p n. no_call), pl_setAtmosMode = (\<lambda>p b. no_call) \<rparr>"

definition mute_host :: "(bool \<times> bool) audio_host" where
  "mute_host = \<lparr>
     ah_ports = no_call, ah_open = (\<lambda>p d. (Some (), d)), ah_reInitialize = (\<lambda>p. no_call),
     ah_getEnablePersist = (\<lambda>p. no_call), ah_setEnablePersist = (\<lambda>p b. no_call), ah_getHdmiArcPortId = (\<lambda>p. no_call),
     ah_setEnablePort = (\<lambda>p b. no_call), ah_isEnabled = (\<lambda>p. no_call), ah_isMuted = (\<lambda>p d. (Some (fst d), d)),
     ah_setMuted = (\<lambda>p b d. (Some (), b, snd d)), ah_isConnected = (\<lambda>p d. (Some True, d)), ah_getType = (\<lambda>p. no_call),
     ah_getStereoMode = (\<lambda>p. no_call), ah_setStereoMode = (\<lambda>p m b. no_call), ah_getStereoAuto = (\<lambda>p. no_call),
     ah_setStereoAuto = (\<lambda>p a b. no_call), ah_eARC = (\<lambda>p. no_call), ah_setSAD = (\<lambda>p l. no_call),
     ah_enableARC = (\<lambda>p ty b d. (Some (), fst d, b)), ah_getSurroundMode = no_call \<rparr>"

lemma mute_host_keeps: "settings_keep snd no_library mute_host"
  by (simp add: settings_keep_def keeps_view_def no_library_def mute_host_def no_call_def)

theorem settings_apart_witness:
  "let s = DisplaySettings_ctor False (False, True);
       t = snd (setMuted \<lparr>vr_Number = \<lambda>_. 0, vr_Boolean = \<lambda>_. False, vr_Object = \<lambda>_. [], vr_Array = \<lambda>_. []\<rparr>
         mute_host [(''muted'', JBool True)] [] s)
   in ar_notes t = [(''muteStatusChanged'', [(''muted'', JBool True)])] \<and> ar_dev t = (True, True)"
proof -
  let ?V = "\<lparr>vr_Number = \<lambda>_. 0, vr_Boolean = \<lambda>_. False, vr_Object = \<lambda>_. [], vr_Array = \<lambda>_. []\<rparr> :: variant"
  let ?ps = "[(''muted'', JBool True)] :: json_params" and ?s = "DisplaySettings_ctor False (False, True)"
  have m: "(''setMuted'', \<lambda>V L. setMuted V) \<in> set audio_methods \<union> set audio_methods2" by (simp add: audio_methods_def)
  have b: "variant_Boolean ?V (member ?ps ''muted'')" by (simp add: member_def variant_Boolean_def)
  have ok: "fst (setMuted ?V mute_host ?ps [] ?s) = Some (returnResponse True [])"
    by (simp add: setMuted_def HasLabel_def attempt_def on_port_def ds_call_def mute_host_def answer_def returned_def Let_def)
  have init: "\<not> ar_cacheMuted ?s" "ar_notes ?s = []" by (simp_all add: DisplaySettings_ctor_def)
  define t where "t = snd (setMuted ?V mute_host ?ps [] ?s)"
  note a = settings_apart [OF m mute_host_keeps, of ?V ?ps "[]" ?s, folded t_def]
  have "t = ?s\<lparr>ar_dev := ar_dev t, ar_cacheMuted := True, ar_notes := [(''muteStatusChanged'', [(''muted'', JBool True)])]\<rparr>"
    using a ok b init by simp
  then have "ar_notes t = ar_notes (?s\<lparr>ar_dev := ar_dev t, ar_cacheMuted := True,
      ar_notes := [(''muteStatusChanged'', [(''muted'', JBool True)])]\<rparr>)" by (rule arg_cong)
  moreover have "\<exists>d. ah_open mute_host (port_of ?ps) (ar_dev ?s) = (Some (), d)
      \<and> ah_setMuted mute_host (port_of ?ps) True d = (Some (), ar_dev t)" using a ok b by simp
  then have "ar_dev t = (True, True)" by (auto simp: mute_host_def DisplaySettings_ctor_def)
  ultimately show ?thesis by (simp add: t_def [symmetric] Let_def)
qed

definition muted_state :: "(bool \<times> (port_level \<Rightarrow> int \<times> int)) arc" where
  "muted_state = snd (setMuted \<lparr>vr_Number = \<lambda>_. 0, vr_Boolean = \<lambda>_. False, vr_Object = \<lambda>_. [], vr_Array = \<lambda>_. []\<rparr>
     level_host [(''muted'', JBool True)] [] level_state)"

lemma muted_state_reach: "settings_reach level_library level_host muted_state"
  unfolding muted_state_def
  by (rule settings_call [where name = "''setMuted''" and m = "\<lambda>V L. setMuted V"])
    (simp_all add: level_state_def settings_start audio_methods_def)

lemma muted_state_notes: "ar_notes muted_state = [(''muteStatusChanged'', [(''muted'', JBool True)])]"
  by (simp add: muted_state_def level_state_def setMuted_def HasLabel_def member_def variant_Boolean_def attempt_def
      on_port_def ds_call_def level_host_def answer_def notify_mute_def sendNotify_def returned_def DisplaySettings_ctor_def)

theorem mute_told_in_turn_witness:
  "settings_reach level_library level_host muted_state \<and> mute_told (ar_notes muted_state) = [True]
   \<and> ar_cacheMuted muted_state"
  using mute_told_in_turn [OF muted_state_reach] muted_state_reach
  by (simp add: muted_state_notes mute_told_def member_def)

theorem settings_exceptions_witness:
  "fst (setBassEnhancer level_library level_host [(''bassBoost'', JString ''2147483648'')] [] level_state) = None"
proof -
  have "too_large isValidUnsignedInt [(''bassBoost'', JString ''2147483648'')] ''bassBoost''"
    by (simp add: too_large_def HasLabel_def member_String_def member_def isValidUnsignedInt_def number_in_def
        c_isdigit_def ascii_def c_int_def)
  moreover have "(''setBassEnhancer'', \<lambda>V. setBassEnhancer) \<in> set audio_methods" by (simp add: audio_methods_def)
  ultimately show ?thesis
    using settings_exceptions [of "''setBassEnhancer''" "\<lambda>V. setBassEnhancer" undefined level_library level_host
        "[(''bassBoost'', JString ''2147483648'')]" "[]" level_state] by simp
qed

theorem versions_agree_witness:
  "setVolumeLeveller level_library level_host level_request [] =
     setVolumeLeveller2 level_library level_host (set_member ''mode'' (JString ''1'') level_request) []"
proof -
  have "number_in ''7'' = 7" by (simp add: number_in_def c_isdigit_def ascii_def)
  then show ?thesis
    using versions_agree [of level_request "''level''" level_library level_host "[]"]
    by (simp add: level_request_simps)
qed

theorem leveller_roundtrip_witness:
  "\<exists>t. setVolumeLeveller2 level_library level_host level_request [] level_state = (Some (returnResponse True []), t)
     \<and> fst (getVolumeLeveller2 level_library level_host [] [] t) =
         returnResponse True [(''mode'', JNumber 1), (''level'', JNumber 7)]"
proof -
  define t where "t = snd (setVolumeLeveller2 level_library level_host level_request [] level_state)"
  have t: "setVolumeLeveller2 level_library level_host level_request [] level_state = (Some (returnResponse True []), t)"
    unfolding t_def
    by (simp add: setVolumeLeveller2_def level_request_simps level_of_mode_def returned_def store_def attempt_def on_port_def
        ds_call_def answer_def level_library_def level_host_def)
  moreover have "fst (getVolumeLeveller2 level_library level_host [] [] t) =
      returnResponse True (set_member ''level'' (JNumber 7) (set_member ''mode'' (JNumber 1) []))"
  proof -
    have "port_of [] = port_of level_request" by (simp add: level_request_simps) (simp add: port_of_def HasLabel_def)
    then show ?thesis
      using leveller_roundtrip [OF level_host_keeps, of "[]" level_request "[]" level_state _ t "[]"] t
      by (auto simp: level_request_simps returnResponse_def)
  qed
  ultimately show ?thesis by (auto simp: set_member_def)
qed

end
