(* ===== verification/DisplayCaches.thy ===== *)
theory DisplayCaches imports DisplayEvents AudioSettings begin

text \<open>
  What the caches of the video ports and the events of the display guarantee: what a kept resolution
  says, which displays are listed as connected, and which hot plugs are announced.
\<close>

section \<open>Calls that only ask the library\<close>

definition asks :: "('d arc \<Rightarrow> 'v) \<Rightarrow> ('d arc \<Rightarrow> 'a \<times> 'd arc) \<Rightarrow> bool" where
  "asks v f = (\<forall>s. v (snd (f s)) = v s)"

text \<open>A part of the state that neither the library nor the cache of the display can change.\<close>

locale display_view =
  fixes v :: "'d arc \<Rightarrow> 'v"
  assumes dev: "v (s\<lparr>ar_dev := d\<rparr>) = v s"
    and cache: "v (s\<lparr>ar_isHdmiDisplayConnected := b, ar_displayCacheUpdated := True\<rparr>) = v s"
begin

lemma call: "(\<And>x. asks v (k x)) \<Longrightarrow> asks v (ds_call f k)"
  by (auto simp: asks_def ds_call_def dev split: prod.split option.split)

lemma and_then: "asks v f \<Longrightarrow> (\<And>x. asks v (k x)) \<Longrightarrow> asks v (and_then f k)"
  by (auto simp: asks_def and_then_def split: prod.split option.split) (metis snd_conv)+

lemma or_else: "asks v f \<Longrightarrow> asks v (or_else f x)"
  by (auto simp: asks_def or_else_def split: prod.split option.split) (metis snd_conv)+

lemma give: "asks v (\<lambda>s. (x, s))" "asks v (give y)"
  by (simp_all add: asks_def give_def)

lemmas rules = call and_then or_else give

lemma connected: "asks v (isDisplayConnected W p)"
  unfolding asks_def isDisplayConnected_def
  by (auto simp: ds_call_def dev cache split: prod.split option.split)

lemma loop: "v (snd (displays_loop W ps acc s)) = v s"
proof (induction W ps acc s rule: displays_loop.induct)
  case (2 W p ps acc s)
  obtain r s1 where r: "isDisplayConnected W p s = (r, s1)" by (rule prod.exhaust)
  then have "v s1 = v s" using connected [of W p] unfolding asks_def by (metis snd_conv)
  then show ?case using 2 r by (auto split: option.split bool.split)
qed simp

lemma displays: "asks v (getConnectedVideoDisplaysHelper W)"
  unfolding getConnectedVideoDisplaysHelper_def
  by (intro rules) (simp add: asks_def loop Let_def split_def)

lemma list: "asks v (getConnectedVideoDisplays W ps r)"
  using displays [of W] by (simp add: asks_def getConnectedVideoDisplays_def Let_def split_def)

lemma signal: "v (signal_displays W b ps s) = v s"
proof (induction W b ps s rule: signal_displays.induct)
  case (2 W b p ps s)
  have "asks v (signal_display W b p)"
    unfolding signal_display_def by (intro rules connected) (simp add: rules)
  then show ?case using 2 by (simp add: asks_def)
qed simp

lemma request: "v (snd (Request W st s)) = v s"
  using displays [of W] by (simp add: Request_def signal asks_def Let_def split_def)

lemma changed:
  assumes "\<And>d x s. v (notify_resolution w h d x s) = v s"
  shows "v (snd (OnResolutionPostChange W w h s)) = v s"
proof -
  have "v (snd (resolution_loop W w h qs first t)) = v t" for qs first t
  proof (induction qs arbitrary: first t)
    case Nil
    then show ?case using assms by (simp split: option.split)
  next
    case (Cons d ds first s)
    obtain x s1 where x: "or_else (ds_call (vl_open W d) (\<lambda>_. ds_call (vl_getResolution W d) (\<lambda>r s. (Some r, s)))) [] s = (x, s1)"
      by (rule prod.exhaust)
    have "asks v (or_else (ds_call (vl_open W d) (\<lambda>_. ds_call (vl_getResolution W d) (\<lambda>r s. (Some r, s)))) [])"
      by (intro rules)
    then have "v s1 = v s" using x unfolding asks_def by (metis snd_conv)
    then show ?case using Cons x assms dev by (auto split: option.split prod.split)
  qed
  then show ?thesis
    using displays [of W] by (simp add: OnResolutionPostChange_def resolutionChanged_def asks_def Let_def split_def)
qed

end

text \<open>The notifications and what is remembered of hot plugs; the cached resolution.\<close>

definition hot_plug_view :: "'d arc \<Rightarrow> notifications \<times> bool \<times> int" where
  "hot_plug_view s = (ar_notes s, ar_firstHotPlug s, ar_previousHotPlug s)"

definition resolution_view :: "'d arc \<Rightarrow> bool \<times> string" where
  "resolution_view s = (ar_resCacheUpdated s, ar_currentResolution s)"

interpretation plugs: display_view hot_plug_view
  by unfold_locales (simp_all add: hot_plug_view_def)

interpretation sizes: display_view resolution_view
  by unfold_locales (simp_all add: resolution_view_def)

section \<open>Hot plugs of the display\<close>

fun hot_plugs :: "'d video_library \<Rightarrow> (string \<times> int) list \<Rightarrow> 'd arc \<Rightarrow> 'd arc" where
  "hot_plugs W [] s = s"
| "hot_plugs W ((allm, e) # es) s = hot_plugs W es (OnDisplayHDMIHotPlug W allm e s)"

definition hot_plug_note :: "int \<Rightarrow> string \<times> json_params" where
  "hot_plug_note e =
     (''connectedVideoDisplaysUpdated'', [(''connectedVideoDisplays'', JArray (if e = 0 then [JString ''HDMI0''] else []))])"

lemma hot_plug_step:
  "hot_plug_view (OnDisplayHDMIHotPlug W allm e s) =
     (if ar_firstHotPlug s \<or> ar_previousHotPlug s \<noteq> e then ar_notes s @ [hot_plug_note e] else ar_notes s, False, e)"
  by (simp add: OnDisplayHDMIHotPlug_def connectedVideoDisplaysUpdated_def Let_def plugs.request)
    (auto simp: hot_plug_view_def sendNotify_def hot_plug_note_def)

lemma announced_first:
  "map hot_plug_note (remdups_adj (e # xs)) = hot_plug_note e # map hot_plug_note (tl (remdups_adj (e # xs)))"
proof -
  have "remdups_adj (e # xs) = e # tl (remdups_adj (e # xs))" by (simp add: remdups_adj_Cons split: list.split)
  then show ?thesis by (metis list.simps(9))
qed

lemma hot_plugs_later:
  "\<not> ar_firstHotPlug s \<Longrightarrow>
   ar_notes (hot_plugs W es s) = ar_notes s @ map hot_plug_note (tl (remdups_adj (ar_previousHotPlug s # map snd es)))"
proof (induction W es s rule: hot_plugs.induct)
  case (2 W allm e es s)
  define s1 where "s1 = OnDisplayHDMIHotPlug W allm e s"
  have s1: "ar_notes s1 = (if ar_previousHotPlug s \<noteq> e then ar_notes s @ [hot_plug_note e] else ar_notes s)"
    "\<not> ar_firstHotPlug s1" "ar_previousHotPlug s1 = e"
    using hot_plug_step [of W allm e s] 2(2) by (auto simp: s1_def hot_plug_view_def split: if_splits)
  show ?case using 2(1) [folded s1_def] s1 announced_first [of e "map snd es"] by (cases "ar_previousHotPlug s = e") (auto simp: s1_def [symmetric])
qed simp

text \<open>
  C21. From the first hot plug of the display on, the UI is told of exactly the changes: the notifications
  are the events without immediate repetitions, and name HDMI0 exactly for the event that it was connected.
\<close>

theorem hot_plugs_announced:
  assumes "ar_firstHotPlug s"
  shows "ar_notes (hot_plugs W es s) = ar_notes s @ map hot_plug_note (remdups_adj (map snd es))"
proof (cases es)
  case (Cons x es')
  obtain allm e where x: "x = (allm, e)" by (rule prod.exhaust)
  define s1 where "s1 = OnDisplayHDMIHotPlug W allm e s"
  have s1: "ar_notes s1 = ar_notes s @ [hot_plug_note e]" "\<not> ar_firstHotPlug s1" "ar_previousHotPlug s1 = e"
    using hot_plug_step [of W allm e s] assms by (auto simp: s1_def hot_plug_view_def)
  show ?thesis using announced_first [of e "map snd es'"] hot_plugs_later [OF s1(2), of W es'] s1 Cons x by (simp add: s1_def [symmetric])
qed simp


section \<open>A video library\<close>

text \<open>
  The state \<open>d\<close> of the ports says which displays are connected (\<open>conn\<close>) and which resolutions are set
  (\<open>res\<close>); queries report it and keep it, and signalling the content type keeps the resolutions.
\<close>

definition video_reads ::
  "'d video_library \<Rightarrow> string \<Rightarrow> string list \<Rightarrow> ('d \<Rightarrow> string \<Rightarrow> bool) \<Rightarrow> ('d \<Rightarrow> string \<Rightarrow> string) \<Rightarrow> bool" where
  "video_reads W port ports conn res =
     (\<forall>d. vl_defaultPort W d = (Some port, d) \<and> vl_ports W d = (Some ports, d)
        \<and> (\<forall>p. vl_open W p d = (Some (), d) \<and> vl_config W p d = (Some (), d)
            \<and> vl_isDisplayConnected W p d = (Some (conn d p), d) \<and> vl_getResolution W p d = (Some (res d p), d)
            \<and> (\<forall>x. res (snd (vl_setAVIContentType W p x d)) = res d) \<and> (\<forall>x. res (snd (vl_setAVIScanInformation W p x d)) = res d)
            \<and> (\<forall>x. res (snd (vl_setAllmEnabled W p x d)) = res d)))"

section \<open>The cached display\<close>

lemma display_asked:
  assumes "video_reads W port ports conn res"
  shows "isDisplayConnected W p s =
     (if ar_displayCacheUpdated s \<and> stringContains p ''HDMI0'' then (Some (ar_isHdmiDisplayConnected s), s)
      else (Some (conn (ar_dev s) p), s\<lparr>ar_isHdmiDisplayConnected := conn (ar_dev s) p, ar_displayCacheUpdated := True\<rparr>))"
  using assms by (simp add: isDisplayConnected_def ds_call_def video_reads_def)

text \<open>
  C22. One cache serves all displays: when another display than that of HDMI0 is connected and that of
  HDMI0 is not, the first call after a hot plug names the connected one, and every later call names the
  HDMI port alone, to which nothing is connected.
\<close>

theorem phantom_display:
  assumes "video_reads W port [p, q] conn res" "\<not> ar_displayCacheUpdated s"
    and "stringContains p ''HDMI0''" "map c_tolower (take 4 p) = ''hdmi''" "\<not> conn (ar_dev s) p"
    and "\<not> stringContains q ''HDMI0''" "map c_tolower (take 4 q) \<noteq> ''hdmi''" "conn (ar_dev s) q"
  shows "fst (getConnectedVideoDisplays W ps r s) = returnResponse True (setResponseArray ''connectedVideoDisplays'' [q] r)
    \<and> fst (getConnectedVideoDisplays W ps r (((\<lambda>s. snd (getConnectedVideoDisplays W ps r s)) ^^ Suc n) s))
      = returnResponse True (setResponseArray ''connectedVideoDisplays'' [p] r)"
proof -
  have ports: "vl_ports W d = (Some [p, q], d)" for d using assms(1) by (simp add: video_reads_def)
  define t where "t = s\<lparr>ar_isHdmiDisplayConnected := True, ar_displayCacheUpdated := True\<rparr>"
  have first: "getConnectedVideoDisplays W ps r s =
      (returnResponse True (setResponseArray ''connectedVideoDisplays'' [q] r), t)"
    using assms(2-) by (simp add: getConnectedVideoDisplays_def getConnectedVideoDisplaysHelper_def or_else_def ds_call_def ports
        display_asked [OF assms(1)] vectorSet_def t_def)
  have later: "getConnectedVideoDisplays W ps r t =
      (returnResponse True (setResponseArray ''connectedVideoDisplays'' [p] r), t)"
    using assms(3,4) by (simp add: getConnectedVideoDisplays_def getConnectedVideoDisplaysHelper_def or_else_def ds_call_def ports
        display_asked [OF assms(1)] t_def)
  have "((\<lambda>s. snd (getConnectedVideoDisplays W ps r s)) ^^ n) t = t"
    by (induction n) (simp_all add: later)
  then show ?thesis using first later by (simp add: funpow_Suc_right del: funpow.simps)
qed

section \<open>The cached resolution\<close>

definition asks_for :: "string \<Rightarrow> string \<Rightarrow> json_params \<Rightarrow> bool" where
  "asks_for port display ps = ((if HasLabel ps ''videoDisplay'' then member_String ps ''videoDisplay'' else port) = display)"

lemma resolution_asked:
  assumes "video_reads W port ports conn res" "asks_for port display ps"
  shows "getCurrentResolution W ps r s =
     (if ar_resCacheUpdated s
      then (Some (returnResponse True (resolution_members (ar_currentResolution s) r)), s)
      else (Some (returnResponse True (resolution_members (res (ar_dev s) display) r)),
            s\<lparr>ar_currentResolution := res (ar_dev s) display, ar_resCacheUpdated := True\<rparr>))"
  using assms
  by (simp add: getCurrentResolution_def with_display_def ds_call_def returned_def attempt_def answer_def video_reads_def
      asks_for_def)

text \<open>
  C30. A query between the announcement of a change of resolution and the change keeps the old
  resolution: it is reported after the change too, which the event at its end does not repair.
\<close>

theorem resolution_stale:
  fixes W :: "'d video_library" and s :: "'d arc" and ps r :: json_params
  assumes "video_reads W port ports conn res" "asks_for port display ps"
  defines "asked \<equiv> snd (getCurrentResolution W ps r (OnResolutionPreChange s))"
  shows "fst (getCurrentResolution W ps r (snd (OnResolutionPostChange W w h (asked\<lparr>ar_dev := d\<rparr>)))) =
     Some (returnResponse True (resolution_members (res (ar_dev s) display) r))"
proof -
  have asked: "ar_resCacheUpdated asked" "ar_currentResolution asked = res (ar_dev s) display"
    using resolution_asked [OF assms(1,2), of r "OnResolutionPreChange s"]
    by (simp_all add: asked_def OnResolutionPreChange_def resolutionPreChange_def sendNotify_def)
  have "resolution_view (snd (OnResolutionPostChange W w h (asked\<lparr>ar_dev := d\<rparr>))) = resolution_view asked"
    using sizes.changed [of w h W "asked\<lparr>ar_dev := d\<rparr>"]
    by (simp add: resolution_view_def notify_resolution_def sendNotify_def)
  then have "ar_resCacheUpdated (snd (OnResolutionPostChange W w h (asked\<lparr>ar_dev := d\<rparr>)))"
    "ar_currentResolution (snd (OnResolutionPostChange W w h (asked\<lparr>ar_dev := d\<rparr>))) = res (ar_dev s) display"
    using asked by (simp_all add: resolution_view_def)
  then show ?thesis by (simp add: resolution_asked [OF assms(1,2)])
qed

text \<open>
  Runs in which the library announces a change of the resolution, or a hot plug, before the resolution
  changes, and nobody asks in between. What the hardware does depends on the library and the callers
  alone: \<open>may\<close> is that a change has been announced, or the plugin has just been started, and nobody has
  asked since.
\<close>

inductive display_reach ::
  "'d video_library \<Rightarrow> string \<Rightarrow> string \<Rightarrow> ('d \<Rightarrow> string \<Rightarrow> string) \<Rightarrow> bool \<Rightarrow> 'd arc \<Rightarrow> bool" for W port display res where
  display_start: "display_reach W port display res True (DisplaySettings_ctor junk d)"
| display_ask: "display_reach W port display res may s \<Longrightarrow> asks_for port display ps
    \<Longrightarrow> display_reach W port display res False (snd (getCurrentResolution W ps r s))"
| display_list: "display_reach W port display res may s
    \<Longrightarrow> display_reach W port display res may (snd (getConnectedVideoDisplays W ps r s))"
| display_pre: "display_reach W port display res may s \<Longrightarrow> display_reach W port display res True (OnResolutionPreChange s)"
| display_post: "display_reach W port display res may s
    \<Longrightarrow> display_reach W port display res may (snd (OnResolutionPostChange W w h s))"
| display_plug: "display_reach W port display res may s
    \<Longrightarrow> display_reach W port display res True (OnDisplayHDMIHotPlug W allm e s)"
| display_hardware: "display_reach W port display res may s
    \<Longrightarrow> may \<or> res d display = res (ar_dev s) display
    \<Longrightarrow> display_reach W port display res may (s\<lparr>ar_dev := d\<rparr>)"

definition fresh :: "('d \<Rightarrow> string \<Rightarrow> string) \<Rightarrow> string \<Rightarrow> bool \<Rightarrow> 'd arc \<Rightarrow> bool" where
  "fresh res display may s =
     (ar_resCacheUpdated s \<longrightarrow> \<not> may \<and> ar_currentResolution s = res (ar_dev s) display)"

lemma list_dev:
  assumes "video_reads W port ports conn res"
  shows "ar_dev (snd (getConnectedVideoDisplaysHelper W s)) = ar_dev s"
proof -
  have "ar_dev (snd (displays_loop W qs acc t)) = ar_dev t" for qs acc t
    by (induction qs arbitrary: acc t) (auto simp: display_asked [OF assms] split: option.split bool.split)
  then show ?thesis
    using assms by (simp add: getConnectedVideoDisplaysHelper_def or_else_def ds_call_def video_reads_def Let_def split_def)
qed

lemma post_dev:
  assumes "video_reads W port ports conn res"
  shows "ar_dev (snd (OnResolutionPostChange W w h s)) = ar_dev s"
proof -
  have "ar_dev (snd (resolution_loop W w h qs first t)) = ar_dev t" for qs first t
    using assms
    by (induction qs arbitrary: first t)
      (auto simp: or_else_def ds_call_def video_reads_def notify_resolution_def sendNotify_def Let_def split: option.split)
  then show ?thesis by (simp add: OnResolutionPostChange_def resolutionChanged_def list_dev [OF assms] Let_def split_def)
qed

lemma plug_invalidates: "\<not> ar_resCacheUpdated (OnDisplayHDMIHotPlug W allm e s)"
proof -
  define s1 where "s1 = s\<lparr>ar_resCacheUpdated := False, ar_displayCacheUpdated := False, ar_hdrCache := False\<rparr>"
  have "resolution_view (connectedVideoDisplaysUpdated W allm e s1) = resolution_view s1"
    by (simp add: connectedVideoDisplaysUpdated_def Let_def sizes.request) (simp add: resolution_view_def sendNotify_def)
  then show ?thesis by (simp add: OnDisplayHDMIHotPlug_def s1_def [symmetric]) (simp add: resolution_view_def s1_def)
qed

text \<open>
  C20. Otherwise the answer is that of the hardware: in every run of queries for one display, lists of
  the displays, hot plugs, announcements and changes of the resolution, in which the resolution only
  changes after an announcement or a hot plug and before the next query, the resolution that is
  reported is the one that is set.
\<close>

theorem resolution_fresh:
  assumes "display_reach W port display res may s" "video_reads W port ports conn res" "asks_for port display ps"
  shows "fst (getCurrentResolution W ps r s) = Some (returnResponse True (resolution_members (res (ar_dev s) display) r))"
proof -
  have "fresh res display may s"
    using assms(1)
  proof induction
    case (display_start junk d)
    show ?case by (simp add: fresh_def DisplaySettings_ctor_def)
  next
    case (display_ask may s ps r)
    then show ?case by (simp add: resolution_asked [OF assms(2)] fresh_def)
  next
    case (display_list may s ps r)
    have "ar_dev (snd (getConnectedVideoDisplays W ps r s)) = ar_dev s"
      by (simp add: getConnectedVideoDisplays_def list_dev [OF assms(2)] Let_def split_def)
    then show ?case using display_list sizes.list [of W ps r] by (simp add: asks_def resolution_view_def fresh_def)
  next
    case (display_pre may s)
    show ?case by (simp add: fresh_def OnResolutionPreChange_def)
  next
    case (display_post may s w h)
    then show ?case
      using sizes.changed [of w h W s] post_dev [OF assms(2), of w h s]
      by (simp add: resolution_view_def fresh_def notify_resolution_def sendNotify_def)
  next
    case (display_plug may s allm e)
    then show ?case by (simp add: fresh_def plug_invalidates)
  next
    case (display_hardware may s d)
    then show ?case by (auto simp: fresh_def)
  qed
  then show ?thesis by (simp add: resolution_asked [OF assms(2,3)] fresh_def)
qed


section \<open>Names of formats and depths\<close>

text \<open>
  Forcing the format that a name stands for gives that format back exactly for the names SDR, HDR10,
  HDR10PLUS and DV: HLG forces Technicolor Prime, and TechnicolorPrime forces none.
\<close>

theorem forced_format:
  fixes f :: dsHDRStandard
  assumes "HasLabel ps ''hdr_mode''" "member_String ps ''hdr_mode'' = getVideoFormatTypeToString f"
    and "video_reads W port ports conn res" "\<not> ar_displayCacheUpdated s" "conn (ar_dev s) port"
  defines "g \<equiv> (case f of dsHDRSTANDARD_HLG \<Rightarrow> dsHDRSTANDARD_TechnicolorPrime | dsHDRSTANDARD_TechnicolorPrime \<Rightarrow> dsHDRSTANDARD_NONE
    | dsHDRSTANDARD_Invalid \<Rightarrow> dsHDRSTANDARD_NONE | _ \<Rightarrow> f)"
  shows "fst (setForceHDRMode W ps r s) = returnResponse (fst (vl_setForceHDRMode W port g (ar_dev s)) = Some True) r"
proof -
  have "getVideoFormatTypeFromString (getVideoFormatTypeToString f) = g"
    by (cases f) (simp_all add: getVideoFormatTypeFromString_def g_def)
  then show ?thesis
    using assms(1-5)
    by (auto simp: setForceHDRMode_def attempt_def at_default_def ds_call_def and_then_def display_asked [OF assms(3)] answer_def
        video_reads_def split: prod.split option.split)
qed

text \<open>A color depth that is listed can be set; so can any text that begins like it.\<close>

lemma color_depth_names_set:
  "color_depth_name depth = Some name \<Longrightarrow> color_depth_of (name @ rest) = depth"
  by (cases depth) (auto simp: color_depth_of_def)

section \<open>Examples\<close>

text \<open>Two ports with a display at the second; the state is the resolution.\<close>

definition sample_video :: "string video_library" where
  "sample_video = \<lparr>
     vl_defaultPort = (\<lambda>d. (Some ''HDMI0'', d)), vl_ports = (\<lambda>d. (Some [''HDMI0'', ''COMPOSITE0''], d)),
     vl_open = (\<lambda>p d. (Some (), d)), vl_config = (\<lambda>p d. (Some (), d)),
     vl_isDisplayConnected = (\<lambda>p d. (Some (p = ''COMPOSITE0''), d)), vl_isActive = (\<lambda>p. no_call),
     vl_supportedResolutions = (\<lambda>p. no_call), vl_tvResolutions = (\<lambda>p. no_call), vl_getResolution = (\<lambda>p d. (Some d, d)),
     vl_setResolution = (\<lambda>p x a b. no_call), vl_defaultResolution = (\<lambda>p. no_call), vl_tvHDR = (\<lambda>p. no_call),
     vl_hdrMask = (\<lambda>x. 0), vl_setForceHDRMode = (\<lambda>p f d. (Some (f = dsHDRSTANDARD_TechnicolorPrime), d)),
     vl_videoEOTF = (\<lambda>p. no_call), vl_outputSettings = (\<lambda>p. no_call), vl_getColorDepth = (\<lambda>p b. no_call),
     vl_setColorDepth = (\<lambda>p c b. no_call), vl_colorDepths = (\<lambda>p. no_call), vl_setScartParameter = (\<lambda>p a b. no_call),
     vl_isRepeater = (\<lambda>p. no_call), vl_surroundMode = (\<lambda>p. no_call), vl_edid = (\<lambda>p. no_call), vl_hostEdid = no_call,
     vl_base64 = (\<lambda>b. []), vl_setAVIContentType = (\<lambda>p x. no_call), vl_setAVIScanInformation = (\<lambda>p x. no_call),
     vl_setAllmEnabled = (\<lambda>p x. no_call), vl_videoDevices = no_call, vl_settopResolutions = no_call, vl_settopHDR = no_call,
     vl_getDFC = no_call, vl_setDFC = (\<lambda>x. no_call), vl_ms12Config = no_call \<rparr>"

lemma sample_video_reads:
  "video_reads sample_video ''HDMI0'' [''HDMI0'', ''COMPOSITE0''] (\<lambda>d p. p = ''COMPOSITE0'') (\<lambda>d p. d)"
  by (simp add: video_reads_def sample_video_def no_call_def)

definition sample_display :: "string arc" where
  "sample_display = DisplaySettings_ctor False ''1080p''"

lemma sample_display_simps:
  "\<not> ar_displayCacheUpdated sample_display" "ar_firstHotPlug sample_display" "ar_notes sample_display = []"
  "ar_dev sample_display = ''1080p''" "ar_resCacheUpdated sample_display = False"
  by (simp_all add: sample_display_def DisplaySettings_ctor_def)

theorem hot_plugs_announced_witness:
  "ar_notes (hot_plugs sample_video [(''VIDEO'', 1), ([], 1), ([], 0)] sample_display) = [hot_plug_note 1, hot_plug_note 0]"
  using hot_plugs_announced [OF sample_display_simps(2), of sample_video "[(''VIDEO'', 1), ([], 1), ([], 0)]"]
  by (simp add: sample_display_simps)

theorem phantom_display_witness:
  "fst (getConnectedVideoDisplays sample_video [] [] sample_display)
     = returnResponse True (setResponseArray ''connectedVideoDisplays'' [''COMPOSITE0''] [])
   \<and> fst (getConnectedVideoDisplays sample_video [] [] (snd (getConnectedVideoDisplays sample_video [] [] sample_display)))
     = returnResponse True (setResponseArray ''connectedVideoDisplays'' [''HDMI0''] [])"
proof -
  have "stringContains ''HDMI0'' ''HDMI0''" "\<not> stringContains ''COMPOSITE0'' ''HDMI0''" by code_simp+
  moreover have "map c_tolower (take 4 ''HDMI0'') = ''hdmi''" "map c_tolower (take 4 ''COMPOSITE0'') \<noteq> ''hdmi''" by code_simp+
  ultimately show ?thesis
    using phantom_display [OF sample_video_reads sample_display_simps(1), of "[]" "[]" 0] by simp
qed

theorem resolution_stale_witness:
  "fst (getCurrentResolution sample_video [] [] (snd (OnResolutionPostChange sample_video 3840 2160
      ((snd (getCurrentResolution sample_video [] [] (OnResolutionPreChange sample_display)))\<lparr>ar_dev := ''2160p60''\<rparr>))))
   = Some (returnResponse True (resolution_members ''1080p'' []))"
proof -
  have ask: "asks_for ''HDMI0'' ''HDMI0'' []" by (simp add: asks_for_def HasLabel_def)
  show ?thesis
    using resolution_stale [OF sample_video_reads ask, where r = "[]" and s = sample_display and w = 3840 and h = 2160
        and d = "''2160p60''"]
    by (simp add: sample_display_simps)
qed

theorem resolution_fresh_witness:
  "fst (getCurrentResolution sample_video [] []
      (snd (OnResolutionPostChange sample_video 3840 2160
        ((OnResolutionPreChange (snd (getCurrentResolution sample_video [] [] sample_display)))\<lparr>ar_dev := ''2160p60''\<rparr>))))
   = Some (returnResponse True (resolution_members ''2160p60'' []))"
proof -
  let ?reach = "display_reach sample_video ''HDMI0'' ''HDMI0'' (\<lambda>d p. d)"
  let ?s1 = "OnResolutionPreChange (snd (getCurrentResolution sample_video [] [] sample_display))"
  have ask: "asks_for ''HDMI0'' ''HDMI0'' []" by (simp add: asks_for_def HasLabel_def)
  have "?reach True ?s1" unfolding sample_display_def by (rule display_pre [OF display_ask [OF display_start ask]])
  then have "?reach True (?s1\<lparr>ar_dev := ''2160p60''\<rparr>)" by (rule display_hardware) simp
  then have "?reach True (snd (OnResolutionPostChange sample_video 3840 2160 (?s1\<lparr>ar_dev := ''2160p60''\<rparr>)))"
    by (rule display_post)
  then show ?thesis using resolution_fresh [OF _ sample_video_reads ask] post_dev [OF sample_video_reads] by simp
qed

theorem forced_format_witness:
  "fst (setForceHDRMode (sample_video\<lparr>vl_isDisplayConnected := \<lambda>p d. (Some True, d)\<rparr>) [(''hdr_mode'', JString ''HLG'')] [] sample_display)
   = returnResponse True []"
proof -
  have "video_reads (sample_video\<lparr>vl_isDisplayConnected := \<lambda>p d. (Some True, d)\<rparr>) ''HDMI0'' [''HDMI0'', ''COMPOSITE0'']
      (\<lambda>d p. True) (\<lambda>d p. d)"
    by (simp add: video_reads_def sample_video_def no_call_def)
  from forced_format [OF _ _ this sample_display_simps(1), of "[(''hdr_mode'', JString ''HLG'')]" dsHDRSTANDARD_HLG "[]"]
  show ?thesis by (simp add: HasLabel_def member_String_def member_def sample_video_def)
qed

end
