(* ===== verification/DisplayInfoImpl.thy ===== *)
theory DisplayInfoImpl imports ArcRouting begin

text \<open>
  The display information of \<open>DisplayInfo/DeviceSettings/PlatformImplementation.cpp\<close>: properties of the
  display at the default video port, read from the device settings library and from the EDID of the
  display. The library and the EDID parser are a record of functions on the state of the ports, of any
  type; a call with the result \<open>None\<close> throws a \<open>device::Exception\<close>. A getter gets the old value of its
  output parameter and returns the new one, because some leave it alone.
\<close>

section \<open>The library\<close>

datatype video_port_type = vpHDMI | vpInternal | vpOther

datatype hdcp_version = dsHDCP_VERSION_1X | dsHDCP_VERSION_2X | dsHDCP_VERSION_MAX | dsHDCP_VERSION_other

datatype HDCPProtectionType = HDCP_UNENCRYPTED | HDCP_1X | HDCP_2X | HDCP_AUTO

datatype color_space =
    dsDISPLAY_COLORSPACE_UNKNOWN | dsDISPLAY_COLORSPACE_RGB | dsDISPLAY_COLORSPACE_YCbCr444 | dsDISPLAY_COLORSPACE_YCbCr422
  | dsDISPLAY_COLORSPACE_YCbCr420 | dsDISPLAY_COLORSPACE_AUTO | dsDISPLAY_COLORSPACE_other

datatype ColourSpaceType = FORMAT_UNKNOWN | FORMAT_OTHER | FORMAT_RGB_444 | FORMAT_YCBCR_444 | FORMAT_YCBCR_422 | FORMAT_YCBCR_420

datatype frame_rate = k24 | k25 | k30 | k60 | k23dot98 | k29dot97 | k50 | k59dot94 | kOtherRate

datatype FrameRateType =
    FRAMERATE_UNKNOWN | FRAMERATE_23_976 | FRAMERATE_24 | FRAMERATE_25 | FRAMERATE_29_97 | FRAMERATE_30 | FRAMERATE_50
  | FRAMERATE_59_94 | FRAMERATE_60

datatype ColourDepthType = COLORDEPTH_UNKNOWN | COLORDEPTH_8_BIT | COLORDEPTH_10_BIT | COLORDEPTH_12_BIT

datatype quantization = dsDISPLAY_QUANTIZATIONRANGE_UNKNOWN | dsDISPLAY_QUANTIZATIONRANGE_LIMITED | dsDISPLAY_QUANTIZATIONRANGE_FULL

datatype QuantizationRangeType = QUANTIZATIONRANGE_UNKNOWN | QUANTIZATIONRANGE_LIMITED | QUANTIZATIONRANGE_FULL

datatype colorimetry_info =
    COLORIMETRY_INFO_XVYCC601 | COLORIMETRY_INFO_XVYCC709 | COLORIMETRY_INFO_SYCC601 | COLORIMETRY_INFO_ADOBEYCC601
  | COLORIMETRY_INFO_ADOBERGB | COLORIMETRY_INFO_BT2020CL | COLORIMETRY_INFO_BT2020NCL | COLORIMETRY_INFO_BT2020RGB
  | COLORIMETRY_INFO_DCI_P3

datatype ColorimetryType =
    COLORIMETRY_UNKNOWN | COLORIMETRY_OTHER | COLORIMETRY_SYCC601 | COLORIMETRY_OPYCC601 | COLORIMETRY_OPRGB
  | COLORIMETRY_XVYCC601 | COLORIMETRY_XVYCC709 | COLORIMETRY_BT2020RGB_YCBCR | COLORIMETRY_BT2020YCCBCBRC

datatype EotfType = EOTF_UNKNOWN | EOTF_BT2100 | EOTF_SMPTE_ST_2084

datatype HDRType = HDR_OFF | HDR_10 | HDR_10PLUS | HDR_HLG | HDR_DOLBYVISION | HDR_TECHNICOLOR | HDR_SDR

record edid_data =
  ed_width :: nat
  ed_height :: nat
  ed_refresh :: nat
  ed_colorimetry :: "colorimetry_info list"

text \<open>\<open>il_verify\<close> and \<open>il_parse\<close> are the EDID parser; masks are the lists of their flags.\<close>

record 'd info_library =
  il_defaultPort :: "('d, string) call"
  il_open :: "string \<Rightarrow> ('d, unit) call"
  il_ports :: "('d, string list) call"
  il_type :: "string \<Rightarrow> ('d, video_port_type) call"
  il_isDisplayConnected :: "string \<Rightarrow> ('d, bool) call"
  il_stereoMode :: "string \<Rightarrow> ('d, AudioStereoMode) call"
  il_edid :: "string \<Rightarrow> ('d, u8 list) call"
  il_verify :: "u8 list \<Rightarrow> bool"
  il_parse :: "u8 list \<Rightarrow> edid_data"
  il_getHdmiPreference :: "string \<Rightarrow> ('d, hdcp_version) call"
  il_setHdmiPreference :: "string \<Rightarrow> hdcp_version \<Rightarrow> ('d, bool) call"
  il_colorSpace :: "string \<Rightarrow> ('d, color_space) call"
  il_frameRate :: "string \<Rightarrow> ('d, frame_rate) call"
  il_colorDepth :: "string \<Rightarrow> ('d, int) call"
  il_quantizationRange :: "string \<Rightarrow> ('d, quantization) call"
  il_videoEOTF :: "string \<Rightarrow> ('d, dsHDRStandard) call"
  il_tvHDR :: "string \<Rightarrow> ('d, dsHDRStandard list) call"
  il_stbHDR :: "('d, dsHDRStandard list) call"
  il_isOutputHDR :: "string \<Rightarrow> ('d, bool) call"
  il_totalGpuRam :: "'d \<Rightarrow> nat \<times> 'd"
  il_freeGpuRam :: "'d \<Rightarrow> nat \<times> 'd"

definition lib_call :: "('d, 'a) call \<Rightarrow> ('a \<Rightarrow> ('d, 'b) call) \<Rightarrow> ('d, 'b) call" where
  "lib_call f k d = (case f d of (None, d1) \<Rightarrow> (None, d1) | (Some x, d1) \<Rightarrow> k x d1)"

definition lib_done :: "'a \<Rightarrow> ('d, 'a) call" where
  "lib_done x d = (Some x, d)"

text \<open>The default port, and the answer of a query of it if its display is connected.\<close>

definition at_port :: "'d info_library \<Rightarrow> (string \<Rightarrow> ('d, 'a) call) \<Rightarrow> ('d, 'a) call" where
  "at_port I k = lib_call (il_defaultPort I) (\<lambda>p. lib_call (il_open I p) (\<lambda>_. k p))"

definition if_connected :: "'d info_library \<Rightarrow> (string \<Rightarrow> ('d, 'a) call) \<Rightarrow> ('d, 'a option) call" where
  "if_connected I k =
     at_port I (\<lambda>p. lib_call (il_isDisplayConnected I p) (\<lambda>c. if c then lib_call (k p) (\<lambda>x. lib_done (Some x)) else lib_done None))"

definition read_connected ::
  "'d info_library \<Rightarrow> (string \<Rightarrow> ('d, 'a) call) \<Rightarrow> ('a \<Rightarrow> 'v) \<Rightarrow> 'v \<Rightarrow> 'd \<Rightarrow> (hresult \<times> 'v) \<times> 'd" where
  "read_connected I k value out d =
     (case if_connected I k d of
        (Some (Some x), d1) \<Rightarrow> ((ERROR_NONE, value x), d1)
      | (_, d1) \<Rightarrow> ((ERROR_GENERAL, out), d1))"

section \<open>Observers\<close>

text \<open>
  The sinks in the order of their registration, with the references held on them. Registering a sink
  twice, which an assertion excludes, would add it twice.
\<close>

record info_observers =
  io_list :: "nat list"
  io_refs :: "nat \<Rightarrow> int"

definition DisplayInfo_Register :: "nat \<Rightarrow> info_observers \<Rightarrow> hresult \<times> info_observers" where
  "DisplayInfo_Register n s =
     (ERROR_NONE, s\<lparr>io_list := io_list s @ [n], io_refs := (io_refs s)(n := io_refs s n + 1)\<rparr>)"

definition DisplayInfo_Unregister :: "nat \<Rightarrow> info_observers \<Rightarrow> hresult \<times> info_observers" where
  "DisplayInfo_Unregister n s =
     (ERROR_NONE,
      if n \<in> set (io_list s) then s\<lparr>io_list := remove1 n (io_list s), io_refs := (io_refs s)(n := io_refs s n - 1)\<rparr> else s)"

datatype info_source = PRE_RESOLUTION_CHANGE | POST_RESOLUTION_CHANGE

definition ResolutionChangeImpl :: "info_source \<Rightarrow> info_observers \<Rightarrow> (nat \<times> info_source) list" where
  "ResolutionChangeImpl eventtype s = map (\<lambda>n. (n, eventtype)) (io_list s)"

definition info_OnResolutionPreChange :: "int \<Rightarrow> int \<Rightarrow> info_observers \<Rightarrow> (nat \<times> info_source) list" where
  "info_OnResolutionPreChange width height = ResolutionChangeImpl PRE_RESOLUTION_CHANGE"

definition info_OnResolutionPostChange :: "int \<Rightarrow> int \<Rightarrow> info_observers \<Rightarrow> (nat \<times> info_source) list" where
  "info_OnResolutionPostChange width height = ResolutionChangeImpl POST_RESOLUTION_CHANGE"

section \<open>Properties of the connection\<close>

definition IsAudioPassthrough :: "'d info_library \<Rightarrow> 'd \<Rightarrow> (hresult \<times> bool) \<times> 'd" where
  "IsAudioPassthrough I d =
     (case at_port I (il_stereoMode I) d of
        (None, d1) \<Rightarrow> ((ERROR_GENERAL, False), d1)
      | (Some mode, d1) \<Rightarrow> ((ERROR_NONE, mode = kPassThru), d1))"

definition Connected :: "'d info_library \<Rightarrow> bool \<Rightarrow> 'd \<Rightarrow> (hresult \<times> bool) \<times> 'd" where
  "Connected I connected d =
     (case at_port I (il_isDisplayConnected I) d of
        (None, d1) \<Rightarrow> ((ERROR_GENERAL, connected), d1)
      | (Some b, d1) \<Rightarrow> ((ERROR_NONE, b), d1))"

definition GetEdidBytes :: "'d info_library \<Rightarrow> u8 list \<Rightarrow> 'd \<Rightarrow> (hresult \<times> u8 list) \<times> 'd" where
  "GetEdidBytes I edid = read_connected I (il_edid I) (\<lambda>bytes. bytes) edid"

text \<open>The data of the EDID, if there is one that passes the check.\<close>

definition edid_of :: "'d info_library \<Rightarrow> hresult \<times> u8 list \<Rightarrow> edid_data option" where
  "edid_of I r = (if fst r = ERROR_NONE \<and> il_verify I (snd r) then Some (il_parse I (snd r)) else None)"

definition Width :: "'d info_library \<Rightarrow> 'd \<Rightarrow> (hresult \<times> nat) \<times> 'd" where
  "Width I d =
     (let (r, d1) = GetEdidBytes I [] d
      in ((ERROR_NONE, case edid_of I r of Some e \<Rightarrow> ed_width e | None \<Rightarrow> 0), d1))"

definition Height :: "'d info_library \<Rightarrow> 'd \<Rightarrow> (hresult \<times> nat) \<times> 'd" where
  "Height I d =
     (let (r, d1) = GetEdidBytes I [] d
      in ((ERROR_NONE, case edid_of I r of Some e \<Rightarrow> ed_height e | None \<Rightarrow> 0), d1))"

definition VerticalFreq :: "'d info_library \<Rightarrow> nat \<Rightarrow> 'd \<Rightarrow> (hresult \<times> nat) \<times> 'd" where
  "VerticalFreq I value d =
     (let (r, d1) = GetEdidBytes I [] d
      in (case edid_of I r of Some e \<Rightarrow> (ERROR_NONE, ed_refresh e) | None \<Rightarrow> (ERROR_GENERAL, value), d1))"

text \<open>The first connected port of HDMI or inside the device; an exception ends the search.\<close>

fun port_loop :: "'d info_library \<Rightarrow> string list \<Rightarrow> string \<Rightarrow> 'd \<Rightarrow> string \<times> 'd" where
  "port_loop I [] name d = (name, d)"
| "port_loop I (p # ps) name d =
     (case lib_call (il_isDisplayConnected I p) (\<lambda>c. if c then lib_call (il_type I p) (\<lambda>t. lib_done (t = vpHDMI \<or> t = vpInternal))
             else lib_done False) d of
        (None, d1) \<Rightarrow> (name, d1)
      | (Some True, d1) \<Rightarrow> (p, d1)
      | (Some False, d1) \<Rightarrow> port_loop I ps name d1)"

definition PortName :: "'d info_library \<Rightarrow> string \<Rightarrow> 'd \<Rightarrow> (hresult \<times> string) \<times> 'd" where
  "PortName I name d =
     (case il_ports I d of
        (None, d1) \<Rightarrow> ((ERROR_NONE, name), d1)
      | (Some ps, d1) \<Rightarrow> (let (n, d2) = port_loop I ps name d1 in ((ERROR_NONE, n), d2)))"

definition hdcp_of :: "hdcp_version \<Rightarrow> HDCPProtectionType \<Rightarrow> HDCPProtectionType" where
  "hdcp_of v value =
     (case v of dsHDCP_VERSION_1X \<Rightarrow> HDCP_1X | dsHDCP_VERSION_2X \<Rightarrow> HDCP_2X | dsHDCP_VERSION_MAX \<Rightarrow> HDCP_AUTO
      | dsHDCP_VERSION_other \<Rightarrow> value)"

definition HDCPProtection_get :: "'d info_library \<Rightarrow> HDCPProtectionType \<Rightarrow> 'd \<Rightarrow> (hresult \<times> HDCPProtectionType) \<times> 'd" where
  "HDCPProtection_get I value d =
     (let ((_, portname), d1) = PortName I [] d
      in if portname = [] then ((ERROR_NONE, value), d1)
         else (case lib_call (il_open I portname) (\<lambda>_. il_getHdmiPreference I portname) d1 of
             (None, d2) \<Rightarrow> ((ERROR_NONE, value), d2)
           | (Some v, d2) \<Rightarrow> ((ERROR_NONE, hdcp_of v value), d2)))"

definition version_of :: "HDCPProtectionType \<Rightarrow> hdcp_version" where
  "version_of value =
     (case value of HDCP_1X \<Rightarrow> dsHDCP_VERSION_1X | HDCP_2X \<Rightarrow> dsHDCP_VERSION_2X | _ \<Rightarrow> dsHDCP_VERSION_MAX)"

definition HDCPProtection_set :: "'d info_library \<Rightarrow> HDCPProtectionType \<Rightarrow> 'd \<Rightarrow> hresult \<times> 'd" where
  "HDCPProtection_set I value d =
     (let ((_, portname), d1) = PortName I [] d
      in if portname = [] then (ERROR_NONE, d1)
         else (ERROR_NONE, snd (lib_call (il_open I portname) (\<lambda>_. il_setHdmiPreference I portname (version_of value)) d1)))"

text \<open>The bytes of the EDID with the size of the display.\<close>

definition EDID_MAX_HORIZONTAL_SIZE :: nat where "EDID_MAX_HORIZONTAL_SIZE = 21"

definition EDID_MAX_VERTICAL_SIZE :: nat where "EDID_MAX_VERTICAL_SIZE = 22"

definition WidthInCentimeters :: "'d info_library \<Rightarrow> 'd \<Rightarrow> (hresult \<times> u8) \<times> 'd" where
  "WidthInCentimeters I d =
     (case at_port I (\<lambda>p. lib_call (il_isDisplayConnected I p) lib_done) d of
        (Some True, d1) \<Rightarrow>
          (let ((ret, bytes), d2) = GetEdidBytes I [] d1
           in ((ERROR_NONE, if ret = ERROR_NONE \<and> length bytes > EDID_MAX_VERTICAL_SIZE then bytes ! EDID_MAX_HORIZONTAL_SIZE else 0), d2))
      | (_, d1) \<Rightarrow> ((ERROR_NONE, 0), d1))"

definition HeightInCentimeters :: "'d info_library \<Rightarrow> u8 \<Rightarrow> 'd \<Rightarrow> (hresult \<times> u8) \<times> 'd" where
  "HeightInCentimeters I height d =
     (case if_connected I (il_edid I) d of
        (Some (Some bytes), d1) \<Rightarrow>
          ((ERROR_NONE, if length bytes > EDID_MAX_VERTICAL_SIZE then bytes ! EDID_MAX_VERTICAL_SIZE else height), d1)
      | (_, d1) \<Rightarrow> ((ERROR_NONE, height), d1))"

text \<open>The EDID is copied to the buffer as far as it fits; without one the buffer gets a text.\<close>

definition no_edid :: "u8 list" where
  "no_edid = map (word_of_nat \<circ> ascii) ''unknown''"

definition copy_to :: "u8 list \<Rightarrow> nat \<Rightarrow> u8 list \<Rightarrow> u8 list" where
  "copy_to bytes n buffer = take n bytes @ drop n buffer"

definition EDID :: "'d info_library \<Rightarrow> nat \<Rightarrow> u8 list \<Rightarrow> 'd \<Rightarrow> (hresult \<times> nat \<times> u8 list) \<times> 'd" where
  "EDID I length_in buffer d =
     (let (ret, bytes, d1) =
        (case if_connected I (il_edid I) d of
           (Some (Some b), d1) \<Rightarrow> (ERROR_NONE, b, d1)
         | (_, d1) \<Rightarrow> (ERROR_GENERAL, no_edid, d1));
          n = min length_in (min (length bytes) 65535)
      in ((ret, n, copy_to bytes n buffer), d1))"

section \<open>Properties of the display\<close>

fun colour_space :: "color_space \<Rightarrow> ColourSpaceType" where
  "colour_space dsDISPLAY_COLORSPACE_RGB = FORMAT_RGB_444"
| "colour_space dsDISPLAY_COLORSPACE_YCbCr444 = FORMAT_YCBCR_444"
| "colour_space dsDISPLAY_COLORSPACE_YCbCr422 = FORMAT_YCBCR_422"
| "colour_space dsDISPLAY_COLORSPACE_YCbCr420 = FORMAT_YCBCR_420"
| "colour_space dsDISPLAY_COLORSPACE_AUTO = FORMAT_OTHER"
| "colour_space _ = FORMAT_UNKNOWN"

definition ColorSpace :: "'d info_library \<Rightarrow> ColourSpaceType \<Rightarrow> 'd \<Rightarrow> (hresult \<times> ColourSpaceType) \<times> 'd" where
  "ColorSpace I cs = read_connected I (il_colorSpace I) colour_space cs"

fun frame_rate_type :: "frame_rate \<Rightarrow> FrameRateType" where
  "frame_rate_type k24 = FRAMERATE_24"
| "frame_rate_type k25 = FRAMERATE_25"
| "frame_rate_type k30 = FRAMERATE_30"
| "frame_rate_type k60 = FRAMERATE_60"
| "frame_rate_type k23dot98 = FRAMERATE_23_976"
| "frame_rate_type k29dot97 = FRAMERATE_29_97"
| "frame_rate_type k50 = FRAMERATE_50"
| "frame_rate_type k59dot94 = FRAMERATE_59_94"
| "frame_rate_type kOtherRate = FRAMERATE_UNKNOWN"

definition display_FrameRate :: "'d info_library \<Rightarrow> 'd \<Rightarrow> (hresult \<times> FrameRateType) \<times> 'd" where
  "display_FrameRate I d =
     (case at_port I (il_frameRate I) d of
        (None, d1) \<Rightarrow> ((ERROR_GENERAL, FRAMERATE_UNKNOWN), d1)
      | (Some r, d1) \<Rightarrow> ((ERROR_NONE, frame_rate_type r), d1))"

definition colour_depth :: "int \<Rightarrow> ColourDepthType" where
  "colour_depth n =
     (if n = 8 then COLORDEPTH_8_BIT else if n = 10 then COLORDEPTH_10_BIT else if n = 12 then COLORDEPTH_12_BIT
      else COLORDEPTH_UNKNOWN)"

definition ColourDepth :: "'d info_library \<Rightarrow> ColourDepthType \<Rightarrow> 'd \<Rightarrow> (hresult \<times> ColourDepthType) \<times> 'd" where
  "ColourDepth I colour = read_connected I (il_colorDepth I) colour_depth colour"

fun quantization_range :: "quantization \<Rightarrow> QuantizationRangeType" where
  "quantization_range dsDISPLAY_QUANTIZATIONRANGE_LIMITED = QUANTIZATIONRANGE_LIMITED"
| "quantization_range dsDISPLAY_QUANTIZATIONRANGE_FULL = QUANTIZATIONRANGE_FULL"
| "quantization_range dsDISPLAY_QUANTIZATIONRANGE_UNKNOWN = QUANTIZATIONRANGE_UNKNOWN"

definition QuantizationRange :: "'d info_library \<Rightarrow> QuantizationRangeType \<Rightarrow> 'd \<Rightarrow> (hresult \<times> QuantizationRangeType) \<times> 'd" where
  "QuantizationRange I qr = read_connected I (il_quantizationRange I) quantization_range qr"

definition colorimetry_caps :: "colorimetry_info list \<Rightarrow> ColorimetryType list" where
  "colorimetry_caps info =
     (if info = [] then [COLORIMETRY_UNKNOWN] else [])
     @ concat (map (\<lambda>(flags, c). if set flags \<inter> set info \<noteq> {} then [c] else [])
         [([COLORIMETRY_INFO_XVYCC601], COLORIMETRY_XVYCC601), ([COLORIMETRY_INFO_XVYCC709], COLORIMETRY_XVYCC709),
          ([COLORIMETRY_INFO_SYCC601], COLORIMETRY_SYCC601), ([COLORIMETRY_INFO_ADOBEYCC601], COLORIMETRY_OPYCC601),
          ([COLORIMETRY_INFO_ADOBERGB], COLORIMETRY_OPRGB),
          ([COLORIMETRY_INFO_BT2020CL, COLORIMETRY_INFO_BT2020NCL], COLORIMETRY_BT2020YCCBCBRC),
          ([COLORIMETRY_INFO_BT2020RGB], COLORIMETRY_BT2020RGB_YCBCR), ([COLORIMETRY_INFO_DCI_P3], COLORIMETRY_OTHER)])"

definition Colorimetry :: "'d info_library \<Rightarrow> 'd \<Rightarrow> (hresult \<times> ColorimetryType list) \<times> 'd" where
  "Colorimetry I d =
     (let (r, d1) = GetEdidBytes I [] d
      in (case edid_of I r of Some e \<Rightarrow> (ERROR_NONE, colorimetry_caps (ed_colorimetry e)) | None \<Rightarrow> (ERROR_GENERAL, []), d1))"

definition eotf_type :: "dsHDRStandard \<Rightarrow> EotfType" where
  "eotf_type f =
     (case f of dsHDRSTANDARD_HDR10 \<Rightarrow> EOTF_SMPTE_ST_2084 | dsHDRSTANDARD_HLG \<Rightarrow> EOTF_BT2100 | _ \<Rightarrow> EOTF_UNKNOWN)"

definition EOTF :: "'d info_library \<Rightarrow> EotfType \<Rightarrow> 'd \<Rightarrow> (hresult \<times> EotfType) \<times> 'd" where
  "EOTF I eotf = read_connected I (il_videoEOTF I) eotf_type eotf"

text \<open>The formats of the device are listed without SDR, those of the display with it.\<close>

definition hdr_formats :: "dsHDRStandard list \<Rightarrow> HDRType list" where
  "hdr_formats caps =
     (if list_all (\<lambda>c. c = dsHDRSTANDARD_NONE) caps then [HDR_OFF] else [])
     @ concat (map (\<lambda>(c, t). if c \<in> set caps then [t] else [])
         [(dsHDRSTANDARD_HDR10, HDR_10), (dsHDRSTANDARD_HDR10PLUS, HDR_10PLUS), (dsHDRSTANDARD_HLG, HDR_HLG),
          (dsHDRSTANDARD_DolbyVision, HDR_DOLBYVISION), (dsHDRSTANDARD_TechnicolorPrime, HDR_TECHNICOLOR),
          (dsHDRSTANDARD_Invalid, HDR_OFF)])"

definition TVCapabilities :: "'d info_library \<Rightarrow> 'd \<Rightarrow> (hresult \<times> HDRType list) \<times> 'd" where
  "TVCapabilities I d =
     (let (caps, d1) = (case if_connected I (il_tvHDR I) d of (Some (Some c), d1) \<Rightarrow> (c, d1) | (_, d1) \<Rightarrow> ([], d1))
      in ((ERROR_NONE, hdr_formats caps @ (if dsHDRSTANDARD_SDR \<in> set caps then [HDR_SDR] else [])), d1))"

definition STBCapabilities :: "'d info_library \<Rightarrow> 'd \<Rightarrow> (hresult \<times> HDRType list) \<times> 'd" where
  "STBCapabilities I d =
     (let (caps, d1) = (case il_stbHDR I d of (Some c, d1) \<Rightarrow> (c, d1) | (None, d1) \<Rightarrow> ([], d1))
      in ((ERROR_NONE, hdr_formats caps), d1))"

definition HDRSetting :: "'d info_library \<Rightarrow> 'd \<Rightarrow> (hresult \<times> HDRType) \<times> 'd" where
  "HDRSetting I d =
     (let (isHdr, d1) = (case if_connected I (il_isOutputHDR I) d of (Some (Some b), d1) \<Rightarrow> (b, d1) | (_, d1) \<Rightarrow> (False, d1))
      in ((ERROR_NONE, if isHdr then HDR_10 else HDR_OFF), d1))"

definition TotalGpuRam :: "'d info_library \<Rightarrow> 'd \<Rightarrow> (hresult \<times> nat) \<times> 'd" where
  "TotalGpuRam I d = (let (n, d1) = il_totalGpuRam I d in ((ERROR_NONE, n), d1))"

definition FreeGpuRam :: "'d info_library \<Rightarrow> 'd \<Rightarrow> (hresult \<times> nat) \<times> 'd" where
  "FreeGpuRam I d = (let (n, d1) = il_freeGpuRam I d in ((ERROR_NONE, n), d1))"

section \<open>The memory of the Raspberry Pi\<close>

text \<open>
  The abstraction of the chip in \<open>DeviceSettings/RPI/SoC_abstraction.cpp\<close> reads the memory from the first
  line of \<open>/proc/meminfo\<close> with its name: the first number in it, if something follows it, times 1000.
\<close>

definition parseLine :: "string \<Rightarrow> nat" where
  "parseLine line =
     (let s = dropWhile (\<lambda>c. \<not> c_isdigit c) line
      in if list_all c_isdigit s then 0 else min (nat (digits_val 0 s)) (2 ^ 64 - 1))"

definition getMemInfo :: "files \<Rightarrow> string \<Rightarrow> nat" where
  "getMemInfo F param =
     (case open_read F ''/proc/meminfo'' of
        None \<Rightarrow> 0
      | Some t \<Rightarrow> (case filter (is_prefix param) (fgets_lines 1023 t) of
                    [] \<Rightarrow> 0 | line # _ \<Rightarrow> (parseLine line * 1000) mod 2 ^ 64))"

definition SoC_GetTotalGpuRam :: "files \<Rightarrow> nat" where
  "SoC_GetTotalGpuRam F = getMemInfo F ''MemTotal:''"

definition SoC_GetFreeGpuRam :: "files \<Rightarrow> nat" where
  "SoC_GetFreeGpuRam F = getMemInfo F ''MemFree:''"

text \<open>The kernel counts in units of 1024 bytes, so the memory comes out too small.\<close>

lemma parseLine_example: "parseLine ''MemFree: 42 kB'' = 42"
  by (simp add: parseLine_def c_isdigit_def ascii_def)

end
