(* ===== verification/Lifecycle.thy ===== *)
theory Lifecycle imports Prelude begin

text \<open>
  The plugins as the framework starts and stops them: \<open>Initialize\<close> and \<open>Deinitialize\<close> of PowerManager,
  SystemMode, FrameRate, Warehouse, DeviceDiagnostics, DeviceInfo and DisplayInfo, with the references
  they hold, their registrations and their pointers. The framework is not part of the repository: what it
  answers to a plugin is the record \<open>offers\<close>. Writing through the pointer to the service after it was
  cleared is the result \<open>None\<close>.
\<close>

section \<open>What a plugin holds\<close>

datatype interface =
    IPowerManager | ISystemMode | IFrameRate | IWarehouse | IDeviceDiagnostics
  | IDeviceInfo | IDeviceAudioCapabilities | IDeviceVideoCapabilities | IConfiguration
  | IConnectionProperties | IGraphicsProperties | IHDRProperties | IDisplayProperties

datatype notification =
    IRemoteConnection_Notification | ICOMLink_Notification
  | IRebootNotification | IModePreChangeNotification | IModeChangedNotification | IDeepSleepTimeoutNotification
  | INetworkStandbyModeChangedNotification | IThermalModeChangedNotification
  | INotification_of interface

text \<open>A listener of the implementation is a sink of the plugin or of a client in another process.\<close>

datatype listener = Own notification | Client nat notification

text \<open>
  Counts and registrations are those of this plugin. \<open>g_pointer\<close> tells which of its interface pointers
  are set, \<open>g_terminated\<close> the connections it ended, \<open>g_manager\<close> the starts (\<open>True\<close>) and stops of the
  device manager.
\<close>

record glue =
  g_service :: bool
  g_connectionId :: nat
  g_pointer :: "interface \<Rightarrow> bool"
  g_refs :: "interface \<Rightarrow> int"
  g_service_refs :: int
  g_sinks :: "notification list"
  g_listeners :: "listener list"
  g_client_refs :: int
  g_json :: "interface list"
  g_configured :: nat
  g_skipURL :: nat
  g_terminated :: "nat list"
  g_manager :: "bool list"

text \<open>
  \<open>of_root\<close> tells whether an object is created, \<open>of_id\<close> the connection id written then, \<open>of_query\<close>
  whether the implementation has an interface, \<open>of_configure\<close> whether it takes its configuration,
  \<open>of_remote\<close> whether the connection id names a connection.
\<close>

record offers =
  of_root :: "interface \<Rightarrow> bool"
  of_id :: "interface \<Rightarrow> nat"
  of_query :: "interface \<Rightarrow> bool"
  of_configure :: bool
  of_remote :: bool
  of_manager :: bool
  of_prefix :: nat

text \<open>
  A plugin that holds nothing. The pointer to the configuration interface does not count: DeviceInfo, the
  only one that keeps it, leaves it dangling and overwrites it at the next start.
\<close>

definition clean :: "glue \<Rightarrow> bool" where
  "clean s \<longleftrightarrow> \<not> g_service s \<and> g_connectionId s = 0 \<and> (\<forall>i. i \<noteq> IConfiguration \<longrightarrow> \<not> g_pointer s i) \<and> g_refs s = (\<lambda>_. 0)
     \<and> g_service_refs s = 0 \<and> g_sinks s = [] \<and> g_listeners s = [] \<and> g_json s = []"

definition idle_glue :: glue where
  "idle_glue = \<lparr>g_service = False, g_connectionId = 0, g_pointer = (\<lambda>_. False), g_refs = (\<lambda>_. 0), g_service_refs = 0,
     g_sinks = [], g_listeners = [], g_client_refs = 0, g_json = [], g_configured = 0, g_skipURL = 0, g_terminated = [],
     g_manager = []\<rparr>"

section \<open>The steps\<close>

definition attach :: "glue \<Rightarrow> glue" where
  "attach s = s\<lparr>g_service := True, g_service_refs := g_service_refs s + 1\<rparr>"

definition detach :: "glue \<Rightarrow> glue" where
  "detach s = s\<lparr>g_connectionId := 0, g_service_refs := g_service_refs s - 1, g_service := False\<rparr>"

definition sink :: "notification \<Rightarrow> glue \<Rightarrow> glue" where
  "sink n s = s\<lparr>g_sinks := g_sinks s @ [n]\<rparr>"

definition unsink :: "notification \<Rightarrow> glue \<Rightarrow> glue" where
  "unsink n s = s\<lparr>g_sinks := remove1 n (g_sinks s)\<rparr>"

definition listen :: "notification \<Rightarrow> glue \<Rightarrow> glue" where
  "listen n s = s\<lparr>g_listeners := g_listeners s @ [Own n]\<rparr>"

definition unlisten :: "listener \<Rightarrow> glue \<Rightarrow> glue" where
  "unlisten l s = s\<lparr>g_listeners := remove1 l (g_listeners s)\<rparr>"

definition json_register :: "interface \<Rightarrow> glue \<Rightarrow> glue" where
  "json_register i s = s\<lparr>g_json := g_json s @ [i]\<rparr>"

definition json_unregister :: "interface \<Rightarrow> glue \<Rightarrow> glue" where
  "json_unregister i s = s\<lparr>g_json := remove1 i (g_json s)\<rparr>"

text \<open>Both assign the pointer, to null if there is no object; an object that is found is held once more.\<close>

definition point :: "bool \<Rightarrow> interface \<Rightarrow> glue \<Rightarrow> glue" where
  "point found i s =
     s\<lparr>g_pointer := (g_pointer s)(i := found), g_refs := (g_refs s)(i := g_refs s i + of_bool found)\<rparr>"

definition root :: "offers \<Rightarrow> interface \<Rightarrow> glue \<Rightarrow> glue" where
  "root off i s = point (of_root off i) i (s\<lparr>g_connectionId := of_id off i\<rparr>)"

definition query :: "offers \<Rightarrow> interface \<Rightarrow> glue \<Rightarrow> glue" where
  "query off i = point (of_query off i) i"

definition release :: "interface \<Rightarrow> glue \<Rightarrow> glue" where
  "release i s = s\<lparr>g_pointer := (g_pointer s)(i := False), g_refs := (g_refs s)(i := g_refs s i - 1)\<rparr>"

text \<open>The connection is looked up by its id before the object is released, and ended afterwards.\<close>

definition end_connection :: "offers \<Rightarrow> glue \<Rightarrow> glue" where
  "end_connection off s = (if of_remote off then s\<lparr>g_terminated := g_terminated s @ [g_connectionId s]\<rparr> else s)"

definition configure :: "glue \<Rightarrow> glue" where
  "configure s = s\<lparr>g_configured := Suc (g_configured s)\<rparr>"

definition manager_call :: "bool \<Rightarrow> glue \<Rightarrow> glue" where
  "manager_call b s = s\<lparr>g_manager := g_manager s @ [b]\<rparr>"

lemmas glue_steps = attach_def detach_def sink_def unsink_def listen_def unlisten_def json_register_def json_unregister_def
  point_def root_def query_def release_def end_connection_def configure_def manager_call_def

text \<open>A job that deactivates the plugin is submitted if its own connection is gone.\<close>

datatype shell_job = DEACTIVATED_FAILURE

definition Deactivated :: "nat \<Rightarrow> glue \<Rightarrow> shell_job list" where
  "Deactivated cid s = (if cid = g_connectionId s then [DEACTIVATED_FAILURE] else [])"

section \<open>PowerManager\<close>

definition power_notifications :: "notification list" where
  "power_notifications = [IRebootNotification, IModePreChangeNotification, IModeChangedNotification,
     IDeepSleepTimeoutNotification, INetworkStandbyModeChangedNotification, IThermalModeChangedNotification]"

definition PowerManager_Deinitialize :: "offers \<Rightarrow> glue \<Rightarrow> glue option" where
  "PowerManager_Deinitialize off s =
     (if \<not> g_service s then None
      else
        let s = unsink ICOMLink_Notification (unsink IRemoteConnection_Notification s)
        in Some (detach
             (if g_pointer s IPowerManager
              then end_connection off
                     (release IPowerManager (json_unregister IPowerManager (fold (\<lambda>n. unlisten (Own n)) power_notifications s)))
              else s)))"

definition PowerManager_Initialize :: "offers \<Rightarrow> glue \<Rightarrow> string \<times> glue" where
  "PowerManager_Initialize off s =
     (let s = root off IPowerManager (sink ICOMLink_Notification (sink IRemoteConnection_Notification (attach s)))
      in if g_pointer s IPowerManager then ([], json_register IPowerManager (fold listen power_notifications s))
         else (''PowerManager plugin could not be initialised'', the (PowerManager_Deinitialize off s)))"

text \<open>
  The sinks of a client whose process is gone are removed. The query of the interface adds a reference on
  the sink, given back only if the implementation is there.
\<close>

definition CallbackRevoked :: "nat \<Rightarrow> notification \<Rightarrow> bool \<Rightarrow> glue \<Rightarrow> glue" where
  "CallbackRevoked remote interfaceId found s =
     (if interfaceId \<in> set power_notifications \<and> found
      then (let s1 = s\<lparr>g_client_refs := g_client_refs s + 1\<rparr>
            in if g_pointer s IPowerManager
               then (unlisten (Client remote interfaceId) s1)\<lparr>g_client_refs := g_client_refs s1 - 1\<rparr> else s1)
      else s)"

section \<open>SystemMode\<close>

definition SystemMode_Deinitialize :: "offers \<Rightarrow> glue \<Rightarrow> glue option" where
  "SystemMode_Deinitialize off s =
     (if \<not> g_service s then None
      else Some (detach (if g_pointer s ISystemMode
                         then end_connection off (release ISystemMode (json_unregister ISystemMode s)) else s)))"

definition SystemMode_Initialize :: "offers \<Rightarrow> glue \<Rightarrow> string \<times> glue" where
  "SystemMode_Initialize off s =
     (let s = root off ISystemMode (attach s)
      in if g_pointer s ISystemMode then ([], json_register ISystemMode s)
         else (''SystemMode plugin could not be initialised'', the (SystemMode_Deinitialize off s)))"

section \<open>FrameRate, Warehouse and DeviceDiagnostics\<close>

text \<open>
  These three have one notification for the service and for the implementation, and leave the cleaning up
  after a failed start to the framework.
\<close>

definition notified_start :: "interface \<Rightarrow> string \<Rightarrow> offers \<Rightarrow> glue \<Rightarrow> string \<times> glue" where
  "notified_start i message off s =
     (let s = root off i (sink (INotification_of i) (attach s))
      in if g_pointer s i then ([], json_register i (listen (INotification_of i) s)) else (message, s))"

definition notified_stop :: "interface \<Rightarrow> offers \<Rightarrow> glue \<Rightarrow> glue option" where
  "notified_stop i off s =
     (if \<not> g_service s then None
      else
        let s = unsink (INotification_of i) s
        in Some (detach (if g_pointer s i
                         then end_connection off (release i (json_unregister i (unlisten (Own (INotification_of i)) s)))
                         else s)))"

definition FrameRate_Initialize :: "offers \<Rightarrow> glue \<Rightarrow> string \<times> glue" where
  "FrameRate_Initialize off s =
     notified_start IFrameRate ''FrameRate plugin could not be initialised'' off
       (if of_manager off then manager_call True s else s)"

definition FrameRate_Deinitialize :: "offers \<Rightarrow> glue \<Rightarrow> glue option" where
  "FrameRate_Deinitialize off s =
     map_option (\<lambda>t. if of_manager off then manager_call False t else t) (notified_stop IFrameRate off s)"

definition Warehouse_Initialize :: "offers \<Rightarrow> glue \<Rightarrow> string \<times> glue" where
  "Warehouse_Initialize = notified_start IWarehouse ''Warehouse plugin could not be initialised''"

definition Warehouse_Deinitialize :: "offers \<Rightarrow> glue \<Rightarrow> glue option" where
  "Warehouse_Deinitialize = notified_stop IWarehouse"

definition DeviceDiagnostics_Initialize :: "offers \<Rightarrow> glue \<Rightarrow> string \<times> glue" where
  "DeviceDiagnostics_Initialize = notified_start IDeviceDiagnostics ''DeviceDiagnostics plugin could not be initialised''"

definition DeviceDiagnostics_Deinitialize :: "offers \<Rightarrow> glue \<Rightarrow> glue option" where
  "DeviceDiagnostics_Deinitialize = notified_stop IDeviceDiagnostics"

section \<open>DeviceInfo\<close>

text \<open>
  Three objects and the configuration interface of the first. The pointer \<open>configure\<close> is not cleared
  with its release, and is read without a test.
\<close>

definition DeviceInfo_objects :: "glue \<Rightarrow> bool" where
  "DeviceInfo_objects s \<longleftrightarrow>
     g_pointer s IDeviceInfo \<and> g_pointer s IDeviceAudioCapabilities \<and> g_pointer s IDeviceVideoCapabilities"

definition DeviceInfo_Initialize :: "offers \<Rightarrow> glue \<Rightarrow> string \<times> glue" where
  "DeviceInfo_Initialize off s =
     (let s = root off IDeviceVideoCapabilities (root off IDeviceAudioCapabilities (root off IDeviceInfo (attach s)))
      in if DeviceInfo_objects s
         then
           let s = query off IConfiguration s;
               (message, s) =
                 (if g_pointer s IConfiguration
                  then (if of_configure off then [] else ''DeviceInfo could not be configured'', configure s)
                  else (''DeviceInfo implementation did not provide a configuration interface'', s))
           in (message, json_register IDeviceVideoCapabilities
                          (json_register IDeviceAudioCapabilities (json_register IDeviceInfo s)))
         else (''DeviceInfo plugin could not be initialised'', s))"

definition DeviceInfo_Deinitialize :: "offers \<Rightarrow> glue \<Rightarrow> glue option" where
  "DeviceInfo_Deinitialize off s =
     (if DeviceInfo_objects s
      then
        let s = release IDeviceAudioCapabilities (json_unregister IDeviceAudioCapabilities s);
            s = json_unregister IDeviceInfo (release IDeviceVideoCapabilities (json_unregister IDeviceVideoCapabilities s))
        in if \<not> g_pointer s IConfiguration then None
           else
             let s = s\<lparr>g_refs := (g_refs s)(IConfiguration := g_refs s IConfiguration - 1)\<rparr>;
                 s = end_connection off (release IDeviceInfo s)
             in if \<not> g_service s then None else Some (detach s)
      else if \<not> g_service s then None else Some (detach s))"

section \<open>DisplayInfo\<close>

definition DisplayInfo_Deinitialize :: "offers \<Rightarrow> glue \<Rightarrow> glue option" where
  "DisplayInfo_Deinitialize off s =
     (if \<not> g_service s then None
      else
        let s = unsink (INotification_of IConnectionProperties) s;
            give_back = (\<lambda>i s. if g_pointer s i then release i (json_unregister i s) else s)
        in Some (detach
             (if g_pointer s IConnectionProperties
              then end_connection off (release IConnectionProperties
                     (fold give_back [IHDRProperties, IGraphicsProperties, IDisplayProperties]
                       (json_unregister IConnectionProperties (unlisten (Own (INotification_of IConnectionProperties)) s))))
              else s)))"

text \<open>The graphics and the HDR interface are required, the display interface and the configuration are not.\<close>

definition DisplayInfo_Initialize :: "offers \<Rightarrow> glue \<Rightarrow> string \<times> glue" where
  "DisplayInfo_Initialize off s =
     (let s = (sink (INotification_of IConnectionProperties) (attach s))\<lparr>g_skipURL := of_prefix off mod 256\<rparr>;
          s = root off IConnectionProperties s;
          (message, s) =
            (if \<not> g_pointer s IConnectionProperties
             then (''DisplayInfo could not be instantiated. Could not acquire ConnectionProperties interface'', s)
             else
               let s = json_register IConnectionProperties (listen (INotification_of IConnectionProperties) s);
                   s = query off IGraphicsProperties (if of_query off IConfiguration then configure s else s)
               in if \<not> g_pointer s IGraphicsProperties
                  then (''DisplayInfo could not be instantiated. Could not acquire GraphicsProperties interface'', s)
                  else
                    let s = query off IHDRProperties (json_register IGraphicsProperties s)
                    in if \<not> g_pointer s IHDRProperties
                       then (''DisplayInfo could not be instantiated. Could not acquire HDRProperties interface'', s)
                       else
                         let s = query off IDisplayProperties (json_register IHDRProperties s)
                         in ([], if g_pointer s IDisplayProperties then json_register IDisplayProperties s else s))
      in (message, if message \<noteq> [] then the (DisplayInfo_Deinitialize off s) else s))"

section \<open>Starts and stops\<close>

text \<open>
  The framework starts a plugin and stops it again, any number of times; \<open>stop_failed\<close> tells whether it
  also calls \<open>Deinitialize\<close> after a start that reported an error.
\<close>

fun sessions :: "bool \<Rightarrow> (offers \<Rightarrow> glue \<Rightarrow> string \<times> glue) \<Rightarrow> (offers \<Rightarrow> glue \<Rightarrow> glue option) \<Rightarrow> (offers \<times> offers) list \<Rightarrow>
    glue \<Rightarrow> glue option" where
  "sessions stop_failed start stop [] s = Some s"
| "sessions stop_failed start stop ((o1, o2) # os) s =
     (let (message, s1) = start o1 s
      in if message = [] \<or> stop_failed
         then (case stop o2 s1 of None \<Rightarrow> None | Some s2 \<Rightarrow> sessions stop_failed start stop os s2)
         else sessions stop_failed start stop os s1)"

definition cleaned :: "glue option \<Rightarrow> bool" where
  "cleaned r = (case r of Some t \<Rightarrow> clean t | None \<Rightarrow> False)"

lemma cleaned_simps [simp]: "cleaned (Some t) = clean t" "\<not> cleaned None"
  by (simp_all add: cleaned_def)

lemma cleanedE: "cleaned r \<Longrightarrow> (\<And>t. r = Some t \<Longrightarrow> clean t \<Longrightarrow> P) \<Longrightarrow> P"
  by (cases r) auto

locale lifecycle =
  fixes start :: "offers \<Rightarrow> glue \<Rightarrow> string \<times> glue" and stop :: "offers \<Rightarrow> glue \<Rightarrow> glue option"
  assumes stopped: "clean s \<Longrightarrow> start o1 s = ([], s1) \<Longrightarrow> cleaned (stop o2 s1)"
begin

lemma sessions_started:
  assumes "clean s" and "\<forall>(o1, o2) \<in> set os. \<forall>s. fst (start o1 s) = []"
  shows "cleaned (sessions b start stop os s)"
  using assms
proof (induction os arbitrary: s)
  case (Cons p os)
  obtain o1 o2 where p: "p = (o1, o2)" by (cases p)
  from Cons.prems(2) have "fst (start o1 s) = []" by (auto simp: p)
  then obtain s1 where st: "start o1 s = ([], s1)" by (cases "start o1 s") auto
  from stopped [OF Cons.prems(1) st] obtain s2 where "stop o2 s1 = Some s2" "clean s2"
    by (rule cleanedE)
  then show ?case using Cons.IH [of s2] Cons.prems(2) by (auto simp: p st)
qed simp

end

locale cleans_up_itself = lifecycle +
  assumes failed: "clean s \<Longrightarrow> start o1 s = (m, s1) \<Longrightarrow> m \<noteq> [] \<Longrightarrow> clean s1"
begin

lemma sessions_clean: "clean s \<Longrightarrow> cleaned (sessions False start stop os s)"
proof (induction os arbitrary: s)
  case (Cons p os)
  obtain o1 o2 where p: "p = (o1, o2)" by (cases p)
  obtain m s1 where st: "start o1 s = (m, s1)" by (cases "start o1 s")
  show ?case
  proof (cases "m = []")
    case True
    with stopped [OF Cons.prems, of o1 s1 o2] st obtain s2 where "stop o2 s1 = Some s2" "clean s2"
      by (auto elim: cleanedE)
    with Cons.IH [of s2] show ?thesis by (simp add: p st True)
  next
    case False
    with failed [OF Cons.prems st] Cons.IH [of s1] show ?thesis by (simp add: p st)
  qed
qed simp

end

locale cleaned_by_framework = lifecycle +
  assumes failed: "clean s \<Longrightarrow> start o1 s = (m, s1) \<Longrightarrow> m \<noteq> [] \<Longrightarrow> cleaned (stop o2 s1)"
begin

lemma sessions_clean: "clean s \<Longrightarrow> cleaned (sessions True start stop os s)"
proof (induction os arbitrary: s)
  case (Cons p os)
  obtain o1 o2 where p: "p = (o1, o2)" by (cases p)
  obtain m s1 where st: "start o1 s = (m, s1)" by (cases "start o1 s")
  have "cleaned (stop o2 s1)"
    using stopped [OF Cons.prems] failed [OF Cons.prems st] st by (cases "m = []") auto
  then obtain s2 where "stop o2 s1 = Some s2" "clean s2" by (rule cleanedE)
  with Cons.IH [of s2] show ?case by (simp add: p st)
qed simp

end

section \<open>Every plugin\<close>

lemmas plugin_starts = PowerManager_Initialize_def SystemMode_Initialize_def FrameRate_Initialize_def
  Warehouse_Initialize_def DeviceDiagnostics_Initialize_def notified_start_def DeviceInfo_Initialize_def
  DisplayInfo_Initialize_def

lemmas plugin_stops = PowerManager_Deinitialize_def SystemMode_Deinitialize_def FrameRate_Deinitialize_def
  Warehouse_Deinitialize_def DeviceDiagnostics_Deinitialize_def notified_stop_def DeviceInfo_Deinitialize_def
  DisplayInfo_Deinitialize_def

lemmas plugin_simps = plugin_starts plugin_stops glue_steps power_notifications_def DeviceInfo_objects_def Let_def clean_def

interpretation power_manager: cleans_up_itself PowerManager_Initialize PowerManager_Deinitialize
  by unfold_locales (auto simp: plugin_simps split: if_splits)

interpretation system_mode: cleans_up_itself SystemMode_Initialize SystemMode_Deinitialize
  by unfold_locales (auto simp: plugin_simps split: if_splits)

lemma DisplayInfo_started:
  assumes "clean s" and "fst (DisplayInfo_Initialize o1 s) = []"
  shows "cleaned (DisplayInfo_Deinitialize o2 (snd (DisplayInfo_Initialize o1 s)))"
  using assms
  by (cases "of_root o1 IConnectionProperties"; cases "of_query o1 IGraphicsProperties"; cases "of_query o1 IHDRProperties";
      cases "of_query o1 IDisplayProperties"; simp add: plugin_simps fun_eq_iff)

lemma DisplayInfo_failed:
  assumes "clean s" and "fst (DisplayInfo_Initialize o1 s) \<noteq> []"
  shows "clean (snd (DisplayInfo_Initialize o1 s))"
  using assms
  by (cases "of_root o1 IConnectionProperties"; cases "of_query o1 IGraphicsProperties"; cases "of_query o1 IHDRProperties";
      simp add: plugin_simps fun_eq_iff)

interpretation display_info: cleans_up_itself DisplayInfo_Initialize DisplayInfo_Deinitialize
proof unfold_locales
  show "cleaned (DisplayInfo_Deinitialize o2 s1)" if "clean s" "DisplayInfo_Initialize o1 s = ([], s1)" for s o1 s1 o2
    using DisplayInfo_started [OF that(1), of o1 o2] that(2) by simp
  show "clean s1" if "clean s" "DisplayInfo_Initialize o1 s = (m, s1)" "m \<noteq> []" for s o1 m s1
    using DisplayInfo_failed [OF that(1), of o1] that(2,3) by simp
qed

interpretation frame_rate_plugin: cleaned_by_framework FrameRate_Initialize FrameRate_Deinitialize
  by unfold_locales (auto simp: plugin_simps split: if_splits)

interpretation warehouse: cleaned_by_framework Warehouse_Initialize Warehouse_Deinitialize
  by unfold_locales (auto simp: plugin_simps split: if_splits)

interpretation device_diagnostics: cleaned_by_framework DeviceDiagnostics_Initialize DeviceDiagnostics_Deinitialize
  by unfold_locales (auto simp: plugin_simps split: if_splits)

interpretation device_info: lifecycle DeviceInfo_Initialize DeviceInfo_Deinitialize
  by unfold_locales (auto simp: plugin_simps split: if_splits)

lemma clean_idle [simp]: "clean idle_glue"
  by (simp add: clean_def idle_glue_def)

text \<open>
  C13. However often the plugins are started and stopped, and whatever the framework answers them, they
  give back every reference and registration: PowerManager, SystemMode and DisplayInfo if a failed start
  is not stopped by the framework, FrameRate, Warehouse and DeviceDiagnostics if it is.
\<close>

theorem plugins_clean_up:
  "cleaned (sessions False PowerManager_Initialize PowerManager_Deinitialize os idle_glue)
   \<and> cleaned (sessions False SystemMode_Initialize SystemMode_Deinitialize os idle_glue)
   \<and> cleaned (sessions False DisplayInfo_Initialize DisplayInfo_Deinitialize os idle_glue)
   \<and> cleaned (sessions True FrameRate_Initialize FrameRate_Deinitialize os idle_glue)
   \<and> cleaned (sessions True Warehouse_Initialize Warehouse_Deinitialize os idle_glue)
   \<and> cleaned (sessions True DeviceDiagnostics_Initialize DeviceDiagnostics_Deinitialize os idle_glue)"
  by (intro conjI power_manager.sessions_clean system_mode.sessions_clean display_info.sessions_clean
      frame_rate_plugin.sessions_clean warehouse.sessions_clean device_diagnostics.sessions_clean clean_idle)

text \<open>What a failed start leaves behind if nothing stops it.\<close>

lemma notified_failures:
  assumes "\<not> of_root o1 i" and "\<not> g_pointer s i"
  shows "\<exists>t. sessions False (notified_start i (c # m)) (notified_stop i) (replicate n (o1, o2)) s = Some t
     \<and> g_service_refs t = g_service_refs s + int n
     \<and> g_sinks t = g_sinks s @ replicate n (INotification_of i)"
  using assms(2)
proof (induction n arbitrary: s)
  case (Suc n)
  define t where "t = snd (notified_start i (c # m) o1 s)"
  have t: "notified_start i (c # m) o1 s = (c # m, t)" "\<not> g_pointer t i" "g_service_refs t = g_service_refs s + 1"
    "g_sinks t = g_sinks s @ [INotification_of i]"
    using assms(1) by (simp_all add: t_def notified_start_def glue_steps)
  from Suc.IH [OF t(2)] show ?case by (simp add: t add.assoc)
qed simp

text \<open>
  C26. No treatment of failed starts suits all plugins. If the framework stops a plugin whose start failed,
  PowerManager, SystemMode and DisplayInfo use the pointer to the service that they have cleared; if it
  does not, each failed start of Warehouse, or of DeviceDiagnostics, leaves one more reference to the
  service and one more notification registered with it.
\<close>

theorem cleanup_policies_differ:
  "\<lbrakk>of_root o1 = (\<lambda>_. False)\<rbrakk> \<Longrightarrow>
     sessions True PowerManager_Initialize PowerManager_Deinitialize [(o1, o2)] idle_glue = None
   \<and> sessions True SystemMode_Initialize SystemMode_Deinitialize [(o1, o2)] idle_glue = None
   \<and> sessions True DisplayInfo_Initialize DisplayInfo_Deinitialize [(o1, o2)] idle_glue = None
   \<and> (\<exists>t. sessions False Warehouse_Initialize Warehouse_Deinitialize (replicate n (o1, o2)) idle_glue = Some t
          \<and> g_service_refs t = int n \<and> g_sinks t = replicate n (INotification_of IWarehouse))
   \<and> (\<exists>t. sessions False DeviceDiagnostics_Initialize DeviceDiagnostics_Deinitialize (replicate n (o1, o2)) idle_glue = Some t
          \<and> g_service_refs t = int n \<and> g_sinks t = replicate n (INotification_of IDeviceDiagnostics))"
  using notified_failures [of o1 IWarehouse idle_glue _ _ n o2] notified_failures [of o1 IDeviceDiagnostics idle_glue _ _ n o2]
  by (simp add: Warehouse_Initialize_def Warehouse_Deinitialize_def DeviceDiagnostics_Initialize_def
      DeviceDiagnostics_Deinitialize_def PowerManager_Initialize_def PowerManager_Deinitialize_def
      SystemMode_Initialize_def SystemMode_Deinitialize_def DisplayInfo_Initialize_def DisplayInfo_Deinitialize_def
      glue_steps Let_def idle_glue_def)

definition no_objects :: offers where
  "no_objects = \<lparr>of_root = (\<lambda>_. False), of_id = (\<lambda>_. 0), of_query = (\<lambda>_. False), of_configure = False, of_remote = False,
     of_manager = False, of_prefix = 0\<rparr>"

theorem cleanup_policies_differ_witness:
  "sessions True PowerManager_Initialize PowerManager_Deinitialize [(no_objects, no_objects)] idle_glue = None
   \<and> (\<exists>t. sessions False Warehouse_Initialize Warehouse_Deinitialize (replicate 3 (no_objects, no_objects)) idle_glue = Some t
          \<and> g_service_refs t = 3)"
  using cleanup_policies_differ [of no_objects no_objects 3] by (auto simp: no_objects_def)

text \<open>
  DeviceInfo fits neither: if one of its three objects is missing, the others are never released; if there
  is no configuration interface, stopping it writes through a null pointer.
\<close>

lemma device_info_leaks:
  assumes "of_root o1 IDeviceInfo" and "\<not> of_root o1 IDeviceAudioCapabilities"
  shows "\<exists>t. sessions True DeviceInfo_Initialize DeviceInfo_Deinitialize [(o1, o2)] idle_glue = Some t \<and> g_refs t IDeviceInfo = 1"
  using assms by (simp add: plugin_simps idle_glue_def)

lemma device_info_without_configuration:
  assumes "of_root o1 = (\<lambda>_. True)" and "\<not> of_query o1 IConfiguration"
  shows "sessions True DeviceInfo_Initialize DeviceInfo_Deinitialize [(o1, o2)] idle_glue = None"
  using assms by (simp add: plugin_simps idle_glue_def)

text \<open>A client that is gone loses its sink, and no reference to it is kept while the implementation is there.\<close>

lemma revoked_client:
  assumes "g_pointer s IPowerManager" and "distinct (g_listeners s)" and "n \<in> set power_notifications"
  shows "Client c n \<notin> set (g_listeners (CallbackRevoked c n True s))
    \<and> g_client_refs (CallbackRevoked c n True s) = g_client_refs s
    \<and> set (g_listeners s) \<subseteq> insert (Client c n) (set (g_listeners (CallbackRevoked c n True s)))"
  using assms by (auto simp: CallbackRevoked_def unlisten_def Let_def)

end
