(* ===== verification/DisplayInfoPlugin.thy ===== *)
theory DisplayInfoPlugin imports DisplayInfoImpl Lifecycle begin

text \<open>
  The web interface of \<open>DisplayInfo/DisplayInfo.cpp\<close> over the implementation of \<open>DisplayInfoImpl\<close>, and
  what the display information promises: the report of a started plugin, the EDID in the buffer of the
  caller, and the HDCP preference of a port.
\<close>

section \<open>The report\<close>

record displayinfo_data =
  dd_Totalgpuram :: "nat option"
  dd_Freegpuram :: "nat option"
  dd_Audiopassthrough :: "bool option"
  dd_Connected :: "bool option"
  dd_Width :: "nat option"
  dd_Height :: "nat option"
  dd_Hdcpprotection :: "HDCPProtectionType option"
  dd_Hdrtype :: "HDRType option"

definition no_data :: displayinfo_data where
  "no_data = \<lparr>dd_Totalgpuram = None, dd_Freegpuram = None, dd_Audiopassthrough = None, dd_Connected = None,
     dd_Width = None, dd_Height = None, dd_Hdcpprotection = None, dd_Hdrtype = None\<rparr>"

definition if_none :: "hresult \<times> 'a \<Rightarrow> 'a option" where
  "if_none r = (if fst r = ERROR_NONE then Some (snd r) else None)"

definition Info :: "'d info_library \<Rightarrow> 'd \<Rightarrow> displayinfo_data \<times> 'd" where
  "Info I d =
     (let (total, d) = TotalGpuRam I d;
          (free, d) = FreeGpuRam I d;
          (passthrough, d) = IsAudioPassthrough I d;
          (connected, d) = Connected I False d;
          (width, d) = Width I d;
          (height, d) = Height I d;
          (hdcp, d) = HDCPProtection_get I HDCP_UNENCRYPTED d;
          (hdr, d) = HDRSetting I d
      in (no_data\<lparr>dd_Totalgpuram := if_none total, dd_Freegpuram := if_none free, dd_Audiopassthrough := if_none passthrough,
            dd_Connected := if_none connected, dd_Width := if_none width, dd_Height := if_none height,
            dd_Hdcpprotection := if_none hdcp, dd_Hdrtype := if_none hdr\<rparr>, d))"

datatype web_verb = HTTP_GET | HTTP_OTHER

record web_response =
  wr_ErrorCode :: nat
  wr_Message :: string
  wr_Body :: "displayinfo_data option"

text \<open>
  \<open>None\<close> is a failed assertion on the path or a read through a null pointer. The path after the prefix is
  split and not used.
\<close>

definition Process :: "glue \<Rightarrow> 'd info_library \<Rightarrow> web_verb \<Rightarrow> string \<Rightarrow> 'd \<Rightarrow> (web_response \<times> 'd) option" where
  "Process s I verb path d =
     (if length path < g_skipURL s then None
      else
        case verb of
          HTTP_OTHER \<Rightarrow>
            Some (\<lparr>wr_ErrorCode = 400, wr_Message = ''Unsupported request for the [DisplayInfo] service.'', wr_Body = None\<rparr>, d)
        | HTTP_GET \<Rightarrow>
            if g_pointer s IGraphicsProperties \<and> g_pointer s IConnectionProperties \<and> g_pointer s IHDRProperties
            then (let (data, d1) = Info I d in Some (\<lparr>wr_ErrorCode = 200, wr_Message = ''OK'', wr_Body = Some data\<rparr>, d1))
            else None)"

section \<open>A device without a display\<close>

text \<open>
  The library finds no display: its ports exist and none of them is connected. Looking does not change them.
\<close>

definition no_display :: "'d info_library \<Rightarrow> string \<Rightarrow> string list \<Rightarrow> AudioStereoMode \<Rightarrow> 'd \<Rightarrow> bool" where
  "no_display I p ps mode d \<longleftrightarrow>
     il_defaultPort I d = (Some p, d) \<and> il_open I p d = (Some (), d) \<and> il_ports I d = (Some ps, d)
   \<and> (\<forall>q \<in> set (p # ps). il_isDisplayConnected I q d = (Some False, d)) \<and> il_stereoMode I p d = (Some mode, d)"

lemma at_port_no_display: "no_display I p ps mode d \<Longrightarrow> at_port I k d = k p d"
  by (simp add: no_display_def at_port_def lib_call_def)

lemma if_connected_no_display: "no_display I p ps mode d \<Longrightarrow> if_connected I k d = (Some None, d)"
  by (simp add: if_connected_def at_port_no_display) (simp add: no_display_def lib_call_def lib_done_def)

lemma port_loop_no_display:
  "\<forall>q \<in> set qs. il_isDisplayConnected I q d = (Some False, d) \<Longrightarrow> port_loop I qs name d = (name, d)"
  by (induction qs) (simp_all add: lib_call_def lib_done_def)

lemma PortName_no_display: "no_display I p ps mode d \<Longrightarrow> PortName I name d = ((ERROR_NONE, name), d)"
  by (simp add: PortName_def no_display_def port_loop_no_display)

lemma report_without_display:
  assumes "no_display I p ps mode d" and "il_totalGpuRam I d = (t, d)" and "il_freeGpuRam I d = (f, d)"
  shows "Info I d =
    (\<lparr>dd_Totalgpuram = Some t, dd_Freegpuram = Some f, dd_Audiopassthrough = Some (mode = kPassThru), dd_Connected = Some False,
      dd_Width = Some 0, dd_Height = Some 0, dd_Hdcpprotection = Some HDCP_UNENCRYPTED, dd_Hdrtype = Some HDR_OFF\<rparr>, d)"
proof -
  from assms(1) have
    "GetEdidBytes I e d = ((ERROR_GENERAL, e), d)" "HDRSetting I d = ((ERROR_NONE, HDR_OFF), d)"
    "IsAudioPassthrough I d = ((ERROR_NONE, mode = kPassThru), d)" "Connected I b d = ((ERROR_NONE, False), d)"
    "HDCPProtection_get I v d = ((ERROR_NONE, v), d)" for e b v
    by (simp_all add: GetEdidBytes_def read_connected_def HDRSetting_def IsAudioPassthrough_def Connected_def
        HDCPProtection_get_def if_connected_no_display at_port_no_display PortName_no_display)
      (simp_all add: no_display_def)
  with assms(2,3) show ?thesis
    by (simp add: Info_def Width_def Height_def edid_of_def TotalGpuRam_def FreeGpuRam_def no_data_def if_none_def)
qed

lemma DisplayInfo_started_pointers:
  assumes "fst (DisplayInfo_Initialize off s) = []"
  shows "g_pointer (snd (DisplayInfo_Initialize off s)) IConnectionProperties"
    and "g_pointer (snd (DisplayInfo_Initialize off s)) IGraphicsProperties"
    and "g_pointer (snd (DisplayInfo_Initialize off s)) IHDRProperties"
    and "g_skipURL (snd (DisplayInfo_Initialize off s)) = of_prefix off mod 256"
  using assms
  by (cases "of_root off IConnectionProperties"; cases "of_query off IGraphicsProperties"; cases "of_query off IHDRProperties";
      simp add: DisplayInfo_Initialize_def glue_steps Let_def)+

section \<open>A library with one port\<close>

text \<open>A library with the port HDMI0, with or without a display, that keeps the HDCP preference as its state.\<close>

definition one_port :: "bool \<Rightarrow> u8 list \<Rightarrow> hdcp_version info_library" where
  "one_port connected edid =
     \<lparr>il_defaultPort = Pair (Some ''HDMI0''), il_open = (\<lambda>_. Pair (Some ())), il_ports = Pair (Some [''HDMI0'']),
      il_type = (\<lambda>_. Pair (Some vpHDMI)), il_isDisplayConnected = (\<lambda>_. Pair (Some connected)),
      il_stereoMode = (\<lambda>_. Pair (Some kPassThru)), il_edid = (\<lambda>_. Pair (Some edid)), il_verify = (\<lambda>_. True),
      il_parse = (\<lambda>_. \<lparr>ed_width = 1920, ed_height = 1080, ed_refresh = 60, ed_colorimetry = []\<rparr>),
      il_getHdmiPreference = (\<lambda>_ d. (Some d, d)), il_setHdmiPreference = (\<lambda>_ v d. (Some True, v)),
      il_colorSpace = (\<lambda>_. Pair (Some dsDISPLAY_COLORSPACE_RGB)), il_frameRate = (\<lambda>_. Pair (Some k60)),
      il_colorDepth = (\<lambda>_. Pair (Some 8)), il_quantizationRange = (\<lambda>_. Pair (Some dsDISPLAY_QUANTIZATIONRANGE_FULL)),
      il_videoEOTF = (\<lambda>_. Pair (Some dsHDRSTANDARD_HDR10)), il_tvHDR = (\<lambda>_. Pair (Some [dsHDRSTANDARD_HDR10])),
      il_stbHDR = Pair (Some []), il_isOutputHDR = (\<lambda>_. Pair (Some True)), il_totalGpuRam = Pair 64,
      il_freeGpuRam = Pair 32\<rparr>"

lemma one_port_no_display: "no_display (one_port False edid) ''HDMI0'' [''HDMI0''] kPassThru d"
  by (simp add: no_display_def one_port_def)

definition all_objects :: offers where
  "all_objects = \<lparr>of_root = (\<lambda>_. True), of_id = (\<lambda>_. 7), of_query = (\<lambda>_. True), of_configure = True, of_remote = True,
     of_manager = True, of_prefix = 20\<rparr>"

lemma all_objects_started: "fst (DisplayInfo_Initialize all_objects idle_glue) = []"
  by (simp add: DisplayInfo_Initialize_def all_objects_def idle_glue_def glue_steps Let_def)

text \<open>
  C25. A plugin that was started answers a GET request for its prefix by a report, with the implementation
  it was given, whatever the device does; without a display the report says so in every entry: not
  connected, no size, not encrypted and no HDR, with the memory and the sound as they are.
\<close>

theorem started_plugin_reports:
  assumes "fst (DisplayInfo_Initialize off s) = []" and "of_prefix off mod 256 \<le> length path"
  shows "(\<exists>data d1. Info I d = (data, d1) \<and> Process (snd (DisplayInfo_Initialize off s)) I HTTP_GET path d
            = Some (\<lparr>wr_ErrorCode = 200, wr_Message = ''OK'', wr_Body = Some data\<rparr>, d1))
     \<and> (no_display I p ps mode d \<and> il_totalGpuRam I d = (t, d) \<and> il_freeGpuRam I d = (f, d)
         \<longrightarrow> map_option (wr_Body \<circ> fst) (Process (snd (DisplayInfo_Initialize off s)) I HTTP_GET path d)
             = Some (Some \<lparr>dd_Totalgpuram = Some t, dd_Freegpuram = Some f, dd_Audiopassthrough = Some (mode = kPassThru),
                 dd_Connected = Some False, dd_Width = Some 0, dd_Height = Some 0,
                 dd_Hdcpprotection = Some HDCP_UNENCRYPTED, dd_Hdrtype = Some HDR_OFF\<rparr>))"
proof -
  have "Process (snd (DisplayInfo_Initialize off s)) I HTTP_GET path d
      = Some (\<lparr>wr_ErrorCode = 200, wr_Message = ''OK'', wr_Body = Some (fst (Info I d))\<rparr>, snd (Info I d))"
    using DisplayInfo_started_pointers [OF assms(1)] assms(2) by (simp add: Process_def split_def Let_def)
  then show ?thesis using report_without_display [of I p ps mode d t f] by (auto simp: prod_eq_iff)
qed

theorem started_plugin_reports_witness:
  "map_option (wr_Body \<circ> fst)
     (Process (snd (DisplayInfo_Initialize all_objects idle_glue)) (one_port False []) HTTP_GET ''/Service/DisplayInfo'' dsHDCP_VERSION_1X)
   = Some (Some \<lparr>dd_Totalgpuram = Some 64, dd_Freegpuram = Some 32, dd_Audiopassthrough = Some True, dd_Connected = Some False,
       dd_Width = Some 0, dd_Height = Some 0, dd_Hdcpprotection = Some HDCP_UNENCRYPTED, dd_Hdrtype = Some HDR_OFF\<rparr>)"
proof -
  have "of_prefix all_objects mod 256 \<le> length ''/Service/DisplayInfo''" by (simp add: all_objects_def)
  note reports = conjunct2 [OF started_plugin_reports [OF all_objects_started this, where I = "one_port False []" and d = dsHDCP_VERSION_1X
        and p = "''HDMI0''" and ps = "[''HDMI0'']" and mode = kPassThru and t = 64 and f = 32]]
  have "il_totalGpuRam (one_port False []) dsHDCP_VERSION_1X = (64, dsHDCP_VERSION_1X)"
    "il_freeGpuRam (one_port False []) dsHDCP_VERSION_1X = (32, dsHDCP_VERSION_1X)"
    by (simp_all add: one_port_def)
  with reports one_port_no_display show ?thesis by simp
qed

section \<open>The EDID in the buffer of the caller\<close>

text \<open>
  Asked for the EDID, the implementation writes no further than the given length and reports how much
  it wrote: the beginning of the EDID of the connected display, or of the text unknown with an error; the
  rest of the buffer stays.
\<close>

theorem edid_copied:
  "\<lbrakk>EDID I length_in buffer d = ((ret, n, data), d1); length_in \<le> length buffer\<rbrakk> \<Longrightarrow>
     n \<le> length_in \<and> length data = length buffer \<and> drop n data = drop n buffer
     \<and> (if ret = ERROR_NONE
        then (\<exists>edid. if_connected I (il_edid I) d = (Some (Some edid), d1) \<and> take n data = take length_in (take 65535 edid))
        else take n data = take length_in no_edid)"
  by (auto simp: EDID_def copy_to_def Let_def min_def no_edid_def if_connected_def split: option.splits prod.splits if_splits)

theorem edid_copied_witness:
  "EDID (one_port True [1, 2, 3]) 2 [0, 0, 9] d = ((ERROR_NONE, 2, [1, 2, 9]), d)
   \<and> length ([1, 2, 9] :: u8 list) = length ([0, 0, 9] :: u8 list) \<and> drop 2 ([1, 2, 9] :: u8 list) = drop 2 [0, 0, 9]"
proof -
  have "EDID (one_port True [1, 2, 3]) 2 [0, 0, 9] d = ((ERROR_NONE, 2, [1, 2, 9]), d)"
    by (simp add: EDID_def one_port_def if_connected_def at_port_def lib_call_def lib_done_def copy_to_def Let_def)
  from this edid_copied [OF this] show ?thesis by simp
qed

section \<open>The HDCP preference\<close>

text \<open>
  A connected port that keeps its preference: it is named, can be opened, and answers what it was told.
\<close>

definition keeps_preference :: "'d info_library \<Rightarrow> string \<Rightarrow> bool" where
  "keeps_preference I p \<longleftrightarrow> p \<noteq> [] \<and> (\<forall>d. PortName I [] d = ((ERROR_NONE, p), d) \<and> il_open I p d = (Some (), d))
     \<and> (\<forall>v d. \<exists>d1. il_setHdmiPreference I p v d = (Some True, d1) \<and> il_getHdmiPreference I p d1 = (Some v, d1))"

lemma hdcp_roundtrip:
  assumes "keeps_preference I p"
  shows "\<exists>d1. HDCPProtection_set I v d = (ERROR_NONE, d1)
     \<and> HDCPProtection_get I x d1 = ((ERROR_NONE, if v = HDCP_UNENCRYPTED then HDCP_AUTO else v), d1)"
proof -
  from assms obtain d1 where "il_setHdmiPreference I p (version_of v) d = (Some True, d1)"
    "il_getHdmiPreference I p d1 = (Some (version_of v), d1)"
    unfolding keeps_preference_def by blast
  with assms show ?thesis
    by (cases v) (simp_all add: HDCPProtection_set_def HDCPProtection_get_def keeps_preference_def lib_call_def
        version_of_def hdcp_of_def)
qed

lemma one_port_keeps_preference: "keeps_preference (one_port True edid) ''HDMI0''"
  by (simp add: keeps_preference_def one_port_def PortName_def lib_call_def lib_done_def)

section \<open>What the getters leave out\<close>

text \<open>Without a display the height in centimetres is the old content of the output parameter, the width is 0.\<close>

lemma height_left_alone:
  assumes "no_display I p ps mode d"
  shows "HeightInCentimeters I h d = ((ERROR_NONE, h), d)" and "WidthInCentimeters I d = ((ERROR_NONE, 0), d)"
  using assms
  by (simp_all add: HeightInCentimeters_def WidthInCentimeters_def if_connected_no_display at_port_no_display)
    (simp add: no_display_def lib_call_def lib_done_def)

text \<open>Every HDR format of the output is reported as HDR10, and the device never lists SDR.\<close>

lemma hdr_setting_coarse: "snd (fst (HDRSetting I d)) \<in> {HDR_OFF, HDR_10}"
  by (simp add: HDRSetting_def split_def Let_def)

lemma stb_without_sdr: "HDR_SDR \<notin> set (snd (fst (STBCapabilities I d)))"
  by (auto simp: STBCapabilities_def hdr_formats_def split_def Let_def split: if_splits)

text \<open>Observers are told in the order of their registration, each with one reference; no reference is lost.\<close>

lemma count_positive: "m \<in> set xs \<Longrightarrow> int (count_list xs m - Suc 0) = int (count_list xs m) - 1"
  using count_list_0_iff [of xs m] by (auto simp: of_nat_diff Suc_leI)

lemma observers_referenced:
  assumes "\<forall>n. io_refs s n = int (count_list (io_list s) n)"
  shows "\<forall>n. io_refs (snd (DisplayInfo_Register m s)) n = int (count_list (io_list (snd (DisplayInfo_Register m s))) n)"
    and "\<forall>n. io_refs (snd (DisplayInfo_Unregister m s)) n = int (count_list (io_list (snd (DisplayInfo_Unregister m s))) n)"
  using assms by (auto simp: DisplayInfo_Register_def DisplayInfo_Unregister_def count_list_append count_list_remove1 count_positive)

end
