(* ===== verification/LinuxDisplay.thy ===== *)
theory LinuxDisplay imports DisplayInfoImpl begin

text \<open>
  The display information of \<open>DisplayInfo/Linux/PlatformImplementation.cpp\<close> and \<open>DRMConnector.h\<close>: the
  connector of the graphics device, the files of the driver, the messages of udev and the queue of events
  between its thread and the worker. The files are the texts of \<open>FileContent\<close>; the connectors that the DRM
  library lists are part of the environment.
\<close>

section \<open>Modes of a connector\<close>

record drm_mode =
  md_hdisplay :: nat
  md_vdisplay :: nat
  md_vrefresh :: nat
  md_preferred :: bool

record drm_connector =
  dc_hdmi :: bool
  dc_modes :: "drm_mode list"

definition mode_area :: "drm_mode \<Rightarrow> nat" where
  "mode_area m = md_hdisplay m * md_vdisplay m"

definition mode_greater :: "drm_mode \<Rightarrow> drm_mode \<Rightarrow> bool" where
  "mode_greater lhs rhs \<longleftrightarrow> mode_area rhs < mode_area lhs"

fun BestMode_from :: "drm_mode option \<Rightarrow> drm_mode list \<Rightarrow> drm_mode option" where
  "BestMode_from result [] = result"
| "BestMode_from None (m # ms) = BestMode_from (Some m) ms"
| "BestMode_from (Some r) (m # ms) = BestMode_from (Some (if mode_greater r m then r else m)) ms"

definition BestMode :: "drm_mode list \<Rightarrow> drm_mode option" where
  "BestMode = BestMode_from None"

definition PreferredMode :: "drm_mode list \<Rightarrow> drm_mode option" where
  "PreferredMode modes = fold (\<lambda>m result. if md_preferred m then Some m else result) modes None"

record connector_state =
  cs_connected :: bool
  cs_width :: nat
  cs_height :: nat
  cs_refreshRate :: nat

definition no_connector :: connector_state where
  "no_connector = \<lparr>cs_connected = False, cs_width = 0, cs_height = 0, cs_refreshRate = 0\<rparr>"

definition InitializeWithConnector :: "bool \<Rightarrow> drm_connector \<Rightarrow> connector_state" where
  "InitializeWithConnector usePreferredMode c =
     (case (if usePreferredMode then PreferredMode else BestMode) (dc_modes c) of
        None \<Rightarrow> no_connector
      | Some m \<Rightarrow> \<lparr>cs_connected = True, cs_width = md_hdisplay m, cs_height = md_vdisplay m, cs_refreshRate = md_vrefresh m\<rparr>)"

text \<open>The last HDMI connector counts; a device that cannot be opened has no list of connectors.\<close>

definition DRMConnector :: "drm_connector option list option \<Rightarrow> bool \<Rightarrow> connector_state" where
  "DRMConnector connectors usePreferredMode =
     (case connectors of
        None \<Rightarrow> no_connector
      | Some cs \<Rightarrow>
          fold (\<lambda>c s. case c of Some k \<Rightarrow> if dc_hdmi k then InitializeWithConnector usePreferredMode k else s | None \<Rightarrow> s)
            cs no_connector)"

lemma BestMode_from_max:
  "BestMode_from r ms = Some m \<Longrightarrow>
     (m \<in> set ms \<or> r = Some m) \<and> (\<forall>k \<in> set ms. mode_area k \<le> mode_area m) \<and> (\<forall>k. r = Some k \<longrightarrow> mode_area k \<le> mode_area m)"
proof (induction r ms rule: BestMode_from.induct)
  case (3 r k ms)
  then show ?case by (cases "mode_greater r k") (auto simp: mode_greater_def)
qed auto

lemma BestMode_from_some: "r \<noteq> None \<or> ms \<noteq> [] \<Longrightarrow> \<exists>m. BestMode_from r ms = Some m"
  by (induction r ms rule: BestMode_from.induct) auto

text \<open>The best mode is a mode with the most points; it is missing only if there is none.\<close>

lemma best_mode_largest:
  "BestMode ms = Some m \<Longrightarrow> m \<in> set ms \<and> (\<forall>k \<in> set ms. mode_area k \<le> mode_area m)"
  using BestMode_from_max [of None ms m] by (simp add: BestMode_def)

lemma best_mode_exists: "BestMode ms = None \<longleftrightarrow> ms = []"
  using BestMode_from_some [of None ms] by (cases "ms = []") (auto simp: BestMode_def)

section \<open>Files of the driver\<close>

record linux_env =
  le_files :: files
  le_drm :: "string \<Rightarrow> drm_connector option list option"
  le_stale :: "char \<times> char"

definition first_line :: "string \<Rightarrow> string" where
  "first_line = takeWhile (\<lambda>c. c \<noteq> CHR 0x0A)"

definition linux_getLine :: "files \<Rightarrow> string \<Rightarrow> string" where
  "linux_getLine F filepath = (case open_read F filepath of Some t \<Rightarrow> first_line t | None \<Rightarrow> [])"

definition line_has :: "string \<Rightarrow> string \<Rightarrow> bool" where
  "line_has t s \<longleftrightarrow> find_str t s \<noteq> None"

text \<open>The first line with the key that is not empty.\<close>

definition GetValueForKey :: "files \<Rightarrow> string \<Rightarrow> string \<Rightarrow> string" where
  "GetValueForKey F filepath key =
     (case open_read F filepath of
        None \<Rightarrow> []
      | Some t \<Rightarrow> (case filter (\<lambda>l. line_has key l \<and> l \<noteq> []) (file_lines t) of [] \<Rightarrow> [] | l # _ \<Rightarrow> l))"

text \<open>
  The text from the first to the last digit is read as a number, up to the first other character. A line
  without digits, or a number of more than 64 bits, is an exception.
\<close>

definition extractNumbers :: "string \<Rightarrow> nat option" where
  "extractNumbers str =
     (if str = [] then Some 0
      else if \<not> list_ex c_isdigit str then None
      else
        let value = rev (dropWhile (\<lambda>c. \<not> c_isdigit c) (rev (dropWhile (\<lambda>c. \<not> c_isdigit c) str)));
            n = nat (digits_val 0 value)
        in if n < 2 ^ 64 then Some n else None)"

definition GetMemory :: "files \<Rightarrow> string \<Rightarrow> string \<Rightarrow> nat option" where
  "GetMemory F memoryStatsFile key = extractNumbers (GetValueForKey F memoryStatsFile key)"

record linux_graphics =
  lg_memoryStatsFile :: string
  lg_memoryFreeKey :: string
  lg_memoryTotalKey :: string
  lg_unitMultiplier :: u32

definition linux_GpuRam :: "files \<Rightarrow> linux_graphics \<Rightarrow> string \<Rightarrow> (hresult \<times> 64 word) option" where
  "linux_GpuRam F g key =
     map_option (\<lambda>n. (ERROR_NONE, of_nat n * ucast (lg_unitMultiplier g))) (GetMemory F (lg_memoryStatsFile g) key)"

definition linux_TotalGpuRam :: "files \<Rightarrow> linux_graphics \<Rightarrow> (hresult \<times> 64 word) option" where
  "linux_TotalGpuRam F g = linux_GpuRam F g (lg_memoryTotalKey g)"

definition linux_FreeGpuRam :: "files \<Rightarrow> linux_graphics \<Rightarrow> (hresult \<times> 64 word) option" where
  "linux_FreeGpuRam F g = linux_GpuRam F g (lg_memoryFreeKey g)"

definition GetHDRLevel :: "files \<Rightarrow> string \<Rightarrow> HDRType" where
  "GetHDRLevel F hdrLevelFilepath =
     (let hdrStr = linux_getLine F hdrLevelFilepath
      in if hdrStr = ''SDR'' then HDR_OFF
         else if hdrStr = ''HDR10-GAMMA_ST2084'' then HDR_10
         else if hdrStr = ''HDR10-GAMMA_HLG'' then HDR_HLG
         else if hdrStr = ''HDR10Plus-VSIF'' then HDR_10PLUS
         else if hdrStr = ''DolbyVision-Std'' \<or> hdrStr = ''DolbyVision-Lowlatency'' then HDR_DOLBYVISION
         else if hdrStr = ''HDR10-others'' then HDR_10
         else HDR_OFF)"

definition linux_HDRSetting :: "files \<Rightarrow> string \<Rightarrow> hresult \<times> HDRType" where
  "linux_HDRSetting F path = (ERROR_NONE, GetHDRLevel F path)"

definition linux_TVCapabilities :: hresult where "linux_TVCapabilities = ERROR_UNAVAILABLE"

definition linux_STBCapabilities :: hresult where "linux_STBCapabilities = ERROR_UNAVAILABLE"

section \<open>Properties of the display\<close>

record linux_display =
  ld_usePreferredMode :: bool
  ld_drmDevice :: string
  ld_edidNode :: string
  ld_hdcpLevelNode :: string
  ld_connector :: connector_state
  ld_edid :: "u8 list"
  ld_hdcpLevel :: HDCPProtectionType

definition Reauthenticate :: "linux_env \<Rightarrow> linux_display \<Rightarrow> linux_display" where
  "Reauthenticate E d =
     (let hdcpStr = linux_getLine (le_files E) (ld_hdcpLevelNode d)
      in d\<lparr>ld_hdcpLevel :=
            if line_has ''succeed'' hdcpStr
            then (if line_has ''22'' hdcpStr then HDCP_2X else if line_has ''14'' hdcpStr then HDCP_1X else HDCP_UNENCRYPTED)
            else HDCP_UNENCRYPTED\<rparr>)"

definition QueryDisplayProperties :: "linux_env \<Rightarrow> linux_display \<Rightarrow> linux_display" where
  "QueryDisplayProperties E d = d\<lparr>ld_connector := DRMConnector (le_drm E (ld_drmDevice d)) (ld_usePreferredMode d)\<rparr>"

text \<open>
  \<open>strtoul\<close> with base 16 on the two characters of the buffer, as a byte. The buffer has no terminator;
  the character behind it is taken not to be a hexadecimal digit.
\<close>

definition c_isxdigit :: "char \<Rightarrow> bool" where
  "c_isxdigit c \<longleftrightarrow> c_isdigit c \<or> (65 \<le> ascii c \<and> ascii c \<le> 70) \<or> (97 \<le> ascii c \<and> ascii c \<le> 102)"

definition hex_value :: "char \<Rightarrow> int" where
  "hex_value c = (if c_isdigit c then int (ascii c) - 48 else int (ascii (c_toupper c)) - 55)"

definition hex_byte :: "char \<Rightarrow> char \<Rightarrow> u8" where
  "hex_byte a b =
     (let s = dropWhile c_isspace [a, b];
          (negative, s) = (case s of [] \<Rightarrow> (False, s)
            | c # r \<Rightarrow> if c = CHR ''-'' then (True, r) else if c = CHR ''+'' then (False, r) else (False, s));
          v = foldl (\<lambda>n c. 16 * n + hex_value c) 0 (takeWhile c_isxdigit s)
      in word_of_int (if negative then - v else v))"

text \<open>
  Two characters are read until the end of the file was met, which only a read that finds too few notices;
  what such a read does not fill keeps its old content.
\<close>

fun edid_loop :: "char \<Rightarrow> char \<Rightarrow> string \<Rightarrow> u8 list \<Rightarrow> u8 list" where
  "edid_loop a b (c # e # rest) edid = edid_loop c e rest (edid @ [hex_byte c e])"
| "edid_loop a b [c] edid = edid @ [hex_byte c b]"
| "edid_loop a b [] edid = edid @ [hex_byte a b]"

definition QueryEDID :: "linux_env \<Rightarrow> linux_display \<Rightarrow> linux_display" where
  "QueryEDID E d =
     d\<lparr>ld_edid := (case open_read (le_files E) (ld_edidNode d) of
        Some t \<Rightarrow> edid_loop (fst (le_stale E)) (snd (le_stale E)) t (ld_edid d)
      | None \<Rightarrow> [])\<rparr>"

definition RequeryProperties :: "linux_env \<Rightarrow> linux_display \<Rightarrow> linux_display" where
  "RequeryProperties E d = QueryEDID E (Reauthenticate E (QueryDisplayProperties E d))"

definition DisplayProperties :: "linux_env \<Rightarrow> string \<Rightarrow> string \<Rightarrow> string \<Rightarrow> bool \<Rightarrow> linux_display" where
  "DisplayProperties E drmDevice edidNode hdcpLevelNode usePreferredMode =
     RequeryProperties E \<lparr>ld_usePreferredMode = usePreferredMode, ld_drmDevice = drmDevice, ld_edidNode = edidNode,
       ld_hdcpLevelNode = hdcpLevelNode, ld_connector = no_connector, ld_edid = [], ld_hdcpLevel = HDCP_UNENCRYPTED\<rparr>"

section \<open>Messages of udev\<close>

definition chars_of :: "u8 list \<Rightarrow> string" where
  "chars_of = map (\<lambda>b. char_of (unat b))"

text \<open>
  The strings of a message from its position \<open>i\<close> on. A string without a terminator in the buffer would be
  read past its end: that is the result \<open>None\<close>.
\<close>

function GetMessageValues :: "u8 list \<Rightarrow> nat \<Rightarrow> nat \<Rightarrow> string list option" where
  "GetMessageValues bytes i n =
     (if n \<le> i then Some []
      else if 0 \<notin> set (drop i bytes) then None
      else
        let s = takeWhile (\<lambda>b. b \<noteq> 0) (drop i bytes)
        in map_option ((#) (chars_of s)) (GetMessageValues bytes (i + length s + 1) n))"
  by pat_completeness auto

termination by (relation "measure (\<lambda>(bytes, i, n). n - i)") auto

declare GetMessageValues.simps [simp del]

text \<open>
  The callbacks, by their device types, that a message of udev calls. \<open>frame\<close> is the whole receive
  buffer; the magic number and the length received are not looked at.
\<close>

definition ReceiveData :: "string list \<Rightarrow> u8 list \<Rightarrow> string list option" where
  "ReceiveData callbacks frame =
     (if rd32 frame 32 = 0 \<and> rd32 frame 36 = 0
      then map_option (\<lambda>vals. filter (\<lambda>devtype. ''DEVTYPE='' @ devtype \<in> set vals) callbacks)
             (GetMessageValues (drop (unat (rd32 frame 16)) frame) 0 (unat (rd32 frame 20)))
      else Some [])"

definition udev_Register :: "string \<Rightarrow> string list \<Rightarrow> bool \<times> string list" where
  "udev_Register devtype callbacks = (if devtype \<in> set callbacks then (False, callbacks) else (True, callbacks @ [devtype]))"

text \<open>One entry is erased where those to keep end; if there is none to erase, that is behind the end.\<close>

definition udev_Unregister :: "string \<Rightarrow> string list \<Rightarrow> string list option" where
  "udev_Unregister devtype callbacks =
     (if devtype \<in> set callbacks
      then (let kept = filter (\<lambda>c. c \<noteq> devtype) callbacks in Some (kept @ drop (length kept + 1) callbacks)) else None)"

lemma udev_registered_once:
  assumes "distinct callbacks"
  shows "distinct (snd (udev_Register t callbacks))"
    and "t \<notin> set callbacks \<Longrightarrow> udev_Unregister t (snd (udev_Register t callbacks)) = Some callbacks"
proof -
  show "distinct (snd (udev_Register t callbacks))" using assms by (simp add: udev_Register_def)
  assume t: "t \<notin> set callbacks"
  then have "filter (\<lambda>c. c \<noteq> t) callbacks = callbacks" by (auto simp: filter_id_conv)
  with t show "udev_Unregister t (snd (udev_Register t callbacks)) = Some callbacks"
    by (simp add: udev_Register_def udev_Unregister_def)
qed

section \<open>The implementation\<close>

datatype linux_source = HDCP_CHANGE | HDMI_CHANGE

text \<open>The worker waits for the signal, or has reset it and extracts an event from the queue.\<close>

datatype worker_phase = Waiting | Extracting

record linux_config =
  lc_usePreferredMode :: "bool option"
  lc_drmDeviceName :: "string option"
  lc_edidFilepath :: "string option"
  lc_hdcpLevelFilepath :: "string option"
  lc_hdrLevelFilepath :: "string option"
  lc_gpuMemoryFile :: "string option"
  lc_gpuMemoryFreePattern :: "string option"
  lc_gpuMemoryTotalPattern :: "string option"
  lc_gpuMemoryUnitMultiplier :: "u32 option"

record linux_impl =
  li_display :: "linux_display option"
  li_graphics :: "linux_graphics option"
  li_hdr :: "string option"
  li_callbacks :: "string list"
  li_queue :: "linux_source list"
  li_arrived :: bool
  li_phase :: worker_phase
  li_observers :: info_observers

definition linux_DisplayInfoImplementation :: linux_impl where
  "linux_DisplayInfoImplementation =
     \<lparr>li_display = None, li_graphics = None, li_hdr = None,
      li_callbacks = snd (udev_Register ''hdcp'' (snd (udev_Register ''drm_minor'' []))), li_queue = [], li_arrived = False,
      li_phase = Waiting, li_observers = \<lparr>io_list = [], io_refs = (\<lambda>_. 0)\<rparr>\<rparr>"

definition config_text :: "string option \<Rightarrow> string" where
  "config_text v = (case v of Some s \<Rightarrow> s | None \<Rightarrow> [])"

definition linux_Configure :: "linux_env \<Rightarrow> linux_config \<Rightarrow> linux_impl \<Rightarrow> hresult \<times> linux_impl" where
  "linux_Configure E c s =
     (ERROR_NONE,
      s\<lparr>li_display := Some (DisplayProperties E (config_text (lc_drmDeviceName c)) (config_text (lc_edidFilepath c))
            (config_text (lc_hdcpLevelFilepath c)) (lc_usePreferredMode c = Some True)),
        li_graphics := Some \<lparr>lg_memoryStatsFile = config_text (lc_gpuMemoryFile c),
            lg_memoryFreeKey = config_text (lc_gpuMemoryFreePattern c), lg_memoryTotalKey = config_text (lc_gpuMemoryTotalPattern c),
            lg_unitMultiplier = (case lc_gpuMemoryUnitMultiplier c of Some m \<Rightarrow> m | None \<Rightarrow> 0)\<rparr>,
        li_hdr := Some (config_text (lc_hdrLevelFilepath c))\<rparr>)"

definition linux_Register :: "nat \<Rightarrow> linux_impl \<Rightarrow> hresult \<times> linux_impl" where
  "linux_Register n s =
     (ERROR_NONE,
      if n \<in> set (io_list (li_observers s)) then s else s\<lparr>li_observers := snd (DisplayInfo_Register n (li_observers s))\<rparr>)"

definition linux_Unregister :: "nat \<Rightarrow> linux_impl \<Rightarrow> hresult \<times> linux_impl" where
  "linux_Unregister n s = (ERROR_NONE, s\<lparr>li_observers := snd (DisplayInfo_Unregister n (li_observers s))\<rparr>)"

text \<open>Only the first observer is told; nothing in the class submits the job that calls this.\<close>

definition linux_Dispatch :: "linux_impl \<Rightarrow> (nat \<times> linux_source) list" where
  "linux_Dispatch s = (case io_list (li_observers s) of [] \<Rightarrow> [] | n # _ \<Rightarrow> [(n, HDMI_CHANGE)])"

definition of_display :: "linux_impl \<Rightarrow> (linux_display \<Rightarrow> 'a) \<Rightarrow> 'a \<Rightarrow> hresult \<times> 'a" where
  "of_display s f out = (case li_display s of Some d \<Rightarrow> (ERROR_NONE, f d) | None \<Rightarrow> (ERROR_UNAVAILABLE, out))"

definition linux_Connected :: "linux_impl \<Rightarrow> bool \<Rightarrow> hresult \<times> bool" where
  "linux_Connected s = of_display s (\<lambda>d. cs_connected (ld_connector d))"

definition linux_Width :: "linux_impl \<Rightarrow> nat \<Rightarrow> hresult \<times> nat" where
  "linux_Width s = of_display s (\<lambda>d. cs_width (ld_connector d))"

definition linux_Height :: "linux_impl \<Rightarrow> nat \<Rightarrow> hresult \<times> nat" where
  "linux_Height s = of_display s (\<lambda>d. cs_height (ld_connector d))"

definition linux_VerticalFreq :: "linux_impl \<Rightarrow> nat \<Rightarrow> hresult \<times> nat" where
  "linux_VerticalFreq s = of_display s (\<lambda>d. cs_refreshRate (ld_connector d))"

definition linux_HDCPProtection :: "linux_impl \<Rightarrow> HDCPProtectionType \<Rightarrow> hresult \<times> HDCPProtectionType" where
  "linux_HDCPProtection s = of_display s ld_hdcpLevel"

definition linux_unavailable :: hresult where "linux_unavailable = ERROR_UNAVAILABLE"

text \<open>
  The whole EDID is copied, whatever length was asked for. \<open>None\<close> is a write past the end of the buffer;
  the length is reported in 16 bits.
\<close>

definition linux_EDID :: "linux_impl \<Rightarrow> nat \<Rightarrow> u8 list \<Rightarrow> (hresult \<times> nat \<times> u8 list) option" where
  "linux_EDID s length_in buffer =
     (case li_display s of
        Some d \<Rightarrow>
          if 0 < length_in
          then (let edid = ld_edid d
                in if length buffer < length edid then None
                   else Some (ERROR_NONE, length edid mod 65536, edid @ drop (length edid) buffer))
          else Some (ERROR_UNAVAILABLE, length_in, buffer)
      | None \<Rightarrow> Some (ERROR_UNAVAILABLE, length_in, buffer))"

section \<open>The queue of events\<close>

text \<open>
  \<open>put\<close> is the queue of the framework: it takes an event, or refuses it. The worker resets the signal and
  extracts one event; without a configured display the event ends in a null pointer.
\<close>

definition source_of :: "string \<Rightarrow> linux_source" where
  "source_of devtype = (if devtype = ''hdcp'' then HDCP_CHANGE else HDMI_CHANGE)"

definition Post :: "(linux_source \<Rightarrow> linux_source list \<Rightarrow> linux_source list option) \<Rightarrow> linux_source \<Rightarrow> linux_impl \<Rightarrow>
    bool \<times> linux_impl" where
  "Post put e s =
     (case put e (li_queue s) of Some q \<Rightarrow> (True, s\<lparr>li_queue := q, li_arrived := True\<rparr>) | None \<Rightarrow> (False, s))"

definition handle_event :: "linux_env \<Rightarrow> linux_source \<Rightarrow> linux_impl \<Rightarrow> linux_impl option" where
  "handle_event E e s =
     map_option (\<lambda>d. s\<lparr>li_display := Some (case e of HDCP_CHANGE \<Rightarrow> Reauthenticate E d | HDMI_CHANGE \<Rightarrow> RequeryProperties E d)\<rparr>)
       (li_display s)"

definition Worker :: "linux_env \<Rightarrow> linux_impl \<Rightarrow> linux_impl option" where
  "Worker E s =
     (case li_phase s of
        Waiting \<Rightarrow> Some (if li_arrived s then s\<lparr>li_arrived := False, li_phase := Extracting\<rparr> else s)
      | Extracting \<Rightarrow>
          (case li_queue s of
             [] \<Rightarrow> Some s
           | e # q \<Rightarrow> handle_event E e (s\<lparr>li_queue := q, li_phase := Waiting\<rparr>)))"

definition udev_message :: "(linux_source \<Rightarrow> linux_source list \<Rightarrow> linux_source list option) \<Rightarrow> u8 list \<Rightarrow> linux_impl \<Rightarrow>
    linux_impl option" where
  "udev_message put frame s =
     map_option (\<lambda>devtypes. fold (\<lambda>t s. snd (Post put (source_of t) s)) devtypes s) (ReceiveData (li_callbacks s) frame)"

datatype linux_action = Message "u8 list" | Work linux_env

fun linux_step :: "(linux_source \<Rightarrow> linux_source list \<Rightarrow> linux_source list option) \<Rightarrow> linux_action \<Rightarrow> linux_impl \<Rightarrow>
    linux_impl option" where
  "linux_step put (Message frame) s = udev_message put frame s"
| "linux_step put (Work E) s = Worker E s"

fun linux_run :: "(linux_source \<Rightarrow> linux_source list \<Rightarrow> linux_source list option) \<Rightarrow> linux_action list \<Rightarrow> linux_impl \<Rightarrow>
    linux_impl option" where
  "linux_run put [] s = Some s"
| "linux_run put (st # sts) s = (case linux_step put st s of Some t \<Rightarrow> linux_run put sts t | None \<Rightarrow> None)"

text \<open>The queue keeps the order and loses nothing it took.\<close>

definition appends :: "(linux_source \<Rightarrow> linux_source list \<Rightarrow> linux_source list option) \<Rightarrow> bool" where
  "appends put \<longleftrightarrow> (\<forall>e q r. put e q = Some r \<longrightarrow> r = q @ [e])"

lemma appendsD: "appends put \<Longrightarrow> put e q = Some r \<Longrightarrow> r = q @ [e]"
  by (simp add: appends_def)

text \<open>The events that no signal stands for: the worker will not extract them unless further ones come.\<close>

definition overdue :: "linux_impl \<Rightarrow> int" where
  "overdue s = int (length (li_queue s)) - of_bool (li_arrived s) - of_bool (li_phase s = Extracting)"

lemma Post_overdue:
  assumes "appends put"
  shows "overdue s \<le> overdue (snd (Post put e s))"
  by (auto simp: Post_def overdue_def dest!: appendsD [OF assms] split: option.split)

lemma Posts_overdue:
  assumes "appends put"
  shows "overdue s \<le> overdue (fold (\<lambda>t s. snd (Post put (source_of t) s)) ts s)"
proof (induction ts arbitrary: s)
  case (Cons t ts)
  show ?case
    using Post_overdue [OF assms, of s "source_of t"] Cons.IH [of "snd (Post put (source_of t) s)"] by simp
qed simp

lemma Worker_overdue: "Worker E s = Some t \<Longrightarrow> overdue t = overdue s"
  by (auto simp: Worker_def overdue_def handle_event_def split: worker_phase.splits list.splits if_splits)

lemma linux_step_overdue:
  assumes "appends put" and "linux_step put st s = Some t"
  shows "overdue s \<le> overdue t"
  using assms(2) Posts_overdue [OF assms(1)] by (cases st) (auto simp: udev_message_def Worker_overdue)

lemma linux_run_overdue:
  "appends put \<Longrightarrow> linux_run put sts s = Some t \<Longrightarrow> overdue s \<le> overdue t"
proof (induction sts arbitrary: s)
  case (Cons st sts)
  then obtain u where "linux_step put st s = Some u" "linux_run put sts u = Some t" by (auto split: option.splits)
  with Cons.IH [of u] Cons.prems(1) linux_step_overdue [OF Cons.prems(1)] show ?case by (meson order_trans)
qed simp

text \<open>
  C14. Events are left behind for good: if two events come before the worker thread looks, from then on
  there is always an event in the queue, whatever comes later, and a worker that was not signalled again
  does nothing about it.
\<close>

theorem events_left_behind:
  assumes "appends put" and "li_queue s = []" and "\<not> li_arrived s" and "li_phase s = Waiting"
    and "fst (Post put e1 s)" and "fst (Post put e2 (snd (Post put e1 s)))"
    and "linux_run put sts (snd (Post put e2 (snd (Post put e1 s)))) = Some t"
  shows "li_queue t \<noteq> [] \<and> (\<not> li_arrived t \<and> li_phase t = Waiting \<longrightarrow> linux_run put (map Work Es) t = Some t)"
proof -
  have "overdue (snd (Post put e2 (snd (Post put e1 s)))) = 1"
    using assms(2-6) by (auto simp: Post_def overdue_def dest!: appendsD [OF assms(1)] split: option.splits)
  with linux_run_overdue [OF assms(1,7)] have "li_queue t \<noteq> []"
    by (auto simp: overdue_def of_bool_def split: if_splits)
  moreover have "linux_run put (map Work Es) t = Some t" if "\<not> li_arrived t" "li_phase t = Waiting"
    using that by (induction Es) (simp_all add: Worker_def)
  ultimately show ?thesis by simp
qed

definition linux_files :: "string \<Rightarrow> linux_env" where
  "linux_files edid = \<lparr>le_files = (\<lambda>p. if p = ''e'' then ReadOnly edid else Missing), le_drm = (\<lambda>_. None), le_stale = (CHR ''0'', CHR ''0'')\<rparr>"

definition linux_started :: "string \<Rightarrow> linux_impl" where
  "linux_started edid = linux_DisplayInfoImplementation\<lparr>li_display := Some (DisplayProperties (linux_files edid) [] ''e'' [] False)\<rparr>"

definition put_last :: "linux_source \<Rightarrow> linux_source list \<Rightarrow> linux_source list option" where
  "put_last e q = Some (q @ [e])"

theorem events_left_behind_witness:
  "\<exists>t. linux_run put_last (map Work (replicate 5 (linux_files [])))
       (snd (Post put_last HDMI_CHANGE (snd (Post put_last HDCP_CHANGE (linux_started []))))) = Some t \<and> li_queue t \<noteq> []"
proof -
  have put: "appends put_last" by (simp add: appends_def put_last_def)
  have s: "li_queue (linux_started []) = []" "\<not> li_arrived (linux_started [])" "li_phase (linux_started []) = Waiting"
    by (simp_all add: linux_started_def linux_DisplayInfoImplementation_def)
  have "\<exists>t. linux_run put_last (map Work (replicate 5 (linux_files [])))
       (snd (Post put_last HDMI_CHANGE (snd (Post put_last HDCP_CHANGE (linux_started []))))) = Some t"
    by (simp add: numeral_eq_Suc Worker_def handle_event_def Post_def put_last_def linux_started_def
        linux_DisplayInfoImplementation_def)
  then obtain t where t: "linux_run put_last (map Work (replicate 5 (linux_files [])))
       (snd (Post put_last HDMI_CHANGE (snd (Post put_last HDCP_CHANGE (linux_started []))))) = Some t" ..
  have "fst (Post put_last HDCP_CHANGE (linux_started []))"
    "fst (Post put_last HDMI_CHANGE (snd (Post put_last HDCP_CHANGE (linux_started []))))"
    by (simp_all add: Post_def put_last_def)
  from events_left_behind [OF put s this t] t show ?thesis by blast
qed

section \<open>The EDID\<close>

lemma edid_loop_length: "length (edid_loop a b content edid) = length edid + length content div 2 + 1"
  by (induction a b content edid rule: edid_loop.induct) simp_all

lemma edid_loop_prefix: "\<exists>new. edid_loop a b content edid = edid @ new"
  by (induction a b content edid rule: edid_loop.induct) auto

lemma untouched [simp]:
  "ld_edidNode (Reauthenticate E d) = ld_edidNode d" "ld_edid (Reauthenticate E d) = ld_edid d"
  "ld_edidNode (QueryDisplayProperties E d) = ld_edidNode d" "ld_edid (QueryDisplayProperties E d) = ld_edid d"
  by (simp_all add: Reauthenticate_def QueryDisplayProperties_def Let_def)

lemma RequeryProperties_edid [simp]:
  "ld_edidNode (RequeryProperties E d) = ld_edidNode d"
  "ld_edid (RequeryProperties E d) =
     (case open_read (le_files E) (ld_edidNode d) of
        Some t \<Rightarrow> edid_loop (fst (le_stale E)) (snd (le_stale E)) t (ld_edid d) | None \<Rightarrow> [])"
  by (simp_all add: RequeryProperties_def QueryEDID_def cong: option.case_cong)

text \<open>Two bytes in hexadecimal are read as three: the last one is counted again.\<close>

lemma edid_one_too_many: "edid_loop a b ''00FF'' [] = [0, 255, 255]"
  by (simp add: hex_byte_def c_isspace_def c_isxdigit_def c_isdigit_def hex_value_def c_toupper_def ascii_char_of ascii_def)

text \<open>
  C27. Every change at the HDMI port appends the EDID to the one that is kept, with one byte too many: after
  n changes it is longer by n times half the length of the file and one, and a caller whose buffer is
  shorter than that has memory behind it overwritten, whatever length it gave.
\<close>

theorem edid_overruns:
  assumes "open_read (le_files E) (ld_edidNode d) = Some content"
  shows "length (ld_edid ((RequeryProperties E ^^ n) d)) = length (ld_edid d) + n * (length content div 2 + 1)
     \<and> (li_display s = Some ((RequeryProperties E ^^ n) d) \<and> 0 < length_in
        \<and> length buffer < length (ld_edid d) + n * (length content div 2 + 1) \<longrightarrow> linux_EDID s length_in buffer = None)"
proof -
  have "ld_edidNode ((RequeryProperties E ^^ n) d) = ld_edidNode d
      \<and> length (ld_edid ((RequeryProperties E ^^ n) d)) = length (ld_edid d) + n * (length content div 2 + 1)"
    using assms by (induction n) (simp_all add: edid_loop_length)
  then show ?thesis by (auto simp: linux_EDID_def)
qed

theorem edid_overruns_witness:
  "linux_EDID ((linux_started ''00FF'')\<lparr>li_display := Some ((RequeryProperties (linux_files ''00FF'') ^^ 3)
       (the (li_display (linux_started ''00FF''))))\<rparr>) 4 [0, 0, 0, 0] = None"
proof -
  have d: "li_display (linux_started ''00FF'') = Some (DisplayProperties (linux_files ''00FF'') [] ''e'' [] False)"
    by (simp add: linux_started_def)
  have "ld_edidNode (DisplayProperties (linux_files ''00FF'') [] ''e'' [] False) = ''e''"
    by (simp add: DisplayProperties_def)
  then have "open_read (le_files (linux_files ''00FF'')) (ld_edidNode (the (li_display (linux_started ''00FF'')))) = Some ''00FF''"
    by (simp add: d linux_files_def open_read_def)
  from edid_overruns [OF this, where n = 3 and length_in = 4 and buffer = "[0, 0, 0, 0]"
      and s = "(linux_started ''00FF'')\<lparr>li_display := Some ((RequeryProperties (linux_files ''00FF'') ^^ 3)
       (the (li_display (linux_started ''00FF''))))\<rparr>"]
  show ?thesis by simp
qed

end
