(* ===== verification/Spec2Isabelle.thy ===== *)
theory Spec2Isabelle imports PowerSync Reboot ThermalMfr UserPreferences FrameRate SystemMode
  ConfFiles Validation ServiceHelpers PlatformCaps Warehouse DeviceInfo DeviceDiagnostics FrontPanel
  ServiceMode Territory TimeZone ServiceEvents StandbyCache DeviceQueries ArcBehaviour DisplayCaches
  DisplayInfoPlugin LinuxDisplay
begin

text \<open>
  Verification of the core logic of the device and display services: the power manager, the system
  mode, frame rate, user preferences, warehouse, device information and diagnostics plugins, the
  helpers of the system services, and the helper code they share.

  \<^bold>\<open>The program.\<close> Each plugin is a Thunder service: a JSON-RPC front end (\<open>PowerManager.cpp\<close>,
  \<open>FrameRate.cpp\<close>, ...) hands calls to an implementation class, which keeps the state, calls vendor
  libraries and sends notifications to registered sinks. The largest is the power manager
  (\<open>src/PowerManager\<close>). \<open>PowerManagerImplementation\<close> owns four parts: \<open>PowerController\<close> (power state,
  persisted by \<open>Settings\<close>, wake-up sources, reboot), \<open>DeepSleepController\<close> (entering and leaving deep
  sleep), \<open>ThermalController\<close> (a polling thread with three protection zones) and, for each power
  state transition, an \<open>AckController\<close>, which waits for the clients of pre-change notifications.
  \<open>RebootController\<close> runs beside it on heartbeats. The parts report to the implementation by
  callbacks, the implementation to its sinks through jobs of the worker pool.

  \<^bold>\<open>Theories and sources.\<close>
    \<^item> \<open>Prelude\<close>: result codes, widths, byte sequences, the interface of partial codecs.
    \<^item> \<open>CLib\<close>: the functions of the C and C++ library that the sources use on strings.
    \<^item> \<open>PowerTypes\<close>: \<open>PowerUtils.cpp\<close>. Names of states, reasons and sources; their parsing.
    \<^item> \<open>PlatformHal\<close>, \<open>ThermalMfr\<close>: \<open>hal/\<close>. The platform interfaces are records of functions on a
      hardware state of any type \<open>'p\<close>; \<open>PowerImpl\<close>, \<open>DeepSleepImpl\<close>, \<open>ThermalImpl\<close> and
      \<open>ThermalMfrImpl\<close> are built from the vendor libraries, which are parameters.
    \<^item> \<open>PersistSettings\<close>: \<open>Settings.h\<close>, \<open>Settings.cpp\<close>. The settings file byte by byte, with its copy
      in RAM; the file system is a record of contents and of paths that cannot be used.
    \<^item> \<open>AckController\<close>: \<open>AckController.h\<close>. Operations return the calls of the completion handler.
    \<^item> \<open>DeepSleep\<close>: \<open>DeepSleepController.h\<close>, \<open>DeepSleepController.cpp\<close>. Retries, delays and the
      calculation of the wake-up time; clock, time zone functions and random numbers are arguments.
    \<^item> \<open>PowerController\<close>, \<open>Thermal\<close>, \<open>Reboot\<close>: the controllers of the same names.
    \<^item> \<open>SinkRegistry\<close>: the notification lists of \<open>PowerManagerImplementation\<close>.
    \<^item> \<open>PowerManager\<close>: \<open>PowerManagerImplementation.h\<close>, \<open>PowerManagerImplementation.cpp\<close>. A request for
      a state is two operations, because the source releases its lock between them:
      \<open>SetPowerState_begin\<close> replaces the mode change controller and queues the notifications,
      \<open>SetPowerState_schedule\<close> starts the transition. \<open>pm_refs\<close> counts \<open>AddRef\<close> and \<open>Release\<close>.
    \<^item> \<open>PowerManagerInv\<close>, \<open>PowerSync\<close>: reachable states of the power manager, with its operations,
      timers, jobs and controller events in any order, and their invariants.
    \<^item> \<open>StringUtils\<close>: \<open>helpers/UtilsString.h\<close>. \<open>SystemMode\<close>: \<open>SystemModeImplementation.cpp\<close>, with an
      abstract specification. \<open>FrameRate\<close>: \<open>FrameRateImplementation.cpp\<close>. \<open>UserPreferences\<close>:
      \<open>UserPreferences.cpp\<close>.
    \<^item> \<open>Json\<close>: the macros of \<open>helpers/UtilsJsonRpc.h\<close> on a datatype of JSON values. \<open>Regex\<close>: matching
      of sequences of character classes, for the uses of \<open>std::regex\<close>.
    \<^item> \<open>FileContent\<close>: \<open>helpers/UtilsgetFileContent.h\<close>, \<open>UtilsFile.h\<close>, \<open>UtilsfileExists.h\<close>. Files are a map
      from paths; directories and pattern matching are functions in a record. \<open>ConfFiles\<close>:
      \<open>cSettings.h\<close>, \<open>UtilsSearchRDKProfile.h\<close>. \<open>Validation\<close>: \<open>UtilsInputValidator.h\<close>, \<open>UtilsisValidInt.h\<close>.
    \<^item> \<open>FrontPanel\<close>: \<open>helpers/frontpanel.cpp\<close>. The class, its statics and its timer are one record; the
      indicators of the device are another.
    \<^item> \<open>ServiceHelpers\<close>: \<open>SystemServices/SystemServicesHelper.cpp\<close>, \<open>uploadlogs.cpp\<close>.
      \<open>ServiceMode\<close>, \<open>DeviceState\<close>, \<open>Territory\<close>, \<open>TimeZone\<close>, \<open>ServicePower\<close>, \<open>ServiceEvents\<close>,
      \<open>FirmwareInfo\<close>, \<open>DeviceQueries\<close>: the methods of \<open>SystemServices/SystemServices.cpp\<close> and the timer \<open>cTimer.cpp\<close>. Calls get their
      parameters and the response as JSON objects and return the result, the response, the
      notifications and the state; the interface of the power manager is a record of its methods.
    \<^item> \<open>ArcRouting\<close>, \<open>SoundMode\<close>: the audio ports of \<open>DisplaySettings/DisplaySettings.cpp\<close>: ARC and eARC
      routing, the messages to and events from HdmiCecSink, its timers, hot plugs and power changes. The
      device settings library is a record of functions on a state of any type, each of which may raise
      the exception that the methods catch. \<open>ArcInv\<close>, \<open>ArcHardware\<close>, \<open>ArcBehaviour\<close>: all operations in
      any order, and what holds in every run.
    \<^item> \<open>DisplayAudio\<close>, \<open>DisplayVideo\<close>, \<open>DisplayEvents\<close>: the other methods and events of the same file, on
      the same record: the settings of the audio ports in both versions of the interface, displays and
      their caches, and the events of the library. \<open>AudioSettings\<close>, \<open>DisplayCaches\<close>: what they guarantee.
    \<^item> \<open>DisplayInfoImpl\<close>, \<open>LinuxDisplay\<close>: the implementations of DisplayInfo over the device settings
      library (\<open>DeviceSettings/PlatformImplementation.cpp\<close>) and over the files, udev messages and DRM
      connectors of Linux (\<open>Linux/PlatformImplementation.cpp\<close>, \<open>DRMConnector.h\<close>). \<open>DisplayInfoPlugin\<close>:
      the web interface of \<open>DisplayInfo.cpp\<close> over the first.
    \<^item> \<open>Lifecycle\<close>: \<open>Initialize\<close> and \<open>Deinitialize\<close> of seven plugins (\<open>PowerManager.cpp\<close>, \<open>FrameRate.cpp\<close>,
      ...), on a record of the references, registrations and pointers that a plugin holds.
    \<^item> \<open>StandbyCache\<close>: SystemServices on the model of the power manager. Setting the mode and asking for it
      are steps of their own: the lock, the answer, the store and the notification may be interleaved
      with everything else. In \<open>ServiceEvents\<close> the calls for the log upload are split at their lock
      regions in the same way, and in \<open>ServiceMode\<close> each operation on a file may be refused.
    \<^item> \<open>PlatformCaps\<close>: \<open>SystemServices/platformcaps/\<close>, with the \<open>once_flag\<close> of the properties as state.
    \<^item> \<open>Warehouse\<close>: \<open>WarehouseImplementation.cpp\<close>; commands, files touched and events are lists of
      effects. \<open>DeviceInfo\<close>: \<open>DeviceInfoImplementation.cpp\<close>, \<open>DeviceAudioCapabilities.cpp\<close>,
      \<open>DeviceVideoCapabilities.cpp\<close>. \<open>DeviceDiagnostics\<close>: \<open>DeviceDiagnosticsImplementation.cpp\<close>.

  \<^bold>\<open>Interfaces.\<close> Locales state what one part relies on, and each is interpreted on the definitions of
  the part that provides it: \<open>partial_codec\<close> (the language formats), \<open>one_shot\<close> (a session calls its
  handler once: the acknowledgement controller), \<open>sink_members\<close> and \<open>sink_set\<close> (the notification lists
  of the power manager, the warehouse and the diagnostics),
  \<open>hysteresis_zone\<close> (the deep sleep and the reboot zone), \<open>keeps_outputs\<close> (both thermal platforms),
  \<open>call_relation\<close> and \<open>display_view\<close> (what calls of the device settings library leave alone),
  \<open>flag_relation\<close> (what ties the flag for routed audio to the port, interpreted three times),
  \<open>lifecycle\<close> with \<open>cleans_up_itself\<close> and \<open>cleaned_by_framework\<close> (starting and stopping a plugin).

  \<^bold>\<open>What the theorems show.\<close> For the power manager: references are balanced over all
  interleavings, the state changes only by a completed request, the reported state is that of the
  hardware, client identifiers are consistent, and an acknowledgement session completes exactly
  once and for the right reason. For its parts: settings survive restarts, reboots and corrupted
  files; deep sleep is attempted at most five times; wake-up times lie in their window; the thermal
  zones act exactly on the readings that warrant it; thresholds of reboots are exact. The system
  mode plugin refines its abstract specification through its text file, over restarts, for callsigns
  that the file can tell apart and with one exception; the file of
  user preferences follows the service; frame rate reports are what the updates imply; the base64
  encoder is inverted by a decoder. For the helpers: looking up a property ends if its
  references decrease a rank and never ends for one whose references lead into a cycle, a move of a file loses nothing unless a read fails, the settings
  object refines a map through its file and restarts, values are validated by their type, a blink
  pattern is shown as often as asked. For SystemServices: the mode agrees with what is on the disk
  over calls, timer wake-ups and restarts as far as the operations on files are taken, a timed mode
  ends in time, each upload is announced once or its identifier was overwritten by an overlapping call,
  flags, territories and time zones are read back, and the cached network standby mode is that of
  the power manager if it is not set while an answer or a notification is under way; an update is reported exactly as the server and the image name give it, and a
  query for device information runs a command only for a name that is made of allowed characters. 
  For the audio ports: a set flag for routed audio means that the port is routed, and they differ only
  after a step that disabled the wrong type, the UI is told of a device and of its end in turn, audio is routed for three
  reasons only and by the second time-out at the latest, and a silent device is asked five times;
  the settings of the ports keep what the library's functions for settings keep, such as the state of
  the ARC port, both versions of their methods agree, and
  numbers that are too large are the only calls that throw. For the displays: hot plugs are announced
  exactly when something changes, and the cached resolution is that of the hardware if every change is
  announced and nobody asks for it between the announcement and the change. A started DisplayInfo reports what the device has, the plugins give back
  what they took, each under one of two conventions for failed starts, and on Linux the worker stays
  behind once two events came together and the EDID grows with every change.
  For the plugins: the check of the warehouse lists exactly the
  objects that are older, the internal reset needs its pass phrase, the configuration printed by the
  diagnostics server is read back. Several theorems state where the code departs from its purpose
  (\<open>retry_ignored\<close>, \<open>timed_mode_after_cancelled\<close>, \<open>disable_overridden\<close>, \<open>device_already_on\<close>, \<open>sound_mode_needs_port\<close>, \<open>phantom_display\<close>, \<open>resolution_stale\<close>, \<open>settings_exceptions\<close>, \<open>cleanup_policies_differ\<close>, \<open>edid_overruns\<close>, \<open>unsaved_mode_stale\<close>, \<open>store_after_change_stale\<close>,
  \<open>upload_lost\<close>, \<open>warehouse_file_left\<close>, \<open>overlapping_callsign_lost\<close>, \<open>standby_leaves_eARC\<close>, \<open>names_without_values\<close>, \<open>reset_announced\<close>, \<open>standby_mode_lost\<close>, \<open>poll_interval_defined\<close>, \<open>poll_loop_lock\<close>,
  \<open>quoted_threshold_ignored\<close>, \<open>wakeup_config_failures\<close>, \<open>wakeup_override\<close>).

  \<^bold>\<open>Bounds.\<close> The loops of the source that are bounded by a constant recurse on it: 35 attempts to
  initialise the power library, 5 attempts to sleep, 32 frequencies, 5 attempts to find a service.
  Other loops recurse on their data. \<open>updateSystemModeFile\<close> may not return on an unreadable file and
  is a partial function, as are the lookup of properties with references and the loop of the
  diagnostics over its answer; the refinement of the system mode proves that it returns on readable
  ones; so is \<open>setSoundMode\<close>, which may call itself for ever. No fuel is used elsewhere. Undefined behaviour (division by zero in the polling loop,
  overflow of counters) is a result \<open>None\<close>.

  \<^bold>\<open>Not modelled.\<close> The generated JSON-RPC front ends; logging and telemetry; the
  memory of objects, beyond reference counts and null pointers; threads, whose interleavings are the
  orders of operations between lock regions; HTTP requests, scripts and other plugins, which are
  parameters. The lookup of a property reads its file once, where the source opens it again for each
  reference and gives up when that fails; the settings file has keys without null characters. Of
  SystemServices the registration of its methods and the connection to the bus, of DisplaySettings
  its life cycle and the methods for gain and volume, which are floating point numbers, and DisplayInfo
  on the Raspberry Pi, whose EDID class is not in the repository, are not modelled.
\<close>

section \<open>The power manager: examples\<close>

definition example_env :: "PowerState pm_env" where
  "example_env = \<lparr>
     me_power = example_pc_env,
     me_deepSleep = \<lparr> de_platform = \<lparr>
         dp_SetDeepSleep = (\<lambda>t u n p. (ERROR_NONE, False, p)),
         dp_DeepSleepWakeup = (\<lambda>p. (ERROR_NONE, p)),
         dp_GetLastWakeupReason = (\<lambda>r p. (ERROR_NONE, WAKEUP_REASON_TIMER, p)),
         dp_GetLastWakeupKeyCode = (\<lambda>k p. (ERROR_NONE, k, p)) \<rparr>,
       de_clock = (\<lambda>_. 1), de_sleep = (\<lambda>n p. p), de_conf = (\<lambda>path p. NoFile) \<rparr>,
     me_thermal = \<lparr> te_platform = \<lparr>
         tp_GetTemperatureThresholds = (\<lambda>a b p. (ERROR_NONE, a, b, p)),
         tp_SetTemperatureThresholds = (\<lambda>a b p. (ERROR_NONE, p)),
         tp_GetClockSpeed = (\<lambda>s p. (ERROR_NONE, s, p)), tp_SetClockSpeed = (\<lambda>s p. (ERROR_NONE, p)),
         tp_DetemineClockSpeeds = (\<lambda>a b c p. (ERROR_NONE, 3, 2, 1, p)),
         tp_GetTemperature = (\<lambda>s a b p. (ERROR_NONE, THERMAL_TEMPERATURE_NORMAL, 50, 40, p)) \<rparr>,
       te_time = (\<lambda>_. 0), te_rfc = (\<lambda>_. None), te_mfr = False, te_declock = True \<rparr>,
     me_add = (+), me_timeoutSec = 1, me_platco = False, me_thermalOn = True,
     me_localtime = (\<lambda>t. Some (local_tm 0 t)), me_mktime = mk_time 0, me_time = (\<lambda>_. 0),
     me_random = (\<lambda>_. 0), me_sysmgr = (\<lambda>_. None), me_idle = (\<lambda>p. p) \<rparr>"

definition example_pm :: "PowerState PowerManager" where
  "example_pm = the (PowerManagerImplementation_ctor example_env POWER_STATE_ON example_fs)"

lemma example_thermal_init:
  "\<exists>th. initializeThermalProtection (me_thermal example_env) (ThermalController_fields False) p = Some (True, th, p)"
  by (simp add: initializeThermalProtection_def isThermalProtectionEnabled_def updateRFCStatus_def
      ThermalController_fields_def example_env_def)

lemma example_ctor:
  "PowerManagerImplementation_ctor example_env POWER_STATE_ON example_fs = Some example_pm
   \<and> cur example_pm = POWER_STATE_STANDBY \<and> pm_modeChangeController example_pm = None
   \<and> pm_modeChangeClients example_pm = [] \<and> \<not> pm_selfLock example_pm
   \<and> pm_request example_pm = None \<and> pm_jobs example_pm = [] \<and> pm_refs example_pm = 0
   \<and> pm_nextTransactionId example_pm = 0 \<and> pm_sinks example_pm = (\<lambda>_. sinks_empty)"
proof -
  obtain f where f: "Settings_Load example_codes False kSettingsFilePath 7 example_fs =
     ((restored example_settings 7)\<lparr>st_powerStateBeforeReboot := POWER_STATE_STANDBY\<rparr>, f)"
    using Load_cold_boot [OF example_codes_ok example_fs_simps(1,2), of 7] example_fs_simps by auto
  obtain pc p1 f1 where pc: "PowerController_ctor example_pc_env False POWER_STATE_ON example_fs = (pc, p1, f1)"
    by (metis prod_cases3)
  then have "st_powerState (pc_settings pc) = POWER_STATE_STANDBY"
    using f by (auto simp: PowerController_ctor_def example_pc_env_def example_platform_def
        PowerController_SetWakeupSourceConfig_def standby_configs_def PowerController_init_def
        PowerController_SetPowerState_def example_fs_simps Let_def)
  moreover obtain th where th: "initializeThermalProtection (me_thermal example_env)
      (ThermalController_fields False) p1 = Some (True, th, p1)"
    using example_thermal_init by blast
  moreover have "me_power example_env = example_pc_env" "me_platco example_env = False"
    "te_mfr (me_thermal example_env) = False" by (simp_all add: example_env_def)
  ultimately show ?thesis
    using pc by (simp add: PowerManagerImplementation_ctor_def example_pm_def cur_def)
qed

lemma example_reach: "pm_reach example_env example_pm"
  using example_ctor by (blast intro: pm_reach_init)

text \<open>A request in the first of its two steps, and completed.\<close>

definition example_requested :: "PowerState PowerManager" where
  "example_requested = SetPowerState_begin example_env 0 0 POWER_STATE_ON ''user'' example_pm"

lemma example_requested_reach: "pm_reach example_env example_requested"
  by (rule pm_reach_step [OF example_reach, where op' = "SetPowerStateOp 0 POWER_STATE_ON ''user''" and now = 0])
    (simp add: example_requested_def example_ctor)

lemma example_requested_eq:
  "example_requested = accepted example_env 0 0 POWER_STATE_STANDBY POWER_STATE_ON ''user''
     (example_pm\<lparr>pm_selfLock := True\<rparr>)"
  using example_ctor
  by (simp add: example_requested_def begin_cases woken_def cancelled_def cur_def)

lemma example_honest: "honest_env example_env (\<lambda>p. p)"
  by (simp add: honest_env_def honest_power_def example_env_def example_pc_env_def example_platform_def)

lemma example_requested_facts:
  "\<exists>c h. pm_modeChangeController example_requested = Some c \<and> ac_powerState c = POWER_STATE_ON
     \<and> ac_pending c = {} \<and> pm_request example_requested = Some (h, 1) \<and> \<not> hd_isSync h
     \<and> hd_newState h = POWER_STATE_ON"
  by (simp add: example_requested_eq accepted_def submitPowerModePreChangeEvent_def
      AckController_ctor_def example_ctor isSyncStateChange_def example_env_def Let_def)

lemma example_completes:
  "\<exists>pm. pm_exec example_env 5 ScheduleOp example_requested = Some pm \<and> cur pm = POWER_STATE_ON
     \<and> cur example_requested = POWER_STATE_STANDBY"
proof -
  obtain c h where ch: "pm_modeChangeController example_requested = Some c" "ac_pending c = {}"
    "pm_request example_requested = Some (h, 1)" "hd_newState h = POWER_STATE_ON"
    using example_requested_facts by blast
  have "cur (snd (setDevicePowerState example_env a POWER_STATE_ON pm)) = POWER_STATE_ON" for a pm
    by (simp add: setDevicePowerState_def PowerController_SetPowerState_def example_env_def
        example_pc_env_def example_platform_def cur_def dispatch_defs dispatch_def Let_def split_def)
  then have "cur (run_handler example_env (Some h, False, False) pm) = POWER_STATE_ON" for pm
    using ch(4) by (simp add: cur_def Let_def)
  moreover have "cur example_requested = POWER_STATE_STANDBY"
    by (simp add: example_requested_def begin_power example_ctor cur_def [symmetric])
      (simp add: cur_def begin_power example_ctor [unfolded cur_def])
  ultimately show ?thesis
    using ch by (simp add: SetPowerState_schedule_def AckController_Schedule_def Let_def cur_def
        del: run_handler.simps)
qed

section \<open>The power manager: properties\<close>

text \<open>
  C1. In every reachable state of the power manager, the references the object holds on itself are
  one for a transition between request and completion, and one for each queued pre-change
  notification: none is leaked or released twice, whichever way transitions end. \<open>selfLock\<close> is
  held exactly between the two steps of a request.
\<close>

theorem transition_references_balanced:
  assumes "pm_reach E pm"
  shows "pm_refs pm =
      (if pm_request pm = None then 0 else 1)
      + (case pm_modeChangeController pm of None \<Rightarrow> 0 | Some c \<Rightarrow> int_of_bool (ac_running c))
      + int (length (filter is_prechange (pm_jobs pm)))
    \<and> (pm_selfLock pm \<longleftrightarrow> pm_request pm \<noteq> None)"
  using pm_reach_inv [OF assms]
  by (auto simp: pm_inv_def outstanding_def pre_count_def ctl_ok_def split: option.splits prod.splits)

theorem transition_references_balanced_witness:
  "pm_selfLock example_requested \<longleftrightarrow> pm_request example_requested \<noteq> None"
  using transition_references_balanced [OF example_requested_reach] by simp

text \<open>
  C3. The power state changes only by the completion of a request for the new state: when the
  request needs no acknowledgement, when the last client it waits for acknowledges with its
  transaction id or is removed, or when its timer has run out. No other operation changes it.
\<close>

theorem power_state_change_cause:
  assumes "pm_reach E pm" and "pm_exec E now op' pm = Some pm1" and "cur pm1 \<noteq> cur pm"
  shows "completes now op' pm (cur pm1)"
  by (rule exec_cur [OF pm_reach_inv [OF assms(1)] assms(2,3)])

theorem power_state_change_cause_witness:
  "completes 5 ScheduleOp example_requested POWER_STATE_ON"
proof -
  obtain pm where pm: "pm_exec example_env 5 ScheduleOp example_requested = Some pm"
    "cur pm = POWER_STATE_ON" "cur example_requested = POWER_STATE_STANDBY"
    using example_completes by blast
  show ?thesis
    using power_state_change_cause [OF example_requested_reach pm(1)] pm(2,3) by simp
qed

text \<open>
  C4. In every reachable state \<open>GetPowerState\<close> reports the state the hardware is in, if the
  hardware does what it reports.
\<close>

theorem reported_state_is_hardware:
  assumes "pm_reach E pm" and "honest_env E hw"
  shows "fst (PowerManager_GetPowerState pm) = ERROR_NONE
    \<and> fst (snd (PowerManager_GetPowerState pm)) = hw (pm_hw pm)"
  using pm_reach_sync [OF assms]
  by (simp add: sync_def cur_def PowerManager_GetPowerState_def PowerController_GetPowerState_def)

theorem reported_state_is_hardware_witness: "pm_hw example_requested = POWER_STATE_STANDBY"
proof -
  have "fst (snd (PowerManager_GetPowerState example_requested)) = POWER_STATE_STANDBY"
    using example_completes
    by (auto simp: cur_def PowerManager_GetPowerState_def PowerController_GetPowerState_def)
  then show ?thesis
    using reported_state_is_hardware [OF example_requested_reach example_honest] by simp
qed

text \<open>
  The mode change controller outlives its transition: while the last request was for \<open>s\<close>, and
  whatever became of it, a further request for \<open>s\<close> is ignored even though the device is not in
  \<open>s\<close>, and nothing changes.
\<close>

theorem retry_ignored:
  assumes "pm_modeChangeController pm = Some c" and "ac_powerState c = s"
    and "fst (snd (PowerManager_GetPowerState pm)) \<notin> {s, POWER_STATE_STANDBY_DEEP_SLEEP}"
    and "\<not> pm_selfLock pm"
  shows "SetPowerState_begin E now k s reason pm = pm"
  using assms
  by (simp add: begin_cases woken_def PowerManager_GetPowerState_def PowerController_GetPowerState_def)

definition example_failed :: "PowerState PowerManager" where
  "example_failed = example_pm\<lparr>pm_modeChangeController :=
     Some (fst (AckController_ctor POWER_STATE_ON 0 0))\<rparr>"

theorem retry_ignored_witness:
  "SetPowerState_begin example_env 1 0 POWER_STATE_ON ''again'' example_failed = example_failed"
proof -
  have "st_powerState (pc_settings (pm_power example_failed)) = POWER_STATE_STANDBY"
    using example_ctor by (simp add: example_failed_def cur_def)
  then show ?thesis
    using example_ctor
    by (intro retry_ignored [where c = "fst (AckController_ctor POWER_STATE_ON 0 0)"])
      (simp_all add: example_failed_def AckController_ctor_def PowerManager_GetPowerState_def
        PowerController_GetPowerState_def)
qed

text \<open>
  Clients of pre-change notifications: in every reachable state, adding a client by a name
  succeeds and gives an id under which that name is registered; adding it again gives the same id;
  removing the id unregisters it.
\<close>

theorem client_ids:
  assumes "pm_reach E pm" and "name \<noteq> []"
    and "AddPowerModePreChangeClient name i0 pm = (e, i, pm1)"
  shows "e = ERROR_NONE \<and> map_of (pm_modeChangeClients pm1) i = Some name
    \<and> AddPowerModePreChangeClient name j pm1 = (ERROR_NONE, i, pm1)
    \<and> map_of (pm_modeChangeClients (snd (RemovePowerModePreChangeClient E i pm1))) i = None"
proof -
  have ok: "clients_ok (pm_modeChangeClients pm)" using pm_reach_inv [OF assms(1)] by (simp add: pm_inv_def)
  have inv1: "pm_inv pm1" using add_client_inv [OF pm_reach_inv [OF assms(1)], of name i0] assms(3) by simp
  then have ok1: "distinct (map fst (pm_modeChangeClients pm1))" "distinct (map snd (pm_modeChangeClients pm1))"
    by (simp_all add: pm_inv_def clients_ok_def)
  have e: "e = ERROR_NONE" "map_of (pm_modeChangeClients pm1) i = Some name"
    using assms(2,3) ok
    by (auto simp: AddPowerModePreChangeClient_def clients_ok_def update_conv' Let_def find_Some_iff
        split: option.splits)
  then have mem: "(i, name) \<in> set (pm_modeChangeClients pm1)" by (simp add: map_of_SomeD)
  have "find (\<lambda>client. snd client = name) (pm_modeChangeClients pm1) = Some (i, name)"
  proof (cases "find (\<lambda>client. snd client = name) (pm_modeChangeClients pm1)")
    case None
    then show ?thesis using mem by (auto simp: find_None_iff)
  next
    case (Some it)
    then have "it \<in> set (pm_modeChangeClients pm1)" "snd it = name" by (auto simp: find_Some_iff)
    then have "it = (i, name)" using mem ok1(2) by (metis distinct_map inj_onD snd_conv)
    then show ?thesis using Some by simp
  qed
  moreover have "map_of (AList.delete i (pm_modeChangeClients pm1)) i = None"
    by (simp add: delete_conv')
  moreover have "pm_modeChangeClients (run_calls E calls pm') = pm_modeChangeClients pm'" for calls pm'
  proof (induction calls arbitrary: pm')
    case (Cons call calls)
    obtain h t a where "call = (h, t, a)" by (metis prod_cases3)
    then show ?case
      using Cons run_handler_frame(1) [where pm = pm' and E = E and t = t and a = a]
      by (cases h) (auto simp: same_ctl_def simp del: run_handler.simps(2))
  qed simp
  ultimately show ?thesis
    using e assms(2)
    by (simp add: AddPowerModePreChangeClient_def RemovePowerModePreChangeClient_def split_def Let_def
        split: option.split)
qed

theorem client_ids_witness:
  "fst (snd (AddPowerModePreChangeClient ''a'' 0
     (snd (snd (AddPowerModePreChangeClient ''a'' 0 example_pm))))) =
   fst (snd (AddPowerModePreChangeClient ''a'' 0 example_pm))"
proof -
  obtain e i pm1 where add: "AddPowerModePreChangeClient ''a'' 0 example_pm = (e, i, pm1)"
    by (metis prod_cases3)
  show ?thesis using client_ids [OF example_reach _ add, of 0] add by simp
qed

section \<open>SystemServices and the power manager\<close>

text \<open>
  C11. The cached network standby mode of SystemServices refines that of the power manager: from the
  activation on, through any interleaving of the operations of the power manager, the requests of all
  clients, the notifications and the calls of \<open>getNetworkStandbyMode\<close>, each in its steps, in which
  the mode is set only while no answer waits for its store and no notification for its dispatch, and
  as long as SystemServices is registered and the settings of the power manager can be saved: when no
  notification is due, \<open>getNetworkStandbyMode\<close> succeeds with the mode the power manager has.
  \<open>store_after_change_stale\<close> shows that the order is needed.
\<close>

theorem standby_cache_coherent:
  assumes "svc_reach E me s" "sv_due s = []"
  shows "fst (getNetworkStandbyMode (Some (pm_standby E)) between resp (sv_cache s) (sv_pm s))
    = returnResponse True (set_member ''nwStandby'' (JBool (nw_mode (sv_pm s))) resp)"
  using svc_reach_coherent [OF assms(1)] assms(2)
  by (simp add: getNetworkStandbyMode_def asked_mode store_standby_mode_def coherent_def)

lemma example_registered:
  "\<exists>pm. pm_reach example_env pm \<and> nw_registered 1 pm \<and> writable (pm_fs pm)"
proof -
  let ?pm = "snd (PowerManager_Register NetworkStandbyModeChangedSink 1 example_pm)"
  have "pm_reach example_env ?pm"
    by (rule pm_reach_step [OF example_reach, where op' = "RegisterOp NetworkStandbyModeChangedSink 1" and now = 0]) simp
  moreover have "nw_registered 1 ?pm"
    using example_ctor by (simp add: nw_registered_def PowerManager_Register_def sink_Register_def sinks_empty_def Let_def)
  moreover have "writable (pm_fs example_pm)"
  proof -
    obtain pc p1 f1 where pc: "PowerController_ctor example_pc_env False POWER_STATE_ON example_fs = (pc, p1, f1)"
      by (metis prod_cases3)
    have "writable example_fs" using example_fs_simps by (simp add: writable_def)
    then have "writable f1" using writable_ctor [OF pc] by simp
    moreover have "me_power example_env = example_pc_env" "me_platco example_env = False" by (simp_all add: example_env_def)
    moreover have "PowerManagerImplementation_ctor example_env POWER_STATE_ON example_fs = Some example_pm" using example_ctor by simp
    ultimately have "pm_fs example_pm = f1" using ctor_fs [of example_env] pc by simp
    then show ?thesis using \<open>writable f1\<close> by simp
  qed
  then have "writable (pm_fs ?pm)" by (simp add: PowerManager_Register_def split_def Let_def)
  ultimately show ?thesis by blast
qed

lemma example_locked:
  assumes "writable (pm_fs pm)"
  shows "\<exists>pm1. SetNetworkStandbyMode_locked example_env b pm = (ERROR_NONE, pm1)"
proof -
  have "me_power example_env = example_pc_env" by (simp add: example_env_def)
  moreover have "fst (Settings_Save H st kSettingsFilePath (pm_fs pm))" for H st
    using assms by (simp add: writable_def Settings_Save_def V1_Save_def fs_write_def)
  ultimately show ?thesis
    by (auto simp: SetNetworkStandbyMode_locked_def PowerController_SetNetworkStandbyMode_def PowerController_SetWakeupSourceConfig_def
        standby_configs_def example_pc_env_def example_platform_def Let_def split: prod.split) (metis fst_conv)+
qed

theorem standby_cache_coherent_witness:
  "\<exists>pm s1. svc_run example_env 1 [Ask, Store 0, SetLocked (\<not> nw_mode pm), Notify 0]
      \<lparr>sv_pm = pm, sv_cache = no_cache, sv_answers = [], sv_due = []\<rparr> = Some s1
    \<and> ca_networkStandbyModeValid (sv_cache s1)
    \<and> fst (getNetworkStandbyMode (Some (pm_standby example_env)) (\<lambda>c. c) [] (sv_cache s1) (sv_pm s1))
      = returnResponse True [(''nwStandby'', JBool (\<not> nw_mode pm))]"
proof -
  obtain pm where pm: "pm_reach example_env pm" "nw_registered 1 pm" "writable (pm_fs pm)" using example_registered by blast
  obtain pm1 where l: "SetNetworkStandbyMode_locked example_env (\<not> nw_mode pm) pm = (ERROR_NONE, pm1)"
    using example_locked [OF pm(3)] by blast
  obtain s1 where s1: "svc_run example_env 1 [Ask, Store 0, SetLocked (\<not> nw_mode pm), Notify 0]
      \<lparr>sv_pm = pm, sv_cache = no_cache, sv_answers = [], sv_due = []\<rparr> = Some s1"
      "svc_reach example_env 1 s1" "sv_due s1 = []" "nw_mode (sv_pm s1) = (\<not> nw_mode pm)" "ca_networkStandbyModeValid (sv_cache s1)"
    using orderly_run [OF pm(1,2) saves_writable [OF pm(3)] l saves_writable [OF writable_locked [OF l pm(3)]]] by blast
  then show ?thesis
    using standby_cache_coherent [OF s1(2,3), of "\<lambda>c. c" "[]"] by (auto simp: set_member_def simp del: svc_run.simps)
qed

end
